(* ===== verification/Typio_Prelude.thy ===== *)
theory Typio_Prelude
  imports Main "HOL-Library.Word"
begin

unbundle bit_operations_syntax

section \<open>Shared vocabulary of the development\<close>

text \<open>
  The machine integers of the C code at their width, the modifier flags and key symbols of
  \<^verbatim>\<open>core/include/typio/types.h\<close> and \<^verbatim>\<open>core/include/typio/event.h\<close>, the result codes of
  the core ABI, and the generic facts on words and lists that several components use.

  Conventions of the whole development: \<^verbatim>\<open>uint32_t\<close> and \<^verbatim>\<open>uint64_t\<close> are words, so
  their arithmetic wraps as in C; \<^verbatim>\<open>int\<close> and \<^verbatim>\<open>size_t\<close> values that the code only
  compares or counts in small ranges are \<open>int\<close> and \<open>nat\<close>; a nullable C string is a
  \<open>string option\<close>; logging calls and their text are left out, since nothing reads them back.
\<close>

subsection \<open>Machine integers\<close>

type_synonym u8 = "8 word"
type_synonym u16 = "16 word"
type_synonym u32 = "32 word"
type_synonym u64 = "64 word"

named_theorems const_defs \<open>constants of the C headers\<close>
named_theorems policy_defs \<open>pure decision functions, unfolded on concrete inputs\<close>
named_theorems step_defs \<open>operations on the frontend state\<close>

subsection \<open>Result codes of the core ABI\<close>

datatype TypioResult =
    TYPIO_OK
  | TYPIO_ERROR
  | TYPIO_ERROR_INVALID_ARGUMENT
  | TYPIO_ERROR_OUT_OF_MEMORY
  | TYPIO_ERROR_NOT_FOUND
  | TYPIO_ERROR_ALREADY_EXISTS
  | TYPIO_ERROR_NOT_INITIALIZED
  | TYPIO_ERROR_ENGINE_LOAD_FAILED
  | TYPIO_ERROR_ENGINE_NOT_AVAILABLE

datatype TypioLogLevel = LOG_DEBUG | LOG_INFO | LOG_WARNING | LOG_ERROR

subsection \<open>Modifier flags\<close>

definition TYPIO_MOD_NONE :: u32 where [const_defs]: "TYPIO_MOD_NONE = 0"
definition TYPIO_MOD_SHIFT :: u32 where [const_defs]: "TYPIO_MOD_SHIFT = 1"
definition TYPIO_MOD_CTRL :: u32 where [const_defs]: "TYPIO_MOD_CTRL = 2"
definition TYPIO_MOD_ALT :: u32 where [const_defs]: "TYPIO_MOD_ALT = 4"
definition TYPIO_MOD_SUPER :: u32 where [const_defs]: "TYPIO_MOD_SUPER = 8"
definition TYPIO_MOD_CAPSLOCK :: u32 where [const_defs]: "TYPIO_MOD_CAPSLOCK = 16"
definition TYPIO_MOD_NUMLOCK :: u32 where [const_defs]: "TYPIO_MOD_NUMLOCK = 32"

text \<open>The mask the code writes out as \<^verbatim>\<open>TYPIO_MOD_CTRL | TYPIO_MOD_ALT | TYPIO_MOD_SUPER\<close>.\<close>

definition blocking_mods :: u32 where
  "blocking_mods = TYPIO_MOD_CTRL OR TYPIO_MOD_ALT OR TYPIO_MOD_SUPER"

definition has_blocking :: "u32 \<Rightarrow> bool" where
  "has_blocking m \<longleftrightarrow> m AND blocking_mods \<noteq> 0"

definition all_mods :: u32 where
  "all_mods = TYPIO_MOD_CTRL OR TYPIO_MOD_SHIFT OR TYPIO_MOD_ALT OR TYPIO_MOD_SUPER"

lemma blocking_mods_val: "blocking_mods = 14"
  by (simp add: blocking_mods_def const_defs)

lemma all_mods_val: "all_mods = 15"
  by (simp add: all_mods_def const_defs)

subsection \<open>Key symbols (XKB compatible, \<^verbatim>\<open>event.h\<close>)\<close>

definition KEY_BackSpace :: u32 where [const_defs]: "KEY_BackSpace = 0xff08"
definition KEY_Tab :: u32 where [const_defs]: "KEY_Tab = 0xff09"
definition KEY_Return :: u32 where [const_defs]: "KEY_Return = 0xff0d"
definition KEY_KP_Enter :: u32 where [const_defs]: "KEY_KP_Enter = 0xff8d"
definition KEY_Escape :: u32 where [const_defs]: "KEY_Escape = 0xff1b"
definition KEY_Delete :: u32 where [const_defs]: "KEY_Delete = 0xffff"
definition KEY_Left :: u32 where [const_defs]: "KEY_Left = 0xff51"
definition KEY_Up :: u32 where [const_defs]: "KEY_Up = 0xff52"
definition KEY_Right :: u32 where [const_defs]: "KEY_Right = 0xff53"
definition KEY_Down :: u32 where [const_defs]: "KEY_Down = 0xff54"
definition KEY_space :: u32 where [const_defs]: "KEY_space = 0x0020"
definition KEY_Shift_L :: u32 where [const_defs]: "KEY_Shift_L = 0xffe1"
definition KEY_Shift_R :: u32 where [const_defs]: "KEY_Shift_R = 0xffe2"
definition KEY_Control_L :: u32 where [const_defs]: "KEY_Control_L = 0xffe3"
definition KEY_Control_R :: u32 where [const_defs]: "KEY_Control_R = 0xffe4"
definition KEY_Alt_L :: u32 where [const_defs]: "KEY_Alt_L = 0xffe9"
definition KEY_Alt_R :: u32 where [const_defs]: "KEY_Alt_R = 0xffea"
definition KEY_Super_L :: u32 where [const_defs]: "KEY_Super_L = 0xffeb"
definition KEY_Super_R :: u32 where [const_defs]: "KEY_Super_R = 0xffec"
definition KEY_F1 :: u32 where [const_defs]: "KEY_F1 = 0xffbe"
definition KEY_v :: u32 where [const_defs]: "KEY_v = 0x0076"

text \<open>The eight physical modifier keys, the set \<^verbatim>\<open>typio_key_event_is_modifier_only\<close> tests.\<close>

definition is_modifier_keysym :: "u32 \<Rightarrow> bool" where
  "is_modifier_keysym ks \<longleftrightarrow>
     ks = KEY_Shift_L \<or> ks = KEY_Shift_R \<or> ks = KEY_Control_L \<or> ks = KEY_Control_R \<or>
     ks = KEY_Alt_L \<or> ks = KEY_Alt_R \<or> ks = KEY_Super_L \<or> ks = KEY_Super_R"

subsection \<open>Key events\<close>

datatype TypioEventType =
    EVENT_KEY_PRESS | EVENT_KEY_RELEASE | EVENT_FOCUS_IN | EVENT_FOCUS_OUT | EVENT_RESET
  | EVENT_VOICE_START | EVENT_VOICE_END | EVENT_VOICE_DATA | EVENT_COMMIT | EVENT_CANDIDATE_SELECT

record key_event =
  ev_type :: TypioEventType
  ev_keycode :: u32
  ev_keysym :: u32
  ev_modifiers :: u32
  ev_unicode :: u32
  ev_time :: u64
  ev_is_repeat :: bool

definition typio_key_event_is_modifier_only :: "key_event \<Rightarrow> bool" where
  "typio_key_event_is_modifier_only ev = is_modifier_keysym (ev_keysym ev)"

definition typio_key_event_is_escape :: "key_event \<Rightarrow> bool" where
  "typio_key_event_is_escape ev \<longleftrightarrow> ev_keysym ev = KEY_Escape"

definition typio_key_event_get_unicode :: "key_event \<Rightarrow> u32" where
  "typio_key_event_get_unicode ev =
     (if ev_unicode ev \<noteq> 0 then ev_unicode ev
      else if 0x20 \<le> ev_keysym ev \<and> ev_keysym ev \<le> 0x7e then ev_keysym ev
      else 0)"

subsection \<open>Candidates (\<^verbatim>\<open>input_context.h\<close>)\<close>

text \<open>A label that is null is read as the empty one; of the list only the fields that are read are kept.\<close>

record TypioCandidate =
  tc_text :: "string option"
  tc_comment :: "string option"
  tc_label :: string

record TypioCandidateList =
  cl_candidates :: "TypioCandidate list"
  cl_selected :: int
  cl_content_signature :: u64

subsection \<open>Generic facts\<close>

lemma and_mask_zero_mono:
  fixes m :: "'a::len word"
  assumes "a AND b = a" and "m AND b = 0"
  shows "m AND a = 0"
proof -
  have "m AND a = m AND (a AND b)" using assms(1) by simp
  also have "\<dots> = a AND (m AND b)" by (simp add: ac_simps)
  finally show ?thesis using assms(2) by simp
qed

lemma and_not_and_zero [simp]:
  fixes m :: "'a::len word"
  shows "(m AND NOT a) AND a = 0"
  by (rule bit_word_eqI) (simp add: bit_simps)

lemma or_and_absorb [simp]:
  fixes m :: "'a::len word"
  shows "(m OR a) AND a = a"
  by (rule bit_word_eqI) (auto simp: bit_simps)

lemma u64_diff_le:
  fixes a b :: u64
  assumes "b \<le> a"
  shows "unat (a - b) = unat a - unat b"
  using assms by (simp add: unat_sub)

lemma fold_invariant:
  assumes "\<And>x s. P s \<Longrightarrow> P (f x s)" and "P s"
  shows "P (fold f xs s)"
  using assms(2) by (induction xs arbitrary: s) (auto intro: assms(1))

text \<open>A running maximum.\<close>

lemma running_max:
  fixes f :: "'a \<Rightarrow> 'b::linorder"
  shows "a \<le> fold (\<lambda>x m. if m < f x then f x else m) xs a \<and> (\<forall>x \<in> set xs. f x \<le> fold (\<lambda>x m. if m < f x then f x else m) xs a)"
proof (induction xs arbitrary: a)
  case (Cons x xs)
  from Cons [of "if a < f x then f x else a"] show ?case by (auto split: if_splits)
qed simp

subsection \<open>Invariants of event machines\<close>

text \<open>
  A machine whose every step keeps an invariant. The components that react to events one at a
  time (the frontend's loop, the IPC connections, the rate limiters) interpret it on their steps.
\<close>

locale event_machine =
  fixes step :: "'ev \<Rightarrow> 's \<Rightarrow> 's"
    and inv :: "'s \<Rightarrow> bool"
  assumes step_inv: "inv s \<Longrightarrow> inv (step ev s)"
begin

lemma run_inv: "inv s \<Longrightarrow> inv (fold step evs s)"
  by (induction evs arbitrary: s) (simp_all add: step_inv)

lemma prefix_inv: "inv s \<Longrightarrow> inv (fold step (take n evs) s)"
  by (rule run_inv)

lemma guarded_run_inv: "inv s \<Longrightarrow> inv (fold (\<lambda>ev s. if go s then step ev s else s) evs s)"
  by (induction evs arbitrary: s) (simp_all add: step_inv)

end

end
