(* ===== verification/Key_Policy.thy ===== *)
theory Key_Policy
  imports Typio_Prelude
begin

section \<open>Pure key policies\<close>

text \<open>
  The dependency-free decision functions of the keyboard path: effective modifiers
  (\<^verbatim>\<open>modifier_policy.c\<close>), modifier-only chords (\<^verbatim>\<open>shortcut_chord.c\<close>), the startup
  window (\<^verbatim>\<open>startup_guard.c\<close>) and candidate navigation (\<^verbatim>\<open>candidate_guard.c\<close>), with
  the per-key tracking states (\<^verbatim>\<open>key_tracking.c\<close>) and key repeat (\<^verbatim>\<open>repeat_guard.c\<close>).
\<close>

subsection \<open>Effective modifiers (\<^verbatim>\<open>modifier_policy.c\<close>)\<close>

definition modifier_bit_for_keysym :: "u32 \<Rightarrow> u32" where
  "modifier_bit_for_keysym ks =
     (if ks = KEY_Shift_L \<or> ks = KEY_Shift_R then TYPIO_MOD_SHIFT
      else if ks = KEY_Control_L \<or> ks = KEY_Control_R then TYPIO_MOD_CTRL
      else if ks = KEY_Alt_L \<or> ks = KEY_Alt_R then TYPIO_MOD_ALT
      else if ks = KEY_Super_L \<or> ks = KEY_Super_R then TYPIO_MOD_SUPER
      else TYPIO_MOD_NONE)"

text \<open>The boolean stands for \<^verbatim>\<open>state == WL_KEYBOARD_KEY_STATE_PRESSED\<close>.\<close>

definition modifiers_for_current_key :: "u32 \<Rightarrow> u32 \<Rightarrow> bool \<Rightarrow> u32" where
  "modifiers_for_current_key mods ks pressed =
     (let b = modifier_bit_for_keysym ks in
      if b = TYPIO_MOD_NONE then mods
      else if pressed then mods OR b else mods AND NOT b)"

definition modifier_policy_effective_modifiers ::
    "u32 \<Rightarrow> u32 \<Rightarrow> bool \<Rightarrow> u32 \<Rightarrow> bool \<Rightarrow> u32" where
  "modifier_policy_effective_modifiers phys xkb owned ks pressed =
     (let blocking = TYPIO_MOD_CTRL OR TYPIO_MOD_ALT OR TYPIO_MOD_SUPER;
          locks = xkb AND (TYPIO_MOD_CAPSLOCK OR TYPIO_MOD_NUMLOCK);
          mods = phys OR locks;
          mods = (if \<not> owned then mods OR (xkb AND blocking) else mods)
      in modifiers_for_current_key mods ks pressed)"

definition modifier_policy_sync_physical_modifiers :: "u32 \<Rightarrow> u32 \<Rightarrow> u32" where
  "modifier_policy_sync_physical_modifiers phys xkb =
     (let blocking = TYPIO_MOD_SHIFT OR TYPIO_MOD_CTRL OR TYPIO_MOD_ALT OR TYPIO_MOD_SUPER
      in (phys AND NOT blocking) OR (xkb AND blocking))"

text \<open>
  Once the current grab owns a key, the compositor's Ctrl, Alt and Super are ignored: for a
  key that is not a modifier, a blocking modifier is effective exactly if it is physically held.
\<close>

lemma effective_modifiers_owned_blocking:
  assumes "\<not> is_modifier_keysym ks"
  shows "modifier_policy_effective_modifiers phys xkb True ks p AND blocking_mods
           = phys AND blocking_mods"
proof -
  have "modifier_bit_for_keysym ks = TYPIO_MOD_NONE"
    using assms by (auto simp: modifier_bit_for_keysym_def is_modifier_keysym_def)
  moreover have "(xkb AND 48) AND (14::u32) = 0"
    by (simp add: ac_simps and.assoc)
  ultimately show ?thesis
    by (simp add: modifier_policy_effective_modifiers_def modifiers_for_current_key_def Let_def
        blocking_mods_val const_defs bit.conj_disj_distrib2)
qed

text \<open>Before that, the compositor's view is merged in, so a modifier held across grab creation counts.\<close>

lemma effective_modifiers_unowned_blocking:
  assumes "\<not> is_modifier_keysym ks"
  shows "modifier_policy_effective_modifiers phys xkb False ks p AND blocking_mods
           = (phys OR xkb) AND blocking_mods"
proof -
  have "modifier_bit_for_keysym ks = TYPIO_MOD_NONE"
    using assms by (auto simp: modifier_bit_for_keysym_def is_modifier_keysym_def)
  moreover have "(xkb AND 48) AND (14::u32) = 0"
    by (simp add: ac_simps and.assoc)
  ultimately show ?thesis
    by (simp add: modifier_policy_effective_modifiers_def modifiers_for_current_key_def Let_def
        blocking_mods_val const_defs bit.conj_disj_distrib2)
qed

lemma modifiers_for_current_key_press:
  "modifier_bit_for_keysym ks = b \<Longrightarrow>
     modifiers_for_current_key mods ks True AND b = b \<and> modifiers_for_current_key mods ks False AND b = 0"
  by (auto simp: modifiers_for_current_key_def Let_def const_defs)

lemma sync_physical_idem:
  "modifier_policy_sync_physical_modifiers (modifier_policy_sync_physical_modifiers phys xkb) xkb
     = modifier_policy_sync_physical_modifiers phys xkb"
  unfolding modifier_policy_sync_physical_modifiers_def Let_def
  by (rule bit_word_eqI) (auto simp: bit_simps)


subsection \<open>Modifier-only chords (\<^verbatim>\<open>shortcut_chord.c\<close>)\<close>

record TypioShortcutBinding =
  sb_modifiers :: u32
  sb_keysym :: u32

definition keysym_is_modifier_for :: "u32 \<Rightarrow> u32 \<Rightarrow> bool" where
  "keysym_is_modifier_for req ks \<longleftrightarrow>
     (req AND TYPIO_MOD_CTRL \<noteq> 0 \<and> (ks = KEY_Control_L \<or> ks = KEY_Control_R)) \<or>
     (req AND TYPIO_MOD_SHIFT \<noteq> 0 \<and> (ks = KEY_Shift_L \<or> ks = KEY_Shift_R)) \<or>
     (req AND TYPIO_MOD_ALT \<noteq> 0 \<and> (ks = KEY_Alt_L \<or> ks = KEY_Alt_R)) \<or>
     (req AND TYPIO_MOD_SUPER \<noteq> 0 \<and> (ks = KEY_Super_L \<or> ks = KEY_Super_R))"

definition unsupported_modifiers :: "TypioShortcutBinding \<Rightarrow> u32" where
  "unsupported_modifiers b = all_mods AND NOT (sb_modifiers b)"

definition shortcut_chord_is_switch_modifier :: "TypioShortcutBinding \<Rightarrow> u32 \<Rightarrow> bool" where
  "shortcut_chord_is_switch_modifier b ks = keysym_is_modifier_for (sb_modifiers b) ks"

definition shortcut_chord_should_switch_engine ::
    "TypioShortcutBinding \<Rightarrow> u32 \<Rightarrow> u32 \<Rightarrow> bool \<Rightarrow> bool \<Rightarrow> bool" where
  "shortcut_chord_should_switch_engine b ks mods saw_non_modifier already_triggered =
     (if already_triggered \<or> saw_non_modifier then False
      else if \<not> keysym_is_modifier_for (sb_modifiers b) ks then False
      else if mods AND sb_modifiers b \<noteq> sb_modifiers b then False
      else mods AND unsupported_modifiers b = 0)"

definition shortcut_chord_should_reset :: "TypioShortcutBinding \<Rightarrow> u32 \<Rightarrow> bool" where
  "shortcut_chord_should_reset b phys \<longleftrightarrow> phys AND sb_modifiers b = 0"

lemma keysym_is_modifier_for_modifier: "keysym_is_modifier_for req ks \<Longrightarrow> is_modifier_keysym ks"
  by (auto simp: keysym_is_modifier_for_def is_modifier_keysym_def)

text \<open>
  The chord is exact: a switch needs every modifier of the binding held and no other of the
  four, so it holds for precisely one value of the Ctrl/Shift/Alt/Super bits.
\<close>

lemma switch_engine_exact:
  assumes "shortcut_chord_should_switch_engine b ks mods saw trig"
    and "sb_modifiers b AND all_mods = sb_modifiers b"
  shows "mods AND all_mods = sb_modifiers b"
proof -
  from assms(1) have inc: "mods AND sb_modifiers b = sb_modifiers b"
    and exc: "mods AND (all_mods AND NOT (sb_modifiers b)) = 0"
    by (auto simp: shortcut_chord_should_switch_engine_def unsupported_modifiers_def split: if_splits)
  show ?thesis
  proof (rule bit_word_eqI)
    fix n assume "n < LENGTH(32)"
    have "bit (mods AND sb_modifiers b) n = bit (sb_modifiers b) n" using inc by simp
    moreover have "bit (mods AND (all_mods AND NOT (sb_modifiers b))) n = bit (0::u32) n" using exc by simp
    moreover have "bit (sb_modifiers b AND all_mods) n = bit (sb_modifiers b) n" using assms(2) by simp
    ultimately show "bit (mods AND all_mods) n = bit (sb_modifiers b) n"
      using \<open>n < LENGTH(32)\<close> by (auto simp: bit_simps)
  qed
qed

subsection \<open>Key tracking states (\<^verbatim>\<open>key_tracking.c\<close>)\<close>

datatype TypioKeyTrackState =
    TRACK_IDLE
  | TRACK_FORWARDED
  | TRACK_BASIC_PASSTHROUGH
  | TRACK_APP_SHORTCUT
  | TRACK_RELEASED_PENDING
  | TRACK_SUPPRESSED_STARTUP
  | TRACK_VOICE_PTT
  | TRACK_VOICE_PTT_UNAVAIL

text \<open>
  The arrays of \<^verbatim>\<open>TYPIO_WL_MAX_TRACKED_KEYS\<close> entries are functions from the index; every
  access of the code is guarded by the bound, and so is every access of the model.
\<close>

abbreviation MAX_TRACKED_KEYS :: nat where "MAX_TRACKED_KEYS \<equiv> 512"

type_synonym key_states = "nat \<Rightarrow> TypioKeyTrackState"
type_synonym key_gens = "nat \<Rightarrow> u32"

definition key_tracking_reset :: "key_states \<Rightarrow> nat \<Rightarrow> key_states" where
  "key_tracking_reset states cnt = (\<lambda>k. if k < cnt then TRACK_IDLE else states k)"

definition key_tracking_reset_generations :: "key_gens \<Rightarrow> nat \<Rightarrow> key_gens" where
  "key_tracking_reset_generations gens cnt = (\<lambda>k. if k < cnt then 0 else gens k)"

text \<open>The three states in which the application has seen the press and is owed a release.\<close>

definition track_owes_release :: "TypioKeyTrackState \<Rightarrow> bool" where
  "track_owes_release st \<longleftrightarrow>
     st = TRACK_FORWARDED \<or> st = TRACK_BASIC_PASSTHROUGH \<or> st = TRACK_APP_SHORTCUT"

definition mark_released_step :: "nat \<Rightarrow> nat \<times> key_states \<Rightarrow> nat \<times> key_states" where
  "mark_released_step i acc =
     (case acc of (changed, states) \<Rightarrow>
        if \<not> track_owes_release (states i) then (changed, states)
        else (Suc changed, states(i := TRACK_RELEASED_PENDING)))"

definition key_tracking_mark_released_pending :: "key_states \<Rightarrow> nat \<Rightarrow> nat \<times> key_states" where
  "key_tracking_mark_released_pending states cnt = fold mark_released_step [0..<cnt] (0, states)"

definition key_tracking_state_name :: "TypioKeyTrackState \<Rightarrow> string" where
  "key_tracking_state_name st = (case st of
       TRACK_IDLE \<Rightarrow> ''idle''
     | TRACK_FORWARDED \<Rightarrow> ''forwarded''
     | TRACK_BASIC_PASSTHROUGH \<Rightarrow> ''basic_passthrough''
     | TRACK_APP_SHORTCUT \<Rightarrow> ''app_shortcut''
     | TRACK_RELEASED_PENDING \<Rightarrow> ''released_pending''
     | TRACK_SUPPRESSED_STARTUP \<Rightarrow> ''suppressed_startup''
     | TRACK_VOICE_PTT \<Rightarrow> ''voice_ptt''
     | TRACK_VOICE_PTT_UNAVAIL \<Rightarrow> ''voice_ptt_unavail'')"

text \<open>The in-place loop marks exactly the owed releases and counts them.\<close>

lemma mark_released_fold:
  "fold mark_released_step [0..<cnt] (0, states) =
     (card {k. k < cnt \<and> track_owes_release (states k)},
      \<lambda>k. if k < cnt \<and> track_owes_release (states k) then TRACK_RELEASED_PENDING else states k)"
proof (induction cnt)
  case 0
  then show ?case by simp
next
  case (Suc cnt)
  have split_set: "{k. k < Suc cnt \<and> track_owes_release (states k)} =
      (if track_owes_release (states cnt) then insert cnt else id)
        {k. k < cnt \<and> track_owes_release (states k)}"
    by (auto simp: less_Suc_eq)
  show ?case
    by (simp only: upt_Suc_append[OF le0] fold_append comp_def Suc.IH split_set fold.simps)
       (auto simp: mark_released_step_def fun_eq_iff less_Suc_eq)
qed

lemma mark_released_pending_eq:
  "key_tracking_mark_released_pending states cnt =
     (card {k. k < cnt \<and> track_owes_release (states k)},
      \<lambda>k. if k < cnt \<and> track_owes_release (states k) then TRACK_RELEASED_PENDING else states k)"
  by (simp add: key_tracking_mark_released_pending_def mark_released_fold)

lemma mark_released_pending_none_owed:
  "k < cnt \<Longrightarrow> \<not> track_owes_release (snd (key_tracking_mark_released_pending states cnt) k)"
  by (simp add: mark_released_pending_eq track_owes_release_def)

lemma mark_released_pending_idem:
  "key_tracking_mark_released_pending (snd (key_tracking_mark_released_pending states cnt)) cnt
     = (0, snd (key_tracking_mark_released_pending states cnt))"
  by (auto simp: mark_released_pending_eq track_owes_release_def fun_eq_iff)

lemma key_tracking_reset_at [simp]:
  "k < cnt \<Longrightarrow> key_tracking_reset states cnt k = TRACK_IDLE"
  "k < cnt \<Longrightarrow> key_tracking_reset_generations gens cnt k = 0"
  by (simp_all add: key_tracking_reset_def key_tracking_reset_generations_def)

lemma key_tracking_state_name_inj: "inj key_tracking_state_name"
  by (rule injI) (simp add: key_tracking_state_name_def split: TypioKeyTrackState.splits)

subsection \<open>Repeat, startup and candidate guards\<close>

definition repeat_should_cancel_on_modifier_transition :: "u32 \<Rightarrow> u32 \<Rightarrow> bool" where
  "repeat_should_cancel_on_modifier_transition prev cur \<longleftrightarrow>
     (let previous_blocking = prev AND blocking_mods;
          current_blocking = cur AND blocking_mods
      in previous_blocking \<noteq> current_blocking)"

definition repeat_should_run_for_state :: "TypioKeyTrackState \<Rightarrow> bool" where
  "repeat_should_run_for_state st = (case st of
       TRACK_SUPPRESSED_STARTUP \<Rightarrow> False
     | TRACK_RELEASED_PENDING \<Rightarrow> False
     | _ \<Rightarrow> True)"

definition STARTUP_GUARD_EPOCHS :: u64 where "STARTUP_GUARD_EPOCHS = 2"

datatype TypioWlStartupSuppressReason = STARTUP_SUPPRESS_NONE | STARTUP_SUPPRESS_STALE_KEY

definition startup_guard_is_in_guard_window :: "u64 \<Rightarrow> u64 \<Rightarrow> bool" where
  "startup_guard_is_in_guard_window created current =
     (if current < created then False else current - created \<le> STARTUP_GUARD_EPOCHS)"

definition startup_guard_classify_press :: "u64 \<Rightarrow> u64 \<Rightarrow> bool \<Rightarrow> TypioWlStartupSuppressReason" where
  "startup_guard_classify_press created current suppress_stale =
     (if suppress_stale \<and> startup_guard_is_in_guard_window created current
      then STARTUP_SUPPRESS_STALE_KEY else STARTUP_SUPPRESS_NONE)"

definition candidate_guard_is_navigation_keysym :: "u32 \<Rightarrow> bool" where
  "candidate_guard_is_navigation_keysym ks \<longleftrightarrow>
     ks = KEY_Up \<or> ks = KEY_Down \<or> ks = KEY_Left \<or> ks = KEY_Right"

text \<open>
  \<open>cands\<close> is the number of candidates of the context's list, \<open>None\<close> without a context or list.
\<close>

definition candidate_guard_should_consume :: "nat option \<Rightarrow> u32 \<Rightarrow> bool" where
  "candidate_guard_should_consume cands ks =
     (if \<not> candidate_guard_is_navigation_keysym ks then False
      else (case cands of None \<Rightarrow> False | Some n \<Rightarrow> 0 < n))"

text \<open>
  The startup window is the three dispatch epochs from the grab's creation, whatever the
  counter's value: the subtraction never wraps, since the comparison comes first.
\<close>

lemma startup_guard_window_unat:
  "startup_guard_is_in_guard_window created current \<longleftrightarrow>
     unat created \<le> unat current \<and> unat current - unat created \<le> 2"
proof (cases "current < created")
  case True
  then show ?thesis by (simp add: startup_guard_is_in_guard_window_def word_less_nat_alt)
next
  case False
  then have "created \<le> current" by simp
  with False show ?thesis
    by (simp add: startup_guard_is_in_guard_window_def STARTUP_GUARD_EPOCHS_def word_le_nat_alt
        unat_sub)
qed

lemma navigation_not_modifier: "candidate_guard_is_navigation_keysym ks \<Longrightarrow> \<not> is_modifier_keysym ks"
  by (auto simp: candidate_guard_is_navigation_keysym_def is_modifier_keysym_def const_defs)

end
