(* ===== verification/Lifecycle_Model.thy ===== *)
theory Lifecycle_Model
  imports Typio_Prelude
begin

section \<open>Pure lifecycle rules\<close>

text \<open>
  The session phases and their legal transitions (\<^verbatim>\<open>lifecycle_model.c\<close>), the orthogonal axes
  and their projection (\<^verbatim>\<open>lifecycle_state.c\<close>), the reconcile decision
  (\<^verbatim>\<open>reconcile_model.c\<close>), the boundary hand-off policy (\<^verbatim>\<open>boundary_bridge.c\<close>) and
  the preedit update plan (\<^verbatim>\<open>text_ui_state.c\<close>).
\<close>

subsection \<open>Phases (\<^verbatim>\<open>lifecycle_model.c\<close>)\<close>

datatype TypioWlLifecyclePhase =
    PHASE_INACTIVE | PHASE_ACTIVATING | PHASE_ACTIVE | PHASE_DEACTIVATING

definition lifecycle_phase_name :: "TypioWlLifecyclePhase \<Rightarrow> string" where
  "lifecycle_phase_name p = (case p of
       PHASE_INACTIVE \<Rightarrow> ''inactive''
     | PHASE_ACTIVATING \<Rightarrow> ''activating''
     | PHASE_ACTIVE \<Rightarrow> ''active''
     | PHASE_DEACTIVATING \<Rightarrow> ''deactivating'')"

definition lifecycle_transition_is_valid ::
    "TypioWlLifecyclePhase \<Rightarrow> TypioWlLifecyclePhase \<Rightarrow> bool" where
  "lifecycle_transition_is_valid f t =
     (if f = t then True
      else (case f of
              PHASE_INACTIVE \<Rightarrow> t = PHASE_ACTIVATING
            | PHASE_ACTIVATING \<Rightarrow> t = PHASE_ACTIVE \<or> t = PHASE_INACTIVE
            | PHASE_ACTIVE \<Rightarrow> t = PHASE_DEACTIVATING
            | PHASE_DEACTIVATING \<Rightarrow> t = PHASE_INACTIVE \<or> t = PHASE_ACTIVATING))"

definition lifecycle_phase_allows_key_events :: "TypioWlLifecyclePhase \<Rightarrow> bool" where
  "lifecycle_phase_allows_key_events p \<longleftrightarrow> p = PHASE_ACTIVE"

definition lifecycle_phase_allows_modifier_events :: "TypioWlLifecyclePhase \<Rightarrow> bool" where
  "lifecycle_phase_allows_modifier_events p \<longleftrightarrow> p = PHASE_ACTIVATING \<or> p = PHASE_ACTIVE"

definition lifecycle_should_defer_activate :: "bool \<Rightarrow> bool" where
  "lifecycle_should_defer_activate session_focused = session_focused"

definition lifecycle_should_cleanup_on_done :: "bool \<Rightarrow> bool \<Rightarrow> bool" where
  "lifecycle_should_cleanup_on_done was_active now_active \<longleftrightarrow> was_active \<and> \<not> now_active"

definition lifecycle_should_commit_reactivation :: "bool \<Rightarrow> bool \<Rightarrow> bool \<Rightarrow> bool" where
  "lifecycle_should_commit_reactivation pending was_active now_active \<longleftrightarrow>
     pending \<and> was_active \<and> now_active"

lemma lifecycle_phase_name_inj: "inj lifecycle_phase_name"
  by (rule injI) (simp add: lifecycle_phase_name_def split: TypioWlLifecyclePhase.splits)

text \<open>
  Keys are only routed from the one phase that has no direct edge to inactive: every legal way
  out of it passes through \<open>PHASE_DEACTIVATING\<close>.
\<close>

lemma valid_exit_from_active:
  "lifecycle_transition_is_valid p q \<Longrightarrow> lifecycle_phase_allows_key_events p \<Longrightarrow>
     q = PHASE_ACTIVE \<or> q = PHASE_DEACTIVATING"
  by (auto simp: lifecycle_transition_is_valid_def lifecycle_phase_allows_key_events_def
      split: if_splits)

lemma done_branches_exclusive:
  "\<not> (lifecycle_should_cleanup_on_done w n \<and> lifecycle_should_commit_reactivation p w n)"
  by (simp add: lifecycle_should_cleanup_on_done_def lifecycle_should_commit_reactivation_def)

text \<open>The transition graph, as a relation, with the inversion rules used by the handlers.\<close>

inductive legal_step :: "TypioWlLifecyclePhase \<Rightarrow> TypioWlLifecyclePhase \<Rightarrow> bool" where
  stay: "legal_step p p"
| activate: "legal_step PHASE_INACTIVE PHASE_ACTIVATING"
| complete: "legal_step PHASE_ACTIVATING PHASE_ACTIVE"
| abandon: "legal_step PHASE_ACTIVATING PHASE_INACTIVE"
| deactivate: "legal_step PHASE_ACTIVE PHASE_DEACTIVATING"
| finish: "legal_step PHASE_DEACTIVATING PHASE_INACTIVE"
| reenter: "legal_step PHASE_DEACTIVATING PHASE_ACTIVATING"

inductive_cases legal_from_active [elim!]: "legal_step PHASE_ACTIVE q"
inductive_cases legal_from_inactive [elim!]: "legal_step PHASE_INACTIVE q"
inductive_simps legal_to_active: "legal_step p PHASE_ACTIVE"

lemma legal_step_iff: "legal_step p q \<longleftrightarrow> lifecycle_transition_is_valid p q"
proof
  assume "legal_step p q"
  then show "lifecycle_transition_is_valid p q"
    by (cases rule: legal_step.cases) (simp_all add: lifecycle_transition_is_valid_def)
next
  assume "lifecycle_transition_is_valid p q"
  then show "legal_step p q"
    by (cases p) (auto simp: lifecycle_transition_is_valid_def intro: legal_step.intros split: if_splits)
qed

lemma legal_steps_connected: "legal_step\<^sup>*\<^sup>* p q"
proof -
  have to_inactive: "legal_step\<^sup>*\<^sup>* p PHASE_INACTIVE"
    by (cases p) (auto intro: converse_rtranclp_into_rtranclp legal_step.intros)
  have "legal_step\<^sup>*\<^sup>* PHASE_INACTIVE PHASE_ACTIVATING"
    by (auto intro: legal_step.intros)
  moreover have "legal_step\<^sup>*\<^sup>* PHASE_ACTIVATING PHASE_ACTIVE"
    by (auto intro: legal_step.intros)
  moreover have "legal_step\<^sup>*\<^sup>* PHASE_ACTIVE PHASE_DEACTIVATING"
    by (auto intro: legal_step.intros)
  ultimately have "legal_step\<^sup>*\<^sup>* PHASE_INACTIVE q"
    by (cases q) (auto intro: rtranclp_trans)
  with to_inactive show ?thesis by (rule rtranclp_trans)
qed

subsection \<open>Orthogonal axes (\<^verbatim>\<open>lifecycle_state.c\<close>)\<close>

datatype TypioWlConnState = CONN_DISCONNECTED | CONN_CONNECTED
datatype TypioWlFocusState = FOCUS_UNFOCUSED | FOCUS_FOCUSED
datatype TypioWlGrabState = GRAB_NONE | GRAB_PENDING_KEYMAP | GRAB_READY
datatype TypioWlCompState = COMP_IDLE | COMP_COMPOSING

record TypioWlLifecycleState =
  ls_conn :: TypioWlConnState
  ls_focus :: TypioWlFocusState
  ls_grab :: TypioWlGrabState
  ls_comp :: TypioWlCompState

definition conn_state_name :: "TypioWlConnState \<Rightarrow> string" where
  "conn_state_name s = (case s of
     CONN_DISCONNECTED \<Rightarrow> ''disconnected'' | CONN_CONNECTED \<Rightarrow> ''connected'')"

definition focus_state_name :: "TypioWlFocusState \<Rightarrow> string" where
  "focus_state_name s = (case s of
     FOCUS_UNFOCUSED \<Rightarrow> ''unfocused'' | FOCUS_FOCUSED \<Rightarrow> ''focused'')"

definition grab_state_name :: "TypioWlGrabState \<Rightarrow> string" where
  "grab_state_name s = (case s of
     GRAB_NONE \<Rightarrow> ''none'' | GRAB_PENDING_KEYMAP \<Rightarrow> ''pending_keymap'' | GRAB_READY \<Rightarrow> ''ready'')"

definition comp_state_name :: "TypioWlCompState \<Rightarrow> string" where
  "comp_state_name s = (case s of COMP_IDLE \<Rightarrow> ''idle'' | COMP_COMPOSING \<Rightarrow> ''composing'')"

definition lifecycle_project_phase :: "TypioWlLifecycleState option \<Rightarrow> TypioWlLifecyclePhase" where
  "lifecycle_project_phase st = (case st of
       None \<Rightarrow> PHASE_INACTIVE
     | Some s \<Rightarrow>
         if ls_conn s \<noteq> CONN_CONNECTED \<or> ls_focus s \<noteq> FOCUS_FOCUSED then PHASE_INACTIVE
         else if ls_grab s = GRAB_READY then PHASE_ACTIVE
         else PHASE_ACTIVATING)"

definition lifecycle_state_agrees :: "TypioWlLifecycleState option \<Rightarrow> TypioWlLifecyclePhase \<Rightarrow> bool" where
  "lifecycle_state_agrees observed declared =
     (if declared = PHASE_DEACTIVATING \<or> declared = PHASE_ACTIVATING then True
      else lifecycle_project_phase observed = declared)"

lemma project_phase_not_deactivating: "lifecycle_project_phase st \<noteq> PHASE_DEACTIVATING"
  by (simp add: lifecycle_project_phase_def split: option.splits)

text \<open>A declared phase outside the handshake can only disagree about focus and grab.\<close>

lemma state_disagrees_iff:
  "\<not> lifecycle_state_agrees (Some s) declared \<longleftrightarrow>
     (declared = PHASE_ACTIVE \<and>
        (ls_conn s = CONN_DISCONNECTED \<or> ls_focus s = FOCUS_UNFOCUSED \<or> ls_grab s \<noteq> GRAB_READY)) \<or>
     (declared = PHASE_INACTIVE \<and> ls_conn s = CONN_CONNECTED \<and> ls_focus s = FOCUS_FOCUSED)"
  by (cases declared; cases "ls_conn s"; cases "ls_focus s"; cases "ls_grab s")
     (simp_all add: lifecycle_state_agrees_def lifecycle_project_phase_def)

subsection \<open>Reconcile decision (\<^verbatim>\<open>reconcile_model.c\<close>)\<close>

datatype TypioWlReconcileAction = RECONCILE_OK | RECONCILE_ARM | RECONCILE_WAIT | RECONCILE_REPAIR

text \<open>The in-out parameter \<^verbatim>\<open>divergence_since_ms\<close> is an argument and a second result.\<close>

definition reconcile_decide ::
    "bool \<Rightarrow> u64 \<Rightarrow> u64 \<Rightarrow> u64 \<Rightarrow> TypioWlReconcileAction \<times> u64" where
  "reconcile_decide agree now since threshold =
     (if agree then (RECONCILE_OK, 0)
      else if since = 0 then (RECONCILE_ARM, now)
      else if now \<ge> since \<and> now - since \<ge> threshold then (RECONCILE_REPAIR, 0)
      else (RECONCILE_WAIT, since))"

text \<open>The decision run over a sequence of observations \<open>(agree, now)\<close>, as the loop calls it.\<close>

fun reconcile_run :: "u64 \<Rightarrow> u64 \<Rightarrow> (bool \<times> u64) list \<Rightarrow> TypioWlReconcileAction list" where
  "reconcile_run threshold since [] = []"
| "reconcile_run threshold since ((agree, now) # obs) =
     (case reconcile_decide agree now since threshold of
        (act, since') \<Rightarrow> act # reconcile_run threshold since' obs)"

lemma reconcile_repair_iff:
  "fst (reconcile_decide agree now since threshold) = RECONCILE_REPAIR \<longleftrightarrow>
     \<not> agree \<and> since \<noteq> 0 \<and> unat since \<le> unat now \<and> unat threshold \<le> unat now - unat since"
  by (auto simp: reconcile_decide_def word_le_nat_alt unat_sub)

lemma reconcile_run_waits:
  assumes "\<And>a t. (a, t) \<in> set obs \<Longrightarrow> \<not> a \<and> unat since \<le> unat t \<and> unat t - unat since < unat threshold"
    and "since \<noteq> 0"
  shows "reconcile_run threshold since obs = replicate (length obs) RECONCILE_WAIT"
  using assms(1)
proof (induction obs)
  case Nil
  then show ?case by simp
next
  case (Cons o1 obs)
  obtain a t where o1: "o1 = (a, t)" by (cases o1)
  have "\<not> a" and le: "unat since \<le> unat t" and lt: "unat t - unat since < unat threshold"
    using Cons.prems[of a t] o1 by auto
  have "unat (t - since) = unat t - unat since" using le by (simp add: unat_sub word_le_nat_alt)
  with lt have "\<not> t - since \<ge> threshold" by (simp add: word_le_nat_alt)
  with \<open>\<not> a\<close> assms(2) have "reconcile_decide a t since threshold = (RECONCILE_WAIT, since)"
    by (simp add: reconcile_decide_def)
  moreover have "reconcile_run threshold since obs = replicate (length obs) RECONCILE_WAIT"
    by (rule Cons.IH) (use Cons.prems in auto)
  ultimately show ?case by (simp add: o1)
qed

subsection \<open>Boundary hand-off (\<^verbatim>\<open>boundary_bridge.c\<close>)\<close>

definition boundary_bridge_should_forward_orphan_release_cleanup ::
    "u32 \<Rightarrow> u32 \<Rightarrow> bool \<Rightarrow> bool" where
  "boundary_bridge_should_forward_orphan_release_cleanup ks mods saw_blocking =
     (if ks = KEY_Return \<or> ks = KEY_KP_Enter then True
      else saw_blocking \<or> mods AND (TYPIO_MOD_CTRL OR TYPIO_MOD_ALT OR TYPIO_MOD_SUPER) \<noteq> 0)"

definition boundary_bridge_should_reset_carried_modifiers ::
    "TypioWlLifecyclePhase \<Rightarrow> bool \<Rightarrow> bool" where
  "boundary_bridge_should_reset_carried_modifiers phase carried \<longleftrightarrow>
     carried \<and> phase \<noteq> PHASE_DEACTIVATING"

definition boundary_bridge_should_carry_modifiers ::
    "TypioWlLifecyclePhase \<Rightarrow> bool \<Rightarrow> u32 \<Rightarrow> u32 \<Rightarrow> u32 \<Rightarrow> bool" where
  "boundary_bridge_should_carry_modifiers phase own depressed latched locked =
     (if \<not> own \<or> phase \<noteq> PHASE_DEACTIVATING then False
      else depressed \<noteq> 0 \<or> latched \<noteq> 0 \<or> locked \<noteq> 0)"

lemma carry_reset_exclusive:
  "\<not> (boundary_bridge_should_carry_modifiers phase own d l k \<and>
      boundary_bridge_should_reset_carried_modifiers phase carried)"
  by (simp add: boundary_bridge_should_carry_modifiers_def
      boundary_bridge_should_reset_carried_modifiers_def)

subsection \<open>Preedit update plan (\<^verbatim>\<open>text_ui_state.c\<close>)\<close>

datatype TypioWlTextUiPlan = TEXT_UI_SYNC_POPUP_ONLY | TEXT_UI_SYNC_PREEDIT_AND_POPUP

definition text_ui_plan_update ::
    "string option \<Rightarrow> int \<Rightarrow> string option \<Rightarrow> int \<Rightarrow> TypioWlTextUiPlan" where
  "text_ui_plan_update last_text last_cursor next_text next_cursor =
     (let lt = (case last_text of Some t \<Rightarrow> t | None \<Rightarrow> []);
          nt = (case next_text of Some t \<Rightarrow> t | None \<Rightarrow> [])
      in if last_cursor \<noteq> next_cursor \<or> lt \<noteq> nt then TEXT_UI_SYNC_PREEDIT_AND_POPUP
         else TEXT_UI_SYNC_POPUP_ONLY)"

definition text_ui_should_flush_popup_update :: "bool \<Rightarrow> bool \<Rightarrow> bool \<Rightarrow> bool \<Rightarrow> bool" where
  "text_ui_should_flush_popup_update pending has_session has_context context_focused \<longleftrightarrow>
     pending \<and> has_session \<and> has_context \<and> context_focused"

lemma text_ui_plan_same:
  "text_ui_plan_update t c t c = TEXT_UI_SYNC_POPUP_ONLY"
  by (simp add: text_ui_plan_update_def)

end
