(* ===== verification/Frontend.thy ===== *)
theory Frontend
  imports Key_Policy Lifecycle_Model
begin

section \<open>The frontend state\<close>

text \<open>
  The state of the Wayland frontend (\<^verbatim>\<open>wl_frontend_internal.h\<close>): the keyboard grab, the
  per-activation session and the frontend record that owns both, with the requests the frontend
  sends to the compositor and to its own user interface recorded in order in \<open>out\<close>.

  Code outside the C sources enters as the record \<open>env\<close>: the Typio core library behind its C ABI
  (its own state is the type variable \<open>'e\<close>), xkbcommon (whose keymap and state are the type
  variable \<open>'x\<close>), the outcomes of allocations and system calls, the clock and the build options.
  Nothing is assumed about it here. The clock is read once per handler: the code may read it
  several times within one handler, but only to fill time stamps.
\<close>

subsection \<open>Bindings, candidates and preedit\<close>

record TypioShortcutConfig =
  sc_switch_engine :: TypioShortcutBinding
  sc_emergency_exit :: TypioShortcutBinding
  sc_voice_ptt :: TypioShortcutBinding

record preedit_segment =
  seg_text :: "string option"
  seg_format :: u32

record TypioPreedit =
  pe_segments :: "preedit_segment list"
  pe_cursor_pos :: int

subsection \<open>Callbacks of the core and requests of the frontend\<close>

text \<open>
  While it runs, the core calls back into the frontend: a commit, or a composition change. The
  model delivers them, in order, when the call returns; the core reads nothing of the frontend
  in between.
\<close>

datatype core_callback = CbCommit "string option" | CbComposition

datatype req =
    ReqVkKey u32 u32 bool \<comment> \<open>time, key, pressed\<close>
  | ReqVkModifiers u32 u32 u32 u32
  | ReqVkKeymap u32 u32 \<comment> \<open>format, size\<close>
  | ReqGrabKeyboard
  | ReqGrabRelease
  | ReqCommitString string
  | ReqSetPreedit string int int
  | ReqCommit u32
  | ReqRuntimeStateChanged
  | ReqUiHide
  | ReqUiUpdate
  | ReqUiShowStatus string
  | ReqUiHideStatus
  | ReqTimerArm int int \<comment> \<open>initial delay and interval in milliseconds\<close>
  | ReqTimerDisarm
  | ReqKeymapCancelWarning u64
  | ReqDumpRecentLog
  | ReqPhase TypioWlLifecyclePhase TypioWlLifecyclePhase \<comment> \<open>lifecycle trace: from, to\<close>

subsection \<open>Code outside the sources\<close>

datatype mod_name = MOD_NAME_SHIFT | MOD_NAME_CTRL | MOD_NAME_ALT | MOD_NAME_LOGO
  | MOD_NAME_CAPS | MOD_NAME_NUM

record ('e, 'x) env =
  \<comment> \<open>the core library\<close>
  api_process_key :: "key_event \<Rightarrow> 'e \<Rightarrow> bool \<times> core_callback list \<times> 'e"
  api_is_focused :: "'e \<Rightarrow> bool"
  api_focus_in :: "'e \<Rightarrow> core_callback list \<times> 'e"
  api_focus_out :: "'e \<Rightarrow> core_callback list \<times> 'e"
  api_ctx_reset :: "'e \<Rightarrow> core_callback list \<times> 'e"
  api_create_context :: "'e \<Rightarrow> bool \<times> 'e"
  api_destroy_context :: "'e \<Rightarrow> 'e"
  api_set_surrounding :: "string \<Rightarrow> int \<Rightarrow> int \<Rightarrow> 'e \<Rightarrow> 'e"
  api_preedit :: "'e \<Rightarrow> TypioPreedit option"
  api_candidate_count :: "'e \<Rightarrow> nat option"
  api_active_engine :: "'e \<Rightarrow> string option"
  api_engine_next :: "'e \<Rightarrow> TypioResult option \<times> core_callback list \<times> 'e"
  api_notify_commit :: "'e \<Rightarrow> 'e"
  api_config_string :: "'e \<Rightarrow> string \<Rightarrow> string option"
  api_config_bool :: "'e \<Rightarrow> string \<Rightarrow> bool option"
  api_voice_available :: "'e \<Rightarrow> bool"
  api_voice_unavail_reason :: "'e \<Rightarrow> string option"
  api_voice_start :: "'e \<Rightarrow> 'e"
  api_voice_stop :: "'e \<Rightarrow> 'e"
  api_identity_enter :: "'e \<Rightarrow> 'e" \<comment> \<open>refresh the focused-app identity, restore its engine\<close>
  api_identity_clear :: "'e \<Rightarrow> 'e"
  \<comment> \<open>xkbcommon\<close>
  xkb_compile :: "u32 \<Rightarrow> u32 \<Rightarrow> 'x option" \<comment> \<open>keymap and fresh state, from format and size\<close>
  xkb_mod_active :: "'x \<Rightarrow> mod_name \<Rightarrow> bool"
  xkb_one_sym :: "'x \<Rightarrow> u32 \<Rightarrow> u32"
  xkb_utf8 :: "'x \<Rightarrow> u32 \<Rightarrow> u8 list"
  xkb_utf32 :: "'x \<Rightarrow> u32 \<Rightarrow> u32"
  xkb_key_repeats :: "'x \<Rightarrow> u32 \<Rightarrow> bool"
  xkb_update_mask :: "u32 \<Rightarrow> u32 \<Rightarrow> u32 \<Rightarrow> u32 \<Rightarrow> 'x \<Rightarrow> 'x"
  \<comment> \<open>outcomes of allocations and system calls, the clock, the build\<close>
  sys_calloc_ok :: bool
  sys_xkb_context_ok :: bool
  sys_grab_ok :: bool
  sys_timerfd :: int
  sys_dup_ok :: bool
  sys_timer_read_ok :: bool
  sys_present_retry :: bool
  sys_now_ms :: u64
  have_voice :: bool

subsection \<open>The keyboard grab\<close>

datatype TypioArbiterState = ARBITER_IDLE | ARBITER_BUFFERING

record TypioArbiterEvent =
  ae_is_press :: bool
  ae_key :: u32
  ae_keysym :: u32
  ae_modifiers :: u32
  ae_unicode :: u32
  ae_time :: u32

record TypioKeyArbiter =
  ar_state :: TypioArbiterState
  ar_buffer :: "TypioArbiterEvent list" \<comment> \<open>the first \<^verbatim>\<open>buffer_count\<close> slots\<close>

text \<open>
  \<open>xkb\<close> stands for the pointers \<^verbatim>\<open>xkb_keymap\<close> and \<^verbatim>\<open>xkb_state\<close>, which the code sets
  together and never separately; \<open>kb_grab\<close> says that the grab object exists.
\<close>

record 'x keyboard =
  kb_grab :: bool
  xkb :: "'x option"
  physical_modifiers :: u32
  mods_depressed :: u32
  mods_latched :: u32
  mods_locked :: u32
  mods_group :: u32
  saw_blocking_modifier :: bool
  repeat_rate :: int
  repeat_delay :: int
  repeat_timer_fd :: int
  repeat_key :: u32
  repeat_time :: u32
  repeating :: bool
  suppress_stale_keys :: bool
  startup_suppressed_count :: nat
  created_at_epoch :: u64
  arbiter :: TypioKeyArbiter

subsection \<open>The session\<close>

record session_pending =
  pend_surrounding_text :: "string option"
  pend_cursor :: u32
  pend_anchor :: u32
  pend_content_hint :: u32
  pend_content_purpose :: u32
  pend_text_change_cause :: u32
  pend_active :: bool

record session_current =
  cur_surrounding_text :: "string option"
  cur_cursor :: u32
  cur_anchor :: u32
  cur_content_hint :: u32
  cur_content_purpose :: u32

text \<open>A session always has its input context: creation fails without one.\<close>

record session =
  pending :: session_pending
  current :: session_current
  last_preedit_text :: "string option"
  last_preedit_cursor :: int

subsection \<open>The frontend\<close>

datatype TypioWlVirtualKeyboardState =
    VK_STATE_ABSENT | VK_STATE_NEEDS_KEYMAP | VK_STATE_READY | VK_STATE_BROKEN

record ('e, 'x) frontend =
  core :: 'e
  out :: "req list"
  fe_display :: bool
  fe_input_method :: bool
  fe_virtual_keyboard :: bool
  fe_text_ui_backend :: bool
  vk_state :: TypioWlVirtualKeyboardState
  vk_has_keymap :: bool
  vk_keymap_generation :: u32
  vk_drop_count :: u64
  vk_cancel_count :: u64
  vk_cancel_window_start_ms :: u64
  vk_state_since_ms :: u64
  vk_last_keymap_ms :: u64
  vk_last_forward_ms :: u64
  vk_keymap_deadline_ms :: u64
  guard_reject_press_streak :: u64
  guard_reject_press_window_start_ms :: u64
  watchdog_armed :: bool
  key_states :: key_states
  key_generations :: key_gens
  active_key_generation :: u32
  active_generation_owned_keys :: bool
  active_generation_vk_dirty :: bool
  carried_vk_modifiers :: bool
  session :: "session option"
  keyboard :: "'x keyboard option"
  im_serial :: u32
  last_committed_serial :: u32
  dispatch_epoch :: u64
  running :: bool
  lifecycle_phase :: TypioWlLifecyclePhase
  pending_reactivation :: bool
  reconcile_divergence_since_ms :: u64
  popup_update_pending :: bool
  shortcuts :: TypioShortcutConfig
  error_msg :: string

text \<open>
  What an operation leaves alone, in groups: the core and the session; the bound objects and the
  counters; the per-key tracking. Stated of an operation and declared for the simplifier, each
  group is one rewrite rule per field.
\<close>

abbreviation keeps_context :: "('e, 'x) frontend \<Rightarrow> ('e, 'x) frontend \<Rightarrow> bool" where
  "keeps_context fe' fe \<equiv>
     core fe' = core fe \<and>
     session fe' = session fe \<and>
     im_serial fe' = im_serial fe \<and>
     last_committed_serial fe' = last_committed_serial fe \<and>
     lifecycle_phase fe' = lifecycle_phase fe \<and>
     pending_reactivation fe' = pending_reactivation fe \<and>
     popup_update_pending fe' = popup_update_pending fe"

abbreviation keeps_objects :: "('e, 'x) frontend \<Rightarrow> ('e, 'x) frontend \<Rightarrow> bool" where
  "keeps_objects fe' fe \<equiv>
     fe_display fe' = fe_display fe \<and>
     fe_input_method fe' = fe_input_method fe \<and>
     fe_virtual_keyboard fe' = fe_virtual_keyboard fe \<and>
     fe_text_ui_backend fe' = fe_text_ui_backend fe \<and>
     shortcuts fe' = shortcuts fe \<and>
     dispatch_epoch fe' = dispatch_epoch fe \<and>
     reconcile_divergence_since_ms fe' = reconcile_divergence_since_ms fe \<and>
     watchdog_armed fe' = watchdog_armed fe \<and>
     active_key_generation fe' = active_key_generation fe \<and>
     vk_keymap_generation fe' = vk_keymap_generation fe \<and>
     guard_reject_press_streak fe' = guard_reject_press_streak fe \<and>
     guard_reject_press_window_start_ms fe' = guard_reject_press_window_start_ms fe \<and>
     error_msg fe' = error_msg fe"

abbreviation keeps_tracking :: "('e, 'x) frontend \<Rightarrow> ('e, 'x) frontend \<Rightarrow> bool" where
  "keeps_tracking fe' fe \<equiv>
     key_states fe' = key_states fe \<and>
     key_generations fe' = key_generations fe \<and>
     active_generation_owned_keys fe' = active_generation_owned_keys fe"

abbreviation keeps_keyboard :: "('e, 'x) frontend \<Rightarrow> ('e, 'x) frontend \<Rightarrow> bool" where
  "keeps_keyboard fe' fe \<equiv>
     keyboard fe' = keyboard fe \<and>
     running fe' = running fe \<and>
     vk_state fe' = vk_state fe \<and>
     vk_has_keymap fe' = vk_has_keymap fe \<and>
     vk_drop_count fe' = vk_drop_count fe \<and>
     vk_keymap_deadline_ms fe' = vk_keymap_deadline_ms fe \<and>
     carried_vk_modifiers fe' = carried_vk_modifiers fe \<and>
     active_generation_vk_dirty fe' = active_generation_vk_dirty fe"

abbreviation keeps_phase :: "('e, 'x) frontend \<Rightarrow> ('e, 'x) frontend \<Rightarrow> bool" where
  "keeps_phase fe' fe \<equiv>
     lifecycle_phase fe' = lifecycle_phase fe \<and>
     pending_reactivation fe' = pending_reactivation fe \<and>
     im_serial fe' = im_serial fe"

definition emit :: "req \<Rightarrow> ('e, 'x) frontend \<Rightarrow> ('e, 'x) frontend" where
  "emit r fe = fe\<lparr>out := out fe @ [r]\<rparr>"

definition upd_keyboard :: "('x keyboard \<Rightarrow> 'x keyboard) \<Rightarrow> ('e, 'x) frontend \<Rightarrow> ('e, 'x) frontend" where
  "upd_keyboard f fe = fe\<lparr>keyboard := map_option f (keyboard fe)\<rparr>"

definition upd_session :: "(session \<Rightarrow> session) \<Rightarrow> ('e, 'x) frontend \<Rightarrow> ('e, 'x) frontend" where
  "upd_session f fe = fe\<lparr>session := map_option f (session fe)\<rparr>"

end
