(* ===== verification/Vk_Bridge.thy ===== *)
theory Vk_Bridge
  imports Frontend
begin

section \<open>Virtual keyboard bridge\<close>

text \<open>
  The forwarding path to the focused application (\<^verbatim>\<open>vk_bridge.c\<close>): readiness of the virtual
  keyboard, the keymap hand-shake and its deadline, the fail-safe stop, and the forwarding of
  keys, modifiers and keymaps; with the accessors of the per-key tracking state
  (\<^verbatim>\<open>key_tracking_access.h\<close>) and the release of the grab (\<^verbatim>\<open>wl_keyboard.c\<close>).
\<close>

subsection \<open>Tracking accessors (\<^verbatim>\<open>key_tracking_access.h\<close>)\<close>

definition key_get_state :: "('e, 'x) frontend \<Rightarrow> u32 \<Rightarrow> TypioKeyTrackState" where
  "key_get_state fe key =
     (if unat key < MAX_TRACKED_KEYS then key_states fe (unat key) else TRACK_IDLE)"

definition key_set_state :: "u32 \<Rightarrow> TypioKeyTrackState \<Rightarrow> ('e, 'x) frontend \<Rightarrow> ('e, 'x) frontend" where
  "key_set_state key st fe =
     (if unat key < MAX_TRACKED_KEYS
      then fe\<lparr>key_states := (key_states fe)(unat key := st)\<rparr> else fe)"

definition key_get_generation :: "('e, 'x) frontend \<Rightarrow> u32 \<Rightarrow> u32" where
  "key_get_generation fe key =
     (if unat key < MAX_TRACKED_KEYS then key_generations fe (unat key) else 0)"

definition key_set_generation :: "u32 \<Rightarrow> u32 \<Rightarrow> ('e, 'x) frontend \<Rightarrow> ('e, 'x) frontend" where
  "key_set_generation key gen fe =
     (if unat key < MAX_TRACKED_KEYS
      then fe\<lparr>key_generations := (key_generations fe)(unat key := gen)\<rparr> else fe)"

definition key_claim_current_generation :: "u32 \<Rightarrow> ('e, 'x) frontend \<Rightarrow> ('e, 'x) frontend" where
  "key_claim_current_generation key fe =
     (key_set_generation key (active_key_generation fe) fe)\<lparr>active_generation_owned_keys := True\<rparr>"

definition key_clear_tracking :: "u32 \<Rightarrow> ('e, 'x) frontend \<Rightarrow> ('e, 'x) frontend" where
  "key_clear_tracking key fe = key_set_generation key 0 (key_set_state key TRACK_IDLE fe)"

definition key_owned_by_active_generation :: "('e, 'x) frontend \<Rightarrow> u32 \<Rightarrow> bool" where
  "key_owned_by_active_generation fe key \<longleftrightarrow>
     active_key_generation fe \<noteq> 0 \<and> key_get_generation fe key = active_key_generation fe"

subsection \<open>Stop and release of the grab\<close>

definition frontend_stop :: "('e, 'x) frontend \<Rightarrow> ('e, 'x) frontend" where
  "frontend_stop fe = fe\<lparr>running := False\<rparr>"

definition emit_runtime_state_changed :: "('e, 'x) frontend \<Rightarrow> ('e, 'x) frontend" where
  "emit_runtime_state_changed fe = emit ReqRuntimeStateChanged fe"

definition keyboard_release_grab :: "('e, 'x) frontend \<Rightarrow> ('e, 'x) frontend" where
  "keyboard_release_grab fe = (case keyboard fe of
       None \<Rightarrow> fe
     | Some kb \<Rightarrow>
         if \<not> kb_grab kb then fe
         else emit_runtime_state_changed
                (upd_keyboard (\<lambda>k. k\<lparr>kb_grab := False\<rparr>) (emit ReqGrabRelease fe)))"

subsection \<open>State of the virtual keyboard\<close>

definition VK_KEYMAP_TIMEOUT_MS :: u64 where "VK_KEYMAP_TIMEOUT_MS = 1500"
definition VK_KEYMAP_CANCEL_WARNING_WINDOW_MS :: u64 where
  "VK_KEYMAP_CANCEL_WARNING_WINDOW_MS = 30000"
definition VK_KEYMAP_CANCEL_WARNING_THRESHOLD :: u64 where
  "VK_KEYMAP_CANCEL_WARNING_THRESHOLD = 3"
definition VK_KEYMAP_CANCEL_WARNING_INTERVAL :: u64 where
  "VK_KEYMAP_CANCEL_WARNING_INTERVAL = 5"

definition vk_age_ms :: "u64 \<Rightarrow> u64 \<Rightarrow> u64" where
  "vk_age_ms now then_ms = (if then_ms = 0 \<or> now < then_ms then 0 else now - then_ms)"

definition vk_has_current_generation_keymap :: "('e, 'x) frontend \<Rightarrow> bool" where
  "vk_has_current_generation_keymap fe \<longleftrightarrow>
     active_key_generation fe \<noteq> 0 \<and> vk_keymap_generation fe = active_key_generation fe"

definition vk_reason_is_keymap_cancel :: "string option \<Rightarrow> bool" where
  "vk_reason_is_keymap_cancel reason \<longleftrightarrow>
     reason = Some ''keyboard grab cleared before keymap'' \<or> reason = Some ''keymap wait cancelled''"

definition vk_state_log_level :: "TypioWlVirtualKeyboardState \<Rightarrow> string option \<Rightarrow> TypioLogLevel" where
  "vk_state_log_level st reason =
     (if st = VK_STATE_BROKEN then LOG_ERROR
      else if st = VK_STATE_ABSENT then LOG_WARNING
      else if st = VK_STATE_READY \<and> vk_reason_is_keymap_cancel reason then LOG_DEBUG
      else LOG_INFO)"

definition vk_state_name :: "TypioWlVirtualKeyboardState \<Rightarrow> string" where
  "vk_state_name st = (case st of
       VK_STATE_ABSENT \<Rightarrow> ''absent''
     | VK_STATE_NEEDS_KEYMAP \<Rightarrow> ''needs_keymap''
     | VK_STATE_READY \<Rightarrow> ''ready''
     | VK_STATE_BROKEN \<Rightarrow> ''broken'')"

text \<open>Which of the counted cancellations are reported: the third, then every fifth.\<close>

definition vk_cancel_count_warns :: "u64 \<Rightarrow> bool" where
  "vk_cancel_count_warns cnt =
     (if cnt < VK_KEYMAP_CANCEL_WARNING_THRESHOLD then False
      else if cnt \<noteq> VK_KEYMAP_CANCEL_WARNING_THRESHOLD \<and>
              (cnt - VK_KEYMAP_CANCEL_WARNING_THRESHOLD) mod VK_KEYMAP_CANCEL_WARNING_INTERVAL \<noteq> 0
           then False
      else True)"

definition vk_record_keymap_cancel ::
    "('e, 'x) env \<Rightarrow> string option \<Rightarrow> ('e, 'x) frontend \<Rightarrow> ('e, 'x) frontend" where
  "vk_record_keymap_cancel env reason fe =
     (if \<not> vk_reason_is_keymap_cancel reason then fe
      else
        let now = sys_now_ms env;
            fe = (if vk_cancel_window_start_ms fe = 0 \<or>
                     now - vk_cancel_window_start_ms fe > VK_KEYMAP_CANCEL_WARNING_WINDOW_MS
                  then fe\<lparr>vk_cancel_window_start_ms := now, vk_cancel_count := 0\<rparr> else fe);
            fe = fe\<lparr>vk_cancel_count := vk_cancel_count fe + 1\<rparr>
        in if vk_cancel_count_warns (vk_cancel_count fe)
           then emit (ReqKeymapCancelWarning (vk_cancel_count fe)) fe else fe)"

definition vk_mark_forward_progress :: "('e, 'x) env \<Rightarrow> ('e, 'x) frontend \<Rightarrow> ('e, 'x) frontend" where
  "vk_mark_forward_progress env fe =
     fe\<lparr>vk_last_forward_ms := sys_now_ms env, active_generation_vk_dirty := True\<rparr>"

definition vk_set_state ::
    "('e, 'x) env \<Rightarrow> TypioWlVirtualKeyboardState \<Rightarrow> ('e, 'x) frontend \<Rightarrow> ('e, 'x) frontend" where
  "vk_set_state env st fe =
     (let previous = vk_state fe;
          fe = fe\<lparr>vk_state := st, vk_state_since_ms := sys_now_ms env,
                  vk_has_keymap := (st = VK_STATE_READY \<and> vk_has_current_generation_keymap fe)\<rparr>;
          fe = (if st = VK_STATE_READY \<or> st = VK_STATE_BROKEN \<or> st = VK_STATE_ABSENT
                then fe\<lparr>vk_keymap_deadline_ms := 0\<rparr> else fe)
      in if previous = st then fe
         else emit_runtime_state_changed
                (if st = VK_STATE_READY then fe\<lparr>vk_drop_count := 0\<rparr> else fe))"

definition vk_expect_keymap :: "('e, 'x) env \<Rightarrow> ('e, 'x) frontend \<Rightarrow> ('e, 'x) frontend" where
  "vk_expect_keymap env fe =
     (if \<not> fe_virtual_keyboard fe then fe
      else emit_runtime_state_changed
             (vk_set_state env VK_STATE_NEEDS_KEYMAP
                (fe\<lparr>vk_keymap_deadline_ms := sys_now_ms env + VK_KEYMAP_TIMEOUT_MS\<rparr>)))"

definition vk_cancel_keymap_wait ::
    "('e, 'x) env \<Rightarrow> string option \<Rightarrow> ('e, 'x) frontend \<Rightarrow> ('e, 'x) frontend" where
  "vk_cancel_keymap_wait env reason fe =
     (if vk_state fe \<noteq> VK_STATE_NEEDS_KEYMAP then fe
      else
        let fe = vk_record_keymap_cancel env reason fe
        in if vk_has_current_generation_keymap fe then vk_set_state env VK_STATE_READY fe
           else emit_runtime_state_changed (fe\<lparr>vk_keymap_deadline_ms := 0\<rparr>))"

subsection \<open>Readiness, fail-safe and health\<close>

definition vk_trigger_fail_safe :: "('e, 'x) frontend \<Rightarrow> ('e, 'x) frontend" where
  "vk_trigger_fail_safe fe =
     (if \<not> running fe then fe
      else
        let fe = emit ReqDumpRecentLog fe;
            fe = (if keyboard fe \<noteq> None then keyboard_release_grab fe else fe)
        in frontend_stop fe)"

definition vk_is_ready :: "('e, 'x) env \<Rightarrow> ('e, 'x) frontend \<Rightarrow> bool \<times> ('e, 'x) frontend" where
  "vk_is_ready env fe =
     (let fe = (if fe_virtual_keyboard fe \<and> vk_state fe = VK_STATE_NEEDS_KEYMAP \<and>
                   vk_has_current_generation_keymap fe
                then vk_set_state env VK_STATE_READY fe else fe)
      in if vk_state fe = VK_STATE_READY then (True, fe)
         else
           let fe = fe\<lparr>vk_drop_count := vk_drop_count fe + 1\<rparr>;
               fe = (if vk_state fe = VK_STATE_BROKEN then vk_trigger_fail_safe fe else fe)
           in (False, fe))"

definition vk_health_check :: "('e, 'x) env \<Rightarrow> ('e, 'x) frontend \<Rightarrow> ('e, 'x) frontend" where
  "vk_health_check env fe =
     (if \<not> running fe \<or> \<not> (case keyboard fe of None \<Rightarrow> False | Some kb \<Rightarrow> kb_grab kb) \<or>
         vk_state fe \<noteq> VK_STATE_NEEDS_KEYMAP \<or> vk_keymap_deadline_ms fe = 0 then fe
      else if sys_now_ms env < vk_keymap_deadline_ms fe then fe
      else vk_trigger_fail_safe fe)"

subsection \<open>Forwarding\<close>

definition vk_forward_key ::
    "('e, 'x) env \<Rightarrow> u32 \<Rightarrow> u32 \<Rightarrow> bool \<Rightarrow> ('e, 'x) frontend \<Rightarrow> ('e, 'x) frontend" where
  "vk_forward_key env time key pressed fe =
     (case vk_is_ready env fe of
        (ready, fe) \<Rightarrow>
          if \<not> ready then fe
          else emit (ReqVkKey time key pressed) (vk_mark_forward_progress env fe))"

definition vk_forward_modifier_state ::
    "('e, 'x) env \<Rightarrow> u32 \<Rightarrow> u32 \<Rightarrow> u32 \<Rightarrow> u32 \<Rightarrow> ('e, 'x) frontend \<Rightarrow> ('e, 'x) frontend" where
  "vk_forward_modifier_state env depressed latched locked grp fe =
     (case vk_is_ready env fe of
        (ready, fe) \<Rightarrow>
          if \<not> ready then fe
          else emit (ReqVkModifiers depressed latched locked grp) (vk_mark_forward_progress env fe))"

definition vk_forward_modifiers ::
    "('e, 'x) env \<Rightarrow> u32 \<Rightarrow> u32 \<Rightarrow> u32 \<Rightarrow> u32 \<Rightarrow> ('e, 'x) frontend \<Rightarrow> ('e, 'x) frontend" where
  "vk_forward_modifiers env depressed latched locked grp fe =
     (case vk_is_ready env fe of
        (ready, fe) \<Rightarrow>
          if \<not> ready then fe
          else emit (ReqVkModifiers depressed latched locked grp) (vk_mark_forward_progress env fe))"

definition vk_release_forwarded_keys :: "('e, 'x) env \<Rightarrow> ('e, 'x) frontend \<Rightarrow> ('e, 'x) frontend" where
  "vk_release_forwarded_keys env fe =
     (if \<not> fe_virtual_keyboard fe \<or> vk_state fe = VK_STATE_ABSENT \<or> vk_state fe = VK_STATE_BROKEN
      then fe
      else
        let time = ucast (sys_now_ms env);
            fe = fe\<lparr>out := out fe @
                   map (\<lambda>k. ReqVkKey time (of_nat k) False)
                     (filter (\<lambda>k. track_owes_release (key_states fe k)) [0..<MAX_TRACKED_KEYS])\<rparr>
        in fe\<lparr>key_states :=
                snd (key_tracking_mark_released_pending (key_states fe) MAX_TRACKED_KEYS)\<rparr>)"

definition vk_reset_modifiers :: "('e, 'x) env \<Rightarrow> ('e, 'x) frontend \<Rightarrow> ('e, 'x) frontend" where
  "vk_reset_modifiers env fe =
     (case vk_is_ready env fe of
        (ready, fe) \<Rightarrow>
          if \<not> ready then fe
          else
            let fe = emit (ReqVkModifiers 0 0 0 0) (vk_mark_forward_progress env fe);
                fe = fe\<lparr>carried_vk_modifiers := False\<rparr>
            in upd_keyboard
                 (\<lambda>k. k\<lparr>physical_modifiers := 0, mods_depressed := 0, mods_latched := 0,
                        mods_locked := 0, mods_group := 0,
                        xkb := map_option (xkb_update_mask env 0 0 0 0) (xkb k)\<rparr>) fe)"

definition vk_forward_keymap ::
    "('e, 'x) env \<Rightarrow> u32 \<Rightarrow> u32 \<Rightarrow> ('e, 'x) frontend \<Rightarrow> ('e, 'x) frontend" where
  "vk_forward_keymap env format map_size fe =
     (if \<not> fe_virtual_keyboard fe then fe
      else if \<not> sys_dup_ok env then vk_set_state env VK_STATE_BROKEN fe
      else
        let fe = emit (ReqVkKeymap format map_size) fe;
            fe = fe\<lparr>vk_last_keymap_ms := sys_now_ms env,
                    vk_keymap_generation := active_key_generation fe\<rparr>
        in emit_runtime_state_changed (vk_set_state env VK_STATE_READY fe))"


subsection \<open>What the operations leave alone\<close>

text \<open>
  The bridge never touches the core, the session, the tracking arrays or the lifecycle phase:
  the routing code may call it at any point without losing track of a key.
\<close>

lemma emit_frame [simp]:
  "keeps_context (emit r fe) fe"
  "keeps_objects (emit r fe) fe"
  "keeps_tracking (emit r fe) fe"
  "carried_vk_modifiers (emit r fe) = carried_vk_modifiers fe"
  "vk_state (emit r fe) = vk_state fe"
  "running (emit r fe) = running fe"
  "keyboard (emit r fe) = keyboard fe"
  "vk_drop_count (emit r fe) = vk_drop_count fe"
  "vk_keymap_deadline_ms (emit r fe) = vk_keymap_deadline_ms fe"
  by (simp_all add: emit_def)

lemma emit_out [simp]: "out (emit r fe) = out fe @ [r]"
  by (simp add: emit_def)

lemma upd_keyboard_frame [simp]:
  "keeps_context (upd_keyboard f fe) fe"
  "keeps_objects (upd_keyboard f fe) fe"
  "keeps_tracking (upd_keyboard f fe) fe"
  "carried_vk_modifiers (upd_keyboard f fe) = carried_vk_modifiers fe"
  "vk_state (upd_keyboard f fe) = vk_state fe"
  "running (upd_keyboard f fe) = running fe"
  "vk_drop_count (upd_keyboard f fe) = vk_drop_count fe"
  "vk_keymap_deadline_ms (upd_keyboard f fe) = vk_keymap_deadline_ms fe"
  "out (upd_keyboard f fe) = out fe"
  by (simp_all add: upd_keyboard_def)

lemma upd_keyboard_keyboard [simp]: "keyboard (upd_keyboard f fe) = map_option f (keyboard fe)"
  by (simp add: upd_keyboard_def)

lemma upd_session_frame [simp]:
  "keeps_objects (upd_session f fe) fe"
  "keeps_tracking (upd_session f fe) fe"
  "core (upd_session f fe) = core fe"
  "carried_vk_modifiers (upd_session f fe) = carried_vk_modifiers fe"
  "im_serial (upd_session f fe) = im_serial fe"
  "last_committed_serial (upd_session f fe) = last_committed_serial fe"
  "lifecycle_phase (upd_session f fe) = lifecycle_phase fe"
  "pending_reactivation (upd_session f fe) = pending_reactivation fe"
  "popup_update_pending (upd_session f fe) = popup_update_pending fe"
  "vk_state (upd_session f fe) = vk_state fe"
  "running (upd_session f fe) = running fe"
  "keyboard (upd_session f fe) = keyboard fe"
  "vk_drop_count (upd_session f fe) = vk_drop_count fe"
  "vk_keymap_deadline_ms (upd_session f fe) = vk_keymap_deadline_ms fe"
  "out (upd_session f fe) = out fe"
  by (simp_all add: upd_session_def)

lemma upd_session_session [simp]: "session (upd_session f fe) = map_option f (session fe)"
  by (simp add: upd_session_def)

lemma emit_runtime_state_changed_frame [simp]:
  "keeps_context (emit_runtime_state_changed fe) fe"
  "keeps_objects (emit_runtime_state_changed fe) fe"
  "keeps_tracking (emit_runtime_state_changed fe) fe"
  "carried_vk_modifiers (emit_runtime_state_changed fe) = carried_vk_modifiers fe"
  "vk_state (emit_runtime_state_changed fe) = vk_state fe"
  "running (emit_runtime_state_changed fe) = running fe"
  "keyboard (emit_runtime_state_changed fe) = keyboard fe"
  "vk_drop_count (emit_runtime_state_changed fe) = vk_drop_count fe"
  "vk_keymap_deadline_ms (emit_runtime_state_changed fe) = vk_keymap_deadline_ms fe"
  by (simp_all add: emit_runtime_state_changed_def)

lemma emit_runtime_state_changed_out [simp]:
  "out (emit_runtime_state_changed fe) = out fe @ [ReqRuntimeStateChanged]"
  by (simp add: emit_runtime_state_changed_def)

lemma key_set_state_frame [simp]:
  "keeps_context (key_set_state key st fe) fe"
  "keeps_objects (key_set_state key st fe) fe"
  "key_generations (key_set_state key st fe) = key_generations fe"
  "active_generation_owned_keys (key_set_state key st fe) = active_generation_owned_keys fe"
  "carried_vk_modifiers (key_set_state key st fe) = carried_vk_modifiers fe"
  "vk_state (key_set_state key st fe) = vk_state fe"
  "running (key_set_state key st fe) = running fe"
  "keyboard (key_set_state key st fe) = keyboard fe"
  "vk_drop_count (key_set_state key st fe) = vk_drop_count fe"
  "vk_keymap_deadline_ms (key_set_state key st fe) = vk_keymap_deadline_ms fe"
  "out (key_set_state key st fe) = out fe"
  by (simp_all add: key_set_state_def)

lemma key_set_generation_frame [simp]:
  "keeps_context (key_set_generation key gen fe) fe"
  "keeps_objects (key_set_generation key gen fe) fe"
  "key_states (key_set_generation key gen fe) = key_states fe"
  "active_generation_owned_keys (key_set_generation key gen fe) = active_generation_owned_keys fe"
  "carried_vk_modifiers (key_set_generation key gen fe) = carried_vk_modifiers fe"
  "vk_state (key_set_generation key gen fe) = vk_state fe"
  "running (key_set_generation key gen fe) = running fe"
  "keyboard (key_set_generation key gen fe) = keyboard fe"
  "vk_drop_count (key_set_generation key gen fe) = vk_drop_count fe"
  "vk_keymap_deadline_ms (key_set_generation key gen fe) = vk_keymap_deadline_ms fe"
  "out (key_set_generation key gen fe) = out fe"
  by (simp_all add: key_set_generation_def)

lemma key_clear_tracking_frame [simp]:
  "keeps_context (key_clear_tracking key fe) fe"
  "keeps_objects (key_clear_tracking key fe) fe"
  "active_generation_owned_keys (key_clear_tracking key fe) = active_generation_owned_keys fe"
  "carried_vk_modifiers (key_clear_tracking key fe) = carried_vk_modifiers fe"
  "vk_state (key_clear_tracking key fe) = vk_state fe"
  "running (key_clear_tracking key fe) = running fe"
  "keyboard (key_clear_tracking key fe) = keyboard fe"
  "vk_drop_count (key_clear_tracking key fe) = vk_drop_count fe"
  "vk_keymap_deadline_ms (key_clear_tracking key fe) = vk_keymap_deadline_ms fe"
  "out (key_clear_tracking key fe) = out fe"
  by (simp_all add: key_clear_tracking_def)

lemma key_claim_frame [simp]:
  "keeps_context (key_claim_current_generation key fe) fe"
  "keeps_objects (key_claim_current_generation key fe) fe"
  "key_states (key_claim_current_generation key fe) = key_states fe"
  "carried_vk_modifiers (key_claim_current_generation key fe) = carried_vk_modifiers fe"
  "vk_state (key_claim_current_generation key fe) = vk_state fe"
  "running (key_claim_current_generation key fe) = running fe"
  "keyboard (key_claim_current_generation key fe) = keyboard fe"
  "vk_drop_count (key_claim_current_generation key fe) = vk_drop_count fe"
  "vk_keymap_deadline_ms (key_claim_current_generation key fe) = vk_keymap_deadline_ms fe"
  "out (key_claim_current_generation key fe) = out fe"
  by (simp_all add: key_claim_current_generation_def)

lemma keyboard_release_grab_frame [simp]:
  "keeps_context (keyboard_release_grab fe) fe"
  "keeps_objects (keyboard_release_grab fe) fe"
  "keeps_tracking (keyboard_release_grab fe) fe"
  "carried_vk_modifiers (keyboard_release_grab fe) = carried_vk_modifiers fe"
  "vk_state (keyboard_release_grab fe) = vk_state fe"
  "running (keyboard_release_grab fe) = running fe"
  "vk_drop_count (keyboard_release_grab fe) = vk_drop_count fe"
  "vk_keymap_deadline_ms (keyboard_release_grab fe) = vk_keymap_deadline_ms fe"
  by (simp_all add: keyboard_release_grab_def split: option.split)

lemma frontend_stop_frame [simp]:
  "keeps_context (frontend_stop fe) fe"
  "keeps_objects (frontend_stop fe) fe"
  "keeps_tracking (frontend_stop fe) fe"
  "carried_vk_modifiers (frontend_stop fe) = carried_vk_modifiers fe"
  "vk_state (frontend_stop fe) = vk_state fe"
  "keyboard (frontend_stop fe) = keyboard fe"
  "vk_drop_count (frontend_stop fe) = vk_drop_count fe"
  "vk_keymap_deadline_ms (frontend_stop fe) = vk_keymap_deadline_ms fe"
  "out (frontend_stop fe) = out fe"
  by (simp_all add: frontend_stop_def)

lemma vk_set_state_frame [simp]:
  "keeps_context (vk_set_state env st fe) fe"
  "keeps_objects (vk_set_state env st fe) fe"
  "keeps_tracking (vk_set_state env st fe) fe"
  "carried_vk_modifiers (vk_set_state env st fe) = carried_vk_modifiers fe"
  "running (vk_set_state env st fe) = running fe"
  "keyboard (vk_set_state env st fe) = keyboard fe"
  by (simp_all add: vk_set_state_def Let_def)

lemma vk_set_state_state [simp]: "vk_state (vk_set_state env st fe) = st"
  by (simp add: vk_set_state_def Let_def)

lemma vk_mark_forward_progress_frame [simp]:
  "keeps_context (vk_mark_forward_progress env fe) fe"
  "keeps_objects (vk_mark_forward_progress env fe) fe"
  "keeps_tracking (vk_mark_forward_progress env fe) fe"
  "carried_vk_modifiers (vk_mark_forward_progress env fe) = carried_vk_modifiers fe"
  "vk_state (vk_mark_forward_progress env fe) = vk_state fe"
  "running (vk_mark_forward_progress env fe) = running fe"
  "keyboard (vk_mark_forward_progress env fe) = keyboard fe"
  "vk_drop_count (vk_mark_forward_progress env fe) = vk_drop_count fe"
  "vk_keymap_deadline_ms (vk_mark_forward_progress env fe) = vk_keymap_deadline_ms fe"
  "out (vk_mark_forward_progress env fe) = out fe"
  by (simp_all add: vk_mark_forward_progress_def)

lemma vk_trigger_fail_safe_frame [simp]:
  "keeps_context (vk_trigger_fail_safe fe) fe"
  "keeps_objects (vk_trigger_fail_safe fe) fe"
  "keeps_tracking (vk_trigger_fail_safe fe) fe"
  "carried_vk_modifiers (vk_trigger_fail_safe fe) = carried_vk_modifiers fe"
  "vk_state (vk_trigger_fail_safe fe) = vk_state fe"
  by (simp_all add: vk_trigger_fail_safe_def Let_def)

lemma vk_is_ready_frame [simp]:
  "keeps_context (snd (vk_is_ready env fe)) fe"
  "keeps_objects (snd (vk_is_ready env fe)) fe"
  "keeps_tracking (snd (vk_is_ready env fe)) fe"
  "carried_vk_modifiers (snd (vk_is_ready env fe)) = carried_vk_modifiers fe"
  by (simp_all add: vk_is_ready_def Let_def)

lemma vk_forward_key_frame [simp]:
  "keeps_context (vk_forward_key env t k p fe) fe"
  "keeps_objects (vk_forward_key env t k p fe) fe"
  "keeps_tracking (vk_forward_key env t k p fe) fe"
  "carried_vk_modifiers (vk_forward_key env t k p fe) = carried_vk_modifiers fe"
  by (simp_all add: vk_forward_key_def case_prod_beta)

lemma vk_forward_modifier_state_frame [simp]:
  "keeps_context (vk_forward_modifier_state env d l lo g fe) fe"
  "keeps_objects (vk_forward_modifier_state env d l lo g fe) fe"
  "keeps_tracking (vk_forward_modifier_state env d l lo g fe) fe"
  "carried_vk_modifiers (vk_forward_modifier_state env d l lo g fe) = carried_vk_modifiers fe"
  by (simp_all add: vk_forward_modifier_state_def case_prod_beta)

lemma vk_forward_modifiers_frame [simp]:
  "keeps_context (vk_forward_modifiers env d l lo g fe) fe"
  "keeps_objects (vk_forward_modifiers env d l lo g fe) fe"
  "keeps_tracking (vk_forward_modifiers env d l lo g fe) fe"
  "carried_vk_modifiers (vk_forward_modifiers env d l lo g fe) = carried_vk_modifiers fe"
  by (simp_all add: vk_forward_modifiers_def case_prod_beta)

lemma vk_reset_modifiers_frame [simp]:
  "keeps_context (vk_reset_modifiers env fe) fe"
  "keeps_objects (vk_reset_modifiers env fe) fe"
  "keeps_tracking (vk_reset_modifiers env fe) fe"
  by (simp_all add: vk_reset_modifiers_def case_prod_beta Let_def)

lemma vk_release_forwarded_keys_frame [simp]:
  "keeps_context (vk_release_forwarded_keys env fe) fe"
  "keeps_objects (vk_release_forwarded_keys env fe) fe"
  "key_generations (vk_release_forwarded_keys env fe) = key_generations fe"
  "active_generation_owned_keys (vk_release_forwarded_keys env fe) = active_generation_owned_keys fe"
  "carried_vk_modifiers (vk_release_forwarded_keys env fe) = carried_vk_modifiers fe"
  "vk_state (vk_release_forwarded_keys env fe) = vk_state fe"
  "running (vk_release_forwarded_keys env fe) = running fe"
  "keyboard (vk_release_forwarded_keys env fe) = keyboard fe"
  "vk_drop_count (vk_release_forwarded_keys env fe) = vk_drop_count fe"
  "vk_keymap_deadline_ms (vk_release_forwarded_keys env fe) = vk_keymap_deadline_ms fe"
  by (simp_all add: vk_release_forwarded_keys_def Let_def)

lemma vk_record_keymap_cancel_frame [simp]:
  "keeps_context (vk_record_keymap_cancel env reason fe) fe"
  "keeps_objects (vk_record_keymap_cancel env reason fe) fe"
  "keeps_tracking (vk_record_keymap_cancel env reason fe) fe"
  "carried_vk_modifiers (vk_record_keymap_cancel env reason fe) = carried_vk_modifiers fe"
  "vk_state (vk_record_keymap_cancel env reason fe) = vk_state fe"
  "running (vk_record_keymap_cancel env reason fe) = running fe"
  "keyboard (vk_record_keymap_cancel env reason fe) = keyboard fe"
  "vk_drop_count (vk_record_keymap_cancel env reason fe) = vk_drop_count fe"
  "vk_keymap_deadline_ms (vk_record_keymap_cancel env reason fe) = vk_keymap_deadline_ms fe"
  by (simp_all add: vk_record_keymap_cancel_def Let_def)

lemma vk_cancel_keymap_wait_frame [simp]:
  "keeps_context (vk_cancel_keymap_wait env reason fe) fe"
  "keeps_objects (vk_cancel_keymap_wait env reason fe) fe"
  "keeps_tracking (vk_cancel_keymap_wait env reason fe) fe"
  "carried_vk_modifiers (vk_cancel_keymap_wait env reason fe) = carried_vk_modifiers fe"
  "running (vk_cancel_keymap_wait env reason fe) = running fe"
  "keyboard (vk_cancel_keymap_wait env reason fe) = keyboard fe"
  by (simp_all add: vk_cancel_keymap_wait_def Let_def)

lemma vk_expect_keymap_frame [simp]:
  "keeps_context (vk_expect_keymap env fe) fe"
  "keeps_objects (vk_expect_keymap env fe) fe"
  "keeps_tracking (vk_expect_keymap env fe) fe"
  "carried_vk_modifiers (vk_expect_keymap env fe) = carried_vk_modifiers fe"
  "running (vk_expect_keymap env fe) = running fe"
  "keyboard (vk_expect_keymap env fe) = keyboard fe"
  by (simp_all add: vk_expect_keymap_def)

subsection \<open>The application's view of the keyboard\<close>

text \<open>
  What the focused application has seen of a key: whether the last event the virtual keyboard
  sent for it is a press. A key that stays down there with nothing to release it is stuck.
\<close>

fun app_key_step :: "u32 \<Rightarrow> bool \<Rightarrow> req \<Rightarrow> bool" where
  "app_key_step key down (ReqVkKey t k p) = (if k = key then p else down)"
| "app_key_step key down _ = down"

definition app_key_down :: "u32 \<Rightarrow> req list \<Rightarrow> bool" where
  "app_key_down key reqs = foldl (app_key_step key) False reqs"

definition is_vk_key_req :: "req \<Rightarrow> bool" where
  "is_vk_key_req r \<longleftrightarrow> (case r of ReqVkKey _ _ _ \<Rightarrow> True | _ \<Rightarrow> False)"

lemma app_key_down_Nil [simp]: "\<not> app_key_down key []"
  by (simp add: app_key_down_def)

lemma app_key_down_append [simp]:
  "app_key_down key (reqs @ rs) = foldl (app_key_step key) (app_key_down key reqs) rs"
  by (simp add: app_key_down_def)

lemma app_key_down_releases:
  "foldl (app_key_step key) b (map (\<lambda>k. ReqVkKey t (f k) False) ks) = (b \<and> key \<notin> f ` set ks)"
  by (induction ks arbitrary: b) auto

lemma of_nat_tracked:
  "k < MAX_TRACKED_KEYS \<Longrightarrow> (of_nat k :: u32) = key \<longleftrightarrow> k = unat key"
  by (auto simp: unat_of_nat take_bit_nat_eq_self)

text \<open>Operations that send no key event leave every key of the application as it was.\<close>

lemma release_grab_app_key_down [simp]:
  "app_key_down key (out (keyboard_release_grab fe)) = app_key_down key (out fe)"
  by (simp add: keyboard_release_grab_def split: option.split)

lemma frontend_stop_running [simp]: "\<not> running (frontend_stop fe)"
  by (simp add: frontend_stop_def)

lemma fail_safe_app_key_down [simp]:
  "app_key_down key (out (vk_trigger_fail_safe fe)) = app_key_down key (out fe)"
  by (simp add: vk_trigger_fail_safe_def Let_def)

lemma vk_set_state_app_key_down [simp]:
  "app_key_down key (out (vk_set_state env st fe)) = app_key_down key (out fe)"
  by (simp add: vk_set_state_def Let_def)

lemma vk_is_ready_app_key_down [simp]:
  "app_key_down key (out (snd (vk_is_ready env fe))) = app_key_down key (out fe)"
  by (simp add: vk_is_ready_def Let_def)

lemma vk_forward_modifier_state_app_key_down [simp]:
  "app_key_down key (out (vk_forward_modifier_state env d l lo g fe)) = app_key_down key (out fe)"
  by (simp add: vk_forward_modifier_state_def case_prod_beta)

lemma vk_reset_modifiers_app_key_down [simp]:
  "app_key_down key (out (vk_reset_modifiers env fe)) = app_key_down key (out fe)"
  by (simp add: vk_reset_modifiers_def case_prod_beta Let_def)

lemma vk_cancel_keymap_wait_app_key_down [simp]:
  "app_key_down key (out (vk_cancel_keymap_wait env reason fe)) = app_key_down key (out fe)"
  by (simp add: vk_cancel_keymap_wait_def vk_record_keymap_cancel_def Let_def)

lemma vk_expect_keymap_app_key_down [simp]:
  "app_key_down key (out (vk_expect_keymap env fe)) = app_key_down key (out fe)"
  by (simp add: vk_expect_keymap_def)

subsection \<open>Readiness\<close>

definition vk_can_forward :: "('e, 'x) frontend \<Rightarrow> bool" where
  "vk_can_forward fe \<longleftrightarrow>
     vk_state fe = VK_STATE_READY \<or>
     (fe_virtual_keyboard fe \<and> vk_state fe = VK_STATE_NEEDS_KEYMAP \<and> vk_has_current_generation_keymap fe)"

lemma vk_is_ready_iff [simp]: "fst (vk_is_ready env fe) \<longleftrightarrow> vk_can_forward fe"
  by (simp add: vk_is_ready_def vk_can_forward_def Let_def)

lemma vk_forward_key_app_key_down:
  "app_key_down key (out (vk_forward_key env t k p fe)) =
     (if vk_can_forward fe \<and> k = key then p else app_key_down key (out fe))"
  by (simp add: vk_forward_key_def case_prod_beta)

lemma vk_is_ready_state:
  "vk_can_forward fe \<Longrightarrow> vk_state (snd (vk_is_ready env fe)) = VK_STATE_READY"
  by (auto simp: vk_is_ready_def vk_can_forward_def Let_def)

lemma vk_forward_key_state:
  "vk_state (vk_forward_key env t k p fe) =
     (if vk_can_forward fe then VK_STATE_READY else vk_state fe)"
  by (auto simp: vk_forward_key_def vk_is_ready_def vk_can_forward_def Let_def case_prod_beta)

lemma vk_forward_key_can_forward:
  "vk_can_forward fe \<Longrightarrow> vk_can_forward (vk_forward_key env t k p fe)"
  by (simp add: vk_can_forward_def [of "vk_forward_key env t k p fe"] vk_forward_key_state)

text \<open>A forward that goes through keeps the grab and the loop; only a broken path stops them.\<close>

lemma vk_forward_key_running:
  "vk_state fe \<noteq> VK_STATE_BROKEN \<Longrightarrow>
     running (vk_forward_key env t k p fe) = running fe \<and>
     keyboard (vk_forward_key env t k p fe) = keyboard fe"
  by (auto simp: vk_forward_key_def vk_is_ready_def Let_def case_prod_beta)

text \<open>
  On a broken path no event reaches the application: the attempt itself stops the daemon and
  gives the keyboard back to the compositor.
\<close>

lemma broken_is_not_forwardable: "vk_state fe = VK_STATE_BROKEN \<Longrightarrow> \<not> vk_can_forward fe"
  by (simp add: vk_can_forward_def)

lemma vk_forward_key_broken:
  assumes "vk_state fe = VK_STATE_BROKEN" and "running fe"
  shows "\<not> running (vk_forward_key env t k p fe)"
    and "keyboard (vk_forward_key env t k p fe) = map_option (\<lambda>kb. kb\<lparr>kb_grab := False\<rparr>) (keyboard fe)"
    and "app_key_down key (out (vk_forward_key env t k p fe)) = app_key_down key (out fe)"
proof -
  have "snd (vk_is_ready env fe) = vk_trigger_fail_safe (fe\<lparr>vk_drop_count := vk_drop_count fe + 1\<rparr>)"
    using assms by (simp add: vk_is_ready_def Let_def)
  moreover have "keyboard (vk_trigger_fail_safe (fe\<lparr>vk_drop_count := vk_drop_count fe + 1\<rparr>))
      = map_option (\<lambda>kb. kb\<lparr>kb_grab := False\<rparr>) (keyboard fe)"
    using assms(2)
    by (auto simp: vk_trigger_fail_safe_def keyboard_release_grab_def emit_def upd_keyboard_def
        emit_runtime_state_changed_def Let_def frontend_stop_def split: option.split)
  moreover have "\<not> running (vk_trigger_fail_safe (fe\<lparr>vk_drop_count := vk_drop_count fe + 1\<rparr>))"
    using assms(2) by (simp add: vk_trigger_fail_safe_def Let_def)
  ultimately show "\<not> running (vk_forward_key env t k p fe)"
    and "keyboard (vk_forward_key env t k p fe) = map_option (\<lambda>kb. kb\<lparr>kb_grab := False\<rparr>) (keyboard fe)"
    using assms(1) by (simp_all add: vk_forward_key_def case_prod_beta broken_is_not_forwardable)
  show "app_key_down key (out (vk_forward_key env t k p fe)) = app_key_down key (out fe)"
    using assms(1) by (simp add: vk_forward_key_app_key_down broken_is_not_forwardable)
qed

subsection \<open>Forced release at a boundary\<close>

definition vk_can_release :: "('e, 'x) frontend \<Rightarrow> bool" where
  "vk_can_release fe \<longleftrightarrow>
     fe_virtual_keyboard fe \<and> vk_state fe \<noteq> VK_STATE_ABSENT \<and> vk_state fe \<noteq> VK_STATE_BROKEN"

lemma vk_release_forwarded_keys_app_key_down:
  assumes "vk_can_release fe"
  shows "app_key_down key (out (vk_release_forwarded_keys env fe)) \<longleftrightarrow>
     app_key_down key (out fe) \<and>
     \<not> (unat key < MAX_TRACKED_KEYS \<and> track_owes_release (key_states fe (unat key)))"
proof -
  let ?ks = "filter (\<lambda>k. track_owes_release (key_states fe k)) [0..<MAX_TRACKED_KEYS]"
  have "app_key_down key (out fe @ map (\<lambda>k. ReqVkKey t (of_nat k) False) ?ks) \<longleftrightarrow>
      app_key_down key (out fe) \<and> key \<notin> of_nat ` set ?ks" for t
    by (simp add: app_key_down_def app_key_down_releases)
  moreover have "key \<in> of_nat ` set ?ks \<longleftrightarrow>
      unat key < MAX_TRACKED_KEYS \<and> track_owes_release (key_states fe (unat key))"
  proof
    assume "key \<in> of_nat ` set ?ks"
    then obtain k where "k < MAX_TRACKED_KEYS" "track_owes_release (key_states fe k)" "key = of_nat k"
      by auto
    with of_nat_tracked[of k key] show "unat key < MAX_TRACKED_KEYS \<and> track_owes_release (key_states fe (unat key))"
      by auto
  next
    assume "unat key < MAX_TRACKED_KEYS \<and> track_owes_release (key_states fe (unat key))"
    then have "unat key \<in> set ?ks" by simp
    then show "key \<in> of_nat ` set ?ks" by (rule rev_image_eqI) simp
  qed
  ultimately show ?thesis
    using assms by (auto simp: vk_release_forwarded_keys_def vk_can_release_def Let_def)
qed

lemma vk_release_forwarded_keys_states:
  assumes "vk_can_release fe"
  shows "key_states (vk_release_forwarded_keys env fe) k =
     (if k < MAX_TRACKED_KEYS \<and> track_owes_release (key_states fe k)
      then TRACK_RELEASED_PENDING else key_states fe k)"
  using assms
  by (simp add: vk_release_forwarded_keys_def vk_can_release_def Let_def mark_released_pending_eq)

lemma vk_release_forwarded_keys_blocked:
  "\<not> vk_can_release fe \<Longrightarrow> vk_release_forwarded_keys env fe = fe"
  by (auto simp: vk_release_forwarded_keys_def vk_can_release_def)

text \<open>
  The tracking invariant: a tracked key that is down in the application owes a release, unless
  the path is broken (where the next event stops the daemon).
\<close>

definition no_stuck_key :: "('e, 'x) frontend \<Rightarrow> bool" where
  "no_stuck_key fe \<longleftrightarrow>
     (\<forall>key. unat key < MAX_TRACKED_KEYS \<longrightarrow> app_key_down key (out fe) \<longrightarrow>
        track_owes_release (key_states fe (unat key)) \<or> \<not> vk_can_release fe)"

lemma release_all_clears:
  assumes "no_stuck_key fe" and "vk_can_release fe" and "unat key < MAX_TRACKED_KEYS"
  shows "\<not> app_key_down key (out (vk_release_forwarded_keys env fe))"
  using assms by (auto simp: vk_release_forwarded_keys_app_key_down no_stuck_key_def)

subsection \<open>The keymap hand-shake\<close>

lemma vk_expect_keymap_blocks:
  assumes "fe_virtual_keyboard fe" and "\<not> vk_has_current_generation_keymap fe"
  shows "\<not> vk_can_forward (vk_expect_keymap env fe)"
    and "vk_state (vk_expect_keymap env fe) = VK_STATE_NEEDS_KEYMAP"
    and "vk_keymap_deadline_ms (vk_expect_keymap env fe) = sys_now_ms env + VK_KEYMAP_TIMEOUT_MS"
  using assms
  by (simp_all add: vk_expect_keymap_def vk_can_forward_def vk_has_current_generation_keymap_def
      vk_set_state_def Let_def)

lemma vk_forward_keymap_ready:
  assumes "fe_virtual_keyboard fe" and "sys_dup_ok env" and "active_key_generation fe \<noteq> 0"
  shows "vk_can_forward (vk_forward_keymap env fmt sz fe)"
    and "vk_has_keymap (vk_forward_keymap env fmt sz fe)"
    and "vk_has_current_generation_keymap (vk_forward_keymap env fmt sz fe)"
    and "vk_keymap_deadline_ms (vk_forward_keymap env fmt sz fe) = 0"
  using assms
  by (simp_all add: vk_forward_keymap_def vk_can_forward_def vk_has_current_generation_keymap_def
      vk_set_state_def Let_def emit_runtime_state_changed_def emit_def)

lemma vk_health_check_timeout:
  assumes "running fe" and "keyboard fe = Some kb" and "kb_grab kb"
    and "vk_state fe = VK_STATE_NEEDS_KEYMAP" and "vk_keymap_deadline_ms fe \<noteq> 0"
  shows "running (vk_health_check env fe) \<longleftrightarrow> sys_now_ms env < vk_keymap_deadline_ms fe"
  using assms by (auto simp: vk_health_check_def vk_trigger_fail_safe_def Let_def)

end
