(* ===== verification/Commit_Path.thy ===== *)
theory Commit_Path
  imports Vk_Bridge "HOL-Library.While_Combinator"
begin

section \<open>Committing text and drawing the preedit\<close>

text \<open>
  The output side of the input method (\<^verbatim>\<open>wl_input_method.c\<close>): the commit helpers with the
  serial check, the plain preedit (\<^verbatim>\<open>preedit_format.c\<close>), the update of the preedit and popup,
  and the callbacks through which the core commits text.
\<close>

subsection \<open>The plain preedit (\<^verbatim>\<open>preedit_format.c\<close>)\<close>

text \<open>
  A growing buffer: its bytes without the terminating NUL, \<open>None\<close> before the first allocation,
  and its capacity. Capacities are \<open>nat\<close>: the doubling is not followed past \<^verbatim>\<open>SIZE_MAX\<close>.
\<close>

record text_buffer =
  tb_bytes :: "string option"
  tb_capacity :: nat

definition tb_length :: "text_buffer \<Rightarrow> nat" where
  "tb_length b = (case tb_bytes b of None \<Rightarrow> 0 | Some s \<Rightarrow> length s)"

definition tb_text :: "text_buffer \<Rightarrow> string" where
  "tb_text b = (case tb_bytes b of None \<Rightarrow> [] | Some s \<Rightarrow> s)"

definition grow_capacity :: "nat \<Rightarrow> nat \<Rightarrow> nat option" where
  "grow_capacity cap needed = while_option (\<lambda>c. c < needed) (\<lambda>c. c * 2) cap"

text \<open>
  \<open>alloc\<close> stands for the outcome of \<^verbatim>\<open>realloc\<close> on a requested capacity. The result is the
  return value and the buffer; a doubling that does not end gives \<open>None\<close>.
\<close>

definition append_text ::
    "(nat \<Rightarrow> bool) \<Rightarrow> text_buffer \<Rightarrow> string option \<Rightarrow> (bool \<times> text_buffer) option" where
  "append_text alloc b text = (case text of
       None \<Rightarrow> Some (True, b)
     | Some t \<Rightarrow>
         if t = [] then Some (True, b)
         else
           let needed = tb_length b + length t + 1 in
           if needed > tb_capacity b then
             (case grow_capacity (if tb_capacity b \<noteq> 0 then tb_capacity b else 64) needed of
                None \<Rightarrow> None
              | Some cap \<Rightarrow>
                  if \<not> alloc cap then Some (False, b)
                  else Some (True, b\<lparr>tb_bytes := Some (tb_text b @ t),
                                     tb_capacity := cap\<rparr>))
           else Some (True, b\<lparr>tb_bytes := Some (tb_text b @ t)\<rparr>))"

fun append_segments ::
    "(nat \<Rightarrow> bool) \<Rightarrow> text_buffer \<Rightarrow> preedit_segment list \<Rightarrow> (bool \<times> text_buffer) option" where
  "append_segments alloc b [] = Some (True, b)"
| "append_segments alloc b (s # ss) =
     (case append_text alloc b (seg_text s) of
        None \<Rightarrow> None
      | Some (ok, b) \<Rightarrow> if \<not> ok then Some (False, b) else append_segments alloc b ss)"

definition build_plain_preedit ::
    "(nat \<Rightarrow> bool) \<Rightarrow> TypioPreedit option \<Rightarrow> (string option \<times> int) option" where
  "build_plain_preedit alloc preedit = (case preedit of
       None \<Rightarrow> Some (None, -1)
     | Some p \<Rightarrow>
         if pe_segments p = [] then Some (None, -1)
         else (case append_segments alloc \<lparr>tb_bytes = None, tb_capacity = 0\<rparr> (pe_segments p) of
                 None \<Rightarrow> None
               | Some (ok, b) \<Rightarrow>
                   if \<not> ok then Some (None, -1)
                   else Some (tb_bytes b,
                              if pe_cursor_pos p \<ge> 0 then pe_cursor_pos p else int (tb_length b))))"

text \<open>The doubling ends from any non-empty capacity, and what it finds is large enough.\<close>

lemma grow_capacity_terminates:
  assumes "0 < cap"
  shows "\<exists>c. grow_capacity cap needed = Some c \<and> needed \<le> c \<and> cap \<le> c"
proof -
  have "\<exists>c. while_option (\<lambda>c. c < needed) (\<lambda>c. c * 2) cap = Some c"
    by (rule measure_while_option_Some[where P = "\<lambda>c. 0 < c" and f = "\<lambda>c. needed - c", simplified])
       (use assms in auto)
  then obtain c where c: "while_option (\<lambda>c. c < needed) (\<lambda>c. c * 2) cap = Some c" by blast
  moreover have "\<not> c < needed" using while_option_stop[OF c] .
  moreover have "cap \<le> c"
    by (rule while_option_rule[OF _ c, where P = "\<lambda>x. cap \<le> x"]) auto
  ultimately show ?thesis by (auto simp: grow_capacity_def)
qed

definition tb_ok :: "text_buffer \<Rightarrow> bool" where
  "tb_ok b \<longleftrightarrow> (case tb_bytes b of None \<Rightarrow> tb_capacity b = 0 | Some s \<Rightarrow> length s < tb_capacity b)"

lemma tb_length_text: "tb_length b = length (tb_text b)"
  by (simp add: tb_length_def tb_text_def split: option.split)

text \<open>
  Appending keeps room for the terminator, whatever the buffer held before; it only fails when
  an allocation does.
\<close>

definition opt_text :: "string option \<Rightarrow> string" where
  "opt_text t = (case t of None \<Rightarrow> [] | Some s \<Rightarrow> s)"

lemma grow_capacity_cases:
  obtains c where "grow_capacity (if tb_capacity b \<noteq> 0 then tb_capacity b else 64) n = Some c" "n \<le> c"
proof -
  have "0 < (if tb_capacity b \<noteq> 0 then tb_capacity b else 64)" by simp
  from grow_capacity_terminates[OF this, of n] that show thesis by blast
qed

lemma append_text_spec:
  assumes "tb_ok b"
  obtains ok b' where "append_text alloc b text = Some (ok, b')" "(\<forall>c. alloc c) \<longrightarrow> ok"
    "ok \<longrightarrow> tb_ok b' \<and> tb_text b' = tb_text b @ opt_text text"
    "ok \<longrightarrow> (tb_bytes b' = None) = (tb_bytes b = None \<and> opt_text text = [])"
proof (cases "opt_text text = []")
  case True
  then have "append_text alloc b text = Some (True, b)"
    by (simp add: append_text_def opt_text_def split: option.splits)
  with True assms show thesis by (intro that) auto
next
  case False
  then obtain t where t: "text = Some t" "t \<noteq> []" by (auto simp: opt_text_def split: option.splits)
  obtain c where c: "grow_capacity (if tb_capacity b \<noteq> 0 then tb_capacity b else 64)
      (tb_length b + length t + 1) = Some c" "tb_length b + length t + 1 \<le> c"
    by (rule grow_capacity_cases)
  let ?b = "b\<lparr>tb_bytes := Some (tb_text b @ t), tb_capacity := c\<rparr>"
  let ?b2 = "b\<lparr>tb_bytes := Some (tb_text b @ t)\<rparr>"
  have r: "append_text alloc b text =
      (if tb_length b + length t + 1 > tb_capacity b
       then if \<not> alloc c then Some (False, b) else Some (True, ?b) else Some (True, ?b2))"
    using t c(1) by (simp add: append_text_def Let_def del: One_nat_def add_Suc_right)
  have texts: "tb_text ?b = tb_text b @ opt_text text" "tb_text ?b2 = tb_text b @ opt_text text"
    using t(1) by (simp_all add: tb_text_def opt_text_def)
  have ok: "tb_ok ?b" "\<not> tb_length b + length t + 1 > tb_capacity b \<Longrightarrow> tb_ok ?b2"
    using c(2) by (simp_all add: tb_ok_def tb_length_text)
  show thesis
  proof (cases "tb_length b + length t + 1 > tb_capacity b")
    case room: True
    show thesis
    proof (cases "alloc c")
      case True
      with room have "append_text alloc b text = Some (True, ?b)" unfolding r by simp
      then show thesis by (rule that) (use ok(1) texts(1) False in simp_all)
    next
      case no: False
      with room have "append_text alloc b text = Some (False, b)" unfolding r by simp
      then show thesis by (rule that) (use no in auto)
    qed
  next
    case room: False
    then have "append_text alloc b text = Some (True, ?b2)" unfolding r by simp
    then show thesis by (rule that) (use ok(2)[OF room] texts(2) False in simp_all)
  qed
qed

lemma append_segments_spec:
  assumes "tb_ok b"
  obtains ok b' where "append_segments alloc b ss = Some (ok, b')" "(\<forall>c. alloc c) \<longrightarrow> ok"
    "ok \<longrightarrow> tb_ok b' \<and> tb_text b' = tb_text b @ concat (map (\<lambda>s. opt_text (seg_text s)) ss)"
    "ok \<longrightarrow> (tb_bytes b' = None) =
       (tb_bytes b = None \<and> (\<forall>s \<in> set ss. opt_text (seg_text s) = []))"
  using assms
proof (induction ss arbitrary: b thesis)
  case Nil
  show ?case by (rule Nil.prems(1)[of True b]) (use Nil.prems(2) in simp_all)
next
  case (Cons s ss)
  obtain ok1 b1 where b1: "append_text alloc b (seg_text s) = Some (ok1, b1)"
      "(\<forall>c. alloc c) \<longrightarrow> ok1"
      "ok1 \<longrightarrow> tb_ok b1 \<and> tb_text b1 = tb_text b @ opt_text (seg_text s)"
      "ok1 \<longrightarrow> (tb_bytes b1 = None) = (tb_bytes b = None \<and> opt_text (seg_text s) = [])"
    by (rule append_text_spec[OF Cons.prems(2)])
  show ?case
  proof (cases ok1)
    case False
    with b1 have "append_segments alloc b (s # ss) = Some (False, b1)" by simp
    then show ?thesis by (rule Cons.prems(1)) (use False b1(2) in simp_all)
  next
    case True
    with b1 have "tb_ok b1" by simp
    then obtain ok2 b2 where b2: "append_segments alloc b1 ss = Some (ok2, b2)"
      "(\<forall>c. alloc c) \<longrightarrow> ok2"
      "ok2 \<longrightarrow> tb_ok b2 \<and> tb_text b2 = tb_text b1 @ concat (map (\<lambda>s. opt_text (seg_text s)) ss)"
      "ok2 \<longrightarrow> (tb_bytes b2 = None) =
         (tb_bytes b1 = None \<and> (\<forall>s \<in> set ss. opt_text (seg_text s) = []))"
      using Cons.IH by blast
    with True b1 have "append_segments alloc b (s # ss) = Some (ok2, b2)" by simp
    then show ?thesis by (rule Cons.prems(1)) (use True b1 b2 in simp_all)
  qed
qed

text \<open>The whole routine ends, and without an allocation failure it concatenates the segments.\<close>

lemma build_plain_preedit_spec:
  assumes "\<And>c. alloc c"
  shows "build_plain_preedit alloc (Some p) =
     (let txt = concat (map (\<lambda>s. opt_text (seg_text s)) (pe_segments p)) in
      Some (if txt = [] then None else Some txt,
            if pe_segments p = [] then -1
            else if pe_cursor_pos p \<ge> 0 then pe_cursor_pos p else int (length txt)))"
proof -
  let ?e = "\<lparr>tb_bytes = None, tb_capacity = 0\<rparr>"
  have "tb_ok ?e" "tb_text ?e = []" by (simp_all add: tb_ok_def tb_text_def)
  obtain ok b where "append_segments alloc ?e (pe_segments p) = Some (ok, b)" "(\<forall>c. alloc c) \<longrightarrow> ok"
      "ok \<longrightarrow> tb_ok b \<and> tb_text b = tb_text ?e @ concat (map (\<lambda>s. opt_text (seg_text s)) (pe_segments p))"
      "ok \<longrightarrow> (tb_bytes b = None) =
         (tb_bytes ?e = None \<and> (\<forall>s \<in> set (pe_segments p). opt_text (seg_text s) = []))"
    by (rule append_segments_spec[OF \<open>tb_ok ?e\<close>])
  with assms \<open>tb_text ?e = []\<close> have b: "append_segments alloc ?e (pe_segments p) = Some (True, b)"
      "tb_text b = concat (map (\<lambda>s. opt_text (seg_text s)) (pe_segments p))"
      "tb_bytes b = None \<longleftrightarrow> (\<forall>s \<in> set (pe_segments p). opt_text (seg_text s) = [])"
    by simp_all
  have "tb_bytes b = (if tb_text b = [] then None else Some (tb_text b))"
    using b(2,3) by (cases "tb_bytes b") (auto simp: tb_text_def)
  with b show ?thesis
    by (auto simp: build_plain_preedit_def Let_def tb_length_text)
qed

subsection \<open>Commit helpers\<close>

definition text_ui_reset_tracking :: "('e, 'x) frontend \<Rightarrow> ('e, 'x) frontend" where
  "text_ui_reset_tracking fe =
     upd_session (\<lambda>s. s\<lparr>last_preedit_text := None, last_preedit_cursor := -1\<rparr>)
       (fe\<lparr>popup_update_pending := False\<rparr>)"

definition text_ui_backend_hide :: "('e, 'x) frontend \<Rightarrow> ('e, 'x) frontend" where
  "text_ui_backend_hide fe = (if \<not> fe_text_ui_backend fe then fe else emit ReqUiHide fe)"

definition text_ui_backend_update :: "('e, 'x) frontend \<Rightarrow> ('e, 'x) frontend" where
  "text_ui_backend_update fe = (if \<not> fe_text_ui_backend fe then fe else emit ReqUiUpdate fe)"

definition text_ui_backend_show_status :: "string \<Rightarrow> ('e, 'x) frontend \<Rightarrow> ('e, 'x) frontend" where
  "text_ui_backend_show_status text fe =
     (if \<not> fe_text_ui_backend fe then fe else emit (ReqUiShowStatus text) fe)"

definition text_ui_backend_hide_status :: "('e, 'x) frontend \<Rightarrow> ('e, 'x) frontend" where
  "text_ui_backend_hide_status fe = (if \<not> fe_text_ui_backend fe then fe else emit ReqUiHideStatus fe)"

definition commit_string :: "string option \<Rightarrow> ('e, 'x) frontend \<Rightarrow> ('e, 'x) frontend" where
  "commit_string text fe = (case text of
       None \<Rightarrow> fe
     | Some t \<Rightarrow> if \<not> fe_input_method fe then fe else emit (ReqCommitString t) fe)"

definition set_preedit :: "string option \<Rightarrow> int \<Rightarrow> int \<Rightarrow> ('e, 'x) frontend \<Rightarrow> ('e, 'x) frontend" where
  "set_preedit text cb ce fe =
     (if \<not> fe_input_method fe then fe
      else emit (ReqSetPreedit (case text of None \<Rightarrow> '''' | Some t \<Rightarrow> t) cb ce) fe)"

definition commit :: "('e, 'x) frontend \<Rightarrow> ('e, 'x) frontend" where
  "commit fe =
     (if \<not> fe_input_method fe \<or> session fe = None then fe
      else if im_serial fe = 0 then fe
      else (emit (ReqCommit (im_serial fe)) fe)\<lparr>last_committed_serial := im_serial fe\<rparr>)"

subsection \<open>Callbacks of the core\<close>

definition on_commit_callback ::
    "('e, 'x) env \<Rightarrow> string option \<Rightarrow> ('e, 'x) frontend \<Rightarrow> ('e, 'x) frontend" where
  "on_commit_callback env text fe =
     (if session fe = None then fe
      else if text = None \<or> text = Some [] then fe
      else
        let fe = set_preedit (Some '''') (-1) (-1) fe;
            fe = text_ui_backend_hide fe;
            fe = commit_string text fe;
            fe = commit fe;
            fe = text_ui_reset_tracking fe
        in fe\<lparr>core := api_notify_commit env (core fe)\<rparr>)"

definition on_composition_callback :: "('e, 'x) frontend \<Rightarrow> ('e, 'x) frontend" where
  "on_composition_callback fe =
     (if session fe = None then fe else fe\<lparr>popup_update_pending := True\<rparr>)"

definition deliver_callback ::
    "('e, 'x) env \<Rightarrow> core_callback \<Rightarrow> ('e, 'x) frontend \<Rightarrow> ('e, 'x) frontend" where
  "deliver_callback env cb fe = (case cb of
       CbCommit t \<Rightarrow> on_commit_callback env t fe
     | CbComposition \<Rightarrow> on_composition_callback fe)"

text \<open>A call into the core: its new state, then its callbacks in order.\<close>

definition deliver_callbacks ::
    "('e, 'x) env \<Rightarrow> core_callback list \<Rightarrow> ('e, 'x) frontend \<Rightarrow> ('e, 'x) frontend" where
  "deliver_callbacks env cbs fe = fold (deliver_callback env) cbs fe"

definition core_process_key ::
    "('e, 'x) env \<Rightarrow> key_event \<Rightarrow> ('e, 'x) frontend \<Rightarrow> bool \<times> ('e, 'x) frontend" where
  "core_process_key env ev fe =
     (case api_process_key env ev (core fe) of
        (handled, cbs, c) \<Rightarrow> (handled, deliver_callbacks env cbs (fe\<lparr>core := c\<rparr>)))"

definition core_call ::
    "('e, 'x) env \<Rightarrow> ('e \<Rightarrow> core_callback list \<times> 'e) \<Rightarrow> ('e, 'x) frontend \<Rightarrow> ('e, 'x) frontend" where
  "core_call env f fe =
     (case f (core fe) of (cbs, c) \<Rightarrow> deliver_callbacks env cbs (fe\<lparr>core := c\<rparr>))"

subsection \<open>Drawing the preedit\<close>

text \<open>Allocation inside this path always succeeds here.\<close>

definition update_wayland_text_ui :: "('e, 'x) env \<Rightarrow> ('e, 'x) frontend \<Rightarrow> ('e, 'x) frontend" where
  "update_wayland_text_ui env fe = (case session fe of
       None \<Rightarrow> fe
     | Some s \<Rightarrow>
         (case build_plain_preedit (\<lambda>_. True) (api_preedit env (core fe)) of
            None \<Rightarrow> fe
          | Some (plain, cursor) \<Rightarrow>
              let new_text = (case plain of None \<Rightarrow> '''' | Some t \<Rightarrow> t);
                  plan = text_ui_plan_update (last_preedit_text s) (last_preedit_cursor s)
                           (Some new_text) cursor;
                  fe = text_ui_backend_update fe;
                  fe = fe\<lparr>popup_update_pending := False\<rparr>;
                  fe = (if fe_text_ui_backend fe \<and> sys_present_retry env
                        then fe\<lparr>popup_update_pending := True\<rparr> else fe);
                  fe = (if plan = TEXT_UI_SYNC_PREEDIT_AND_POPUP
                        then commit (if plain = None then set_preedit (Some '''') (-1) (-1) fe
                                     else set_preedit plain cursor cursor fe)
                        else fe)
              in upd_session (\<lambda>s. s\<lparr>last_preedit_text := plain, last_preedit_cursor := cursor\<rparr>) fe))"

definition session_flush_ui_update :: "('e, 'x) env \<Rightarrow> ('e, 'x) frontend \<Rightarrow> ('e, 'x) frontend" where
  "session_flush_ui_update env fe = (if session fe = None then fe else update_wayland_text_ui env fe)"

subsection \<open>What the output path leaves alone\<close>

text \<open>
  Committing and drawing never touch the grab, the virtual keyboard, the tracking of keys or the
  lifecycle phase, and send no key event.
\<close>

lemma emit_keeps [simp]: "keeps_keyboard (emit r fe) fe"
  by (simp add: emit_def)

lemma upd_session_keeps [simp]: "keeps_keyboard (upd_session f fe) fe"
  by (simp add: upd_session_def)

abbreviation keeps_keys :: "('e, 'x) frontend \<Rightarrow> ('e, 'x) frontend \<Rightarrow> bool" where
  "keeps_keys fe' fe \<equiv>
     keeps_objects fe' fe \<and> keeps_tracking fe' fe \<and> keeps_keyboard fe' fe \<and> keeps_phase fe' fe \<and>
     (\<forall>key. app_key_down key (out fe') = app_key_down key (out fe)) \<and>
     (session fe' = None) = (session fe = None)"

lemma text_ui_reset_tracking_keeps [simp]: "keeps_keys (text_ui_reset_tracking fe) fe"
  by (simp add: text_ui_reset_tracking_def)

lemma text_ui_backend_hide_keeps [simp]: "keeps_keys (text_ui_backend_hide fe) fe"
  by (simp add: text_ui_backend_hide_def)

lemma text_ui_backend_update_keeps [simp]: "keeps_keys (text_ui_backend_update fe) fe"
  by (simp add: text_ui_backend_update_def)

lemma text_ui_backend_show_status_keeps [simp]: "keeps_keys (text_ui_backend_show_status t fe) fe"
  by (simp add: text_ui_backend_show_status_def)

lemma text_ui_backend_hide_status_keeps [simp]: "keeps_keys (text_ui_backend_hide_status fe) fe"
  by (simp add: text_ui_backend_hide_status_def)

lemma commit_string_keeps [simp]: "keeps_keys (commit_string t fe) fe"
  by (simp add: commit_string_def split: option.split)

lemma set_preedit_keeps [simp]: "keeps_keys (set_preedit t cb ce fe) fe"
  by (simp add: set_preedit_def)

lemma commit_keeps [simp]: "keeps_keys (commit fe) fe"
  by (simp add: commit_def)

lemma on_commit_callback_keeps [simp]: "keeps_keys (on_commit_callback env t fe) fe"
  by (simp add: on_commit_callback_def Let_def)

lemma on_composition_callback_keeps [simp]: "keeps_keys (on_composition_callback fe) fe"
  by (simp add: on_composition_callback_def)

lemma deliver_callback_keeps [simp]: "keeps_keys (deliver_callback env cb fe) fe"
  by (simp add: deliver_callback_def split: core_callback.split)

lemma deliver_callbacks_keeps [simp]: "keeps_keys (deliver_callbacks env cbs fe) fe"
  unfolding deliver_callbacks_def by (induction cbs arbitrary: fe) simp_all

lemma core_process_key_keeps [simp]: "keeps_keys (snd (core_process_key env ev fe)) fe"
  by (simp add: core_process_key_def case_prod_beta)

lemma core_call_keeps [simp]: "keeps_keys (core_call env f fe) fe"
  by (simp add: core_call_def case_prod_beta)

lemma update_wayland_text_ui_keeps [simp]: "keeps_keys (update_wayland_text_ui env fe) fe"
  by (simp add: update_wayland_text_ui_def Let_def del: not_None_eq split: option.split)

lemma session_flush_ui_update_keeps [simp]: "keeps_keys (session_flush_ui_update env fe) fe"
  by (simp add: session_flush_ui_update_def)

lemma core_process_key_handled [simp]:
  "fst (core_process_key env ev fe) = fst (api_process_key env ev (core fe))"
  by (simp add: core_process_key_def case_prod_beta)

end
