(* ===== verification/Lifecycle_Ops.thy ===== *)
theory Lifecycle_Ops
  imports Commit_Path
begin

section \<open>Grab lifecycle\<close>

text \<open>
  Creating and destroying the keyboard grab (\<^verbatim>\<open>wl_keyboard.c\<close>, with the repeat timer of
  \<^verbatim>\<open>keyboard_repeat.c\<close>) and the lifecycle operations built on them (\<^verbatim>\<open>lifecycle.c\<close>): the
  phase, the hard reset of the keyboard boundary, the scrub on resume and the observation of the
  axes.
\<close>

declare not_None_eq [simp del]

subsection \<open>Repeat timer, guard and tracking\<close>

definition keyboard_repeat_stop :: "('e, 'x) frontend \<Rightarrow> ('e, 'x) frontend" where
  "keyboard_repeat_stop fe = (case keyboard fe of
       None \<Rightarrow> fe
     | Some kb \<Rightarrow>
         upd_keyboard (\<lambda>k. k\<lparr>repeating := False\<rparr>)
           (if repeat_timer_fd kb \<ge> 0 then emit ReqTimerDisarm fe else fe))"

definition keyboard_cancel_repeat :: "('e, 'x) frontend \<Rightarrow> ('e, 'x) frontend" where
  "keyboard_cancel_repeat fe = (case keyboard fe of
       None \<Rightarrow> fe
     | Some kb \<Rightarrow> if repeating kb then keyboard_repeat_stop fe else fe)"

definition guard_reset :: "('e, 'x) frontend \<Rightarrow> ('e, 'x) frontend" where
  "guard_reset fe = fe\<lparr>guard_reject_press_streak := 0, guard_reject_press_window_start_ms := 0\<rparr>"

definition tracking_reset :: "('e, 'x) frontend \<Rightarrow> ('e, 'x) frontend" where
  "tracking_reset fe =
     guard_reset
       (fe\<lparr>key_states := key_tracking_reset (key_states fe) MAX_TRACKED_KEYS,
           key_generations := key_tracking_reset_generations (key_generations fe) MAX_TRACKED_KEYS\<rparr>)"

definition bump_key_generation :: "('e, 'x) frontend \<Rightarrow> ('e, 'x) frontend" where
  "bump_key_generation fe =
     (let g = active_key_generation fe + 1
      in fe\<lparr>active_key_generation := (if g = 0 then 1 else g)\<rparr>)"

subsection \<open>Creation and destruction of the grab\<close>

definition key_arbiter_init :: TypioKeyArbiter where
  "key_arbiter_init = \<lparr>ar_state = ARBITER_IDLE, ar_buffer = []\<rparr>"

definition fresh_keyboard :: "('e, 'x) env \<Rightarrow> ('e, 'x) frontend \<Rightarrow> 'x keyboard" where
  "fresh_keyboard env fe =
     \<lparr>kb_grab = True, xkb = None, physical_modifiers = 0, mods_depressed = 0, mods_latched = 0,
      mods_locked = 0, mods_group = 0, saw_blocking_modifier = False, repeat_rate = 0,
      repeat_delay = 0, repeat_timer_fd = sys_timerfd env, repeat_key = 0, repeat_time = 0,
      repeating = False, suppress_stale_keys = True, startup_suppressed_count = 0,
      created_at_epoch = dispatch_epoch fe, arbiter = key_arbiter_init\<rparr>"

definition keyboard_create ::
    "('e, 'x) env \<Rightarrow> ('e, 'x) frontend \<Rightarrow> 'x keyboard option \<times> ('e, 'x) frontend" where
  "keyboard_create env fe =
     (if \<not> fe_input_method fe then (None, fe)
      else if \<not> sys_calloc_ok env then (None, fe)
      else
        let fe = bump_key_generation fe;
            fe = fe\<lparr>active_generation_owned_keys := False, active_generation_vk_dirty := False,
                    watchdog_armed := True\<rparr>;
            fe = tracking_reset fe;
            kb = fresh_keyboard env fe
        in if \<not> sys_xkb_context_ok env then (None, fe)
           else
             let fe = emit ReqGrabKeyboard fe
             in if \<not> sys_grab_ok env then (None, fe)
                else (Some kb, emit_runtime_state_changed fe))"

text \<open>The caller drops its pointer to the freed keyboard.\<close>

definition keyboard_destroy :: "('e, 'x) env \<Rightarrow> ('e, 'x) frontend \<Rightarrow> ('e, 'x) frontend" where
  "keyboard_destroy env fe =
     (if keyboard fe = None then fe
      else
        let fe = fe\<lparr>watchdog_armed := False\<rparr>;
            fe = vk_release_forwarded_keys env fe;
            fe = keyboard_release_grab fe;
            fe = keyboard_repeat_stop fe;
            fe = tracking_reset fe
        in emit_runtime_state_changed fe)"

subsection \<open>Lifecycle operations (\<^verbatim>\<open>lifecycle.c\<close>)\<close>

text \<open>An unusual transition is traced at warning level and taken all the same.\<close>

definition lifecycle_set_phase ::
    "TypioWlLifecyclePhase \<Rightarrow> ('e, 'x) frontend \<Rightarrow> ('e, 'x) frontend" where
  "lifecycle_set_phase phase fe =
     (emit (ReqPhase (lifecycle_phase fe) phase) fe)\<lparr>lifecycle_phase := phase\<rparr>"

text \<open>
  The hand-over at the boundary, the first half of the hard reset: release what was forwarded and
  clear or carry the modifiers. The boolean is \<^verbatim>\<open>carry_vk_modifiers\<close>.
\<close>

definition hard_reset_hand_over :: "('e, 'x) env \<Rightarrow> ('e, 'x) frontend \<Rightarrow> bool \<times> ('e, 'x) frontend" where
  "hard_reset_hand_over env fe =
     (let own = active_generation_owned_keys fe;
          fe = (if boundary_bridge_should_reset_carried_modifiers (lifecycle_phase fe)
                     (carried_vk_modifiers fe)
                then vk_reset_modifiers env fe else fe)
      in if \<not> own then (False, fe)
         else
           let fe = vk_release_forwarded_keys env fe
           in (case keyboard fe of
                 Some kb \<Rightarrow>
                   if boundary_bridge_should_carry_modifiers (lifecycle_phase fe) own
                        (mods_depressed kb) (mods_latched kb) (mods_locked kb)
                   then (True, (vk_forward_modifier_state env (mods_depressed kb)
                                  (mods_latched kb) (mods_locked kb) (mods_group kb) fe)
                               \<lparr>carried_vk_modifiers := True\<rparr>)
                   else (False, vk_reset_modifiers env fe)
               | None \<Rightarrow> (False, vk_reset_modifiers env fe)))"

definition lifecycle_hard_reset_keyboard :: "('e, 'x) env \<Rightarrow> ('e, 'x) frontend \<Rightarrow> ('e, 'x) frontend" where
  "lifecycle_hard_reset_keyboard env fe =
     (case hard_reset_hand_over env fe of
        (carry, fe) \<Rightarrow>
          let fe = (if keyboard fe \<noteq> None
                    then (keyboard_destroy env (keyboard_cancel_repeat fe))\<lparr>keyboard := None\<rparr>
                    else fe);
              fe = vk_cancel_keymap_wait env (Some ''keyboard grab cleared before keymap'') fe
          in fe\<lparr>active_generation_owned_keys := False, active_generation_vk_dirty := carry\<rparr>)"

definition lifecycle_on_resume :: "('e, 'x) env \<Rightarrow> ('e, 'x) frontend \<Rightarrow> ('e, 'x) frontend" where
  "lifecycle_on_resume env fe =
     (let fe = lifecycle_hard_reset_keyboard env fe;
          fe = vk_reset_modifiers env fe;
          fe = fe\<lparr>carried_vk_modifiers := False, active_generation_vk_dirty := False\<rparr>;
          fe = bump_key_generation fe;
          fe = fe\<lparr>key_states := key_tracking_reset (key_states fe) MAX_TRACKED_KEYS,
                  key_generations := key_tracking_reset_generations (key_generations fe) MAX_TRACKED_KEYS\<rparr>;
          fe = set_preedit (Some '''') (-1) (-1) fe;
          fe = commit fe;
          fe = (if lifecycle_phase fe = PHASE_ACTIVE
                then lifecycle_set_phase PHASE_DEACTIVATING fe else fe);
          fe = (if lifecycle_phase fe \<noteq> PHASE_INACTIVE
                then lifecycle_set_phase PHASE_INACTIVE fe else fe)
      in fe\<lparr>pending_reactivation := False\<rparr>)"

definition session_is_focused :: "('e, 'x) env \<Rightarrow> ('e, 'x) frontend \<Rightarrow> bool" where
  "session_is_focused env fe \<longleftrightarrow> session fe \<noteq> None \<and> api_is_focused env (core fe)"

definition lifecycle_observe :: "('e, 'x) env \<Rightarrow> ('e, 'x) frontend \<Rightarrow> TypioWlLifecycleState" where
  "lifecycle_observe env fe =
     \<lparr>ls_conn = (if fe_display fe then CONN_CONNECTED else CONN_DISCONNECTED),
      ls_focus = (if session_is_focused env fe then FOCUS_FOCUSED else FOCUS_UNFOCUSED),
      ls_grab = (if keyboard fe \<noteq> None then GRAB_READY else GRAB_NONE),
      ls_comp = (case session fe of
                   None \<Rightarrow> COMP_IDLE
                 | Some s \<Rightarrow> (case last_preedit_text s of
                                None \<Rightarrow> COMP_IDLE
                              | Some t \<Rightarrow> if t \<noteq> [] then COMP_COMPOSING else COMP_IDLE))\<rparr>"

subsection \<open>What the operations leave alone\<close>

lemma keyboard_repeat_stop_keeps [simp]:
  "keeps_context (keyboard_repeat_stop fe) fe"
  "keeps_objects (keyboard_repeat_stop fe) fe"
  "keeps_tracking (keyboard_repeat_stop fe) fe"
  "running (keyboard_repeat_stop fe) = running fe"
  "vk_state (keyboard_repeat_stop fe) = vk_state fe"
  "vk_drop_count (keyboard_repeat_stop fe) = vk_drop_count fe"
  "carried_vk_modifiers (keyboard_repeat_stop fe) = carried_vk_modifiers fe"
  "app_key_down key (out (keyboard_repeat_stop fe)) = app_key_down key (out fe)"
  by (simp_all add: keyboard_repeat_stop_def split: option.split)

lemma keyboard_repeat_stop_keyboard [simp]:
  "keyboard (keyboard_repeat_stop fe) = map_option (\<lambda>k. k\<lparr>repeating := False\<rparr>) (keyboard fe)"
  by (auto simp: keyboard_repeat_stop_def split: option.split)

lemma keyboard_cancel_repeat_keeps [simp]:
  "keeps_context (keyboard_cancel_repeat fe) fe"
  "keeps_objects (keyboard_cancel_repeat fe) fe"
  "keeps_tracking (keyboard_cancel_repeat fe) fe"
  "running (keyboard_cancel_repeat fe) = running fe"
  "vk_state (keyboard_cancel_repeat fe) = vk_state fe"
  "vk_drop_count (keyboard_cancel_repeat fe) = vk_drop_count fe"
  "carried_vk_modifiers (keyboard_cancel_repeat fe) = carried_vk_modifiers fe"
  "app_key_down key (out (keyboard_cancel_repeat fe)) = app_key_down key (out fe)"
  by (simp_all add: keyboard_cancel_repeat_def split: option.split)

lemma keyboard_cancel_repeat_keyboard [simp]:
  "keyboard (keyboard_cancel_repeat fe) = map_option (\<lambda>k. k\<lparr>repeating := False\<rparr>) (keyboard fe)"
  by (auto simp: keyboard_cancel_repeat_def split: option.split)

lemma tracking_reset_keeps [simp]:
  "keeps_context (tracking_reset fe) fe"
  "keeps_keyboard (tracking_reset fe) fe"
  "active_key_generation (tracking_reset fe) = active_key_generation fe"
  "fe_virtual_keyboard (tracking_reset fe) = fe_virtual_keyboard fe"
  "fe_input_method (tracking_reset fe) = fe_input_method fe"
  "fe_display (tracking_reset fe) = fe_display fe"
  "dispatch_epoch (tracking_reset fe) = dispatch_epoch fe"
  "shortcuts (tracking_reset fe) = shortcuts fe"
  "vk_keymap_generation (tracking_reset fe) = vk_keymap_generation fe"
  "active_generation_owned_keys (tracking_reset fe) = active_generation_owned_keys fe"
  "out (tracking_reset fe) = out fe"
  by (simp_all add: tracking_reset_def guard_reset_def)

lemma tracking_reset_cleared [simp]:
  "k < MAX_TRACKED_KEYS \<Longrightarrow> key_states (tracking_reset fe) k = TRACK_IDLE"
  "k < MAX_TRACKED_KEYS \<Longrightarrow> key_generations (tracking_reset fe) k = 0"
  by (simp_all add: tracking_reset_def guard_reset_def)

lemma lifecycle_set_phase_keeps [simp]:
  "keeps_objects (lifecycle_set_phase p fe) fe"
  "keeps_tracking (lifecycle_set_phase p fe) fe"
  "keeps_keyboard (lifecycle_set_phase p fe) fe"
  "core (lifecycle_set_phase p fe) = core fe"
  "session (lifecycle_set_phase p fe) = session fe"
  "im_serial (lifecycle_set_phase p fe) = im_serial fe"
  "pending_reactivation (lifecycle_set_phase p fe) = pending_reactivation fe"
  "app_key_down key (out (lifecycle_set_phase p fe)) = app_key_down key (out fe)"
  by (simp_all add: lifecycle_set_phase_def)

lemma lifecycle_set_phase_phase [simp]: "lifecycle_phase (lifecycle_set_phase p fe) = p"
  by (simp add: lifecycle_set_phase_def)

lemma bump_key_generation_nonzero: "active_key_generation (bump_key_generation fe) \<noteq> 0"
  by (simp add: bump_key_generation_def Let_def)

lemma bump_key_generation_keeps [simp]:
  "keeps_context (bump_key_generation fe) fe"
  "keeps_tracking (bump_key_generation fe) fe"
  "keeps_keyboard (bump_key_generation fe) fe"
  "fe_virtual_keyboard (bump_key_generation fe) = fe_virtual_keyboard fe"
  "fe_input_method (bump_key_generation fe) = fe_input_method fe"
  "fe_display (bump_key_generation fe) = fe_display fe"
  "dispatch_epoch (bump_key_generation fe) = dispatch_epoch fe"
  "vk_keymap_generation (bump_key_generation fe) = vk_keymap_generation fe"
  "shortcuts (bump_key_generation fe) = shortcuts fe"
  "out (bump_key_generation fe) = out fe"
  by (simp_all add: bump_key_generation_def Let_def)

subsection \<open>The application's modifiers\<close>

text \<open>The modifier state the virtual keyboard last sent to the application.\<close>

fun app_mods_step :: "u32 \<times> u32 \<times> u32 \<times> u32 \<Rightarrow> req \<Rightarrow> u32 \<times> u32 \<times> u32 \<times> u32" where
  "app_mods_step m (ReqVkModifiers d l k g) = (d, l, k, g)"
| "app_mods_step m _ = m"

definition app_mods :: "req list \<Rightarrow> u32 \<times> u32 \<times> u32 \<times> u32" where
  "app_mods reqs = foldl app_mods_step (0, 0, 0, 0) reqs"

lemma app_mods_append [simp]: "app_mods (reqs @ rs) = foldl app_mods_step (app_mods reqs) rs"
  by (simp add: app_mods_def)

lemma app_mods_releases [simp]:
  "foldl app_mods_step m (map (\<lambda>k. ReqVkKey t (f k) p) ks) = m"
  by (induction ks) simp_all

lemma app_mods_keeps [simp]:
  "app_mods (out (keyboard_release_grab fe)) = app_mods (out fe)"
  "app_mods (out (keyboard_repeat_stop fe)) = app_mods (out fe)"
  "app_mods (out (keyboard_cancel_repeat fe)) = app_mods (out fe)"
  "app_mods (out (vk_set_state env st fe)) = app_mods (out fe)"
  "app_mods (out (vk_trigger_fail_safe fe)) = app_mods (out fe)"
  "app_mods (out (vk_cancel_keymap_wait env r fe)) = app_mods (out fe)"
  "app_mods (out (vk_release_forwarded_keys env fe)) = app_mods (out fe)"
  by (simp_all add: keyboard_release_grab_def keyboard_repeat_stop_def keyboard_cancel_repeat_def
      vk_set_state_def vk_trigger_fail_safe_def frontend_stop_def vk_cancel_keymap_wait_def
      vk_record_keymap_cancel_def vk_release_forwarded_keys_def Let_def split: option.split)

lemma vk_is_ready_app_mods [simp]: "app_mods (out (snd (vk_is_ready env fe))) = app_mods (out fe)"
  by (simp add: vk_is_ready_def Let_def)

lemma vk_reset_modifiers_app_mods:
  "app_mods (out (vk_reset_modifiers env fe)) =
     (if vk_can_forward fe then (0, 0, 0, 0) else app_mods (out fe))"
  by (simp add: vk_reset_modifiers_def vk_mark_forward_progress_def case_prod_beta Let_def)

lemma vk_forward_modifier_state_app_mods:
  "app_mods (out (vk_forward_modifier_state env d l k g fe)) =
     (if vk_can_forward fe then (d, l, k, g) else app_mods (out fe))"
  by (simp add: vk_forward_modifier_state_def vk_mark_forward_progress_def case_prod_beta)

lemma keyboard_destroy_app_mods [simp]:
  "app_mods (out (keyboard_destroy env fe)) = app_mods (out fe)"
  by (simp add: keyboard_destroy_def Let_def)

subsection \<open>Readiness across the operations\<close>

lemma vk_set_state_vk_state [simp]: "vk_state (vk_set_state env st fe) = st"
  by (simp add: vk_set_state_def Let_def)

lemma vk_is_ready_vk_state:
  "vk_state (snd (vk_is_ready env fe)) = (if vk_can_forward fe then VK_STATE_READY else vk_state fe)"
  by (auto simp: vk_is_ready_def vk_can_forward_def Let_def)

lemma vk_forward_modifier_state_vk_state:
  "vk_state (vk_forward_modifier_state env d l k g fe) =
     (if vk_can_forward fe then VK_STATE_READY else vk_state fe)"
  by (simp add: vk_forward_modifier_state_def case_prod_beta vk_is_ready_vk_state)

lemma vk_reset_modifiers_vk_state:
  "vk_state (vk_reset_modifiers env fe) = (if vk_can_forward fe then VK_STATE_READY else vk_state fe)"
  by (simp add: vk_reset_modifiers_def case_prod_beta Let_def vk_is_ready_vk_state)

lemma vk_can_release_keeps [simp]:
  "vk_can_release (vk_forward_modifier_state env d l k g fe) = vk_can_release fe"
  "vk_can_release (vk_reset_modifiers env fe) = vk_can_release fe"
  by (auto simp: vk_can_release_def vk_can_forward_def vk_forward_modifier_state_vk_state
      vk_reset_modifiers_vk_state)

lemma vk_can_forward_keeps [simp]:
  "vk_can_forward (vk_release_forwarded_keys env fe) = vk_can_forward fe"
  "vk_can_forward (vk_reset_modifiers env fe) = vk_can_forward fe"
  "vk_can_forward (vk_forward_modifier_state env d l k g fe) = vk_can_forward fe"
  by (auto simp: vk_can_forward_def vk_has_current_generation_keymap_def
      vk_reset_modifiers_vk_state vk_forward_modifier_state_vk_state)

lemma no_stuck_key_cong:
  assumes "\<And>key. app_key_down key (out fe') = app_key_down key (out fe)"
    and "key_states fe' = key_states fe" and "vk_can_release fe \<Longrightarrow> vk_can_release fe'"
  shows "no_stuck_key fe' \<Longrightarrow> no_stuck_key fe"
  using assms by (auto simp: no_stuck_key_def)

lemma no_stuck_key_keeps [simp]:
  "no_stuck_key (vk_forward_modifier_state env d l k g fe) = no_stuck_key fe"
  "no_stuck_key (vk_reset_modifiers env fe) = no_stuck_key fe"
  by (simp_all add: no_stuck_key_def)

lemma no_stuck_key_release [simp]:
  "no_stuck_key fe \<Longrightarrow> no_stuck_key (vk_release_forwarded_keys env fe)"
  by (cases "vk_can_release fe")
     (auto simp: release_all_clears no_stuck_key_def[of "vk_release_forwarded_keys env fe"]
       vk_release_forwarded_keys_blocked)

subsection \<open>The hard reset\<close>

text \<open>
  A release is owed for a tracked key whose state says so, when the virtual keyboard can carry it. The
  forced release pays just these, whether or not this generation owned keys, and leaves none.
\<close>

definition release_owed :: "('e, 'x) frontend \<Rightarrow> u32 \<Rightarrow> bool" where
  "release_owed fe key \<longleftrightarrow>
     vk_can_release fe \<and> unat key < MAX_TRACKED_KEYS \<and> track_owes_release (key_states fe (unat key))"

lemma release_owed_cong:
  "vk_can_release fe' = vk_can_release fe \<Longrightarrow> key_states fe' = key_states fe \<Longrightarrow> release_owed fe' key = release_owed fe key"
  by (simp add: release_owed_def)

lemma no_stuck_owed: "no_stuck_key fe \<Longrightarrow> vk_can_release fe \<Longrightarrow> unat key < MAX_TRACKED_KEYS \<Longrightarrow> app_key_down key (out fe) \<Longrightarrow> release_owed fe key"
  by (simp add: release_owed_def no_stuck_key_def)

lemma forced_release:
  "app_key_down key (out (vk_release_forwarded_keys env fe)) \<longleftrightarrow> app_key_down key (out fe) \<and> \<not> release_owed fe key"
  "\<not> release_owed (vk_release_forwarded_keys env fe) key"
proof -
  show "app_key_down key (out (vk_release_forwarded_keys env fe)) \<longleftrightarrow> app_key_down key (out fe) \<and> \<not> release_owed fe key"
    by (cases "vk_can_release fe")
      (auto simp: vk_release_forwarded_keys_app_key_down vk_release_forwarded_keys_blocked release_owed_def)
  have "vk_can_release (vk_release_forwarded_keys env fe) = vk_can_release fe" by (simp add: vk_can_release_def)
  moreover have "\<not> track_owes_release TRACK_RELEASED_PENDING" by (simp add: track_owes_release_def)
  ultimately show "\<not> release_owed (vk_release_forwarded_keys env fe) key"
    by (cases "vk_can_release fe") (simp_all add: release_owed_def vk_release_forwarded_keys_states)
qed

lemma release_owed_keeps [simp]:
  "release_owed (vk_forward_modifier_state env d l k g fe) key = release_owed fe key"
  "release_owed (vk_reset_modifiers env fe) key = release_owed fe key"
  "release_owed (keyboard_cancel_repeat fe) key = release_owed fe key"
  "release_owed (fe\<lparr>carried_vk_modifiers := c\<rparr>) key = release_owed fe key"
  by (rule release_owed_cong; simp add: vk_can_release_def; fail | rule release_owed_cong; simp)+

lemma keyboard_destroy_releases:
  assumes "keyboard fe \<noteq> None"
  shows "app_key_down key (out (keyboard_destroy env fe)) \<longleftrightarrow> app_key_down key (out fe) \<and> \<not> release_owed fe key"
proof -
  have "release_owed (fe\<lparr>watchdog_armed := False\<rparr>) key = release_owed fe key"
    by (rule release_owed_cong) (simp_all add: vk_can_release_def)
  then show ?thesis using assms by (auto simp: keyboard_destroy_def Let_def forced_release)
qed

lemma keyboard_destroy_tracking:
  assumes "keyboard fe \<noteq> None" and "k < MAX_TRACKED_KEYS"
  shows "key_states (keyboard_destroy env fe) k = TRACK_IDLE"
    and "key_generations (keyboard_destroy env fe) k = 0"
  using assms by (auto simp: keyboard_destroy_def Let_def)

lemma keyboard_destroy_keeps [simp]:
  "keeps_context (keyboard_destroy env fe) fe"
  "running (keyboard_destroy env fe) = running fe"
  "vk_state (keyboard_destroy env fe) = vk_state fe"
  "vk_keymap_generation (keyboard_destroy env fe) = vk_keymap_generation fe"
  "carried_vk_modifiers (keyboard_destroy env fe) = carried_vk_modifiers fe"
  "active_key_generation (keyboard_destroy env fe) = active_key_generation fe"
  "fe_virtual_keyboard (keyboard_destroy env fe) = fe_virtual_keyboard fe"
  "fe_input_method (keyboard_destroy env fe) = fe_input_method fe"
  "fe_display (keyboard_destroy env fe) = fe_display fe"
  "dispatch_epoch (keyboard_destroy env fe) = dispatch_epoch fe"
  by (simp_all add: keyboard_destroy_def Let_def)

lemma hand_over_frame [simp]:
  "keeps_context (snd (hard_reset_hand_over env fe)) fe"
  "keeps_objects (snd (hard_reset_hand_over env fe)) fe"
  by (simp_all add: hard_reset_hand_over_def Let_def split: option.split)

lemma keyboard_presence_grab [simp]:
  "(keyboard (keyboard_release_grab fe) = None) = (keyboard fe = None)"
  by (simp add: keyboard_release_grab_def split: option.split)

lemma keyboard_presence_fail_safe [simp]:
  "(keyboard (vk_trigger_fail_safe fe) = None) = (keyboard fe = None)"
  by (auto simp: vk_trigger_fail_safe_def Let_def)

lemma keyboard_presence_ready [simp]:
  "(keyboard (snd (vk_is_ready env fe)) = None) = (keyboard fe = None)"
  by (simp add: vk_is_ready_def Let_def)

lemma keyboard_presence [simp]:
  "(keyboard (vk_forward_key env t key p fe) = None) = (keyboard fe = None)"
  "(keyboard (vk_forward_modifier_state env d l k g fe) = None) = (keyboard fe = None)"
  "(keyboard (vk_forward_modifiers env d l k g fe) = None) = (keyboard fe = None)"
  "(keyboard (vk_reset_modifiers env fe) = None) = (keyboard fe = None)"
  by (simp_all add: vk_forward_key_def vk_forward_modifier_state_def vk_forward_modifiers_def
      vk_reset_modifiers_def vk_mark_forward_progress_def case_prod_beta Let_def)

lemma hand_over_keyboard [simp]:
  "(keyboard (snd (hard_reset_hand_over env fe)) = None) = (keyboard fe = None)"
  by (simp add: hard_reset_hand_over_def Let_def not_None_eq [symmetric]
      split: option.split)

lemma cancel_repeat_boundary [simp]:
  "vk_can_release (keyboard_cancel_repeat fe) = vk_can_release fe"
  "no_stuck_key (keyboard_cancel_repeat fe) = no_stuck_key fe"
  by (simp_all add: no_stuck_key_def vk_can_release_def)

lemma vk_can_release_more [simp]:
  "vk_can_release (vk_release_forwarded_keys env fe) = vk_can_release fe"
  "vk_can_release (fe\<lparr>carried_vk_modifiers := c\<rparr>) = vk_can_release fe"
  by (simp_all add: vk_can_release_def)

lemma no_stuck_key_more [simp]:
  "no_stuck_key (fe\<lparr>carried_vk_modifiers := c\<rparr>) = no_stuck_key fe"
  by (simp add: no_stuck_key_def)

lemma hand_over_can_release [simp]:
  "vk_can_release (snd (hard_reset_hand_over env fe)) = vk_can_release fe"
  by (simp add: hard_reset_hand_over_def Let_def split: option.split)

lemma hand_over_no_stuck:
  "no_stuck_key fe \<Longrightarrow> no_stuck_key (snd (hard_reset_hand_over env fe))"
  by (simp add: hard_reset_hand_over_def Let_def split: option.split)

lemma hand_over_releases:
  "app_key_down key (out (snd (hard_reset_hand_over env fe))) \<longleftrightarrow>
     app_key_down key (out fe) \<and> \<not> (active_generation_owned_keys fe \<and> release_owed fe key)"
  "release_owed (snd (hard_reset_hand_over env fe)) key \<longleftrightarrow> release_owed fe key \<and> \<not> active_generation_owned_keys fe"
  by (simp_all add: hard_reset_hand_over_def Let_def forced_release split: option.split)

lemma hard_reset_frame [simp]:
  "keyboard (lifecycle_hard_reset_keyboard env fe) = None"
  "\<not> active_generation_owned_keys (lifecycle_hard_reset_keyboard env fe)"
  "keeps_context (lifecycle_hard_reset_keyboard env fe) fe"
  "active_key_generation (lifecycle_hard_reset_keyboard env fe) = active_key_generation fe"
  "fe_virtual_keyboard (lifecycle_hard_reset_keyboard env fe) = fe_virtual_keyboard fe"
  "fe_input_method (lifecycle_hard_reset_keyboard env fe) = fe_input_method fe"
  "fe_display (lifecycle_hard_reset_keyboard env fe) = fe_display fe"
  "dispatch_epoch (lifecycle_hard_reset_keyboard env fe) = dispatch_epoch fe"
  "vk_keymap_generation (lifecycle_hard_reset_keyboard env fe) = vk_keymap_generation fe"
  by (simp_all add: lifecycle_hard_reset_keyboard_def Let_def case_prod_beta)

lemma hard_reset_releases:
  "app_key_down key (out (lifecycle_hard_reset_keyboard env fe)) \<longleftrightarrow>
     app_key_down key (out fe) \<and> \<not> (release_owed fe key \<and> (keyboard fe \<noteq> None \<or> active_generation_owned_keys fe))"
proof -
  let ?h = "snd (hard_reset_hand_over env fe)"
  let ?r = "if keyboard ?h \<noteq> None then (keyboard_destroy env (keyboard_cancel_repeat ?h))\<lparr>keyboard := None\<rparr> else ?h"
  have "app_key_down key (out (lifecycle_hard_reset_keyboard env fe)) = app_key_down key (out ?r)"
    by (simp add: lifecycle_hard_reset_keyboard_def Let_def case_prod_beta)
  also have "\<dots> \<longleftrightarrow> app_key_down key (out ?h) \<and> \<not> (keyboard fe \<noteq> None \<and> release_owed ?h key)"
  proof (cases "keyboard fe = None")
    case False
    then have "keyboard (keyboard_cancel_repeat ?h) \<noteq> None" by simp
    from keyboard_destroy_releases [OF this] False show ?thesis by simp
  qed simp
  finally show ?thesis by (auto simp: hand_over_releases)
qed

text \<open>And the tracking of a destroyed grab is forgotten, so nothing is released twice.\<close>

lemma hard_reset_tracking:
  assumes "keyboard fe \<noteq> None" and "k < MAX_TRACKED_KEYS"
  shows "key_states (lifecycle_hard_reset_keyboard env fe) k = TRACK_IDLE"
    and "key_generations (lifecycle_hard_reset_keyboard env fe) k = 0"
  using assms
  by (auto simp: lifecycle_hard_reset_keyboard_def Let_def case_prod_beta keyboard_destroy_tracking)

text \<open>
  The application's modifiers are zero after a reset of an owned generation, except where a
  deactivation hands the held ones over, and then the carry flag says so.
\<close>

lemma hand_over_mods:
  assumes "active_generation_owned_keys fe" and "vk_can_forward fe"
  shows "if fst (hard_reset_hand_over env fe)
         then lifecycle_phase fe = PHASE_DEACTIVATING \<and> carried_vk_modifiers (snd (hard_reset_hand_over env fe))
         else app_mods (out (snd (hard_reset_hand_over env fe))) = (0, 0, 0, 0)"
  using assms
  by (auto simp: hard_reset_hand_over_def Let_def vk_reset_modifiers_app_mods
      boundary_bridge_should_carry_modifiers_def split: option.split if_splits)

lemma hard_reset_mods:
  assumes "active_generation_owned_keys fe" and "vk_can_forward fe"
  shows "if active_generation_vk_dirty (lifecycle_hard_reset_keyboard env fe)
         then lifecycle_phase fe = PHASE_DEACTIVATING \<and>
              carried_vk_modifiers (lifecycle_hard_reset_keyboard env fe)
         else app_mods (out (lifecycle_hard_reset_keyboard env fe)) = (0, 0, 0, 0)"
  using hand_over_mods[OF assms]
  by (simp add: lifecycle_hard_reset_keyboard_def Let_def case_prod_beta)

text \<open>
  The scrub leaves nothing of the old grab: no keyboard, no owned key, the phase inactive, and a
  new key generation, so that no tracked key counts as owned by it.
\<close>

lemma bump_key_generation_eq:
  "active_key_generation fe = active_key_generation fe' \<Longrightarrow>
     active_key_generation (bump_key_generation fe) = active_key_generation (bump_key_generation fe')"
  by (simp add: bump_key_generation_def Let_def)

lemma lifecycle_on_resume_scrubs:
  "keyboard (lifecycle_on_resume env fe) = None"
  "lifecycle_phase (lifecycle_on_resume env fe) = PHASE_INACTIVE"
  "\<not> pending_reactivation (lifecycle_on_resume env fe)"
  "\<not> carried_vk_modifiers (lifecycle_on_resume env fe)"
  "\<not> active_generation_owned_keys (lifecycle_on_resume env fe)"
  "k < MAX_TRACKED_KEYS \<Longrightarrow> key_states (lifecycle_on_resume env fe) k = TRACK_IDLE"
  "k < MAX_TRACKED_KEYS \<Longrightarrow> key_generations (lifecycle_on_resume env fe) k = 0"
  by (simp_all add: lifecycle_on_resume_def Let_def)

lemma lifecycle_on_resume_generation:
  "active_key_generation (lifecycle_on_resume env fe) = active_key_generation (bump_key_generation fe)"
proof -
  have "active_key_generation (lifecycle_on_resume env fe) = active_key_generation
      (bump_key_generation ((vk_reset_modifiers env (lifecycle_hard_reset_keyboard env fe))
        \<lparr>carried_vk_modifiers := False, active_generation_vk_dirty := False\<rparr>))"
    by (simp add: lifecycle_on_resume_def Let_def)
  also have "\<dots> = active_key_generation (bump_key_generation fe)"
    by (rule bump_key_generation_eq) simp
  finally show ?thesis .
qed

lemma lifecycle_on_resume_fences:
  "\<not> key_owned_by_active_generation (lifecycle_on_resume env fe) key"
  by (simp add: key_owned_by_active_generation_def key_get_generation_def lifecycle_on_resume_scrubs
      lifecycle_on_resume_generation bump_key_generation_nonzero [symmetric]
      not_sym [OF bump_key_generation_nonzero])

end
