(* ===== verification/Key_Route.thy ===== *)
theory Key_Route
  imports Lifecycle_Ops
begin

section \<open>Routing of key events\<close>

text \<open>
  Every key event is routed to the engine, to the application through the virtual keyboard, or
  consumed (\<^verbatim>\<open>key_route.c\<close>). The routines are split where the source has its successive
  early returns: latched keys, the startup window, shortcuts and push-to-talk, then the engine.
\<close>

subsection \<open>Decisions and their names\<close>

datatype TypioWlKeyAction = KEY_ACTION_CONSUME | KEY_ACTION_FORWARD

datatype TypioWlKeyReason =
    REASON_NONE
  | REASON_TYPIO_RESERVED
  | REASON_APPLICATION_SHORTCUT
  | REASON_BASIC_PASSTHROUGH
  | REASON_ENGINE_HANDLED
  | REASON_ENGINE_UNHANDLED
  | REASON_MODIFIER_PASSTHROUGH
  | REASON_CANDIDATE_NAVIGATION
  | REASON_STARTUP_SUPPRESSED
  | REASON_RELEASED_PENDING
  | REASON_LATCHED_APP_SHORTCUT
  | REASON_LATCHED_FORWARDED
  | REASON_STARTUP_STALE_CLEANUP
  | REASON_FORWARDED_RELEASE
  | REASON_ORPHAN_RELEASE_CLEANUP
  | REASON_ORPHAN_RELEASE_CONSUMED
  | REASON_VOICE_PTT
  | REASON_VOICE_PTT_UNAVAILABLE

datatype TypioWlReservedAction =
    RESERVED_ACTION_NONE | RESERVED_ACTION_EMERGENCY_EXIT | RESERVED_ACTION_VOICE_PTT

record TypioWlKeyDecision =
  kd_action :: TypioWlKeyAction
  kd_reason :: TypioWlKeyReason

definition key_action_name :: "TypioWlKeyAction \<Rightarrow> string" where
  "key_action_name a = (case a of KEY_ACTION_FORWARD \<Rightarrow> ''forward'' | KEY_ACTION_CONSUME \<Rightarrow> ''consume'')"

definition key_reason_name :: "TypioWlKeyReason \<Rightarrow> string" where
  "key_reason_name r = (case r of
       REASON_TYPIO_RESERVED \<Rightarrow> ''typio_reserved''
     | REASON_APPLICATION_SHORTCUT \<Rightarrow> ''application_shortcut''
     | REASON_BASIC_PASSTHROUGH \<Rightarrow> ''basic_passthrough''
     | REASON_ENGINE_HANDLED \<Rightarrow> ''engine_handled''
     | REASON_ENGINE_UNHANDLED \<Rightarrow> ''engine_unhandled''
     | REASON_MODIFIER_PASSTHROUGH \<Rightarrow> ''modifier_passthrough''
     | REASON_CANDIDATE_NAVIGATION \<Rightarrow> ''candidate_navigation''
     | REASON_STARTUP_SUPPRESSED \<Rightarrow> ''startup_suppressed''
     | REASON_RELEASED_PENDING \<Rightarrow> ''released_pending''
     | REASON_LATCHED_APP_SHORTCUT \<Rightarrow> ''latched_app_shortcut''
     | REASON_LATCHED_FORWARDED \<Rightarrow> ''latched_forwarded''
     | REASON_STARTUP_STALE_CLEANUP \<Rightarrow> ''startup_stale_cleanup''
     | REASON_FORWARDED_RELEASE \<Rightarrow> ''forwarded_release''
     | REASON_ORPHAN_RELEASE_CLEANUP \<Rightarrow> ''orphan_release_cleanup''
     | REASON_ORPHAN_RELEASE_CONSUMED \<Rightarrow> ''orphan_release_consumed''
     | REASON_VOICE_PTT \<Rightarrow> ''voice_ptt''
     | REASON_VOICE_PTT_UNAVAILABLE \<Rightarrow> ''voice_ptt_unavailable''
     | REASON_NONE \<Rightarrow> ''none'')"

definition reserved_action_name :: "TypioWlReservedAction \<Rightarrow> string" where
  "reserved_action_name a = (case a of
       RESERVED_ACTION_EMERGENCY_EXIT \<Rightarrow> ''emergency_exit''
     | RESERVED_ACTION_VOICE_PTT \<Rightarrow> ''voice_ptt''
     | RESERVED_ACTION_NONE \<Rightarrow> ''none'')"

subsection \<open>Classification\<close>

definition key_route_decision :: "TypioWlKeyAction \<Rightarrow> TypioWlKeyReason \<Rightarrow> TypioWlKeyDecision" where
  "key_route_decision a r = \<lparr>kd_action = a, kd_reason = r\<rparr>"

definition key_route_is_shift_keysym :: "u32 \<Rightarrow> bool" where
  "key_route_is_shift_keysym ks \<longleftrightarrow> ks = KEY_Shift_L \<or> ks = KEY_Shift_R"

definition key_route_is_printable_text_unicode :: "u32 \<Rightarrow> bool" where
  "key_route_is_printable_text_unicode u \<longleftrightarrow> 0x20 \<le> u \<and> u \<noteq> 0x7F"

definition key_route_should_forward_basic_text ::
    "('e, 'x) env \<Rightarrow> ('e, 'x) frontend \<Rightarrow> u32 \<Rightarrow> u32 \<Rightarrow> bool" where
  "key_route_should_forward_basic_text env fe modifiers unicode =
     (if modifiers AND (TYPIO_MOD_CTRL OR TYPIO_MOD_ALT OR TYPIO_MOD_SUPER) \<noteq> 0 then False
      else if \<not> key_route_is_printable_text_unicode unicode then False
      else (case api_active_engine env (core fe) of
              None \<Rightarrow> False
            | Some engine_name \<Rightarrow>
                if engine_name \<noteq> ''basic'' then False
                else
                  let route_mode = (case api_config_string env (core fe) ''engines.basic.printable_key_mode'' of
                                      None \<Rightarrow> ''forward'' | Some m \<Rightarrow> m)
                  in if route_mode = ''commit'' then False
                     else if (case api_config_bool env (core fe) ''engines.basic.compose'' of
                                None \<Rightarrow> False | Some b \<Rightarrow> b) then False
                     else True))"

definition key_route_is_app_shortcut :: "u32 \<Rightarrow> u32 \<Rightarrow> bool" where
  "key_route_is_app_shortcut ks modifiers =
     (if modifiers AND (TYPIO_MOD_CTRL OR TYPIO_MOD_ALT OR TYPIO_MOD_SUPER) = 0 then False
      else \<not> is_modifier_keysym ks)"

definition key_route_binding_matches_press :: "TypioShortcutBinding \<Rightarrow> u32 \<Rightarrow> u32 \<Rightarrow> bool" where
  "key_route_binding_matches_press b ks modifiers =
     (if sb_keysym b = 0 then False
      else ks = sb_keysym b \<and> modifiers AND sb_modifiers b = sb_modifiers b)"

definition key_route_reserved_action :: "TypioShortcutConfig \<Rightarrow> u32 \<Rightarrow> u32 \<Rightarrow> TypioWlReservedAction" where
  "key_route_reserved_action sc ks modifiers =
     (if key_route_binding_matches_press (sc_emergency_exit sc) ks modifiers
      then RESERVED_ACTION_EMERGENCY_EXIT
      else if key_route_binding_matches_press (sc_voice_ptt sc) ks modifiers
      then RESERVED_ACTION_VOICE_PTT
      else RESERVED_ACTION_NONE)"

definition key_route_shortcut_decision ::
    "TypioShortcutConfig \<Rightarrow> u32 \<Rightarrow> u32 \<Rightarrow> TypioWlKeyDecision \<times> TypioWlReservedAction" where
  "key_route_shortcut_decision sc ks modifiers =
     (let reserved = key_route_reserved_action sc ks modifiers in
      if reserved \<noteq> RESERVED_ACTION_NONE
      then (key_route_decision KEY_ACTION_CONSUME REASON_TYPIO_RESERVED, reserved)
      else if key_route_is_app_shortcut ks modifiers
      then (key_route_decision KEY_ACTION_FORWARD REASON_APPLICATION_SHORTCUT, reserved)
      else (key_route_decision KEY_ACTION_CONSUME REASON_NONE, reserved))"

definition route_key_event ::
    "TypioEventType \<Rightarrow> u32 \<Rightarrow> u32 \<Rightarrow> u32 \<Rightarrow> u32 \<Rightarrow> u32 \<Rightarrow> bool \<Rightarrow> key_event" where
  "route_key_event ty key ks modifiers unicode time rep =
     \<lparr>ev_type = ty, ev_keycode = key, ev_keysym = ks, ev_modifiers = modifiers,
      ev_unicode = unicode, ev_time = ucast time, ev_is_repeat = rep\<rparr>"

subsection \<open>Presses\<close>

text \<open>
  The first early returns: keys already latched to a route keep it. \<open>None\<close> means that the press
  is classified afresh.
\<close>

definition route_press_latched ::
    "('e, 'x) env \<Rightarrow> u32 \<Rightarrow> u32 \<Rightarrow> ('e, 'x) frontend \<Rightarrow> ('e, 'x) frontend option" where
  "route_press_latched env key time fe =
     (case key_get_state fe key of
        TRACK_RELEASED_PENDING \<Rightarrow> Some fe
      | TRACK_SUPPRESSED_STARTUP \<Rightarrow> Some fe
      | TRACK_APP_SHORTCUT \<Rightarrow>
          (case keyboard fe of
             None \<Rightarrow> Some fe
           | Some kb \<Rightarrow>
               if has_blocking (physical_modifiers kb)
               then Some (vk_forward_key env time key True fe) else Some fe)
      | TRACK_FORWARDED \<Rightarrow> Some (vk_forward_key env time key True fe)
      | _ \<Rightarrow> None)"

text \<open>The startup window: the boolean says that the press was suppressed.\<close>

definition route_press_startup :: "u32 \<Rightarrow> ('e, 'x) frontend \<Rightarrow> bool \<times> ('e, 'x) frontend" where
  "route_press_startup key fe =
     (let fe = key_claim_current_generation key fe in
      case keyboard fe of
        None \<Rightarrow> (False, fe)
      | Some kb \<Rightarrow>
          let suppress = startup_guard_classify_press (created_at_epoch kb) (dispatch_epoch fe)
                           (suppress_stale_keys kb);
              fe = (if suppress_stale_keys kb \<and> startup_suppressed_count kb = 0 \<and>
                       suppress \<noteq> STARTUP_SUPPRESS_STALE_KEY
                    then upd_keyboard (\<lambda>k. k\<lparr>suppress_stale_keys := False\<rparr>) fe else fe)
          in if suppress = STARTUP_SUPPRESS_STALE_KEY
             then (True, upd_keyboard (\<lambda>k. k\<lparr>startup_suppressed_count := startup_suppressed_count k + 1\<rparr>)
                           (key_set_state key TRACK_SUPPRESSED_STARTUP fe))
             else (False, fe))"

definition voice_unavail_hint :: "string option \<Rightarrow> string" where
  "voice_unavail_hint reason =
     take 159 (''[Voice unavailable: '' @ (case reason of None \<Rightarrow> ''unknown'' | Some r \<Rightarrow> r) @ '']'')"

definition route_press_voice ::
    "('e, 'x) env \<Rightarrow> u32 \<Rightarrow> ('e, 'x) frontend \<Rightarrow> ('e, 'x) frontend" where
  "route_press_voice env key fe =
     (if api_voice_available env (core fe)
      then key_set_state key TRACK_VOICE_PTT (fe\<lparr>core := api_voice_start env (core fe)\<rparr>)
      else text_ui_backend_show_status (voice_unavail_hint (api_voice_unavail_reason env (core fe)))
             (key_set_state key TRACK_VOICE_PTT_UNAVAIL fe))"

text \<open>Reserved actions, application shortcuts and the printable text of the basic engine.\<close>

definition route_press_shortcut ::
    "('e, 'x) env \<Rightarrow> u32 \<Rightarrow> u32 \<Rightarrow> u32 \<Rightarrow> u32 \<Rightarrow> u32 \<Rightarrow> ('e, 'x) frontend \<Rightarrow> ('e, 'x) frontend option" where
  "route_press_shortcut env key ks modifiers unicode time fe =
     (case key_route_shortcut_decision (shortcuts fe) ks modifiers of
        (decision, reserved) \<Rightarrow>
          if reserved = RESERVED_ACTION_EMERGENCY_EXIT
          then Some (frontend_stop (keyboard_release_grab (emit ReqDumpRecentLog fe)))
          else if have_voice env \<and> reserved = RESERVED_ACTION_VOICE_PTT \<and>
                  ks = sb_keysym (sc_voice_ptt (shortcuts fe)) \<and>
                  modifiers AND sb_modifiers (sc_voice_ptt (shortcuts fe))
                    = sb_modifiers (sc_voice_ptt (shortcuts fe))
          then Some (route_press_voice env key fe)
          else if kd_reason decision = REASON_APPLICATION_SHORTCUT
          then Some (key_set_state key TRACK_APP_SHORTCUT (vk_forward_key env time key True fe))
          else if key_route_should_forward_basic_text env fe modifiers unicode
          then Some (key_set_state key TRACK_BASIC_PASSTHROUGH (vk_forward_key env time key True fe))
          else None)"

definition route_press_engine ::
    "('e, 'x) env \<Rightarrow> u32 \<Rightarrow> u32 \<Rightarrow> u32 \<Rightarrow> u32 \<Rightarrow> u32 \<Rightarrow> ('e, 'x) frontend \<Rightarrow> ('e, 'x) frontend" where
  "route_press_engine env key ks modifiers unicode time fe =
     (let event = route_key_event EVENT_KEY_PRESS key ks modifiers unicode time False;
          is_modifier = typio_key_event_is_modifier_only event
      in case core_process_key env event fe of
           (handled, fe) \<Rightarrow>
             if \<not> handled \<and> candidate_guard_should_consume (api_candidate_count env (core fe)) ks
             then fe
             else if \<not> handled \<or> is_modifier
             then key_set_state key TRACK_FORWARDED (vk_forward_key env time key True fe)
             else fe)"

definition key_route_process_press ::
    "('e, 'x) env \<Rightarrow> u32 \<Rightarrow> u32 \<Rightarrow> u32 \<Rightarrow> u32 \<Rightarrow> u32 \<Rightarrow> ('e, 'x) frontend \<Rightarrow> ('e, 'x) frontend" where
  "key_route_process_press env key ks modifiers unicode time fe =
     (case route_press_latched env key time fe of
        Some fe' \<Rightarrow> fe'
      | None \<Rightarrow>
          (case route_press_startup key fe of
             (suppressed, fe1) \<Rightarrow>
               if suppressed then fe1
               else (case route_press_shortcut env key ks modifiers unicode time fe1 of
                       Some fe2 \<Rightarrow> fe2
                     | None \<Rightarrow> route_press_engine env key ks modifiers unicode time fe1)))"

subsection \<open>Releases\<close>

definition route_release_startup ::
    "('e, 'x) env \<Rightarrow> u32 \<Rightarrow> u32 \<Rightarrow> ('e, 'x) frontend \<Rightarrow> ('e, 'x) frontend" where
  "route_release_startup env key time fe =
     (let fe = key_clear_tracking key fe;
          fe = upd_keyboard (\<lambda>k. k\<lparr>startup_suppressed_count := startup_suppressed_count k - 1\<rparr>) fe;
          fe = upd_keyboard (\<lambda>k. if suppress_stale_keys k \<and> startup_suppressed_count k = 0
                                  then k\<lparr>suppress_stale_keys := False\<rparr> else k) fe
      in vk_forward_key env time key False fe)"

definition route_release_idle ::
    "('e, 'x) env \<Rightarrow> u32 \<Rightarrow> u32 \<Rightarrow> u32 \<Rightarrow> u32 \<Rightarrow> u32 \<Rightarrow> ('e, 'x) frontend \<Rightarrow> ('e, 'x) frontend" where
  "route_release_idle env key ks modifiers unicode time fe =
     (let event = route_key_event EVENT_KEY_RELEASE key ks modifiers unicode time False in
      case keyboard fe of
        None \<Rightarrow> fe
      | Some kb \<Rightarrow>
          if \<not> key_owned_by_active_generation fe key then
            (let is_modifier = typio_key_event_is_modifier_only event;
                 should_cleanup = \<not> is_modifier \<and>
                   (startup_guard_is_in_guard_window (created_at_epoch kb) (dispatch_epoch fe) \<or>
                    boundary_bridge_should_forward_orphan_release_cleanup ks modifiers
                      (saw_blocking_modifier kb))
             in if should_cleanup
                then key_clear_tracking key (vk_forward_key env time key False fe)
                else key_clear_tracking key fe)
          else
            let fe = (if suppress_stale_keys kb \<and> startup_suppressed_count kb = 0
                      then upd_keyboard (\<lambda>k. k\<lparr>suppress_stale_keys := False\<rparr>) fe else fe)
            in key_clear_tracking key (snd (core_process_key env event fe)))"

definition route_release_forwarded ::
    "('e, 'x) env \<Rightarrow> u32 \<Rightarrow> u32 \<Rightarrow> u32 \<Rightarrow> u32 \<Rightarrow> u32 \<Rightarrow> ('e, 'x) frontend \<Rightarrow> ('e, 'x) frontend" where
  "route_release_forwarded env key ks modifiers unicode time fe =
     (let event = route_key_event EVENT_KEY_RELEASE key ks modifiers unicode time False in
      case core_process_key env event (key_clear_tracking key fe) of
        (handled, fe) \<Rightarrow>
          if \<not> handled \<and> candidate_guard_should_consume (api_candidate_count env (core fe)) ks
          then key_clear_tracking key fe
          else vk_forward_key env time key False fe)"

definition key_route_process_release ::
    "('e, 'x) env \<Rightarrow> u32 \<Rightarrow> u32 \<Rightarrow> u32 \<Rightarrow> u32 \<Rightarrow> u32 \<Rightarrow> ('e, 'x) frontend \<Rightarrow> ('e, 'x) frontend" where
  "key_route_process_release env key ks modifiers unicode time fe =
     (case key_get_state fe key of
        TRACK_RELEASED_PENDING \<Rightarrow> key_clear_tracking key fe
      | TRACK_SUPPRESSED_STARTUP \<Rightarrow> route_release_startup env key time fe
      | TRACK_APP_SHORTCUT \<Rightarrow> vk_forward_key env time key False (key_clear_tracking key fe)
      | TRACK_VOICE_PTT \<Rightarrow>
          key_clear_tracking key
            (if have_voice env then fe\<lparr>core := api_voice_stop env (core fe)\<rparr> else fe)
      | TRACK_VOICE_PTT_UNAVAIL \<Rightarrow>
          key_clear_tracking key (if have_voice env then text_ui_backend_hide_status fe else fe)
      | TRACK_BASIC_PASSTHROUGH \<Rightarrow> vk_forward_key env time key False (key_clear_tracking key fe)
      | TRACK_IDLE \<Rightarrow> route_release_idle env key ks modifiers unicode time fe
      | TRACK_FORWARDED \<Rightarrow> route_release_forwarded env key ks modifiers unicode time fe)"

subsection \<open>What routing leaves alone\<close>

lemma vk_can_forward_cong:
  "\<lbrakk>vk_state fe' = vk_state fe; fe_virtual_keyboard fe' = fe_virtual_keyboard fe;
    active_key_generation fe' = active_key_generation fe;
    vk_keymap_generation fe' = vk_keymap_generation fe\<rbrakk> \<Longrightarrow> vk_can_forward fe' = vk_can_forward fe"
  by (simp add: vk_can_forward_def vk_has_current_generation_keymap_def)

lemma vk_can_release_cong:
  "\<lbrakk>vk_state fe' = vk_state fe; fe_virtual_keyboard fe' = fe_virtual_keyboard fe\<rbrakk> \<Longrightarrow>
     vk_can_release fe' = vk_can_release fe"
  by (simp add: vk_can_release_def)

lemma vk_flags_frame [simp]:
  "vk_can_forward (emit r fe) = vk_can_forward fe"
  "vk_can_forward (upd_keyboard f fe) = vk_can_forward fe"
  "vk_can_forward (key_set_state key st fe) = vk_can_forward fe"
  "vk_can_forward (key_clear_tracking key fe) = vk_can_forward fe"
  "vk_can_forward (key_claim_current_generation key fe) = vk_can_forward fe"
  "vk_can_forward (keyboard_release_grab fe) = vk_can_forward fe"
  "vk_can_forward (frontend_stop fe) = vk_can_forward fe"
  "vk_can_forward (keyboard_repeat_stop fe) = vk_can_forward fe"
  "vk_can_forward (text_ui_backend_show_status t fe) = vk_can_forward fe"
  "vk_can_forward (text_ui_backend_hide_status fe) = vk_can_forward fe"
  "vk_can_forward (snd (core_process_key env ev fe)) = vk_can_forward fe"
  "vk_can_forward (deliver_callbacks env cbs fe) = vk_can_forward fe"
  "vk_can_forward (fe\<lparr>core := c\<rparr>) = vk_can_forward fe"
  by (rule vk_can_forward_cong; simp)+

lemma vk_release_flags_frame [simp]:
  "vk_can_release (emit r fe) = vk_can_release fe"
  "vk_can_release (upd_keyboard f fe) = vk_can_release fe"
  "vk_can_release (key_set_state key st fe) = vk_can_release fe"
  "vk_can_release (key_clear_tracking key fe) = vk_can_release fe"
  "vk_can_release (key_claim_current_generation key fe) = vk_can_release fe"
  "vk_can_release (keyboard_release_grab fe) = vk_can_release fe"
  "vk_can_release (frontend_stop fe) = vk_can_release fe"
  "vk_can_release (keyboard_repeat_stop fe) = vk_can_release fe"
  "vk_can_release (text_ui_backend_show_status t fe) = vk_can_release fe"
  "vk_can_release (text_ui_backend_hide_status fe) = vk_can_release fe"
  "vk_can_release (snd (core_process_key env ev fe)) = vk_can_release fe"
  "vk_can_release (fe\<lparr>core := c\<rparr>) = vk_can_release fe"
  by (rule vk_can_release_cong; simp)+

lemma vk_forward_key_can_forward_eq [simp]:
  "vk_can_forward (vk_forward_key env t key p fe) = vk_can_forward fe"
  by (auto simp: vk_can_forward_def vk_has_current_generation_keymap_def vk_forward_key_state)

lemma vk_forward_key_can_release_eq [simp]:
  "vk_can_release (vk_forward_key env t key p fe) = vk_can_release fe"
  by (auto simp: vk_can_release_def vk_can_forward_def vk_forward_key_state)

lemma key_set_state_at:
  "key_states (key_set_state key st fe) k = (if unat key < MAX_TRACKED_KEYS \<and> k = unat key then st else key_states fe k)"
  by (simp add: key_set_state_def)

lemma key_clear_tracking_at:
  "key_states (key_clear_tracking key fe) k =
     (if unat key < MAX_TRACKED_KEYS \<and> k = unat key then TRACK_IDLE else key_states fe k)"
  by (simp add: key_clear_tracking_def key_set_state_def)

lemma route_press_voice_frame [simp]:
  "keyboard (route_press_voice env key fe) = keyboard fe"
  "vk_can_forward (route_press_voice env key fe) = vk_can_forward fe"
  "vk_can_release (route_press_voice env key fe) = vk_can_release fe"
  "lifecycle_phase (route_press_voice env key fe) = lifecycle_phase fe"
  "keeps_objects (route_press_voice env key fe) fe"
  "app_key_down k (out (route_press_voice env key fe)) = app_key_down k (out fe)"
  "(session (route_press_voice env key fe) = None) = (session fe = None)"
  by (simp_all add: route_press_voice_def)

lemma route_press_startup_frame [simp]:
  "(keyboard (snd (route_press_startup key fe)) = None) = (keyboard fe = None)"
  "vk_can_forward (snd (route_press_startup key fe)) = vk_can_forward fe"
  "vk_can_release (snd (route_press_startup key fe)) = vk_can_release fe"
  "keeps_context (snd (route_press_startup key fe)) fe"
  "keeps_objects (snd (route_press_startup key fe)) fe"
  "running (snd (route_press_startup key fe)) = running fe"
  "out (snd (route_press_startup key fe)) = out fe"
  by (simp_all add: route_press_startup_def Let_def split: option.split)

lemma route_press_latched_frame:
  assumes "route_press_latched env key time fe = Some fe'"
  shows "(keyboard fe' = None) = (keyboard fe = None)" "vk_can_forward fe' = vk_can_forward fe"
    "vk_can_release fe' = vk_can_release fe" "keeps_context fe' fe" "keeps_objects fe' fe"
    "keeps_tracking fe' fe"
  using assms
  by (auto simp: route_press_latched_def simp flip: not_None_eq
      split: TypioKeyTrackState.splits option.splits if_splits)

lemma route_press_shortcut_frame:
  assumes "route_press_shortcut env key ks m u t fe = Some fe'"
  shows "(keyboard fe' = None) = (keyboard fe = None)" "vk_can_forward fe' = vk_can_forward fe"
    "vk_can_release fe' = vk_can_release fe" "lifecycle_phase fe' = lifecycle_phase fe"
    "keeps_objects fe' fe" "(session fe' = None) = (session fe = None)"
  using assms by (auto simp: route_press_shortcut_def case_prod_beta split: if_splits)

lemma route_press_engine_frame [simp]:
  "(keyboard (route_press_engine env key ks m u t fe) = None) = (keyboard fe = None)"
  "vk_can_forward (route_press_engine env key ks m u t fe) = vk_can_forward fe"
  "vk_can_release (route_press_engine env key ks m u t fe) = vk_can_release fe"
  "lifecycle_phase (route_press_engine env key ks m u t fe) = lifecycle_phase fe"
  "keeps_objects (route_press_engine env key ks m u t fe) fe"
  "(session (route_press_engine env key ks m u t fe) = None) = (session fe = None)"
  by (simp_all add: route_press_engine_def Let_def case_prod_beta)

lemma key_route_process_press_frame [simp]:
  "(keyboard (key_route_process_press env key ks m u t fe) = None) = (keyboard fe = None)"
  "vk_can_forward (key_route_process_press env key ks m u t fe) = vk_can_forward fe"
  "vk_can_release (key_route_process_press env key ks m u t fe) = vk_can_release fe"
  "lifecycle_phase (key_route_process_press env key ks m u t fe) = lifecycle_phase fe"
  "keeps_objects (key_route_process_press env key ks m u t fe) fe"
  "(session (key_route_process_press env key ks m u t fe) = None) = (session fe = None)"
  by (simp_all add: key_route_process_press_def case_prod_beta route_press_latched_frame
      route_press_shortcut_frame split: option.split)

lemma route_release_frames [simp]:
  "(keyboard (route_release_startup env key t fe) = None) = (keyboard fe = None)"
  "vk_can_forward (route_release_startup env key t fe) = vk_can_forward fe"
  "vk_can_release (route_release_startup env key t fe) = vk_can_release fe"
  "lifecycle_phase (route_release_startup env key t fe) = lifecycle_phase fe"
  "keeps_objects (route_release_startup env key t fe) fe"
  "(session (route_release_startup env key t fe) = None) = (session fe = None)"
  by (simp_all add: route_release_startup_def Let_def)

lemma route_release_forwarded_frame [simp]:
  "(keyboard (route_release_forwarded env key ks m u t fe) = None) = (keyboard fe = None)"
  "vk_can_forward (route_release_forwarded env key ks m u t fe) = vk_can_forward fe"
  "vk_can_release (route_release_forwarded env key ks m u t fe) = vk_can_release fe"
  "lifecycle_phase (route_release_forwarded env key ks m u t fe) = lifecycle_phase fe"
  "keeps_objects (route_release_forwarded env key ks m u t fe) fe"
  "(session (route_release_forwarded env key ks m u t fe) = None) = (session fe = None)"
  by (simp_all add: route_release_forwarded_def Let_def case_prod_beta)

lemma route_release_idle_frame [simp]:
  "(keyboard (route_release_idle env key ks m u t fe) = None) = (keyboard fe = None)"
  "vk_can_forward (route_release_idle env key ks m u t fe) = vk_can_forward fe"
  "vk_can_release (route_release_idle env key ks m u t fe) = vk_can_release fe"
  "lifecycle_phase (route_release_idle env key ks m u t fe) = lifecycle_phase fe"
  "keeps_objects (route_release_idle env key ks m u t fe) fe"
  "(session (route_release_idle env key ks m u t fe) = None) = (session fe = None)"
  by (simp_all add: route_release_idle_def Let_def split: option.split)

lemma key_route_process_release_frame [simp]:
  "(keyboard (key_route_process_release env key ks m u t fe) = None) = (keyboard fe = None)"
  "vk_can_forward (key_route_process_release env key ks m u t fe) = vk_can_forward fe"
  "vk_can_release (key_route_process_release env key ks m u t fe) = vk_can_release fe"
  "lifecycle_phase (key_route_process_release env key ks m u t fe) = lifecycle_phase fe"
  "keeps_objects (key_route_process_release env key ks m u t fe) fe"
  "(session (key_route_process_release env key ks m u t fe) = None) = (session fe = None)"
  by (simp_all add: key_route_process_release_def split: TypioKeyTrackState.split)

subsection \<open>No key is lost track of\<close>

lemma no_stuck_keyD:
  "no_stuck_key fe \<Longrightarrow> vk_can_release fe \<Longrightarrow> unat key < MAX_TRACKED_KEYS \<Longrightarrow>
     app_key_down key (out fe) \<Longrightarrow> track_owes_release (key_states fe (unat key))"
  by (auto simp: no_stuck_key_def)

lemma no_stuck_key_transfer:
  assumes "no_stuck_key fe" and "\<And>k. app_key_down k (out fe') = app_key_down k (out fe)"
    and "key_states fe' = key_states fe" and "vk_can_release fe' = vk_can_release fe"
  shows "no_stuck_key fe'"
  using assms by (simp add: no_stuck_key_def)

lemma no_stuck_set:
  assumes "no_stuck_key fe"
    and "unat key < MAX_TRACKED_KEYS \<Longrightarrow> vk_can_release fe \<Longrightarrow> app_key_down key (out fe) \<Longrightarrow> track_owes_release st"
  shows "no_stuck_key (key_set_state key st fe)"
  using assms by (auto simp: no_stuck_key_def key_set_state_at simp flip: word_unat_eq_iff)

lemma no_stuck_forward_press:
  assumes "no_stuck_key fe" and "track_owes_release st"
  shows "no_stuck_key (key_set_state key st (vk_forward_key env t key True fe))"
  using assms
  by (auto simp: no_stuck_key_def key_set_state_at vk_forward_key_app_key_down split: if_splits)

lemma no_stuck_forward_latched:
  assumes "no_stuck_key fe" and "track_owes_release (key_get_state fe key)"
  shows "no_stuck_key (vk_forward_key env t key True fe)"
  using assms
  by (auto simp: no_stuck_key_def key_get_state_def vk_forward_key_app_key_down split: if_splits)

lemma no_stuck_forward_release:
  assumes "no_stuck_key fe" and "vk_can_forward fe"
  shows "no_stuck_key (vk_forward_key env t key False (key_clear_tracking key fe))"
  using assms
  by (auto simp: no_stuck_key_def key_clear_tracking_at vk_forward_key_app_key_down
      simp flip: word_unat_eq_iff split: if_splits)

lemma no_stuck_clear:
  assumes "no_stuck_key fe"
    and "unat key < MAX_TRACKED_KEYS \<Longrightarrow> vk_can_release fe \<Longrightarrow> \<not> app_key_down key (out fe)"
  shows "no_stuck_key (key_clear_tracking key fe)"
  using assms by (auto simp: no_stuck_key_def key_clear_tracking_at simp flip: word_unat_eq_iff)

lemma no_stuck_core [simp]:
  "no_stuck_key fe \<Longrightarrow> no_stuck_key (snd (core_process_key env ev fe))"
  by (rule no_stuck_key_transfer) simp_all

lemma owes_release_simps [simp]:
  "track_owes_release TRACK_FORWARDED" "track_owes_release TRACK_BASIC_PASSTHROUGH"
  "track_owes_release TRACK_APP_SHORTCUT" "\<not> track_owes_release TRACK_IDLE"
  "\<not> track_owes_release TRACK_RELEASED_PENDING" "\<not> track_owes_release TRACK_SUPPRESSED_STARTUP"
  "\<not> track_owes_release TRACK_VOICE_PTT" "\<not> track_owes_release TRACK_VOICE_PTT_UNAVAIL"
  by (simp_all add: track_owes_release_def)

lemma not_owed_not_down:
  assumes "no_stuck_key fe" and "\<not> track_owes_release (key_get_state fe key)"
  shows "unat key < MAX_TRACKED_KEYS \<Longrightarrow> vk_can_release fe \<Longrightarrow> \<not> app_key_down key (out fe)"
  using no_stuck_keyD[OF assms(1)] assms(2) by (auto simp: key_get_state_def)

lemma route_press_latched_no_stuck:
  assumes "no_stuck_key fe" and "route_press_latched env key t fe = Some fe'"
  shows "no_stuck_key fe'"
  using assms(2,1)
  by (auto simp: route_press_latched_def intro!: no_stuck_forward_latched
      split: TypioKeyTrackState.splits option.splits if_splits)

lemma route_press_fresh:
  assumes "route_press_latched env key t fe = None" and "key_get_state fe key \<noteq> TRACK_BASIC_PASSTHROUGH"
  shows "\<not> track_owes_release (key_get_state fe key)"
  using assms by (auto simp: route_press_latched_def split: TypioKeyTrackState.splits option.splits if_splits)

lemma route_press_startup_no_stuck:
  assumes "no_stuck_key fe" and "\<not> track_owes_release (key_get_state fe key)"
  shows "no_stuck_key (snd (route_press_startup key fe))"
proof -
  have 1: "no_stuck_key (upd_keyboard f (key_claim_current_generation key fe))" for f
    by (rule no_stuck_key_transfer[OF assms(1)]) simp_all
  have 2: "no_stuck_key (upd_keyboard f (key_set_state key TRACK_SUPPRESSED_STARTUP
      (key_claim_current_generation key fe)))" for f
  proof -
    have "no_stuck_key (key_set_state key TRACK_SUPPRESSED_STARTUP (key_claim_current_generation key fe))"
    proof (rule no_stuck_set)
      show "no_stuck_key (key_claim_current_generation key fe)"
        by (rule no_stuck_key_transfer[OF assms(1)]) simp_all
    qed (use not_owed_not_down[OF assms] in simp)
    then show ?thesis by (rule no_stuck_key_transfer) simp_all
  qed
  have 3: "no_stuck_key (key_claim_current_generation key fe)"
    by (rule no_stuck_key_transfer[OF assms(1)]) simp_all
  have 4: "key_set_state key st (upd_keyboard f (fe :: ('a, 'b) frontend)) = upd_keyboard f (key_set_state key st fe)"
    for st f fe by (simp add: key_set_state_def upd_keyboard_def)
  have 5: "upd_keyboard g (upd_keyboard f fe) = upd_keyboard (g \<circ> f) fe" for f g and fe :: "('a, 'b) frontend"
    by (simp add: upd_keyboard_def option.map_comp)
  show ?thesis
    using 1 2 3 by (simp add: route_press_startup_def Let_def 4 5 split: option.split)
qed

text \<open>
  A press that is not a second press of a passed-through key keeps the tracking complete, on
  every route.
\<close>

lemma key_route_process_press_no_stuck:
  assumes "no_stuck_key fe" and "key_get_state fe key \<noteq> TRACK_BASIC_PASSTHROUGH"
  shows "no_stuck_key (key_route_process_press env key ks m u t fe)"
proof (cases "route_press_latched env key t fe")
  case (Some fe')
  with route_press_latched_no_stuck[OF assms(1) Some] show ?thesis
    by (simp add: key_route_process_press_def)
next
  case None
  then have fresh: "\<not> track_owes_release (key_get_state fe key)" by (rule route_press_fresh) (rule assms(2))
  let ?fe1 = "snd (route_press_startup key fe)"
  have ns1: "no_stuck_key ?fe1" by (rule route_press_startup_no_stuck) (rule assms(1) fresh)+
  have up1: "unat key < MAX_TRACKED_KEYS \<Longrightarrow> vk_can_release ?fe1 \<Longrightarrow> \<not> app_key_down key (out ?fe1)"
    using not_owed_not_down[OF assms(1) fresh] by simp
  have voice: "no_stuck_key (route_press_voice env key ?fe1)"
  proof -
    have "no_stuck_key (key_set_state key TRACK_VOICE_PTT (?fe1\<lparr>core := c\<rparr>))" for c
    proof (rule no_stuck_set)
      show "no_stuck_key (?fe1\<lparr>core := c\<rparr>)" by (rule no_stuck_key_transfer[OF ns1]) simp_all
    qed (use up1 in simp)
    moreover have "no_stuck_key (text_ui_backend_show_status h (key_set_state key TRACK_VOICE_PTT_UNAVAIL ?fe1))" for h
    proof -
      have "no_stuck_key (key_set_state key TRACK_VOICE_PTT_UNAVAIL ?fe1)"
        by (rule no_stuck_set[OF ns1]) (use up1 in simp)
      then show ?thesis by (rule no_stuck_key_transfer) simp_all
    qed
    ultimately show ?thesis by (simp add: route_press_voice_def)
  qed
  have stop: "no_stuck_key (frontend_stop (keyboard_release_grab (emit ReqDumpRecentLog ?fe1)))"
    by (rule no_stuck_key_transfer[OF ns1]) simp_all
  have "no_stuck_key fe2" if "route_press_shortcut env key ks m u t ?fe1 = Some fe2" for fe2
    using that voice stop
    by (auto simp: route_press_shortcut_def case_prod_beta ns1 intro!: no_stuck_forward_press split: if_splits)
  moreover have "no_stuck_key (route_press_engine env key ks m u t ?fe1)"
    by (simp add: route_press_engine_def Let_def case_prod_beta ns1 no_stuck_forward_press)
  ultimately show ?thesis
    using None ns1 by (auto simp: key_route_process_press_def case_prod_beta split: option.split)
qed

text \<open>
  The one release that is lost: a key the application has down, which the engine does not handle
  and the candidate list claims for navigation.
\<close>

definition candidate_swallows_release ::
    "('e, 'x) env \<Rightarrow> u32 \<Rightarrow> u32 \<Rightarrow> u32 \<Rightarrow> u32 \<Rightarrow> u32 \<Rightarrow> ('e, 'x) frontend \<Rightarrow> bool" where
  "candidate_swallows_release env key ks m u t fe \<longleftrightarrow>
     key_get_state fe key = TRACK_FORWARDED \<and>
     (case api_process_key env (route_key_event EVENT_KEY_RELEASE key ks m u t False) (core fe) of
        (handled, cbs, c) \<Rightarrow>
          \<not> handled \<and>
          candidate_guard_should_consume
            (api_candidate_count env
               (core (deliver_callbacks env cbs ((key_clear_tracking key fe)\<lparr>core := c\<rparr>)))) ks)"

lemma candidate_swallows_release_iff:
  "candidate_swallows_release env key ks m u t fe \<longleftrightarrow>
     key_get_state fe key = TRACK_FORWARDED \<and>
     (let r = core_process_key env (route_key_event EVENT_KEY_RELEASE key ks m u t False)
                (key_clear_tracking key fe)
      in \<not> fst r \<and> candidate_guard_should_consume (api_candidate_count env (core (snd r))) ks)"
  by (simp add: candidate_swallows_release_def core_process_key_def case_prod_beta)

lemma route_release_forwarded_no_stuck:
  assumes "no_stuck_key fe" and "vk_can_forward fe" and "key_get_state fe key = TRACK_FORWARDED"
    and "\<not> candidate_swallows_release env key ks m u t fe"
  shows "no_stuck_key (route_release_forwarded env key ks m u t fe)"
    and "\<not> app_key_down key (out (route_release_forwarded env key ks m u t fe))"
proof -
  let ?r = "core_process_key env (route_key_event EVENT_KEY_RELEASE key ks m u t False) (key_clear_tracking key fe)"
  have eq: "route_release_forwarded env key ks m u t fe = vk_forward_key env t key False (snd ?r)"
    using assms(3,4) unfolding route_release_forwarded_def candidate_swallows_release_iff Let_def
    by (cases ?r) auto
  have "no_stuck_key (vk_forward_key env t key False (key_clear_tracking key fe))"
    by (rule no_stuck_forward_release) (rule assms)+
  then have "no_stuck_key (vk_forward_key env t key False (snd ?r))"
    by (rule no_stuck_key_transfer) (simp_all add: vk_forward_key_app_key_down)
  then show "no_stuck_key (route_release_forwarded env key ks m u t fe)" by (simp add: eq)
  show "\<not> app_key_down key (out (route_release_forwarded env key ks m u t fe))"
    using assms(2) by (simp add: eq vk_forward_key_app_key_down)
qed

lemma route_release_startup_no_stuck:
  assumes "no_stuck_key fe" and "vk_can_forward fe"
  shows "no_stuck_key (route_release_startup env key t fe)"
    and "\<not> app_key_down key (out (route_release_startup env key t fe))"
proof -
  have "no_stuck_key (vk_forward_key env t key False (key_clear_tracking key fe))"
    by (rule no_stuck_forward_release) (rule assms)+
  then show "no_stuck_key (route_release_startup env key t fe)"
    by (rule no_stuck_key_transfer)
       (simp_all add: route_release_startup_def Let_def vk_forward_key_app_key_down)
  show "\<not> app_key_down key (out (route_release_startup env key t fe))"
    using assms(2) by (simp add: route_release_startup_def Let_def vk_forward_key_app_key_down)
qed

lemma no_stuck_upd_keyboard [simp]: "no_stuck_key (upd_keyboard f fe) = no_stuck_key fe"
  by (simp add: no_stuck_key_def)

lemma route_release_idle_no_stuck:
  assumes "no_stuck_key fe" and "vk_can_forward fe" and "key_get_state fe key = TRACK_IDLE"
  shows "no_stuck_key (route_release_idle env key ks m u t fe)"
    and "unat key < MAX_TRACKED_KEYS \<Longrightarrow> vk_can_release fe \<Longrightarrow>
      \<not> app_key_down key (out (route_release_idle env key ks m u t fe))"
proof -
  have up: "unat key < MAX_TRACKED_KEYS \<Longrightarrow> vk_can_release fe \<Longrightarrow> \<not> app_key_down key (out fe)"
    by (rule not_owed_not_down[OF assms(1)]) (simp_all add: assms(3))
  have swap: "no_stuck_key (key_clear_tracking key (vk_forward_key env t key False fe))"
  proof (rule no_stuck_clear)
    show "no_stuck_key (vk_forward_key env t key False fe)"
      using assms(1) by (auto simp: no_stuck_key_def vk_forward_key_app_key_down)
  qed (use assms(2) in \<open>simp add: vk_forward_key_app_key_down\<close>)
  have core: "no_stuck_key (key_clear_tracking key (snd (core_process_key env ev fe1)))"
    if "no_stuck_key fe1" "vk_can_release fe1 = vk_can_release fe"
       "app_key_down key (out fe1) = app_key_down key (out fe)" for ev fe1
    by (rule no_stuck_clear) (use that up in simp_all)
  have plain: "no_stuck_key (key_clear_tracking key fe)"
    by (rule no_stuck_clear[OF assms(1)]) (rule up)
  show "no_stuck_key (route_release_idle env key ks m u t fe)"
    using swap plain assms(1)
    by (auto simp: route_release_idle_def Let_def intro!: core split: option.split)
  show "\<not> app_key_down key (out (route_release_idle env key ks m u t fe))"
    if "unat key < MAX_TRACKED_KEYS" "vk_can_release fe"
    using up[OF that] by (simp add: route_release_idle_def Let_def vk_forward_key_app_key_down split: option.split)
qed

text \<open>
  A physical release on a working path always reaches an application that holds the key, but for
  that one case, and the tracking stays complete.
\<close>

lemma key_route_process_release_no_stuck:
  assumes "no_stuck_key fe" and "vk_can_forward fe" and "vk_can_release fe"
    and "unat key < MAX_TRACKED_KEYS"
    and "\<not> candidate_swallows_release env key ks m u t fe"
  shows "no_stuck_key (key_route_process_release env key ks m u t fe) \<and>
     \<not> app_key_down key (out (key_route_process_release env key ks m u t fe))"
proof -
  have up: "\<not> track_owes_release (key_get_state fe key) \<Longrightarrow> \<not> app_key_down key (out fe)"
    using not_owed_not_down[OF assms(1)] assms(3,4) by simp
  have fwd: "no_stuck_key (vk_forward_key env t key False (key_clear_tracking key fe))"
    by (rule no_stuck_forward_release) (rule assms)+
  have clr: "no_stuck_key (key_clear_tracking key fe')"
    if "no_stuck_key fe'" "\<not> app_key_down key (out fe')" for fe'
    by (rule no_stuck_clear[OF that(1)]) (rule that(2))
  have stop: "no_stuck_key (fe\<lparr>core := c\<rparr>)" for c
    by (rule no_stuck_key_transfer[OF assms(1)]) simp_all
  have hide: "no_stuck_key (text_ui_backend_hide_status fe)"
    by (rule no_stuck_key_transfer[OF assms(1)]) simp_all
  show ?thesis
    using assms fwd stop hide up
    by (cases "key_get_state fe key")
       (simp_all add: key_route_process_release_def route_release_forwarded_no_stuck
         route_release_startup_no_stuck route_release_idle_no_stuck vk_forward_key_app_key_down clr)
qed

end
