(* ===== verification/Wl_Keyboard.thy ===== *)
theory Wl_Keyboard
  imports Key_Route "HOL-Library.Sublist"
begin

section \<open>Keyboard events\<close>

text \<open>
  From the compositor's keyboard events to the router: the XKB state (\<^verbatim>\<open>keyboard_xkb.c\<close>,
  \<^verbatim>\<open>xkb_modifiers.h\<close>), key repeat (\<^verbatim>\<open>keyboard_repeat.c\<close>), the chord arbiter that
  holds back modifier events (\<^verbatim>\<open>key_arbiter.c\<close>), and the grab's listeners with their routing
  guard (\<^verbatim>\<open>wl_keyboard.c\<close>).
\<close>

declare not_None_eq [simp del]

subsection \<open>XKB state\<close>

definition xkb_effective_modifiers :: "('e, 'x) env \<Rightarrow> 'x keyboard \<Rightarrow> u32" where
  "xkb_effective_modifiers env kb = (case xkb kb of
       None \<Rightarrow> TYPIO_MOD_NONE
     | Some x \<Rightarrow>
         (let mods = TYPIO_MOD_NONE;
              mods = (if xkb_mod_active env x MOD_NAME_SHIFT then mods OR TYPIO_MOD_SHIFT else mods);
              mods = (if xkb_mod_active env x MOD_NAME_CTRL then mods OR TYPIO_MOD_CTRL else mods);
              mods = (if xkb_mod_active env x MOD_NAME_ALT then mods OR TYPIO_MOD_ALT else mods);
              mods = (if xkb_mod_active env x MOD_NAME_LOGO then mods OR TYPIO_MOD_SUPER else mods);
              mods = (if xkb_mod_active env x MOD_NAME_CAPS then mods OR TYPIO_MOD_CAPSLOCK else mods);
              mods = (if xkb_mod_active env x MOD_NAME_NUM then mods OR TYPIO_MOD_NUMLOCK else mods)
          in mods))"

definition WL_KEYBOARD_KEYMAP_FORMAT_XKB_V1 :: u32 where
  "WL_KEYBOARD_KEYMAP_FORMAT_XKB_V1 = 1"

definition keyboard_handle_keymap ::
    "('e, 'x) env \<Rightarrow> u32 \<Rightarrow> u32 \<Rightarrow> ('e, 'x) frontend \<Rightarrow> ('e, 'x) frontend" where
  "keyboard_handle_keymap env format map_size fe =
     (if format \<noteq> WL_KEYBOARD_KEYMAP_FORMAT_XKB_V1 then fe
      else (case xkb_compile env format map_size of
              None \<Rightarrow> fe
            | Some x \<Rightarrow> upd_keyboard (\<lambda>k. k\<lparr>xkb := Some x\<rparr>) fe))"

definition keyboard_handle_modifiers ::
    "('e, 'x) env \<Rightarrow> u32 \<Rightarrow> u32 \<Rightarrow> u32 \<Rightarrow> u32 \<Rightarrow> ('e, 'x) frontend \<Rightarrow> ('e, 'x) frontend" where
  "keyboard_handle_modifiers env depressed latched locked grp fe =
     upd_keyboard
       (\<lambda>k. case xkb k of
              None \<Rightarrow> k
            | Some x \<Rightarrow> k\<lparr>xkb := Some (xkb_update_mask env depressed latched locked grp x),
                          mods_depressed := depressed, mods_latched := latched,
                          mods_locked := locked, mods_group := grp\<rparr>) fe"

definition keyboard_keysym :: "('e, 'x) env \<Rightarrow> 'x keyboard \<Rightarrow> u32 \<Rightarrow> u32" where
  "keyboard_keysym env kb key = (case xkb kb of None \<Rightarrow> 0 | Some x \<Rightarrow> xkb_one_sym env x (key + 8))"

text \<open>A lone byte is converted from a signed \<^verbatim>\<open>char\<close>; two bytes are packed, not decoded.\<close>

definition keyboard_unicode :: "('e, 'x) env \<Rightarrow> 'x keyboard \<Rightarrow> u32 \<Rightarrow> u32" where
  "keyboard_unicode env kb key = (case xkb kb of
       None \<Rightarrow> 0
     | Some x \<Rightarrow>
         (case xkb_utf8 env x (key + 8) of
            [b] \<Rightarrow> scast b
          | [b, c] \<Rightarrow> push_bit 8 (ucast b) OR ucast c
          | _ \<Rightarrow> 0))"

subsection \<open>Key repeat\<close>

definition keyboard_repeat_should_run :: "u32 \<Rightarrow> bool" where
  "keyboard_repeat_should_run modifiers \<longleftrightarrow>
     modifiers AND (TYPIO_MOD_CTRL OR TYPIO_MOD_ALT OR TYPIO_MOD_SUPER) = 0"

definition keyboard_repeat_maybe_start ::
    "u32 \<Rightarrow> u32 \<Rightarrow> u32 \<Rightarrow> ('e, 'x) frontend \<Rightarrow> ('e, 'x) frontend" where
  "keyboard_repeat_maybe_start key time modifiers fe = (case keyboard fe of
       None \<Rightarrow> fe
     | Some kb \<Rightarrow>
         if repeat_timer_fd kb < 0 \<or> repeat_rate kb \<le> 0 \<or> \<not> keyboard_repeat_should_run modifiers
         then fe
         else
           let delay_ms = (if repeat_delay kb > 0 then repeat_delay kb else 600);
               interval_ms = 1000 div repeat_rate kb;
               interval_ms = (if interval_ms < 1 then 1 else interval_ms)
           in emit (ReqTimerArm delay_ms interval_ms)
                (upd_keyboard (\<lambda>k. k\<lparr>repeat_key := key, repeat_time := time, repeating := True\<rparr>) fe))"

text \<open>A repeat that goes to the engine, and to the application when the engine declines it.\<close>

definition repeat_to_engine ::
    "('e, 'x) env \<Rightarrow> 'x keyboard \<Rightarrow> u32 \<Rightarrow> u32 \<Rightarrow> ('e, 'x) frontend \<Rightarrow> ('e, 'x) frontend" where
  "repeat_to_engine env kb ks unicode fe =
     (let modifiers = physical_modifiers kb OR
            (xkb_effective_modifiers env kb AND (TYPIO_MOD_CAPSLOCK OR TYPIO_MOD_NUMLOCK));
          event = route_key_event EVENT_KEY_PRESS (repeat_key kb) ks modifiers unicode (repeat_time kb) True
      in case core_process_key env event fe of
           (handled, fe) \<Rightarrow>
             if handled then fe
             else if candidate_guard_should_consume (api_candidate_count env (core fe)) ks then fe
             else key_set_state (repeat_key kb) TRACK_FORWARDED
                    (vk_forward_key env (repeat_time kb) (repeat_key kb) True fe))"

definition keyboard_dispatch_repeat :: "('e, 'x) env \<Rightarrow> ('e, 'x) frontend \<Rightarrow> ('e, 'x) frontend" where
  "keyboard_dispatch_repeat env fe = (case keyboard fe of
       None \<Rightarrow> fe
     | Some kb \<Rightarrow>
         if \<not> repeating kb \<or> repeat_timer_fd kb < 0 then fe
         else if \<not> lifecycle_phase_allows_key_events (lifecycle_phase fe) then keyboard_repeat_stop fe
         else if \<not> sys_timer_read_ok env then fe
         else (case xkb kb of
             None \<Rightarrow> keyboard_repeat_stop fe
           | Some x \<Rightarrow>
               if session fe = None then keyboard_repeat_stop fe
               else if \<not> api_is_focused env (core fe) then keyboard_repeat_stop fe
               else
                 let state = key_get_state fe (repeat_key kb);
                     ks = xkb_one_sym env x (repeat_key kb + 8);
                     unicode = xkb_utf32 env x (repeat_key kb + 8)
                 in if state = TRACK_APP_SHORTCUT then
                      (if \<not> has_blocking (physical_modifiers kb) then keyboard_repeat_stop fe
                       else vk_forward_key env (repeat_time kb) (repeat_key kb) True fe)
                    else if state = TRACK_FORWARDED \<or> state = TRACK_BASIC_PASSTHROUGH
                    then vk_forward_key env (repeat_time kb) (repeat_key kb) True fe
                    else if \<not> repeat_should_run_for_state state then keyboard_repeat_stop fe
                    else repeat_to_engine env kb ks unicode fe))"

definition keyboard_process_key_press ::
    "('e, 'x) env \<Rightarrow> u32 \<Rightarrow> u32 \<Rightarrow> u32 \<Rightarrow> u32 \<Rightarrow> u32 \<Rightarrow> ('e, 'x) frontend \<Rightarrow> ('e, 'x) frontend" where
  "keyboard_process_key_press env key ks modifiers unicode time fe =
     (let fe = key_route_process_press env key ks modifiers unicode time fe in
      case keyboard fe of
        None \<Rightarrow> fe
      | Some kb \<Rightarrow>
          (case xkb kb of
             None \<Rightarrow> fe
           | Some x \<Rightarrow>
               if repeat_rate kb > 0 \<and> repeat_should_run_for_state (key_get_state fe key) \<and>
                  xkb_key_repeats env x (key + 8)
               then keyboard_repeat_maybe_start key time modifiers fe else fe))"

definition keyboard_process_key_release ::
    "('e, 'x) env \<Rightarrow> u32 \<Rightarrow> u32 \<Rightarrow> u32 \<Rightarrow> u32 \<Rightarrow> u32 \<Rightarrow> ('e, 'x) frontend \<Rightarrow> ('e, 'x) frontend" where
  "keyboard_process_key_release env key ks modifiers unicode time fe =
     key_route_process_release env key ks modifiers unicode time
       (case keyboard fe of
          None \<Rightarrow> fe
        | Some kb \<Rightarrow> if repeating kb \<and> repeat_key kb = key then keyboard_repeat_stop fe else fe)"

subsection \<open>The chord arbiter\<close>

definition TYPIO_ARBITER_MAX_BUFFERED :: nat where "TYPIO_ARBITER_MAX_BUFFERED = 8"

definition arbiter_buffer_push :: "TypioArbiterEvent \<Rightarrow> TypioKeyArbiter \<Rightarrow> TypioKeyArbiter" where
  "arbiter_buffer_push ev a =
     (if length (ar_buffer a) \<ge> TYPIO_ARBITER_MAX_BUFFERED then a
      else a\<lparr>ar_buffer := ar_buffer a @ [ev]\<rparr>)"

definition upd_arbiter :: "(TypioKeyArbiter \<Rightarrow> TypioKeyArbiter) \<Rightarrow> ('e, 'x) frontend \<Rightarrow> ('e, 'x) frontend" where
  "upd_arbiter f fe = upd_keyboard (\<lambda>k. k\<lparr>arbiter := f (arbiter k)\<rparr>) fe"

definition replay_event ::
    "('e, 'x) env \<Rightarrow> TypioArbiterEvent \<Rightarrow> ('e, 'x) frontend \<Rightarrow> ('e, 'x) frontend" where
  "replay_event env ev fe =
     (if ae_is_press ev
      then keyboard_process_key_press env (ae_key ev) (ae_keysym ev) (ae_modifiers ev) (ae_unicode ev) (ae_time ev) fe
      else keyboard_process_key_release env (ae_key ev) (ae_keysym ev) (ae_modifiers ev) (ae_unicode ev) (ae_time ev) fe)"

definition arbiter_buffer :: "('e, 'x) frontend \<Rightarrow> TypioArbiterEvent list" where
  "arbiter_buffer fe = (case keyboard fe of None \<Rightarrow> [] | Some kb \<Rightarrow> ar_buffer (arbiter kb))"

text \<open>Replaying processes no event twice: the routines it calls do not touch the arbiter.\<close>

definition arbiter_replay :: "('e, 'x) env \<Rightarrow> ('e, 'x) frontend \<Rightarrow> ('e, 'x) frontend" where
  "arbiter_replay env fe =
     upd_arbiter (\<lambda>a. a\<lparr>ar_buffer := [], ar_state := ARBITER_IDLE\<rparr>)
       (fold (replay_event env) (arbiter_buffer fe) fe)"

definition release_orphan ::
    "('e, 'x) env \<Rightarrow> TypioArbiterEvent \<Rightarrow> ('e, 'x) frontend \<Rightarrow> ('e, 'x) frontend" where
  "release_orphan env ev fe =
     (if ae_is_press ev then fe
      else if unat (ae_key ev) \<ge> MAX_TRACKED_KEYS then fe
      else if key_states fe (unat (ae_key ev)) \<noteq> TRACK_FORWARDED then fe
      else key_clear_tracking (ae_key ev) (vk_forward_key env (ae_time ev) (ae_key ev) False fe))"

definition arbiter_release_orphaned_keys :: "('e, 'x) env \<Rightarrow> ('e, 'x) frontend \<Rightarrow> ('e, 'x) frontend" where
  "arbiter_release_orphaned_keys env fe = fold (release_orphan env) (arbiter_buffer fe) fe"

definition arbiter_consume :: "('e, 'x) env \<Rightarrow> ('e, 'x) frontend \<Rightarrow> ('e, 'x) frontend" where
  "arbiter_consume env fe =
     (let fe = arbiter_release_orphaned_keys env fe;
          fe = core_call env (\<lambda>c. case api_engine_next env c of (r, cbs, c') \<Rightarrow> (cbs, c')) fe
      in upd_arbiter (\<lambda>a. a\<lparr>ar_buffer := [], ar_state := ARBITER_IDLE\<rparr>) fe)"

definition forbidden_mods :: "TypioShortcutBinding \<Rightarrow> u32" where
  "forbidden_mods b =
     (TYPIO_MOD_CTRL OR TYPIO_MOD_SHIFT OR TYPIO_MOD_ALT OR TYPIO_MOD_SUPER) AND NOT (sb_modifiers b)"

definition arbiter_should_start_buffering :: "TypioShortcutBinding \<Rightarrow> u32 \<Rightarrow> u32 \<Rightarrow> bool" where
  "arbiter_should_start_buffering b ks phys =
     (if \<not> shortcut_chord_is_switch_modifier b ks then False
      else if phys AND sb_modifiers b \<noteq> sb_modifiers b then False
      else phys AND forbidden_mods b = 0)"

definition arbiter_chord_complete :: "TypioShortcutBinding \<Rightarrow> u32 \<Rightarrow> bool" where
  "arbiter_chord_complete b phys \<longleftrightarrow> phys AND sb_modifiers b = 0"

definition arbiter_should_cancel :: "TypioShortcutBinding \<Rightarrow> u32 \<Rightarrow> u32 \<Rightarrow> bool \<Rightarrow> bool" where
  "arbiter_should_cancel b ks phys is_press =
     (if is_press \<and> \<not> shortcut_chord_is_switch_modifier b ks then True
      else phys AND forbidden_mods b \<noteq> 0)"

definition arbiter_event ::
    "bool \<Rightarrow> u32 \<Rightarrow> u32 \<Rightarrow> u32 \<Rightarrow> u32 \<Rightarrow> u32 \<Rightarrow> TypioArbiterEvent" where
  "arbiter_event p key ks modifiers unicode time =
     \<lparr>ae_is_press = p, ae_key = key, ae_keysym = ks, ae_modifiers = modifiers,
      ae_unicode = unicode, ae_time = time\<rparr>"

definition key_arbiter_press ::
    "('e, 'x) env \<Rightarrow> u32 \<Rightarrow> u32 \<Rightarrow> u32 \<Rightarrow> u32 \<Rightarrow> u32 \<Rightarrow> ('e, 'x) frontend \<Rightarrow> ('e, 'x) frontend" where
  "key_arbiter_press env key ks modifiers unicode time fe = (case keyboard fe of
       None \<Rightarrow> fe
     | Some kb \<Rightarrow>
         let phys = physical_modifiers kb;
             b = sc_switch_engine (shortcuts fe);
             ev = arbiter_event True key ks modifiers unicode time
         in (case ar_state (arbiter kb) of
               ARBITER_IDLE \<Rightarrow>
                 if arbiter_should_start_buffering b ks phys
                 then upd_arbiter (\<lambda>a. arbiter_buffer_push ev (a\<lparr>ar_state := ARBITER_BUFFERING\<rparr>)) fe
                 else keyboard_process_key_press env key ks modifiers unicode time fe
             | ARBITER_BUFFERING \<Rightarrow>
                 if arbiter_should_cancel b ks phys True \<or>
                    length (ar_buffer (arbiter kb)) \<ge> TYPIO_ARBITER_MAX_BUFFERED - 1
                 then keyboard_process_key_press env key ks modifiers unicode time (arbiter_replay env fe)
                 else upd_arbiter (arbiter_buffer_push ev) fe))"

definition key_arbiter_release ::
    "('e, 'x) env \<Rightarrow> u32 \<Rightarrow> u32 \<Rightarrow> u32 \<Rightarrow> u32 \<Rightarrow> u32 \<Rightarrow> ('e, 'x) frontend \<Rightarrow> ('e, 'x) frontend" where
  "key_arbiter_release env key ks modifiers unicode time fe = (case keyboard fe of
       None \<Rightarrow> fe
     | Some kb \<Rightarrow>
         let phys = physical_modifiers kb;
             b = sc_switch_engine (shortcuts fe);
             ev = arbiter_event False key ks modifiers unicode time
         in (case ar_state (arbiter kb) of
               ARBITER_IDLE \<Rightarrow> keyboard_process_key_release env key ks modifiers unicode time fe
             | ARBITER_BUFFERING \<Rightarrow>
                 if arbiter_should_cancel b ks phys False
                 then keyboard_process_key_release env key ks modifiers unicode time (arbiter_replay env fe)
                 else
                   let fe = upd_arbiter (arbiter_buffer_push ev) fe
                   in if arbiter_chord_complete b phys then arbiter_consume env fe else fe))"

subsection \<open>The routing guard\<close>

definition GUARD_FAILSAFE_WINDOW_MS :: u64 where "GUARD_FAILSAFE_WINDOW_MS = 1500"
definition GUARD_FAILSAFE_THRESHOLD :: u64 where "GUARD_FAILSAFE_THRESHOLD = 8"

definition guard_reason :: "('e, 'x) env \<Rightarrow> ('e, 'x) frontend \<Rightarrow> string option" where
  "guard_reason env fe =
     (if session fe = None then Some ''no_session''
      else if \<not> lifecycle_phase_allows_key_events (lifecycle_phase fe) then Some ''lifecycle_not_active''
      else if \<not> api_is_focused env (core fe) then Some ''not_focused''
      else None)"

definition guard_trigger_failsafe :: "('e, 'x) frontend \<Rightarrow> ('e, 'x) frontend" where
  "guard_trigger_failsafe fe = frontend_stop (keyboard_release_grab (emit ReqDumpRecentLog fe))"

definition guard_note_reject :: "('e, 'x) env \<Rightarrow> bool \<Rightarrow> ('e, 'x) frontend \<Rightarrow> ('e, 'x) frontend" where
  "guard_note_reject env pressed fe =
     (if \<not> pressed then fe
      else
        let now = sys_now_ms env;
            fe = (if guard_reject_press_window_start_ms fe = 0 \<or>
                     now - guard_reject_press_window_start_ms fe > GUARD_FAILSAFE_WINDOW_MS
                  then fe\<lparr>guard_reject_press_window_start_ms := now, guard_reject_press_streak := 1\<rparr>
                  else fe\<lparr>guard_reject_press_streak := guard_reject_press_streak fe + 1\<rparr>)
        in if guard_reject_press_streak fe \<ge> GUARD_FAILSAFE_THRESHOLD \<and>
              lifecycle_phase fe \<noteq> PHASE_ACTIVATING
           then guard_trigger_failsafe fe else fe)"

subsection \<open>Listeners of the grab\<close>

definition on_keymap :: "('e, 'x) env \<Rightarrow> u32 \<Rightarrow> u32 \<Rightarrow> ('e, 'x) frontend \<Rightarrow> ('e, 'x) frontend" where
  "on_keymap env format map_size fe =
     keyboard_handle_keymap env format map_size (vk_forward_keymap env format map_size fe)"

definition on_modifiers ::
    "('e, 'x) env \<Rightarrow> u32 \<Rightarrow> u32 \<Rightarrow> u32 \<Rightarrow> u32 \<Rightarrow> ('e, 'x) frontend \<Rightarrow> ('e, 'x) frontend" where
  "on_modifiers env depressed latched locked grp fe = (case keyboard fe of
       None \<Rightarrow> fe
     | Some kb \<Rightarrow>
         let prev = xkb_effective_modifiers env kb;
             fe = keyboard_handle_modifiers env depressed latched locked grp fe;
             cur = (case keyboard fe of None \<Rightarrow> 0 | Some k \<Rightarrow> xkb_effective_modifiers env k);
             fe = (if cur AND (TYPIO_MOD_CTRL OR TYPIO_MOD_ALT OR TYPIO_MOD_SUPER) \<noteq> 0
                   then upd_keyboard (\<lambda>k. k\<lparr>saw_blocking_modifier := True\<rparr>) fe else fe);
             fe = (if repeating kb \<and> repeat_should_cancel_on_modifier_transition prev cur
                   then keyboard_repeat_stop fe else fe)
         in vk_forward_modifiers env depressed latched locked grp fe)"

definition on_repeat_info :: "int \<Rightarrow> int \<Rightarrow> ('e, 'x) frontend \<Rightarrow> ('e, 'x) frontend" where
  "on_repeat_info rate delay fe =
     upd_keyboard (\<lambda>k. k\<lparr>repeat_rate := rate, repeat_delay := delay\<rparr>) fe"

definition update_physical_modifiers :: "u32 \<Rightarrow> bool \<Rightarrow> u32 \<Rightarrow> u32" where
  "update_physical_modifiers ks pressed phys =
     (if pressed then
        (if ks = KEY_Shift_L \<or> ks = KEY_Shift_R then phys OR TYPIO_MOD_SHIFT
         else if ks = KEY_Control_L \<or> ks = KEY_Control_R then phys OR TYPIO_MOD_CTRL
         else if ks = KEY_Alt_L \<or> ks = KEY_Alt_R then phys OR TYPIO_MOD_ALT
         else if ks = KEY_Super_L \<or> ks = KEY_Super_R then phys OR TYPIO_MOD_SUPER
         else phys)
      else
        (if ks = KEY_Shift_L \<or> ks = KEY_Shift_R then phys AND NOT TYPIO_MOD_SHIFT
         else if ks = KEY_Control_L \<or> ks = KEY_Control_R then phys AND NOT TYPIO_MOD_CTRL
         else if ks = KEY_Alt_L \<or> ks = KEY_Alt_R then phys AND NOT TYPIO_MOD_ALT
         else if ks = KEY_Super_L \<or> ks = KEY_Super_R then phys AND NOT TYPIO_MOD_SUPER
         else phys))"

definition on_key :: "('e, 'x) env \<Rightarrow> u32 \<Rightarrow> u32 \<Rightarrow> bool \<Rightarrow> ('e, 'x) frontend \<Rightarrow> ('e, 'x) frontend" where
  "on_key env time key pressed fe = (case keyboard fe of
       None \<Rightarrow> fe
     | Some kb \<Rightarrow>
         if xkb kb = None then fe
         else
           let ks = keyboard_keysym env kb key;
               unicode = keyboard_unicode env kb key;
               modifiers = modifier_policy_effective_modifiers (physical_modifiers kb)
                             (xkb_effective_modifiers env kb) (active_generation_owned_keys fe) ks pressed
           in if pressed \<and>
                 key_route_reserved_action (shortcuts fe) ks modifiers = RESERVED_ACTION_EMERGENCY_EXIT
              then frontend_stop (keyboard_release_grab (emit ReqDumpRecentLog fe))
              else if guard_reason env fe \<noteq> None then
                let fe = guard_note_reject env pressed fe
                in if \<not> pressed \<and> repeating kb \<and> repeat_key kb = key then keyboard_repeat_stop fe else fe
              else
                let fe = guard_reset fe;
                    fe = upd_keyboard (\<lambda>k. k\<lparr>physical_modifiers :=
                           update_physical_modifiers ks pressed (physical_modifiers k)\<rparr>) fe
                in if pressed then key_arbiter_press env key ks modifiers unicode time fe
                   else key_arbiter_release env key ks modifiers unicode time fe)"

subsection \<open>What the keyboard path leaves alone\<close>

text \<open>
  The view of the frontend that no keyboard event changes: whether there is a grab and a session,
  the phase, the bound objects and the readiness of the virtual keyboard.
\<close>

abbreviation keeps_activation :: "('e, 'x) frontend \<Rightarrow> ('e, 'x) frontend \<Rightarrow> bool" where
  "keeps_activation fe' fe \<equiv>
     (keyboard fe' = None) = (keyboard fe = None) \<and> (session fe' = None) = (session fe = None) \<and>
     lifecycle_phase fe' = lifecycle_phase fe \<and> dispatch_epoch fe' = dispatch_epoch fe \<and>
     shortcuts fe' = shortcuts fe \<and> fe_display fe' = fe_display fe \<and>
     fe_input_method fe' = fe_input_method fe \<and> fe_virtual_keyboard fe' = fe_virtual_keyboard fe \<and>
     active_key_generation fe' = active_key_generation fe"

abbreviation keeps_readiness :: "('e, 'x) frontend \<Rightarrow> ('e, 'x) frontend \<Rightarrow> bool" where
  "keeps_readiness fe' fe \<equiv>
     vk_can_forward fe' = vk_can_forward fe \<and> vk_can_release fe' = vk_can_release fe"

lemma keyboard_repeat_stop_activation [simp]:
  "keeps_activation (keyboard_repeat_stop fe) fe" "keeps_readiness (keyboard_repeat_stop fe) fe"
  by simp_all

lemma keyboard_repeat_maybe_start_activation [simp]:
  "keeps_activation (keyboard_repeat_maybe_start key t m fe) fe"
  "keeps_readiness (keyboard_repeat_maybe_start key t m fe) fe"
  "key_states (keyboard_repeat_maybe_start key t m fe) = key_states fe"
  "app_key_down k (out (keyboard_repeat_maybe_start key t m fe)) = app_key_down k (out fe)"
  by (simp_all add: keyboard_repeat_maybe_start_def Let_def split: option.split)

lemma repeat_to_engine_activation [simp]:
  "keeps_activation (repeat_to_engine env kb ks u fe) fe"
  "keeps_readiness (repeat_to_engine env kb ks u fe) fe"
  by (simp_all add: repeat_to_engine_def Let_def case_prod_beta)

lemma keyboard_dispatch_repeat_activation [simp]:
  "keeps_activation (keyboard_dispatch_repeat env fe) fe"
  "keeps_readiness (keyboard_dispatch_repeat env fe) fe"
  by (simp_all add: keyboard_dispatch_repeat_def Let_def split: option.split)

lemma keyboard_process_key_press_activation [simp]:
  "keeps_activation (keyboard_process_key_press env key ks m u t fe) fe"
  "keeps_readiness (keyboard_process_key_press env key ks m u t fe) fe"
  by (simp_all add: keyboard_process_key_press_def Let_def
      key_route_process_press_frame(1) [of env key ks m u t fe, symmetric]
      del: key_route_process_press_frame(1) split: option.split)

lemma keyboard_process_key_release_activation [simp]:
  "keeps_activation (keyboard_process_key_release env key ks m u t fe) fe"
  "keeps_readiness (keyboard_process_key_release env key ks m u t fe) fe"
  by (simp_all add: keyboard_process_key_release_def split: option.split)

lemma replay_event_activation [simp]:
  "keeps_activation (replay_event env ev fe) fe" "keeps_readiness (replay_event env ev fe) fe"
  by (simp_all add: replay_event_def)

lemma fold_replay_activation [simp]:
  "keeps_activation (fold (replay_event env) evs fe) fe"
  "keeps_readiness (fold (replay_event env) evs fe) fe"
  by (induction evs arbitrary: fe) simp_all

lemma upd_arbiter_activation [simp]:
  "keeps_activation (upd_arbiter f fe) fe" "keeps_readiness (upd_arbiter f fe) fe"
  "keeps_tracking (upd_arbiter f fe) fe" "out (upd_arbiter f fe) = out fe"
  "core (upd_arbiter f fe) = core fe"
  by (simp_all add: upd_arbiter_def)

lemma release_orphan_activation [simp]:
  "keeps_activation (release_orphan env ev fe) fe" "keeps_readiness (release_orphan env ev fe) fe"
  by (simp_all add: release_orphan_def)

lemma fold_release_orphan_activation [simp]:
  "keeps_activation (fold (release_orphan env) evs fe) fe"
  "keeps_readiness (fold (release_orphan env) evs fe) fe"
  by (induction evs arbitrary: fe) simp_all

lemma core_call_readiness [simp]: "keeps_readiness (core_call env g fe) fe"
  by (simp add: vk_can_forward_def vk_can_release_def vk_has_current_generation_keymap_def)

lemma arbiter_replay_activation [simp]:
  "keeps_activation (arbiter_replay env fe) fe" "keeps_readiness (arbiter_replay env fe) fe"
  by (simp_all add: arbiter_replay_def)

lemma arbiter_consume_activation [simp]:
  "keeps_activation (arbiter_consume env fe) fe" "keeps_readiness (arbiter_consume env fe) fe"
  by (simp_all add: arbiter_consume_def arbiter_release_orphaned_keys_def Let_def)

lemma key_arbiter_activation [simp]:
  "keeps_activation (key_arbiter_press env key ks m u t fe) fe"
  "keeps_readiness (key_arbiter_press env key ks m u t fe) fe"
  "keeps_activation (key_arbiter_release env key ks m u t fe) fe"
  "keeps_readiness (key_arbiter_release env key ks m u t fe) fe"
  by (simp_all add: key_arbiter_press_def key_arbiter_release_def Let_def
      split: option.split TypioArbiterState.split)

lemma guard_reset_activation [simp]:
  "keeps_activation (guard_reset fe) fe" "keeps_readiness (guard_reset fe) fe"
  "keeps_tracking (guard_reset fe) fe" "out (guard_reset fe) = out fe" "core (guard_reset fe) = core fe"
  "keyboard (guard_reset fe) = keyboard fe"
  by (simp_all add: guard_reset_def vk_can_forward_def vk_can_release_def
      vk_has_current_generation_keymap_def)

lemma guard_note_reject_activation [simp]:
  "keeps_activation (guard_note_reject env p fe) fe"
  "keeps_tracking (guard_note_reject env p fe) fe"
  "app_key_down key (out (guard_note_reject env p fe)) = app_key_down key (out fe)"
  by (simp_all add: guard_note_reject_def guard_trigger_failsafe_def Let_def)

lemma on_key_activation [simp]: "keeps_activation (on_key env t key p fe) fe"
  by (simp add: on_key_def Let_def split: option.split)

lemma vk_forward_modifiers_activation [simp]:
  "keeps_activation (vk_forward_modifiers env d l k g fe) fe"
  by simp

lemma on_modifiers_activation [simp]: "keeps_activation (on_modifiers env d l k g fe) fe"
  by (simp add: on_modifiers_def keyboard_handle_modifiers_def Let_def split: option.split)

lemma on_repeat_info_activation [simp]: "keeps_activation (on_repeat_info r d fe) fe"
  by (simp add: on_repeat_info_def)

lemma vk_forward_keymap_activation [simp]:
  "keeps_activation (vk_forward_keymap env f s fe) fe"
  by (simp add: vk_forward_keymap_def Let_def)

lemma on_keymap_activation [simp]: "keeps_activation (on_keymap env f s fe) fe"
  by (simp add: on_keymap_def keyboard_handle_keymap_def split: option.split)

end
