(* ===== verification/Arbiter_Spec.thy ===== *)
theory Arbiter_Spec
  imports Wl_Keyboard
begin

declare not_None_eq [simp del]

section \<open>The chord arbiter against its specification\<close>

text \<open>
  What the arbiter promises, as a machine over the events it holds back: each event is passed on
  behind the ones held, held, or completes the chord. The code refines it, so that a run of the
  code never reorders, duplicates or invents an event, and loses no press.
\<close>

subsection \<open>Specification\<close>

datatype arb_verdict = Pass "TypioArbiterEvent list" | Hold | Chord

definition arb_cancels :: "TypioShortcutBinding \<Rightarrow> u32 \<Rightarrow> TypioArbiterEvent \<Rightarrow> bool" where
  "arb_cancels b phys ev = arbiter_should_cancel b (ae_keysym ev) phys (ae_is_press ev)"

definition arb_spec ::
    "TypioShortcutBinding \<Rightarrow> u32 \<Rightarrow> TypioArbiterEvent \<Rightarrow> TypioArbiterEvent list \<Rightarrow>
       arb_verdict \<times> TypioArbiterEvent list" where
  "arb_spec b phys ev held =
     (if held = [] then
        (if ae_is_press ev \<and> arbiter_should_start_buffering b (ae_keysym ev) phys
         then (Hold, [ev]) else (Pass [ev], []))
      else if arb_cancels b phys ev \<or> (ae_is_press ev \<and> length held \<ge> TYPIO_ARBITER_MAX_BUFFERED - 1)
      then (Pass (held @ [ev]), [])
      else if \<not> ae_is_press ev \<and> arbiter_chord_complete b phys then (Chord, [])
      else (Hold, if length held \<ge> TYPIO_ARBITER_MAX_BUFFERED then held else held @ [ev]))"

definition arbiter_ok :: "TypioKeyArbiter \<Rightarrow> bool" where
  "arbiter_ok a \<longleftrightarrow>
     (ar_state a = ARBITER_IDLE) = (ar_buffer a = []) \<and> length (ar_buffer a) \<le> TYPIO_ARBITER_MAX_BUFFERED"

definition arbiter_dispatch ::
    "('e, 'x) env \<Rightarrow> TypioArbiterEvent \<Rightarrow> ('e, 'x) frontend \<Rightarrow> ('e, 'x) frontend" where
  "arbiter_dispatch env ev fe =
     (if ae_is_press ev
      then key_arbiter_press env (ae_key ev) (ae_keysym ev) (ae_modifiers ev) (ae_unicode ev) (ae_time ev) fe
      else key_arbiter_release env (ae_key ev) (ae_keysym ev) (ae_modifiers ev) (ae_unicode ev) (ae_time ev) fe)"

subsection \<open>What the specification does with the events\<close>

lemma arb_spec_held:
  assumes "arb_spec b phys ev held = (v, held')" and "length held \<le> TYPIO_ARBITER_MAX_BUFFERED"
  shows "length held' \<le> TYPIO_ARBITER_MAX_BUFFERED"
  using assms by (auto simp: arb_spec_def TYPIO_ARBITER_MAX_BUFFERED_def split: if_splits)

text \<open>
  What a verdict does with the events: those passed are routed one by one, a completed chord swallows
  what was held and the event.
\<close>

datatype arb_action = Routed TypioArbiterEvent | Swallowed "TypioArbiterEvent list"

fun action_events :: "arb_action \<Rightarrow> TypioArbiterEvent list" where
  "action_events (Routed ev) = [ev]"
| "action_events (Swallowed evs) = evs"

definition events_of :: "arb_action list \<Rightarrow> TypioArbiterEvent list" where
  "events_of acts = concat (map action_events acts)"

lemma events_of_simps [simp]:
  "events_of [] = []" "events_of (a # acts) = action_events a @ events_of acts" "events_of (acts @ acts') = events_of acts @ events_of acts'"
  "events_of (map Routed evs) = evs"
proof -
  show "events_of (map Routed evs) = evs" by (induction evs) (simp_all add: events_of_def)
qed (simp_all add: events_of_def)

text \<open>Room for one more: a buffer that is full drops the event (a release, as presses cancel before).\<close>

definition held_with :: "TypioArbiterEvent list \<Rightarrow> TypioArbiterEvent \<Rightarrow> TypioArbiterEvent list" where
  "held_with held ev = (if TYPIO_ARBITER_MAX_BUFFERED \<le> length held then held else held @ [ev])"

definition verdict_actions :: "arb_verdict \<Rightarrow> TypioArbiterEvent list \<Rightarrow> TypioArbiterEvent \<Rightarrow> arb_action list" where
  "verdict_actions v held ev = (case v of Pass evs \<Rightarrow> map Routed evs | Hold \<Rightarrow> [] | Chord \<Rightarrow> [Swallowed (held_with held ev)])"

lemma arb_spec_keeps:
  assumes "arb_spec b phys ev held = (v, held')"
  shows "subseq (events_of (verdict_actions v held ev) @ held') (held @ [ev])"
    and "filter ae_is_press (events_of (verdict_actions v held ev) @ held') = filter ae_is_press (held @ [ev])"
    and "\<not> arbiter_chord_complete b phys \<or> ae_is_press ev \<Longrightarrow> list_all (\<lambda>a. \<exists>e. a = Routed e) (verdict_actions v held ev)"
  using assms
  by (auto simp: arb_spec_def verdict_actions_def held_with_def TYPIO_ARBITER_MAX_BUFFERED_def list_all_iff split: if_splits)

text \<open>While a switch modifier stays down at each release, no chord completes.\<close>

definition chord_held :: "TypioShortcutBinding \<Rightarrow> (u32 \<times> TypioArbiterEvent) list \<Rightarrow> bool" where
  "chord_held b evs \<longleftrightarrow> (\<forall>(phys, ev) \<in> set evs. \<not> arbiter_chord_complete b phys \<or> ae_is_press ev)"

subsection \<open>The code refines the specification\<close>

definition kb_arbiter :: "('e, 'x) frontend \<Rightarrow> TypioKeyArbiter" where
  "kb_arbiter fe = (case keyboard fe of None \<Rightarrow> key_arbiter_init | Some kb \<Rightarrow> arbiter kb)"

definition kb_phys :: "('e, 'x) frontend \<Rightarrow> u32" where
  "kb_phys fe = (case keyboard fe of None \<Rightarrow> 0 | Some kb \<Rightarrow> physical_modifiers kb)"

lemma upd_arbiter_kb_arbiter:
  "keyboard fe \<noteq> None \<Longrightarrow> kb_arbiter (upd_arbiter f fe) = f (kb_arbiter fe)"
  by (auto simp: kb_arbiter_def upd_arbiter_def split: option.split)

lemma arbiter_dispatch_idle:
  assumes "keyboard fe \<noteq> None" and "arbiter_ok (kb_arbiter fe)"
    and "arb_spec (sc_switch_engine (shortcuts fe)) (kb_phys fe) ev [] = (Pass evs, held')"
    and "ar_buffer (kb_arbiter fe) = []"
  shows "arbiter_dispatch env ev fe = replay_event env ev fe"
  using assms
  by (auto simp: arb_spec_def arbiter_dispatch_def key_arbiter_press_def key_arbiter_release_def
      kb_arbiter_def kb_phys_def replay_event_def arbiter_ok_def Let_def
      split: if_splits option.splits TypioArbiterState.splits)

lemma arbiter_dispatch_pass:
  assumes "keyboard fe \<noteq> None" and "arbiter_ok (kb_arbiter fe)"
    and "arb_spec (sc_switch_engine (shortcuts fe)) (kb_phys fe) ev (ar_buffer (kb_arbiter fe)) = (Pass evs, held')"
    and "ar_buffer (kb_arbiter fe) \<noteq> []"
  shows "arbiter_dispatch env ev fe = replay_event env ev (arbiter_replay env fe)"
  using assms
  by (auto simp: arb_spec_def arb_cancels_def arbiter_dispatch_def key_arbiter_press_def
      key_arbiter_release_def kb_arbiter_def kb_phys_def replay_event_def arbiter_ok_def Let_def
      split: if_splits option.splits TypioArbiterState.splits)

lemma arbiter_event_eta:
  "arbiter_event (ae_is_press ev) (ae_key ev) (ae_keysym ev) (ae_modifiers ev) (ae_unicode ev) (ae_time ev) = ev"
  by (simp add: arbiter_event_def)

lemma arbiter_event_press [simp]:
  "ae_is_press ev \<Longrightarrow>
     arbiter_event True (ae_key ev) (ae_keysym ev) (ae_modifiers ev) (ae_unicode ev) (ae_time ev) = ev"
  "\<not> ae_is_press ev \<Longrightarrow>
     arbiter_event False (ae_key ev) (ae_keysym ev) (ae_modifiers ev) (ae_unicode ev) (ae_time ev) = ev"
  using arbiter_event_eta[of ev] by simp_all

lemma arbiter_dispatch_hold:
  assumes "keyboard fe \<noteq> None" and "arbiter_ok (kb_arbiter fe)"
    and "arb_spec (sc_switch_engine (shortcuts fe)) (kb_phys fe) ev (ar_buffer (kb_arbiter fe)) = (Hold, held')"
  shows "arbiter_dispatch env ev fe =
     upd_arbiter (\<lambda>a. a\<lparr>ar_state := ARBITER_BUFFERING, ar_buffer := held'\<rparr>) fe"
proof -
  obtain kb where kb: "keyboard fe = Some kb" using assms(1) by auto
  have upd: "upd_arbiter f fe = upd_arbiter g fe" if "f (arbiter kb) = g (arbiter kb)" for f g
    using kb that by (simp add: upd_arbiter_def upd_keyboard_def)
  let ?b = "sc_switch_engine (shortcuts fe)"
  show ?thesis
  proof (cases "ar_buffer (arbiter kb) = []")
    case True
    with assms(3) kb have "ae_is_press ev" "held' = [ev]"
      "arbiter_should_start_buffering ?b (ae_keysym ev) (physical_modifiers kb)"
      by (auto simp: arb_spec_def kb_arbiter_def kb_phys_def split: if_splits)
    moreover from True assms(2) kb have "ar_state (arbiter kb) = ARBITER_IDLE"
      by (simp add: arbiter_ok_def kb_arbiter_def)
    ultimately have "arbiter_dispatch env ev fe =
        upd_arbiter (\<lambda>a. arbiter_buffer_push ev (a\<lparr>ar_state := ARBITER_BUFFERING\<rparr>)) fe"
      using kb by (simp add: arbiter_dispatch_def key_arbiter_press_def Let_def)
    also have "\<dots> = upd_arbiter (\<lambda>a. a\<lparr>ar_state := ARBITER_BUFFERING, ar_buffer := held'\<rparr>) fe"
      by (rule upd) (simp add: arbiter_buffer_push_def TYPIO_ARBITER_MAX_BUFFERED_def True \<open>held' = [ev]\<close>)
    finally show ?thesis .
  next
    case False
    with assms(2) kb have st: "ar_state (arbiter kb) = ARBITER_BUFFERING"
      by (cases "ar_state (arbiter kb)") (simp_all add: arbiter_ok_def kb_arbiter_def)
    from False assms(3) kb have
      "\<not> arbiter_should_cancel ?b (ae_keysym ev) (physical_modifiers kb) (ae_is_press ev)"
      and full: "ae_is_press ev \<Longrightarrow> length (ar_buffer (arbiter kb)) < TYPIO_ARBITER_MAX_BUFFERED - 1"
      and "\<not> ae_is_press ev \<Longrightarrow> \<not> arbiter_chord_complete ?b (physical_modifiers kb)"
      and held: "held' = (if length (ar_buffer (arbiter kb)) \<ge> TYPIO_ARBITER_MAX_BUFFERED
                    then ar_buffer (arbiter kb) else ar_buffer (arbiter kb) @ [ev])"
      by (auto simp: arb_spec_def arb_cancels_def kb_arbiter_def kb_phys_def split: if_splits)
    then have "arbiter_dispatch env ev fe = upd_arbiter (arbiter_buffer_push ev) fe"
      using kb st
      by (cases "ae_is_press ev")
         (simp_all add: arbiter_dispatch_def key_arbiter_press_def key_arbiter_release_def Let_def)
    also have "\<dots> = upd_arbiter (\<lambda>a. a\<lparr>ar_state := ARBITER_BUFFERING, ar_buffer := held'\<rparr>) fe"
      by (rule upd) (cases "arbiter kb", use st held in \<open>simp add: arbiter_buffer_push_def\<close>)
    finally show ?thesis .
  qed
qed

lemma arbiter_dispatch_chord:
  assumes "keyboard fe \<noteq> None" and "arbiter_ok (kb_arbiter fe)"
    and "arb_spec (sc_switch_engine (shortcuts fe)) (kb_phys fe) ev (ar_buffer (kb_arbiter fe)) = (Chord, held')"
  shows "arbiter_dispatch env ev fe = arbiter_consume env (upd_arbiter (arbiter_buffer_push ev) fe)"
  using assms
  by (auto simp: arb_spec_def arb_cancels_def arbiter_dispatch_def key_arbiter_press_def
      key_arbiter_release_def kb_arbiter_def kb_phys_def arbiter_ok_def Let_def
      split: if_splits option.splits TypioArbiterState.splits)

subsection \<open>The arbiter stays well-formed\<close>

text \<open>Nothing on the routing path touches the arbiter, so only its own operations can.\<close>

lemma arbiter_dispatch_refines:
  assumes "keyboard fe \<noteq> None" and "arbiter_ok (kb_arbiter fe)"
  shows "arbiter_dispatch env ev fe =
     (case arb_spec (sc_switch_engine (shortcuts fe)) (kb_phys fe) ev (ar_buffer (kb_arbiter fe)) of
        (Pass evs, held') \<Rightarrow>
          replay_event env ev (if ar_buffer (kb_arbiter fe) = [] then fe else arbiter_replay env fe)
      | (Hold, held') \<Rightarrow> upd_arbiter (\<lambda>a. a\<lparr>ar_state := ARBITER_BUFFERING, ar_buffer := held'\<rparr>) fe
      | (Chord, held') \<Rightarrow> arbiter_consume env (upd_arbiter (arbiter_buffer_push ev) fe))"
proof -
  obtain v held' where v:
    "arb_spec (sc_switch_engine (shortcuts fe)) (kb_phys fe) ev (ar_buffer (kb_arbiter fe)) = (v, held')"
    by (cases "arb_spec (sc_switch_engine (shortcuts fe)) (kb_phys fe) ev (ar_buffer (kb_arbiter fe))")
  show ?thesis
  proof (cases v)
    case (Pass evs)
    show ?thesis
    proof (cases "ar_buffer (kb_arbiter fe) = []")
      case True
      with v Pass have "arb_spec (sc_switch_engine (shortcuts fe)) (kb_phys fe) ev [] = (Pass evs, held')" by simp
      from arbiter_dispatch_idle [OF assms this True] True v Pass show ?thesis by simp
    next
      case False
      from arbiter_dispatch_pass [OF assms v [unfolded Pass] False] False v Pass show ?thesis by simp
    qed
  next
    case Hold
    from arbiter_dispatch_hold [OF assms v [unfolded Hold]] v Hold show ?thesis by simp
  next
    case Chord
    from arbiter_dispatch_chord [OF assms v [unfolded Chord]] v Chord show ?thesis by simp
  qed
qed

lemma kb_arbiter_cong: "keyboard fe' = keyboard fe \<Longrightarrow> kb_arbiter fe' = kb_arbiter fe"
  by (simp add: kb_arbiter_def)

lemma kb_arbiter_map:
  "keyboard fe' = map_option f (keyboard fe) \<Longrightarrow> (\<And>k. arbiter (f k) = arbiter k) \<Longrightarrow>
     kb_arbiter fe' = kb_arbiter fe"
  by (simp add: kb_arbiter_def split: option.split)

lemma kb_arbiter_base [simp]:
  "kb_arbiter (emit r fe) = kb_arbiter fe"
  "kb_arbiter (key_set_state key st fe) = kb_arbiter fe"
  "kb_arbiter (key_clear_tracking key fe) = kb_arbiter fe"
  "kb_arbiter (key_claim_current_generation key fe) = kb_arbiter fe"
  "kb_arbiter (frontend_stop fe) = kb_arbiter fe"
  "kb_arbiter (text_ui_backend_show_status t fe) = kb_arbiter fe"
  "kb_arbiter (text_ui_backend_hide_status fe) = kb_arbiter fe"
  "kb_arbiter (snd (core_process_key env ev fe)) = kb_arbiter fe"
  "kb_arbiter (core_call env g fe) = kb_arbiter fe"
  "kb_arbiter (guard_reset fe) = kb_arbiter fe"
  "kb_arbiter (fe\<lparr>core := c\<rparr>) = kb_arbiter fe"
  "kb_arbiter (emit_runtime_state_changed fe) = kb_arbiter fe"
  by (rule kb_arbiter_cong; simp)+

lemma kb_arbiter_upd_keyboard:
  "(\<And>k. arbiter (f k) = arbiter k) \<Longrightarrow> kb_arbiter (upd_keyboard f fe) = kb_arbiter fe"
  by (simp add: kb_arbiter_def split: option.split)

lemma kb_arbiter_fields [simp]:
  "kb_arbiter (fe\<lparr>vk_drop_count := n\<rparr>) = kb_arbiter fe"
  "kb_arbiter (vk_mark_forward_progress env fe) = kb_arbiter fe"
  "kb_arbiter (vk_set_state env st fe) = kb_arbiter fe"
  by (simp_all add: kb_arbiter_def)

lemma kb_arbiter_grab [simp]:
  "kb_arbiter (keyboard_release_grab fe) = kb_arbiter fe"
  "kb_arbiter (keyboard_repeat_stop fe) = kb_arbiter fe"
  by (simp_all add: keyboard_release_grab_def keyboard_repeat_stop_def kb_arbiter_upd_keyboard
      split: option.split)

lemma kb_arbiter_fail_safe [simp]: "kb_arbiter (vk_trigger_fail_safe fe) = kb_arbiter fe"
  by (simp add: vk_trigger_fail_safe_def Let_def)

lemma kb_arbiter_ready [simp]: "kb_arbiter (snd (vk_is_ready env fe)) = kb_arbiter fe"
  by (simp add: vk_is_ready_def Let_def)

lemma kb_arbiter_forward [simp]:
  "kb_arbiter (vk_forward_key env t key p fe) = kb_arbiter fe"
  "kb_arbiter (vk_forward_modifiers env d l k g fe) = kb_arbiter fe"
  by (simp_all add: vk_forward_key_def vk_forward_modifiers_def case_prod_beta)

lemma kb_arbiter_press [simp]:
  "kb_arbiter (key_route_process_press env key ks m u t fe) = kb_arbiter fe"
proof -
  have latched: "kb_arbiter fe' = kb_arbiter fe" if "route_press_latched env key t fe = Some fe'" for fe'
    using that by (auto simp: route_press_latched_def split: TypioKeyTrackState.splits option.splits if_splits)
  have startup: "kb_arbiter (snd (route_press_startup key g)) = kb_arbiter g" for g :: "('a, 'b) frontend"
    by (simp add: route_press_startup_def Let_def kb_arbiter_upd_keyboard split: option.split)
  have shortcut: "kb_arbiter fe' = kb_arbiter g" if "route_press_shortcut env key ks m u t g = Some fe'" for fe' g
    using that by (auto simp: route_press_shortcut_def route_press_voice_def case_prod_beta split: if_splits)
  have engine: "kb_arbiter (route_press_engine env key ks m u t g) = kb_arbiter g" for g
    by (simp add: route_press_engine_def Let_def case_prod_beta)
  show ?thesis
    by (auto simp: key_route_process_press_def case_prod_beta latched startup engine
        dest: shortcut split: option.split)
qed

lemma kb_arbiter_release [simp]:
  "kb_arbiter (key_route_process_release env key ks m u t fe) = kb_arbiter fe"
proof -
  have startup: "kb_arbiter (route_release_startup env key t g) = kb_arbiter g" for g
    by (simp add: route_release_startup_def Let_def kb_arbiter_upd_keyboard)
  have idle: "kb_arbiter (route_release_idle env key ks m u t g) = kb_arbiter g" for g
    by (simp add: route_release_idle_def Let_def kb_arbiter_upd_keyboard split: option.split)
  have fwd: "kb_arbiter (route_release_forwarded env key ks m u t g) = kb_arbiter g" for g
    by (simp add: route_release_forwarded_def Let_def case_prod_beta)
  show ?thesis
    by (simp add: key_route_process_release_def startup idle fwd split: TypioKeyTrackState.split)
qed

lemma kb_arbiter_process [simp]:
  "kb_arbiter (keyboard_process_key_press env key ks m u t fe) = kb_arbiter fe"
  "kb_arbiter (keyboard_process_key_release env key ks m u t fe) = kb_arbiter fe"
  by (simp_all add: keyboard_process_key_press_def keyboard_process_key_release_def
      keyboard_repeat_maybe_start_def kb_arbiter_upd_keyboard Let_def split: option.split)

lemma kb_arbiter_replay_event [simp]: "kb_arbiter (replay_event env ev fe) = kb_arbiter fe"
  by (simp add: replay_event_def)

lemma arbiter_ok_init: "arbiter_ok key_arbiter_init"
  by (simp add: arbiter_ok_def key_arbiter_init_def)

lemma arbiter_ok_replay [simp]: "arbiter_ok (kb_arbiter (arbiter_replay env fe))"
  by (cases "keyboard (fold (replay_event env) (arbiter_buffer fe) fe) = None")
     (simp_all add: arbiter_replay_def upd_arbiter_kb_arbiter, simp_all add: arbiter_ok_def
       kb_arbiter_def upd_arbiter_def key_arbiter_init_def split: option.split)

lemma arbiter_ok_consume [simp]: "arbiter_ok (kb_arbiter (arbiter_consume env fe))"
  by (simp add: arbiter_consume_def Let_def kb_arbiter_def upd_arbiter_def arbiter_ok_def
      key_arbiter_init_def split: option.split)

lemma arbiter_dispatch_ok:
  assumes "arbiter_ok (kb_arbiter fe)"
  shows "arbiter_ok (kb_arbiter (arbiter_dispatch env ev fe))"
proof (cases "keyboard fe = None")
  case True
  with assms show ?thesis
    by (simp add: arbiter_dispatch_def key_arbiter_press_def key_arbiter_release_def)
next
  case False
  let ?s = "arb_spec (sc_switch_engine (shortcuts fe)) (kb_phys fe) ev (ar_buffer (kb_arbiter fe))"
  have len: "length (ar_buffer (kb_arbiter fe)) \<le> TYPIO_ARBITER_MAX_BUFFERED"
    using assms by (simp add: arbiter_ok_def)
  obtain v held' where s: "?s = (v, held')" by (cases ?s)
  show ?thesis
  proof (cases v)
    case (Pass evs)
    show ?thesis
    proof (cases "ar_buffer (kb_arbiter fe) = []")
      case True
      with s Pass have "arb_spec (sc_switch_engine (shortcuts fe)) (kb_phys fe) ev [] = (Pass evs, held')"
        by simp
      from arbiter_dispatch_idle[OF False assms this True] assms show ?thesis by simp
    next
      case nonempty: False
      from arbiter_dispatch_pass[OF False assms s[unfolded Pass] nonempty] show ?thesis by simp
    qed
  next
    case Hold
    have "held' \<noteq> []" using s Hold by (auto simp: arb_spec_def split: if_splits)
    with arbiter_dispatch_hold[OF False assms s[unfolded Hold]] arb_spec_held[OF s len]
    show ?thesis using False by (simp add: upd_arbiter_kb_arbiter arbiter_ok_def)
  next
    case Chord
    from arbiter_dispatch_chord[OF False assms s[unfolded Chord]] show ?thesis by simp
  qed
qed

subsection \<open>Runs of the code\<close>

text \<open>
  An event comes with the environment and the physical modifiers of its moment. What a run did to the
  frontend: events went through \<^verbatim>\<open>typio_wl_keyboard_process_key_press\<close> or \<^verbatim>\<open>_release\<close>, or
  were swallowed by a completed chord, and in between only the arbiter's own fields and the physical
  modifiers were set.
\<close>

type_synonym ('e, 'x) arb_input = "('e, 'x) env \<times> u32 \<times> TypioArbiterEvent"

definition set_phys :: "u32 \<Rightarrow> ('e, 'x) frontend \<Rightarrow> ('e, 'x) frontend" where
  "set_phys phys = upd_keyboard (\<lambda>k. k\<lparr>physical_modifiers := phys\<rparr>)"

definition arbiter_input :: "('e, 'x) arb_input \<Rightarrow> ('e, 'x) frontend \<Rightarrow> ('e, 'x) frontend" where
  "arbiter_input i fe = (case i of (env, phys, ev) \<Rightarrow> arbiter_dispatch env ev (set_phys phys fe))"

inductive arb_trace :: "('e, 'x) env set \<Rightarrow> ('e, 'x) frontend \<Rightarrow> arb_action list \<Rightarrow> ('e, 'x) frontend \<Rightarrow> bool" for E fe where
  start: "arb_trace E fe [] fe"
| routed: "arb_trace E fe acts fe' \<Longrightarrow> env \<in> E \<Longrightarrow> arb_trace E fe (acts @ [Routed ev]) (replay_event env ev fe')"
| swallowed: "arb_trace E fe acts fe' \<Longrightarrow> env \<in> E \<Longrightarrow>
    arb_trace E fe (acts @ [Swallowed (arbiter_buffer fe')]) (arbiter_consume env fe')"
| arbiter: "arb_trace E fe acts fe' \<Longrightarrow> arb_trace E fe acts (upd_arbiter f fe')"
| modifiers: "arb_trace E fe acts fe' \<Longrightarrow> arb_trace E fe acts (set_phys phys fe')"

lemma arb_trace_trans:
  assumes "arb_trace E fe' acts' fe''" and "arb_trace E fe acts fe'"
  shows "arb_trace E fe (acts @ acts') fe''"
  using assms by (induction rule: arb_trace.induct) (auto simp flip: append_assoc intro: arb_trace.intros)

lemma arb_trace_mono: "arb_trace E fe acts fe' \<Longrightarrow> E \<subseteq> E' \<Longrightarrow> arb_trace E' fe acts fe'"
  by (induction rule: arb_trace.induct) (auto intro: arb_trace.intros)

lemma arb_trace_replay: "env \<in> E \<Longrightarrow> arb_trace E fe (map Routed evs) (fold (replay_event env) evs fe)"
proof (induction evs rule: rev_induct)
  case (snoc ev evs)
  then show ?case by (auto intro: arb_trace.routed)
qed (simp add: arb_trace.start)

lemma buffer_kb: "keyboard fe \<noteq> None \<Longrightarrow> arbiter_buffer fe = ar_buffer (kb_arbiter fe)"
  by (auto simp: arbiter_buffer_def kb_arbiter_def split: option.split)

lemma set_phys_facts:
  assumes "keyboard fe \<noteq> None"
  shows "keyboard (set_phys phys fe) \<noteq> None" "kb_arbiter (set_phys phys fe) = kb_arbiter fe" "kb_phys (set_phys phys fe) = phys"
    "shortcuts (set_phys phys fe) = shortcuts fe"
  using assms by (auto simp: set_phys_def kb_arbiter_def kb_phys_def upd_keyboard_def split: option.split)

lemma spec_pass: "arb_spec b phys ev held = (Pass evs, held') \<Longrightarrow> evs = held @ [ev] \<and> held' = []"
  by (auto simp: arb_spec_def split: if_splits)

lemma dispatch_trace:
  assumes "keyboard fe \<noteq> None" and "arbiter_ok (kb_arbiter fe)" and "env \<in> E"
    and "arb_spec (sc_switch_engine (shortcuts fe)) (kb_phys fe) ev (arbiter_buffer fe) = (v, held')"
  shows "arb_trace E fe (verdict_actions v (arbiter_buffer fe) ev) (arbiter_dispatch env ev fe)"
    and "arbiter_buffer (arbiter_dispatch env ev fe) = held'"
proof -
  let ?d = "arbiter_dispatch env ev fe" and ?held = "arbiter_buffer fe"
  have buf: "?held = ar_buffer (kb_arbiter fe)" by (rule buffer_kb [OF assms(1)])
  have "keyboard ?d \<noteq> None" using assms(1) by (simp add: arbiter_dispatch_def)
  then have buf': "arbiter_buffer ?d = ar_buffer (kb_arbiter ?d)" by (rule buffer_kb)
  note d = arbiter_dispatch_refines [OF assms(1,2), of env ev, folded buf, unfolded assms(4) prod.case]
  have "arb_trace E fe (verdict_actions v ?held ev) ?d \<and> arbiter_buffer ?d = held'"
  proof (cases v)
    case (Pass evs)
    note p = spec_pass [OF assms(4) [unfolded Pass]]
    have eq: "?d = replay_event env ev (if ?held = [] then fe else arbiter_replay env fe)" using d Pass by simp
    have "arb_trace E fe (map Routed ?held) (if ?held = [] then fe else arbiter_replay env fe)"
      using arb_trace_replay [OF assms(3), of fe ?held] by (auto simp: arbiter_replay_def intro: arb_trace.intros)
    from arb_trace.routed [OF this assms(3), of ev] have "arb_trace E fe (map Routed (?held @ [ev])) ?d" by (simp only: eq map_append list.map)
    moreover have "keyboard (fold (replay_event env) ?held fe) \<noteq> None" using assms(1) by simp
    then have "ar_buffer (kb_arbiter ?d) = []"
      unfolding eq using buf by (simp add: arbiter_replay_def upd_arbiter_kb_arbiter)
    ultimately show ?thesis using p Pass buf' by (simp add: verdict_actions_def)
  next
    case Hold
    then have eq: "?d = upd_arbiter (\<lambda>a. a\<lparr>ar_state := ARBITER_BUFFERING, ar_buffer := held'\<rparr>) fe" using d by simp
    show ?thesis unfolding buf' unfolding eq
      using assms(1) by (auto simp: Hold verdict_actions_def upd_arbiter_kb_arbiter intro: arb_trace.intros)
  next
    case Chord
    let ?p = "upd_arbiter (arbiter_buffer_push ev) fe"
    have eq: "?d = arbiter_consume env ?p" using d Chord by simp
    have "keyboard ?p \<noteq> None" using assms(1) by simp
    then have "arbiter_buffer ?p = held_with ?held ev"
      using buf assms(1) by (simp add: buffer_kb upd_arbiter_kb_arbiter arbiter_buffer_push_def held_with_def)
    then have "arb_trace E fe ([] @ [Swallowed (held_with ?held ev)]) ?d"
      using arb_trace.swallowed [OF arb_trace.arbiter [OF arb_trace.start] assms(3), of fe "arbiter_buffer_push ev"] unfolding eq by simp
    moreover have "arbiter_buffer ?d = []"
      unfolding eq by (simp add: arbiter_consume_def Let_def arbiter_buffer_def upd_arbiter_def split: option.split)
    moreover have "held' = []" using assms(4) Chord by (auto simp: arb_spec_def split: if_splits)
    ultimately show ?thesis using Chord by (simp add: verdict_actions_def)
  qed
  then show "arb_trace E fe (verdict_actions v ?held ev) ?d" "arbiter_buffer ?d = held'" by simp_all
qed

text \<open>A whole run: what was routed or swallowed, and is still held, is what came, in its order.\<close>

lemma arbiter_run_order:
  assumes "keyboard fe \<noteq> None" and "arbiter_ok (kb_arbiter fe)"
  shows "\<exists>acts. arb_trace (fst ` set is) fe acts (fold arbiter_input is fe) \<and>
    subseq (events_of acts @ arbiter_buffer (fold arbiter_input is fe)) (arbiter_buffer fe @ map (snd \<circ> snd) is) \<and>
    filter ae_is_press (events_of acts @ arbiter_buffer (fold arbiter_input is fe)) =
      filter ae_is_press (arbiter_buffer fe @ map (snd \<circ> snd) is) \<and>
    (chord_held (sc_switch_engine (shortcuts fe)) (map snd is) \<longrightarrow> list_all (\<lambda>a. \<exists>e. a = Routed e) acts)"
  using assms
proof (induction "is" arbitrary: fe)
  case Nil
  show ?case by (rule exI [of _ "[]"]) (simp add: arb_trace.start)
next
  case (Cons i "is")
  obtain env phys ev where i: "i = (env, phys, ev)" by (metis surj_pair)
  let ?p = "set_phys phys fe" and ?E = "fst ` set (i # is)"
  let ?d = "arbiter_input i fe" and ?b = "sc_switch_engine (shortcuts fe)" and ?held = "arbiter_buffer fe"
  note p = set_phys_facts [OF Cons.prems(1), of phys]
  have held: "arbiter_buffer ?p = ?held" using p(1,2) Cons.prems(1) by (simp add: buffer_kb)
  have ok: "arbiter_ok (kb_arbiter ?p)" using Cons.prems(2) p(2) by simp
  obtain v held' where v: "arb_spec ?b phys ev ?held = (v, held')" by fastforce
  let ?acts = "verdict_actions v ?held ev"
  have d: "?d = arbiter_dispatch env ev ?p" by (simp add: arbiter_input_def i)
  have step: "arb_trace ?E ?p ?acts ?d" "arbiter_buffer ?d = held'"
    using dispatch_trace [OF p(1) ok, of env ?E ev v held'] v by (simp_all add: p held d [unfolded i] i)
  have first: "arb_trace ?E fe ?acts ?d"
    using arb_trace_trans [OF step(1) arb_trace.modifiers [OF arb_trace.start]] by simp
  have inv: "keyboard ?d \<noteq> None" "arbiter_ok (kb_arbiter ?d)" "shortcuts ?d = shortcuts fe"
    using p arbiter_dispatch_ok [OF ok] by (simp_all add: d arbiter_dispatch_def)
  from Cons.IH [OF inv(1,2)] obtain acts where acts:
    "arb_trace (fst ` set is) ?d acts (fold arbiter_input is ?d)"
    "subseq (events_of acts @ arbiter_buffer (fold arbiter_input is ?d)) (held' @ map (snd \<circ> snd) is)"
    "filter ae_is_press (events_of acts @ arbiter_buffer (fold arbiter_input is ?d)) = filter ae_is_press (held' @ map (snd \<circ> snd) is)"
    "chord_held ?b (map snd is) \<longrightarrow> list_all (\<lambda>a. \<exists>e. a = Routed e) acts"
    unfolding step(2) inv(3) by blast
  have "arb_trace ?E fe (?acts @ acts) (fold arbiter_input (i # is) fe)"
    using arb_trace_trans [OF arb_trace_mono [OF acts(1)] first] by auto
  moreover have "subseq (events_of (?acts @ acts) @ arbiter_buffer (fold arbiter_input (i # is) fe)) (?held @ map (snd \<circ> snd) (i # is))"
  proof -
    have "subseq (events_of ?acts @ (events_of acts @ arbiter_buffer (fold arbiter_input is ?d))) (events_of ?acts @ (held' @ map (snd \<circ> snd) is))"
      by (rule list_emb_append_mono [OF subseq_order.refl acts(2)])
    also have "subseq (events_of ?acts @ (held' @ map (snd \<circ> snd) is)) ((?held @ [ev]) @ map (snd \<circ> snd) is)"
      using list_emb_append_mono [OF arb_spec_keeps(1) [OF v], of "map (snd \<circ> snd) is" "map (snd \<circ> snd) is"] by simp
    finally show ?thesis by (simp add: i)
  qed
  moreover have "filter ae_is_press (events_of (?acts @ acts) @ arbiter_buffer (fold arbiter_input (i # is) fe)) =
      filter ae_is_press (?held @ map (snd \<circ> snd) (i # is))"
    using acts(3) arb_spec_keeps(2) [OF v] by (simp add: i)
  moreover have "chord_held ?b (map snd (i # is)) \<longrightarrow> list_all (\<lambda>a. \<exists>e. a = Routed e) (?acts @ acts)"
    using acts(4) arb_spec_keeps(3) [OF v] by (simp add: chord_held_def i)
  ultimately show ?case by blast
qed

end
