(* ===== verification/Input_Method.thy ===== *)
theory Input_Method
  imports Arbiter_Spec
begin

declare not_None_eq [simp del]

section \<open>The input-method session\<close>

text \<open>
  The handlers of the \<^verbatim>\<open>zwp_input_method_v2\<close> events (\<^verbatim>\<open>wl_input_method.c\<close>): the
  double-buffered session state, activation, deactivation and reactivation, the rebuilding of the
  grab, and the recovery after a resume. The identity of the focused application is kept by
  \<^verbatim>\<open>identity.c\<close>, seen from here as two calls into the core.
\<close>

subsection \<open>The grab\<close>

definition active_engine :: "('e, 'x) env \<Rightarrow> ('e, 'x) frontend \<Rightarrow> bool" where
  "active_engine env fe \<longleftrightarrow> api_active_engine env (core fe) \<noteq> None"

definition frontend_has_non_routable_grab :: "('e, 'x) env \<Rightarrow> ('e, 'x) frontend \<Rightarrow> bool \<Rightarrow> bool" where
  "frontend_has_non_routable_grab env fe now_active =
     (if keyboard fe = None then False
      else \<not> now_active \<or> \<not> session_is_focused env fe \<or> lifecycle_phase fe \<noteq> PHASE_ACTIVE)"

definition set_pending_reactivation :: "bool \<Rightarrow> ('e, 'x) frontend \<Rightarrow> ('e, 'x) frontend" where
  "set_pending_reactivation b fe = fe\<lparr>pending_reactivation := b\<rparr>"

definition rebuild_keyboard_grab :: "('e, 'x) env \<Rightarrow> ('e, 'x) frontend \<Rightarrow> bool \<times> ('e, 'x) frontend" where
  "rebuild_keyboard_grab env fe =
     (let had_keyboard = (keyboard fe \<noteq> None);
          fe = lifecycle_hard_reset_keyboard env fe
      in case keyboard_create env fe of
           (kb, fe) \<Rightarrow>
             let fe = fe\<lparr>keyboard := kb\<rparr> in
             if kb = None then (False, fe)
             else
               let fe = vk_expect_keymap env fe;
                   fe = (if \<not> had_keyboard
                         then upd_keyboard (\<lambda>k. k\<lparr>suppress_stale_keys := False\<rparr>) fe else fe)
               in (True, fe))"

subsection \<open>The session\<close>

definition fresh_session :: session where
  "fresh_session =
     \<lparr>pending = \<lparr>pend_surrounding_text = None, pend_cursor = 0, pend_anchor = 0,
        pend_content_hint = 0, pend_content_purpose = 0, pend_text_change_cause = 0,
        pend_active = False\<rparr>,
      current = \<lparr>cur_surrounding_text = None, cur_cursor = 0, cur_anchor = 0,
        cur_content_hint = 0, cur_content_purpose = 0\<rparr>,
      last_preedit_text = None, last_preedit_cursor = 0\<rparr>"

definition session_create :: "('e, 'x) env \<Rightarrow> ('e, 'x) frontend \<Rightarrow> session option \<times> ('e, 'x) frontend" where
  "session_create env fe =
     (if \<not> sys_calloc_ok env then (None, fe)
      else (case api_create_context env (core fe) of
              (ok, c) \<Rightarrow> (if ok then Some fresh_session else None, fe\<lparr>core := c\<rparr>)))"

definition session_destroy :: "('e, 'x) env \<Rightarrow> ('e, 'x) frontend \<Rightarrow> ('e, 'x) frontend" where
  "session_destroy env fe =
     (if session fe = None then fe
      else
        let fe = core_call env (api_focus_out env) fe
        in fe\<lparr>core := api_destroy_context env (core fe)\<rparr>)"

definition session_reset :: "('e, 'x) frontend \<Rightarrow> ('e, 'x) frontend" where
  "session_reset fe =
     (if session fe = None then fe
      else upd_session (\<lambda>s. s\<lparr>pending :=
             \<lparr>pend_surrounding_text = None, pend_cursor = 0, pend_anchor = 0,
              pend_content_hint = 0, pend_content_purpose = 0, pend_text_change_cause = 0,
              pend_active = False\<rparr>\<rparr>) (text_ui_reset_tracking fe))"

definition apply_pending :: "session \<Rightarrow> session" where
  "apply_pending s =
     s\<lparr>current := \<lparr>cur_surrounding_text = pend_surrounding_text (pending s),
                   cur_cursor = pend_cursor (pending s), cur_anchor = pend_anchor (pending s),
                   cur_content_hint = pend_content_hint (pending s),
                   cur_content_purpose = pend_content_purpose (pending s)\<rparr>,
       pending := (pending s)\<lparr>pend_surrounding_text := None\<rparr>\<rparr>"

definition session_apply_pending :: "('e, 'x) env \<Rightarrow> ('e, 'x) frontend \<Rightarrow> ('e, 'x) frontend" where
  "session_apply_pending env fe = (case session fe of
       None \<Rightarrow> fe
     | Some s \<Rightarrow>
         let cur = current (apply_pending s);
             fe = upd_session apply_pending fe
         in (case cur_surrounding_text cur of
               None \<Rightarrow> fe
             | Some t \<Rightarrow> fe\<lparr>core := api_set_surrounding env t (sint (cur_cursor cur))
                                     (sint (cur_anchor cur)) (core fe)\<rparr>))"

subsection \<open>Event handlers\<close>

definition im_handle_activate :: "('e, 'x) env \<Rightarrow> ('e, 'x) frontend \<Rightarrow> ('e, 'x) frontend" where
  "im_handle_activate env fe =
     (let (ok, fe) =
            (if session fe \<noteq> None then (True, fe)
             else (case session_create env fe of
                     (s, fe) \<Rightarrow> (s \<noteq> None, fe\<lparr>session := s\<rparr>)))
      in if \<not> ok then fe
         else
           let fe = (if \<not> lifecycle_should_defer_activate (session_is_focused env fe)
                     then lifecycle_set_phase PHASE_ACTIVATING (set_pending_reactivation False fe)
                     else set_pending_reactivation True fe);
               fe = session_reset fe
           in upd_session (\<lambda>s. s\<lparr>pending := (pending s)\<lparr>pend_active := True\<rparr>\<rparr>) fe)"

definition im_handle_deactivate :: "('e, 'x) frontend \<Rightarrow> ('e, 'x) frontend" where
  "im_handle_deactivate fe =
     upd_session (\<lambda>s. s\<lparr>pending := (pending s)\<lparr>pend_active := False\<rparr>\<rparr>)
       (lifecycle_set_phase PHASE_DEACTIVATING (set_pending_reactivation False fe))"

definition im_handle_surrounding_text ::
    "string option \<Rightarrow> u32 \<Rightarrow> u32 \<Rightarrow> ('e, 'x) frontend \<Rightarrow> ('e, 'x) frontend" where
  "im_handle_surrounding_text text cursor anchor fe =
     upd_session (\<lambda>s. s\<lparr>pending := (pending s)
       \<lparr>pend_surrounding_text := text, pend_cursor := cursor, pend_anchor := anchor\<rparr>\<rparr>) fe"

definition im_handle_text_change_cause :: "u32 \<Rightarrow> ('e, 'x) frontend \<Rightarrow> ('e, 'x) frontend" where
  "im_handle_text_change_cause cause fe =
     upd_session (\<lambda>s. s\<lparr>pending := (pending s)\<lparr>pend_text_change_cause := cause\<rparr>\<rparr>) fe"

definition im_handle_content_type :: "u32 \<Rightarrow> u32 \<Rightarrow> ('e, 'x) frontend \<Rightarrow> ('e, 'x) frontend" where
  "im_handle_content_type hint purpose fe =
     upd_session (\<lambda>s. s\<lparr>pending := (pending s)
       \<lparr>pend_content_hint := hint, pend_content_purpose := purpose\<rparr>\<rparr>) fe"

definition transition_to_active :: "('e, 'x) env \<Rightarrow> ('e, 'x) frontend \<Rightarrow> ('e, 'x) frontend" where
  "transition_to_active env fe =
     (let fe = core_call env (api_focus_in env) fe;
          fe = fe\<lparr>core := api_identity_enter env (core fe)\<rparr>
      in if \<not> active_engine env fe
         then set_pending_reactivation False (lifecycle_set_phase PHASE_ACTIVE fe)
         else (case rebuild_keyboard_grab env fe of
                 (ok, fe) \<Rightarrow>
                   set_pending_reactivation False
                     (lifecycle_set_phase (if ok then PHASE_ACTIVE else PHASE_INACTIVE) fe)))"

definition handle_reactivation :: "('e, 'x) env \<Rightarrow> ('e, 'x) frontend \<Rightarrow> ('e, 'x) frontend" where
  "handle_reactivation env fe =
     (if \<not> active_engine env fe then set_pending_reactivation False fe
      else (case rebuild_keyboard_grab env fe of
              (ok, fe) \<Rightarrow>
                set_pending_reactivation False
                  (lifecycle_set_phase (if ok then PHASE_ACTIVE else PHASE_INACTIVE) fe)))"

definition transition_to_inactive :: "('e, 'x) env \<Rightarrow> ('e, 'x) frontend \<Rightarrow> ('e, 'x) frontend" where
  "transition_to_inactive env fe =
     (let fe = text_ui_reset_tracking fe;
          fe = core_call env (api_focus_out env) fe;
          fe = core_call env (api_ctx_reset env) fe;
          fe = text_ui_backend_hide fe;
          fe = lifecycle_hard_reset_keyboard env fe;
          fe = lifecycle_set_phase PHASE_INACTIVE fe;
          fe = fe\<lparr>core := api_identity_clear env (core fe)\<rparr>
      in set_pending_reactivation False fe)"

definition input_method_handle_resume :: "('e, 'x) env \<Rightarrow> ('e, 'x) frontend \<Rightarrow> ('e, 'x) frontend" where
  "input_method_handle_resume env fe =
     (let was_active = (session_is_focused env fe \<and> lifecycle_phase fe = PHASE_ACTIVE);
          fe = lifecycle_on_resume env fe
      in if \<not> was_active then fe
         else if \<not> active_engine env fe then fe
         else (case rebuild_keyboard_grab env (lifecycle_set_phase PHASE_ACTIVATING fe) of
                 (ok, fe) \<Rightarrow> lifecycle_set_phase (if ok then PHASE_ACTIVE else PHASE_INACTIVE) fe))"

definition im_handle_done :: "('e, 'x) env \<Rightarrow> ('e, 'x) frontend \<Rightarrow> ('e, 'x) frontend" where
  "im_handle_done env fe =
     (let fe = fe\<lparr>im_serial := im_serial fe + 1\<rparr> in
      case session fe of
        None \<Rightarrow> fe
      | Some s \<Rightarrow>
          let was_active = session_is_focused env fe;
              now_active = pend_active (pending s);
              needs_cleanup = lifecycle_should_cleanup_on_done was_active now_active;
              needs_reactivation = lifecycle_should_commit_reactivation (pending_reactivation fe)
                                     was_active now_active;
              fe = session_apply_pending env fe
          in if now_active \<and> \<not> was_active then transition_to_active env fe
             else if needs_reactivation then handle_reactivation env fe
             else if needs_cleanup then transition_to_inactive env fe
             else if frontend_has_non_routable_grab env fe now_active \<and>
                     (\<not> now_active \<or> \<not> session_is_focused env fe)
             then lifecycle_set_phase PHASE_INACTIVE (lifecycle_hard_reset_keyboard env fe)
             else fe)"

definition im_handle_unavailable :: "('e, 'x) frontend \<Rightarrow> ('e, 'x) frontend" where
  "im_handle_unavailable fe =
     fe\<lparr>running := False,
        error_msg := ''Input method unavailable - another input method may be active''\<rparr>"

subsection \<open>The reconciler (\<^verbatim>\<open>reconciler.c\<close>)\<close>

definition RECONCILE_THRESHOLD_MS :: u64 where "RECONCILE_THRESHOLD_MS = 2000"

definition reconcile_agree :: "('e, 'x) env \<Rightarrow> ('e, 'x) frontend \<Rightarrow> bool" where
  "reconcile_agree env fe =
     (let observed = lifecycle_observe env fe;
          agree = lifecycle_state_agrees (Some observed) (lifecycle_phase fe)
      in if \<not> agree \<and> ls_focus observed = FOCUS_FOCUSED \<and> ls_grab observed = GRAB_NONE \<and>
            \<not> active_engine env fe
         then True else agree)"

definition reconcile_tick :: "('e, 'x) env \<Rightarrow> ('e, 'x) frontend \<Rightarrow> ('e, 'x) frontend" where
  "reconcile_tick env fe =
     (case reconcile_decide (reconcile_agree env fe) (sys_now_ms env)
             (reconcile_divergence_since_ms fe) RECONCILE_THRESHOLD_MS of
        (action, since) \<Rightarrow>
          let fe = fe\<lparr>reconcile_divergence_since_ms := since\<rparr>
          in if action = RECONCILE_REPAIR then input_method_handle_resume env fe else fe)"

end
