(* ===== verification/Event_Loop.thy ===== *)
theory Event_Loop
  imports Input_Method
begin

declare not_None_eq [simp del]

section \<open>The event loop, resume detection and reconnection\<close>

text \<open>
  The loop that drives the frontend (\<^verbatim>\<open>wl_event_loop.c\<close>), the detector of a system resume
  (\<^verbatim>\<open>resume_model.h\<close>, \<^verbatim>\<open>resume_signal.c\<close>), the auxiliary handler policy
  (\<^verbatim>\<open>frontend_aux.c\<close>) and the reconnection after the compositor is lost
  (\<^verbatim>\<open>reconnect_backoff.c\<close>, \<^verbatim>\<open>wl_frontend.c\<close>). What the outside world does in one
  turn (clock readings, results of poll, flush and bind, the events read) is an argument of the
  turn.
\<close>

subsection \<open>Resume detection\<close>

definition RESUME_GAP_THRESHOLD_MS :: u64 where "RESUME_GAP_THRESHOLD_MS = 2000"
definition RESUME_COOLDOWN_MS :: u64 where "RESUME_COOLDOWN_MS = 5000"

definition resume_gap_exceeded :: "u64 \<Rightarrow> u64 \<Rightarrow> u64 \<Rightarrow> bool \<times> u64" where
  "resume_gap_exceeded mono_delta boot_delta threshold =
     (if boot_delta \<le> mono_delta then (False, 0)
      else let gap = boot_delta - mono_delta in (gap \<ge> threshold, gap))"

definition resume_in_cooldown :: "u64 \<Rightarrow> u64 \<Rightarrow> u64 \<Rightarrow> bool" where
  "resume_in_cooldown now last_fire cooldown \<longleftrightarrow> last_fire \<noteq> 0 \<and> now - last_fire < cooldown"

record TypioWlResumeSignal =
  rs_last_monotonic_ms :: u64
  rs_last_boottime_ms :: u64
  rs_last_fire_monotonic_ms :: u64

definition resume_signal_create :: "u64 \<Rightarrow> u64 \<Rightarrow> TypioWlResumeSignal" where
  "resume_signal_create mono_ms boot_ms =
     \<lparr>rs_last_monotonic_ms = mono_ms, rs_last_boottime_ms = boot_ms, rs_last_fire_monotonic_ms = 0\<rparr>"

text \<open>The boolean says that the callback ran.\<close>

definition resume_signal_fire :: "u64 \<Rightarrow> TypioWlResumeSignal \<Rightarrow> bool \<times> TypioWlResumeSignal" where
  "resume_signal_fire now rs =
     (if resume_in_cooldown now (rs_last_fire_monotonic_ms rs) RESUME_COOLDOWN_MS then (False, rs)
      else (True, rs\<lparr>rs_last_fire_monotonic_ms := now\<rparr>))"

text \<open>
  \<^verbatim>\<open>PrepareForSleep\<close>: \<open>None\<close> when its argument is missing, otherwise whether the system
  is going to sleep.
\<close>

definition resume_signal_filter :: "u64 \<Rightarrow> bool option \<Rightarrow> TypioWlResumeSignal \<Rightarrow> bool \<times> TypioWlResumeSignal" where
  "resume_signal_filter now going_to_sleep rs = (case going_to_sleep of
       None \<Rightarrow> (False, rs)
     | Some True \<Rightarrow> (False, rs)
     | Some False \<Rightarrow> resume_signal_fire now rs)"

definition resume_signal_tick :: "u64 \<Rightarrow> u64 \<Rightarrow> TypioWlResumeSignal \<Rightarrow> bool \<times> TypioWlResumeSignal" where
  "resume_signal_tick mono_now boot_now rs =
     (if rs_last_monotonic_ms rs = 0 \<or> rs_last_boottime_ms rs = 0
      then (False, rs\<lparr>rs_last_monotonic_ms := mono_now, rs_last_boottime_ms := boot_now\<rparr>)
      else
        let mono_delta = (if mono_now \<ge> rs_last_monotonic_ms rs
                          then mono_now - rs_last_monotonic_ms rs else 0);
            boot_delta = (if boot_now \<ge> rs_last_boottime_ms rs
                          then boot_now - rs_last_boottime_ms rs else 0);
            rs = rs\<lparr>rs_last_monotonic_ms := mono_now, rs_last_boottime_ms := boot_now\<rparr>
        in case resume_gap_exceeded mono_delta boot_delta RESUME_GAP_THRESHOLD_MS of
             (exceeded, gap) \<Rightarrow> if exceeded then resume_signal_fire mono_now rs else (False, rs))"

subsection \<open>Reconnection\<close>

definition RECONNECT_BASE_DELAY_MS :: u32 where "RECONNECT_BASE_DELAY_MS = 250"
definition RECONNECT_MAX_DELAY_MS :: u32 where "RECONNECT_MAX_DELAY_MS = 8000"
definition RECONNECT_MAX_ATTEMPTS :: u32 where "RECONNECT_MAX_ATTEMPTS = 12"

definition reconnect_delay_ms :: "u32 \<Rightarrow> u32" where
  "reconnect_delay_ms attempt =
     (if attempt \<ge> 16 then RECONNECT_MAX_DELAY_MS
      else
        let delay = push_bit (unat attempt) RECONNECT_BASE_DELAY_MS
        in if delay > RECONNECT_MAX_DELAY_MS \<or> delay < RECONNECT_BASE_DELAY_MS
           then RECONNECT_MAX_DELAY_MS else delay)"

definition reconnect_should_retry :: "u32 \<Rightarrow> bool" where
  "reconnect_should_retry attempt \<longleftrightarrow> attempt < RECONNECT_MAX_ATTEMPTS"

text \<open>What the compositor and the libraries answer while binding.\<close>

record bind_outcome =
  bo_display_name :: "string option"
  bo_display :: bool
  bo_registry :: bool
  bo_roundtrip :: bool
  bo_im_manager :: bool
  bo_seat :: bool
  bo_input_method :: bool
  bo_vk_manager :: bool
  bo_virtual_keyboard :: bool
  bo_text_ui_backend :: bool

definition bind_error :: "string \<Rightarrow> ('e, 'x) frontend \<Rightarrow> ('e, 'x) frontend" where
  "bind_error msg fe = fe\<lparr>error_msg := take 255 msg\<rparr>"

definition frontend_wayland_bind ::
    "('e, 'x) env \<Rightarrow> bind_outcome \<Rightarrow> ('e, 'x) frontend \<Rightarrow> bool \<times> ('e, 'x) frontend" where
  "frontend_wayland_bind env bo fe =
     (let fe = fe\<lparr>fe_display := bo_display bo\<rparr> in
      if \<not> bo_display bo then
        (False, bind_error (''Failed to connect to Wayland display: '' @
           (case bo_display_name bo of None \<Rightarrow> ''(default)'' | Some n \<Rightarrow> n)) fe)
      else if \<not> bo_registry bo then (False, bind_error ''Failed to get Wayland registry'' fe)
      else if \<not> bo_roundtrip bo then (False, bind_error ''Wayland roundtrip failed'' fe)
      else if \<not> bo_im_manager bo then
        (False, bind_error ''Session does not provide the required Wayland input-method/text-input protocol stack'' fe)
      else if \<not> bo_seat bo then (False, bind_error ''No seat available'' fe)
      else
        let fe = fe\<lparr>fe_input_method := bo_input_method bo\<rparr> in
        if \<not> bo_input_method bo then (False, bind_error ''Failed to create input method'' fe)
        else
          let fe = (if bo_vk_manager bo then
                      (let fe = fe\<lparr>fe_virtual_keyboard := bo_virtual_keyboard bo\<rparr>
                       in if bo_virtual_keyboard bo then vk_set_state env VK_STATE_NEEDS_KEYMAP fe
                          else vk_set_state env VK_STATE_BROKEN fe)
                    else vk_set_state env VK_STATE_ABSENT fe)
          in (True, fe\<lparr>fe_text_ui_backend := bo_text_ui_backend bo\<rparr>))"

definition frontend_wayland_unbind :: "('e, 'x) env \<Rightarrow> ('e, 'x) frontend \<Rightarrow> ('e, 'x) frontend" where
  "frontend_wayland_unbind env fe =
     (let fe = (if keyboard fe \<noteq> None then (keyboard_destroy env fe)\<lparr>keyboard := None\<rparr> else fe);
          fe = fe\<lparr>fe_text_ui_backend := False\<rparr>;
          fe = (if fe_virtual_keyboard fe
                then (vk_set_state env VK_STATE_ABSENT fe)\<lparr>fe_virtual_keyboard := False\<rparr> else fe)
      in fe\<lparr>fe_input_method := False, fe_display := False\<rparr>)"

text \<open>One attempt: the stop requests a signal handler may leave, the clock and the bind.\<close>

record ('e, 'x) attempt =
  at_env :: "('e, 'x) env"
  at_stop_before :: bool
  at_stop_sleeping :: bool
  at_bind :: bind_outcome

definition stop_request :: "bool \<Rightarrow> ('e, 'x) frontend \<Rightarrow> ('e, 'x) frontend" where
  "stop_request b fe = (if b then frontend_stop fe else fe)"

text \<open>The result is the return value, the frontend and the delays slept, in order.\<close>

function reconnect_loop ::
    "(u32 \<Rightarrow> ('e, 'x) attempt) \<Rightarrow> u32 \<Rightarrow> ('e, 'x) frontend \<Rightarrow> bool \<times> ('e, 'x) frontend \<times> u32 list" where
  "reconnect_loop ats attempt fe =
     (if \<not> reconnect_should_retry attempt then (False, fe, [])
      else
        let at = ats attempt;
            delay = reconnect_delay_ms attempt;
            fe = stop_request (at_stop_before at) fe
        in if \<not> running fe then (False, fe, [])
           else
             let fe = stop_request (at_stop_sleeping at) fe
             in if \<not> running fe then (False, fe, [delay])
                else (case frontend_wayland_bind (at_env at) (at_bind at) fe of
                        (ok, fe) \<Rightarrow>
                          if ok then (True, fe\<lparr>running := True\<rparr>, [delay])
                          else (case reconnect_loop ats (attempt + 1)
                                       (frontend_wayland_unbind (at_env at) fe) of
                                  (r, fe, ds) \<Rightarrow> (r, fe, delay # ds))))"
  by pat_completeness auto

termination
proof (relation "measure (\<lambda>(ats, attempt, fe). 12 - unat attempt)", goal_cases)
  case 1
  show ?case by simp
next
  case (2 ats attempt fe)
  then have "attempt < 12" by (simp add: reconnect_should_retry_def RECONNECT_MAX_ATTEMPTS_def)
  then have lt: "unat attempt < 12" by (simp add: word_less_nat_alt)
  moreover have "unat (attempt + 1) = unat attempt + 1"
    using lt by (simp add: unat_word_ariths)
  ultimately show ?case by simp
qed

definition frontend_reconnect ::
    "('e, 'x) env \<Rightarrow> (u32 \<Rightarrow> ('e, 'x) attempt) \<Rightarrow> ('e, 'x) frontend \<Rightarrow>
       bool \<times> ('e, 'x) frontend \<times> u32 list" where
  "frontend_reconnect env ats fe =
     (let fe = fe\<lparr>watchdog_armed := False\<rparr>;
          fe = frontend_wayland_unbind env fe;
          fe = fe\<lparr>lifecycle_phase := PHASE_INACTIVE, pending_reactivation := False,
                  reconcile_divergence_since_ms := 0, active_generation_owned_keys := False,
                  carried_vk_modifiers := False\<rparr>;
          fe = bump_key_generation fe;
          fe = fe\<lparr>key_states := key_tracking_reset (key_states fe) MAX_TRACKED_KEYS,
                  key_generations := key_tracking_reset_generations (key_generations fe) MAX_TRACKED_KEYS\<rparr>
      in reconnect_loop ats 0 fe)"

subsection \<open>Auxiliary handlers (\<^verbatim>\<open>frontend_aux.c\<close>)\<close>

definition POLLIN :: u16 where "POLLIN = 1"
definition POLLERR :: u16 where "POLLERR = 8"
definition POLLHUP :: u16 where "POLLHUP = 16"
definition POLLNVAL :: u16 where "POLLNVAL = 32"

record TypioWlAuxState =
  aux_fd :: int
  aux_disabled :: bool

definition aux_should_disable_on_revents :: "u16 \<Rightarrow> bool" where
  "aux_should_disable_on_revents revents \<longleftrightarrow> revents AND (POLLERR OR POLLHUP OR POLLNVAL) \<noteq> 0"

definition aux_should_disable_on_dispatch_result :: "int \<Rightarrow> bool" where
  "aux_should_disable_on_dispatch_result r \<longleftrightarrow> r < 0"

definition aux_apply_transition :: "TypioWlAuxState \<Rightarrow> u16 \<Rightarrow> int \<Rightarrow> int \<Rightarrow> TypioWlAuxState" where
  "aux_apply_transition st revents result next_fd =
     (if aux_should_disable_on_revents revents \<or> aux_should_disable_on_dispatch_result result
      then st\<lparr>aux_fd := -1, aux_disabled := True\<rparr>
      else if revents AND POLLIN \<noteq> 0 \<and> result \<ge> 0 then st\<lparr>aux_fd := next_fd\<rparr>
      else st)"

subsection \<open>The loop\<close>

definition event_loop_flush_pending_popup :: "('e, 'x) env \<Rightarrow> ('e, 'x) frontend \<Rightarrow> ('e, 'x) frontend" where
  "event_loop_flush_pending_popup env fe =
     (if session fe = None then fe
      else if \<not> text_ui_should_flush_popup_update (popup_update_pending fe) True True
                  (api_is_focused env (core fe)) then fe
      else session_flush_ui_update env fe)"

text \<open>The poll timeout, in milliseconds; the difference is converted to \<^verbatim>\<open>int\<close>.\<close>

definition event_loop_timeout_ms :: "u64 \<Rightarrow> ('e, 'x) frontend \<Rightarrow> int" where
  "event_loop_timeout_ms now fe =
     (if vk_state fe = VK_STATE_NEEDS_KEYMAP \<and> vk_keymap_deadline_ms fe > 0 then
        (let deadline = (if vk_keymap_deadline_ms fe \<le> now then 0
                         else sint (ucast (vk_keymap_deadline_ms fe - now) :: u32))
         in if deadline < 100 then deadline else 100)
      else 100)"

datatype wl_event =
    WlActivate | WlDeactivate | WlSurroundingText "string option" u32 u32 | WlTextChangeCause u32
  | WlContentType u32 u32 | WlDone | WlUnavailable
  | WlKeymap u32 u32 | WlKey u32 u32 bool | WlModifiers u32 u32 u32 u32 | WlRepeatInfo int int

definition wl_dispatch :: "('e, 'x) env \<Rightarrow> wl_event \<Rightarrow> ('e, 'x) frontend \<Rightarrow> ('e, 'x) frontend" where
  "wl_dispatch env ev fe = (case ev of
       WlActivate \<Rightarrow> im_handle_activate env fe
     | WlDeactivate \<Rightarrow> im_handle_deactivate fe
     | WlSurroundingText t c a \<Rightarrow> im_handle_surrounding_text t c a fe
     | WlTextChangeCause c \<Rightarrow> im_handle_text_change_cause c fe
     | WlContentType h p \<Rightarrow> im_handle_content_type h p fe
     | WlDone \<Rightarrow> im_handle_done env fe
     | WlUnavailable \<Rightarrow> im_handle_unavailable fe
     | WlKeymap f s \<Rightarrow> if keyboard fe = None then fe else on_keymap env f s fe
     | WlKey t k p \<Rightarrow> on_key env t k p fe
     | WlModifiers d l k g \<Rightarrow> on_modifiers env d l k g fe
     | WlRepeatInfo r d \<Rightarrow> on_repeat_info r d fe)"

definition wl_dispatch_all :: "('e, 'x) env \<Rightarrow> wl_event list \<Rightarrow> ('e, 'x) frontend \<Rightarrow> ('e, 'x) frontend" where
  "wl_dispatch_all env evs fe = fold (wl_dispatch env) evs fe"

datatype poll_outcome =
    PollInterrupted
  | PollFailed
  | PollTimeout
  | PollReady bool bool "wl_event list" bool bool
      \<comment> \<open>display readable, read ok, events, display error, repeat timer\<close>

text \<open>The outside world during one turn of the loop.\<close>

record ('e, 'x) turn =
  tn_env :: "('e, 'x) env"
  tn_boot_ms :: u64
  tn_pending :: "wl_event list"
  tn_flush_ok :: bool
  tn_poll :: poll_outcome
  tn_attempts :: "u32 \<Rightarrow> ('e, 'x) attempt"

definition event_loop_recover :: "('e, 'x) turn \<Rightarrow> ('e, 'x) frontend \<Rightarrow> ('e, 'x) frontend" where
  "event_loop_recover tn fe = (case frontend_reconnect (tn_env tn) (tn_attempts tn) fe of
       (ok, fe, ds) \<Rightarrow> if ok then fe else fe\<lparr>running := False\<rparr>)"

definition event_loop_handle_wayland ::
    "('e, 'x) env \<Rightarrow> bool \<Rightarrow> bool \<Rightarrow> wl_event list \<Rightarrow> bool \<Rightarrow> ('e, 'x) frontend \<Rightarrow> bool \<times> ('e, 'x) frontend" where
  "event_loop_handle_wayland env readable read_ok evs err fe =
     (if readable \<and> \<not> read_ok then (False, fe)
      else
        let fe = (if readable
                  then (let fe = wl_dispatch_all env evs fe in fe\<lparr>dispatch_epoch := dispatch_epoch fe + 1\<rparr>)
                  else fe)
        in (\<not> err, fe))"

text \<open>
  One turn of \<^verbatim>\<open>typio_wl_frontend_run\<close>, entered with the loop running. The auxiliary
  handlers and the configuration watch are served after the display and before the repeat timer
  and are not part of the model; the callback of the resume detector is
  \<^verbatim>\<open>typio_wl_input_method_handle_resume\<close>.
\<close>

definition loop_turn ::
    "('e, 'x) turn \<Rightarrow> TypioWlResumeSignal \<times> ('e, 'x) frontend \<Rightarrow> TypioWlResumeSignal \<times> ('e, 'x) frontend" where
  "loop_turn tn st = (case st of (rs, fe) \<Rightarrow>
     let env = tn_env tn in
     case resume_signal_tick (sys_now_ms env) (tn_boot_ms tn) rs of
       (fired, rs) \<Rightarrow>
         let fe = (if fired then input_method_handle_resume env fe else fe);
             fe = reconcile_tick env fe;
             fe = event_loop_flush_pending_popup env fe;
             fe = wl_dispatch_all env (tn_pending tn) fe
         in (rs,
             if \<not> tn_flush_ok tn then event_loop_recover tn fe
             else (case tn_poll tn of
                     PollInterrupted \<Rightarrow> fe
                   | PollFailed \<Rightarrow> fe\<lparr>running := False\<rparr>
                   | PollTimeout \<Rightarrow> vk_health_check env fe
                   | PollReady readable read_ok evs err rep \<Rightarrow>
                       (case event_loop_handle_wayland env readable read_ok evs err fe of
                          (ok, fe) \<Rightarrow>
                            if \<not> ok then event_loop_recover tn fe
                            else vk_health_check env
                                   (if rep then keyboard_dispatch_repeat env fe else fe)))))"

text \<open>The loop over a sequence of turns: it stops when \<open>running\<close> is cleared.\<close>

fun loop_run ::
    "('e, 'x) turn list \<Rightarrow> TypioWlResumeSignal \<times> ('e, 'x) frontend \<Rightarrow> TypioWlResumeSignal \<times> ('e, 'x) frontend" where
  "loop_run [] st = st"
| "loop_run (tn # tns) st = (if \<not> running (snd st) then st else loop_run tns (loop_turn tn st))"

subsection \<open>The initial frontend\<close>

text \<open>The zeroed record \<^verbatim>\<open>calloc\<close> returns, with the loaded shortcuts and the core.\<close>

definition frontend_calloc :: "TypioShortcutConfig \<Rightarrow> 'e \<Rightarrow> ('e, 'x) frontend" where
  "frontend_calloc sc c =
     \<lparr>core = c, out = [], fe_display = False, fe_input_method = False, fe_virtual_keyboard = False,
      fe_text_ui_backend = False, vk_state = VK_STATE_ABSENT, vk_has_keymap = False,
      vk_keymap_generation = 0, vk_drop_count = 0, vk_cancel_count = 0,
      vk_cancel_window_start_ms = 0, vk_state_since_ms = 0, vk_last_keymap_ms = 0,
      vk_last_forward_ms = 0, vk_keymap_deadline_ms = 0, guard_reject_press_streak = 0,
      guard_reject_press_window_start_ms = 0, watchdog_armed = False,
      key_states = (\<lambda>_. TRACK_IDLE), key_generations = (\<lambda>_. 0), active_key_generation = 0,
      active_generation_owned_keys = False, active_generation_vk_dirty = False,
      carried_vk_modifiers = False, session = None, keyboard = None, im_serial = 0,
      last_committed_serial = 0, dispatch_epoch = 0, running = False,
      lifecycle_phase = PHASE_INACTIVE, pending_reactivation = False,
      reconcile_divergence_since_ms = 0, popup_update_pending = False, shortcuts = sc,
      error_msg = []\<rparr>"

definition frontend_new ::
    "('e, 'x) env \<Rightarrow> bind_outcome \<Rightarrow> TypioShortcutConfig \<Rightarrow> 'e \<Rightarrow> ('e, 'x) frontend option" where
  "frontend_new env bo sc c =
     (if \<not> sys_calloc_ok env then None
      else (case frontend_wayland_bind env bo (frontend_calloc sc c) of
              (ok, fe) \<Rightarrow> if ok then Some fe else None))"

text \<open>
  \<^verbatim>\<open>typio_wl_frontend_run\<close>: \<open>None\<close> is the error return for a frontend without a
  display; otherwise the loop starts with \<open>running\<close> set.
\<close>

definition frontend_run ::
    "('e, 'x) turn list \<Rightarrow> TypioWlResumeSignal \<Rightarrow> ('e, 'x) frontend \<Rightarrow>
       (TypioWlResumeSignal \<times> ('e, 'x) frontend) option" where
  "frontend_run tns rs fe =
     (if \<not> fe_display fe then None else Some (loop_run tns (rs, fe\<lparr>running := True\<rparr>)))"

text \<open>The end of the frontend; the record itself is then freed.\<close>

definition frontend_destroy :: "('e, 'x) env \<Rightarrow> ('e, 'x) frontend \<Rightarrow> ('e, 'x) frontend" where
  "frontend_destroy env fe =
     (let fe = fe\<lparr>running := False\<rparr>;
          fe = (session_destroy env fe)\<lparr>session := None\<rparr>;
          fe = fe\<lparr>core := api_identity_clear env (core fe)\<rparr>;
          fe = (if keyboard fe \<noteq> None then (keyboard_destroy env fe)\<lparr>keyboard := None\<rparr> else fe);
          fe = fe\<lparr>fe_text_ui_backend := False\<rparr>
      in frontend_wayland_unbind env fe)"

end
