(* ===== verification/Frontend_Safety.thy ===== *)
theory Frontend_Safety
  imports Event_Loop
begin

declare not_None_eq [simp del]
declare reconnect_loop.simps [simp del]

section \<open>Invariants of the running frontend\<close>

text \<open>
  An invariant over every handler and every turn of the loop, whatever the compositor, the core
  and the system answer: a grab only exists in a session and outside the inactive phase, the
  arbiter stays well-formed, and nothing is committed before the compositor's first done.
\<close>

subsection \<open>Commit serials\<close>

definition commit_serials :: "req list \<Rightarrow> u32 list" where
  "commit_serials reqs = concat (map (\<lambda>r. case r of ReqCommit s \<Rightarrow> [s] | _ \<Rightarrow> []) reqs)"

lemma commit_serials_append [simp]: "commit_serials (xs @ ys) = commit_serials xs @ commit_serials ys"
  by (simp add: commit_serials_def)

lemma commit_serials_Nil [simp]: "commit_serials [] = []"
  by (simp add: commit_serials_def)

lemma commit_serials_Cons [simp]:
  "commit_serials (r # rs) = (case r of ReqCommit s \<Rightarrow> [s] | _ \<Rightarrow> []) @ commit_serials rs"
  by (simp add: commit_serials_def)

lemma commit_serials_releases [simp]: "commit_serials (map (\<lambda>k. ReqVkKey t (f k) p) ks) = []"
  by (induction ks) simp_all

text \<open>No commit is sent on the key path.\<close>

lemma commit_serials_grab [simp]:
  "commit_serials (out (keyboard_release_grab fe)) = commit_serials (out fe)"
  "commit_serials (out (keyboard_repeat_stop fe)) = commit_serials (out fe)"
  "commit_serials (out (keyboard_cancel_repeat fe)) = commit_serials (out fe)"
  "commit_serials (out (keyboard_repeat_maybe_start key t m fe)) = commit_serials (out fe)"
  by (simp_all add: keyboard_release_grab_def keyboard_repeat_stop_def keyboard_cancel_repeat_def
      keyboard_repeat_maybe_start_def Let_def split: option.split)

lemma commit_serials_vk_state [simp]:
  "commit_serials (out (vk_set_state env st fe)) = commit_serials (out fe)"
  "commit_serials (out (vk_expect_keymap env fe)) = commit_serials (out fe)"
  "commit_serials (out (vk_cancel_keymap_wait env r fe)) = commit_serials (out fe)"
  "commit_serials (out (vk_trigger_fail_safe fe)) = commit_serials (out fe)"
  "commit_serials (out (vk_health_check env fe)) = commit_serials (out fe)"
  "commit_serials (out (vk_release_forwarded_keys env fe)) = commit_serials (out fe)"
  "commit_serials (out (vk_forward_keymap env f s fe)) = commit_serials (out fe)"
  by (simp_all add: vk_set_state_def vk_expect_keymap_def vk_cancel_keymap_wait_def
      vk_record_keymap_cancel_def vk_trigger_fail_safe_def vk_health_check_def
      vk_release_forwarded_keys_def vk_forward_keymap_def frontend_stop_def Let_def split: option.split)

lemma commit_serials_ready [simp]:
  "commit_serials (out (snd (vk_is_ready env fe))) = commit_serials (out fe)"
  by (simp add: vk_is_ready_def Let_def)

lemma commit_serials_forward [simp]:
  "commit_serials (out (vk_forward_key env t key p fe)) = commit_serials (out fe)"
  "commit_serials (out (vk_forward_modifiers env d l k g fe)) = commit_serials (out fe)"
  "commit_serials (out (vk_forward_modifier_state env d l k g fe)) = commit_serials (out fe)"
  "commit_serials (out (vk_reset_modifiers env fe)) = commit_serials (out fe)"
  by (simp_all add: vk_forward_key_def vk_forward_modifiers_def vk_forward_modifier_state_def
      vk_reset_modifiers_def vk_mark_forward_progress_def case_prod_beta Let_def)

lemma commit_serials_lifecycle [simp]:
  "commit_serials (out (keyboard_destroy env fe)) = commit_serials (out fe)"
  "commit_serials (out (lifecycle_set_phase p fe)) = commit_serials (out fe)"
  "commit_serials (out (snd (hard_reset_hand_over env fe))) = commit_serials (out fe)"
  by (simp_all add: keyboard_destroy_def lifecycle_set_phase_def hard_reset_hand_over_def Let_def
      split: option.split)

lemma commit_serials_hard_reset [simp]:
  "commit_serials (out (lifecycle_hard_reset_keyboard env fe)) = commit_serials (out fe)"
  by (simp add: lifecycle_hard_reset_keyboard_def Let_def case_prod_beta)

definition commits_established :: "('e, 'x) frontend \<Rightarrow> bool" where
  "commits_established fe \<longleftrightarrow> 0 \<notin> set (commit_serials (out fe))"

lemma commits_established_transfer:
  "commits_established fe \<Longrightarrow> commit_serials (out fe') = commit_serials (out fe) \<Longrightarrow> commits_established fe'"
  by (simp add: commits_established_def)

lemma commits_established_fields [simp]:
  "commits_established (emit r fe) = (commits_established fe \<and> r \<noteq> ReqCommit 0)"
  by (auto simp: commits_established_def split: req.split)

lemma text_ui_commits [simp]:
  "commit_serials (out (text_ui_reset_tracking fe)) = commit_serials (out fe)"
  "commit_serials (out (text_ui_backend_hide fe)) = commit_serials (out fe)"
  "commit_serials (out (text_ui_backend_update fe)) = commit_serials (out fe)"
  "commit_serials (out (text_ui_backend_show_status t fe)) = commit_serials (out fe)"
  "commit_serials (out (text_ui_backend_hide_status fe)) = commit_serials (out fe)"
  "commit_serials (out (commit_string txt fe)) = commit_serials (out fe)"
  "commit_serials (out (set_preedit txt cb ce fe)) = commit_serials (out fe)"
  by (simp_all add: text_ui_reset_tracking_def text_ui_backend_hide_def text_ui_backend_update_def
      text_ui_backend_show_status_def text_ui_backend_hide_status_def commit_string_def set_preedit_def
      split: option.split)

text \<open>The one place that sends a commit sends the current serial, and none before the first done.\<close>

lemma commit_commits:
  "commit_serials (out (commit fe)) =
     commit_serials (out fe) @
     (if fe_input_method fe \<and> session fe \<noteq> None \<and> im_serial fe \<noteq> 0 then [im_serial fe] else [])"
  by (simp add: commit_def)

lemma commit_established: "commits_established fe \<Longrightarrow> commits_established (commit fe)"
  by (simp add: commits_established_def commit_commits)

lemma on_commit_callback_established:
  "commits_established fe \<Longrightarrow> commits_established (on_commit_callback env t fe)"
  by (auto simp: on_commit_callback_def Let_def commits_established_def commit_commits)

lemma deliver_callbacks_established:
  "commits_established fe \<Longrightarrow> commits_established (deliver_callbacks env cbs fe)"
  unfolding deliver_callbacks_def
proof (rule fold_invariant)
  fix cb and s :: "('a, 'b) frontend"
  assume "commits_established s"
  then show "commits_established (deliver_callback env cb s)"
    by (cases cb) (simp_all add: deliver_callback_def on_commit_callback_established,
        simp add: on_composition_callback_def commits_established_def)
qed

lemma core_established:
  "commits_established fe \<Longrightarrow> commits_established (snd (core_process_key env ev fe))"
  "commits_established fe \<Longrightarrow> commits_established (core_call env f fe)"
  by (auto simp: core_process_key_def core_call_def case_prod_beta
      intro!: deliver_callbacks_established elim: commits_established_transfer)

lemma established_eq [simp]:
  "commits_established (keyboard_release_grab fe) = commits_established fe"
  "commits_established (keyboard_repeat_stop fe) = commits_established fe"
  "commits_established (keyboard_repeat_maybe_start key t m fe) = commits_established fe"
  "commits_established (vk_health_check env fe) = commits_established fe"
  "commits_established (vk_forward_keymap env f s fe) = commits_established fe"
  "commits_established (vk_forward_key env t key p fe) = commits_established fe"
  "commits_established (vk_forward_modifiers env d l k g fe) = commits_established fe"
  "commits_established (vk_reset_modifiers env fe) = commits_established fe"
  "commits_established (vk_expect_keymap env fe) = commits_established fe"
  "commits_established (vk_set_state env st fe) = commits_established fe"
  "commits_established (keyboard_destroy env fe) = commits_established fe"
  "commits_established (lifecycle_set_phase p' fe) = commits_established fe"
  "commits_established (lifecycle_hard_reset_keyboard env fe) = commits_established fe"
  "commits_established (text_ui_reset_tracking fe) = commits_established fe"
  "commits_established (text_ui_backend_hide fe) = commits_established fe"
  "commits_established (text_ui_backend_update fe) = commits_established fe"
  "commits_established (text_ui_backend_show_status hint fe) = commits_established fe"
  "commits_established (text_ui_backend_hide_status fe) = commits_established fe"
  "commits_established (set_preedit txt cb ce fe) = commits_established fe"
  "commits_established (key_set_state key st' fe) = commits_established fe"
  "commits_established (key_clear_tracking key fe) = commits_established fe"
  "commits_established (frontend_stop fe) = commits_established fe"
  "commits_established (upd_keyboard u fe) = commits_established fe"
  "commits_established (upd_session us fe) = commits_established fe"
  "commits_established (upd_arbiter ua fe) = commits_established fe"
  "commits_established (snd (route_press_startup key fe)) = commits_established fe"
  "commits_established (emit_runtime_state_changed fe) = commits_established fe"
  "commits_established (guard_reset fe) = commits_established fe"
  "commits_established (set_pending_reactivation b fe) = commits_established fe"
  "commits_established (bump_key_generation fe) = commits_established fe"
  by (simp_all add: commits_established_def set_pending_reactivation_def)

lemma established_record [simp]:
  "commits_established (fe\<lparr>core := c\<rparr>) = commits_established fe"
  "commits_established (fe\<lparr>keyboard := k\<rparr>) = commits_established fe"
  "commits_established (fe\<lparr>running := b\<rparr>) = commits_established fe"
  "commits_established (fe\<lparr>popup_update_pending := b\<rparr>) = commits_established fe"
  "commits_established (fe\<lparr>session := s\<rparr>) = commits_established fe"
  "commits_established (fe\<lparr>im_serial := n\<rparr>) = commits_established fe"
  "commits_established (fe\<lparr>error_msg := m\<rparr>) = commits_established fe"
  "commits_established (fe\<lparr>dispatch_epoch := e\<rparr>) = commits_established fe"
  "commits_established (fe\<lparr>reconcile_divergence_since_ms := w\<rparr>) = commits_established fe"
  by (simp_all add: commits_established_def)

lemma established_route [simp]:
  "commits_established fe \<Longrightarrow> commits_established (route_press_voice env key fe)"
  "commits_established fe \<Longrightarrow> commits_established (route_press_engine env key ks m u t fe)"
  "commits_established fe \<Longrightarrow> commits_established (route_release_startup env key t fe)"
  "commits_established fe \<Longrightarrow> commits_established (route_release_idle env key ks m u t fe)"
  "commits_established fe \<Longrightarrow> commits_established (route_release_forwarded env key ks m u t fe)"
  "commits_established fe \<Longrightarrow> commits_established (repeat_to_engine env kb ks u fe)"
  by (simp_all add: route_press_voice_def route_press_engine_def route_release_startup_def
      route_release_idle_def route_release_forwarded_def repeat_to_engine_def core_established
      Let_def case_prod_beta split: option.split)

lemma established_route_some:
  "commits_established fe \<Longrightarrow> route_press_latched env key t fe = Some fe' \<Longrightarrow> commits_established fe'"
  "commits_established fe \<Longrightarrow> route_press_shortcut env key ks m u t fe = Some fe' \<Longrightarrow> commits_established fe'"
  by (auto simp: route_press_latched_def route_press_shortcut_def case_prod_beta
      split: TypioKeyTrackState.splits option.splits if_splits)

lemma established_press [simp]:
  "commits_established fe \<Longrightarrow> commits_established (key_route_process_press env key ks m u t fe)"
  by (auto simp: key_route_process_press_def case_prod_beta split: option.split
      intro: established_route_some established_route_some(2) [of "snd (route_press_startup key fe)", simplified])

lemma established_release [simp]:
  "commits_established fe \<Longrightarrow> commits_established (key_route_process_release env key ks m u t fe)"
  by (simp add: key_route_process_release_def split: TypioKeyTrackState.split)

lemma established_process [simp]:
  "commits_established fe \<Longrightarrow> commits_established (keyboard_process_key_press env key ks m u t fe)"
  "commits_established fe \<Longrightarrow> commits_established (keyboard_process_key_release env key ks m u t fe)"
  "commits_established fe \<Longrightarrow> commits_established (replay_event env ev fe)"
  "commits_established fe \<Longrightarrow> commits_established (release_orphan env ev fe)"
  "commits_established fe \<Longrightarrow> commits_established (keyboard_dispatch_repeat env fe)"
  by (simp_all add: keyboard_process_key_press_def keyboard_process_key_release_def replay_event_def
      release_orphan_def keyboard_dispatch_repeat_def Let_def split: option.split)

lemma established_arbiter [simp]:
  "commits_established fe \<Longrightarrow> commits_established (arbiter_replay env fe)"
  "commits_established fe \<Longrightarrow> commits_established (arbiter_consume env fe)"
  by (auto simp: arbiter_replay_def arbiter_consume_def arbiter_release_orphaned_keys_def Let_def
      intro!: core_established fold_invariant[where P = commits_established])

lemma established_arbiter_events [simp]:
  "commits_established fe \<Longrightarrow> commits_established (key_arbiter_press env key ks m u t fe)"
  "commits_established fe \<Longrightarrow> commits_established (key_arbiter_release env key ks m u t fe)"
  by (simp_all add: key_arbiter_press_def key_arbiter_release_def Let_def
      split: option.split TypioArbiterState.split)

lemma established_listeners [simp]:
  "commits_established fe \<Longrightarrow> commits_established (guard_note_reject env p fe)"
  "commits_established fe \<Longrightarrow> commits_established (on_keymap env f s fe)"
  "commits_established fe \<Longrightarrow> commits_established (on_modifiers env d l k g fe)"
  "commits_established fe \<Longrightarrow> commits_established (on_repeat_info r dl fe)"
  by (auto simp: guard_note_reject_def guard_trigger_failsafe_def on_keymap_def keyboard_handle_keymap_def
      on_modifiers_def keyboard_handle_modifiers_def on_repeat_info_def Let_def
      elim!: commits_established_transfer split: option.split)

lemma established_on_key [simp]:
  "commits_established fe \<Longrightarrow> commits_established (on_key env t key p fe)"
  by (simp add: on_key_def Let_def split: option.split)

lemma established_ui [simp]:
  "commits_established fe \<Longrightarrow> commits_established (update_wayland_text_ui env fe)"
  "commits_established fe \<Longrightarrow> commits_established (session_flush_ui_update env fe)"
  "commits_established fe \<Longrightarrow> commits_established (event_loop_flush_pending_popup env fe)"
  by (simp_all add: update_wayland_text_ui_def session_flush_ui_update_def
      event_loop_flush_pending_popup_def commit_established Let_def split: option.split)

lemma keyboard_create_out:
  "commit_serials (out (snd (keyboard_create env fe))) = commit_serials (out fe)"
  by (simp add: keyboard_create_def Let_def)

lemma established_session [simp]:
  "commits_established fe \<Longrightarrow> commits_established (snd (rebuild_keyboard_grab env fe))"
  "commits_established fe \<Longrightarrow> commits_established (snd (session_create env fe))"
  "commits_established fe \<Longrightarrow> commits_established (session_reset fe)"
  "commits_established fe \<Longrightarrow> commits_established (session_apply_pending env fe)"
  by (simp_all add: rebuild_keyboard_grab_def session_create_def session_reset_def session_apply_pending_def
      Let_def case_prod_beta commits_established_def keyboard_create_out vk_expect_keymap_def split: option.split)

lemma established_resume [simp]:
  "commits_established fe \<Longrightarrow> commits_established (lifecycle_on_resume env fe)"
  "commits_established fe \<Longrightarrow> commits_established (input_method_handle_resume env fe)"
proof -
  show *: "commits_established (lifecycle_on_resume env fe)" if "commits_established fe" for fe :: "('a, 'b) frontend"
    using that by (simp add: lifecycle_on_resume_def Let_def commits_established_def commit_commits)
  show "commits_established (input_method_handle_resume env fe)" if "commits_established fe"
    using that by (simp add: input_method_handle_resume_def Let_def case_prod_beta *)
qed

lemma established_reconcile [simp]:
  "commits_established fe \<Longrightarrow> commits_established (reconcile_tick env fe)"
  by (simp add: reconcile_tick_def Let_def case_prod_beta)

lemma established_done [simp]:
  "commits_established fe \<Longrightarrow> commits_established (im_handle_done env fe)"
  by (simp add: im_handle_done_def transition_to_active_def handle_reactivation_def
      transition_to_inactive_def Let_def case_prod_beta core_established split: option.split)

lemma established_dispatch [simp]:
  "commits_established fe \<Longrightarrow> commits_established (wl_dispatch env ev fe)"
  by (simp add: wl_dispatch_def im_handle_activate_def im_handle_deactivate_def
      im_handle_surrounding_text_def im_handle_text_change_cause_def im_handle_content_type_def
      im_handle_unavailable_def Let_def case_prod_beta split: wl_event.split)

subsection \<open>The grab and the session\<close>

definition grab_inv :: "('e, 'x) frontend \<Rightarrow> bool" where
  "grab_inv fe \<longleftrightarrow>
     (keyboard fe \<noteq> None \<longrightarrow>
        session fe \<noteq> None \<and> lifecycle_phase fe \<noteq> PHASE_INACTIVE \<and> active_key_generation fe \<noteq> 0)"

definition frontend_inv :: "('e, 'x) frontend \<Rightarrow> bool" where
  "frontend_inv fe \<longleftrightarrow> grab_inv fe \<and> arbiter_ok (kb_arbiter fe) \<and> commits_established fe"

lemma grab_inv_activation: "grab_inv fe \<Longrightarrow> keeps_activation fe' fe \<Longrightarrow> grab_inv fe'"
  by (simp add: grab_inv_def)

lemma grab_inv_no_keyboard [simp]: "keyboard fe = None \<Longrightarrow> grab_inv fe"
  by (simp add: grab_inv_def)

lemma arbiter_ok_no_keyboard [simp]: "keyboard fe = None \<Longrightarrow> arbiter_ok (kb_arbiter fe)"
  by (simp add: kb_arbiter_def arbiter_ok_init)

lemma frontend_inv_no_keyboard:
  "keyboard fe = None \<Longrightarrow> commits_established fe \<Longrightarrow> frontend_inv fe"
  by (simp add: frontend_inv_def)

text \<open>What the rebuilding of the grab achieves, exactly.\<close>

definition grab_obtainable :: "('e, 'x) env \<Rightarrow> ('e, 'x) frontend \<Rightarrow> bool" where
  "grab_obtainable env fe \<longleftrightarrow>
     fe_input_method fe \<and> sys_calloc_ok env \<and> sys_xkb_context_ok env \<and> sys_grab_ok env"

lemma keyboard_create_result:
  "fst (keyboard_create env fe) =
     (if grab_obtainable env fe then Some (fresh_keyboard env fe) else None)"
  by (simp add: keyboard_create_def grab_obtainable_def fresh_keyboard_def Let_def)

lemma keyboard_create_frame [simp]:
  "keeps_context (snd (keyboard_create env fe)) fe"
  "fe_virtual_keyboard (snd (keyboard_create env fe)) = fe_virtual_keyboard fe"
  "vk_keymap_generation (snd (keyboard_create env fe)) = vk_keymap_generation fe"
  "vk_state (snd (keyboard_create env fe)) = vk_state fe"
  "dispatch_epoch (snd (keyboard_create env fe)) = dispatch_epoch fe"
  by (simp_all add: keyboard_create_def Let_def)

lemma keyboard_create_generation:
  "grab_obtainable env fe \<Longrightarrow>
     active_key_generation (snd (keyboard_create env fe)) = active_key_generation (bump_key_generation fe)"
  by (simp add: keyboard_create_def grab_obtainable_def Let_def)

lemma grab_obtainable_hard_reset [simp]:
  "grab_obtainable env (lifecycle_hard_reset_keyboard env fe) = grab_obtainable env fe"
  by (simp add: grab_obtainable_def)

lemma rebuild_result:
  "fst (rebuild_keyboard_grab env fe) = grab_obtainable env fe"
  "(keyboard (snd (rebuild_keyboard_grab env fe)) = None) = (\<not> grab_obtainable env fe)"
  by (simp_all add: rebuild_keyboard_grab_def Let_def case_prod_beta keyboard_create_result)

lemma rebuild_frame [simp]:
  "keeps_context (snd (rebuild_keyboard_grab env fe)) fe"
  by (simp add: rebuild_keyboard_grab_def Let_def case_prod_beta)

lemma rebuild_generation:
  "grab_obtainable env fe \<Longrightarrow>
     active_key_generation (snd (rebuild_keyboard_grab env fe)) = active_key_generation (bump_key_generation fe)"
  using bump_key_generation_eq [of "lifecycle_hard_reset_keyboard env fe" fe]
  by (simp add: rebuild_keyboard_grab_def Let_def case_prod_beta keyboard_create_result
      keyboard_create_generation)

lemma rebuild_kb_arbiter [simp]: "arbiter_ok (kb_arbiter (snd (rebuild_keyboard_grab env fe)))"
proof -
  have "kb_arbiter (vk_expect_keymap env g) = kb_arbiter g" for g by (rule kb_arbiter_cong) simp
  then show ?thesis
    by (simp add: rebuild_keyboard_grab_def Let_def case_prod_beta kb_arbiter_upd_keyboard
        keyboard_create_result kb_arbiter_def fresh_keyboard_def arbiter_ok_init split: option.split)
qed

lemma grab_inv_rebuild:
  assumes "session fe \<noteq> None"
  shows "grab_inv (set_pending_reactivation b (lifecycle_set_phase
      (if fst (rebuild_keyboard_grab env fe) then PHASE_ACTIVE else PHASE_INACTIVE)
      (snd (rebuild_keyboard_grab env fe))))"
  using assms bump_key_generation_nonzero [of fe]
  by (simp add: grab_inv_def set_pending_reactivation_def rebuild_result rebuild_generation)

lemma kb_arbiter_frame [simp]:
  "kb_arbiter (lifecycle_set_phase p fe) = kb_arbiter fe"
  "kb_arbiter (set_pending_reactivation b fe) = kb_arbiter fe"
  "kb_arbiter (upd_session us fe) = kb_arbiter fe"
  "kb_arbiter (session_reset fe) = kb_arbiter fe"
  "kb_arbiter (session_apply_pending env fe) = kb_arbiter fe"
  "kb_arbiter (text_ui_reset_tracking fe) = kb_arbiter fe"
  "kb_arbiter (fe\<lparr>session := s\<rparr>) = kb_arbiter fe"
  "kb_arbiter (fe\<lparr>im_serial := n\<rparr>) = kb_arbiter fe"
  "kb_arbiter (fe\<lparr>running := r\<rparr>) = kb_arbiter fe"
  "kb_arbiter (fe\<lparr>dispatch_epoch := e\<rparr>) = kb_arbiter fe"
  "kb_arbiter (fe\<lparr>reconcile_divergence_since_ms := w\<rparr>) = kb_arbiter fe"
  "kb_arbiter (event_loop_flush_pending_popup env fe) = kb_arbiter fe"
  by (simp_all add: kb_arbiter_def set_pending_reactivation_def session_reset_def session_apply_pending_def
      event_loop_flush_pending_popup_def Let_def split: option.split)

lemma session_apply_pending_frame [simp]:
  "keyboard (session_apply_pending env fe) = keyboard fe"
  "(session (session_apply_pending env fe) = None) = (session fe = None)"
  "lifecycle_phase (session_apply_pending env fe) = lifecycle_phase fe"
  "active_key_generation (session_apply_pending env fe) = active_key_generation fe"
  "fe_input_method (session_apply_pending env fe) = fe_input_method fe"
  by (simp_all add: session_apply_pending_def Let_def split: option.split)

subsection \<open>Every handler keeps the invariant\<close>

lemma inv_key_path:
  assumes "frontend_inv fe" and "keeps_activation fe' fe" and "arbiter_ok (kb_arbiter fe')"
    and "commits_established fe'"
  shows "frontend_inv fe'"
  using assms by (simp add: frontend_inv_def grab_inv_def)

lemma kb_arbiter_listeners [simp]:
  "kb_arbiter (vk_forward_keymap env f s fe) = kb_arbiter fe"
  "kb_arbiter (guard_note_reject env p fe) = kb_arbiter fe"
proof -
  show "kb_arbiter (vk_forward_keymap env f s fe) = kb_arbiter fe"
    by (rule kb_arbiter_cong) (simp add: vk_forward_keymap_def Let_def)
  show "kb_arbiter (guard_note_reject env p fe) = kb_arbiter fe"
    by (simp add: guard_note_reject_def guard_trigger_failsafe_def Let_def, simp add: kb_arbiter_def)
qed

lemma on_key_arbiter: "arbiter_ok (kb_arbiter fe) \<Longrightarrow> arbiter_ok (kb_arbiter (on_key env t key p fe))"
proof -
  assume ok: "arbiter_ok (kb_arbiter fe)"
  have disp: "arbiter_ok (kb_arbiter (if p then key_arbiter_press env key ks m u t (upd_keyboard f (guard_reset fe))
      else key_arbiter_release env key ks m u t (upd_keyboard f (guard_reset fe))))"
    if "\<And>k. arbiter (f k) = arbiter k" for ks m u f
    using arbiter_dispatch_ok [of "upd_keyboard f (guard_reset fe)" env "arbiter_event p key ks m u t"] ok that
    by (cases p) (simp_all add: arbiter_dispatch_def arbiter_event_def kb_arbiter_upd_keyboard)
  from ok disp show ?thesis
    by (simp add: on_key_def Let_def split: option.split)
qed

lemma on_key_inv: "frontend_inv fe \<Longrightarrow> frontend_inv (on_key env t key p fe)"
  by (rule inv_key_path) (simp_all add: frontend_inv_def on_key_arbiter)

lemma on_modifiers_inv: "frontend_inv fe \<Longrightarrow> frontend_inv (on_modifiers env d l k g fe)"
proof (rule inv_key_path)
  assume inv: "frontend_inv fe"
  have "kb_arbiter (keyboard_handle_modifiers env d l k g fe) = kb_arbiter fe"
    unfolding keyboard_handle_modifiers_def by (rule kb_arbiter_upd_keyboard) (simp split: option.split)
  then have "kb_arbiter (on_modifiers env d l k g fe) = kb_arbiter fe"
    by (simp add: on_modifiers_def Let_def kb_arbiter_upd_keyboard split: option.split)
  with inv show "arbiter_ok (kb_arbiter (on_modifiers env d l k g fe))" by (simp add: frontend_inv_def)
qed (simp_all add: frontend_inv_def)

lemma on_repeat_info_inv: "frontend_inv fe \<Longrightarrow> frontend_inv (on_repeat_info r d fe)"
  by (rule inv_key_path) (simp_all add: frontend_inv_def on_repeat_info_def kb_arbiter_upd_keyboard)

lemma on_keymap_inv: "frontend_inv fe \<Longrightarrow> frontend_inv (on_keymap env f s fe)"
proof (rule inv_key_path)
  assume inv: "frontend_inv fe"
  have "kb_arbiter (on_keymap env f s fe) = kb_arbiter fe"
    by (simp add: on_keymap_def keyboard_handle_keymap_def kb_arbiter_upd_keyboard split: option.split)
  with inv show "arbiter_ok (kb_arbiter (on_keymap env f s fe))" by (simp add: frontend_inv_def)
qed (simp_all add: frontend_inv_def)

lemma dispatch_repeat_inv: "frontend_inv fe \<Longrightarrow> frontend_inv (keyboard_dispatch_repeat env fe)"
proof (rule inv_key_path)
  assume inv: "frontend_inv fe"
  have "kb_arbiter (repeat_to_engine env kb ks u fe) = kb_arbiter fe" for kb ks u
    by (simp add: repeat_to_engine_def Let_def case_prod_beta)
  then have "kb_arbiter (keyboard_dispatch_repeat env fe) = kb_arbiter fe"
    by (simp add: keyboard_dispatch_repeat_def Let_def split: option.split)
  with inv show "arbiter_ok (kb_arbiter (keyboard_dispatch_repeat env fe))" by (simp add: frontend_inv_def)
qed (simp_all add: frontend_inv_def)

lemma set_pending_frame [simp]:
  "keyboard (set_pending_reactivation b fe) = keyboard fe"
  "session (set_pending_reactivation b fe) = session fe"
  "core (set_pending_reactivation b fe) = core fe"
  "lifecycle_phase (set_pending_reactivation b fe) = lifecycle_phase fe"
  "active_key_generation (set_pending_reactivation b fe) = active_key_generation fe"
  by (simp_all add: set_pending_reactivation_def)

lemma upd_session_inv [simp]: "frontend_inv (upd_session f fe) = frontend_inv fe"
  by (simp add: frontend_inv_def grab_inv_def)

lemma session_reset_frame [simp]:
  "keyboard (session_reset fe) = keyboard fe"
  "(session (session_reset fe) = None) = (session fe = None)"
  "lifecycle_phase (session_reset fe) = lifecycle_phase fe"
  "active_key_generation (session_reset fe) = active_key_generation fe"
  by (simp_all add: session_reset_def)

lemma session_create_frame [simp]:
  "keyboard (snd (session_create env fe)) = keyboard fe"
  "lifecycle_phase (snd (session_create env fe)) = lifecycle_phase fe"
  "active_key_generation (snd (session_create env fe)) = active_key_generation fe"
  "kb_arbiter (snd (session_create env fe)) = kb_arbiter fe"
  by (simp_all add: session_create_def case_prod_beta)

lemma im_handle_activate_inv: "frontend_inv fe \<Longrightarrow> frontend_inv (im_handle_activate env fe)"
  by (cases "session fe"; cases "fst (session_create env fe)")
     (auto simp: frontend_inv_def grab_inv_def im_handle_activate_def Let_def case_prod_beta)

lemma im_handle_deactivate_inv: "frontend_inv fe \<Longrightarrow> frontend_inv (im_handle_deactivate fe)"
  by (simp add: frontend_inv_def grab_inv_def im_handle_deactivate_def)

lemma rebuild_inv:
  assumes "session fe \<noteq> None" and "commits_established fe"
  shows "frontend_inv (set_pending_reactivation b (lifecycle_set_phase
      (if fst (rebuild_keyboard_grab env fe) then PHASE_ACTIVE else PHASE_INACTIVE)
      (snd (rebuild_keyboard_grab env fe))))"
  using grab_inv_rebuild [OF assms(1), of b env] assms(2) by (simp add: frontend_inv_def)

lemma transition_to_active_inv:
  assumes "frontend_inv fe" and "session fe \<noteq> None"
  shows "frontend_inv (transition_to_active env fe)"
proof -
  let ?f = "(core_call env (api_focus_in env) fe)\<lparr>core := api_identity_enter env (core (core_call env (api_focus_in env) fe))\<rparr>"
  have s: "session ?f \<noteq> None" and c: "commits_established ?f"
    using assms by (simp_all add: frontend_inv_def core_established)
  have "frontend_inv (set_pending_reactivation False (lifecycle_set_phase PHASE_ACTIVE ?f))"
    using assms c by (simp add: frontend_inv_def grab_inv_def core_established)
  with rebuild_inv [OF s c, of False env] show ?thesis
    by (simp add: transition_to_active_def Let_def case_prod_beta)
qed

lemma handle_reactivation_inv:
  assumes "frontend_inv fe" and "session fe \<noteq> None"
  shows "frontend_inv (handle_reactivation env fe)"
proof -
  have c: "commits_established fe" using assms by (simp add: frontend_inv_def)
  have "frontend_inv (set_pending_reactivation False fe)"
    using assms by (simp add: frontend_inv_def grab_inv_def)
  with rebuild_inv [OF assms(2) c, of False env] show ?thesis
    by (simp add: handle_reactivation_def Let_def case_prod_beta)
qed

lemma transition_to_inactive_inv: "frontend_inv fe \<Longrightarrow> frontend_inv (transition_to_inactive env fe)"
  by (rule frontend_inv_no_keyboard)
     (simp_all add: transition_to_inactive_def Let_def frontend_inv_def core_established)

lemma on_resume_inv: "frontend_inv fe \<Longrightarrow> frontend_inv (lifecycle_on_resume env fe)"
  by (rule frontend_inv_no_keyboard) (simp_all add: lifecycle_on_resume_scrubs frontend_inv_def)

lemma lifecycle_on_resume_session: "(session (lifecycle_on_resume env fe) = None) = (session fe = None)"
  by (simp add: lifecycle_on_resume_def Let_def)

lemma handle_resume_inv: "frontend_inv fe \<Longrightarrow> frontend_inv (input_method_handle_resume env fe)"
proof -
  assume inv: "frontend_inv fe"
  let ?r = "lifecycle_on_resume env fe"
  let ?a = "lifecycle_set_phase PHASE_ACTIVATING ?r"
  show ?thesis
  proof (cases "session_is_focused env fe")
    case True
    then have s: "session ?a \<noteq> None" by (simp add: session_is_focused_def lifecycle_on_resume_session)
    have c: "commits_established ?a" using inv by (simp add: frontend_inv_def)
    have "frontend_inv (set_pending_reactivation b g) = frontend_inv g" for b and g :: "('a, 'b) frontend"
      by (simp add: frontend_inv_def grab_inv_def)
    with rebuild_inv [OF s c, of False env]
    have "frontend_inv (lifecycle_set_phase (if fst (rebuild_keyboard_grab env ?a)
      then PHASE_ACTIVE else PHASE_INACTIVE) (snd (rebuild_keyboard_grab env ?a)))" by simp
    then show ?thesis
      using on_resume_inv [OF inv]
      by (cases "fst (rebuild_keyboard_grab env ?a)")
         (simp_all add: input_method_handle_resume_def Let_def case_prod_beta)
  next
    case False
    with on_resume_inv [OF inv] show ?thesis by (simp add: input_method_handle_resume_def Let_def)
  qed
qed

lemma frontend_inv_record [simp]:
  "frontend_inv (fe\<lparr>reconcile_divergence_since_ms := w\<rparr>) = frontend_inv fe"
  "frontend_inv (fe\<lparr>im_serial := n\<rparr>) = frontend_inv fe"
  "frontend_inv (fe\<lparr>running := b\<rparr>) = frontend_inv fe"
  "frontend_inv (fe\<lparr>error_msg := m\<rparr>) = frontend_inv fe"
  "frontend_inv (fe\<lparr>dispatch_epoch := e\<rparr>) = frontend_inv fe"
  by (simp_all add: frontend_inv_def grab_inv_def kb_arbiter_def)

lemma reconcile_tick_inv: "frontend_inv fe \<Longrightarrow> frontend_inv (reconcile_tick env fe)"
  by (simp add: reconcile_tick_def Let_def case_prod_beta handle_resume_inv)

lemma apply_pending_inv: "frontend_inv fe \<Longrightarrow> frontend_inv (session_apply_pending env fe)"
  by (simp add: frontend_inv_def grab_inv_def)

lemma hard_reset_inactive_inv:
  "frontend_inv fe \<Longrightarrow> frontend_inv (lifecycle_set_phase PHASE_INACTIVE (lifecycle_hard_reset_keyboard env fe))"
  by (rule frontend_inv_no_keyboard) (simp_all add: frontend_inv_def)

lemma im_handle_done_inv: "frontend_inv fe \<Longrightarrow> frontend_inv (im_handle_done env fe)"
proof (cases "session fe")
  case None
  assume "frontend_inv fe"
  with None show ?thesis by (simp add: im_handle_done_def Let_def)
next
  case (Some s)
  assume inv: "frontend_inv fe"
  let ?f = "session_apply_pending env (fe\<lparr>im_serial := im_serial fe + 1\<rparr>)"
  have f: "frontend_inv ?f" using inv by (simp add: apply_pending_inv)
  have sf: "session ?f \<noteq> None" using Some by simp
  from transition_to_active_inv [OF f sf] handle_reactivation_inv [OF f sf]
    transition_to_inactive_inv [OF f] hard_reset_inactive_inv [OF f] f Some
  show ?thesis by (simp add: im_handle_done_def Let_def)
qed

lemma wl_dispatch_inv: "frontend_inv fe \<Longrightarrow> frontend_inv (wl_dispatch env ev fe)"
  by (cases ev)
     (simp_all add: wl_dispatch_def im_handle_activate_inv im_handle_deactivate_inv im_handle_done_inv
       im_handle_surrounding_text_def im_handle_text_change_cause_def im_handle_content_type_def
       im_handle_unavailable_def on_key_inv on_keymap_inv on_modifiers_inv on_repeat_info_inv)

lemma vk_health_check_frame [simp]:
  "(keyboard (vk_health_check env fe) = None) = (keyboard fe = None)"
  "session (vk_health_check env fe) = session fe"
  "lifecycle_phase (vk_health_check env fe) = lifecycle_phase fe"
  "active_key_generation (vk_health_check env fe) = active_key_generation fe"
  "kb_arbiter (vk_health_check env fe) = kb_arbiter fe"
  by (simp_all add: vk_health_check_def Let_def)

lemma vk_health_check_inv: "frontend_inv fe \<Longrightarrow> frontend_inv (vk_health_check env fe)"
  by (simp add: frontend_inv_def grab_inv_def)

lemma flush_popup_activation [simp]: "keeps_activation (event_loop_flush_pending_popup env fe) fe"
  by (simp add: event_loop_flush_pending_popup_def)

lemma flush_popup_inv: "frontend_inv fe \<Longrightarrow> frontend_inv (event_loop_flush_pending_popup env fe)"
  by (rule inv_key_path) (simp_all add: frontend_inv_def)

lemma dispatch_all_inv: "frontend_inv fe \<Longrightarrow> frontend_inv (wl_dispatch_all env evs fe)"
  unfolding wl_dispatch_all_def by (rule fold_invariant [where P = frontend_inv]) (rule wl_dispatch_inv)

text \<open>Reconnection holds no grab, whatever the attempts bring.\<close>

lemma unbind_frame [simp]:
  "keyboard (frontend_wayland_unbind env fe) = None"
  "core (frontend_wayland_unbind env fe) = core fe"
  "session (frontend_wayland_unbind env fe) = session fe"
  "im_serial (frontend_wayland_unbind env fe) = im_serial fe"
  "lifecycle_phase (frontend_wayland_unbind env fe) = lifecycle_phase fe"
  "running (frontend_wayland_unbind env fe) = running fe"
  "active_key_generation (frontend_wayland_unbind env fe) = active_key_generation fe"
  "commits_established (frontend_wayland_unbind env fe) = commits_established fe"
  by (simp_all add: frontend_wayland_unbind_def commits_established_def Let_def)

lemma bind_frame [simp]:
  "keyboard (snd (frontend_wayland_bind env bo fe)) = keyboard fe"
  "core (snd (frontend_wayland_bind env bo fe)) = core fe"
  "session (snd (frontend_wayland_bind env bo fe)) = session fe"
  "im_serial (snd (frontend_wayland_bind env bo fe)) = im_serial fe"
  "lifecycle_phase (snd (frontend_wayland_bind env bo fe)) = lifecycle_phase fe"
  "running (snd (frontend_wayland_bind env bo fe)) = running fe"
  "key_states (snd (frontend_wayland_bind env bo fe)) = key_states fe"
  "active_key_generation (snd (frontend_wayland_bind env bo fe)) = active_key_generation fe"
  "commits_established (snd (frontend_wayland_bind env bo fe)) = commits_established fe"
  by (simp_all add: frontend_wayland_bind_def bind_error_def commits_established_def Let_def)

lemma stop_request_frame [simp]:
  "keyboard (stop_request b fe) = keyboard fe"
  "core (stop_request b fe) = core fe"
  "session (stop_request b fe) = session fe"
  "im_serial (stop_request b fe) = im_serial fe"
  "lifecycle_phase (stop_request b fe) = lifecycle_phase fe"
  "active_key_generation (stop_request b fe) = active_key_generation fe"
  "running (stop_request b fe) = (running fe \<and> \<not> b)"
  "commits_established (stop_request b fe) = commits_established fe"
  by (simp_all add: stop_request_def)

definition reconnect_keeps :: "('e, 'x) frontend \<Rightarrow> ('e, 'x) frontend \<Rightarrow> bool" where
  "reconnect_keeps fe' fe \<longleftrightarrow>
     keyboard fe' = keyboard fe \<and> session fe' = session fe \<and> core fe' = core fe \<and>
     im_serial fe' = im_serial fe \<and> lifecycle_phase fe' = lifecycle_phase fe \<and>
     active_key_generation fe' = active_key_generation fe \<and>
     commits_established fe' = commits_established fe"

lemma reconnect_keeps_trans: "reconnect_keeps a b \<Longrightarrow> reconnect_keeps b c \<Longrightarrow> reconnect_keeps a c"
  by (simp add: reconnect_keeps_def)

lemma reconnect_loop_next:
  assumes "reconnect_should_retry attempt"
    and "f2 = stop_request (at_stop_sleeping (ats attempt)) (stop_request (at_stop_before (ats attempt)) fe)"
    and "running f2" and "\<not> fst (frontend_wayland_bind (at_env (ats attempt)) (at_bind (ats attempt)) f2)"
  shows "reconnect_loop ats attempt fe =
     (case reconnect_loop ats (attempt + 1) (frontend_wayland_unbind (at_env (ats attempt))
             (snd (frontend_wayland_bind (at_env (ats attempt)) (at_bind (ats attempt)) f2))) of
        (r, fe, ds) \<Rightarrow> (r, fe, reconnect_delay_ms attempt # ds))"
  using assms by (subst reconnect_loop.simps) (simp add: Let_def case_prod_beta)

lemma reconnect_loop_last:
  assumes "f2 = stop_request (at_stop_sleeping (ats attempt)) (stop_request (at_stop_before (ats attempt)) fe)"
    and "\<not> (reconnect_should_retry attempt \<and> running f2 \<and>
            \<not> fst (frontend_wayland_bind (at_env (ats attempt)) (at_bind (ats attempt)) f2))"
  shows "fst (snd (reconnect_loop ats attempt fe)) \<in>
     {fe, stop_request (at_stop_before (ats attempt)) fe, f2,
      (snd (frontend_wayland_bind (at_env (ats attempt)) (at_bind (ats attempt)) f2))\<lparr>running := True\<rparr>}"
  using assms by (subst reconnect_loop.simps) (auto simp: Let_def case_prod_beta)

lemma reconnect_loop_frame:
  "keyboard fe = None \<Longrightarrow> reconnect_keeps (fst (snd (reconnect_loop ats attempt fe))) fe"
proof (induction "12 - unat attempt" arbitrary: attempt fe rule: less_induct)
  case less
  let ?f2 = "stop_request (at_stop_sleeping (ats attempt)) (stop_request (at_stop_before (ats attempt)) fe)"
  let ?b = "frontend_wayland_bind (at_env (ats attempt)) (at_bind (ats attempt)) ?f2"
  show ?case
  proof (cases "reconnect_should_retry attempt \<and> running ?f2 \<and> \<not> fst ?b")
    case True
    let ?g = "frontend_wayland_unbind (at_env (ats attempt)) (snd ?b)"
    have lt: "unat attempt < 12"
      using True by (simp add: reconnect_should_retry_def RECONNECT_MAX_ATTEMPTS_def word_less_nat_alt)
    then have "unat (attempt + 1) = unat attempt + 1" by (simp add: unat_word_ariths)
    with lt have "12 - unat (attempt + 1) < 12 - unat attempt" by simp
    from less.hyps [OF this, of ?g]
    have "reconnect_keeps (fst (snd (reconnect_loop ats (attempt + 1) ?g))) ?g" by simp
    moreover have "reconnect_keeps ?g fe" using less.prems by (simp add: reconnect_keeps_def)
    ultimately have "reconnect_keeps (fst (snd (reconnect_loop ats (attempt + 1) ?g))) fe"
      by (rule reconnect_keeps_trans)
    moreover have "reconnect_loop ats attempt fe =
        (case reconnect_loop ats (attempt + 1) ?g of (r, fe, ds) \<Rightarrow> (r, fe, reconnect_delay_ms attempt # ds))"
      by (rule reconnect_loop_next [OF _ refl]) (use True in blast)+
    ultimately show ?thesis by (simp only: case_prod_beta fst_conv snd_conv)
  next
    case False
    from reconnect_loop_last [of ?f2 ats attempt fe] False show ?thesis
      by (auto simp: reconnect_keeps_def)
  qed
qed

text \<open>The state from which the attempts start.\<close>

definition reconnect_baseline :: "('e, 'x) env \<Rightarrow> ('e, 'x) frontend \<Rightarrow> ('e, 'x) frontend" where
  "reconnect_baseline env fe =
     (let fe = bump_key_generation
                 ((frontend_wayland_unbind env (fe\<lparr>watchdog_armed := False\<rparr>))
                    \<lparr>lifecycle_phase := PHASE_INACTIVE, pending_reactivation := False,
                     reconcile_divergence_since_ms := 0, active_generation_owned_keys := False,
                     carried_vk_modifiers := False\<rparr>)
      in fe\<lparr>key_states := key_tracking_reset (key_states fe) MAX_TRACKED_KEYS,
             key_generations := key_tracking_reset_generations (key_generations fe) MAX_TRACKED_KEYS\<rparr>)"

lemma frontend_reconnect_eq: "frontend_reconnect env ats fe = reconnect_loop ats 0 (reconnect_baseline env fe)"
  by (simp add: frontend_reconnect_def reconnect_baseline_def Let_def)

lemma reconnect_baseline_frame [simp]:
  "keyboard (reconnect_baseline env fe) = None"
  "session (reconnect_baseline env fe) = session fe"
  "core (reconnect_baseline env fe) = core fe"
  "im_serial (reconnect_baseline env fe) = im_serial fe"
  "running (reconnect_baseline env fe) = running fe"
  "lifecycle_phase (reconnect_baseline env fe) = PHASE_INACTIVE"
  "commits_established (reconnect_baseline env fe) = commits_established fe"
  by (simp_all add: reconnect_baseline_def Let_def commits_established_def)
     (simp_all add: frontend_wayland_unbind_def Let_def)

lemma reconnect_result:
  "keyboard (fst (snd (frontend_reconnect env ats fe))) = None"
  "session (fst (snd (frontend_reconnect env ats fe))) = session fe"
  "core (fst (snd (frontend_reconnect env ats fe))) = core fe"
  "im_serial (fst (snd (frontend_reconnect env ats fe))) = im_serial fe"
  "lifecycle_phase (fst (snd (frontend_reconnect env ats fe))) = PHASE_INACTIVE"
  "commits_established (fst (snd (frontend_reconnect env ats fe))) = commits_established fe"
  using reconnect_loop_frame [of "reconnect_baseline env fe" ats 0]
  by (simp_all add: frontend_reconnect_eq reconnect_keeps_def)

lemma event_loop_recover_inv: "commits_established fe \<Longrightarrow> frontend_inv (event_loop_recover tn fe)"
  by (rule frontend_inv_no_keyboard)
     (simp_all add: event_loop_recover_def case_prod_beta reconnect_result)

lemma handle_wayland_inv:
  "frontend_inv fe \<Longrightarrow> frontend_inv (snd (event_loop_handle_wayland env rd ok evs err fe))"
  by (simp add: event_loop_handle_wayland_def Let_def dispatch_all_inv)

lemma frontend_invD: "frontend_inv fe \<Longrightarrow> commits_established fe"
  by (simp add: frontend_inv_def)

lemma loop_turn_inv: "frontend_inv (snd st) \<Longrightarrow> frontend_inv (snd (loop_turn tn st))"
proof -
  assume inv: "frontend_inv (snd st)"
  obtain rs fe where st: "st = (rs, fe)" by (cases st)
  let ?env = "tn_env tn"
  let ?t = "resume_signal_tick (sys_now_ms ?env) (tn_boot_ms tn) rs"
  define f1 where "f1 = (if fst ?t then input_method_handle_resume ?env fe else fe)"
  define f2 where "f2 = wl_dispatch_all ?env (tn_pending tn)
      (event_loop_flush_pending_popup ?env (reconcile_tick ?env f1))"
  have "frontend_inv f1" using inv st by (simp add: f1_def handle_resume_inv)
  then have f2: "frontend_inv f2"
    unfolding f2_def by (intro dispatch_all_inv flush_popup_inv reconcile_tick_inv)
  have ready: "frontend_inv (case event_loop_handle_wayland ?env rd ok evs err f2 of
      (ok, fe) \<Rightarrow> if \<not> ok then event_loop_recover tn fe
        else vk_health_check ?env (if rep then keyboard_dispatch_repeat ?env fe else fe))"
    for rd ok evs err rep
    using handle_wayland_inv [OF f2, of ?env rd ok evs err]
    by (auto simp: case_prod_beta intro!: event_loop_recover_inv vk_health_check_inv
        dispatch_repeat_inv dest: frontend_invD)
  have "snd (loop_turn tn st) =
      (if \<not> tn_flush_ok tn then event_loop_recover tn f2
       else (case tn_poll tn of
          PollInterrupted \<Rightarrow> f2 | PollFailed \<Rightarrow> f2\<lparr>running := False\<rparr>
        | PollTimeout \<Rightarrow> vk_health_check ?env f2
        | PollReady rd ok evs err rep \<Rightarrow>
            (case event_loop_handle_wayland ?env rd ok evs err f2 of
               (ok, fe) \<Rightarrow> if \<not> ok then event_loop_recover tn fe
                 else vk_health_check ?env (if rep then keyboard_dispatch_repeat ?env fe else fe))))"
    by (simp add: loop_turn_def st Let_def case_prod_beta f2_def f1_def split: poll_outcome.split)
  then show ?thesis
    using ready f2 event_loop_recover_inv [OF frontend_invD [OF f2]] vk_health_check_inv [OF f2]
    by (simp split: poll_outcome.split)
qed

subsection \<open>The whole run\<close>

lemma loop_run_fold: "loop_run tns st = fold (\<lambda>tn st. if running (snd st) then loop_turn tn st else st) tns st"
proof (induction tns arbitrary: st)
  case Nil
  then show ?case by simp
next
  case (Cons tn tns)
  have stop: "fold (\<lambda>tn st. if running (snd st) then loop_turn tn st else st) tns st = st"
    if "\<not> running (snd st)" for st :: "TypioWlResumeSignal \<times> ('a, 'b) frontend" and tns
    using that by (induction tns) simp_all
  show ?case by (simp add: Cons.IH stop)
qed

interpretation loop: event_machine loop_turn "\<lambda>st. frontend_inv (snd st)"
  by unfold_locales (rule loop_turn_inv)

interpretation listeners: event_machine "wl_dispatch env" frontend_inv for env
  by unfold_locales (rule wl_dispatch_inv)

lemma loop_run_inv: "frontend_inv (snd st) \<Longrightarrow> frontend_inv (snd (loop_run tns st))"
  unfolding loop_run_fold by (rule loop.guarded_run_inv)

lemma frontend_calloc_frame:
  "keyboard (frontend_calloc sc c) = None" "commits_established (frontend_calloc sc c)"
  by (simp_all add: frontend_calloc_def commits_established_def)

lemma frontend_new_inv:
  assumes "frontend_new env bo sc c = Some fe"
  shows "frontend_inv fe"
proof -
  have "fe = snd (frontend_wayland_bind env bo (frontend_calloc sc c))"
    using assms by (simp add: frontend_new_def case_prod_beta split: if_splits)
  then show ?thesis by (intro frontend_inv_no_keyboard) (simp_all add: frontend_calloc_frame)
qed

lemma frontend_inv_running [simp]: "frontend_inv (fe\<lparr>running := b\<rparr>) = frontend_inv fe"
  by (simp add: frontend_inv_def grab_inv_def kb_arbiter_def commits_established_def)

lemma frontend_run_inv:
  assumes "frontend_run tns rs fe = Some (rs', fe')" and "frontend_inv fe"
  shows "frontend_inv fe'"
  using loop_run_inv [of "(rs, fe\<lparr>running := True\<rparr>)" tns] assms
  by (simp add: frontend_run_def split: if_splits)

end
