(* ===== verification/Frontend_Laws.thy ===== *)
theory Frontend_Laws
  imports Frontend_Safety
begin

declare not_None_eq [simp del]

section \<open>Laws of the frontend\<close>

text \<open>
  The facts behind the properties of the root theory: the guards that give the keyboard back, the
  recovery paths, the focus cycle, the order of a commit and the idempotence of drawing.
\<close>

subsection \<open>Guards that give the keyboard back\<close>

lemma release_grab_some:
  "keyboard fe = Some kb \<Longrightarrow> keyboard (keyboard_release_grab fe) = Some (kb\<lparr>kb_grab := False\<rparr>)"
  by (cases "kb_grab kb") (auto simp: keyboard_release_grab_def)

lemma on_key_emergency:
  assumes "keyboard fe = Some kb" and "xkb kb \<noteq> None"
    and "key_route_binding_matches_press (sc_emergency_exit (shortcuts fe)) (keyboard_keysym env kb key)
      (modifier_policy_effective_modifiers (physical_modifiers kb) (xkb_effective_modifiers env kb)
        (active_generation_owned_keys fe) (keyboard_keysym env kb key) True)"
  shows "\<not> running (on_key env t key True fe) \<and>
     keyboard (on_key env t key True fe) = Some (kb\<lparr>kb_grab := False\<rparr>) \<and>
     (\<forall>k. app_key_down k (out (on_key env t key True fe)) = app_key_down k (out fe))"
  using assms release_grab_some [of "emit ReqDumpRecentLog fe" kb]
  by (simp add: on_key_def Let_def key_route_reserved_action_def)

text \<open>Presses at given times while the guard rejects.\<close>

definition reject_at :: "('e, 'x) env \<Rightarrow> u64 \<Rightarrow> ('e, 'x) frontend \<Rightarrow> ('e, 'x) frontend" where
  "reject_at env now fe = guard_note_reject (env\<lparr>sys_now_ms := now\<rparr>) True fe"

lemma on_key_rejected:
  assumes "keyboard fe = Some kb" and "xkb kb \<noteq> None" and "guard_reason env fe \<noteq> None"
    and "key_route_reserved_action (shortcuts fe) (keyboard_keysym env kb key)
      (modifier_policy_effective_modifiers (physical_modifiers kb) (xkb_effective_modifiers env kb)
        (active_generation_owned_keys fe) (keyboard_keysym env kb key) True) \<noteq> RESERVED_ACTION_EMERGENCY_EXIT"
  shows "on_key env t key True fe = reject_at env (sys_now_ms env) fe"
  using assms by (simp add: on_key_def reject_at_def Let_def)

lemma reject_at_first:
  assumes "guard_reject_press_window_start_ms fe = 0"
  shows "reject_at env t fe = fe\<lparr>guard_reject_press_window_start_ms := t, guard_reject_press_streak := 1\<rparr>"
  using assms
  by (simp add: reject_at_def guard_note_reject_def GUARD_FAILSAFE_THRESHOLD_def word_le_nat_alt Let_def)

lemma reject_at_next:
  assumes "guard_reject_press_window_start_ms fe \<noteq> 0"
    and "t - guard_reject_press_window_start_ms fe \<le> GUARD_FAILSAFE_WINDOW_MS"
    and "guard_reject_press_streak fe + 1 < GUARD_FAILSAFE_THRESHOLD"
  shows "reject_at env t fe = fe\<lparr>guard_reject_press_streak := guard_reject_press_streak fe + 1\<rparr>"
  using assms by (simp add: reject_at_def guard_note_reject_def Let_def not_less [symmetric])

lemma of_nat_below_eight: "m < 8 \<Longrightarrow> (of_nat m :: u64) < 8"
  by (simp add: word_less_nat_alt unat_of_nat take_bit_nat_eq_self)

lemma reject_run_below:
  assumes "guard_reject_press_window_start_ms fe = t0" and "t0 \<noteq> 0"
    and "guard_reject_press_streak fe = of_nat n" and "n + length ts < 8"
    and "\<And>t. t \<in> set ts \<Longrightarrow> t - t0 \<le> GUARD_FAILSAFE_WINDOW_MS"
  shows "fold (reject_at env) ts fe = fe\<lparr>guard_reject_press_streak := of_nat (n + length ts)\<rparr>"
  using assms
proof (induction ts arbitrary: fe n)
  case Nil
  then show ?case by simp
next
  case (Cons t ts)
  have "(of_nat (n + 1) :: u64) < 8"
    by (rule of_nat_below_eight) (use Cons.prems(4) in simp)
  then have step: "reject_at env t fe = fe\<lparr>guard_reject_press_streak := of_nat (n + 1)\<rparr>"
    using Cons.prems by (subst reject_at_next) (simp_all add: GUARD_FAILSAFE_THRESHOLD_def add.commute)
  have "fold (reject_at env) ts (fe\<lparr>guard_reject_press_streak := of_nat (n + 1)\<rparr>) =
      (fe\<lparr>guard_reject_press_streak := of_nat (n + 1)\<rparr>)\<lparr>guard_reject_press_streak := of_nat (n + 1 + length ts)\<rparr>"
    by (rule Cons.IH) (use Cons.prems in auto)
  then show ?case by (simp add: step)
qed

lemma reject_at_eighth:
  assumes "guard_reject_press_window_start_ms fe \<noteq> 0"
    and "t - guard_reject_press_window_start_ms fe \<le> GUARD_FAILSAFE_WINDOW_MS"
    and "guard_reject_press_streak fe = 7" and "lifecycle_phase fe \<noteq> PHASE_ACTIVATING"
  shows "reject_at env t fe = guard_trigger_failsafe (fe\<lparr>guard_reject_press_streak := 8\<rparr>)"
  using assms by (simp add: reject_at_def guard_note_reject_def GUARD_FAILSAFE_THRESHOLD_def Let_def)

text \<open>What a rejected press leaves alone: everything a further press of the key is judged by.\<close>

definition rejecting :: "('e, 'x) env \<Rightarrow> 'x keyboard \<Rightarrow> u32 \<Rightarrow> ('e, 'x) frontend \<Rightarrow> bool" where
  "rejecting env kb key fe \<longleftrightarrow>
     (\<exists>g. keyboard fe = Some (kb\<lparr>kb_grab := g\<rparr>)) \<and> xkb kb \<noteq> None \<and> guard_reason env fe \<noteq> None \<and>
     key_route_reserved_action (shortcuts fe) (keyboard_keysym env kb key)
       (modifier_policy_effective_modifiers (physical_modifiers kb) (xkb_effective_modifiers env kb)
          (active_generation_owned_keys fe) (keyboard_keysym env kb key) True) \<noteq> RESERVED_ACTION_EMERGENCY_EXIT"

lemma guard_reason_cong:
  "session fe' = session fe \<Longrightarrow> lifecycle_phase fe' = lifecycle_phase fe \<Longrightarrow> core fe' = core fe \<Longrightarrow>
     guard_reason env fe' = guard_reason env fe"
  by (simp add: guard_reason_def)

lemma reject_at_context:
  "session (reject_at env t fe) = session fe" "core (reject_at env t fe) = core fe"
  "lifecycle_phase (reject_at env t fe) = lifecycle_phase fe" "shortcuts (reject_at env t fe) = shortcuts fe"
  "active_generation_owned_keys (reject_at env t fe) = active_generation_owned_keys fe"
  by (simp_all add: reject_at_def guard_note_reject_def guard_trigger_failsafe_def Let_def)

lemma reject_at_keyboard:
  "keyboard (reject_at env t fe) = keyboard fe \<or>
   keyboard (reject_at env t fe) = map_option (\<lambda>kb. kb\<lparr>kb_grab := False\<rparr>) (keyboard fe)"
  by (auto simp: reject_at_def guard_note_reject_def guard_trigger_failsafe_def keyboard_release_grab_def
      Let_def split: option.split)

lemma rejecting_reject:
  assumes "rejecting env kb key fe"
  shows "rejecting env kb key (reject_at env t fe)"
proof -
  obtain g where "keyboard fe = Some (kb\<lparr>kb_grab := g\<rparr>)" using assms by (auto simp: rejecting_def)
  then have "\<exists>g. keyboard (reject_at env t fe) = Some (kb\<lparr>kb_grab := g\<rparr>)"
    using reject_at_keyboard [of env t fe] by (elim disjE) auto
  moreover have "guard_reason env (reject_at env t fe) = guard_reason env fe"
    by (rule guard_reason_cong) (simp_all add: reject_at_context)
  ultimately show ?thesis using assms by (simp add: rejecting_def reject_at_context)
qed

lemma keyboard_judged [simp]:
  "keyboard_keysym (env\<lparr>sys_now_ms := t\<rparr>) (kb\<lparr>kb_grab := g\<rparr>) key = keyboard_keysym env kb key"
  "xkb_effective_modifiers (env\<lparr>sys_now_ms := t\<rparr>) (kb\<lparr>kb_grab := g\<rparr>) = xkb_effective_modifiers env kb"
  "guard_reason (env\<lparr>sys_now_ms := t\<rparr>) fe = guard_reason env fe"
  by (simp_all add: keyboard_keysym_def xkb_effective_modifiers_def guard_reason_def Let_def split: option.split)

lemma rejecting_on_key:
  assumes "rejecting env kb key fe"
  shows "on_key (env\<lparr>sys_now_ms := t\<rparr>) time key True fe = reject_at env t fe"
proof -
  obtain g where g: "keyboard fe = Some (kb\<lparr>kb_grab := g\<rparr>)" using assms by (auto simp: rejecting_def)
  have "on_key (env\<lparr>sys_now_ms := t\<rparr>) time key True fe =
      reject_at (env\<lparr>sys_now_ms := t\<rparr>) (sys_now_ms (env\<lparr>sys_now_ms := t\<rparr>)) fe"
    by (rule on_key_rejected [OF g]) (use assms in \<open>simp_all add: rejecting_def\<close>)
  then show ?thesis by (simp add: reject_at_def)
qed

lemma rejecting_presses:
  "rejecting env kb key fe \<Longrightarrow>
     fold (\<lambda>t. on_key (env\<lparr>sys_now_ms := t\<rparr>) time key True) ts fe = fold (reject_at env) ts fe"
  by (induction ts arbitrary: fe) (simp_all add: rejecting_on_key rejecting_reject)

lemma rejected_presses_below:
  assumes "guard_reject_press_window_start_ms fe = 0" and "t0 \<noteq> 0" and "length ts < 7"
    and "\<And>t. t \<in> set ts \<Longrightarrow> t - t0 \<le> GUARD_FAILSAFE_WINDOW_MS"
  shows "fold (reject_at env) (t0 # ts) fe =
     fe\<lparr>guard_reject_press_window_start_ms := t0, guard_reject_press_streak := of_nat (1 + length ts)\<rparr>"
proof -
  let ?f = "fe\<lparr>guard_reject_press_window_start_ms := t0, guard_reject_press_streak := 1\<rparr>"
  have "fold (reject_at env) ts ?f = ?f\<lparr>guard_reject_press_streak := of_nat (1 + length ts)\<rparr>"
    by (rule reject_run_below) (use assms in simp_all)
  then show ?thesis by (simp add: reject_at_first [OF assms(1)])
qed

lemma rejected_presses_eighth:
  assumes "guard_reject_press_window_start_ms fe = 0" and "t0 \<noteq> 0" and "length ts = 7"
    and "\<And>t. t \<in> set ts \<Longrightarrow> t - t0 \<le> GUARD_FAILSAFE_WINDOW_MS"
    and "lifecycle_phase fe \<noteq> PHASE_ACTIVATING"
  shows "fold (reject_at env) (t0 # ts) fe =
     guard_trigger_failsafe (fe\<lparr>guard_reject_press_window_start_ms := t0, guard_reject_press_streak := 8\<rparr>)"
proof -
  obtain us u where ts: "ts = us @ [u]" "length us = 6"
    using assms(3) by (cases ts rule: rev_cases) auto
  let ?f = "fe\<lparr>guard_reject_press_window_start_ms := t0, guard_reject_press_streak := 7\<rparr>"
  have "fold (reject_at env) (t0 # us) fe = ?f"
    using rejected_presses_below [OF assms(1,2), of us env] ts assms(4) by simp
  moreover have "reject_at env u ?f = guard_trigger_failsafe (?f\<lparr>guard_reject_press_streak := 8\<rparr>)"
    by (rule reject_at_eighth) (use assms ts in simp_all)
  ultimately show ?thesis by (simp add: ts(1))
qed

subsection \<open>Releases the candidate guard takes\<close>

lemma route_release_candidate_strands:
  assumes "vk_can_release fe" and "unat key < MAX_TRACKED_KEYS"
    and "app_key_down key (out fe)" and "key_get_state fe key = TRACK_FORWARDED"
    and "candidate_swallows_release env key ks m u t fe"
  shows "app_key_down key (out (key_route_process_release env key ks m u t fe)) \<and>
     key_get_state (key_route_process_release env key ks m u t fe) key = TRACK_IDLE \<and>
     \<not> no_stuck_key (key_route_process_release env key ks m u t fe)"
proof -
  let ?r = "core_process_key env (route_key_event EVENT_KEY_RELEASE key ks m u t False) (key_clear_tracking key fe)"
  have eq: "key_route_process_release env key ks m u t fe = key_clear_tracking key (snd ?r)"
    using assms(4,5)
    by (simp add: key_route_process_release_def route_release_forwarded_def candidate_swallows_release_iff
        Let_def case_prod_beta)
  have down: "app_key_down key (out (key_clear_tracking key (snd ?r)))"
    using assms(3) by simp
  have idle: "key_states (key_clear_tracking key (snd ?r)) (unat key) = TRACK_IDLE"
    using assms(2) by (simp add: key_clear_tracking_at)
  have "\<not> no_stuck_key (key_clear_tracking key (snd ?r))"
    using down idle assms(1,2) by (auto simp: no_stuck_key_def intro!: exI [of _ key])
  with down idle assms(2) show ?thesis by (simp add: eq key_get_state_def)
qed

subsection \<open>The order of a commit\<close>

lemma on_commit_callback_out:
  assumes "session fe \<noteq> None" and "t \<noteq> []" and "fe_input_method fe"
  shows "out (on_commit_callback env (Some t) fe) =
     out fe @ [ReqSetPreedit [] (-1) (-1)] @ (if fe_text_ui_backend fe then [ReqUiHide] else []) @
     [ReqCommitString t] @ (if im_serial fe \<noteq> 0 then [ReqCommit (im_serial fe)] else [])"
  using assms
  by (simp add: on_commit_callback_def Let_def text_ui_reset_tracking_def set_preedit_def
      text_ui_backend_hide_def commit_string_def commit_def)

subsection \<open>Drawing is idempotent\<close>

lemma update_ui_tracks:
  assumes "session fe = Some s"
    and "build_plain_preedit (\<lambda>_. True) (api_preedit env (core fe)) = Some (plain, cursor)"
  shows "session (update_wayland_text_ui env fe) =
      Some (s\<lparr>last_preedit_text := plain, last_preedit_cursor := cursor\<rparr>)"
    and "core (update_wayland_text_ui env fe) = core fe"
  using assms
  by (simp_all add: update_wayland_text_ui_def Let_def text_ui_backend_update_def commit_def set_preedit_def)

lemma update_ui_again_out:
  assumes "session fe = Some s"
    and "build_plain_preedit (\<lambda>_. True) (api_preedit env (core fe)) = Some (plain, cursor)"
    and "last_preedit_text s = plain" and "last_preedit_cursor s = cursor"
  shows "out (update_wayland_text_ui env fe) = out fe @ (if fe_text_ui_backend fe then [ReqUiUpdate] else [])"
  using assms
  by (auto simp: update_wayland_text_ui_def Let_def text_ui_backend_update_def text_ui_plan_update_def
      split: option.splits)

lemma build_plain_preedit_total: "\<exists>r. build_plain_preedit (\<lambda>_. True) p = Some r"
proof (cases p)
  case None
  then show ?thesis by (simp add: build_plain_preedit_def)
next
  case (Some q)
  then show ?thesis using build_plain_preedit_spec [of "\<lambda>_. True" q] by (auto simp: Let_def)
qed

lemma update_ui_twice_out:
  assumes "session fe \<noteq> None"
  shows "out (update_wayland_text_ui env (update_wayland_text_ui env fe)) =
     out (update_wayland_text_ui env fe) @ (if fe_text_ui_backend fe then [ReqUiUpdate] else [])"
proof -
  obtain s where s: "session fe = Some s" using assms by (auto simp: not_None_eq)
  obtain plain cursor where b: "build_plain_preedit (\<lambda>_. True) (api_preedit env (core fe)) = Some (plain, cursor)"
    using build_plain_preedit_total [of "api_preedit env (core fe)"] by auto
  note u = update_ui_tracks [OF s b]
  have "fe_text_ui_backend (update_wayland_text_ui env fe) = fe_text_ui_backend fe" by simp
  with update_ui_again_out [of "update_wayland_text_ui env fe" _ env plain cursor, OF u(1)] b u(2)
  show ?thesis by simp
qed

subsection \<open>The keymap of a new grab\<close>

lemma expect_keymap_timeout:
  assumes "fe_virtual_keyboard fe" and "\<not> vk_has_current_generation_keymap fe"
    and "running fe" and "keyboard fe = Some kb" and "kb_grab kb"
    and "sys_now_ms env + VK_KEYMAP_TIMEOUT_MS \<noteq> 0"
  shows "running (vk_health_check env' (vk_expect_keymap env fe)) \<longleftrightarrow>
     sys_now_ms env' < sys_now_ms env + VK_KEYMAP_TIMEOUT_MS"
  using vk_health_check_timeout [of "vk_expect_keymap env fe" kb env'] vk_expect_keymap_blocks [OF assms(1,2), of env]
    assms(3-6)
  by simp

lemma expect_keymap_arrives:
  assumes "fe_virtual_keyboard fe" and "running fe" and "sys_dup_ok env'" and "active_key_generation fe \<noteq> 0"
  shows "vk_can_forward (vk_forward_keymap env' f sz (vk_expect_keymap env fe))"
    and "running (vk_health_check env'' (vk_forward_keymap env' f sz (vk_expect_keymap env fe)))"
  using vk_forward_keymap_ready [of "vk_expect_keymap env fe" env' f sz] assms
  by (simp_all add: vk_health_check_def vk_forward_keymap_def Let_def)

subsection \<open>The recovery paths\<close>

lemma on_resume_core [simp]: "core (lifecycle_on_resume env fe) = core fe"
  by (simp add: lifecycle_on_resume_def Let_def set_preedit_def commit_def)

lemma on_resume_objects [simp]:
  "fe_input_method (lifecycle_on_resume env fe) = fe_input_method fe"
  "fe_display (lifecycle_on_resume env fe) = fe_display fe"
  by (simp_all add: lifecycle_on_resume_def Let_def)

lemma on_resume_focused [simp]:
  "session_is_focused env (lifecycle_on_resume env fe) = session_is_focused env fe"
  by (simp add: session_is_focused_def lifecycle_on_resume_session)

lemma rebuild_core [simp]:
  "core (snd (rebuild_keyboard_grab env fe)) = core fe"
  "session (snd (rebuild_keyboard_grab env fe)) = session fe"
  by (simp_all add: rebuild_frame)

lemma set_phase_focused [simp]:
  "session_is_focused env (lifecycle_set_phase p fe) = session_is_focused env fe"
  by (simp add: session_is_focused_def)

lemma rebuild_focused [simp]:
  "session_is_focused env (snd (rebuild_keyboard_grab env fe)) = session_is_focused env fe"
  by (simp add: session_is_focused_def)

lemma grab_obtainable_frame [simp]:
  "grab_obtainable env (lifecycle_set_phase p fe) = grab_obtainable env fe"
  "grab_obtainable env (lifecycle_on_resume env fe) = grab_obtainable env fe"
  by (simp_all add: grab_obtainable_def)

lemma rebuild_display [simp]: "fe_display (snd (rebuild_keyboard_grab env fe)) = fe_display fe"
  by (simp add: rebuild_keyboard_grab_def keyboard_create_def Let_def case_prod_beta)

lemma handle_resume_display [simp]: "fe_display (input_method_handle_resume env fe) = fe_display fe"
  by (simp add: input_method_handle_resume_def Let_def case_prod_beta)

lemma resume_regrabs:
  assumes "session_is_focused env fe" and "lifecycle_phase fe = PHASE_ACTIVE" and "active_engine env fe"
    and "grab_obtainable env fe"
  shows "lifecycle_phase (input_method_handle_resume env fe) = PHASE_ACTIVE \<and>
     keyboard (input_method_handle_resume env fe) \<noteq> None \<and>
     session_is_focused env (input_method_handle_resume env fe)"
  using assms
  by (simp add: input_method_handle_resume_def Let_def case_prod_beta rebuild_result active_engine_def)

lemma resume_inactive:
  assumes "lifecycle_phase fe \<noteq> PHASE_ACTIVE"
  shows "input_method_handle_resume env fe = lifecycle_on_resume env fe"
  using assms by (simp add: input_method_handle_resume_def Let_def)

lemma observe_focus: "ls_focus (lifecycle_observe env fe) = (if session_is_focused env fe then FOCUS_FOCUSED else FOCUS_UNFOCUSED)"
  by (simp add: lifecycle_observe_def)

lemma reconcile_agree_iff:
  "reconcile_agree env fe \<longleftrightarrow>
     lifecycle_phase fe \<in> {PHASE_ACTIVATING, PHASE_DEACTIVATING} \<or>
     (session_is_focused env fe \<and> keyboard fe = None \<and> \<not> active_engine env fe) \<or>
     (lifecycle_phase fe = PHASE_ACTIVE \<and> fe_display fe \<and> session_is_focused env fe \<and> keyboard fe \<noteq> None) \<or>
     (lifecycle_phase fe = PHASE_INACTIVE \<and> \<not> (fe_display fe \<and> session_is_focused env fe))"
  by (cases "lifecycle_phase fe")
     (auto simp: reconcile_agree_def Let_def lifecycle_state_agrees_def lifecycle_project_phase_def
       lifecycle_observe_def)

lemma session_is_focused_cong:
  "session fe' = session fe \<Longrightarrow> core fe' = core fe \<Longrightarrow> session_is_focused env fe' = session_is_focused env fe"
  by (simp add: session_is_focused_def)

lemma reconcile_repairs:
  assumes "session_is_focused env fe" and "active_engine env fe" and "fe_display fe"
    and "lifecycle_phase fe = PHASE_ACTIVE" and "keyboard fe = None" and "grab_obtainable env fe"
    and "reconcile_divergence_since_ms fe \<noteq> 0"
    and "unat (reconcile_divergence_since_ms fe) + 2000 \<le> unat (sys_now_ms env)"
  shows "keyboard (reconcile_tick env fe) \<noteq> None" and "lifecycle_phase (reconcile_tick env fe) = PHASE_ACTIVE"
    and "reconcile_agree env (reconcile_tick env fe)"
proof -
  let ?f = "fe\<lparr>reconcile_divergence_since_ms := 0\<rparr>"
  have "\<not> reconcile_agree env fe" using assms by (simp add: reconcile_agree_iff)
  moreover have "sys_now_ms env \<ge> reconcile_divergence_since_ms fe"
    "sys_now_ms env - reconcile_divergence_since_ms fe \<ge> RECONCILE_THRESHOLD_MS"
    using assms(8) by (simp_all add: word_le_nat_alt unat_sub RECONCILE_THRESHOLD_MS_def)
  ultimately have tick: "reconcile_tick env fe = input_method_handle_resume env ?f"
    using assms(7) by (simp add: reconcile_tick_def reconcile_decide_def)
  have "session_is_focused env ?f" "active_engine env ?f" "grab_obtainable env ?f"
    using assms(1,2,6) by (simp_all add: session_is_focused_def active_engine_def grab_obtainable_def)
  from resume_regrabs [OF this(1) _ this(2,3)] assms(4)
  have r: "lifecycle_phase (reconcile_tick env fe) = PHASE_ACTIVE" "keyboard (reconcile_tick env fe) \<noteq> None"
    "session_is_focused env (reconcile_tick env fe)"
    by (simp_all add: tick)
  have "fe_display (reconcile_tick env fe)"
    using assms(3) by (simp add: tick)
  with r show "keyboard (reconcile_tick env fe) \<noteq> None" "lifecycle_phase (reconcile_tick env fe) = PHASE_ACTIVE"
    "reconcile_agree env (reconcile_tick env fe)"
    by (simp_all add: reconcile_agree_iff)
qed

text \<open>The state the reconciler cannot repair: focused, but declared inactive.\<close>

definition focused_inactive :: "('e, 'x) env \<Rightarrow> ('e, 'x) frontend \<Rightarrow> bool" where
  "focused_inactive env fe \<longleftrightarrow>
     session_is_focused env fe \<and> active_engine env fe \<and> fe_display fe \<and>
     lifecycle_phase fe = PHASE_INACTIVE \<and> keyboard fe = None"

lemma focused_inactive_tick:
  assumes "focused_inactive env fe"
  shows "focused_inactive env (reconcile_tick (env\<lparr>sys_now_ms := t\<rparr>) fe)"
proof -
  let ?e = "env\<lparr>sys_now_ms := t\<rparr>"
  have foc: "session_is_focused ?e = session_is_focused env"
    by (rule ext) (simp add: session_is_focused_def)
  have upd: "session_is_focused env (fe\<lparr>reconcile_divergence_since_ms := d\<rparr>) = session_is_focused env fe" for d
    by (simp add: session_is_focused_def)
  have res: "input_method_handle_resume ?e (fe\<lparr>reconcile_divergence_since_ms := d\<rparr>) =
      lifecycle_on_resume ?e (fe\<lparr>reconcile_divergence_since_ms := d\<rparr>)" for d
    using assms by (intro resume_inactive) (simp add: focused_inactive_def)
  have "reconcile_tick ?e fe \<in>
      {fe\<lparr>reconcile_divergence_since_ms := d\<rparr> |d. True} \<union>
      {lifecycle_on_resume ?e (fe\<lparr>reconcile_divergence_since_ms := d\<rparr>) |d. True}"
    by (auto simp: reconcile_tick_def case_prod_beta Let_def res)
  moreover have "focused_inactive env (fe\<lparr>reconcile_divergence_since_ms := d\<rparr>)" for d
    using assms by (simp add: focused_inactive_def upd active_engine_def)
  moreover have "focused_inactive env (lifecycle_on_resume ?e g)" if "focused_inactive env g" for g
    using that on_resume_focused [of ?e g]
    by (simp add: focused_inactive_def foc active_engine_def lifecycle_on_resume_scrubs del: on_resume_focused)
  ultimately show ?thesis by auto
qed

lemma focused_inactive_disagrees: "focused_inactive env fe \<Longrightarrow> \<not> reconcile_agree env fe"
  by (simp add: focused_inactive_def reconcile_agree_iff)

lemma focused_inactive_ticks:
  "focused_inactive env fe \<Longrightarrow>
     focused_inactive env (fold (\<lambda>t. reconcile_tick (env\<lparr>sys_now_ms := t\<rparr>)) ts fe)"
  by (induction ts arbitrary: fe) (simp_all add: focused_inactive_tick)

subsection \<open>The focus cycle\<close>

text \<open>
  What the frontend relies on in the core: focus follows \<^verbatim>\<open>focus_in\<close> and
  \<^verbatim>\<open>focus_out\<close>, a new context is not focused, and the other calls leave the focus as it is.
\<close>

definition core_focus_laws :: "('e, 'x) env \<Rightarrow> bool" where
  "core_focus_laws env \<longleftrightarrow>
     (\<forall>c. api_is_focused env (snd (api_focus_in env c)) \<and>
          \<not> api_is_focused env (snd (api_focus_out env c)) \<and>
          \<not> api_is_focused env (snd (api_create_context env c)) \<and>
          api_is_focused env (snd (api_ctx_reset env c)) = api_is_focused env c \<and>
          api_is_focused env (api_notify_commit env c) = api_is_focused env c \<and>
          api_is_focused env (api_identity_enter env c) = api_is_focused env c \<and>
          api_is_focused env (api_identity_clear env c) = api_is_focused env c \<and>
          (\<forall>t cur anchor. api_is_focused env (api_set_surrounding env t cur anchor c) = api_is_focused env c))"

lemma deliver_callback_focus:
  "core_focus_laws env \<Longrightarrow>
     api_is_focused env (core (deliver_callback env cb fe)) = api_is_focused env (core fe)"
  by (cases cb)
     (simp_all add: core_focus_laws_def deliver_callback_def on_commit_callback_def
       on_composition_callback_def Let_def text_ui_reset_tracking_def commit_def commit_string_def
       text_ui_backend_hide_def set_preedit_def split: option.split)

lemma deliver_callbacks_focus:
  "core_focus_laws env \<Longrightarrow>
     api_is_focused env (core (deliver_callbacks env cbs fe)) = api_is_focused env (core fe)"
  unfolding deliver_callbacks_def
  by (induction cbs arbitrary: fe) (simp_all add: deliver_callback_focus)

lemma core_call_focus:
  "core_focus_laws env \<Longrightarrow>
     api_is_focused env (core (core_call env f fe)) = api_is_focused env (snd (f (core fe)))"
  by (simp add: core_call_def case_prod_beta deliver_callbacks_focus)

lemma apply_pending_focus:
  "core_focus_laws env \<Longrightarrow>
     session_is_focused env (session_apply_pending env fe) = session_is_focused env fe"
  by (auto simp: session_is_focused_def session_apply_pending_def core_focus_laws_def Let_def
      split: option.split)

lemma transition_to_active_ok:
  assumes "core_focus_laws env" and "session fe \<noteq> None" and "grab_obtainable env fe"
    and "\<And>c. api_active_engine env c \<noteq> None"
  shows "lifecycle_phase (transition_to_active env fe) = PHASE_ACTIVE"
    and "keyboard (transition_to_active env fe) \<noteq> None"
    and "session_is_focused env (transition_to_active env fe)"
    and "\<not> pending_reactivation (transition_to_active env fe)"
proof -
  let ?f = "(core_call env (api_focus_in env) fe)\<lparr>core := api_identity_enter env (core (core_call env (api_focus_in env) fe))\<rparr>"
  have g: "grab_obtainable env ?f" using assms(3) by (simp add: grab_obtainable_def)
  have foc: "session_is_focused env ?f"
    using assms(1,2) core_call_focus [OF assms(1), of "api_focus_in env" fe]
    by (simp add: session_is_focused_def core_focus_laws_def)
  have eq: "transition_to_active env fe =
      set_pending_reactivation False (lifecycle_set_phase PHASE_ACTIVE (snd (rebuild_keyboard_grab env ?f)))"
    using g assms(4) by (simp add: transition_to_active_def Let_def active_engine_def case_prod_beta rebuild_result)
  show "lifecycle_phase (transition_to_active env fe) = PHASE_ACTIVE"
    "keyboard (transition_to_active env fe) \<noteq> None"
    using g by (simp_all add: eq rebuild_result)
  show "session_is_focused env (transition_to_active env fe)"
    using foc unfolding eq by (simp add: session_is_focused_def)
  show "\<not> pending_reactivation (transition_to_active env fe)"
    by (simp add: eq set_pending_reactivation_def)
qed

lemma activate_unfocused:
  assumes "core_focus_laws env" and "\<not> session_is_focused env fe"
    and "session fe \<noteq> None \<or> (sys_calloc_ok env \<and> fst (api_create_context env (core fe)))"
  shows "lifecycle_phase (im_handle_activate env fe) = PHASE_ACTIVATING"
    and "\<exists>s. session (im_handle_activate env fe) = Some s \<and> pend_active (pending s)"
    and "\<not> session_is_focused env (im_handle_activate env fe)"
    and "fe_input_method (im_handle_activate env fe) = fe_input_method fe"
proof -
  have upd: "\<exists>s. session (upd_session (\<lambda>s. s\<lparr>pending := (pending s)\<lparr>pend_active := True\<rparr>\<rparr>) (session_reset g)) = Some s \<and>
      pend_active (pending s)" if "session g \<noteq> None" for g :: "('a, 'b) frontend"
    using that by (cases "session g") (auto simp: session_reset_def text_ui_reset_tracking_def)
  have foc: "session_is_focused env (upd_session us (session_reset g)) = session_is_focused env g"
    for us and g :: "('a, 'b) frontend"
    by (simp add: session_is_focused_def session_reset_def text_ui_reset_tracking_def)
  have new: "\<not> session_is_focused env ((snd (session_create env fe))\<lparr>session := s\<rparr>)" if "session fe = None" for s
  proof -
    have "\<not> api_is_focused env (core (snd (session_create env fe))) \<or> \<not> sys_calloc_ok env"
      using assms(1) by (simp add: session_create_def case_prod_beta core_focus_laws_def)
    with assms(3) that show ?thesis by (auto simp: session_is_focused_def)
  qed
  have created: "fst (session_create env fe) \<noteq> None" if "session fe = None"
    using assms(3) that by (simp add: session_create_def case_prod_beta)
  have im: "fe_input_method (snd (session_create env fe)) = fe_input_method fe"
    "fe_input_method (session_reset g) = fe_input_method g" for g :: "('a, 'b) frontend"
    by (simp_all add: session_create_def case_prod_beta session_reset_def)
  have pend: "session_is_focused env (set_pending_reactivation b g) = session_is_focused env g"
    "fe_input_method (set_pending_reactivation b g) = fe_input_method g" for b and g :: "('a, 'b) frontend"
    by (simp_all add: session_is_focused_def set_pending_reactivation_def)
  show "lifecycle_phase (im_handle_activate env fe) = PHASE_ACTIVATING"
    "\<not> session_is_focused env (im_handle_activate env fe)"
    "fe_input_method (im_handle_activate env fe) = fe_input_method fe"
    using assms(2) new created
    by (cases "session fe = None";
        simp add: im_handle_activate_def case_prod_beta Let_def lifecycle_should_defer_activate_def foc im pend)+
  show "\<exists>s. session (im_handle_activate env fe) = Some s \<and> pend_active (pending s)"
  proof -
    have "\<exists>g. session g \<noteq> None \<and> im_handle_activate env fe =
        upd_session (\<lambda>s. s\<lparr>pending := (pending s)\<lparr>pend_active := True\<rparr>\<rparr>) (session_reset g)"
    proof (cases "session fe = None")
      case True
      let ?c = "(snd (session_create env fe))\<lparr>session := fst (session_create env fe)\<rparr>"
      show ?thesis
        by (rule exI [of _ "if lifecycle_should_defer_activate (session_is_focused env ?c)
              then set_pending_reactivation True ?c
              else lifecycle_set_phase PHASE_ACTIVATING (set_pending_reactivation False ?c)"])
           (use True created in \<open>simp add: im_handle_activate_def case_prod_beta Let_def set_pending_reactivation_def\<close>)
    next
      case False
      show ?thesis
        by (rule exI [of _ "if lifecycle_should_defer_activate (session_is_focused env fe)
              then set_pending_reactivation True fe
              else lifecycle_set_phase PHASE_ACTIVATING (set_pending_reactivation False fe)"])
           (use False in \<open>simp add: im_handle_activate_def Let_def set_pending_reactivation_def\<close>)
    qed
    then show ?thesis using upd by metis
  qed
qed

lemma activate_done_active:
  assumes "core_focus_laws env" and "\<not> session_is_focused env fe" and "grab_obtainable env fe"
    and "session fe \<noteq> None \<or> fst (api_create_context env (core fe))"
    and "\<And>c. api_active_engine env c \<noteq> None"
  shows "lifecycle_phase (im_handle_done env (im_handle_activate env fe)) = PHASE_ACTIVE \<and>
     keyboard (im_handle_done env (im_handle_activate env fe)) \<noteq> None \<and>
     session_is_focused env (im_handle_done env (im_handle_activate env fe))"
proof -
  let ?a = "im_handle_activate env fe"
  let ?a' = "?a\<lparr>im_serial := im_serial ?a + 1\<rparr>"
  have calloc: "sys_calloc_ok env" using assms(3) by (simp add: grab_obtainable_def)
  with assms(4) have "session fe \<noteq> None \<or> (sys_calloc_ok env \<and> fst (api_create_context env (core fe)))" by blast
  note act = activate_unfocused [OF assms(1,2) this]
  then obtain s where s: "session ?a = Some s" "pend_active (pending s)" by blast
  have "\<not> session_is_focused env ?a'" using act(3) by (simp add: session_is_focused_def)
  then have eq: "im_handle_done env ?a = transition_to_active env (session_apply_pending env ?a')"
    using s by (simp add: im_handle_done_def Let_def)
  have "grab_obtainable env (session_apply_pending env ?a')"
    using assms(3) act(4) by (simp add: grab_obtainable_def)
  moreover have "session (session_apply_pending env ?a') \<noteq> None" using s by simp
  ultimately show ?thesis
    unfolding eq using transition_to_active_ok [OF assms(1) _ _ assms(5)] by blast
qed

lemma transition_to_inactive_ok:
  assumes "core_focus_laws env"
  shows "lifecycle_phase (transition_to_inactive env fe) = PHASE_INACTIVE"
    and "keyboard (transition_to_inactive env fe) = None"
    and "\<not> session_is_focused env (transition_to_inactive env fe)"
proof -
  show "lifecycle_phase (transition_to_inactive env fe) = PHASE_INACTIVE"
    "keyboard (transition_to_inactive env fe) = None"
    by (simp_all add: transition_to_inactive_def Let_def set_pending_reactivation_def)
  have hide: "core (text_ui_backend_hide g) = core g" for g :: "('a, 'b) frontend"
    by (simp add: text_ui_backend_hide_def)
  show "\<not> session_is_focused env (transition_to_inactive env fe)"
    using assms core_call_focus [OF assms]
    by (auto simp: transition_to_inactive_def Let_def set_pending_reactivation_def session_is_focused_def
        core_focus_laws_def hide split: option.splits)
qed

lemma deactivate_done_inactive:
  assumes "core_focus_laws env" and "session_is_focused env fe"
  shows "lifecycle_phase (im_handle_done env (im_handle_deactivate fe)) = PHASE_INACTIVE \<and>
     keyboard (im_handle_done env (im_handle_deactivate fe)) = None \<and>
     \<not> session_is_focused env (im_handle_done env (im_handle_deactivate fe))"
proof -
  let ?d = "im_handle_deactivate fe"
  let ?d' = "?d\<lparr>im_serial := im_serial ?d + 1\<rparr>"
  obtain s where s: "session fe = Some s" using assms(2) by (auto simp: session_is_focused_def not_None_eq)
  have "session_is_focused env ?d'"
    using assms(2) by (simp add: session_is_focused_def im_handle_deactivate_def set_pending_reactivation_def)
  then have "im_handle_done env ?d = transition_to_inactive env (session_apply_pending env ?d')"
    using s by (simp add: im_handle_done_def Let_def im_handle_deactivate_def set_pending_reactivation_def
        lifecycle_should_cleanup_on_done_def lifecycle_should_commit_reactivation_def)
  then show ?thesis using transition_to_inactive_ok [OF assms(1)] by simp
qed

subsection \<open>The serial\<close>

lemma core_call_serial [simp]: "im_serial (core_call env f fe) = im_serial fe"
  by (simp add: core_call_def case_prod_beta)

lemma rebuild_serial [simp]: "im_serial (snd (rebuild_keyboard_grab env fe)) = im_serial fe"
  by (simp add: rebuild_frame)

lemma transitions_serial [simp]:
  "im_serial (transition_to_active env fe) = im_serial fe"
  "im_serial (handle_reactivation env fe) = im_serial fe"
  "im_serial (transition_to_inactive env fe) = im_serial fe"
  by (simp_all add: transition_to_active_def handle_reactivation_def transition_to_inactive_def Let_def
      case_prod_beta set_pending_reactivation_def)

lemma apply_pending_serial [simp]: "im_serial (session_apply_pending env fe) = im_serial fe"
  by (simp add: session_apply_pending_def Let_def split: option.split)

lemma im_handle_done_serial: "im_serial (im_handle_done env fe) = im_serial fe + 1"
  by (simp add: im_handle_done_def Let_def split: option.split)

subsection \<open>The delays of a reconnection\<close>

definition reconnect_schedule :: "nat \<Rightarrow> nat \<Rightarrow> u32 list" where
  "reconnect_schedule from n = map (\<lambda>k. reconnect_delay_ms (of_nat k)) [from..<from + n]"

lemma reconnect_schedule_Suc:
  "reconnect_schedule from (Suc n) = reconnect_delay_ms (of_nat from) # reconnect_schedule (Suc from) n"
  by (simp add: reconnect_schedule_def upt_rec)

lemma reconnect_loop_delays:
  "unat attempt \<le> 12 \<Longrightarrow>
     (\<exists>n. unat attempt + n \<le> 12 \<and>
        snd (snd (reconnect_loop ats attempt fe)) = reconnect_schedule (unat attempt) n)"
proof (induction "12 - unat attempt" arbitrary: attempt fe rule: less_induct)
  case less
  let ?f2 = "stop_request (at_stop_sleeping (ats attempt)) (stop_request (at_stop_before (ats attempt)) fe)"
  let ?b = "frontend_wayland_bind (at_env (ats attempt)) (at_bind (ats attempt)) ?f2"
  have one: "reconnect_schedule (unat attempt) 1 = [reconnect_delay_ms attempt]"
    by (simp add: reconnect_schedule_def)
  show ?case
  proof (cases "reconnect_should_retry attempt")
    case retry: True
    then have lt: "unat attempt < 12"
      by (simp add: reconnect_should_retry_def RECONNECT_MAX_ATTEMPTS_def word_less_nat_alt)
    show ?thesis
    proof (cases "running ?f2 \<and> \<not> fst ?b")
      case True
      let ?g = "frontend_wayland_unbind (at_env (ats attempt)) (snd ?b)"
      have suc: "unat (attempt + 1) = Suc (unat attempt)" using lt by (simp add: unat_word_ariths)
      with lt obtain n where n: "Suc (unat attempt) + n \<le> 12"
          "snd (snd (reconnect_loop ats (attempt + 1) ?g)) = reconnect_schedule (Suc (unat attempt)) n"
        using less.hyps [of "attempt + 1" ?g, unfolded suc, OF diff_less_mono2 [OF lessI]] by auto
      have "reconnect_loop ats attempt fe =
          (case reconnect_loop ats (attempt + 1) ?g of (r, fe, ds) \<Rightarrow> (r, fe, reconnect_delay_ms attempt # ds))"
        by (rule reconnect_loop_next [OF retry refl]) (use True in blast)+
      then have "snd (snd (reconnect_loop ats attempt fe)) = reconnect_schedule (unat attempt) (Suc n)"
        using n(2) by (simp add: case_prod_beta reconnect_schedule_Suc)
      with n(1) show ?thesis by (intro exI [of _ "Suc n"]) simp
    next
      case False
      have "snd (snd (reconnect_loop ats attempt fe)) \<in> {[], [reconnect_delay_ms attempt]}"
        using False by (subst reconnect_loop.simps) (auto simp: Let_def case_prod_beta)
      with lt one show ?thesis
        by (auto simp: reconnect_schedule_def intro: exI [of _ 0] exI [of _ 1])
    qed
  next
    case False
    then have "snd (snd (reconnect_loop ats attempt fe)) = reconnect_schedule (unat attempt) 0"
      by (subst reconnect_loop.simps) (simp add: reconnect_schedule_def)
    then show ?thesis using less.prems by (intro exI [of _ 0]) simp
  qed
qed

lemma reconnect_schedule_total: "sum_list (map unat (reconnect_schedule 0 12)) = 63750"
  by (simp add: reconnect_schedule_def reconnect_delay_ms_def RECONNECT_MAX_DELAY_MS_def
      RECONNECT_BASE_DELAY_MS_def upt_rec word_le_nat_alt word_less_nat_alt Let_def)

lemma reconnect_schedule_bound:
  assumes "n \<le> 12"
  shows "sum_list (map unat (reconnect_schedule 0 n)) \<le> 63750"
proof -
  have "[0..<12] = [0..<n] @ [n..<12]" using assms by (metis le_add_diff_inverse less_eq_nat.simps(1) upt_add_eq_append)
  then have "sum_list (map unat (reconnect_schedule 0 n)) \<le> sum_list (map unat (reconnect_schedule 0 12))"
    by (simp add: reconnect_schedule_def)
  then show ?thesis by (simp add: reconnect_schedule_total)
qed

lemma reconnect_loop_stopped:
  assumes "\<not> running fe"
  shows "fst (reconnect_loop ats attempt fe) = False"
    and "snd (snd (reconnect_loop ats attempt fe)) = []"
  using assms by (subst reconnect_loop.simps; simp add: Let_def)+

subsection \<open>The end of the frontend\<close>

lemma session_destroy_keys [simp]: "keeps_keys (session_destroy env fe) fe"
  by (simp add: session_destroy_def Let_def)

lemma unbind_keys:
  "keyboard fe = None \<Longrightarrow> app_key_down key (out (frontend_wayland_unbind env fe)) = app_key_down key (out fe)"
  by (simp add: frontend_wayland_unbind_def Let_def)

lemma unbind_display: "\<not> fe_display (frontend_wayland_unbind env fe)"
  by (simp add: frontend_wayland_unbind_def Let_def)

lemma frontend_destroy_releases:
  "app_key_down key (out (frontend_destroy env fe)) \<longleftrightarrow>
     app_key_down key (out fe) \<and> \<not> (release_owed fe key \<and> keyboard fe \<noteq> None)"
proof -
  let ?s = "(session_destroy env (fe\<lparr>running := False\<rparr>))\<lparr>session := None\<rparr>"
  let ?g = "?s\<lparr>core := api_identity_clear env (core ?s)\<rparr>"
  let ?k = "if keyboard ?g \<noteq> None then (keyboard_destroy env ?g)\<lparr>keyboard := None\<rparr> else ?g"
  have owed: "release_owed ?g key = release_owed fe key"
    by (rule release_owed_cong) (simp_all add: vk_can_release_def)
  have "keyboard ?k = None" by simp
  then have "app_key_down key (out (frontend_destroy env fe)) = app_key_down key (out ?k)"
    by (simp add: frontend_destroy_def Let_def unbind_keys)
  also have "\<dots> \<longleftrightarrow> app_key_down key (out fe) \<and> \<not> (release_owed fe key \<and> keyboard fe \<noteq> None)"
    using owed keyboard_destroy_releases [of ?g key env] by simp
  finally show ?thesis .
qed

lemma frontend_destroy_gone:
  "keyboard (frontend_destroy env fe) = None" "session (frontend_destroy env fe) = None"
  "\<not> running (frontend_destroy env fe)" "\<not> fe_display (frontend_destroy env fe)"
  by (simp_all add: frontend_destroy_def Let_def unbind_display)

end
