(* ===== verification/Frontend_Gaps.thy ===== *)
theory Frontend_Gaps
  imports Frontend_Laws
begin

declare not_None_eq [simp del]

section \<open>Gaps of the key path\<close>

text \<open>
  Situations in which the frontend does not keep a promise it makes elsewhere, each with the state
  that leads into it: keys above the tracked range, the push-to-talk key under key repeat, and the
  phase changes its own validator calls unusual.
\<close>

subsection \<open>Untracked keys\<close>

lemma untracked_state [simp]:
  "512 \<le> unat key \<Longrightarrow> key_get_state fe key = TRACK_IDLE"
  "512 \<le> unat key \<Longrightarrow> key_set_state key st fe = fe"
  "512 \<le> unat key \<Longrightarrow> key_get_generation fe key = 0"
  by (simp_all add: key_get_state_def key_set_state_def key_get_generation_def)

lemma untracked_not_owned:
  "512 \<le> unat key \<Longrightarrow> active_key_generation fe \<noteq> 0 \<Longrightarrow> \<not> key_owned_by_active_generation fe key"
  by (simp add: key_owned_by_active_generation_def)

lemma untracked_release_consumed:
  assumes "512 \<le> unat key" and "active_key_generation fe \<noteq> 0" and "keyboard fe = Some kb"
    and "\<not> startup_guard_is_in_guard_window (created_at_epoch kb) (dispatch_epoch fe)"
    and "\<not> boundary_bridge_should_forward_orphan_release_cleanup ks m (saw_blocking_modifier kb)"
  shows "app_key_down key (out (key_route_process_release env key ks m u t fe)) = app_key_down key (out fe)"
  using assms untracked_not_owned [OF assms(1,2)]
  by (simp add: key_route_process_release_def route_release_idle_def Let_def)

lemma untracked_press_forwarded:
  assumes "512 \<le> unat key" and "vk_can_forward fe" and "keyboard fe = Some kb" and "\<not> suppress_stale_keys kb"
    and "key_route_shortcut_decision (shortcuts fe) ks m = (key_route_decision KEY_ACTION_CONSUME REASON_NONE, RESERVED_ACTION_NONE)"
    and "\<And>ev c. api_process_key env ev c = (False, [], c)"
    and "\<not> candidate_guard_should_consume (api_candidate_count env (core fe)) ks"
  shows "app_key_down key (out (key_route_process_press env key ks m u t fe))"
proof -
  let ?c = "key_claim_current_generation key fe"
  have startup: "route_press_startup key fe = (False, ?c)"
    using assms(3,4) by (simp add: route_press_startup_def startup_guard_classify_press_def Let_def)
  have engine: "app_key_down key (out (route_press_engine env key ks m u t ?c))"
    using assms(1,2,6,7)
    by (simp add: route_press_engine_def Let_def case_prod_beta vk_forward_key_app_key_down core_process_key_def
        deliver_callbacks_def)
  have "app_key_down key (out fe')" if "route_press_shortcut env key ks m u t ?c = Some fe'" for fe'
    using that assms(1,2,5)
    by (auto simp: route_press_shortcut_def key_route_decision_def vk_forward_key_app_key_down split: if_splits)
  with engine show ?thesis
    using assms(1)
    by (simp add: key_route_process_press_def route_press_latched_def startup split: option.split)
qed

subsection \<open>Push-to-talk under key repeat\<close>

text \<open>The key repeats: a press of the engine's key is due on the repeat timer.\<close>

definition repeat_due :: "('e, 'x) env \<Rightarrow> 'x keyboard \<Rightarrow> ('e, 'x) frontend \<Rightarrow> bool" where
  "repeat_due env kb fe \<longleftrightarrow>
     keyboard fe = Some kb \<and> repeating kb \<and> 0 \<le> repeat_timer_fd kb \<and> xkb kb \<noteq> None \<and>
     lifecycle_phase fe = PHASE_ACTIVE \<and> sys_timer_read_ok env \<and> session fe \<noteq> None \<and>
     api_is_focused env (core fe)"

lemma voice_release_stops:
  assumes "key_get_state fe key = TRACK_VOICE_PTT" and "have_voice env"
  shows "core (key_route_process_release env key ks m u t fe) = api_voice_stop env (core fe)"
  using assms by (simp add: key_route_process_release_def)

lemma voice_repeat_loses_release:
  assumes "repeat_due env kb fe" and "unat (repeat_key kb) < 512" and "vk_can_forward fe"
    and "key_get_state fe (repeat_key kb) = TRACK_VOICE_PTT"
    and "\<And>ev c. api_process_key env ev c = (False, [], c)"
    and "api_candidate_count env (core fe) = Some 0"
  shows "app_key_down (repeat_key kb) (out (keyboard_dispatch_repeat env fe))"
    and "key_get_state (keyboard_dispatch_repeat env fe) (repeat_key kb) = TRACK_FORWARDED"
    and "core (key_route_process_release env (repeat_key kb) ks m u t (keyboard_dispatch_repeat env fe)) = core fe"
proof -
  obtain x where x: "xkb kb = Some x" using assms(1) by (auto simp: repeat_due_def not_None_eq)
  have core: "core_process_key env ev g = (False, g)" for ev and g :: "('a, 'b) frontend"
    by (simp add: core_process_key_def assms(5) deliver_callbacks_def)
  have guard: "\<not> candidate_guard_should_consume (Some 0) ks" for ks
    by (simp add: candidate_guard_should_consume_def)
  have eq: "keyboard_dispatch_repeat env fe =
      key_set_state (repeat_key kb) TRACK_FORWARDED (vk_forward_key env (repeat_time kb) (repeat_key kb) True fe)"
    using assms(1,4,6) x core guard
    by (simp add: keyboard_dispatch_repeat_def repeat_due_def repeat_to_engine_def Let_def
        lifecycle_phase_allows_key_events_def repeat_should_run_for_state_def)
  show "app_key_down (repeat_key kb) (out (keyboard_dispatch_repeat env fe))"
    using assms(3) by (simp add: eq vk_forward_key_app_key_down)
  show state: "key_get_state (keyboard_dispatch_repeat env fe) (repeat_key kb) = TRACK_FORWARDED"
    using assms(2) by (simp add: eq key_get_state_def key_set_state_at)
  show "core (key_route_process_release env (repeat_key kb) ks m u t (keyboard_dispatch_repeat env fe)) = core fe"
    using state assms(6) core guard
    by (simp add: key_route_process_release_def route_release_forwarded_def Let_def eq)
qed

subsection \<open>Unusual phase changes\<close>

lemma set_phase_out: "out (lifecycle_set_phase p fe) = out fe @ [ReqPhase (lifecycle_phase fe) p]"
  by (simp add: lifecycle_set_phase_def)

lemma reactivation_takes:
  assumes "active_engine env fe" and "grab_obtainable env fe"
  shows "ReqPhase (lifecycle_phase fe) PHASE_ACTIVE \<in> set (out (handle_reactivation env fe))"
  using assms
  by (simp add: handle_reactivation_def case_prod_beta rebuild_result set_pending_reactivation_def set_phase_out)

lemma deactivate_frame:
  assumes "session_is_focused env fe"
  shows "session_is_focused env (im_handle_deactivate fe)"
    and "lifecycle_phase (im_handle_deactivate fe) = PHASE_DEACTIVATING"
    and "core (im_handle_deactivate fe) = core fe"
    and "fe_input_method (im_handle_deactivate fe) = fe_input_method fe"
  using assms by (simp_all add: im_handle_deactivate_def session_is_focused_def set_pending_reactivation_def)

lemma activate_focused:
  assumes "session_is_focused env fe"
  shows "session_is_focused env (im_handle_activate env fe)"
    and "lifecycle_phase (im_handle_activate env fe) = lifecycle_phase fe"
    and "core (im_handle_activate env fe) = core fe"
    and "fe_input_method (im_handle_activate env fe) = fe_input_method fe"
    and "pending_reactivation (im_handle_activate env fe)"
    and "\<exists>s. session (im_handle_activate env fe) = Some s \<and> pend_active (pending s) \<and>
      pend_surrounding_text (pending s) = None"
proof -
  obtain s where s: "session fe = Some s" using assms by (auto simp: session_is_focused_def not_None_eq)
  show "session_is_focused env (im_handle_activate env fe)"
    "lifecycle_phase (im_handle_activate env fe) = lifecycle_phase fe"
    "core (im_handle_activate env fe) = core fe"
    "fe_input_method (im_handle_activate env fe) = fe_input_method fe"
    "pending_reactivation (im_handle_activate env fe)"
    "\<exists>s. session (im_handle_activate env fe) = Some s \<and> pend_active (pending s) \<and>
      pend_surrounding_text (pending s) = None"
    using assms s
    by (simp_all add: im_handle_activate_def Let_def lifecycle_should_defer_activate_def session_reset_def
        session_is_focused_def set_pending_reactivation_def text_ui_reset_tracking_def)
qed

lemma done_reactivates:
  assumes "session_is_focused env fe" and "pending_reactivation fe" and "session fe = Some s"
    and "pend_active (pending s)" and "pend_surrounding_text (pending s) = None"
    and "active_engine env fe" and "grab_obtainable env fe"
  shows "ReqPhase (lifecycle_phase fe) PHASE_ACTIVE \<in> set (out (im_handle_done env fe))"
proof -
  let ?f = "session_apply_pending env (fe\<lparr>im_serial := im_serial fe + 1\<rparr>)"
  have foc: "session_is_focused env (fe\<lparr>im_serial := im_serial fe + 1\<rparr>)"
    using assms(1) by (simp add: session_is_focused_def)
  have eq: "im_handle_done env fe = handle_reactivation env ?f"
    using assms foc
    by (simp add: im_handle_done_def Let_def lifecycle_should_commit_reactivation_def)
  have "core ?f = core fe" "lifecycle_phase ?f = lifecycle_phase fe" "fe_input_method ?f = fe_input_method fe"
    using assms(3,5) by (simp_all add: session_apply_pending_def Let_def apply_pending_def)
  then show ?thesis
    using reactivation_takes [of env ?f] assms(6,7)
    by (simp add: eq active_engine_def grab_obtainable_def)
qed

lemma refocus_takes_unusual_phase:
  assumes "session_is_focused env fe" and "active_engine env fe" and "grab_obtainable env fe"
  shows "ReqPhase PHASE_DEACTIVATING PHASE_ACTIVE \<in>
     set (out (wl_dispatch_all env [WlDeactivate, WlActivate, WlDone] fe))"
proof -
  let ?d = "im_handle_deactivate fe"
  let ?a = "im_handle_activate env ?d"
  note d = deactivate_frame [OF assms(1)]
  note a = activate_focused [OF d(1)]
  obtain s where s: "session ?a = Some s" "pend_active (pending s)" "pend_surrounding_text (pending s) = None"
    using a(6) by blast
  have "active_engine env ?a" "grab_obtainable env ?a"
    using assms(2,3) a(3,4) d(3,4) by (simp_all add: active_engine_def grab_obtainable_def)
  from done_reactivates [OF a(1) a(5) s this] show ?thesis
    by (simp add: wl_dispatch_all_def wl_dispatch_def a(2) d(2))
qed

subsection \<open>Releases held back by a completed chord\<close>

lemma release_orphan_keeps:
  assumes "key_states fe (unat key) \<noteq> TRACK_FORWARDED"
  shows "key_states (release_orphan env ev fe) (unat key) \<noteq> TRACK_FORWARDED"
    and "app_key_down key (out fe) \<Longrightarrow> app_key_down key (out (release_orphan env ev fe))"
  using assms by (auto simp: release_orphan_def key_clear_tracking_at vk_forward_key_app_key_down)

lemma fold_release_orphan_keeps:
  "key_states fe (unat key) \<noteq> TRACK_FORWARDED \<Longrightarrow> app_key_down key (out fe) \<Longrightarrow>
     app_key_down key (out (fold (release_orphan env) evs fe))"
  by (induction evs arbitrary: fe) (simp_all add: release_orphan_keeps)

lemma consume_keeps_down:
  assumes "key_states fe (unat key) \<noteq> TRACK_FORWARDED" and "app_key_down key (out fe)"
  shows "app_key_down key (out (arbiter_consume env fe))"
  using fold_release_orphan_keeps [OF assms]
  by (simp add: arbiter_consume_def arbiter_release_orphaned_keys_def Let_def)

lemma consume_empties: "arbiter_buffer (arbiter_consume env fe) = []"
  by (simp add: arbiter_consume_def arbiter_buffer_def upd_arbiter_def Let_def split: option.split)

subsection \<open>The character of a key\<close>

text \<open>The two bytes of the UTF-8 encoding of a code point of 8 to 11 bits.\<close>

definition utf8_two_bytes :: "u32 \<Rightarrow> u8 list" where
  "utf8_two_bytes cp = [ucast (0xC0 OR drop_bit 6 cp), ucast (0x80 OR (cp AND 0x3F))]"

lemma high_bit_clear:
  fixes cp :: u32
  assumes "unat cp < 2048"
  shows "\<not> bit cp 15"
proof -
  have "bit (unat cp) 15 = odd (unat cp div 2 ^ 15)" by (simp only: bit_iff_odd)
  also have "unat cp div 2 ^ 15 = 0" using assms by simp
  finally show ?thesis by (simp add: bit_simps)
qed

lemma keyboard_unicode_two_bytes:
  assumes "xkb kb = Some x" and "xkb_utf8 env x (key + 8) = utf8_two_bytes cp" and "unat cp < 2048"
  shows "bit (keyboard_unicode env kb key) 15" and "keyboard_unicode env kb key \<noteq> cp"
proof -
  show "bit (keyboard_unicode env kb key) 15"
    using assms(1,2) by (simp add: keyboard_unicode_def utf8_two_bytes_def bit_simps)
  then show "keyboard_unicode env kb key \<noteq> cp" using high_bit_clear [OF assms(3)] by auto
qed

lemma keyboard_unicode_longer:
  "xkb kb = Some x \<Longrightarrow> 2 < length (xkb_utf8 env x (key + 8)) \<Longrightarrow> keyboard_unicode env kb key = 0"
  by (auto simp: keyboard_unicode_def split: list.split)

subsection \<open>A reconnection leads into the state the reconciler cannot repair\<close>

lemma bind_ok_display: "fst (frontend_wayland_bind env bo fe) \<Longrightarrow> fe_display (snd (frontend_wayland_bind env bo fe))"
  by (auto simp: frontend_wayland_bind_def bind_error_def Let_def vk_set_state_frame split: if_splits)

lemma reconnect_loop_display:
  "fst (reconnect_loop ats attempt fe) \<Longrightarrow> fe_display (fst (snd (reconnect_loop ats attempt fe)))"
proof (induction "12 - unat attempt" arbitrary: attempt fe rule: less_induct)
  case less
  let ?f2 = "stop_request (at_stop_sleeping (ats attempt)) (stop_request (at_stop_before (ats attempt)) fe)"
  let ?b = "frontend_wayland_bind (at_env (ats attempt)) (at_bind (ats attempt)) ?f2"
  let ?g = "frontend_wayland_unbind (at_env (ats attempt)) (snd ?b)"
  have retry: "reconnect_should_retry attempt"
    using less.prems by (subst (asm) reconnect_loop.simps) (simp split: if_splits)
  have lt: "unat attempt < 12"
    using retry by (simp add: reconnect_should_retry_def RECONNECT_MAX_ATTEMPTS_def word_less_nat_alt)
  show ?case
  proof (cases "running ?f2 \<and> \<not> fst ?b")
    case True
    have eq: "reconnect_loop ats attempt fe =
        (case reconnect_loop ats (attempt + 1) ?g of (r, fe, ds) \<Rightarrow> (r, fe, reconnect_delay_ms attempt # ds))"
      by (rule reconnect_loop_next [OF retry refl]) (use True in blast)+
    have "unat (attempt + 1) = unat attempt + 1" using lt by (simp add: unat_word_ariths)
    with lt have "12 - unat (attempt + 1) < 12 - unat attempt" by simp
    from less.hyps [OF this, of ?g] less.prems show ?thesis by (simp only: eq case_prod_beta fst_conv snd_conv)
  next
    case False
    with less.prems retry bind_ok_display [of "at_env (ats attempt)" "at_bind (ats attempt)" ?f2]
    show ?thesis
      by (subst reconnect_loop.simps, subst (asm) reconnect_loop.simps)
         (auto simp: Let_def case_prod_beta split: if_splits)
  qed
qed

lemma reconnect_strands_focus:
  assumes "fst (frontend_reconnect env ats fe)" and "session_is_focused env fe" and "active_engine env fe"
  shows "focused_inactive env (fst (snd (frontend_reconnect env ats fe)))"
proof -
  have "fe_display (fst (snd (frontend_reconnect env ats fe)))"
    using assms(1) reconnect_loop_display by (simp add: frontend_reconnect_eq)
  with assms(2,3) reconnect_result [of env ats fe] show ?thesis
    by (simp add: focused_inactive_def session_is_focused_def active_engine_def)
qed

end
