(* ===== verification/Demo_Frontend.thy ===== *)
theory Demo_Frontend
  imports Frontend_Gaps
begin

declare not_None_eq [simp del]

section \<open>A concrete frontend\<close>

text \<open>
  A small environment and a few frontend states for the witnesses: a core that declines every key,
  with the focus and the number of candidates as its state, a keymap in which the symbol of a key
  is its XKB code, and system calls that succeed.
\<close>

type_synonym demo_core = "bool \<times> nat"

definition demo_env :: "(demo_core, unit) env" where
  "demo_env =
     \<lparr>api_process_key = (\<lambda>ev c. (False, [], c)), api_is_focused = fst,
      api_focus_in = (\<lambda>c. ([], (True, snd c))), api_focus_out = (\<lambda>c. ([], (False, snd c))),
      api_ctx_reset = (\<lambda>c. ([], c)), api_create_context = (\<lambda>c. (True, (False, snd c))),
      api_destroy_context = (\<lambda>c. c), api_set_surrounding = (\<lambda>_ _ _ c. c),
      api_preedit = (\<lambda>_. None), api_candidate_count = (\<lambda>c. Some (snd c)),
      api_active_engine = (\<lambda>_. Some ''rime''),
      api_engine_next = (\<lambda>c. (Some TYPIO_OK, [], c)), api_notify_commit = (\<lambda>c. c),
      api_config_string = (\<lambda>_ _. None), api_config_bool = (\<lambda>_ _. None),
      api_voice_available = (\<lambda>_. True), api_voice_unavail_reason = (\<lambda>_. None),
      api_voice_start = (\<lambda>c. c), api_voice_stop = (\<lambda>c. c),
      api_identity_enter = (\<lambda>c. c), api_identity_clear = (\<lambda>c. c),
      xkb_compile = (\<lambda>_ _. Some ()), xkb_mod_active = (\<lambda>_ _. False), xkb_one_sym = (\<lambda>_ k. k),
      xkb_utf8 = (\<lambda>_ _. []), xkb_utf32 = (\<lambda>_ _. 0), xkb_key_repeats = (\<lambda>_ _. True),
      xkb_update_mask = (\<lambda>_ _ _ _ x. x), sys_calloc_ok = True, sys_xkb_context_ok = True,
      sys_grab_ok = True, sys_timerfd = 5, sys_dup_ok = True, sys_timer_read_ok = True,
      sys_present_retry = False, sys_now_ms = 10000, have_voice = True\<rparr>"

definition demo_shortcuts :: TypioShortcutConfig where
  "demo_shortcuts =
     \<lparr>sc_switch_engine = \<lparr>sb_modifiers = TYPIO_MOD_CTRL OR TYPIO_MOD_SHIFT, sb_keysym = 0\<rparr>,
      sc_emergency_exit = \<lparr>sb_modifiers = TYPIO_MOD_CTRL OR TYPIO_MOD_SHIFT, sb_keysym = KEY_Escape\<rparr>,
      sc_voice_ptt = \<lparr>sb_modifiers = TYPIO_MOD_SUPER, sb_keysym = KEY_v\<rparr>\<rparr>"

definition demo_keyboard :: "unit keyboard" where
  "demo_keyboard =
     \<lparr>kb_grab = True, xkb = Some (), physical_modifiers = 0, mods_depressed = 0, mods_latched = 0,
      mods_locked = 0, mods_group = 0, saw_blocking_modifier = False, repeat_rate = 25,
      repeat_delay = 600, repeat_timer_fd = 5, repeat_key = 0, repeat_time = 0, repeating = False,
      suppress_stale_keys = False, startup_suppressed_count = 0, created_at_epoch = 0,
      arbiter = key_arbiter_init\<rparr>"

text \<open>Connected, but no text field is focused.\<close>

definition demo_idle :: "(demo_core, unit) frontend" where
  "demo_idle = (frontend_calloc demo_shortcuts (False, 0))
     \<lparr>fe_display := True, fe_input_method := True, fe_virtual_keyboard := True,
      fe_text_ui_backend := True, vk_state := VK_STATE_NEEDS_KEYMAP, running := True\<rparr>"

text \<open>A text field is focused and the keyboard path is ready.\<close>

definition demo_active :: "(demo_core, unit) frontend" where
  "demo_active = demo_idle
     \<lparr>core := (True, 0), session := Some fresh_session, keyboard := Some demo_keyboard,
      lifecycle_phase := PHASE_ACTIVE, vk_state := VK_STATE_READY, active_key_generation := 1,
      vk_keymap_generation := 1, im_serial := 3, dispatch_epoch := 9\<rparr>"

text \<open>The same while the application holds key 30.\<close>

definition demo_typing :: "(demo_core, unit) frontend" where
  "demo_typing = demo_active
     \<lparr>out := [ReqVkKey 1 30 True], key_states := (key_states demo_active)(30 := TRACK_FORWARDED),
      key_generations := (key_generations demo_active)(30 := 1), active_generation_owned_keys := True\<rparr>"

lemma demo_env_sel [simp]:
  "api_process_key demo_env ev c = (False, [], c)" "api_is_focused demo_env c = fst c"
  "api_focus_in demo_env c = ([], (True, snd c))" "api_focus_out demo_env c = ([], (False, snd c))"
  "api_ctx_reset demo_env c = ([], c)" "api_create_context demo_env c = (True, (False, snd c))"
  "api_set_surrounding demo_env t i j c = c" "api_preedit demo_env c = None"
  "api_candidate_count demo_env c = Some (snd c)" "api_active_engine demo_env c = Some ''rime''"
  "api_engine_next demo_env c = (Some TYPIO_OK, [], c)" "api_notify_commit demo_env c = c"
  "api_config_string demo_env c opt = None" "api_config_bool demo_env c opt = None"
  "api_voice_available demo_env c" "api_voice_start demo_env c = c" "api_voice_stop demo_env c = c"
  "api_identity_enter demo_env c = c" "api_identity_clear demo_env c = c"
  "xkb_compile demo_env f sz = Some ()" "\<not> xkb_mod_active demo_env x m" "xkb_one_sym demo_env x k = k"
  "xkb_utf8 demo_env x k = []" "xkb_utf32 demo_env x k = 0" "xkb_key_repeats demo_env x k"
  "sys_calloc_ok demo_env" "sys_xkb_context_ok demo_env" "sys_grab_ok demo_env"
  "sys_timerfd demo_env = 5" "sys_timer_read_ok demo_env" "sys_now_ms demo_env = 10000"
  "\<not> sys_present_retry demo_env" "have_voice demo_env"
  by (simp_all add: demo_env_def)

lemmas demo_defs = demo_idle_def demo_active_def demo_typing_def demo_keyboard_def demo_shortcuts_def
  frontend_calloc_def

lemma demo_core_focus_laws: "core_focus_laws demo_env"
  by (simp add: core_focus_laws_def)

lemma demo_grab_obtainable: "grab_obtainable demo_env demo_idle" "grab_obtainable demo_env demo_active"
  by (simp_all add: grab_obtainable_def demo_defs)

lemma demo_typing_app: "app_key_down key (out demo_typing) \<longleftrightarrow> key = 30"
  by (auto simp: app_key_down_def demo_defs)

lemma demo_typing_ready: "vk_can_release demo_typing" "vk_can_forward demo_typing"
  by (simp_all add: vk_can_release_def vk_can_forward_def demo_defs)

lemma demo_typing_no_stuck: "no_stuck_key demo_typing"
  unfolding no_stuck_key_def demo_typing_app
  by (simp add: demo_defs track_owes_release_def)

lemma demo_active_no_stuck: "no_stuck_key demo_active"
  by (simp add: no_stuck_key_def demo_defs)

lemma demo_active_no_keys: "key_states demo_active k = TRACK_IDLE"
  by (simp add: demo_defs)

lemma demo_press_reaches_app:
  "app_key_down 48 (out (key_route_process_press demo_env 48 48 0 0 2 demo_active))"
proof -
  have latched: "route_press_latched demo_env 48 2 demo_active = None"
    by (simp add: route_press_latched_def key_get_state_def demo_active_no_keys)
  have startup: "route_press_startup 48 demo_active = (False, key_claim_current_generation 48 demo_active)"
    by (simp add: route_press_startup_def Let_def startup_guard_classify_press_def demo_defs
        key_claim_current_generation_def key_set_generation_def)
  have sc: "route_press_shortcut demo_env 48 48 0 0 2 fe = None" if "shortcuts fe = demo_shortcuts"
    for fe :: "(demo_core, unit) frontend"
    using that
    by (simp add: route_press_shortcut_def key_route_shortcut_decision_def key_route_reserved_action_def
        key_route_binding_matches_press_def key_route_is_app_shortcut_def key_route_decision_def
        key_route_should_forward_basic_text_def key_route_is_printable_text_unicode_def demo_shortcuts_def
        const_defs Let_def)
  have shortcuts: "shortcuts (key_claim_current_generation 48 demo_active) = demo_shortcuts"
    by (simp add: demo_defs)
  have forward: "vk_can_forward demo_active"
    by (simp add: vk_can_forward_def demo_defs)
  have "app_key_down 48 (out (route_press_engine demo_env 48 48 0 0 2 (key_claim_current_generation 48 demo_active)))"
    using forward
    by (simp add: route_press_engine_def Let_def case_prod_beta vk_forward_key_app_key_down
        candidate_guard_should_consume_def candidate_guard_is_navigation_keysym_def const_defs)
  then show ?thesis
    by (simp add: key_route_process_press_def latched startup sc [OF shortcuts])
qed

text \<open>Candidates appeared while key 30, an arrow key, is held.\<close>

definition demo_choosing :: "(demo_core, unit) frontend" where
  "demo_choosing = demo_typing\<lparr>core := (True, 3)\<rparr>"

lemma demo_choosing_swallows: "candidate_swallows_release demo_env 30 KEY_Down 0 0 5 demo_choosing"
  by (simp add: candidate_swallows_release_def demo_choosing_def key_get_state_def deliver_callbacks_def
      candidate_guard_should_consume_def candidate_guard_is_navigation_keysym_def demo_defs)

lemma demo_choosing_state:
  "vk_can_release demo_choosing" "app_key_down 30 (out demo_choosing)"
  "key_get_state demo_choosing 30 = TRACK_FORWARDED"
  by (simp_all add: demo_choosing_def vk_can_release_def key_get_state_def app_key_down_def demo_defs)

text \<open>A compositor that offers everything.\<close>

definition demo_bind :: bind_outcome where
  "demo_bind =
     \<lparr>bo_display_name = None, bo_display = True, bo_registry = True, bo_roundtrip = True,
      bo_im_manager = True, bo_seat = True, bo_input_method = True, bo_vk_manager = True,
      bo_virtual_keyboard = True, bo_text_ui_backend = True\<rparr>"

definition demo_new :: "(demo_core, unit) frontend" where
  "demo_new = snd (frontend_wayland_bind demo_env demo_bind (frontend_calloc demo_shortcuts (False, 0)))"

lemma demo_new_created: "frontend_new demo_env demo_bind demo_shortcuts (False, 0) = Some demo_new"
  by (simp add: frontend_new_def demo_new_def frontend_wayland_bind_def demo_bind_def Let_def)

definition demo_attempts :: "u32 \<Rightarrow> (demo_core, unit) attempt" where
  "demo_attempts n = \<lparr>at_env = demo_env, at_stop_before = False, at_stop_sleeping = False,
     at_bind = demo_bind\<lparr>bo_display := (n \<ge> 2)\<rparr>\<rparr>"

definition demo_turn :: "(demo_core, unit) turn" where
  "demo_turn =
     \<lparr>tn_env = demo_env, tn_boot_ms = 10000, tn_pending = [], tn_flush_ok = True,
      tn_poll = PollReady True True [WlActivate, WlDone, WlKeymap 1 100] False False,
      tn_attempts = demo_attempts\<rparr>"

text \<open>The chord of the emergency exit is held: Ctrl, Shift, and the key whose symbol is Escape.\<close>

definition demo_chord_keyboard :: "unit keyboard" where
  "demo_chord_keyboard = demo_keyboard\<lparr>physical_modifiers := TYPIO_MOD_CTRL OR TYPIO_MOD_SHIFT\<rparr>"

definition demo_escaping :: "(demo_core, unit) frontend" where
  "demo_escaping = demo_active\<lparr>keyboard := Some demo_chord_keyboard\<rparr>"

lemma demo_escape_matches:
  "key_route_binding_matches_press (sc_emergency_exit (shortcuts demo_escaping))
     (keyboard_keysym demo_env demo_chord_keyboard 0xff13)
     (modifier_policy_effective_modifiers (physical_modifiers demo_chord_keyboard)
        (xkb_effective_modifiers demo_env demo_chord_keyboard) (active_generation_owned_keys demo_escaping)
        (keyboard_keysym demo_env demo_chord_keyboard 0xff13) True)"
  by (simp add: key_route_binding_matches_press_def demo_escaping_def demo_chord_keyboard_def demo_defs
      keyboard_keysym_def modifier_policy_effective_modifiers_def modifiers_for_current_key_def
      modifier_bit_for_keysym_def xkb_effective_modifiers_def const_defs Let_def)

text \<open>The grab outlived the focus: every press is rejected.\<close>

definition demo_lost_focus :: "(demo_core, unit) frontend" where
  "demo_lost_focus = demo_active\<lparr>core := (False, 0)\<rparr>"

lemma demo_lost_focus_rejecting: "rejecting demo_env demo_keyboard 30 demo_lost_focus"
proof -
  have "demo_keyboard = demo_keyboard\<lparr>kb_grab := True\<rparr>" by (simp add: demo_keyboard_def)
  then have "keyboard demo_lost_focus = Some (demo_keyboard\<lparr>kb_grab := True\<rparr>)"
    by (simp add: demo_lost_focus_def demo_active_def)
  moreover have "guard_reason demo_env demo_lost_focus \<noteq> None"
    by (simp add: guard_reason_def demo_lost_focus_def demo_defs lifecycle_phase_allows_key_events_def)
  ultimately show ?thesis
    by (auto simp: rejecting_def key_route_reserved_action_def key_route_binding_matches_press_def
        demo_lost_focus_def demo_defs keyboard_keysym_def const_defs)
qed

text \<open>The compositor dropped the grab while the field stays focused.\<close>

definition demo_ungrabbed :: "(demo_core, unit) frontend" where
  "demo_ungrabbed = demo_active\<lparr>keyboard := None, reconcile_divergence_since_ms := 5000\<rparr>"

lemma demo_ungrabbed_state:
  "session_is_focused demo_env demo_ungrabbed" "active_engine demo_env demo_ungrabbed"
  "fe_display demo_ungrabbed" "lifecycle_phase demo_ungrabbed = PHASE_ACTIVE"
  "keyboard demo_ungrabbed = None" "grab_obtainable demo_env demo_ungrabbed"
  "reconcile_divergence_since_ms demo_ungrabbed \<noteq> 0"
  "unat (reconcile_divergence_since_ms demo_ungrabbed) + 2000 \<le> unat (sys_now_ms demo_env)"
  by (simp_all add: demo_ungrabbed_def demo_defs session_is_focused_def active_engine_def grab_obtainable_def)

text \<open>The compositor is back at the third attempt.\<close>

lemma demo_bind_fails: "n < 2 \<Longrightarrow> \<not> fst (frontend_wayland_bind demo_env (at_bind (demo_attempts n)) fe)"
  by (simp add: frontend_wayland_bind_def demo_attempts_def demo_bind_def Let_def not_le)

lemma demo_attempts_sel [simp]:
  "at_env (demo_attempts n) = demo_env" "\<not> at_stop_before (demo_attempts n)"
  "\<not> at_stop_sleeping (demo_attempts n)"
  by (simp_all add: demo_attempts_def)

lemma demo_retry:
  assumes "n < 2" and "running fe"
  shows "fst (reconnect_loop demo_attempts n fe) =
     fst (reconnect_loop demo_attempts (n + 1) (frontend_wayland_unbind demo_env
       (snd (frontend_wayland_bind demo_env (at_bind (demo_attempts n)) fe))))"
proof -
  have "reconnect_should_retry n"
    using assms(1) by (simp add: reconnect_should_retry_def RECONNECT_MAX_ATTEMPTS_def word_less_nat_alt)
  then show ?thesis
    using reconnect_loop_next [of n fe demo_attempts fe] demo_bind_fails [OF assms(1), of fe] assms(2)
    by (simp add: stop_request_def case_prod_beta)
qed

lemma demo_reconnect_loop:
  assumes "running fe"
  shows "fst (reconnect_loop demo_attempts 2 fe)"
  using assms
  by (subst reconnect_loop.simps)
     (simp add: reconnect_should_retry_def RECONNECT_MAX_ATTEMPTS_def stop_request_def Let_def case_prod_beta
       frontend_wayland_bind_def demo_attempts_def demo_bind_def)

lemma demo_reconnects: "fst (frontend_reconnect demo_env demo_attempts demo_active)"
proof -
  have "running demo_active" by (simp add: demo_defs)
  then show ?thesis
    using demo_retry [of 0] demo_retry [of 1] demo_reconnect_loop
    by (simp add: frontend_reconnect_eq)
qed

text \<open>The push-to-talk key 47 is held and repeats.\<close>

definition demo_talk_keyboard :: "unit keyboard" where
  "demo_talk_keyboard = demo_keyboard\<lparr>repeating := True, repeat_key := 47, repeat_time := 7\<rparr>"

definition demo_talking :: "(demo_core, unit) frontend" where
  "demo_talking = demo_active
     \<lparr>keyboard := Some demo_talk_keyboard, key_states := (key_states demo_active)(47 := TRACK_VOICE_PTT)\<rparr>"

lemma demo_talking_state:
  "repeat_due demo_env demo_talk_keyboard demo_talking" "vk_can_forward demo_talking"
  "key_get_state demo_talking 47 = TRACK_VOICE_PTT" "api_candidate_count demo_env (core demo_talking) = Some 0"
  by (simp_all add: repeat_due_def demo_talking_def demo_talk_keyboard_def demo_defs vk_can_forward_def
      key_get_state_def)

text \<open>The application holds key 600, which is above the tracked range.\<close>

definition demo_high_key :: "(demo_core, unit) frontend" where
  "demo_high_key = demo_active\<lparr>out := [ReqVkKey 1 600 True]\<rparr>"

text \<open>The chord modifiers were forwarded before the activation ends.\<close>

definition demo_modified :: "(demo_core, unit) frontend" where
  "demo_modified = demo_typing\<lparr>out := [ReqVkModifiers 4 0 0 0]\<rparr>"

lemma demo_modified_state: "active_generation_owned_keys demo_modified" "vk_can_forward demo_modified"
  "app_mods (out demo_modified) = (4, 0, 0, 0)"
  by (simp_all add: demo_modified_def vk_can_forward_def demo_defs app_mods_def)

lemma demo_idle_state:
  "\<not> session_is_focused demo_env demo_idle" "fst (api_create_context demo_env (core demo_idle))"
  by (simp_all add: session_is_focused_def demo_defs)

lemma demo_active_focused: "session_is_focused demo_env demo_active" "active_engine demo_env demo_active"
  by (simp_all add: session_is_focused_def active_engine_def demo_defs)

lemma demo_active_arbiter: "keyboard demo_active \<noteq> None" "arbiter_ok (kb_arbiter demo_active)"
  by (simp_all add: demo_defs kb_arbiter_def arbiter_ok_init)

text \<open>Shift and Control go down, then a letter: the chord is given up and all three are passed on.\<close>

definition demo_chord_events :: "(demo_core, unit) arb_input list" where
  "demo_chord_events =
     [(demo_env, 1, arbiter_event True 42 KEY_Shift_L 1 0 1), (demo_env, 3, arbiter_event True 29 KEY_Control_L 3 0 2),
      (demo_env, 3, arbiter_event True 30 97 3 97 3)]"

lemma demo_chord_held: "chord_held (sc_switch_engine demo_shortcuts) (map snd demo_chord_events)"
  by (simp add: demo_chord_events_def chord_held_def arbiter_event_def)

text \<open>A basic-text key is held while the chord buffers its release.\<close>

definition demo_text_held :: "(demo_core, unit) frontend" where
  "demo_text_held = demo_active
     \<lparr>out := [ReqVkKey 1 30 True], key_states := (key_states demo_active)(30 := TRACK_BASIC_PASSTHROUGH),
      keyboard := Some (demo_keyboard\<lparr>arbiter :=
        \<lparr>ar_state = ARBITER_BUFFERING,
         ar_buffer = [arbiter_event True 29 KEY_Control_L 2 0 2, arbiter_event False 30 97 2 97 3]\<rparr>\<rparr>)\<rparr>"

lemma demo_text_held_state:
  "key_states demo_text_held (unat (30::u32)) \<noteq> TRACK_FORWARDED" "app_key_down 30 (out demo_text_held)"
  "arbiter_event False 30 97 2 97 3 \<in> set (arbiter_buffer demo_text_held)"
  by (simp_all add: demo_text_held_def demo_defs app_key_down_def arbiter_buffer_def)

text \<open>A new grab waits for its keymap.\<close>

definition demo_waiting :: "(demo_core, unit) frontend" where
  "demo_waiting = demo_active\<lparr>vk_keymap_generation := 0\<rparr>"

lemma demo_waiting_state:
  "fe_virtual_keyboard demo_waiting" "\<not> vk_has_current_generation_keymap demo_waiting" "running demo_waiting"
  "keyboard demo_waiting = Some demo_keyboard" "kb_grab demo_keyboard"
  "active_key_generation demo_waiting \<noteq> 0" "sys_now_ms demo_env + VK_KEYMAP_TIMEOUT_MS \<noteq> 0"
  by (simp_all add: demo_waiting_def demo_defs vk_has_current_generation_keymap_def VK_KEYMAP_TIMEOUT_MS_def)

text \<open>The keymap gives the second key from the left of the third row an e with an acute accent.\<close>

definition demo_accent_env :: "(demo_core, unit) env" where
  "demo_accent_env = demo_env\<lparr>xkb_utf8 := (\<lambda>_ _. utf8_two_bytes 0xE9)\<rparr>"

text \<open>One turn of the loop in which the compositor activates the input method.\<close>

definition demo_run :: "TypioWlResumeSignal \<times> (demo_core, unit) frontend" where
  "demo_run = loop_turn demo_turn (resume_signal_create 10000 10000, demo_new\<lparr>running := True\<rparr>)"

lemma demo_run_result:
  "frontend_run [demo_turn] (resume_signal_create 10000 10000) demo_new = Some (fst demo_run, snd demo_run)"
proof -
  have "fe_display demo_new"
    by (simp add: demo_new_def frontend_wayland_bind_def demo_bind_def Let_def)
  then show ?thesis by (simp add: frontend_run_def demo_run_def)
qed

lemma demo_run_keyboard: "keyboard (snd demo_run) \<noteq> None"
proof -
  let ?f = "reconcile_tick demo_env (demo_new\<lparr>running := True\<rparr>)"
  have new: "session demo_new = None" "core demo_new = (False, 0)" "fe_input_method demo_new"
      "fe_display demo_new" "lifecycle_phase demo_new = PHASE_INACTIVE" "keyboard demo_new = None"
    by (simp_all add: demo_new_def frontend_wayland_bind_def demo_bind_def frontend_calloc_def Let_def vk_set_state_frame)
  have agree: "reconcile_agree demo_env (demo_new\<lparr>running := True\<rparr>)"
    by (simp add: reconcile_agree_iff new session_is_focused_def)
  have f: "?f = demo_new\<lparr>running := True, reconcile_divergence_since_ms := 0\<rparr>"
    using agree by (simp add: reconcile_tick_def reconcile_decide_def)
  have eq: "snd demo_run = vk_health_check demo_env
      ((on_keymap demo_env 1 100 (im_handle_done demo_env (im_handle_activate demo_env ?f)))
         \<lparr>dispatch_epoch := dispatch_epoch (on_keymap demo_env 1 100 (im_handle_done demo_env (im_handle_activate demo_env ?f))) + 1\<rparr>)"
  proof -
    have tick: "resume_signal_tick 10000 10000 (resume_signal_create 10000 10000) =
        (False, resume_signal_create 10000 10000)"
      by (simp add: resume_signal_tick_def resume_signal_create_def resume_gap_exceeded_def Let_def)
    have flush: "event_loop_flush_pending_popup demo_env ?f = ?f"
      by (simp add: event_loop_flush_pending_popup_def f new)
    have kb: "keyboard (im_handle_done demo_env (im_handle_activate demo_env ?f)) \<noteq> None"
      using activate_done_active [of demo_env ?f] demo_core_focus_laws new
      by (simp add: f session_is_focused_def grab_obtainable_def)
    show ?thesis
      unfolding demo_run_def
      by (simp only: loop_turn_def case_prod_conv Let_def)
        (simp add: demo_turn_def tick flush wl_dispatch_all_def wl_dispatch_def kb event_loop_handle_wayland_def Let_def)
  qed
  have "keyboard (im_handle_done demo_env (im_handle_activate demo_env ?f)) \<noteq> None"
    using activate_done_active [of demo_env ?f] demo_core_focus_laws new
    by (simp add: f session_is_focused_def grab_obtainable_def)
  then show ?thesis by (simp add: eq)
qed

end
