(* ===== verification/Uds_Server.thy ===== *)
theory Uds_Server
  imports Typio_Prelude
begin

section \<open>The IPC server\<close>

text \<open>
  The Unix-domain socket server of the daemon (\<^verbatim>\<open>daemon/ipc/uds_server.c\<close>): frames of four
  big-endian length bytes and a payload, a read and a write buffer per client, and the dispatch of
  socket events. The handler of requests is a parameter with a state of its own.

  The kernel enters as outcomes: what each \<^verbatim>\<open>recv\<close> and \<^verbatim>\<open>accept\<close> gives, and a sequence of
  outcomes for the \<^verbatim>\<open>send\<close> calls, taken in order. The buffers are the lists of their valid
  bytes. A \<^verbatim>\<open>memmove\<close> whose length would be negative is a fault, the left of the result.
\<close>

subsection \<open>State\<close>

definition TYPIO_UDS_MAX_CLIENTS :: nat where "TYPIO_UDS_MAX_CLIENTS = 16"
definition TYPIO_UDS_READBUF :: nat where "TYPIO_UDS_READBUF = 8192"
definition TYPIO_UDS_WRITEBUF :: nat where "TYPIO_UDS_WRITEBUF = 65536"
definition TYPIO_UDS_MAX_FRAME :: nat where "TYPIO_UDS_MAX_FRAME = 1048576"

text \<open>\<open>uc_sent\<close> records what the kernel has taken, \<open>uc_peer\<close> the checked credentials.\<close>

record TypioUdsClient =
  uc_fd :: int
  uc_closed :: bool
  uc_rbuf :: "u8 list"
  uc_have_len :: bool
  uc_frame_len :: u32
  uc_wbuf :: "u8 list"
  uc_wpos :: nat
  uc_sent :: "u8 list"
  uc_peer :: "nat option"

datatype send_outcome = SendTakes nat | SendAgain | SendError

datatype uds_fault = MemmoveUnderflow

type_synonym sends = "nat \<Rightarrow> send_outcome"
type_synonym 'h uds_handler = "u8 list \<Rightarrow> 'h \<Rightarrow> u8 list option \<times> 'h"

subsection \<open>Frames\<close>

definition htonl_bytes :: "u32 \<Rightarrow> u8 list" where
  "htonl_bytes w = [ucast (drop_bit 24 w), ucast (drop_bit 16 w), ucast (drop_bit 8 w), ucast w]"

definition frame_len_of :: "u8 list \<Rightarrow> u32" where
  "frame_len_of b =
     push_bit 24 (ucast (b ! 0)) OR push_bit 16 (ucast (b ! 1)) OR push_bit 8 (ucast (b ! 2)) OR ucast (b ! 3)"

definition frame_bytes :: "u8 list \<Rightarrow> u8 list" where
  "frame_bytes payload = htonl_bytes (of_nat (length payload)) @ payload"

subsection \<open>Operations on a client\<close>

text \<open>The state that the operations thread through: the next \<^verbatim>\<open>send\<close> and the client.\<close>

definition close_client :: "TypioUdsClient \<Rightarrow> TypioUdsClient" where
  "close_client c =
     (if uc_fd c < 0 then c
      else c\<lparr>uc_fd := -1, uc_closed := True, uc_rbuf := [], uc_have_len := False, uc_frame_len := 0,
             uc_wbuf := [], uc_wpos := 0\<rparr>)"

definition client_write :: "sends \<Rightarrow> nat \<times> TypioUdsClient \<Rightarrow> bool \<times> nat \<times> TypioUdsClient" where
  "client_write w st = (case st of (i, c) \<Rightarrow>
     if uc_wpos c \<ge> length (uc_wbuf c) then (True, i, c)
     else
       (case w i of
          SendAgain \<Rightarrow> (True, i + 1, c)
        | SendError \<Rightarrow> (False, i + 1, close_client c)
        | SendTakes n \<Rightarrow>
            let n = min n (length (uc_wbuf c) - uc_wpos c);
                c = c\<lparr>uc_sent := uc_sent c @ take n (drop (uc_wpos c) (uc_wbuf c)),
                      uc_wpos := uc_wpos c + n\<rparr>
            in (True, i + 1,
                if uc_wpos c \<ge> length (uc_wbuf c) then c\<lparr>uc_wpos := 0, uc_wbuf := []\<rparr> else c)))"

definition client_enqueue :: "sends \<Rightarrow> u8 list \<Rightarrow> nat \<times> TypioUdsClient \<Rightarrow> bool \<times> nat \<times> TypioUdsClient" where
  "client_enqueue w bytes st = (case st of (i, c) \<Rightarrow>
     if length (uc_wbuf c) + length bytes > TYPIO_UDS_WRITEBUF then (False, i, close_client c)
     else client_write w (i, c\<lparr>uc_wbuf := uc_wbuf c @ bytes\<rparr>))"

definition client_send_frame :: "sends \<Rightarrow> u8 list \<Rightarrow> nat \<times> TypioUdsClient \<Rightarrow> bool \<times> nat \<times> TypioUdsClient" where
  "client_send_frame w json st =
     (if length json > TYPIO_UDS_MAX_FRAME then (False, st)
      else (case client_enqueue w (htonl_bytes (of_nat (length json))) st of
              (ok, st) \<Rightarrow> if \<not> ok then (False, st) else client_enqueue w json st))"

text \<open>What a C function reads of a buffer that ends in a zero byte.\<close>

definition c_string :: "u8 list \<Rightarrow> u8 list" where
  "c_string b = takeWhile (\<lambda>x. x \<noteq> 0) b"

text \<open>
  One complete request: \<open>alloc\<close> says whether the copy of a request can be allocated; without it
  the frame is dropped.
\<close>

definition serve_frame ::
    "sends \<Rightarrow> (nat \<Rightarrow> bool) \<Rightarrow> 'h uds_handler option \<Rightarrow> u8 list \<Rightarrow> nat \<times> TypioUdsClient \<Rightarrow> 'h \<Rightarrow>
       (nat \<times> TypioUdsClient) \<times> 'h" where
  "serve_frame w alloc handler payload st h =
     (if \<not> alloc (length payload + 1) then (st, h)
      else (case handler of
              None \<Rightarrow> (st, h)
            | Some f \<Rightarrow>
                (case f (c_string payload) h of
                   (None, h) \<Rightarrow> (st, h)
                 | (Some response, h) \<Rightarrow> (snd (client_send_frame w response st), h))))"

text \<open>The length of the next frame; the boolean says whether the loop goes on.\<close>

definition frame_header :: "TypioUdsClient \<Rightarrow> bool \<times> TypioUdsClient" where
  "frame_header c =
     (if uc_have_len c then (True, c)
      else if length (uc_rbuf c) < 4 then (False, c)
      else
        let c = c\<lparr>uc_frame_len := frame_len_of (uc_rbuf c)\<rparr>
        in if unat (uc_frame_len c) > TYPIO_UDS_MAX_FRAME then (False, close_client c)
           else (True, c\<lparr>uc_have_len := True\<rparr>))"

lemma close_client_rbuf: "length (uc_rbuf (close_client c)) \<le> length (uc_rbuf c)"
  by (simp add: close_client_def)

lemma client_write_rbuf: "length (uc_rbuf (snd (snd (client_write w (i, c))))) \<le> length (uc_rbuf c)"
  by (simp add: client_write_def Let_def close_client_rbuf split: send_outcome.split)

lemma client_enqueue_rbuf: "length (uc_rbuf (snd (snd (client_enqueue w b (i, c))))) \<le> length (uc_rbuf c)"
  using client_write_rbuf [of w i "c\<lparr>uc_wbuf := uc_wbuf c @ b\<rparr>"]
  by (simp add: client_enqueue_def close_client_rbuf)

lemma client_send_frame_rbuf:
  "length (uc_rbuf (snd (snd (client_send_frame w json (i, c))))) \<le> length (uc_rbuf c)"
proof -
  obtain ok i' c' where e: "client_enqueue w (htonl_bytes (of_nat (length json))) (i, c) = (ok, i', c')"
    by (metis prod_cases3)
  have "length (uc_rbuf c') \<le> length (uc_rbuf c)"
    using client_enqueue_rbuf [of w "htonl_bytes (of_nat (length json))" i c] e by simp
  then show ?thesis
    using client_enqueue_rbuf [of w json i' c'] e by (simp add: client_send_frame_def)
qed

lemma serve_frame_rbuf:
  "length (uc_rbuf (snd (fst (serve_frame w alloc f p (i, c) h)))) \<le> length (uc_rbuf c)"
  by (auto simp: serve_frame_def client_send_frame_rbuf split: option.split prod.split)

lemma frame_header_rbuf: "length (uc_rbuf (snd (frame_header c))) \<le> length (uc_rbuf c)"
  by (simp add: frame_header_def Let_def close_client_def)

text \<open>The loop over the complete frames in the read buffer.\<close>

function client_frames ::
    "sends \<Rightarrow> (nat \<Rightarrow> bool) \<Rightarrow> 'h uds_handler option \<Rightarrow> nat \<times> TypioUdsClient \<Rightarrow> 'h \<Rightarrow>
       uds_fault + (nat \<times> TypioUdsClient) \<times> 'h" where
  "client_frames w alloc f (i, c) h =
     (if uc_rbuf c = [] then Inr ((i, c), h)
      else (case frame_header c of (go, c1) \<Rightarrow>
        if \<not> go then Inr ((i, c1), h)
        else if length (uc_rbuf c1) < 4 + unat (uc_frame_len c1) then Inr ((i, c1), h)
        else (case serve_frame w alloc f (take (unat (uc_frame_len c1)) (drop 4 (uc_rbuf c1))) (i, c1) h of
          ((i', c2), h') \<Rightarrow>
            if length (uc_rbuf c2) < 4 + unat (uc_frame_len c2) then Inl MemmoveUnderflow
            else client_frames w alloc f
                   (i', c2\<lparr>uc_rbuf := drop (4 + unat (uc_frame_len c2)) (uc_rbuf c2),
                           uc_have_len := False, uc_frame_len := 0\<rparr>) h')))"
  by pat_completeness auto

termination
proof (relation "measure (\<lambda>(w, alloc, f, (i, c), h). length (uc_rbuf c))", goal_cases)
  case 1
  show ?case by simp
next
  case (2 w alloc f i c h go c1 st h' i' c2)
  have c1: "c1 = snd (frame_header c)" using arg_cong [OF 2(2), of snd] by simp
  have c2: "c2 = snd (fst (serve_frame w alloc f (take (unat (uc_frame_len c1)) (drop 4 (uc_rbuf c1))) (i, c1) h))"
    using arg_cong [OF 2(5), of fst] arg_cong [OF 2(6), of snd] by simp
  have "length (uc_rbuf c2) \<le> length (uc_rbuf c)"
    using order_trans [OF serve_frame_rbuf frame_header_rbuf] unfolding c1 c2 .
  moreover have "4 \<le> length (uc_rbuf c2)" using 2(7) by simp
  ultimately show ?case by simp
qed

declare client_frames.simps [simp del]

datatype recv_outcome = RecvBytes "u8 list" | RecvAgain | RecvError

definition client_process_read ::
    "sends \<Rightarrow> (nat \<Rightarrow> bool) \<Rightarrow> 'h uds_handler option \<Rightarrow> recv_outcome \<Rightarrow> nat \<times> TypioUdsClient \<Rightarrow> 'h \<Rightarrow>
       uds_fault + (nat \<times> TypioUdsClient) \<times> 'h" where
  "client_process_read w alloc f r st h = (case st of (i, c) \<Rightarrow>
     (case r of
        RecvAgain \<Rightarrow> Inr (st, h)
      | RecvError \<Rightarrow> Inr ((i, close_client c), h)
      | RecvBytes bytes \<Rightarrow>
          let bytes = take (TYPIO_UDS_READBUF - length (uc_rbuf c)) bytes
          in if bytes = [] then Inr ((i, close_client c), h)
             else client_frames w alloc f (i, c\<lparr>uc_rbuf := uc_rbuf c @ bytes\<rparr>) h))"

subsection \<open>The server\<close>

record TypioUdsServer =
  us_uid :: nat
  us_clients :: "TypioUdsClient list"
  us_next_send :: nat

definition free_client :: TypioUdsClient where
  "free_client =
     \<lparr>uc_fd = -1, uc_closed = False, uc_rbuf = [], uc_have_len = False, uc_frame_len = 0, uc_wbuf = [],
      uc_wpos = 0, uc_sent = [], uc_peer = None\<rparr>"

definition uds_server_new :: "nat \<Rightarrow> TypioUdsServer" where
  "uds_server_new uid =
     \<lparr>us_uid = uid, us_clients = replicate TYPIO_UDS_MAX_CLIENTS free_client, us_next_send = 0\<rparr>"

primrec find_slot :: "(TypioUdsClient \<Rightarrow> bool) \<Rightarrow> TypioUdsClient list \<Rightarrow> nat option" where
  "find_slot P [] = None"
| "find_slot P (c # cs) = (if P c then Some 0 else map_option Suc (find_slot P cs))"

definition find_free_client :: "TypioUdsServer \<Rightarrow> nat option" where
  "find_free_client srv = find_slot (\<lambda>c. uc_fd c < 0) (us_clients srv)"

definition upd_client :: "nat \<Rightarrow> TypioUdsClient \<Rightarrow> TypioUdsServer \<Rightarrow> TypioUdsServer" where
  "upd_client j c srv = srv\<lparr>us_clients := (us_clients srv)[j := c]\<rparr>"

text \<open>
  A connection the kernel accepts: its descriptor, the peer's user when \<^verbatim>\<open>SO_PEERCRED\<close> can be
  read, and whether it can be added to the epoll set.
\<close>

record accepted =
  ac_fd :: int
  ac_peer :: "nat option"
  ac_epoll_ok :: bool

definition accept_client :: "accepted \<Rightarrow> TypioUdsServer \<Rightarrow> TypioUdsServer" where
  "accept_client a srv =
     (if (case ac_peer a of None \<Rightarrow> False | Some u \<Rightarrow> u \<noteq> us_uid srv) then srv
      else (case find_free_client srv of
              None \<Rightarrow> srv
            | Some j \<Rightarrow>
                let c = (us_clients srv ! j)
                      \<lparr>uc_fd := ac_fd a, uc_closed := False, uc_rbuf := [], uc_have_len := False,
                       uc_wbuf := [], uc_wpos := 0, uc_sent := [], uc_peer := ac_peer a\<rparr>
                in upd_client j (if ac_epoll_ok a then c else close_client c) srv))"

datatype uds_event =
    UdsListen "accepted list"
  | UdsClient int bool bool recv_outcome \<comment> \<open>descriptor, error or hangup, readable, what recv gives\<close>

definition uds_client_event ::
    "sends \<Rightarrow> (nat \<Rightarrow> bool) \<Rightarrow> 'h uds_handler option \<Rightarrow> int \<Rightarrow> bool \<Rightarrow> bool \<Rightarrow> recv_outcome \<Rightarrow>
       TypioUdsServer \<Rightarrow> 'h \<Rightarrow> uds_fault + TypioUdsServer \<times> 'h" where
  "uds_client_event w alloc f fd err readable r srv h =
     (case find_slot (\<lambda>c. uc_fd c = fd) (us_clients srv) of
        None \<Rightarrow> Inr (srv, h)
      | Some j \<Rightarrow>
          let c = us_clients srv ! j;
              res = (if err then Inr ((us_next_send srv, close_client c), h)
                     else if readable then client_process_read w alloc f r (us_next_send srv, c) h
                     else Inr ((us_next_send srv, c), h))
          in (case res of
                Inl e \<Rightarrow> Inl e
              | Inr ((i, c), h) \<Rightarrow>
                  (case (if 0 \<le> uc_fd c \<and> uc_wpos c < length (uc_wbuf c)
                         then snd (client_write w (i, c)) else (i, c)) of
                     (i, c) \<Rightarrow> Inr ((upd_client j c srv)\<lparr>us_next_send := i\<rparr>, h))))"

definition uds_event_step ::
    "sends \<Rightarrow> (nat \<Rightarrow> bool) \<Rightarrow> 'h uds_handler option \<Rightarrow> uds_event \<Rightarrow>
       uds_fault + TypioUdsServer \<times> 'h \<Rightarrow> uds_fault + TypioUdsServer \<times> 'h" where
  "uds_event_step w alloc f ev st = (case st of
       Inl e \<Rightarrow> Inl e
     | Inr (srv, h) \<Rightarrow>
         (case ev of
            UdsListen as \<Rightarrow> Inr (fold accept_client as srv, h)
          | UdsClient fd err readable r \<Rightarrow> uds_client_event w alloc f fd err readable r srv h))"

text \<open>The events one \<^verbatim>\<open>epoll_wait\<close> returns, in order.\<close>

definition uds_server_dispatch ::
    "sends \<Rightarrow> (nat \<Rightarrow> bool) \<Rightarrow> 'h uds_handler option \<Rightarrow> uds_event list \<Rightarrow> TypioUdsServer \<Rightarrow> 'h \<Rightarrow>
       uds_fault + TypioUdsServer \<times> 'h" where
  "uds_server_dispatch w alloc f evs srv h = fold (uds_event_step w alloc f) evs (Inr (srv, h))"

text \<open>A notification to every connected client.\<close>

definition broadcast_to :: "sends \<Rightarrow> u8 list \<Rightarrow> nat \<Rightarrow> TypioUdsServer \<Rightarrow> TypioUdsServer" where
  "broadcast_to w json j srv =
     (let c = us_clients srv ! j in
      if 0 \<le> uc_fd c \<and> \<not> uc_closed c
      then (case client_send_frame w json (us_next_send srv, c) of
              (ok, i, c) \<Rightarrow> (upd_client j c srv)\<lparr>us_next_send := i\<rparr>)
      else srv)"

definition uds_server_broadcast :: "sends \<Rightarrow> u8 list \<Rightarrow> TypioUdsServer \<Rightarrow> TypioUdsServer" where
  "uds_server_broadcast w json srv = fold (broadcast_to w json) [0..<TYPIO_UDS_MAX_CLIENTS] srv"

subsection \<open>Invariant\<close>

text \<open>
  The buffers stay in bounds, a free slot holds no data, and a connected peer whose credentials
  were read has the server's user.
\<close>

definition client_ok :: "nat \<Rightarrow> TypioUdsClient \<Rightarrow> bool" where
  "client_ok uid c \<longleftrightarrow>
     length (uc_rbuf c) \<le> TYPIO_UDS_READBUF \<and> length (uc_wbuf c) \<le> TYPIO_UDS_WRITEBUF \<and>
     uc_wpos c \<le> length (uc_wbuf c) \<and>
     (uc_fd c < 0 \<longrightarrow> uc_rbuf c = [] \<and> uc_wbuf c = []) \<and>
     (0 \<le> uc_fd c \<longrightarrow> uc_peer c = None \<or> uc_peer c = Some uid)"

definition server_ok :: "TypioUdsServer \<Rightarrow> bool" where
  "server_ok srv \<longleftrightarrow>
     length (us_clients srv) = TYPIO_UDS_MAX_CLIENTS \<and> (\<forall>c \<in> set (us_clients srv). client_ok (us_uid srv) c)"

definition result_ok :: "nat \<Rightarrow> uds_fault + TypioUdsServer \<times> 'h \<Rightarrow> bool" where
  "result_ok uid r \<longleftrightarrow> (case r of Inl e \<Rightarrow> True | Inr (srv, h) \<Rightarrow> server_ok srv \<and> us_uid srv = uid)"

lemma close_client_ok: "client_ok uid c \<Longrightarrow> client_ok uid (close_client c)"
  by (auto simp add: client_ok_def close_client_def)

lemma client_write_ok: "client_ok uid c \<Longrightarrow> client_ok uid (snd (snd (client_write w (i, c))))"
  by (auto simp: client_write_def Let_def close_client_ok split: send_outcome.split)
     (auto simp: client_ok_def)

lemma client_enqueue_ok:
  "client_ok uid c \<Longrightarrow> 0 \<le> uc_fd c \<Longrightarrow> client_ok uid (snd (snd (client_enqueue w b (i, c))))"
  by (auto simp: client_enqueue_def close_client_ok intro!: client_write_ok) (auto simp: client_ok_def)

lemma client_write_fd: "fst (client_write w (i, c)) \<Longrightarrow> uc_fd (snd (snd (client_write w (i, c)))) = uc_fd c"
  by (auto simp: client_write_def Let_def split: send_outcome.splits)

lemma client_enqueue_fd: "fst (client_enqueue w b (i, c)) \<Longrightarrow> uc_fd (snd (snd (client_enqueue w b (i, c)))) = uc_fd c"
  using client_write_fd [of w i "c\<lparr>uc_wbuf := uc_wbuf c @ b\<rparr>"] by (auto simp: client_enqueue_def split: if_splits)

lemma client_send_frame_ok:
  assumes "client_ok uid c" and "0 \<le> uc_fd c"
  shows "client_ok uid (snd (snd (client_send_frame w json (i, c))))"
proof -
  obtain ok i1 c1 where e: "client_enqueue w (htonl_bytes (of_nat (length json))) (i, c) = (ok, i1, c1)"
    by (metis prod_cases3)
  have "client_ok uid c1"
    using client_enqueue_ok [OF assms, of w "htonl_bytes (of_nat (length json))" i] e by simp
  moreover have "ok \<Longrightarrow> uc_fd c1 = uc_fd c"
    using client_enqueue_fd [of w "htonl_bytes (of_nat (length json))" i c] e by simp
  ultimately show ?thesis
    using assms e client_enqueue_ok [of uid c1 w json i1] by (auto simp: client_send_frame_def)
qed

lemma serve_frame_ok:
  "client_ok uid c \<Longrightarrow> 0 \<le> uc_fd c \<Longrightarrow> client_ok uid (snd (fst (serve_frame w alloc f p (i, c) h)))"
  by (auto simp: serve_frame_def client_send_frame_ok split: option.split prod.split)

lemma frame_header_ok: "client_ok uid c \<Longrightarrow> client_ok uid (snd (frame_header c))"
  by (auto simp: frame_header_def Let_def intro: close_client_ok) (auto simp: client_ok_def close_client_def)

lemma frame_header_fd: "fst (frame_header c) \<Longrightarrow> uc_fd (snd (frame_header c)) = uc_fd c"
  by (auto simp: frame_header_def Let_def split: if_splits)

lemma client_frames_ok:
  assumes "client_frames w alloc f (i, c) h = Inr ((i', c'), h')" and "client_ok uid c"
    and "uc_rbuf c \<noteq> [] \<longrightarrow> 0 \<le> uc_fd c"
  shows "client_ok uid c'"
  using assms
proof (induction "length (uc_rbuf c)" arbitrary: c i h rule: less_induct)
  case less
  obtain go c1 where hdr: "frame_header c = (go, c1)" by (cases "frame_header c")
  have c1: "client_ok uid c1" "go \<Longrightarrow> uc_fd c1 = uc_fd c" "length (uc_rbuf c1) \<le> length (uc_rbuf c)"
    using frame_header_ok [OF less.prems(2)] frame_header_fd [of c] frame_header_rbuf [of c] hdr by simp_all
  obtain i2 c2 h2 where srv: "serve_frame w alloc f (take (unat (uc_frame_len c1)) (drop 4 (uc_rbuf c1))) (i, c1) h = ((i2, c2), h2)"
    by (metis prod_cases3 prod.collapse)
  have r2: "length (uc_rbuf c2) \<le> length (uc_rbuf c1)"
    using serve_frame_rbuf [of w alloc f "take (unat (uc_frame_len c1)) (drop 4 (uc_rbuf c1))" i c1 h] srv by simp
  let ?c3 = "c2\<lparr>uc_rbuf := drop (4 + unat (uc_frame_len c2)) (uc_rbuf c2), uc_have_len := False, uc_frame_len := 0\<rparr>"
  show ?case
  proof (cases "uc_rbuf c \<noteq> [] \<and> go \<and> 4 + unat (uc_frame_len c1) \<le> length (uc_rbuf c1) \<and>
      4 + unat (uc_frame_len c2) \<le> length (uc_rbuf c2)")
    case True
    have ok2: "client_ok uid c2"
      using serve_frame_ok [OF c1(1), of w alloc f _ i h] c1(2) less.prems(3) True srv by (metis fst_conv snd_conv)
    have "client_ok uid ?c3" using ok2 by (auto simp: client_ok_def)
    moreover have "client_frames w alloc f (i2, ?c3) h2 = Inr ((i', c'), h')"
      using less.prems(1) True hdr srv by (subst (asm) client_frames.simps) (simp add: not_less)
    moreover have "length (uc_rbuf ?c3) < length (uc_rbuf c)"
      using True r2 c1(3) by (auto intro!: diff_less_Suc)
    moreover have "0 \<le> uc_fd ?c3"
      using ok2 True by (auto simp: client_ok_def not_le [symmetric])
    ultimately show ?thesis using less.hyps by blast
  next
    case False
    then have "c' = c \<or> c' = c1"
      using less.prems(1) hdr srv by (subst (asm) client_frames.simps) (auto split: if_splits)
    with less.prems(2) c1(1) show ?thesis by auto
  qed
qed

lemma client_process_read_ok:
  assumes "client_process_read w alloc f r (i, c) h = Inr ((i', c'), h')" and "client_ok uid c" and "0 \<le> uc_fd c"
  shows "client_ok uid c'"
proof (cases r)
  case (RecvBytes bytes)
  let ?b = "take (TYPIO_UDS_READBUF - length (uc_rbuf c)) bytes"
  have "client_ok uid (c\<lparr>uc_rbuf := uc_rbuf c @ ?b\<rparr>)"
    using assms(2,3) by (auto simp: client_ok_def)
  with RecvBytes assms show ?thesis
    by (auto simp: client_process_read_def Let_def close_client_ok split: if_splits intro: client_frames_ok)
qed (use assms in \<open>auto simp: client_process_read_def close_client_ok\<close>)

lemma find_slot_some: "find_slot P cs = Some j \<Longrightarrow> j < length cs \<and> P (cs ! j)"
  by (induction cs arbitrary: j) (auto split: if_splits)

lemma upd_client_ok: "server_ok srv \<Longrightarrow> client_ok (us_uid srv) c \<Longrightarrow> server_ok (upd_client j c srv)"
  by (auto simp: server_ok_def upd_client_def dest!: set_update_subset_insert [THEN subsetD])

lemma accept_client_ok:
  assumes "server_ok srv"
  shows "server_ok (accept_client a srv)" and "us_uid (accept_client a srv) = us_uid srv"
proof -
  have new: "client_ok (us_uid srv) (c\<lparr>uc_fd := fd, uc_closed := False, uc_rbuf := [], uc_have_len := False,
      uc_wbuf := [], uc_wpos := 0, uc_sent := [], uc_peer := p\<rparr>)"
    if "p = None \<or> p = Some (us_uid srv)" for c fd p
    using that by (auto simp: client_ok_def TYPIO_UDS_READBUF_def TYPIO_UDS_WRITEBUF_def)
  show "server_ok (accept_client a srv)"
    using assms
    by (auto simp: accept_client_def Let_def new intro!: upd_client_ok close_client_ok split: option.split)
  show "us_uid (accept_client a srv) = us_uid srv"
    by (simp add: accept_client_def upd_client_def Let_def split: option.split)
qed

lemma fold_accept_ok:
  "server_ok srv \<Longrightarrow> server_ok (fold accept_client as srv) \<and> us_uid (fold accept_client as srv) = us_uid srv"
  by (induction as arbitrary: srv) (simp_all add: accept_client_ok)

lemma uds_client_event_ok:
  assumes "server_ok srv" and "0 \<le> fd"
  shows "result_ok (us_uid srv) (uds_client_event w alloc f fd err readable r srv h)"
proof (cases "find_slot (\<lambda>c. uc_fd c = fd) (us_clients srv)")
  case None
  then show ?thesis using assms by (simp add: uds_client_event_def result_ok_def)
next
  case (Some j)
  let ?c = "us_clients srv ! j"
  have c: "client_ok (us_uid srv) ?c" "uc_fd ?c = fd"
    using find_slot_some [OF Some] assms by (auto simp: server_ok_def)
  let ?res = "if err then Inr ((us_next_send srv, close_client ?c), h)
     else if readable then client_process_read w alloc f r (us_next_send srv, ?c) h
     else Inr ((us_next_send srv, ?c), h)"
  show ?thesis
  proof (cases ?res)
    case (Inl e)
    with Some show ?thesis by (simp add: uds_client_event_def result_ok_def Let_def)
  next
    case (Inr x)
    obtain i1 c1 h1 where x: "x = ((i1, c1), h1)" by (metis prod.collapse)
    have ok1: "client_ok (us_uid srv) c1"
    proof (cases "\<not> err \<and> readable")
      case True
      with Inr x c assms(2) show ?thesis by (auto intro: client_process_read_ok)
    next
      case False
      with Inr x c(1) show ?thesis by (auto split: if_splits intro: close_client_ok)
    qed
    let ?st = "if 0 \<le> uc_fd c1 \<and> uc_wpos c1 < length (uc_wbuf c1) then snd (client_write w (i1, c1)) else (i1, c1)"
    obtain i2 c2 where st: "?st = (i2, c2)" by (cases ?st)
    have "client_ok (us_uid srv) c2"
      using ok1 client_write_ok [OF ok1, of w i1] st by (auto split: if_splits)
    then have "server_ok ((upd_client j c2 srv)\<lparr>us_next_send := i2\<rparr>)"
      using upd_client_ok [OF assms(1), of c2 j] by (simp add: server_ok_def)
    with Some Inr x st show ?thesis
      by (simp add: uds_client_event_def result_ok_def Let_def upd_client_def)
  qed
qed

text \<open>Events name descriptors of the epoll set, which are not negative.\<close>

definition event_valid :: "uds_event \<Rightarrow> bool" where
  "event_valid ev \<longleftrightarrow> (case ev of UdsListen as \<Rightarrow> True | UdsClient fd err readable r \<Rightarrow> 0 \<le> fd)"

lemma uds_event_step_ok:
  assumes "result_ok uid st" and "event_valid ev"
  shows "result_ok uid (uds_event_step w alloc f ev st)"
proof (cases st)
  case (Inl e)
  then show ?thesis by (simp add: uds_event_step_def result_ok_def)
next
  case (Inr x)
  obtain srv h where x: "x = (srv, h)" by (cases x)
  have srv: "server_ok srv" "us_uid srv = uid" using assms(1) Inr x by (simp_all add: result_ok_def)
  show ?thesis
  proof (cases ev)
    case (UdsListen as)
    then show ?thesis
      using fold_accept_ok [OF srv(1), of as] srv(2) Inr x by (simp add: uds_event_step_def result_ok_def)
  next
    case (UdsClient fd err readable r)
    then have "0 \<le> fd" using assms(2) by (simp add: event_valid_def)
    from uds_client_event_ok [OF srv(1) this, of w alloc f err readable r h] UdsClient srv(2) Inr x
    show ?thesis by (simp add: uds_event_step_def)
  qed
qed

definition valid_step ::
    "sends \<Rightarrow> (nat \<Rightarrow> bool) \<Rightarrow> 'h uds_handler option \<Rightarrow> uds_event \<Rightarrow>
       uds_fault + TypioUdsServer \<times> 'h \<Rightarrow> uds_fault + TypioUdsServer \<times> 'h" where
  "valid_step w alloc f ev st = (if event_valid ev then uds_event_step w alloc f ev st else st)"

interpretation uds: event_machine "valid_step w alloc f" "result_ok uid" for w alloc f uid
  by unfold_locales (simp add: valid_step_def uds_event_step_ok)

lemma fold_valid:
  "list_all event_valid evs \<Longrightarrow> fold (uds_event_step w alloc f) evs st = fold (valid_step w alloc f) evs st"
  by (induction evs arbitrary: st) (simp_all add: valid_step_def)

lemma uds_server_new_ok: "server_ok (uds_server_new uid)"
  by (simp add: server_ok_def uds_server_new_def client_ok_def free_client_def)

lemma uds_server_dispatch_ok:
  "server_ok srv \<Longrightarrow> list_all event_valid evs \<Longrightarrow> result_ok (us_uid srv) (uds_server_dispatch w alloc f evs srv h)"
  unfolding uds_server_dispatch_def
  by (subst fold_valid, assumption, rule uds.run_inv, simp add: result_ok_def)

lemma uds_broadcast_ok:
  assumes "server_ok srv" and "j < TYPIO_UDS_MAX_CLIENTS"
  shows "server_ok (broadcast_to w json j srv)" and "us_uid (broadcast_to w json j srv) = us_uid srv"
proof -
  let ?c = "us_clients srv ! j"
  obtain ok i c where e: "client_send_frame w json (us_next_send srv, ?c) = (ok, i, c)" by (metis prod_cases3)
  have "client_ok (us_uid srv) ?c" using assms by (simp add: server_ok_def)
  then have "client_ok (us_uid srv) c" if "0 \<le> uc_fd ?c"
    using that client_send_frame_ok [of "us_uid srv" ?c w json "us_next_send srv"] e by simp
  then show "server_ok (broadcast_to w json j srv)"
    using assms(1) e upd_client_ok [OF assms(1), of c j]
    by (auto simp: broadcast_to_def Let_def server_ok_def upd_client_def)
  show "us_uid (broadcast_to w json j srv) = us_uid srv"
    using e by (simp add: broadcast_to_def Let_def upd_client_def)
qed

end
