(* ===== verification/Uds_Spec.thy ===== *)
theory Uds_Spec
  imports Uds_Server
begin

section \<open>Framing: what the server promises\<close>

text \<open>
  The byte stream as a sequence of frames, independent of how the kernel cuts it, and the server's
  behaviour against it.
\<close>

subsection \<open>Splitting a byte stream\<close>

lemma frame_len_of_htonl [simp]: "frame_len_of (htonl_bytes w @ x) = w"
proof (rule bit_word_eqI)
  fix n assume "n < LENGTH(32)"
  then have n: "n < 32" by simp
  consider "n < 8" | "8 \<le> n" "n < 16" | "16 \<le> n" "n < 24" | "24 \<le> n" by linarith
  then show "bit (frame_len_of (htonl_bytes w @ x)) n = bit w n"
    using n by cases (auto simp: frame_len_of_def htonl_bytes_def bit_simps)
qed

lemma length_htonl [simp]: "length (htonl_bytes w) = 4"
  by (simp add: htonl_bytes_def)

lemma frame_len_of_append: "4 \<le> length a \<Longrightarrow> frame_len_of (a @ b) = frame_len_of a"
  by (cases "a = []") (simp_all add: frame_len_of_def nth_append)

definition has_frame :: "u8 list \<Rightarrow> bool" where
  "has_frame b \<longleftrightarrow> 4 \<le> length b \<and> 4 + unat (frame_len_of b) \<le> length b"

definition first_frame :: "u8 list \<Rightarrow> u8 list" where
  "first_frame b = take (unat (frame_len_of b)) (drop 4 b)"

definition after_frame :: "u8 list \<Rightarrow> u8 list" where
  "after_frame b = drop (4 + unat (frame_len_of b)) b"

function split_frames :: "u8 list \<Rightarrow> u8 list list \<times> u8 list" where
  "split_frames b =
     (if has_frame b
      then (case split_frames (after_frame b) of (fs, rest) \<Rightarrow> (first_frame b # fs, rest))
      else ([], b))"
  by pat_completeness auto
termination
  by (relation "measure length") (auto simp: has_frame_def after_frame_def)

declare split_frames.simps [simp del]

lemma split_frames_none: "\<not> has_frame b \<Longrightarrow> split_frames b = ([], b)"
  by (simp add: split_frames.simps)

lemma split_frames_step:
  "has_frame b \<Longrightarrow> split_frames b = (first_frame b # fst (split_frames (after_frame b)), snd (split_frames (after_frame b)))"
  by (subst split_frames.simps) (simp add: case_prod_beta)

lemma frame_append:
  assumes "has_frame a"
  shows "has_frame (a @ b)" and "first_frame (a @ b) = first_frame a" and "after_frame (a @ b) = after_frame a @ b"
  using assms frame_len_of_append [of a b]
  by (simp_all add: has_frame_def first_frame_def after_frame_def)

text \<open>Cutting the stream anywhere gives the same frames.\<close>

lemma split_frames_append:
  "split_frames (a @ b) =
     (fst (split_frames a) @ fst (split_frames (snd (split_frames a) @ b)),
      snd (split_frames (snd (split_frames a) @ b)))"
proof (induction a rule: split_frames.induct)
  case (1 a)
  show ?case
  proof (cases "has_frame a")
    case True
    then show ?thesis
      using 1 [OF True] frame_append [OF True, of b]
      by (simp add: split_frames_step)
  next
    case False
    then show ?thesis by (simp add: split_frames_none)
  qed
qed

lemma split_frames_rest: "\<not> has_frame (snd (split_frames b))"
  by (induction b rule: split_frames.induct) (subst split_frames.simps, simp add: case_prod_beta)

lemma frame_bytes_frame:
  assumes "length m < 2 ^ 32"
  shows "has_frame (frame_bytes m @ x)" and "first_frame (frame_bytes m @ x) = m"
    and "after_frame (frame_bytes m @ x) = x"
proof -
  have "unat (of_nat (length m) :: u32) = length m" using assms by (simp add: unat_of_nat take_bit_nat_eq_self)
  then show "has_frame (frame_bytes m @ x)" "first_frame (frame_bytes m @ x) = m"
    "after_frame (frame_bytes m @ x) = x"
    by (simp_all add: has_frame_def first_frame_def after_frame_def frame_bytes_def)
qed

lemma split_frames_messages:
  "(\<And>m. m \<in> set ms \<Longrightarrow> length m < 2 ^ 32) \<Longrightarrow>
     split_frames (concat (map frame_bytes ms) @ x) = (ms @ fst (split_frames x), snd (split_frames x))"
proof (induction ms)
  case Nil
  then show ?case by simp
next
  case (Cons m ms)
  then show ?case
    using frame_bytes_frame [of m "concat (map frame_bytes ms) @ x"]
    by (subst split_frames_step) simp_all
qed

subsection \<open>An interface: splitters\<close>

text \<open>
  A splitter cuts a stream into items and a rest; its law says that cutting can be resumed from
  the rest. A reader that keeps only the rest between reads then sees the items of the whole
  stream, however it was delivered.
\<close>

locale splitter =
  fixes split :: "'b list \<Rightarrow> 'i list \<times> 'b list"
  assumes resume: "split (a @ b) = (fst (split a) @ fst (split (snd (split a) @ b)), snd (split (snd (split a) @ b)))"
begin

definition read_chunk :: "'b list \<Rightarrow> 'i list \<times> 'b list \<Rightarrow> 'i list \<times> 'b list" where
  "read_chunk ch st = (fst st @ fst (split (snd st @ ch)), snd (split (snd st @ ch)))"

lemma read_chunks: "fold read_chunk chs (split a) = split (a @ concat chs)"
proof (induction chs arbitrary: a)
  case Nil
  then show ?case by simp
next
  case (Cons ch chs)
  have "read_chunk ch (split a) = split (a @ ch)" by (simp add: read_chunk_def resume [of a ch])
  then show ?case by (simp add: Cons.IH)
qed

lemma delivery_irrelevant:
  "concat chs = concat chs' \<Longrightarrow> fold read_chunk chs (split []) = fold read_chunk chs' (split [])"
  by (simp add: read_chunks)

end

interpretation frames: splitter split_frames
  by unfold_locales (rule split_frames_append)

subsection \<open>Serving\<close>

definition respond :: "'h uds_handler option \<Rightarrow> u8 list \<Rightarrow> 'h \<Rightarrow> u8 list option \<times> 'h" where
  "respond f p h = (case f of None \<Rightarrow> (None, h) | Some g \<Rightarrow> g (c_string p) h)"

text \<open>The responses to a list of requests, and the state of the handler after them.\<close>

fun serve_all :: "'h uds_handler option \<Rightarrow> u8 list list \<Rightarrow> 'h \<Rightarrow> u8 list list \<times> 'h" where
  "serve_all f [] h = ([], h)"
| "serve_all f (p # ps) h =
     (case respond f p h of
        (r, h') \<Rightarrow> (case serve_all f ps h' of
                      (rs, h'') \<Rightarrow> ((case r of None \<Rightarrow> rs | Some j \<Rightarrow> j # rs), h'')))"

lemma serve_all_append:
  "serve_all f (xs @ ys) h =
     (fst (serve_all f xs h) @ fst (serve_all f ys (snd (serve_all f xs h))),
      snd (serve_all f ys (snd (serve_all f xs h))))"
  by (induction xs arbitrary: h) (auto simp: case_prod_beta split: option.split)

definition client_idle :: "TypioUdsClient \<Rightarrow> bool" where
  "client_idle c \<longleftrightarrow>
     0 \<le> uc_fd c \<and> \<not> uc_closed c \<and> uc_wbuf c = [] \<and> uc_wpos c = 0 \<and>
     (uc_have_len c \<longrightarrow> 4 \<le> length (uc_rbuf c) \<and> uc_frame_len c = frame_len_of (uc_rbuf c))"

definition kernel_takes_all :: "sends \<Rightarrow> bool" where
  "kernel_takes_all w \<longleftrightarrow> (\<forall>i. case w i of SendTakes n \<Rightarrow> TYPIO_UDS_WRITEBUF \<le> n | _ \<Rightarrow> False)"

definition responses_fit :: "'h uds_handler option \<Rightarrow> bool" where
  "responses_fit f \<longleftrightarrow> (\<forall>p h r h'. respond f p h = (Some r, h') \<longrightarrow> length r \<le> TYPIO_UDS_WRITEBUF)"

lemma client_enqueue_all:
  assumes "kernel_takes_all w" and "uc_wbuf c = []" and "uc_wpos c = 0" and "length b \<le> TYPIO_UDS_WRITEBUF"
  shows "\<exists>i'. client_enqueue w b (i, c) = (True, i', c\<lparr>uc_sent := uc_sent c @ b\<rparr>)"
proof (cases "b = []")
  case True
  then show ?thesis using assms by (simp add: client_enqueue_def client_write_def)
next
  case False
  have "case w i of SendTakes n \<Rightarrow> TYPIO_UDS_WRITEBUF \<le> n | _ \<Rightarrow> False"
    using assms(1) by (simp add: kernel_takes_all_def)
  then obtain n where n: "w i = SendTakes n" "TYPIO_UDS_WRITEBUF \<le> n" by (cases "w i") auto
  have "c\<lparr>uc_wbuf := [], uc_wpos := 0, uc_sent := uc_sent c @ b\<rparr> = c\<lparr>uc_sent := uc_sent c @ b\<rparr>"
    using assms(2,3) by (cases c) simp
  with n assms(2-4) False show ?thesis
    by (simp add: client_enqueue_def client_write_def Let_def min_absorb2)
qed

lemma client_send_frame_all:
  assumes "kernel_takes_all w" and "client_idle c" and "length json \<le> TYPIO_UDS_WRITEBUF"
  shows "\<exists>i'. client_send_frame w json (i, c) = (True, i', c\<lparr>uc_sent := uc_sent c @ frame_bytes json\<rparr>)"
proof -
  let ?hdr = "htonl_bytes (of_nat (length json))"
  have small: "length json \<le> TYPIO_UDS_MAX_FRAME" "length ?hdr \<le> TYPIO_UDS_WRITEBUF"
    using assms(3) by (simp_all add: TYPIO_UDS_WRITEBUF_def TYPIO_UDS_MAX_FRAME_def)
  obtain i1 where 1: "client_enqueue w ?hdr (i, c) = (True, i1, c\<lparr>uc_sent := uc_sent c @ ?hdr\<rparr>)"
    using client_enqueue_all [OF assms(1) _ _ small(2), of c i] assms(2) by (auto simp: client_idle_def)
  obtain i2 where 2: "client_enqueue w json (i1, c\<lparr>uc_sent := uc_sent c @ ?hdr\<rparr>) =
      (True, i2, c\<lparr>uc_sent := uc_sent c @ ?hdr, uc_sent := (uc_sent c @ ?hdr) @ json\<rparr>)"
    using client_enqueue_all [OF assms(1) _ _ assms(3), of "c\<lparr>uc_sent := uc_sent c @ ?hdr\<rparr>" i1] assms(2)
    by (auto simp: client_idle_def)
  show ?thesis
    using small(1) 1 2 by (simp add: client_send_frame_def frame_bytes_def)
qed

lemma serve_frame_all:
  assumes "kernel_takes_all w" and "client_idle c" and "responses_fit f" and "alloc = (\<lambda>_. True)"
    and "respond f p h = (r, h')"
  shows "\<exists>i'. serve_frame w alloc f p (i, c) h =
     ((i', c\<lparr>uc_sent := uc_sent c @ (case r of None \<Rightarrow> [] | Some j \<Rightarrow> frame_bytes j)\<rparr>), h')"
proof (cases f)
  case None
  then show ?thesis using assms(4,5) by (simp add: serve_frame_def respond_def)
next
  case (Some g)
  show ?thesis
  proof (cases r)
    case None
    then show ?thesis using assms(4,5) Some by (simp add: serve_frame_def respond_def)
  next
    case (Some j)
    have "length j \<le> TYPIO_UDS_WRITEBUF"
      using assms(3,5) Some unfolding responses_fit_def by blast
    from client_send_frame_all [OF assms(1,2) this, of i] \<open>f = Some g\<close> Some assms(4,5)
    show ?thesis by (auto simp: serve_frame_def respond_def)
  qed
qed

text \<open>Streams in which no frame is longer than \<open>L\<close>, as far as their headers are complete.\<close>

function sane :: "nat \<Rightarrow> u8 list \<Rightarrow> bool" where
  "sane L b \<longleftrightarrow>
     (4 \<le> length b \<longrightarrow> unat (frame_len_of b) \<le> L) \<and> (has_frame b \<longrightarrow> sane L (after_frame b))"
  by pat_completeness auto
termination
  by (relation "measure (\<lambda>(L, b). length b)") (auto simp: has_frame_def after_frame_def)

declare sane.simps [simp del]

lemma sane_header: "sane L b \<Longrightarrow> 4 \<le> length b \<Longrightarrow> unat (frame_len_of b) \<le> L"
  by (simp add: sane.simps [of L b])

lemma sane_after: "sane L b \<Longrightarrow> has_frame b \<Longrightarrow> sane L (after_frame b)"
  by (simp add: sane.simps [of L b])

lemma sane_prefix: "sane L (a @ b) \<Longrightarrow> sane L a"
proof (induction L a rule: sane.induct)
  case (1 L a)
  have "unat (frame_len_of a) \<le> L" if "4 \<le> length a"
    using sane_header [OF 1(2)] frame_len_of_append [OF that, of b] that by simp
  moreover have "sane L (after_frame a)" if "has_frame a"
    using 1(1) [OF that] sane_after [OF 1(2)] frame_append [OF that, of b] by simp
  ultimately show ?case by (subst sane.simps) simp
qed

lemma sane_rest: "sane L (a @ b) \<Longrightarrow> sane L (snd (split_frames a) @ b)"
proof (induction a rule: split_frames.induct)
  case (1 a)
  show ?case
  proof (cases "has_frame a")
    case True
    then show ?thesis
      using 1(1) [OF True] sane_after [OF 1(2)] frame_append [OF True, of b] by (simp add: split_frames_step)
  next
    case False
    with 1(2) show ?thesis by (simp add: split_frames_none)
  qed
qed

lemma sane_mono: "sane L b \<Longrightarrow> L \<le> L' \<Longrightarrow> sane L' b"
proof (induction L b rule: sane.induct)
  case (1 L b)
  then show ?case using sane_header [OF 1(2)] sane_after [OF 1(2)] by (subst sane.simps) auto
qed

lemma sane_messages:
  assumes "\<And>m. m \<in> set ms \<Longrightarrow> length m \<le> L" and "L < 2 ^ 32"
  shows "sane L (concat (map frame_bytes ms))"
  using assms(1)
proof (induction ms)
  case Nil
  then show ?case by (subst sane.simps) (simp add: has_frame_def)
next
  case (Cons m ms)
  have m: "length m < 2 ^ 32" using Cons.prems [of m] assms(2) by simp
  note f = frame_bytes_frame [OF m, of "concat (map frame_bytes ms)"]
  have "unat (frame_len_of (frame_bytes m @ concat (map frame_bytes ms))) \<le> L"
    using Cons.prems [of m] m by (simp add: frame_bytes_def unat_of_nat take_bit_nat_eq_self)
  moreover have "sane L (concat (map frame_bytes ms))" by (rule Cons.IH) (use Cons.prems in auto)
  ultimately show ?case using f by (subst sane.simps) simp
qed

lemma rest_fits:
  assumes "\<not> has_frame b" and "sane L b"
  shows "length b < 4 + L \<or> length b < 4"
  using assms(1) sane_header [OF assms(2)] by (auto simp: has_frame_def)

lemma client_frames_all:
  assumes "kernel_takes_all w" and "responses_fit f" and "alloc = (\<lambda>_. True)"
    and "client_idle c" and "sane TYPIO_UDS_MAX_FRAME (uc_rbuf c)"
  shows "\<exists>i' c'. client_frames w alloc f (i, c) h = Inr ((i', c'), snd (serve_all f (fst (split_frames (uc_rbuf c))) h)) \<and>
     client_idle c' \<and> uc_rbuf c' = snd (split_frames (uc_rbuf c)) \<and>
     uc_sent c' = uc_sent c @ concat (map frame_bytes (fst (serve_all f (fst (split_frames (uc_rbuf c))) h)))"
  using assms(4,5)
proof (induction "length (uc_rbuf c)" arbitrary: c i h rule: less_induct)
  case less
  let ?b = "uc_rbuf c"
  let ?n = "frame_len_of ?b"
  show ?case
  proof (cases "4 \<le> length ?b")
    case False
    then have "\<not> uc_have_len c" and none: "\<not> has_frame ?b"
      using less.prems(1) by (auto simp: client_idle_def has_frame_def)
    with False have "client_frames w alloc f (i, c) h = Inr ((i, c), h)"
      by (subst client_frames.simps) (simp add: frame_header_def)
    with less.prems(1) none show ?thesis by (simp add: split_frames_none)
  next
    case True
    let ?c1 = "c\<lparr>uc_frame_len := ?n, uc_have_len := True\<rparr>"
    have "c = ?c1" if "uc_have_len c"
      using that less.prems(1) by (cases c) (simp add: client_idle_def)
    then have hdr: "frame_header c = (True, ?c1)"
      using True sane_header [OF less.prems(2) True] by (cases "uc_have_len c") (auto simp: frame_header_def Let_def)
    show ?thesis
    proof (cases "has_frame ?b")
      case False
      then have "client_frames w alloc f (i, c) h = Inr ((i, ?c1), h)"
        using True hdr by (subst client_frames.simps) (auto simp: has_frame_def)
      moreover have "client_idle ?c1" using less.prems(1) True by (simp add: client_idle_def)
      ultimately show ?thesis using False by (simp add: split_frames_none)
    next
      case frame: True
      obtain r h' where r: "respond f (first_frame ?b) h = (r, h')" by (cases "respond f (first_frame ?b) h")
      have "client_idle ?c1" using less.prems(1) True by (simp add: client_idle_def)
      from serve_frame_all [OF assms(1) this assms(2,3) r, where i = i]
      obtain i1 where serve: "serve_frame w alloc f (first_frame ?b) (i, ?c1) h =
          ((i1, ?c1\<lparr>uc_sent := uc_sent c @ (case r of None \<Rightarrow> [] | Some j \<Rightarrow> frame_bytes j)\<rparr>), h')"
        by auto
      let ?c2 = "c\<lparr>uc_sent := uc_sent c @ (case r of None \<Rightarrow> [] | Some j \<Rightarrow> frame_bytes j),
          uc_rbuf := after_frame ?b, uc_have_len := False, uc_frame_len := 0\<rparr>"
      have step: "client_frames w alloc f (i, c) h = client_frames w alloc f (i1, ?c2) h'"
        using True frame hdr serve
        by (subst client_frames.simps) (auto simp: has_frame_def first_frame_def after_frame_def not_less)
      have "length (uc_rbuf ?c2) < length ?b" using frame by (auto simp: has_frame_def after_frame_def intro!: diff_less)
      moreover have "client_idle ?c2" using less.prems(1) by (simp add: client_idle_def)
      moreover have "sane TYPIO_UDS_MAX_FRAME (uc_rbuf ?c2)" using sane_after [OF less.prems(2) frame] by simp
      ultimately obtain i' c' where ih:
        "client_frames w alloc f (i1, ?c2) h' = Inr ((i', c'), snd (serve_all f (fst (split_frames (after_frame ?b))) h'))"
        "client_idle c'" "uc_rbuf c' = snd (split_frames (after_frame ?b))"
        "uc_sent c' = uc_sent ?c2 @ concat (map frame_bytes (fst (serve_all f (fst (split_frames (after_frame ?b))) h')))"
        using less.hyps [of ?c2 i1 h'] by auto
      show ?thesis
        using ih r by (simp add: step split_frames_step [OF frame] case_prod_beta split: option.split)
    qed
  qed
qed

text \<open>
  The kernel delivers a stream in pieces: each read takes at most \<open>Suc n\<close> bytes, at most what the
  read buffer has room for. The result holds what is left in the kernel.
\<close>

primrec drain ::
    "sends \<Rightarrow> (nat \<Rightarrow> bool) \<Rightarrow> 'h uds_handler option \<Rightarrow> nat list \<Rightarrow> u8 list \<Rightarrow>
       nat \<times> TypioUdsClient \<Rightarrow> 'h \<Rightarrow> uds_fault + u8 list \<times> (nat \<times> TypioUdsClient) \<times> 'h" where
  "drain w alloc f [] p st h = Inr (p, st, h)"
| "drain w alloc f (n # ns) p st h =
     (if p = [] \<or> uc_fd (snd st) < 0 then Inr (p, st, h)
      else
        let k = min (Suc n) (min (length p) (TYPIO_UDS_READBUF - length (uc_rbuf (snd st))))
        in (case client_process_read w alloc f (RecvBytes (take k p)) st h of
              Inl e \<Rightarrow> Inl e
            | Inr (st', h') \<Rightarrow> drain w alloc f ns (drop k p) st' h'))"

lemma drain_step:
  assumes "p \<noteq> []" and "0 \<le> uc_fd c"
    and "k = min (Suc n) (min (length p) (TYPIO_UDS_READBUF - length (uc_rbuf c)))"
    and "client_process_read w alloc f (RecvBytes (take k p)) (i, c) h = Inr (st', h')"
  shows "drain w alloc f (n # ns) p (i, c) h = drain w alloc f ns (drop k p) st' h'"
  using assms(1,2,4) unfolding drain.simps Let_def snd_conv assms(3) [symmetric] by simp

lemma drain_all:
  assumes "kernel_takes_all w" and "responses_fit f" and "alloc = (\<lambda>_. True)"
    and "client_idle c" and "\<not> has_frame (uc_rbuf c)" and "sane (TYPIO_UDS_READBUF - 4) (uc_rbuf c @ p)"
    and "length p \<le> length ns"
  shows "\<exists>i' c'. drain w alloc f ns p (i, c) h =
       Inr ([], (i', c'), snd (serve_all f (fst (split_frames (uc_rbuf c @ p))) h)) \<and>
     client_idle c' \<and> uc_rbuf c' = snd (split_frames (uc_rbuf c @ p)) \<and>
     uc_sent c' = uc_sent c @ concat (map frame_bytes (fst (serve_all f (fst (split_frames (uc_rbuf c @ p))) h)))"
  using assms(4-)
proof (induction ns arbitrary: p c i h)
  case Nil
  then show ?case by (simp add: split_frames_none)
next
  case (Cons n ns)
  show ?case
  proof (cases "p = []")
    case True
    with Cons.prems show ?thesis by (simp add: split_frames_none)
  next
    case False
    let ?r = "uc_rbuf c"
    define k where "k = min (Suc n) (min (length p) (TYPIO_UDS_READBUF - length ?r))"
    let ?b = "?r @ take k p"
    have room: "length ?r < TYPIO_UDS_READBUF"
      using rest_fits [OF Cons.prems(2) sane_prefix [OF Cons.prems(3)]] by (auto simp: TYPIO_UDS_READBUF_def)
    then have k: "0 < k" "take k p \<noteq> []" "take (TYPIO_UDS_READBUF - length ?r) (take k p) = take k p"
      using False by (auto simp: k_def)
    have full: "?b @ drop k p = ?r @ p" by simp
    have sane: "sane (TYPIO_UDS_READBUF - 4) (?b @ drop k p)" using Cons.prems(3) unfolding full .
    have sane': "sane TYPIO_UDS_MAX_FRAME ?b"
      by (rule sane_mono [OF sane_prefix [OF sane]]) (simp add: TYPIO_UDS_READBUF_def TYPIO_UDS_MAX_FRAME_def)
    let ?c = "c\<lparr>uc_rbuf := ?b\<rparr>"
    have idle: "client_idle ?c"
      using Cons.prems(1) by (auto simp: client_idle_def frame_len_of_append)
    from client_frames_all [OF assms(1-3) idle, where i = i and h = h] sane'
    obtain i1 c1 where 1: "client_frames w alloc f (i, ?c) h = Inr ((i1, c1), snd (serve_all f (fst (split_frames ?b)) h))"
      "client_idle c1" "uc_rbuf c1 = snd (split_frames ?b)"
      "uc_sent c1 = uc_sent c @ concat (map frame_bytes (fst (serve_all f (fst (split_frames ?b)) h)))"
      by auto
    let ?h1 = "snd (serve_all f (fst (split_frames ?b)) h)"
    have read: "client_process_read w alloc f (RecvBytes (take k p)) (i, c) h = Inr ((i1, c1), ?h1)"
      using k 1(1) by (simp only: client_process_read_def case_prod_conv recv_outcome.case Let_def if_False)
    have "\<not> has_frame (uc_rbuf c1)" unfolding 1(3) by (rule split_frames_rest)
    moreover have "sane (TYPIO_UDS_READBUF - 4) (uc_rbuf c1 @ drop k p)" unfolding 1(3) by (rule sane_rest [OF sane])
    moreover have "length (drop k p) \<le> length ns" using Cons.prems(4) k(1) by simp
    ultimately obtain i' c' where ih:
      "drain w alloc f ns (drop k p) (i1, c1) ?h1 =
         Inr ([], (i', c'), snd (serve_all f (fst (split_frames (uc_rbuf c1 @ drop k p))) ?h1))"
      "client_idle c'" "uc_rbuf c' = snd (split_frames (uc_rbuf c1 @ drop k p))"
      "uc_sent c' = uc_sent c1 @ concat (map frame_bytes (fst (serve_all f (fst (split_frames (uc_rbuf c1 @ drop k p))) ?h1)))"
      using Cons.IH [OF 1(2), of "drop k p" i1 ?h1] by blast
    have split: "split_frames (?r @ p) = (fst (split_frames ?b) @ fst (split_frames (uc_rbuf c1 @ drop k p)),
        snd (split_frames (uc_rbuf c1 @ drop k p)))"
      using split_frames_append [of ?b "drop k p"] unfolding full 1(3) .
    have "0 \<le> uc_fd c" using Cons.prems(1) by (simp add: client_idle_def)
    from drain_step [OF False this k_def read]
    have "drain w alloc f (n # ns) p (i, c) h = drain w alloc f ns (drop k p) (i1, c1) ?h1" .
    with ih 1(4) show ?thesis
      by (simp add: split serve_all_append)
  qed
qed

lemma serve_all_short:
  "responses_fit f \<Longrightarrow> m \<in> set (fst (serve_all f ms h)) \<Longrightarrow> length m < 2 ^ 32"
proof (induction ms arbitrary: h)
  case Nil
  then show ?case by simp
next
  case (Cons p ms)
  obtain r h' where r: "respond f p h = (r, h')" by (cases "respond f p h")
  have "length j < 2 ^ 32" if "r = Some j" for j
  proof -
    have "length j \<le> TYPIO_UDS_WRITEBUF" using Cons.prems(1) r that unfolding responses_fit_def by blast
    then show ?thesis by (simp add: TYPIO_UDS_WRITEBUF_def)
  qed
  then show ?case using Cons.IH [OF Cons.prems(1), of h'] Cons.prems(2) r
    by (auto simp: case_prod_beta split: option.splits)
qed

end
