(* ===== verification/Uds_Props.thy ===== *)
theory Uds_Props
  imports Uds_Spec
begin

section \<open>Properties of the IPC server\<close>

text \<open>
  Requests cut by the kernel in any way are served once each and in order; the bounds of the
  buffers; and the situations the code does not handle: a client closed while it is served, and a
  frame that is larger than the read buffer.
\<close>

subsection \<open>A client closed while it is served\<close>

lemma frame_header_complete:
  assumes "client_idle c" and "4 \<le> length (uc_rbuf c)" and "unat (frame_len_of (uc_rbuf c)) \<le> TYPIO_UDS_MAX_FRAME"
  shows "frame_header c = (True, c\<lparr>uc_frame_len := frame_len_of (uc_rbuf c), uc_have_len := True\<rparr>)"
proof -
  let ?c1 = "c\<lparr>uc_frame_len := frame_len_of (uc_rbuf c), uc_have_len := True\<rparr>"
  have "c = ?c1" if "uc_have_len c"
    using that assms(1) by (cases c) (simp add: client_idle_def)
  then show ?thesis
    using assms(2,3) by (cases "uc_have_len c") (auto simp: frame_header_def Let_def)
qed

lemma closed_while_served:
  assumes c: "client_idle c" "has_frame (uc_rbuf c)" "unat (frame_len_of (uc_rbuf c)) \<le> TYPIO_UDS_MAX_FRAME"
    and alloc: "alloc (Suc (length (first_frame (uc_rbuf c))))"
    and r: "respond f (first_frame (uc_rbuf c)) h = (Some r, h')"
    and closed: "\<And>c1. client_idle c1 \<Longrightarrow> uc_rbuf (snd (snd (client_send_frame w r (i, c1)))) = []"
  shows "client_frames w alloc f (i, c) h = Inl MemmoveUnderflow"
proof -
  let ?b = "uc_rbuf c"
  let ?c1 = "c\<lparr>uc_frame_len := frame_len_of ?b, uc_have_len := True\<rparr>"
  have idle: "client_idle ?c1" using c(1,2) by (simp add: client_idle_def has_frame_def)
  obtain g where g: "f = Some g" "g (c_string (first_frame ?b)) h = (Some r, h')"
    using r by (cases f) (auto simp: respond_def)
  obtain ok i2 c2 where send: "client_send_frame w r (i, ?c1) = (ok, i2, c2)" by (metis prod_cases3)
  have serve: "serve_frame w alloc f (first_frame ?b) (i, ?c1) h = ((i2, c2), h')"
    using g alloc send by (simp add: serve_frame_def)
  have "uc_rbuf c2 = []" using closed [OF idle] send by simp
  then show ?thesis
    using c serve frame_header_complete [OF c(1)]
    by (subst client_frames.simps) (auto simp: has_frame_def first_frame_def)
qed

lemma send_error_closes:
  assumes "client_idle c" and "w i = SendError" and "length r \<le> TYPIO_UDS_MAX_FRAME"
  shows "uc_rbuf (snd (snd (client_send_frame w r (i, c)))) = []"
  using assms
  by (simp add: client_send_frame_def client_enqueue_def client_write_def close_client_def client_idle_def
      TYPIO_UDS_WRITEBUF_def)

lemma overflow_closes:
  assumes "client_idle c" and "kernel_takes_all w" and "TYPIO_UDS_WRITEBUF < length r" and "length r \<le> TYPIO_UDS_MAX_FRAME"
  shows "uc_rbuf (snd (snd (client_send_frame w r (i, c)))) = []"
proof -
  have "length (htonl_bytes (of_nat (length r))) \<le> TYPIO_UDS_WRITEBUF" by (simp add: TYPIO_UDS_WRITEBUF_def)
  from client_enqueue_all [OF assms(2) _ _ this, of c i] assms(1,3,4)
  show ?thesis by (auto simp: client_idle_def client_send_frame_def client_enqueue_def close_client_def)
qed

subsection \<open>A frame that does not fit the read buffer\<close>

lemma no_frame_waits:
  assumes "client_idle c" and "uc_rbuf c \<noteq> []" and "\<not> has_frame (uc_rbuf c)"
    and "4 \<le> length (uc_rbuf c) \<Longrightarrow> unat (frame_len_of (uc_rbuf c)) \<le> TYPIO_UDS_MAX_FRAME"
  shows "\<exists>c'. client_frames w alloc f (i, c) h = Inr ((i, c'), h) \<and> client_idle c' \<and> uc_rbuf c' = uc_rbuf c \<and>
     uc_sent c' = uc_sent c"
proof (cases "4 \<le> length (uc_rbuf c)")
  case True
  let ?c1 = "c\<lparr>uc_frame_len := frame_len_of (uc_rbuf c), uc_have_len := True\<rparr>"
  have "client_frames w alloc f (i, c) h = Inr ((i, ?c1), h)"
    using assms(2,3) True frame_header_complete [OF assms(1) True assms(4) [OF True]]
    by (subst client_frames.simps) (simp add: has_frame_def)
  moreover have "client_idle ?c1" using assms(1) True by (simp add: client_idle_def)
  ultimately show ?thesis by auto
next
  case False
  then have "\<not> uc_have_len c" using assms(1) by (auto simp: client_idle_def)
  with False assms(1,2) show ?thesis by (subst client_frames.simps) (simp add: frame_header_def)
qed

lemma no_frame_in_prefix:
  assumes "a @ b = s" and "4 \<le> length s" and "TYPIO_UDS_READBUF < 4 + unat (frame_len_of s)"
    and "length a \<le> TYPIO_UDS_READBUF"
  shows "\<not> has_frame a" and "4 \<le> length a \<Longrightarrow> frame_len_of a = frame_len_of s"
  using assms frame_len_of_append [of a b] by (auto simp: has_frame_def)

lemma closed_drain: "uc_fd c < 0 \<Longrightarrow> drain w alloc f ns p (i, c) h = Inr (p, (i, c), h)"
  by (cases ns) simp_all

lemma long_frame_closes:
  assumes s: "4 \<le> length s" "TYPIO_UDS_READBUF < 4 + unat (frame_len_of s)"
    "unat (frame_len_of s) \<le> TYPIO_UDS_MAX_FRAME" "TYPIO_UDS_READBUF < length s"
  shows "client_idle c \<Longrightarrow> uc_rbuf c @ p = s \<Longrightarrow> length (uc_rbuf c) \<le> TYPIO_UDS_READBUF \<Longrightarrow>
     TYPIO_UDS_READBUF < length ns + length (uc_rbuf c) \<Longrightarrow>
     \<exists>p' c'. drain w alloc f ns p (i, c) h = Inr (p', (i, c'), h) \<and> uc_fd c' < 0 \<and> uc_sent c' = uc_sent c"
proof (induction ns arbitrary: c p)
  case Nil
  then show ?case by simp
next
  case (Cons n ns)
  let ?r = "uc_rbuf c"
  define k where "k = min (Suc n) (min (length p) (TYPIO_UDS_READBUF - length ?r))"
  have p: "p \<noteq> []" using Cons.prems(2,3) s(4) by auto
  have fd: "0 \<le> uc_fd c" using Cons.prems(1) by (simp add: client_idle_def)
  show ?case
  proof (cases "length ?r = TYPIO_UDS_READBUF")
    case True
    then have "client_process_read w alloc f (RecvBytes (take k p)) (i, c) h = Inr ((i, close_client c), h)"
      by (simp add: client_process_read_def)
    from drain_step [OF p fd k_def this]
    have "drain w alloc f (n # ns) p (i, c) h = Inr (drop k p, (i, close_client c), h)"
      using fd by (simp add: closed_drain close_client_def)
    then show ?thesis using fd by (simp add: close_client_def)
  next
    case False
    then have k: "0 < k" "take k p \<noteq> []" "take (TYPIO_UDS_READBUF - length ?r) (take k p) = take k p"
        "length (?r @ take k p) \<le> TYPIO_UDS_READBUF"
      using p Cons.prems(3) by (auto simp: k_def)
    have len: "length (take k p) = k" by (simp add: k_def)
    let ?c = "c\<lparr>uc_rbuf := ?r @ take k p\<rparr>"
    have pre: "(?r @ take k p) @ drop k p = s" using Cons.prems(2) by simp
    have idle: "client_idle ?c" using Cons.prems(1) by (auto simp: client_idle_def frame_len_of_append)
    have "uc_rbuf ?c \<noteq> []" "\<not> has_frame (uc_rbuf ?c)"
        "4 \<le> length (uc_rbuf ?c) \<Longrightarrow> unat (frame_len_of (uc_rbuf ?c)) \<le> TYPIO_UDS_MAX_FRAME"
      using k(2) s(3) no_frame_in_prefix [OF pre s(1,2) k(4)] by simp_all
    from no_frame_waits [OF idle this, where w = w and alloc = alloc and f = f and i = i and h = h] obtain c' where
      c': "client_frames w alloc f (i, ?c) h = Inr ((i, c'), h)" "client_idle c'" "uc_rbuf c' = ?r @ take k p"
        "uc_sent c' = uc_sent c"
      by auto
    have read: "client_process_read w alloc f (RecvBytes (take k p)) (i, c) h = Inr ((i, c'), h)"
      using k(2,3) c'(1) by (simp only: client_process_read_def case_prod_conv recv_outcome.case Let_def if_False)
    have "TYPIO_UDS_READBUF < length ns + length (uc_rbuf c')"
      using Cons.prems(4) k(1) len by (simp add: c'(3))
    moreover have "uc_rbuf c' @ drop k p = s" unfolding c'(3) by (rule pre)
    moreover have "length (uc_rbuf c') \<le> TYPIO_UDS_READBUF" unfolding c'(3) by (rule k(4))
    ultimately show ?thesis
      using Cons.IH [OF c'(2)] c'(4) drain_step [OF p fd k_def read] by simp
  qed
qed

subsection \<open>Broadcasting\<close>

lemma broadcast_to_all:
  assumes "kernel_takes_all w" and "length json \<le> TYPIO_UDS_WRITEBUF" and "client_idle (us_clients srv ! j)"
  shows "\<exists>i. broadcast_to w json j srv =
     (upd_client j ((us_clients srv ! j)\<lparr>uc_sent := uc_sent (us_clients srv ! j) @ frame_bytes json\<rparr>) srv)\<lparr>us_next_send := i\<rparr>"
  using client_send_frame_all [OF assms(1,3,2), of "us_next_send srv"] assms(3)
  by (auto simp: broadcast_to_def Let_def client_idle_def)

lemma broadcast_to_slot:
  assumes "kernel_takes_all w" and "length json \<le> TYPIO_UDS_WRITEBUF" and "j < length (us_clients srv)"
    and "0 \<le> uc_fd (us_clients srv ! j) \<longrightarrow> client_idle (us_clients srv ! j)"
  shows "us_clients (broadcast_to w json j srv) ! k =
     (if k = j \<and> 0 \<le> uc_fd (us_clients srv ! j)
      then (us_clients srv ! j)\<lparr>uc_sent := uc_sent (us_clients srv ! j) @ frame_bytes json\<rparr>
      else us_clients srv ! k)" and "length (us_clients (broadcast_to w json j srv)) = length (us_clients srv)"
proof -
  have "us_clients (broadcast_to w json j srv) ! k =
     (if k = j \<and> 0 \<le> uc_fd (us_clients srv ! j)
      then (us_clients srv ! j)\<lparr>uc_sent := uc_sent (us_clients srv ! j) @ frame_bytes json\<rparr>
      else us_clients srv ! k) \<and> length (us_clients (broadcast_to w json j srv)) = length (us_clients srv)"
  proof (cases "0 \<le> uc_fd (us_clients srv ! j)")
    case True
    with assms(4) have "client_idle (us_clients srv ! j)" by simp
    from broadcast_to_all [OF assms(1,2) this] True assms(3) show ?thesis by (auto simp: upd_client_def nth_list_update)
  next
    case False
    then show ?thesis by (simp add: broadcast_to_def Let_def)
  qed
  then show "us_clients (broadcast_to w json j srv) ! k =
     (if k = j \<and> 0 \<le> uc_fd (us_clients srv ! j)
      then (us_clients srv ! j)\<lparr>uc_sent := uc_sent (us_clients srv ! j) @ frame_bytes json\<rparr>
      else us_clients srv ! k)" and "length (us_clients (broadcast_to w json j srv)) = length (us_clients srv)"
    by auto
qed

lemma broadcast_upto:
  assumes "kernel_takes_all w" and "length json \<le> TYPIO_UDS_WRITEBUF" and "m \<le> length (us_clients srv)"
    and "\<And>j. j < length (us_clients srv) \<Longrightarrow> 0 \<le> uc_fd (us_clients srv ! j) \<Longrightarrow> client_idle (us_clients srv ! j)"
  shows "length (us_clients (fold (broadcast_to w json) [0..<m] srv)) = length (us_clients srv) \<and>
     (\<forall>k. us_clients (fold (broadcast_to w json) [0..<m] srv) ! k =
       (if k < m \<and> 0 \<le> uc_fd (us_clients srv ! k)
        then (us_clients srv ! k)\<lparr>uc_sent := uc_sent (us_clients srv ! k) @ frame_bytes json\<rparr>
        else us_clients srv ! k))"
  using assms(3)
proof (induction m)
  case 0
  then show ?case by simp
next
  case (Suc m)
  let ?s = "fold (broadcast_to w json) [0..<m] srv"
  have ih: "length (us_clients ?s) = length (us_clients srv)" "us_clients ?s ! k =
       (if k < m \<and> 0 \<le> uc_fd (us_clients srv ! k)
        then (us_clients srv ! k)\<lparr>uc_sent := uc_sent (us_clients srv ! k) @ frame_bytes json\<rparr>
        else us_clients srv ! k)" for k
    using Suc by auto
  have "0 \<le> uc_fd (us_clients ?s ! m) \<longrightarrow> client_idle (us_clients ?s ! m)" and m: "m < length (us_clients ?s)"
    using ih assms(4) [of m] Suc.prems by auto
  from broadcast_to_slot [OF assms(1,2) m this(1)] show ?case
    by (auto simp: ih less_Suc_eq)
qed

subsection \<open>Concrete clients\<close>

definition echo :: "u8 list list uds_handler" where
  "echo p h = (Some p, p # h)"

definition all_sends :: sends where
  "all_sends i = SendTakes TYPIO_UDS_WRITEBUF"

definition demo_client :: "u8 list \<Rightarrow> TypioUdsClient" where
  "demo_client b = free_client\<lparr>uc_fd := 5, uc_rbuf := b\<rparr>"

lemma kernel_all_sends: "kernel_takes_all all_sends"
  by (simp add: kernel_takes_all_def all_sends_def)

lemma demo_client_idle: "client_idle (demo_client b)"
  by (simp add: client_idle_def demo_client_def free_client_def)

definition bounded_echo :: "u8 list list uds_handler" where
  "bounded_echo p h = (Some (take TYPIO_UDS_WRITEBUF p), p # h)"

lemma bounded_echo_fits: "responses_fit (Some bounded_echo)"
  by (auto simp: responses_fit_def respond_def bounded_echo_def)

subsection \<open>The properties\<close>

definition demo_accepts :: "uds_event list" where
  "demo_accepts =
     [UdsListen [\<lparr>ac_fd = 5, ac_peer = Some 1000, ac_epoll_ok = True\<rparr>,
                 \<lparr>ac_fd = 6, ac_peer = Some 0, ac_epoll_ok = True\<rparr>],
      UdsClient 5 False True (RecvBytes [0, 0])]"

definition demo_client_5 :: TypioUdsClient where
  "demo_client_5 = free_client\<lparr>uc_fd := 5, uc_peer := Some 1000, uc_rbuf := [0, 0]\<rparr>"

definition demo_server :: TypioUdsServer where
  "demo_server = (uds_server_new 1000)\<lparr>us_clients := demo_client_5 # replicate 15 free_client\<rparr>"

lemma free_client_sel [simp]:
  "uc_fd free_client = -1" "uc_rbuf free_client = []" "uc_wbuf free_client = []" "uc_wpos free_client = 0"
  "uc_sent free_client = []" "uc_closed free_client = False" "uc_have_len free_client = False"
  by (simp_all add: free_client_def)

lemma free_client_upd:
  "free_client\<lparr>uc_fd := d, uc_closed := False, uc_rbuf := [], uc_have_len := False, uc_wbuf := [], uc_wpos := 0,
     uc_sent := [], uc_peer := p\<rparr> = free_client\<lparr>uc_fd := d, uc_peer := p\<rparr>"
  by (simp add: free_client_def)

lemma demo_accepts_run:
  "uds_server_dispatch w (\<lambda>_. True) f demo_accepts (uds_server_new 1000) h = Inr (demo_server, h)"
proof -
  let ?c = "free_client\<lparr>uc_fd := 5, uc_peer := Some 1000\<rparr>"
  let ?srv = "(uds_server_new 1000)\<lparr>us_clients := ?c # replicate 15 free_client\<rparr>"
  have slots: "us_clients (uds_server_new 1000) = free_client # replicate 15 free_client" "us_uid (uds_server_new 1000) = 1000"
    by (simp_all add: uds_server_new_def TYPIO_UDS_MAX_CLIENTS_def eval_nat_numeral)
  have "uds_event_step w (\<lambda>_. True) f (demo_accepts ! 0) (Inr (uds_server_new 1000, h)) = Inr (?srv, h)"
    by (simp add: demo_accepts_def uds_event_step_def accept_client_def find_free_client_def upd_client_def slots free_client_upd)
  moreover have read: "client_frames w (\<lambda>_. True) f (0, demo_client_5) h = Inr ((0, demo_client_5), h)"
    by (subst client_frames.simps) (simp add: frame_header_def demo_client_5_def)
  have "client_process_read w (\<lambda>_. True) f (RecvBytes [0, 0]) (0, ?c) h = Inr ((0, demo_client_5), h)"
    using read by (simp add: client_process_read_def TYPIO_UDS_READBUF_def demo_client_5_def)
  then have "uds_event_step w (\<lambda>_. True) f (demo_accepts ! 1) (Inr (?srv, h)) = Inr (demo_server, h)"
    by (simp add: demo_accepts_def uds_event_step_def uds_client_event_def upd_client_def demo_server_def)
       (simp add: demo_client_5_def uds_server_new_def)
  ultimately show ?thesis by (simp add: uds_server_dispatch_def demo_accepts_def)
qed

text \<open>
  C28. However the kernel cuts the byte stream of a client, its requests of at most 8188 bytes are
  handled once each, in order; the client is sent exactly the framed responses, in order, from
  which a reader of the protocol recovers the responses; and nothing is left in the buffer. This is for
  a client whose connection was idle, enough reads to take all bytes, memory for the messages, responses
  that fit the write buffer, and a kernel that takes the whole buffer at each send: with a longer
  response or a short send the connection can close while it is served (C29).
\<close>

theorem requests_survive_any_delivery:
  assumes "client_idle c" and "uc_rbuf c = []" and "uc_sent c = []"
    and "\<And>m. m \<in> set ms \<Longrightarrow> length m \<le> 8188" and "length (concat (map frame_bytes ms)) \<le> length ns"
    and "kernel_takes_all w" and "responses_fit f"
  shows "\<exists>i' c'. drain w (\<lambda>_. True) f ns (concat (map frame_bytes ms)) (i, c) h =
       Inr ([], (i', c'), snd (serve_all f ms h)) \<and>
     client_idle c' \<and> uc_rbuf c' = [] \<and>
     uc_sent c' = concat (map frame_bytes (fst (serve_all f ms h))) \<and>
     split_frames (uc_sent c') = (fst (serve_all f ms h), [])"
proof -
  have "sane (TYPIO_UDS_READBUF - 4) (concat (map frame_bytes ms))"
    by (rule sane_messages) (use assms(4) in \<open>auto simp: TYPIO_UDS_READBUF_def\<close>)
  moreover have "split_frames (concat (map frame_bytes ms)) = (ms, [])"
  proof -
    have "length m < 2 ^ 32" if "m \<in> set ms" for m using assms(4) [OF that] by simp
    from split_frames_messages [OF this, of ms "[]"] show ?thesis by (simp add: split_frames_none has_frame_def)
  qed
  ultimately obtain i' c' where 1: "drain w (\<lambda>_. True) f ns (concat (map frame_bytes ms)) (i, c) h =
       Inr ([], (i', c'), snd (serve_all f ms h))" "client_idle c'" "uc_rbuf c' = []"
      "uc_sent c' = concat (map frame_bytes (fst (serve_all f ms h)))"
    using drain_all [OF assms(6,7) refl assms(1), of "concat (map frame_bytes ms)" ns i h] assms(2,3,5)
    by (auto simp: has_frame_def)
  moreover have "split_frames (uc_sent c') = (fst (serve_all f ms h), [])"
  proof -
    have "length m < 2 ^ 32" if "m \<in> set (fst (serve_all f ms h))" for m
      by (rule serve_all_short [OF assms(7) that])
    from split_frames_messages [OF this, of _ "[]"] show ?thesis
      by (simp add: 1(4) split_frames_none has_frame_def)
  qed
  ultimately show ?thesis by blast
qed

theorem requests_survive_any_delivery_witness:
  "\<exists>i' c'. drain all_sends (\<lambda>_. True) (Some bounded_echo) (replicate 11 0)
       (concat (map frame_bytes [[104, 105], [33]])) (0, demo_client []) [] =
     Inr ([], (i', c'), [[33], [104, 105]]) \<and> uc_sent c' = [0, 0, 0, 2, 104, 105, 0, 0, 0, 1, 33]"
proof -
  let ?ms = "[[104, 105], [33]] :: u8 list list"
  have serve: "serve_all (Some bounded_echo) ?ms [] = (?ms, [[33], [104, 105]])"
    by (simp add: respond_def bounded_echo_def c_string_def TYPIO_UDS_WRITEBUF_def)
  have "uc_rbuf (demo_client []) = []" "uc_sent (demo_client []) = []"
    by (simp_all add: demo_client_def free_client_def)
  moreover have "length m \<le> 8188" if "m \<in> set ?ms" for m using that by auto
  moreover have "length (concat (map frame_bytes ?ms)) \<le> length (replicate 11 (0 :: nat))"
    by (simp add: frame_bytes_def)
  ultimately obtain i' c' where
    "drain all_sends (\<lambda>_. True) (Some bounded_echo) (replicate 11 0) (concat (map frame_bytes ?ms)) (0, demo_client []) [] =
       Inr ([], (i', c'), snd (serve_all (Some bounded_echo) ?ms []))"
    "uc_sent c' = concat (map frame_bytes (fst (serve_all (Some bounded_echo) ?ms [])))"
    using requests_survive_any_delivery [OF demo_client_idle _ _ _ _ kernel_all_sends bounded_echo_fits, of "[]" ?ms "replicate 11 0" 0 "[]"]
    by blast
  moreover have "concat (map frame_bytes ?ms) = [0, 0, 0, 2, 104, 105, 0, 0, 0, 1, 33]"
    by (simp add: frame_bytes_def htonl_bytes_def)
  ultimately show ?thesis unfolding serve by auto
qed

text \<open>
  C29. When the client is closed while the response to one of its requests is written (the peer is
  gone, or the response is longer than the 64 KiB write buffer although at most the 1 MiB a frame
  may have), the loop that consumes the request goes on with the lengths that closing has reset
  and calls \<^verbatim>\<open>memmove\<close> with a length of 0 - 4.
\<close>

theorem close_while_served_faults:
  assumes "client_idle c" and "has_frame (uc_rbuf c)"
    and "unat (frame_len_of (uc_rbuf c)) \<le> TYPIO_UDS_MAX_FRAME"
    and "respond f (first_frame (uc_rbuf c)) h = (Some r, h')" and "length r \<le> TYPIO_UDS_MAX_FRAME"
    and "w i = SendError \<or> kernel_takes_all w \<and> TYPIO_UDS_WRITEBUF < length r"
  shows "client_frames w (\<lambda>_. True) f (i, c) h = Inl MemmoveUnderflow"
  by (rule closed_while_served [OF assms(1-3) _ assms(4)])
     (use assms(5,6) send_error_closes overflow_closes in auto)

theorem close_while_served_faults_witness:
  "client_frames (\<lambda>_. SendError) (\<lambda>_. True) (Some echo) (0, demo_client [0, 0, 0, 1, 104]) [] = Inl MemmoveUnderflow \<and>
   client_frames all_sends (\<lambda>_. True) (Some (\<lambda>p h. (Some (replicate 65537 65), h))) (0, demo_client [0, 0, 0, 1, 104]) () =
     Inl MemmoveUnderflow"
proof
  let ?c = "demo_client [0, 0, 0, 1, 104]"
  have len: "frame_len_of [0, 0, 0, 1, 104] = 1" by (simp add: frame_len_of_def)
  have c: "client_idle ?c" "has_frame (uc_rbuf ?c)" "unat (frame_len_of (uc_rbuf ?c)) \<le> TYPIO_UDS_MAX_FRAME"
    by (rule demo_client_idle)
      (simp_all add: demo_client_def free_client_def has_frame_def len TYPIO_UDS_MAX_FRAME_def)
  have frame: "first_frame (uc_rbuf ?c) = [104]" by (simp add: demo_client_def free_client_def first_frame_def len)
  show "client_frames (\<lambda>_. SendError) (\<lambda>_. True) (Some echo) (0, ?c) [] = Inl MemmoveUnderflow"
    by (rule close_while_served_faults [OF c, of _ _ "[104]" "[[104]]"])
       (simp_all add: frame respond_def echo_def c_string_def TYPIO_UDS_MAX_FRAME_def)
  show "client_frames all_sends (\<lambda>_. True) (Some (\<lambda>p h. (Some (replicate 65537 65), h))) (0, ?c) () = Inl MemmoveUnderflow"
    by (rule close_while_served_faults [OF c, of _ _ "replicate 65537 65" "()"])
       (simp_all add: respond_def kernel_all_sends TYPIO_UDS_MAX_FRAME_def TYPIO_UDS_WRITEBUF_def del: replicate.simps)
qed

text \<open>
  A request of more than 8188 bytes, although a frame may have 1 MiB, is never served: its
  frame does not fit the 8 KiB read buffer, the read with no room left returns 0, and the client is
  closed as if it had hung up. However its bytes arrive, the handler is not called and nothing is
  sent.
\<close>

theorem long_request_closes_client:
  assumes "client_idle c" and "uc_rbuf c = []" and "8188 < length m" and "length m \<le> TYPIO_UDS_MAX_FRAME"
    and "TYPIO_UDS_READBUF < length ns"
  shows "\<exists>p' c'. drain w alloc f ns (frame_bytes m @ p) (i, c) h = Inr (p', (i, c'), h) \<and> uc_fd c' < 0 \<and>
     uc_sent c' = uc_sent c"
proof (rule long_frame_closes)
  have len: "unat (frame_len_of (frame_bytes m @ p)) = length m"
    using assms(4) by (simp add: frame_bytes_def unat_of_nat take_bit_nat_eq_self TYPIO_UDS_MAX_FRAME_def)
  show "4 \<le> length (frame_bytes m @ p)" "TYPIO_UDS_READBUF < length (frame_bytes m @ p)"
    using assms(3) by (simp_all add: frame_bytes_def TYPIO_UDS_READBUF_def)
  show "TYPIO_UDS_READBUF < 4 + unat (frame_len_of (frame_bytes m @ p))"
    "unat (frame_len_of (frame_bytes m @ p)) \<le> TYPIO_UDS_MAX_FRAME"
    unfolding len using assms(3,4) by (simp_all add: TYPIO_UDS_READBUF_def)
qed (use assms in simp_all)

theorem long_request_closes_client_witness:
  "\<exists>p' c'. drain all_sends (\<lambda>_. True) (Some echo) (replicate 9000 0) (frame_bytes (replicate 9000 65)) (0, demo_client []) [] =
     Inr (p', (0, c'), []) \<and> uc_fd c' < 0 \<and> uc_sent c' = []"
proof -
  have "uc_rbuf (demo_client []) = []" "uc_sent (demo_client []) = []" by (simp_all add: demo_client_def free_client_def)
  with long_request_closes_client [OF demo_client_idle, of "[]" "replicate 9000 65" "replicate 9000 0" all_sends
      "\<lambda>_. True" "Some echo" "[]" 0 "[]"]
  show ?thesis by (simp add: TYPIO_UDS_MAX_FRAME_def TYPIO_UDS_READBUF_def del: replicate.simps)
qed

text \<open>
  C31. Whatever connects, sends and disconnects, as long as the server does not fault: it has
  sixteen slots, its buffers stay within their arrays and the write position within the write
  buffer, a free slot holds no data, and a connected peer whose credentials could be read has the
  server's user.
\<close>

theorem server_stays_in_bounds:
  assumes "list_all event_valid evs" and "uds_server_dispatch w alloc f evs (uds_server_new uid) h = Inr (srv, h')"
    and "c \<in> set (us_clients srv)"
  shows "length (us_clients srv) = 16 \<and> length (uc_rbuf c) \<le> 8192 \<and> length (uc_wbuf c) \<le> 65536 \<and>
     uc_wpos c \<le> length (uc_wbuf c) \<and> (uc_fd c < 0 \<longrightarrow> uc_rbuf c = [] \<and> uc_wbuf c = []) \<and>
     (0 \<le> uc_fd c \<longrightarrow> (\<forall>u. uc_peer c = Some u \<longrightarrow> u = uid))"
  using uds_server_dispatch_ok [OF uds_server_new_ok assms(1), of uid w alloc f h] assms(2,3)
  by (auto simp: result_ok_def server_ok_def client_ok_def uds_server_new_def
      TYPIO_UDS_MAX_CLIENTS_def TYPIO_UDS_READBUF_def TYPIO_UDS_WRITEBUF_def)

theorem server_stays_in_bounds_witness:
  "\<exists>srv. uds_server_dispatch all_sends (\<lambda>_. True) (Some echo) demo_accepts (uds_server_new 1000) [] = Inr (srv, []) \<and>
     demo_client_5 \<in> set (us_clients srv) \<and> length (us_clients srv) = 16 \<and> length (uc_rbuf demo_client_5) \<le> 8192"
proof -
  have valid: "list_all event_valid demo_accepts" by (simp add: demo_accepts_def event_valid_def)
  have in_srv: "demo_client_5 \<in> set (us_clients demo_server)" by (simp add: demo_server_def)
  note bounds = server_stays_in_bounds [OF valid demo_accepts_run in_srv]
  show ?thesis by (intro exI conjI, rule demo_accepts_run, rule in_srv) (simp_all add: bounds)
qed

text \<open>
  A notification reaches every connected client: when no earlier bytes are pending, each is
  sent the framed notification, and nothing else of any client changes.
\<close>

theorem broadcast_reaches_all:
  assumes "kernel_takes_all w" and "length json \<le> TYPIO_UDS_WRITEBUF"
    and "length (us_clients srv) = TYPIO_UDS_MAX_CLIENTS"
    and "\<And>c. c \<in> set (us_clients srv) \<Longrightarrow> 0 \<le> uc_fd c \<Longrightarrow> client_idle c"
  shows "us_clients (uds_server_broadcast w json srv) =
     map (\<lambda>c. if 0 \<le> uc_fd c then c\<lparr>uc_sent := uc_sent c @ frame_bytes json\<rparr> else c) (us_clients srv)"
proof -
  have "client_idle (us_clients srv ! j)" if "j < length (us_clients srv)" "0 \<le> uc_fd (us_clients srv ! j)" for j
    using assms(4) that by simp
  note b = broadcast_upto [OF assms(1,2) eq_refl [OF assms(3) [symmetric]] this]
  show ?thesis
    by (rule nth_equalityI) (use b assms(3) in \<open>auto simp: uds_server_broadcast_def\<close>)
qed

theorem broadcast_reaches_all_witness:
  "uc_sent (us_clients (uds_server_broadcast all_sends [123, 125] demo_server) ! 0) = [0, 0, 0, 2, 123, 125] \<and>
   uc_sent (us_clients (uds_server_broadcast all_sends [123, 125] demo_server) ! 1) = []"
proof -
  have "length (us_clients demo_server) = TYPIO_UDS_MAX_CLIENTS"
    by (simp add: demo_server_def TYPIO_UDS_MAX_CLIENTS_def)
  moreover have "client_idle c" if "c \<in> set (us_clients demo_server)" "0 \<le> uc_fd c" for c
    using that by (auto simp: demo_server_def free_client_def demo_client_5_def client_idle_def)
  moreover have "length [123, 125 :: u8] \<le> TYPIO_UDS_WRITEBUF" by (simp add: TYPIO_UDS_WRITEBUF_def)
  ultimately have "us_clients (uds_server_broadcast all_sends [123, 125] demo_server) =
      map (\<lambda>c. if 0 \<le> uc_fd c then c\<lparr>uc_sent := uc_sent c @ frame_bytes [123, 125]\<rparr> else c) (us_clients demo_server)"
    by (intro broadcast_reaches_all [OF kernel_all_sends])
  then show ?thesis
    by (simp add: demo_server_def demo_client_5_def frame_bytes_def htonl_bytes_def)
qed

end
