(* ===== verification/C_Strings.thy ===== *)
theory C_Strings
  imports Typio_Prelude
begin

section \<open>C strings\<close>

text \<open>
  The functions of \<^verbatim>\<open>string.h\<close>, \<^verbatim>\<open>ctype.h\<close> and \<^verbatim>\<open>stdlib.h\<close> that the sources call, in the
  C locale. A C string is the list of its characters before the terminating zero; a pointer into
  one is the list that remains, so that the terminator is the empty list.

  The second part is the interface of encoders whose output can be cut back into its items.
\<close>

subsection \<open>Characters\<close>

definition is_space :: "char \<Rightarrow> bool" where
  "is_space c \<longleftrightarrow> c = CHR '' '' \<or> (9 \<le> (of_char c :: nat) \<and> (of_char c :: nat) \<le> 13)"

definition is_digit :: "char \<Rightarrow> bool" where
  "is_digit c \<longleftrightarrow> 48 \<le> (of_char c :: nat) \<and> (of_char c :: nat) \<le> 57"

definition is_lower :: "char \<Rightarrow> bool" where
  "is_lower c \<longleftrightarrow> 97 \<le> (of_char c :: nat) \<and> (of_char c :: nat) \<le> 122"

definition is_upper :: "char \<Rightarrow> bool" where
  "is_upper c \<longleftrightarrow> 65 \<le> (of_char c :: nat) \<and> (of_char c :: nat) \<le> 90"

definition tolower :: "char \<Rightarrow> char" where
  "tolower c = (if is_upper c then char_of ((of_char c :: nat) + 32) else c)"

definition toupper :: "char \<Rightarrow> char" where
  "toupper c = (if is_lower c then char_of ((of_char c :: nat) - 32) else c)"

definition is_alpha :: "char \<Rightarrow> bool" where
  "is_alpha c \<longleftrightarrow> is_lower c \<or> is_upper c"

definition is_alnum :: "char \<Rightarrow> bool" where
  "is_alnum c \<longleftrightarrow> is_alpha c \<or> is_digit c"

abbreviation dquote :: char where "dquote \<equiv> CHR 0x22"
abbreviation backslash :: char where "backslash \<equiv> CHR 0x5C"

lemma tolower_lower [simp]: "is_lower c \<Longrightarrow> tolower c = c"
  by (simp add: tolower_def is_lower_def is_upper_def)

lemma digit_not_space [simp]: "is_digit c \<Longrightarrow> \<not> is_space c"
  by (auto simp: is_digit_def is_space_def)

text \<open>A nullable string, read as the empty string when it is null.\<close>

definition or_empty :: "string option \<Rightarrow> string" where
  "or_empty s = (case s of None \<Rightarrow> [] | Some s \<Rightarrow> s)"

lemma or_empty_simps [simp]: "or_empty None = []" "or_empty (Some s) = s"
  by (simp_all add: or_empty_def)

subsection \<open>Searching\<close>

definition skip_ws :: "string \<Rightarrow> string" where
  "skip_ws s = dropWhile is_space s"

definition starts_with :: "'a list \<Rightarrow> 'a list \<Rightarrow> bool" where
  "starts_with p s \<longleftrightarrow> take (length p) s = p"

text \<open>The rest of the text from the first occurrence on.\<close>

fun strstr :: "'a list \<Rightarrow> 'a list \<Rightarrow> 'a list option" where
  "strstr p [] = (if p = [] then Some [] else None)"
| "strstr p (c # s) = (if starts_with p (c # s) then Some (c # s) else strstr p s)"

lemma starts_with_append [simp]: "starts_with p (p @ s)"
  by (simp add: starts_with_def)

lemma strstr_here [simp]: "strstr p (p @ s) = Some (p @ s)"
proof (cases "p @ s")
  case Nil
  then show ?thesis by simp
next
  case (Cons c t)
  then show ?thesis using starts_with_append [of p s] by simp
qed

lemma strstr_suffix: "strstr p s = Some r \<Longrightarrow> \<exists>a. s = a @ r \<and> starts_with p r"
proof (induction s)
  case Nil
  then show ?case by (auto simp: starts_with_def split: if_splits)
next
  case (Cons c s)
  then show ?case by (auto split: if_splits intro: exI [of _ "c # a" for a])
qed

lemma strstr_none: "strstr p s = None \<Longrightarrow> s \<noteq> a @ p @ b"
proof (induction s arbitrary: a)
  case Nil
  then show ?case by (auto split: if_splits)
next
  case (Cons c s)
  show ?case
  proof
    assume eq: "c # s = a @ p @ b"
    have "a \<noteq> []" using Cons.prems eq by (auto simp: starts_with_def split: if_splits)
    then obtain a' where "s = a' @ p @ b" using eq by (cases a) auto
    with Cons show False by (auto split: if_splits)
  qed
qed

lemma skip_ws_cons [simp]: "\<not> is_space c \<Longrightarrow> skip_ws (c # s) = c # s"
  by (simp add: skip_ws_def)

lemma skip_ws_nil [simp]: "skip_ws [] = []"
  by (simp add: skip_ws_def)

lemma length_skip_ws: "length (skip_ws s) \<le> length s"
  by (simp add: skip_ws_def length_dropWhile_le)

text \<open>Texts joined by a separator.\<close>

primrec join_with :: "string \<Rightarrow> string list \<Rightarrow> string" where
  "join_with sep [] = []"
| "join_with sep (x # xs) = x @ (if xs = [] then [] else sep @ join_with sep xs)"

subsection \<open>Decimal numbers\<close>

definition digit_char :: "nat \<Rightarrow> char" where
  "digit_char d = char_of (d + 48)"

definition digit_value :: "char \<Rightarrow> nat" where
  "digit_value c = of_char c - 48"

fun show_nat :: "nat \<Rightarrow> string" where
  "show_nat n = (if n < 10 then [digit_char n] else show_nat (n div 10) @ [digit_char (n mod 10)])"

declare show_nat.simps [simp del]

definition show_int :: "int \<Rightarrow> string" where
  "show_int i = (if i < 0 then CHR ''-'' # show_nat (nat (- i)) else show_nat (nat i))"

definition digits_value :: "string \<Rightarrow> nat" where
  "digits_value ds = fold (\<lambda>c n. 10 * n + digit_value c) ds 0"

text \<open>\<^verbatim>\<open>strtol\<close> in base ten: white space, a sign, digits; the result is clamped to a \<^verbatim>\<open>long\<close>.\<close>

definition strtol10 :: "string \<Rightarrow> int" where
  "strtol10 s =
     (let s = skip_ws s;
          neg = (s \<noteq> [] \<and> hd s = CHR ''-'');
          s = (if s \<noteq> [] \<and> (hd s = CHR ''-'' \<or> hd s = CHR ''+'') then tl s else s);
          v = int (digits_value (takeWhile is_digit s));
          v = (if neg then - v else v)
      in max (- (2 ^ 63)) (min (2 ^ 63 - 1) v))"

lemma of_char_char_of_small: "n < 256 \<Longrightarrow> of_char (char_of n :: char) = (n :: nat)"
  by simp

lemma digit_char_digit: "d < 10 \<Longrightarrow> is_digit (digit_char d)" and digit_value_char: "d < 10 \<Longrightarrow> digit_value (digit_char d) = d"
  by (simp_all add: is_digit_def digit_char_def digit_value_def of_char_char_of_small)

lemma digits_value_append: "digits_value (ds @ [c]) = 10 * digits_value ds + digit_value c"
  by (simp add: digits_value_def)

lemma show_nat_digits: "set (show_nat n) \<subseteq> {c. is_digit c}"
proof (induction n rule: show_nat.induct)
  case (1 n)
  then show ?case by (subst show_nat.simps) (auto simp: digit_char_digit)
qed

lemma show_nat_value: "digits_value (show_nat n) = n"
proof (induction n rule: show_nat.induct)
  case (1 n)
  then show ?case
    by (subst show_nat.simps) (auto simp: digits_value_append digit_value_char digits_value_def)
qed

lemma show_nat_nonempty [simp]: "show_nat n \<noteq> []"
  by (subst show_nat.simps) simp

lemma takeWhile_digits:
  assumes "s = [] \<or> \<not> is_digit (hd s)"
  shows "takeWhile is_digit (show_nat n @ s) = show_nat n"
proof -
  have "takeWhile is_digit s = []" using assms by (cases s) auto
  then show ?thesis using show_nat_digits [of n] by (subst takeWhile_append2) auto
qed

lemma show_nat_head: "\<exists>c ds. show_nat n = c # ds \<and> is_digit c"
  using show_nat_digits [of n] show_nat_nonempty [of n] by (cases "show_nat n") auto

lemma strtol_show_int:
  assumes "- (2 ^ 63) \<le> i" and "i < 2 ^ 63" and "s = [] \<or> \<not> is_digit (hd s)"
  shows "strtol10 (show_int i @ s) = i"
proof (cases "i < 0")
  case True
  have "\<not> is_space (CHR ''-'')" by (simp add: is_space_def)
  with True assms show ?thesis
    by (simp add: strtol10_def show_int_def takeWhile_digits show_nat_value)
next
  case False
  obtain c ds where c: "show_nat (nat i) = c # ds" "is_digit c" using show_nat_head by blast
  have "c \<noteq> CHR ''-''" "c \<noteq> CHR ''+''" using c(2) by (auto simp: is_digit_def)
  moreover have "takeWhile is_digit (c # ds @ s) = show_nat (nat i)"
    using takeWhile_digits [OF assms(3), of "nat i"] c(1) by simp
  ultimately show ?thesis
    using False assms c show_nat_value [of "nat i"]
    by (simp add: strtol10_def show_int_def digit_not_space del: takeWhile.simps)
qed

subsection \<open>Hexadecimal digits\<close>

text \<open>The digit strings \<^verbatim>\<open>0123456789abcdef\<close> and the lower-case \<^verbatim>\<open>%x\<close>.\<close>

definition hex_digit :: "nat \<Rightarrow> char" where
  "hex_digit d = (if d < 10 then char_of (d + 48) else char_of (d + 87))"

definition hex_value :: "char \<Rightarrow> nat option" where
  "hex_value c =
     (let n = of_char c :: nat
      in if 48 \<le> n \<and> n \<le> 57 then Some (n - 48) else if 97 \<le> n \<and> n \<le> 102 then Some (n - 87) else None)"

fun show_hex :: "nat \<Rightarrow> string" where
  "show_hex n = (if n < 16 then [hex_digit n] else show_hex (n div 16) @ [hex_digit (n mod 16)])"

declare show_hex.simps [simp del]

lemma hex_value_digit [simp]: "d < 16 \<Longrightarrow> hex_value (hex_digit d) = Some d"
  by (simp add: hex_value_def hex_digit_def of_char_char_of_small Let_def)

subsection \<open>Lines of a file\<close>

text \<open>\<^verbatim>\<open>fgets\<close> with a buffer of \<open>n\<close> bytes: up to \<open>n - 1\<close> characters, to the end of a line at most.\<close>

definition fgets_line :: "nat \<Rightarrow> string \<Rightarrow> string" where
  "fgets_line n s =
     (let pre = take (n - 1) s; l = takeWhile (\<lambda>c. c \<noteq> CHR 0x0A) pre
      in if length l < length pre then l @ [CHR 0x0A] else l)"

lemma length_fgets_line: "s \<noteq> [] \<Longrightarrow> 2 \<le> n \<Longrightarrow> 0 < length (fgets_line n s)"
  by (cases s; cases n; cases "n - 1") (auto simp: fgets_line_def Let_def)

function fgets_lines :: "nat \<Rightarrow> string \<Rightarrow> string list" where
  "fgets_lines n s = (if s = [] \<or> n < 2 then [] else fgets_line n s # fgets_lines n (drop (length (fgets_line n s)) s))"
  by auto
termination
proof (relation "measure (\<lambda>(n, s). length s)")
  fix n :: nat and s :: string
  assume "\<not> (s = [] \<or> n < 2)"
  then show "((n, drop (length (fgets_line n s)) s), n, s) \<in> measure (\<lambda>(n, s). length s)" using length_fgets_line [of s n] by simp
qed simp

declare fgets_lines.simps [simp del]

subsection \<open>The interface of stream codecs\<close>

text \<open>
  An encoder of items as non-empty strings of symbols, and a reader that takes one item off the
  front of a stream. Concatenated encodings can then be read back, and are unambiguous.
\<close>

locale stream_codec =
  fixes ok :: "'a \<Rightarrow> bool" and enc :: "'a \<Rightarrow> 'b list" and get :: "'b list \<Rightarrow> ('a \<times> 'b list) option"
  assumes get_enc: "ok x \<Longrightarrow> get (enc x @ r) = Some (x, r)"
    and enc_nonempty: "ok x \<Longrightarrow> enc x \<noteq> []"
begin

primrec decode_n :: "nat \<Rightarrow> 'b list \<Rightarrow> 'a list option" where
  "decode_n 0 bs = (if bs = [] then Some [] else None)"
| "decode_n (Suc n) bs =
     (if bs = [] then Some []
      else (case get bs of None \<Rightarrow> None | Some (x, r) \<Rightarrow> map_option (Cons x) (decode_n n r)))"

definition decode :: "'b list \<Rightarrow> 'a list option" where
  "decode bs = decode_n (length bs) bs"

definition encode :: "'a list \<Rightarrow> 'b list" where
  "encode xs = concat (map enc xs)"

lemma decode_n_encode: "list_all ok xs \<Longrightarrow> length xs \<le> n \<Longrightarrow> decode_n n (encode xs) = Some xs"
proof (induction xs arbitrary: n)
  case Nil
  then show ?case by (cases n) (simp_all add: encode_def)
next
  case (Cons x xs)
  then obtain m where m: "n = Suc m" by (cases n) auto
  have "enc x \<noteq> []" "get (enc x @ encode xs) = Some (x, encode xs)"
    using Cons.prems get_enc enc_nonempty by auto
  with Cons m show ?case by (simp add: encode_def)
qed

lemma length_encode: "list_all ok xs \<Longrightarrow> length xs \<le> length (encode xs)"
proof (induction xs)
  case Nil
  then show ?case by (simp add: encode_def)
next
  case (Cons x xs)
  then have "enc x \<noteq> []" "length xs \<le> length (encode xs)" using enc_nonempty by auto
  then show ?case by (cases "enc x") (simp_all add: encode_def)
qed

lemma decode_encode: "list_all ok xs \<Longrightarrow> decode (encode xs) = Some xs"
  unfolding decode_def by (rule decode_n_encode) (auto intro: length_encode)

lemma encode_inj: "list_all ok xs \<Longrightarrow> list_all ok ys \<Longrightarrow> encode xs = encode ys \<Longrightarrow> xs = ys"
  by (metis decode_encode option.inject)

end

end
