(* ===== verification/Tip_Json.thy ===== *)
theory Tip_Json
  imports C_Strings
begin

section \<open>JSON for the IPC bus\<close>

text \<open>
  The ad-hoc JSON of \<^verbatim>\<open>daemon/ipc/tip_json.c\<close>: the readers that scan for a key, the growable
  buffer of the writers, and the three JSON-RPC frames. Pointer arguments are not null and
  allocations succeed (the code does not test the result of its \<^verbatim>\<open>realloc\<close>); numbers written
  with \<^verbatim>\<open>%g\<close> are not modelled.
\<close>

subsection \<open>Reading\<close>

definition quoted :: "string \<Rightarrow> string" where
  "quoted key = dquote # key @ [dquote]"

text \<open>What follows a key, its colon and white space.\<close>

definition after_key :: "string \<Rightarrow> string \<Rightarrow> string option" where
  "after_key pattern json = (case strstr pattern json of
       None \<Rightarrow> None
     | Some s \<Rightarrow>
         (case skip_ws (drop (length pattern) s) of
            [] \<Rightarrow> None
          | c # s \<Rightarrow> if c = CHR '':'' then Some (skip_ws s) else None))"

text \<open>The characters of a string up to an unescaped quote, and the rest.\<close>

fun string_body :: "bool \<Rightarrow> string \<Rightarrow> string \<times> string" where
  "string_body escaped [] = ([], [])"
| "string_body escaped (c # s) =
     (if c = dquote \<and> \<not> escaped then ([], c # s)
      else (case string_body (c = backslash \<and> \<not> escaped) s of (b, r) \<Rightarrow> (c # b, r)))"

definition tip_json_extract_string :: "string \<Rightarrow> string \<Rightarrow> string option" where
  "tip_json_extract_string json key =
     (if length key > 100 then None
      else (case after_key (quoted key) json of
              Some (q # s) \<Rightarrow>
                if q \<noteq> dquote then None
                else (case string_body False s of (b, r) \<Rightarrow> if r = [] then None else Some b)
            | _ \<Rightarrow> None))"

text \<open>A \<^verbatim>\<open>long\<close> cast to \<^verbatim>\<open>int\<close>.\<close>

definition int_of_long :: "int \<Rightarrow> int" where
  "int_of_long v = sint (word_of_int v :: u32)"

definition tip_json_extract_id :: "string \<Rightarrow> int option" where
  "tip_json_extract_id json =
     map_option (\<lambda>s. int_of_long (strtol10 s)) (after_key (quoted ''id'') json)"

text \<open>
  The value of the parameters: what a brace encloses, or the text up to a comma or a brace. In a
  string, the scan looks at the character before a quote.
\<close>

fun skip_string :: "char \<Rightarrow> string \<Rightarrow> string \<times> string" where
  "skip_string prev [] = ([], [])"
| "skip_string prev (c # s) =
     (if c = dquote \<and> prev \<noteq> backslash then ([], c # s)
      else (case skip_string c s of (a, r) \<Rightarrow> (c # a, r)))"

lemma length_skip_string: "skip_string p s = (a, r) \<Longrightarrow> length r \<le> length s"
  by (induction p s arbitrary: a rule: skip_string.induct) (fastforce split: if_splits prod.splits)+

function scan_object :: "nat \<Rightarrow> string \<Rightarrow> string" where
  "scan_object depth s =
     (case s of
        [] \<Rightarrow> []
      | c # s' \<Rightarrow>
          if depth = 0 then []
          else if c = dquote then
            (case skip_string c s' of
               (a, []) \<Rightarrow> c # a
             | (a, q # r) \<Rightarrow> c # a @ q # scan_object depth r)
          else c # scan_object (if c = CHR ''{'' then depth + 1 else if c = CHR ''}'' then depth - 1 else depth) s')"
  by pat_completeness auto
termination
  by (relation "measure (\<lambda>(d, s). length s)") (auto dest!: length_skip_string [OF sym])

declare scan_object.simps [simp del]

datatype params = ParamsError | ParamsAbsent | Params string

definition tip_json_extract_params :: "string \<Rightarrow> params" where
  "tip_json_extract_params json =
     (if strstr (quoted ''params'') json = None then ParamsAbsent
      else (case after_key (quoted ''params'') json of
              None \<Rightarrow> ParamsError
            | Some (c # s) \<Rightarrow>
                if c = CHR ''{'' then Params (c # scan_object 1 s)
                else Params (takeWhile (\<lambda>c. c \<noteq> CHR '','' \<and> c \<noteq> CHR ''}'') (c # s))
            | Some [] \<Rightarrow> Params []))"

lemma length_string_body: "string_body e s = (a, r) \<Longrightarrow> length r \<le> length s"
  by (induction e s arbitrary: a rule: string_body.induct) (fastforce split: if_splits prod.splits)+

text \<open>The loop over the elements of an array; \<open>acc\<close> holds the strings stored so far.\<close>

function scan_array :: "nat \<Rightarrow> string list \<Rightarrow> string \<Rightarrow> string list" where
  "scan_array max_count acc s =
     (case s of
        [] \<Rightarrow> acc
      | _ \<Rightarrow>
         (case skip_ws s of
            [] \<Rightarrow> acc
          | c # t \<Rightarrow>
              if c = CHR '']'' then acc
              else if c = CHR '','' then scan_array max_count acc t
              else if c = dquote then
                (case string_body False t of (b, r) \<Rightarrow>
                   scan_array max_count (if length acc < max_count then acc @ [b] else acc) (drop 1 r))
              else scan_array max_count acc (dropWhile (\<lambda>c. c \<noteq> CHR '','' \<and> c \<noteq> CHR '']'') (c # t))))"
  by pat_completeness auto
termination
proof (relation "measure (\<lambda>(m, acc, s). length s)", goal_cases)
  case 1
  show ?case by simp
next
  case (2 m acc s v va c t)
  then show ?case using length_skip_ws [of s] by simp
next
  case (3 m acc s v va c t x y)
  then show ?case using length_skip_ws [of s] length_string_body [of False t x y] by simp
next
  case (4 m acc s v va c t)
  have "length (dropWhile (\<lambda>c. c \<noteq> CHR '','' \<and> c \<noteq> CHR '']'') t) \<le> length t" by (rule length_dropWhile_le)
  with 4 show ?case using length_skip_ws [of s] by simp
qed

declare scan_array.simps [simp del]

definition tip_json_extract_string_array :: "string \<Rightarrow> string \<Rightarrow> int \<Rightarrow> string list option" where
  "tip_json_extract_string_array json key max_count =
     (if max_count \<le> 0 then None
      else (case after_key (quoted key) json of
              Some (c # s) \<Rightarrow> if c = CHR ''['' then Some (scan_array (nat max_count) [] s) else None
            | _ \<Rightarrow> None))"

subsection \<open>Writing\<close>

text \<open>The buffer: its capacity, and the text before the terminating zero.\<close>

record TipJsonBuilder =
  jb_cap :: nat
  jb_text :: string

definition tip_json_builder_new :: TipJsonBuilder where
  "tip_json_builder_new = \<lparr>jb_cap = 256, jb_text = []\<rparr>"

function grow_cap :: "nat \<Rightarrow> nat \<Rightarrow> nat" where
  "grow_cap cap need = (if cap = 0 \<or> need \<le> cap then cap else grow_cap (cap * 2) need)"
  by pat_completeness auto
termination
  by (relation "measure (\<lambda>(cap, need). need - cap)") auto

declare grow_cap.simps [simp del]

definition ensure_cap :: "nat \<Rightarrow> TipJsonBuilder \<Rightarrow> TipJsonBuilder" where
  "ensure_cap need b =
     (if length (jb_text b) + need \<ge> jb_cap b
      then b\<lparr>jb_cap := grow_cap (jb_cap b * 2) (length (jb_text b) + need + 1)\<rparr> else b)"

definition append_raw :: "string \<Rightarrow> TipJsonBuilder \<Rightarrow> TipJsonBuilder" where
  "append_raw s b =
     (let b = ensure_cap (length s + 1) b in b\<lparr>jb_text := jb_text b @ s\<rparr>)"

definition escape_char :: "char \<Rightarrow> string" where
  "escape_char c =
     (if c = dquote then [backslash, dquote]
      else if c = backslash then [backslash, backslash]
      else if c = CHR 0x08 then [backslash, CHR ''b'']
      else if c = CHR 0x0C then [backslash, CHR ''f'']
      else if c = CHR 0x0A then [backslash, CHR ''n'']
      else if c = CHR 0x0D then [backslash, CHR ''r'']
      else if c = CHR 0x09 then [backslash, CHR ''t'']
      else if (of_char c :: nat) < 0x20
      then [backslash, CHR ''u'', CHR ''0'', CHR ''0'', hex_digit (of_char c div 16), hex_digit (of_char c mod 16)]
      else [c])"

definition append_string :: "string option \<Rightarrow> TipJsonBuilder \<Rightarrow> TipJsonBuilder" where
  "append_string s b =
     append_raw [dquote]
       (fold (\<lambda>c. append_raw (escape_char c)) (or_empty s) (append_raw [dquote] b))"

definition append_int :: "int \<Rightarrow> TipJsonBuilder \<Rightarrow> TipJsonBuilder" where
  "append_int v = append_raw (show_int v)"

definition append_uint32 :: "u32 \<Rightarrow> TipJsonBuilder \<Rightarrow> TipJsonBuilder" where
  "append_uint32 v = append_raw (show_nat (unat v))"

definition append_bool :: "bool \<Rightarrow> TipJsonBuilder \<Rightarrow> TipJsonBuilder" where
  "append_bool v = append_raw (if v then ''true'' else ''false'')"

definition append_null :: "TipJsonBuilder \<Rightarrow> TipJsonBuilder" where
  "append_null = append_raw ''null''"

definition append_key :: "string \<Rightarrow> TipJsonBuilder \<Rightarrow> TipJsonBuilder" where
  "append_key k b = append_raw '':'' (append_string (Some k) b)"

text \<open>
  Raw text in the sources with its quotes, written here from parts.
\<close>

definition rpc_head :: string where
  "rpc_head = CHR ''{'' # quoted ''jsonrpc'' @ '':'' @ quoted ''2.0'' @ '',''"

definition tip_json_build_response :: "int \<Rightarrow> string option \<Rightarrow> string" where
  "tip_json_build_response rid result =
     (let b = append_raw (rpc_head @ quoted ''id'' @ '':'') tip_json_builder_new;
          b = append_int rid b;
          b = append_raw (CHR '','' # quoted ''result'' @ '':'') b;
          b = append_raw (case result of Some r \<Rightarrow> r | None \<Rightarrow> ''null'') b;
          b = append_raw ''}'' b
      in jb_text b)"

definition tip_json_build_error :: "int \<Rightarrow> int \<Rightarrow> string option \<Rightarrow> string" where
  "tip_json_build_error rid code message =
     (let b = append_raw (rpc_head @ quoted ''id'' @ '':'') tip_json_builder_new;
          b = append_int rid b;
          b = append_raw (CHR '','' # quoted ''error'' @ '':{'' @ quoted ''code'' @ '':'') b;
          b = append_int code b;
          b = append_raw (CHR '','' # quoted ''message'' @ '':'') b;
          b = append_string message b;
          b = append_raw ''}}'' b
      in jb_text b)"

definition tip_json_build_notify :: "string option \<Rightarrow> string option \<Rightarrow> string" where
  "tip_json_build_notify notification params_json =
     (let b = append_raw (rpc_head @ quoted ''method'' @ '':'') tip_json_builder_new;
          b = append_string notification b;
          b = append_raw (CHR '','' # quoted ''params'' @ '':'') b;
          b = append_raw (case params_json of Some p \<Rightarrow> p | None \<Rightarrow> ''{}'') b;
          b = append_raw ''}'' b
      in jb_text b)"

end
