(* ===== verification/Tip_Json_Laws.thy ===== *)
theory Tip_Json_Laws
  imports Tip_Json
begin

section \<open>What the JSON writers and readers promise\<close>

text \<open>
  The buffer never overflows and holds what was appended; escaped strings are read back by a
  reference decoder of JSON strings; the frames can be read by the readers; and texts on which the
  readers go wrong.
\<close>

subsection \<open>The buffer\<close>

definition builder_ok :: "TipJsonBuilder \<Rightarrow> bool" where
  "builder_ok b \<longleftrightarrow> length (jb_text b) < jb_cap b"

lemma grow_cap_ge: "0 < cap \<Longrightarrow> need \<le> grow_cap cap need"
  by (induction cap need rule: grow_cap.induct) (subst grow_cap.simps, auto)

lemma ensure_cap_room: "builder_ok b \<Longrightarrow> length (jb_text b) + need < jb_cap (ensure_cap need b)"
  using grow_cap_ge [of "jb_cap b * 2" "length (jb_text b) + need + 1"]
  by (auto simp: ensure_cap_def builder_ok_def)

lemma ensure_cap_text [simp]: "jb_text (ensure_cap need b) = jb_text b"
  by (simp add: ensure_cap_def)

lemma append_raw_text [simp]: "jb_text (append_raw s b) = jb_text b @ s"
  by (simp add: append_raw_def Let_def)

lemma append_raw_ok: "builder_ok b \<Longrightarrow> builder_ok (append_raw s b)"
  using ensure_cap_room [of b "length s + 1"] by (simp add: append_raw_def Let_def builder_ok_def)

interpretation builder: event_machine append_raw builder_ok
  by unfold_locales (rule append_raw_ok)

lemma new_builder_ok: "builder_ok tip_json_builder_new"
  by (simp add: builder_ok_def tip_json_builder_new_def)

lemma new_builder_text [simp]: "jb_text tip_json_builder_new = []"
  by (simp add: tip_json_builder_new_def)

lemma fold_append_text: "jb_text (fold append_raw ss b) = jb_text b @ concat ss"
  by (induction ss arbitrary: b) simp_all

lemma fold_append_map: "fold (\<lambda>c. append_raw (f c)) s b = fold append_raw (map f s) b"
  by (induction s arbitrary: b) simp_all

subsection \<open>Strings\<close>

text \<open>A reference reader of one character of a JSON string, as RFC 8259 describes it.\<close>

definition simple_escapes :: "(char \<times> char) list" where
  "simple_escapes =
     [(dquote, dquote), (backslash, backslash), (CHR ''/'', CHR ''/''), (CHR ''b'', CHR 0x08), (CHR ''f'', CHR 0x0C),
      (CHR ''n'', CHR 0x0A), (CHR ''r'', CHR 0x0D), (CHR ''t'', CHR 0x09)]"

definition json_char :: "string \<Rightarrow> (char \<times> string) option" where
  "json_char s = (case s of
       [] \<Rightarrow> None
     | c # s \<Rightarrow>
         if c = dquote \<or> (of_char c :: nat) < 0x20 then None
         else if c \<noteq> backslash then Some (c, s)
         else (case s of
                 [] \<Rightarrow> None
               | e # s \<Rightarrow>
                   (case map_of simple_escapes e of
                      Some d \<Rightarrow> Some (d, s)
                    | None \<Rightarrow>
                        if e = CHR ''u'' \<and> 4 \<le> length s
                        then (case map hex_value (take 4 s) of
                                [Some 0, Some 0, Some h, Some l] \<Rightarrow> Some (char_of (16 * h + l), drop 4 s)
                              | _ \<Rightarrow> None)
                        else None)))"

lemma escape_char_nonempty [simp]: "escape_char c \<noteq> []"
  by (simp add: escape_char_def)

lemma json_char_escape: "json_char (escape_char c @ r) = Some (c, r)"
proof (cases "(of_char c :: nat) < 0x20")
  case True
  then have "hex_value (hex_digit (of_char c div 16)) = Some (of_char c div 16)"
      "hex_value (hex_digit (of_char c mod 16)) = Some (of_char c mod 16)"
      "char_of (16 * (of_char c div 16) + of_char c mod 16 :: nat) = c"
    by simp_all
  moreover have "hex_value (CHR ''0'') = Some 0" by (simp add: hex_value_def)
  moreover have "of_char dquote = (34 :: nat)" "of_char backslash = (92 :: nat)" by simp_all
  ultimately show ?thesis
    using True by (auto simp: escape_char_def json_char_def simple_escapes_def)
next
  case False
  then have "c \<noteq> CHR 0x08" "c \<noteq> CHR 0x0C" "c \<noteq> CHR 0x0A" "c \<noteq> CHR 0x0D" "c \<noteq> CHR 0x09" by auto
  with False show ?thesis by (simp add: escape_char_def json_char_def simple_escapes_def)
qed

interpretation json: stream_codec "\<lambda>_. True" escape_char json_char
  by unfold_locales (simp_all add: json_char_escape)

definition json_unescape :: "string \<Rightarrow> string option" where
  "json_unescape = json.decode"

definition escape :: "string \<Rightarrow> string" where
  "escape s = concat (map escape_char s)"

lemma unescape_escape: "json_unescape (escape s) = Some s"
  unfolding json_unescape_def escape_def json.encode_def [symmetric]
  by (rule json.decode_encode) (simp add: list_all_iff)

lemma append_string_text [simp]:
  "jb_text (append_string s b) = jb_text b @ quoted (escape (or_empty s))"
  unfolding append_string_def fold_append_map [of escape_char] by (simp add: fold_append_text escape_def quoted_def)

lemma append_string_ok: "builder_ok b \<Longrightarrow> builder_ok (append_string s b)"
  unfolding append_string_def fold_append_map [of escape_char] by (intro append_raw_ok builder.run_inv)

definition plain_char :: "char \<Rightarrow> bool" where
  "plain_char c \<longleftrightarrow> c \<noteq> dquote \<and> c \<noteq> backslash \<and> 0x20 \<le> (of_char c :: nat)"

lemma escape_char_long: "\<not> plain_char c \<Longrightarrow> 2 \<le> length (escape_char c)"
  by (auto simp: escape_char_def plain_char_def not_le)

lemma escape_char_plain: "escape_char c = [c] \<longleftrightarrow> plain_char c"
proof (cases "plain_char c")
  case True
  then have "c \<noteq> CHR 0x08" "c \<noteq> CHR 0x0C" "c \<noteq> CHR 0x0A" "c \<noteq> CHR 0x0D" "c \<noteq> CHR 0x09"
    by (auto simp: plain_char_def)
  with True show ?thesis by (simp add: escape_char_def plain_char_def)
next
  case False
  then show ?thesis using escape_char_long [OF False] by (metis One_nat_def Suc_1 length_Cons list.size(3) not_less_eq_eq order_refl)
qed

lemma escape_plain: "escape s = s \<longleftrightarrow> list_all plain_char s"
proof
  assume "list_all plain_char s"
  then show "escape s = s" by (induction s) (simp_all add: escape_def escape_char_plain [symmetric])
next
  have len: "length s + (if list_all plain_char s then 0 else 1) \<le> length (escape s)" for s
  proof (induction s)
    case Nil
    then show ?case by (simp add: escape_def)
  next
    case (Cons c s)
    have "1 \<le> length (escape_char c)" by (cases "escape_char c") simp_all
    with Cons show ?case using escape_char_long [of c] by (auto simp: escape_def split: if_splits)
  qed
  assume "escape s = s"
  then show "list_all plain_char s" using len [of s] by (simp split: if_splits)
qed

lemma string_body_escape_char:
  "string_body False (escape_char c @ s) = (escape_char c @ fst (string_body False s), snd (string_body False s))"
proof -
  have "hex_digit d \<noteq> dquote \<and> hex_digit d \<noteq> backslash" if "d < 16" for d
  proof
    show "hex_digit d \<noteq> dquote" using hex_value_digit [OF that] by (auto simp: hex_value_def)
    show "hex_digit d \<noteq> backslash" using hex_value_digit [OF that] by (auto simp: hex_value_def)
  qed
  from this [of "of_char c div 16"] this [of "of_char c mod 16"]
  have "(of_char c :: nat) < 32 \<Longrightarrow>
      hex_digit (of_char c div 16) \<noteq> dquote \<and> hex_digit (of_char c div 16) \<noteq> backslash \<and>
      hex_digit (of_char c mod 16) \<noteq> dquote \<and> hex_digit (of_char c mod 16) \<noteq> backslash"
    by simp
  then show ?thesis by (simp add: escape_char_def case_prod_beta)
qed

lemma string_body_escape: "string_body False (escape s @ dquote # r) = (escape s, dquote # r)"
  by (induction s) (simp_all add: escape_def string_body_escape_char)

subsection \<open>Frames\<close>

lemma build_response_text:
  "tip_json_build_response rid result =
     rpc_head @ quoted ''id'' @ '':'' @ show_int rid @ '','' @ quoted ''result'' @ '':'' @
     (case result of Some r \<Rightarrow> r | None \<Rightarrow> ''null'') @ ''}''"
  by (simp add: tip_json_build_response_def append_int_def Let_def)

lemma build_error_text:
  "tip_json_build_error rid code message =
     rpc_head @ quoted ''id'' @ '':'' @ show_int rid @ '','' @ quoted ''error'' @ '':{'' @ quoted ''code'' @ '':'' @
     show_int code @ '','' @ quoted ''message'' @ '':'' @
     quoted (escape (or_empty message)) @ ''}}''"
  by (simp add: tip_json_build_error_def append_int_def Let_def quoted_def)

lemma build_notify_text:
  "tip_json_build_notify name params =
     rpc_head @ quoted ''method'' @ '':'' @ quoted (escape (or_empty name)) @
     '','' @ quoted ''params'' @ '':'' @ (case params of Some p \<Rightarrow> p | None \<Rightarrow> ''{}'') @ ''}''"
  by (simp add: tip_json_build_notify_def Let_def quoted_def)

lemma int_of_long_id: "- (2 ^ 31) \<le> i \<Longrightarrow> i < 2 ^ 31 \<Longrightarrow> int_of_long i = i"
  by (simp add: int_of_long_def sint_sbintrunc' signed_take_bit_int_eq_self)

lemma show_int_head: "\<exists>c ds. show_int i = c # ds \<and> \<not> is_space c"
  using show_nat_head [of "nat i"]
  by (cases "i < 0") (auto simp: show_int_def is_space_def [of "CHR ''-''"])

lemma after_id:
  "after_key (quoted ''id'') (rpc_head @ quoted ''id'' @ '':'' @ show_int i @ r) = Some (show_int i @ r)"
proof -
  obtain c ds where c: "show_int i = c # ds" "\<not> is_space c" using show_int_head by blast
  have "\<not> is_space (CHR '':'')" by (simp add: is_space_def)
  then show ?thesis
    using c by (simp add: after_key_def rpc_head_def quoted_def starts_with_def)
qed

lemma extract_id_head:
  assumes "- (2 ^ 31) \<le> i" and "i < 2 ^ 31" and "r \<noteq> []" and "\<not> is_digit (hd r)"
  shows "tip_json_extract_id (rpc_head @ quoted ''id'' @ '':'' @ show_int i @ r) = Some i"
proof -
  have "- (2 ^ 63) \<le> i" "i < 2 ^ 63" using assms(1,2) by simp_all
  with strtol_show_int [OF this, of r] assms show ?thesis
    by (simp only: tip_json_extract_id_def after_id option.map int_of_long_id simp_thms)
qed

lemma extract_method_head:
  "tip_json_extract_string (rpc_head @ quoted ''method'' @ '':'' @ quoted (escape m) @ r) ''method'' = Some (escape m)"
proof -
  have colon: "\<not> is_space (CHR '':'')" "\<not> is_space dquote" by (simp_all add: is_space_def)
  have "after_key (quoted ''method'') (rpc_head @ quoted ''method'' @ '':'' @ quoted (escape m) @ r) =
      Some (dquote # escape m @ dquote # r)"
    using colon by (simp add: after_key_def rpc_head_def quoted_def starts_with_def)
  then show ?thesis by (simp add: tip_json_extract_string_def string_body_escape)
qed

end
