(* ===== verification/Status_Service.thy ===== *)
theory Status_Service
  imports Tip_Json_Laws
begin

section \<open>The status service\<close>

text \<open>
  The properties and methods that the IPC bus offers (\<^verbatim>\<open>daemon/state/service.c\<close>), as JSON text
  through the builder of \<^verbatim>\<open>daemon/ipc/tip_json.c\<close>.

  The instance of the Rust core is opaque: the record \<open>core_api\<close> holds the calls into it and
  threads its state. The nullable pointers of the C ABI are options. A number formatted with
  \<^verbatim>\<open>%g\<close> is given as its text. The service always has an instance, as its constructor demands.
\<close>

subsection \<open>The core behind its ABI\<close>

datatype TypioEngineType = ENGINE_TYPE_KEYBOARD | ENGINE_TYPE_VOICE
datatype TypioModeClass = MODE_CLASS_NATIVE | MODE_CLASS_LATIN

record TypioEngineInfo =
  ei_name :: "string option"
  ei_display_name :: "string option"
  ei_icon :: "string option"
  ei_language :: "string option"
  ei_type :: TypioEngineType
  ei_capabilities :: u32

record core_engine =
  ce_name :: "string option"
  ce_info :: "TypioEngineInfo option"
  ce_config_path :: "string option"
  ce_active :: bool

record TypioEngineMode =
  em_class :: TypioModeClass
  em_mode_id :: "string option"
  em_display_label :: "string option"
  em_icon_name :: "string option"

datatype TypioConfigValue =
    ConfigString "string option" | ConfigInt int | ConfigBool bool | ConfigFloat string | ConfigOther

record TypioStatusRuntimeState =
  rs_frontend_backend :: "string option"
  rs_lifecycle_phase :: "string option"
  rs_virtual_keyboard_state :: "string option"
  rs_keyboard_grab_active :: bool
  rs_virtual_keyboard_has_keymap :: bool
  rs_watchdog_armed :: bool
  rs_active_key_generation :: u32
  rs_keymap_generation :: u32
  rs_drop_count :: u32
  rs_state_age_ms :: u32
  rs_keymap_age_ms :: u32
  rs_forward_age_ms :: u32
  rs_deadline_remaining_ms :: int

text \<open>
  \<open>co_engine_config\<close>: the configuration of an engine as its keys with their values, in order; a
  key whose value is gone has none.
\<close>

record 'c core_api =
  co_version :: string
  co_has_manager :: bool
  co_active :: "'c \<Rightarrow> core_engine option"
  co_active_voice :: "'c \<Rightarrow> core_engine option"
  co_list :: "'c \<Rightarrow> string list"
  co_list_by_type :: "TypioEngineType \<Rightarrow> 'c \<Rightarrow> string list"
  co_list_ordered_keyboards :: "'c \<Rightarrow> string list"
  co_label :: "string \<Rightarrow> 'c \<Rightarrow> string option"
  co_engine_order :: "'c \<Rightarrow> string option list"
  co_last_mode :: "'c \<Rightarrow> TypioEngineMode option"
  co_engine_config :: "string \<Rightarrow> 'c \<Rightarrow> (string \<times> TypioConfigValue option) list option"
  co_rime_schema :: "'c \<Rightarrow> string option"
  co_config_text :: "'c \<Rightarrow> string option"
  co_set_active :: "string \<Rightarrow> 'c \<Rightarrow> TypioResult \<times> 'c"
  co_next :: "'c \<Rightarrow> TypioResult \<times> 'c"
  co_store_default_engine :: "string \<Rightarrow> 'c \<Rightarrow> 'c"
  co_reload_config :: "'c \<Rightarrow> TypioResult \<times> 'c"
  co_set_config_text :: "string \<Rightarrow> 'c \<Rightarrow> TypioResult \<times> 'c"
  co_set_rime_schema :: "string \<Rightarrow> 'c \<Rightarrow> TypioResult \<times> 'c"
  co_deploy_rime_config :: "'c \<Rightarrow> TypioResult \<times> 'c"

text \<open>
  The service: its two callbacks, when they are set. Stopping acts on the daemon, here on the
  same opaque state.
\<close>

record 'c TypioStatusService =
  sv_runtime_state :: "('c \<Rightarrow> TypioStatusRuntimeState) option"
  sv_stop :: "('c \<Rightarrow> 'c) option"

subsection \<open>The properties\<close>

definition engine_type_name :: "TypioEngineType \<Rightarrow> string" where
  "engine_type_name t = (if t = ENGINE_TYPE_VOICE then ''voice'' else ''keyboard'')"

definition mode_class_name :: "TypioModeClass \<Rightarrow> string" where
  "mode_class_name c = (if c = MODE_CLASS_LATIN then ''latin'' else ''native'')"

definition svc_active_keyboard_engine :: "'c core_api \<Rightarrow> 'c \<Rightarrow> core_engine option" where
  "svc_active_keyboard_engine api c = (if co_has_manager api then co_active api c else None)"

definition svc_active_voice_engine :: "'c core_api \<Rightarrow> 'c \<Rightarrow> core_engine option" where
  "svc_active_voice_engine api c = (if co_has_manager api then co_active_voice api c else None)"

definition json_of_string :: "string option \<Rightarrow> string" where
  "json_of_string s = jb_text (append_string s tip_json_builder_new)"

definition build_version :: "'c core_api \<Rightarrow> string" where
  "build_version api = json_of_string (Some (co_version api))"

definition engine_name_json :: "core_engine option \<Rightarrow> string" where
  "engine_name_json e = json_of_string (case e of None \<Rightarrow> Some [] | Some e \<Rightarrow> ce_name e)"

definition build_active_engine :: "'c core_api \<Rightarrow> 'c \<Rightarrow> string" where
  "build_active_engine api c = engine_name_json (svc_active_keyboard_engine api c)"

definition build_active_voice_engine :: "'c core_api \<Rightarrow> 'c \<Rightarrow> string" where
  "build_active_voice_engine api c = engine_name_json (svc_active_voice_engine api c)"

text \<open>A loop over the items that starts at index \<open>i\<close>; the comma depends on the index.\<close>

fun append_items :: "nat \<Rightarrow> string list \<Rightarrow> TipJsonBuilder \<Rightarrow> TipJsonBuilder" where
  "append_items i [] b = b"
| "append_items i (x # xs) b =
     append_items (i + 1) xs (append_string (Some x) (if i > 0 then append_raw '','' b else b))"

definition build_string_array :: "string list \<Rightarrow> string" where
  "build_string_array items = jb_text (append_raw '']'' (append_items 0 items (append_raw ''['' tip_json_builder_new)))"

definition build_available_keyboard_engines :: "'c core_api \<Rightarrow> 'c \<Rightarrow> string" where
  "build_available_keyboard_engines api c =
     build_string_array (if co_has_manager api then co_list_by_type api ENGINE_TYPE_KEYBOARD c else [])"

definition build_available_engines :: "'c core_api \<Rightarrow> 'c \<Rightarrow> string" where
  "build_available_engines api c = build_string_array (if co_has_manager api then co_list api c else [])"

definition build_ordered_engines :: "'c core_api \<Rightarrow> 'c \<Rightarrow> string" where
  "build_ordered_engines api c =
     build_string_array (if co_has_manager api then co_list_ordered_keyboards api c else [])"

definition build_available_voice_engines :: "'c core_api \<Rightarrow> 'c \<Rightarrow> string" where
  "build_available_voice_engines api c =
     build_string_array (if co_has_manager api then co_list_by_type api ENGINE_TYPE_VOICE c else [])"

fun append_labels :: "'c core_api \<Rightarrow> 'c \<Rightarrow> bool \<Rightarrow> string list \<Rightarrow> TipJsonBuilder \<Rightarrow> TipJsonBuilder" where
  "append_labels api c first [] b = b"
| "append_labels api c first (e # es) b =
     (let label = co_label api e c
      in if or_empty label = [] then append_labels api c first es b
         else append_labels api c False es
                (append_string label (append_key e (if first then b else append_raw '','' b))))"

definition build_engine_display_names :: "'c core_api \<Rightarrow> 'c \<Rightarrow> string" where
  "build_engine_display_names api c =
     jb_text (append_raw ''}''
       (append_labels api c True (if co_has_manager api then co_list api c else [])
         (append_raw ''{'' tip_json_builder_new)))"

text \<open>As \<open>append_items\<close>, but entries that are not strings are skipped and still counted.\<close>

fun append_order :: "nat \<Rightarrow> string option list \<Rightarrow> TipJsonBuilder \<Rightarrow> TipJsonBuilder" where
  "append_order i [] b = b"
| "append_order i (None # xs) b = append_order (i + 1) xs b"
| "append_order i (Some x # xs) b =
     append_order (i + 1) xs (append_string (Some x) (if i > 0 then append_raw '','' b else b))"

definition build_engine_order :: "'c core_api \<Rightarrow> 'c \<Rightarrow> string" where
  "build_engine_order api c =
     jb_text (append_raw '']'' (append_order 0 (co_engine_order api c) (append_raw ''['' tip_json_builder_new)))"

definition comma :: "TipJsonBuilder \<Rightarrow> TipJsonBuilder" where
  "comma = append_raw '',''"

definition field_string :: "string \<Rightarrow> string option \<Rightarrow> TipJsonBuilder \<Rightarrow> TipJsonBuilder" where
  "field_string k v b = append_string v (append_key k b)"

definition field_bool :: "string \<Rightarrow> bool \<Rightarrow> TipJsonBuilder \<Rightarrow> TipJsonBuilder" where
  "field_bool k v b = append_bool v (append_key k b)"

definition field_uint32 :: "string \<Rightarrow> u32 \<Rightarrow> TipJsonBuilder \<Rightarrow> TipJsonBuilder" where
  "field_uint32 k v b = append_uint32 v (append_key k b)"

text \<open>
  The state of the active engine, in its four parts. The variable \<^verbatim>\<open>first\<close> of the source is
  1 throughout, so that no comma is written between the parts.
\<close>

definition state_info :: "TypioEngineInfo \<Rightarrow> TipJsonBuilder \<Rightarrow> TipJsonBuilder" where
  "state_info info b =
     (let b = field_string ''name'' (ei_name info) b;
          b = field_string ''display_name'' (ei_display_name info) (comma b);
          b = field_string ''icon'' (ei_icon info) (comma b);
          b = field_string ''language'' (ei_language info) (comma b);
          b = field_string ''engine_type'' (Some (engine_type_name (ei_type info))) (comma b)
      in field_uint32 ''capabilities'' (ei_capabilities info) (comma b))"

definition state_mode :: "bool \<Rightarrow> TypioEngineMode \<Rightarrow> TipJsonBuilder \<Rightarrow> TipJsonBuilder" where
  "state_mode first mode b =
     (let b = field_string ''mode_class'' (Some (mode_class_name (em_class mode))) (if \<not> first then comma b else b);
          b = field_string ''mode_id'' (em_mode_id mode) (comma b);
          b = field_string ''mode_display_label'' (em_display_label mode) (comma b)
      in field_string ''mode_icon'' (em_icon_name mode) (comma b))"

definition append_config_value :: "TypioConfigValue \<Rightarrow> TipJsonBuilder \<Rightarrow> TipJsonBuilder" where
  "append_config_value v b = (case v of
       ConfigString s \<Rightarrow> append_string s b
     | ConfigInt i \<Rightarrow> append_int i b
     | ConfigBool x \<Rightarrow> append_bool x b
     | ConfigFloat t \<Rightarrow> append_raw t b
     | ConfigOther \<Rightarrow> append_null b)"

fun state_config :: "bool \<Rightarrow> (string \<times> TypioConfigValue option) list \<Rightarrow> TipJsonBuilder \<Rightarrow> TipJsonBuilder" where
  "state_config first [] b = b"
| "state_config first ((k, None) # kvs) b = state_config first kvs b"
| "state_config first ((k, Some v) # kvs) b =
     state_config first kvs
       (append_config_value v (append_key (''config.'' @ k) (if \<not> first then comma b else b)))"

definition build_active_engine_state :: "'c core_api \<Rightarrow> 'c \<Rightarrow> string" where
  "build_active_engine_state api c =
     (let engine = svc_active_keyboard_engine api c;
          info = Option.bind engine ce_info;
          config_path = Option.bind engine ce_config_path;
          engine_name = Option.bind engine ce_name;
          first = True;
          b = append_raw ''{'' tip_json_builder_new;
          b = (case info of None \<Rightarrow> b | Some i \<Rightarrow> state_info i b);
          b = (case engine of None \<Rightarrow> b
               | Some e \<Rightarrow> field_bool ''active'' (ce_active e) (if \<not> first then comma b else b));
          b = (if or_empty config_path = [] then b
               else field_string ''config_path'' config_path (if \<not> first then comma b else b));
          b = (case co_last_mode api c of None \<Rightarrow> b | Some m \<Rightarrow> state_mode first m b);
          b = (if or_empty engine_name = [] then b
               else (case co_engine_config api (or_empty engine_name) c of
                       None \<Rightarrow> b
                     | Some kvs \<Rightarrow> state_config first kvs b))
      in jb_text (append_raw ''}'' b))"

definition build_active_engine_mode :: "'c core_api \<Rightarrow> 'c \<Rightarrow> string" where
  "build_active_engine_mode api c =
     (let b = append_raw ''{'' tip_json_builder_new;
          b = (case co_last_mode api c of
                 None \<Rightarrow> b
               | Some m \<Rightarrow>
                   let b = field_string ''mode_class'' (Some (mode_class_name (em_class m))) b;
                       b = field_string ''mode_id'' (em_mode_id m) (comma b);
                       b = field_string ''display_label'' (em_display_label m) (comma b)
                   in field_string ''icon_name'' (em_icon_name m) (comma b))
      in jb_text (append_raw ''}'' b))"

definition zero_runtime_state :: TypioStatusRuntimeState where
  "zero_runtime_state =
     \<lparr>rs_frontend_backend = None, rs_lifecycle_phase = None, rs_virtual_keyboard_state = None,
      rs_keyboard_grab_active = False, rs_virtual_keyboard_has_keymap = False, rs_watchdog_armed = False,
      rs_active_key_generation = 0, rs_keymap_generation = 0, rs_drop_count = 0, rs_state_age_ms = 0,
      rs_keymap_age_ms = 0, rs_forward_age_ms = 0, rs_deadline_remaining_ms = 0\<rparr>"

definition build_runtime_state :: "'c TypioStatusService \<Rightarrow> 'c \<Rightarrow> string" where
  "build_runtime_state svc c =
     (let st = (case sv_runtime_state svc of None \<Rightarrow> zero_runtime_state | Some f \<Rightarrow> f c);
          b = append_raw ''{'' tip_json_builder_new;
          b = field_string ''frontend_backend'' (Some (or_empty (rs_frontend_backend st))) b;
          b = field_string ''lifecycle_phase'' (Some (or_empty (rs_lifecycle_phase st))) (comma b);
          b = field_string ''virtual_keyboard_state'' (Some (or_empty (rs_virtual_keyboard_state st))) (comma b);
          b = field_bool ''keyboard_grab_active'' (rs_keyboard_grab_active st) (comma b);
          b = field_bool ''virtual_keyboard_has_keymap'' (rs_virtual_keyboard_has_keymap st) (comma b);
          b = field_bool ''watchdog_armed'' (rs_watchdog_armed st) (comma b);
          b = field_uint32 ''active_key_generation'' (rs_active_key_generation st) (comma b);
          b = field_uint32 ''virtual_keyboard_keymap_generation'' (rs_keymap_generation st) (comma b);
          b = field_uint32 ''virtual_keyboard_drop_count'' (rs_drop_count st) (comma b);
          b = field_uint32 ''virtual_keyboard_state_age_ms'' (rs_state_age_ms st) (comma b);
          b = field_uint32 ''virtual_keyboard_keymap_age_ms'' (rs_keymap_age_ms st) (comma b);
          b = field_uint32 ''virtual_keyboard_forward_age_ms'' (rs_forward_age_ms st) (comma b);
          b = append_int (rs_deadline_remaining_ms st)
                (append_key ''virtual_keyboard_keymap_deadline_remaining_ms'' (comma b))
      in jb_text (append_raw ''}'' b))"

definition build_rime_schema :: "'c core_api \<Rightarrow> 'c \<Rightarrow> string" where
  "build_rime_schema api c = json_of_string (Some (or_empty (co_rime_schema api c)))"

definition build_config_text :: "'c core_api \<Rightarrow> 'c \<Rightarrow> string" where
  "build_config_text api c = json_of_string (Some (or_empty (co_config_text api c)))"

subsection \<open>Dispatch\<close>

definition dispatch_property :: "'c core_api \<Rightarrow> 'c TypioStatusService \<Rightarrow> string \<Rightarrow> 'c \<Rightarrow> string option" where
  "dispatch_property api svc property c =
     (if property = ''Version'' then Some (build_version api)
      else if property = ''ActiveKeyboardEngine'' \<or> property = ''ActiveEngine'' then Some (build_active_engine api c)
      else if property = ''AvailableKeyboardEngines'' then Some (build_available_keyboard_engines api c)
      else if property = ''AvailableEngines'' then Some (build_available_engines api c)
      else if property = ''OrderedKeyboardEngines'' \<or> property = ''OrderedEngines'' then Some (build_ordered_engines api c)
      else if property = ''EngineDisplayNames'' then Some (build_engine_display_names api c)
      else if property = ''EngineOrder'' then Some (build_engine_order api c)
      else if property = ''AvailableVoiceEngines'' then Some (build_available_voice_engines api c)
      else if property = ''ActiveVoiceEngine'' then Some (build_active_voice_engine api c)
      else if property = ''ActiveEngineState'' then Some (build_active_engine_state api c)
      else if property = ''ActiveEngineMode'' then Some (build_active_engine_mode api c)
      else if property = ''RuntimeState'' then Some (build_runtime_state svc c)
      else if property = ''RimeSchema'' then Some (build_rime_schema api c)
      else if property = ''ConfigText'' then Some (build_config_text api c)
      else None)"

definition all_properties :: "string list" where
  "all_properties =
     [''Version'', ''ActiveKeyboardEngine'', ''ActiveEngine'', ''AvailableKeyboardEngines'', ''AvailableEngines'',
      ''OrderedKeyboardEngines'', ''OrderedEngines'', ''EngineDisplayNames'', ''EngineOrder'',
      ''AvailableVoiceEngines'', ''ActiveVoiceEngine'', ''ActiveEngineState'', ''ActiveEngineMode'',
      ''RuntimeState'', ''RimeSchema'', ''ConfigText'']"

fun append_properties ::
    "(string \<Rightarrow> string option) \<Rightarrow> nat \<Rightarrow> string list \<Rightarrow> TipJsonBuilder \<Rightarrow> TipJsonBuilder" where
  "append_properties value i [] b = b"
| "append_properties value i (p # ps) b =
     (let b = append_key p (if i > 0 then comma b else b)
      in append_properties value (i + 1) ps
           (case value p of Some v \<Rightarrow> append_raw v b | None \<Rightarrow> append_null b))"

definition status_service_get_all_json :: "'c core_api \<Rightarrow> 'c TypioStatusService \<Rightarrow> 'c \<Rightarrow> string" where
  "status_service_get_all_json api svc c =
     jb_text (append_raw ''}''
       (append_properties (\<lambda>p. dispatch_property api svc p c) 0 all_properties
         (append_raw ''{'' tip_json_builder_new)))"

subsection \<open>The methods\<close>

definition invalid_params :: "int \<Rightarrow> string \<Rightarrow> string" where
  "invalid_params rid message = tip_json_build_error rid (-32602) (Some message)"

definition internal_error :: "int \<Rightarrow> string \<Rightarrow> string" where
  "internal_error rid message = tip_json_build_error rid (-32603) (Some message)"

definition ok_response :: "int \<Rightarrow> string" where
  "ok_response rid = tip_json_build_response rid (Some ''null'')"

text \<open>The readers of a nullable text of parameters.\<close>

definition param_string :: "string option \<Rightarrow> string \<Rightarrow> string option" where
  "param_string params key = Option.bind params (\<lambda>p. tip_json_extract_string p key)"

definition handle_get ::
    "'c core_api \<Rightarrow> 'c TypioStatusService \<Rightarrow> string option \<Rightarrow> int \<Rightarrow> 'c \<Rightarrow> string" where
  "handle_get api svc params rid c = (case params of
       None \<Rightarrow> invalid_params 0 ''Invalid params''
     | Some p \<Rightarrow>
         (case tip_json_extract_string p ''property'' of
            None \<Rightarrow> invalid_params rid ''Missing 'property' param''
          | Some property \<Rightarrow>
              (case dispatch_property api svc property c of
                 None \<Rightarrow> invalid_params rid ''Unknown property''
               | Some value \<Rightarrow> value)))"

definition handle_activate_engine :: "'c core_api \<Rightarrow> string option \<Rightarrow> int \<Rightarrow> 'c \<Rightarrow> string \<times> 'c" where
  "handle_activate_engine api params rid c =
     (let engine_name = param_string params ''engine'' in
      if or_empty engine_name = [] then (invalid_params rid ''Missing 'engine' param'', c)
      else if \<not> co_has_manager api then (internal_error rid ''Engine manager not available'', c)
      else (case co_set_active api (or_empty engine_name) c of
              (res, c) \<Rightarrow>
                if res \<noteq> TYPIO_OK then (internal_error rid ''Failed to activate engine'', c)
                else (ok_response rid, co_store_default_engine api (or_empty engine_name) c)))"

definition handle_next_engine :: "'c core_api \<Rightarrow> int \<Rightarrow> 'c \<Rightarrow> string \<times> 'c" where
  "handle_next_engine api rid c =
     (if \<not> co_has_manager api then (internal_error rid ''Engine manager not available'', c)
      else (case co_next api c of
              (res, c) \<Rightarrow>
                (if res \<noteq> TYPIO_OK then internal_error rid ''Failed to switch engine'' else ok_response rid, c)))"

definition handle_reload_config :: "'c core_api \<Rightarrow> int \<Rightarrow> 'c \<Rightarrow> string \<times> 'c" where
  "handle_reload_config api rid c = (case co_reload_config api c of
       (res, c) \<Rightarrow> (if res \<noteq> TYPIO_OK then internal_error rid ''Failed to reload config'' else ok_response rid, c))"

definition handle_stop :: "'c TypioStatusService \<Rightarrow> int \<Rightarrow> 'c \<Rightarrow> string \<times> 'c" where
  "handle_stop svc rid c = (case sv_stop svc of
       None \<Rightarrow> (internal_error rid ''Stop callback not available'', c)
     | Some stop \<Rightarrow> (ok_response rid, stop c))"

definition handle_set_config_text :: "'c core_api \<Rightarrow> string option \<Rightarrow> int \<Rightarrow> 'c \<Rightarrow> string \<times> 'c" where
  "handle_set_config_text api params rid c = (case param_string params ''content'' of
       None \<Rightarrow> (invalid_params rid ''Missing 'content' param'', c)
     | Some t \<Rightarrow>
         (case co_set_config_text api t c of
            (res, c) \<Rightarrow>
              (if res \<noteq> TYPIO_OK then internal_error rid ''Failed to save config'' else ok_response rid, c)))"

definition handle_set_rime_schema :: "'c core_api \<Rightarrow> string option \<Rightarrow> int \<Rightarrow> 'c \<Rightarrow> string \<times> 'c" where
  "handle_set_rime_schema api params rid c = (case param_string params ''schema'' of
       None \<Rightarrow> (invalid_params rid ''Missing 'schema' param'', c)
     | Some schema \<Rightarrow>
         (case co_set_rime_schema api schema c of
            (res, c) \<Rightarrow>
              if res \<noteq> TYPIO_OK then (internal_error rid ''Failed to persist schema'', c)
              else (case co_reload_config api c of
                      (res, c) \<Rightarrow>
                        (if res \<noteq> TYPIO_OK then internal_error rid ''Failed to reload after schema change''
                         else ok_response rid, c))))"

definition handle_deploy_rime_config :: "'c core_api \<Rightarrow> int \<Rightarrow> 'c \<Rightarrow> string \<times> 'c" where
  "handle_deploy_rime_config api rid c = (case co_deploy_rime_config api c of
       (res, c) \<Rightarrow>
         (if res \<noteq> TYPIO_OK then internal_error rid ''Failed to deploy Rime config'' else ok_response rid, c))"

definition status_service_handle ::
    "'c core_api \<Rightarrow> 'c TypioStatusService \<Rightarrow> string \<Rightarrow> string option \<Rightarrow> int \<Rightarrow> 'c \<Rightarrow> string option \<times> 'c" where
  "status_service_handle api svc name params rid c =
     (case (if name = ''GetAll'' then (status_service_get_all_json api svc c, c)
            else if name = ''Get'' then (handle_get api svc params rid c, c)
            else if name = ''ActivateEngine'' then handle_activate_engine api params rid c
            else if name = ''NextEngine'' then handle_next_engine api rid c
            else if name = ''ReloadConfig'' then handle_reload_config api rid c
            else if name = ''Stop'' then handle_stop svc rid c
            else if name = ''SetConfigText'' then handle_set_config_text api params rid c
            else if name = ''SetRimeSchema'' then handle_set_rime_schema api params rid c
            else if name = ''DeployRimeConfig'' then handle_deploy_rime_config api rid c
            else (tip_json_build_error rid (-32601) (Some ''Method not found''), c)) of
       (r, c) \<Rightarrow> (Some r, c))"

end
