(* ===== verification/Json_Grammar.thy ===== *)
theory Json_Grammar
  imports Tip_Json_Laws
begin

section \<open>A reference grammar of JSON\<close>

text \<open>
  The texts that are JSON (RFC 8259), with white space, and a necessary condition that a scan from
  left to right checks: outside strings, a quote only follows one of the four characters that
  open a position for a value or a key. The text that the writers produce is held against it.
\<close>

subsection \<open>The grammar\<close>

definition json_space :: "string \<Rightarrow> bool" where
  "json_space s \<longleftrightarrow> list_all (\<lambda>c. c \<in> {CHR '' '', CHR 0x09, CHR 0x0A, CHR 0x0D}) s"

definition json_digits :: "string \<Rightarrow> bool" where
  "json_digits s \<longleftrightarrow> s \<noteq> [] \<and> list_all is_digit s"

definition json_natural :: "string \<Rightarrow> bool" where
  "json_natural s \<longleftrightarrow> json_digits s \<and> (hd s = CHR ''0'' \<longrightarrow> s = ''0'')"

definition json_number :: "string \<Rightarrow> bool" where
  "json_number t \<longleftrightarrow>
     (\<exists>sign n frac ex. t = sign @ n @ frac @ ex \<and> (sign = [] \<or> sign = ''-'') \<and> json_natural n \<and>
        (frac = [] \<or> (\<exists>ds. frac = CHR ''.'' # ds \<and> json_digits ds)) \<and>
        (ex = [] \<or> (\<exists>e s ds. ex = e # s @ ds \<and> e \<in> {CHR ''e'', CHR ''E''} \<and> s \<in> {[], ''+'', ''-''} \<and> json_digits ds)))"

inductive json :: "string \<Rightarrow> bool" where
  json_string: "json_unescape b = Some s \<Longrightarrow> json (quoted b)"
| json_number: "json_number t \<Longrightarrow> json t"
| json_literal: "t \<in> {''true'', ''false'', ''null''} \<Longrightarrow> json t"
| json_array: "(\<And>v. v \<in> set vs \<Longrightarrow> json v) \<Longrightarrow> json (''['' @ join_with '','' vs @ '']'')"
| json_object: "(\<And>k v. (k, v) \<in> set kvs \<Longrightarrow> (\<exists>a b s c. json_space a \<and> json_unescape b = Some s \<and> json_space c \<and> k = a @ quoted b @ c)) \<Longrightarrow>
     (\<And>k v. (k, v) \<in> set kvs \<Longrightarrow> json v) \<Longrightarrow>
     json (''{'' @ join_with '','' (map (\<lambda>(k, v). k @ '':'' @ v) kvs) @ ''}'')"
| json_empty: "json_space a \<Longrightarrow> json (''['' @ a @ '']'')"
| json_empty_object: "json_space a \<Longrightarrow> json (''{'' @ a @ ''}'')"
| json_padded: "json_space a \<Longrightarrow> json v \<Longrightarrow> json_space c \<Longrightarrow> json (a @ v @ c)"

subsection \<open>Numbers and strings\<close>

lemma digit_char_zero [simp]: "digit_char 0 = CHR ''0''"
  by (simp add: digit_char_def char_of_def bit_Suc_0_iff)

lemma show_nat_head_zero: "hd (show_nat n) = CHR ''0'' \<longleftrightarrow> n = 0"
proof (induction n rule: show_nat.induct)
  case (1 n)
  show ?case
  proof (cases "n < 10")
    case True
    have "digit_char n = CHR ''0'' \<longleftrightarrow> n = 0"
      using digit_value_char [OF True] by (auto simp: digit_value_def digit_char_zero)
    with True show ?thesis by (simp add: show_nat.simps)
  next
    case False
    then have "show_nat n = show_nat (n div 10) @ [digit_char (n mod 10)]" by (simp add: show_nat.simps)
    with 1 False show ?thesis by simp
  qed
qed

lemma show_nat_natural: "json_natural (show_nat n)"
  using show_nat_digits [of n] show_nat_head_zero [of n]
  by (auto simp: json_natural_def json_digits_def list_all_iff show_nat.simps [of 0])

lemma show_int_number: "json_number (show_int i)"
proof (cases "i < 0")
  case True
  then have "show_int i = ''-'' @ show_nat (nat (- i)) @ [] @ []" by (simp add: show_int_def)
  then show ?thesis using show_nat_natural unfolding json_number_def by blast
next
  case False
  then have "show_int i = [] @ show_nat (nat i) @ [] @ []" by (simp add: show_int_def)
  then show ?thesis using show_nat_natural unfolding json_number_def by blast
qed

lemma json_show_int: "json (show_int i)"
  by (rule json_number, rule show_int_number)

lemma json_show_nat: "json (show_nat n)"
  using json_show_int [of "int n"] by (simp add: show_int_def)

lemma json_escaped: "json (quoted (escape s))"
  by (rule json_string, rule unescape_escape)

subsection \<open>A necessary condition\<close>

datatype scan = Between char | InString bool

definition openers :: "char set" where
  "openers = {CHR ''{'', CHR ''['', CHR '','', CHR '':''}"

definition scan_step :: "scan \<Rightarrow> char \<Rightarrow> scan option" where
  "scan_step st c = (case st of
       InString escaped \<Rightarrow>
         Some (if escaped then InString False else if c = dquote then Between c
               else InString (c = backslash))
     | Between p \<Rightarrow>
         if c = dquote then (if p \<in> openers then Some (InString False) else None)
         else if is_space c then Some (Between p) else Some (Between c))"

fun scan_run :: "scan \<Rightarrow> string \<Rightarrow> scan option" where
  "scan_run st [] = Some st"
| "scan_run st (c # s) = (case scan_step st c of None \<Rightarrow> None | Some st \<Rightarrow> scan_run st s)"

lemma scan_run_append: "scan_run st (a @ b) = (case scan_run st a of None \<Rightarrow> None | Some st \<Rightarrow> scan_run st b)"
  by (induction st a rule: scan_run.induct) (auto split: option.split)

lemma scan_no_quote: "dquote \<notin> set t \<Longrightarrow> \<exists>q. scan_run (Between p) t = Some (Between q)"
  by (induction t arbitrary: p) (auto simp: scan_step_def)

lemma scan_space: "json_space a \<Longrightarrow> scan_run (Between p) a = Some (Between p)"
  by (induction a) (auto simp: json_space_def scan_step_def is_space_def)

lemma scan_plain: "\<forall>y \<in> set t. y \<noteq> dquote \<and> y \<noteq> backslash \<Longrightarrow> scan_run (InString False) t = Some (InString False)"
  by (induction t) (simp_all add: scan_step_def)

lemma json_char_scan:
  assumes "json_char s = Some (c, r)"
  shows "\<exists>a. s = a @ r \<and> scan_run (InString False) a = Some (InString False)"
proof (cases s)
  case Nil
  with assms show ?thesis by (simp add: json_char_def)
next
  case (Cons x t)
  have x: "x \<noteq> dquote" using assms Cons by (auto simp: json_char_def)
  show ?thesis
  proof (cases "x = backslash")
    case False
    then have "r = t" using assms Cons x by (auto simp: json_char_def split: if_splits)
    with False x Cons show ?thesis by (intro exI [of _ "[x]"]) (simp add: scan_step_def)
  next
    case True
    then obtain e u where t: "t = e # u" using assms Cons by (cases t) (auto simp: json_char_def split: if_splits)
    show ?thesis
    proof (cases "map_of simple_escapes e")
      case (Some d)
      then have "r = u" using assms Cons True t by (auto simp: json_char_def split: if_splits)
      with True t Cons show ?thesis by (intro exI [of _ "[x, e]"]) (simp add: scan_step_def)
    next
      case None
      obtain h1 h2 h3 h4 where h: "map hex_value (take 4 u) = [Some h1, Some h2, Some h3, Some h4]" "r = drop 4 u"
        using assms Cons True t None
        by (auto simp: json_char_def split: if_splits list.splits option.splits nat.splits)
      then have "set (take 4 u) \<subseteq> {y. hex_value y \<noteq> None}" by (auto simp: set_conv_nth nth_Cons' numeral_eq_Suc map_eq_Cons_conv)
      moreover have "hex_value dquote = None" "hex_value backslash = None" by (simp_all add: hex_value_def)
      ultimately have "\<forall>y \<in> set (take 4 u). y \<noteq> dquote \<and> y \<noteq> backslash" by auto
      then have "scan_run (InString False) (take 4 u) = Some (InString False)" by (rule scan_plain)
      then have "scan_run (InString False) (x # e # take 4 u) = Some (InString False)"
        using True by (simp add: scan_step_def)
      moreover have "s = (x # e # take 4 u) @ r" using Cons t h(2) by simp
      ultimately show ?thesis by blast
    qed
  qed
qed

lemma decode_scan: "json.decode_n n b = Some s \<Longrightarrow> scan_run (InString False) b = Some (InString False)"
proof (induction n arbitrary: b s)
  case 0
  then show ?case by (simp split: if_splits)
next
  case (Suc n)
  show ?case
  proof (cases "b = []")
    case False
    then obtain x r t where "json_char b = Some (x, r)" "json.decode_n n r = Some t"
      using Suc.prems by (auto split: option.splits prod.splits)
    then show ?thesis using json_char_scan [of b x r] Suc.IH by (auto simp: scan_run_append)
  qed simp
qed

lemma scan_quoted:
  assumes "json_unescape b = Some s" and "p \<in> openers"
  shows "scan_run (Between p) (quoted b) = Some (Between dquote)"
proof -
  have "scan_run (InString False) b = Some (InString False)"
    using assms(1) decode_scan unfolding json_unescape_def json.decode_def by blast
  then show ?thesis using assms(2) by (simp add: quoted_def scan_step_def scan_run_append)
qed

lemma scan_join:
  assumes "\<And>v q. v \<in> set vs \<Longrightarrow> q \<in> openers \<Longrightarrow> \<exists>q'. scan_run (Between q) v = Some (Between q')" and "p \<in> openers"
  shows "\<exists>q. scan_run (Between p) (join_with '','' vs) = Some (Between q)"
  using assms
proof (induction vs arbitrary: p)
  case Nil
  then show ?case by simp
next
  case (Cons v vs)
  obtain q where q: "scan_run (Between p) v = Some (Between q)" using Cons.prems by auto
  have "\<exists>q'. scan_run (Between (CHR '','')) (join_with '','' vs) = Some (Between q')"
    by (rule Cons.IH) (use Cons.prems in \<open>auto simp: openers_def\<close>)
  moreover have "scan_step (Between q) (CHR '','') = Some (Between (CHR '',''))" by (simp add: scan_step_def is_space_def)
  ultimately show ?case using q by (auto simp: scan_run_append)
qed

lemma scan_bracket:
  assumes "scan_run (Between c) t = Some (Between q)" and "c \<in> openers"
    and "d \<noteq> dquote" and "\<not> is_space d"
  shows "\<exists>q. scan_run (Between p) ([c] @ t @ [d]) = Some (Between q)"
proof -
  have "c \<noteq> dquote" "\<not> is_space c" using assms(2) by (auto simp: openers_def is_space_def)
  with assms show ?thesis by (simp add: scan_step_def scan_run_append)
qed

lemma digits_no_quote: "json_digits s \<Longrightarrow> dquote \<notin> set s"
  by (auto simp: json_digits_def list_all_iff is_digit_def)

lemma number_no_quote:
  assumes "json_number t"
  shows "dquote \<notin> set t"
proof -
  obtain sign n frac ex where t: "t = sign @ n @ frac @ ex" "sign = [] \<or> sign = ''-''" "json_natural n"
      "frac = [] \<or> (\<exists>ds. frac = CHR ''.'' # ds \<and> json_digits ds)"
      "ex = [] \<or> (\<exists>e s ds. ex = e # s @ ds \<and> e \<in> {CHR ''e'', CHR ''E''} \<and> s \<in> {[], ''+'', ''-''} \<and> json_digits ds)"
    using assms unfolding json_number_def by blast
  have "dquote \<notin> set sign" using t(2) by auto
  moreover have "dquote \<notin> set n" using t(3) digits_no_quote by (auto simp: json_natural_def)
  moreover have "dquote \<notin> set frac" using t(4) digits_no_quote by auto
  moreover have "dquote \<notin> set ex" using t(5) digits_no_quote by auto
  ultimately show ?thesis by (simp add: t(1))
qed

lemma json_scan: "json t \<Longrightarrow> p \<in> openers \<Longrightarrow> \<exists>q. scan_run (Between p) t = Some (Between q)"
proof (induction t arbitrary: p rule: json.induct)
  case (json_string b s)
  then show ?case using scan_quoted by blast
next
  case (json_number t)
  from scan_no_quote [OF number_no_quote [OF this(1)]] show ?case .
next
  case (json_literal t)
  then have "dquote \<notin> set t" by auto
  then show ?case by (rule scan_no_quote)
next
  case (json_array vs)
  have "\<exists>q. scan_run (Between (CHR ''['')) (join_with '','' vs) = Some (Between q)"
    by (rule scan_join) (use json_array in \<open>auto simp: openers_def\<close>)
  then show ?case using scan_bracket [of "CHR ''[''" _ _ "CHR '']''"] by (auto simp: openers_def is_space_def)
next
  case (json_object kvs)
  have "\<exists>q. scan_run (Between (CHR ''{'')) (join_with '','' (map (\<lambda>(k, v). k @ '':'' @ v) kvs)) = Some (Between q)"
  proof (rule scan_join)
    fix t q assume t: "t \<in> set (map (\<lambda>(k, v). k @ '':'' @ v) kvs)" and q: "q \<in> openers"
    then obtain k v where kv: "(k, v) \<in> set kvs" "t = k @ '':'' @ v" by auto
    obtain a b s c where k: "json_space a" "json_unescape b = Some s" "json_space c" "k = a @ quoted b @ c"
      using json_object.hyps(1) [OF kv(1)] by blast
    have "CHR '':'' \<in> openers" by (simp add: openers_def)
    then obtain q' where "scan_run (Between (CHR '':'')) v = Some (Between q')"
      using json_object.IH [OF kv(1)] by blast
    moreover have "scan_step (Between p) (CHR '':'') = Some (Between (CHR '':''))" for p by (simp add: scan_step_def is_space_def)
    ultimately show "\<exists>q'. scan_run (Between q) t = Some (Between q')"
      using scan_space [OF k(1), of q] scan_quoted [OF k(2) q] scan_space [OF k(3), of dquote]
      by (simp add: kv(2) k(4) scan_run_append)
  qed (simp add: openers_def)
  then show ?case using scan_bracket [of "CHR ''{''" _ _ "CHR ''}''"] by (auto simp: openers_def is_space_def)
next
  case (json_empty a)
  from scan_bracket [OF scan_space [OF this(1), of "CHR ''[''"], of "CHR '']''"] show ?case by (simp add: openers_def is_space_def)
next
  case (json_empty_object a)
  from scan_bracket [OF scan_space [OF this(1), of "CHR ''{''"], of "CHR ''}''"] show ?case by (simp add: openers_def is_space_def)
next
  case (json_padded a v c)
  then show ?case using scan_space [of a p] scan_space [of c] by (fastforce simp: scan_run_append)
qed

lemma scan_none_not_json: "scan_run (Between (CHR '','')) t = None \<Longrightarrow> \<not> json t"
  using json_scan [of t "CHR '',''"] by (auto simp: openers_def)

lemma scan_quote_stuck: "q \<notin> openers \<Longrightarrow> scan_run (Between q) (dquote # r) = None"
  by (simp add: scan_step_def)

end
