(* ===== verification/Status_Laws.thy ===== *)
theory Status_Laws
  imports Status_Service Json_Grammar
begin

section \<open>What the status service writes\<close>

text \<open>
  The text of every property as a JSON value, an array or an object of members, and the position
  at which the state of the active engine stops being JSON.
\<close>

subsection \<open>The text of the writers\<close>

named_theorems writer_text \<open>the text that a writer leaves in the buffer\<close>

lemma append_number_text [writer_text]:
  "jb_text (append_int i b) = jb_text b @ show_int i"
  "jb_text (append_uint32 w b) = jb_text b @ show_nat (unat w)"
  "jb_text (append_bool x b) = jb_text b @ (if x then ''true'' else ''false'')"
  "jb_text (append_null b) = jb_text b @ ''null''"
  by (simp_all add: append_int_def append_uint32_def append_bool_def append_null_def)

definition member :: "string \<times> string \<Rightarrow> string" where
  "member kv = quoted (escape (fst kv)) @ '':'' @ snd kv"

lemma append_key_text [writer_text]: "jb_text (append_key k b) = jb_text b @ quoted (escape k) @ '':''"
  by (simp add: append_key_def quoted_def)

lemma comma_text [writer_text]: "jb_text (comma b) = jb_text b @ '',''"
  by (simp add: comma_def)

lemma field_text [writer_text]:
  "jb_text (field_string k s b) = jb_text b @ member (k, quoted (escape (or_empty s)))"
  "jb_text (field_bool k x b) = jb_text b @ member (k, if x then ''true'' else ''false'')"
  "jb_text (field_uint32 k w b) = jb_text b @ member (k, show_nat (unat w))"
  by (simp_all add: field_string_def field_bool_def field_uint32_def writer_text member_def)

lemma json_of_string_text: "json_of_string s = quoted (escape (or_empty s))"
  by (simp add: json_of_string_def)

lemma join_with_cons: "join_with sep (x # xs) = x @ concat (map (\<lambda>y. sep @ y) xs)"
proof (induction xs arbitrary: x)
  case Nil
  then show ?case by simp
next
  case (Cons y ys)
  have "join_with sep (x # y # ys) = x @ sep @ join_with sep (y # ys)" by simp
  also have "\<dots> = x @ concat (map (\<lambda>y. sep @ y) (y # ys))" unfolding Cons.IH by simp
  finally show ?case .
qed

lemma json_object_members:
  assumes "\<And>k v. (k, v) \<in> set kvs \<Longrightarrow> json v"
  shows "json (''{'' @ join_with '','' (map member kvs) @ ''}'')"
proof -
  let ?kvs = "map (\<lambda>(k, v). (quoted (escape k), v)) kvs"
  have eq: "map (\<lambda>(k, v). k @ '':'' @ v) ?kvs = map member kvs" by (simp add: member_def case_prod_beta)
  have "json (''{'' @ join_with '','' (map (\<lambda>(k, v). k @ '':'' @ v) ?kvs) @ ''}'')"
  proof (rule json_object)
    fix k v assume "(k, v) \<in> set ?kvs"
    then obtain k' where k': "k = quoted (escape k')" "(k', v) \<in> set kvs" by auto
    show "json v" using assms k'(2) .
    have "k = [] @ quoted (escape k') @ []" by (simp add: k'(1))
    then show "\<exists>a b s c. json_space a \<and> json_unescape b = Some s \<and> json_space c \<and> k = a @ quoted b @ c"
      using unescape_escape by (intro exI [of _ "[]"] exI [of _ "escape k'"] exI [of _ k'] exI [of _ "[]"]) (simp add: json_space_def)
  qed
  then show ?thesis unfolding eq .
qed

lemma json_members:
  "list_all (\<lambda>kv. json (snd kv)) kvs \<Longrightarrow> json (''{'' @ join_with '','' (map member kvs) @ ''}'')"
  by (rule json_object_members) (auto simp: list_all_iff)

lemma json_bool: "json (if x then ''true'' else ''false'')"
  by (rule json_literal) simp

subsection \<open>Arrays and objects\<close>

lemma append_items_text:
  "jb_text (append_items i xs b) =
     jb_text b @ (if i = 0 then join_with '','' (map (\<lambda>x. quoted (escape x)) xs)
                  else concat (map (\<lambda>x. '','' @ quoted (escape x)) xs))"
proof (induction i xs b rule: append_items.induct)
  case (1 i b)
  then show ?case by simp
next
  case (2 i x xs b)
  then show ?case
    by (simp add: writer_text join_with_cons comp_def del: join_with.simps)
qed

lemma build_string_array_text:
  "build_string_array xs = ''['' @ join_with '','' (map (\<lambda>x. quoted (escape x)) xs) @ '']''"
  by (simp add: build_string_array_def append_items_text)

lemma json_string_array: "json (build_string_array xs)"
  unfolding build_string_array_text by (rule json_array) (auto intro: json_escaped)

lemma append_order_some: "append_order i (map Some xs) b = append_items i xs b"
  by (induction i xs b rule: append_items.induct) simp_all

lemma engine_order_array:
  assumes "None \<notin> set (co_engine_order api c)"
  shows "json (build_engine_order api c)"
proof -
  obtain xs where xs: "co_engine_order api c = map Some xs"
    using assms by (metis ex_map_conv not_None_eq)
  have "build_engine_order api c = build_string_array xs"
    by (simp add: build_engine_order_def build_string_array_def xs append_order_some)
  then show ?thesis by (simp add: json_string_array)
qed

definition labels :: "'c core_api \<Rightarrow> 'c \<Rightarrow> string list \<Rightarrow> (string \<times> string) list" where
  "labels api c es = map (\<lambda>e. (e, quoted (escape (or_empty (co_label api e c))))) (filter (\<lambda>e. or_empty (co_label api e c) \<noteq> []) es)"

lemma append_labels_text:
  "jb_text (append_labels api c first es b) =
     jb_text b @ (if first then join_with '','' (map member (labels api c es))
                  else concat (map (\<lambda>x. '','' @ member x) (labels api c es)))"
proof (induction es arbitrary: first b)
  case Nil
  then show ?case by (simp add: labels_def)
next
  case (Cons e es)
  then show ?case
    by (simp add: writer_text labels_def Let_def member_def join_with_cons comp_def del: join_with.simps)
qed

lemma json_labels: "json (build_engine_display_names api c)"
proof -
  have "json (''{'' @ join_with '','' (map member (labels api c es)) @ ''}'')" for es
    by (rule json_object_members) (auto simp: labels_def json_escaped)
  then show ?thesis by (simp add: build_engine_display_names_def append_labels_text)
qed

lemma json_strings: "json (json_of_string s)"
  by (simp add: json_of_string_text json_escaped)

lemma json_mode: "json (build_active_engine_mode api c)"
proof (cases "co_last_mode api c")
  case None
  then show ?thesis
    using json_object_members [of "[]"] by (simp add: build_active_engine_mode_def Let_def)
next
  case (Some m)
  let ?kvs = "[(''mode_class'', quoted (escape (mode_class_name (em_class m)))),
     (''mode_id'', quoted (escape (or_empty (em_mode_id m)))),
     (''display_label'', quoted (escape (or_empty (em_display_label m)))),
     (''icon_name'', quoted (escape (or_empty (em_icon_name m))))]"
  have "build_active_engine_mode api c = ''{'' @ join_with '','' (map member ?kvs) @ ''}''"
    using Some by (simp add: build_active_engine_mode_def Let_def writer_text or_empty_def)
  then show ?thesis using json_members [of ?kvs] by (simp only: list.pred_inject snd_conv json_escaped simp_thms)
qed

lemma json_runtime_state: "json (build_runtime_state svc c)"
proof -
  define st where "st = (case sv_runtime_state svc of None \<Rightarrow> zero_runtime_state | Some f \<Rightarrow> f c)"
  let ?kvs = "[(''frontend_backend'', quoted (escape (or_empty (rs_frontend_backend st)))),
     (''lifecycle_phase'', quoted (escape (or_empty (rs_lifecycle_phase st)))),
     (''virtual_keyboard_state'', quoted (escape (or_empty (rs_virtual_keyboard_state st)))),
     (''keyboard_grab_active'', if rs_keyboard_grab_active st then ''true'' else ''false''),
     (''virtual_keyboard_has_keymap'', if rs_virtual_keyboard_has_keymap st then ''true'' else ''false''),
     (''watchdog_armed'', if rs_watchdog_armed st then ''true'' else ''false''),
     (''active_key_generation'', show_nat (unat (rs_active_key_generation st))),
     (''virtual_keyboard_keymap_generation'', show_nat (unat (rs_keymap_generation st))),
     (''virtual_keyboard_drop_count'', show_nat (unat (rs_drop_count st))),
     (''virtual_keyboard_state_age_ms'', show_nat (unat (rs_state_age_ms st))),
     (''virtual_keyboard_keymap_age_ms'', show_nat (unat (rs_keymap_age_ms st))),
     (''virtual_keyboard_forward_age_ms'', show_nat (unat (rs_forward_age_ms st))),
     (''virtual_keyboard_keymap_deadline_remaining_ms'', show_int (rs_deadline_remaining_ms st))]"
  have "build_runtime_state svc c = ''{'' @ join_with '','' (map member ?kvs) @ ''}''"
    unfolding build_runtime_state_def st_def [symmetric] Let_def
    by (simp add: writer_text or_empty_def member_def)
  moreover have "list_all (\<lambda>kv. json (snd kv)) ?kvs"
    by (simp add: json_escaped json_show_nat json_show_int json_bool del: if_split_asm split del: if_split)
  ultimately show ?thesis using json_members [of ?kvs] by (simp only:)
qed

subsection \<open>The state of the active engine\<close>

definition info_members :: "TypioEngineInfo \<Rightarrow> (string \<times> string) list" where
  "info_members i =
     [(''name'', quoted (escape (or_empty (ei_name i)))),
      (''display_name'', quoted (escape (or_empty (ei_display_name i)))),
      (''icon'', quoted (escape (or_empty (ei_icon i)))),
      (''language'', quoted (escape (or_empty (ei_language i)))),
      (''engine_type'', quoted (escape (engine_type_name (ei_type i)))),
      (''capabilities'', show_nat (unat (ei_capabilities i)))]"

lemma state_info_text: "jb_text (state_info i b) = jb_text b @ join_with '','' (map member (info_members i))"
  by (simp add: state_info_def Let_def writer_text info_members_def or_empty_def)

lemma json_state_idle:
  assumes "svc_active_keyboard_engine api c = None"
  shows "json (build_active_engine_state api c)"
proof (cases "co_last_mode api c")
  case None
  then show ?thesis
    using json_object_members [of "[]"] assms by (simp add: build_active_engine_state_def Let_def or_empty_def)
next
  case (Some m)
  let ?kvs = "[(''mode_class'', quoted (escape (mode_class_name (em_class m)))),
     (''mode_id'', quoted (escape (or_empty (em_mode_id m)))),
     (''mode_display_label'', quoted (escape (or_empty (em_display_label m)))),
     (''mode_icon'', quoted (escape (or_empty (em_icon_name m))))]"
  have "build_active_engine_state api c = ''{'' @ join_with '','' (map member ?kvs) @ ''}''"
    using Some assms
    by (simp add: build_active_engine_state_def Let_def state_mode_def writer_text or_empty_def)
  then show ?thesis using json_members [of ?kvs] by (simp only: list.pred_inject snd_conv json_escaped simp_thms)
qed

text \<open>Later writers only extend the text.\<close>

lemma append_string_extends: "\<exists>t. jb_text (append_string s b) = jb_text b @ t"
  by (simp add: writer_text)

lemma state_mode_extends: "\<exists>t. jb_text (state_mode f m b) = jb_text b @ t"
  by (simp add: state_mode_def Let_def writer_text)

lemma append_value_extends: "\<exists>t. jb_text (append_config_value v b) = jb_text b @ t"
  by (cases v) (simp_all add: append_config_value_def writer_text)

lemma state_config_extends: "\<exists>t. jb_text (state_config f kvs b) = jb_text b @ t"
proof (induction f kvs b rule: state_config.induct)
  case (3 first k v kvs b)
  obtain t where "jb_text (append_config_value v (append_key (''config.'' @ k) (if \<not> first then comma b else b))) =
      jb_text (append_key (''config.'' @ k) (if \<not> first then comma b else b)) @ t"
    using append_value_extends by blast
  with 3 show ?case by (auto simp: writer_text)
qed auto

lemma mode_part_extends:
  "\<exists>t. jb_text (case m of None \<Rightarrow> b | Some m \<Rightarrow> state_mode f m b) = jb_text b @ t"
  by (cases m) (simp_all add: state_mode_extends)

lemma config_part_extends:
  "\<exists>t. jb_text (if P then b else (case kvs of None \<Rightarrow> b | Some kvs \<Rightarrow> state_config f kvs b)) = jb_text b @ t"
  by (cases kvs) (simp_all add: state_config_extends)

lemma engine_state_prefix:
  assumes "svc_active_keyboard_engine api c = Some e" and "ce_info e = Some i"
  shows "\<exists>t. build_active_engine_state api c = ''{'' @ join_with '','' (map member (info_members i)) @ dquote # t"
proof -
  let ?b = "field_bool ''active'' (ce_active e) (state_info i (append_raw ''{'' tip_json_builder_new))"
  let ?b2 = "if or_empty (ce_config_path e) = [] then ?b else field_string ''config_path'' (ce_config_path e) ?b"
  let ?b3 = "case co_last_mode api c of None \<Rightarrow> ?b2 | Some m \<Rightarrow> state_mode True m ?b2"
  let ?b4 = "if or_empty (ce_name e) = [] then ?b3
     else (case co_engine_config api (or_empty (ce_name e)) c of None \<Rightarrow> ?b3 | Some kvs \<Rightarrow> state_config True kvs ?b3)"
  have 1: "\<exists>t. jb_text ?b2 = jb_text ?b @ t" by (simp add: writer_text)
  note 2 = mode_part_extends [where m = "co_last_mode api c" and b = ?b2 and f = True]
  note 3 = config_part_extends [where P = "or_empty (ce_name e) = []" and b = ?b3 and f = True
      and kvs = "co_engine_config api (or_empty (ce_name e)) c"]
  obtain t where t: "jb_text ?b4 = jb_text ?b @ t" using 1 2 3 by (metis append_assoc)
  have "build_active_engine_state api c = jb_text (append_raw ''}'' ?b4)"
    unfolding build_active_engine_state_def Let_def assms(1) bind.bind_lunit assms(2) option.case
    by (simp only: simp_thms if_True if_False)
  then have "build_active_engine_state api c = jb_text ?b @ t @ ''}''" by (simp add: t)
  moreover have "\<exists>u. jb_text ?b = ''{'' @ join_with '','' (map member (info_members i)) @ dquote # u"
    by (simp add: writer_text state_info_text member_def quoted_def)
  ultimately show ?thesis by auto
qed

lemma scan_digit_end:
  assumes "scan_run st0 (a @ ''}'') = Some (Between q)" and "a = a' @ [d]" and "is_digit d"
  shows "scan_run st0 a = Some (Between d)"
proof -
  have d: "d \<noteq> dquote" "\<not> is_space d" using assms(3) by (auto simp: is_digit_def)
  obtain st1 where st1: "scan_run st0 a' = Some st1"
    using assms(1,2) by (cases "scan_run st0 a'") (simp_all add: scan_run_append)
  show ?thesis
  proof (cases st1)
    case (Between p)
    with st1 d assms(2) show ?thesis by (simp add: scan_run_append scan_step_def)
  next
    case (InString e)
    with st1 assms(1,2) d show ?thesis by (cases e) (simp_all add: scan_run_append scan_step_def split: if_splits)
  qed
qed

lemma engine_state_stuck:
  assumes "svc_active_keyboard_engine api c = Some e" and "ce_info e = Some i" and "p \<in> openers"
  shows "scan_run (Between p) (build_active_engine_state api c) = None"
proof -
  let ?m = "join_with '','' (map member (info_members i))"
  have "json (''{'' @ ?m @ ''}'')"
    by (rule json_object_members) (auto simp: info_members_def json_escaped json_show_nat)
  then obtain q where q: "scan_run (Between p) ((''{'' @ ?m) @ ''}'') = Some (Between q)"
    using json_scan [OF _ assms(3)] by force
  let ?w = "show_nat (unat (ei_capabilities i))"
  have last: "?w = butlast ?w @ [last ?w]" by simp
  have "last ?w \<in> set ?w" by simp
  then have digit: "is_digit (last ?w)" using show_nat_digits by blast
  have "\<exists>x. ?m = x @ ?w" by (simp add: info_members_def member_def)
  then obtain x where "?m = x @ ?w" ..
  then have "''{'' @ ?m = (''{'' @ x @ butlast ?w) @ [last ?w]" using last by simp
  from scan_digit_end [OF q this digit]
  have "scan_run (Between p) (''{'' @ ?m) = Some (Between (last ?w))" .
  moreover have "last ?w \<notin> openers" using digit by (auto simp: openers_def is_digit_def)
  moreover obtain t where "build_active_engine_state api c = (''{'' @ ?m) @ dquote # t"
    using engine_state_prefix [OF assms(1,2)] by auto
  ultimately show ?thesis
    by (simp only: scan_run_append [of _ "''{'' @ ?m" "dquote # t"] option.case scan_quote_stuck simp_thms)
qed

subsection \<open>All properties\<close>

definition value_or_null :: "(string \<Rightarrow> string option) \<Rightarrow> string \<Rightarrow> string" where
  "value_or_null value p = (case value p of Some v \<Rightarrow> v | None \<Rightarrow> ''null'')"

lemma append_properties_text:
  "jb_text (append_properties value i ps b) =
     jb_text b @ (if i = 0 then join_with '','' (map member (map (\<lambda>p. (p, value_or_null value p)) ps))
                  else concat (map (\<lambda>x. '','' @ member x) (map (\<lambda>p. (p, value_or_null value p)) ps)))"
proof (induction ps arbitrary: i b)
  case Nil
  then show ?case by simp
next
  case (Cons p ps)
  then show ?case
    by (simp add: writer_text Let_def member_def value_or_null_def join_with_cons comp_def del: join_with.simps split: option.split)
qed

lemma get_all_text:
  "status_service_get_all_json api svc c =
     ''{'' @ join_with '','' (map member (map (\<lambda>p. (p, value_or_null (\<lambda>p. dispatch_property api svc p c) p)) all_properties)) @ ''}''"
  by (simp add: status_service_get_all_json_def append_properties_text)

lemma if_json:
  "(P \<Longrightarrow> json x) \<Longrightarrow> (y = Some v \<longrightarrow> json v) \<Longrightarrow> (if P then Some x else y) = Some v \<longrightarrow> json v"
  by auto

lemma none_json: "None = Some v \<longrightarrow> json v"
  by simp

lemmas writers_json =
  json_strings json_string_array json_labels json_mode json_runtime_state

lemma property_json:
  assumes "None \<notin> set (co_engine_order api c)" and "p \<noteq> ''ActiveEngineState''" and "dispatch_property api svc p c = Some v"
  shows "json v"
proof -
  have "dispatch_property api svc p c = Some v \<longrightarrow> json v"
    unfolding dispatch_property_def
    by (intro if_json none_json)
      (simp_all only: build_version_def build_active_engine_def engine_name_json_def build_active_voice_engine_def
        build_available_keyboard_engines_def build_available_engines_def build_ordered_engines_def
        build_available_voice_engines_def build_rime_schema_def build_config_text_def writers_json
        engine_order_array [OF assms(1)] assms(2) simp_thms)
  then show ?thesis using assms(3) by simp
qed

lemma value_json:
  assumes "None \<notin> set (co_engine_order api c)" and "p \<noteq> ''ActiveEngineState''"
  shows "json (value_or_null (\<lambda>p. dispatch_property api svc p c) p)"
  using property_json [OF assms, of svc]
  by (auto simp: value_or_null_def json_literal split: option.split)

lemma get_all_json_idle:
  assumes "None \<notin> set (co_engine_order api c)" and "svc_active_keyboard_engine api c = None"
  shows "json (status_service_get_all_json api svc c)"
proof -
  have "json (value_or_null (\<lambda>p. dispatch_property api svc p c) p)" for p
  proof (cases "p = ''ActiveEngineState''")
    case True
    then show ?thesis using json_state_idle [OF assms(2)] by (simp add: value_or_null_def dispatch_property_def)
  next
    case False
    then show ?thesis by (rule value_json [OF assms(1)])
  qed
  then show ?thesis unfolding get_all_text by (intro json_members) (simp add: list_all_iff)
qed

lemma join_with_append:
  "join_with sep (xs @ y # ys) = concat (map (\<lambda>x. x @ sep) xs) @ join_with sep (y # ys)"
  by (induction xs) simp_all

lemma scan_members:
  assumes "p \<in> openers" and "\<And>kv. kv \<in> set kvs \<Longrightarrow> json (snd kv)"
  shows "\<exists>q \<in> openers. scan_run (Between p) (concat (map (\<lambda>kv. member kv @ '','') kvs)) = Some (Between q)"
  using assms
proof (induction kvs arbitrary: p)
  case Nil
  then show ?case by simp
next
  case (Cons kv kvs)
  have colon: "CHR '':'' \<in> openers" "scan_step (Between q) (CHR '':'') = Some (Between (CHR '':''))" for q
    by (simp_all add: openers_def scan_step_def is_space_def)
  have sep: "CHR '','' \<in> openers" "scan_step (Between q) (CHR '','') = Some (Between (CHR '',''))" for q
    by (simp_all add: openers_def scan_step_def is_space_def)
  have "json (snd kv)" by (rule Cons.prems(2)) simp
  then obtain q where "scan_run (Between (CHR '':'')) (snd kv) = Some (Between q)"
    using json_scan [OF _ colon(1)] by blast
  moreover obtain q' where "q' \<in> openers" "scan_run (Between (CHR '','')) (concat (map (\<lambda>kv. member kv @ '','') kvs)) = Some (Between q')"
    using Cons.IH [OF sep(1)] Cons.prems(2) by auto
  ultimately show ?case
    using scan_quoted [OF unescape_escape Cons.prems(1), of "fst kv"]
    by (auto simp: scan_run_append member_def colon(2) sep(2))
qed

lemma get_all_stuck:
  assumes "None \<notin> set (co_engine_order api c)" and "svc_active_keyboard_engine api c = Some e" and "ce_info e = Some i"
  shows "scan_run (Between (CHR '','')) (status_service_get_all_json api svc c) = None"
proof -
  let ?kv = "\<lambda>p. (p, value_or_null (\<lambda>p. dispatch_property api svc p c) p)"
  let ?A = "map ?kv (take 11 all_properties)" and ?B = "map ?kv (drop 12 all_properties)"
  have split: "map ?kv all_properties = ?A @ ?kv ''ActiveEngineState'' # ?B" by (simp add: all_properties_def)
  have v: "snd (?kv ''ActiveEngineState'') = build_active_engine_state api c"
    by (simp add: value_or_null_def dispatch_property_def)
  have "list_all (\<lambda>kv. json (snd kv)) ?A"
    by (simp add: all_properties_def value_json [OF assms(1)])
  then have "json (snd kv)" if "kv \<in> set ?A" for kv
    using that by (simp only: list_all_iff)
  moreover have brace: "CHR ''{'' \<in> openers" "CHR '':'' \<in> openers" by (simp_all add: openers_def)
  ultimately obtain q where q: "q \<in> openers" "scan_run (Between (CHR ''{'')) (concat (map (\<lambda>kv. member kv @ '','') ?A)) = Some (Between q)"
    using scan_members [of "CHR ''{''" ?A] by blast
  let ?key = "quoted (escape ''ActiveEngineState'')"
  have key: "scan_run (Between q) ?key = Some (Between dquote)" by (rule scan_quoted [OF unescape_escape q(1)])
  have "\<exists>r. join_with '','' (map member (map ?kv all_properties)) =
      concat (map (\<lambda>kv. member kv @ '','') ?A) @ ?key @ '':'' @ build_active_engine_state api c @ r"
    unfolding split map_append list.map(2) join_with_append join_with_cons member_def [of "?kv ''ActiveEngineState''"] v fst_conv
    by (simp add: comp_def)
  then obtain r where r: "join_with '','' (map member (map ?kv all_properties)) =
      concat (map (\<lambda>kv. member kv @ '','') ?A) @ ?key @ '':'' @ build_active_engine_state api c @ r" ..
  have steps: "scan_step (Between (CHR '','')) (CHR ''{'') = Some (Between (CHR ''{''))"
      "scan_step (Between dquote) (CHR '':'') = Some (Between (CHR '':''))"
    by (simp_all add: scan_step_def is_space_def)
  show ?thesis
    unfolding get_all_text r
    using q(2) key engine_state_stuck [OF assms(2,3) brace(2)] steps
    by (simp add: scan_run_append)
qed

end
