(* ===== verification/Ipc_Bus.thy ===== *)
theory Ipc_Bus
  imports Status_Laws Uds_Spec
begin

section \<open>The IPC bus\<close>

text \<open>
  The glue of \<^verbatim>\<open>daemon/ipc/ipc_bus.c\<close>: a request text is taken apart, handed to the status
  service, and its answer is put into a JSON-RPC frame; the socket server carries the frames. The
  bytes of the socket are the codes of the characters of the text.
\<close>

type_synonym 's service = "string \<Rightarrow> string option \<Rightarrow> int \<Rightarrow> 's \<Rightarrow> string option \<times> 's"

definition request_id :: "string \<Rightarrow> int" where
  "request_id js = (case tip_json_extract_id js of Some i \<Rightarrow> i | None \<Rightarrow> 0)"

definition request_params :: "string \<Rightarrow> string option" where
  "request_params js = (case tip_json_extract_params js of
       Params p \<Rightarrow> if p = [] then None else Some p
     | _ \<Rightarrow> None)"

text \<open>Text that already mentions the protocol is not wrapped.\<close>

definition wrap_response :: "int \<Rightarrow> string \<Rightarrow> string" where
  "wrap_response rid r = (if strstr (quoted ''jsonrpc'') r = None then tip_json_build_response rid (Some r) else r)"

definition ipc_bus_handle_request :: "'s service option \<Rightarrow> string \<Rightarrow> 's \<Rightarrow> string option \<times> 's" where
  "ipc_bus_handle_request service js s = (case service of
       None \<Rightarrow> (Some (tip_json_build_error 0 (-32603) (Some ''Internal error'')), s)
     | Some serve \<Rightarrow>
         let rid = request_id js in
         (case tip_json_extract_string js ''method'' of
            None \<Rightarrow> (Some (tip_json_build_error rid (-32600) (Some ''Invalid Request: missing method'')), s)
          | Some name \<Rightarrow>
              (case serve name (request_params js) rid s of
                 (None, s) \<Rightarrow> (Some (tip_json_build_error rid (-32603) (Some ''Internal error'')), s)
               | (Some r, s) \<Rightarrow> (Some (wrap_response rid r), s))))"

definition bytes_of :: "string \<Rightarrow> u8 list" where
  "bytes_of s = map (\<lambda>c. word_of_nat (of_char c)) s"

definition text_of :: "u8 list \<Rightarrow> string" where
  "text_of b = map (\<lambda>x. char_of (unat x)) b"

definition bus_handler :: "'s service option \<Rightarrow> 's uds_handler" where
  "bus_handler service p s = (case ipc_bus_handle_request service (text_of p) s of
       (r, s) \<Rightarrow> (map_option bytes_of r, s))"

definition ipc_bus_emit_properties_changed :: "sends \<Rightarrow> string option \<Rightarrow> TypioUdsServer \<Rightarrow> TypioUdsServer" where
  "ipc_bus_emit_properties_changed w changed_json srv = (case changed_json of
       None \<Rightarrow> srv
     | Some j \<Rightarrow> uds_server_broadcast w (bytes_of (tip_json_build_notify (Some ''PropertiesChanged'') (Some j))) srv)"

subsection \<open>Every request is answered\<close>

lemma text_bytes [simp]: "text_of (bytes_of s) = s"
  by (simp add: text_of_def bytes_of_def comp_def unat_of_nat take_bit_nat_eq_self)

lemma length_bytes_of [simp]: "length (bytes_of s) = length s"
  by (simp add: bytes_of_def)

lemma handle_request_answers: "\<exists>r s'. ipc_bus_handle_request service js s = (Some r, s')"
  by (auto simp: ipc_bus_handle_request_def Let_def split: option.split prod.split)

lemma bus_handler_answers: "\<exists>r s'. bus_handler service p s = (Some r, s')"
  using handle_request_answers [of service "text_of p" s] by (auto simp: bus_handler_def)

lemma serve_all_answers: "length (fst (serve_all (Some (bus_handler service)) ms s)) = length ms"
proof (induction ms arbitrary: s)
  case Nil
  then show ?case by simp
next
  case (Cons m ms)
  obtain r s' where "bus_handler service (c_string m) s = (Some r, s')" using bus_handler_answers [of service "c_string m" s] by blast
  then show ?case using Cons [of s'] by (simp add: respond_def case_prod_beta)
qed

subsection \<open>Lengths\<close>

lemma length_show_nat: "n < 10 ^ Suc k \<Longrightarrow> length (show_nat n) \<le> Suc k"
proof (induction k arbitrary: n)
  case 0
  then show ?case by (simp add: show_nat.simps)
next
  case (Suc k)
  show ?case
  proof (cases "n < 10")
    case True
    then show ?thesis by (simp add: show_nat.simps)
  next
    case False
    have "n div 10 < 10 ^ Suc k" using Suc.prems by (simp add: less_mult_imp_div_less)
    then have "length (show_nat (n div 10)) \<le> Suc k" by (rule Suc.IH)
    moreover have "show_nat n = show_nat (n div 10) @ [digit_char (n mod 10)]" using False by (simp add: show_nat.simps [of n])
    ultimately show ?thesis by simp
  qed
qed

lemma length_show_int: "- (2 ^ 31) \<le> i \<Longrightarrow> i < 2 ^ 31 \<Longrightarrow> length (show_int i) \<le> 11"
proof (cases "i < 0")
  case True
  assume "- (2 ^ 31) \<le> i"
  then have "nat (- i) < 10 ^ Suc 9" by simp
  from length_show_nat [OF this] True show ?thesis by (simp add: show_int_def)
next
  case False
  assume "i < 2 ^ 31"
  then have "nat i < 10 ^ Suc 9" by simp
  from length_show_nat [OF this] False show ?thesis by (simp add: show_int_def)
qed

lemma int_of_long_range: "- (2 ^ 31) \<le> int_of_long v \<and> int_of_long v < 2 ^ 31"
  using sint_lt [of "word_of_int v :: u32"] sint_ge [of "word_of_int v :: u32"] by (simp add: int_of_long_def)

definition in_int :: "int \<Rightarrow> bool" where
  "in_int i \<longleftrightarrow> - (2 ^ 31) \<le> i \<and> i < 2 ^ 31"

lemma request_id_range: "- (2 ^ 31) \<le> request_id js" "request_id js < 2 ^ 31"
proof -
  have "- (2 ^ 31) \<le> request_id js \<and> request_id js < 2 ^ 31"
  proof (cases "after_key (quoted ''id'') js")
    case None
    then show ?thesis by (simp add: request_id_def tip_json_extract_id_def)
  next
    case (Some s)
    then show ?thesis using int_of_long_range [of "strtol10 s"]
      by (simp add: request_id_def tip_json_extract_id_def)
  qed
  then show "- (2 ^ 31) \<le> request_id js" "request_id js < 2 ^ 31" by auto
qed

lemma request_id_int: "in_int (request_id js)"
  using request_id_range by (simp add: in_int_def)

lemma length_response:
  assumes "- (2 ^ 31) \<le> i" and "i < 2 ^ 31"
  shows "length (tip_json_build_response i (Some r)) \<le> 100 + length r"
  using length_show_int [OF assms] by (simp add: build_response_text rpc_head_def quoted_def)

lemma length_show_code: "c \<in> {-32603, -32602, -32601, -32600} \<Longrightarrow> length (show_int c) \<le> 11"
  by (rule length_show_int) auto

lemma length_error:
  assumes "- (2 ^ 31) \<le> i" and "i < 2 ^ 31" and "c \<in> {-32603, -32602, -32601, -32600}" and "length (escape m) \<le> 100"
  shows "length (tip_json_build_error i c (Some m)) \<le> 300"
  using length_show_int [OF assms(1,2)] length_show_code [OF assms(3)] assms(4)
  by (simp add: build_error_text rpc_head_def quoted_def)

text \<open>Services whose answers leave room for the frame.\<close>

definition service_fits :: "'s service \<Rightarrow> bool" where
  "service_fits serve \<longleftrightarrow> (\<forall>name params rid s r s'. in_int rid \<longrightarrow> serve name params rid s = (Some r, s') \<longrightarrow> length r \<le> 65000)"

lemma escape_constants:
  "escape ''Internal error'' = ''Internal error''" "escape ''Invalid params'' = ''Invalid params''"
  "escape ''Invalid Request: missing method'' = ''Invalid Request: missing method''"
  by (simp_all add: escape_plain plain_char_def)

lemma handle_request_fits:
  assumes "service_fits serve" and "ipc_bus_handle_request (Some serve) js s = (Some r, s')"
  shows "length r \<le> 65536"
proof (cases "tip_json_extract_string js ''method''")
  case None
  then have "r = tip_json_build_error (request_id js) (-32600) (Some ''Invalid Request: missing method'')"
    using assms(2) by (simp add: ipc_bus_handle_request_def Let_def)
  then show ?thesis
    using length_error [OF request_id_range, of "-32600" "''Invalid Request: missing method''" js]
    by (simp add: escape_constants)
next
  case (Some name)
  show ?thesis
  proof (cases "fst (serve name (request_params js) (request_id js) s)")
    case None
    then have "r = tip_json_build_error (request_id js) (-32603) (Some ''Internal error'')"
      using assms(2) Some by (auto simp: ipc_bus_handle_request_def Let_def split: prod.splits option.splits)
    then show ?thesis
      using length_error [OF request_id_range, of "-32603" "''Internal error''" js]
      by (simp add: escape_constants)
  next
    case (Some a)
    then have "length a \<le> 65000"
      using assms(1) request_id_int [of js] unfolding service_fits_def by (metis prod.collapse)
    moreover have "r = wrap_response (request_id js) a"
      using assms(2) Some \<open>tip_json_extract_string js ''method'' = Some name\<close>
      by (auto simp: ipc_bus_handle_request_def Let_def split: prod.splits)
    ultimately show ?thesis
      using length_response [OF request_id_range, of js a] by (auto simp: wrap_response_def split: if_splits)
  qed
qed

lemma bus_responses_fit:
  assumes "service_fits serve"
  shows "responses_fit (Some (bus_handler (Some serve)))"
proof -
  have "length r \<le> TYPIO_UDS_WRITEBUF" if "bus_handler (Some serve) p s = (Some r, s')" for p s r s'
  proof -
    obtain a s'' where a: "ipc_bus_handle_request (Some serve) (text_of p) s = (Some a, s'')"
      using handle_request_answers [of "Some serve" "text_of p" s] by blast
    with that have "r = bytes_of a" by (simp add: bus_handler_def)
    then show ?thesis using handle_request_fits [OF assms a] by (simp add: TYPIO_UDS_WRITEBUF_def)
  qed
  then show ?thesis by (auto simp: responses_fit_def respond_def)
qed

subsection \<open>Identifiers\<close>

lemma response_id: "in_int i \<Longrightarrow> tip_json_extract_id (tip_json_build_response i r) = Some i"
  using extract_id_head [of i "'','' @ quoted ''result'' @ '':'' @ t" for t]
  by (simp add: in_int_def build_response_text is_digit_def)

lemma error_id: "in_int i \<Longrightarrow> tip_json_extract_id (tip_json_build_error i c m) = Some i"
  using extract_id_head [of i "'','' @ quoted ''error'' @ '':{'' @ quoted ''code'' @ '':'' @ t" for t]
  by (simp add: in_int_def build_error_text is_digit_def)

lemma frames_marked:
  "strstr (quoted ''jsonrpc'') (tip_json_build_response i r) \<noteq> None"
  "strstr (quoted ''jsonrpc'') (tip_json_build_error i c m) \<noteq> None"
  by (simp_all add: build_response_text build_error_text rpc_head_def quoted_def starts_with_def)

subsection \<open>The answers of the status service\<close>

definition service_errors :: "(int \<times> string) list" where
  "service_errors =
     [(-32602, ''Missing 'property' param''), (-32602, ''Unknown property''), (-32602, ''Missing 'engine' param''),
      (-32603, ''Engine manager not available''), (-32603, ''Failed to activate engine''), (-32603, ''Failed to switch engine''),
      (-32603, ''Failed to reload config''), (-32603, ''Stop callback not available''), (-32602, ''Missing 'content' param''),
      (-32603, ''Failed to save config''), (-32602, ''Missing 'schema' param''), (-32603, ''Failed to persist schema''),
      (-32603, ''Failed to reload after schema change''), (-32603, ''Failed to deploy Rime config''), (-32601, ''Method not found'')]"

text \<open>A value, an acknowledgement, or one of the errors, with the identifier of the request but in one case.\<close>

definition service_value :: "'c core_api \<Rightarrow> 'c TypioStatusService \<Rightarrow> 'c \<Rightarrow> string \<Rightarrow> bool" where
  "service_value api svc c r \<longleftrightarrow> r = status_service_get_all_json api svc c \<or> (\<exists>p. dispatch_property api svc p c = Some r)"

definition known_frame :: "int \<Rightarrow> string \<Rightarrow> bool" where
  "known_frame rid r \<longleftrightarrow> r = ok_response rid \<or> (\<exists>(code, m) \<in> set service_errors. r = tip_json_build_error rid code (Some m))"

lemma known_frame_intros:
  "known_frame rid (ok_response rid)"
  "(code, m) \<in> set service_errors \<Longrightarrow> known_frame rid (tip_json_build_error rid code (Some m))"
  by (auto simp: known_frame_def)

lemma handlers_known:
  "known_frame rid (fst (handle_activate_engine api params rid c))" "known_frame rid (fst (handle_next_engine api rid c))"
  "known_frame rid (fst (handle_reload_config api rid c))" "known_frame rid (fst (handle_stop svc rid c))"
  "known_frame rid (fst (handle_set_config_text api params rid c))" "known_frame rid (fst (handle_set_rime_schema api params rid c))"
  "known_frame rid (fst (handle_deploy_rime_config api rid c))"
  by (simp_all add: handle_activate_engine_def handle_next_engine_def handle_reload_config_def handle_stop_def
      handle_set_config_text_def handle_set_rime_schema_def handle_deploy_rime_config_def invalid_params_def internal_error_def
      Let_def known_frame_intros service_errors_def split: option.split prod.split)

lemma get_known:
  "params \<noteq> None \<Longrightarrow> service_value api svc c (handle_get api svc params rid c) \<or> known_frame rid (handle_get api svc params rid c)"
  by (auto simp: handle_get_def service_value_def invalid_params_def service_errors_def intro!: known_frame_intros split: option.split)

lemma service_answer:
  assumes "status_service_handle api svc name params rid c = (Some r, c')" and "\<not> (name = ''Get'' \<and> params = None)"
  shows "service_value api svc c r \<or> known_frame rid r"
proof -
  have "fst (status_service_handle api svc name params rid c) = Some (if name = ''GetAll'' then status_service_get_all_json api svc c
      else if name = ''Get'' then handle_get api svc params rid c
      else if name = ''ActivateEngine'' then fst (handle_activate_engine api params rid c)
      else if name = ''NextEngine'' then fst (handle_next_engine api rid c)
      else if name = ''ReloadConfig'' then fst (handle_reload_config api rid c)
      else if name = ''Stop'' then fst (handle_stop svc rid c)
      else if name = ''SetConfigText'' then fst (handle_set_config_text api params rid c)
      else if name = ''SetRimeSchema'' then fst (handle_set_rime_schema api params rid c)
      else if name = ''DeployRimeConfig'' then fst (handle_deploy_rime_config api rid c)
      else tip_json_build_error rid (-32601) (Some ''Method not found''))" (is "_ = Some ?r")
    by (simp add: status_service_handle_def case_prod_beta)
  then have r: "r = ?r" using assms(1) by simp
  have "known_frame rid (tip_json_build_error rid (-32601) (Some ''Method not found''))"
    by (rule known_frame_intros) (simp add: service_errors_def)
  then have frames: "name \<noteq> ''GetAll'' \<Longrightarrow> name \<noteq> ''Get'' \<Longrightarrow> known_frame rid ?r"
    by (simp only: if_False if_distrib [of "known_frame rid"] handlers_known if_cancel simp_thms)
  consider "name = ''GetAll''" | "name \<noteq> ''GetAll''" "name = ''Get''" | "name \<noteq> ''GetAll''" "name \<noteq> ''Get''" by blast
  then show ?thesis
  proof cases
    case 1
    then show ?thesis by (simp add: r service_value_def)
  next
    case 2
    with assms(2) have "params \<noteq> None" by simp
    with 2 show ?thesis using get_known [of params api svc c rid] by (simp only: r if_True if_False simp_thms)
  next
    case 3
    from frames [OF this] show ?thesis by (simp only: r simp_thms)
  qed
qed

lemma service_always_answers: "\<exists>r c'. status_service_handle api svc name params rid c = (Some r, c')"
  by (simp add: status_service_handle_def case_prod_beta)

text \<open>
  The values have room in the write buffer, and none of them has the quoted word that marks a frame of
  the protocol (an engine with that very name would bring it in).
\<close>

definition value_fits :: "string \<Rightarrow> bool" where
  "value_fits r \<longleftrightarrow> length r \<le> 65000 \<and> strstr (quoted ''jsonrpc'') r = None"

definition values_fit :: "'c core_api \<Rightarrow> 'c TypioStatusService \<Rightarrow> bool" where
  "values_fit api svc \<longleftrightarrow> (\<forall>c. value_fits (status_service_get_all_json api svc c) \<and>
     list_all (\<lambda>p. case dispatch_property api svc p c of None \<Rightarrow> True | Some r \<Rightarrow> value_fits r) all_properties)"

lemma property_listed: "dispatch_property api svc p c = Some v \<Longrightarrow> p \<in> set all_properties"
  by (rule ccontr) (simp add: dispatch_property_def all_properties_def)

lemma service_value_fits:
  assumes "values_fit api svc" and "service_value api svc c r"
  shows "length r \<le> 65000" "strstr (quoted ''jsonrpc'') r = None"
proof -
  have all: "value_fits (status_service_get_all_json api svc c)"
    "\<And>p. p \<in> set all_properties \<Longrightarrow> (case dispatch_property api svc p c of None \<Rightarrow> True | Some r \<Rightarrow> value_fits r)"
    using assms(1) unfolding values_fit_def list_all_iff by blast+
  have "value_fits r"
    using assms(2) unfolding service_value_def
  proof (elim disjE exE)
    fix p
    assume p: "dispatch_property api svc p c = Some r"
    with all(2) [OF property_listed [OF p]] show ?thesis by simp
  qed (simp add: all(1))
  then show "length r \<le> 65000" "strstr (quoted ''jsonrpc'') r = None" by (simp_all add: value_fits_def)
qed

lemma service_errors_short: "(code, m) \<in> set service_errors \<Longrightarrow> code \<in> {-32603, -32602, -32601, -32600} \<and> length (escape m) \<le> 100"
proof -
  have "list_all (\<lambda>(code, m). code \<in> {-32603, -32602, -32601, -32600} \<and> length (escape m) \<le> 100) service_errors" by code_simp
  then show "(code, m) \<in> set service_errors \<Longrightarrow> code \<in> {-32603, -32602, -32601, -32600} \<and> length (escape m) \<le> 100"
    by (auto simp: list_all_iff)
qed

lemma known_frame_facts:
  assumes "known_frame rid r" and "in_int rid"
  shows "length r \<le> 65000" "strstr (quoted ''jsonrpc'') r \<noteq> None" "tip_json_extract_id r = Some rid"
proof -
  have i: "- (2 ^ 31) \<le> rid" "rid < 2 ^ 31" using assms(2) by (simp_all add: in_int_def)
  have "length (tip_json_build_error rid code (Some m)) \<le> 65000" if "(code, m) \<in> set service_errors" for code m
    using length_error [OF i, of code m] service_errors_short [OF that] by linarith
  moreover have "length (ok_response rid) \<le> 65000" using length_response [OF i, of "''null''"] by (simp add: ok_response_def)
  ultimately show "length r \<le> 65000" using assms(1) by (auto simp: known_frame_def)
  show "strstr (quoted ''jsonrpc'') r \<noteq> None" "tip_json_extract_id r = Some rid"
    using assms(1) frames_marked response_id [OF assms(2)] error_id [OF assms(2)] by (auto simp: known_frame_def ok_response_def)
qed

lemma status_service_fits:
  assumes "values_fit api svc"
  shows "service_fits (status_service_handle api svc)"
  unfolding service_fits_def
proof (intro allI impI)
  fix name params rid c r c'
  assume i: "in_int rid" and r: "status_service_handle api svc name params rid c = (Some r, c')"
  show "length r \<le> 65000"
  proof (cases "name = ''Get'' \<and> params = None")
    case True
    with r have "r = tip_json_build_error 0 (-32602) (Some ''Invalid params'')"
      by (simp add: status_service_handle_def handle_get_def invalid_params_def)
    then show ?thesis
      using length_error [of 0 "-32602" "''Invalid params''"] by (simp add: escape_constants)
  next
    case False
    from service_answer [OF r False] service_value_fits(1) [OF assms, of c r] known_frame_facts(1) [OF _ i, of r] show ?thesis by blast
  qed
qed

subsection \<open>Answers to requests\<close>

text \<open>
  The identifier that the answer to a request carries: that of the request, 0 when it has none; but a Get
  without parameters is always answered with 0.
\<close>

definition answer_id :: "string \<Rightarrow> int" where
  "answer_id js =
     (if tip_json_extract_string js ''method'' = Some ''Get'' \<and> request_params js = None then 0 else request_id js)"

lemma answered_id:
  assumes "values_fit api svc" and "ipc_bus_handle_request (Some (status_service_handle api svc)) js c = (Some r, c')"
  shows "tip_json_extract_id r = Some (answer_id js)"
proof (cases "tip_json_extract_string js ''method''")
  case None
  then show ?thesis
    using assms(2) error_id [OF request_id_int] by (auto simp: ipc_bus_handle_request_def Let_def answer_id_def)
next
  case (Some name)
  obtain a c2 where a: "status_service_handle api svc name (request_params js) (request_id js) c = (Some a, c2)"
    using service_always_answers [of api svc name "request_params js" "request_id js" c] by blast
  then have r: "r = wrap_response (request_id js) a"
    using assms(2) Some by (simp add: ipc_bus_handle_request_def Let_def)
  show ?thesis
  proof (cases "name = ''Get'' \<and> request_params js = None")
    case True
    with a have "a = tip_json_build_error 0 (-32602) (Some ''Invalid params'')"
      by (simp add: status_service_handle_def handle_get_def invalid_params_def)
    then have "r = tip_json_build_error 0 (-32602) (Some ''Invalid params'')"
      using r frames_marked(2) by (simp add: wrap_response_def)
    then show ?thesis using error_id [of 0] True Some by (simp add: answer_id_def in_int_def)
  next
    case False
    then have id: "answer_id js = request_id js" using Some by (simp only: answer_id_def option.inject if_False)
    from service_answer [OF a False] show ?thesis
    proof
      assume "service_value api svc c a"
      with service_value_fits(2) [OF assms(1)] have "r = tip_json_build_response (request_id js) (Some a)" by (simp add: r wrap_response_def)
      then show ?thesis by (simp add: id response_id request_id_int)
    next
      assume "known_frame (request_id js) a"
      from known_frame_facts(2,3) [OF this request_id_int] show ?thesis by (auto simp: r wrap_response_def id)
    qed
  qed
qed

lemma serve_answers:
  assumes "values_fit api svc"
  shows "map (\<lambda>b. tip_json_extract_id (text_of b)) (fst (serve_all (Some (bus_handler (Some (status_service_handle api svc)))) ms c)) =
     map (\<lambda>m. Some (answer_id (text_of (c_string m)))) ms"
proof (induction ms arbitrary: c)
  case Nil
  then show ?case by simp
next
  case (Cons m ms)
  let ?bus = "Some (status_service_handle api svc)"
  obtain r c' where r: "ipc_bus_handle_request ?bus (text_of (c_string m)) c = (Some r, c')"
    using handle_request_answers [of ?bus "text_of (c_string m)" c] by blast
  have "respond (Some (bus_handler ?bus)) m c = (Some (bytes_of r), c')"
    by (simp add: respond_def bus_handler_def r)
  then show ?case using Cons.IH [of c'] answered_id [OF assms r] by (simp add: case_prod_beta)
qed

end
