(* ===== verification/Ipc_Props.thy ===== *)
theory Ipc_Props
  imports Ipc_Bus
begin

section \<open>Properties of the IPC bus\<close>

text \<open>
  Round trips of the JSON texts, the JSON that the status service writes and where it stops being
  JSON, and the way of a request through the socket server, the bus and the service.
\<close>

subsection \<open>Concrete texts and states\<close>

text \<open>A core without engines and without a state.\<close>

definition bare_api :: "unit core_api" where
  "bare_api =
     \<lparr>co_version = ''0.1'', co_has_manager = False, co_active = (\<lambda>_. None), co_active_voice = (\<lambda>_. None),
      co_list = (\<lambda>_. []), co_list_by_type = (\<lambda>_ _. []), co_list_ordered_keyboards = (\<lambda>_. []), co_label = (\<lambda>_ _. None),
      co_engine_order = (\<lambda>_. []), co_last_mode = (\<lambda>_. None), co_engine_config = (\<lambda>_ _. None), co_rime_schema = (\<lambda>_. None),
      co_config_text = (\<lambda>_. None), co_set_active = (\<lambda>_ c. (TYPIO_OK, c)), co_next = (\<lambda>c. (TYPIO_OK, c)),
      co_store_default_engine = (\<lambda>_ c. c), co_reload_config = (\<lambda>c. (TYPIO_OK, c)), co_set_config_text = (\<lambda>_ c. (TYPIO_OK, c)),
      co_set_rime_schema = (\<lambda>_ c. (TYPIO_OK, c)), co_deploy_rime_config = (\<lambda>c. (TYPIO_OK, c))\<rparr>"

definition bare_service :: "unit TypioStatusService" where
  "bare_service = \<lparr>sv_runtime_state = None, sv_stop = None\<rparr>"

definition bare_runtime :: string where
  "bare_runtime = ''{'' @ join_with '','' (map (\<lambda>(k, v). quoted k @ '':'' @ v)
     [(''frontend_backend'', quoted []), (''lifecycle_phase'', quoted []), (''virtual_keyboard_state'', quoted []),
      (''keyboard_grab_active'', ''false''), (''virtual_keyboard_has_keymap'', ''false''), (''watchdog_armed'', ''false''),
      (''active_key_generation'', ''0''), (''virtual_keyboard_keymap_generation'', ''0''), (''virtual_keyboard_drop_count'', ''0''),
      (''virtual_keyboard_state_age_ms'', ''0''), (''virtual_keyboard_keymap_age_ms'', ''0''), (''virtual_keyboard_forward_age_ms'', ''0''),
      (''virtual_keyboard_keymap_deadline_remaining_ms'', ''0'')]) @ ''}''"

definition bare_values :: "(string \<times> string) list" where
  "bare_values =
     [(''Version'', quoted ''0.1''), (''ActiveKeyboardEngine'', quoted []), (''ActiveEngine'', quoted []),
      (''AvailableKeyboardEngines'', ''[]''), (''AvailableEngines'', ''[]''), (''OrderedKeyboardEngines'', ''[]''),
      (''OrderedEngines'', ''[]''), (''EngineDisplayNames'', ''{}''), (''EngineOrder'', ''[]''), (''AvailableVoiceEngines'', ''[]''),
      (''ActiveVoiceEngine'', quoted []), (''ActiveEngineState'', ''{}''), (''ActiveEngineMode'', ''{}''),
      (''RuntimeState'', bare_runtime), (''RimeSchema'', quoted []), (''ConfigText'', quoted [])]"

lemma escape_id: "list_all plain_char k \<Longrightarrow> escape k = k"
  by (simp only: escape_plain)

lemma bare_runtime: "build_runtime_state bare_service () = bare_runtime"
proof -
  have "digit_char 0 = CHR ''0''" by code_simp
  then show ?thesis
    by (simp add: build_runtime_state_def bare_service_def zero_runtime_state_def bare_runtime_def Let_def writer_text or_empty_def
        member_def show_int_def show_nat.simps escape_id plain_char_def)
qed

lemma bare_dispatch: "map (\<lambda>p. (p, dispatch_property bare_api bare_service p ())) all_properties = map (\<lambda>(p, v). (p, Some v)) bare_values"
proof -
  have escaped: "escape ''0.1'' = ''0.1''" "escape [] = []" by (simp_all add: escape_def escape_char_def)
  show ?thesis
    by (simp add: all_properties_def bare_values_def dispatch_property_def bare_runtime build_version_def build_active_engine_def
        engine_name_json_def svc_active_keyboard_engine_def svc_active_voice_engine_def build_active_voice_engine_def
        build_available_keyboard_engines_def build_available_engines_def build_ordered_engines_def build_available_voice_engines_def
        build_engine_display_names_def build_engine_order_def build_active_engine_state_def build_active_engine_mode_def
        build_rime_schema_def build_config_text_def build_string_array_def json_of_string_text bare_api_def escaped Let_def)
qed

lemma no_quoted_word: "list_all (\<lambda>c. c \<noteq> CHR ''j'') s \<Longrightarrow> strstr (quoted ''jsonrpc'') s = None"
proof (induction s)
  case (Cons c s)
  then show ?case by (cases s) (simp_all add: quoted_def starts_with_def)
qed (simp add: quoted_def)

lemma join_with_facts:
  "list_all (\<lambda>x. length x \<le> n) xs \<Longrightarrow> length (join_with '','' xs) \<le> length xs * (n + 1)"
  "list_all (list_all P) xs \<Longrightarrow> P (CHR '','') \<Longrightarrow> list_all P (join_with '','' xs)"
  by (induction xs) auto

lemma bare_values_fit: "values_fit bare_api bare_service"
proof -
  let ?d = "\<lambda>p. dispatch_property bare_api bare_service p ()" and ?j = "list_all (\<lambda>c. c \<noteq> CHR ''j'')"
  have keys: "list_all (\<lambda>(p, v). escape p = p) bare_values" by (simp add: bare_values_def escape_id plain_char_def)
  have texts: "list_all (\<lambda>(p, v). length p \<le> 100 \<and> length v \<le> 1000 \<and> ?j p \<and> ?j v) bare_values"
    by (simp add: bare_values_def bare_runtime_def quoted_def)
  have members: "list_all (\<lambda>x. length x \<le> 1103) (map member bare_values)" "list_all ?j (map member bare_values)"
  proof -
    have "length (member kv) \<le> 1103 \<and> ?j (member kv)" if "kv \<in> set bare_values" for kv
    proof -
      obtain p v where kv: "kv = (p, v)" by fastforce
      have "escape p = p" "length p \<le> 100" "length v \<le> 1000" "?j p" "?j v"
        using bspec [OF keys [unfolded list_all_iff] that] bspec [OF texts [unfolded list_all_iff] that] by (simp_all add: kv list_all_iff)
      then show ?thesis by (simp add: kv member_def quoted_def)
    qed
    then show "list_all (\<lambda>x. length x \<le> 1103) (map member bare_values)" "list_all ?j (map member bare_values)"
      by (simp_all add: list_all_iff)
  qed
  have "map member (map (\<lambda>p. (p, value_or_null ?d p)) all_properties) = map member bare_values"
    using bare_dispatch by (simp add: all_properties_def bare_values_def value_or_null_def)
  then have all: "status_service_get_all_json bare_api bare_service () = ''{'' @ join_with '','' (map member bare_values) @ ''}''"
    by (simp only: get_all_text)
  have "length (join_with '','' (map member bare_values)) \<le> 16 * 1104"
    using join_with_facts(1) [OF members(1)] by (simp add: bare_values_def del: join_with.simps)
  moreover have "strstr (quoted ''jsonrpc'') (''{'' @ join_with '','' (map member bare_values) @ ''}'') = None"
    by (rule no_quoted_word) (use join_with_facts(2) [OF members(2)] in simp)
  ultimately have "value_fits (status_service_get_all_json bare_api bare_service ())"
    by (simp add: value_fits_def all del: join_with.simps)
  moreover have one: "value_fits v" if "(p, v) \<in> set bare_values" for p v
  proof -
    have "length v \<le> 1000" "?j v" using bspec [OF texts [unfolded list_all_iff] that] by (simp_all add: list_all_iff)
    then show ?thesis using no_quoted_word [of v] by (simp only: value_fits_def) simp
  qed
  have "list_all (\<lambda>(p, v). value_fits v) bare_values" unfolding list_all_iff using one by fast
  then have "list_all (\<lambda>p. case ?d p of None \<Rightarrow> True | Some r \<Rightarrow> value_fits r) all_properties"
    using bare_dispatch by (simp add: all_properties_def bare_values_def)
  ultimately show ?thesis by (simp add: values_fit_def)
qed

text \<open>Requests: to go to the next engine, without a method, and to get a property without saying which.\<close>

definition demo_requests :: "string list" where
  "demo_requests =
     [rpc_head @ quoted ''id'' @ '':1,'' @ quoted ''method'' @ '':'' @ quoted ''NextEngine'' @ ''}'',
      ''{'' @ quoted ''id'' @ '':2}'',
      ''{'' @ quoted ''id'' @ '':3,'' @ quoted ''method'' @ '':'' @ quoted ''Get'' @ ''}'']"

lemma demo_requests_facts:
  "list_all (\<lambda>m. length m \<le> 8188) (map bytes_of demo_requests)" "length (concat (map frame_bytes (map bytes_of demo_requests))) \<le> 200"
  "map (\<lambda>m. answer_id (text_of (c_string m))) (map bytes_of demo_requests) = [1, 2, 0]"
proof -
  show "list_all (\<lambda>m. length m \<le> 8188) (map bytes_of demo_requests)" "length (concat (map frame_bytes (map bytes_of demo_requests))) \<le> 200"
    by (simp_all add: demo_requests_def rpc_head_def quoted_def frame_bytes_def)
  have "map (\<lambda>m. c_string m) (map bytes_of demo_requests) = map bytes_of demo_requests" by code_simp
  then have "map (\<lambda>m. answer_id (text_of (c_string m))) (map bytes_of demo_requests) = map answer_id demo_requests"
    by (simp add: demo_requests_def)
  moreover have "map answer_id demo_requests = [1, 2, 0]" by code_simp
  ultimately show "map (\<lambda>m. answer_id (text_of (c_string m))) (map bytes_of demo_requests) = [1, 2, 0]" by simp
qed

definition idle_client :: TypioUdsClient where
  "idle_client = free_client\<lparr>uc_fd := 7\<rparr>"

definition all_taken :: sends where
  "all_taken i = SendTakes TYPIO_UDS_WRITEBUF"

lemma idle_client_facts:
  "client_idle idle_client" "uc_rbuf idle_client = []" "uc_sent idle_client = []" "kernel_takes_all all_taken"
  by (simp_all add: client_idle_def idle_client_def free_client_def kernel_takes_all_def all_taken_def)

definition demo_info :: TypioEngineInfo where
  "demo_info =
     \<lparr>ei_name = Some ''basic'', ei_display_name = Some ''Basic'', ei_icon = Some ''typio-keyboard'',
      ei_language = Some ''und'', ei_type = ENGINE_TYPE_KEYBOARD, ei_capabilities = 0\<rparr>"

definition demo_engine :: core_engine where
  "demo_engine = \<lparr>ce_name = Some ''basic'', ce_info = Some demo_info, ce_config_path = None, ce_active = True\<rparr>"

definition demo_api :: "string core_api" where
  "demo_api =
     \<lparr>co_version = ''0.1'', co_has_manager = True,
      co_active = (\<lambda>c. if c = [] then None else Some demo_engine), co_active_voice = (\<lambda>c. None),
      co_list = (\<lambda>c. [''basic'', ''rime'']), co_list_by_type = (\<lambda>t c. [''basic'', ''rime'']),
      co_list_ordered_keyboards = (\<lambda>c. [''basic'', ''rime'']), co_label = (\<lambda>e c. Some e),
      co_engine_order = (\<lambda>c. [Some ''basic'']), co_last_mode = (\<lambda>c. None),
      co_engine_config = (\<lambda>e c. None), co_rime_schema = (\<lambda>c. None), co_config_text = (\<lambda>c. Some c),
      co_set_active = (\<lambda>e c. (TYPIO_OK, c)), co_next = (\<lambda>c. (TYPIO_OK, c)), co_store_default_engine = (\<lambda>e c. c),
      co_reload_config = (\<lambda>c. (TYPIO_OK, c)), co_set_config_text = (\<lambda>t c. (TYPIO_OK, t)),
      co_set_rime_schema = (\<lambda>t c. (TYPIO_OK, c)), co_deploy_rime_config = (\<lambda>c. (TYPIO_OK, c))\<rparr>"

definition demo_service :: "string TypioStatusService" where
  "demo_service = \<lparr>sv_runtime_state = None, sv_stop = None\<rparr>"

subsection \<open>The properties\<close>

text \<open>
  The method of a notification can be read back: the reader finds the string that was
  written, and decoding it by the rules of JSON gives the method. The reader itself does not
  decode: what it returns is the method exactly when it has no quote, backslash or control
  character.
\<close>

theorem notification_method_round_trip:
  "tip_json_extract_string (tip_json_build_notify (Some m) p) ''method'' = Some (escape m) \<and>
   json_unescape (escape m) = Some m \<and> (escape m = m \<longleftrightarrow> list_all plain_char m)"
  using extract_method_head [of m] by (simp add: build_notify_text unescape_escape escape_plain)

text \<open>
  The identifier of a request survives: whatever the result or the error, the identifier
  that the frame of the answer carries is read back as the same 32-bit integer.
\<close>

theorem answer_id_round_trip:
  assumes "- (2 ^ 31) \<le> i" and "i < 2 ^ 31"
  shows "tip_json_extract_id (tip_json_build_response i r) = Some i \<and>
     tip_json_extract_id (tip_json_build_error i code message) = Some i"
  using response_id [of i r] error_id [of i code message] assms by (simp add: in_int_def)

theorem answer_id_round_trip_witness:
  "tip_json_extract_id (tip_json_build_response (-42) (Some ''{}'')) = Some (-42)"
  using answer_id_round_trip [of "-42" "Some ''{}''" 0 None] by simp

text \<open>
  C35. The status service speaks JSON: every property other than the state of the active engine is
  a JSON text whatever strings the core holds, and so are all properties together while no
  keyboard engine is active. (Entries of the engine order are strings.)
\<close>

theorem properties_are_json:
  assumes "None \<notin> set (co_engine_order api c)"
  shows "(\<forall>p v. p \<noteq> ''ActiveEngineState'' \<longrightarrow> dispatch_property api svc p c = Some v \<longrightarrow> json v) \<and>
     (svc_active_keyboard_engine api c = None \<longrightarrow> json (status_service_get_all_json api svc c))"
  using property_json [OF assms] get_all_json_idle [OF assms] by blast

theorem properties_are_json_witness:
  "json (status_service_get_all_json demo_api demo_service [])"
proof -
  have "None \<notin> set (co_engine_order demo_api [])" by (simp add: demo_api_def)
  from properties_are_json [OF this, of demo_service] show ?thesis
    by (simp add: svc_active_keyboard_engine_def demo_api_def)
qed

text \<open>
  As soon as a keyboard engine with its description is active, the state of the active engine
  is not JSON, because no comma separates its parts; and with it neither is the answer with all
  properties, which is also what every notification of a change carries.
\<close>

theorem engine_state_is_not_json:
  assumes "svc_active_keyboard_engine api c = Some e" and "ce_info e = Some i"
    and "None \<notin> set (co_engine_order api c)"
  shows "\<not> json (build_active_engine_state api c) \<and> \<not> json (status_service_get_all_json api svc c)"
proof -
  have "CHR '','' \<in> openers" by (simp add: openers_def)
  from engine_state_stuck [OF assms(1,2) this] get_all_stuck [OF assms(3,1,2)]
  show ?thesis by (simp add: scan_none_not_json)
qed

theorem engine_state_is_not_json_witness:
  "\<not> json (status_service_get_all_json demo_api demo_service ''x'')"
proof -
  have "svc_active_keyboard_engine demo_api ''x'' = Some demo_engine" "ce_info demo_engine = Some demo_info"
    "None \<notin> set (co_engine_order demo_api ''x'')"
    by (simp_all add: svc_active_keyboard_engine_def demo_api_def demo_engine_def)
  from engine_state_is_not_json [OF this] show ?thesis by blast
qed

text \<open>
  C37. Every request that a client sends over the socket, whatever its bytes (up to 8188) and however they are
  cut, is answered by the bus and the status service exactly once, in order, by a frame with the
  request's identifier, or 0 when none is read from it, also when its method is missing or not known; only
  the answer to a Get without parameters always has the identifier 0. An identifier that is written as an
  integer of 32 bits, as the second field after the version, is read as it is. This is for a client whose
  connection was idle, enough reads to take all bytes, memory for the messages, a kernel that takes the whole
  buffer at each send, and a core whose values, in all its states, have at most 65000 bytes and no
  occurrence of the quoted word that marks a frame of the protocol (an engine of that name would be one:
  such a value is sent without a frame).
\<close>

theorem every_request_answered:
  assumes "values_fit api svc" and "list_all (\<lambda>m. length m \<le> 8188) ms" and "length (concat (map frame_bytes ms)) \<le> length ns"
    and "client_idle c" and "uc_rbuf c = []" and "uc_sent c = []" and "kernel_takes_all w"
  shows "(\<exists>i' c' s'. drain w (\<lambda>_. True) (Some (bus_handler (Some (status_service_handle api svc)))) ns
        (concat (map frame_bytes ms)) (i0, c) s = Inr ([], (i', c'), s') \<and>
      map (\<lambda>b. tip_json_extract_id (text_of b)) (fst (split_frames (uc_sent c'))) = map (\<lambda>m. Some (answer_id (text_of (c_string m)))) ms \<and>
      snd (split_frames (uc_sent c')) = []) \<and>
    (\<forall>i rest. in_int i \<longrightarrow> request_id (rpc_head @ quoted ''id'' @ '':'' @ show_int i @ '','' @ rest) = i)"
proof -
  let ?f = "Some (bus_handler (Some (status_service_handle api svc)))"
  note fit = bus_responses_fit [OF status_service_fits [OF assms(1)]]
  have short: "length m \<le> TYPIO_UDS_READBUF - 4" if "m \<in> set ms" for m
    using that assms(2) by (auto simp: list_all_iff TYPIO_UDS_READBUF_def)
  have "sane (TYPIO_UDS_READBUF - 4) (concat (map frame_bytes ms))"
    by (rule sane_messages [OF short]) (simp_all add: TYPIO_UDS_READBUF_def)
  moreover have "split_frames (concat (map frame_bytes ms)) = (ms, [])"
  proof -
    have "length m < 2 ^ 32" if "m \<in> set ms" for m using short [OF that] by (simp add: TYPIO_UDS_READBUF_def)
    from split_frames_messages [OF this, of ms "[]"] show ?thesis by (simp add: split_frames_none has_frame_def)
  qed
  ultimately obtain i' c' where 1:
    "drain w (\<lambda>_. True) ?f ns (concat (map frame_bytes ms)) (i0, c) s = Inr ([], (i', c'), snd (serve_all ?f ms s))"
    "uc_sent c' = concat (map frame_bytes (fst (serve_all ?f ms s)))"
    using drain_all [OF assms(7) fit refl assms(4), of "concat (map frame_bytes ms)" ns i0 s] assms(3,5,6)
    by (auto simp: has_frame_def)
  have "split_frames (uc_sent c') = (fst (serve_all ?f ms s), [])"
  proof -
    have "length m < 2 ^ 32" if "m \<in> set (fst (serve_all ?f ms s))" for m by (rule serve_all_short [OF fit that])
    from split_frames_messages [OF this, of _ "[]"] show ?thesis
      by (simp add: 1(2) split_frames_none has_frame_def)
  qed
  then have frames: "map (\<lambda>b. tip_json_extract_id (text_of b)) (fst (split_frames (uc_sent c'))) = map (\<lambda>m. Some (answer_id (text_of (c_string m)))) ms"
    "snd (split_frames (uc_sent c')) = []"
    by (simp_all add: serve_answers [OF assms(1)])
  have "request_id (rpc_head @ quoted ''id'' @ '':'' @ show_int i @ '','' @ rest) = i" if "in_int i" for i rest
    using extract_id_head [of i "CHR '','' # rest"] that by (simp add: request_id_def in_int_def is_digit_def)
  with 1(1) frames show ?thesis by blast
qed

theorem every_request_answered_witness:
  "\<exists>i' c' s'. drain all_taken (\<lambda>_. True) (Some (bus_handler (Some (status_service_handle bare_api bare_service)))) (replicate 200 0)
       (concat (map frame_bytes (map bytes_of demo_requests))) (0, idle_client) () = Inr ([], (i', c'), s') \<and>
     map (\<lambda>b. tip_json_extract_id (text_of b)) (fst (split_frames (uc_sent c'))) = [Some 1, Some 2, Some 0]"
proof -
  have "length (concat (map frame_bytes (map bytes_of demo_requests))) \<le> length (replicate 200 (0 :: nat))"
    using demo_requests_facts(2) by simp
  from every_request_answered [OF bare_values_fit demo_requests_facts(1) this idle_client_facts, of 0 "()"]
  obtain i' c' s' where 1: "drain all_taken (\<lambda>_. True) (Some (bus_handler (Some (status_service_handle bare_api bare_service)))) (replicate 200 0)
       (concat (map frame_bytes (map bytes_of demo_requests))) (0, idle_client) () = Inr ([], (i', c'), s')"
    "map (\<lambda>b. tip_json_extract_id (text_of b)) (fst (split_frames (uc_sent c'))) =
       map (\<lambda>m. Some (answer_id (text_of (c_string m)))) (map bytes_of demo_requests)"
    by blast
  have "map (\<lambda>m. Some (answer_id (text_of (c_string m)))) (map bytes_of demo_requests) = map Some [1, 2, 0]"
    unfolding demo_requests_facts(3) [symmetric] by simp
  with 1 show ?thesis by (intro exI conjI) simp_all
qed

text \<open>
  A new configuration text reaches the core still escaped: the text that \<^verbatim>\<open>SetConfigText\<close>
  stores is the JSON string as it was sent, which differs from the intended text as soon as that
  has a line break, a quote or a backslash.
\<close>

theorem config_text_stored_escaped:
  "handle_set_config_text api (Some (''{'' @ member (''content'', quoted (escape t)) @ ''}'')) rid c =
     (case co_set_config_text api (escape t) c of
        (res, c) \<Rightarrow> (if res \<noteq> TYPIO_OK then internal_error rid ''Failed to save config'' else ok_response rid, c)) \<and>
   (escape t = t \<longleftrightarrow> list_all plain_char t)"
proof -
  have "tip_json_extract_string (''{'' @ member (''content'', quoted (escape t)) @ ''}'') ''content'' = Some (escape t)"
  proof -
    have key: "escape ''content'' = ''content''" by (simp add: escape_plain plain_char_def)
    have "after_key (quoted ''content'') (''{'' @ member (''content'', quoted (escape t)) @ ''}'') =
        Some (dquote # escape t @ dquote # ''}'')"
      by (simp add: after_key_def member_def key quoted_def starts_with_def is_space_def)
    then show ?thesis by (simp add: tip_json_extract_string_def string_body_escape)
  qed
  then show ?thesis by (simp add: handle_set_config_text_def param_string_def escape_plain)
qed

end
