(* ===== verification/Shortcut_Config.thy ===== *)
theory Shortcut_Config
  imports C_Strings Frontend "HOL-Library.Multiset"
begin

section \<open>Configurable shortcuts\<close>

text \<open>
  The text form of a key binding (\<^verbatim>\<open>daemon/wayland/shortcut_config.c\<close>): parsing, formatting, and
  loading the three bindings from the configuration, which is a parameter. A failed parse has no
  result; the callers do not read what it left in the output structure.
\<close>

subsection \<open>Names\<close>

definition modifier_names :: "(string \<times> u32) list" where
  "modifier_names =
     [(''ctrl'', TYPIO_MOD_CTRL), (''control'', TYPIO_MOD_CTRL), (''shift'', TYPIO_MOD_SHIFT),
      (''alt'', TYPIO_MOD_ALT), (''super'', TYPIO_MOD_SUPER)]"

definition keysym_names :: "(string \<times> u32) list" where
  "keysym_names =
     [(''space'', KEY_space), (''return'', KEY_Return), (''enter'', KEY_Return), (''tab'', KEY_Tab),
      (''escape'', KEY_Escape), (''esc'', KEY_Escape), (''backspace'', KEY_BackSpace), (''delete'', KEY_Delete),
      (''up'', KEY_Up), (''down'', KEY_Down), (''left'', KEY_Left), (''right'', KEY_Right),
      (''f1'', 0xffbe), (''f2'', 0xffbf), (''f3'', 0xffc0), (''f4'', 0xffc1), (''f5'', 0xffc2), (''f6'', 0xffc3),
      (''f7'', 0xffc4), (''f8'', 0xffc5), (''f9'', 0xffc6), (''f10'', 0xffc7), (''f11'', 0xffc8), (''f12'', 0xffc9)]"

fun str_eq_nocase :: "string \<Rightarrow> string \<Rightarrow> bool" where
  "str_eq_nocase (a # s) (b # t) = (if tolower a \<noteq> tolower b then False else str_eq_nocase s t)"
| "str_eq_nocase s t = (s = [] \<and> t = [])"

text \<open>The value of the first name that matches.\<close>

fun find_name :: "string \<Rightarrow> (string \<times> u32) list \<Rightarrow> u32 option" where
  "find_name token [] = None"
| "find_name token ((name, v) # tbl) = (if str_eq_nocase token name then Some v else find_name token tbl)"

definition parse_modifier :: "string \<Rightarrow> u32" where
  "parse_modifier token = (case find_name token modifier_names of Some v \<Rightarrow> v | None \<Rightarrow> 0)"

definition parse_keysym :: "string \<Rightarrow> u32" where
  "parse_keysym token = (case find_name token keysym_names of
       Some v \<Rightarrow> v
     | None \<Rightarrow>
         (case token of
            [c] \<Rightarrow>
              let ch = tolower c
              in if is_lower ch then of_char ch else if is_digit ch then of_char ch else 0
          | _ \<Rightarrow> 0))"

subsection \<open>Parsing\<close>

text \<open>The calls of \<^verbatim>\<open>strtok_r\<close>: delimiters are skipped, and a token ends at the next one.\<close>

function tokens :: "char \<Rightarrow> string \<Rightarrow> string list" where
  "tokens d s =
     (case dropWhile (\<lambda>c. c = d) s of
        [] \<Rightarrow> []
      | c # t \<Rightarrow> takeWhile (\<lambda>c. c \<noteq> d) (c # t) # tokens d (dropWhile (\<lambda>c. c \<noteq> d) (c # t)))"
  by pat_completeness auto
termination
proof (relation "measure (\<lambda>(d, s). length s)", goal_cases)
  case 1
  show ?case by simp
next
  case (2 d s c t)
  have "c \<noteq> d" using 2 hd_dropWhile [of "\<lambda>c. c = d" s] by simp
  then have "length (dropWhile (\<lambda>c. c \<noteq> d) (c # t)) \<le> length t" by (simp add: length_dropWhile_le)
  moreover have "length (c # t) \<le> length s" using length_dropWhile_le [of "\<lambda>c. c = d" s] 2 by simp
  ultimately show ?case by simp
qed

declare tokens.simps [simp del]

definition trim_spaces :: "string \<Rightarrow> string" where
  "trim_spaces t = rev (dropWhile (\<lambda>c. c = CHR '' '') (rev (dropWhile (\<lambda>c. c = CHR '' '') t)))"

text \<open>The loop over the tokens, with the modifiers, the key symbol and the number of tokens so far.\<close>

fun parse_tokens :: "string list \<Rightarrow> u32 \<times> u32 \<times> nat \<Rightarrow> (u32 \<times> u32 \<times> nat) option" where
  "parse_tokens [] acc = Some acc"
| "parse_tokens (t # ts) (mods, ks, seen) =
     (let token = trim_spaces t in
      if token = [] then parse_tokens ts (mods, ks, seen)
      else
        let m = parse_modifier token in
        if m \<noteq> 0 then parse_tokens ts (mods OR m, ks, seen + 1)
        else
          let k = parse_keysym token in
          if k = 0 then None
          else if ks \<noteq> 0 then None
          else parse_tokens ts (mods, k, seen + 1))"

definition typio_shortcut_parse :: "string \<Rightarrow> TypioShortcutBinding option" where
  "typio_shortcut_parse str =
     (if length str = 0 \<or> length str > 128 then None
      else (case parse_tokens (tokens (CHR ''+'') str) (0, 0, 0) of
              None \<Rightarrow> None
            | Some (mods, ks, seen) \<Rightarrow>
                if seen = 0 then None
                else if mods = 0 then None
                else Some \<lparr>sb_modifiers = mods, sb_keysym = ks\<rparr>))"

subsection \<open>Formatting\<close>

definition modifier_order :: "(u32 \<times> string) list" where
  "modifier_order =
     [(TYPIO_MOD_CTRL, ''Ctrl''), (TYPIO_MOD_ALT, ''Alt''), (TYPIO_MOD_SUPER, ''Super''), (TYPIO_MOD_SHIFT, ''Shift'')]"

definition append_part :: "string \<Rightarrow> string \<Rightarrow> string" where
  "append_part part buf = buf @ (if buf \<noteq> [] then ''+'' else []) @ part"

definition capitalize :: "string \<Rightarrow> string" where
  "capitalize s = (case s of [] \<Rightarrow> [] | c # s \<Rightarrow> toupper c # s)"

definition keysym_text :: "u32 \<Rightarrow> string" where
  "keysym_text ks = (case map_of (map (\<lambda>(n, v). (v, n)) keysym_names) ks of
       Some name \<Rightarrow> capitalize name
     | None \<Rightarrow>
         if (0x61 \<le> ks \<and> ks \<le> 0x7a) \<or> (0x30 \<le> ks \<and> ks \<le> 0x39) then [char_of (unat ks)]
         else ''0x'' @ show_hex (unat ks))"

definition typio_shortcut_format :: "TypioShortcutBinding \<Rightarrow> string" where
  "typio_shortcut_format b =
     (let buf = fold (\<lambda>(m, name) buf. if sb_modifiers b AND m \<noteq> 0 then append_part name buf else buf) modifier_order []
      in if sb_keysym b \<noteq> 0 then append_part (keysym_text (sb_keysym b)) buf else buf)"

subsection \<open>Loading\<close>

definition shortcut_config_defaults :: TypioShortcutConfig where
  "shortcut_config_defaults =
     \<lparr>sc_switch_engine = \<lparr>sb_modifiers = TYPIO_MOD_CTRL OR TYPIO_MOD_SHIFT, sb_keysym = 0\<rparr>,
      sc_emergency_exit = \<lparr>sb_modifiers = TYPIO_MOD_CTRL OR TYPIO_MOD_SHIFT, sb_keysym = KEY_Escape\<rparr>,
      sc_voice_ptt = \<lparr>sb_modifiers = TYPIO_MOD_SUPER, sb_keysym = KEY_v\<rparr>\<rparr>"

text \<open>A configured binding replaces the default when it can be parsed.\<close>

definition load_binding :: "string option \<Rightarrow> TypioShortcutBinding \<Rightarrow> TypioShortcutBinding" where
  "load_binding val default_binding = (case val of
       None \<Rightarrow> default_binding
     | Some s \<Rightarrow> (case typio_shortcut_parse s of None \<Rightarrow> default_binding | Some b \<Rightarrow> b))"

definition shortcut_config_load :: "(string \<Rightarrow> string option) option \<Rightarrow> TypioShortcutConfig" where
  "shortcut_config_load config =
     (let sc = shortcut_config_defaults in
      case config of
        None \<Rightarrow> sc
      | Some get_string \<Rightarrow>
          let sc = sc\<lparr>sc_switch_engine := load_binding (get_string ''shortcuts.switch_engine'') (sc_switch_engine sc)\<rparr>;
              sc = sc\<lparr>sc_emergency_exit := load_binding (get_string ''shortcuts.emergency_exit'') (sc_emergency_exit sc)\<rparr>
          in sc\<lparr>sc_voice_ptt := load_binding (get_string ''shortcuts.voice_ptt'') (sc_voice_ptt sc)\<rparr>)"

subsection \<open>What a shortcut text means\<close>

text \<open>
  A specification without state: every word of the text is a modifier, a key, or unknown; a
  shortcut has only known words, at most one key, and at least one modifier.
\<close>

definition words :: "string \<Rightarrow> string list" where
  "words str = filter (\<lambda>t. t \<noteq> []) (map trim_spaces (tokens (CHR ''+'') str))"

definition is_modifier_word :: "string \<Rightarrow> bool" where
  "is_modifier_word t \<longleftrightarrow> parse_modifier t \<noteq> 0"

definition key_words :: "string list \<Rightarrow> string list" where
  "key_words ws = filter (\<lambda>t. \<not> is_modifier_word t) ws"

definition modifiers_of :: "string list \<Rightarrow> u32" where
  "modifiers_of ws = fold (\<lambda>t m. m OR parse_modifier t) ws 0"

definition shortcut_spec :: "string list \<Rightarrow> TypioShortcutBinding option" where
  "shortcut_spec ws =
     (if list_all (\<lambda>t. parse_keysym t \<noteq> 0) (key_words ws) \<and> length (key_words ws) \<le> 1 \<and> list_ex is_modifier_word ws
      then Some \<lparr>sb_modifiers = modifiers_of ws,
                 sb_keysym = (case key_words ws of [] \<Rightarrow> 0 | t # _ \<Rightarrow> parse_keysym t)\<rparr>
      else None)"

lemma parse_tokens_spec:
  "parse_tokens ts (m, k, n) =
     (let ws = filter (\<lambda>t. t \<noteq> []) (map trim_spaces ts);
          ks = key_words ws
      in if list_all (\<lambda>t. parse_keysym t \<noteq> 0) ks \<and> length ks \<le> (if k = 0 then 1 else 0)
         then Some (fold (\<lambda>t m. m OR parse_modifier t) ws m, (case ks of [] \<Rightarrow> k | t # _ \<Rightarrow> parse_keysym t), n + length ws)
         else None)"
proof (induction ts arbitrary: m k n)
  case Nil
  then show ?case by (simp add: key_words_def Let_def)
next
  case (Cons t ts)
  have nothing: "parse_modifier x = 0 \<Longrightarrow> m OR parse_modifier x = m" for x by simp
  show ?case
  proof (cases "trim_spaces t = []")
    case True
    with Cons show ?thesis by (simp add: Let_def)
  next
    case nonempty: False
    show ?thesis
    proof (cases "parse_modifier (trim_spaces t) = 0")
      case False
      with nonempty Cons show ?thesis by (simp add: Let_def key_words_def is_modifier_word_def)
    next
      case True
      with nonempty Cons show ?thesis
        by (auto simp: Let_def key_words_def is_modifier_word_def filter_map split: list.split)
    qed
  qed
qed

lemma modifiers_zero: "fold (\<lambda>t m. m OR parse_modifier t) ws m = 0 \<longleftrightarrow> m = 0 \<and> (\<forall>t \<in> set ws. parse_modifier t = 0)"
  by (induction ws arbitrary: m) (auto simp: or_eq_0_iff)

lemma shortcut_parse_spec:
  assumes "0 < length str" and "length str \<le> 128"
  shows "typio_shortcut_parse str = shortcut_spec (words str)"
proof -
  have "modifiers_of ws = 0 \<longleftrightarrow> \<not> list_ex is_modifier_word ws" for ws
    by (auto simp: modifiers_of_def modifiers_zero is_modifier_word_def list_ex_iff)
  then show ?thesis
    using assms parse_tokens_spec [of "tokens (CHR ''+'') str" 0 0 0]
    by (auto simp: typio_shortcut_parse_def shortcut_spec_def words_def [symmetric] modifiers_of_def [symmetric] Let_def list_ex_iff)
qed

lemma modifiers_of_perm: "mset ws = mset ws' \<Longrightarrow> modifiers_of ws = modifiers_of ws'"
  unfolding modifiers_of_def by (rule fold_multiset_equiv [THEN fun_cong]) (auto simp: fun_eq_iff ac_simps)

lemma shortcut_spec_perm:
  assumes "mset ws = mset ws'"
  shows "shortcut_spec ws = shortcut_spec ws'"
proof -
  have keys: "mset (key_words ws) = mset (key_words ws')" using assms by (simp add: key_words_def)
  have len: "length (key_words ws) = length (key_words ws')" using mset_eq_length [OF keys] .
  have "key_words ws = key_words ws'" if "length (key_words ws) \<le> 1"
    using that len keys by (cases "key_words ws"; cases "key_words ws'") auto
  moreover have "set ws = set ws'" "set (key_words ws) = set (key_words ws')"
    using mset_eq_setD [OF assms] mset_eq_setD [OF keys] by auto
  ultimately show ?thesis
    using len modifiers_of_perm [OF assms] by (simp add: shortcut_spec_def list_all_iff list_ex_iff)
qed

subsection \<open>Formatting and parsing\<close>

lemma tokens_one:
  assumes "t \<noteq> []" and "d \<notin> set t" and "r = [] \<or> hd r = d"
  shows "tokens d (t @ r) = t # tokens d r"
proof -
  obtain c t' where t: "t = c # t'" "c \<noteq> d" using assms(1,2) by (cases t) auto
  have "takeWhile (\<lambda>c. c \<noteq> d) r = []" "dropWhile (\<lambda>c. c \<noteq> d) r = r" using assms(3) by (cases r; simp)+
  then have "takeWhile (\<lambda>c. c \<noteq> d) (t @ r) = t" "dropWhile (\<lambda>c. c \<noteq> d) (t @ r) = r"
    using assms(2) by (subst takeWhile_append2, auto)+ (subst dropWhile_append2, auto)+
  with t show ?thesis by (subst tokens.simps) simp
qed

lemma tokens_delimiter: "tokens d (d # r) = tokens d r"
  by (subst (1 2) tokens.simps) simp

lemma tokens_join: "list_all (\<lambda>t. t \<noteq> [] \<and> d \<notin> set t) ts \<Longrightarrow> tokens d (join_with [d] ts) = ts"
proof (induction ts)
  case Nil
  show ?case by (simp add: tokens.simps [of d "[]"])
next
  case (Cons t ts)
  then show ?case
    using tokens_one [of t d "[]"] tokens_one [of t d "d # join_with [d] ts"]
    by (cases "ts = []") (auto simp: tokens_delimiter tokens.simps [of d "[]"])
qed

lemma trim_no_spaces: "CHR '' '' \<notin> set t \<Longrightarrow> trim_spaces t = t"
proof -
  assume t: "CHR '' '' \<notin> set t"
  have "dropWhile (\<lambda>c. c = CHR '' '') s = s" if "CHR '' '' \<notin> set s" for s
    using that by (cases s) auto
  from this [OF t] this [of "rev t"] t show ?thesis by (simp add: trim_spaces_def)
qed

definition clean :: "string \<Rightarrow> bool" where
  "clean t \<longleftrightarrow> t \<noteq> [] \<and> CHR ''+'' \<notin> set t \<and> CHR '' '' \<notin> set t"

lemma words_join:
  assumes "list_all clean ts"
  shows "words (join_with ''+'' ts) = ts"
proof -
  have "tokens (CHR ''+'') (join_with ''+'' ts) = ts" by (rule tokens_join) (use assms in \<open>auto simp: clean_def list_all_iff\<close>)
  moreover have "map trim_spaces ts = ts" "filter (\<lambda>t. t \<noteq> []) ts = ts"
    using assms trim_no_spaces by (auto simp: clean_def list_all_iff intro: map_idI)
  ultimately show ?thesis by (simp add: words_def)
qed

definition modifier_parts :: "u32 \<Rightarrow> string list" where
  "modifier_parts w = map snd (filter (\<lambda>(m, name). w AND m \<noteq> 0) modifier_order)"

definition key_parts :: "u32 \<Rightarrow> string list" where
  "key_parts ks = (if ks = 0 then [] else [keysym_text ks])"

lemma format_join:
  "typio_shortcut_format b = join_with ''+'' (modifier_parts (sb_modifiers b) @ key_parts (sb_keysym b))"
  by (simp add: typio_shortcut_format_def modifier_parts_def modifier_order_def key_parts_def append_part_def)

definition nameable :: "u32 \<Rightarrow> bool" where
  "nameable ks \<longleftrightarrow> ks \<in> snd ` set keysym_names \<or> 0x61 \<le> ks \<and> ks \<le> 0x7a \<or> 0x30 \<le> ks \<and> ks \<le> 0x39"

definition key_text_ok :: "u32 \<Rightarrow> bool" where
  "key_text_ok ks \<longleftrightarrow>
     clean (keysym_text ks) \<and> parse_modifier (keysym_text ks) = 0 \<and> parse_keysym (keysym_text ks) = ks \<and>
     length (keysym_text ks) \<le> 10"

lemmas text_evaluation =
  key_text_ok_def clean_def keysym_text_def keysym_names_def const_defs capitalize_def toupper_def parse_modifier_def
  modifier_names_def parse_keysym_def tolower_def is_lower_def is_upper_def is_digit_def char_of_def bit_Suc_0_iff

lemma name_texts: "list_all key_text_ok (map snd keysym_names)"
  by (simp add: text_evaluation)

lemma str_eq_nocase_length: "str_eq_nocase s t \<Longrightarrow> length s = length t"
  by (induction s t rule: str_eq_nocase.induct) (auto split: if_splits)

lemma find_name_none: "list_all (\<lambda>(n, v). length n \<noteq> length t) tbl \<Longrightarrow> find_name t tbl = None"
  by (induction tbl) (auto dest!: str_eq_nocase_length)

lemma char_texts:
  assumes "0x61 \<le> ks \<and> ks \<le> 0x7a \<or> 0x30 \<le> ks \<and> ks \<le> 0x39"
  shows "key_text_ok ks"
proof -
  let ?n = "unat ks"
  have n: "97 \<le> ?n \<and> ?n \<le> 122 \<or> 48 \<le> ?n \<and> ?n \<le> 57"
    using assms by (simp add: word_le_nat_alt)
  define c where "c = (char_of ?n :: char)"
  have c: "of_char c = ?n" using n by (auto simp: c_def)
  have kind: "is_lower c \<or> is_digit c" "tolower c = c" using n by (auto simp: is_lower_def is_digit_def tolower_def is_upper_def c)
  have "c \<noteq> CHR ''+''" "c \<noteq> CHR '' ''" using n c by auto
  moreover have "map_of (map (\<lambda>(n, v). (v, n)) keysym_names) ks = None"
    using assms by (auto simp: map_of_eq_None_iff keysym_names_def const_defs)
  then have "keysym_text ks = [c]" using assms by (auto simp: keysym_text_def c_def)
  moreover have "find_name [c] modifier_names = None" "find_name [c] keysym_names = None"
    by (rule find_name_none, simp add: modifier_names_def keysym_names_def)+
  moreover have "(of_char c :: u32) = ks"
  proof -
    have "(of_char c :: u32) = of_nat (of_char c)" by (simp add: of_nat_of_char)
    then show ?thesis by (simp add: c)
  qed
  ultimately show ?thesis
    using kind by (auto simp: key_text_ok_def clean_def parse_modifier_def parse_keysym_def Let_def)
qed

lemma nameable_text: "nameable ks \<Longrightarrow> key_text_ok ks"
  using name_texts char_texts [of ks] by (auto simp: nameable_def list_all_iff)

lemma show_hex_length: "n < 16 ^ Suc k \<Longrightarrow> length (show_hex n) \<le> Suc k"
proof (induction k arbitrary: n)
  case 0
  then show ?case by (simp add: show_hex.simps)
next
  case (Suc k)
  show ?case
  proof (cases "n < 16")
    case True
    then show ?thesis by (simp add: show_hex.simps)
  next
    case False
    have "n div 16 < 16 ^ Suc k" using Suc.prems by (simp add: less_mult_imp_div_less)
    then have "length (show_hex (n div 16)) \<le> Suc k" by (rule Suc.IH)
    moreover have "show_hex n = show_hex (n div 16) @ [hex_digit (n mod 16)]" using False by (simp add: show_hex.simps [of n])
    ultimately show ?thesis by simp
  qed
qed

lemma show_hex_digits: "c \<in> set (show_hex n) \<Longrightarrow> hex_value c \<noteq> None"
proof (induction n rule: show_hex.induct)
  case (1 n)
  then show ?case by (cases "n < 16") (auto simp: show_hex.simps [of n])
qed

lemma hex_text:
  assumes "\<not> nameable ks"
  shows "keysym_text ks = ''0x'' @ show_hex (unat ks)"
proof -
  have "map_of (map (\<lambda>(n, v). (v, n)) keysym_names) ks = None"
    using assms by (auto simp: nameable_def map_of_eq_None_iff image_iff)
  then show ?thesis using assms by (auto simp: keysym_text_def nameable_def)
qed

lemma hex_text_unknown:
  assumes "\<not> nameable ks"
  shows "clean (keysym_text ks) \<and> parse_modifier (keysym_text ks) = 0 \<and> parse_keysym (keysym_text ks) = 0 \<and>
     length (keysym_text ks) \<le> 10"
proof -
  let ?h = "show_hex (unat ks)"
  have "hex_value (CHR ''+'') = None" "hex_value (CHR '' '') = None" by (simp_all add: hex_value_def)
  then have "CHR ''+'' \<notin> set ?h" "CHR '' '' \<notin> set ?h" using show_hex_digits by metis+
  moreover have zero: "tolower (CHR ''0'') = CHR ''0''" by (simp add: tolower_def is_upper_def)
  have letters: "tolower (CHR ''c'') \<noteq> CHR ''0''" "tolower (CHR ''s'') \<noteq> CHR ''0''" "tolower (CHR ''a'') \<noteq> CHR ''0''"
      "tolower (CHR ''r'') \<noteq> CHR ''0''" "tolower (CHR ''e'') \<noteq> CHR ''0''" "tolower (CHR ''t'') \<noteq> CHR ''0''"
      "tolower (CHR ''b'') \<noteq> CHR ''0''" "tolower (CHR ''d'') \<noteq> CHR ''0''" "tolower (CHR ''u'') \<noteq> CHR ''0''"
      "tolower (CHR ''l'') \<noteq> CHR ''0''" "tolower (CHR ''f'') \<noteq> CHR ''0''"
    by (simp_all add: tolower_def is_upper_def)
  have "find_name (''0x'' @ ?h) modifier_names = None" "find_name (''0x'' @ ?h) keysym_names = None"
    using letters [symmetric] by (simp_all add: modifier_names_def keysym_names_def zero)
  moreover have "unat ks < 2 ^ LENGTH(32)" by (rule unsigned_less)
  then have "unat ks < 16 ^ Suc 7" by simp
  from show_hex_length [OF this] have "length ?h \<le> 8" by simp
  ultimately show ?thesis
    by (simp add: hex_text [OF assms] clean_def parse_modifier_def parse_keysym_def)
qed

definition modifier_parts_ok :: "u32 \<Rightarrow> bool" where
  "modifier_parts_ok w \<longleftrightarrow>
     list_all clean (modifier_parts w) \<and> modifiers_of (modifier_parts w) = w \<and> key_words (modifier_parts w) = [] \<and>
     modifier_parts w \<noteq> [] \<and> length (join_with ''+'' (modifier_parts w)) \<le> 20"

lemma all_modifier_parts: "list_all modifier_parts_ok [1, 2, 3, 4, 5, 6, 7, 8, 9, 10, 11, 12, 13, 14, 15]"
  by (simp add: modifier_parts_ok_def modifier_parts_def modifier_order_def modifiers_of_def
      key_words_def is_modifier_word_def text_evaluation)

lemma word_upto_15: "w \<noteq> 0 \<Longrightarrow> w \<le> 15 \<Longrightarrow> w \<in> set [1, 2, 3, 4, 5, 6, 7, 8, 9, 10, 11, 12, 13, 14, 15 :: u32]"
proof -
  assume "w \<noteq> 0" "w \<le> 15"
  then have "0 < unat w" "unat w \<le> 15" by (simp_all add: word_le_nat_alt unat_gt_0)
  then have "unat w \<in> {1, 2, 3, 4, 5, 6, 7, 8, 9, 10, 11, 12, 13, 14, 15}" by (simp only: insert_iff empty_iff) presburger
  then have "(word_of_nat (unat w) :: u32) \<in> word_of_nat ` {1, 2, 3, 4, 5, 6, 7, 8, 9, 10, 11, 12, 13, 14, 15 :: nat}" by (rule imageI)
  then show ?thesis by simp
qed

lemma modifier_parts_known:
  assumes "w \<noteq> 0" and "w AND NOT all_mods = 0"
  shows "modifier_parts_ok w"
proof -
  have "w = w AND 15"
  proof (rule bit_word_eqI)
    fix n assume n: "n < LENGTH(32)"
    have "\<not> bit (w AND NOT all_mods) n" by (simp add: assms(2))
    then show "bit w n \<longleftrightarrow> bit (w AND 15) n"
      using n by (auto simp: all_mods_val bit_simps)
  qed
  then have "w \<le> 15" by (metis word_and_le1)
  then have "w \<in> set [1, 2, 3, 4, 5, 6, 7, 8, 9, 10, 11, 12, 13, 14, 15]" using assms(1) by (intro word_upto_15)
  then show ?thesis using all_modifier_parts unfolding list_all_iff by blast
qed

lemma length_join_append:
  "length (join_with [d] (xs @ [y])) \<le> length (join_with [d] xs) + 1 + length y"
  by (induction xs) auto

lemma format_parse:
  assumes "sb_modifiers b \<noteq> 0" and "sb_modifiers b AND NOT all_mods = 0"
  shows "typio_shortcut_parse (typio_shortcut_format b) =
     (if sb_keysym b = 0 \<or> nameable (sb_keysym b) then Some b else None)"
    and "length (typio_shortcut_format b) \<le> 31"
    and "list_all clean (words (typio_shortcut_format b))"
    and "join_with ''+'' (words (typio_shortcut_format b)) = typio_shortcut_format b"
    and "0 < length (typio_shortcut_format b)"
proof -
  let ?m = "modifier_parts (sb_modifiers b)" and ?k = "key_parts (sb_keysym b)"
  have m: "list_all clean ?m" "modifiers_of ?m = sb_modifiers b" "key_words ?m = []" "?m \<noteq> []"
      "length (join_with ''+'' ?m) \<le> 20"
    using modifier_parts_known [OF assms] by (simp_all add: modifier_parts_ok_def)
  have texts: "clean (keysym_text ks) \<and> parse_modifier (keysym_text ks) = 0 \<and> length (keysym_text ks) \<le> 10 \<and>
      parse_keysym (keysym_text ks) = (if nameable ks then ks else 0)" for ks
    using nameable_text [of ks] hex_text_unknown [of ks] by (auto simp: key_text_ok_def)
  have k: "list_all clean ?k" using texts by (simp add: key_parts_def)
  have words: "words (typio_shortcut_format b) = ?m @ ?k"
    unfolding format_join by (rule words_join) (simp add: m(1) k)
  show "list_all clean (words (typio_shortcut_format b))" by (simp add: words m(1) k)
  show "join_with ''+'' (words (typio_shortcut_format b)) = typio_shortcut_format b"
    unfolding words by (simp add: format_join)
  show len: "length (typio_shortcut_format b) \<le> 31"
    using m(5) texts [of "sb_keysym b"] length_join_append [of "CHR ''+''" ?m "keysym_text (sb_keysym b)"]
    by (auto simp: format_join key_parts_def)
  have "join_with ''+'' (?m @ ?k) \<noteq> []" using m(1,4) by (cases ?m) (auto simp: clean_def)
  then show some: "0 < length (typio_shortcut_format b)" by (simp add: format_join)
  from this len have "typio_shortcut_parse (typio_shortcut_format b) = shortcut_spec (?m @ ?k)"
    by (simp add: shortcut_parse_spec words)
  moreover have "key_words (?m @ ?k) = ?k"
    using m(3) texts [of "sb_keysym b"] by (simp add: key_words_def key_parts_def is_modifier_word_def)
  moreover have "modifiers_of (?m @ ?k) = sb_modifiers b"
    using m(2) texts [of "sb_keysym b"] by (simp add: modifiers_of_def key_parts_def)
  moreover have "list_ex is_modifier_word (?m @ ?k)"
  proof -
    obtain t ts where t: "?m = t # ts" using m(4) by (cases ?m) auto
    then have "is_modifier_word t" using m(3) by (auto simp: key_words_def split: if_splits)
    then show ?thesis by (simp add: t)
  qed
  ultimately show "typio_shortcut_parse (typio_shortcut_format b) =
     (if sb_keysym b = 0 \<or> nameable (sb_keysym b) then Some b else None)"
    using texts [of "sb_keysym b"] by (auto simp: shortcut_spec_def key_parts_def)
qed

end
