(* ===== verification/Basic_Engine.thy ===== *)
theory Basic_Engine
  imports C_Strings
begin

section \<open>The basic engine\<close>

text \<open>
  The built-in keyboard engine in C: two-key compose sequences (\<^verbatim>\<open>engines/basic/compose.c\<close>)
  and the engine around them (\<^verbatim>\<open>engines/basic/basic.c\<close>). The input context is the list of
  the requests made to it; the context and the event are not null.
\<close>

subsection \<open>UTF-8\<close>

text \<open>Both files have the same encoder; its result has no bytes when there is no encoding.\<close>

definition encode_utf8 :: "u32 \<Rightarrow> u8 list" where
  "encode_utf8 cp =
     (if cp \<le> 0x7F then [ucast cp]
      else if cp \<le> 0x7FF then [ucast (0xC0 OR drop_bit 6 cp), ucast (0x80 OR (cp AND 0x3F))]
      else if cp \<le> 0xFFFF
      then [ucast (0xE0 OR drop_bit 12 cp), ucast (0x80 OR (drop_bit 6 cp AND 0x3F)), ucast (0x80 OR (cp AND 0x3F))]
      else if cp \<le> 0x10FFFF
      then [ucast (0xF0 OR drop_bit 18 cp), ucast (0x80 OR (drop_bit 12 cp AND 0x3F)),
            ucast (0x80 OR (drop_bit 6 cp AND 0x3F)), ucast (0x80 OR (cp AND 0x3F))]
      else [])"

subsection \<open>Compose sequences\<close>

definition compose_key :: "u32 \<Rightarrow> u32 \<Rightarrow> u32" where
  "compose_key first second = push_bit 16 first OR second"

text \<open>The table of the source, as the two characters and the result.\<close>

definition rule_table :: "(u32 \<times> u32 \<times> u32) list" where
  "rule_table =
     [
      (0x27, 0x41, 0x00c1), (0x27, 0x43, 0x0106), (0x27, 0x45, 0x00c9), (0x27, 0x47, 0x01f4), (0x27, 0x49, 0x00cd), (0x27, 0x4c, 0x0139),
      (0x27, 0x4e, 0x0143), (0x27, 0x4f, 0x00d3), (0x27, 0x52, 0x0154), (0x27, 0x53, 0x015a), (0x27, 0x55, 0x00da), (0x27, 0x59, 0x00dd),
      (0x27, 0x5a, 0x0179), (0x27, 0x61, 0x00e1), (0x27, 0x63, 0x0107), (0x27, 0x65, 0x00e9), (0x27, 0x67, 0x01f5), (0x27, 0x69, 0x00ed),
      (0x27, 0x6b, 0x1e31), (0x27, 0x6c, 0x013a), (0x27, 0x6d, 0x1e3f), (0x27, 0x6e, 0x0144), (0x27, 0x6f, 0x00f3), (0x27, 0x70, 0x1e55),
      (0x27, 0x72, 0x0155), (0x27, 0x73, 0x015b), (0x27, 0x75, 0x00fa), (0x27, 0x79, 0x00fd), (0x27, 0x7a, 0x017a), (0x60, 0x41, 0x00c0),
      (0x60, 0x45, 0x00c8), (0x60, 0x49, 0x00cc), (0x60, 0x4f, 0x00d2), (0x60, 0x55, 0x00d9), (0x60, 0x61, 0x00e0), (0x60, 0x65, 0x00e8),
      (0x60, 0x69, 0x00ec), (0x60, 0x6f, 0x00f2), (0x60, 0x75, 0x00f9), (0x5e, 0x41, 0x00c2), (0x5e, 0x45, 0x00ca), (0x5e, 0x49, 0x00ce),
      (0x5e, 0x4f, 0x00d4), (0x5e, 0x55, 0x00db), (0x5e, 0x61, 0x00e2), (0x5e, 0x65, 0x00ea), (0x5e, 0x69, 0x00ee), (0x5e, 0x6f, 0x00f4),
      (0x5e, 0x75, 0x00fb), (0x22, 0x41, 0x00c4), (0x22, 0x45, 0x00cb), (0x22, 0x49, 0x00cf), (0x22, 0x4f, 0x00d6), (0x22, 0x55, 0x00dc),
      (0x22, 0x59, 0x0178), (0x22, 0x61, 0x00e4), (0x22, 0x65, 0x00eb), (0x22, 0x69, 0x00ef), (0x22, 0x6f, 0x00f6), (0x22, 0x75, 0x00fc),
      (0x22, 0x79, 0x00ff), (0x7e, 0x41, 0x00c3), (0x7e, 0x4e, 0x00d1), (0x7e, 0x4f, 0x00d5), (0x7e, 0x61, 0x00e3), (0x7e, 0x6e, 0x00f1),
      (0x7e, 0x6f, 0x00f5), (0x2c, 0x43, 0x00c7), (0x2c, 0x63, 0x00e7), (0x2f, 0x4c, 0x0141), (0x2f, 0x4f, 0x00d8), (0x2f, 0x6c, 0x0142),
      (0x2f, 0x6f, 0x00f8), (0x3f, 0x3f, 0x00bf), (0x21, 0x21, 0x00a1), (0x3c, 0x3c, 0x00ab), (0x3e, 0x3e, 0x00bb), (0x27, 0x27, 0x0027),
      (0x60, 0x60, 0x0060), (0x22, 0x22, 0x0022), (0x5e, 0x5e, 0x005e), (0x7e, 0x7e, 0x007e), (0x2c, 0x2c, 0x002c), (0x2d, 0x2d, 0x2013),
      (0x2d, 0x3d, 0x2014), (0x2e, 0x2e, 0x2026)]"

definition rules :: "(u32 \<times> u32) list" where
  "rules = map (\<lambda>(a, b, r). (compose_key a b, r)) rule_table"

definition find_rule :: "u32 \<Rightarrow> u32 \<Rightarrow> u32 option" where
  "find_rule first second = map_of rules (compose_key first second)"

definition can_start_compose :: "u32 \<Rightarrow> bool" where
  "can_start_compose cp = list_ex (\<lambda>(k, r). drop_bit 16 k = cp) rules"

record BasicCompose =
  bc_active :: bool
  bc_first :: u32
  bc_preedit :: "u8 list"

definition basic_compose_new :: BasicCompose where
  "basic_compose_new = \<lparr>bc_active = False, bc_first = 0, bc_preedit = []\<rparr>"

datatype BasicComposeResult = COMPOSE_NONE | COMPOSE_CONSUME | COMPOSE_COMMIT | COMPOSE_CANCEL

definition basic_compose_process_key :: "u32 \<Rightarrow> BasicCompose \<Rightarrow> BasicComposeResult \<times> u32 list \<times> BasicCompose" where
  "basic_compose_process_key cp st =
     (if \<not> bc_active st
      then if can_start_compose cp
           then (COMPOSE_CONSUME, [], st\<lparr>bc_active := True, bc_first := cp, bc_preedit := encode_utf8 cp\<rparr>)
           else (COMPOSE_NONE, [], st)
      else
        let st = st\<lparr>bc_active := False\<rparr>
        in (case find_rule (bc_first st) cp of
              Some r \<Rightarrow> (COMPOSE_COMMIT, [r], st)
            | None \<Rightarrow> (COMPOSE_CANCEL, [bc_first st], st)))"

definition basic_compose_get_preedit :: "BasicCompose \<Rightarrow> u8 list option" where
  "basic_compose_get_preedit st = (if bc_active st then Some (bc_preedit st) else None)"

definition basic_compose_cancel :: "BasicCompose \<Rightarrow> u32 \<times> BasicCompose" where
  "basic_compose_cancel st = (if \<not> bc_active st then (0, st) else (bc_first st, st\<lparr>bc_active := False\<rparr>))"

definition basic_compose_reset :: "BasicCompose \<Rightarrow> BasicCompose" where
  "basic_compose_reset st = st\<lparr>bc_active := False, bc_first := 0, bc_preedit := []\<rparr>"

subsection \<open>The engine\<close>

datatype ctx_request = CtxCommit "u8 list" | CtxSetComposition "u8 list" | CtxClear

record BasicEngineData =
  bd_compose :: "BasicCompose option"
  bd_compose_enabled :: bool

datatype key_result = KEY_NOT_HANDLED | KEY_HANDLED | KEY_COMPOSING | KEY_COMMITTED

text \<open>\<open>alloc\<close>: the two allocations of the engine's data; \<open>config\<close>: the setting, when there is a configuration.\<close>

definition basic_init :: "bool \<times> bool \<Rightarrow> bool option \<Rightarrow> TypioResult \<times> BasicEngineData option" where
  "basic_init alloc config =
     (if \<not> fst alloc \<or> \<not> snd alloc then (TYPIO_ERROR_OUT_OF_MEMORY, None)
      else (TYPIO_OK, Some \<lparr>bd_compose = Some basic_compose_new,
                            bd_compose_enabled = (case config of None \<Rightarrow> False | Some b \<Rightarrow> b)\<rparr>))"

definition basic_destroy :: "BasicEngineData option \<Rightarrow> BasicEngineData option" where
  "basic_destroy data = None"

definition compose_active :: "BasicEngineData option \<Rightarrow> bool" where
  "compose_active data = (case data of
       None \<Rightarrow> False
     | Some d \<Rightarrow> (case bd_compose d of None \<Rightarrow> False | Some c \<Rightarrow> bc_active c))"

definition upd_compose :: "(BasicCompose \<Rightarrow> BasicCompose) \<Rightarrow> BasicEngineData option \<Rightarrow> BasicEngineData option" where
  "upd_compose f data = map_option (\<lambda>d. d\<lparr>bd_compose := map_option f (bd_compose d)\<rparr>) data"

definition basic_reset :: "BasicEngineData option \<Rightarrow> BasicEngineData option \<times> ctx_request list" where
  "basic_reset data = (upd_compose basic_compose_reset data, if compose_active data then [CtxClear] else [])"

text \<open>Gaining the focus and reloading the configuration change nothing.\<close>

definition basic_focus_out :: "BasicEngineData option \<Rightarrow> BasicEngineData option \<times> ctx_request list" where
  "basic_focus_out data = basic_reset data"

definition basic_has_blocking_modifiers :: "key_event \<Rightarrow> bool" where
  "basic_has_blocking_modifiers ev \<longleftrightarrow> has_blocking (ev_modifiers ev)"

definition basic_commit_codepoint :: "u32 \<Rightarrow> ctx_request list" where
  "basic_commit_codepoint cp = (if encode_utf8 cp \<noteq> [] then [CtxCommit (encode_utf8 cp)] else [])"

definition basic_update_preedit :: "BasicCompose \<Rightarrow> ctx_request list" where
  "basic_update_preedit c = (case basic_compose_get_preedit c of Some t \<Rightarrow> [CtxSetComposition t] | None \<Rightarrow> [CtxClear])"

definition first_pending :: "BasicEngineData option \<Rightarrow> u32" where
  "first_pending data = (case data of
       None \<Rightarrow> 0
     | Some d \<Rightarrow> (case bd_compose d of None \<Rightarrow> 0 | Some c \<Rightarrow> fst (basic_compose_cancel c)))"

text \<open>A printable key with composition enabled.\<close>

definition basic_compose_step :: "u32 \<Rightarrow> BasicCompose \<Rightarrow> key_result \<times> BasicCompose \<times> ctx_request list" where
  "basic_compose_step cp c = (case basic_compose_process_key cp c of
       (res, out_cps, c) \<Rightarrow>
         (case res of
            COMPOSE_NONE \<Rightarrow> (KEY_COMMITTED, c, basic_commit_codepoint cp)
          | COMPOSE_CONSUME \<Rightarrow> (KEY_COMPOSING, c, basic_update_preedit c)
          | COMPOSE_COMMIT \<Rightarrow> (KEY_COMMITTED, c, CtxClear # concat (map basic_commit_codepoint out_cps))
          | COMPOSE_CANCEL \<Rightarrow>
              (KEY_COMMITTED, c,
               CtxClear # concat (map basic_commit_codepoint out_cps) @ basic_commit_codepoint cp)))"

definition basic_process_key ::
    "BasicEngineData option \<Rightarrow> key_event \<Rightarrow> key_result \<times> BasicEngineData option \<times> ctx_request list" where
  "basic_process_key data ev =
     (if ev_type ev \<noteq> EVENT_KEY_PRESS then (KEY_NOT_HANDLED, data, [])
      else if typio_key_event_is_modifier_only ev \<or> basic_has_blocking_modifiers ev then (KEY_NOT_HANDLED, data, [])
      else if compose_active data \<and> typio_key_event_is_escape ev
      then (KEY_HANDLED, upd_compose (\<lambda>c. snd (basic_compose_cancel c)) data, [CtxClear])
      else
        let cp = typio_key_event_get_unicode ev in
        if cp < 0x20 \<or> cp = 0x7F
        then if compose_active data
             then let first = first_pending data;
                      data = upd_compose (\<lambda>c. snd (basic_compose_cancel c)) data
                  in if first \<noteq> 0 then (KEY_COMMITTED, data, CtxClear # basic_commit_codepoint first)
                     else (KEY_HANDLED, data, [CtxClear])
             else (KEY_NOT_HANDLED, data, [])
        else
          (case data of
             Some d \<Rightarrow>
               (case (if bd_compose_enabled d then bd_compose d else None) of
                  Some c \<Rightarrow>
                    (case basic_compose_step cp c of
                       (res, c, reqs) \<Rightarrow> (res, Some (d\<lparr>bd_compose := Some c\<rparr>), reqs))
                | None \<Rightarrow>
                    if encode_utf8 cp = [] then (KEY_NOT_HANDLED, data, [])
                    else (KEY_COMMITTED, data, [CtxCommit (encode_utf8 cp)]))
           | None \<Rightarrow>
               if encode_utf8 cp = [] then (KEY_NOT_HANDLED, data, [])
               else (KEY_COMMITTED, data, [CtxCommit (encode_utf8 cp)])))"

end
