(* ===== verification/Basic_Laws.thy ===== *)
theory Basic_Laws
  imports Basic_Engine
begin

section \<open>What the basic engine commits\<close>

text \<open>
  The UTF-8 encoder as a stream codec, and the engine against a specification of composition on
  whole texts of code points.
\<close>

subsection \<open>UTF-8 can be read back\<close>

text \<open>A reference decoder of one code point (surrogates are not singled out).\<close>

definition cont_byte :: "u8 \<Rightarrow> bool" where
  "cont_byte b \<longleftrightarrow> b AND 0xC0 = 0x80"

definition cont_bits :: "u8 \<Rightarrow> u32" where
  "cont_bits b = ucast b AND 0x3F"

definition utf8_get :: "u8 list \<Rightarrow> (u32 \<times> u8 list) option" where
  "utf8_get bs = (case bs of
       [] \<Rightarrow> None
     | b0 # r0 \<Rightarrow>
         if b0 AND 0x80 = 0 then Some (ucast b0, r0)
         else if b0 AND 0xE0 = 0xC0
         then (case r0 of
                 b1 # r \<Rightarrow> if cont_byte b1 then Some (push_bit 6 (ucast b0 AND 0x1F) OR cont_bits b1, r) else None
               | _ \<Rightarrow> None)
         else if b0 AND 0xF0 = 0xE0
         then (case r0 of
                 b1 # b2 # r \<Rightarrow>
                   if cont_byte b1 \<and> cont_byte b2
                   then Some (push_bit 12 (ucast b0 AND 0xF) OR push_bit 6 (cont_bits b1) OR cont_bits b2, r) else None
               | _ \<Rightarrow> None)
         else if b0 AND 0xF8 = 0xF0
         then (case r0 of
                 b1 # b2 # b3 # r \<Rightarrow>
                   if cont_byte b1 \<and> cont_byte b2 \<and> cont_byte b3
                   then Some (push_bit 18 (ucast b0 AND 0x7) OR push_bit 12 (cont_bits b1) OR push_bit 6 (cont_bits b2) OR
                              cont_bits b3, r) else None
               | _ \<Rightarrow> None)
         else None)"

lemma high_bits:
  fixes cp :: u32
  assumes "cp < 2 ^ k" and "k < 32" and "k \<le> n"
  shows "\<not> bit cp n"
proof -
  have "cp AND mask k = cp" using mask_eq_iff_w2p [of k cp] assms(1,2) by (simp add: word_size)
  moreover have "\<not> bit (cp AND mask k) n" using assms(3) by (simp add: bit_simps)
  ultimately show ?thesis by metis
qed

lemma u32_eqI: "list_all (\<lambda>n. bit a n = bit b n) [0, 1, 2, 3, 4, 5, 6, 7, 8, 9, 10, 11, 12, 13, 14, 15, 16, 17, 18, 19, 20, 21, 22, 23, 24, 25, 26, 27, 28, 29, 30, 31] \<Longrightarrow> a = (b :: u32)"
proof (rule bit_word_eqI)
  fix n
  assume "list_all (\<lambda>n. bit a n = bit b n) [0, 1, 2, 3, 4, 5, 6, 7, 8, 9, 10, 11, 12, 13, 14, 15, 16, 17, 18, 19, 20, 21, 22, 23, 24, 25, 26, 27, 28, 29, 30, 31]" and "n < LENGTH(32)"
  moreover from this(2) have "n \<in> set [0, 1, 2, 3, 4, 5, 6, 7, 8, 9, 10, 11, 12, 13, 14, 15, 16, 17, 18, 19, 20, 21, 22, 23, 24, 25, 26, 27, 28, 29, 30, 31]"
    by (simp only: set_simps insert_iff empty_iff len_num1 len_bit0 len_bit1) presburger
  ultimately show "bit a n = bit b n" unfolding list_all_iff by blast
qed

lemma u8_eqI: "list_all (\<lambda>n. bit a n = bit b n) [0, 1, 2, 3, 4, 5, 6, 7] \<Longrightarrow> a = (b :: u8)"
proof (rule bit_word_eqI)
  fix n
  assume "list_all (\<lambda>n. bit a n = bit b n) [0, 1, 2, 3, 4, 5, 6, 7]" and "n < LENGTH(8)"
  moreover from this(2) have "n \<in> set [0, 1, 2, 3, 4, 5, 6, 7]"
    by (simp only: set_simps insert_iff empty_iff len_num1 len_bit0 len_bit1) presburger
  ultimately show "bit a n = bit b n" unfolding list_all_iff by blast
qed

lemma cont_byte_enc [simp]: "cont_byte (ucast (0x80 OR (x AND 0x3F :: u32)))"
  unfolding cont_byte_def by (rule u8_eqI) (simp add: bit_simps)

lemma cont_bits_enc [simp]: "cont_bits (ucast (0x80 OR (x AND 0x3F :: u32))) = x AND 0x3F"
  unfolding cont_bits_def by (rule u32_eqI) (simp add: bit_simps)

lemma utf8_two:
  fixes cp :: u32
  assumes "cp < 2 ^ 11"
  defines "b \<equiv> ucast (0xC0 OR drop_bit 6 cp) :: u8"
  shows "b AND 0x80 \<noteq> 0" and "b AND 0xE0 = 0xC0"
    and "push_bit 6 (ucast b AND 0x1F) OR (cp AND 0x3F) = cp"
proof -
  note hi = high_bits [OF assms(1)]
  show top: "b AND 0xE0 = 0xC0" unfolding b_def by (rule u8_eqI) (simp add: bit_simps hi)
  have "bit (b AND 0x80) 7" unfolding b_def by (simp add: bit_simps)
  then show "b AND 0x80 \<noteq> 0" by auto
  show "push_bit 6 (ucast b AND 0x1F) OR (cp AND 0x3F) = cp"
    unfolding b_def by (rule u32_eqI) (simp add: bit_simps hi)
qed

lemma utf8_three:
  fixes cp :: u32
  assumes "cp < 2 ^ 16"
  defines "b \<equiv> ucast (0xE0 OR drop_bit 12 cp) :: u8"
  shows "b AND 0x80 \<noteq> 0" and "b AND 0xE0 \<noteq> 0xC0" and "b AND 0xF0 = 0xE0"
    and "push_bit 12 (ucast b AND 0xF) OR push_bit 6 (drop_bit 6 cp AND 0x3F) OR (cp AND 0x3F) = cp"
proof -
  note hi = high_bits [OF assms(1)]
  show "b AND 0xF0 = 0xE0" unfolding b_def by (rule u8_eqI) (simp add: bit_simps hi)
  have "bit (b AND 0x80) 7" unfolding b_def by (simp add: bit_simps)
  then show "b AND 0x80 \<noteq> 0" by auto
  have "bit (b AND 0xE0) 5" "\<not> bit (0xC0 :: u8) 5" unfolding b_def by (simp_all add: bit_simps)
  then show "b AND 0xE0 \<noteq> 0xC0" by metis
  show "push_bit 12 (ucast b AND 0xF) OR push_bit 6 (drop_bit 6 cp AND 0x3F) OR (cp AND 0x3F) = cp"
    unfolding b_def by (rule u32_eqI) (simp add: bit_simps hi)
qed

lemma utf8_four:
  fixes cp :: u32
  assumes "cp < 2 ^ 21"
  defines "b \<equiv> ucast (0xF0 OR drop_bit 18 cp) :: u8"
  shows "b AND 0x80 \<noteq> 0" and "b AND 0xE0 \<noteq> 0xC0" and "b AND 0xF0 \<noteq> 0xE0" and "b AND 0xF8 = 0xF0"
    and "push_bit 18 (ucast b AND 0x7) OR push_bit 12 (drop_bit 12 cp AND 0x3F) OR push_bit 6 (drop_bit 6 cp AND 0x3F) OR
      (cp AND 0x3F) = cp"
proof -
  note hi = high_bits [OF assms(1)]
  show "b AND 0xF8 = 0xF0" unfolding b_def by (rule u8_eqI) (simp add: bit_simps hi)
  have "bit (b AND 0x80) 7" unfolding b_def by (simp add: bit_simps)
  then show "b AND 0x80 \<noteq> 0" by auto
  have "bit (b AND 0xE0) 5" "\<not> bit (0xC0 :: u8) 5" unfolding b_def by (simp_all add: bit_simps)
  then show "b AND 0xE0 \<noteq> 0xC0" by metis
  have "bit (b AND 0xF0) 4" "\<not> bit (0xE0 :: u8) 4" unfolding b_def by (simp_all add: bit_simps)
  then show "b AND 0xF0 \<noteq> 0xE0" by metis
  show "push_bit 18 (ucast b AND 0x7) OR push_bit 12 (drop_bit 12 cp AND 0x3F) OR push_bit 6 (drop_bit 6 cp AND 0x3F) OR
      (cp AND 0x3F) = cp"
    unfolding b_def by (rule u32_eqI) (simp add: bit_simps hi)
qed

lemma utf8_one:
  fixes cp :: u32
  assumes "cp < 2 ^ 7"
  shows "(ucast cp :: u8) AND 0x80 = 0" and "ucast (ucast cp :: u8) = cp"
proof -
  note hi = high_bits [OF assms(1)]
  show "(ucast cp :: u8) AND 0x80 = 0" by (rule u8_eqI) (simp add: bit_simps hi)
  show "ucast (ucast cp :: u8) = cp" by (rule u32_eqI) (simp add: bit_simps hi)
qed

definition encodable :: "u32 \<Rightarrow> bool" where
  "encodable cp \<longleftrightarrow> cp \<le> 0x10FFFF"

lemma utf8_get_encode:
  assumes "encodable cp"
  shows "utf8_get (encode_utf8 cp @ r) = Some (cp, r)"
proof -
  consider "cp \<le> 0x7F" | "\<not> cp \<le> 0x7F" "cp \<le> 0x7FF" | "\<not> cp \<le> 0x7FF" "cp \<le> 0xFFFF"
    | "\<not> cp \<le> 0xFFFF" "cp \<le> 0x10FFFF"
    using assms by (auto simp: encodable_def)
  then show ?thesis
  proof cases
    case 1
    then have "cp < 2 ^ 7" by (simp add: word_le_nat_alt word_less_nat_alt)
    from utf8_one [OF this] 1 show ?thesis by (simp add: encode_utf8_def utf8_get_def)
  next
    case 2
    then have "cp < 2 ^ 11" by (simp add: word_le_nat_alt word_less_nat_alt)
    from utf8_two [OF this] 2 show ?thesis by (simp add: encode_utf8_def utf8_get_def)
  next
    case 3
    then have "cp < 2 ^ 16" "\<not> cp \<le> 0x7F" by (simp_all add: word_le_nat_alt word_less_nat_alt)
    from utf8_three [OF this(1)] 3 this(2) show ?thesis by (simp add: encode_utf8_def utf8_get_def)
  next
    case 4
    then have "cp < 2 ^ 21" "\<not> cp \<le> 0x7F" "\<not> cp \<le> 0x7FF" by (simp_all add: word_le_nat_alt word_less_nat_alt)
    from utf8_four [OF this(1)] 4 this(2,3) show ?thesis by (simp add: encode_utf8_def utf8_get_def)
  qed
qed

lemma encode_nonempty: "encodable cp \<Longrightarrow> encode_utf8 cp \<noteq> []"
  by (simp add: encode_utf8_def encodable_def)

interpretation utf8: stream_codec encodable encode_utf8 utf8_get
  by unfold_locales (simp_all add: utf8_get_encode encode_nonempty)

subsection \<open>Composition of whole texts\<close>

text \<open>
  The code points that a text of typed code points commits, and the one that is still pending.
  A starter is held back and combined with its successor when the table has the pair.
\<close>

fun compose_text :: "u32 list \<Rightarrow> u32 list \<times> u32 list" where
  "compose_text [] = ([], [])"
| "compose_text [a] = (if can_start_compose a then ([], [a]) else ([a], []))"
| "compose_text (a # b # s) =
     (if can_start_compose a
      then (case compose_text s of
              (t, p) \<Rightarrow> ((case find_rule a b of Some r \<Rightarrow> [r] | None \<Rightarrow> [a, b]) @ t, p))
      else (case compose_text (b # s) of (t, p) \<Rightarrow> (a # t, p)))"

definition commits :: "ctx_request list \<Rightarrow> u8 list" where
  "commits reqs = concat (map (\<lambda>r. case r of CtxCommit t \<Rightarrow> t | _ \<Rightarrow> []) reqs)"

lemma commits_append [simp]: "commits (a @ b) = commits a @ commits b"
  by (simp add: commits_def)

lemma commits_simps [simp]:
  "commits [] = []" "commits (CtxCommit t # r) = t @ commits r" "commits (CtxClear # r) = commits r"
  "commits (CtxSetComposition t # r) = commits r"
  by (simp_all add: commits_def)

lemma commits_map: "commits (map (\<lambda>ev. CtxCommit (f ev)) evs) = concat (map f evs)"
  by (simp add: commits_def comp_def)

lemma commits_codepoint [simp]: "commits (basic_commit_codepoint cp) = encode_utf8 cp"
  by (simp add: basic_commit_codepoint_def)

fun compose_steps :: "u32 list \<Rightarrow> BasicCompose \<Rightarrow> BasicCompose \<times> ctx_request list" where
  "compose_steps [] c = (c, [])"
| "compose_steps (cp # cps) c =
     (case basic_compose_step cp c of
        (res, c, reqs) \<Rightarrow> (case compose_steps cps c of (c, reqs') \<Rightarrow> (c, reqs @ reqs')))"

definition pending :: "BasicCompose \<Rightarrow> u32 list" where
  "pending c = (if bc_active c then [bc_first c] else [])"

lemma compose_step_idle:
  assumes "\<not> bc_active c"
  shows "\<exists>c' reqs res. basic_compose_step a c = (res, c', reqs) \<and> commits reqs = (if can_start_compose a then [] else encode_utf8 a) \<and>
     bc_active c' = can_start_compose a \<and> (can_start_compose a \<longrightarrow> bc_first c' = a)"
  using assms
  by (simp add: basic_compose_step_def basic_compose_process_key_def basic_update_preedit_def basic_compose_get_preedit_def)

lemma compose_step_active:
  assumes "bc_active c"
  shows "\<exists>c' reqs res. basic_compose_step b c = (res, c', reqs) \<and> \<not> bc_active c' \<and>
     commits reqs = concat (map encode_utf8 (case find_rule (bc_first c) b of Some r \<Rightarrow> [r] | None \<Rightarrow> [bc_first c, b]))"
  using assms
  by (auto simp: basic_compose_step_def basic_compose_process_key_def split: option.split)

lemma compose_steps_text:
  "\<not> bc_active c \<Longrightarrow>
     commits (snd (compose_steps cps c)) = concat (map encode_utf8 (fst (compose_text cps))) \<and>
     pending (fst (compose_steps cps c)) = snd (compose_text cps)"
proof (induction cps arbitrary: c rule: compose_text.induct)
  case 1
  then show ?case by (simp add: pending_def)
next
  case (2 a)
  from compose_step_idle [OF 2, of a] show ?case by (auto simp: pending_def)
next
  case (3 a b s)
  from compose_step_idle [OF 3(3), of a] obtain c1 r1 x1 where 1: "basic_compose_step a c = (x1, c1, r1)"
    "commits r1 = (if can_start_compose a then [] else encode_utf8 a)" "bc_active c1 = can_start_compose a"
    "can_start_compose a \<longrightarrow> bc_first c1 = a" by blast
  show ?case
  proof (cases "can_start_compose a")
    case True
    with 1 have act: "bc_active c1" "bc_first c1 = a" by simp_all
    from compose_step_active [OF act(1), of b] obtain c2 r2 x2 where 2: "basic_compose_step b c1 = (x2, c2, r2)" "\<not> bc_active c2"
      "commits r2 = concat (map encode_utf8 (case find_rule a b of Some r \<Rightarrow> [r] | None \<Rightarrow> [a, b]))" unfolding act by blast
    show ?thesis
      using 3(1) [OF True 2(2)] True 1(1,2) 2(1,3) by (simp add: case_prod_beta)
  next
    case False
    show ?thesis
      using 3(2) [OF False, of c1] False 1 by (simp add: case_prod_beta)
  qed
qed

subsection \<open>The engine on a sequence of keys\<close>

definition typing_event :: "key_event \<Rightarrow> bool" where
  "typing_event ev \<longleftrightarrow>
     ev_type ev = EVENT_KEY_PRESS \<and> \<not> typio_key_event_is_modifier_only ev \<and> \<not> basic_has_blocking_modifiers ev \<and>
     \<not> typio_key_event_is_escape ev \<and> 0x20 \<le> typio_key_event_get_unicode ev \<and> typio_key_event_get_unicode ev \<noteq> 0x7F \<and>
     encodable (typio_key_event_get_unicode ev)"

fun type_keys :: "key_event list \<Rightarrow> BasicEngineData option \<Rightarrow> BasicEngineData option \<times> ctx_request list" where
  "type_keys [] data = (data, [])"
| "type_keys (ev # evs) data =
     (case basic_process_key data ev of
        (res, data, reqs) \<Rightarrow> (case type_keys evs data of (data, reqs') \<Rightarrow> (data, reqs @ reqs')))"

lemma typing_not_below: "typing_event ev \<Longrightarrow> \<not> typio_key_event_get_unicode ev < 0x20"
  by (simp add: typing_event_def not_less)

lemma process_composing:
  assumes "typing_event ev" and "bd_compose_enabled d" and "bd_compose d = Some c"
  shows "basic_process_key (Some d) ev =
     (case basic_compose_step (typio_key_event_get_unicode ev) c of
        (res, c, reqs) \<Rightarrow> (res, Some (d\<lparr>bd_compose := Some c\<rparr>), reqs))"
  using assms typing_not_below [OF assms(1)] by (simp add: basic_process_key_def typing_event_def Let_def)

lemma type_keys_composing:
  "list_all typing_event evs \<Longrightarrow> bd_compose_enabled d \<Longrightarrow> bd_compose d = Some c \<Longrightarrow>
     type_keys evs (Some d) =
       (Some (d\<lparr>bd_compose := Some (fst (compose_steps (map typio_key_event_get_unicode evs) c))\<rparr>),
        snd (compose_steps (map typio_key_event_get_unicode evs) c))"
proof (induction evs arbitrary: d c)
  case Nil
  then show ?case by (cases d) simp
next
  case (Cons ev evs)
  obtain res c' reqs where step: "basic_compose_step (typio_key_event_get_unicode ev) c = (res, c', reqs)"
    by (metis prod_cases3)
  have "basic_process_key (Some d) ev = (res, Some (d\<lparr>bd_compose := Some c'\<rparr>), reqs)"
    using process_composing [of ev d c] Cons.prems step by simp
  then show ?case
    using Cons.IH [of "d\<lparr>bd_compose := Some c'\<rparr>" c'] Cons.prems step by (simp add: case_prod_beta)
qed

lemma rule_results: "list_all (\<lambda>(k, r). r \<le> 0xFFFF) rules"
  by (simp add: rules_def rule_table_def)

lemma find_rule_encodable: "find_rule a b = Some r \<Longrightarrow> encodable r"
proof -
  assume "find_rule a b = Some r"
  then have "(compose_key a b, r) \<in> set rules" unfolding find_rule_def by (rule map_of_SomeD)
  then have "r \<le> 0xFFFF" using rule_results by (auto simp: list_all_iff)
  then show "encodable r" by (simp add: encodable_def word_le_nat_alt)
qed

lemma compose_text_encodable: "list_all encodable cps \<Longrightarrow> list_all encodable (fst (compose_text cps))"
  by (induction cps rule: compose_text.induct) (auto simp: case_prod_beta dest: find_rule_encodable split: option.split)

lemma typing_encodable: "list_all typing_event evs \<Longrightarrow> list_all encodable (map typio_key_event_get_unicode evs)"
  by (auto simp: list_all_iff typing_event_def)

text \<open>With composition off every key is committed as it is.\<close>

lemma type_keys_plain:
  "list_all typing_event evs \<Longrightarrow> \<not> bd_compose_enabled d \<Longrightarrow> \<not> compose_active (Some d) \<Longrightarrow>
     type_keys evs (Some d) = (Some d, map (\<lambda>ev. CtxCommit (encode_utf8 (typio_key_event_get_unicode ev))) evs)"
proof (induction evs)
  case Nil
  then show ?case by simp
next
  case (Cons ev evs)
  have "encode_utf8 (typio_key_event_get_unicode ev) \<noteq> []"
    using Cons.prems(1) encode_nonempty [of "typio_key_event_get_unicode ev"] by (auto simp: typing_event_def)
  then have "basic_process_key (Some d) ev = (KEY_COMMITTED, Some d, [CtxCommit (encode_utf8 (typio_key_event_get_unicode ev))])"
    using Cons.prems typing_not_below [of ev] by (simp add: basic_process_key_def typing_event_def Let_def)
  then show ?case using Cons by (simp add: case_prod_beta)
qed

subsection \<open>Code points above 16 bits\<close>

text \<open>
  The key of a pair keeps 16 bits for the second code point: the bits above fall onto the first,
  and disappear when it has them.
\<close>

lemma compose_key_alias:
  fixes a b :: u32
  assumes "bit a 0"
  shows "compose_key a (0x10000 OR b) = compose_key a b"
  unfolding compose_key_def by (rule u32_eqI) (use assms in \<open>simp add: bit_simps\<close>)

lemma find_rule_alias: "bit a 0 \<Longrightarrow> find_rule a (0x10000 OR b) = find_rule a b"
  by (simp add: find_rule_def compose_key_alias)

end
