(* ===== verification/Engine_Props.thy ===== *)
theory Engine_Props
  imports Shortcut_Config Basic_Laws
begin

section \<open>Properties of the shortcuts and of the basic engine\<close>

text \<open>
  Shortcut texts can be written, reordered and read back, and typing through the basic engine
  commits the composed text.
\<close>

lemma length_join_with: "length (join_with [d] ws) = sum_list (map length ws) + (length ws - 1)"
  by (induction ws) (auto simp: Suc_diff_le neq_Nil_conv)

lemma length_join_perm: "mset ws = mset ws' \<Longrightarrow> length (join_with [d] ws) = length (join_with [d] ws')"
  unfolding length_join_with
  by (metis mset_eq_length mset_map sum_mset_sum_list)

text \<open>
  C39. A binding of the four modifiers is written as a text that is read back as the same binding,
  in whatever order the words of the text are put; the exception are key symbols without a name,
  whose text is rejected.
\<close>

theorem shortcut_text_round_trip:
  assumes "sb_modifiers b \<noteq> 0" and "sb_modifiers b AND NOT all_mods = 0"
    and "mset ws = mset (words (typio_shortcut_format b))"
  shows "typio_shortcut_parse (join_with ''+'' ws) = (if sb_keysym b = 0 \<or> nameable (sb_keysym b) then Some b else None)"
proof -
  let ?f = "typio_shortcut_format b"
  note f = format_parse [OF assms(1,2)]
  have "list_all clean ws" using f(3) mset_eq_setD [OF assms(3)] by (simp add: list_all_iff)
  then have "words (join_with ''+'' ws) = ws" by (rule words_join)
  moreover have "length (join_with ''+'' ws) = length ?f"
    using length_join_perm [OF assms(3), of "CHR ''+''"] by (simp add: f(4))
  ultimately have "typio_shortcut_parse (join_with ''+'' ws) = shortcut_spec ws"
    using f(2,5) by (simp add: shortcut_parse_spec)
  also have "\<dots> = typio_shortcut_parse ?f"
    using shortcut_spec_perm [OF assms(3)] f(2,5) by (simp add: shortcut_parse_spec)
  finally show ?thesis using f(1) by simp
qed

theorem shortcut_text_round_trip_witness:
  "typio_shortcut_parse ''Space+Ctrl'' = Some \<lparr>sb_modifiers = TYPIO_MOD_CTRL, sb_keysym = KEY_space\<rparr>"
proof -
  let ?b = "\<lparr>sb_modifiers = TYPIO_MOD_CTRL, sb_keysym = KEY_space\<rparr>"
  have "typio_shortcut_format ?b = join_with ''+'' [''Ctrl'', ''Space'']"
    by code_simp
  moreover have "words (join_with ''+'' [''Ctrl'', ''Space'']) = [''Ctrl'', ''Space'']"
    by (rule words_join) (simp add: clean_def)
  ultimately have "mset [''Space'', ''Ctrl''] = mset (words (typio_shortcut_format ?b))" by simp
  from shortcut_text_round_trip [OF _ _ this] show ?thesis
    by (simp add: TYPIO_MOD_CTRL_def all_mods_val nameable_def keysym_names_def)
qed

text \<open>
  C40. Printable keys typed into the idle basic engine commit exactly the UTF-8 of the composed text
  (of the typed text, with composition switched off), and nothing of it is lost in the encoding.
\<close>

theorem basic_engine_commits_composed_text:
  assumes "list_all typing_event evs" and "bd_compose d = Some c" and "\<not> bc_active c"
  shows "utf8.decode (commits (snd (type_keys evs (Some d)))) =
    Some (let typed = map typio_key_event_get_unicode evs
          in if bd_compose_enabled d then fst (compose_text typed) else typed)"
proof (cases "bd_compose_enabled d")
  case True
  have "list_all encodable (fst (compose_text (map typio_key_event_get_unicode evs)))"
    by (rule compose_text_encodable [OF typing_encodable [OF assms(1)]])
  with type_keys_composing [OF assms(1) True assms(2)] compose_steps_text [OF assms(3)] True
  show ?thesis by (simp add: utf8.encode_def [symmetric] utf8.decode_encode)
next
  case False
  then have "\<not> compose_active (Some d)" using assms(2,3) by (simp add: compose_active_def)
  from type_keys_plain [OF assms(1) False this] typing_encodable [OF assms(1)] False
  show ?thesis
    using utf8.decode_encode [of "map typio_key_event_get_unicode evs"] by (simp add: commits_map utf8.encode_def comp_def)
qed

definition typed_key :: "u32 \<Rightarrow> key_event" where
  "typed_key cp = \<lparr>ev_type = EVENT_KEY_PRESS, ev_keycode = 0, ev_keysym = cp, ev_modifiers = 0, ev_unicode = cp,
     ev_time = 0, ev_is_repeat = False\<rparr>"

theorem basic_engine_commits_composed_text_witness:
  "utf8.decode (commits (snd (type_keys (map typed_key [0x27, 0x65, 0x78])
      (Some \<lparr>bd_compose = Some basic_compose_new, bd_compose_enabled = True\<rparr>)))) = Some [0xe9, 0x78]"
proof -
  let ?d = "\<lparr>bd_compose = Some basic_compose_new, bd_compose_enabled = True\<rparr>"
  have ev: "list_all typing_event (map typed_key [0x27, 0x65, 0x78])"
    by code_simp
  have composed: "fst (compose_text [0x27, 0x65, 0x78]) = [0xe9, 0x78]"
    by code_simp
  have unicode: "map typio_key_event_get_unicode (map typed_key [0x27, 0x65, 0x78]) = [0x27, 0x65, 0x78]"
    by (simp add: typed_key_def typio_key_event_get_unicode_def)
  have start: "bd_compose ?d = Some basic_compose_new" "\<not> bc_active basic_compose_new" "bd_compose_enabled ?d"
    by (simp_all add: basic_compose_new_def)
  show ?thesis
    using basic_engine_commits_composed_text [OF ev start(1,2)] start(3) unfolding unicode by (simp only: Let_def composed if_True)
qed

end
