(* ===== verification/Identity.thy ===== *)
theory Identity
  imports Status_Service
begin

section \<open>The focused application and its engine\<close>

text \<open>
  Which application has the focus, and which engine and mode it used last
  (\<^verbatim>\<open>daemon/wayland/identity.c\<close>). The instance of the core is a record of its operations on
  a state; of its configuration objects only the string entries are seen, since
  \<^verbatim>\<open>typio_config_get_string\<close> skips all others. Reading and writing the state file, the
  engine manager and the socket of the compositor are parameters. Allocations succeed.
\<close>

subsection \<open>Configuration objects (\<^verbatim>\<open>core/src/config\<close>)\<close>

type_synonym config = "string \<rightharpoonup> string"

definition typio_config_new :: "config option" where
  "typio_config_new = Some (\<lambda>_. None)"

definition typio_config_get_string :: "config \<Rightarrow> string \<Rightarrow> string option \<Rightarrow> string option" where
  "typio_config_get_string c key default_val = (case c key of Some s \<Rightarrow> Some s | None \<Rightarrow> default_val)"

definition typio_config_set_string :: "string \<Rightarrow> string \<Rightarrow> config \<Rightarrow> config" where
  "typio_config_set_string key val c = c(key \<mapsto> val)"

definition typio_config_remove :: "string \<Rightarrow> config \<Rightarrow> config" where
  "typio_config_remove key c = c(key := None)"

subsection \<open>State\<close>

record TypioWlIdentity =
  wi_provider_name :: "string option"
  wi_app_id :: "string option"
  wi_stable_key :: "string option"

definition empty_identity :: TypioWlIdentity where
  "empty_identity = \<lparr>wi_provider_name = None, wi_app_id = None, wi_stable_key = None\<rparr>"

record engine_handle =
  ae_name :: "string option"
  ae_keyboard :: bool
  ae_has_get_mode :: bool
  ae_has_set_mode :: bool

record 'w core_instance =
  ci_state_dir :: "string option"
  ci_path_join :: "string \<Rightarrow> string \<Rightarrow> string"
  ci_per_app_preferences :: "bool option option" \<comment> \<open>the setting, if it is set, if there is a configuration\<close>
  ci_load_file :: "string \<Rightarrow> 'w \<Rightarrow> config option"
  ci_save_file :: "config \<Rightarrow> string \<Rightarrow> 'w \<Rightarrow> 'w" \<comment> \<open>the result is ignored\<close>
  ci_manager :: bool
  ci_active :: "'w \<Rightarrow> engine_handle option"
  ci_set_active :: "string \<Rightarrow> 'w \<Rightarrow> TypioResult \<times> 'w"
  ci_get_mode :: "'w \<Rightarrow> TypioEngineMode option"
  ci_set_mode :: "string \<Rightarrow> 'w \<Rightarrow> TypioResult \<times> 'w"

record TypioWlIdentityProvider =
  ip_niri :: bool
  ip_niri_socket_path :: "string option"

record 'w identity_frontend =
  if_instance :: "'w core_instance option"
  if_session_ctx :: bool
  if_provider :: "TypioWlIdentityProvider option"
  if_identity :: TypioWlIdentity

definition filled :: "string option \<Rightarrow> bool" where
  "filled s \<longleftrightarrow> s \<noteq> None \<and> s \<noteq> Some []"

subsection \<open>Keys of the state file\<close>

definition identity_state_path :: "'w core_instance option \<Rightarrow> string option" where
  "identity_state_path inst = (case inst of
       None \<Rightarrow> None
     | Some ci \<Rightarrow>
         (case ci_state_dir ci of
            None \<Rightarrow> None
          | Some dir \<Rightarrow> if dir = [] then None else Some (ci_path_join ci dir ''identity-engine-state.toml'')))"

definition hex_pair :: "char \<Rightarrow> string" where
  "hex_pair c = [hex_digit (of_char c div 16), hex_digit (of_char c mod 16)]"

definition identity_hex_encode :: "string \<Rightarrow> string" where
  "identity_hex_encode s = concat (map hex_pair s)"

definition identity_config_key :: "TypioWlIdentity \<Rightarrow> string option" where
  "identity_config_key identity = (case wi_stable_key identity of
       None \<Rightarrow> None
     | Some key \<Rightarrow> if key = [] then None else Some (''identities.'' @ identity_hex_encode key))"

definition identity_config_subkey :: "TypioWlIdentity \<Rightarrow> string \<Rightarrow> string option" where
  "identity_config_subkey identity suffix =
     (if suffix = [] then None
      else (case identity_config_key identity of None \<Rightarrow> None | Some base \<Rightarrow> Some (base @ suffix)))"

definition identity_preferences_enabled :: "'w core_instance option \<Rightarrow> bool" where
  "identity_preferences_enabled inst = (case inst of
       None \<Rightarrow> False
     | Some ci \<Rightarrow> (case ci_per_app_preferences ci of
                    None \<Rightarrow> True
                  | Some None \<Rightarrow> True
                  | Some (Some b) \<Rightarrow> b))"

subsection \<open>The memory of engines and modes\<close>

definition load_config :: "'w core_instance option \<Rightarrow> string \<Rightarrow> 'w \<Rightarrow> config option" where
  "load_config inst path w = (case inst of None \<Rightarrow> None | Some ci \<Rightarrow> ci_load_file ci path w)"

definition save_config :: "'w core_instance option \<Rightarrow> config \<Rightarrow> string \<Rightarrow> 'w \<Rightarrow> 'w" where
  "save_config inst c path w = (case inst of None \<Rightarrow> w | Some ci \<Rightarrow> ci_save_file ci c path w)"

definition identity_memory_load_engine :: "'w core_instance option \<Rightarrow> TypioWlIdentity \<Rightarrow> 'w \<Rightarrow> string option" where
  "identity_memory_load_engine inst identity w =
     (case (identity_state_path inst, identity_config_subkey identity ''.engine'', identity_config_key identity) of
        (Some path, Some key, Some legacy_key) \<Rightarrow>
          (case load_config inst path w of
             None \<Rightarrow> None
           | Some config \<Rightarrow>
               let engine_name = typio_config_get_string config key None;
                   engine_name = (if \<not> filled engine_name then typio_config_get_string config legacy_key None else engine_name)
               in if filled engine_name then engine_name else None)
      | _ \<Rightarrow> None)"

definition identity_memory_store_engine ::
    "'w core_instance option \<Rightarrow> TypioWlIdentity \<Rightarrow> string \<Rightarrow> 'w \<Rightarrow> 'w" where
  "identity_memory_store_engine inst identity engine_name w =
     (if inst = None \<or> engine_name = [] then w
      else
        (case (identity_state_path inst, identity_config_subkey identity ''.engine'', identity_config_key identity,
               identity_config_subkey identity ''.mode_engine'', identity_config_subkey identity ''.mode_id'') of
           (Some path, Some key, Some legacy_key, Some mode_engine_key, Some mode_id_key) \<Rightarrow>
             (case (case load_config inst path w of None \<Rightarrow> typio_config_new | Some config \<Rightarrow> Some config) of
                None \<Rightarrow> w
              | Some config \<Rightarrow>
                  let stored_mode_engine = typio_config_get_string config mode_engine_key None;
                      config = typio_config_set_string key engine_name config;
                      config = typio_config_set_string legacy_key engine_name config;
                      config = (if filled stored_mode_engine \<and> stored_mode_engine \<noteq> Some engine_name
                                then typio_config_remove mode_id_key (typio_config_remove mode_engine_key config)
                                else config)
                  in save_config inst config path w)
         | _ \<Rightarrow> w))"

definition identity_memory_load_mode ::
    "'w core_instance option \<Rightarrow> TypioWlIdentity \<Rightarrow> 'w \<Rightarrow> (string \<times> string) option" where
  "identity_memory_load_mode inst identity w =
     (case (identity_state_path inst, identity_config_subkey identity ''.mode_engine'', identity_config_subkey identity ''.mode_id'') of
        (Some path, Some engine_key, Some mode_key) \<Rightarrow>
          (case load_config inst path w of
             None \<Rightarrow> None
           | Some config \<Rightarrow>
               (case (typio_config_get_string config engine_key None, typio_config_get_string config mode_key None) of
                  (Some engine_name, Some mode_id) \<Rightarrow>
                    if engine_name \<noteq> [] \<and> mode_id \<noteq> [] then Some (engine_name, mode_id) else None
                | _ \<Rightarrow> None))
      | _ \<Rightarrow> None)"

definition identity_memory_store_mode ::
    "'w core_instance option \<Rightarrow> TypioWlIdentity \<Rightarrow> string \<Rightarrow> string \<Rightarrow> 'w \<Rightarrow> 'w" where
  "identity_memory_store_mode inst identity engine_name mode_id w =
     (if inst = None \<or> engine_name = [] \<or> mode_id = [] then w
      else
        (case (identity_state_path inst, identity_config_subkey identity ''.mode_engine'', identity_config_subkey identity ''.mode_id'') of
           (Some path, Some engine_key, Some mode_key) \<Rightarrow>
             (case (case load_config inst path w of None \<Rightarrow> typio_config_new | Some config \<Rightarrow> Some config) of
                None \<Rightarrow> w
              | Some config \<Rightarrow>
                  save_config inst
                    (typio_config_set_string mode_key mode_id (typio_config_set_string engine_key engine_name config)) path w)
         | _ \<Rightarrow> w))"

subsection \<open>Restoring and remembering\<close>

text \<open>The mode is restored only for the engine it belongs to.\<close>

definition identity_restore_mode :: "'w identity_frontend \<Rightarrow> 'w \<Rightarrow> 'w" where
  "identity_restore_mode fe w =
     (case if_instance fe of
        None \<Rightarrow> w
      | Some ci \<Rightarrow>
          if \<not> if_session_ctx fe \<or> wi_stable_key (if_identity fe) = None then w
          else
            (case identity_memory_load_mode (Some ci) (if_identity fe) w of
               None \<Rightarrow> w
             | Some (engine_name, mode_id) \<Rightarrow>
                 (case (if ci_manager ci then ci_active ci w else None) of
                    None \<Rightarrow> w
                  | Some active \<Rightarrow>
                      if ae_name active \<noteq> Some engine_name \<or> \<not> ae_keyboard active \<or> \<not> ae_has_set_mode active then w
                      else
                        let current_mode = (if ae_has_get_mode active then ci_get_mode ci w else None)
                        in if (case current_mode of None \<Rightarrow> False | Some m \<Rightarrow> em_mode_id m = Some mode_id) then w
                           else snd (ci_set_mode ci mode_id w))))"

definition restore_identity_engine :: "'w identity_frontend \<Rightarrow> 'w \<Rightarrow> 'w" where
  "restore_identity_engine fe w =
     (case if_instance fe of
        None \<Rightarrow> w
      | Some ci \<Rightarrow>
          if wi_stable_key (if_identity fe) = None \<or> \<not> identity_preferences_enabled (Some ci) then w
          else
            (case identity_memory_load_engine (Some ci) (if_identity fe) w of
               None \<Rightarrow> identity_restore_mode fe w
             | Some engine_name \<Rightarrow>
                 if engine_name = [] then identity_restore_mode fe w
                 else
                   (case (if ci_manager ci then ci_active ci w else None) of
                      Some active \<Rightarrow>
                        if ae_name active = Some engine_name then identity_restore_mode fe w
                        else identity_restore_mode fe (snd (ci_set_active ci engine_name w))
                    | None \<Rightarrow>
                        identity_restore_mode fe (if ci_manager ci then snd (ci_set_active ci engine_name w) else w))))"

definition remember_active_engine :: "'w identity_frontend \<Rightarrow> string option \<Rightarrow> 'w \<Rightarrow> 'w" where
  "remember_active_engine fe engine_name w =
     (case engine_name of
        None \<Rightarrow> w
      | Some name \<Rightarrow>
          if if_instance fe = None \<or> name = [] \<or> wi_stable_key (if_identity fe) = None \<or>
             \<not> identity_preferences_enabled (if_instance fe)
          then w
          else identity_memory_store_engine (if_instance fe) (if_identity fe) name w)"

definition remember_active_mode :: "'w identity_frontend \<Rightarrow> string option \<Rightarrow> string option \<Rightarrow> 'w \<Rightarrow> 'w" where
  "remember_active_mode fe engine_name mode_id w =
     (case (engine_name, mode_id) of
        (Some name, Some mode) \<Rightarrow>
          if if_instance fe = None \<or> name = [] \<or> mode = [] \<or> wi_stable_key (if_identity fe) = None \<or>
             \<not> identity_preferences_enabled (if_instance fe)
          then w
          else identity_memory_store_mode (if_instance fe) (if_identity fe) name mode w
      | _ \<Rightarrow> w)"

subsection \<open>The answer of the compositor\<close>

text \<open>The characters of a JSON string, with their escapes, up to the closing quote.\<close>

fun json_value :: "bool \<Rightarrow> string \<Rightarrow> string option" where
  "json_value escaped [] = None"
| "json_value escaped (ch # p) =
     (if escaped
      then map_option
             (Cons (if ch = CHR ''n'' then CHR 0x0A else if ch = CHR ''r'' then CHR 0x0D else if ch = CHR ''t'' then CHR 0x09 else ch))
             (json_value False p)
      else if ch = backslash then json_value True p
      else if ch = dquote then Some []
      else map_option (Cons ch) (json_value False p))"

definition json_find_string_value :: "string \<Rightarrow> string \<Rightarrow> string option" where
  "json_find_string_value json field_name =
     (if field_name = [] then None
      else
        let pattern = take 127 (dquote # field_name @ [dquote, CHR '':'', dquote])
        in (case strstr pattern json of
              None \<Rightarrow> None
            | Some cursor \<Rightarrow> json_value False (drop (length pattern) cursor)))"

definition parse_niri_focused_window :: "string \<Rightarrow> bool \<times> TypioWlIdentity" where
  "parse_niri_focused_window response =
     (case json_find_string_value response ''app_id'' of
        None \<Rightarrow> (False, empty_identity)
      | Some app_id \<Rightarrow>
          if app_id = [] then (False, empty_identity)
          else (True, \<lparr>wi_provider_name = Some ''niri'', wi_app_id = Some app_id, wi_stable_key = Some (''niri:'' @ app_id)\<rparr>))"

text \<open>What the calls on the socket return: the bytes written by each call, and what each call read.\<close>

datatype read_event = ReadData string | ReadInterrupted | ReadError

record niri_io =
  ni_socket :: bool
  ni_connect :: bool
  ni_write :: "nat \<Rightarrow> int"
  ni_reads :: "read_event list" \<comment> \<open>then the end of the stream\<close>

function write_request :: "(nat \<Rightarrow> int) \<Rightarrow> nat \<Rightarrow> nat \<Rightarrow> nat \<Rightarrow> bool" where
  "write_request wr k request_len written =
     (if written < request_len
      then if wr k \<le> 0 then False else write_request wr (k + 1) request_len (written + nat (wr k))
      else True)"
  by pat_completeness auto
termination
  by (relation "measure (\<lambda>(wr, k, request_len, written). request_len - written)") auto

declare write_request.simps [simp del]

fun read_response :: "nat \<Rightarrow> read_event list \<Rightarrow> string \<Rightarrow> string option" where
  "read_response response_size evs response =
     (if length response + 1 < response_size
      then (case evs of
              [] \<Rightarrow> Some response
            | ReadError # evs \<Rightarrow> None
            | ReadInterrupted # evs \<Rightarrow> read_response response_size evs response
            | ReadData d # evs \<Rightarrow>
                let d = take (response_size - length response - 1) d
                in if d = [] then Some response
                   else if CHR 0x0A \<in> set (response @ d) then Some (response @ d)
                   else read_response response_size evs (response @ d))
      else Some response)"

declare read_response.simps [simp del]

definition niri_socket_request :: "niri_io \<Rightarrow> string \<Rightarrow> string \<Rightarrow> nat \<Rightarrow> string option" where
  "niri_socket_request io socket_path request response_size =
     (if socket_path = [] \<or> response_size = 0 then None
      else if \<not> ni_socket io then None
      else if 108 \<le> length socket_path then None
      else if \<not> ni_connect io then None
      else if \<not> write_request (ni_write io) 0 (length request) 0 then None
      else (case read_response response_size (ni_reads io) [] of
              None \<Rightarrow> None
            | Some response \<Rightarrow> if response = [] then None else Some response))"

text \<open>The response is read as a C string.\<close>

definition niri_identity_query :: "niri_io \<Rightarrow> TypioWlIdentityProvider \<Rightarrow> bool \<times> TypioWlIdentity" where
  "niri_identity_query io provider =
     (case ip_niri_socket_path provider of
        None \<Rightarrow> (False, empty_identity)
      | Some path \<Rightarrow>
          (case niri_socket_request io path (dquote # ''FocusedWindow'' @ [dquote, CHR 0x0A]) 4096 of
             None \<Rightarrow> (False, empty_identity)
           | Some response \<Rightarrow> parse_niri_focused_window (takeWhile (\<lambda>c. c \<noteq> CHR 0x00) response)))"

subsection \<open>Providers\<close>

text \<open>\<open>socket\<close>: the environment variable \<^verbatim>\<open>NIRI_SOCKET\<close>.\<close>

definition identity_provider_new :: "string option \<Rightarrow> TypioWlIdentityProvider" where
  "identity_provider_new socket =
     (case socket of
        None \<Rightarrow> \<lparr>ip_niri = False, ip_niri_socket_path = None\<rparr>
      | Some path \<Rightarrow>
          if path = [] then \<lparr>ip_niri = False, ip_niri_socket_path = None\<rparr>
          else \<lparr>ip_niri = True, ip_niri_socket_path = Some path\<rparr>)"

definition identity_provider_name :: "TypioWlIdentityProvider option \<Rightarrow> string" where
  "identity_provider_name provider = (case provider of
       None \<Rightarrow> ''none''
     | Some p \<Rightarrow> if ip_niri p then ''niri'' else ''none'')"

definition identity_provider_query_current :: "niri_io \<Rightarrow> TypioWlIdentityProvider option \<Rightarrow> bool \<times> TypioWlIdentity" where
  "identity_provider_query_current io provider = (case provider of
       None \<Rightarrow> (False, empty_identity)
     | Some p \<Rightarrow> if ip_niri p then niri_identity_query io p else (False, empty_identity))"

definition identity_clear :: "TypioWlIdentity \<Rightarrow> TypioWlIdentity" where
  "identity_clear identity = empty_identity"

definition frontend_clear_identity :: "'w identity_frontend \<Rightarrow> 'w identity_frontend" where
  "frontend_clear_identity fe = fe\<lparr>if_identity := identity_clear (if_identity fe)\<rparr>"

definition frontend_refresh_identity :: "niri_io \<Rightarrow> 'w identity_frontend \<Rightarrow> 'w identity_frontend" where
  "frontend_refresh_identity io fe =
     (let fe = frontend_clear_identity fe
      in if if_provider fe = None then fe
         else (case identity_provider_query_current io (if_provider fe) of
                 (ok, identity) \<Rightarrow> if \<not> ok then fe else fe\<lparr>if_identity := identity\<rparr>))"

end
