(* ===== verification/Identity_Laws.thy ===== *)
theory Identity_Laws
  imports Identity Tip_Json_Laws
begin

section \<open>What the memory of identities promises\<close>

text \<open>
  The keys of the state file are unambiguous, the file refines a memory of an engine and a mode for
  each application, and the application cannot be spoofed by the title of a window.
\<close>

subsection \<open>Keys\<close>

definition hex_get :: "string \<Rightarrow> (char \<times> string) option" where
  "hex_get s = (case s of
       h # l # r \<Rightarrow>
         (case (hex_value h, hex_value l) of (Some a, Some b) \<Rightarrow> Some (char_of (16 * a + b), r) | _ \<Rightarrow> None)
     | _ \<Rightarrow> None)"

lemma of_char_below: "(of_char c :: nat) < 256"
  by simp

lemma hex_get_pair: "hex_get (hex_pair c @ r) = Some (c, r)"
proof -
  have "(of_char c :: nat) div 16 < 16" using of_char_below [of c] by (simp add: less_mult_imp_div_less)
  moreover have "16 * (of_char c div 16) + of_char c mod 16 = (of_char c :: nat)" by simp
  ultimately show ?thesis by (simp add: hex_get_def hex_pair_def)
qed

interpretation hex: stream_codec "\<lambda>_. True" hex_pair hex_get
  by unfold_locales (rule hex_get_pair, simp add: hex_pair_def)

lemma hex_encode_inj: "identity_hex_encode s = identity_hex_encode t \<longleftrightarrow> s = t"
  using hex.encode_inj [of s t] by (auto simp: identity_hex_encode_def hex.encode_def list_all_iff)

lemma hex_no_dot: "CHR ''.'' \<notin> set (identity_hex_encode s)"
proof
  assume "CHR ''.'' \<in> set (identity_hex_encode s)"
  then obtain c where "CHR ''.'' \<in> set (hex_pair c)" by (auto simp: identity_hex_encode_def)
  moreover have "(of_char c :: nat) div 16 < 16" using of_char_below [of c] by (simp add: less_mult_imp_div_less)
  then have "hex_value d \<noteq> None" if "d \<in> set (hex_pair c)" for d using that by (auto simp: hex_pair_def)
  ultimately have "hex_value (CHR ''.'') \<noteq> None" by blast
  then show False by (simp add: hex_value_def)
qed

definition state_key :: "string \<Rightarrow> string \<Rightarrow> string" where
  "state_key k suffix = ''identities.'' @ identity_hex_encode k @ suffix"

lemma state_key_eq:
  assumes "s = [] \<or> hd s = CHR ''.''" and "s' = [] \<or> hd s' = CHR ''.''"
  shows "state_key k s = state_key k' s' \<longleftrightarrow> k = k' \<and> s = s'"
proof
  assume "state_key k s = state_key k' s'"
  then have eq: "identity_hex_encode k @ s = identity_hex_encode k' @ s'" by (simp add: state_key_def)
  have "takeWhile (\<lambda>c. c \<noteq> CHR ''.'') (identity_hex_encode x @ y) = identity_hex_encode x"
    if "y = [] \<or> hd y = CHR ''.''" for x y
  proof -
    have "takeWhile (\<lambda>c. c \<noteq> CHR ''.'') y = []" using that by (cases y) auto
    then show ?thesis using hex_no_dot [of x] by (subst takeWhile_append2) auto
  qed
  from this [OF assms(1), of k] this [OF assms(2), of k'] eq have "identity_hex_encode k = identity_hex_encode k'" by simp
  with eq show "k = k' \<and> s = s'" by (simp add: hex_encode_inj)
qed (simp add: state_key_def)

definition app_identity :: "string \<Rightarrow> TypioWlIdentity" where
  "app_identity k = \<lparr>wi_provider_name = Some ''niri'', wi_app_id = Some k, wi_stable_key = Some k\<rparr>"

lemma config_get_string [simp]: "typio_config_get_string c key None = c key"
  by (simp add: typio_config_get_string_def option.case_eq_if)

lemma app_identity_key [simp]: "wi_stable_key (app_identity k) = Some k"
  by (simp add: app_identity_def)

lemma config_key_app [simp]:
  "k \<noteq> [] \<Longrightarrow> identity_config_key (app_identity k) = Some (state_key k [])"
  "k \<noteq> [] \<Longrightarrow> suffix \<noteq> [] \<Longrightarrow> identity_config_subkey (app_identity k) suffix = Some (state_key k suffix)"
  by (simp_all add: identity_config_key_def identity_config_subkey_def app_identity_def state_key_def)

subsection \<open>The memory that the file stands for\<close>

type_synonym app_memory = "string \<Rightarrow> string option \<times> (string \<times> string) option"

datatype memory_op = RememberEngine string string | RememberMode string string string

text \<open>
  Remembering an engine drops a remembered mode of another engine; remembering a mode keeps the
  engine. Empty names are ignored.
\<close>

definition memory_step :: "memory_op \<Rightarrow> app_memory \<Rightarrow> app_memory" where
  "memory_step x mem = (case x of
       RememberEngine k e \<Rightarrow>
         if k = [] \<or> e = [] then mem
         else mem(k := (Some e, case snd (mem k) of Some (e', m) \<Rightarrow> if e' = e then Some (e', m) else None | None \<Rightarrow> None))
     | RememberMode k e m \<Rightarrow>
         if k = [] \<or> e = [] \<or> m = [] then mem else mem(k := (fst (mem k), Some (e, m))))"

definition no_memory :: app_memory where
  "no_memory k = (None, None)"

text \<open>The memory in a configuration, and what keeps it readable.\<close>

definition memory_of :: "config \<Rightarrow> app_memory" where
  "memory_of c k =
     ((case c (state_key k ''.engine'') of Some e \<Rightarrow> Some e | None \<Rightarrow> c (state_key k [])),
      (case (c (state_key k ''.mode_engine''), c (state_key k ''.mode_id'')) of (Some e, Some m) \<Rightarrow> Some (e, m) | _ \<Rightarrow> None))"

text \<open>
  A configuration of the state file: finitely many keys that the code makes, with printable ASCII
  values without quotes and backslashes.
\<close>

definition name_char :: "char \<Rightarrow> bool" where
  "name_char c \<longleftrightarrow> plain_char c \<and> (of_char c :: nat) < 0x7F"

definition memory_key :: "string \<Rightarrow> bool" where
  "memory_key key \<longleftrightarrow> (\<exists>k s. k \<noteq> [] \<and> s \<in> {[], ''.engine'', ''.mode_engine'', ''.mode_id''} \<and> key = state_key k s)"

definition config_ok :: "config \<Rightarrow> bool" where
  "config_ok c \<longleftrightarrow> finite (dom c) \<and>
     (\<forall>key v. c key = Some v \<longrightarrow> memory_key key \<and> v \<noteq> [] \<and> list_all name_char v) \<and>
     (\<forall>k. c (state_key k ''.mode_engine'') = None \<longleftrightarrow> c (state_key k ''.mode_id'') = None)"

definition config_step :: "memory_op \<Rightarrow> config \<Rightarrow> config" where
  "config_step x c = (case x of
       RememberEngine k e \<Rightarrow>
         if k = [] \<or> e = [] then c
         else
           let c' = c(state_key k ''.engine'' \<mapsto> e, state_key k [] \<mapsto> e);
               old = c (state_key k ''.mode_engine'')
           in if filled old \<and> old \<noteq> Some e
              then c'(state_key k ''.mode_engine'' := None, state_key k ''.mode_id'' := None) else c'
     | RememberMode k e m \<Rightarrow>
         if k = [] \<or> e = [] \<or> m = [] then c
         else c(state_key k ''.mode_engine'' \<mapsto> e, state_key k ''.mode_id'' \<mapsto> m))"

definition plain_op :: "memory_op \<Rightarrow> bool" where
  "plain_op x = (case x of
       RememberEngine k e \<Rightarrow> list_all name_char e
     | RememberMode k e m \<Rightarrow> list_all name_char e \<and> list_all name_char m)"

lemma memory_keys:
  "k \<noteq> [] \<Longrightarrow> memory_key (state_key k [])" "k \<noteq> [] \<Longrightarrow> memory_key (state_key k ''.engine'')"
  "k \<noteq> [] \<Longrightarrow> memory_key (state_key k ''.mode_engine'')" "k \<noteq> [] \<Longrightarrow> memory_key (state_key k ''.mode_id'')"
  by (auto simp: memory_key_def)

lemma config_step_ok: "config_ok c \<Longrightarrow> plain_op x \<Longrightarrow> config_ok (config_step x c)"
  by (cases x) (auto simp: config_ok_def config_step_def plain_op_def state_key_eq memory_keys Let_def split: if_splits)

lemma config_step_memory:
  assumes "config_ok c"
  shows "memory_of (config_step x c) = memory_step x (memory_of c)"
proof (rule ext)
  fix k
  have "c (state_key k' ''.mode_engine'') \<noteq> Some []" "c (state_key k' ''.mode_engine'') = None \<longleftrightarrow> c (state_key k' ''.mode_id'') = None"
    for k' using assms by (auto simp: config_ok_def)
  note facts = this
  show "memory_of (config_step x c) k = memory_step x (memory_of c) k"
  proof (cases x)
    case (RememberEngine k' e)
    show ?thesis
    proof (cases "k = k'")
      case True
      with RememberEngine facts [of k'] show ?thesis
        by (auto simp: memory_of_def config_step_def memory_step_def state_key_eq Let_def filled_def split: option.splits)
    qed (auto simp: RememberEngine memory_of_def config_step_def memory_step_def state_key_eq Let_def split: option.split)
  next
    case (RememberMode k' e m)
    show ?thesis
    proof (cases "k = k'")
      case True
      with RememberMode facts [of k'] show ?thesis
        by (auto simp: memory_of_def config_step_def memory_step_def state_key_eq split: option.split)
    qed (auto simp: RememberMode memory_of_def config_step_def memory_step_def state_key_eq split: option.split)
  qed
qed

subsection \<open>The operations on the file\<close>

text \<open>
  What the code relies on: the state directory is known, the setting is on, every save succeeds, and a
  file that was saved with such a configuration is loaded with the same entries.
\<close>

definition keeps_file :: "'w core_instance \<Rightarrow> bool" where
  "keeps_file ci \<longleftrightarrow> (\<forall>c path w. config_ok c \<longrightarrow> ci_load_file ci path (ci_save_file ci c path w) = Some c)"

definition memory_enabled :: "'w core_instance \<Rightarrow> bool" where
  "memory_enabled ci \<longleftrightarrow> filled (ci_state_dir ci) \<and> identity_preferences_enabled (Some ci)"

definition app_frontend :: "'w core_instance \<Rightarrow> string \<Rightarrow> 'w identity_frontend" where
  "app_frontend ci k = \<lparr>if_instance = Some ci, if_session_ctx = True, if_provider = None, if_identity = app_identity k\<rparr>"

definition file_step :: "'w core_instance \<Rightarrow> memory_op \<Rightarrow> 'w \<Rightarrow> 'w" where
  "file_step ci x w = (case x of
       RememberEngine k e \<Rightarrow> remember_active_engine (app_frontend ci k) (Some e) w
     | RememberMode k e m \<Rightarrow> remember_active_mode (app_frontend ci k) (Some e) (Some m) w)"

definition file_holds :: "'w core_instance \<Rightarrow> config \<Rightarrow> 'w \<Rightarrow> bool" where
  "file_holds ci c w \<longleftrightarrow>
     (case load_config (Some ci) (the (identity_state_path (Some ci))) w of None \<Rightarrow> (\<lambda>_. None) | Some c' \<Rightarrow> c') = c"

lemma config_key_none: "identity_config_key (app_identity []) = None" "identity_config_subkey (app_identity []) s = None"
  by (simp_all add: identity_config_key_def identity_config_subkey_def app_identity_def)

lemma state_path: "memory_enabled ci \<Longrightarrow> \<exists>path. identity_state_path (Some ci) = Some path"
  by (auto simp: memory_enabled_def filled_def identity_state_path_def)

lemma file_step_holds:
  assumes "memory_enabled ci" and "keeps_file ci" and "file_holds ci c w" and "config_ok c" and "plain_op x"
  shows "file_holds ci (config_step x c) (file_step ci x w)"
proof -
  obtain path where path: "identity_state_path (Some ci) = Some path" using state_path [OF assms(1)] by blast
  have on: "identity_preferences_enabled (Some ci)" using assms(1) by (simp add: memory_enabled_def)
  have loaded: "(case load_config (Some ci) path w of None \<Rightarrow> typio_config_new | Some config \<Rightarrow> Some config) = Some c"
    using assms(3) path by (auto simp: file_holds_def typio_config_new_def split: option.split)
  have saved: "file_holds ci (config_step x c) (save_config (Some ci) (config_step x c) path w)"
    using assms(2) config_step_ok [OF assms(4,5)] path
    by (simp add: file_holds_def load_config_def save_config_def keeps_file_def)
  consider "config_step x c = c" "file_step ci x w = w" | "file_step ci x w = save_config (Some ci) (config_step x c) path w"
  proof (cases x)
    case (RememberEngine k e)
    show ?thesis
    proof (cases "k = [] \<or> e = []")
      case True
      then show ?thesis
        using RememberEngine that(1) by (auto simp: config_step_def file_step_def remember_active_engine_def app_frontend_def
            identity_memory_store_engine_def config_key_none split: option.split)
    next
      case False
      then show ?thesis
        using RememberEngine on path loaded that(2)
        by (simp add: config_step_def file_step_def remember_active_engine_def app_frontend_def identity_memory_store_engine_def
            typio_config_set_string_def typio_config_remove_def Let_def cong: if_cong)
    qed
  next
    case (RememberMode k e m)
    show ?thesis
    proof (cases "k = [] \<or> e = [] \<or> m = []")
      case True
      then show ?thesis
        using RememberMode that(1) by (auto simp: config_step_def file_step_def remember_active_mode_def app_frontend_def
            identity_memory_store_mode_def config_key_none split: option.split)
    next
      case False
      then show ?thesis
        using RememberMode on path loaded that(2)
        by (simp add: config_step_def file_step_def remember_active_mode_def app_frontend_def identity_memory_store_mode_def
            typio_config_set_string_def)
    qed
  qed
  then show ?thesis using assms(3) saved by cases simp_all
qed

text \<open>An operation either leaves the world alone or saves a file.\<close>

lemma file_step_save:
  assumes "memory_enabled ci"
  shows "file_step ci x w = w \<or> (\<exists>c path. file_step ci x w = ci_save_file ci c path w)"
proof -
  have engine: "identity_memory_store_engine (Some ci) i e w = w \<or> (\<exists>c path. identity_memory_store_engine (Some ci) i e w = ci_save_file ci c path w)"
    for i e unfolding identity_memory_store_engine_def save_config_def Let_def by (auto split: option.split)
  have mode: "identity_memory_store_mode (Some ci) i e m w = w \<or> (\<exists>c path. identity_memory_store_mode (Some ci) i e m w = ci_save_file ci c path w)"
    for i e m unfolding identity_memory_store_mode_def save_config_def by (auto split: option.split)
  show ?thesis
    using engine mode
    by (cases x) (auto simp: file_step_def remember_active_engine_def remember_active_mode_def app_frontend_def)
qed

lemma file_run_holds:
  "memory_enabled ci \<Longrightarrow> keeps_file ci \<Longrightarrow> file_holds ci c w \<Longrightarrow> config_ok c \<Longrightarrow> list_all plain_op xs \<Longrightarrow>
     file_holds ci (fold config_step xs c) (fold (file_step ci) xs w) \<and> config_ok (fold config_step xs c)"
proof (induction xs arbitrary: c w)
  case Nil
  then show ?case by simp
next
  case (Cons x xs)
  then have "file_holds ci (config_step x c) (file_step ci x w)" "config_ok (config_step x c)"
    by (simp_all add: file_step_holds config_step_ok)
  with Cons show ?case by simp
qed

lemma fold_memory: "config_ok c \<Longrightarrow> list_all plain_op xs \<Longrightarrow> memory_of (fold config_step xs c) = fold memory_step xs (memory_of c)"
  by (induction xs arbitrary: c) (simp_all add: config_step_memory config_step_ok)

lemma load_from_file:
  assumes "memory_enabled ci" and "file_holds ci c w" and "config_ok c" and "k \<noteq> []"
  shows "identity_memory_load_engine (Some ci) (app_identity k) w = fst (memory_of c k)"
    and "identity_memory_load_mode (Some ci) (app_identity k) w = snd (memory_of c k)"
proof -
  obtain path where path: "identity_state_path (Some ci) = Some path" using state_path [OF assms(1)] by blast
  have filled: "c key \<noteq> Some []" for key using assms(3) by (auto simp: config_ok_def)
  have held: "(case load_config (Some ci) path w of None \<Rightarrow> (\<lambda>_. None) | Some c' \<Rightarrow> c') = c"
    using assms(2) path by (simp add: file_holds_def)
  show "identity_memory_load_engine (Some ci) (app_identity k) w = fst (memory_of c k)"
    using held assms(4) filled path
    by (auto simp: identity_memory_load_engine_def memory_of_def filled_def typio_config_get_string_def Let_def split: option.splits)
  show "identity_memory_load_mode (Some ci) (app_identity k) w = snd (memory_of c k)"
    using held assms(4) filled path
    by (auto simp: identity_memory_load_mode_def memory_of_def typio_config_get_string_def split: option.splits)
qed

subsection \<open>The focused window\<close>

lemma starts_with_cons [simp]:
  "starts_with [] s" "\<not> starts_with (a # p) []" "starts_with (a # p) (b # s) \<longleftrightarrow> a = b \<and> starts_with p s"
  by (auto simp: starts_with_def)

text \<open>An escaped text is followed by its closing quote; no prefix of it looks like a key and a colon.\<close>

lemma escape_Cons: "escape (c # t) = escape_char c @ escape t"
  by (simp add: escape_def)

lemma escape_Nil [simp]: "escape [] = []"
  by (simp add: escape_def)

lemma escape_char_cases:
  obtains "plain_char c" "escape_char c = [c]"
  | e where "\<not> plain_char c" "escape_char c = [backslash, e]"
  | h l where "\<not> plain_char c" "escape_char c = [backslash, CHR ''u'', CHR ''0'', CHR ''0'', hex_digit h, hex_digit l]" "h < 16" "l < 16"
proof (cases "plain_char c")
  case True
  then show ?thesis using that(1) escape_char_plain [of c] by simp
next
  case False
  show ?thesis
  proof (cases "\<exists>e. escape_char c = [backslash, e]")
    case True
    then show ?thesis using that(2) False by blast
  next
    case other: False
    have "escape_char c = [backslash, CHR ''u'', CHR ''0'', CHR ''0'', hex_digit (of_char c div 16), hex_digit (of_char c mod 16)] \<and>
        (of_char c :: nat) < 32"
      using other False by (auto simp: escape_char_def plain_char_def not_le split: if_splits)
    then show ?thesis using that(3) [OF False] by (simp add: less_mult_imp_div_less)
  qed
qed

lemma starts_with_escape:
  assumes "starts_with (x # p) (escape t @ dquote # r)" and "plain_char x"
  shows "\<exists>t'. t = x # t' \<and> starts_with p (escape t' @ dquote # r)"
proof (cases t)
  case Nil
  with assms show ?thesis by (simp add: plain_char_def)
next
  case (Cons c t')
  show ?thesis
    by (rule escape_char_cases [of c]) (use assms Cons in \<open>auto simp: escape_Cons plain_char_def\<close>)
qed

lemma starts_with_escape_word:
  "starts_with (w @ p) (escape t @ dquote # r) \<Longrightarrow> list_all plain_char w \<Longrightarrow>
     \<exists>t'. t = w @ t' \<and> starts_with p (escape t' @ dquote # r)"
proof (induction w arbitrary: t)
  case Nil
  then show ?case by simp
next
  case (Cons x w)
  then show ?case using starts_with_escape [of x "w @ p" t r] by auto
qed

lemma no_key_in_escaped:
  assumes "list_all plain_char w" and "r = [] \<or> hd r \<noteq> CHR '':''"
  shows "\<not> starts_with (w @ [dquote, CHR '':''] @ p) (escape t @ dquote # r)"
proof
  assume "starts_with (w @ [dquote, CHR '':''] @ p) (escape t @ dquote # r)"
  from starts_with_escape_word [OF this assms(1)] obtain t' where
    colon: "starts_with (dquote # CHR '':'' # p) (escape t' @ dquote # r)" by auto
  show False
  proof (cases t')
    case Nil
    with assms(2) colon show False by (cases r) simp_all
  next
    case (Cons c t'')
    show False
      by (rule escape_char_cases [of c]) (use Cons colon in \<open>auto simp: escape_Cons plain_char_def\<close>)
  qed
qed

definition key_pattern :: "string \<Rightarrow> string" where
  "key_pattern w = dquote # w @ [dquote, CHR '':'', dquote]"

text \<open>So a search for a key passes over an escaped text.\<close>

lemma strstr_escaped:
  assumes "list_all plain_char w" and "r = [] \<or> hd r \<noteq> CHR '':''"
  shows "strstr (key_pattern w) (escape t @ dquote # r) = strstr (key_pattern w) (dquote # r)"
proof (induction t)
  case Nil
  show ?case by simp
next
  case (Cons c t)
  have strstr_not_here: "strstr (key_pattern w) (dquote # escape t @ dquote # r) = strstr (key_pattern w) (escape t @ dquote # r)"
    if "\<not> starts_with (key_pattern w) (dquote # escape t @ dquote # r)" using that by simp
  have here: "\<not> starts_with (key_pattern w) (dquote # escape t @ dquote # r)"
    using no_key_in_escaped [OF assms, of "[dquote]" t] by (simp add: key_pattern_def)
  have skip: "strstr (key_pattern w) (a # s) = strstr (key_pattern w) s" if "a \<noteq> dquote" for a s
    using that by (simp add: key_pattern_def)
  have hex: "hex_digit d \<noteq> dquote" if "d < 16" for d
    using hex_value_digit [OF that] by (auto simp: hex_value_def)
  show ?case
  proof (rule escape_char_cases [of c])
    assume "plain_char c" "escape_char c = [c]"
    then show ?thesis using Cons skip [of c] by (simp add: escape_Cons plain_char_def del: strstr.simps)
  next
    fix e assume "escape_char c = [backslash, e]"
    then show ?thesis using Cons here by (cases "e = dquote") (simp_all add: escape_Cons skip strstr_not_here del: strstr.simps)
  next
    fix h l :: nat
    assume "escape_char c = [backslash, CHR ''u'', CHR ''0'', CHR ''0'', hex_digit h, hex_digit l]" "h < 16" "l < 16"
    then show ?thesis using Cons by (simp add: escape_Cons skip hex del: strstr.simps)
  qed
qed

definition simple_char :: "char \<Rightarrow> bool" where
  "simple_char c \<longleftrightarrow> plain_char c \<or> c \<in> {dquote, backslash, CHR 0x0A, CHR 0x0D, CHR 0x09}"

lemma json_value_escape:
  "list_all simple_char t \<Longrightarrow> json_value False (escape t @ dquote # r) = Some t"
proof (induction t)
  case Nil
  show ?case by simp
next
  case (Cons c t)
  have "json_value False (escape_char c @ escape t @ dquote # r) = Some (c # t)"
  proof (cases "plain_char c")
    case True
    then have "escape_char c = [c]" by (simp add: escape_char_plain)
    with True Cons show ?thesis by (simp add: plain_char_def)
  next
    case False
    with Cons.prems have "c \<in> {dquote, backslash, CHR 0x0A, CHR 0x0D, CHR 0x09}" by (auto simp: simple_char_def)
    with Cons show ?thesis by (auto simp: escape_char_def)
  qed
  then show ?case by (simp add: escape_Cons)
qed

text \<open>The answer of niri: the number of the window, its title, its application, and more.\<close>

definition window_answer :: "nat \<Rightarrow> string option \<Rightarrow> string \<Rightarrow> string \<Rightarrow> string" where
  "window_answer n title app rest =
     ''{'' @ quoted ''Ok'' @ '':{'' @ quoted ''FocusedWindow'' @ '':{'' @ quoted ''id'' @ '':'' @ show_nat n @ '','' @
     quoted ''title'' @ '':'' @ (case title of None \<Rightarrow> ''null'' | Some t \<Rightarrow> quoted (escape t)) @ '','' @
     quoted ''app_id'' @ '':'' @ quoted (escape app) @ rest"

lemma strstr_digits: "list_all is_digit ds \<Longrightarrow> strstr (key_pattern w) (ds @ r) = strstr (key_pattern w) r"
proof (induction ds)
  case Nil
  show ?case by simp
next
  case (Cons d ds)
  have "d \<noteq> dquote" using Cons.prems by (auto simp: is_digit_def)
  with Cons show ?case by (simp add: key_pattern_def)
qed

text \<open>What is found in a part of the answer that arrived is found in the whole answer.\<close>

lemma strstr_part: "strstr p s = Some r \<Longrightarrow> strstr p (s @ t) = Some (r @ t)"
proof (induction s)
  case Nil
  then show ?case by (cases t) (auto split: if_splits)
next
  case (Cons c s)
  show ?case
  proof (cases "starts_with p (c # s)")
    case True
    then have "take (length p) (c # s) = p" by (simp add: starts_with_def)
    moreover from this have "length p \<le> length (c # s)" by (metis length_take min.cobounded1)
    moreover from this have "take (length p) ((c # s) @ t) = take (length p) (c # s)" by (simp only: take_append diff_is_0_eq' take_0 append_Nil2)
    ultimately have "starts_with p (c # s @ t)" by (simp add: starts_with_def)
    with True Cons.prems show ?thesis by auto
  next
    case False
    then have r: "strstr p s = Some r" using Cons.prems by simp
    then obtain a where "s = a @ r" "take (length p) r = p" using strstr_suffix [of p s r] by (auto simp: starts_with_def)
    then have "length p \<le> length s" by (metis length_append length_take min.cobounded1 min.commute trans_le_add2)
    then have "take (length p) (c # s @ t) = take (length p) (c # s)" by (cases p) simp_all
    with False have "\<not> starts_with p (c # s @ t)" by (simp add: starts_with_def)
    with Cons.IH [OF r] show ?thesis by simp
  qed
qed

lemma json_value_part: "json_value e s = Some v \<Longrightarrow> json_value e (s @ t) = Some v"
  by (induction e s arbitrary: v rule: json_value.induct) (auto split: if_splits)

lemma find_part:
  assumes "json_find_string_value s f = Some v"
  shows "json_find_string_value (s @ t) f = Some v"
proof -
  let ?p = "take 127 (dquote # f @ [dquote, CHR '':'', dquote])"
  obtain r where r: "strstr ?p s = Some r" "json_value False (drop (length ?p) r) = Some v" and f: "f \<noteq> []"
    using assms by (auto simp: json_find_string_value_def Let_def split: if_splits option.splits)
  obtain a where "s = a @ r" "starts_with ?p r" using strstr_suffix [OF r(1)] by blast
  then have "length ?p \<le> length r" by (metis length_take min.cobounded1 min.commute starts_with_def)
  then have "drop (length ?p) (r @ t) = drop (length ?p) r @ t" by (simp only: drop_append diff_is_0_eq' drop_0 drop0)
  then show ?thesis
    using json_value_part [OF r(2), of t] f by (simp only: json_find_string_value_def Let_def if_False strstr_part [OF r(1)] option.case)
qed

lemma find_app_id:
  assumes "list_all simple_char app"
  shows "json_find_string_value (window_answer n title app rest) ''app_id'' = Some app"
proof -
  let ?tail = "quoted ''app_id'' @ '':'' @ quoted (escape app) @ rest"
  have word: "list_all plain_char ''app_id''" by (simp add: plain_char_def)
  have tail: "?tail = key_pattern ''app_id'' @ escape app @ dquote # rest" by (simp add: quoted_def key_pattern_def)
  have found: "strstr (key_pattern ''app_id'') ?tail = Some ?tail" unfolding tail by (rule strstr_here)
  have sep: "strstr (key_pattern ''app_id'') (dquote # CHR '','' # ?tail) = Some ?tail"
    using found by (simp add: key_pattern_def quoted_def)
  have head: "strstr (key_pattern ''app_id'') (window_answer n title app rest) = Some ?tail"
  proof -
    have 1: "strstr (key_pattern ''app_id'') (window_answer n title app rest) =
        strstr (key_pattern ''app_id'') (show_nat n @ '','' @ quoted ''title'' @ '':'' @
          (case title of None \<Rightarrow> ''null'' | Some t \<Rightarrow> quoted (escape t)) @ '','' @ ?tail)"
      by (simp add: window_answer_def key_pattern_def quoted_def)
    have 2: "list_all is_digit (show_nat n)" using show_nat_digits [of n] by (auto simp: list_all_iff)
    show ?thesis
    proof (cases title)
      case None
      then show ?thesis unfolding 1 strstr_digits [OF 2] using found by (simp add: key_pattern_def quoted_def)
    next
      case (Some t)
      have "strstr (key_pattern ''app_id'') ('','' @ quoted ''title'' @ '':'' @ quoted (escape t) @ '','' @ ?tail) =
          strstr (key_pattern ''app_id'') (escape t @ dquote # CHR '','' # ?tail)"
        using no_key_in_escaped [OF word, of "CHR '','' # ?tail" "[dquote]" t]
        by (simp add: key_pattern_def quoted_def)
      also have "\<dots> = Some ?tail" using strstr_escaped [OF word, of "CHR '','' # ?tail" t] sep by simp
      finally show ?thesis unfolding 1 strstr_digits [OF 2] using Some by simp
    qed
  qed
  have "take 127 (dquote # ''app_id'' @ [dquote, CHR '':'', dquote]) = key_pattern ''app_id''" by (simp add: key_pattern_def)
  then show ?thesis
    using head json_value_escape [OF assms, of rest] unfolding tail
    by (simp add: json_find_string_value_def key_pattern_def)
qed

end
