(* ===== verification/State_Controller.thy ===== *)
theory State_Controller
  imports Identity
begin

section \<open>The state controller\<close>

text \<open>
  The cached state that tray and buses read, and its listeners
  (\<^verbatim>\<open>daemon/state/controller.c\<close>). A listener is its user data and whether it has a callback;
  what a broadcast does is the list of the callbacks made. What the core answers is a snapshot.
\<close>

datatype TypioStateChangeType = CHANGE_ENGINE | CHANGE_VOICE_ENGINE | CHANGE_MODE | CHANGE_STATUS_ICON

record TypioStateListener =
  sl_user_data :: nat
  sl_callback :: bool

type_synonym state_calls = "(nat \<times> TypioStateChangeType) list"

record TypioStateController =
  ct_engine_name :: "string option"
  ct_engine_display_name :: "string option"
  ct_voice_name :: "string option"
  ct_voice_display_name :: "string option"
  ct_status_icon :: "string option"
  ct_engine_active :: bool
  ct_mode :: "TypioEngineMode option" \<comment> \<open>when \<^verbatim>\<open>has_mode\<close>\<close>
  ct_listeners :: "TypioStateListener list"
  ct_capacity :: nat

text \<open>The answers of the core: its engine manager with the active engines, and the last icon.\<close>

record core_view =
  cv_manager :: bool
  cv_active :: "core_engine option"
  cv_active_voice :: "core_engine option"
  cv_last_status_icon :: "string option"

subsection \<open>Helpers\<close>

definition typio_state_strdup :: "string option \<Rightarrow> string option" where
  "typio_state_strdup src = (if src = None \<or> src = Some [] then None else src)"

definition state_broadcast :: "TypioStateController \<Rightarrow> TypioStateChangeType \<Rightarrow> state_calls" where
  "state_broadcast c change =
     map (\<lambda>l. (sl_user_data l, change)) (filter sl_callback (ct_listeners c))"

definition active_of :: "core_view \<Rightarrow> core_engine option" where
  "active_of v = (if cv_manager v then cv_active v else None)"

definition voice_of :: "core_view \<Rightarrow> core_engine option" where
  "voice_of v = (if cv_manager v then cv_active_voice v else None)"

definition state_clear_mode :: "TypioStateController \<Rightarrow> TypioStateController" where
  "state_clear_mode c = c\<lparr>ct_mode := None\<rparr>"

definition state_set_mode :: "TypioEngineMode option \<Rightarrow> TypioStateController \<Rightarrow> TypioStateController" where
  "state_set_mode mode c =
     (let c = state_clear_mode c
      in case mode of
           None \<Rightarrow> c
         | Some m \<Rightarrow> c\<lparr>ct_mode := Some \<lparr>em_class = em_class m, em_mode_id = typio_state_strdup (em_mode_id m),
                                      em_display_label = typio_state_strdup (em_display_label m),
                                      em_icon_name = typio_state_strdup (em_icon_name m)\<rparr>\<rparr>)"

subsection \<open>Creation and listeners\<close>

text \<open>\<open>alloc\<close>: the allocations of the controller and of its list.\<close>

definition state_controller_new :: "bool \<times> bool \<Rightarrow> TypioStateController option" where
  "state_controller_new alloc =
     (if \<not> fst alloc \<or> \<not> snd alloc then None
      else Some \<lparr>ct_engine_name = None, ct_engine_display_name = None, ct_voice_name = None, ct_voice_display_name = None,
                 ct_status_icon = None, ct_engine_active = False, ct_mode = None, ct_listeners = [], ct_capacity = 4\<rparr>)"

definition state_add_listener :: "bool \<Rightarrow> TypioStateListener \<Rightarrow> TypioStateController \<Rightarrow> TypioStateController" where
  "state_add_listener realloc l c =
     (if length (ct_listeners c) \<ge> ct_capacity c
      then if realloc
           then c\<lparr>ct_capacity := ct_capacity c * 2, ct_listeners := ct_listeners c @ [l]\<rparr>
           else c
      else c\<lparr>ct_listeners := ct_listeners c @ [l]\<rparr>)"

text \<open>Only the first listener with the user data is removed.\<close>

fun remove_first :: "nat \<Rightarrow> TypioStateListener list \<Rightarrow> TypioStateListener list" where
  "remove_first user_data [] = []"
| "remove_first user_data (l # ls) = (if sl_user_data l = user_data then ls else l # remove_first user_data ls)"

definition state_remove_listener :: "nat \<Rightarrow> TypioStateController \<Rightarrow> TypioStateController" where
  "state_remove_listener user_data c = c\<lparr>ct_listeners := remove_first user_data (ct_listeners c)\<rparr>"

subsection \<open>Queries\<close>

definition state_get_current_mode :: "TypioStateController \<Rightarrow> TypioEngineMode option" where
  "state_get_current_mode c = ct_mode c"

subsection \<open>Notifications of the core\<close>

text \<open>The last icon of the core, else the icon of the engine, else the default.\<close>

definition icon_for :: "core_view \<Rightarrow> TypioEngineInfo option \<Rightarrow> string" where
  "icon_for v info =
     (if filled (cv_last_status_icon v) then or_empty (cv_last_status_icon v)
      else (case info of
              Some i \<Rightarrow> if filled (ei_icon i) then or_empty (ei_icon i) else ''typio-keyboard''
            | None \<Rightarrow> ''typio-keyboard''))"

definition name_of :: "TypioEngineInfo option \<Rightarrow> string option" where
  "name_of info = (case info of None \<Rightarrow> None | Some i \<Rightarrow> ei_name i)"

definition display_name_of :: "TypioEngineInfo option \<Rightarrow> string option" where
  "display_name_of info = (case info of None \<Rightarrow> None | Some i \<Rightarrow> ei_display_name i)"

definition notify_engine_changed ::
    "core_view \<Rightarrow> TypioEngineInfo option \<Rightarrow> TypioStateController \<Rightarrow> TypioStateController \<times> state_calls" where
  "notify_engine_changed v info c =
     (let c = c\<lparr>ct_engine_name := name_of info, ct_engine_display_name := display_name_of info\<rparr>;
          c = c\<lparr>ct_status_icon := Some (icon_for v info)\<rparr>;
          c = c\<lparr>ct_engine_active := active_of v \<noteq> None\<rparr>
      in (c, state_broadcast c CHANGE_ENGINE))"

definition notify_voice_engine_changed ::
    "TypioEngineInfo option \<Rightarrow> TypioStateController \<Rightarrow> TypioStateController \<times> state_calls" where
  "notify_voice_engine_changed info c =
     (let c = c\<lparr>ct_voice_name := name_of info, ct_voice_display_name := display_name_of info\<rparr>
      in (c, state_broadcast c CHANGE_VOICE_ENGINE))"

definition notify_mode_changed ::
    "TypioEngineMode option \<Rightarrow> TypioStateController \<Rightarrow> TypioStateController \<times> state_calls" where
  "notify_mode_changed mode c = (let c = state_set_mode mode c in (c, state_broadcast c CHANGE_MODE))"

definition notify_status_icon_changed ::
    "string option \<Rightarrow> TypioStateController \<Rightarrow> TypioStateController \<times> state_calls" where
  "notify_status_icon_changed icon c =
     (let c = c\<lparr>ct_status_icon := typio_state_strdup icon\<rparr> in (c, state_broadcast c CHANGE_STATUS_ICON))"

definition engine_info :: "core_engine option \<Rightarrow> TypioEngineInfo option" where
  "engine_info e = (case e of None \<Rightarrow> None | Some e \<Rightarrow> ce_info e)"

definition engine_name_of :: "core_engine option \<Rightarrow> string option" where
  "engine_name_of e = (case e of None \<Rightarrow> None | Some e \<Rightarrow> typio_state_strdup (ce_name e))"

definition state_controller_sync :: "core_view \<Rightarrow> TypioStateController \<Rightarrow> TypioStateController \<times> state_calls" where
  "state_controller_sync v c =
     (let active = active_of v;
          c = c\<lparr>ct_engine_name := engine_name_of active, ct_engine_display_name := display_name_of (engine_info active),
                ct_engine_active := active \<noteq> None\<rparr>;
          voice = voice_of v;
          c = c\<lparr>ct_voice_name := engine_name_of voice, ct_voice_display_name := display_name_of (engine_info voice)\<rparr>;
          c = c\<lparr>ct_status_icon := Some (icon_for v (engine_info active))\<rparr>;
          c = state_clear_mode c
      in (c, state_broadcast c CHANGE_ENGINE @ state_broadcast c CHANGE_VOICE_ENGINE @ state_broadcast c CHANGE_STATUS_ICON))"

text \<open>A listener that goes over to another controller, or to none (\<^verbatim>\<open>bind_state_controller\<close> of the surfaces).\<close>

definition rebind_listener ::
    "bool \<Rightarrow> nat \<Rightarrow> nat option \<Rightarrow> nat option \<Rightarrow> (nat \<Rightarrow> TypioStateController) \<Rightarrow> nat \<Rightarrow> TypioStateController" where
  "rebind_listener realloc user_data old ctrl store =
     (let store = (case old of
            None \<Rightarrow> store
          | Some n \<Rightarrow> if old \<noteq> ctrl then store(n := state_remove_listener user_data (store n)) else store)
      in case ctrl of
           None \<Rightarrow> store
         | Some n \<Rightarrow> store(n := state_add_listener realloc \<lparr>sl_user_data = user_data, sl_callback = True\<rparr> (store n)))"

end
