(* ===== verification/Daemon_App.thy ===== *)
theory Daemon_App
  imports State_Controller
begin

section \<open>The callbacks of the daemon\<close>

text \<open>
  What the daemon does when the core reports a change (\<^verbatim>\<open>daemon/app.c\<close>): the state controller is
  told, or the tray and the buses are refreshed, and the engine or mode is remembered for the focused
  application. Also the menu of the tray. The build has the Wayland frontend, the tray and the
  status bus; the requests to the surfaces are a list.
\<close>

datatype surface_request =
    TraySetIcon "string option" | TrayUpdateEngine "string option" bool | TraySetTooltip string
  | IpcPropertiesChanged | StatusPropertiesChanged | FrontendStop

record 'w TypioDaemonApp =
  da_instance :: "'w core_instance option"
  da_view :: "'w \<Rightarrow> core_view" \<comment> \<open>what the instance answers\<close>
  da_controller :: "TypioStateController option"
  da_frontend :: "'w identity_frontend option"
  da_tray :: bool
  da_ipc_bus :: bool
  da_status_bus :: bool
  da_restart_requested :: bool

text \<open>The label of an engine: its display name, else its name (\<^verbatim>\<open>core/src/engine_label.rs\<close>).\<close>

definition label_fallback :: "string option \<Rightarrow> string" where
  "label_fallback name = (case name of
       None \<Rightarrow> []
     | Some n \<Rightarrow>
         if n = ''basic'' then ''Basic''
         else if n = ''rime'' then ''Rime''
         else if n = ''mozc'' then ''Mozc''
         else if n = ''whisper'' then ''Whisper''
         else if n = ''sherpa-onnx'' then ''Sherpa ONNX''
         else n)"

definition label_from_info :: "TypioEngineInfo option \<Rightarrow> string option" where
  "label_from_info info = Some (case info of
       None \<Rightarrow> label_fallback None
     | Some i \<Rightarrow> if filled (ei_display_name i) then or_empty (ei_display_name i) else label_fallback (ei_name i))"

subsection \<open>Surfaces\<close>

definition tooltip_labels :: "'w TypioDaemonApp \<Rightarrow> 'w \<Rightarrow> string option \<times> string option" where
  "tooltip_labels app w = (case da_controller app of
       Some c \<Rightarrow>
         (if filled (ct_engine_display_name c) then ct_engine_display_name c else ct_engine_name c,
          if filled (ct_voice_display_name c) then ct_voice_display_name c else ct_voice_name c)
     | None \<Rightarrow>
         if da_instance app = None then (None, None)
         else (case active_of (da_view app w) of None \<Rightarrow> None | Some e \<Rightarrow> label_from_info (ce_info e),
               case voice_of (da_view app w) of None \<Rightarrow> None | Some e \<Rightarrow> label_from_info (ce_info e)))"

text \<open>The description has room for 255 characters.\<close>

definition update_tray_tooltip :: "'w TypioDaemonApp \<Rightarrow> 'w \<Rightarrow> surface_request list" where
  "update_tray_tooltip app w =
     (if \<not> da_tray app then []
      else
        let keyboard_label = fst (tooltip_labels app w);
            voice_label = snd (tooltip_labels app w);
            keyboard = (if filled keyboard_label then or_empty keyboard_label else ''Unavailable'');
            voice = (if filled voice_label then or_empty voice_label else ''Disabled'')
        in [TraySetTooltip (take 255 (''Keyboard: '' @ keyboard @ [CHR 0x0A] @ ''Voice: '' @ voice))])"

definition tray_engine_status :: "'w TypioDaemonApp \<Rightarrow> 'w \<Rightarrow> string option \<times> string option \<times> bool" where
  "tray_engine_status app w = (case da_controller app of
       Some c \<Rightarrow> (ct_engine_name c, ct_status_icon c, ct_engine_active c)
     | None \<Rightarrow>
         if da_instance app = None then (None, None, False)
         else
           let v = da_view app w;
               active = active_of v;
               icon = (if filled (cv_last_status_icon v) then cv_last_status_icon v
                       else (case active of
                               None \<Rightarrow> Some ''typio-keyboard''
                             | Some e \<Rightarrow>
                                 (case ce_info e of
                                    None \<Rightarrow> Some ''typio-keyboard''
                                  | Some i \<Rightarrow> if ei_icon i = None then Some ''typio-keyboard'' else ei_icon i)))
           in (case active of None \<Rightarrow> None | Some e \<Rightarrow> ce_name e, icon, active \<noteq> None))"

definition update_tray_engine_status :: "'w TypioDaemonApp \<Rightarrow> 'w \<Rightarrow> surface_request list" where
  "update_tray_engine_status app w =
     (if \<not> da_tray app then []
      else (case tray_engine_status app w of
              (name, icon, active) \<Rightarrow> [TraySetIcon icon, TrayUpdateEngine name active] @ update_tray_tooltip app w))"

definition update_ipc_bus_state :: "'w TypioDaemonApp \<Rightarrow> surface_request list" where
  "update_ipc_bus_state app = (if da_ipc_bus app then [IpcPropertiesChanged] else [])"

definition update_status_bus_state :: "'w TypioDaemonApp \<Rightarrow> surface_request list" where
  "update_status_bus_state app = (if da_status_bus app then [StatusPropertiesChanged] else [])"

definition sync_runtime_surfaces :: "'w TypioDaemonApp \<Rightarrow> 'w \<Rightarrow> surface_request list" where
  "sync_runtime_surfaces app w =
     update_tray_engine_status app w @ update_ipc_bus_state app @ update_status_bus_state app"

text \<open>The daemon's own listener refreshes the surfaces on every change, whatever it is.\<close>

definition DAEMON_LISTENER :: nat where
  "DAEMON_LISTENER = 0"

definition on_state_changed :: "'w TypioDaemonApp \<Rightarrow> 'w \<Rightarrow> TypioStateChangeType \<Rightarrow> surface_request list" where
  "on_state_changed app w change = sync_runtime_surfaces app w"

definition deliver :: "'w TypioDaemonApp \<Rightarrow> 'w \<Rightarrow> state_calls \<Rightarrow> surface_request list" where
  "deliver app w calls =
     concat (map (\<lambda>(u, change). if u = DAEMON_LISTENER then on_state_changed app w change else []) calls)"

text \<open>An operation of the controller, with the callbacks it makes delivered.\<close>

definition tell_controller ::
    "(TypioStateController \<Rightarrow> TypioStateController \<times> state_calls) \<Rightarrow> TypioStateController \<Rightarrow> 'w \<Rightarrow> 'w TypioDaemonApp \<Rightarrow>
     'w TypioDaemonApp \<times> surface_request list" where
  "tell_controller f c w app = (case f c of (c, calls) \<Rightarrow>
     let app = app\<lparr>da_controller := Some c\<rparr> in (app, deliver app w calls))"

subsection \<open>Changes reported by the core\<close>

definition core_active_name :: "'w TypioDaemonApp \<Rightarrow> 'w \<Rightarrow> string option option" where
  "core_active_name app w = map_option ce_name (active_of (da_view app w))"

definition on_mode_change ::
    "TypioEngineMode option \<Rightarrow> 'w \<Rightarrow> 'w TypioDaemonApp \<Rightarrow> 'w \<times> 'w TypioDaemonApp \<times> surface_request list" where
  "on_mode_change mode w app =
     (let w = (case (da_instance app, da_frontend app, core_active_name app w, mode) of
                 (Some _, Some fe, Some name, Some m) \<Rightarrow>
                   if filled (em_mode_id m) then remember_active_mode fe name (em_mode_id m) w else w
               | _ \<Rightarrow> w)
      in (w, case da_controller app of
               Some c \<Rightarrow> tell_controller (notify_mode_changed mode) c w app
             | None \<Rightarrow> (app, sync_runtime_surfaces app w)))"

definition on_status_icon_change ::
    "string option \<Rightarrow> 'w \<Rightarrow> 'w TypioDaemonApp \<Rightarrow> 'w TypioDaemonApp \<times> surface_request list" where
  "on_status_icon_change icon w app = (case da_controller app of
       Some c \<Rightarrow> tell_controller (notify_status_icon_changed icon) c w app
     | None \<Rightarrow> (app, (if da_tray app \<and> icon \<noteq> None then [TraySetIcon icon] else []) @ sync_runtime_surfaces app w))"

definition on_engine_change ::
    "TypioEngineInfo option \<Rightarrow> 'w \<Rightarrow> 'w TypioDaemonApp \<Rightarrow> 'w \<times> 'w TypioDaemonApp \<times> surface_request list" where
  "on_engine_change engine w app =
     (case (case da_controller app of
              Some c \<Rightarrow> tell_controller (notify_engine_changed (da_view app w) engine) c w app
            | None \<Rightarrow> (app, sync_runtime_surfaces app w)) of
        (app, reqs) \<Rightarrow>
          (case (da_instance app, core_active_name app w, da_frontend app) of
             (Some _, Some name, Some fe) \<Rightarrow> remember_active_engine fe name w
           | _ \<Rightarrow> w,
           app, reqs))"

definition on_voice_engine_change ::
    "TypioEngineInfo option \<Rightarrow> 'w \<Rightarrow> 'w TypioDaemonApp \<Rightarrow> 'w TypioDaemonApp \<times> surface_request list" where
  "on_voice_engine_change engine w app = (case da_controller app of
       Some c \<Rightarrow> tell_controller (notify_voice_engine_changed engine) c w app
     | None \<Rightarrow> (app, sync_runtime_surfaces app w))"

subsection \<open>The menu of the tray\<close>

text \<open>
  The calls of the menu into the core. What the core reports back while it handles one comes
  through the callbacks above.
\<close>

record 'w menu_core =
  mc_manager :: bool
  mc_next :: "'w \<Rightarrow> 'w"
  mc_prev :: "'w \<Rightarrow> 'w"
  mc_set_active :: "string \<Rightarrow> 'w \<Rightarrow> TypioResult \<times> 'w"
  mc_set_rime_schema :: "string \<Rightarrow> 'w \<Rightarrow> TypioResult \<times> 'w"
  mc_reload_config :: "'w \<Rightarrow> TypioResult \<times> 'w"
  mc_deploy_rime_config :: "'w \<Rightarrow> TypioResult \<times> 'w"

definition request_stop :: "'w TypioDaemonApp \<Rightarrow> surface_request list" where
  "request_stop app = (if da_frontend app \<noteq> None then [FrontendStop] else [])"

definition write_rime_schema_state :: "'w menu_core \<Rightarrow> string \<Rightarrow> 'w TypioDaemonApp \<Rightarrow> 'w \<Rightarrow> bool \<times> 'w" where
  "write_rime_schema_state mc schema app w =
     (if da_instance app = None \<or> schema = [] then (False, w)
      else (case mc_set_rime_schema mc schema w of (res, w) \<Rightarrow> (res = TYPIO_OK, w)))"

definition sync_controller :: "'w \<Rightarrow> 'w TypioDaemonApp \<Rightarrow> 'w TypioDaemonApp \<times> surface_request list" where
  "sync_controller w app = (case da_controller app of
       Some c \<Rightarrow> tell_controller (state_controller_sync (da_view app w)) c w app
     | None \<Rightarrow> (app, []))"

definition tray_menu_callback ::
    "'w menu_core \<Rightarrow> string \<Rightarrow> 'w \<Rightarrow> 'w TypioDaemonApp \<Rightarrow> 'w \<times> 'w TypioDaemonApp \<times> surface_request list" where
  "tray_menu_callback mc action w app =
     (if action = ''quit'' then (w, app, request_stop app)
      else if action = ''restart''
      then (w, app\<lparr>da_restart_requested := True\<rparr>, request_stop app)
      else if \<not> mc_manager mc then (w, app, [])
      else if action = ''activate'' then (mc_next mc w, app, [])
      else if action = ''scroll_up'' then (mc_prev mc w, app, [])
      else if action = ''scroll_down'' then (mc_next mc w, app, [])
      else if starts_with ''engine:'' action then (snd (mc_set_active mc (drop 7 action) w), app, [])
      else if starts_with ''rime-schema:'' action
      then (case write_rime_schema_state mc (drop 12 action) app w of
              (ok, w) \<Rightarrow>
                if \<not> ok then (w, app, [])
                else (case mc_reload_config mc w of
                        (res, w) \<Rightarrow> if res = TYPIO_OK then (w, sync_controller w app) else (w, app, [])))
      else if action = ''rime-deploy''
      then (case mc_deploy_rime_config mc w of
              (res, w) \<Rightarrow> if res = TYPIO_OK then (w, sync_controller w app) else (w, app, []))
      else (w, app, []))"

text \<open>Start-up, up to the frontend: the listener and the first synchronisation.\<close>

definition attach_controller :: "bool \<Rightarrow> 'w \<Rightarrow> 'w TypioDaemonApp \<Rightarrow> 'w TypioDaemonApp \<times> surface_request list" where
  "attach_controller realloc w app = (case da_controller app of
       Some c \<Rightarrow>
         tell_controller (state_controller_sync (da_view app w))
           (state_add_listener realloc \<lparr>sl_user_data = DAEMON_LISTENER, sl_callback = True\<rparr> c) w app
     | None \<Rightarrow> (app, []))"

end
