(* ===== verification/State_Laws.thy ===== *)
theory State_Laws
  imports Daemon_App
begin

section \<open>What the state controller promises\<close>

text \<open>
  The operations of the controller as events: its list stays in its array, a registered listener
  hears every change, and a full synchronisation against the single notifications.
\<close>

datatype controller_event =
    AddListener bool TypioStateListener | RemoveListener nat
  | EngineChanged core_view "TypioEngineInfo option" | VoiceEngineChanged "TypioEngineInfo option"
  | ModeChanged "TypioEngineMode option" | StatusIconChanged "string option" | Synchronise core_view

definition controller_step :: "controller_event \<Rightarrow> TypioStateController \<Rightarrow> TypioStateController \<times> state_calls" where
  "controller_step ev c = (case ev of
       AddListener r l \<Rightarrow> (state_add_listener r l c, [])
     | RemoveListener u \<Rightarrow> (state_remove_listener u c, [])
     | EngineChanged v info \<Rightarrow> notify_engine_changed v info c
     | VoiceEngineChanged info \<Rightarrow> notify_voice_engine_changed info c
     | ModeChanged m \<Rightarrow> notify_mode_changed m c
     | StatusIconChanged i \<Rightarrow> notify_status_icon_changed i c
     | Synchronise v \<Rightarrow> state_controller_sync v c)"

fun run_controller :: "controller_event list \<Rightarrow> TypioStateController \<Rightarrow> TypioStateController \<times> state_calls" where
  "run_controller [] c = (c, [])"
| "run_controller (ev # evs) c = (case controller_step ev c of
     (c, calls) \<Rightarrow> (case run_controller evs c of (c, calls') \<Rightarrow> (c, calls @ calls')))"

text \<open>The changes that an event announces.\<close>

definition announced :: "controller_event \<Rightarrow> TypioStateChangeType list" where
  "announced ev = (case ev of
       EngineChanged v info \<Rightarrow> [CHANGE_ENGINE]
     | VoiceEngineChanged info \<Rightarrow> [CHANGE_VOICE_ENGINE]
     | ModeChanged m \<Rightarrow> [CHANGE_MODE]
     | StatusIconChanged i \<Rightarrow> [CHANGE_STATUS_ICON]
     | Synchronise v \<Rightarrow> [CHANGE_ENGINE, CHANGE_VOICE_ENGINE, CHANGE_STATUS_ICON]
     | _ \<Rightarrow> [])"

lemmas controller_defs =
  controller_step_def state_add_listener_def state_remove_listener_def notify_engine_changed_def
  notify_voice_engine_changed_def notify_mode_changed_def notify_status_icon_changed_def
  state_controller_sync_def state_set_mode_def state_clear_mode_def

subsection \<open>The list of listeners\<close>

definition controller_ok :: "TypioStateController \<Rightarrow> bool" where
  "controller_ok c \<longleftrightarrow> 4 \<le> ct_capacity c \<and> length (ct_listeners c) \<le> ct_capacity c"

lemma length_remove_first: "length (remove_first u ls) \<le> length ls"
  by (induction ls) auto

lemma controller_step_ok: "controller_ok c \<Longrightarrow> controller_ok (fst (controller_step ev c))"
  by (cases ev) (auto simp: controller_defs controller_ok_def Let_def length_remove_first [THEN le_trans] split: option.split)

interpretation controller: event_machine "\<lambda>ev c. fst (controller_step ev c)" controller_ok
  by unfold_locales (rule controller_step_ok)

lemma run_controller_fst: "fst (run_controller evs c) = fold (\<lambda>ev c. fst (controller_step ev c)) evs c"
  by (induction evs arbitrary: c) (simp_all add: case_prod_beta)

lemma filter_remove_first:
  "u \<noteq> u' \<Longrightarrow> filter (\<lambda>l. sl_user_data l = u) (remove_first u' ls) = filter (\<lambda>l. sl_user_data l = u) ls"
  by (induction ls) auto

definition entries_of :: "nat \<Rightarrow> TypioStateController \<Rightarrow> TypioStateListener list" where
  "entries_of u c = filter (\<lambda>l. sl_user_data l = u) (ct_listeners c)"

definition calls_to :: "nat \<Rightarrow> state_calls \<Rightarrow> TypioStateChangeType list" where
  "calls_to u calls = map snd (filter (\<lambda>(u', change). u' = u) calls)"

lemma calls_to_append [simp]: "calls_to u (a @ b) = calls_to u a @ calls_to u b"
  by (simp add: calls_to_def)

lemma calls_to_Nil [simp]: "calls_to u [] = []"
  by (simp add: calls_to_def)

lemma calls_to_broadcast:
  "calls_to u (state_broadcast c change) = map (\<lambda>l. change) (filter sl_callback (entries_of u c))"
proof -
  have "calls_to u (map (\<lambda>l. (sl_user_data l, change)) (filter sl_callback ls)) =
      map (\<lambda>l. change) (filter sl_callback (filter (\<lambda>l. sl_user_data l = u) ls))" for ls
    by (induction ls) (simp_all add: calls_to_def)
  then show ?thesis by (simp add: state_broadcast_def entries_of_def)
qed

text \<open>An event that leaves the registration of a listener alone.\<close>

definition keeps_listener :: "nat \<Rightarrow> controller_event \<Rightarrow> bool" where
  "keeps_listener u ev = (case ev of
       AddListener r l \<Rightarrow> sl_user_data l \<noteq> u
     | RemoveListener u' \<Rightarrow> u' \<noteq> u
     | _ \<Rightarrow> True)"

lemma step_entries: "keeps_listener u ev \<Longrightarrow> entries_of u (fst (controller_step ev c)) = entries_of u c"
  by (cases ev) (auto simp: controller_defs keeps_listener_def entries_of_def Let_def filter_remove_first split: option.split)

lemma broadcast_listeners: "ct_listeners c = ct_listeners c' \<Longrightarrow> state_broadcast c change = state_broadcast c' change"
  by (simp add: state_broadcast_def)

lemma step_calls:
  "keeps_listener u ev \<Longrightarrow> entries_of u c = [l] \<Longrightarrow> sl_callback l \<Longrightarrow> calls_to u (snd (controller_step ev c)) = announced ev"
  using step_entries [of u ev c]
  by (cases ev) (auto simp: controller_defs announced_def Let_def calls_to_broadcast entries_of_def split: option.split)

lemma run_calls:
  "list_all (keeps_listener u) evs \<Longrightarrow> entries_of u c = [l] \<Longrightarrow> sl_callback l \<Longrightarrow>
     calls_to u (snd (run_controller evs c)) = concat (map announced evs) \<and> entries_of u (fst (run_controller evs c)) = [l]"
  by (induction evs arbitrary: c) (simp_all add: case_prod_beta step_calls step_entries)

subsection \<open>Synchronisation\<close>

text \<open>An engine whose description carries its name.\<close>

definition engine_described :: "core_engine option \<Rightarrow> bool" where
  "engine_described e = (case e of
       None \<Rightarrow> True
     | Some e \<Rightarrow> filled (ce_name e) \<and> (case ce_info e of None \<Rightarrow> False | Some i \<Rightarrow> ei_name i = ce_name e))"

lemma described_name: "engine_described e \<Longrightarrow> engine_name_of e = name_of (engine_info e)"
  by (auto simp: engine_described_def engine_name_of_def name_of_def engine_info_def typio_state_strdup_def filled_def
      split: option.splits)

lemma sync_state:
  assumes "engine_described (active_of v)" and "engine_described (voice_of v)"
  shows "fst (state_controller_sync v c) =
    fst (run_controller [ModeChanged None, VoiceEngineChanged (engine_info (voice_of v)), EngineChanged v (engine_info (active_of v))] c)"
  using described_name [OF assms(1)] described_name [OF assms(2)]
  by (simp add: controller_defs Let_def)

lemma sync_silent: "(u, CHANGE_MODE) \<notin> set (snd (state_controller_sync v c))"
  by (auto simp: state_controller_sync_def state_broadcast_def Let_def)

end
