(* ===== verification/Daemon_Props.thy ===== *)
theory Daemon_Props
  imports "HOL-Library.Sublist" Identity_Laws State_Laws
begin

section \<open>Properties of the identities, the state controller and the daemon's callbacks\<close>

text \<open>
  The state file against the memory it stands for, the answer of the compositor, the listeners of
  the controller, and the order of a restored engine and its mode.
\<close>

text \<open>A core with a state file, an active engine and its mode, for the witnesses.\<close>

type_synonym demo_world = "config option \<times> string \<times> string"

definition demo_mode :: "string \<Rightarrow> TypioEngineMode" where
  "demo_mode m = \<lparr>em_class = MODE_CLASS_NATIVE, em_mode_id = Some m, em_display_label = None, em_icon_name = None\<rparr>"

definition stored :: "demo_world \<Rightarrow> config" where
  "stored w = (case fst w of None \<Rightarrow> (\<lambda>_. None) | Some c \<Rightarrow> c)"

text \<open>
  Activating an engine reports its mode and then the engine, which the daemon remembers for the
  focused application, here \<open>k\<close>.
\<close>

definition demo_core :: "string \<Rightarrow> demo_world core_instance" where
  "demo_core k = \<lparr>
     ci_state_dir = Some ''/s'', ci_path_join = (\<lambda>a b. a @ b), ci_per_app_preferences = None,
     ci_load_file = (\<lambda>p w. fst w), ci_save_file = (\<lambda>c p w. (Some c, snd w)),
     ci_manager = True,
     ci_active = (\<lambda>w. Some \<lparr>ae_name = Some (fst (snd w)), ae_keyboard = True, ae_has_get_mode = True, ae_has_set_mode = True\<rparr>),
     ci_set_active = (\<lambda>e w. (TYPIO_OK,
        (Some (config_step (RememberEngine k e) (config_step (RememberMode k e ''chinese'') (stored w))), e, ''chinese''))),
     ci_get_mode = (\<lambda>w. Some (demo_mode (snd (snd w)))),
     ci_set_mode = (\<lambda>m w. (TYPIO_OK, (fst w, fst (snd w), m)))\<rparr>"

lemma demo_core_facts: "memory_enabled (demo_core k)" "keeps_file (demo_core k)"
  by (simp_all add: memory_enabled_def keeps_file_def demo_core_def filled_def identity_preferences_enabled_def)

text \<open>
  C16. The state file refines a memory of one engine and one mode for each application: whatever
  sequence of engines and modes is remembered for whatever applications, starting without a file,
  the engine and the mode that are then loaded for an application are the ones the memory has for it;
  in particular no application disturbs another. This holds while the setting is on and the state
  directory known, as long as the names of engines and modes are printable ASCII without quotes and
  backslashes, every save of the file succeeds, and a saved file with the keys of this code and such
  names is read back as it was saved.
\<close>

theorem identity_memory_refines:
  assumes "memory_enabled ci" and "keeps_file ci"
    and "load_config (Some ci) (the (identity_state_path (Some ci))) w = None"
    and "list_all plain_op xs" and "k \<noteq> []"
  shows "(identity_memory_load_engine (Some ci) (app_identity k) (fold (file_step ci) xs w),
     identity_memory_load_mode (Some ci) (app_identity k) (fold (file_step ci) xs w)) = fold memory_step xs no_memory k"
proof -
  have start: "file_holds ci (\<lambda>_. None) w" "config_ok (\<lambda>_. None)" "memory_of (\<lambda>_. None) = no_memory"
    using assms(3) by (simp_all add: file_holds_def config_ok_def memory_of_def no_memory_def fun_eq_iff)
  from file_run_holds [OF assms(1,2) start(1,2) assms(4)] have
    end': "file_holds ci (fold config_step xs (\<lambda>_. None)) (fold (file_step ci) xs w)" "config_ok (fold config_step xs (\<lambda>_. None))"
    by simp_all
  note loaded = load_from_file [OF assms(1) end' assms(5), unfolded fold_memory [OF start(2) assms(4)] start(3)]
  show ?thesis by (simp only: loaded prod.collapse)
qed

theorem identity_memory_refines_witness:
  "identity_memory_load_engine (Some (demo_core ''a'')) (app_identity ''b'')
     (fold (file_step (demo_core ''a'')) [RememberEngine ''b'' ''rime'', RememberEngine ''a'' ''basic''] (None, ''basic'', ''m'')) = Some ''rime''"
proof -
  let ?xs = "[RememberEngine ''b'' ''rime'', RememberEngine ''a'' ''basic'']"
  have "load_config (Some (demo_core ''a'')) (the (identity_state_path (Some (demo_core ''a'')))) (None, ''basic'', ''m'') = None"
    by (simp add: load_config_def demo_core_def)
  moreover have "list_all plain_op ?xs" by (simp add: plain_op_def name_char_def plain_char_def)
  ultimately show ?thesis
    using identity_memory_refines [OF demo_core_facts, of "''a''" "(None, ''basic'', ''m'')" ?xs "''b''"]
    by (simp add: memory_step_def no_memory_def)
qed

text \<open>Reads that deliver the whole answer.\<close>

definition read_text :: "read_event \<Rightarrow> string" where
  "read_text ev = (case ev of ReadData d \<Rightarrow> d | _ \<Rightarrow> [])"

definition good_read :: "read_event \<Rightarrow> bool" where
  "good_read ev = (case ev of ReadData d \<Rightarrow> d \<noteq> [] | ReadInterrupted \<Rightarrow> True | ReadError \<Rightarrow> False)"

lemma read_response_all:
  "list_all good_read evs \<Longrightarrow> length (r @ concat (map read_text evs)) + 1 < n \<Longrightarrow>
     CHR 0x0A \<notin> set (butlast (r @ concat (map read_text evs))) \<Longrightarrow>
     read_response n evs r = Some (r @ concat (map read_text evs))"
proof (induction evs arbitrary: r)
  case Nil
  then show ?case by (subst read_response.simps) simp
next
  case (Cons ev evs)
  show ?case
  proof (cases ev)
    case (ReadData d)
    let ?r = "concat (map read_text evs)"
    have d: "d \<noteq> []" "take (n - length r - 1) d = d" "length r + 1 < n"
      using Cons.prems ReadData by (auto simp: good_read_def read_text_def)
    have text': "concat (map read_text (ev # evs)) = d @ ?r" using ReadData by (simp add: read_text_def)
    have step: "read_response n (ev # evs) r = (if CHR 0x0A \<in> set (r @ d) then Some (r @ d) else read_response n evs (r @ d))"
      using d ReadData by (subst read_response.simps) simp
    show ?thesis
    proof (cases "CHR 0x0A \<in> set (r @ d)")
      case True
      have "?r = []"
      proof (rule ccontr)
        assume "?r \<noteq> []"
        then have "set (r @ d) \<subseteq> set (butlast (r @ d @ ?r))" by (auto simp: butlast_append)
        with True Cons.prems(3) show False unfolding text' by blast
      qed
      with True step show ?thesis unfolding text' by simp
    next
      case False
      have "read_response n evs (r @ d) = Some ((r @ d) @ ?r)"
        by (rule Cons.IH) (use Cons.prems in \<open>simp_all only: text' append_assoc list.pred_inject simp_thms\<close>)
      with False step show ?thesis unfolding text' by simp
    qed
  next
    case ReadInterrupted
    then have "read_response n (ev # evs) r = read_response n evs r"
      using Cons.prems(2) by (subst read_response.simps) (simp add: read_text_def)
    with ReadInterrupted Cons show ?thesis by (simp add: read_text_def good_read_def)
  next
    case ReadError
    with Cons.prems show ?thesis by (simp add: good_read_def)
  qed
qed

lemma write_request_all: "(\<And>k. 0 < wr k) \<Longrightarrow> write_request wr k n m"
proof (induction wr k n m rule: write_request.induct)
  case (1 wr k n m)
  have "\<not> wr k \<le> 0" using 1(2) [of k] by simp
  with 1 show ?case by (subst write_request.simps) simp
qed

lemma nat_value_range: "d < 16 \<Longrightarrow> 0x20 \<le> (of_char (hex_digit d) :: nat)"
  by (simp add: hex_digit_def)

lemma escape_printable: "c \<in> set (escape t) \<Longrightarrow> 0x20 \<le> (of_char c :: nat)"
proof -
  assume "c \<in> set (escape t)"
  then obtain b where "c \<in> set (escape_char b)" by (auto simp: escape_def)
  then show ?thesis
    by (auto simp: escape_char_def nat_value_range less_mult_imp_div_less not_less split: if_splits)
qed

lemma read_response_full: "n \<le> length r + 1 \<Longrightarrow> read_response n evs r = Some r"
  by (subst read_response.simps) simp

text \<open>Whatever the reads return, the answer that is parsed is a part of what was sent.\<close>

lemma read_response_part:
  "read_response n evs r = Some r' \<Longrightarrow> prefix r' (r @ concat (map read_text evs))"
proof (induction evs arbitrary: r)
  case Nil
  then show ?case by (subst (asm) read_response.simps) (auto split: if_splits)
next
  case (Cons ev evs)
  show ?case
  proof (cases "length r + 1 < n")
    case False
    then show ?thesis using Cons.prems by (subst (asm) read_response.simps) simp
  next
    case room: True
    show ?thesis
    proof (cases ev)
      case (ReadData d)
      let ?d = "take (n - length r - 1) d"
      have step: "(if ?d = [] then Some r else if CHR 0x0A \<in> set (r @ ?d) then Some (r @ ?d)
          else read_response n evs (r @ ?d)) = Some r'"
        using Cons.prems room ReadData by (subst (asm) read_response.simps) (simp only: read_event.case Let_def if_True list.case)
      moreover have "?d = d \<or> n \<le> length (r @ ?d) + 1" using room by auto
      ultimately consider "r' = r" | "r' = r @ ?d" | "?d = d" "read_response n evs (r @ d) = Some r'"
        by (metis option.inject read_response_full)
      then show ?thesis
      proof cases
        case 1
        then show ?thesis by simp
      next
        case 2
        have "prefix (r @ ?d) (r @ d @ concat (map read_text evs))"
          by (simp add: take_is_prefix prefix_prefix)
        moreover have "concat (map read_text (ev # evs)) = d @ concat (map read_text evs)"
          using ReadData by (simp add: read_text_def)
        ultimately show ?thesis by (simp only: 2)
      next
        case 3
        have "concat (map read_text (ev # evs)) = d @ concat (map read_text evs)"
          using ReadData by (simp add: read_text_def)
        with Cons.IH [OF 3(2)] show ?thesis by simp
      qed
    next
      case ReadInterrupted
      with Cons.prems room have "read_response n evs r = Some r'" by (subst (asm) read_response.simps) simp
      with Cons.IH ReadInterrupted show ?thesis by (simp add: read_text_def)
    next
      case ReadError
      with Cons.prems room show ?thesis by (subst (asm) read_response.simps) simp
    qed
  qed
qed

definition niri_identity :: "string \<Rightarrow> TypioWlIdentity" where
  "niri_identity app = \<lparr>wi_provider_name = Some ''niri'', wi_app_id = Some app, wi_stable_key = Some (''niri:'' @ app)\<rparr>"

text \<open>The reads return the whole answer, which fits into the buffer.\<close>

definition whole_answer :: "niri_io \<Rightarrow> string \<Rightarrow> bool" where
  "whole_answer io answer \<longleftrightarrow> ni_socket io \<and> ni_connect io \<and> (\<forall>k. 0 < ni_write io k) \<and> list_all good_read (ni_reads io) \<and>
     concat (map read_text (ni_reads io)) = answer @ [CHR 0x0A] \<and> length answer < 4094"

text \<open>
  C18. The focused application cannot be spoofed by a title: whatever part of the answer of the
  compositor arrives, cut into whatever reads, with errors, interruptions, too long for the buffer or
  ended early, and whatever the title of the window is, the identity is that of the application in the
  answer or none at all; and it is that of the application when the socket works, no read fails
  and the whole answer arrives and has less than 4094 bytes. (The application's name has no control
  character other than tabs and line breaks, and the answer is JSON on one line in the compositor's order
  of fields.)
\<close>

theorem focused_application_not_spoofed:
  assumes "if_provider fe = Some (identity_provider_new (Some path))"
    and "prefix (concat (map read_text (ni_reads io))) (window_answer n title app rest @ [CHR 0x0A])"
    and "list_all (\<lambda>c. 0x20 \<le> (of_char c :: nat)) rest" and "app \<noteq> []" and "list_all simple_char app"
  shows "if_identity (frontend_refresh_identity io fe) \<in> {niri_identity app, empty_identity} \<and>
    (whole_answer io (window_answer n title app rest) \<longrightarrow> path \<noteq> [] \<longrightarrow> length path < 108 \<longrightarrow>
       if_identity (frontend_refresh_identity io fe) = niri_identity app)"
proof -
  let ?a = "window_answer n title app rest" and ?q = "dquote # ''FocusedWindow'' @ [dquote, CHR 0x0A]"
  let ?r = "window_answer n title app (rest @ [CHR 0x0A])"
  have digits: "\<And>c. c \<in> set (show_nat n) \<Longrightarrow> 0x20 \<le> (of_char c :: nat)"
    using show_nat_digits [of n] by (auto simp: is_digit_def)
  have printable: "0x20 \<le> (of_char c :: nat)" if "c \<in> set ?a" for c
    using that assms(3) digits escape_printable
    by (auto simp: window_answer_def quoted_def list_all_iff split: option.splits)
  then have no: "CHR 0x0A \<notin> set ?a" "CHR 0x00 \<notin> set ?a" by (auto dest: printable)
  have cut: "?a @ [CHR 0x0A] = ?r" by (simp add: window_answer_def)
  have app_id: "json_find_string_value ?r ''app_id'' = Some app" by (rule find_app_id [OF assms(5)])
  have no_zero: "takeWhile (\<lambda>c. c \<noteq> CHR 0x00) r = r" if part: "prefix r ?r" for r
  proof -
    obtain t where "?a @ [CHR 0x0A] = r @ t" using part unfolding cut [symmetric] prefix_def by blast
    then have "set r \<subseteq> insert (CHR 0x0A) (set ?a)" by (metis Un_insert_right list.set sup_bot_right set_append sup_ge1)
    with no(2) show ?thesis unfolding takeWhile_eq_all_conv by auto
  qed
  have parsed: "parse_niri_focused_window r \<in> {(True, niri_identity app), (False, empty_identity)}" if part: "prefix r ?r" for r
  proof -
    obtain t where t: "?r = r @ t" using part by (auto simp: prefix_def)
    show ?thesis
    proof (cases "json_find_string_value r ''app_id''")
      case (Some v)
      then have "v = app" using find_part [OF Some, of t] app_id t by simp
      with Some show ?thesis using assms(4) by (simp add: parse_niri_focused_window_def niri_identity_def)
    qed (simp add: parse_niri_focused_window_def)
  qed
  have part: "prefix r ?r" if "niri_socket_request io p q m = Some r" for p q m r
    using that read_response_part [of m "ni_reads io" "[]"] assms(2) prefix_order.trans
    unfolding cut niri_socket_request_def by (fastforce split: if_splits option.splits)
  have query: "identity_provider_query_current io (if_provider fe) =
      (if path = [] then (False, empty_identity)
       else case niri_socket_request io path ?q 4096 of
         None \<Rightarrow> (False, empty_identity) | Some r \<Rightarrow> parse_niri_focused_window (takeWhile (\<lambda>c. c \<noteq> CHR 0x00) r))"
    unfolding assms(1)
    by (simp add: identity_provider_query_current_def identity_provider_new_def niri_identity_query_def)
  have refresh: "if_identity (frontend_refresh_identity io fe) =
      (case identity_provider_query_current io (if_provider fe) of (ok, i) \<Rightarrow> if ok then i else empty_identity)"
    using assms(1) by (simp add: frontend_refresh_identity_def frontend_clear_identity_def identity_clear_def split: prod.split)
  have "identity_provider_query_current io (if_provider fe) \<in> {(True, niri_identity app), (False, empty_identity)}"
  proof (cases "path = [] \<or> niri_socket_request io path ?q 4096 = None")
    case True
    then show ?thesis unfolding query by (auto split: option.split)
  next
    case False
    then obtain r where r: "niri_socket_request io path ?q 4096 = Some r" "path \<noteq> []" by auto
    from parsed [OF part [OF r(1)]] no_zero [OF part [OF r(1)]] show ?thesis
      unfolding query by (simp only: r if_False option.case)
  qed
  then have "if_identity (frontend_refresh_identity io fe) \<in> {niri_identity app, empty_identity}" unfolding refresh by auto
  moreover have "if_identity (frontend_refresh_identity io fe) = niri_identity app"
    if w: "whole_answer io ?a" "path \<noteq> []" "length path < 108"
  proof -
    have "read_response 4096 (ni_reads io) [] = Some ?r"
      using read_response_all [of "ni_reads io" "[]" 4096] w(1) no(1) by (simp add: whole_answer_def cut [symmetric])
    moreover have "?r \<noteq> []" unfolding cut [symmetric] by simp
    ultimately have "niri_socket_request io path ?q 4096 = Some ?r"
      using w write_request_all [of "ni_write io"] by (simp add: niri_socket_request_def whole_answer_def not_le)
    moreover have "parse_niri_focused_window ?r = (True, niri_identity app)"
      using app_id assms(4) by (simp add: parse_niri_focused_window_def niri_identity_def)
    moreover have "takeWhile (\<lambda>c. c \<noteq> CHR 0x00) ?r = ?r" by (rule no_zero) simp
    ultimately show ?thesis unfolding refresh query using w(2) by (simp only: if_False option.case prod.case if_True)
  qed
  ultimately show ?thesis by blast
qed

theorem focused_application_not_spoofed_witness:
  "\<exists>io fe. wi_app_id (if_identity (frontend_refresh_identity io (fe :: demo_world identity_frontend))) = Some ''foot'' \<and>
     ni_reads io = [ReadInterrupted, ReadData (window_answer 7 (Some (quoted ''app_id'' @ '':'' @ quoted ''evil'')) ''foot'' ''}}}'' @ [CHR 0x0A])]"
proof -
  let ?a = "window_answer 7 (Some (quoted ''app_id'' @ '':'' @ quoted ''evil'')) ''foot'' ''}}}''"
  let ?io = "\<lparr>ni_socket = True, ni_connect = True, ni_write = \<lambda>_. 1, ni_reads = [ReadInterrupted, ReadData (?a @ [CHR 0x0A])]\<rparr>"
  let ?fe = "\<lparr>if_instance = None, if_session_ctx = False, if_provider = Some (identity_provider_new (Some ''/n'')), if_identity = empty_identity\<rparr>
    :: demo_world identity_frontend"
  have "length ?a < 4094"
    by (simp add: window_answer_def quoted_def escape_def escape_char_def show_nat.simps)
  moreover have reads: "list_all good_read (ni_reads ?io)" "concat (map read_text (ni_reads ?io)) = ?a @ [CHR 0x0A]"
    "list_all (\<lambda>c. 0x20 \<le> (of_char c :: nat)) ''}}}''" "list_all simple_char ''foot''"
    by (simp_all add: good_read_def read_text_def simple_char_def plain_char_def)
  ultimately have "whole_answer ?io ?a" by (simp add: whole_answer_def)
  moreover have "if_provider ?fe = Some (identity_provider_new (Some ''/n''))"
    "prefix (concat (map read_text (ni_reads ?io))) (?a @ [CHR 0x0A])" "''foot'' \<noteq> []"
    using reads(2) by (simp_all only: prefix_order.refl identity_frontend.select_convs) simp_all
  ultimately have "if_identity (frontend_refresh_identity ?io ?fe) = niri_identity ''foot''"
    using focused_application_not_spoofed [of ?fe "''/n''" ?io 7 "Some (quoted ''app_id'' @ '':'' @ quoted ''evil'')" "''foot''" "''}}}''"]
      reads(3,4) by simp
  then show ?thesis by (intro exI [of _ ?io] exI [of _ ?fe]) (simp add: niri_identity_def)
qed

text \<open>
  A listener with a callback, registered once, hears every change: whatever else happens to the
  controller and its other listeners, it is called exactly once for each announced change, in order,
  and it stays registered.
\<close>

theorem listeners_hear_every_change:
  assumes "entries_of u c = [l]" and "sl_callback l" and "list_all (keeps_listener u) evs"
  shows "calls_to u (snd (run_controller evs c)) = concat (map announced evs) \<and> entries_of u (fst (run_controller evs c)) = [l]"
  by (rule run_calls [OF assms(3,1,2)])

theorem listeners_hear_every_change_witness:
  "\<exists>c. calls_to 1 (snd (run_controller [AddListener True \<lparr>sl_user_data = 2, sl_callback = False\<rparr>, ModeChanged None, RemoveListener 2,
     StatusIconChanged None] c)) = [CHANGE_MODE, CHANGE_STATUS_ICON]"
proof -
  let ?l = "\<lparr>sl_user_data = 1, sl_callback = True\<rparr>"
  let ?c = "state_add_listener True ?l (the (state_controller_new (True, True)))"
  have 1: "entries_of 1 ?c = [?l]" by (simp add: entries_of_def state_add_listener_def state_controller_new_def)
  have 2: "sl_callback ?l" by simp
  show ?thesis
    by (rule exI [of _ ?c], subst listeners_hear_every_change [OF 1 2, THEN conjunct1])
      (simp_all add: keeps_listener_def announced_def)
qed

text \<open>
  A full synchronisation brings the controller into the state that the notifications of the
  active engine, the voice engine and no mode would give; but it forgets the mode without announcing
  that, so a listener that reads the mode when the mode changes keeps the old one.
\<close>

theorem sync_equals_notifications:
  assumes "engine_described (active_of v)" and "engine_described (voice_of v)"
  shows "fst (state_controller_sync v c) =
      fst (run_controller
             [ModeChanged None, VoiceEngineChanged (engine_info (voice_of v)), EngineChanged v (engine_info (active_of v))] c) \<and>
     state_get_current_mode (fst (state_controller_sync v c)) = None \<and>
     CHANGE_MODE \<notin> set (calls_to u (snd (state_controller_sync v c)))"
proof (intro conjI)
  show "fst (state_controller_sync v c) =
      fst (run_controller
             [ModeChanged None, VoiceEngineChanged (engine_info (voice_of v)), EngineChanged v (engine_info (active_of v))] c)"
    by (rule sync_state [OF assms])
  show "state_get_current_mode (fst (state_controller_sync v c)) = None"
    by (simp add: controller_defs state_get_current_mode_def Let_def)
  show "CHANGE_MODE \<notin> set (calls_to u (snd (state_controller_sync v c)))"
    using sync_silent [of _ v c] by (auto simp: calls_to_def)
qed

theorem sync_equals_notifications_witness:
  "ct_engine_active (fst (state_controller_sync \<lparr>cv_manager = False, cv_active = None, cv_active_voice = None, cv_last_status_icon = None\<rparr>
     (the (state_controller_new (True, True))))) = False"
proof -
  let ?v = "\<lparr>cv_manager = False, cv_active = None, cv_active_voice = None, cv_last_status_icon = None\<rparr>"
  have "engine_described (active_of ?v)" "engine_described (voice_of ?v)"
    by (simp_all add: active_of_def voice_of_def engine_described_def)
  from sync_equals_notifications [OF this] show ?thesis
    by (simp add: controller_defs active_of_def Let_def)
qed

text \<open>Saving a file changes nothing else of the core.\<close>

definition files_apart :: "'w core_instance \<Rightarrow> 'w TypioDaemonApp \<Rightarrow> bool" where
  "files_apart ci app \<longleftrightarrow>
     (\<forall>c path w. ci_active ci (ci_save_file ci c path w) = ci_active ci w \<and>
        ci_get_mode ci (ci_save_file ci c path w) = ci_get_mode ci w \<and>
        core_active_name app (ci_save_file ci c path w) = core_active_name app w)"

lemma files_apart_step:
  assumes "files_apart ci app" and "memory_enabled ci"
  shows "ci_active ci (file_step ci x w) = ci_active ci w" and "ci_get_mode ci (file_step ci x w) = ci_get_mode ci w"
    and "core_active_name app (file_step ci x w) = core_active_name app w"
  using file_step_save [OF assms(2), of x w] assms(1) by (auto simp: files_apart_def)

lemma engine_change_remembers:
  "da_instance app = Some ci \<Longrightarrow> da_frontend app = Some fe \<Longrightarrow> core_active_name app w = Some name \<Longrightarrow>
     fst (on_engine_change info w app) = remember_active_engine fe name w"
  by (auto simp: on_engine_change_def tell_controller_def core_active_name_def Let_def case_prod_beta split: option.split)

lemma mode_change_remembers:
  "da_instance app = Some ci \<Longrightarrow> da_frontend app = Some fe \<Longrightarrow> core_active_name app w = Some name \<Longrightarrow>
     filled (em_mode_id m) \<Longrightarrow> fst (on_mode_change (Some m) w app) = remember_active_mode fe name (em_mode_id m) w"
  by (simp add: on_mode_change_def Let_def)

text \<open>
  Restoring the engine of an application loses its mode. When the engine that is restored is
  not the active one, the core reports the mode of the engine it switches to, and the daemon
  remembers that mode for the application before the remembered mode is loaded: afterwards the
  memory holds the reported mode, and the remembered one was not set.
\<close>

theorem restore_forgets_mode:
  assumes "memory_enabled ci" and "keeps_file ci" and "files_apart ci app"
    and "da_instance app = Some ci" and "da_frontend app = Some (app_frontend ci k)" and "k \<noteq> []"
    and "file_holds ci c w" and "config_ok c" and "memory_of c k = (Some e, Some (e, m))"
    and "ci_manager ci" and "ci_active ci w = Some a" and "ae_name a \<noteq> Some e"
    and "em_mode_id mode = Some m'" and "m' \<noteq> []" and "list_all name_char m'" and "m' \<noteq> m"
    and "file_holds ci c w1" and "core_active_name app w1 = Some (Some e)" and "ci_get_mode ci w1 = Some mode"
    and "ci_active ci w1 = Some \<lparr>ae_name = Some e, ae_keyboard = True, ae_has_get_mode = True, ae_has_set_mode = True\<rparr>"
    and "ci_set_active ci e w = (TYPIO_OK, fst (on_engine_change info (fst (on_mode_change (Some mode) w1 app)) app))"
  shows "identity_memory_load_mode (Some ci) (app_identity k) w = Some (e, m) \<and>
     identity_memory_load_mode (Some ci) (app_identity k) (restore_identity_engine (app_frontend ci k) w) = Some (e, m') \<and>
     ci_get_mode ci (restore_identity_engine (app_frontend ci k) w) = Some mode"
proof -
  let ?fe = "app_frontend ci k" and ?mode_op = "RememberMode k e m'" and ?engine_op = "RememberEngine k e"
  let ?w2 = "file_step ci ?engine_op (file_step ci ?mode_op w1)"
  let ?c2 = "config_step ?engine_op (config_step ?mode_op c)"
  have e: "e \<noteq> []" "list_all name_char e"
    using assms(8,9) by (auto simp: config_ok_def memory_of_def split: option.splits)
  have plain: "plain_op ?mode_op" "plain_op ?engine_op" using e assms(15) by (simp_all add: plain_op_def)
  note load = load_from_file [OF assms(1) _ _ assms(6)]
  have before: "identity_memory_load_mode (Some ci) (app_identity k) w = Some (e, m)" using load(2) [OF assms(7,8)] assms(9) by simp
  have mode_changed: "fst (on_mode_change (Some mode) w1 app) = file_step ci ?mode_op w1"
    using mode_change_remembers [OF assms(4,5,18), of mode] assms(13,14) by (simp add: filled_def file_step_def)
  have "core_active_name app (file_step ci ?mode_op w1) = Some (Some e)"
    using files_apart_step [OF assms(3,1)] assms(18) by simp
  then have "ci_set_active ci e w = (TYPIO_OK, ?w2)"
    using assms(4,5,21) engine_change_remembers [of app ci ?fe "file_step ci ?mode_op w1" "Some e" info]
    by (simp add: mode_changed file_step_def)
  moreover have held: "file_holds ci (config_step ?mode_op c) (file_step ci ?mode_op w1)" "config_ok (config_step ?mode_op c)"
    by (rule file_step_holds [OF assms(1,2,17,8) plain(1)], rule config_step_ok [OF assms(8) plain(1)])
  have held2: "file_holds ci ?c2 ?w2" "config_ok ?c2"
    by (rule file_step_holds [OF assms(1,2) held plain(2)], rule config_step_ok [OF held(2) plain(2)])
  have memory: "memory_of ?c2 k = (Some e, Some (e, m'))"
    using e assms(6,14) by (simp add: config_step_memory [OF held(2)] config_step_memory [OF assms(8)] memory_step_def)
  have loaded: "identity_memory_load_mode (Some ci) (app_identity k) ?w2 = Some (e, m')" using load(2) [OF held2] memory by simp
  have "identity_restore_mode ?fe ?w2 = ?w2"
    using loaded assms(10,13,19,20) files_apart_step [OF assms(3,1)]
    by (simp add: identity_restore_mode_def app_frontend_def)
  moreover have "identity_memory_load_engine (Some ci) (app_identity k) w = Some e" using load(1) [OF assms(7,8)] assms(9) by simp
  ultimately have final: "restore_identity_engine ?fe w = ?w2"
    using assms(1,10,11,12) e(1) by (simp add: restore_identity_engine_def app_frontend_def memory_enabled_def)
  show ?thesis
    unfolding final using before loaded files_apart_step [OF assms(3,1)] assms(19) by simp
qed

definition demo_app :: "string \<Rightarrow> demo_world TypioDaemonApp" where
  "demo_app k = \<lparr>
     da_instance = Some (demo_core k),
     da_view = (\<lambda>w. \<lparr>cv_manager = True,
        cv_active = Some \<lparr>ce_name = Some (fst (snd w)), ce_info = None, ce_config_path = None, ce_active = True\<rparr>,
        cv_active_voice = None, cv_last_status_icon = None\<rparr>),
     da_controller = None, da_frontend = Some (app_frontend (demo_core k) k),
     da_tray = False, da_ipc_bus = False, da_status_bus = False, da_restart_requested = False\<rparr>"

lemma demo_active: "core_active_name (demo_app k) w = Some (Some (fst (snd w)))"
  by (simp add: core_active_name_def demo_app_def active_of_def)

lemma demo_file_step:
  assumes "case x of RememberEngine k e \<Rightarrow> k \<noteq> [] \<and> e \<noteq> [] | RememberMode k e m \<Rightarrow> k \<noteq> [] \<and> e \<noteq> [] \<and> m \<noteq> []"
  shows "file_step (demo_core k') x w = (Some (config_step x (stored w)), snd w)"
  using assms
  by (cases x; cases "fst w")
    (simp_all add: file_step_def remember_active_engine_def remember_active_mode_def app_frontend_def demo_core_def
      identity_memory_store_engine_def identity_memory_store_mode_def identity_preferences_enabled_def identity_state_path_def
      load_config_def save_config_def stored_def config_step_def typio_config_new_def typio_config_set_string_def
      typio_config_remove_def Let_def cong: if_cong)

theorem restore_forgets_mode_witness:
  "\<exists>w. identity_memory_load_mode (Some (demo_core ''foot'')) (app_identity ''foot'') w = Some (''rime'', ''ascii'') \<and>
     identity_memory_load_mode (Some (demo_core ''foot'')) (app_identity ''foot'')
       (restore_identity_engine (app_frontend (demo_core ''foot'') ''foot'') w) = Some (''rime'', ''chinese'')"
proof -
  let ?ci = "demo_core ''foot''" and ?app = "demo_app ''foot''"
  let ?c = "config_step (RememberMode ''foot'' ''rime'' ''ascii'') (config_step (RememberEngine ''foot'' ''rime'') (\<lambda>_. None))"
  let ?w = "(Some ?c, ''basic'', ''latin'')" and ?w1 = "(Some ?c, ''rime'', ''chinese'')"
  have plain: "plain_op (RememberMode ''foot'' ''rime'' ''ascii'')" "plain_op (RememberEngine ''foot'' ''rime'')"
    "list_all name_char ''chinese''"
    by (simp_all add: plain_op_def name_char_def plain_char_def)
  have empty: "config_ok (\<lambda>_. None)" by (simp add: config_ok_def)
  have ok: "config_ok ?c" by (intro config_step_ok plain empty)
  have memory: "memory_of ?c ''foot'' = (Some ''rime'', Some (''rime'', ''ascii''))"
    unfolding config_step_memory [OF config_step_ok [OF empty plain(2)]] config_step_memory [OF empty]
    by (simp add: memory_step_def memory_of_def)
  have holds: "file_holds ?ci ?c ?w" "file_holds ?ci ?c ?w1"
    by (simp_all add: file_holds_def load_config_def demo_core_def)
  have app: "da_instance ?app = Some ?ci" "da_frontend ?app = Some (app_frontend ?ci ''foot'')" by (simp_all add: demo_app_def)
  have "fst (on_mode_change (Some (demo_mode ''chinese'')) ?w1 ?app) = file_step ?ci (RememberMode ''foot'' ''rime'' ''chinese'') ?w1"
    using mode_change_remembers [of ?app ?ci "app_frontend ?ci ''foot''" ?w1 "Some ''rime''" "demo_mode ''chinese''"]
    by (simp add: demo_active app demo_mode_def filled_def file_step_def)
  also have "\<dots> = (Some (config_step (RememberMode ''foot'' ''rime'' ''chinese'') ?c), ''rime'', ''chinese'')"
    by (subst demo_file_step) (simp_all add: stored_def)
  finally have mode: "fst (on_mode_change (Some (demo_mode ''chinese'')) ?w1 ?app) = \<dots>" .
  have "fst (on_engine_change None (fst (on_mode_change (Some (demo_mode ''chinese'')) ?w1 ?app)) ?app) =
      file_step ?ci (RememberEngine ''foot'' ''rime'') (Some (config_step (RememberMode ''foot'' ''rime'' ''chinese'') ?c), ''rime'', ''chinese'')"
    unfolding mode file_step_def memory_op.case
    by (rule engine_change_remembers [of _ ?ci]) (simp_all add: demo_active app)
  also have "\<dots> = snd (ci_set_active ?ci ''rime'' ?w)"
    by (subst demo_file_step) (simp_all add: stored_def demo_core_def)
  finally have set: "ci_set_active ?ci ''rime'' ?w =
      (TYPIO_OK, fst (on_engine_change None (fst (on_mode_change (Some (demo_mode ''chinese'')) ?w1 ?app)) ?app))"
    by (simp add: demo_core_def)
  have apart: "files_apart ?ci ?app" unfolding files_apart_def demo_active by (simp add: demo_core_def)
  have core: "ci_manager ?ci"
    "ci_active ?ci ?w = Some \<lparr>ae_name = Some ''basic'', ae_keyboard = True, ae_has_get_mode = True, ae_has_set_mode = True\<rparr>"
    "ci_active ?ci ?w1 = Some \<lparr>ae_name = Some ''rime'', ae_keyboard = True, ae_has_get_mode = True, ae_has_set_mode = True\<rparr>"
    "ci_get_mode ?ci ?w1 = Some (demo_mode ''chinese'')"
    by (simp_all add: demo_core_def)
  have name: "em_mode_id (demo_mode ''chinese'') = Some ''chinese''" by (simp add: demo_mode_def)
  have active: "core_active_name ?app ?w1 = Some (Some ''rime'')" by (simp add: demo_active)
  note forget = restore_forgets_mode [OF demo_core_facts apart app _ holds(1) ok memory core(1,2) _ name _ plain(3) _ holds(2) active
      core(4,3) set]
  have "identity_memory_load_mode (Some ?ci) (app_identity ''foot'') ?w = Some (''rime'', ''ascii'') \<and>
      identity_memory_load_mode (Some ?ci) (app_identity ''foot'') (restore_identity_engine (app_frontend ?ci ''foot'') ?w) =
        Some (''rime'', ''chinese'') \<and>
      ci_get_mode ?ci (restore_identity_engine (app_frontend ?ci ''foot'') ?w) = Some (demo_mode ''chinese'')"
    by (rule forget) simp_all
  then show ?thesis by blast
qed

end
