(* ===== verification/Path_Expand.thy ===== *)
theory Path_Expand
  imports C_Strings
begin

section \<open>Paths in the configuration of the Rime engine\<close>

text \<open>
  Expansion of the home directory and of environment variables
  (\<^verbatim>\<open>engines/rime/path_expand.c\<close>). The environment is a function; the result buffer always
  grows. A position in the path is the text that remains.
\<close>

definition is_var_start :: "char \<Rightarrow> bool" where
  "is_var_start c \<longleftrightarrow> is_alpha c \<or> c = CHR ''_''"

definition is_var_char :: "char \<Rightarrow> bool" where
  "is_var_char c \<longleftrightarrow> is_alnum c \<or> c = CHR ''_''"

text \<open>A variable that is set to a text, else the token itself.\<close>

definition expand_variable :: "(string \<Rightarrow> string option) \<Rightarrow> string \<Rightarrow> string \<Rightarrow> string" where
  "expand_variable env name token = (case env name of
       Some v \<Rightarrow> if v \<noteq> [] then v else token
     | None \<Rightarrow> token)"

function expand_loop :: "(string \<Rightarrow> string option) \<Rightarrow> string \<Rightarrow> string" where
  "expand_loop env path = (case path of
       [] \<Rightarrow> []
     | c # s \<Rightarrow>
         if c \<noteq> CHR ''$'' then c # expand_loop env s
         else (case s of
                 [] \<Rightarrow> c # expand_loop env s
               | d # t \<Rightarrow>
                   if d = CHR ''{''
                   then let name = takeWhile (\<lambda>x. x \<noteq> CHR ''}'') t;
                            rest = dropWhile (\<lambda>x. x \<noteq> CHR ''}'') t
                        in if rest \<noteq> []
                           then expand_variable env name (c # d # name @ ''}'') @ expand_loop env (tl rest)
                           else c # expand_loop env s
                   else if is_var_start d
                   then let name = takeWhile is_var_char s;
                            rest = dropWhile is_var_char s
                        in expand_variable env name (c # name) @ expand_loop env rest
                   else c # expand_loop env s))"
  by pat_completeness auto
termination
proof (relation "measure (\<lambda>(env, path). length path)", goal_cases)
  case 1
  show ?case by simp
next
  case 2
  then show ?case by simp
next
  case 3
  then show ?case by simp
next
  case (4 env path c s d t name rest)
  have "length (dropWhile (\<lambda>x. x \<noteq> CHR ''}'') t) \<le> length t" by (rule length_dropWhile_le)
  with 4 show ?case by simp
next
  case 5
  then show ?case by simp
next
  case (6 env path c s d t name rest)
  have "length (dropWhile is_var_char s) \<le> length s" by (rule length_dropWhile_le)
  with 6 show ?case by simp
next
  case 7
  then show ?case by simp
qed

declare expand_loop.simps [simp del]

definition rime_expand_path :: "(string \<Rightarrow> string option) \<Rightarrow> string option \<Rightarrow> string option" where
  "rime_expand_path env path = (case path of
       None \<Rightarrow> None
     | Some p \<Rightarrow>
         let home = (if starts_with ''~/'' p \<or> p = ''~'' then env ''HOME'' else None);
             expanded = (case home of
                           Some h \<Rightarrow> if h \<noteq> [] then h @ expand_loop env (tl p) else expand_loop env p
                         | None \<Rightarrow> expand_loop env p)
         in if expanded = [] then Some p else Some expanded)"

subsection \<open>Expansion by pieces\<close>

text \<open>
  A path is a sequence of pieces: characters and variables, each with its spelling. Expanding is
  replacing each variable that is set, once.
\<close>

datatype path_piece = Literal char | Variable string string

function pieces :: "string \<Rightarrow> path_piece list" where
  "pieces path = (case path of
       [] \<Rightarrow> []
     | c # s \<Rightarrow>
         if c \<noteq> CHR ''$'' then Literal c # pieces s
         else if s \<noteq> [] \<and> hd s = CHR ''{'' \<and> CHR ''}'' \<in> set (tl s)
         then let name = takeWhile (\<lambda>x. x \<noteq> CHR ''}'') (tl s)
              in Variable name (''${'' @ name @ ''}'') # pieces (tl (dropWhile (\<lambda>x. x \<noteq> CHR ''}'') (tl s)))
         else if s \<noteq> [] \<and> hd s \<noteq> CHR ''{'' \<and> is_var_start (hd s)
         then Variable (takeWhile is_var_char s) (CHR ''$'' # takeWhile is_var_char s) # pieces (dropWhile is_var_char s)
         else Literal c # pieces s)"
  by pat_completeness auto
termination
proof (relation "measure length", goal_cases)
  case 1
  show ?case by simp
next
  case 2
  then show ?case by simp
next
  case (3 path c s name)
  have "length (dropWhile (\<lambda>x. x \<noteq> CHR ''}'') (tl s)) \<le> length (tl s)" by (rule length_dropWhile_le)
  moreover have "length (tl s) < length s" using 3 by (cases s) simp_all
  ultimately show ?case using 3 by simp
next
  case (4 path c s)
  have "length (dropWhile is_var_char s) \<le> length s" by (rule length_dropWhile_le)
  with 4 show ?case by simp
next
  case 5
  then show ?case by simp
qed

declare pieces.simps [simp del]

primrec piece_text :: "path_piece \<Rightarrow> string" where
  "piece_text (Literal c) = [c]"
| "piece_text (Variable name token) = token"

primrec piece_value :: "(string \<Rightarrow> string option) \<Rightarrow> path_piece \<Rightarrow> string" where
  "piece_value env (Literal c) = [c]"
| "piece_value env (Variable name token) = expand_variable env name token"

lemma dropWhile_brace: "CHR ''}'' \<in> set t \<longleftrightarrow> dropWhile (\<lambda>x. x \<noteq> CHR ''}'') t \<noteq> []"
  by (auto simp: dropWhile_eq_Nil_conv)

lemma brace_split:
  "CHR ''}'' \<in> set t \<Longrightarrow>
     takeWhile (\<lambda>x. x \<noteq> CHR ''}'') t @ CHR ''}'' # tl (dropWhile (\<lambda>x. x \<noteq> CHR ''}'') t) = t"
proof -
  assume "CHR ''}'' \<in> set t"
  then obtain x r where r: "dropWhile (\<lambda>x. x \<noteq> CHR ''}'') t = x # r" using dropWhile_brace by (metis list.exhaust)
  then have "x = CHR ''}''" using hd_dropWhile [of "\<lambda>x. x \<noteq> CHR ''}''" t] by simp
  then show ?thesis using takeWhile_dropWhile_id [of "\<lambda>x. x \<noteq> CHR ''}''" t] r by simp
qed

lemma expand_pieces: "expand_loop env path = concat (map (piece_value env) (pieces path))"
proof (induction path rule: pieces.induct)
  case (1 path)
  show ?case
  proof (cases path)
    case Nil
    then show ?thesis by (simp add: expand_loop.simps [of _ "[]"] pieces.simps [of "[]"])
  next
    case (Cons c s)
    note IH = 1 [OF Cons]
    consider "c \<noteq> CHR ''$''" | "c = CHR ''$''" "s = []"
      | d t where "c = CHR ''$''" "s = d # t" "d = CHR ''{''" "CHR ''}'' \<in> set t"
      | d t where "c = CHR ''$''" "s = d # t" "d = CHR ''{''" "CHR ''}'' \<notin> set t"
      | d t where "c = CHR ''$''" "s = d # t" "d \<noteq> CHR ''{''" "is_var_start d"
      | d t where "c = CHR ''$''" "s = d # t" "d \<noteq> CHR ''{''" "\<not> is_var_start d"
      by (cases s) blast+
    then show ?thesis
    proof cases
      case 1
      show ?thesis
        unfolding Cons by (subst expand_loop.simps, subst pieces.simps) (use IH(1) 1 in \<open>simp add: Let_def\<close>)
    next
      case 2
      show ?thesis
        unfolding Cons by (subst expand_loop.simps, subst pieces.simps) (use IH(4) 2 in \<open>simp add: Let_def\<close>)
    next
      case 3
      show ?thesis
        unfolding Cons by (subst expand_loop.simps, subst pieces.simps) (use IH(2) [of "takeWhile (\<lambda>x. x \<noteq> CHR ''}'') t"] 3 in \<open>simp add: Let_def\<close>)
    next
      case 4
      show ?thesis
        unfolding Cons by (subst expand_loop.simps, subst pieces.simps) (use IH(4) 4 in \<open>simp add: Let_def\<close>)
    next
      case 5
      show ?thesis
        unfolding Cons by (subst expand_loop.simps, subst pieces.simps) (use IH(3) 5 in \<open>simp add: Let_def\<close>)
    next
      case 6
      show ?thesis
        unfolding Cons by (subst expand_loop.simps, subst pieces.simps) (use IH(4) 6 in \<open>simp add: Let_def\<close>)
    qed
  qed
qed

lemma pieces_text: "concat (map piece_text (pieces path)) = path"
proof (induction path rule: pieces.induct)
  case (1 path)
  show ?case
  proof (cases path)
    case Nil
    then show ?thesis by (simp add: pieces.simps [of "[]"])
  next
    case (Cons c s)
    note IH = 1 [OF Cons]
    show ?thesis
    proof (cases "c = CHR ''$'' \<and> s \<noteq> [] \<and> hd s = CHR ''{'' \<and> CHR ''}'' \<in> set (tl s)")
      case True
      then obtain t where t: "s = CHR ''{'' # t" "CHR ''}'' \<in> set t" by (cases s) auto
      show ?thesis
        unfolding Cons by (subst pieces.simps)
          (use True t IH(2) [of "takeWhile (\<lambda>x. x \<noteq> CHR ''}'') t"] brace_split [OF t(2)] in \<open>simp add: Let_def\<close>)
    next
      case False
      then show ?thesis unfolding Cons using IH(1,3,4) by (subst pieces.simps) (auto simp: Let_def)
    qed
  qed
qed

text \<open>So nothing but variables that are set is changed.\<close>

lemma expand_unset: "(\<And>name token. Variable name token \<in> set (pieces path) \<Longrightarrow> env name = None \<or> env name = Some []) \<Longrightarrow>
    expand_loop env path = path"
proof -
  assume unset: "\<And>name token. Variable name token \<in> set (pieces path) \<Longrightarrow> env name = None \<or> env name = Some []"
  have "piece_value env p = piece_text p" if "p \<in> set (pieces path)" for p
  proof (cases p)
    case (Variable name token)
    with that unset [of name token] show ?thesis by (auto simp: expand_variable_def)
  qed simp
  then have "map (piece_value env) (pieces path) = map piece_text (pieces path)" by simp
  then show ?thesis by (simp only: expand_pieces pieces_text)
qed

end
