(* ===== verification/Rime_Engine.thy ===== *)
theory Rime_Engine
  imports Path_Expand State_Controller Basic_Engine
begin

section \<open>The Rime engine\<close>

text \<open>
  The adapter over librime (\<^verbatim>\<open>engines/rime\<close>): configuration, deployment, sessions, modes,
  synchronisation and keys. Librime is a record of its operations on a state; an operation that can
  raise notifications returns them, and they are handled before it returns. The input context is
  the number of its preedit segments and candidates and the requests made to it; the instance of
  the engine is set, allocations succeed, and times and logs are left out.
\<close>

subsection \<open>State\<close>

record TypioRimeConfig =
  rc_schema :: string
  rc_shared_data_dir :: string
  rc_user_data_dir :: string

record TypioRimeState =
  rs_config :: TypioRimeConfig
  rs_initialized :: bool
  rs_maintenance_done :: bool
  rs_deploy_id :: u32
  rs_ascii_mode :: bool
  rs_ascii_mode_known :: bool

record TypioRimeSession =
  rn_session_id :: nat
  rn_ascii_mode_known :: bool
  rn_ascii_mode :: bool
  rn_deploy_id :: u32

text \<open>The context of a librime session: its preedit and its page of candidates.\<close>

record rime_context =
  cx_preedit :: "string option"
  cx_cursor_pos :: int
  cx_candidates :: "(string option \<times> string option) list" \<comment> \<open>text and comment\<close>
  cx_select_labels :: "(nat \<Rightarrow> string option) option"
  cx_select_keys :: "string option"
  cx_page_no :: int
  cx_page_size :: int
  cx_is_last_page :: bool
  cx_highlighted :: int

record TypioComposition =
  cp_segment :: "string option"
  cp_cursor_pos :: int
  cp_candidates :: "TypioCandidate list"
  cp_page :: int
  cp_page_size :: int
  cp_total :: int
  cp_selected :: int
  cp_has_prev :: bool
  cp_has_next :: bool

datatype rime_request = RimeCommit string | RimeComposition TypioComposition | RimeClear | RimeNotifyMode TypioEngineMode

type_synonym rime_note = "string \<times> string" \<comment> \<open>type and value\<close>

record 'r rime_api =
  ra_setup :: "'r \<Rightarrow> 'r \<times> rime_note list" \<comment> \<open>set-up, registration of the handler, initialisation\<close>
  ra_finalize :: "'r \<Rightarrow> 'r"
  ra_find_session :: "nat \<Rightarrow> 'r \<Rightarrow> bool"
  ra_create_session :: "'r \<Rightarrow> nat \<times> 'r"
  ra_destroy_session :: "nat \<Rightarrow> 'r \<Rightarrow> 'r"
  ra_select_schema :: "nat \<Rightarrow> string \<Rightarrow> 'r \<Rightarrow> bool \<times> 'r \<times> rime_note list"
  ra_process_key :: "nat \<Rightarrow> u32 \<Rightarrow> u32 \<Rightarrow> 'r \<Rightarrow> bool \<times> 'r \<times> rime_note list"
  ra_get_ascii :: "nat \<Rightarrow> 'r \<Rightarrow> bool" \<comment> \<open>the option \<^verbatim>\<open>ascii_mode\<close>\<close>
  ra_set_ascii :: "nat \<Rightarrow> bool \<Rightarrow> 'r \<Rightarrow> 'r \<times> rime_note list"
  ra_clear_composition :: "nat \<Rightarrow> 'r \<Rightarrow> 'r"
  ra_get_commit :: "nat \<Rightarrow> 'r \<Rightarrow> string option option \<times> 'r"
  ra_get_context :: "nat \<Rightarrow> 'r \<Rightarrow> rime_context option"
  ra_start_maintenance :: "bool \<Rightarrow> 'r \<Rightarrow> bool \<times> 'r \<times> rime_note list"
  ra_is_maintenance_mode :: "'r \<Rightarrow> bool"
  ra_join_maintenance :: "'r \<Rightarrow> 'r \<times> rime_note list"
  ra_sync_deploy :: bool \<comment> \<open>the environment variable \<^verbatim>\<open>TYPIO_RIME_SYNC_DEPLOY\<close> is 1\<close>
  ra_yaml_exists :: "string \<Rightarrow> 'r \<Rightarrow> bool" \<comment> \<open>\<^verbatim>\<open>build/default.yaml\<close> below a directory\<close>
  ra_list_build :: "string \<Rightarrow> 'r \<Rightarrow> string list option" \<comment> \<open>the entries of its build directory\<close>
  ra_unlink_build :: "string \<Rightarrow> string \<Rightarrow> 'r \<Rightarrow> 'r"

record 'r rime_world =
  rw_state :: "TypioRimeState option"
  rw_session :: "TypioRimeSession option" \<comment> \<open>the property of the context\<close>
  rw_lib :: 'r
  rw_preedit :: nat
  rw_candidates :: nat
  rw_out :: "rime_request list"

definition rime_emit :: "rime_request \<Rightarrow> 'r rime_world \<Rightarrow> 'r rime_world" where
  "rime_emit x w = w\<lparr>rw_out := rw_out w @ [x]\<rparr>"

definition upd_state :: "(TypioRimeState \<Rightarrow> TypioRimeState) \<Rightarrow> 'r rime_world \<Rightarrow> 'r rime_world" where
  "upd_state f w = w\<lparr>rw_state := map_option f (rw_state w)\<rparr>"

text \<open>The calls to the input context.\<close>

definition rime_clear_state :: "'r rime_world \<Rightarrow> 'r rime_world" where
  "rime_clear_state w = rime_emit RimeClear (w\<lparr>rw_preedit := 0, rw_candidates := 0\<rparr>)"

definition context_commit :: "string \<Rightarrow> 'r rime_world \<Rightarrow> 'r rime_world" where
  "context_commit t w = rime_emit (RimeCommit t) (w\<lparr>rw_preedit := 0, rw_candidates := 0\<rparr>)"

definition context_set_composition :: "TypioComposition \<Rightarrow> 'r rime_world \<Rightarrow> 'r rime_world" where
  "context_set_composition cmp w =
     rime_emit (RimeComposition cmp)
       (w\<lparr>rw_preedit := (if cp_segment cmp = None then 0 else 1), rw_candidates := length (cp_candidates cmp)\<rparr>)"

subsection \<open>Modes (\<^verbatim>\<open>rime_mode.c\<close>)\<close>

text \<open>The label of the Chinese mode is one character of three bytes.\<close>

definition rime_mode_chinese :: TypioEngineMode where
  "rime_mode_chinese = \<lparr>em_class = MODE_CLASS_NATIVE, em_mode_id = Some ''chinese'',
     em_display_label = Some [CHR 0xE4, CHR 0xB8, CHR 0xAD], em_icon_name = Some ''typio-rime''\<rparr>"

definition rime_mode_latin :: TypioEngineMode where
  "rime_mode_latin = \<lparr>em_class = MODE_CLASS_LATIN, em_mode_id = Some ''ascii'', em_display_label = Some ''A'',
     em_icon_name = Some ''typio-rime-latin''\<rparr>"

definition rime_mode_for_ascii :: "bool \<Rightarrow> TypioEngineMode" where
  "rime_mode_for_ascii ascii_mode = (if ascii_mode then rime_mode_latin else rime_mode_chinese)"

text \<open>The session is the one of the context when it is set, so its fields are updated there.\<close>

definition note_session_mode :: "bool \<Rightarrow> TypioRimeSession \<Rightarrow> TypioRimeSession" where
  "note_session_mode ascii_mode s = s\<lparr>rn_ascii_mode_known := True, rn_ascii_mode := ascii_mode\<rparr>"

definition rime_notify_mode :: "bool \<Rightarrow> 'r rime_world \<Rightarrow> 'r rime_world" where
  "rime_notify_mode ascii_mode w =
     (case rw_session w of
        None \<Rightarrow> w
      | Some s \<Rightarrow> rime_emit (RimeNotifyMode (rime_mode_for_ascii ascii_mode)) (w\<lparr>rw_session := Some (note_session_mode ascii_mode s)\<rparr>))"

definition rime_refresh_mode :: "'r rime_api \<Rightarrow> 'r rime_world \<Rightarrow> 'r rime_world" where
  "rime_refresh_mode api w = (case rw_session w of
       None \<Rightarrow> w
     | Some s \<Rightarrow> rime_notify_mode (ra_get_ascii api (rn_session_id s) (rw_lib w)) w)"

subsection \<open>Notifications of librime (\<^verbatim>\<open>rime_engine.c\<close>)\<close>

definition rime_notification :: "rime_note \<Rightarrow> 'r rime_world \<Rightarrow> 'r rime_world" where
  "rime_notification note w = (case note of (message_type, message_value) \<Rightarrow>
     if message_type = ''deploy''
     then if message_value = ''success'' then upd_state (\<lambda>st. st\<lparr>rs_maintenance_done := True\<rparr>) w else w
     else if message_type = ''option''
     then if message_value = ''ascii_mode'' \<or> message_value = ''!ascii_mode''
          then let ascii_mode = (message_value = ''ascii_mode'')
               in rime_emit (RimeNotifyMode (rime_mode_for_ascii ascii_mode))
                    (upd_state (\<lambda>st. st\<lparr>rs_ascii_mode := ascii_mode, rs_ascii_mode_known := True\<rparr>) w)
          else w
     else w)"

definition rime_notes :: "rime_note list \<Rightarrow> 'r rime_world \<Rightarrow> 'r rime_world" where
  "rime_notes notes w = fold rime_notification notes w"

subsection \<open>Configuration (\<^verbatim>\<open>rime_config.c\<close>)\<close>

text \<open>
  \<open>schema\<close>: the schema the instance has stored; \<open>config\<close>: the section of the engine, when there
  is one. The shared directory is the one of the default build.
\<close>

definition rime_load_config ::
    "(string \<Rightarrow> string option) \<Rightarrow> string \<Rightarrow> string option \<Rightarrow> config option \<Rightarrow> TypioRimeConfig" where
  "rime_load_config env default_user_dir schema config =
     (let c = \<lparr>rc_schema = [], rc_shared_data_dir = ''/usr/share/rime-data'', rc_user_data_dir = default_user_dir\<rparr>;
          c = (if filled schema then c\<lparr>rc_schema := or_empty schema\<rparr> else c)
      in case config of
           None \<Rightarrow> c
         | Some cfg \<Rightarrow>
             let shared = typio_config_get_string cfg ''shared_data_dir'' None;
                 user = typio_config_get_string cfg ''user_data_dir'' None;
                 c = (if filled shared then c\<lparr>rc_shared_data_dir := or_empty (rime_expand_path env shared)\<rparr> else c)
             in if filled user then c\<lparr>rc_user_data_dir := or_empty (rime_expand_path env user)\<rparr> else c)"

subsection \<open>Deployment (\<^verbatim>\<open>rime_deploy.c\<close>)\<close>

text \<open>The text from the last dot on is the suffix.\<close>

definition rime_has_yaml_suffix :: "string \<Rightarrow> bool" where
  "rime_has_yaml_suffix name \<longleftrightarrow>
     CHR ''.'' \<in> set name \<and> rev (takeWhile (\<lambda>c. c \<noteq> CHR ''.'') (rev name)) = ''yaml''"

definition rime_invalidate_generated_yaml :: "'r rime_api \<Rightarrow> TypioRimeState \<Rightarrow> 'r \<Rightarrow> 'r" where
  "rime_invalidate_generated_yaml api st lib =
     (let dir = rc_user_data_dir (rs_config st)
      in case ra_list_build api dir lib of
           None \<Rightarrow> lib
         | Some entries \<Rightarrow>
             fold (\<lambda>name lib. if name = ''.'' \<or> name = ''..'' then lib
                              else if \<not> rime_has_yaml_suffix name then lib
                              else ra_unlink_build api dir name lib) entries lib)"

definition rime_run_maintenance :: "'r rime_api \<Rightarrow> bool \<Rightarrow> 'r rime_world \<Rightarrow> bool \<times> 'r rime_world" where
  "rime_run_maintenance api full_check w =
     (let w = upd_state (\<lambda>st. st\<lparr>rs_deploy_id := rs_deploy_id st + 1\<rparr>) w
      in case ra_start_maintenance api full_check (rw_lib w) of
           (ok, lib, notes) \<Rightarrow>
             let w = rime_notes notes (w\<lparr>rw_lib := lib\<rparr>)
             in if \<not> ok then (False, w)
                else if ra_sync_deploy api
                then (case ra_join_maintenance api (rw_lib w) of
                        (lib, notes) \<Rightarrow>
                          (True, upd_state (\<lambda>st. st\<lparr>rs_maintenance_done := True\<rparr>) (rime_notes notes (w\<lparr>rw_lib := lib\<rparr>))))
                else (True, upd_state (\<lambda>st. st\<lparr>rs_maintenance_done := False\<rparr>) w))"

definition rime_is_maintaining :: "'r rime_api \<Rightarrow> 'r rime_world \<Rightarrow> bool" where
  "rime_is_maintaining api w \<longleftrightarrow> rw_state w \<noteq> None \<and> ra_is_maintenance_mode api (rw_lib w)"

definition rime_ensure_deployed :: "'r rime_api \<Rightarrow> 'r rime_world \<Rightarrow> bool \<times> 'r rime_world" where
  "rime_ensure_deployed api w = (case rw_state w of
       None \<Rightarrow> (False, w)
     | Some st \<Rightarrow>
         if rs_maintenance_done st then (True, w)
         else if rime_is_maintaining api w then (False, w)
         else if \<not> ra_yaml_exists api (rc_user_data_dir (rs_config st)) (rw_lib w)
         then (case rime_run_maintenance api True w of
                 (ok, w) \<Rightarrow> if ok then (case rw_state w of None \<Rightarrow> False | Some st \<Rightarrow> rs_maintenance_done st, w) else (False, w))
         else (True, upd_state (\<lambda>st. st\<lparr>rs_maintenance_done := True\<rparr>) w))"

subsection \<open>Sessions (\<^verbatim>\<open>rime_session.c\<close>)\<close>

definition rime_free_session :: "'r rime_api \<Rightarrow> TypioRimeSession \<Rightarrow> 'r rime_world \<Rightarrow> 'r rime_world" where
  "rime_free_session api s w =
     (if rn_session_id s \<noteq> 0 \<and> ra_find_session api (rn_session_id s) (rw_lib w)
      then w\<lparr>rw_lib := ra_destroy_session api (rn_session_id s) (rw_lib w)\<rparr> else w)"

text \<open>Setting the property frees the session it had.\<close>

definition set_session_property :: "'r rime_api \<Rightarrow> TypioRimeSession option \<Rightarrow> 'r rime_world \<Rightarrow> 'r rime_world" where
  "set_session_property api s w =
     (let w = (case rw_session w of None \<Rightarrow> w | Some old \<Rightarrow> rime_free_session api old w) in w\<lparr>rw_session := s\<rparr>)"

definition select_schema :: "'r rime_api \<Rightarrow> TypioRimeSession \<Rightarrow> string \<Rightarrow> 'r rime_world \<Rightarrow> bool \<times> 'r rime_world" where
  "select_schema api s schema w = (case ra_select_schema api (rn_session_id s) schema (rw_lib w) of
       (ok, lib, notes) \<Rightarrow> (ok, rime_notes notes (w\<lparr>rw_lib := lib\<rparr>)))"

text \<open>A schema that does not match what was selected is only logged.\<close>

definition rime_apply_schema :: "'r rime_api \<Rightarrow> TypioRimeSession \<Rightarrow> 'r rime_world \<Rightarrow> bool \<times> 'r rime_world" where
  "rime_apply_schema api s w = (case rw_state w of
       None \<Rightarrow> (False, w)
     | Some st \<Rightarrow>
         let schema = rc_schema (rs_config st)
         in if schema = [] then (True, w)
            else (case select_schema api s schema w of
                    (ok, w) \<Rightarrow>
                      if \<not> ok \<and> \<not> (case rw_state w of None \<Rightarrow> False | Some st \<Rightarrow> rs_maintenance_done st)
                      then (case rime_ensure_deployed api w of
                              (deployed, w) \<Rightarrow> if \<not> deployed then (False, w) else select_schema api s schema w)
                      else (ok, w)))"

definition rime_get_session :: "'r rime_api \<Rightarrow> bool \<Rightarrow> 'r rime_world \<Rightarrow> TypioRimeSession option \<times> 'r rime_world" where
  "rime_get_session api create w = (case rw_state w of
       None \<Rightarrow> (None, w)
     | Some st \<Rightarrow>
         let current = (case rw_session w of
                          Some s \<Rightarrow> if ra_find_session api (rn_session_id s) (rw_lib w) then Some s else None
                        | None \<Rightarrow> None)
         in if (case current of Some s \<Rightarrow> rn_deploy_id s = rs_deploy_id st | None \<Rightarrow> False) then (current, w)
            else
              let w = (if current \<noteq> None then set_session_property api None w else w)
              in if \<not> create then (None, w)
                 else (case rime_ensure_deployed api w of
                         (deployed, w) \<Rightarrow>
                           if \<not> deployed then (None, w)
                           else (case ra_create_session api (rw_lib w) of
                                   (sid, lib) \<Rightarrow>
                                     let w = w\<lparr>rw_lib := lib\<rparr>
                                     in if sid = 0 then (None, w)
                                        else
                                          let s = \<lparr>rn_session_id = sid, rn_ascii_mode_known = False, rn_ascii_mode = False,
                                                   rn_deploy_id = (case rw_state w of None \<Rightarrow> 0 | Some st \<Rightarrow> rs_deploy_id st)\<rparr>
                                          in (case rime_apply_schema api s w of
                                                (ok, w) \<Rightarrow>
                                                  if \<not> ok then (None, rime_free_session api s w)
                                                  else
                                                    let w = rime_refresh_mode api (set_session_property api (Some s) w)
                                                    in (rw_session w, w)))))"

subsection \<open>Synchronisation (\<^verbatim>\<open>rime_sync.c\<close>)\<close>

definition rime_flush_commit :: "'r rime_api \<Rightarrow> TypioRimeSession \<Rightarrow> 'r rime_world \<Rightarrow> bool \<times> 'r rime_world" where
  "rime_flush_commit api s w = (case ra_get_commit api (rn_session_id s) (rw_lib w) of
       (commit, lib) \<Rightarrow>
         let w = w\<lparr>rw_lib := lib\<rparr>
         in (case commit of
               None \<Rightarrow> (False, w)
             | Some t \<Rightarrow> if filled t then (True, context_commit (or_empty t) w) else (False, w)))"

definition candidate_label :: "rime_context \<Rightarrow> nat \<Rightarrow> string" where
  "candidate_label cx i =
     (case (case cx_select_labels cx of None \<Rightarrow> None | Some f \<Rightarrow> f i) of
        Some l \<Rightarrow> l
      | None \<Rightarrow>
          (case cx_select_keys cx of
             Some keys \<Rightarrow> if i < length keys then [keys ! i] else show_nat (i + 1)
           | None \<Rightarrow> show_nat (i + 1)))"

definition rime_composition :: "rime_context \<Rightarrow> TypioComposition" where
  "rime_composition cx =
     (let cmp = \<lparr>cp_segment = None, cp_cursor_pos = 0, cp_candidates = [], cp_page = 0, cp_page_size = 0, cp_total = 0,
                  cp_selected = -1, cp_has_prev = False, cp_has_next = False\<rparr>;
          cmp = (if filled (cx_preedit cx) then cmp\<lparr>cp_segment := cx_preedit cx, cp_cursor_pos := cx_cursor_pos cx\<rparr> else cmp);
          count = int (length (cx_candidates cx))
      in if cx_candidates cx = [] then cmp
         else cmp\<lparr>cp_candidates := map (\<lambda>(i, text, comment). \<lparr>tc_text = text, tc_comment = comment, tc_label = candidate_label cx i\<rparr>)
                                       (enumerate 0 (cx_candidates cx)),
                   cp_page := cx_page_no cx, cp_page_size := cx_page_size cx,
                   cp_total := cx_page_no cx * cx_page_size cx + count + (if cx_is_last_page cx then 0 else cx_page_size cx),
                   cp_selected := cx_highlighted cx, cp_has_prev := 0 < cx_page_no cx, cp_has_next := \<not> cx_is_last_page cx\<rparr>)"

definition rime_sync_context :: "'r rime_api \<Rightarrow> TypioRimeSession \<Rightarrow> 'r rime_world \<Rightarrow> bool \<times> 'r rime_world" where
  "rime_sync_context api s w = (case ra_get_context api (rn_session_id s) (rw_lib w) of
       None \<Rightarrow> (False, rime_clear_state w)
     | Some cx \<Rightarrow>
         let composing = filled (cx_preedit cx) \<or> cx_candidates cx \<noteq> []
         in (composing, if composing then context_set_composition (rime_composition cx) w else rime_clear_state w))"

subsection \<open>Keys (\<^verbatim>\<open>rime_key.c\<close>)\<close>

definition rime_modifiers_to_mask :: "u32 \<Rightarrow> u32" where
  "rime_modifiers_to_mask m =
     (let mask = 0;
          mask = (if m AND TYPIO_MOD_SHIFT \<noteq> 0 then mask OR 1 else mask);
          mask = (if m AND TYPIO_MOD_CTRL \<noteq> 0 then mask OR 4 else mask);
          mask = (if m AND TYPIO_MOD_ALT \<noteq> 0 then mask OR 8 else mask);
          mask = (if m AND TYPIO_MOD_SUPER \<noteq> 0 then mask OR 64 else mask);
          mask = (if m AND TYPIO_MOD_CAPSLOCK \<noteq> 0 then mask OR 2 else mask)
      in if m AND TYPIO_MOD_NUMLOCK \<noteq> 0 then mask OR 16 else mask)"

definition TYPIO_RIME_RELEASE_MASK :: u32 where
  "TYPIO_RIME_RELEASE_MASK = 0x40000000"

subsection \<open>The engine (\<^verbatim>\<open>rime_engine.c\<close>)\<close>

text \<open>\<open>dir_ok\<close>: the user directory exists or was made; \<open>has_api\<close>: librime has its interface.\<close>

definition rime_init :: "'r rime_api \<Rightarrow> bool \<Rightarrow> bool \<Rightarrow> TypioRimeConfig \<Rightarrow> 'r rime_world \<Rightarrow> TypioResult \<times> 'r rime_world" where
  "rime_init api dir_ok has_api config w =
     (if \<not> dir_ok then (TYPIO_ERROR, w)
      else if \<not> has_api then (TYPIO_ERROR, w)
      else
        let st = \<lparr>rs_config = config, rs_initialized = False, rs_maintenance_done = False, rs_deploy_id = 0,
                  rs_ascii_mode = False, rs_ascii_mode_known = False\<rparr>
        in (case ra_setup api (rw_lib w) of
              (lib, notes) \<Rightarrow>
                let w = rime_notes notes (w\<lparr>rw_state := Some st, rw_lib := lib\<rparr>);
                    w = upd_state (\<lambda>st. st\<lparr>rs_initialized := True\<rparr>) w
                in (TYPIO_OK, snd (rime_ensure_deployed api w))))"

definition rime_destroy :: "'r rime_api \<Rightarrow> 'r rime_world \<Rightarrow> 'r rime_world" where
  "rime_destroy api w = (case rw_state w of
       None \<Rightarrow> w
     | Some st \<Rightarrow>
         let w = (if rs_initialized st then w\<lparr>rw_lib := ra_finalize api (rw_lib w)\<rparr> else w) in w\<lparr>rw_state := None\<rparr>)"

definition rime_focus_in :: "'r rime_api \<Rightarrow> 'r rime_world \<Rightarrow> 'r rime_world" where
  "rime_focus_in api w = (case rime_get_session api True w of
       (None, w) \<Rightarrow> w
     | (Some s, w) \<Rightarrow>
         let w = (if \<not> rn_ascii_mode_known s then rime_refresh_mode api w else w)
         in snd (rime_sync_context api s w))"

definition rime_reset :: "'r rime_api \<Rightarrow> 'r rime_world \<Rightarrow> 'r rime_world" where
  "rime_reset api w = (case rime_get_session api False w of
       (None, w) \<Rightarrow> rime_clear_state w
     | (Some s, w) \<Rightarrow>
         let w = w\<lparr>rw_lib := ra_clear_composition api (rn_session_id s) (rw_lib w)\<rparr>;
             w = rime_clear_state w
         in if rn_ascii_mode_known s then rime_notify_mode (rn_ascii_mode s) w else rime_refresh_mode api w)"

definition rime_focus_out :: "'r rime_api \<Rightarrow> 'r rime_world \<Rightarrow> 'r rime_world" where
  "rime_focus_out api w = rime_reset api w"

text \<open>The message during a deployment: an ellipsis and the Chinese text, in UTF-8.\<close>

definition deploying_message :: string where
  "deploying_message =
     [CHR 0xE2, CHR 0x80, CHR 0xA6] @ '' Rime '' @
     [CHR 0xE6, CHR 0xAD, CHR 0xA3, CHR 0xE5, CHR 0x9C, CHR 0xA8, CHR 0xE9, CHR 0x83, CHR 0xA8, CHR 0xE7, CHR 0xBD, CHR 0xB2]"

definition deploying_composition :: TypioComposition where
  "deploying_composition = \<lparr>cp_segment = Some deploying_message, cp_cursor_pos = 0, cp_candidates = [], cp_page = 0,
     cp_page_size = 0, cp_total = 0, cp_selected = -1, cp_has_prev = False, cp_has_next = False\<rparr>"

text \<open>After the key the option is compared with the mode of the session.\<close>

definition poll_mode :: "'r rime_api \<Rightarrow> TypioRimeSession \<Rightarrow> 'r rime_world \<Rightarrow> 'r rime_world" where
  "poll_mode api s w =
     (let ascii = ra_get_ascii api (rn_session_id s) (rw_lib w)
      in if \<not> rn_ascii_mode_known s \<or> rn_ascii_mode s \<noteq> ascii then rime_notify_mode ascii w else w)"

definition rime_process_key :: "'r rime_api \<Rightarrow> key_event \<Rightarrow> 'r rime_world \<Rightarrow> key_result \<times> 'r rime_world" where
  "rime_process_key api ev w =
     (let is_release = (ev_type ev = EVENT_KEY_RELEASE)
      in if \<not> is_release \<and> typio_key_event_is_escape ev
         then if 0 < rw_preedit w \<or> 0 < rw_candidates w then (KEY_HANDLED, rime_reset api w) else (KEY_NOT_HANDLED, w)
         else (case rime_get_session api True w of
                 (None, w) \<Rightarrow>
                   if rime_is_maintaining api w then (KEY_HANDLED, context_set_composition deploying_composition w)
                   else (KEY_NOT_HANDLED, w)
               | (Some s, w) \<Rightarrow>
                   let mask = rime_modifiers_to_mask (ev_modifiers ev);
                       mask = (if is_release then mask OR TYPIO_RIME_RELEASE_MASK else mask)
                   in (case ra_process_key api (rn_session_id s) (ev_keysym ev) mask (rw_lib w) of
                         (handled, lib, notes) \<Rightarrow>
                           let w = rime_notes notes (w\<lparr>rw_lib := lib\<rparr>);
                               w = poll_mode api s w
                           in if \<not> handled then (KEY_NOT_HANDLED, w)
                              else (case rime_flush_commit api s w of
                                      (committed, w) \<Rightarrow>
                                        (case rime_sync_context api s w of
                                           (composing, w) \<Rightarrow>
                                             (if committed then KEY_COMMITTED
                                              else if composing then KEY_COMPOSING
                                              else KEY_HANDLED, w))))))"

definition rime_get_mode :: "'r rime_api \<Rightarrow> 'r rime_world \<Rightarrow> TypioEngineMode \<times> 'r rime_world" where
  "rime_get_mode api w = (case rime_get_session api False w of
       (None, w) \<Rightarrow> (rime_mode_chinese, w)
     | (Some s, w) \<Rightarrow> (if rn_ascii_mode_known s then rime_mode_for_ascii (rn_ascii_mode s) else rime_mode_chinese, w))"

definition rime_set_mode :: "'r rime_api \<Rightarrow> string \<Rightarrow> 'r rime_world \<Rightarrow> TypioResult \<times> 'r rime_world" where
  "rime_set_mode api mode_id w =
     (if mode_id = [] then (TYPIO_ERROR_INVALID_ARGUMENT, w)
      else (case rime_get_session api True w of
              (None, w) \<Rightarrow> (TYPIO_ERROR_NOT_INITIALIZED, w)
            | (Some s, w) \<Rightarrow>
                if mode_id \<noteq> ''ascii'' \<and> mode_id \<noteq> ''chinese'' then (TYPIO_ERROR_NOT_FOUND, w)
                else
                  let ascii_mode = (mode_id = ''ascii'')
                  in (case ra_set_ascii api (rn_session_id s) ascii_mode (rw_lib w) of
                        (lib, notes) \<Rightarrow> (TYPIO_OK, rime_notify_mode ascii_mode (rime_notes notes (w\<lparr>rw_lib := lib\<rparr>))))))"

text \<open>\<open>focused\<close>: the context has the focus.\<close>

definition rime_apply_runtime_config :: "'r rime_api \<Rightarrow> bool \<Rightarrow> 'r rime_world \<Rightarrow> 'r rime_world" where
  "rime_apply_runtime_config api focused w =
     (if \<not> focused then w
      else (case rime_get_session api True w of
              (None, w) \<Rightarrow> w
            | (Some s, w) \<Rightarrow>
                let w = w\<lparr>rw_lib := ra_clear_composition api (rn_session_id s) (rw_lib w)\<rparr>
                in (case rime_apply_schema api s w of
                      (ok, w) \<Rightarrow> if \<not> ok then w else snd (rime_sync_context api s w))))"

text \<open>\<open>requested\<close>: a deployment was requested; \<open>schema\<close>: the stored schema.\<close>

definition rime_reload_config :: "'r rime_api \<Rightarrow> bool \<Rightarrow> string option \<Rightarrow> bool \<Rightarrow> 'r rime_world \<Rightarrow> TypioResult \<times> 'r rime_world" where
  "rime_reload_config api requested schema focused w = (case rw_state w of
       None \<Rightarrow> (TYPIO_ERROR_NOT_INITIALIZED, w)
     | Some st \<Rightarrow>
         (case (if requested then rime_run_maintenance api True (w\<lparr>rw_lib := rime_invalidate_generated_yaml api st (rw_lib w)\<rparr>)
                else (True, w)) of
            (ok, w) \<Rightarrow>
              if \<not> ok then (TYPIO_ERROR, w)
              else (TYPIO_OK,
                    rime_apply_runtime_config api focused
                      (upd_state (\<lambda>st. st\<lparr>rs_config := (rs_config st)\<lparr>rc_schema := or_empty schema\<rparr>\<rparr>) w))))"

end
