(* ===== verification/Rime_Laws.thy ===== *)
theory Rime_Laws
  imports Rime_Engine
begin

section \<open>What the Rime engine promises\<close>

text \<open>
  Frame facts of the operations, the mode of the session against the option of librime, sessions
  and deployments, and the properties.
\<close>

subsection \<open>Frames\<close>

lemma emit_fields [simp]:
  "rw_state (rime_emit x w) = rw_state w" "rw_session (rime_emit x w) = rw_session w" "rw_lib (rime_emit x w) = rw_lib w"
  by (simp_all add: rime_emit_def)

lemma upd_state_fields [simp]:
  "rw_state (upd_state f w) = map_option f (rw_state w)" "rw_session (upd_state f w) = rw_session w" "rw_lib (upd_state f w) = rw_lib w"
  by (simp_all add: upd_state_def)

lemma context_fields [simp]:
  "rw_state (rime_clear_state w) = rw_state w" "rw_session (rime_clear_state w) = rw_session w" "rw_lib (rime_clear_state w) = rw_lib w"
  "rw_state (context_commit t w) = rw_state w" "rw_session (context_commit t w) = rw_session w" "rw_lib (context_commit t w) = rw_lib w"
  "rw_state (context_set_composition c w) = rw_state w" "rw_session (context_set_composition c w) = rw_session w"
  "rw_lib (context_set_composition c w) = rw_lib w"
  by (simp_all add: rime_clear_state_def context_commit_def context_set_composition_def)

lemma notification_fields [simp]:
  "rw_session (rime_notification n w) = rw_session w" "rw_lib (rime_notification n w) = rw_lib w"
  by (auto simp: rime_notification_def Let_def split: prod.split)

lemma notification_state:
  "rw_state (rime_notification n w) = None \<longleftrightarrow> rw_state w = None"
  "map_option rs_deploy_id (rw_state (rime_notification n w)) = map_option rs_deploy_id (rw_state w)"
  "map_option rs_config (rw_state (rime_notification n w)) = map_option rs_config (rw_state w)"
  "(''deploy'', ''success'') \<noteq> n \<Longrightarrow> map_option rs_maintenance_done (rw_state (rime_notification n w)) = map_option rs_maintenance_done (rw_state w)"
  by (auto simp: rime_notification_def Let_def option.map_comp comp_def split: prod.split)

lemma notes_fields [simp]:
  "rw_session (rime_notes ns w) = rw_session w" "rw_lib (rime_notes ns w) = rw_lib w"
  by (induction ns arbitrary: w) (simp_all add: rime_notes_def)

lemma notes_state:
  "map_option rs_deploy_id (rw_state (rime_notes ns w)) = map_option rs_deploy_id (rw_state w)"
  "map_option rs_config (rw_state (rime_notes ns w)) = map_option rs_config (rw_state w)"
  "(''deploy'', ''success'') \<notin> set ns \<Longrightarrow>
     map_option rs_maintenance_done (rw_state (rime_notes ns w)) = map_option rs_maintenance_done (rw_state w)"
  by (induction ns arbitrary: w) (simp_all add: rime_notes_def notification_state)

lemma notify_mode_fields [simp]:
  "rw_state (rime_notify_mode b w) = rw_state w" "rw_lib (rime_notify_mode b w) = rw_lib w"
  "rw_session (rime_notify_mode b w) = map_option (note_session_mode b) (rw_session w)"
  by (simp_all add: rime_notify_mode_def split: option.split)

lemma note_session_fields [simp]:
  "rn_session_id (note_session_mode b s) = rn_session_id s" "rn_deploy_id (note_session_mode b s) = rn_deploy_id s"
  "rn_ascii_mode_known (note_session_mode b s)" "rn_ascii_mode (note_session_mode b s) = b"
  by (simp_all add: note_session_mode_def)

lemma sync_fields [simp]:
  "rw_session (snd (rime_sync_context api s w)) = rw_session w" "rw_lib (snd (rime_sync_context api s w)) = rw_lib w"
  "rw_state (snd (rime_sync_context api s w)) = rw_state w"
  by (auto simp: rime_sync_context_def Let_def split: option.split)

lemma flush_fields [simp]:
  "rw_session (snd (rime_flush_commit api s w)) = rw_session w" "rw_state (snd (rime_flush_commit api s w)) = rw_state w"
  "rw_lib (snd (rime_flush_commit api s w)) = snd (ra_get_commit api (rn_session_id s) (rw_lib w))"
  by (auto simp: rime_flush_commit_def Let_def case_prod_beta split: option.split)

subsection \<open>Sessions\<close>

text \<open>The session that is handed out is the one of the context, and known to the current deployment.\<close>

definition rime_session_current :: "'r rime_api \<Rightarrow> TypioRimeSession \<Rightarrow> 'r rime_world \<Rightarrow> bool" where
  "rime_session_current api s w \<longleftrightarrow>
     rw_session w = Some s \<and> ra_find_session api (rn_session_id s) (rw_lib w) \<and>
     (\<exists>st. rw_state w = Some st \<and> rn_deploy_id s = rs_deploy_id st)"

lemma get_session_current: "rime_session_current api s w \<Longrightarrow> rime_get_session api create w = (Some s, w)"
  by (auto simp: rime_session_current_def rime_get_session_def Let_def)

lemma get_session_property: "rime_get_session api create w = (Some s, w') \<Longrightarrow> rw_session w' = Some s"
  by (auto simp: rime_get_session_def Let_def case_prod_beta split: option.splits if_splits)

subsection \<open>Modes\<close>

lemma poll_mode_session:
  assumes "rw_session w = Some s"
  shows "\<exists>s'. rw_session (poll_mode api s w) = Some s' \<and> rn_session_id s' = rn_session_id s \<and> rn_ascii_mode_known s' \<and>
    rn_ascii_mode s' = ra_get_ascii api (rn_session_id s) (rw_lib w)"
  using assms by (simp add: poll_mode_def Let_def)

lemma poll_mode_lib [simp]: "rw_lib (poll_mode api s w) = rw_lib w"
  by (simp add: poll_mode_def Let_def)

lemma set_mode_current:
  assumes "rime_session_current api s w" and "m \<in> {''ascii'', ''chinese''}"
    and "\<And>sid b lib n. ra_find_session api n (fst (ra_set_ascii api sid b lib)) = ra_find_session api n lib"
  shows "fst (rime_set_mode api m w) = TYPIO_OK \<and> em_mode_id (fst (rime_get_mode api (snd (rime_set_mode api m w)))) = Some m"
proof -
  obtain lib ns where set: "ra_set_ascii api (rn_session_id s) (m = ''ascii'') (rw_lib w) = (lib, ns)" by fastforce
  let ?w = "rime_notify_mode (m = ''ascii'') (rime_notes ns (w\<lparr>rw_lib := lib\<rparr>))"
  let ?s = "note_session_mode (m = ''ascii'') s"
  have found: "ra_find_session api (rn_session_id s) lib"
    using assms(1) assms(3) [of "rn_session_id s" "rn_session_id s" "m = ''ascii''" "rw_lib w"] set by (simp add: rime_session_current_def)
  have step: "rime_set_mode api m w = (TYPIO_OK, ?w)"
    using get_session_current [OF assms(1), of True] assms(2) set by (auto simp: rime_set_mode_def Let_def)
  obtain st where st: "rw_state w = Some st" "rn_deploy_id s = rs_deploy_id st" using assms(1) by (auto simp: rime_session_current_def)
  have "map_option rs_deploy_id (rw_state ?w) = Some (rs_deploy_id st)" using st notes_state(1) [of ns "w\<lparr>rw_lib := lib\<rparr>"] by simp
  then obtain st' where "rw_state ?w = Some st'" "rs_deploy_id st' = rs_deploy_id st" by auto
  then have "rime_session_current api ?s ?w" using assms(1) found st by (simp add: rime_session_current_def)
  from get_session_current [OF this] show ?thesis
    using assms(2) by (auto simp: step rime_get_mode_def rime_mode_for_ascii_def rime_mode_latin_def rime_mode_chinese_def)
qed

subsection \<open>Keys\<close>

definition reaches_librime :: "key_event \<Rightarrow> bool" where
  "reaches_librime ev \<longleftrightarrow> ev_type ev = EVENT_KEY_RELEASE \<or> \<not> typio_key_event_is_escape ev"

lemma process_key_session:
  assumes "reaches_librime ev" and "rime_get_session api True w = (Some s, w1)"
    and "\<And>sid lib n. ra_get_ascii api n (snd (ra_get_commit api sid lib)) = ra_get_ascii api n lib"
  shows "\<exists>s'. rw_session (snd (rime_process_key api ev w)) = Some s' \<and> rn_ascii_mode_known s' \<and>
    rn_ascii_mode s' = ra_get_ascii api (rn_session_id s') (rw_lib (snd (rime_process_key api ev w)))"
proof -
  define mask where "mask = (if ev_type ev = EVENT_KEY_RELEASE then rime_modifiers_to_mask (ev_modifiers ev) OR TYPIO_RIME_RELEASE_MASK
    else rime_modifiers_to_mask (ev_modifiers ev))"
  obtain handled lib ns where key: "ra_process_key api (rn_session_id s) (ev_keysym ev) mask (rw_lib w1) = (handled, lib, ns)"
    by (metis prod_cases3)
  let ?w = "poll_mode api s (rime_notes ns (w1\<lparr>rw_lib := lib\<rparr>))"
  have result: "snd (rime_process_key api ev w) =
      (if handled then snd (rime_sync_context api s (snd (rime_flush_commit api s ?w))) else ?w)"
    using assms(1,2) key by (auto simp: rime_process_key_def reaches_librime_def Let_def mask_def case_prod_beta)
  have "rw_session (rime_notes ns (w1\<lparr>rw_lib := lib\<rparr>)) = Some s" using get_session_property [OF assms(2)] by simp
  from poll_mode_session [OF this, of api] show ?thesis unfolding result by (auto simp: assms(3))
qed

text \<open>Escape ends the composition.\<close>

lemma escape_clears:
  assumes "ev_type ev = EVENT_KEY_PRESS" and "typio_key_event_is_escape ev" and "0 < rw_preedit w \<or> 0 < rw_candidates w"
  shows "fst (rime_process_key api ev w) = KEY_HANDLED" and "rw_preedit (snd (rime_process_key api ev w)) = 0"
    and "rw_candidates (snd (rime_process_key api ev w)) = 0"
proof -
  have result: "rime_process_key api ev w = (KEY_HANDLED, rime_reset api w)"
    using assms by (simp add: rime_process_key_def)
  have "rw_preedit (rime_clear_state v) = 0" "rw_candidates (rime_clear_state v) = 0" for v :: "'a rime_world"
    by (simp_all add: rime_clear_state_def rime_emit_def)
  moreover have "rw_preedit (rime_notify_mode b v) = rw_preedit v" "rw_candidates (rime_notify_mode b v) = rw_candidates v"
    for b and v :: "'a rime_world" by (simp_all add: rime_notify_mode_def rime_emit_def split: option.split)
  ultimately have "rw_preedit (rime_reset api w) = 0 \<and> rw_candidates (rime_reset api w) = 0"
    by (simp add: rime_reset_def rime_refresh_mode_def Let_def split: prod.split option.split)
  with result show "fst (rime_process_key api ev w) = KEY_HANDLED" "rw_preedit (snd (rime_process_key api ev w)) = 0"
    "rw_candidates (snd (rime_process_key api ev w)) = 0" by simp_all
qed

text \<open>The six modifiers are passed on without loss.\<close>

lemma mask_bits:
  "(bit (rime_modifiers_to_mask m) 0 \<longleftrightarrow> m AND TYPIO_MOD_SHIFT \<noteq> 0) \<and> (bit (rime_modifiers_to_mask m) 2 \<longleftrightarrow> m AND TYPIO_MOD_CTRL \<noteq> 0) \<and>
   (bit (rime_modifiers_to_mask m) 3 \<longleftrightarrow> m AND TYPIO_MOD_ALT \<noteq> 0) \<and> (bit (rime_modifiers_to_mask m) 6 \<longleftrightarrow> m AND TYPIO_MOD_SUPER \<noteq> 0) \<and>
   (bit (rime_modifiers_to_mask m) 1 \<longleftrightarrow> m AND TYPIO_MOD_CAPSLOCK \<noteq> 0) \<and> (bit (rime_modifiers_to_mask m) 4 \<longleftrightarrow> m AND TYPIO_MOD_NUMLOCK \<noteq> 0)"
  unfolding rime_modifiers_to_mask_def Let_def by (simp add: bit_simps)

subsection \<open>Compositions\<close>

lemma composition_candidates:
  "length (cp_candidates (rime_composition cx)) = length (cx_candidates cx)"
  "i < length (cx_candidates cx) \<Longrightarrow>
     cp_candidates (rime_composition cx) ! i =
       \<lparr>tc_text = fst (cx_candidates cx ! i), tc_comment = snd (cx_candidates cx ! i), tc_label = candidate_label cx i\<rparr>"
  by (auto simp: rime_composition_def Let_def nth_enumerate_eq case_prod_beta)

text \<open>Without labels of its own every candidate gets a label that is not empty.\<close>

lemma candidate_labels: "cx_select_labels cx = None \<Longrightarrow> candidate_label cx i \<noteq> []"
  by (simp add: candidate_label_def split: option.split)

subsection \<open>Deployments\<close>

text \<open>
  Librime in a state where every deployment starts and fails at once, without leaving a build;
  \<open>starts\<close> counts them.
\<close>

definition failing :: "'r rime_api \<Rightarrow> string \<Rightarrow> ('r \<Rightarrow> nat) \<Rightarrow> 'r set \<Rightarrow> bool" where
  "failing api dir starts B \<longleftrightarrow>
     \<not> ra_sync_deploy api \<and>
     (\<forall>lib \<in> B. \<not> ra_is_maintenance_mode api lib \<and> \<not> ra_yaml_exists api dir lib \<and>
        (\<exists>lib' ns. ra_start_maintenance api True lib = (True, lib', ns) \<and> (''deploy'', ''success'') \<notin> set ns \<and>
           lib' \<in> B \<and> starts lib' = starts lib + 1))"

definition waiting_deploy :: "string \<Rightarrow> 'r set \<Rightarrow> 'r rime_world \<Rightarrow> bool" where
  "waiting_deploy dir B w \<longleftrightarrow>
     rw_session w = None \<and> rw_lib w \<in> B \<and>
     (\<exists>st. rw_state w = Some st \<and> \<not> rs_maintenance_done st \<and> rc_user_data_dir (rs_config st) = dir)"

lemma failing_key:
  assumes "failing api dir starts B" and "waiting_deploy dir B w" and "reaches_librime ev"
  shows "fst (rime_process_key api ev w) = KEY_NOT_HANDLED \<and> waiting_deploy dir B (snd (rime_process_key api ev w)) \<and>
    starts (rw_lib (snd (rime_process_key api ev w))) = starts (rw_lib w) + 1"
proof -
  obtain st where st: "rw_state w = Some st" "\<not> rs_maintenance_done st" "rc_user_data_dir (rs_config st) = dir"
    and w: "rw_session w = None" "rw_lib w \<in> B" using assms(2) by (auto simp: waiting_deploy_def)
  obtain lib ns where start: "ra_start_maintenance api True (rw_lib w) = (True, lib, ns)" "(''deploy'', ''success'') \<notin> set ns"
    "lib \<in> B" "starts lib = starts (rw_lib w) + 1" using assms(1) w(2) unfolding failing_def by blast
  have off: "\<not> ra_sync_deploy api" "\<not> ra_is_maintenance_mode api (rw_lib w)" "\<not> ra_yaml_exists api dir (rw_lib w)"
    "\<not> ra_is_maintenance_mode api lib" using assms(1) w(2) start(3) by (auto simp: failing_def)
  let ?w = "rime_notes ns ((upd_state (\<lambda>st. st\<lparr>rs_deploy_id := rs_deploy_id st + 1\<rparr>) w)\<lparr>rw_lib := lib\<rparr>)"
  let ?w' = "upd_state (\<lambda>st. st\<lparr>rs_maintenance_done := False\<rparr>) ?w"
  have config: "map_option rs_config (rw_state ?w) = Some (rs_config st)" 
    using st notes_state(2) [of ns "(upd_state (\<lambda>st. st\<lparr>rs_deploy_id := rs_deploy_id st + 1\<rparr>) w)\<lparr>rw_lib := lib\<rparr>"] by simp
  then obtain st' where st': "rw_state ?w = Some st'" "rs_config st' = rs_config st" by auto
  have "rime_run_maintenance api True w = (True, ?w')"
    using start(1) off(1) by (simp add: rime_run_maintenance_def Let_def)
  then have "rime_ensure_deployed api w = (False, ?w')"
    using st off st' by (simp add: rime_ensure_deployed_def rime_is_maintaining_def)
  then have "rime_get_session api True w = (None, ?w')"
    using st w by (simp add: rime_get_session_def Let_def)
  then have "rime_process_key api ev w = (KEY_NOT_HANDLED, ?w')"
    using assms(3) off(4)
    by (cases "ev_type ev = EVENT_KEY_RELEASE")
      (simp_all add: rime_process_key_def reaches_librime_def rime_is_maintaining_def Let_def)
  moreover have "waiting_deploy dir B ?w'" using w st st' start(3) by (simp add: waiting_deploy_def)
  ultimately show ?thesis using start(4) by simp
qed

lemma failing_keys:
  "failing api dir starts B \<Longrightarrow> waiting_deploy dir B w \<Longrightarrow> list_all reaches_librime evs \<Longrightarrow>
     starts (rw_lib (fold (\<lambda>ev w. snd (rime_process_key api ev w)) evs w)) = starts (rw_lib w) + length evs"
proof (induction evs arbitrary: w)
  case Nil
  then show ?case by simp
next
  case (Cons ev evs)
  with failing_key [of api dir starts B w ev] show ?case by simp
qed

lemma failing_keys_wait:
  "failing api dir starts B \<Longrightarrow> waiting_deploy dir B w \<Longrightarrow> list_all reaches_librime evs \<Longrightarrow>
     waiting_deploy dir B (fold (\<lambda>ev w. snd (rime_process_key api ev w)) evs w)"
  by (induction evs arbitrary: w) (simp_all add: failing_key)

end
