(* ===== verification/Rime_Props.thy ===== *)
theory Rime_Props
  imports Rime_Laws
begin

section \<open>Properties of the Rime engine\<close>

text \<open>
  The mode of a session follows librime, and what happens while deployments fail.
\<close>

text \<open>A librime for the witnesses: whether ASCII mode is on, and the number of deployments started.\<close>

definition demo_rime :: "(bool \<times> nat) rime_api" where
  "demo_rime = \<lparr>
     ra_setup = (\<lambda>lib. (lib, [])), ra_finalize = id, ra_find_session = (\<lambda>sid lib. sid = 1),
     ra_create_session = (\<lambda>lib. (1, lib)), ra_destroy_session = (\<lambda>sid lib. lib),
     ra_select_schema = (\<lambda>sid schema lib. (True, lib, [])),
     ra_process_key = (\<lambda>sid ks mask lib. (False, (\<not> fst lib, snd lib), [(''option'', if fst lib then ''!ascii_mode'' else ''ascii_mode'')])),
     ra_get_ascii = (\<lambda>sid lib. fst lib), ra_set_ascii = (\<lambda>sid b lib. ((b, snd lib), [])),
     ra_clear_composition = (\<lambda>sid lib. lib), ra_get_commit = (\<lambda>sid lib. (None, lib)), ra_get_context = (\<lambda>sid lib. None),
     ra_start_maintenance = (\<lambda>full lib. (True, (fst lib, snd lib + 1), [(''deploy'', ''failure'')])),
     ra_is_maintenance_mode = (\<lambda>lib. False), ra_join_maintenance = (\<lambda>lib. (lib, [])), ra_sync_deploy = False,
     ra_yaml_exists = (\<lambda>dir lib. False), ra_list_build = (\<lambda>dir lib. None), ra_unlink_build = (\<lambda>dir name lib. lib)\<rparr>"

definition demo_rime_world :: "bool \<Rightarrow> (bool \<times> nat) rime_world" where
  "demo_rime_world deployed = \<lparr>
     rw_state = Some \<lparr>rs_config = \<lparr>rc_schema = [], rc_shared_data_dir = ''/usr/share'', rc_user_data_dir = ''/u''\<rparr>,
        rs_initialized = True, rs_maintenance_done = deployed, rs_deploy_id = 0, rs_ascii_mode = False, rs_ascii_mode_known = False\<rparr>,
     rw_session = None, rw_lib = (False, 0), rw_preedit = 0, rw_candidates = 0, rw_out = []\<rparr>"

definition rime_key :: "u32 \<Rightarrow> key_event" where
  "rime_key ks = \<lparr>ev_type = EVENT_KEY_PRESS, ev_keycode = 0, ev_keysym = ks, ev_modifiers = 0, ev_unicode = 0, ev_time = 0,
     ev_is_repeat = False\<rparr>"

lemma rime_key_reaches: "ks \<noteq> KEY_Escape \<Longrightarrow> reaches_librime (rime_key ks)"
  by (simp add: reaches_librime_def rime_key_def typio_key_event_is_escape_def)

text \<open>
  C32. The mode follows librime: after every key that reaches librime, whatever librime does with it
  and whatever it notifies, the mode of the context's session is known and is the option that
  librime then has for it.
\<close>

theorem mode_follows_librime:
  assumes "reaches_librime ev" and "rime_get_session api True w = (Some s, w1)"
    and "\<And>sid lib n. ra_get_ascii api n (snd (ra_get_commit api sid lib)) = ra_get_ascii api n lib"
  shows "\<exists>s'. rw_session (snd (rime_process_key api ev w)) = Some s' \<and> rn_ascii_mode_known s' \<and>
    rn_ascii_mode s' = ra_get_ascii api (rn_session_id s') (rw_lib (snd (rime_process_key api ev w)))"
  by (rule process_key_session [OF assms])

theorem mode_follows_librime_witness:
  "\<exists>s'. rw_session (snd (rime_process_key demo_rime (rime_key 0xffe1) (demo_rime_world True))) = Some s' \<and> rn_ascii_mode s'"
proof -
  let ?w = "demo_rime_world True"
  obtain s w1 where "rime_get_session demo_rime True ?w = (Some s, w1)"
    by (simp add: rime_get_session_def demo_rime_world_def demo_rime_def rime_ensure_deployed_def rime_apply_schema_def
        rime_refresh_mode_def set_session_property_def Let_def)
  moreover have "reaches_librime (rime_key 0xffe1)" by (rule rime_key_reaches) (simp add: KEY_Escape_def)
  moreover have "ra_get_ascii demo_rime n (snd (ra_get_commit demo_rime sid lib)) = ra_get_ascii demo_rime n lib" for n sid lib
    by (simp add: demo_rime_def)
  ultimately obtain s' where s': "rw_session (snd (rime_process_key demo_rime (rime_key 0xffe1) ?w)) = Some s'"
    "rn_ascii_mode s' = ra_get_ascii demo_rime (rn_session_id s') (rw_lib (snd (rime_process_key demo_rime (rime_key 0xffe1) ?w)))"
    using mode_follows_librime [of "rime_key 0xffe1" demo_rime ?w s w1] by blast
  have "fst (rw_lib (snd (rime_process_key demo_rime (rime_key 0xffe1) ?w)))"
    by (simp add: rime_process_key_def rime_key_def typio_key_event_is_escape_def KEY_Escape_def rime_get_session_def demo_rime_world_def
        demo_rime_def rime_ensure_deployed_def rime_apply_schema_def rime_refresh_mode_def set_session_property_def Let_def)
  then have "rn_ascii_mode s'" using s'(2) by (simp add: demo_rime_def)
  with s'(1) show ?thesis by blast
qed

text \<open>
  A failing deployment is not remembered: as long as deployments start and fail at once without
  a build, every key starts another full deployment, and none is handled.
\<close>

theorem failing_deployment_restarted_by_every_key:
  assumes "failing api dir starts B" and "waiting_deploy dir B w" and "list_all reaches_librime (evs @ [ev])"
  shows "starts (rw_lib (fold (\<lambda>ev w. snd (rime_process_key api ev w)) evs w)) = starts (rw_lib w) + length evs \<and>
    fst (rime_process_key api ev (fold (\<lambda>ev w. snd (rime_process_key api ev w)) evs w)) = KEY_NOT_HANDLED"
  using failing_keys [OF assms(1,2)] failing_key [OF assms(1) failing_keys_wait [OF assms(1,2)]] assms(3) by simp

theorem failing_deployment_restarted_by_every_key_witness:
  "snd (rw_lib (fold (\<lambda>ev w. snd (rime_process_key demo_rime ev w)) (replicate 5 (rime_key 0x61)) (demo_rime_world False))) = 5"
proof -
  have "failing demo_rime ''/u'' snd UNIV" by (simp add: failing_def demo_rime_def)
  moreover have "waiting_deploy ''/u'' UNIV (demo_rime_world False)" by (simp add: waiting_deploy_def demo_rime_world_def)
  moreover have "list_all reaches_librime (replicate 5 (rime_key 0x61) @ [rime_key 0x61])"
    by (simp add: list_all_iff rime_key_reaches KEY_Escape_def)
  ultimately have "snd (rw_lib (fold (\<lambda>ev w. snd (rime_process_key demo_rime ev w)) (replicate 5 (rime_key 0x61)) (demo_rime_world False))) =
      snd (rw_lib (demo_rime_world False)) + length (replicate 5 (rime_key 0x61))"
    using failing_deployment_restarted_by_every_key [of demo_rime "''/u''" snd UNIV "demo_rime_world False"] by blast
  then show ?thesis by (simp add: demo_rime_world_def)
qed

end
