(* ===== verification/Panel_Theme.thy ===== *)
theory Panel_Theme
  imports Complex_Main State_Controller
begin

section \<open>Colours and theme of the candidate panel\<close>

text \<open>
  \<^verbatim>\<open>daemon/wayland/popup/candidate_panel_theme.c\<close>: the palettes, hexadecimal colours, the
  desktop's preference for dark themes and the cache of the resolved theme. The environment and the
  contents of files are parameters (a file without zero bytes, or none). Colour components are
  exact rationals: the code copies them and converts them to bytes.
\<close>

subsection \<open>Palettes\<close>

type_synonym rgb = "rat \<times> rat \<times> rat"
type_synonym rgba = "rat \<times> rat \<times> rat \<times> rat"

record TypioCandidatePanelPalette =
  pl_bg :: rgba
  pl_border :: rgba
  pl_text :: rgb
  pl_muted :: rgb
  pl_preedit :: rgb
  pl_selection :: rgba
  pl_selection_text :: rgb

definition palette_light :: TypioCandidatePanelPalette where
  "palette_light = \<lparr>
     pl_bg = (1, 1, 1, 0.97), pl_border = (0.820, 0.835, 0.859, 1), pl_text = (0.067, 0.094, 0.153),
     pl_muted = (0.420, 0.447, 0.502), pl_preedit = (0.216, 0.255, 0.318), pl_selection = (0.145, 0.388, 0.922, 1),
     pl_selection_text = (1, 1, 1)\<rparr>"

definition palette_dark :: TypioCandidatePanelPalette where
  "palette_dark = \<lparr>
     pl_bg = (0.094, 0.098, 0.110, 0.97), pl_border = (0.173, 0.184, 0.212, 1), pl_text = (0.910, 0.918, 0.929),
     pl_muted = (0.604, 0.627, 0.675), pl_preedit = (0.741, 0.757, 0.792), pl_selection = (0.231, 0.510, 0.965, 1),
     pl_selection_text = (1, 1, 1)\<rparr>"

text \<open>A pointer to one of the two built-in palettes.\<close>

datatype builtin_palette = PaletteLight | PaletteDark

definition palette_at :: "builtin_palette \<Rightarrow> TypioCandidatePanelPalette" where
  "palette_at p = (case p of PaletteLight \<Rightarrow> palette_light | PaletteDark \<Rightarrow> palette_dark)"

subsection \<open>The preference of the desktop\<close>

record desktop =
  dk_home :: "string option"
  dk_gtk_theme :: "string option"
  dk_file :: "string \<Rightarrow> string option" \<comment> \<open>the contents of a file that can be opened\<close>
  dk_now_ms :: u64

definition str_contains_dark :: "string option \<Rightarrow> bool" where
  "str_contains_dark v =
     (if \<not> filled v then False else strstr ''dark'' (or_empty v) \<noteq> None \<or> strstr ''Dark'' (or_empty v) \<noteq> None)"

definition config_file_has_needle :: "desktop \<Rightarrow> string \<Rightarrow> string \<Rightarrow> bool" where
  "config_file_has_needle d path needle =
     (case dk_file d path of
        None \<Rightarrow> False
      | Some content \<Rightarrow> list_ex (\<lambda>line. strstr needle line \<noteq> None) (fgets_lines 512 content))"

text \<open>\<^verbatim>\<open>snprintf\<close> into a buffer of a given size.\<close>

definition snprintf :: "nat \<Rightarrow> string \<Rightarrow> string" where
  "snprintf n s = take (n - 1) s"

fun kde_scan :: "bool \<Rightarrow> string list \<Rightarrow> bool" where
  "kde_scan in_general [] = False"
| "kde_scan in_general (line # lines) =
     (if starts_with ''['' line then kde_scan (strstr ''[General]'' line \<noteq> None) lines
      else if in_general \<and> starts_with ''ColorScheme='' line
      then str_contains_dark (Some (dropWhile (\<lambda>c. c = CHR '' '' \<or> c = CHR 0x09) (drop 12 line)))
      else kde_scan in_general lines)"

definition kde_prefers_dark :: "desktop \<Rightarrow> bool" where
  "kde_prefers_dark d =
     (if \<not> filled (dk_home d) then False
      else (case dk_file d (snprintf 512 (or_empty (dk_home d) @ ''/.config/kdeglobals'')) of
              None \<Rightarrow> False
            | Some content \<Rightarrow> kde_scan False (fgets_lines 512 content)))"

definition desktop_prefers_dark :: "desktop \<Rightarrow> bool" where
  "desktop_prefers_dark d =
     (if str_contains_dark (dk_gtk_theme d) then True
      else if \<not> filled (dk_home d) then False
      else if config_file_has_needle d (snprintf 512 (or_empty (dk_home d) @ ''/.config/gtk-4.0/settings.ini''))
                ''gtk-application-prefer-dark-theme=1'' then True
      else if config_file_has_needle d (snprintf 512 (or_empty (dk_home d) @ ''/.config/gtk-3.0/settings.ini''))
                ''gtk-application-prefer-dark-theme=1'' then True
      else kde_prefers_dark d)"

subsection \<open>The resolved theme\<close>

datatype TypioCandidatePanelThemeMode = THEME_AUTO | THEME_LIGHT | THEME_DARK

definition resolve_uncached :: "desktop \<Rightarrow> TypioCandidatePanelThemeMode \<Rightarrow> builtin_palette" where
  "resolve_uncached d mode = (case mode of
       THEME_DARK \<Rightarrow> PaletteDark
     | THEME_LIGHT \<Rightarrow> PaletteLight
     | THEME_AUTO \<Rightarrow> if desktop_prefers_dark d then PaletteDark else PaletteLight)"

record TypioCandidatePanelThemeCache =
  th_palette :: "builtin_palette option"
  th_mode :: TypioCandidatePanelThemeMode
  th_resolved_at_ms :: u64

definition empty_theme_cache :: TypioCandidatePanelThemeCache where
  "empty_theme_cache = \<lparr>th_palette = None, th_mode = THEME_AUTO, th_resolved_at_ms = 0\<rparr>"

definition theme_resolve ::
    "desktop \<Rightarrow> TypioCandidatePanelThemeCache \<Rightarrow> TypioCandidatePanelThemeMode \<Rightarrow> builtin_palette \<times> TypioCandidatePanelThemeCache" where
  "theme_resolve d cache mode =
     (let now = dk_now_ms d
      in case th_palette cache of
           Some p \<Rightarrow>
             if th_mode cache = mode \<and> now - th_resolved_at_ms cache < 5000 then (p, cache)
             else let p = resolve_uncached d mode in (p, \<lparr>th_palette = Some p, th_mode = mode, th_resolved_at_ms = now\<rparr>)
         | None \<Rightarrow> let p = resolve_uncached d mode in (p, \<lparr>th_palette = Some p, th_mode = mode, th_resolved_at_ms = now\<rparr>))"

subsection \<open>Hexadecimal colours\<close>

text \<open>
  The conversion \<^verbatim>\<open>%2x\<close> of \<^verbatim>\<open>sscanf\<close>: white space is skipped; of at most two characters,
  a sign may precede the digits, and a lone \<^verbatim>\<open>0x\<close> is a prefix without digits. A minus negates
  the unsigned result.
\<close>

definition xdigit_value :: "char \<Rightarrow> nat option" where
  "xdigit_value c = hex_value (tolower c)"

definition xdigits_value :: "string \<Rightarrow> nat" where
  "xdigits_value ds = fold (\<lambda>c n. 16 * n + (case xdigit_value c of None \<Rightarrow> 0 | Some d \<Rightarrow> d)) ds 0"

definition scan_2x :: "string \<Rightarrow> (u32 \<times> string) option" where
  "scan_2x s =
     (let s = skip_ws s;
          sign = (s \<noteq> [] \<and> (hd s = CHR ''-'' \<or> hd s = CHR ''+''));
          neg = (s \<noteq> [] \<and> hd s = CHR ''-'');
          width = (if sign then 1 else 2);
          s = (if sign then tl s else s);
          ds = takeWhile (\<lambda>c. xdigit_value c \<noteq> None) (take width s);
          prefix = (width = 2 \<and> (starts_with ''0x'' s \<or> starts_with ''0X'' s))
      in if ds = [] \<or> prefix then None
         else let v = word_of_nat (xdigits_value ds) in Some (if neg then - v else v, drop (length ds) s))"

fun scan_2xs :: "nat \<Rightarrow> string \<Rightarrow> u32 list option" where
  "scan_2xs 0 s = Some []"
| "scan_2xs (Suc n) s = (case scan_2x s of None \<Rightarrow> None | Some (v, r) \<Rightarrow> map_option (Cons v) (scan_2xs n r))"

definition byte_part :: "u32 \<Rightarrow> rat" where
  "byte_part v = of_nat (unat v) / 255"

definition typio_parse_hex_color :: "string option \<Rightarrow> rgba option" where
  "typio_parse_hex_color hex = (case hex of
       None \<Rightarrow> None
     | Some t \<Rightarrow>
         if \<not> starts_with ''#'' t then None
         else
           let s = tl t
           in if length s = 6
              then (case scan_2xs 3 s of Some [r, g, b] \<Rightarrow> Some (byte_part r, byte_part g, byte_part b, 1) | _ \<Rightarrow> None)
              else if length s = 8
              then (case scan_2xs 4 s of
                      Some [r, g, b, a] \<Rightarrow> Some (byte_part r, byte_part g, byte_part b, byte_part a) | _ \<Rightarrow> None)
              else None)"

subsection \<open>Hashes\<close>

definition fnv_prime :: u64 where "fnv_prime = 1099511628211"
definition fnv_offset :: u64 where "fnv_offset = 14695981039346656037"

definition fnv_bytes :: "u64 \<Rightarrow> u8 list \<Rightarrow> u64" where
  "fnv_bytes h bs = fold (\<lambda>b h. (h XOR ucast b) * fnv_prime) bs h"

text \<open>The bytes of the palette in memory are a parameter.\<close>

definition typio_candidate_panel_palette_hash ::
    "(TypioCandidatePanelPalette \<Rightarrow> u8 list) \<Rightarrow> TypioCandidatePanelPalette \<Rightarrow> u64" where
  "typio_candidate_panel_palette_hash bytes p = fnv_bytes fnv_offset (bytes p)"

subsection \<open>Bytes\<close>

text \<open>\<^verbatim>\<open>popup_u8\<close>, \<^verbatim>\<open>u8\<close> and \<^verbatim>\<open>to_u8\<close>, which agree.\<close>

definition popup_u8 :: "rat \<Rightarrow> u8" where
  "popup_u8 v = (if v \<le> 0 then 0 else if 1 \<le> v then 255 else word_of_int \<lfloor>v * 255 + 1 / 2\<rfloor>)"

lemma popup_u8_byte_part:
  assumes "v < 256"
  shows "popup_u8 (byte_part v) = ucast v"
proof -
  obtain n where n: "n = unat v" "n < 256" using assms by (auto simp: word_less_nat_alt)
  have part: "byte_part v = of_nat n / 255" unfolding byte_part_def n(1) ..
  have word: "(word_of_int (int n) :: u8) = ucast v" unfolding n(1) by (simp only: ucast_eq flip: uint_nat)
  consider "n = 0" | "n = 255" | "0 < n" "n < 255" using n(2) by linarith
  then show ?thesis
  proof cases
    case 3
    then have "\<lfloor>byte_part v * 255 + 1 / 2\<rfloor> = int n" unfolding part by (simp add: floor_eq_iff)
    moreover have "0 < byte_part v" "byte_part v < 1" unfolding part using 3 by simp_all
    ultimately show ?thesis using word by (simp add: popup_u8_def)
  qed (use word in \<open>simp_all add: popup_u8_def part\<close>)
qed

end
