(* ===== verification/Panel_State.thy ===== *)
theory Panel_State
  imports Panel_Theme
begin

section \<open>State of the candidate panel\<close>

text \<open>
  The records of \<^verbatim>\<open>candidate_panel_layout.h\<close> and \<^verbatim>\<open>candidate_panel.cc\<close>, the store of text
  layouts and the frame-retire ring.

  Text layouts are objects with an identity: \<open>lh_live\<close> maps the allocated ones to their contents,
  and a pointer is an identity or null. Freeing or drawing one that is not allocated, and freeing
  one whose image a frame in flight may still read, set \<open>lh_fault\<close>. At most two submitted frames
  are in flight (the code configures flux so), \<open>lh_gpu\<close> lists the images each of them reads.

  Numbers of type \<^verbatim>\<open>float\<close> are rationals; every operation is the exact one followed by the
  rounding \<open>pe_fl\<close>, a parameter. Text shaping and the outcomes of allocations and of the graphics
  library are parameters as well.
\<close>

subsection \<open>Constants\<close>

definition POPUP_LAYOUT_CACHE_CAP :: nat where [const_defs]: "POPUP_LAYOUT_CACHE_CAP = 128"
definition POPUP_MAX_ROWS :: nat where [const_defs]: "POPUP_MAX_ROWS = 16"
definition POPUP_MIN_WIDTH :: int where [const_defs]: "POPUP_MIN_WIDTH = 220"
definition POPUP_PAD_X :: int where [const_defs]: "POPUP_PAD_X = 10"
definition POPUP_PAD_Y :: int where [const_defs]: "POPUP_PAD_Y = 6"
definition POPUP_ROW_PAD_X :: int where [const_defs]: "POPUP_ROW_PAD_X = 6"
definition POPUP_ROW_PAD_Y :: int where [const_defs]: "POPUP_ROW_PAD_Y = 3"
definition POPUP_ROW_GAP :: int where [const_defs]: "POPUP_ROW_GAP = 0"
definition POPUP_COL_GAP :: int where [const_defs]: "POPUP_COL_GAP = 2"
definition POPUP_SECTION_GAP :: int where [const_defs]: "POPUP_SECTION_GAP = 6"
definition POPUP_LABEL_GAP :: int where [const_defs]: "POPUP_LABEL_GAP = 5"
definition POPUP_DEFAULT_FONT_SIZE :: int where [const_defs]: "POPUP_DEFAULT_FONT_SIZE = 16"
definition POPUP_PRESENT_RECOVER_STREAK :: int where [const_defs]: "POPUP_PRESENT_RECOVER_STREAK = 2"
definition POPUP_RETIRE_SLOT_MAX :: nat where [const_defs]: "POPUP_RETIRE_SLOT_MAX = 256"
definition POPUP_RETIRE_DEPTH :: nat where [const_defs]: "POPUP_RETIRE_DEPTH = 3"

subsection \<open>Text layouts\<close>

type_synonym TypioColor = rgba

record text_shape =
  sh_width :: rat
  sh_height :: rat
  sh_baseline :: rat
  sh_image :: bool \<comment> \<open>rasterising it gives an image (it has ink)\<close>

record text_layout =
  tl_shape :: text_shape
  tl_drawn :: bool \<comment> \<open>\<^verbatim>\<open>image_attempted\<close>\<close>

type_synonym layout_ptr = "nat option"

record layout_heap =
  lh_next :: nat
  lh_live :: "nat \<rightharpoonup> text_layout"
  lh_gpu :: "nat list list"
  lh_fault :: bool

definition layout_has_image :: "text_layout \<Rightarrow> bool" where
  "layout_has_image l \<longleftrightarrow> tl_drawn l \<and> sh_image (tl_shape l)"

definition typio_flux_layout_free :: "layout_ptr \<Rightarrow> layout_heap \<Rightarrow> layout_heap" where
  "typio_flux_layout_free p h = (case p of
       None \<Rightarrow> h
     | Some i \<Rightarrow>
         (case lh_live h i of
            None \<Rightarrow> h\<lparr>lh_fault := True\<rparr>
          | Some l \<Rightarrow>
              h\<lparr>lh_live := (lh_live h)(i := None),
                lh_fault := (lh_fault h \<or> (layout_has_image l \<and> (\<exists>f \<in> set (lh_gpu h). i \<in> set f)))\<rparr>))"

text \<open>The images of the first drawing are cached.\<close>

definition typio_flux_fill_layout :: "layout_ptr \<Rightarrow> layout_heap \<Rightarrow> layout_heap" where
  "typio_flux_fill_layout p h = (case p of
       None \<Rightarrow> h
     | Some i \<Rightarrow>
         (case lh_live h i of
            None \<Rightarrow> h\<lparr>lh_fault := True\<rparr>
          | Some l \<Rightarrow> h\<lparr>lh_live := (lh_live h)(i \<mapsto> l\<lparr>tl_drawn := True\<rparr>)\<rparr>))"

definition flux_device_wait_idle :: "layout_heap \<Rightarrow> layout_heap" where
  "flux_device_wait_idle h = h\<lparr>lh_gpu := []\<rparr>"

definition flux_frame_submit :: "nat list \<Rightarrow> layout_heap \<Rightarrow> layout_heap" where
  "flux_frame_submit reads h = h\<lparr>lh_gpu := take 2 (reads # lh_gpu h)\<rparr>"

subsection \<open>Configuration\<close>

datatype PopupLayoutMode = POPUP_LAYOUT_VERTICAL | POPUP_LAYOUT_HORIZONTAL

record PopupThemeVariant =
  tv_bg :: "rgba option" \<comment> \<open>with its flag \<^verbatim>\<open>has_bg\<close>, and so on\<close>
  tv_border :: "rgba option"
  tv_text :: "rgb option"
  tv_muted :: "rgb option"
  tv_preedit :: "rgb option"
  tv_selection :: "rgba option"
  tv_sel_text :: "rgb option"

record PopupConfig =
  pc_theme_mode :: TypioCandidatePanelThemeMode
  pc_layout_mode :: PopupLayoutMode
  pc_font_size :: int
  pc_mode_indicator :: bool
  pc_font_desc :: string
  pc_label_font_desc :: string
  pc_aux_font_desc :: string
  pc_font_family :: string
  pc_light_custom :: PopupThemeVariant
  pc_dark_custom :: PopupThemeVariant

subsection \<open>Geometry\<close>

record PopupRow =
  pr_label_layout :: layout_ptr
  pr_layout :: layout_ptr
  pr_label_layout_sel :: layout_ptr
  pr_layout_sel :: layout_ptr
  pr_label_w :: int
  pr_label_h :: int
  pr_text_w :: int
  pr_text_h :: int
  pr_x :: int
  pr_y :: int
  pr_w :: int
  pr_h :: int
  pr_label_x :: rat
  pr_label_y :: rat
  pr_text_x :: rat
  pr_text_y :: rat
  pr_label_ink_y_offset :: rat
  pr_text_ink_y_offset :: rat

record PopupGeometry =
  ge_rows :: "PopupRow list"
  ge_preedit_layout :: layout_ptr
  ge_pre_x :: rat
  ge_pre_y :: rat
  ge_pre_w :: int
  ge_pre_h :: int
  ge_mode_layout :: layout_ptr
  ge_mode_x :: rat
  ge_mode_y :: rat
  ge_mode_w :: int
  ge_mode_h :: int
  ge_mode_divider_y :: int
  ge_popup_w :: int
  ge_popup_h :: int
  ge_scale :: rat
  ge_content_sig :: u64
  ge_palette_sig :: u64
  ge_preedit_text :: string
  ge_mode_label :: string
  ge_config :: PopupConfig
  ge_palette :: TypioCandidatePanelPalette

subsection \<open>The layout cache\<close>

record PopupLayoutEntry =
  le_key :: u64
  le_label_color :: u32
  le_text_color :: u32
  le_label :: string
  le_text :: string
  le_label_font_desc :: string
  le_font_desc :: string
  le_label_layout :: layout_ptr
  le_layout :: layout_ptr
  le_label_pixel_w :: rat
  le_label_pixel_h :: rat
  le_label_pixel_baseline :: rat
  le_pixel_w :: rat
  le_pixel_h :: rat
  le_pixel_baseline :: rat
  le_lru_tick :: u32

definition empty_entry :: PopupLayoutEntry where
  "empty_entry = \<lparr>le_key = 0, le_label_color = 0, le_text_color = 0, le_label = [], le_text = [], le_label_font_desc = [],
     le_font_desc = [], le_label_layout = None, le_layout = None, le_label_pixel_w = 0, le_label_pixel_h = 0,
     le_label_pixel_baseline = 0, le_pixel_w = 0, le_pixel_h = 0, le_pixel_baseline = 0, le_lru_tick = 0\<rparr>"

subsection \<open>The panel\<close>

datatype PopupRetireItem = RetireGeometry PopupGeometry | RetireLayout nat

record PopupRetireSlot =
  rs_items :: "PopupRetireItem list"
  rs_cap :: nat

text \<open>Requests to the surface; a presented frame is the list of what it draws.\<close>

datatype paint =
    PaintRect rat rat rat rat u8 u8 u8 u8 \<comment> \<open>x, y, width, height and the colour before premultiplication\<close>
  | PaintLayout layout_ptr rat rat

datatype panel_req =
    PanelBufferScale int
  | PanelViewport int int
  | PanelUnmap
  | PanelPresent "paint list"

text \<open>
  \<open>pa_fx_ready\<close> stands for the swapchain objects, which are created together; \<open>pa_evict_cb\<close> says
  that evictions go to the retire ring.
\<close>

record panel =
  pa_heap :: layout_heap
  pa_out :: "panel_req list"
  pa_entries :: "PopupLayoutEntry list"
  pa_tick :: u32
  pa_evict_cb :: bool
  pa_viewport :: bool
  pa_vk_surface :: bool
  pa_fx_ready :: bool
  pa_surf_w :: int
  pa_surf_h :: int
  pa_timeout_streak :: int
  pa_present_retry :: bool
  pa_retire :: "PopupRetireSlot list"
  pa_epoch :: u64
  pa_geom :: "PopupGeometry option"
  pa_config :: "PopupConfig option" \<comment> \<open>when \<^verbatim>\<open>config_valid\<close>\<close>
  pa_theme_cache :: TypioCandidatePanelThemeCache
  pa_selected :: int
  pa_visible :: bool
  pa_status_text :: "string option"
  pa_entered_outputs :: "nat list"
  pa_fractional_scale_120 :: u32
  pa_preferred_buffer_scale :: int
  pa_text_input :: "int \<times> int \<times> int \<times> int"

subsection \<open>The environment of one call\<close>

datatype flux_result = FLUX_OK | FLUX_TIMEOUT | FLUX_SURFACE_LOST | FLUX_OTHER_ERROR

record panel_env =
  pe_fl :: "rat \<Rightarrow> rat" \<comment> \<open>rounding of the operations on \<^verbatim>\<open>float\<close>\<close>
  pe_shape :: "string \<Rightarrow> string \<Rightarrow> TypioColor \<Rightarrow> text_shape option" \<comment> \<open>text, font, colour\<close>
  pe_palette_bytes :: "TypioCandidatePanelPalette \<Rightarrow> u8 list"
  pe_desktop :: desktop
  pe_config_string :: "string \<Rightarrow> string option" \<comment> \<open>the getters of the configuration\<close>
  pe_config_int :: "string \<Rightarrow> int \<Rightarrow> int"
  pe_config_bool :: "string \<Rightarrow> bool \<Rightarrow> bool"
  pe_has_config :: bool
  pe_last_mode :: "TypioEngineMode option"
  pe_outputs :: "(nat \<times> int) list" \<comment> \<open>outputs with their scales\<close>
  pe_context :: "TypioCandidateList option" \<comment> \<open>the candidates of the session's context, if there is a session\<close>
  pe_geometry_alloc :: bool
  pe_retire_alloc :: bool
  pe_device :: bool
  pe_vk_surface :: bool
  pe_fx_objects :: bool \<comment> \<open>surface, canvas and arena can be created\<close>
  pe_resize :: bool
  pe_begin :: flux_result
  pe_begin_again :: flux_result
  pe_canvas_begin :: bool
  pe_submit :: bool
  pe_present :: flux_result

subsection \<open>The retire ring\<close>

definition upd_heap :: "(layout_heap \<Rightarrow> layout_heap) \<Rightarrow> panel \<Rightarrow> panel" where
  "upd_heap f p = p\<lparr>pa_heap := f (pa_heap p)\<rparr>"

definition popup_geometry_free :: "PopupGeometry \<Rightarrow> layout_heap \<Rightarrow> layout_heap" where
  "popup_geometry_free g h = typio_flux_layout_free (ge_mode_layout g) (typio_flux_layout_free (ge_preedit_layout g) h)"

definition retire_item_free :: "PopupRetireItem \<Rightarrow> layout_heap \<Rightarrow> layout_heap" where
  "retire_item_free it h = (case it of
       RetireGeometry g \<Rightarrow> popup_geometry_free g h
     | RetireLayout l \<Rightarrow> typio_flux_layout_free (Some l) h)"

definition retire_slot_drain :: "nat \<Rightarrow> panel \<Rightarrow> panel" where
  "retire_slot_drain k p =
     (let s = pa_retire p ! k
      in upd_heap (fold retire_item_free (rs_items s)) (p\<lparr>pa_retire := (pa_retire p)[k := s\<lparr>rs_items := []\<rparr>]\<rparr>))"

definition retire_slot_push :: "panel_env \<Rightarrow> nat \<Rightarrow> PopupRetireItem \<Rightarrow> panel \<Rightarrow> panel" where
  "retire_slot_push E k it p =
     (let p = (if POPUP_RETIRE_SLOT_MAX \<le> length (rs_items (pa_retire p ! k))
               then retire_slot_drain k (upd_heap flux_device_wait_idle p) else p);
          s = pa_retire p ! k
      in if length (rs_items s) = rs_cap s
         then if \<not> pe_retire_alloc E
              then upd_heap (retire_item_free it) (upd_heap flux_device_wait_idle p)
              else let ncap = (if rs_cap s \<noteq> 0 then rs_cap s * 2 else 4);
                       ncap = (if POPUP_RETIRE_SLOT_MAX < ncap then POPUP_RETIRE_SLOT_MAX else ncap)
                   in p\<lparr>pa_retire := (pa_retire p)[k := s\<lparr>rs_items := rs_items s @ [it], rs_cap := ncap\<rparr>]\<rparr>
         else p\<lparr>pa_retire := (pa_retire p)[k := s\<lparr>rs_items := rs_items s @ [it]\<rparr>]\<rparr>)"

definition retire_slot_free :: "nat \<Rightarrow> panel \<Rightarrow> panel" where
  "retire_slot_free k p =
     (let p = retire_slot_drain k p
      in p\<lparr>pa_retire := (pa_retire p)[k := (pa_retire p ! k)\<lparr>rs_items := [], rs_cap := 0\<rparr>]\<rparr>)"

definition current_slot :: "panel \<Rightarrow> nat" where
  "current_slot p = unat (pa_epoch p) mod POPUP_RETIRE_DEPTH"

definition retire_geometry :: "panel_env \<Rightarrow> PopupGeometry option \<Rightarrow> panel \<Rightarrow> panel" where
  "retire_geometry E g p = (case g of
       None \<Rightarrow> p
     | Some g \<Rightarrow>
         if \<not> pa_fx_ready p then upd_heap (popup_geometry_free g) p
         else retire_slot_push E (current_slot p) (RetireGeometry g) p)"

definition popup_retire_layout :: "panel_env \<Rightarrow> layout_ptr \<Rightarrow> panel \<Rightarrow> panel" where
  "popup_retire_layout E l p = (case l of
       None \<Rightarrow> p
     | Some i \<Rightarrow>
         if \<not> pa_fx_ready p then upd_heap (typio_flux_layout_free (Some i)) p
         else retire_slot_push E (current_slot p) (RetireLayout i) p)"

end
