(* ===== verification/Panel_Layout.thy ===== *)
theory Panel_Layout
  imports Panel_State
begin

section \<open>Layout of the candidate panel\<close>

text \<open>
  \<^verbatim>\<open>daemon/wayland/popup/candidate_panel_layout.cc\<close>: the cache of text layouts with the least
  recently used entry as its victim, fonts, the positions of rows, preedit and mode label, and the
  configuration of the panel.
\<close>

subsection \<open>Cache keys\<close>

definition fnv1a :: "u64 \<Rightarrow> string \<Rightarrow> u64" where
  "fnv1a h s = fnv_bytes h (map of_char s)"

definition color_byte :: "panel_env \<Rightarrow> rat \<Rightarrow> u8" where
  "color_byte E c = word_of_int \<lfloor>pe_fl E (pe_fl E (c * 255) + 1 / 2)\<rfloor>"

definition pack_color :: "panel_env \<Rightarrow> TypioColor \<Rightarrow> u32" where
  "pack_color E c = (case c of (r, g, b, a) \<Rightarrow>
     push_bit 24 (ucast (color_byte E a)) OR push_bit 16 (ucast (color_byte E r)) OR
     push_bit 8 (ucast (color_byte E g)) OR ucast (color_byte E b))"

definition layout_cache_key :: "string \<Rightarrow> string \<Rightarrow> string \<Rightarrow> string \<Rightarrow> u32 \<Rightarrow> u32 \<Rightarrow> u64" where
  "layout_cache_key label text label_font_desc font_desc label_color text_color =
     (let h = fnv1a fnv_offset label;
          h = (h XOR 0x01) * fnv_prime;
          h = fnv1a h text;
          h = (h XOR 0xff) * fnv_prime;
          h = fnv1a h label_font_desc;
          h = (h XOR 0x55) * fnv_prime;
          h = fnv1a h font_desc;
          h = h XOR (ucast label_color * fnv_prime)
      in h XOR (ucast text_color * 6364136223846793005))"

definition format_candidate_parts :: "TypioCandidate \<Rightarrow> nat \<Rightarrow> string \<times> string" where
  "format_candidate_parts c idx = (case tc_text c of
       None \<Rightarrow> ([], [])
     | Some t \<Rightarrow>
         (snprintf 64 (if tc_label c \<noteq> [] then tc_label c else show_nat (idx + 1)),
          snprintf 512 (if filled (tc_comment c) then t @ ''  '' @ or_empty (tc_comment c) else t)))"

subsection \<open>Text layouts\<close>

definition create_layout :: "panel_env \<Rightarrow> string \<Rightarrow> string \<Rightarrow> TypioColor \<Rightarrow> panel \<Rightarrow> layout_ptr \<times> panel" where
  "create_layout E text font color p = (case pe_shape E text font color of
       None \<Rightarrow> (None, p)
     | Some sh \<Rightarrow>
         let h = pa_heap p; i = lh_next h
         in (Some i, p\<lparr>pa_heap := h\<lparr>lh_next := i + 1, lh_live := (lh_live h)(i \<mapsto> \<lparr>tl_shape = sh, tl_drawn = False\<rparr>)\<rparr>\<rparr>))"

definition layout_shape :: "panel \<Rightarrow> layout_ptr \<Rightarrow> text_shape option" where
  "layout_shape p l = (case l of None \<Rightarrow> None | Some i \<Rightarrow> map_option tl_shape (lh_live (pa_heap p) i))"

definition get_metrics :: "panel \<Rightarrow> layout_ptr \<Rightarrow> rat \<times> rat" where
  "get_metrics p l = (case layout_shape p l of None \<Rightarrow> (0, 0) | Some sh \<Rightarrow> (sh_width sh, sh_height sh))"

definition get_baseline :: "panel \<Rightarrow> layout_ptr \<Rightarrow> rat" where
  "get_baseline p l = (case layout_shape p l of None \<Rightarrow> 0 | Some sh \<Rightarrow> sh_baseline sh)"

definition free_layout :: "layout_ptr \<Rightarrow> panel \<Rightarrow> panel" where
  "free_layout l p = upd_heap (typio_flux_layout_free l) p"

definition free_entry :: "PopupLayoutEntry \<Rightarrow> panel \<Rightarrow> panel" where
  "free_entry e p = free_layout (le_label_layout e) (free_layout (le_layout e) p)"

definition popup_render_ctx_free :: "panel \<Rightarrow> panel" where
  "popup_render_ctx_free p = (fold free_entry (pa_entries p) p)\<lparr>pa_entries := replicate POPUP_LAYOUT_CACHE_CAP empty_entry, pa_tick := 0,
     pa_evict_cb := False\<rparr>"

definition popup_render_ctx_invalidate :: "panel \<Rightarrow> panel" where
  "popup_render_ctx_invalidate p = (fold free_entry (pa_entries p) p)\<lparr>pa_entries := replicate POPUP_LAYOUT_CACHE_CAP empty_entry, pa_tick := 0\<rparr>"

subsection \<open>The cache\<close>

definition entry_matches ::
    "PopupLayoutEntry \<Rightarrow> u64 \<Rightarrow> u32 \<Rightarrow> u32 \<Rightarrow> string \<Rightarrow> string \<Rightarrow> string \<Rightarrow> string \<Rightarrow> bool" where
  "entry_matches e key lcp tcp label text label_font_desc font_desc \<longleftrightarrow>
     le_layout e \<noteq> None \<and> le_key e = key \<and> le_label_color e = lcp \<and> le_text_color e = tcp \<and>
     le_label e = label \<and> le_text e = text \<and> le_label_font_desc e = label_font_desc \<and> le_font_desc e = font_desc"

text \<open>The scan: the index of a match, or the victim so far and its tick.\<close>

fun lru_scan :: "(PopupLayoutEntry \<Rightarrow> bool) \<Rightarrow> nat \<Rightarrow> nat \<times> u32 \<Rightarrow> PopupLayoutEntry list \<Rightarrow> nat + nat" where
  "lru_scan hit i (lru_idx, lru_tick_min) [] = Inr lru_idx"
| "lru_scan hit i (lru_idx, lru_tick_min) (e # es) =
     (if hit e then Inl i
      else if le_layout e = None \<or> le_lru_tick e < lru_tick_min
      then lru_scan hit (i + 1) (i, if le_layout e \<noteq> None then le_lru_tick e else 0) es
      else lru_scan hit (i + 1) (lru_idx, lru_tick_min) es)"

definition evict :: "panel_env \<Rightarrow> layout_ptr \<Rightarrow> panel \<Rightarrow> panel" where
  "evict E l p = (if l = None then p else if pa_evict_cb p then popup_retire_layout E l p else free_layout l p)"

definition lru_fill ::
    "panel_env \<Rightarrow> nat \<Rightarrow> u64 \<Rightarrow> u32 \<Rightarrow> u32 \<Rightarrow> string \<Rightarrow> string \<Rightarrow> string \<Rightarrow> string \<Rightarrow> TypioColor \<Rightarrow> TypioColor \<Rightarrow> panel \<Rightarrow>
     PopupLayoutEntry \<times> panel" where
  "lru_fill E idx key lcp tcp label text label_font_desc font_desc label_color text_color p =
     (let victim = pa_entries p ! idx;
          p = evict E (le_label_layout victim) (evict E (le_layout victim) p)
      in case create_layout E label label_font_desc label_color p of
           (ll, p) \<Rightarrow>
             (case create_layout E text font_desc text_color p of
                (l, p) \<Rightarrow>
                  let e = \<lparr>le_key = key, le_label_color = lcp, le_text_color = tcp, le_label = snprintf 64 label,
                           le_text = snprintf 512 text, le_label_font_desc = snprintf 96 label_font_desc,
                           le_font_desc = snprintf 96 font_desc, le_label_layout = ll, le_layout = l,
                           le_label_pixel_w = fst (get_metrics p ll), le_label_pixel_h = snd (get_metrics p ll),
                           le_label_pixel_baseline = get_baseline p ll, le_pixel_w = fst (get_metrics p l),
                           le_pixel_h = snd (get_metrics p l), le_pixel_baseline = get_baseline p l, le_lru_tick = pa_tick p\<rparr>
                  in (e, p\<lparr>pa_entries := (pa_entries p)[idx := e]\<rparr>)))"

definition lru_get_or_create ::
    "panel_env \<Rightarrow> string \<Rightarrow> string \<Rightarrow> string \<Rightarrow> string \<Rightarrow> TypioColor \<Rightarrow> TypioColor \<Rightarrow> panel \<Rightarrow> PopupLayoutEntry \<times> panel" where
  "lru_get_or_create E label text label_font_desc font_desc label_color text_color p =
     (let lcp = pack_color E label_color; tcp = pack_color E text_color;
          key = layout_cache_key label text label_font_desc font_desc lcp tcp;
          p = p\<lparr>pa_tick := pa_tick p + 1\<rparr>
      in case lru_scan (\<lambda>e. entry_matches e key lcp tcp label text label_font_desc font_desc) 0 (0, - 1) (pa_entries p) of
           Inl i \<Rightarrow>
             let e = (pa_entries p ! i)\<lparr>le_lru_tick := pa_tick p\<rparr>
             in (e, p\<lparr>pa_entries := (pa_entries p)[i := e]\<rparr>)
         | Inr idx \<Rightarrow> lru_fill E idx key lcp tcp label text label_font_desc font_desc label_color text_color p)"

subsection \<open>Fonts and scaling\<close>

text \<open>\<^verbatim>\<open>strrchr\<close> for a space: the text before the last one and the text after it.\<close>

definition split_last_space :: "string \<Rightarrow> (string \<times> string) option" where
  "split_last_space s =
     (if CHR '' '' \<in> set s
      then let after = rev (takeWhile (\<lambda>c. c \<noteq> CHR '' '') (rev s)) in Some (take (length s - length after - 1) s, after)
      else None)"

definition positive_scale :: "rat \<Rightarrow> rat" where
  "positive_scale s = (if \<not> 0 < s then 1 else s)"

text \<open>\<^verbatim>\<open>lroundf\<close>: halves away from zero.\<close>

definition lroundf :: "rat \<Rightarrow> int" where
  "lroundf x = (if x < 0 then - \<lfloor>- x + 1 / 2\<rfloor> else \<lfloor>x + 1 / 2\<rfloor>)"

definition scaled_font_desc :: "panel_env \<Rightarrow> string \<Rightarrow> rat \<Rightarrow> string" where
  "scaled_font_desc E font_desc scale =
     (let scale = positive_scale scale;
          (family, size) =
            (if font_desc = [] then (''Sans'', POPUP_DEFAULT_FONT_SIZE)
             else case split_last_space font_desc of
                    Some (before, after) \<Rightarrow>
                      if after \<noteq> []
                      then let n = strtol10 after in (take 127 before, if n \<le> 0 then POPUP_DEFAULT_FONT_SIZE else n)
                      else (snprintf 128 font_desc, POPUP_DEFAULT_FONT_SIZE)
                  | None \<Rightarrow> (snprintf 128 font_desc, POPUP_DEFAULT_FONT_SIZE));
          px = lroundf (pe_fl E (of_int size * scale));
          px = (if px < 1 then 1 else px)
      in snprintf 96 (family @ '' '' @ show_int px))"

definition logical_px :: "panel_env \<Rightarrow> rat \<Rightarrow> rat \<Rightarrow> int" where
  "logical_px E physical_px scale = \<lceil>pe_fl E (physical_px / positive_scale scale)\<rceil>"

definition logical_float :: "panel_env \<Rightarrow> rat \<Rightarrow> rat \<Rightarrow> rat" where
  "logical_float E physical_px scale = pe_fl E (physical_px / positive_scale scale)"

subsection \<open>Positions\<close>

text \<open>The vertical position of label and text in a row: the text centred, the baselines aligned.\<close>

definition text_top :: "panel_env \<Rightarrow> int \<Rightarrow> PopupRow \<Rightarrow> rat" where
  "text_top E y r =
     (let row_content_h = pr_h r - POPUP_ROW_PAD_Y * 2
      in pe_fl E (pe_fl E (of_int (y + POPUP_ROW_PAD_Y)) +
           pe_fl E (pe_fl E (pe_fl E (of_int row_content_h) - pe_fl E (of_int (pr_text_h r))) * (1 / 2))))"

definition label_top :: "panel_env \<Rightarrow> int \<Rightarrow> PopupRow \<Rightarrow> rat" where
  "label_top E y r = pe_fl E (pe_fl E (text_top E y r + pr_text_ink_y_offset r) - pr_label_ink_y_offset r)"

fun rows_height :: "PopupRow list \<Rightarrow> int" where
  "rows_height [] = 0"
| "rows_height [r] = pr_h r"
| "rows_height (r # r' # rs) = pr_h r + POPUP_ROW_GAP + rows_height (r' # rs)"

fun place_vertical :: "panel_env \<Rightarrow> int \<Rightarrow> int \<Rightarrow> int \<Rightarrow> int \<Rightarrow> PopupRow list \<Rightarrow> PopupRow list" where
  "place_vertical E popup_w max_label_w h_offset y [] = []"
| "place_vertical E popup_w max_label_w h_offset y (r # rs) =
     r\<lparr>pr_x := POPUP_PAD_X, pr_y := y, pr_w := popup_w - POPUP_PAD_X * 2,
       pr_label_x := pe_fl E (of_int (POPUP_PAD_X + POPUP_ROW_PAD_X + h_offset)), pr_label_y := label_top E y r,
       pr_text_x := pe_fl E (of_int (POPUP_PAD_X + POPUP_ROW_PAD_X + max_label_w + POPUP_LABEL_GAP + h_offset)),
       pr_text_y := text_top E y r\<rparr>
     # place_vertical E popup_w max_label_w h_offset (y + pr_h r + (if rs \<noteq> [] then POPUP_ROW_GAP else 0)) rs"

definition max_label_width :: "PopupRow list \<Rightarrow> int" where
  "max_label_width rows = fold (\<lambda>r m. if m < pr_label_w r then pr_label_w r else m) rows 0"

definition vertical_row_w :: "int \<Rightarrow> PopupRow \<Rightarrow> int" where
  "vertical_row_w max_label_w r = max_label_w + POPUP_LABEL_GAP + pr_text_w r + POPUP_ROW_PAD_X * 2"

text \<open>The halved difference is only used when it is not negative.\<close>

definition compute_positions_vertical :: "panel_env \<Rightarrow> bool \<Rightarrow> PopupGeometry \<Rightarrow> PopupGeometry" where
  "compute_positions_vertical E pre_used g =
     (let rows = ge_rows g;
          max_label_w = max_label_width rows;
          mode = (ge_mode_layout g \<noteq> None \<and> 0 < ge_mode_h g);
          content_w = fold (\<lambda>r w. if w < vertical_row_w max_label_w r then vertical_row_w max_label_w r else w) rows (ge_pre_w g);
          content_h = (if pre_used then ge_pre_h g else 0) + rows_height rows;
          content_h = (if pre_used \<and> rows \<noteq> [] then content_h + POPUP_SECTION_GAP else content_h);
          content_h = (if mode then content_h + (POPUP_SECTION_GAP + ge_mode_h g) else content_h);
          content_w = (if mode \<and> content_w < ge_mode_w g then ge_mode_w g else content_w);
          popup_w = content_w + POPUP_PAD_X * 2;
          popup_w = (if popup_w < POPUP_MIN_WIDTH then POPUP_MIN_WIDTH else popup_w);
          popup_h = content_h + POPUP_PAD_Y * 2;
          y = (if pre_used then POPUP_PAD_Y + (ge_pre_h g + POPUP_SECTION_GAP) else POPUP_PAD_Y);
          h_offset = (popup_w - POPUP_PAD_X * 2 - (content_w - POPUP_ROW_PAD_X * 2)) div 2;
          h_offset = (if h_offset < 0 then 0 else h_offset);
          g = g\<lparr>ge_popup_w := popup_w, ge_popup_h := popup_h,
                ge_rows := place_vertical E popup_w max_label_w h_offset y rows,
                ge_pre_x := of_int POPUP_PAD_X, ge_pre_y := of_int POPUP_PAD_Y\<rparr>
      in if mode
         then g\<lparr>ge_mode_x := pe_fl E (of_int (popup_w - POPUP_PAD_X - ge_mode_w g)),
                ge_mode_divider_y := popup_h - POPUP_PAD_Y - ge_mode_h g - POPUP_ROW_PAD_Y,
                ge_mode_y := pe_fl E (of_int (popup_h - POPUP_PAD_Y - ge_mode_h g))\<rparr>
         else g\<lparr>ge_mode_divider_y := -1\<rparr>)"

fun place_horizontal :: "panel_env \<Rightarrow> int \<Rightarrow> int \<Rightarrow> PopupRow list \<Rightarrow> PopupRow list" where
  "place_horizontal E y x [] = []"
| "place_horizontal E y x (r # rs) =
     r\<lparr>pr_x := x, pr_y := y, pr_label_x := pe_fl E (of_int (x + POPUP_ROW_PAD_X)), pr_label_y := label_top E y r,
       pr_text_x := pe_fl E (of_int (x + POPUP_ROW_PAD_X + pr_label_w r + POPUP_LABEL_GAP)), pr_text_y := text_top E y r\<rparr>
     # place_horizontal E y (x + (pr_w r + POPUP_COL_GAP)) rs"

definition row_extent :: "PopupRow list \<Rightarrow> int \<times> int" where
  "row_extent rows =
     fold (\<lambda>r (w, h). ((if 0 < w then w + POPUP_COL_GAP else w) + pr_w r, if h < pr_h r then pr_h r else h)) rows (0, 0)"

definition compute_positions_horizontal :: "panel_env \<Rightarrow> bool \<Rightarrow> PopupGeometry \<Rightarrow> PopupGeometry" where
  "compute_positions_horizontal E pre_used g =
     (let rows = ge_rows g;
          (row_w, row_h) = row_extent rows;
          content_h = (if pre_used then ge_pre_h g else 0) + row_h;
          total_row = (if ge_mode_layout g \<noteq> None \<and> 0 < ge_mode_w g then row_w + (POPUP_COL_GAP + ge_mode_w g) else row_w);
          content_w = (if ge_pre_w g < total_row then total_row else ge_pre_w g);
          content_h = (if pre_used \<and> rows \<noteq> [] then content_h + POPUP_SECTION_GAP else content_h);
          popup_w = content_w + POPUP_PAD_X * 2;
          popup_w = (if popup_w < POPUP_MIN_WIDTH then POPUP_MIN_WIDTH else popup_w);
          popup_h = content_h + POPUP_PAD_Y * 2;
          y = (if pre_used then POPUP_PAD_Y + (ge_pre_h g + POPUP_SECTION_GAP) else POPUP_PAD_Y);
          g = g\<lparr>ge_popup_w := popup_w, ge_popup_h := popup_h, ge_rows := place_horizontal E y POPUP_PAD_X rows,
                ge_pre_x := of_int POPUP_PAD_X, ge_pre_y := of_int POPUP_PAD_Y, ge_mode_divider_y := -1\<rparr>
      in if ge_mode_layout g \<noteq> None \<and> 0 < ge_mode_h g
         then g\<lparr>ge_mode_x := pe_fl E (of_int (popup_w - POPUP_PAD_X - ge_mode_w g)),
                ge_mode_y := pe_fl E (of_int (y + POPUP_ROW_PAD_Y))\<rparr>
         else g)"

definition compute_positions :: "panel_env \<Rightarrow> PopupConfig \<Rightarrow> bool \<Rightarrow> PopupGeometry \<Rightarrow> PopupGeometry" where
  "compute_positions E cfg pre_used g =
     (if pc_layout_mode cfg = POPUP_LAYOUT_VERTICAL then compute_positions_vertical E pre_used g
      else compute_positions_horizontal E pre_used g)"

subsection \<open>Geometry\<close>

definition opaque :: "panel_env \<Rightarrow> rgb \<Rightarrow> TypioColor" where
  "opaque E c = (case c of (r, g, b) \<Rightarrow> (pe_fl E r, pe_fl E g, pe_fl E b, 1))"

definition make_row :: "panel_env \<Rightarrow> rat \<Rightarrow> PopupLayoutEntry \<Rightarrow> PopupLayoutEntry \<Rightarrow> PopupRow" where
  "make_row E scale entry entry_sel =
     (let label_w = logical_px E (le_label_pixel_w entry) scale; label_h = logical_px E (le_label_pixel_h entry) scale;
          text_w = logical_px E (le_pixel_w entry) scale; text_h = logical_px E (le_pixel_h entry) scale
      in \<lparr>pr_label_layout = le_label_layout entry, pr_layout = le_layout entry, pr_label_layout_sel = le_label_layout entry_sel,
          pr_layout_sel = le_layout entry_sel, pr_label_w = label_w, pr_label_h = label_h, pr_text_w = text_w, pr_text_h = text_h,
          pr_x = 0, pr_y = 0, pr_w = label_w + POPUP_LABEL_GAP + text_w + POPUP_ROW_PAD_X * 2,
          pr_h = (if text_h < label_h then label_h else text_h) + POPUP_ROW_PAD_Y * 2,
          pr_label_x = 0, pr_label_y = 0, pr_text_x = 0, pr_text_y = 0,
          pr_label_ink_y_offset = logical_float E (le_label_pixel_baseline entry) scale,
          pr_text_ink_y_offset = logical_float E (le_pixel_baseline entry) scale\<rparr>)"

fun geometry_rows ::
    "panel_env \<Rightarrow> string \<Rightarrow> string \<Rightarrow> TypioColor \<Rightarrow> TypioColor \<Rightarrow> TypioColor \<Rightarrow> rat \<Rightarrow> nat \<Rightarrow> TypioCandidate list \<Rightarrow> panel \<Rightarrow>
     PopupRow list \<times> panel" where
  "geometry_rows E label_font font label_color text_color sel_color scale i [] p = ([], p)"
| "geometry_rows E label_font font label_color text_color sel_color scale i (c # cs) p =
     (case format_candidate_parts c i of
        (label, text) \<Rightarrow>
          (case lru_get_or_create E label text label_font font label_color text_color p of
             (entry, p) \<Rightarrow>
               (case lru_get_or_create E label text label_font font sel_color sel_color p of
                  (entry_sel, p) \<Rightarrow>
                    (case geometry_rows E label_font font label_color text_color sel_color scale (i + 1) cs p of
                       (rows, p) \<Rightarrow> (make_row E scale entry entry_sel # rows, p)))))"

text \<open>The layout of the preedit text or of the mode label, with its size in logical pixels.\<close>

definition aux_layout :: "panel_env \<Rightarrow> bool \<Rightarrow> string \<Rightarrow> string \<Rightarrow> TypioColor \<Rightarrow> panel \<Rightarrow> (layout_ptr \<times> rat \<times> rat) \<times> panel" where
  "aux_layout E wanted text font color p =
     (if wanted then (case create_layout E text font color p of (l, p) \<Rightarrow> ((l, get_metrics p l), p)) else ((None, 0, 0), p))"

definition popup_geometry_compute ::
    "panel_env \<Rightarrow> TypioCandidateList \<Rightarrow> string option \<Rightarrow> string option \<Rightarrow> PopupConfig \<Rightarrow> TypioCandidatePanelPalette \<Rightarrow> rat \<Rightarrow> panel \<Rightarrow>
     PopupGeometry option \<times> panel" where
  "popup_geometry_compute E cands preedit mode_label cfg pal scale p =
     (if POPUP_MAX_ROWS < length (cl_candidates cands) then (None, p)
      else let scale = positive_scale scale
      in if \<not> pe_geometry_alloc E then (None, p)
      else
        let label_color = opaque E (pl_muted pal); text_color = opaque E (pl_text pal);
            sel_color = opaque E (pl_selection_text pal); preedit_color = opaque E (pl_preedit pal);
            font = scaled_font_desc E (pc_font_desc cfg) scale;
            label_font = scaled_font_desc E (pc_label_font_desc cfg) scale;
            aux_font = scaled_font_desc E (pc_aux_font_desc cfg) scale
        in case geometry_rows E label_font font label_color text_color sel_color scale 0 (cl_candidates cands) p of
             (rows, p) \<Rightarrow>
               (case aux_layout E (filled preedit) (or_empty preedit) aux_font preedit_color p of
                  ((pre_layout, pre_w, pre_h), p) \<Rightarrow>
                    (case aux_layout E (pc_mode_indicator cfg \<and> filled mode_label) (or_empty mode_label) aux_font label_color p of
                       ((mode_layout, mode_w, mode_h), p) \<Rightarrow>
                         (Some (compute_positions E cfg (filled preedit)
                            \<lparr>ge_rows = rows, ge_preedit_layout = pre_layout, ge_pre_x = 0, ge_pre_y = 0,
                             ge_pre_w = (if filled preedit then logical_px E pre_w scale else 0),
                             ge_pre_h = (if filled preedit then logical_px E pre_h scale else 0),
                             ge_mode_layout = mode_layout, ge_mode_x = 0, ge_mode_y = 0,
                             ge_mode_w = (if pc_mode_indicator cfg \<and> filled mode_label then logical_px E mode_w scale else 0),
                             ge_mode_h = (if pc_mode_indicator cfg \<and> filled mode_label then logical_px E mode_h scale else 0),
                             ge_mode_divider_y = 0, ge_popup_w = 0, ge_popup_h = 0, ge_scale = scale,
                             ge_content_sig = cl_content_signature cands,
                             ge_palette_sig = typio_candidate_panel_palette_hash (pe_palette_bytes E) pal,
                             ge_preedit_text = snprintf 256 (or_empty preedit), ge_mode_label = snprintf 128 (or_empty mode_label),
                             ge_config = cfg, ge_palette = pal\<rparr>), p))))"

definition popup_geometry_update_aux ::
    "panel_env \<Rightarrow> PopupGeometry \<Rightarrow> string option \<Rightarrow> string option \<Rightarrow> panel \<Rightarrow> PopupGeometry option \<times> panel" where
  "popup_geometry_update_aux E base preedit mode_label p =
     (let pal = ge_palette base; scale = ge_scale base;
          aux_font = scaled_font_desc E (pc_aux_font_desc (ge_config base)) scale
      in case aux_layout E (filled preedit) (or_empty preedit) aux_font (opaque E (pl_preedit pal)) p of
           ((pre_layout, pre_w, pre_h), p) \<Rightarrow>
             (case aux_layout E (pc_mode_indicator (ge_config base) \<and> filled mode_label) (or_empty mode_label) aux_font
                     (opaque E (pl_muted pal)) p of
                ((mode_layout, mode_w, mode_h), p) \<Rightarrow>
                  if logical_px E pre_w scale \<noteq> ge_pre_w base \<or> logical_px E pre_h scale \<noteq> ge_pre_h base \<or>
                     logical_px E mode_w scale \<noteq> ge_mode_w base \<or> logical_px E mode_h scale \<noteq> ge_mode_h base
                  then (None, free_layout mode_layout (free_layout pre_layout p))
                  else if \<not> pe_geometry_alloc E then (None, free_layout mode_layout (free_layout pre_layout p))
                  else (Some (base\<lparr>ge_preedit_layout := pre_layout, ge_mode_layout := mode_layout,
                                   ge_preedit_text := snprintf 256 (or_empty preedit),
                                   ge_mode_label := snprintf 128 (or_empty mode_label)\<rparr>), p)))"

subsection \<open>Configuration\<close>

definition no_variant :: PopupThemeVariant where
  "no_variant = \<lparr>tv_bg = None, tv_border = None, tv_text = None, tv_muted = None, tv_preedit = None, tv_selection = None,
     tv_sel_text = None\<rparr>"

definition without_alpha :: "rgba option \<Rightarrow> rgb option" where
  "without_alpha c = map_option (\<lambda>(r, g, b, a). (r, g, b)) c"

definition load_variant :: "panel_env \<Rightarrow> string \<Rightarrow> PopupThemeVariant" where
  "load_variant E section =
     (let color = (\<lambda>key. typio_parse_hex_color (pe_config_string E (section @ key)))
      in \<lparr>tv_bg = color ''.background'', tv_border = color ''.border'', tv_text = without_alpha (color ''.text''),
          tv_muted = without_alpha (color ''.muted''), tv_preedit = without_alpha (color ''.preedit''),
          tv_selection = color ''.selection'', tv_sel_text = without_alpha (color ''.selection_text'')\<rparr>)"

definition build_descs :: "PopupConfig \<Rightarrow> PopupConfig" where
  "build_descs cfg =
     (let size = pc_font_size cfg; ls = size * 4 div 5; ls = (if ls < 7 then 7 else ls);
          desc = (\<lambda>n. snprintf 128 (pc_font_family cfg @ '' SemiBold '' @ show_int n))
      in cfg\<lparr>pc_font_desc := desc size, pc_label_font_desc := desc ls, pc_aux_font_desc := desc (if 6 < size then size - 1 else 6)\<rparr>)"

definition popup_config_load :: "panel_env \<Rightarrow> PopupConfig" where
  "popup_config_load E =
     (let cfg = \<lparr>pc_theme_mode = THEME_AUTO, pc_layout_mode = POPUP_LAYOUT_VERTICAL, pc_font_size = POPUP_DEFAULT_FONT_SIZE,
                 pc_mode_indicator = False, pc_font_desc = [], pc_label_font_desc = [], pc_aux_font_desc = [],
                 pc_font_family = ''Sans'', pc_light_custom = no_variant, pc_dark_custom = no_variant\<rparr>
      in if \<not> pe_has_config E then build_descs cfg
         else
           let theme = pe_config_string E ''display.popup_theme'';
               size = pe_config_int E ''display.font_size'' POPUP_DEFAULT_FONT_SIZE;
               size = (if size < 6 then 6 else size);
               size = (if 72 < size then 72 else size);
               family = pe_config_string E ''display.font_family''
           in build_descs
                (cfg\<lparr>pc_theme_mode := (if theme = Some ''dark'' then THEME_DARK else if theme = Some ''light'' then THEME_LIGHT else THEME_AUTO),
                     pc_layout_mode := (if pe_config_string E ''display.candidate_layout'' = Some ''horizontal'' then POPUP_LAYOUT_HORIZONTAL
                                        else POPUP_LAYOUT_VERTICAL),
                     pc_font_size := size, pc_mode_indicator := pe_config_bool E ''display.popup_mode_indicator'' False,
                     pc_font_family := (if filled family then snprintf 80 (or_empty family) else ''Sans''),
                     pc_light_custom := load_variant E ''display.colors.light'',
                     pc_dark_custom := load_variant E ''display.colors.dark''\<rparr>))"

definition override :: "'a option \<Rightarrow> 'a \<Rightarrow> 'a" where
  "override custom base = (case custom of None \<Rightarrow> base | Some c \<Rightarrow> c)"

definition popup_config_build_palette ::
    "panel_env \<Rightarrow> PopupConfig \<Rightarrow> TypioCandidatePanelThemeCache \<Rightarrow> TypioCandidatePanelPalette \<times> TypioCandidatePanelThemeCache" where
  "popup_config_build_palette E cfg cache =
     (case theme_resolve (pe_desktop E) cache (pc_theme_mode cfg) of
        (which, cache) \<Rightarrow>
          let base = palette_at which;
              custom = (if which = PaletteDark then pc_dark_custom cfg else pc_light_custom cfg)
          in (\<lparr>pl_bg = override (tv_bg custom) (pl_bg base), pl_border = override (tv_border custom) (pl_border base),
               pl_text = override (tv_text custom) (pl_text base), pl_muted = override (tv_muted custom) (pl_muted base),
               pl_preedit = override (tv_preedit custom) (pl_preedit base),
               pl_selection = override (tv_selection custom) (pl_selection base),
               pl_selection_text = override (tv_sel_text custom) (pl_selection_text base)\<rparr>, cache))"

end
