(* ===== verification/Candidate_Panel.thy ===== *)
theory Candidate_Panel
  imports Panel_Layout
begin

section \<open>The candidate panel\<close>

text \<open>
  \<^verbatim>\<open>daemon/wayland/popup/candidate_panel.cc\<close>, \<^verbatim>\<open>daemon/wayland/popup/candidate_panel_paint.cc\<close> and
  \<^verbatim>\<open>daemon/wayland/text_ui_backend.c\<close>: classification of changes, scale, the swapchain, presenting
  a frame, hiding, the events of the surface and its outputs, and the backend that owns the panel.
  The clock is read once per call; measuring and logging slow frames is left out.
\<close>

subsection \<open>Classification of changes\<close>

datatype PopupDelta = POPUP_DELTA_NONE | POPUP_DELTA_SELECTION | POPUP_DELTA_AUX | POPUP_DELTA_CONTENT | POPUP_DELTA_STYLE

definition classify_delta ::
    "panel_env \<Rightarrow> PopupGeometry option \<Rightarrow> TypioCandidateList \<Rightarrow> string option \<Rightarrow> string option \<Rightarrow> PopupConfig \<Rightarrow> u64 \<Rightarrow> rat \<Rightarrow> PopupDelta"
  where
  "classify_delta E geom cands preedit mode_label cfg palette_sig scale = (case geom of
       None \<Rightarrow> POPUP_DELTA_CONTENT
     | Some g \<Rightarrow>
         if 1 / 10000 < \<bar>pe_fl E (ge_scale g - scale)\<bar> \<or> ge_palette_sig g \<noteq> palette_sig \<or>
            pc_theme_mode (ge_config g) \<noteq> pc_theme_mode cfg \<or> pc_layout_mode (ge_config g) \<noteq> pc_layout_mode cfg \<or>
            pc_font_size (ge_config g) \<noteq> pc_font_size cfg \<or> pc_mode_indicator (ge_config g) \<noteq> pc_mode_indicator cfg \<or>
            pc_font_desc (ge_config g) \<noteq> pc_font_desc cfg \<or> pc_aux_font_desc (ge_config g) \<noteq> pc_aux_font_desc cfg
         then POPUP_DELTA_STYLE
         else if ge_content_sig g \<noteq> cl_content_signature cands then POPUP_DELTA_CONTENT
         else if ge_preedit_text g \<noteq> or_empty preedit \<or> ge_mode_label g \<noteq> or_empty mode_label then POPUP_DELTA_AUX
         else POPUP_DELTA_SELECTION)"

subsection \<open>Scale\<close>

definition find_frontend_output :: "panel_env \<Rightarrow> nat \<Rightarrow> int option" where
  "find_frontend_output E out = map_of (pe_outputs E) out"

definition tracks_output :: "panel \<Rightarrow> nat \<Rightarrow> bool" where
  "tracks_output p out \<longleftrightarrow> out \<in> set (pa_entered_outputs p)"

definition best_scale :: "int option list \<Rightarrow> int \<Rightarrow> int" where
  "best_scale scales best = fold (\<lambda>s best. case s of None \<Rightarrow> best | Some s \<Rightarrow> if best < s then s else best) scales best"

definition render_scale :: "panel_env \<Rightarrow> panel \<Rightarrow> rat" where
  "render_scale E p =
     (if 0 < pa_fractional_scale_120 p then pe_fl E (pe_fl E (of_nat (unat (pa_fractional_scale_120 p))) / 120)
      else if 0 < pa_preferred_buffer_scale p then pe_fl E (of_int (pa_preferred_buffer_scale p))
      else
        let best = best_scale (map (find_frontend_output E) (pa_entered_outputs p)) 0
        in if 0 < best then pe_fl E (of_int best)
           else let best = best_scale (map (Some \<circ> snd) (pe_outputs E)) best
                in if 0 < best then pe_fl E (of_int best) else 1)"

definition build_mode_label :: "panel_env \<Rightarrow> string option" where
  "build_mode_label E = (case pe_last_mode E of
       None \<Rightarrow> None
     | Some m \<Rightarrow> if filled (em_display_label m) then em_display_label m else None)"

definition get_config :: "panel_env \<Rightarrow> panel \<Rightarrow> PopupConfig \<times> panel" where
  "get_config E p = (case pa_config p of
       Some cfg \<Rightarrow> (cfg, p)
     | None \<Rightarrow> let cfg = popup_config_load E in (cfg, p\<lparr>pa_config := Some cfg\<rparr>))"

subsection \<open>The swapchain\<close>

definition fx_teardown :: "panel_env \<Rightarrow> panel \<Rightarrow> panel" where
  "fx_teardown E p =
     (let p = (if pa_fx_ready p then upd_heap flux_device_wait_idle p else p)
      in p\<lparr>pa_vk_surface := False, pa_fx_ready := False, pa_surf_w := 0, pa_surf_h := 0\<rparr>)"

definition ensure_fx_surface :: "panel_env \<Rightarrow> int \<Rightarrow> int \<Rightarrow> panel \<Rightarrow> bool \<times> panel" where
  "ensure_fx_surface E w h p =
     (if w \<le> 0 \<or> h \<le> 0 then (False, p)
      else if \<not> pe_device E then (False, p)
      else if \<not> pa_vk_surface p \<and> \<not> pe_vk_surface E then (False, p)
      else
        let p = p\<lparr>pa_vk_surface := True\<rparr>
        in if \<not> pa_fx_ready p
           then if \<not> pe_fx_objects E then (False, p)
                else (True, p\<lparr>pa_surf_w := w, pa_surf_h := h, pa_fx_ready := True\<rparr>)
           else if (pa_surf_w p \<noteq> w \<or> pa_surf_h p \<noteq> h) \<and> pe_resize E
           then (True, p\<lparr>pa_surf_w := w, pa_surf_h := h\<rparr>)
           else (True, p))"

subsection \<open>Painting (\<^verbatim>\<open>candidate_panel_paint.cc\<close>)\<close>

definition rect_px :: "panel_env \<Rightarrow> rat \<Rightarrow> rat \<Rightarrow> rat \<Rightarrow> rat \<Rightarrow> rat \<Rightarrow> rgba \<Rightarrow> paint" where
  "rect_px E x y w h s color = (case color of (r, g, b, a) \<Rightarrow>
     PaintRect (pe_fl E (x * s)) (pe_fl E (y * s)) (pe_fl E (w * s)) (pe_fl E (h * s)) (popup_u8 r) (popup_u8 g) (popup_u8 b) (popup_u8 a))"

definition fill_at :: "panel_env \<Rightarrow> rat \<Rightarrow> layout_ptr \<Rightarrow> rat \<Rightarrow> rat \<Rightarrow> paint" where
  "fill_at E s l x y = PaintLayout l (pe_fl E (x * s)) (pe_fl E (y * s))"

definition record_row :: "panel_env \<Rightarrow> PopupRow \<Rightarrow> bool \<Rightarrow> TypioCandidatePanelPalette \<Rightarrow> rat \<Rightarrow> paint list" where
  "record_row E row selected pal s =
     (if selected
      then [rect_px E (pe_fl E (of_int (pr_x row) + 1)) (pe_fl E (of_int (pr_y row) + 1)) (pe_fl E (of_int (pr_w row) - 2))
              (pe_fl E (of_int (pr_h row) - 2)) s (pl_selection pal),
            fill_at E s (pr_label_layout_sel row) (pr_label_x row) (pr_label_y row),
            fill_at E s (pr_layout_sel row) (pr_text_x row) (pr_text_y row)]
      else [fill_at E s (pr_label_layout row) (pr_label_x row) (pr_label_y row),
            fill_at E s (pr_layout row) (pr_text_x row) (pr_text_y row)])"

definition record_border :: "panel_env \<Rightarrow> PopupGeometry \<Rightarrow> rat \<Rightarrow> paint list" where
  "record_border E g s =
     (let c = pl_border (ge_palette g); W = pe_fl E (of_int (ge_popup_w g)); H = pe_fl E (of_int (ge_popup_h g))
      in [rect_px E 0 0 W 1 s c, rect_px E 0 (pe_fl E (H - 1)) W 1 s c, rect_px E 0 0 1 H s c, rect_px E (pe_fl E (W - 1)) 0 1 H s c])"

definition half_alpha :: "rgba \<Rightarrow> rgba" where
  "half_alpha c = (case c of (r, g, b, a) \<Rightarrow> (r, g, b, a / 2))"

definition record_mode_label :: "panel_env \<Rightarrow> PopupGeometry \<Rightarrow> rat \<Rightarrow> paint list" where
  "record_mode_label E g s =
     (if ge_mode_layout g = None \<or> ge_mode_h g \<le> 0 then []
      else (if 0 \<le> ge_mode_divider_y g
            then [rect_px E (of_int POPUP_PAD_X) (pe_fl E (pe_fl E (of_int (ge_mode_divider_y g)) + 1 / 2))
                    (pe_fl E (of_int (ge_popup_w g - 2 * POPUP_PAD_X))) 1 s (half_alpha (pl_border (ge_palette g)))]
            else []) @
           [fill_at E s (ge_mode_layout g) (ge_mode_x g) (ge_mode_y g)])"

definition popup_record :: "panel_env \<Rightarrow> PopupGeometry \<Rightarrow> int \<Rightarrow> paint list" where
  "popup_record E g selected =
     (let s = positive_scale (ge_scale g)
      in record_border E g s @
         (if ge_preedit_layout g \<noteq> None then [fill_at E s (ge_preedit_layout g) (ge_pre_x g) (ge_pre_y g)] else []) @
         concat (map (\<lambda>(i, r). record_row E r (0 \<le> selected \<and> nat selected = i) (ge_palette g) s) (enumerate 0 (ge_rows g))) @
         record_mode_label E g s)"

text \<open>The layouts that a recorded frame draws, and those of them with an image.\<close>

definition drawn_layouts :: "paint list \<Rightarrow> nat list" where
  "drawn_layouts cmds = concat (map (\<lambda>c. case c of PaintLayout (Some i) _ _ \<Rightarrow> [i] | _ \<Rightarrow> []) cmds)"

definition draw_all :: "paint list \<Rightarrow> layout_heap \<Rightarrow> layout_heap" where
  "draw_all cmds h = fold (\<lambda>i. typio_flux_fill_layout (Some i)) (drawn_layouts cmds) h"

definition images_read :: "paint list \<Rightarrow> layout_heap \<Rightarrow> nat list" where
  "images_read cmds h =
     filter (\<lambda>i. case lh_live h i of None \<Rightarrow> False | Some l \<Rightarrow> layout_has_image l) (drawn_layouts cmds)"

subsection \<open>Presenting\<close>

datatype PopupPresentResult = POPUP_PRESENT_OK | POPUP_PRESENT_RETRY | POPUP_PRESENT_FAIL

text \<open>
  Rebuilding the swapchain waits for the device, which the model does not use: frames count as in
  flight until two later ones have been submitted.
\<close>

definition popup_present :: "panel_env \<Rightarrow> PopupGeometry \<Rightarrow> int \<Rightarrow> panel \<Rightarrow> PopupPresentResult \<times> panel" where
  "popup_present E geom selected p =
     (if \<not> pa_fx_ready p then (POPUP_PRESENT_FAIL, p)
      else
        let lost = (pe_begin E = FLUX_SURFACE_LOST);
            p = (if lost then p\<lparr>pa_timeout_streak := 0\<rparr> else p);
            r = (if lost then pe_begin_again E else pe_begin E)
        in if r = FLUX_TIMEOUT
           then let p = p\<lparr>pa_timeout_streak := pa_timeout_streak p + 1\<rparr>
                in (POPUP_PRESENT_RETRY,
                    if POPUP_PRESENT_RECOVER_STREAK \<le> pa_timeout_streak p then p\<lparr>pa_timeout_streak := 0\<rparr> else p)
           else if r \<noteq> FLUX_OK then (POPUP_PRESENT_FAIL, p)
           else
             let p = p\<lparr>pa_timeout_streak := 0\<rparr>
             in if \<not> pe_canvas_begin E then (POPUP_PRESENT_FAIL, p)
                else
                  let cmds = popup_record E geom selected;
                      p = upd_heap (draw_all cmds) p
                  in if \<not> pe_submit E then (POPUP_PRESENT_FAIL, p)
                     else
                       let p = upd_heap (\<lambda>h. flux_frame_submit (images_read cmds h) h) p
                       in case pe_present E of
                            FLUX_OK \<Rightarrow> (POPUP_PRESENT_OK, p\<lparr>pa_out := pa_out p @ [PanelPresent cmds]\<rparr>)
                          | FLUX_SURFACE_LOST \<Rightarrow> (POPUP_PRESENT_RETRY, p)
                          | _ \<Rightarrow> (POPUP_PRESENT_FAIL, p))"

definition hide_surface :: "panel_env \<Rightarrow> panel \<Rightarrow> panel" where
  "hide_surface E p =
     (if \<not> pa_visible p then p
      else
        let p = p\<lparr>pa_out := pa_out p @ [PanelUnmap], pa_visible := False, pa_selected := -1, pa_present_retry := False\<rparr>
        in (retire_geometry E (pa_geom p) p)\<lparr>pa_geom := None\<rparr>)"

subsection \<open>Rendering\<close>

definition no_candidates :: TypioCandidateList where
  "no_candidates = \<lparr>cl_candidates = [], cl_selected = 0, cl_content_signature = 0\<rparr>"

text \<open>The geometry that a change asks for; \<open>False\<close>: it cannot be computed.\<close>

definition replace_geometry :: "panel_env \<Rightarrow> PopupGeometry \<Rightarrow> panel \<Rightarrow> panel" where
  "replace_geometry E g p = (retire_geometry E (pa_geom p) p)\<lparr>pa_geom := Some g\<rparr>"

definition rebuild_geometry ::
    "panel_env \<Rightarrow> TypioCandidateList \<Rightarrow> string option \<Rightarrow> string option \<Rightarrow> PopupConfig \<Rightarrow> TypioCandidatePanelPalette \<Rightarrow> rat \<Rightarrow> panel \<Rightarrow>
     bool \<times> panel" where
  "rebuild_geometry E cands preedit mode_label cfg pal scale p =
     (case popup_geometry_compute E cands preedit mode_label cfg pal scale p of
        (None, p) \<Rightarrow> (False, p)
      | (Some g, p) \<Rightarrow> (True, replace_geometry E g p))"

definition apply_delta ::
    "panel_env \<Rightarrow> PopupDelta \<Rightarrow> TypioCandidateList \<Rightarrow> string option \<Rightarrow> string option \<Rightarrow> PopupConfig \<Rightarrow> TypioCandidatePanelPalette \<Rightarrow>
     rat \<Rightarrow> panel \<Rightarrow> bool \<times> panel" where
  "apply_delta E delta cands preedit mode_label cfg pal scale p = (case delta of
       POPUP_DELTA_STYLE \<Rightarrow> rebuild_geometry E cands preedit mode_label cfg pal scale (popup_render_ctx_invalidate p)
     | POPUP_DELTA_CONTENT \<Rightarrow> rebuild_geometry E cands preedit mode_label cfg pal scale p
     | POPUP_DELTA_AUX \<Rightarrow>
         (case pa_geom p of
            None \<Rightarrow> rebuild_geometry E cands preedit mode_label cfg pal scale p
          | Some g \<Rightarrow>
              (case popup_geometry_update_aux E g preedit mode_label p of
                 (Some g', p) \<Rightarrow> (True, replace_geometry E g' p)
               | (None, p) \<Rightarrow> rebuild_geometry E cands preedit mode_label cfg pal scale p))
     | _ \<Rightarrow> (True, p))"

text \<open>The buffer scale, the frame, and the advance of the retire ring after a presented frame.\<close>

definition show_geometry :: "panel_env \<Rightarrow> int \<Rightarrow> panel \<Rightarrow> bool \<times> panel" where
  "show_geometry E new_selected p = (case pa_geom p of
       None \<Rightarrow> (False, p)
     | Some g \<Rightarrow>
         let s = positive_scale (ge_scale g);
             pw = \<lceil>pe_fl E (pe_fl E (of_int (ge_popup_w g)) * s)\<rceil>; ph = \<lceil>pe_fl E (pe_fl E (of_int (ge_popup_h g)) * s)\<rceil>;
             pw = (if pw < 1 then 1 else pw); ph = (if ph < 1 then 1 else ph)
         in case ensure_fx_surface E pw ph p of
              (False, p) \<Rightarrow> (False, p)
            | (True, p) \<Rightarrow>
                let p = (if pa_viewport p
                         then p\<lparr>pa_out := pa_out p @ [PanelBufferScale 1, PanelViewport (ge_popup_w g) (ge_popup_h g)]\<rparr>
                         else let isc = \<lceil>s\<rceil>
                              in p\<lparr>pa_out := pa_out p @ [PanelBufferScale (if isc < 1 then 1 else isc)]\<rparr>)
                in case popup_present E g new_selected p of
                     (POPUP_PRESENT_OK, p) \<Rightarrow>
                       let p = p\<lparr>pa_selected := new_selected, pa_visible := True, pa_epoch := pa_epoch p + 1\<rparr>
                       in (True, retire_slot_drain (current_slot p) p)
                   | (POPUP_PRESENT_RETRY, p) \<Rightarrow> (False, p\<lparr>pa_present_retry := True\<rparr>)
                   | (POPUP_PRESENT_FAIL, p) \<Rightarrow> (False, p))"

definition popup_render :: "panel_env \<Rightarrow> TypioCandidateList option \<Rightarrow> string option \<Rightarrow> string option \<Rightarrow> panel \<Rightarrow> bool \<times> panel" where
  "popup_render E cands preedit mode_label p =
     (let cands = (case cands of None \<Rightarrow> no_candidates | Some c \<Rightarrow> c)
      in case get_config E (p\<lparr>pa_present_retry := False\<rparr>) of
           (cfg, p) \<Rightarrow>
             (case popup_config_build_palette E cfg (pa_theme_cache p) of
                (pal, cache) \<Rightarrow>
                  let p = p\<lparr>pa_theme_cache := cache\<rparr>;
                      pal_sig = typio_candidate_panel_palette_hash (pe_palette_bytes E) pal;
                      scale = render_scale E p;
                      new_selected = (if cl_candidates cands \<noteq> [] then cl_selected cands else -1);
                      delta = classify_delta E (pa_geom p) cands preedit mode_label cfg pal_sig scale
                  in if delta = POPUP_DELTA_SELECTION \<and> new_selected = pa_selected p \<and> pa_visible p then (True, p)
                     else (case apply_delta E delta cands preedit mode_label cfg pal scale p of
                             (False, p) \<Rightarrow> (False, p)
                           | (True, p) \<Rightarrow> show_geometry E new_selected p)))"

subsection \<open>Contents\<close>

text \<open>
  The content that callers push: candidates, and a status that is active, absent (no message) or
  cleared (a message while inactive).
\<close>

record TypioPanelContent =
  co_candidates :: "TypioCandidateList option"
  co_status_active :: bool
  co_status_message :: "string option"

definition typio_panel_content_init :: TypioPanelContent where
  "typio_panel_content_init = \<lparr>co_candidates = None, co_status_active = False, co_status_message = None\<rparr>"

definition panel_update_content :: "panel_env \<Rightarrow> TypioPanelContent \<Rightarrow> panel \<Rightarrow> bool \<times> panel" where
  "panel_update_content E content p =
     (let p = (if co_status_active content then p\<lparr>pa_status_text := co_status_message content\<rparr>
               else if co_status_message content \<noteq> None then p\<lparr>pa_status_text := None\<rparr>
               else p);
          empty = (case co_candidates content of None \<Rightarrow> True | Some c \<Rightarrow> cl_candidates c = [])
      in if empty \<and> \<not> filled (pa_status_text p) then (True, hide_surface E p)
         else popup_render E (co_candidates content) (if empty then pa_status_text p else None) (build_mode_label E) p)"

subsection \<open>Events of the surface\<close>

text \<open>A visible panel is drawn again with the candidates of the session.\<close>

definition refresh_visible :: "panel_env \<Rightarrow> panel \<Rightarrow> panel" where
  "refresh_visible E p =
     (if \<not> pa_visible p then p
      else case pe_context E of
             None \<Rightarrow> p
           | Some c \<Rightarrow> snd (panel_update_content E (typio_panel_content_init\<lparr>co_candidates := Some c\<rparr>) p))"

definition track_output :: "panel_env \<Rightarrow> nat \<Rightarrow> panel \<Rightarrow> panel" where
  "track_output E out p =
     (if tracks_output p out then p else refresh_visible E (p\<lparr>pa_entered_outputs := out # pa_entered_outputs p\<rparr>))"

definition untrack_output :: "panel_env \<Rightarrow> nat \<Rightarrow> panel \<Rightarrow> panel" where
  "untrack_output E out p =
     (if out \<in> set (pa_entered_outputs p) then refresh_visible E (p\<lparr>pa_entered_outputs := remove1 out (pa_entered_outputs p)\<rparr>) else p)"

definition on_preferred_buffer_scale :: "panel_env \<Rightarrow> int \<Rightarrow> panel \<Rightarrow> panel" where
  "on_preferred_buffer_scale E factor p =
     (if factor \<le> 0 then p
      else if pa_preferred_buffer_scale p = factor then p
      else refresh_visible E (p\<lparr>pa_preferred_buffer_scale := factor\<rparr>))"

definition on_fractional_preferred_scale :: "panel_env \<Rightarrow> u32 \<Rightarrow> panel \<Rightarrow> panel" where
  "on_fractional_preferred_scale E scale_120 p =
     (if scale_120 = 0 then p
      else if pa_fractional_scale_120 p = scale_120 then p
      else refresh_visible E (p\<lparr>pa_fractional_scale_120 := scale_120\<rparr>))"

definition on_text_input_rectangle :: "int \<Rightarrow> int \<Rightarrow> int \<Rightarrow> int \<Rightarrow> panel \<Rightarrow> panel" where
  "on_text_input_rectangle x y w h p = p\<lparr>pa_text_input := (x, y, w, h)\<rparr>"

definition panel_handle_output_change :: "panel_env \<Rightarrow> nat \<Rightarrow> panel \<Rightarrow> panel" where
  "panel_handle_output_change E out p =
     (if \<not> tracks_output p out then p
      else if find_frontend_output E out = None then untrack_output E out p
      else refresh_visible E p)"

definition drain_ring :: "panel \<Rightarrow> panel" where
  "drain_ring p = fold retire_slot_drain [0..<POPUP_RETIRE_DEPTH] p"

definition panel_invalidate_config :: "panel \<Rightarrow> panel" where
  "panel_invalidate_config p =
     (let p = p\<lparr>pa_config := None, pa_theme_cache := empty_theme_cache\<rparr>;
          p = (if pa_fx_ready p then drain_ring (upd_heap flux_device_wait_idle p) else p);
          p = popup_render_ctx_invalidate p
      in (case pa_geom p of None \<Rightarrow> p | Some g \<Rightarrow> upd_heap (popup_geometry_free g) p)\<lparr>pa_geom := None\<rparr>)"

subsection \<open>Creation and destruction\<close>

definition no_heap :: layout_heap where
  "no_heap = \<lparr>lh_next = 1, lh_live = (\<lambda>_. None), lh_gpu = [], lh_fault = False\<rparr>"

definition new_panel :: "bool \<Rightarrow> panel" where
  "new_panel viewport = \<lparr>
     pa_heap = no_heap, pa_out = [], pa_entries = replicate POPUP_LAYOUT_CACHE_CAP empty_entry, pa_tick = 0, pa_evict_cb = True,
     pa_viewport = viewport, pa_vk_surface = False, pa_fx_ready = False, pa_surf_w = 0, pa_surf_h = 0, pa_timeout_streak = 0,
     pa_present_retry = False, pa_retire = replicate POPUP_RETIRE_DEPTH \<lparr>rs_items = [], rs_cap = 0\<rparr>, pa_epoch = 0, pa_geom = None,
     pa_config = None, pa_theme_cache = empty_theme_cache, pa_selected = -1, pa_visible = False, pa_status_text = None,
     pa_entered_outputs = [], pa_fractional_scale_120 = 0, pa_preferred_buffer_scale = 0, pa_text_input = (0, 0, 0, 0)\<rparr>"

definition candidate_panel_destroy :: "panel_env \<Rightarrow> panel \<Rightarrow> layout_heap" where
  "candidate_panel_destroy E p =
     (let p = fx_teardown E (hide_surface E p);
          p = fold retire_slot_free [0..<POPUP_RETIRE_DEPTH] p;
          p = (case pa_geom p of None \<Rightarrow> p | Some g \<Rightarrow> upd_heap (popup_geometry_free g) p)\<lparr>pa_geom := None\<rparr>
      in pa_heap (popup_render_ctx_free p))"

subsection \<open>The backend (\<^verbatim>\<open>text_ui_backend.c\<close>)\<close>

text \<open>
  The backend of a frontend: its panel, if there is one, with the objects the creation of a panel
  needs. \<open>surface_ok\<close>: surface and popup surface can be created.
\<close>

record TypioWlTextUiBackend =
  tb_panel :: "panel option"
  tb_compositor :: bool
  tb_input_method :: bool
  tb_viewporter :: bool

definition candidate_panel_create :: "bool \<Rightarrow> TypioWlTextUiBackend \<Rightarrow> panel option" where
  "candidate_panel_create surface_ok b =
     (if \<not> tb_compositor b \<or> \<not> tb_input_method b then None
      else if \<not> surface_ok then None
      else Some (new_panel (tb_viewporter b)))"

definition text_ui_backend_create :: "bool \<Rightarrow> bool \<Rightarrow> bool \<Rightarrow> bool \<Rightarrow> TypioWlTextUiBackend" where
  "text_ui_backend_create surface_ok compositor input_method viewporter =
     (let b = \<lparr>tb_panel = None, tb_compositor = compositor, tb_input_method = input_method, tb_viewporter = viewporter\<rparr>
      in if compositor \<and> input_method then b\<lparr>tb_panel := candidate_panel_create surface_ok b\<rparr> else b)"

definition ensure_created :: "bool \<Rightarrow> TypioWlTextUiBackend \<Rightarrow> bool \<times> TypioWlTextUiBackend" where
  "ensure_created surface_ok b =
     (if tb_panel b \<noteq> None then (True, b)
      else if \<not> tb_compositor b \<or> \<not> tb_input_method b then (False, b)
      else let b = b\<lparr>tb_panel := candidate_panel_create surface_ok b\<rparr> in (tb_panel b \<noteq> None, b))"

definition backend_update_content :: "panel_env \<Rightarrow> bool \<Rightarrow> TypioPanelContent \<Rightarrow> TypioWlTextUiBackend \<Rightarrow> bool \<times> TypioWlTextUiBackend" where
  "backend_update_content E surface_ok content b = (case ensure_created surface_ok b of
       (False, b) \<Rightarrow> (False, b)
     | (True, b) \<Rightarrow>
         (case tb_panel b of
            None \<Rightarrow> (False, b)
          | Some p \<Rightarrow> (case panel_update_content E content p of (ok, p) \<Rightarrow> (ok, b\<lparr>tb_panel := Some p\<rparr>))))"

definition backend_update :: "panel_env \<Rightarrow> bool \<Rightarrow> TypioCandidateList option \<Rightarrow> TypioWlTextUiBackend \<Rightarrow> bool \<times> TypioWlTextUiBackend" where
  "backend_update E surface_ok cands b = backend_update_content E surface_ok (typio_panel_content_init\<lparr>co_candidates := cands\<rparr>) b"

definition backend_hide :: "panel_env \<Rightarrow> TypioWlTextUiBackend \<Rightarrow> TypioWlTextUiBackend" where
  "backend_hide E b = b\<lparr>tb_panel := map_option (hide_surface E) (tb_panel b)\<rparr>"

definition backend_show_status :: "panel_env \<Rightarrow> bool \<Rightarrow> string option \<Rightarrow> TypioWlTextUiBackend \<Rightarrow> bool \<times> TypioWlTextUiBackend" where
  "backend_show_status E surface_ok text b =
     backend_update_content E surface_ok
       (if filled text then typio_panel_content_init\<lparr>co_status_active := True, co_status_message := text\<rparr> else typio_panel_content_init) b"

definition backend_hide_status :: "panel_env \<Rightarrow> bool \<Rightarrow> TypioWlTextUiBackend \<Rightarrow> TypioWlTextUiBackend" where
  "backend_hide_status E surface_ok b =
     snd (backend_update_content E surface_ok (typio_panel_content_init\<lparr>co_status_message := Some []\<rparr>) b)"

definition backend_invalidate_config :: "TypioWlTextUiBackend \<Rightarrow> TypioWlTextUiBackend" where
  "backend_invalidate_config b = b\<lparr>tb_panel := map_option panel_invalidate_config (tb_panel b)\<rparr>"

definition backend_handle_output_change :: "panel_env \<Rightarrow> nat \<Rightarrow> TypioWlTextUiBackend \<Rightarrow> TypioWlTextUiBackend" where
  "backend_handle_output_change E out b = b\<lparr>tb_panel := map_option (panel_handle_output_change E out) (tb_panel b)\<rparr>"

definition present_retry_pending :: "TypioWlTextUiBackend \<Rightarrow> bool" where
  "present_retry_pending b \<longleftrightarrow> (case tb_panel b of None \<Rightarrow> False | Some p \<Rightarrow> pa_present_retry p)"

end
