(* ===== verification/Panel_Ring.thy ===== *)
theory Panel_Ring
  imports Candidate_Panel "HOL-Library.Multiset"
begin

section \<open>Ownership of text layouts\<close>

text \<open>
  Every allocated layout has exactly one owner: an entry of the cache, the geometry, an item of the
  retire ring, or the operation that is creating it. \<open>heap_owns h M\<close> says that \<open>M\<close> is the multiset
  of what is owned; \<open>ring_inv M p\<close> adds the ring: what waits in the slot of the last epoch is not
  read by the last frame, what waits in the oldest slot is read by neither of the frames in flight.
\<close>

subsection \<open>The heap\<close>

abbreviation ptr_mset :: "layout_ptr \<Rightarrow> nat multiset" where
  "ptr_mset l \<equiv> (case l of None \<Rightarrow> {#} | Some i \<Rightarrow> {#i#})"

definition in_flight :: "layout_heap \<Rightarrow> nat set" where
  "in_flight h = (\<Union>f \<in> set (lh_gpu h). set f)"

definition heap_owns :: "layout_heap \<Rightarrow> nat multiset \<Rightarrow> bool" where
  "heap_owns h M \<longleftrightarrow>
     \<not> lh_fault h \<and> (\<forall>i. count M i = (if lh_live h i = None then 0 else 1)) \<and>
     (\<forall>i. lh_live h i \<noteq> None \<longrightarrow> i < lh_next h) \<and> (\<forall>i \<in> in_flight h. i < lh_next h)"

lemma heap_owns_live: "heap_owns h M \<Longrightarrow> i \<in># M \<Longrightarrow> \<exists>l. lh_live h i = Some l"
  by (auto simp: heap_owns_def simp flip: count_greater_zero_iff split: if_splits)

lemma heap_owns_once: "heap_owns h (M + N) \<Longrightarrow> i \<in># M \<Longrightarrow> i \<notin># N"
proof
  assume h: "heap_owns h (M + N)" and "i \<in># M" "i \<in># N"
  then have "2 \<le> count (M + N) i" by (simp add: Suc_leI add_mono_thms_linordered_semiring(1) flip: count_greater_zero_iff)
  with h show False by (auto simp: heap_owns_def split: if_splits)
qed

lemma free_owned:
  assumes "heap_owns h (M + ptr_mset l)" and "set_mset (ptr_mset l) \<inter> in_flight h = {}"
  shows "heap_owns (typio_flux_layout_free l h) M"
proof (cases l)
  case None
  then show ?thesis using assms(1) by (simp add: typio_flux_layout_free_def)
next
  case (Some i)
  obtain t where t: "lh_live h i = Some t" using heap_owns_live [OF assms(1)] Some by auto
  have "i \<notin> in_flight h" using assms(2) Some by simp
  then have "\<not> (\<exists>f \<in> set (lh_gpu h). i \<in> set f)" by (simp add: in_flight_def)
  moreover have "count M j = (if j = i then 0 else if lh_live h j = None then 0 else 1)" for j
  proof -
    have "count (M + {#i#}) j = (if lh_live h j = None then 0 else 1)" using assms(1) Some by (simp add: heap_owns_def)
    then show ?thesis using t by (auto split: if_splits)
  qed
  ultimately show ?thesis using assms(1) Some t by (auto simp: typio_flux_layout_free_def heap_owns_def in_flight_def)
qed

lemma free_fields [simp]:
  "lh_gpu (typio_flux_layout_free l h) = lh_gpu h" "lh_next (typio_flux_layout_free l h) = lh_next h"
  "in_flight (typio_flux_layout_free l h) = in_flight h"
  by (auto simp: typio_flux_layout_free_def in_flight_def split: option.split)

lemma geometry_free_fields [simp]:
  "lh_gpu (popup_geometry_free g h) = lh_gpu h" "in_flight (popup_geometry_free g h) = in_flight h"
  by (simp_all add: popup_geometry_free_def)

lemma item_free_fields [simp]:
  "lh_gpu (retire_item_free it h) = lh_gpu h" "in_flight (retire_item_free it h) = in_flight h"
  by (simp_all add: retire_item_free_def split: PopupRetireItem.split)

lemma wait_idle_fields [simp]:
  "lh_gpu (flux_device_wait_idle h) = []" "in_flight (flux_device_wait_idle h) = {}" "lh_live (flux_device_wait_idle h) = lh_live h"
  by (simp_all add: flux_device_wait_idle_def in_flight_def)

lemma wait_idle_owned: "heap_owns h M \<Longrightarrow> heap_owns (flux_device_wait_idle h) M"
  by (simp add: heap_owns_def flux_device_wait_idle_def in_flight_def)

definition geometry_mset :: "PopupGeometry \<Rightarrow> nat multiset" where
  "geometry_mset g = ptr_mset (ge_preedit_layout g) + ptr_mset (ge_mode_layout g)"

definition item_mset :: "PopupRetireItem \<Rightarrow> nat multiset" where
  "item_mset it = (case it of RetireGeometry g \<Rightarrow> geometry_mset g | RetireLayout i \<Rightarrow> {#i#})"

lemma geometry_free_owned:
  assumes "heap_owns h (M + geometry_mset g)" and "set_mset (geometry_mset g) \<inter> in_flight h = {}"
  shows "heap_owns (popup_geometry_free g h) M"
  using free_owned [of "typio_flux_layout_free (ge_preedit_layout g) h" M "ge_mode_layout g"]
    free_owned [of h "M + ptr_mset (ge_mode_layout g)" "ge_preedit_layout g"] assms
  by (auto simp: popup_geometry_free_def geometry_mset_def ac_simps)

lemma item_free_owned:
  assumes "heap_owns h (M + item_mset it)" and "set_mset (item_mset it) \<inter> in_flight h = {}"
  shows "heap_owns (retire_item_free it h) M"
proof (cases it)
  case (RetireGeometry g)
  with assms show ?thesis by (simp add: item_mset_def retire_item_free_def geometry_free_owned)
next
  case (RetireLayout i)
  with assms free_owned [of h M "Some i"] show ?thesis by (simp add: item_mset_def retire_item_free_def)
qed

definition items_mset :: "PopupRetireItem list \<Rightarrow> nat multiset" where
  "items_mset its = (\<Sum>it\<leftarrow>its. item_mset it)"

lemma items_mset_simps [simp]:
  "items_mset [] = {#}" "items_mset (it # its) = item_mset it + items_mset its" "items_mset (its @ its') = items_mset its + items_mset its'"
  by (simp_all add: items_mset_def)

lemma drain_owned:
  "heap_owns h (M + items_mset its) \<Longrightarrow> set_mset (items_mset its) \<inter> in_flight h = {} \<Longrightarrow> heap_owns (fold retire_item_free its h) M"
proof (induction its arbitrary: h)
  case Nil
  then show ?case by simp
next
  case (Cons it its)
  then have "heap_owns (retire_item_free it h) (M + items_mset its)"
    by (intro item_free_owned) (auto simp: ac_simps)
  moreover have "set_mset (items_mset its) \<inter> in_flight (retire_item_free it h) = {}" using Cons.prems(2) by auto
  ultimately show ?case using Cons.IH by simp
qed

lemma drain_fields [simp]:
  "lh_gpu (fold retire_item_free its h) = lh_gpu h" "in_flight (fold retire_item_free its h) = in_flight h"
  by (induction its arbitrary: h) simp_all

subsection \<open>The ring\<close>

definition slot_mset :: "panel \<Rightarrow> nat \<Rightarrow> nat multiset" where
  "slot_mset p k = items_mset (rs_items (pa_retire p ! k))"

definition ring_mset :: "panel \<Rightarrow> nat multiset" where
  "ring_mset p = slot_mset p 0 + slot_mset p 1 + slot_mset p 2"

definition gpu_frame :: "layout_heap \<Rightarrow> nat \<Rightarrow> nat set" where
  "gpu_frame h k = (if k < length (lh_gpu h) then set (lh_gpu h ! k) else {})"

definition ring_ok :: "panel \<Rightarrow> bool" where
  "ring_ok p \<longleftrightarrow>
     length (pa_retire p) = 3 \<and> length (lh_gpu (pa_heap p)) \<le> 2 \<and> (\<not> pa_fx_ready p \<longrightarrow> lh_gpu (pa_heap p) = []) \<and>
     set_mset (slot_mset p ((current_slot p + 2) mod 3)) \<inter> gpu_frame (pa_heap p) 0 = {} \<and>
     set_mset (slot_mset p ((current_slot p + 1) mod 3)) \<inter> (gpu_frame (pa_heap p) 0 \<union> gpu_frame (pa_heap p) 1) = {}"

definition ring_inv :: "nat multiset \<Rightarrow> panel \<Rightarrow> bool" where
  "ring_inv M p \<longleftrightarrow> ring_ok p \<and> heap_owns (pa_heap p) (M + ring_mset p)"

lemma current_slot_less [simp]: "current_slot p < 3"
  by (simp add: current_slot_def POPUP_RETIRE_DEPTH_def)

lemma in_flight_frames: "length (lh_gpu h) \<le> 2 \<Longrightarrow> in_flight h = gpu_frame h 0 \<union> gpu_frame h 1"
  by (cases "lh_gpu h"; cases "tl (lh_gpu h)") (auto simp: in_flight_def gpu_frame_def)

lemma ring_split:
  assumes "k < 3"
  shows "ring_mset p = slot_mset p k + slot_mset p ((k + 1) mod 3) + slot_mset p ((k + 2) mod 3)"
proof -
  consider "k = 0" | "k = 1" | "k = 2" using assms by linarith
  then show ?thesis by cases (simp_all add: ring_mset_def ac_simps numeral_2_eq_2)
qed

lemma slot_update:
  "length (pa_retire p) = 3 \<Longrightarrow> k < 3 \<Longrightarrow>
     slot_mset (p\<lparr>pa_retire := (pa_retire p)[k := s]\<rparr>) j = (if j = k then items_mset (rs_items s) else slot_mset p j)"
  by (cases "j = k") (simp_all add: slot_mset_def)

text \<open>A panel that differs from a valid one in nothing that the ring reads.\<close>

lemma ring_inv_cong:
  assumes "pa_heap p' = pa_heap p" "pa_retire p' = pa_retire p" "pa_epoch p' = pa_epoch p" "pa_fx_ready p' = pa_fx_ready p"
  shows "ring_inv M p' = ring_inv M p"
  using assms by (simp add: ring_inv_def ring_ok_def ring_mset_def slot_mset_def current_slot_def)

lemma ring_inv_fx: "ring_inv M p \<Longrightarrow> ring_inv M (p\<lparr>pa_fx_ready := True\<rparr>)"
  by (simp add: ring_inv_def ring_ok_def ring_mset_def slot_mset_def current_slot_def)

lemma heap_fields [simp]:
  "slot_mset (p\<lparr>pa_heap := h\<rparr>) k = slot_mset p k" "current_slot (p\<lparr>pa_heap := h\<rparr>) = current_slot p"
  "ring_mset (p\<lparr>pa_heap := h\<rparr>) = ring_mset p"
  by (simp_all add: slot_mset_def current_slot_def ring_mset_def)

lemma ring_ok_heap:
  assumes "ring_ok p" and "lh_gpu h = lh_gpu (pa_heap p) \<or> lh_gpu h = []"
  shows "ring_ok (p\<lparr>pa_heap := h\<rparr>)"
  using assms(2)
proof
  assume "lh_gpu h = lh_gpu (pa_heap p)"
  then have "gpu_frame h = gpu_frame (pa_heap p)" by (simp add: gpu_frame_def fun_eq_iff)
  then show ?thesis using assms(1) \<open>lh_gpu h = lh_gpu (pa_heap p)\<close> by (simp add: ring_ok_def)
next
  assume "lh_gpu h = []"
  then have "gpu_frame h k = {}" for k by (simp add: gpu_frame_def)
  then show ?thesis using assms(1) \<open>lh_gpu h = []\<close> by (simp add: ring_ok_def)
qed

lemma ring_inv_heap:
  assumes "ring_inv M p" and "heap_owns h (N + ring_mset p)" and "lh_gpu h = lh_gpu (pa_heap p) \<or> lh_gpu h = []"
  shows "ring_inv N (p\<lparr>pa_heap := h\<rparr>)"
  using assms ring_ok_heap [of p h] by (simp add: ring_inv_def)

lemma ring_inv_idle: "ring_inv M p \<Longrightarrow> ring_inv M (upd_heap flux_device_wait_idle p)"
  using ring_inv_heap [of M p "flux_device_wait_idle (pa_heap p)" M] by (simp add: upd_heap_def ring_inv_def wait_idle_owned)

text \<open>A slot that no frame in flight reads can be emptied, in whatever epoch.\<close>

lemma ring_inv_drain:
  assumes "ring_inv M p" and "k < 3" and "set_mset (slot_mset p k) \<inter> in_flight (pa_heap p) = {}"
  shows "ring_inv M (retire_slot_drain k p)" and "slot_mset (retire_slot_drain k p) k = {#}"
proof -
  define q where "q = p\<lparr>pa_retire := (pa_retire p)[k := (pa_retire p ! k)\<lparr>rs_items := []\<rparr>]\<rparr>"
  let ?h = "fold retire_item_free (rs_items (pa_retire p ! k)) (pa_heap p)"
  have len: "length (pa_retire p) = 3" using assms(1) by (simp add: ring_inv_def ring_ok_def)
  have slot: "slot_mset q j = (if j = k then {#} else slot_mset p j)" for j
    using slot_update [OF len assms(2)] by (simp add: q_def)
  have same: "current_slot q = current_slot p" by (simp add: current_slot_def q_def)
  have ring: "ring_mset p = slot_mset p k + ring_mset q"
  proof -
    consider "k = 0" | "k = 1" | "k = 2" using assms(2) by linarith
    then show ?thesis by cases (simp_all add: ring_mset_def slot ac_simps)
  qed
  have "heap_owns (pa_heap p) ((M + ring_mset q) + slot_mset p k)"
    using assms(1) unfolding ring_inv_def ring by (simp add: ac_simps)
  then have owns: "heap_owns ?h (M + ring_mset q)"
    using drain_owned [of "pa_heap p" "M + ring_mset q" "rs_items (pa_retire p ! k)"] assms(3) by (simp add: slot_mset_def)
  have heap: "pa_heap q = pa_heap p" "pa_fx_ready q = pa_fx_ready p" "length (pa_retire q) = 3" using len by (simp_all add: q_def)
  then have "ring_ok q" using assms(1) unfolding ring_inv_def ring_ok_def same slot by auto
  then have "ring_ok (q\<lparr>pa_heap := ?h\<rparr>)" by (rule ring_ok_heap) (simp add: heap)
  moreover have step: "retire_slot_drain k p = q\<lparr>pa_heap := ?h\<rparr>" by (simp add: retire_slot_drain_def upd_heap_def Let_def q_def)
  ultimately show "ring_inv M (retire_slot_drain k p)" using owns unfolding ring_inv_def step by simp
  show "slot_mset (retire_slot_drain k p) k = {#}" unfolding step using slot by simp
qed

text \<open>Pushing into the current slot moves the ownership of the item into the ring.\<close>

lemma drain_panel_fields [simp]:
  "pa_epoch (retire_slot_drain k p) = pa_epoch p" "pa_fx_ready (retire_slot_drain k p) = pa_fx_ready p"
  "current_slot (retire_slot_drain k p) = current_slot p" "length (pa_retire (retire_slot_drain k p)) = length (pa_retire p)"
  "lh_gpu (pa_heap (retire_slot_drain k p)) = lh_gpu (pa_heap p)"
  by (simp_all add: retire_slot_drain_def upd_heap_def Let_def current_slot_def)

lemma upd_heap_fields [simp]:
  "pa_epoch (upd_heap f p) = pa_epoch p" "pa_fx_ready (upd_heap f p) = pa_fx_ready p" "pa_heap (upd_heap f p) = f (pa_heap p)"
  "pa_retire (upd_heap f p) = pa_retire p" "current_slot (upd_heap f p) = current_slot p" "slot_mset (upd_heap f p) k = slot_mset p k"
  "ring_mset (upd_heap f p) = ring_mset p"
  by (simp_all add: upd_heap_def)

lemma ring_inv_append:
  assumes "ring_inv (M + item_mset it) p" and "k = current_slot p"
    and "pa_heap q = pa_heap p" "pa_epoch q = pa_epoch p" "pa_fx_ready q = pa_fx_ready p"
    and "pa_retire q = (pa_retire p)[k := s]" and "rs_items s = rs_items (pa_retire p ! k) @ [it]"
  shows "ring_inv M q"
proof -
  let ?p = "p\<lparr>pa_retire := (pa_retire p)[k := s]\<rparr>"
  have len: "length (pa_retire p) = 3" using assms(1) by (simp add: ring_inv_def ring_ok_def)
  have k: "k < 3" unfolding assms(2) by simp
  have same: "current_slot ?p = k" using assms(2) by (simp add: current_slot_def)
  have slot: "slot_mset ?p j = (if j = k then slot_mset p j + item_mset it else slot_mset p j)" for j
    using slot_update [OF len k, of s] assms(7) by (simp add: slot_mset_def)
  have other: "(k + 1) mod 3 \<noteq> k" "(k + 2) mod 3 \<noteq> k" using k by presburger+
  have "ring_mset ?p = ring_mset p + item_mset it"
    unfolding ring_split [OF k] slot using other by (simp add: ac_simps)
  then have "heap_owns (pa_heap p) (M + ring_mset ?p)" using assms(1) by (simp add: ring_inv_def ac_simps)
  moreover have "ring_ok ?p" using assms(1) len other assms(2) [symmetric] unfolding ring_inv_def ring_ok_def same slot by simp
  ultimately have "ring_inv M ?p" by (simp add: ring_inv_def)
  moreover have "ring_inv M q = ring_inv M ?p" using assms(3-6) by (intro ring_inv_cong) simp_all
  ultimately show ?thesis by simp
qed

lemma ring_inv_push:
  assumes "ring_inv (M + item_mset it) p"
  shows "ring_inv M (retire_slot_push E (current_slot p) it p)"
proof -
  let ?k = "current_slot p"
  define q where "q = (if POPUP_RETIRE_SLOT_MAX \<le> length (rs_items (pa_retire p ! ?k))
    then retire_slot_drain ?k (upd_heap flux_device_wait_idle p) else p)"
  have q: "ring_inv (M + item_mset it) q" "current_slot q = ?k"
    using ring_inv_drain(1) [OF ring_inv_idle [OF assms], of ?k] assms by (simp_all add: q_def)
  let ?s = "pa_retire q ! ?k"
  have push: "retire_slot_push E ?k it p =
      (if length (rs_items ?s) = rs_cap ?s \<and> \<not> pe_retire_alloc E
       then upd_heap (retire_item_free it) (upd_heap flux_device_wait_idle q)
       else q\<lparr>pa_retire := (pa_retire q)[?k := ?s\<lparr>rs_items := rs_items ?s @ [it],
         rs_cap := if length (rs_items ?s) = rs_cap ?s
           then (if POPUP_RETIRE_SLOT_MAX < (if rs_cap ?s \<noteq> 0 then rs_cap ?s * 2 else 4) then POPUP_RETIRE_SLOT_MAX
                 else if rs_cap ?s \<noteq> 0 then rs_cap ?s * 2 else 4) else rs_cap ?s\<rparr>]\<rparr>)"
    by (simp add: retire_slot_push_def Let_def q_def [symmetric])
  show ?thesis
  proof (cases "length (rs_items ?s) = rs_cap ?s \<and> \<not> pe_retire_alloc E")
    case True
    have "heap_owns (pa_heap (upd_heap flux_device_wait_idle q)) ((M + ring_mset q) + item_mset it)"
      using ring_inv_idle [OF q(1)] by (simp add: ring_inv_def ac_simps)
    then have "heap_owns (retire_item_free it (pa_heap (upd_heap flux_device_wait_idle q))) (M + ring_mset q)"
      by (rule item_free_owned) simp
    then have "ring_inv M ((upd_heap flux_device_wait_idle q)\<lparr>pa_heap := retire_item_free it (pa_heap (upd_heap flux_device_wait_idle q))\<rparr>)"
      by (intro ring_inv_heap [OF ring_inv_idle [OF q(1)]]) simp_all
    then show ?thesis unfolding push using True by (simp add: upd_heap_def)
  next
    case False
    then show ?thesis unfolding push by (simp only: if_False) (rule ring_inv_append [OF q(1)], simp_all add: q(2), simp_all?)
  qed
qed

lemma ring_inv_retire_layout: "ring_inv (M + ptr_mset l) p \<Longrightarrow> ring_inv M (popup_retire_layout E l p)"
proof (cases l)
  case (Some i)
  assume p: "ring_inv (M + ptr_mset l) p"
  show ?thesis
  proof (cases "pa_fx_ready p")
    case True
    then show ?thesis using p ring_inv_push [of M "RetireLayout i"] Some by (simp add: popup_retire_layout_def item_mset_def)
  next
    case False
    then have "in_flight (pa_heap p) = {}" using p by (simp add: ring_inv_def ring_ok_def in_flight_def)
    moreover have "heap_owns (pa_heap p) ((M + ring_mset p) + ptr_mset l)" using p by (simp add: ring_inv_def ac_simps)
    ultimately have "heap_owns (typio_flux_layout_free l (pa_heap p)) (M + ring_mset p)" by (intro free_owned) simp_all
    then show ?thesis using ring_inv_heap [OF p] False Some by (simp add: popup_retire_layout_def upd_heap_def)
  qed
qed (simp add: popup_retire_layout_def)

lemma ring_inv_retire_geometry:
  assumes "ring_inv (M + (case g of None \<Rightarrow> {#} | Some g \<Rightarrow> geometry_mset g)) p"
  shows "ring_inv M (retire_geometry E g p)"
proof (cases g)
  case None
  then show ?thesis using assms by (simp add: retire_geometry_def)
next
  case (Some g')
  show ?thesis
  proof (cases "pa_fx_ready p")
    case True
    then show ?thesis using assms ring_inv_push [of M "RetireGeometry g'"] Some by (simp add: retire_geometry_def item_mset_def)
  next
    case False
    then have "in_flight (pa_heap p) = {}" using assms by (simp add: ring_inv_def ring_ok_def in_flight_def)
    moreover have "heap_owns (pa_heap p) ((M + ring_mset p) + geometry_mset g')" using assms Some by (simp add: ring_inv_def ac_simps)
    ultimately have "heap_owns (popup_geometry_free g' (pa_heap p)) (M + ring_mset p)" by (intro geometry_free_owned) simp_all
    then show ?thesis using ring_inv_heap [OF assms] False Some by (simp add: retire_geometry_def upd_heap_def)
  qed
qed

subsection \<open>Creating and drawing\<close>

lemma ring_inv_create:
  assumes "ring_inv M p" and "create_layout E t f c p = (l, p')"
  shows "ring_inv (M + ptr_mset l) p'" and "\<forall>i \<in># ptr_mset l. lh_live (pa_heap p) i = None"
    and "set_mset (ptr_mset l) \<inter> in_flight (pa_heap p') = {}"
proof -
  have h: "heap_owns (pa_heap p) (M + ring_mset p)" using assms(1) by (simp add: ring_inv_def)
  have fresh: "lh_live (pa_heap p) (lh_next (pa_heap p)) = None" "lh_next (pa_heap p) \<notin> in_flight (pa_heap p)"
    using h by (auto simp: heap_owns_def)
  show "\<forall>i \<in># ptr_mset l. lh_live (pa_heap p) i = None"
    using assms(2) fresh by (auto simp: create_layout_def Let_def split: option.splits)
  show "set_mset (ptr_mset l) \<inter> in_flight (pa_heap p') = {}"
    using assms(2) fresh by (auto simp: create_layout_def Let_def in_flight_def split: option.splits)
  show "ring_inv (M + ptr_mset l) p'"
  proof (cases "pe_shape E t f c")
    case None
    then show ?thesis using assms by (simp add: create_layout_def)
  next
    case (Some sh)
    let ?h = "pa_heap p" let ?i = "lh_next ?h"
    let ?h' = "?h\<lparr>lh_next := ?i + 1, lh_live := (lh_live ?h)(?i \<mapsto> \<lparr>tl_shape = sh, tl_drawn = False\<rparr>)\<rparr>"
    have "count (M + ring_mset p + {#?i#}) j = (if lh_live ?h' j = None then 0 else 1)" for j
      using h fresh(1) unfolding heap_owns_def by (cases "j = ?i") auto
    then have "heap_owns ?h' (M + {#?i#} + ring_mset p)"
      using h unfolding heap_owns_def by (auto simp: ac_simps less_Suc_eq in_flight_def)
    moreover have "l = Some ?i" "p' = p\<lparr>pa_heap := ?h'\<rparr>" using assms(2) Some by (auto simp: create_layout_def Let_def)
    ultimately show ?thesis using ring_inv_heap [OF assms(1)] by simp
  qed
qed

lemma draw_owned: "heap_owns h M \<Longrightarrow> i \<in># M \<Longrightarrow> heap_owns (typio_flux_fill_layout (Some i) h) M"
  using heap_owns_live [of h M i]
  by (auto simp: typio_flux_fill_layout_def heap_owns_def in_flight_def split: if_splits)

lemma draw_fields [simp]: "lh_gpu (typio_flux_fill_layout l h) = lh_gpu h"
  by (simp add: typio_flux_fill_layout_def split: option.split)

lemma draws_owned: "heap_owns h M \<Longrightarrow> set is \<subseteq> set_mset M \<Longrightarrow> heap_owns (fold (\<lambda>i. typio_flux_fill_layout (Some i)) is h) M"
  by (induction "is" arbitrary: h) (simp_all add: draw_owned)

lemma draws_fields [simp]: "lh_gpu (fold (\<lambda>i. typio_flux_fill_layout (Some i)) is h) = lh_gpu h"
  by (induction "is" arbitrary: h) simp_all

lemma submit_owned: "heap_owns h M \<Longrightarrow> set is \<subseteq> set_mset M \<Longrightarrow> heap_owns (flux_frame_submit is h) M"
proof -
  assume h: "heap_owns h M" and "set is \<subseteq> set_mset M"
  then have "\<forall>i \<in> set is. i < lh_next h" using heap_owns_live [OF h] by (auto simp: heap_owns_def)
  moreover have "in_flight (flux_frame_submit is h) \<subseteq> set is \<union> in_flight h"
    using set_take_subset [of 1 "lh_gpu h"] by (auto simp: flux_frame_submit_def in_flight_def)
  ultimately show ?thesis using h by (auto simp: heap_owns_def flux_frame_submit_def subset_iff)
qed

end
