(* ===== verification/Panel_Cache.thy ===== *)
theory Panel_Cache
  imports Panel_Ring
begin

section \<open>The layout cache keeps what a geometry uses\<close>

text \<open>
  A computation of a geometry makes at most 32 lookups in a cache of 128 entries, and the victim of
  a lookup is the entry that was used least recently. So no lookup evicts an entry that an earlier
  one of the same computation has used, and the rows of the geometry own allocated layouts. A tick
  that wraps around would end this; \<open>unat (pa_tick p) + 32 < 2 ^ 32\<close> rules it out.
\<close>

subsection \<open>Owned layouts of the cache\<close>

definition entry_mset :: "PopupLayoutEntry \<Rightarrow> nat multiset" where
  "entry_mset e = ptr_mset (le_layout e) + ptr_mset (le_label_layout e)"

definition entries_mset :: "PopupLayoutEntry list \<Rightarrow> nat multiset" where
  "entries_mset es = (\<Sum>e\<leftarrow>es. entry_mset e)"

definition weight :: "PopupLayoutEntry \<Rightarrow> nat" where
  "weight e = (if le_layout e = None then 0 else unat (le_lru_tick e))"

text \<open>The layouts of the entries used after a tick, and the number of these entries.\<close>

definition hot :: "nat \<Rightarrow> PopupLayoutEntry list \<Rightarrow> nat set" where
  "hot t es = (\<Union>e \<in> {e \<in> set es. t < weight e}. set_mset (entry_mset e))"

definition hot_count :: "nat \<Rightarrow> PopupLayoutEntry list \<Rightarrow> nat" where
  "hot_count t es = length (filter (\<lambda>e. t < weight e) es)"

definition cache_ok :: "panel \<Rightarrow> bool" where
  "cache_ok p \<longleftrightarrow>
     length (pa_entries p) = POPUP_LAYOUT_CACHE_CAP \<and> pa_evict_cb p \<and>
     (\<forall>e \<in> set (pa_entries p). (le_layout e = None \<longrightarrow> le_label_layout e = None) \<and> le_lru_tick e \<le> pa_tick p)"

definition shapes :: "panel_env \<Rightarrow> bool" where
  "shapes E \<longleftrightarrow> (\<forall>t f c. pe_shape E t f c \<noteq> None)"

lemma sum_list_update:
  fixes f :: "'a \<Rightarrow> 'b::comm_monoid_add"
  shows "i < length xs \<Longrightarrow> (\<Sum>x\<leftarrow>xs[i := y]. f x) + f (xs ! i) = (\<Sum>x\<leftarrow>xs. f x) + f y"
proof (induction xs arbitrary: i)
  case (Cons x xs)
  show ?case
  proof (cases i)
    case (Suc j)
    then have "(\<Sum>x\<leftarrow>xs[j := y]. f x) + f (xs ! j) = (\<Sum>x\<leftarrow>xs. f x) + f y" using Cons by simp
    then show ?thesis using Suc by (simp add: add.assoc)
  qed (simp add: ac_simps)
qed simp

lemma entries_mset_update:
  "i < length es \<Longrightarrow> entries_mset (es[i := e]) + entry_mset (es ! i) = entries_mset es + entry_mset e"
  unfolding entries_mset_def by (rule sum_list_update)

lemma entry_in_entries: "e \<in> set es \<Longrightarrow> set_mset (entry_mset e) \<subseteq> set_mset (entries_mset es)"
  by (induction es) (auto simp: entries_mset_def)

lemma hot_in_entries: "hot t es \<subseteq> set_mset (entries_mset es)"
  using entry_in_entries by (fastforce simp: hot_def)

lemma hot_count_update: "hot_count t (es[i := e]) \<le> hot_count t es + 1"
proof (induction es arbitrary: i)
  case (Cons x es)
  show ?case
  proof (cases i)
    case (Suc j)
    then show ?thesis using Cons [of j] by (simp add: hot_count_def)
  qed (simp add: hot_count_def)
qed (simp add: hot_count_def)

lemma hot_update:
  assumes "i < length es" and "t < weight (es ! i) \<longrightarrow> set_mset (entry_mset (es ! i)) \<subseteq> set_mset (entry_mset e)" and "t < weight e"
  shows "hot t es \<subseteq> hot t (es[i := e])" and "set_mset (entry_mset e) \<subseteq> hot t (es[i := e])"
proof -
  show new: "set_mset (entry_mset e) \<subseteq> hot t (es[i := e])"
    using assms(1,3) set_update_memI [of i es e] by (auto simp: hot_def)
  show "hot t es \<subseteq> hot t (es[i := e])"
  proof
    fix l
    assume "l \<in> hot t es"
    then obtain j where j: "j < length es" "t < weight (es ! j)" "l \<in># entry_mset (es ! j)"
      by (auto simp: hot_def in_set_conv_nth)
    show "l \<in> hot t (es[i := e])"
    proof (cases "j = i")
      case True
      then show ?thesis using assms(2) j new by auto
    next
      case False
      then have "es ! j \<in> set (es[i := e])" using j(1) by (metis length_list_update nth_list_update_neq nth_mem)
      then show ?thesis using j by (auto simp: hot_def)
    qed
  qed
qed

subsection \<open>The victim\<close>

lemma lru_scan_hit: "lru_scan hit i acc es = Inl j \<Longrightarrow> i \<le> j \<and> j < i + length es \<and> hit (es ! (j - i))"
proof (induction hit i acc es rule: lru_scan.induct)
  case (2 hit i idx m e es)
  then show ?case by (auto split: if_splits simp: nth_Cons' Suc_diff_Suc)
qed simp

lemma lru_scan_victim:
  "lru_scan hit i (idx, m) es = Inr v \<Longrightarrow>
     (v = idx \<and> (\<forall>e \<in> set es. unat m \<le> weight e)) \<or>
     (i \<le> v \<and> v < i + length es \<and> weight (es ! (v - i)) \<le> unat m \<and> (\<forall>e \<in> set es. weight (es ! (v - i)) \<le> weight e))"
proof (induction hit i "(idx, m)" es arbitrary: idx m rule: lru_scan.induct)
  case (2 hit i idx m e es)
  let ?m = "if le_layout e \<noteq> None then le_lru_tick e else 0"
  have no_hit: "\<not> hit e" using 2(3) by auto
  show ?case
  proof (cases "le_layout e = None \<or> le_lru_tick e < m")
    case True
    then have le: "unat ?m = weight e" "weight e \<le> unat m" by (auto simp: weight_def word_less_nat_alt)
    have "lru_scan hit (i + 1) (i, ?m) es = Inr v" using 2(3) no_hit True by simp
    from 2(1) [OF no_hit True this]
    show ?thesis
    proof
      assume "v = i \<and> (\<forall>e \<in> set es. unat ?m \<le> weight e)"
      then show ?thesis using le by auto
    next
      assume v: "i + 1 \<le> v \<and> v < i + 1 + length es \<and> weight (es ! (v - (i + 1))) \<le> unat ?m \<and>
        (\<forall>e \<in> set es. weight (es ! (v - (i + 1))) \<le> weight e)"
      then have "(e # es) ! (v - i) = es ! (v - (i + 1))" by (simp add: nth_Cons')
      then show ?thesis using v le by auto
    qed
  next
    case False
    then have le: "unat m \<le> weight e" by (auto simp: weight_def word_le_nat_alt linorder_not_less)
    have "lru_scan hit (i + 1) (idx, m) es = Inr v" using 2(3) no_hit False by simp
    from 2(2) [OF no_hit False this]
    show ?thesis
    proof
      assume v: "i + 1 \<le> v \<and> v < i + 1 + length es \<and> weight (es ! (v - (i + 1))) \<le> unat m \<and>
        (\<forall>e \<in> set es. weight (es ! (v - (i + 1))) \<le> weight e)"
      then have "(e # es) ! (v - i) = es ! (v - (i + 1))" by (simp add: nth_Cons')
      then show ?thesis using v le by auto
    qed (use le in auto)
  qed
qed simp

lemma weight_bound: "weight e \<le> unat (- 1 :: u32)"
  using word_n1_ge [of "le_lru_tick e"] by (simp add: weight_def word_le_nat_alt del: unat_minus_one)

lemma lru_victim:
  assumes "lru_scan hit 0 (0, - 1) es = Inr v" and "hot_count t es < length es"
  shows "v < length es" and "weight (es ! v) \<le> t"
proof -
  have least: "v < length es \<and> (\<forall>e \<in> set es. weight (es ! v) \<le> weight e)"
  proof (cases es)
    case Nil
    then show ?thesis using assms(2) by (simp add: hot_count_def)
  next
    case (Cons e es')
    then have "weight (es ! 0) \<le> unat (- 1 :: u32)" using weight_bound by blast
    then show ?thesis using lru_scan_victim [OF assms(1)] Cons by (auto intro: order_trans)
  qed
  obtain e where "e \<in> set es" "weight e \<le> t"
  proof (rule ccontr)
    assume "\<not> thesis"
    then have "\<forall>e \<in> set es. t < weight e" using that by (meson linorder_not_less)
    then have "hot_count t es = length es" by (simp add: hot_count_def)
    with assms(2) show False by simp
  qed
  with least show "v < length es" "weight (es ! v) \<le> t" by (auto intro: order_trans)
qed

subsection \<open>Frames\<close>

text \<open>What creating, freeing and retiring layouts leaves alone.\<close>

abbreviation same_frame :: "panel \<Rightarrow> panel \<Rightarrow> bool" where
  "same_frame q p \<equiv>
     pa_entries q = pa_entries p \<and> pa_tick q = pa_tick p \<and> pa_evict_cb q = pa_evict_cb p \<and> pa_geom q = pa_geom p \<and>
     pa_epoch q = pa_epoch p \<and> pa_fx_ready q = pa_fx_ready p \<and> pa_visible q = pa_visible p \<and> pa_selected q = pa_selected p \<and>
     pa_config q = pa_config p \<and> pa_theme_cache q = pa_theme_cache p \<and> pa_status_text q = pa_status_text p \<and>
     pa_present_retry q = pa_present_retry p \<and> pa_out q = pa_out p \<and> pa_viewport q = pa_viewport p \<and>
     pa_entered_outputs q = pa_entered_outputs p \<and> pa_fractional_scale_120 q = pa_fractional_scale_120 p \<and>
     pa_preferred_buffer_scale q = pa_preferred_buffer_scale p"

lemma upd_heap_frame: "same_frame (upd_heap f p) p"
  by (simp add: upd_heap_def)

lemma drain_frame: "same_frame (retire_slot_drain k p) p"
  by (simp add: retire_slot_drain_def upd_heap_def Let_def)

lemma push_frame: "same_frame (retire_slot_push E k it p) p"
  unfolding retire_slot_push_def Let_def
  by (cases "POPUP_RETIRE_SLOT_MAX \<le> length (rs_items (pa_retire p ! k))") (simp_all add: retire_slot_drain_def upd_heap_def Let_def)

lemma retire_layout_frame: "same_frame (popup_retire_layout E l p) p"
  using push_frame [of E "current_slot p" _ p] upd_heap_frame [of _ p]
  by (simp add: popup_retire_layout_def split: option.split)

lemma retire_geometry_frame: "same_frame (retire_geometry E g p) p"
  using push_frame [of E "current_slot p" _ p] upd_heap_frame [of _ p]
  by (simp add: retire_geometry_def split: option.split)

lemma create_frame: "create_layout E t f c p = (l, p') \<Longrightarrow> same_frame p' p"
  by (auto simp: create_layout_def Let_def split: option.splits)

lemma evict_frame: "same_frame (evict E l p) p"
  using retire_layout_frame [of E l p] upd_heap_frame [of _ p] by (simp add: evict_def free_layout_def)

subsection \<open>A lookup\<close>

lemma evict_owned: "ring_inv (M + ptr_mset l) p \<Longrightarrow> pa_evict_cb p \<Longrightarrow> ring_inv M (evict E l p)"
  using ring_inv_retire_layout [of M l p E] by (cases l) (simp_all add: evict_def)

lemma ring_inv_frame:
  assumes "ring_inv M p"
  shows "ring_inv M (p\<lparr>pa_entries := es\<rparr>)" and "ring_inv M (p\<lparr>pa_tick := t\<rparr>)" and "ring_inv M (p\<lparr>pa_geom := g\<rparr>)"
  using assms ring_inv_cong [of "p\<lparr>pa_entries := es\<rparr>" p] ring_inv_cong [of "p\<lparr>pa_tick := t\<rparr>" p] ring_inv_cong [of "p\<lparr>pa_geom := g\<rparr>" p]
  by simp_all

lemma create_some: "shapes E \<Longrightarrow> create_layout E t f c p = (l, p') \<Longrightarrow> l \<noteq> None"
proof -
  assume "shapes E" and create: "create_layout E t f c p = (l, p')"
  then have "pe_shape E t f c \<noteq> None" unfolding shapes_def by blast
  then obtain sh where "pe_shape E t f c = Some sh" by blast
  with create show ?thesis by (auto simp: create_layout_def Let_def)
qed

lemma fill_owned:
  assumes "ring_inv (entries_mset (pa_entries p) + X) p" and "pa_evict_cb p" and "idx < length (pa_entries p)"
    and "lru_fill E idx key lcp tcp label text lf f lc tc p = (e, p')"
  shows "ring_inv (entries_mset (pa_entries p') + X) p'" and "pa_entries p' = (pa_entries p)[idx := e]"
    and "same_frame (p'\<lparr>pa_entries := pa_entries p\<rparr>) p" and "le_lru_tick e = pa_tick p"
    and "shapes E \<Longrightarrow> le_layout e \<noteq> None"
proof -
  let ?v = "pa_entries p ! idx"
  define p1 where "p1 = evict E (le_layout ?v) p"
  define p2 where "p2 = evict E (le_label_layout ?v) p1"
  obtain ll p3 where p3: "create_layout E label lf lc p2 = (ll, p3)" by fastforce
  obtain l p4 where p4: "create_layout E text f tc p3 = (l, p4)" by fastforce
  have fr1: "same_frame p1 p" unfolding p1_def by (rule evict_frame)
  have fr2: "same_frame p2 p1" unfolding p2_def by (rule evict_frame)
  have fr4: "same_frame p4 p" using fr1 fr2 create_frame [OF p3] create_frame [OF p4] by simp
  have e: "le_layout e = l" "le_label_layout e = ll" "le_lru_tick e = pa_tick p" "p' = p4\<lparr>pa_entries := (pa_entries p)[idx := e]\<rparr>"
    using assms(4) p3 p4 fr4 unfolding lru_fill_def Let_def p1_def [symmetric] p2_def [symmetric] by auto
  define M where "M = entries_mset ((pa_entries p)[idx := empty_entry]) + X"
  have "entries_mset (pa_entries p) + X = M + ptr_mset (le_label_layout ?v) + ptr_mset (le_layout ?v)"
    using entries_mset_update [OF assms(3), of empty_entry] by (simp add: M_def entry_mset_def empty_entry_def ac_simps)
  then have "ring_inv (M + ptr_mset (le_label_layout ?v)) p1"
    unfolding p1_def using assms(1,2) by (intro evict_owned) simp_all
  then have "ring_inv M p2" unfolding p2_def using fr1 assms(2) by (intro evict_owned) simp_all
  then have "ring_inv (M + ptr_mset ll + ptr_mset l) p4"
    using ring_inv_create(1) [OF _ p3] ring_inv_create(1) [OF _ p4] by blast
  moreover have "M + ptr_mset ll + ptr_mset l = entries_mset ((pa_entries p)[idx := e]) + X"
    using entries_mset_update [of idx "(pa_entries p)[idx := empty_entry]" e] assms(3) e
    by (simp add: M_def entry_mset_def empty_entry_def ac_simps)
  ultimately show "ring_inv (entries_mset (pa_entries p') + X) p'" using ring_inv_frame(1) e(4) by simp
  show "pa_entries p' = (pa_entries p)[idx := e]" "same_frame (p'\<lparr>pa_entries := pa_entries p\<rparr>) p" "le_lru_tick e = pa_tick p"
    using e fr4 by simp_all
  show "le_layout e \<noteq> None" if "shapes E"
    using create_some [OF that p4] e(1) by simp
qed

lemma lookup_owned:
  assumes "ring_inv (entries_mset (pa_entries p) + X) p" and "cache_ok p" and "shapes E"
    and "unat (pa_tick p) + 1 < 2 ^ 32" and "t \<le> unat (pa_tick p)" and "hot_count t (pa_entries p) < POPUP_LAYOUT_CACHE_CAP"
    and "lru_get_or_create E label text lf f lc tc p = (e, p')"
  shows "ring_inv (entries_mset (pa_entries p') + X) p'" and "cache_ok p'" and "pa_tick p' = pa_tick p + 1"
    and "hot t (pa_entries p) \<subseteq> hot t (pa_entries p')" and "set_mset (entry_mset e) \<subseteq> hot t (pa_entries p')"
    and "hot_count t (pa_entries p') \<le> hot_count t (pa_entries p) + 1"
    and "same_frame (p'\<lparr>pa_entries := pa_entries p, pa_tick := pa_tick p\<rparr>) p"
proof -
  let ?p = "p\<lparr>pa_tick := pa_tick p + 1\<rparr>"
  let ?lcp = "pack_color E lc" let ?tcp = "pack_color E tc"
  let ?key = "layout_cache_key label text lf f ?lcp ?tcp"
  let ?hit = "\<lambda>e. entry_matches e ?key ?lcp ?tcp label text lf f"
  have tick: "unat (pa_tick p + 1) = unat (pa_tick p) + 1" "pa_tick p \<le> pa_tick p + 1"
    using assms(4) by (simp_all add: unat_word_ariths word_le_nat_alt)
  have len: "length (pa_entries p) = POPUP_LAYOUT_CACHE_CAP" "pa_evict_cb p" using assms(2) by (simp_all add: cache_ok_def)
  have old: "\<forall>e \<in> set (pa_entries p). (le_layout e = None \<longrightarrow> le_label_layout e = None) \<and> le_lru_tick e \<le> pa_tick p + 1"
    using assms(2) tick(2) by (auto simp: cache_ok_def)
  have rinv: "ring_inv (entries_mset (pa_entries ?p) + X) ?p" using assms(1) ring_inv_frame(2) by simp
  obtain i where i: "i < length (pa_entries p)" "pa_entries p' = (pa_entries p)[i := e]" "le_lru_tick e = pa_tick p + 1" "le_layout e \<noteq> None"
    "ring_inv (entries_mset (pa_entries p') + X) p'" "same_frame (p'\<lparr>pa_entries := pa_entries p, pa_tick := pa_tick p\<rparr>) p"
    "pa_tick p' = pa_tick p + 1" "t < weight (pa_entries p ! i) \<longrightarrow> set_mset (entry_mset (pa_entries p ! i)) \<subseteq> set_mset (entry_mset e)"
  proof (cases "lru_scan ?hit 0 (0, - 1) (pa_entries p)")
    case (Inl j)
    then have j: "j < length (pa_entries p)" "?hit (pa_entries p ! j)" using lru_scan_hit [OF Inl] by simp_all
    have e: "e = (pa_entries p ! j)\<lparr>le_lru_tick := pa_tick p + 1\<rparr>" "p' = ?p\<lparr>pa_entries := (pa_entries p)[j := e]\<rparr>"
      using assms(7) Inl by (auto simp: lru_get_or_create_def Let_def)
    have same: "entry_mset e = entry_mset (pa_entries p ! j)" by (simp add: e(1) entry_mset_def)
    then have "entries_mset ((pa_entries p)[j := e]) = entries_mset (pa_entries p)"
      using entries_mset_update [OF j(1), of e] by simp
    then have "ring_inv (entries_mset (pa_entries p') + X) p'" using ring_inv_frame(1) [OF rinv] e(2) by simp
    then show ?thesis using that [of j] j e same by (simp add: entry_matches_def)
  next
    case (Inr v)
    have fill: "lru_fill E v ?key ?lcp ?tcp label text lf f lc tc ?p = (e, p')"
      using assms(7) Inr by (simp add: lru_get_or_create_def Let_def)
    note v = lru_victim [OF Inr, of t] assms(6) len(1)
    show ?thesis
      using that [of v] fill_owned [OF rinv _ _ fill] v len(2) assms(3) by simp
  qed
  have w: "t < weight e" using i(3,4) tick(1) assms(5) by (simp add: weight_def)
  show "ring_inv (entries_mset (pa_entries p') + X) p'" "pa_tick p' = pa_tick p + 1"
    "same_frame (p'\<lparr>pa_entries := pa_entries p, pa_tick := pa_tick p\<rparr>) p" by (fact i)+
  show "hot t (pa_entries p) \<subseteq> hot t (pa_entries p')" "set_mset (entry_mset e) \<subseteq> hot t (pa_entries p')"
    unfolding i(2) by (rule hot_update [OF i(1) i(8) w])+
  show "hot_count t (pa_entries p') \<le> hot_count t (pa_entries p) + 1" unfolding i(2) by (rule hot_count_update)
  have "\<forall>e' \<in> set (pa_entries p'). (le_layout e' = None \<longrightarrow> le_label_layout e' = None) \<and> le_lru_tick e' \<le> pa_tick p + 1"
    using old i(3,4) set_update_subset_insert [of "pa_entries p" i e] unfolding i(2) by auto
  moreover have "length (pa_entries p') = POPUP_LAYOUT_CACHE_CAP" "pa_evict_cb p'" using i(2,6) len by auto
  ultimately show "cache_ok p'" using i(7) by (simp add: cache_ok_def)
qed

end
