(* ===== verification/Panel_Positions.thy ===== *)
theory Panel_Positions
  imports Panel_Cache
begin

section \<open>Positions in the candidate panel\<close>

text \<open>
  Where the rows, the preedit and the mode label of a computed geometry lie. The positions are
  integers converted to \<^verbatim>\<open>float\<close>, which has 24 bits of precision: \<open>exact_ints\<close>. So everything
  here is for panels of at most \<open>2 ^ 24\<close> pixels.
\<close>

definition exact_ints :: "panel_env \<Rightarrow> bool" where
  "exact_ints E \<longleftrightarrow> (\<forall>n. \<bar>n\<bar> \<le> 2 ^ 24 \<longrightarrow> pe_fl E (of_int n) = of_int n)"

lemma exact_int: "exact_ints E \<Longrightarrow> 0 \<le> n \<Longrightarrow> n \<le> 2 ^ 24 \<Longrightarrow> pe_fl E (of_int n) = of_int n"
  by (simp add: exact_ints_def)

text \<open>A row with sizes that are not negative, as \<open>make_row\<close> builds them.\<close>

definition row_sized :: "PopupRow \<Rightarrow> bool" where
  "row_sized r \<longleftrightarrow> 0 \<le> pr_label_w r \<and> 0 \<le> pr_text_w r \<and> 0 \<le> pr_text_h r \<and> 0 \<le> pr_h r \<and>
     pr_w r = pr_label_w r + POPUP_LABEL_GAP + pr_text_w r + POPUP_ROW_PAD_X * 2"

definition sized :: "PopupGeometry \<Rightarrow> bool" where
  "sized g \<longleftrightarrow> list_all row_sized (ge_rows g) \<and> 0 \<le> ge_pre_w g \<and> 0 \<le> ge_pre_h g \<and> 0 \<le> ge_mode_w g \<and> 0 \<le> ge_mode_h g"

text \<open>A row lies in a box, its label and its text lie in the row, in this order.\<close>

definition row_inside :: "int \<Rightarrow> int \<Rightarrow> int \<Rightarrow> int \<Rightarrow> PopupRow \<Rightarrow> bool" where
  "row_inside x0 y0 x1 y1 r \<longleftrightarrow>
     x0 \<le> pr_x r \<and> pr_x r + pr_w r \<le> x1 \<and> y0 \<le> pr_y r \<and> pr_y r + pr_h r \<le> y1 \<and>
     rat_of_int (pr_x r) \<le> pr_label_x r \<and> pr_label_x r + rat_of_int (pr_label_w r) \<le> pr_text_x r \<and>
     pr_text_x r + rat_of_int (pr_text_w r) \<le> rat_of_int (pr_x r + pr_w r)"

subsection \<open>One below the other\<close>

text \<open>Two rows that follow each other do not overlap.\<close>

definition below :: "PopupRow \<Rightarrow> PopupRow \<Rightarrow> bool" where
  "below r r' \<longleftrightarrow> pr_y r + pr_h r \<le> pr_y r'"

definition right_of :: "PopupRow \<Rightarrow> PopupRow \<Rightarrow> bool" where
  "right_of r r' \<longleftrightarrow> pr_x r + pr_w r \<le> pr_x r'"

lemma rows_height_Cons: "rows_height (r # rs) = pr_h r + rows_height rs"
  by (cases rs) (simp_all add: POPUP_ROW_GAP_def)

lemma rows_height_nonneg: "list_all row_sized rs \<Longrightarrow> 0 \<le> rows_height rs"
  by (induction rs) (simp_all add: rows_height_Cons row_sized_def)

lemma place_vertical_inside:
  assumes "exact_ints E" and "0 \<le> ho" and "0 \<le> m" and "W \<le> 2 ^ 24"
  shows "list_all row_sized rows \<Longrightarrow>
    \<forall>r \<in> set rows. pr_label_w r \<le> m \<and> POPUP_ROW_PAD_X + m + POPUP_LABEL_GAP + ho + pr_text_w r \<le> W - POPUP_PAD_X * 2 \<Longrightarrow>
    (\<forall>r \<in> set (place_vertical E W m ho y rows). row_inside POPUP_PAD_X y (W - POPUP_PAD_X) (y + rows_height rows) r) \<and>
    sorted_wrt below (place_vertical E W m ho y rows)"
proof (induction rows arbitrary: y)
  case Nil
  then show ?case by simp
next
  case (Cons r rows)
  have r: "row_sized r" "0 \<le> rows_height rows" using Cons.prems(1) rows_height_nonneg by simp_all
  have w: "pr_label_w r \<le> m" "POPUP_ROW_PAD_X + m + POPUP_LABEL_GAP + ho + pr_text_w r \<le> W - POPUP_PAD_X * 2" using Cons.prems(2) by simp_all
  have ih: "(\<forall>q \<in> set (place_vertical E W m ho (y + pr_h r) rows). row_inside POPUP_PAD_X (y + pr_h r) (W - POPUP_PAD_X) (y + pr_h r + rows_height rows) q) \<and>
      sorted_wrt below (place_vertical E W m ho (y + pr_h r) rows)"
    by (rule Cons.IH) (use Cons.prems in simp_all)
  have exact: "pe_fl E (of_int (POPUP_PAD_X + POPUP_ROW_PAD_X + ho)) = of_int (POPUP_PAD_X + POPUP_ROW_PAD_X + ho)"
    "pe_fl E (of_int (POPUP_PAD_X + POPUP_ROW_PAD_X + m + POPUP_LABEL_GAP + ho)) = of_int (POPUP_PAD_X + POPUP_ROW_PAD_X + m + POPUP_LABEL_GAP + ho)"
    using r(1) w assms by (auto intro!: exact_int [OF assms(1)] simp: row_sized_def const_defs simp del: of_int_add)
  define q where "q = hd (place_vertical E W m ho y (r # rows))"
  have q: "pr_x q = POPUP_PAD_X" "pr_y q = y" "pr_w q = W - POPUP_PAD_X * 2" "pr_h q = pr_h r" "pr_label_w q = pr_label_w r" "pr_text_w q = pr_text_w r"
    "pr_label_x q = of_int (POPUP_PAD_X + POPUP_ROW_PAD_X + ho)" "pr_text_x q = of_int (POPUP_PAD_X + POPUP_ROW_PAD_X + m + POPUP_LABEL_GAP + ho)"
    by (simp_all add: q_def exact del: of_int_add)
  have head: "row_inside POPUP_PAD_X y (W - POPUP_PAD_X) (y + pr_h r + rows_height rows) q" "pr_y q + pr_h q = y + pr_h r"
    using r w assms(2) unfolding row_inside_def q of_int_add [symmetric] of_int_le_iff by (simp_all add: row_sized_def const_defs)
  have rest: "place_vertical E W m ho y (r # rows) = q # place_vertical E W m ho (y + pr_h r) rows"
    by (simp add: q_def POPUP_ROW_GAP_def)
  have "row_inside POPUP_PAD_X y (W - POPUP_PAD_X) (y + pr_h r + rows_height rows) r'"
    if "row_inside POPUP_PAD_X (y + pr_h r) (W - POPUP_PAD_X) (y + pr_h r + rows_height rows) r'" for r'
    using that r(1) by (simp add: row_inside_def row_sized_def)
  moreover have "below q r'" if "row_inside POPUP_PAD_X (y + pr_h r) (W - POPUP_PAD_X) (y + pr_h r + rows_height rows) r'" for r'
    using that head(2) by (simp add: row_inside_def below_def)
  ultimately show ?case unfolding rest rows_height_Cons add.assoc [symmetric] using ih head(1) by simp
qed

lemma place_horizontal_inside:
  assumes "exact_ints E" and "R \<le> 2 ^ 24"
  shows "0 \<le> x \<Longrightarrow> list_all row_sized rows \<Longrightarrow> \<forall>r \<in> set rows. pr_h r \<le> H \<Longrightarrow>
    x + (\<Sum>r\<leftarrow>rows. pr_w r + POPUP_COL_GAP) \<le> R + POPUP_COL_GAP \<Longrightarrow>
    (\<forall>r \<in> set (place_horizontal E y x rows). row_inside x y R (y + H) r) \<and> sorted_wrt right_of (place_horizontal E y x rows)"
proof (induction rows arbitrary: x)
  case Nil
  then show ?case by simp
next
  case (Cons r rows)
  have r: "row_sized r" "pr_h r \<le> H" using Cons.prems by simp_all
  have nonneg: "0 \<le> (\<Sum>r\<leftarrow>rows. pr_w r + POPUP_COL_GAP)"
    using Cons.prems(2) by (intro sum_list_nonneg) (auto simp: list_all_iff row_sized_def const_defs)
  let ?x = "x + (pr_w r + POPUP_COL_GAP)"
  have "0 \<le> ?x" using Cons.prems(1) r(1) by (simp add: row_sized_def const_defs)
  then have ih: "(\<forall>q \<in> set (place_horizontal E y ?x rows). row_inside ?x y R (y + H) q) \<and> sorted_wrt right_of (place_horizontal E y ?x rows)"
    by (rule Cons.IH) (use Cons.prems in simp_all)
  have fits: "x + pr_w r \<le> R" using Cons.prems(4) nonneg by (simp add: const_defs)
  have exact: "pe_fl E (of_int (x + POPUP_ROW_PAD_X)) = of_int (x + POPUP_ROW_PAD_X)"
    "pe_fl E (of_int (x + POPUP_ROW_PAD_X + pr_label_w r + POPUP_LABEL_GAP)) = of_int (x + POPUP_ROW_PAD_X + pr_label_w r + POPUP_LABEL_GAP)"
    using Cons.prems(1) r(1) fits assms(2) by (auto intro!: exact_int [OF assms(1)] simp: row_sized_def const_defs simp del: of_int_add)
  define q where "q = hd (place_horizontal E y x (r # rows))"
  have q: "pr_x q = x" "pr_y q = y" "pr_w q = pr_w r" "pr_h q = pr_h r" "pr_label_w q = pr_label_w r" "pr_text_w q = pr_text_w r"
    "pr_label_x q = of_int (x + POPUP_ROW_PAD_X)" "pr_text_x q = of_int (x + POPUP_ROW_PAD_X + pr_label_w r + POPUP_LABEL_GAP)"
    by (simp_all add: q_def exact del: of_int_add)
  have head: "row_inside x y R (y + H) q" "pr_x q + pr_w q \<le> ?x"
    using r fits unfolding row_inside_def q of_int_add [symmetric] of_int_le_iff by (simp_all add: row_sized_def const_defs)
  have "row_inside x y R (y + H) r'" if "row_inside ?x y R (y + H) r'" for r'
    using that r(1) by (simp add: row_inside_def row_sized_def const_defs)
  moreover have "right_of q r'" if "row_inside ?x y R (y + H) r'" for r'
    using that head(2) by (simp add: row_inside_def right_of_def)
  moreover have "place_horizontal E y x (r # rows) = q # place_horizontal E y ?x rows" by (simp add: q_def)
  ultimately show ?case using ih head(1) by auto
qed

text \<open>The extent of the rows in one line: gaps between them, the greatest height.\<close>

lemma row_extent_bound:
  assumes "list_all row_sized rows" and "0 \<le> a"
  shows "fold (\<lambda>r (w, h). ((if 0 < w then w + POPUP_COL_GAP else w) + pr_w r, if h < pr_h r then pr_h r else h)) rows (a, b) =
    ((if a = 0 then 0 else a + POPUP_COL_GAP) + (\<Sum>r\<leftarrow>rows. pr_w r + POPUP_COL_GAP) - (if rows = [] \<and> a = 0 then 0 else POPUP_COL_GAP),
     fold (\<lambda>r h. if h < pr_h r then pr_h r else h) rows b)"
  using assms
proof (induction rows arbitrary: a b)
  case Nil
  then show ?case by simp
next
  case (Cons r rows)
  have pos: "0 < pr_w r" using Cons.prems by (simp add: row_sized_def const_defs)
  show ?case
    using Cons.IH [of "(if 0 < a then a + POPUP_COL_GAP else a) + pr_w r" "if b < pr_h r then pr_h r else b"] Cons.prems pos
    by (auto simp: const_defs split: if_splits)
qed

subsection \<open>The panel\<close>

text \<open>The lower end of the rows: the line above the mode label, or the padding of the panel.\<close>

definition rows_bottom :: "PopupGeometry \<Rightarrow> int" where
  "rows_bottom g = (if 0 \<le> ge_mode_divider_y g then ge_mode_divider_y g else ge_popup_h g - POPUP_PAD_Y)"

definition rows_begin :: "bool \<Rightarrow> PopupGeometry \<Rightarrow> int" where
  "rows_begin pre_used g = POPUP_PAD_Y + (if pre_used then ge_pre_h g + POPUP_SECTION_GAP else 0)"

lemma vertical_inside:
  assumes "exact_ints E" and "sized g" and "g' = compute_positions_vertical E pre_used g" and "ge_popup_w g' \<le> 2 ^ 24"
  shows "(\<forall>r \<in> set (ge_rows g'). row_inside POPUP_PAD_X (rows_begin pre_used g') (ge_popup_w g' - POPUP_PAD_X) (rows_bottom g') r) \<and>
    sorted_wrt below (ge_rows g')"
proof -
  let ?rows = "ge_rows g" let ?m = "max_label_width ?rows"
  let ?mode = "ge_mode_layout g \<noteq> None \<and> 0 < ge_mode_h g"
  let ?w = "vertical_row_w ?m"
  define cw where "cw = fold (\<lambda>r w. if w < ?w r then ?w r else w) ?rows (ge_pre_w g)"
  define cw' where "cw' = (if ?mode \<and> cw < ge_mode_w g then ge_mode_w g else cw)"
  define W where "W = (if cw' + POPUP_PAD_X * 2 < POPUP_MIN_WIDTH then POPUP_MIN_WIDTH else cw' + POPUP_PAD_X * 2)"
  define d where "d = (W - POPUP_PAD_X * 2 - (cw' - POPUP_ROW_PAD_X * 2)) div 2"
  define ho where "ho = (if d < 0 then 0 else d)"
  define y where "y = (if pre_used then POPUP_PAD_Y + (ge_pre_h g + POPUP_SECTION_GAP) else POPUP_PAD_Y)"
  define ch where "ch = (if pre_used then ge_pre_h g else 0) + rows_height ?rows"
  define ch' where "ch' = (if pre_used \<and> ?rows \<noteq> [] then ch + POPUP_SECTION_GAP else ch)"
  define ch'' where "ch'' = (if ?mode then ch' + (POPUP_SECTION_GAP + ge_mode_h g) else ch')"
  have "compute_positions_vertical E pre_used g =
     (let g = g\<lparr>ge_popup_w := W, ge_popup_h := ch'' + POPUP_PAD_Y * 2, ge_rows := place_vertical E W ?m ho y ?rows,
                ge_pre_x := of_int POPUP_PAD_X, ge_pre_y := of_int POPUP_PAD_Y\<rparr>
      in if ?mode
         then g\<lparr>ge_mode_x := pe_fl E (of_int (W - POPUP_PAD_X - ge_mode_w g)),
                ge_mode_divider_y := (ch'' + POPUP_PAD_Y * 2) - POPUP_PAD_Y - ge_mode_h g - POPUP_ROW_PAD_Y,
                ge_mode_y := pe_fl E (of_int ((ch'' + POPUP_PAD_Y * 2) - POPUP_PAD_Y - ge_mode_h g))\<rparr>
         else g\<lparr>ge_mode_divider_y := -1\<rparr>)"
    unfolding compute_positions_vertical_def Let_def cw_def cw'_def W_def d_def ho_def y_def ch_def ch'_def ch''_def
    by (simp only: PopupGeometry.simps)
  then have g': "ge_rows g' = place_vertical E W ?m ho y ?rows" "ge_popup_w g' = W" "ge_popup_h g' = ch'' + POPUP_PAD_Y * 2" "ge_pre_h g' = ge_pre_h g"
    "ge_mode_divider_y g' = (if ?mode then ch'' + POPUP_PAD_Y - ge_mode_h g - POPUP_ROW_PAD_Y else -1)"
    unfolding assms(3) by (simp_all add: Let_def)
  have sized: "list_all row_sized ?rows" "0 \<le> ge_pre_w g" "0 \<le> ge_mode_h g" using assms(2) by (simp_all add: sized_def)
  have labels: "\<forall>r \<in> set ?rows. pr_label_w r \<le> ?m" using running_max [of 0 pr_label_w ?rows] by (simp add: max_label_width_def)
  have widths: "?w r \<le> cw'" if "r \<in> set ?rows" for r
    using running_max [of "ge_pre_w g" ?w ?rows] that unfolding cw'_def cw_def by fastforce
  have "0 \<le> ?m" using running_max [of 0 pr_label_w ?rows] by (simp add: max_label_width_def)
  have W: "W \<le> 2 ^ 24" using assms(4) g'(2) by simp
  have pos: "cw' + POPUP_PAD_X * 2 \<le> W" by (simp add: W_def)
  have "0 \<le> ho" by (simp add: ho_def)
  moreover have "POPUP_ROW_PAD_X + ?m + POPUP_LABEL_GAP + ho + pr_text_w r \<le> W - POPUP_PAD_X * 2" if "r \<in> set ?rows" for r
    using widths [OF that] pos by (simp add: vertical_row_w_def ho_def d_def const_defs split: if_splits)
  ultimately have inside: "(\<forall>r \<in> set (ge_rows g'). row_inside POPUP_PAD_X y (W - POPUP_PAD_X) (y + rows_height ?rows) r) \<and> sorted_wrt below (ge_rows g')"
    unfolding g'(1) using place_vertical_inside [OF assms(1) _ \<open>0 \<le> ?m\<close> W sized(1)] labels by blast
  have y: "y = rows_begin pre_used g'" by (simp add: y_def rows_begin_def g'(4))
  have bottom: "y + rows_height ?rows \<le> rows_bottom g'" if "?rows \<noteq> []"
    using that sized rows_height_nonneg [OF sized(1)]
    by (auto simp: rows_bottom_def g' ch''_def ch'_def ch_def y_def const_defs split: if_splits)
  show ?thesis
  proof (cases "?rows = []")
    case False
    then show ?thesis using inside bottom unfolding y by (auto simp: row_inside_def g'(2))
  qed (simp add: g'(1))
qed

lemma horizontal_inside:
  assumes "exact_ints E" and "sized g" and "g' = compute_positions_horizontal E pre_used g" and "ge_popup_w g' \<le> 2 ^ 24"
  shows "(\<forall>r \<in> set (ge_rows g'). row_inside POPUP_PAD_X (rows_begin pre_used g') (ge_popup_w g' - POPUP_PAD_X) (rows_bottom g') r) \<and>
    sorted_wrt right_of (ge_rows g')"
proof (cases "ge_rows g = []")
  case True
  then show ?thesis by (simp add: assms(3) compute_positions_horizontal_def Let_def split: prod.split)
next
  case False
  let ?rows = "ge_rows g"
  let ?sum = "\<Sum>r\<leftarrow>?rows. pr_w r + POPUP_COL_GAP" let ?h = "fold (\<lambda>r h. if h < pr_h r then pr_h r else h) ?rows 0"
  have sized: "list_all row_sized ?rows" "0 \<le> ge_mode_w g" using assms(2) by (simp_all add: sized_def)
  have ext: "row_extent ?rows = (?sum - POPUP_COL_GAP, ?h)"
    using row_extent_bound [OF sized(1), of 0 0] False by (simp add: row_extent_def)
  have g': "ge_rows g' = place_horizontal E (rows_begin pre_used g') POPUP_PAD_X ?rows" "rows_bottom g' = rows_begin pre_used g' + ?h"
    "?sum - POPUP_COL_GAP + POPUP_PAD_X * 2 \<le> ge_popup_w g'"
    using False sized(2) by (auto simp: assms(3) compute_positions_horizontal_def Let_def ext rows_begin_def rows_bottom_def const_defs)
  have "\<forall>r \<in> set ?rows. pr_h r \<le> ?h" using running_max [of 0 pr_h ?rows] by simp
  moreover have "POPUP_PAD_X + ?sum \<le> (ge_popup_w g' - POPUP_PAD_X) + POPUP_COL_GAP" using g'(3) by (simp add: const_defs)
  moreover have "ge_popup_w g' - POPUP_PAD_X \<le> 2 ^ 24" "0 \<le> POPUP_PAD_X" using assms(4) by (simp_all add: const_defs)
  ultimately show ?thesis
    using place_horizontal_inside [OF assms(1) _ _ sized(1)] unfolding g'(1,2) by blast
qed

text \<open>In the horizontal layout a status without candidates leaves no room for the mode label.\<close>

lemma horizontal_mode_outside:
  assumes "exact_ints E" and "ge_rows g = []" and "0 \<le> ge_pre_h g" and "ge_pre_h g + 15 \<le> 2 ^ 24" and "ge_mode_layout g \<noteq> None" and "0 < ge_mode_h g"
    and "g' = compute_positions_horizontal E True g"
  shows "rat_of_int (ge_popup_h g') < ge_mode_y g'"
proof -
  have "ge_mode_y g' = pe_fl E (of_int (ge_pre_h g + 15))" "ge_popup_h g' = ge_pre_h g + 12"
    using assms(2-) by (simp_all add: compute_positions_horizontal_def Let_def row_extent_def const_defs ac_simps)
  moreover have "pe_fl E (of_int (ge_pre_h g + 15)) = of_int (ge_pre_h g + 15)" using assms(3,4) by (intro exact_int [OF assms(1)]) simp_all
  ultimately show ?thesis by simp
qed

end
