(* ===== verification/Panel_Safety.thy ===== *)
theory Panel_Safety
  imports Panel_Cache
begin

section \<open>The panel never uses a layout that is gone\<close>

text \<open>
  The invariant \<open>panel_ok\<close> of the panel: the ring invariant for what cache and geometry own, and rows
  of the geometry that point into the cache. Every operation keeps it, except a change of style
  while a frame is in flight. Destroying the panel then leaves nothing allocated.
\<close>

subsection \<open>The invariant\<close>

definition row_layouts :: "PopupRow \<Rightarrow> nat set" where
  "row_layouts r =
     set_option (pr_label_layout r) \<union> set_option (pr_layout r) \<union> set_option (pr_label_layout_sel r) \<union> set_option (pr_layout_sel r)"

definition rows_layouts :: "PopupRow list \<Rightarrow> nat set" where
  "rows_layouts rows = (\<Union>r \<in> set rows. row_layouts r)"

definition geom_mset :: "PopupGeometry option \<Rightarrow> nat multiset" where
  "geom_mset g = (case g of None \<Rightarrow> {#} | Some g \<Rightarrow> geometry_mset g)"

lemma geom_mset_simps [simp]: "geom_mset None = {#}" "geom_mset (Some g) = geometry_mset g"
  by (simp_all add: geom_mset_def)

definition geom_ok :: "PopupGeometry option \<Rightarrow> PopupLayoutEntry list \<Rightarrow> bool" where
  "geom_ok g es \<longleftrightarrow> (case g of None \<Rightarrow> True | Some g \<Rightarrow> rows_layouts (ge_rows g) \<subseteq> set_mset (entries_mset es))"

definition panel_ok :: "panel \<Rightarrow> bool" where
  "panel_ok p \<longleftrightarrow>
     ring_inv (entries_mset (pa_entries p) + geom_mset (pa_geom p)) p \<and> cache_ok p \<and> geom_ok (pa_geom p) (pa_entries p)"

lemma panel_ok_no_fault: "panel_ok p \<Longrightarrow> \<not> lh_fault (pa_heap p)"
  by (simp add: panel_ok_def ring_inv_def heap_owns_def)

lemma panel_ok_cong:
  assumes "pa_heap q = pa_heap p" "pa_retire q = pa_retire p" "pa_epoch q = pa_epoch p" "pa_fx_ready q = pa_fx_ready p"
    "pa_entries q = pa_entries p" "pa_tick q = pa_tick p" "pa_evict_cb q = pa_evict_cb p" "pa_geom q = pa_geom p"
  shows "panel_ok q = panel_ok p"
  using assms ring_inv_cong [of q p "entries_mset (pa_entries p) + geom_mset (pa_geom p)"] by (simp add: panel_ok_def cache_ok_def)

subsection \<open>Computing a geometry\<close>

lemma entry_row_layouts:
  "row_layouts (make_row E scale e e') = set_mset (entry_mset e) \<union> set_mset (entry_mset e')"
  by (auto simp: row_layouts_def make_row_def Let_def entry_mset_def split: option.splits)

lemma rows_owned:
  assumes "geometry_rows E lf f lc tc sc scale i cs p = (rows, p')"
    and "ring_inv (entries_mset (pa_entries p) + X) p" and "cache_ok p" and "shapes E"
    and "unat (pa_tick p) + 2 * length cs < 2 ^ 32" and "t \<le> unat (pa_tick p)"
    and "hot_count t (pa_entries p) + 2 * length cs \<le> POPUP_LAYOUT_CACHE_CAP"
  shows "ring_inv (entries_mset (pa_entries p') + X) p' \<and> cache_ok p' \<and> unat (pa_tick p') = unat (pa_tick p) + 2 * length cs \<and>
    hot t (pa_entries p) \<subseteq> hot t (pa_entries p') \<and> rows_layouts rows \<subseteq> hot t (pa_entries p') \<and>
    same_frame (p'\<lparr>pa_entries := pa_entries p, pa_tick := pa_tick p\<rparr>) p"
  using assms
proof (induction cs arbitrary: i p rows p')
  case Nil
  then show ?case by (simp add: rows_layouts_def)
next
  case (Cons c cs)
  obtain lb tx where parts: "format_candidate_parts c i = (lb, tx)" by fastforce
  obtain e p1 where e: "lru_get_or_create E lb tx lf f lc tc p = (e, p1)" by fastforce
  obtain e' p2 where e': "lru_get_or_create E lb tx lf f sc sc p1 = (e', p2)" by fastforce
  obtain rs p3 where rs: "geometry_rows E lf f lc tc sc scale (i + 1) cs p2 = (rs, p3)" by fastforce
  have rows: "rows = make_row E scale e e' # rs" "p' = p3" using Cons.prems(1) parts e e' rs by simp_all
  have b1: "unat (pa_tick p) + 1 < 2 ^ 32" "hot_count t (pa_entries p) < POPUP_LAYOUT_CACHE_CAP" using Cons.prems(5,7) by simp_all
  note l1 = lookup_owned [OF Cons.prems(2,3,4) b1(1) Cons.prems(6) b1(2) e]
  have tick1: "unat (pa_tick p1) = unat (pa_tick p) + 1" using l1(3) b1(1) by (simp add: unat_word_ariths)
  have b2: "unat (pa_tick p1) + 1 < 2 ^ 32" "t \<le> unat (pa_tick p1)" "hot_count t (pa_entries p1) < POPUP_LAYOUT_CACHE_CAP"
    using Cons.prems(5,6,7) tick1 l1(6) by simp_all
  note l2 = lookup_owned [OF l1(1,2) Cons.prems(4) b2 e']
  have tick2: "unat (pa_tick p2) = unat (pa_tick p) + 2" using l2(3) tick1 b2(1) by (simp add: unat_word_ariths)
  have b3: "unat (pa_tick p2) + 2 * length cs < 2 ^ 32" "t \<le> unat (pa_tick p2)"
    "hot_count t (pa_entries p2) + 2 * length cs \<le> POPUP_LAYOUT_CACHE_CAP"
    using Cons.prems(5,6,7) tick2 l1(6) l2(6) by simp_all
  note l3 = Cons.IH [OF rs l2(1,2) Cons.prems(4) b3]
  have "row_layouts (make_row E scale e e') \<subseteq> hot t (pa_entries p3)"
    unfolding entry_row_layouts using l1(5) l2(4,5) l3 by blast
  then have sub: "rows_layouts rows \<subseteq> hot t (pa_entries p3)" using l3 rows(1) by (simp add: rows_layouts_def)
  show ?case
  proof (intro conjI)
    show "unat (pa_tick p') = unat (pa_tick p) + 2 * length (c # cs)" using l3 tick2 rows(2) by simp
    show "hot t (pa_entries p) \<subseteq> hot t (pa_entries p')" using l1(4) l2(4) l3 rows(2) by blast
  qed (use l3 l2(7) l1(7) sub rows(2) in \<open>simp_all\<close>)
qed

lemma hot_count_now: "cache_ok p \<Longrightarrow> hot_count (unat (pa_tick p)) (pa_entries p) = 0"
proof -
  assume "cache_ok p"
  then have "\<forall>e \<in> set (pa_entries p). \<not> unat (pa_tick p) < weight e"
    by (auto simp: cache_ok_def weight_def word_le_nat_alt linorder_not_less)
  then show ?thesis unfolding hot_count_def length_0_conv filter_empty_conv .
qed

lemma aux_owned:
  assumes "aux_layout E wanted t f c p = ((l, m), p')" and "ring_inv M p"
  shows "ring_inv (M + ptr_mset l) p'" and "same_frame p' p" and "set_mset (ptr_mset l) \<inter> in_flight (pa_heap p') = {}"
  using assms ring_inv_create [OF assms(2)] create_frame [of E t f c p] by (auto simp: aux_layout_def split: if_splits prod.splits)

lemma place_layouts [simp]:
  "rows_layouts (place_vertical E w m h y rows) = rows_layouts rows" "rows_layouts (place_horizontal E y' x rows) = rows_layouts rows"
  by (induction rows arbitrary: y x) (simp_all add: rows_layouts_def row_layouts_def)

lemma positions_layouts [simp]:
  "ge_preedit_layout (compute_positions E cfg b g) = ge_preedit_layout g" "ge_mode_layout (compute_positions E cfg b g) = ge_mode_layout g"
  "rows_layouts (ge_rows (compute_positions E cfg b g)) = rows_layouts (ge_rows g)"
  by (simp_all add: compute_positions_def compute_positions_vertical_def compute_positions_horizontal_def Let_def split: prod.split)

lemma compute_owned:
  assumes "popup_geometry_compute E cands preedit mode cfg pal scale p = (res, p')"
    and "panel_ok p" and "shapes E" and "unat (pa_tick p) + 32 < 2 ^ 32"
  shows "res = None \<Longrightarrow> p' = p"
    and "res = Some g \<Longrightarrow>
      ring_inv (entries_mset (pa_entries p') + geom_mset (pa_geom p) + geometry_mset g) p' \<and> cache_ok p' \<and>
      unat (pa_tick p') \<le> unat (pa_tick p) + 32 \<and> rows_layouts (ge_rows g) \<subseteq> set_mset (entries_mset (pa_entries p')) \<and>
      same_frame (p'\<lparr>pa_entries := pa_entries p, pa_tick := pa_tick p\<rparr>) p"
proof -
  show "p' = p" if "res = None"
    using assms(1) that by (auto simp: popup_geometry_compute_def Let_def split: if_splits prod.splits)
  assume res: "res = Some g"
  let ?cs = "cl_candidates cands"
  have few: "length ?cs \<le> 16" "pe_geometry_alloc E"
    using assms(1) res by (auto simp: popup_geometry_compute_def POPUP_MAX_ROWS_def Let_def split: if_splits)
  define s where "s = positive_scale scale"
  define sf where "sf = (\<lambda>d. scaled_font_desc E (d cfg) s)"
  obtain rows p1 where rows: "geometry_rows E (sf pc_label_font_desc) (sf pc_font_desc) (opaque E (pl_muted pal)) (opaque E (pl_text pal))
      (opaque E (pl_selection_text pal)) s 0 ?cs p = (rows, p1)" by fastforce
  obtain l1 m1 p2 where l1: "aux_layout E (filled preedit) (or_empty preedit) (sf pc_aux_font_desc) (opaque E (pl_preedit pal)) p1 = ((l1, m1), p2)"
    by (metis surj_pair)
  obtain l2 m2 p3 where l2: "aux_layout E (pc_mode_indicator cfg \<and> filled mode) (or_empty mode) (sf pc_aux_font_desc) (opaque E (pl_muted pal)) p2 =
      ((l2, m2), p3)" by (metis surj_pair)
  have g: "p' = p3" "ge_preedit_layout g = l1" "ge_mode_layout g = l2" "rows_layouts (ge_rows g) = rows_layouts rows"
    using assms(1) few res rows l1 l2
    by (auto simp: popup_geometry_compute_def POPUP_MAX_ROWS_def Let_def s_def [symmetric] sf_def split: prod.splits)
  have ok: "ring_inv (entries_mset (pa_entries p) + geom_mset (pa_geom p)) p" "cache_ok p" using assms(2) by (simp_all add: panel_ok_def)
  have r: "ring_inv (entries_mset (pa_entries p1) + geom_mset (pa_geom p)) p1" "cache_ok p1"
    "unat (pa_tick p1) = unat (pa_tick p) + 2 * length ?cs" "rows_layouts rows \<subseteq> hot (unat (pa_tick p)) (pa_entries p1)"
    "same_frame (p1\<lparr>pa_entries := pa_entries p, pa_tick := pa_tick p\<rparr>) p"
    using rows_owned [OF rows ok assms(3), of "unat (pa_tick p)"] hot_count_now [OF ok(2)] few(1) assms(4)
    by (simp_all add: POPUP_LAYOUT_CACHE_CAP_def)
  have fr: "same_frame p3 p1" using aux_owned(2) [OF l1 r(1)] aux_owned(2) [OF l2 aux_owned(1) [OF l1 r(1)]] by simp
  have "ring_inv (entries_mset (pa_entries p1) + geom_mset (pa_geom p) + ptr_mset l1 + ptr_mset l2) p3"
    using aux_owned(1) [OF l2 aux_owned(1) [OF l1 r(1)]] .
  then have "ring_inv (entries_mset (pa_entries p3) + geom_mset (pa_geom p) + geometry_mset g) p3"
    using fr g by (simp add: geometry_mset_def ac_simps)
  moreover have "rows_layouts (ge_rows g) \<subseteq> set_mset (entries_mset (pa_entries p3))"
    using g(4) r(4) hot_in_entries fr by (metis (no_types, lifting) order_trans)
  moreover have "cache_ok p3" using r(2) fr by (simp add: cache_ok_def)
  ultimately show "ring_inv (entries_mset (pa_entries p') + geom_mset (pa_geom p) + geometry_mset g) p' \<and> cache_ok p' \<and>
      unat (pa_tick p') \<le> unat (pa_tick p) + 32 \<and> rows_layouts (ge_rows g) \<subseteq> set_mset (entries_mset (pa_entries p')) \<and>
      same_frame (p'\<lparr>pa_entries := pa_entries p, pa_tick := pa_tick p\<rparr>) p"
    using g(1) r(3,5) fr few(1) by simp
qed

lemma update_aux_owned:
  assumes "popup_geometry_update_aux E base preedit mode p = (res, p')" and "panel_ok p"
  shows "res = None \<Longrightarrow> panel_ok p' \<and> same_frame p' p"
    and "res = Some g \<Longrightarrow> ring_inv (entries_mset (pa_entries p') + geom_mset (pa_geom p) + geometry_mset g) p' \<and> same_frame p' p \<and>
      ge_rows g = ge_rows base"
proof -
  define f where "f = scaled_font_desc E (pc_aux_font_desc (ge_config base)) (ge_scale base)"
  obtain l1 a1 b1 p1 where l1: "aux_layout E (filled preedit) (or_empty preedit) f (opaque E (pl_preedit (ge_palette base))) p = ((l1, a1, b1), p1)"
    by (metis surj_pair)
  obtain l2 a2 b2 p2 where l2: "aux_layout E (pc_mode_indicator (ge_config base) \<and> filled mode) (or_empty mode) f
      (opaque E (pl_muted (ge_palette base))) p1 = ((l2, a2, b2), p2)" by (metis surj_pair)
  let ?M = "entries_mset (pa_entries p) + geom_mset (pa_geom p)"
  have ok: "ring_inv ?M p" "cache_ok p" "geom_ok (pa_geom p) (pa_entries p)" using assms(2) by (simp_all add: panel_ok_def)
  note o1 = aux_owned [OF l1 ok(1)] and o2 = aux_owned [OF l2 aux_owned(1) [OF l1 ok(1)]]
  have fr: "same_frame p2 p" using o1(2) o2(2) by simp
  have two: "popup_geometry_update_aux E base preedit mode p =
      (if logical_px E a1 (ge_scale base) \<noteq> ge_pre_w base \<or> logical_px E b1 (ge_scale base) \<noteq> ge_pre_h base \<or>
          logical_px E a2 (ge_scale base) \<noteq> ge_mode_w base \<or> logical_px E b2 (ge_scale base) \<noteq> ge_mode_h base \<or> \<not> pe_geometry_alloc E
       then (None, free_layout l2 (free_layout l1 p2))
       else (Some (base\<lparr>ge_preedit_layout := l1, ge_mode_layout := l2, ge_preedit_text := snprintf 256 (or_empty preedit),
          ge_mode_label := snprintf 128 (or_empty mode)\<rparr>), p2))"
    using l1 l2 by (simp add: popup_geometry_update_aux_def Let_def f_def)
  show "panel_ok p' \<and> same_frame p' p" if "res = None"
  proof -
    have p': "p' = free_layout l2 (free_layout l1 p2)" using assms(1) that unfolding two by (auto split: if_splits)
    have "l1 \<noteq> None \<longrightarrow> the l1 \<notin> in_flight (pa_heap p2)"
      using o1(1,3) l2 by (auto simp: aux_layout_def create_layout_def Let_def in_flight_def split: if_splits option.splits prod.splits)
    then have d1: "set_mset (ptr_mset l1) \<inter> in_flight (pa_heap p2) = {}" by (cases l1) simp_all
    have "heap_owns (pa_heap p2) ((?M + ring_mset p2 + ptr_mset l2) + ptr_mset l1)"
      using o2(1) by (simp add: ring_inv_def ac_simps)
    note free_owned [OF this d1]
    then have "heap_owns (typio_flux_layout_free l2 (typio_flux_layout_free l1 (pa_heap p2))) (?M + ring_mset p2)"
      using free_owned [of "typio_flux_layout_free l1 (pa_heap p2)" "?M + ring_mset p2" l2] o2(3) by simp
    then have inv: "ring_inv ?M (p2\<lparr>pa_heap := typio_flux_layout_free l2 (typio_flux_layout_free l1 (pa_heap p2))\<rparr>)"
      by (intro ring_inv_heap [OF o2(1)]) simp_all
    then show ?thesis using ok fr unfolding p' by (simp add: panel_ok_def free_layout_def upd_heap_def cache_ok_def)
  qed
  show "ring_inv (entries_mset (pa_entries p') + geom_mset (pa_geom p) + geometry_mset g) p' \<and> same_frame p' p \<and> ge_rows g = ge_rows base"
    if "res = Some g"
  proof -
    have "p' = p2" "ge_preedit_layout g = l1" "ge_mode_layout g = l2" "ge_rows g = ge_rows base"
      using assms(1) that unfolding two by (auto split: if_splits)
    then show ?thesis using o2(1) fr by (simp add: geometry_mset_def ac_simps)
  qed
qed

subsection \<open>Replacing the geometry\<close>

lemma replace_ok:
  assumes "ring_inv (entries_mset (pa_entries p) + geom_mset (pa_geom p) + geometry_mset g) p" and "cache_ok p"
    and "rows_layouts (ge_rows g) \<subseteq> set_mset (entries_mset (pa_entries p))"
  shows "panel_ok (replace_geometry E g p)" and "pa_tick (replace_geometry E g p) = pa_tick p" and "pa_epoch (replace_geometry E g p) = pa_epoch p"
proof -
  have "ring_inv ((entries_mset (pa_entries p) + geometry_mset g) + geom_mset (pa_geom p)) p" using assms(1) by (simp add: ac_simps)
  then have "ring_inv (entries_mset (pa_entries p) + geometry_mset g) (retire_geometry E (pa_geom p) p)"
    unfolding geom_mset_def by (rule ring_inv_retire_geometry)
  note ring_inv_frame(3) [OF this, of "Some g"]
  then show "panel_ok (replace_geometry E g p)"
    using retire_geometry_frame [of E "pa_geom p" p] assms(2,3) by (simp add: panel_ok_def replace_geometry_def cache_ok_def geom_ok_def)
qed (use retire_geometry_frame [of E "pa_geom p" p] in \<open>simp_all add: replace_geometry_def\<close>)

lemma rebuild_ok:
  assumes "panel_ok p" and "shapes E" and "unat (pa_tick p) + 32 < 2 ^ 32"
    and "rebuild_geometry E cands preedit mode cfg pal scale p = (ok, p')"
  shows "panel_ok p'" and "unat (pa_tick p') \<le> unat (pa_tick p) + 32" and "pa_epoch p' = pa_epoch p"
proof -
  obtain res q where res: "popup_geometry_compute E cands preedit mode cfg pal scale p = (res, q)" by fastforce
  note c = compute_owned [OF res assms(1-3)]
  have "panel_ok p' \<and> unat (pa_tick p') \<le> unat (pa_tick p) + 32 \<and> pa_epoch p' = pa_epoch p"
  proof (cases res)
    case None
    then show ?thesis using c(1) res assms(1,4) by (simp add: rebuild_geometry_def)
  next
    case (Some g)
    have "pa_geom q = pa_geom p" "pa_epoch q = pa_epoch p" using c(2) [OF Some] by simp_all
    then show ?thesis using replace_ok [of q g E] c(2) [OF Some] res Some assms(4) by (auto simp: rebuild_geometry_def)
  qed
  then show "panel_ok p'" "unat (pa_tick p') \<le> unat (pa_tick p) + 32" "pa_epoch p' = pa_epoch p" by simp_all
qed

lemma delta_ok:
  assumes "panel_ok p" and "shapes E" and "unat (pa_tick p) + 32 < 2 ^ 32" and "delta \<noteq> POPUP_DELTA_STYLE"
    and "apply_delta E delta cands preedit mode cfg pal scale p = (ok, p')"
  shows "panel_ok p' \<and> unat (pa_tick p') \<le> unat (pa_tick p) + 32 \<and> pa_epoch p' = pa_epoch p"
proof (cases "delta = POPUP_DELTA_AUX")
  case True
  show ?thesis
  proof (cases "pa_geom p")
    case None
    then show ?thesis using assms(5) True rebuild_ok [OF assms(1-3)] by (auto simp: apply_delta_def)
  next
    case (Some g)
    obtain res q where res: "popup_geometry_update_aux E g preedit mode p = (res, q)" by fastforce
    note u = update_aux_owned [OF res assms(1)]
    show ?thesis
    proof (cases res)
      case None
      have "panel_ok q" "pa_tick q = pa_tick p" "pa_epoch q = pa_epoch p" using u(1) [OF None] by simp_all
      then show ?thesis using assms(2,3,5) True Some res None rebuild_ok [of q E cands preedit mode cfg pal scale ok p'] by (simp add: apply_delta_def)
    next
      case (Some g')
      have q: "pa_geom q = pa_geom p" "pa_entries q = pa_entries p" "pa_tick q = pa_tick p" "pa_epoch q = pa_epoch p" "cache_ok q"
        using u(2) [OF Some] assms(1) by (simp_all add: panel_ok_def cache_ok_def)
      have "rows_layouts (ge_rows g') \<subseteq> set_mset (entries_mset (pa_entries q))"
        using u(2) [OF Some] assms(1) \<open>pa_geom p = Some g\<close> q(2) by (simp add: panel_ok_def geom_ok_def)
      then show ?thesis
        using replace_ok [of q g' E] u(2) [OF Some] q assms(5) True \<open>pa_geom p = Some g\<close> res Some by (simp add: apply_delta_def)
    qed
  qed
next
  case False
  then show ?thesis using assms rebuild_ok [OF assms(1-3)] by (cases delta) (auto simp: apply_delta_def)
qed

end
