(* ===== verification/Panel_Run.thy ===== *)
theory Panel_Run
  imports Panel_Safety
begin

section \<open>Runs of the panel\<close>

text \<open>
  Presenting a frame advances the retire ring; the events of the panel as a step function; the
  invariant along every run in which no change restyles the panel; and the destruction.
\<close>

subsection \<open>A frame\<close>

lemma frame_after_submit:
  "gpu_frame (flux_frame_submit rd h) 0 = set rd" "gpu_frame (flux_frame_submit rd h) 1 = gpu_frame h 0"
  "length (lh_gpu (flux_frame_submit rd h)) \<le> 2"
  by (cases "lh_gpu h"; simp add: gpu_frame_def flux_frame_submit_def numeral_2_eq_2)+

lemma submit_fields [simp]:
  "lh_live (flux_frame_submit rd h) = lh_live h" "lh_fault (flux_frame_submit rd h) = lh_fault h"
  by (simp_all add: flux_frame_submit_def)

lemma ring_inv_submit:
  assumes "ring_inv M p" and "set rd \<subseteq> set_mset M" and "pa_fx_ready p"
  shows "ring_inv M (upd_heap (flux_frame_submit rd) p)"
proof -
  have owns: "heap_owns (pa_heap p) (M + ring_mset p)" using assms(1) by (simp add: ring_inv_def)
  have apart: "set_mset (slot_mset p k) \<inter> set rd = {}" if "k < 3" for k
    using heap_owns_once [OF owns] assms(2) ring_split [OF that, of p] by auto
  have "heap_owns (flux_frame_submit rd (pa_heap p)) (M + ring_mset p)"
    using submit_owned [OF owns] assms(2) by auto
  moreover have "ring_ok (upd_heap (flux_frame_submit rd) p)"
    using assms(1,3) apart [of "(current_slot p + 2) mod 3"] apart [of "(current_slot p + 1) mod 3"]
    unfolding ring_inv_def ring_ok_def upd_heap_fields frame_after_submit by (auto simp: frame_after_submit(3))
  ultimately show ?thesis by (simp add: ring_inv_def)
qed

text \<open>After a presented frame the oldest slot is emptied and becomes the current one.\<close>

lemma ring_inv_advance:
  assumes "ring_inv M p" and "set rd \<subseteq> set_mset M" and "pa_fx_ready p" and "unat (pa_epoch p) + 1 < 2 ^ 64"
    and "q = (upd_heap (flux_frame_submit rd) p)\<lparr>pa_epoch := pa_epoch p + 1\<rparr>"
  shows "ring_inv M (retire_slot_drain (current_slot q) q)"
proof -
  let ?r = "upd_heap (flux_frame_submit rd) p"
  have inv: "ring_inv M ?r" by (rule ring_inv_submit [OF assms(1-3)])
  have owns: "heap_owns (pa_heap p) (M + ring_mset p)" using assms(1) by (simp add: ring_inv_def)
  have apart: "set_mset (slot_mset p k) \<inter> set rd = {}" if "k < 3" for k
    using heap_owns_once [OF owns] assms(2) ring_split [OF that, of p] by auto
  have next_slot: "current_slot q = (current_slot p + 1) mod 3"
    using assms(4) by (simp add: assms(5) current_slot_def POPUP_RETIRE_DEPTH_def unat_word_ariths mod_simps)
  have slots: "slot_mset q k = slot_mset p k" for k by (simp add: assms(5) slot_mset_def upd_heap_def)
  have later: "(current_slot q + 2) mod 3 = current_slot p" "(current_slot q + 1) mod 3 = (current_slot p + 2) mod 3"
    unfolding next_slot using current_slot_less [of p] by (simp_all add: mod_simps)
  have q: "pa_heap q = flux_frame_submit rd (pa_heap p)" "pa_fx_ready q" "length (pa_retire q) = 3" "ring_mset q = ring_mset p"
    using assms(1,3) by (simp_all add: assms(5) ring_inv_def ring_ok_def ring_mset_def slot_mset_def upd_heap_def)
  have old: "set_mset (slot_mset p ((current_slot p + 2) mod 3)) \<inter> gpu_frame (pa_heap p) 0 = {}"
    "set_mset (slot_mset p ((current_slot p + 1) mod 3)) \<inter> gpu_frame (pa_heap p) 0 = {}"
    using assms(1) by (auto simp: ring_inv_def ring_ok_def)
  have "ring_ok q"
    unfolding ring_ok_def later slots q(1) frame_after_submit
    using q(2,3) apart [of "current_slot p"] apart [of "(current_slot p + 2) mod 3"] old(1) by (auto simp: frame_after_submit(3))
  moreover have "heap_owns (pa_heap q) (M + ring_mset q)" using inv q(1,4) by (simp add: ring_inv_def upd_heap_def)
  ultimately have "ring_inv M q" by (simp add: ring_inv_def)
  moreover have "set_mset (slot_mset q (current_slot q)) \<inter> in_flight (pa_heap q) = {}"
    unfolding slots next_slot q(1) in_flight_frames [OF frame_after_submit(3)] frame_after_submit
    using apart [of "(current_slot p + 1) mod 3"] old(2) by auto
  ultimately show ?thesis by (intro ring_inv_drain(1)) simp_all
qed

subsection \<open>Painting\<close>

lemma drawn_simps [simp]: "drawn_layouts [] = []" "drawn_layouts (cs @ cs') = drawn_layouts cs @ drawn_layouts cs'"
  by (simp_all add: drawn_layouts_def)

lemma drawn_rect [simp]: "drawn_layouts (rect_px E x y w h s c # cs) = drawn_layouts cs"
  by (simp add: drawn_layouts_def rect_px_def split: prod.split)

lemma drawn_fill [simp]: "drawn_layouts (fill_at E s l x y # cs) = (case l of None \<Rightarrow> [] | Some i \<Rightarrow> [i]) @ drawn_layouts cs"
  by (simp add: drawn_layouts_def fill_at_def split: option.split)

lemma drawn_row: "set (drawn_layouts (record_row E r sel pal s)) \<subseteq> row_layouts r"
  by (auto simp: record_row_def row_layouts_def split: option.splits)

lemma drawn_rows:
  "set (drawn_layouts (concat (map (\<lambda>(i, r). record_row E r (sel i) pal s) (enumerate n rows)))) \<subseteq> rows_layouts rows"
proof (induction rows arbitrary: n)
  case Nil
  then show ?case by (simp add: rows_layouts_def)
next
  case (Cons r rows)
  then show ?case using drawn_row [of E r "sel n" pal s] by (fastforce simp: rows_layouts_def)
qed

lemma drawn_geometry:
  "set (drawn_layouts (popup_record E g sel)) \<subseteq> rows_layouts (ge_rows g) \<union> set_mset (geometry_mset g)"
  using drawn_rows [of E "\<lambda>i. 0 \<le> sel \<and> nat sel = i" "ge_palette g" "positive_scale (ge_scale g)" 0 "ge_rows g"]
  by (auto simp: popup_record_def Let_def record_border_def record_mode_label_def geometry_mset_def split: option.splits if_splits)

subsection \<open>Presenting\<close>

lemma present_ok:
  assumes "panel_ok p" and "pa_geom p = Some g" and "popup_present E g sel p = (res, p')" and "unat (pa_epoch p) + 1 < 2 ^ 64"
  shows "panel_ok p'" and "pa_geom p' = pa_geom p" and "pa_epoch p' = pa_epoch p" and "pa_tick p' = pa_tick p"
    and "res = POPUP_PRESENT_OK \<Longrightarrow> q = p'\<lparr>pa_selected := n, pa_visible := True, pa_epoch := pa_epoch p' + 1\<rparr> \<Longrightarrow>
      panel_ok (retire_slot_drain (current_slot q) q)"
proof -
  let ?M = "entries_mset (pa_entries p) + geom_mset (pa_geom p)"
  let ?cmds = "popup_record E g sel"
  define lost where "lost = (pe_begin E = FLUX_SURFACE_LOST)"
  define p0 where "p0 = p\<lparr>pa_timeout_streak := 0\<rparr>"
  define p1 where "p1 = upd_heap (draw_all ?cmds) p0"
  define rd where "rd = images_read ?cmds (pa_heap p1)"
  define p2 where "p2 = upd_heap (flux_frame_submit rd) p1"
  have ok: "ring_inv ?M p" using assms(1) by (simp add: panel_ok_def)
  have same: "panel_ok (p\<lparr>pa_timeout_streak := k\<rparr>)" for k
    using assms(1) panel_ok_cong [of "p\<lparr>pa_timeout_streak := k\<rparr>" p] by simp
  have drawn: "set (drawn_layouts ?cmds) \<subseteq> set_mset ?M"
    using drawn_geometry [of E g sel] assms(1,2) by (auto simp: panel_ok_def geom_ok_def)
  have "ring_inv ?M p0" using ok ring_inv_cong [of p0 p] by (simp add: p0_def)
  then have "heap_owns (draw_all ?cmds (pa_heap p0)) (?M + ring_mset p0)"
    using draws_owned [of "pa_heap p0" "?M + ring_mset p0" "drawn_layouts ?cmds"] drawn by (auto simp: ring_inv_def draw_all_def)
  then have r1: "ring_inv ?M p1"
    using ring_inv_heap [OF \<open>ring_inv ?M p0\<close>] by (simp add: p1_def upd_heap_def draw_all_def)
  have f1: "pa_entries p1 = pa_entries p" "pa_geom p1 = pa_geom p" "pa_epoch p1 = pa_epoch p" "pa_tick p1 = pa_tick p"
    "pa_fx_ready p1 = pa_fx_ready p" "pa_evict_cb p1 = pa_evict_cb p"
    by (simp_all add: p1_def p0_def upd_heap_def)
  have rd: "set rd \<subseteq> set_mset ?M" using drawn by (auto simp: rd_def images_read_def)
  have ok1: "panel_ok p1" using assms(1) r1 f1 by (simp add: panel_ok_def cache_ok_def)
  have ok2: "panel_ok p2" if "pa_fx_ready p"
    using ring_inv_submit [OF r1 rd] that f1 ok1 by (simp add: p2_def panel_ok_def cache_ok_def upd_heap_def)
  have steps: "(res, p') =
     (if \<not> pa_fx_ready p then (POPUP_PRESENT_FAIL, p)
      else if (if lost then pe_begin_again E else pe_begin E) = FLUX_TIMEOUT
      then (POPUP_PRESENT_RETRY,
            let p = (if lost then p0 else p); k = pa_timeout_streak p + 1
            in p\<lparr>pa_timeout_streak := if POPUP_PRESENT_RECOVER_STREAK \<le> k then 0 else k\<rparr>)
      else if (if lost then pe_begin_again E else pe_begin E) \<noteq> FLUX_OK then (POPUP_PRESENT_FAIL, if lost then p0 else p)
      else if \<not> pe_canvas_begin E then (POPUP_PRESENT_FAIL, p0)
      else if \<not> pe_submit E then (POPUP_PRESENT_FAIL, p1)
      else case pe_present E of
             FLUX_OK \<Rightarrow> (POPUP_PRESENT_OK, p2\<lparr>pa_out := pa_out p2 @ [PanelPresent ?cmds]\<rparr>)
           | FLUX_SURFACE_LOST \<Rightarrow> (POPUP_PRESENT_RETRY, p2)
           | _ \<Rightarrow> (POPUP_PRESENT_FAIL, p2))"
    using assms(3) unfolding popup_present_def Let_def lost_def p0_def p1_def p2_def rd_def
    by (auto simp: upd_heap_def split: if_splits flux_result.splits)
  have same0: "panel_ok p0" unfolding p0_def by (rule same)
  have out2: "panel_ok (p2\<lparr>pa_out := x\<rparr>) = panel_ok p2" for x by (rule panel_ok_cong) simp_all
  have f2: "pa_geom p2 = pa_geom p" "pa_epoch p2 = pa_epoch p" "pa_tick p2 = pa_tick p" using f1 by (simp_all add: p2_def upd_heap_def)
  show "panel_ok p'" using steps same same0 ok1 ok2 out2 assms(1)
    by (cases "pe_present E") (auto simp: Let_def p0_def split: if_splits)
  show "pa_geom p' = pa_geom p" "pa_epoch p' = pa_epoch p" "pa_tick p' = pa_tick p"
    using steps f1 f2 by (cases "pe_present E"; auto simp: Let_def p0_def split: if_splits)+
  show "panel_ok (retire_slot_drain (current_slot q) q)"
    if "res = POPUP_PRESENT_OK" and q: "q = p'\<lparr>pa_selected := n, pa_visible := True, pa_epoch := pa_epoch p' + 1\<rparr>"
  proof -
    have p': "p' = p2\<lparr>pa_out := pa_out p2 @ [PanelPresent ?cmds]\<rparr>" "pa_fx_ready p"
      using steps that(1) by (cases "pe_present E"; auto split: if_splits)+
    define q' where "q' = p2\<lparr>pa_epoch := pa_epoch p1 + 1\<rparr>"
    have adv: "ring_inv ?M (retire_slot_drain (current_slot q') q')"
      using ring_inv_advance [OF r1 rd _ _ refl] p'(2) f1 assms(4) by (simp add: q'_def p2_def)
    have qq: "pa_heap q = pa_heap q'" "pa_retire q = pa_retire q'" "pa_epoch q = pa_epoch q'" "pa_fx_ready q = pa_fx_ready q'"
      "current_slot q = current_slot q'" "pa_entries q = pa_entries p" "pa_geom q = pa_geom p" "pa_tick q = pa_tick p" "pa_evict_cb q = pa_evict_cb p"
      using f1 by (simp_all add: q p'(1) q'_def current_slot_def p2_def upd_heap_def)
    have "ring_inv ?M (retire_slot_drain (current_slot q) q) = ring_inv ?M (retire_slot_drain (current_slot q') q')"
      by (rule ring_inv_cong) (simp_all add: qq retire_slot_drain_def upd_heap_def Let_def)
    then show ?thesis using adv assms(1) drain_frame [of "current_slot q" q] qq by (simp add: panel_ok_def cache_ok_def)
  qed
qed

lemma ensure_ok:
  assumes "panel_ok p" and "ensure_fx_surface E w h p = (ok, p')"
  shows "panel_ok p' \<and> pa_geom p' = pa_geom p \<and> pa_tick p' = pa_tick p \<and> pa_epoch p' = pa_epoch p"
proof -
  have 1: "panel_ok (p\<lparr>pa_vk_surface := True\<rparr>)"
    using assms(1) panel_ok_cong [of "p\<lparr>pa_vk_surface := True\<rparr>" p] by simp
  have 2: "panel_ok (p\<lparr>pa_vk_surface := True, pa_surf_w := w, pa_surf_h := h\<rparr>)"
    using assms(1) panel_ok_cong [of "p\<lparr>pa_vk_surface := True, pa_surf_w := w, pa_surf_h := h\<rparr>" p] by simp
  have "ring_inv (entries_mset (pa_entries p) + geom_mset (pa_geom p)) (p\<lparr>pa_fx_ready := True\<rparr>)"
    using assms(1) ring_inv_fx by (simp add: panel_ok_def)
  then have "panel_ok (p\<lparr>pa_fx_ready := True\<rparr>)" using assms(1) by (simp add: panel_ok_def cache_ok_def)
  then have 3: "panel_ok (p\<lparr>pa_vk_surface := True, pa_surf_w := w, pa_surf_h := h, pa_fx_ready := True\<rparr>)"
    using panel_ok_cong [of "p\<lparr>pa_vk_surface := True, pa_surf_w := w, pa_surf_h := h, pa_fx_ready := True\<rparr>" "p\<lparr>pa_fx_ready := True\<rparr>"] by simp
  show ?thesis using assms 1 2 3 by (auto simp: ensure_fx_surface_def Let_def split: if_splits)
qed

lemma show_ok:
  assumes "panel_ok p" and "unat (pa_epoch p) + 1 < 2 ^ 64" and "show_geometry E sel p = (ok, p')"
  shows "panel_ok p' \<and> pa_tick p' = pa_tick p \<and> unat (pa_epoch p') \<le> unat (pa_epoch p) + 1"
proof (cases "pa_geom p")
  case None
  then show ?thesis using assms by (simp add: show_geometry_def)
next
  case (Some g)
  let ?s = "positive_scale (ge_scale g)"
  let ?px = "\<lambda>n. \<lceil>pe_fl E (pe_fl E (of_int n) * ?s)\<rceil>"
  obtain ready p1 where p1: "ensure_fx_surface E (if ?px (ge_popup_w g) < 1 then 1 else ?px (ge_popup_w g))
      (if ?px (ge_popup_h g) < 1 then 1 else ?px (ge_popup_h g)) p = (ready, p1)" by fastforce
  note e = ensure_ok [OF assms(1) p1]
  define out where "out = (if pa_viewport p1 then [PanelBufferScale 1, PanelViewport (ge_popup_w g) (ge_popup_h g)]
    else [PanelBufferScale (if \<lceil>?s\<rceil> < 1 then 1 else \<lceil>?s\<rceil>)])"
  define p2 where "p2 = p1\<lparr>pa_out := pa_out p1 @ out\<rparr>"
  have ok2: "panel_ok p2" "pa_geom p2 = Some g" "pa_epoch p2 = pa_epoch p" "pa_tick p2 = pa_tick p"
    using e Some panel_ok_cong [of p2 p1] by (simp_all add: p2_def)
  obtain res p3 where p3: "popup_present E g sel p2 = (res, p3)" by fastforce
  have bound: "unat (pa_epoch p2) + 1 < 2 ^ 64" using assms(2) ok2(3) by simp
  note pr = present_ok [OF ok2(1,2) p3 bound]
  have step: "(ok, p') = (if \<not> ready then (False, p1)
      else case res of
        POPUP_PRESENT_OK \<Rightarrow> (True, retire_slot_drain (current_slot (p3\<lparr>pa_selected := sel, pa_visible := True, pa_epoch := pa_epoch p3 + 1\<rparr>))
          (p3\<lparr>pa_selected := sel, pa_visible := True, pa_epoch := pa_epoch p3 + 1\<rparr>))
      | POPUP_PRESENT_RETRY \<Rightarrow> (False, p3\<lparr>pa_present_retry := True\<rparr>)
      | POPUP_PRESENT_FAIL \<Rightarrow> (False, p3))"
    using assms(3) Some p1 p3
    by (cases "pa_viewport p1"; cases ready; cases res) (simp_all add: show_geometry_def Let_def p2_def out_def)
  have retry: "panel_ok (p3\<lparr>pa_present_retry := True\<rparr>)"
    using pr(1) panel_ok_cong [of "p3\<lparr>pa_present_retry := True\<rparr>" p3] by simp
  have epoch: "unat (pa_epoch p3 + 1) \<le> unat (pa_epoch p) + 1" using pr(3) ok2(3) by (simp add: unat_word_ariths)
  show ?thesis
  proof (cases ready)
    case False
    then show ?thesis using step e by simp
  next
    case True
    show ?thesis
    proof (cases res)
      case POPUP_PRESENT_OK
      then show ?thesis using step True pr(4) pr(5) [OF POPUP_PRESENT_OK refl] epoch ok2(4)
        drain_frame [of _ "p3\<lparr>pa_selected := sel, pa_visible := True, pa_epoch := pa_epoch p3 + 1\<rparr>"] by simp
    qed (use step True pr retry ok2 in simp_all)
  qed
qed

subsection \<open>Rendering\<close>

text \<open>The change that pushing a content amounts to, before the geometry is touched.\<close>

definition render_delta :: "panel_env \<Rightarrow> TypioCandidateList option \<Rightarrow> string option \<Rightarrow> string option \<Rightarrow> panel \<Rightarrow> PopupDelta" where
  "render_delta E cands preedit mode p =
     (let cands = (case cands of None \<Rightarrow> no_candidates | Some c \<Rightarrow> c); cfg = fst (get_config E p);
          pal = fst (popup_config_build_palette E cfg (pa_theme_cache p))
      in classify_delta E (pa_geom p) cands preedit mode cfg (typio_candidate_panel_palette_hash (pe_palette_bytes E) pal) (render_scale E p))"

definition content_empty :: "TypioPanelContent \<Rightarrow> bool" where
  "content_empty c \<longleftrightarrow> (case co_candidates c of None \<Rightarrow> True | Some c \<Rightarrow> cl_candidates c = [])"

definition set_status :: "TypioPanelContent \<Rightarrow> panel \<Rightarrow> panel" where
  "set_status c p = p\<lparr>pa_status_text := (if co_status_active c then co_status_message c
     else if co_status_message c \<noteq> None then None else pa_status_text p)\<rparr>"

definition content_delta :: "panel_env \<Rightarrow> TypioPanelContent \<Rightarrow> panel \<Rightarrow> PopupDelta" where
  "content_delta E c p =
     (let p = set_status c p
      in if content_empty c \<and> \<not> filled (pa_status_text p) then POPUP_DELTA_NONE
         else render_delta E (co_candidates c) (if content_empty c then pa_status_text p else None) (build_mode_label E) p)"

lemma update_content_alt:
  "panel_update_content E c p =
     (let p = set_status c p
      in if content_empty c \<and> \<not> filled (pa_status_text p) then (True, hide_surface E p)
         else popup_render E (co_candidates c) (if content_empty c then pa_status_text p else None) (build_mode_label E) p)"
  by (simp add: panel_update_content_def set_status_def content_empty_def Let_def)

text \<open>The bookkeeping of a render before it looks at the change.\<close>

definition render_prepare :: "panel_env \<Rightarrow> panel \<Rightarrow> PopupConfig \<times> TypioCandidatePanelPalette \<times> panel" where
  "render_prepare E p =
     (let (cfg, p) = get_config E (p\<lparr>pa_present_retry := False\<rparr>); (pal, cache) = popup_config_build_palette E cfg (pa_theme_cache p)
      in (cfg, pal, p\<lparr>pa_theme_cache := cache\<rparr>))"

lemma render_alt:
  assumes "render_prepare E p = (cfg, pal, q)"
  shows "popup_render E cands preedit mode p =
    (let cs = (case cands of None \<Rightarrow> no_candidates | Some c \<Rightarrow> c); delta = render_delta E cands preedit mode p;
         sel = (if cl_candidates cs \<noteq> [] then cl_selected cs else -1)
     in if delta = POPUP_DELTA_SELECTION \<and> sel = pa_selected q \<and> pa_visible q then (True, q)
        else (case apply_delta E delta cs preedit mode cfg pal (render_scale E q) q of
                (False, r) \<Rightarrow> (False, r) | (True, r) \<Rightarrow> show_geometry E sel r))"
proof -
  have conf: "get_config E (p\<lparr>pa_present_retry := False\<rparr>) = (fst (get_config E p), (snd (get_config E p))\<lparr>pa_present_retry := False\<rparr>)"
    by (simp add: get_config_def Let_def split: option.split)
  have theme: "pa_theme_cache (snd (get_config E p)) = pa_theme_cache p" "pa_geom (snd (get_config E p)) = pa_geom p"
    by (simp_all add: get_config_def Let_def split: option.split)
  obtain c where pal: "popup_config_build_palette E cfg (pa_theme_cache p) = (pal, c)" and cfg: "cfg = fst (get_config E p)"
    and q: "q = (snd (get_config E p))\<lparr>pa_present_retry := False, pa_theme_cache := c\<rparr>"
    using assms theme by (auto simp: render_prepare_def conf Let_def split: prod.splits)
  have scale: "render_scale E q = render_scale E p"
    by (simp add: q render_scale_def get_config_def Let_def split: option.split)
  have geom: "pa_geom q = pa_geom p" "pa_selected (snd (get_config E p)) = pa_selected q" "pa_visible (snd (get_config E p)) = pa_visible q"
    using theme(2) by (simp_all add: q)
  show ?thesis
    unfolding popup_render_def Let_def conf prod.case render_delta_def cfg [symmetric]
    using theme pal scale geom by (simp flip: q)
qed

lemma prepare_fields:
  assumes "render_prepare E p = (cfg, pal, q)"
  shows "pa_heap q = pa_heap p" "pa_retire q = pa_retire p" "pa_epoch q = pa_epoch p" "pa_fx_ready q = pa_fx_ready p"
    "pa_entries q = pa_entries p" "pa_tick q = pa_tick p" "pa_evict_cb q = pa_evict_cb p" "pa_geom q = pa_geom p"
    "pa_visible q = pa_visible p" "pa_selected q = pa_selected p" "\<not> pa_present_retry q"
  using assms by (auto simp: render_prepare_def get_config_def Let_def split: option.splits prod.splits)

lemma render_ok:
  assumes "panel_ok p" and "shapes E" and "unat (pa_tick p) + 32 < 2 ^ 32" and "unat (pa_epoch p) + 1 < 2 ^ 64"
    and "render_delta E cands preedit mode p \<noteq> POPUP_DELTA_STYLE" and "popup_render E cands preedit mode p = (ok, p')"
  shows "panel_ok p' \<and> unat (pa_tick p') \<le> unat (pa_tick p) + 32 \<and> unat (pa_epoch p') \<le> unat (pa_epoch p) + 1"
proof -
  obtain cfg pal q where q: "render_prepare E p = (cfg, pal, q)" by (metis surj_pair)
  note f = prepare_fields [OF q]
  have okq: "panel_ok q" using assms(1) f panel_ok_cong [of q p] by simp
  define cs where "cs = (case cands of None \<Rightarrow> no_candidates | Some c \<Rightarrow> c)"
  define sel where "sel = (if cl_candidates cs \<noteq> [] then cl_selected cs else -1)"
  obtain done' r where r: "apply_delta E (render_delta E cands preedit mode p) cs preedit mode cfg pal (render_scale E q) q = (done', r)"
    by fastforce
  have tickq: "unat (pa_tick q) + 32 < 2 ^ 32" using assms(3) f by simp
  note d = delta_ok [OF okq assms(2) tickq assms(5) r]
  have res: "(ok, p') = (if render_delta E cands preedit mode p = POPUP_DELTA_SELECTION \<and> sel = pa_selected q \<and> pa_visible q then (True, q)
      else if done' then show_geometry E sel r else (False, r))"
    using assms(6) r unfolding render_alt [OF q] Let_def cs_def [symmetric] sel_def [symmetric] by (auto split: bool.splits if_splits)
  have "panel_ok r" "unat (pa_epoch r) + 1 < 2 ^ 64" using d assms(4) f by simp_all
  then have "panel_ok p'' \<and> pa_tick p'' = pa_tick r \<and> unat (pa_epoch p'') \<le> unat (pa_epoch r) + 1"
    if "show_geometry E sel r = (ok', p'')" for ok' p'' using show_ok [OF _ _ that] by simp
  then show ?thesis using res d okq f by (cases "show_geometry E sel r") (auto split: if_splits)
qed

lemma hide_ok:
  assumes "panel_ok p"
  shows "panel_ok (hide_surface E p) \<and> pa_tick (hide_surface E p) = pa_tick p \<and> pa_epoch (hide_surface E p) = pa_epoch p"
proof (cases "pa_visible p")
  case True
  let ?q = "p\<lparr>pa_out := pa_out p @ [PanelUnmap], pa_visible := False, pa_selected := -1, pa_present_retry := False\<rparr>"
  have "ring_inv (entries_mset (pa_entries p) + geom_mset (pa_geom p)) ?q"
    using assms ring_inv_cong [of ?q p] by (simp add: panel_ok_def)
  then have "ring_inv (entries_mset (pa_entries p)) (retire_geometry E (pa_geom p) ?q)"
    unfolding geom_mset_def by (rule ring_inv_retire_geometry)
  note ring_inv_frame(3) [OF this, of None]
  then show ?thesis
    using True assms retire_geometry_frame [of E "pa_geom p" ?q] by (simp add: hide_surface_def panel_ok_def cache_ok_def geom_ok_def)
qed (use assms in \<open>simp add: hide_surface_def\<close>)

lemma update_ok:
  assumes "panel_ok p" and "shapes E" and "unat (pa_tick p) + 32 < 2 ^ 32" and "unat (pa_epoch p) + 1 < 2 ^ 64"
    and "content_delta E c p \<noteq> POPUP_DELTA_STYLE" and "panel_update_content E c p = (ok, p')"
  shows "panel_ok p' \<and> unat (pa_tick p') \<le> unat (pa_tick p) + 32 \<and> unat (pa_epoch p') \<le> unat (pa_epoch p) + 1"
proof -
  let ?q = "set_status c p"
  have f: "pa_tick ?q = pa_tick p" "pa_epoch ?q = pa_epoch p" by (simp_all add: set_status_def)
  have okq: "panel_ok ?q" using assms(1) panel_ok_cong [of ?q p] by (simp add: set_status_def)
  show ?thesis
  proof (cases "content_empty c \<and> \<not> filled (pa_status_text ?q)")
    case True
    then show ?thesis using assms(6) hide_ok [OF okq, of E] f by (auto simp: update_content_alt Let_def)
  next
    case False
    then show ?thesis
      using render_ok [OF okq assms(2), of "co_candidates c" "if content_empty c then pa_status_text ?q else None" "build_mode_label E"] assms f
      by (simp add: update_content_alt content_delta_def Let_def split: if_splits)
  qed
qed

subsection \<open>Events\<close>

datatype panel_event =
    PanelContent TypioPanelContent
  | PanelHide
  | PanelEnter nat
  | PanelLeave nat
  | PanelBufferScaleHint int
  | PanelFractionalScale u32
  | PanelRectangle int int int int
  | PanelOutputChange nat
  | PanelInvalidate

fun panel_step :: "panel_env \<Rightarrow> panel_event \<Rightarrow> panel \<Rightarrow> panel" where
  "panel_step E (PanelContent c) p = snd (panel_update_content E c p)"
| "panel_step E PanelHide p = hide_surface E p"
| "panel_step E (PanelEnter out) p = track_output E out p"
| "panel_step E (PanelLeave out) p = untrack_output E out p"
| "panel_step E (PanelBufferScaleHint n) p = on_preferred_buffer_scale E n p"
| "panel_step E (PanelFractionalScale n) p = on_fractional_preferred_scale E n p"
| "panel_step E (PanelRectangle x y w h) p = on_text_input_rectangle x y w h p"
| "panel_step E (PanelOutputChange out) p = panel_handle_output_change E out p"
| "panel_step E PanelInvalidate p = panel_invalidate_config p"

text \<open>The panel that a scale or output event redraws, after the event is noted.\<close>

definition event_noted :: "panel_event \<Rightarrow> panel \<Rightarrow> panel" where
  "event_noted ev p = (case ev of
       PanelEnter out \<Rightarrow> p\<lparr>pa_entered_outputs := out # pa_entered_outputs p\<rparr>
     | PanelLeave out \<Rightarrow> p\<lparr>pa_entered_outputs := remove1 out (pa_entered_outputs p)\<rparr>
     | PanelOutputChange out \<Rightarrow> p
     | PanelBufferScaleHint n \<Rightarrow> p\<lparr>pa_preferred_buffer_scale := n\<rparr>
     | PanelFractionalScale n \<Rightarrow> p\<lparr>pa_fractional_scale_120 := n\<rparr>
     | _ \<Rightarrow> p)"

text \<open>An event restyles when what it draws is classified as a change of style.\<close>

definition refresh_content :: "panel_env \<Rightarrow> TypioPanelContent" where
  "refresh_content E = typio_panel_content_init\<lparr>co_candidates := pe_context E\<rparr>"

definition restyles :: "panel_env \<Rightarrow> panel_event \<Rightarrow> panel \<Rightarrow> bool" where
  "restyles E ev p \<longleftrightarrow> (case ev of
       PanelContent c \<Rightarrow> content_delta E c p = POPUP_DELTA_STYLE
     | PanelHide \<Rightarrow> False
     | PanelRectangle x y w h \<Rightarrow> False
     | PanelInvalidate \<Rightarrow> False
     | PanelOutputChange out \<Rightarrow>
         content_delta E (refresh_content E) p = POPUP_DELTA_STYLE \<or>
         content_delta E (refresh_content E) (event_noted (PanelLeave out) p) = POPUP_DELTA_STYLE
     | _ \<Rightarrow> content_delta E (refresh_content E) (event_noted ev p) = POPUP_DELTA_STYLE)"

lemma refresh_ok:
  assumes "panel_ok p" and "shapes E" and "unat (pa_tick p) + 32 < 2 ^ 32" and "unat (pa_epoch p) + 1 < 2 ^ 64"
    and "content_delta E (refresh_content E) p \<noteq> POPUP_DELTA_STYLE"
  shows "panel_ok (refresh_visible E p) \<and> unat (pa_tick (refresh_visible E p)) \<le> unat (pa_tick p) + 32 \<and>
    unat (pa_epoch (refresh_visible E p)) \<le> unat (pa_epoch p) + 1"
  using assms update_ok [OF assms, of "fst (panel_update_content E (refresh_content E) p)"]
  by (cases "pe_context E") (auto simp: refresh_visible_def refresh_content_def)

text \<open>With no frame in flight, cache and geometry can be freed.\<close>

lemma free_layout_owned:
  assumes "ring_inv (M + ptr_mset l) p" and "in_flight (pa_heap p) = {}"
  shows "ring_inv M (free_layout l p)" and "in_flight (pa_heap (free_layout l p)) = {}" and "same_frame (free_layout l p) p"
proof -
  have "heap_owns (pa_heap p) ((M + ring_mset p) + ptr_mset l)" using assms(1) by (simp add: ring_inv_def ac_simps)
  then have "heap_owns (typio_flux_layout_free l (pa_heap p)) (M + ring_mset p)" using assms(2) by (intro free_owned) simp_all
  then have "ring_inv M (p\<lparr>pa_heap := typio_flux_layout_free l (pa_heap p)\<rparr>)" by (intro ring_inv_heap [OF assms(1)]) simp_all
  then show "ring_inv M (free_layout l p)" by (simp add: free_layout_def upd_heap_def)
qed (use assms in \<open>simp_all add: free_layout_def upd_heap_def\<close>)

lemma free_entries_owned:
  "ring_inv (entries_mset es + M) p \<Longrightarrow> in_flight (pa_heap p) = {} \<Longrightarrow>
     ring_inv M (fold free_entry es p) \<and> in_flight (pa_heap (fold free_entry es p)) = {} \<and> same_frame (fold free_entry es p) p"
proof (induction es arbitrary: p)
  case Nil
  then show ?case by (simp add: entries_mset_def)
next
  case (Cons e es)
  let ?q = "free_layout (le_layout e) p"
  have "ring_inv ((entries_mset es + M + ptr_mset (le_label_layout e)) + ptr_mset (le_layout e)) p"
    using Cons.prems(1) by (simp add: entries_mset_def entry_mset_def ac_simps)
  note f1 = free_layout_owned [OF this Cons.prems(2)]
  note f2 = free_layout_owned [OF f1(1,2)]
  have "fold free_entry (e # es) p = fold free_entry es (free_layout (le_label_layout e) ?q)" by (simp add: free_entry_def)
  then show ?case using Cons.IH [OF f2(1,2)] f1(3) f2(3) by simp
qed

lemma drain_ring_owned:
  assumes "ring_inv M p" and "in_flight (pa_heap p) = {}"
  shows "ring_inv M (drain_ring p)" and "in_flight (pa_heap (drain_ring p)) = {}" and "same_frame (drain_ring p) p"
    and "ring_mset (drain_ring p) = {#}"
proof -
  define p1 where "p1 = retire_slot_drain 0 p"
  define p2 where "p2 = retire_slot_drain 1 p1"
  have ring: "drain_ring p = retire_slot_drain 2 p2"
    by (simp add: drain_ring_def p1_def p2_def POPUP_RETIRE_DEPTH_def upt_rec numeral_2_eq_2)
  have gpu: "in_flight (pa_heap p1) = {}" "in_flight (pa_heap p2) = {}" "in_flight (pa_heap (drain_ring p)) = {}"
    using assms(2) by (simp_all add: p1_def p2_def ring in_flight_def)
  note d1 = ring_inv_drain [OF assms(1), of 0, folded p1_def]
  note d2 = ring_inv_drain [of M p1 1, folded p2_def]
  note d3 = ring_inv_drain [of M p2 2, folded ring]
  show "ring_inv M (drain_ring p)" using d1 d2 d3 gpu assms(2) by simp
  show "in_flight (pa_heap (drain_ring p)) = {}" by (fact gpu(3))
  show "same_frame (drain_ring p) p"
    using drain_frame [of 0 p] drain_frame [of 1 p1] drain_frame [of 2 p2] by (simp add: ring p1_def p2_def)
  have len: "length (pa_retire p) = 3" using assms(1) by (simp add: ring_inv_def ring_ok_def)
  then show "ring_mset (drain_ring p) = {#}"
    by (simp add: ring ring_mset_def slot_mset_def p1_def p2_def retire_slot_drain_def upd_heap_def Let_def)
qed

lemma empty_entry_fields [simp]: "le_layout empty_entry = None" "le_label_layout empty_entry = None" "le_lru_tick empty_entry = 0"
  by (simp_all add: empty_entry_def)

lemma empty_cache:
  "entries_mset (replicate n empty_entry) = {#}"
  "cache_ok (p\<lparr>pa_entries := replicate POPUP_LAYOUT_CACHE_CAP empty_entry, pa_tick := 0\<rparr>) = pa_evict_cb p"
  by (induction n) (auto simp: entries_mset_def entry_mset_def empty_entry_def cache_ok_def)

lemma invalidate_ok:
  assumes "panel_ok p"
  shows "panel_ok (panel_invalidate_config p) \<and> unat (pa_tick (panel_invalidate_config p)) \<le> unat (pa_tick p) \<and>
    pa_epoch (panel_invalidate_config p) = pa_epoch p"
proof -
  define p1 where "p1 = p\<lparr>pa_config := None, pa_theme_cache := empty_theme_cache\<rparr>"
  define p2 where "p2 = (if pa_fx_ready p1 then drain_ring (upd_heap flux_device_wait_idle p1) else p1)"
  define p3 where "p3 = popup_render_ctx_invalidate p2"
  let ?G = "geom_mset (pa_geom p)"
  have inv1: "ring_inv (entries_mset (pa_entries p) + ?G) p1"
    using assms ring_inv_cong [of p1 p] by (simp add: panel_ok_def p1_def)
  have idle: "lh_gpu (pa_heap p1) = []" if "\<not> pa_fx_ready p1" using inv1 that by (simp add: ring_inv_def ring_ok_def)
  have r2: "ring_inv (entries_mset (pa_entries p) + ?G) p2 \<and> in_flight (pa_heap p2) = {} \<and> same_frame p2 p1"
    using drain_ring_owned [OF ring_inv_idle [OF inv1]] inv1 idle upd_heap_frame [of _ p1] by (auto simp: p2_def in_flight_def)
  then have r3: "ring_inv ?G (fold free_entry (pa_entries p2) p2) \<and> in_flight (pa_heap (fold free_entry (pa_entries p2) p2)) = {} \<and>
      same_frame (fold free_entry (pa_entries p2) p2) p2"
    using free_entries_owned [of "pa_entries p2" ?G p2] by (simp add: p1_def)
  have inv3: "ring_inv ?G p3" "in_flight (pa_heap p3) = {}" "pa_geom p3 = pa_geom p" "pa_entries p3 = replicate POPUP_LAYOUT_CACHE_CAP empty_entry"
    "pa_tick p3 = 0" "cache_ok p3" "pa_epoch p3 = pa_epoch p"
    using r2 r3 assms ring_inv_frame(1,2) [of ?G]
    by (simp_all add: p3_def popup_render_ctx_invalidate_def p1_def panel_ok_def cache_ok_def)
  have result: "panel_invalidate_config p = (case pa_geom p3 of None \<Rightarrow> p3 | Some g \<Rightarrow> upd_heap (popup_geometry_free g) p3)\<lparr>pa_geom := None\<rparr>"
    unfolding panel_invalidate_config_def Let_def p3_def p2_def p1_def by simp
  have "ring_inv {#} (case pa_geom p3 of None \<Rightarrow> p3 | Some g \<Rightarrow> upd_heap (popup_geometry_free g) p3)"
  proof (cases "pa_geom p")
    case None
    then show ?thesis using inv3 by simp
  next
    case (Some g)
    have "heap_owns (pa_heap p3) (ring_mset p3 + geometry_mset g)" using inv3(1) Some by (simp add: ring_inv_def ac_simps)
    then have "heap_owns (popup_geometry_free g (pa_heap p3)) ({#} + ring_mset p3)" using inv3(2) geometry_free_owned by simp
    then show ?thesis using ring_inv_heap [OF inv3(1)] inv3(3) Some by (simp add: upd_heap_def)
  qed
  note ring_inv_frame(3) [OF this, of None]
  moreover have "pa_entries (panel_invalidate_config p) = replicate POPUP_LAYOUT_CACHE_CAP empty_entry" "pa_tick (panel_invalidate_config p) = 0"
    "pa_epoch (panel_invalidate_config p) = pa_epoch p" "pa_evict_cb (panel_invalidate_config p)" "pa_geom (panel_invalidate_config p) = None"
    using inv3 by (simp_all add: result upd_heap_def cache_ok_def split: option.split)
  ultimately show ?thesis
    using empty_cache inv3(6) by (simp add: panel_ok_def geom_ok_def cache_ok_def flip: result)
qed

lemma step_ok:
  assumes "panel_ok p" and "shapes E" and "unat (pa_tick p) + 32 < 2 ^ 32" and "unat (pa_epoch p) + 1 < 2 ^ 64" and "\<not> restyles E ev p"
  shows "panel_ok (panel_step E ev p) \<and> unat (pa_tick (panel_step E ev p)) \<le> unat (pa_tick p) + 32 \<and>
    unat (pa_epoch (panel_step E ev p)) \<le> unat (pa_epoch p) + 1"
proof -
  have noted: "panel_ok (event_noted ev p)" "pa_tick (event_noted ev p) = pa_tick p" "pa_epoch (event_noted ev p) = pa_epoch p" for ev
    using assms(1) panel_ok_cong [of "event_noted ev p" p] by (cases ev; simp add: event_noted_def)+
  have refresh: "panel_ok (refresh_visible E (event_noted ev p)) \<and>
      unat (pa_tick (refresh_visible E (event_noted ev p))) \<le> unat (pa_tick p) + 32 \<and>
      unat (pa_epoch (refresh_visible E (event_noted ev p))) \<le> unat (pa_epoch p) + 1"
    if "content_delta E (refresh_content E) (event_noted ev p) \<noteq> POPUP_DELTA_STYLE" for ev
    using refresh_ok [OF noted(1) assms(2) _ _ that] assms(3,4) noted(2,3) by simp
  show ?thesis
  proof (cases ev)
    case (PanelContent c)
    then show ?thesis
      using update_ok [OF assms(1-4), of c "fst (panel_update_content E c p)"] assms(5) by (simp add: restyles_def)
  next
    case PanelHide
    then show ?thesis using hide_ok [OF assms(1), of E] by simp
  next
    case (PanelEnter out)
    then show ?thesis using refresh [of ev] assms(1,5) by (simp add: track_output_def restyles_def event_noted_def)
  next
    case (PanelLeave out)
    then show ?thesis using refresh [of ev] assms(1,5) by (simp add: untrack_output_def restyles_def event_noted_def)
  next
    case (PanelBufferScaleHint n)
    then show ?thesis using refresh [of ev] assms(1,5) by (simp add: on_preferred_buffer_scale_def restyles_def event_noted_def)
  next
    case (PanelFractionalScale n)
    then show ?thesis using refresh [of ev] assms(1,5) by (simp add: on_fractional_preferred_scale_def restyles_def event_noted_def)
  next
    case (PanelRectangle x y w h)
    then show ?thesis using assms(1) panel_ok_cong [of "on_text_input_rectangle x y w h p" p] by (simp add: on_text_input_rectangle_def)
  next
    case (PanelOutputChange out)
    then show ?thesis using refresh [of ev] refresh [of "PanelLeave out"] assms(1,5)
      by (auto simp: panel_handle_output_change_def untrack_output_def restyles_def event_noted_def tracks_output_def)
  next
    case PanelInvalidate
    then show ?thesis using invalidate_ok [OF assms(1)] by simp
  qed
qed

subsection \<open>Runs\<close>

text \<open>A run: the events with the environment of each. It is plain when none of its events restyles.\<close>

fun plain_run :: "(panel_env \<times> panel_event) list \<Rightarrow> panel \<Rightarrow> bool" where
  "plain_run [] p \<longleftrightarrow> True"
| "plain_run ((E, ev) # run) p \<longleftrightarrow> shapes E \<and> \<not> restyles E ev p \<and> plain_run run (panel_step E ev p)"

definition panel_run :: "(panel_env \<times> panel_event) list \<Rightarrow> panel \<Rightarrow> panel" where
  "panel_run run p = fold (\<lambda>(E, ev). panel_step E ev) run p"

lemma run_ok:
  "panel_ok p \<Longrightarrow> plain_run run p \<Longrightarrow> unat (pa_tick p) + 32 * length run < 2 ^ 32 \<Longrightarrow> unat (pa_epoch p) + length run < 2 ^ 64 \<Longrightarrow>
     panel_ok (panel_run run p)"
proof (induction run arbitrary: p)
  case Nil
  then show ?case by (simp add: panel_run_def)
next
  case (Cons a run)
  obtain E ev where a: "a = (E, ev)" by fastforce
  have "unat (pa_tick p) + 32 < 2 ^ 32" "unat (pa_epoch p) + 1 < 2 ^ 64" using Cons.prems(3,4) by simp_all
  note s = step_ok [OF Cons.prems(1) _ this, of E ev]
  have "panel_run (a # run) p = panel_run run (panel_step E ev p)" by (simp add: a panel_run_def)
  then show ?case using Cons.IH [of "panel_step E ev p"] s Cons.prems a by simp
qed

lemma new_panel_ok: "panel_ok (new_panel viewport)"
proof -
  have "ring_mset (new_panel viewport) = {#}"
    by (simp add: ring_mset_def slot_mset_def new_panel_def POPUP_RETIRE_DEPTH_def numeral_3_eq_3 numeral_2_eq_2)
  moreover have "ring_ok (new_panel viewport)"
    by (simp add: ring_ok_def gpu_frame_def new_panel_def no_heap_def POPUP_RETIRE_DEPTH_def)
  moreover have "heap_owns no_heap {#}" by (simp add: heap_owns_def no_heap_def in_flight_def)
  ultimately have "ring_inv {#} (new_panel viewport)" by (simp add: ring_inv_def new_panel_def)
  then show ?thesis
    using empty_cache(1) by (auto simp: panel_ok_def cache_ok_def geom_ok_def new_panel_def empty_entry_def POPUP_LAYOUT_CACHE_CAP_def)
qed

subsection \<open>Destruction\<close>

lemma ring_inv_slots:
  assumes "pa_heap p' = pa_heap p" "length (pa_retire p') = length (pa_retire p)" "pa_epoch p' = pa_epoch p" "pa_fx_ready p' = pa_fx_ready p"
    and "\<And>k. k < 3 \<Longrightarrow> slot_mset p' k = slot_mset p k"
  shows "ring_inv M p' = ring_inv M p" and "ring_mset p' = ring_mset p"
proof -
  have "current_slot p' = current_slot p" using assms(3) by (simp add: current_slot_def)
  moreover show "ring_mset p' = ring_mset p" using assms(5) by (simp add: ring_mset_def)
  ultimately show "ring_inv M p' = ring_inv M p" using assms by (simp add: ring_inv_def ring_ok_def)
qed

lemma slot_free_owned:
  assumes "ring_inv M p" and "in_flight (pa_heap p) = {}" and "k < 3"
  shows "ring_inv M (retire_slot_free k p)" and "in_flight (pa_heap (retire_slot_free k p)) = {}" and "same_frame (retire_slot_free k p) p"
    and "slot_mset (retire_slot_free k p) j = (if j = k then {#} else slot_mset p j)"
proof -
  let ?q = "retire_slot_drain k p"
  have d: "ring_inv M ?q" "slot_mset ?q k = {#}" using ring_inv_drain [OF assms(1,3)] assms(2) by simp_all
  have len: "length (pa_retire p) = 3" using assms(1) by (simp add: ring_inv_def ring_ok_def)
  have res: "retire_slot_free k p = ?q\<lparr>pa_retire := (pa_retire ?q)[k := (pa_retire ?q ! k)\<lparr>rs_items := [], rs_cap := 0\<rparr>]\<rparr>"
    by (simp add: retire_slot_free_def Let_def)
  have slot: "slot_mset (retire_slot_free k p) j = (if j = k then {#} else slot_mset ?q j)" for j
    unfolding res using len assms(3) by (simp add: slot_update)
  have "ring_inv M (retire_slot_free k p) = ring_inv M ?q"
    by (rule ring_inv_slots(1)) (use slot d(2) in \<open>auto simp: res\<close>)
  then show "ring_inv M (retire_slot_free k p)" using d(1) by simp
  show "in_flight (pa_heap (retire_slot_free k p)) = {}" using assms(2) by (simp add: res in_flight_def)
  show "same_frame (retire_slot_free k p) p" using drain_frame [of k p] by (simp add: res)
  have "slot_mset ?q j = (if j = k then {#} else slot_mset p j)"
    using len assms(3) d(2) by (auto simp: slot_mset_def retire_slot_drain_def upd_heap_def Let_def)
  then show "slot_mset (retire_slot_free k p) j = (if j = k then {#} else slot_mset p j)" using slot by simp
qed

lemma ring_free_owned:
  assumes "ring_inv M p" and "in_flight (pa_heap p) = {}" and "q = fold retire_slot_free [0..<POPUP_RETIRE_DEPTH] p"
  shows "ring_inv M q" and "in_flight (pa_heap q) = {}" and "same_frame q p" and "ring_mset q = {#}"
proof -
  define p1 where "p1 = retire_slot_free 0 p"
  define p2 where "p2 = retire_slot_free 1 p1"
  have q: "q = retire_slot_free 2 p2"
    by (simp add: assms(3) p1_def p2_def POPUP_RETIRE_DEPTH_def upt_rec numeral_2_eq_2)
  have i1: "ring_inv M p1 \<and> in_flight (pa_heap p1) = {} \<and> same_frame p1 p"
    unfolding p1_def using slot_free_owned(1,2,3) [OF assms(1,2), of 0] by simp
  have i2: "ring_inv M p2 \<and> in_flight (pa_heap p2) = {} \<and> same_frame p2 p"
    unfolding p2_def using slot_free_owned(1,2,3) [of M p1 1] i1 by simp
  note f = slot_free_owned [of M p2 2, folded q] slot_free_owned(4) [of M p1 1, folded p2_def] slot_free_owned(4) [OF assms(1,2), of 0, folded p1_def]
  show "ring_inv M q" "in_flight (pa_heap q) = {}" "same_frame q p" using f(1-3) i2 by simp_all
  show "ring_mset q = {#}" using f(4-6) i1 i2 by (simp add: ring_mset_def)
qed

lemma destroy_frees_all:
  assumes "panel_ok p"
  shows "lh_live (candidate_panel_destroy E p) = (\<lambda>_. None) \<and> \<not> lh_fault (candidate_panel_destroy E p)"
proof -
  define p1 where "p1 = hide_surface E p"
  define q where "q = (if pa_fx_ready p1 then upd_heap flux_device_wait_idle p1 else p1)"
  define p2 where "p2 = fx_teardown E p1"
  define p3 where "p3 = fold retire_slot_free [0..<POPUP_RETIRE_DEPTH] p2"
  define p4 where "p4 = (case pa_geom p3 of None \<Rightarrow> p3 | Some g \<Rightarrow> upd_heap (popup_geometry_free g) p3)\<lparr>pa_geom := None\<rparr>"
  define M where "M = entries_mset (pa_entries p1)"
  let ?G = "geom_mset (pa_geom p1)"
  have ok1: "panel_ok p1" using hide_ok [OF assms, of E] by (simp add: p1_def)
  have r1: "ring_inv (M + ?G) p1" using ok1 by (simp add: panel_ok_def M_def)
  have idle: "lh_gpu (pa_heap p1) = []" if "\<not> pa_fx_ready p1" using r1 that by (simp add: ring_inv_def ring_ok_def)
  have gpu: "lh_gpu (pa_heap q) = []" using idle by (simp add: q_def)
  have rq: "ring_inv (M + ?G) q" using r1 ring_inv_idle [OF r1] by (simp add: q_def)
  have p2: "p2 = q\<lparr>pa_vk_surface := False, pa_fx_ready := False, pa_surf_w := 0, pa_surf_h := 0\<rparr>"
    by (simp add: p2_def fx_teardown_def q_def Let_def)
  have same2: "pa_entries p2 = pa_entries p1" "pa_geom p2 = pa_geom p1" using upd_heap_frame [of flux_device_wait_idle p1] by (simp_all add: p2 q_def)
  have "slot_mset p2 k = slot_mset q k" "current_slot p2 = current_slot q" for k by (simp_all add: p2 slot_mset_def current_slot_def)
  then have r2: "ring_inv (M + ?G) p2" "in_flight (pa_heap p2) = {}"
    using rq gpu by (simp_all add: ring_inv_def ring_ok_def ring_mset_def p2 in_flight_def)
  note r3 = ring_free_owned [OF r2 p3_def]
  have "ring_inv M p4 \<and> in_flight (pa_heap p4) = {} \<and> pa_entries p4 = pa_entries p1 \<and> ring_mset p4 = {#}"
  proof (cases "pa_geom p1")
    case None
    then show ?thesis using r3 same2 ring_inv_frame(3) [of M p3 None] by (simp add: p4_def ring_mset_def slot_mset_def)
  next
    case (Some g)
    have "heap_owns (pa_heap p3) ((M + ring_mset p3) + geometry_mset g)" using r3(1) Some by (simp add: ring_inv_def ac_simps)
    then have "heap_owns (popup_geometry_free g (pa_heap p3)) (M + ring_mset p3)" using r3(2) by (intro geometry_free_owned) simp_all
    then have "ring_inv M (p3\<lparr>pa_heap := popup_geometry_free g (pa_heap p3)\<rparr>)" by (intro ring_inv_heap [OF r3(1)]) simp_all
    note ring_inv_frame(3) [OF this, of None]
    then show ?thesis using r3 same2 Some by (simp add: p4_def upd_heap_def ring_mset_def slot_mset_def)
  qed
  then have p4: "ring_inv (entries_mset (pa_entries p4) + {#}) p4" "in_flight (pa_heap p4) = {}" "ring_mset p4 = {#}"
    by (simp_all add: M_def)
  let ?f = "fold free_entry (pa_entries p4) p4"
  have f: "ring_inv {#} ?f \<and> same_frame ?f p4" using free_entries_owned [OF p4(1,2)] by simp
  have ring: "pa_retire ?f = pa_retire p4"
    by (rule fold_invariant [where P = "\<lambda>x. pa_retire x = pa_retire p4"]) (simp_all add: free_entry_def free_layout_def)
  then have "heap_owns (pa_heap ?f) {#}" using f p4(3) by (simp add: ring_inv_def ring_mset_def slot_mset_def)
  then have "\<not> lh_fault (pa_heap ?f) \<and> lh_live (pa_heap ?f) i = None" for i by (auto simp: heap_owns_def split: if_splits)
  moreover have "candidate_panel_destroy E p = pa_heap ?f"
    unfolding candidate_panel_destroy_def Let_def popup_render_ctx_free_def p4_def p3_def p2_def p1_def by simp
  ultimately show ?thesis by auto
qed

end
