(* ===== verification/Panel_Faults.thy ===== *)
theory Panel_Faults
  imports Panel_Run
begin

section \<open>Faults of the panel\<close>

text \<open>
  A fault is never taken back. So freeing one layout whose image a frame in flight reads shows in the
  state after the whole event.
\<close>

abbreviation faulty :: "panel \<Rightarrow> bool" where
  "faulty p \<equiv> lh_fault (pa_heap p)"

subsection \<open>The store\<close>

lemma free_faulty: "lh_fault h \<Longrightarrow> lh_fault (typio_flux_layout_free l h)"
  by (simp add: typio_flux_layout_free_def split: option.split)

lemma fill_faulty: "lh_fault h \<Longrightarrow> lh_fault (typio_flux_fill_layout l h)"
  by (simp add: typio_flux_fill_layout_def split: option.split)

lemma item_faulty: "lh_fault h \<Longrightarrow> lh_fault (retire_item_free it h)"
  by (simp add: retire_item_free_def popup_geometry_free_def free_faulty split: PopupRetireItem.split)

lemma items_faulty: "lh_fault h \<Longrightarrow> lh_fault (fold retire_item_free its h)"
  by (induction its arbitrary: h) (simp_all add: item_faulty)

lemma draw_faulty: "lh_fault h \<Longrightarrow> lh_fault (draw_all cmds h)"
  unfolding draw_all_def by (rule fold_invariant [where P = lh_fault]) (simp_all add: fill_faulty)

subsection \<open>The panel\<close>

lemma drain_faulty: "faulty p \<Longrightarrow> faulty (retire_slot_drain k p)"
  by (simp add: retire_slot_drain_def upd_heap_def Let_def items_faulty)

lemma push_faulty: "faulty p \<Longrightarrow> faulty (retire_slot_push E k it p)"
proof -
  assume p: "faulty p"
  define q where "q = (if POPUP_RETIRE_SLOT_MAX \<le> length (rs_items (pa_retire p ! k))
    then retire_slot_drain k (upd_heap flux_device_wait_idle p) else p)"
  have "faulty q" using p drain_faulty [of "upd_heap flux_device_wait_idle p"] by (simp add: q_def upd_heap_def flux_device_wait_idle_def)
  then show ?thesis unfolding retire_slot_push_def Let_def q_def [symmetric]
    by (simp add: upd_heap_def flux_device_wait_idle_def item_faulty)
qed

lemma retire_layout_faulty: "faulty p \<Longrightarrow> faulty (popup_retire_layout E l p)"
  by (simp add: popup_retire_layout_def push_faulty free_faulty upd_heap_def split: option.split)

lemma retire_geometry_faulty: "faulty p \<Longrightarrow> faulty (retire_geometry E g p)"
  by (simp add: retire_geometry_def push_faulty popup_geometry_free_def free_faulty upd_heap_def split: option.split)

lemma evict_faulty: "faulty p \<Longrightarrow> faulty (evict E l p)"
  by (simp add: evict_def retire_layout_faulty free_layout_def upd_heap_def free_faulty)

lemma create_faulty: "create_layout E t f c p = (l, p') \<Longrightarrow> faulty p \<Longrightarrow> faulty p'"
  by (auto simp: create_layout_def Let_def split: option.splits)

lemma fill_entry_faulty:
  assumes "lru_fill E idx key lcp tcp label text lf f lc tc p = (e, p')" and "faulty p"
  shows "faulty p'"
proof -
  let ?v = "pa_entries p ! idx"
  define p2 where "p2 = evict E (le_label_layout ?v) (evict E (le_layout ?v) p)"
  obtain ll p3 where p3: "create_layout E label lf lc p2 = (ll, p3)" by fastforce
  obtain l p4 where p4: "create_layout E text f tc p3 = (l, p4)" by fastforce
  have "p' = snd (lru_fill E idx key lcp tcp label text lf f lc tc p)" using assms(1) by simp
  also have "pa_heap \<dots> = pa_heap p4" unfolding lru_fill_def Let_def p2_def [symmetric] by (simp add: p3 p4)
  finally show ?thesis using create_faulty [OF p4] create_faulty [OF p3] assms(2) by (simp add: p2_def evict_faulty)
qed

lemma lookup_faulty:
  assumes "lru_get_or_create E label text lf f lc tc p = (e, p')" and "faulty p"
  shows "faulty p'"
proof -
  have p: "faulty (p\<lparr>pa_tick := pa_tick p + 1\<rparr>)" using assms(2) by simp
  show ?thesis
    using assms(1) p fill_entry_faulty [OF _ p] unfolding lru_get_or_create_def Let_def by (auto split: sum.splits)
qed

lemma rows_faulty: "geometry_rows E lf f lc tc sc s i cs p = (rows, p') \<Longrightarrow> faulty p \<Longrightarrow> faulty p'"
proof (induction cs arbitrary: i p rows p')
  case (Cons c cs)
  obtain lb tx where parts: "format_candidate_parts c i = (lb, tx)" by fastforce
  obtain e p1 where e: "lru_get_or_create E lb tx lf f lc tc p = (e, p1)" by fastforce
  obtain e' p2 where e': "lru_get_or_create E lb tx lf f sc sc p1 = (e', p2)" by fastforce
  obtain rs p3 where rs: "geometry_rows E lf f lc tc sc s (i + 1) cs p2 = (rs, p3)" by fastforce
  have "p' = p3" using Cons.prems(1) parts e e' rs by simp
  then show ?case using Cons.IH [OF rs] lookup_faulty [OF e'] lookup_faulty [OF e] Cons.prems(2) by simp
qed simp

lemma aux_faulty: "aux_layout E wanted t f c p = (r, p') \<Longrightarrow> faulty p \<Longrightarrow> faulty p'"
  by (auto simp: aux_layout_def create_faulty split: if_splits prod.splits)

lemma compute_faulty:
  assumes "popup_geometry_compute E cands preedit mode cfg pal scale p = (res, p')" and "faulty p"
  shows "faulty p'"
proof (cases "POPUP_MAX_ROWS < length (cl_candidates cands) \<or> \<not> pe_geometry_alloc E")
  case True
  then have "(res, p') = (None, p)" using assms(1) unfolding popup_geometry_compute_def Let_def by (simp split: if_splits)
  then show ?thesis using assms(2) by simp
next
  case False
  define s where "s = positive_scale scale"
  define sf where "sf = (\<lambda>d. scaled_font_desc E (d cfg) s)"
  obtain rows p1 where rows: "geometry_rows E (sf pc_label_font_desc) (sf pc_font_desc) (opaque E (pl_muted pal)) (opaque E (pl_text pal))
      (opaque E (pl_selection_text pal)) s 0 (cl_candidates cands) p = (rows, p1)" by fastforce
  obtain l1 a1 b1 p2 where l1: "aux_layout E (filled preedit) (or_empty preedit) (sf pc_aux_font_desc) (opaque E (pl_preedit pal)) p1 = ((l1, a1, b1), p2)"
    by (metis surj_pair)
  obtain l2 a2 b2 p3 where l2: "aux_layout E (pc_mode_indicator cfg \<and> filled mode) (or_empty mode) (sf pc_aux_font_desc) (opaque E (pl_muted pal)) p2 =
      ((l2, a2, b2), p3)" by (metis surj_pair)
  have "p' = snd (popup_geometry_compute E cands preedit mode cfg pal scale p)" using assms(1) by simp
  also have "\<dots> = p3" using False rows l1 l2 by (simp add: popup_geometry_compute_def Let_def s_def [symmetric] sf_def)
  finally show ?thesis using aux_faulty [OF l2] aux_faulty [OF l1] rows_faulty [OF rows] assms(2) by simp
qed

lemma rebuild_faulty: "faulty p \<Longrightarrow> faulty (snd (rebuild_geometry E cands preedit mode cfg pal scale p))"
  using compute_faulty [of E cands preedit mode cfg pal scale p] retire_geometry_faulty
  by (auto simp: rebuild_geometry_def replace_geometry_def split: prod.split option.split)

text \<open>The steps of showing a geometry.\<close>

lemma show_steps:
  assumes "pa_geom p = Some g"
  obtains w h ready p1 out res p2 where "ensure_fx_surface E w h p = (ready, p1)"
    and "popup_present E g sel (p1\<lparr>pa_out := pa_out p1 @ out\<rparr>) = (res, p2)"
    and "snd (show_geometry E sel p) = (if \<not> ready then p1 else case res of
      POPUP_PRESENT_OK \<Rightarrow> retire_slot_drain (current_slot (p2\<lparr>pa_selected := sel, pa_visible := True, pa_epoch := pa_epoch p2 + 1\<rparr>))
          (p2\<lparr>pa_selected := sel, pa_visible := True, pa_epoch := pa_epoch p2 + 1\<rparr>)
    | POPUP_PRESENT_RETRY \<Rightarrow> p2\<lparr>pa_present_retry := True\<rparr>
    | POPUP_PRESENT_FAIL \<Rightarrow> p2)"
proof -
  let ?s = "positive_scale (ge_scale g)" and ?out = "\<lambda>p. if pa_viewport p then [PanelBufferScale 1, PanelViewport (ge_popup_w g) (ge_popup_h g)]
    else [PanelBufferScale (if \<lceil>positive_scale (ge_scale g)\<rceil> < 1 then 1 else \<lceil>positive_scale (ge_scale g)\<rceil>)]"
  let ?px = "\<lambda>n. \<lceil>pe_fl E (pe_fl E (of_int n) * ?s)\<rceil>"
  obtain ready p1 where p1: "ensure_fx_surface E (if ?px (ge_popup_w g) < 1 then 1 else ?px (ge_popup_w g))
      (if ?px (ge_popup_h g) < 1 then 1 else ?px (ge_popup_h g)) p = (ready, p1)" by fastforce
  obtain res p2 where p2: "popup_present E g sel (p1\<lparr>pa_out := pa_out p1 @ ?out p1\<rparr>) = (res, p2)" by fastforce
  show ?thesis
    by (rule that [OF p1 p2]) (use assms p1 p2 in \<open>cases "pa_viewport p1"; cases ready; cases res; simp add: show_geometry_def Let_def\<close>)
qed

lemma present_faulty: "popup_present E g sel p = (res, p') \<Longrightarrow> faulty p \<Longrightarrow> faulty p'"
  by (cases "pe_present E") (auto simp: popup_present_def Let_def upd_heap_def flux_frame_submit_def draw_faulty split: if_splits)

lemma ensure_faulty: "ensure_fx_surface E w h p = (ok, p') \<Longrightarrow> faulty p \<Longrightarrow> faulty p'"
  by (auto simp: ensure_fx_surface_def Let_def split: if_splits)

lemma show_faulty: "faulty p \<Longrightarrow> faulty (snd (show_geometry E sel p))"
proof (cases "pa_geom p")
  case (Some g)
  assume p: "faulty p"
  show ?thesis
    by (rule show_steps [OF Some, of E sel])
      (use p ensure_faulty present_faulty drain_faulty in \<open>fastforce split: PopupPresentResult.split\<close>)
qed (simp add: show_geometry_def)

subsection \<open>Freeing a layout whose image is in flight\<close>

text \<open>Freeing everything faults when one of the layouts is read by a frame in flight.\<close>

definition read_in_flight :: "nat \<Rightarrow> layout_heap \<Rightarrow> bool" where
  "read_in_flight i h \<longleftrightarrow> (\<exists>l. lh_live h i = Some l \<and> layout_has_image l) \<and> i \<in> in_flight h"

lemma free_read:
  "read_in_flight i h \<Longrightarrow> lh_fault (typio_flux_layout_free (Some i) h)"
  "read_in_flight i h \<Longrightarrow> l \<noteq> Some i \<Longrightarrow> read_in_flight i (typio_flux_layout_free l h)"
  by (auto simp: read_in_flight_def in_flight_def typio_flux_layout_free_def split: option.splits)

lemma free_entry_read:
  assumes "read_in_flight i (pa_heap p)"
  shows "faulty (free_entry e p) \<or> (i \<notin># entry_mset e \<and> read_in_flight i (pa_heap (free_entry e p)))"
proof (cases "le_layout e = Some i")
  case True
  then show ?thesis using free_read(1) [OF assms] by (simp add: free_entry_def free_layout_def upd_heap_def free_faulty)
next
  case False
  have next_heap: "read_in_flight i (typio_flux_layout_free (le_layout e) (pa_heap p))" by (rule free_read(2) [OF assms False])
  show ?thesis
  proof (cases "le_label_layout e = Some i")
    case True
    then show ?thesis using free_read(1) [OF next_heap] by (simp add: free_entry_def free_layout_def upd_heap_def)
  next
    case label: False
    have "i \<notin># entry_mset e" using False label by (cases "le_layout e"; cases "le_label_layout e") (simp_all add: entry_mset_def)
    then show ?thesis using free_read(2) [OF next_heap label] by (simp add: free_entry_def free_layout_def upd_heap_def)
  qed
qed

lemma free_entries_read:
  "read_in_flight i (pa_heap p) \<Longrightarrow> i \<in># entries_mset es \<Longrightarrow> faulty (fold free_entry es p)"
proof (induction es arbitrary: p)
  case Nil
  then show ?case by (simp add: entries_mset_def)
next
  case (Cons e es)
  have stays: "faulty q \<Longrightarrow> faulty (fold free_entry es q)" for q
    by (rule fold_invariant [where P = faulty]) (simp_all add: free_entry_def free_layout_def upd_heap_def free_faulty)
  show ?case using free_entry_read [OF Cons.prems(1), of e] Cons.IH [of "free_entry e p"] Cons.prems(2) stays by (auto simp: entries_mset_def)
qed

lemma invalidate_read: "read_in_flight i (pa_heap p) \<Longrightarrow> i \<in># entries_mset (pa_entries p) \<Longrightarrow> faulty (popup_render_ctx_invalidate p)"
  using free_entries_read by (simp add: popup_render_ctx_invalidate_def)

lemma style_render_faulty:
  assumes "render_delta E cands preedit mode p = POPUP_DELTA_STYLE" and "read_in_flight i (pa_heap p)" and "i \<in># entries_mset (pa_entries p)"
  shows "faulty (snd (popup_render E cands preedit mode p))"
proof -
  obtain cfg pal q where q: "render_prepare E p = (cfg, pal, q)" by (metis surj_pair)
  define cs where "cs = (case cands of None \<Rightarrow> no_candidates | Some c \<Rightarrow> c)"
  define sel where "sel = (if cl_candidates cs \<noteq> [] then cl_selected cs else -1)"
  have "faulty (popup_render_ctx_invalidate q)" using assms(2,3) prepare_fields(1,5) [OF q] invalidate_read by simp
  then have "faulty (snd (apply_delta E POPUP_DELTA_STYLE cs preedit mode cfg pal (render_scale E q) q))"
    by (simp add: apply_delta_def rebuild_faulty)
  then show ?thesis unfolding render_alt [OF q] Let_def cs_def [symmetric] sel_def [symmetric] assms(1)
    using show_faulty by (auto split: prod.split bool.split)
qed

end
