(* ===== verification/Panel_Laid.thy ===== *)
theory Panel_Laid
  imports Panel_Positions Panel_Faults
begin

section \<open>The shown geometry is always laid out\<close>

text \<open>
  In every run the rows of the panel lie inside of it, below the preedit and above the mode label,
  without overlap, each with its label before its text. The sizes come from the cache, so the
  invariant has two parts: the measures in the cache are not negative, and the current geometry is
  laid out. Restyling events are allowed here.
\<close>

definition rows_laid :: "PopupGeometry \<Rightarrow> bool" where
  "rows_laid g \<longleftrightarrow>
     list_all (row_inside POPUP_PAD_X (POPUP_PAD_Y + ge_pre_h g) (ge_popup_w g - POPUP_PAD_X) (rows_bottom g)) (ge_rows g) \<and>
     sorted_wrt (if pc_layout_mode (ge_config g) = POPUP_LAYOUT_VERTICAL then below else right_of) (ge_rows g)"

definition geom_laid :: "PopupGeometry \<Rightarrow> bool" where
  "geom_laid g \<longleftrightarrow> (ge_popup_w g \<le> 2 ^ 24 \<longrightarrow> rows_laid g)"

definition entry_measured :: "PopupLayoutEntry \<Rightarrow> bool" where
  "entry_measured e \<longleftrightarrow> 0 \<le> le_label_pixel_w e \<and> 0 \<le> le_label_pixel_h e \<and> 0 \<le> le_pixel_w e \<and> 0 \<le> le_pixel_h e"

definition laid :: "panel \<Rightarrow> bool" where
  "laid p \<longleftrightarrow> list_all entry_measured (pa_entries p) \<and> (\<forall>g. pa_geom p = Some g \<longrightarrow> geom_laid g)"

text \<open>What the environment has to provide: sizes that are not negative, exact small integers.\<close>

definition measuring :: "panel_env \<Rightarrow> bool" where
  "measuring E \<longleftrightarrow> exact_ints E \<and> (\<forall>x. 0 \<le> x \<longrightarrow> 0 \<le> pe_fl E x) \<and>
     (\<forall>t f c. case pe_shape E t f c of None \<Rightarrow> True | Some sh \<Rightarrow> 0 \<le> sh_width sh \<and> 0 \<le> sh_height sh)"

lemma measuring_shape: "measuring E \<Longrightarrow> pe_shape E t f c = Some sh \<Longrightarrow> 0 \<le> sh_width sh \<and> 0 \<le> sh_height sh"
  unfolding measuring_def by (metis (no_types, lifting) option.case(2))

lemma measuring_fl: "measuring E \<Longrightarrow> 0 \<le> x \<Longrightarrow> 0 \<le> pe_fl E x"
  unfolding measuring_def by blast

lemma measuring_px: "measuring E \<Longrightarrow> 0 \<le> x \<Longrightarrow> 0 \<le> logical_px E x s"
proof -
  assume E: "measuring E" and x: "0 \<le> x"
  have "0 < positive_scale s" by (simp add: positive_scale_def)
  with x have "0 \<le> pe_fl E (x / positive_scale s)" by (intro measuring_fl [OF E]) simp
  then show ?thesis by (simp add: logical_px_def)
qed

subsection \<open>Measures\<close>

lemma create_metrics:
  assumes "measuring E" and "create_layout E t f c p = (l, p')"
  shows "0 \<le> fst (get_metrics p' l) \<and> 0 \<le> snd (get_metrics p' l)"
  using assms(2) measuring_shape [OF assms(1), of t f c]
  by (auto simp: create_layout_def Let_def get_metrics_def layout_shape_def split: option.splits)

lemma create_older:
  assumes "create_layout E t f c p = (l, p1)" and "create_layout E t' f' c' p1 = (l', p2)"
  shows "get_metrics p2 l = get_metrics p1 l"
  using assms by (auto simp: create_layout_def Let_def get_metrics_def layout_shape_def split: option.splits)

lemma fill_measured:
  assumes "measuring E" and "lru_fill E idx key lcp tcp label text lf f lc tc p = (e, p')"
  shows "entry_measured e" and "pa_entries p' = (pa_entries p)[idx := e]" and "pa_geom p' = pa_geom p"
proof -
  let ?v = "pa_entries p ! idx"
  define p2 where "p2 = evict E (le_label_layout ?v) (evict E (le_layout ?v) p)"
  obtain ll p3 where p3: "create_layout E label lf lc p2 = (ll, p3)" by fastforce
  obtain l p4 where p4: "create_layout E text f tc p3 = (l, p4)" by fastforce
  have fr: "same_frame p2 p"
    using evict_frame [of E "le_label_layout ?v" "evict E (le_layout ?v) p"] evict_frame [of E "le_layout ?v" p] by (simp add: p2_def)
  have fr4: "same_frame p4 p" using fr create_frame [OF p3] create_frame [OF p4] by simp
  have e: "e = fst (lru_fill E idx key lcp tcp label text lf f lc tc p)" "p' = snd (lru_fill E idx key lcp tcp label text lf f lc tc p)"
    using assms(2) by simp_all
  have m: "le_label_pixel_w e = fst (get_metrics p4 ll)" "le_label_pixel_h e = snd (get_metrics p4 ll)"
    "le_pixel_w e = fst (get_metrics p4 l)" "le_pixel_h e = snd (get_metrics p4 l)" "p' = p4\<lparr>pa_entries := (pa_entries p)[idx := e]\<rparr>"
    unfolding e lru_fill_def Let_def p2_def [symmetric] by (simp_all add: p3 p4 fr4)
  show "entry_measured e"
    using create_metrics [OF assms(1) p3] create_metrics [OF assms(1) p4] create_older [OF p3 p4] by (simp add: entry_measured_def m)
  show "pa_entries p' = (pa_entries p)[idx := e]" "pa_geom p' = pa_geom p" using m(5) fr4 by simp_all
qed

lemma measured_update: "list_all entry_measured es \<Longrightarrow> entry_measured e \<Longrightarrow> list_all entry_measured (es[i := e])"
  by (auto simp: list_all_iff dest: set_update_subset_insert [THEN subsetD])

lemma lookup_measured:
  assumes "measuring E" and "list_all entry_measured (pa_entries p)" and "lru_get_or_create E label text lf f lc tc p = (e, p')"
  shows "entry_measured e \<and> list_all entry_measured (pa_entries p') \<and> pa_geom p' = pa_geom p"
proof -
  let ?p = "p\<lparr>pa_tick := pa_tick p + 1\<rparr>"
  let ?lcp = "pack_color E lc" and ?tcp = "pack_color E tc"
  let ?key = "layout_cache_key label text lf f ?lcp ?tcp"
  define hit where "hit = (\<lambda>e. entry_matches e ?key ?lcp ?tcp label text lf f)"
  have res: "(e, p') = (case lru_scan hit 0 (0, - 1) (pa_entries ?p) of
        Inl i \<Rightarrow> let e = (pa_entries ?p ! i)\<lparr>le_lru_tick := pa_tick ?p\<rparr> in (e, ?p\<lparr>pa_entries := (pa_entries ?p)[i := e]\<rparr>)
      | Inr idx \<Rightarrow> lru_fill E idx ?key ?lcp ?tcp label text lf f lc tc ?p)"
    using assms(3) unfolding lru_get_or_create_def Let_def hit_def by simp
  show ?thesis
  proof (cases "lru_scan hit 0 (0, - 1) (pa_entries ?p)")
    case (Inl i)
    have "i < length (pa_entries p)" using lru_scan_hit [OF Inl] by simp
    then have "entry_measured (pa_entries p ! i)" using assms(2) by (simp add: list_all_length)
    moreover have e: "e = (pa_entries p ! i)\<lparr>le_lru_tick := pa_tick p + 1\<rparr>" "p' = ?p\<lparr>pa_entries := (pa_entries p)[i := e]\<rparr>"
      using res Inl by (simp_all add: Let_def)
    ultimately have "entry_measured e" by (simp add: entry_measured_def)
    then show ?thesis using assms(2) measured_update unfolding e(2) by simp
  next
    case (Inr idx)
    with res have "lru_fill E idx ?key ?lcp ?tcp label text lf f lc tc ?p = (e, p')" by simp
    note f = fill_measured [OF assms(1) this]
    then show ?thesis using assms(2) measured_update by simp
  qed
qed

lemma make_row_sized: "measuring E \<Longrightarrow> entry_measured e \<Longrightarrow> row_sized (make_row E s e e')"
  by (simp add: make_row_def Let_def row_sized_def entry_measured_def measuring_px const_defs)

lemma rows_measured:
  assumes "geometry_rows E lf f lc tc sc s i cs p = (rows, p')" and "measuring E" and "list_all entry_measured (pa_entries p)"
  shows "list_all row_sized rows \<and> list_all entry_measured (pa_entries p') \<and> pa_geom p' = pa_geom p"
  using assms(1,3)
proof (induction cs arbitrary: i p rows p')
  case Nil
  then show ?case by simp
next
  case (Cons c cs)
  obtain lb tx where parts: "format_candidate_parts c i = (lb, tx)" by fastforce
  obtain e p1 where e: "lru_get_or_create E lb tx lf f lc tc p = (e, p1)" by fastforce
  obtain e' p2 where e': "lru_get_or_create E lb tx lf f sc sc p1 = (e', p2)" by fastforce
  obtain rs p3 where rs: "geometry_rows E lf f lc tc sc s (i + 1) cs p2 = (rs, p3)" by fastforce
  have rows: "rows = make_row E s e e' # rs" "p' = p3" using Cons.prems(1) parts e e' rs by simp_all
  note l1 = lookup_measured [OF assms(2) Cons.prems(2) e]
  note l2 = lookup_measured [OF assms(2) _ e']
  show ?case using rows Cons.IH [OF rs] l1 l2 make_row_sized [OF assms(2)] by simp
qed

subsection \<open>Geometries\<close>

lemma aux_frame: "aux_layout E wanted t f c p = (r, p') \<Longrightarrow> same_frame p' p"
  by (auto simp: aux_layout_def create_layout_def Let_def split: if_splits option.splits prod.splits)

lemma aux_sized: "measuring E \<Longrightarrow> aux_layout E wanted t f c p = ((l, w, h), p') \<Longrightarrow> 0 \<le> w \<and> 0 \<le> h"
  using create_metrics [of E t f c p l p'] by (auto simp: aux_layout_def split: if_splits prod.splits)

text \<open>Whatever positions are computed, the other fields stay.\<close>

lemma vertical_fields:
  "\<exists>W H rows mx md my. compute_positions_vertical E b g =
     (let g' = g\<lparr>ge_popup_w := W, ge_popup_h := H, ge_rows := rows, ge_pre_x := of_int POPUP_PAD_X, ge_pre_y := of_int POPUP_PAD_Y\<rparr>
      in if ge_mode_layout g \<noteq> None \<and> 0 < ge_mode_h g then g'\<lparr>ge_mode_x := mx, ge_mode_divider_y := md, ge_mode_y := my\<rparr>
         else g'\<lparr>ge_mode_divider_y := -1\<rparr>)"
  unfolding compute_positions_vertical_def Let_def by (rule exI)+ (rule refl)

lemma horizontal_fields:
  "\<exists>W H rows mx my. compute_positions_horizontal E b g =
     (let g' = g\<lparr>ge_popup_w := W, ge_popup_h := H, ge_rows := rows, ge_pre_x := of_int POPUP_PAD_X, ge_pre_y := of_int POPUP_PAD_Y,
                 ge_mode_divider_y := -1\<rparr>
      in if ge_mode_layout g' \<noteq> None \<and> 0 < ge_mode_h g' then g'\<lparr>ge_mode_x := mx, ge_mode_y := my\<rparr> else g')"
proof -
  obtain w h where "row_extent (ge_rows g) = (w, h)" by fastforce
  then show ?thesis unfolding compute_positions_horizontal_def Let_def prod.case by (simp only: prod.case) ((rule exI)+, rule refl)
qed

lemma positions_fields:
  "ge_config (compute_positions E cfg b g) = ge_config g" "ge_pre_h (compute_positions E cfg b g) = ge_pre_h g"
  using vertical_fields [of E b g] horizontal_fields [of E b g] by (auto simp: compute_positions_def Let_def)

lemma positions_laid:
  assumes "exact_ints E" and "sized g" and "g' = compute_positions E cfg pre_used g" and "ge_config g = cfg" and "\<not> pre_used \<longrightarrow> ge_pre_h g = 0"
  shows "geom_laid g'"
  unfolding geom_laid_def
proof
  assume small: "ge_popup_w g' \<le> 2 ^ 24"
  have same: "ge_config g' = cfg" "ge_pre_h g' = ge_pre_h g"
    unfolding assms(3) by (simp_all add: positions_fields assms(4))
  have "POPUP_PAD_Y + ge_pre_h g' \<le> rows_begin pre_used g'"
    using assms(2,5) same(2) by (auto simp: rows_begin_def sized_def const_defs)
  then have weaker: "row_inside x0 (POPUP_PAD_Y + ge_pre_h g') x1 y1 r" if "row_inside x0 (rows_begin pre_used g') x1 y1 r" for x0 x1 y1 r
    using that by (simp add: row_inside_def)
  show "rows_laid g'"
  proof (cases "pc_layout_mode cfg = POPUP_LAYOUT_VERTICAL")
    case True
    then have "g' = compute_positions_vertical E pre_used g" by (simp add: assms(3) compute_positions_def)
    from vertical_inside [OF assms(1,2) this small] show ?thesis
      using True by (auto simp: rows_laid_def same(1) list_all_iff intro: weaker)
  next
    case False
    then have "g' = compute_positions_horizontal E pre_used g" by (simp add: assms(3) compute_positions_def)
    from horizontal_inside [OF assms(1,2) this small] show ?thesis
      using False by (auto simp: rows_laid_def same(1) list_all_iff intro: weaker)
  qed
qed

lemma compute_placed:
  assumes "popup_geometry_compute E cands preedit mode cfg pal scale p = (res, p')" and "measuring E" and "list_all entry_measured (pa_entries p)"
  shows "list_all entry_measured (pa_entries p') \<and> pa_geom p' = pa_geom p \<and> (\<forall>g. res = Some g \<longrightarrow>
    (\<exists>g0. g = compute_positions E cfg (filled preedit) g0 \<and> sized g0 \<and> ge_config g0 = cfg \<and> (\<not> filled preedit \<longrightarrow> ge_pre_h g0 = 0) \<and>
      (cl_candidates cands = [] \<longrightarrow> ge_rows g0 = [])))"
proof (cases "POPUP_MAX_ROWS < length (cl_candidates cands) \<or> \<not> pe_geometry_alloc E")
  case True
  then have "(res, p') = (None, p)" using assms(1) unfolding popup_geometry_compute_def Let_def by (simp split: if_splits)
  then show ?thesis using assms(3) by simp
next
  case False
  define s where "s = positive_scale scale"
  define sf where "sf = (\<lambda>d. scaled_font_desc E (d cfg) s)"
  obtain rows p1 where rows: "geometry_rows E (sf pc_label_font_desc) (sf pc_font_desc) (opaque E (pl_muted pal)) (opaque E (pl_text pal))
      (opaque E (pl_selection_text pal)) s 0 (cl_candidates cands) p = (rows, p1)" by fastforce
  obtain l1 a1 b1 p2 where l1: "aux_layout E (filled preedit) (or_empty preedit) (sf pc_aux_font_desc) (opaque E (pl_preedit pal)) p1 = ((l1, a1, b1), p2)"
    by (metis surj_pair)
  obtain l2 a2 b2 p3 where l2: "aux_layout E (pc_mode_indicator cfg \<and> filled mode) (or_empty mode) (sf pc_aux_font_desc) (opaque E (pl_muted pal)) p2 =
      ((l2, a2, b2), p3)" by (metis surj_pair)
  define g0 where "g0 = \<lparr>ge_rows = rows, ge_preedit_layout = l1, ge_pre_x = 0, ge_pre_y = 0,
     ge_pre_w = (if filled preedit then logical_px E a1 s else 0), ge_pre_h = (if filled preedit then logical_px E b1 s else 0),
     ge_mode_layout = l2, ge_mode_x = 0, ge_mode_y = 0,
     ge_mode_w = (if pc_mode_indicator cfg \<and> filled mode then logical_px E a2 s else 0),
     ge_mode_h = (if pc_mode_indicator cfg \<and> filled mode then logical_px E b2 s else 0),
     ge_mode_divider_y = 0, ge_popup_w = 0, ge_popup_h = 0, ge_scale = s, ge_content_sig = cl_content_signature cands,
     ge_palette_sig = typio_candidate_panel_palette_hash (pe_palette_bytes E) pal, ge_preedit_text = snprintf 256 (or_empty preedit),
     ge_mode_label = snprintf 128 (or_empty mode), ge_config = cfg, ge_palette = pal\<rparr>"
  have res: "res = Some (compute_positions E cfg (filled preedit) g0)" "p' = p3"
    using assms(1) False rows l1 l2 by (simp_all add: popup_geometry_compute_def Let_def s_def [symmetric] sf_def g0_def)
  note m = rows_measured [OF rows assms(2,3)]
  have "sized g0"
    using m aux_sized [OF assms(2) l1] aux_sized [OF assms(2) l2] measuring_px [OF assms(2)] by (simp add: sized_def g0_def)
  moreover have "ge_config g0 = cfg" "\<not> filled preedit \<longrightarrow> ge_pre_h g0 = 0" by (simp_all add: g0_def)
  moreover have "cl_candidates cands = [] \<longrightarrow> ge_rows g0 = []" using rows by (auto simp: g0_def)
  ultimately have "\<exists>g1. compute_positions E cfg (filled preedit) g0 = compute_positions E cfg (filled preedit) g1 \<and> sized g1 \<and>
      ge_config g1 = cfg \<and> (\<not> filled preedit \<longrightarrow> ge_pre_h g1 = 0) \<and> (cl_candidates cands = [] \<longrightarrow> ge_rows g1 = [])"
    by (intro exI [of _ g0] conjI refl)
  then show ?thesis using res m aux_frame [OF l1] aux_frame [OF l2] by simp
qed

lemma compute_laid:
  assumes "popup_geometry_compute E cands preedit mode cfg pal scale p = (res, p')" and "measuring E" and "list_all entry_measured (pa_entries p)"
  shows "list_all entry_measured (pa_entries p') \<and> pa_geom p' = pa_geom p \<and> (\<forall>g. res = Some g \<longrightarrow> geom_laid g)"
proof -
  have "exact_ints E" using assms(2) unfolding measuring_def by blast
  then show ?thesis using compute_placed [OF assms] positions_laid by blast
qed

lemma update_aux_laid:
  assumes "popup_geometry_update_aux E base preedit mode p = (res, p')"
  shows "pa_entries p' = pa_entries p \<and> pa_geom p' = pa_geom p \<and> (\<forall>g. res = Some g \<longrightarrow> geom_laid base \<longrightarrow> geom_laid g)"
proof -
  define f where "f = scaled_font_desc E (pc_aux_font_desc (ge_config base)) (ge_scale base)"
  obtain l1 a1 b1 p1 where l1: "aux_layout E (filled preedit) (or_empty preedit) f (opaque E (pl_preedit (ge_palette base))) p = ((l1, a1, b1), p1)"
    by (metis surj_pair)
  obtain l2 a2 b2 p2 where l2: "aux_layout E (pc_mode_indicator (ge_config base) \<and> filled mode) (or_empty mode) f
      (opaque E (pl_muted (ge_palette base))) p1 = ((l2, a2, b2), p2)" by (metis surj_pair)
  have two: "popup_geometry_update_aux E base preedit mode p =
      (if logical_px E a1 (ge_scale base) \<noteq> ge_pre_w base \<or> logical_px E b1 (ge_scale base) \<noteq> ge_pre_h base \<or>
          logical_px E a2 (ge_scale base) \<noteq> ge_mode_w base \<or> logical_px E b2 (ge_scale base) \<noteq> ge_mode_h base \<or> \<not> pe_geometry_alloc E
       then (None, free_layout l2 (free_layout l1 p2))
       else (Some (base\<lparr>ge_preedit_layout := l1, ge_mode_layout := l2, ge_preedit_text := snprintf 256 (or_empty preedit),
          ge_mode_label := snprintf 128 (or_empty mode)\<rparr>), p2))"
    using l1 l2 by (simp add: popup_geometry_update_aux_def Let_def f_def)
  have fr: "same_frame p2 p" using aux_frame [OF l1] aux_frame [OF l2] by simp
  have "geom_laid (base\<lparr>ge_preedit_layout := x, ge_mode_layout := y, ge_preedit_text := a, ge_mode_label := b\<rparr>) = geom_laid base" for x y a b
    by (simp add: geom_laid_def rows_laid_def rows_bottom_def)
  moreover have "(res, p') \<in> {(None, free_layout l2 (free_layout l1 p2)), (Some (base\<lparr>ge_preedit_layout := l1, ge_mode_layout := l2,
      ge_preedit_text := snprintf 256 (or_empty preedit), ge_mode_label := snprintf 128 (or_empty mode)\<rparr>), p2)}"
    using assms unfolding two by (simp only: insert_iff) (simp split: if_split_asm)
  ultimately show ?thesis using fr by (auto simp: free_layout_def upd_heap_def)
qed

subsection \<open>Operations\<close>

lemma laid_cong: "pa_entries q = pa_entries p \<Longrightarrow> pa_geom q = pa_geom p \<Longrightarrow> laid q = laid p"
  by (simp add: laid_def)

lemma replace_laid: "list_all entry_measured (pa_entries p) \<Longrightarrow> geom_laid g \<Longrightarrow> laid (replace_geometry E g p)"
  using retire_geometry_frame [of E "pa_geom p" p] by (simp add: laid_def replace_geometry_def)

lemma rebuild_laid:
  assumes "laid p" and "measuring E"
  shows "laid (snd (rebuild_geometry E cands preedit mode cfg pal scale p))"
proof -
  obtain res p' where p': "popup_geometry_compute E cands preedit mode cfg pal scale p = (res, p')" by fastforce
  have "list_all entry_measured (pa_entries p)" using assms(1) by (simp add: laid_def)
  note c = compute_laid [OF p' assms(2) this]
  show ?thesis
  proof (cases res)
    case None
    then show ?thesis using c p' assms(1) by (simp add: rebuild_geometry_def laid_def)
  next
    case (Some g)
    then have "laid (replace_geometry E g p')" using c by (intro replace_laid) simp_all
    then show ?thesis using p' Some by (simp add: rebuild_geometry_def)
  qed
qed

lemma no_entries_measured: "list_all entry_measured (replicate n empty_entry)"
  by (simp add: list_all_iff entry_measured_def empty_entry_def)

lemma fold_free_frame: "same_frame (fold free_entry es p) p"
  by (rule fold_invariant [where P = "\<lambda>q. same_frame q p"]) (simp_all add: free_entry_def free_layout_def upd_heap_def)

lemma ctx_invalidate_laid: "laid p \<Longrightarrow> laid (popup_render_ctx_invalidate p)"
  using fold_free_frame [of "pa_entries p" p] no_entries_measured by (simp add: popup_render_ctx_invalidate_def laid_def)

lemma delta_laid:
  assumes "laid p" and "measuring E"
  shows "laid (snd (apply_delta E delta cands preedit mode cfg pal scale p))"
proof (cases delta)
  case POPUP_DELTA_AUX
  show ?thesis
  proof (cases "pa_geom p")
    case None
    then show ?thesis using POPUP_DELTA_AUX rebuild_laid [OF assms] by (simp add: apply_delta_def)
  next
    case (Some g)
    obtain res p' where p': "popup_geometry_update_aux E g preedit mode p = (res, p')" by fastforce
    note u = update_aux_laid [OF p']
    have p'_laid: "laid p'" using u assms(1) laid_cong by blast
    show ?thesis
    proof (cases res)
      case None
      then show ?thesis using POPUP_DELTA_AUX Some p' rebuild_laid [OF p'_laid assms(2)] by (simp add: apply_delta_def)
    next
      case (Some g')
      have "geom_laid g'" using u Some assms(1) \<open>pa_geom p = Some g\<close> by (simp add: laid_def)
      moreover have "list_all entry_measured (pa_entries p')" using p'_laid by (simp add: laid_def)
      ultimately have "laid (replace_geometry E g' p')" by (intro replace_laid)
      then show ?thesis using POPUP_DELTA_AUX Some p' \<open>pa_geom p = Some g\<close> by (simp add: apply_delta_def)
    qed
  qed
qed (use assms rebuild_laid ctx_invalidate_laid in \<open>simp_all add: apply_delta_def\<close>)

lemma present_frame: "popup_present E g sel p = (res, p') \<Longrightarrow> pa_entries p' = pa_entries p \<and> pa_geom p' = pa_geom p"
  by (cases "pe_present E") (auto simp: popup_present_def Let_def upd_heap_def split: if_splits)

lemma ensure_frame: "ensure_fx_surface E w h p = (ok, p') \<Longrightarrow> pa_entries p' = pa_entries p \<and> pa_geom p' = pa_geom p"
  by (auto simp: ensure_fx_surface_def Let_def split: if_splits)

lemma show_frame: "pa_entries (snd (show_geometry E sel p)) = pa_entries p \<and> pa_geom (snd (show_geometry E sel p)) = pa_geom p"
proof (cases "pa_geom p")
  case None
  then show ?thesis by (simp add: show_geometry_def)
next
  case (Some g)
  show ?thesis
    by (rule show_steps [OF Some, of E sel])
      (use present_frame ensure_frame drain_frame in \<open>fastforce split: PopupPresentResult.split\<close>)
qed

lemma render_laid:
  assumes "laid p" and "measuring E"
  shows "laid (snd (popup_render E cands preedit mode p))"
proof -
  obtain cfg pal q where q: "render_prepare E p = (cfg, pal, q)" by (metis surj_pair)
  have lq: "laid q" using assms(1) prepare_fields(5,8) [OF q] laid_cong by blast
  define cs where "cs = (case cands of None \<Rightarrow> no_candidates | Some c \<Rightarrow> c)"
  define sel where "sel = (if cl_candidates cs \<noteq> [] then cl_selected cs else -1)"
  obtain ok r where r: "apply_delta E (render_delta E cands preedit mode p) cs preedit mode cfg pal (render_scale E q) q = (ok, r)"
    by fastforce
  have lr: "laid r" using delta_laid [OF lq assms(2)] r by (metis snd_conv)
  have "snd (popup_render E cands preedit mode p) \<in> {q, r, snd (show_geometry E sel r)}"
    using r unfolding render_alt [OF q] Let_def cs_def [symmetric] sel_def [symmetric] by (auto split: bool.splits)
  then show ?thesis using lq lr show_frame [of E sel r] laid_cong [of "snd (show_geometry E sel r)" r] by auto
qed

lemma hide_laid: "laid p \<Longrightarrow> laid (hide_surface E p)"
  using retire_geometry_frame [of E "pa_geom p" "p\<lparr>pa_out := pa_out p @ [PanelUnmap], pa_visible := False, pa_selected := -1, pa_present_retry := False\<rparr>"]
  by (simp add: hide_surface_def Let_def laid_def)

lemma update_laid: "laid p \<Longrightarrow> measuring E \<Longrightarrow> laid (snd (panel_update_content E c p))"
proof -
  assume p: "laid p" and E: "measuring E"
  have "laid (set_status c p)" using p laid_cong [of "set_status c p" p] by (simp add: set_status_def)
  then show ?thesis using hide_laid render_laid [OF _ E] by (simp add: update_content_alt Let_def)
qed

lemma refresh_laid: "laid p \<Longrightarrow> measuring E \<Longrightarrow> laid (refresh_visible E p)"
  using update_laid by (simp add: refresh_visible_def split: option.split)

lemma drain_ring_frame: "same_frame (drain_ring p) p"
  unfolding drain_ring_def
  by (rule fold_invariant [where P = "\<lambda>q. same_frame q p"]) (use drain_frame in simp_all)

lemma invalidate_laid: "laid p \<Longrightarrow> laid (panel_invalidate_config p)"
proof -
  assume p: "laid p"
  define q where "q = p\<lparr>pa_config := None, pa_theme_cache := empty_theme_cache\<rparr>"
  define r where "r = (if pa_fx_ready q then drain_ring (upd_heap flux_device_wait_idle q) else q)"
  have "pa_entries r = pa_entries q \<and> pa_geom r = pa_geom q"
    using drain_ring_frame [of "upd_heap flux_device_wait_idle q"] upd_heap_frame [of flux_device_wait_idle q] by (simp add: r_def)
  then have "laid r" using p by (simp add: laid_def q_def)
  then have "laid (popup_render_ctx_invalidate r)" by (rule ctx_invalidate_laid)
  then show ?thesis unfolding panel_invalidate_config_def Let_def q_def [symmetric] r_def [symmetric]
    by (auto simp: laid_def upd_heap_def split: option.split)
qed

theorem step_laid: "laid p \<Longrightarrow> measuring E \<Longrightarrow> laid (panel_step E ev p)"
proof -
  assume p: "laid p" and E: "measuring E"
  have noted: "laid (p\<lparr>pa_entered_outputs := os\<rparr>)" "laid (p\<lparr>pa_preferred_buffer_scale := n\<rparr>)" "laid (p\<lparr>pa_fractional_scale_120 := m\<rparr>)"
    "laid (p\<lparr>pa_text_input := t\<rparr>)" for os n m t
    using p by (simp_all add: laid_def)
  show ?thesis
    using p noted update_laid [OF p E] hide_laid [OF p] refresh_laid [OF _ E] invalidate_laid [OF p]
    by (cases ev) (simp_all add: track_output_def untrack_output_def on_preferred_buffer_scale_def on_fractional_preferred_scale_def
        on_text_input_rectangle_def panel_handle_output_change_def)
qed

lemma new_laid: "laid (new_panel viewport)"
  using no_entries_measured by (simp add: laid_def new_panel_def)

lemma run_laid: "laid p \<Longrightarrow> \<forall>(E, ev) \<in> set run. measuring E \<Longrightarrow> laid (panel_run run p)"
proof (induction run arbitrary: p)
  case Nil
  then show ?case by (simp add: panel_run_def)
next
  case (Cons a run)
  obtain E ev where a: "a = (E, ev)" by fastforce
  have "panel_run (a # run) p = panel_run run (panel_step E ev p)" by (simp add: a panel_run_def)
  then show ?case using Cons.IH [of "panel_step E ev p"] step_laid [OF Cons.prems(1)] Cons.prems(2) a by simp
qed

end
