(* ===== verification/Panel_Props.thy ===== *)
theory Panel_Props
  imports Panel_Laid
begin

section \<open>Properties of the candidate panel\<close>

text \<open>
  The panel over whole runs of events from its creation: no text layout is used after it is freed and
  none is lost, unless the style changes while a frame is in flight; the rows are laid out; what a
  first frame that times out, and a status in the horizontal layout, lead to.
\<close>

subsection \<open>A concrete environment\<close>

text \<open>Exact arithmetic, texts of 10 by 16 pixels, a graphics library that always succeeds.\<close>

definition demo_candidates :: TypioCandidateList where
  "demo_candidates = \<lparr>cl_candidates = [\<lparr>tc_text = Some ''a'', tc_comment = None, tc_label = ''1''\<rparr>], cl_selected = 0, cl_content_signature = 7\<rparr>"

definition demo_panel_env :: panel_env where
  "demo_panel_env = \<lparr>pe_fl = (\<lambda>x. x),
     pe_shape = (\<lambda>_ _ _. Some \<lparr>sh_width = 10, sh_height = 16, sh_baseline = 12, sh_image = True\<rparr>),
     pe_palette_bytes = (\<lambda>_. []), pe_desktop = \<lparr>dk_home = None, dk_gtk_theme = None, dk_file = (\<lambda>_. None), dk_now_ms = 1\<rparr>,
     pe_config_string = (\<lambda>_. None), pe_config_int = (\<lambda>_ d. d), pe_config_bool = (\<lambda>_ d. d), pe_has_config = False, pe_last_mode = None,
     pe_outputs = [], pe_context = Some demo_candidates, pe_geometry_alloc = True, pe_retire_alloc = True, pe_device = True,
     pe_vk_surface = True, pe_fx_objects = True, pe_resize = True, pe_begin = FLUX_OK, pe_begin_again = FLUX_OK, pe_canvas_begin = True,
     pe_submit = True, pe_present = FLUX_OK\<rparr>"

definition demo_panel_content :: TypioPanelContent where
  "demo_panel_content = typio_panel_content_init\<lparr>co_candidates := Some demo_candidates\<rparr>"

definition demo_panel :: panel where
  "demo_panel = snd (panel_update_content demo_panel_env demo_panel_content (new_panel True))"

text \<open>What the panel has after its first frame: the layouts 3 and 4, in use by the frame.\<close>

definition demo_first_frame :: "panel \<Rightarrow> bool" where
  "demo_first_frame p \<longleftrightarrow>
     pa_visible p \<and> pa_fractional_scale_120 p = 0 \<and> lh_gpu (pa_heap p) = [[3, 4]] \<and>
     (case lh_live (pa_heap p) 4 of None \<Rightarrow> False | Some l \<Rightarrow> layout_has_image l) \<and> list_ex (\<lambda>e. le_layout e = Some 4) (pa_entries p) \<and>
     content_delta demo_panel_env demo_panel_content (p\<lparr>pa_fractional_scale_120 := 240\<rparr>) = POPUP_DELTA_STYLE"

lemma demo_first_frame: "demo_first_frame demo_panel"
  by code_simp

lemma demo_shapes: "shapes demo_panel_env"
  by (simp add: shapes_def demo_panel_env_def)

lemma first_content_not_style: "content_delta E c (new_panel v) \<noteq> POPUP_DELTA_STYLE"
  by (simp add: content_delta_def render_delta_def classify_delta_def set_status_def new_panel_def Let_def)

subsection \<open>Layouts\<close>

text \<open>
  C10. The candidate panel owns its text layouts correctly: in every run of fewer than 2^27 events
  from its creation in which no event restyles what is shown and the renderer can make every text
  layout that it is asked for (it finds a font and memory), whatever the compositor and the graphics library
  answer and whichever other allocations fail, no layout is freed twice, drawn after it is freed, or
  freed while a frame in flight reads its image; and destroying the panel afterwards leaves none
  allocated. (A text layout that cannot be made breaks this: see \<open>failed_layouts_fault\<close> below.)
\<close>

theorem panel_never_uses_freed_layouts:
  assumes "plain_run run (new_panel viewport)" and "32 * length run < 2 ^ 32"
  shows "\<not> lh_fault (pa_heap (panel_run run (new_panel viewport))) \<and>
    lh_live (candidate_panel_destroy E (panel_run run (new_panel viewport))) = (\<lambda>_. None) \<and>
    \<not> lh_fault (candidate_panel_destroy E (panel_run run (new_panel viewport)))"
proof -
  have "unat (pa_tick (new_panel viewport)) = 0" "unat (pa_epoch (new_panel viewport)) = 0" by (simp_all add: new_panel_def)
  then have "panel_ok (panel_run run (new_panel viewport))"
    using run_ok [OF new_panel_ok assms(1)] assms(2) by simp
  then show ?thesis using destroy_frees_all panel_ok_no_fault by blast
qed

theorem panel_never_uses_freed_layouts_witness:
  "\<not> lh_fault (pa_heap (panel_run [(demo_panel_env, PanelContent demo_panel_content), (demo_panel_env, PanelHide)] (new_panel True)))"
proof -
  have "plain_run [(demo_panel_env, PanelContent demo_panel_content), (demo_panel_env, PanelHide)] (new_panel True)"
    using demo_shapes first_content_not_style by (simp add: restyles_def)
  from panel_never_uses_freed_layouts [OF this] show ?thesis by simp
qed

text \<open>
  A layout that cannot be made: when the renderer makes the labels of two candidates and not their texts,
  the cache entry of the first candidate, which has no text layout, counts as free for the second. Its
  label is freed, and then the row of the first candidate is drawn with it.
\<close>

definition failing_env :: panel_env where
  "failing_env = demo_panel_env\<lparr>pe_shape := (\<lambda>t _ _.
     if t = ''a'' \<or> t = ''b'' then None else Some \<lparr>sh_width = 10, sh_height = 16, sh_baseline = 12, sh_image = True\<rparr>)\<rparr>"

definition two_candidates :: TypioPanelContent where
  "two_candidates = typio_panel_content_init\<lparr>co_candidates := Some
     \<lparr>cl_candidates = [\<lparr>tc_text = Some ''a'', tc_comment = None, tc_label = ''1''\<rparr>, \<lparr>tc_text = Some ''b'', tc_comment = None, tc_label = ''2''\<rparr>],
      cl_selected = 0, cl_content_signature = 7\<rparr>\<rparr>"

lemma failed_layouts_fault: "lh_fault (pa_heap (snd (panel_update_content failing_env two_candidates (new_panel True))))"
  by code_simp

text \<open>
  A change of style frees layouts under a frame in flight: when an update is classified as a
  change of style (another scale, palette or font) and a frame that has been submitted reads the image
  of a cached layout, the update destroys that image, because the cache is emptied without waiting for
  the device. A panel on an output whose fractional scale becomes known after the first frame runs
  into this.
\<close>

theorem style_change_frees_image_in_use:
  assumes "content_delta E c p = POPUP_DELTA_STYLE" and "i \<in># entries_mset (pa_entries p)"
    and "lh_live (pa_heap p) i = Some l" and "layout_has_image l" and "i \<in> in_flight (pa_heap p)"
  shows "lh_fault (pa_heap (snd (panel_update_content E c p)))"
proof -
  let ?p = "set_status c p"
  have shown: "\<not> (content_empty c \<and> \<not> filled (pa_status_text ?p))"
    and delta: "render_delta E (co_candidates c) (if content_empty c then pa_status_text ?p else None) (build_mode_label E) ?p = POPUP_DELTA_STYLE"
    using assms(1) by (simp_all add: content_delta_def Let_def split: if_splits)
  have "read_in_flight i (pa_heap ?p)" "i \<in># entries_mset (pa_entries ?p)"
    using assms(2-5) by (simp_all add: read_in_flight_def set_status_def)
  from style_render_faulty [OF delta this] show ?thesis unfolding update_content_alt Let_def using shown by auto
qed

theorem style_change_frees_image_in_use_witness:
  "lh_fault (pa_heap (panel_run [(demo_panel_env, PanelContent demo_panel_content), (demo_panel_env, PanelFractionalScale 240)] (new_panel True)))"
proof -
  note d = demo_first_frame [unfolded demo_first_frame_def]
  let ?p = "demo_panel\<lparr>pa_fractional_scale_120 := 240\<rparr>"
  obtain l where l: "lh_live (pa_heap ?p) 4 = Some l" "layout_has_image l" using d by (auto split: option.splits)
  obtain e where "e \<in> set (pa_entries demo_panel)" "le_layout e = Some 4" using d by (auto simp: list_ex_iff)
  then have "4 \<in># entries_mset (pa_entries ?p)" using entry_in_entries [of e] by (auto simp: entry_mset_def)
  moreover have "4 \<in> in_flight (pa_heap ?p)" using d by (simp add: in_flight_def)
  ultimately have "lh_fault (pa_heap (snd (panel_update_content demo_panel_env demo_panel_content ?p)))"
    using d l by (intro style_change_frees_image_in_use) simp_all
  moreover have "pe_context demo_panel_env = Some demo_candidates" by (simp add: demo_panel_env_def)
  ultimately show ?thesis
    using d by (simp add: panel_run_def on_fractional_preferred_scale_def refresh_visible_def demo_panel_content_def [symmetric] flip: demo_panel_def)
qed

subsection \<open>A first frame that times out\<close>

text \<open>Events that ask for nothing to be shown.\<close>

definition shows_nothing :: "panel_event \<Rightarrow> bool" where
  "shows_nothing ev \<longleftrightarrow> (case ev of
       PanelHide \<Rightarrow> True
     | PanelContent c \<Rightarrow> content_empty c \<and> (co_status_message c \<noteq> None \<longrightarrow> \<not> co_status_active c \<or> \<not> filled (co_status_message c))
     | _ \<Rightarrow> False)"

lemma nothing_keeps_retry:
  assumes "shows_nothing ev" and "\<not> pa_visible p" and "pa_present_retry p" and "\<not> filled (pa_status_text p)"
  shows "\<not> pa_visible (panel_step E ev p) \<and> pa_present_retry (panel_step E ev p) \<and> \<not> filled (pa_status_text (panel_step E ev p))"
proof (cases ev)
  case (PanelContent c)
  then have c: "content_empty c" "\<not> filled (pa_status_text (set_status c p))"
    using assms(1,4) by (auto simp: shows_nothing_def set_status_def filled_def)
  then show ?thesis using PanelContent assms(2,3) by (simp add: update_content_alt Let_def hide_surface_def set_status_def)
qed (use assms in \<open>simp_all add: shows_nothing_def hide_surface_def\<close>)

text \<open>
  The retry of a frame outlives its content: once the first frame of a panel that is not visible
  has timed out, no sequence of hides and of updates without candidates and status takes the retry
  back, because hiding a panel that is not visible does nothing; as long as nothing else is shown the
  event loop finds a retry pending on every turn and updates the panel again.
\<close>

theorem retry_outlives_content:
  assumes "pa_present_retry p" and "\<not> pa_visible p" and "\<not> filled (pa_status_text p)" and "\<forall>(E, ev) \<in> set run. shows_nothing ev"
    and "tb_panel b = Some (panel_run run p)"
  shows "present_retry_pending b"
proof -
  have "pa_present_retry (panel_run run p)"
    using assms(1-4)
  proof (induction run arbitrary: p)
    case Nil
    then show ?case by (simp add: panel_run_def)
  next
    case (Cons a run)
    obtain E ev where a: "a = (E, ev)" by fastforce
    have "panel_run (a # run) p = panel_run run (panel_step E ev p)" by (simp add: a panel_run_def)
    then show ?case using Cons.IH [of "panel_step E ev p"] nothing_keeps_retry [of ev p E] Cons.prems a by simp
  qed
  then show ?thesis using assms(5) by (simp add: present_retry_pending_def)
qed

text \<open>A first frame that times out, and two hides.\<close>

definition demo_stalled :: panel where
  "demo_stalled = snd (panel_update_content (demo_panel_env\<lparr>pe_begin := FLUX_TIMEOUT\<rparr>) demo_panel_content (new_panel True))"

definition demo_stalled_ok :: "panel \<Rightarrow> bool" where
  "demo_stalled_ok p \<longleftrightarrow> pa_present_retry p \<and> \<not> pa_visible p \<and> \<not> filled (pa_status_text p) \<and>
     (case pa_geom p of None \<Rightarrow> False | Some g \<Rightarrow> ge_popup_w g = 220 \<and> length (ge_rows g) = 1)"

lemma demo_stalled: "demo_stalled_ok demo_stalled"
  by code_simp

theorem retry_outlives_content_witness:
  "present_retry_pending \<lparr>tb_panel = Some (panel_run [(demo_panel_env, PanelHide), (demo_panel_env, PanelContent typio_panel_content_init)] demo_stalled),
     tb_compositor = True, tb_input_method = True, tb_viewporter = True\<rparr>"
  using demo_stalled unfolding demo_stalled_ok_def
  by (intro retry_outlives_content [of demo_stalled "[(demo_panel_env, PanelHide), (demo_panel_env, PanelContent typio_panel_content_init)]"])
    (simp_all add: shows_nothing_def content_empty_def typio_panel_content_init_def)

subsection \<open>Positions\<close>

text \<open>
  C21. The rows of the panel are always laid out: after any run of events from the creation of the
  panel (restyling ones, failures and updates of preedit and mode label alone included), in a geometry
  of at most 2^24 pixels every candidate lies inside the panel's padding, below the preedit and above
  the line of the mode label, with its label before its text, and no two candidates overlap: they lie
  one below the other, or one right of the other in the horizontal layout.
\<close>

theorem candidates_laid_out:
  assumes "\<forall>(E, ev) \<in> set run. measuring E" and "pa_geom (panel_run run (new_panel viewport)) = Some g" and "ge_popup_w g \<le> 2 ^ 24"
  shows "(\<forall>r \<in> set (ge_rows g). row_inside POPUP_PAD_X (POPUP_PAD_Y + ge_pre_h g) (ge_popup_w g - POPUP_PAD_X) (rows_bottom g) r) \<and>
    sorted_wrt (if pc_layout_mode (ge_config g) = POPUP_LAYOUT_VERTICAL then below else right_of) (ge_rows g)"
  using run_laid [OF new_laid assms(1)] assms(2,3) by (simp add: laid_def geom_laid_def rows_laid_def list_all_iff)

lemma demo_measuring: "measuring demo_panel_env"
  by (simp add: measuring_def exact_ints_def demo_panel_env_def)

theorem candidates_laid_out_witness:
  "\<exists>g r. pa_geom demo_stalled = Some g \<and> ge_rows g = [r] \<and> row_inside POPUP_PAD_X (POPUP_PAD_Y + ge_pre_h g) (220 - POPUP_PAD_X) (rows_bottom g) r"
proof -
  obtain g r where g: "pa_geom demo_stalled = Some g" "ge_popup_w g = 220" "ge_rows g = [r]"
    using demo_stalled by (auto simp: demo_stalled_ok_def length_Suc_conv split: option.splits)
  let ?E = "demo_panel_env\<lparr>pe_begin := FLUX_TIMEOUT\<rparr>"
  have run: "pa_geom (panel_run [(?E, PanelContent demo_panel_content)] (new_panel True)) = Some g"
    using g(1) by (simp add: panel_run_def demo_stalled_def)
  have "\<forall>(E, ev) \<in> set [(?E, PanelContent demo_panel_content)]. measuring E" using demo_measuring by (simp add: measuring_def exact_ints_def)
  from candidates_laid_out [OF this run] g show ?thesis by simp
qed

text \<open>
  The horizontal layout forgets the height of the mode label: a geometry computed for a status
  text without candidates is as high as the text, and its mode label, when it has one, is placed below
  the lower edge of the panel.
\<close>

theorem status_mode_label_outside:
  assumes "popup_geometry_compute E cands preedit mode cfg pal scale p = (Some g, p')" and "measuring E" and "laid p"
    and "pc_layout_mode cfg = POPUP_LAYOUT_HORIZONTAL" and "cl_candidates cands = []" and "filled preedit"
    and "ge_mode_layout g \<noteq> None" and "0 < ge_mode_h g" and "ge_pre_h g + 15 \<le> 2 ^ 24"
  shows "rat_of_int (ge_popup_h g) < ge_mode_y g"
proof -
  have "list_all entry_measured (pa_entries p)" using assms(3) by (simp add: laid_def)
  from compute_placed [OF assms(1,2) this] obtain g0 where g0: "g = compute_positions E cfg True g0" "sized g0" "ge_rows g0 = []"
    using assms(5,6) by auto
  have g: "g = compute_positions_horizontal E True g0" using g0(1) assms(4) by (simp add: compute_positions_def)
  have same: "ge_mode_layout g = ge_mode_layout g0" "ge_mode_h g = ge_mode_h g0" "ge_pre_h g = ge_pre_h g0"
    using horizontal_fields [of E True g0] by (auto simp: g Let_def)
  have "exact_ints E" using assms(2) unfolding measuring_def by blast
  moreover have "0 \<le> ge_pre_h g0" using g0(2) by (simp add: sized_def)
  ultimately show ?thesis using horizontal_mode_outside [OF _ g0(3) _ _ _ _ g] assms(7-9) same by simp
qed

definition demo_horizontal :: PopupConfig where
  "demo_horizontal = (popup_config_load demo_panel_env)\<lparr>pc_layout_mode := POPUP_LAYOUT_HORIZONTAL, pc_mode_indicator := True\<rparr>"

definition demo_status :: "PopupGeometry option \<times> panel" where
  "demo_status = popup_geometry_compute demo_panel_env no_candidates (Some ''recording'') (Some ''En'') demo_horizontal palette_light 1 (new_panel True)"

definition demo_status_ok :: "PopupGeometry option \<times> panel \<Rightarrow> bool" where
  "demo_status_ok r \<longleftrightarrow> (case fst r of None \<Rightarrow> False
     | Some g \<Rightarrow> ge_mode_layout g \<noteq> None \<and> ge_mode_h g = 16 \<and> ge_pre_h g = 16 \<and> ge_popup_h g = 28)"

lemma demo_status: "demo_status_ok demo_status"
  by code_simp

theorem status_mode_label_outside_witness:
  "\<exists>g p. demo_status = (Some g, p) \<and> ge_popup_h g = 28 \<and> 28 < ge_mode_y g"
proof -
  obtain r p where r: "demo_status = (r, p)" by fastforce
  have "demo_status_ok (r, p)" using demo_status unfolding r .
  then obtain g where g: "demo_status = (Some g, p)" "ge_mode_layout g \<noteq> None" "ge_mode_h g = 16" "ge_pre_h g = 16" "ge_popup_h g = 28"
    using r by (cases r) (auto simp: demo_status_ok_def split: option.splits)
  have "pc_layout_mode demo_horizontal = POPUP_LAYOUT_HORIZONTAL" by (simp add: demo_horizontal_def)
  moreover have "cl_candidates no_candidates = []" "filled (Some ''recording'')" by (simp_all add: no_candidates_def filled_def)
  ultimately have "28 < ge_mode_y g"
    using status_mode_label_outside [OF g(1) [unfolded demo_status_def] demo_measuring new_laid] g by simp
  then show ?thesis using g by blast
qed

end
