(* ===== verification/Flux_Text.thy ===== *)
theory Flux_Text
  imports Panel_Layout Shortcut_Config
begin

section \<open>Text of the candidate panel\<close>

text \<open>
  \<^verbatim>\<open>daemon/wayland/flux_renderer.c\<close>: descriptions of fonts, the cache of font files, the cache of
  opened faces, shaping with a fallback font, and the image of a text. Fontconfig, FreeType and
  HarfBuzz are parameters, \<^verbatim>\<open>atof\<close> as well. A face is an object with an identity: the map of the
  open faces says which file, size and weight it has, and closing takes it out of the map. The set-up
  of the device, variable-font axes and the texts of the log are left out, copies of strings succeed.
\<close>

subsection \<open>Descriptions of fonts\<close>

text \<open>A weight word of the given length at the start of a text, or a number there; 0: neither.\<close>

definition parse_weight_keyword :: "string \<Rightarrow> nat \<Rightarrow> int" where
  "parse_weight_keyword s len =
     (let word_is = (\<lambda>w. len = length w \<and> str_eq_nocase (take len s) w)
      in if word_is ''Medium'' then 500
         else if word_is ''Bold'' then 700
         else if word_is ''Normal'' then 400
         else if word_is ''Regular'' then 400
         else if word_is ''Light'' then 300
         else if word_is ''Thin'' then 100
         else if word_is ''ExtraBold'' then 800
         else if word_is ''Black'' then 900
         else if word_is ''SemiBold'' then 600
         else if word_is ''ExtraLight'' then 200
         else let v = sint (word_of_int (strtol10 s) :: u32)
              in if 100 \<le> v \<and> v \<le> 1000 then v else 0)"

text \<open>Family, size in pixels and weight.\<close>

definition parse_font_desc :: "(rat \<Rightarrow> rat) \<Rightarrow> (string \<Rightarrow> rat) \<Rightarrow> string \<Rightarrow> string \<times> rat \<times> int" where
  "parse_font_desc fl atof font_desc =
     (let plain = (snprintf 128 font_desc, 16, 400)
      in if font_desc = [] then (''Sans'', 16, 400)
         else case split_last_space font_desc of
                None \<Rightarrow> plain
              | Some (before, after) \<Rightarrow>
                  if after = [] then plain
                  else
                    let parsed = fl (atof after)
                    in if parsed \<le> 0 then plain
                       else
                         let sz = fl (parsed * fl (96 / 72))
                         in case split_last_space before of
                              None \<Rightarrow> (take 127 before, sz, 400)
                            | Some (family, word) \<Rightarrow>
                                let w = parse_weight_keyword (word @ '' '' @ after) (length word)
                                in if 0 < w then (take 127 family, sz, w) else (take 127 before, sz, 400))"

subsection \<open>Font files\<close>

datatype FcWeight =
    FC_WEIGHT_BLACK | FC_WEIGHT_EXTRABOLD | FC_WEIGHT_BOLD | FC_WEIGHT_DEMIBOLD | FC_WEIGHT_MEDIUM | FC_WEIGHT_REGULAR | FC_WEIGHT_LIGHT
  | FC_WEIGHT_EXTRALIGHT | FC_WEIGHT_THIN

definition fc_weight :: "int \<Rightarrow> FcWeight" where
  "fc_weight weight =
     (if 900 \<le> weight then FC_WEIGHT_BLACK
      else if 800 \<le> weight then FC_WEIGHT_EXTRABOLD
      else if 700 \<le> weight then FC_WEIGHT_BOLD
      else if 600 \<le> weight then FC_WEIGHT_DEMIBOLD
      else if 500 \<le> weight then FC_WEIGHT_MEDIUM
      else if 400 \<le> weight then FC_WEIGHT_REGULAR
      else if 300 \<le> weight then FC_WEIGHT_LIGHT
      else if 200 \<le> weight then FC_WEIGHT_EXTRALIGHT
      else FC_WEIGHT_THIN)"

text \<open>A font of the system: the characters it covers and its file, when it tells them.\<close>

record fc_font =
  fc_covers :: "(nat \<Rightarrow> bool) option"
  fc_file :: "string option"

text \<open>What shaping gives: the metrics of the face in 1/64 pixels, and the glyphs.\<close>

record shaped_glyph =
  sg_id :: nat
  sg_x_offset :: int
  sg_y_offset :: int
  sg_x_advance :: int

record shaped_text =
  st_ascender :: int
  st_descender :: int
  st_glyphs :: "shaped_glyph list"

record glyph_bitmap =
  bm_left :: int
  bm_top :: int
  bm_width :: nat
  bm_rows :: nat
  bm_cov :: "nat \<Rightarrow> nat \<Rightarrow> u8" \<comment> \<open>coverage at row and column\<close>

text \<open>A font: file, size and weight.\<close>

type_synonym font_key = "string \<times> rat \<times> int"

record text_env =
  te_fl :: "rat \<Rightarrow> rat"
  te_atof :: "string \<Rightarrow> rat"
  te_match :: "string \<Rightarrow> FcWeight \<Rightarrow> string option" \<comment> \<open>the file of the best match\<close>
  te_sort :: "FcWeight \<Rightarrow> fc_font list" \<comment> \<open>all fonts, in the order of preference\<close>
  te_utf8 :: "string \<Rightarrow> nat list" \<comment> \<open>the code points up to the first that cannot be read\<close>
  te_open :: "string \<Rightarrow> bool" \<comment> \<open>\<^verbatim>\<open>FT_New_Face\<close>\<close>
  te_sizes :: "font_key \<Rightarrow> bool" \<comment> \<open>\<^verbatim>\<open>FT_Set_Pixel_Sizes\<close> and the HarfBuzz font\<close>
  te_shape :: "font_key \<Rightarrow> string \<Rightarrow> shaped_text option"
  te_bitmap :: "font_key \<Rightarrow> nat \<Rightarrow> glyph_bitmap option"
  te_device :: bool \<comment> \<open>the device of \<^verbatim>\<open>typio_flux_device_get\<close>\<close>
  te_image :: bool \<comment> \<open>the buffer and the image can be had\<close>

record FontFileEntry =
  fe_family :: string
  fe_weight :: int
  fe_path :: string

record FontObjEntry =
  fo_path :: string
  fo_size :: rat
  fo_weight :: int
  fo_face :: nat
  fo_font_id :: u32

record flux_fonts =
  ff_files :: "FontFileEntry list"
  ff_objs :: "FontObjEntry list"
  ff_next_id :: u32
  ff_faces :: "nat \<rightharpoonup> font_key"
  ff_next_face :: nat
  ff_fault :: bool

definition FONT_FILE_CACHE_CAP :: nat where "FONT_FILE_CACHE_CAP = 8"
definition FONT_OBJ_CACHE_CAP :: nat where "FONT_OBJ_CACHE_CAP = 16"

definition font_file_cache_lookup :: "string \<Rightarrow> int \<Rightarrow> FontFileEntry list \<Rightarrow> string option" where
  "font_file_cache_lookup family weight es = map_option fe_path (find (\<lambda>e. fe_weight e = weight \<and> fe_family e = family) es)"

definition font_file_cache_insert :: "FontFileEntry \<Rightarrow> FontFileEntry list \<Rightarrow> FontFileEntry list" where
  "font_file_cache_insert e es = (if length es < FONT_FILE_CACHE_CAP then es @ [e] else tl es @ [e])"

definition match_font_file :: "text_env \<Rightarrow> string \<Rightarrow> int \<Rightarrow> flux_fonts \<Rightarrow> string option \<times> flux_fonts" where
  "match_font_file E family weight st = (case font_file_cache_lookup family weight (ff_files st) of
       Some path \<Rightarrow> (Some path, st)
     | None \<Rightarrow>
         (case te_match E (if family \<noteq> [] then family else ''Sans'') (fc_weight weight) of
            None \<Rightarrow> (None, st)
          | Some path \<Rightarrow>
              (Some path, st\<lparr>ff_files := font_file_cache_insert \<lparr>fe_family = snprintf 128 family, fe_weight = weight, fe_path = path\<rparr> (ff_files st)\<rparr>)))"

definition text_has_non_ascii :: "string \<Rightarrow> bool" where
  "text_has_non_ascii s \<longleftrightarrow> list_ex (\<lambda>c. 127 < (of_char c :: nat)) s"

definition font_covers :: "nat list \<Rightarrow> fc_font \<Rightarrow> bool" where
  "font_covers cs f \<longleftrightarrow> (case fc_covers f of None \<Rightarrow> False | Some has \<Rightarrow> list_all has cs \<and> fc_file f \<noteq> None)"

definition find_fallback_font :: "text_env \<Rightarrow> string \<Rightarrow> int \<Rightarrow> string option" where
  "find_fallback_font E s weight =
     (if s = [] then None
      else if \<not> text_has_non_ascii s then None
      else Option.bind (find (font_covers (te_utf8 E s)) (te_sort E (fc_weight weight))) fc_file)"

subsection \<open>Faces\<close>

definition font_obj_cache_lookup :: "font_key \<Rightarrow> FontObjEntry list \<Rightarrow> FontObjEntry option" where
  "font_obj_cache_lookup k es = (case k of (path, sz, weight) \<Rightarrow>
     find (\<lambda>e. fo_size e = sz \<and> fo_weight e = weight \<and> fo_path e = path) es)"

text \<open>A full cache closes the face of its first entry.\<close>

definition font_obj_cache_insert :: "FontObjEntry \<Rightarrow> flux_fonts \<Rightarrow> flux_fonts" where
  "font_obj_cache_insert e st =
     (if length (ff_objs st) < FONT_OBJ_CACHE_CAP then st\<lparr>ff_objs := ff_objs st @ [e]\<rparr>
      else st\<lparr>ff_objs := tl (ff_objs st) @ [e], ff_faces := (ff_faces st)(fo_face (hd (ff_objs st)) := None)\<rparr>)"

definition get_or_create_font :: "text_env \<Rightarrow> font_key \<Rightarrow> flux_fonts \<Rightarrow> FontObjEntry option \<times> flux_fonts" where
  "get_or_create_font E k st = (case font_obj_cache_lookup k (ff_objs st) of
       Some e \<Rightarrow> (Some e, st)
     | None \<Rightarrow>
         (case k of (path, sz, weight) \<Rightarrow>
            if \<not> te_open E path then (None, st)
            else if \<not> te_sizes E k then (None, st)
            else
              let st = font_obj_cache_insert
                         \<lparr>fo_path = path, fo_size = sz, fo_weight = weight, fo_face = ff_next_face st, fo_font_id = ff_next_id st\<rparr>
                         (st\<lparr>ff_next_id := ff_next_id st + 1, ff_next_face := ff_next_face st + 1,
                             ff_faces := (ff_faces st)(ff_next_face st \<mapsto> k)\<rparr>)
              in (font_obj_cache_lookup k (ff_objs st), st)))"

subsection \<open>Layouts\<close>

record GlyphEntry =
  gl_id :: nat
  gl_x :: rat
  gl_y_offset :: rat

text \<open>An image: width, height, pixels row by row, and its place relative to the layout.\<close>

record flux_image =
  im_w :: nat
  im_h :: nat
  im_pixels :: "u32 list"
  im_dx :: int
  im_dy :: int

record TypioTextLayout =
  ly_glyphs :: "GlyphEntry list"
  ly_face :: nat
  ly_color :: TypioColor
  ly_width :: rat
  ly_height :: rat
  ly_baseline :: rat
  ly_attempted :: bool
  ly_image :: "flux_image option"

definition px64 :: "(rat \<Rightarrow> rat) \<Rightarrow> int \<Rightarrow> rat" where
  "px64 fl n = fl (fl (of_int n) / 64)"

fun place_glyphs :: "(rat \<Rightarrow> rat) \<Rightarrow> rat \<Rightarrow> shaped_glyph list \<Rightarrow> GlyphEntry list \<times> rat" where
  "place_glyphs fl pen [] = ([], pen)"
| "place_glyphs fl pen (g # gs) =
     (case place_glyphs fl (fl (pen + px64 fl (sg_x_advance g))) gs of
        (es, w) \<Rightarrow> (\<lparr>gl_id = sg_id g, gl_x = fl (pen + px64 fl (sg_x_offset g)), gl_y_offset = - px64 fl (sg_y_offset g)\<rparr> # es, w))"

definition flux_shape_text :: "text_env \<Rightarrow> FontObjEntry \<Rightarrow> string \<Rightarrow> TypioColor \<Rightarrow> TypioTextLayout option" where
  "flux_shape_text E font s color = (case te_shape E (fo_path font, fo_size font, fo_weight font) s of
       None \<Rightarrow> None
     | Some sh \<Rightarrow>
         (case place_glyphs (te_fl E) 0 (st_glyphs sh) of
            (es, w) \<Rightarrow>
              Some \<lparr>ly_glyphs = es, ly_face = fo_face font, ly_color = color, ly_width = w,
                    ly_height = te_fl E (px64 (te_fl E) (st_ascender sh) - px64 (te_fl E) (st_descender sh)),
                    ly_baseline = px64 (te_fl E) (st_ascender sh), ly_attempted = False, ly_image = None\<rparr>))"

definition layout_has_missing_glyphs :: "TypioTextLayout \<Rightarrow> bool" where
  "layout_has_missing_glyphs l \<longleftrightarrow> list_ex (\<lambda>g. gl_id g = 0) (ly_glyphs l)"

definition flux_create_layout :: "text_env \<Rightarrow> string \<Rightarrow> string \<Rightarrow> TypioColor \<Rightarrow> flux_fonts \<Rightarrow> TypioTextLayout option \<times> flux_fonts" where
  "flux_create_layout E s font_desc color st = (case parse_font_desc (te_fl E) (te_atof E) font_desc of
     (family, sz, weight) \<Rightarrow>
       (case match_font_file E family weight st of
          (None, st) \<Rightarrow> (None, st)
        | (Some file, st) \<Rightarrow>
            (case get_or_create_font E (file, sz, weight) st of
               (None, st) \<Rightarrow> (None, st)
             | (Some font, st) \<Rightarrow>
                 (case flux_shape_text E font s color of
                    None \<Rightarrow> (None, st)
                  | Some l \<Rightarrow>
                      if \<not> layout_has_missing_glyphs l then (Some l, st)
                      else (case find_fallback_font E s weight of
                              None \<Rightarrow> (Some l, st)
                            | Some fb \<Rightarrow>
                                if fb = file then (Some l, st)
                                else (case get_or_create_font E (fb, sz, weight) st of
                                        (None, st) \<Rightarrow> (Some l, st)
                                      | (Some fb_font, st) \<Rightarrow>
                                          (case flux_shape_text E fb_font s color of
                                             None \<Rightarrow> (Some l, st)
                                           | Some l' \<Rightarrow> (Some (if layout_has_missing_glyphs l' then l else l'), st))))))))"

subsection \<open>The image of a layout\<close>

text \<open>Position of the bitmap of a glyph in the layout.\<close>

definition glyph_box :: "rat \<Rightarrow> (rat \<Rightarrow> rat) \<Rightarrow> GlyphEntry \<Rightarrow> glyph_bitmap \<Rightarrow> int \<times> int" where
  "glyph_box baseline fl g b = (\<lfloor>gl_x g\<rfloor> + bm_left b, \<lfloor>fl (baseline + gl_y_offset g)\<rfloor> - bm_top b)"

text \<open>The bitmaps with ink, with their positions.\<close>

definition inked :: "text_env \<Rightarrow> font_key \<Rightarrow> TypioTextLayout \<Rightarrow> ((int \<times> int) \<times> glyph_bitmap) list" where
  "inked E k l = concat (map (\<lambda>g. case te_bitmap E k (gl_id g) of
       None \<Rightarrow> []
     | Some b \<Rightarrow> if bm_width b = 0 \<or> bm_rows b = 0 then [] else [(glyph_box (ly_baseline l) (te_fl E) g b, b)]) (ly_glyphs l))"

text \<open>The first pass: the smallest box around the bitmaps, as \<open>minx\<close>, \<open>miny\<close>, \<open>maxx\<close>, \<open>maxy\<close>.\<close>

definition grow_box :: "(int \<times> int) \<times> glyph_bitmap \<Rightarrow> int \<times> int \<times> int \<times> int \<Rightarrow> int \<times> int \<times> int \<times> int" where
  "grow_box gb box = (case gb of ((gx, gy), b) \<Rightarrow> case box of (minx, miny, maxx, maxy) \<Rightarrow>
     (if gx < minx then gx else minx, if gy < miny then gy else miny,
      if maxx < gx + int (bm_width b) then gx + int (bm_width b) else maxx,
      if maxy < gy + int (bm_rows b) then gy + int (bm_rows b) else maxy))"

definition ink_box :: "((int \<times> int) \<times> glyph_bitmap) list \<Rightarrow> int \<times> int \<times> int \<times> int" where
  "ink_box bs = fold grow_box bs (2 ^ 31 - 1, 2 ^ 31 - 1, - (2 ^ 31), - (2 ^ 31))"

definition byte_of :: "nat \<Rightarrow> u8" where
  "byte_of n = of_nat n"

text \<open>One pixel over another, premultiplied; each sum is cut to a byte as the code cuts it.\<close>

definition blend_pixel :: "u8 \<Rightarrow> u8 \<Rightarrow> u8 \<Rightarrow> u8 \<Rightarrow> u32 \<Rightarrow> u32" where
  "blend_pixel cr cg cb cov d =
     (let sa = cov;
          sr = byte_of (unat cr * unat cov div 255); sg = byte_of (unat cg * unat cov div 255); sb = byte_of (unat cb * unat cov div 255);
          dr = ucast (d AND 0xff); dg = ucast (drop_bit 8 d AND 0xff); db = ucast (drop_bit 16 d AND 0xff); da = ucast (drop_bit 24 d AND 0xff);
          inv = 255 - sa;
          over = (\<lambda>s t. byte_of (unat s + unat (t :: u8) * unat inv div 255))
      in ucast (over sr dr) OR push_bit 8 (ucast (over sg dg)) OR push_bit 16 (ucast (over sb db)) OR push_bit 24 (ucast (over sa da)))"

definition put_pixel :: "u8 \<Rightarrow> u8 \<Rightarrow> u8 \<Rightarrow> nat \<Rightarrow> nat \<Rightarrow> int \<Rightarrow> int \<Rightarrow> u8 \<Rightarrow> u32 list \<Rightarrow> u32 list" where
  "put_pixel cr cg cb W H px py cov buf =
     (if py < 0 \<or> int H \<le> py then buf
      else if px < 0 \<or> int W \<le> px then buf
      else if cov = 0 then buf
      else let i = nat py * W + nat px in buf[i := blend_pixel cr cg cb cov (buf ! i)])"

definition put_glyph :: "u8 \<Rightarrow> u8 \<Rightarrow> u8 \<Rightarrow> nat \<Rightarrow> nat \<Rightarrow> (int \<times> int) \<times> glyph_bitmap \<Rightarrow> u32 list \<Rightarrow> u32 list" where
  "put_glyph cr cg cb W H gb buf = (case gb of ((gx, gy), b) \<Rightarrow>
     fold (\<lambda>row. fold (\<lambda>col. put_pixel cr cg cb W H (gx + int col) (gy + int row) (bm_cov b row col)) [0..<bm_width b]) [0..<bm_rows b] buf)"

definition layout_pixels :: "text_env \<Rightarrow> font_key \<Rightarrow> TypioTextLayout \<Rightarrow> flux_image option" where
  "layout_pixels E k l =
     (case ink_box (inked E k l) of (minx, miny, maxx, maxy) \<Rightarrow>
        if maxx \<le> minx \<or> maxy \<le> miny then None
        else
          let W = nat (maxx - minx); H = nat (maxy - miny)
          in case ly_color l of (r, g, b, a) \<Rightarrow>
               Some \<lparr>im_w = W, im_h = H,
                     im_pixels = fold (\<lambda>((gx, gy), bm). put_glyph (popup_u8 r) (popup_u8 g) (popup_u8 b) W H ((gx - minx, gy - miny), bm))
                                   (inked E k l) (replicate (W * H) 0),
                     im_dx = minx, im_dy = miny\<rparr>)"

text \<open>Using a face that is closed is a fault.\<close>

definition build_layout_image :: "text_env \<Rightarrow> TypioTextLayout \<Rightarrow> flux_fonts \<Rightarrow> TypioTextLayout \<times> flux_fonts" where
  "build_layout_image E l st =
     (let l = l\<lparr>ly_attempted := True\<rparr>
      in if ly_glyphs l = [] then (l, st)
         else if \<not> te_device E then (l, st)
         else case ff_faces st (ly_face l) of
                None \<Rightarrow> (l, st\<lparr>ff_fault := True\<rparr>)
              | Some k \<Rightarrow> (case if te_image E then layout_pixels E k l else None of
                               None \<Rightarrow> (l, st)
                             | Some im \<Rightarrow> (l\<lparr>ly_image := Some im\<rparr>, st)))"

text \<open>Drawing a layout: what is drawn, when there is ink.\<close>

definition draw_layout :: "text_env \<Rightarrow> TypioTextLayout \<Rightarrow> flux_fonts \<Rightarrow> (TypioTextLayout \<times> flux_image option) \<times> flux_fonts" where
  "draw_layout E l st = (case if ly_attempted l then (l, st) else build_layout_image E l st of
     (l, st) \<Rightarrow> ((l, ly_image l), st))"

definition font_obj_cache_clear :: "flux_fonts \<Rightarrow> flux_fonts" where
  "font_obj_cache_clear st = st\<lparr>ff_objs := [], ff_faces := fold (\<lambda>e m. m(fo_face e := None)) (ff_objs st) (ff_faces st)\<rparr>"

definition font_file_cache_clear :: "flux_fonts \<Rightarrow> flux_fonts" where
  "font_file_cache_clear st = st\<lparr>ff_files := []\<rparr>"

definition typio_flux_engine_destroy :: "flux_fonts \<Rightarrow> flux_fonts" where
  "typio_flux_engine_destroy st = font_file_cache_clear (font_obj_cache_clear st)"

definition no_fonts :: flux_fonts where
  "no_fonts = \<lparr>ff_files = [], ff_objs = [], ff_next_id = 1, ff_faces = (\<lambda>_. None), ff_next_face = 0, ff_fault = False\<rparr>"

end
