(* ===== verification/Flux_Laws.thy ===== *)
theory Flux_Laws
  imports Flux_Text
begin

section \<open>Laws of the text renderer\<close>

subsection \<open>Bytes of a pixel\<close>

definition px_byte :: "nat \<Rightarrow> u32 \<Rightarrow> u8" where
  "px_byte i d = ucast (drop_bit (8 * i) d)"

definition premultiplied :: "u32 \<Rightarrow> bool" where
  "premultiplied d \<longleftrightarrow> px_byte 0 d \<le> px_byte 3 d \<and> px_byte 1 d \<le> px_byte 3 d \<and> px_byte 2 d \<le> px_byte 3 d"

lemma px_byte_mask:
  "(ucast (d AND 0xff) :: u8) = px_byte 0 d" "(ucast (drop_bit 8 d AND 0xff) :: u8) = px_byte 1 d"
  "(ucast (drop_bit 16 d AND 0xff) :: u8) = px_byte 2 d" "(ucast (drop_bit 24 d AND 0xff) :: u8) = px_byte 3 d" for d :: u32
proof -
  have mask: "(0xff :: u32) = mask 8" by (simp add: mask_eq_exp_minus_1)
  show "(ucast (d AND 0xff) :: u8) = px_byte 0 d" "(ucast (drop_bit 8 d AND 0xff) :: u8) = px_byte 1 d"
    "(ucast (drop_bit 16 d AND 0xff) :: u8) = px_byte 2 d" "(ucast (drop_bit 24 d AND 0xff) :: u8) = px_byte 3 d"
    unfolding mask px_byte_def by (rule bit_word_eqI; simp add: bit_simps)+
qed

lemma px_byte_pack:
  fixes a b c e :: u8
  defines "d \<equiv> ucast a OR push_bit 8 (ucast b) OR push_bit 16 (ucast c) OR push_bit 24 (ucast e) :: u32"
  shows "px_byte 0 d = a" "px_byte 1 d = b" "px_byte 2 d = c" "px_byte 3 d = e"
  unfolding d_def px_byte_def by (rule bit_word_eqI; auto simp: bit_simps dest: bit_imp_le_length)+

subsection \<open>Blending\<close>

lemma unat_byte_of: "n < 256 \<Longrightarrow> unat (byte_of n) = n"
  by (simp add: byte_of_def unat_of_nat)

lemma unat_u8: "unat (c :: u8) \<le> 255"
  using unsigned_less [of c, where ?'a = nat] by simp

lemma scaled_byte: "c \<le> 255 \<Longrightarrow> c * v div 255 \<le> (v :: nat)"
proof -
  assume "c \<le> 255"
  then have "c * v \<le> 255 * v" by (rule mult_right_mono) simp
  then have "c * v div 255 \<le> 255 * v div 255" by (rule div_le_mono)
  then show ?thesis by simp
qed

text \<open>What a channel becomes, as an exact number: the cuts to a byte never cut anything.\<close>

definition over_exact :: "nat \<Rightarrow> nat \<Rightarrow> nat \<Rightarrow> nat" where
  "over_exact s t cov = s + t * (255 - cov) div 255"

lemma over_exact_bound: "s \<le> cov \<Longrightarrow> t \<le> 255 \<Longrightarrow> cov \<le> 255 \<Longrightarrow> over_exact s t cov \<le> 255"
  using scaled_byte [of t "255 - cov"] by (simp add: over_exact_def)

lemma blend_bytes:
  defines "k \<equiv> \<lambda>c cov. unat (c :: u8) * unat (cov :: u8) div 255"
  shows "unat (px_byte 0 (blend_pixel cr cg cb cov d)) = over_exact (k cr cov) (unat (px_byte 0 d)) (unat cov)"
    and "unat (px_byte 1 (blend_pixel cr cg cb cov d)) = over_exact (k cg cov) (unat (px_byte 1 d)) (unat cov)"
    and "unat (px_byte 2 (blend_pixel cr cg cb cov d)) = over_exact (k cb cov) (unat (px_byte 2 d)) (unat cov)"
    and "unat (px_byte 3 (blend_pixel cr cg cb cov d)) = over_exact (unat cov) (unat (px_byte 3 d)) (unat cov)"
proof -
  have k: "k c cov \<le> unat cov" for c unfolding k_def by (rule scaled_byte [OF unat_u8])
  have kb: "unat (byte_of (k c cov)) = k c cov" for c
  proof -
    have "k c cov \<le> 255" using order.trans [OF k unat_u8] .
    then show ?thesis by (intro unat_byte_of) simp
  qed
  have inv: "unat (255 - cov) = 255 - unat cov"
  proof -
    have "unat cov \<le> unat (255 :: u8)" using unat_u8 [of cov] by simp
    then show ?thesis by (simp add: unat_sub word_le_nat_alt)
  qed
  have over: "unat (byte_of (s + unat (t :: u8) * unat (255 - cov) div 255)) = over_exact s (unat t) (unat cov)" if "s \<le> unat cov" for s t
    using over_exact_bound [OF that unat_u8 [of t] unat_u8 [of cov]] unfolding inv over_exact_def by (intro unat_byte_of) simp
  show "unat (px_byte 0 (blend_pixel cr cg cb cov d)) = over_exact (k cr cov) (unat (px_byte 0 d)) (unat cov)"
    "unat (px_byte 1 (blend_pixel cr cg cb cov d)) = over_exact (k cg cov) (unat (px_byte 1 d)) (unat cov)"
    "unat (px_byte 2 (blend_pixel cr cg cb cov d)) = over_exact (k cb cov) (unat (px_byte 2 d)) (unat cov)"
    "unat (px_byte 3 (blend_pixel cr cg cb cov d)) = over_exact (unat cov) (unat (px_byte 3 d)) (unat cov)"
    unfolding blend_pixel_def Let_def px_byte_mask(2-4) unfolding px_byte_mask(1) px_byte_pack using kb [unfolded k_def] over k [unfolded k_def]
    by (simp_all add: k_def)
qed

lemma blend_premultiplied:
  assumes "premultiplied d"
  shows "premultiplied (blend_pixel cr cg cb cov d)"
proof -
  have k: "unat c * unat cov div 255 \<le> unat cov" for c :: u8 using scaled_byte unat_u8 by blast
  have le: "over_exact s t v \<le> over_exact s' t' v" if "s \<le> s'" "t \<le> t'" for s s' t t' v
    unfolding over_exact_def using that by (intro add_mono div_le_mono mult_right_mono) simp_all
  show ?thesis
    using assms unfolding premultiplied_def word_le_nat_alt blend_bytes by (auto intro!: le k)
qed

subsection \<open>Updating one place of a buffer\<close>

text \<open>A loop that changes a given place in at most one of its rounds.\<close>

lemma fold_nth_once:
  assumes "\<And>j buf. length buf = N \<Longrightarrow> length (f j buf) = N \<and> f j buf ! i = (if c \<and> j = j0 then h (buf ! i) else buf ! i)"
    and "length buf = N"
  shows "length (fold f [0..<n] buf) = N \<and> fold f [0..<n] buf ! i = (if c \<and> j0 < n then h (buf ! i) else buf ! i)"
proof (induction n)
  case 0
  then show ?case using assms(2) by simp
next
  case (Suc n)
  have "fold f [0..<Suc n] buf = f n (fold f [0..<n] buf)" by simp
  then show ?case using assms(1) [of "fold f [0..<n] buf" n] Suc.IH by (auto simp: less_Suc_eq)
qed

lemma cell_less: "x < W \<Longrightarrow> y < H \<Longrightarrow> y * W + x < W * (H :: nat)"
proof -
  assume x: "x < W" and y: "y < H"
  have "y * W + x < y * W + W" using x by simp
  also have "\<dots> = Suc y * W" by simp
  also have "\<dots> \<le> H * W" using y by (intro mult_right_mono) simp_all
  finally show ?thesis by (simp add: mult.commute)
qed

lemma cell_inj: "x < W \<Longrightarrow> x' < W \<Longrightarrow> y * W + x = y' * W + x' \<Longrightarrow> y = y' \<and> x = (x' :: nat)"
proof -
  assume x: "x < W" "x' < W" and eq: "y * W + x = y' * W + x'"
  have "(y * W + x) div W = y" "(y' * W + x') div W = y'" using x by simp_all
  then show ?thesis using eq by simp
qed

lemma put_pixel_nth:
  assumes "length buf = W * H" and "x < W" and "y < H"
  shows "length (put_pixel cr cg cb W H px py cov buf) = W * H"
    and "put_pixel cr cg cb W H px py cov buf ! (y * W + x) =
      (if px = int x \<and> py = int y \<and> cov \<noteq> 0 then blend_pixel cr cg cb cov (buf ! (y * W + x)) else buf ! (y * W + x))"
proof -
  show "length (put_pixel cr cg cb W H px py cov buf) = W * H" using assms(1) by (simp add: put_pixel_def Let_def)
  show "put_pixel cr cg cb W H px py cov buf ! (y * W + x) =
      (if px = int x \<and> py = int y \<and> cov \<noteq> 0 then blend_pixel cr cg cb cov (buf ! (y * W + x)) else buf ! (y * W + x))"
  proof (cases "py < 0 \<or> int H \<le> py \<or> px < 0 \<or> int W \<le> px \<or> cov = 0")
    case True
    then show ?thesis using assms(2,3) by (auto simp: put_pixel_def)
  next
    case False
    then have res: "put_pixel cr cg cb W H px py cov buf = buf[nat py * W + nat px := blend_pixel cr cg cb cov (buf ! (nat py * W + nat px))]"
      by (simp add: put_pixel_def Let_def)
    show ?thesis
    proof (cases "px = int x \<and> py = int y")
      case True
      then show ?thesis unfolding res using False assms cell_less [OF assms(2,3)] by simp
    next
      case other: False
      have "nat px < W" using False by linarith
      then have "nat py * W + nat px \<noteq> y * W + x" using cell_inj [of "nat px" W x "nat py" y] assms(2) other False by auto
      then show ?thesis unfolding res using other by auto
    qed
  qed
qed

text \<open>The bitmap of a glyph, seen from a place of the image.\<close>

definition glyph_over :: "u8 \<Rightarrow> u8 \<Rightarrow> u8 \<Rightarrow> int \<Rightarrow> int \<Rightarrow> (int \<times> int) \<times> glyph_bitmap \<Rightarrow> u32 \<Rightarrow> u32" where
  "glyph_over cr cg cb x y gb d = (case gb of ((gx, gy), b) \<Rightarrow>
     let cov = (if gx \<le> x \<and> x < gx + int (bm_width b) \<and> gy \<le> y \<and> y < gy + int (bm_rows b) then bm_cov b (nat (y - gy)) (nat (x - gx)) else 0)
     in if cov \<noteq> 0 then blend_pixel cr cg cb cov d else d)"

lemma put_glyph_nth:
  assumes "length buf = W * H" and "x < W" and "y < H"
  shows "length (put_glyph cr cg cb W H gb buf) = W * H \<and>
    put_glyph cr cg cb W H gb buf ! (y * W + x) = glyph_over cr cg cb (int x) (int y) gb (buf ! (y * W + x))"
proof -
  obtain gx gy b where gb: "gb = ((gx, gy), b)" by (metis surj_pair)
  let ?i = "y * W + x" and ?col = "nat (int x - gx)" and ?row = "nat (int y - gy)"
  let ?h = "\<lambda>row d. if bm_cov b row ?col \<noteq> 0 then blend_pixel cr cg cb (bm_cov b row ?col) d else d"
  let ?f = "\<lambda>row col. put_pixel cr cg cb W H (gx + int col) (gy + int row) (bm_cov b row col)"
  have px: "length (?f row col buf) = W * H \<and>
      ?f row col buf ! ?i = (if (gx \<le> int x \<and> gy + int row = int y) \<and> col = ?col then ?h row (buf ! ?i) else buf ! ?i)"
    if "length buf = W * H" for row col buf
    using put_pixel_nth [OF that assms(2,3), of cr cg cb "gx + int col" "gy + int row" "bm_cov b row col"] by auto
  have row: "length (fold (?f row) [0..<bm_width b] buf) = W * H \<and>
      fold (?f row) [0..<bm_width b] buf ! ?i =
        (if (gy \<le> int y \<and> gx \<le> int x \<and> ?col < bm_width b) \<and> row = ?row then ?h ?row (buf ! ?i) else buf ! ?i)"
    if "length buf = W * H" for row buf
    using fold_nth_once [where f = "?f row" and h = "?h row", OF px that] by auto
  have "length (fold (\<lambda>row. fold (?f row) [0..<bm_width b]) [0..<bm_rows b] buf) = W * H \<and>
      fold (\<lambda>row. fold (?f row) [0..<bm_width b]) [0..<bm_rows b] buf ! ?i =
        (if (gy \<le> int y \<and> gx \<le> int x \<and> ?col < bm_width b) \<and> ?row < bm_rows b then ?h ?row (buf ! ?i) else buf ! ?i)"
    using fold_nth_once [where f = "\<lambda>row. fold (?f row) [0..<bm_width b]", OF row assms(1)] .
  then show ?thesis by (auto simp: put_glyph_def glyph_over_def gb Let_def)
qed

subsection \<open>The image\<close>

text \<open>The box of the first pass holds every bitmap.\<close>

definition in_box :: "(int \<times> int) \<times> glyph_bitmap \<Rightarrow> int \<times> int \<times> int \<times> int \<Rightarrow> bool" where
  "in_box gb box \<longleftrightarrow> (case gb of ((gx, gy), b) \<Rightarrow> case box of (minx, miny, maxx, maxy) \<Rightarrow>
     minx \<le> gx \<and> gx + int (bm_width b) \<le> maxx \<and> miny \<le> gy \<and> gy + int (bm_rows b) \<le> maxy)"

lemma in_box_grow: "in_box gb (grow_box gb box)" "in_box gb box \<Longrightarrow> in_box gb (grow_box gb' box)"
  by (auto simp: in_box_def grow_box_def split: prod.splits)

lemma in_box_fold: "in_box gb box \<Longrightarrow> in_box gb (fold grow_box bs box)"
  by (induction bs arbitrary: box) (simp_all add: in_box_grow)

lemma ink_box_holds: "gb \<in> set bs \<Longrightarrow> in_box gb (ink_box bs)"
proof -
  have "gb \<in> set bs \<Longrightarrow> in_box gb (fold grow_box bs box)" for box
  proof (induction bs arbitrary: box)
    case (Cons a bs)
    show ?case
    proof (cases "gb = a")
      case True
      then show ?thesis using in_box_fold [OF in_box_grow(1)] by (simp del: split_paired_All)
    next
      case False
      then show ?thesis using Cons.IH [of "grow_box a box"] Cons.prems by simp
    qed
  qed simp
  then show "gb \<in> set bs \<Longrightarrow> in_box gb (ink_box bs)" unfolding ink_box_def .
qed

definition shift_box :: "int \<Rightarrow> int \<Rightarrow> (int \<times> int) \<times> glyph_bitmap \<Rightarrow> (int \<times> int) \<times> glyph_bitmap" where
  "shift_box dx dy gb = (case gb of ((gx, gy), b) \<Rightarrow> ((gx - dx, gy - dy), b))"

lemma put_glyphs_nth:
  assumes "length buf = W * H" and "x < W" and "y < H"
  shows "length (fold (\<lambda>gb. put_glyph cr cg cb W H (shift_box dx dy gb)) bs buf) = W * H \<and>
    fold (\<lambda>gb. put_glyph cr cg cb W H (shift_box dx dy gb)) bs buf ! (y * W + x) =
      fold (\<lambda>gb. glyph_over cr cg cb (int x) (int y) (shift_box dx dy gb)) bs (buf ! (y * W + x))"
  using assms(1)
proof (induction bs arbitrary: buf)
  case (Cons a bs)
  note p = put_glyph_nth [OF Cons.prems assms(2,3), of cr cg cb "shift_box dx dy a"]
  show ?case using Cons.IH [of "put_glyph cr cg cb W H (shift_box dx dy a) buf"] p by simp
qed simp

lemma glyph_over_shift: "glyph_over cr cg cb x y (shift_box dx dy gb) = glyph_over cr cg cb (x + dx) (y + dy) gb"
proof -
  obtain gx gy b where gb: "gb = ((gx, gy), b)" by (metis surj_pair)
  have eqs: "gx - dx \<le> x \<longleftrightarrow> gx \<le> x + dx" "x < gx - dx + n \<longleftrightarrow> x + dx < gx + n" "gy - dy \<le> y \<longleftrightarrow> gy \<le> y + dy"
    "y < gy - dy + n \<longleftrightarrow> y + dy < gy + n" "y - (gy - dy) = y + dy - gy" "x - (gx - dx) = x + dx - gx" for n by linarith+
  show ?thesis unfolding glyph_over_def shift_box_def gb prod.case eqs ..
qed

text \<open>A pixel of a text, by its place in the layout: its glyphs composed one over the other.\<close>

definition text_pixel :: "text_env \<Rightarrow> font_key \<Rightarrow> TypioTextLayout \<Rightarrow> int \<Rightarrow> int \<Rightarrow> u32" where
  "text_pixel E k l x y = (case ly_color l of (r, g, b, a) \<Rightarrow>
     fold (glyph_over (popup_u8 r) (popup_u8 g) (popup_u8 b) x y) (inked E k l) 0)"

lemma layout_pixels_image:
  assumes "layout_pixels E k l = Some im"
  shows "length (im_pixels im) = im_w im * im_h im"
    and "x < im_w im \<Longrightarrow> y < im_h im \<Longrightarrow> im_pixels im ! (y * im_w im + x) = text_pixel E k l (int x + im_dx im) (int y + im_dy im)"
    and "((gx, gy), b) \<in> set (inked E k l) \<Longrightarrow>
      im_dx im \<le> gx \<and> gx + int (bm_width b) \<le> im_dx im + int (im_w im) \<and> im_dy im \<le> gy \<and> gy + int (bm_rows b) \<le> im_dy im + int (im_h im)"
proof -
  obtain minx miny maxx maxy where box: "ink_box (inked E k l) = (minx, miny, maxx, maxy)" by (metis surj_pair)
  obtain r g b a where c: "ly_color l = (r, g, b, a)" by (metis surj_pair)
  let ?W = "nat (maxx - minx)" and ?H = "nat (maxy - miny)"
  let ?put = "\<lambda>gb. put_glyph (popup_u8 r) (popup_u8 g) (popup_u8 b) ?W ?H (shift_box minx miny gb)"
  have some: "minx < maxx" "miny < maxy" using assms box by (auto simp: layout_pixels_def split: if_splits)
  have put: "(\<lambda>((gx, gy), bm). put_glyph (popup_u8 r) (popup_u8 g) (popup_u8 b) ?W ?H ((gx - minx, gy - miny), bm)) = ?put"
    by (auto simp: fun_eq_iff shift_box_def)
  have im: "im = \<lparr>im_w = ?W, im_h = ?H, im_pixels = fold ?put (inked E k l) (replicate (?W * ?H) 0), im_dx = minx, im_dy = miny\<rparr>"
    using assms some unfolding layout_pixels_def box prod.case c Let_def put by simp
  have len: "length (fold ?put gbs (replicate (?W * ?H) 0)) = ?W * ?H" for gbs
  proof (rule fold_invariant [where P = "\<lambda>buf. length buf = ?W * ?H" and xs = gbs])
    show "length (?put gb buf) = ?W * ?H" if "length buf = ?W * ?H" for gb buf
      using put_glyph_nth [OF that, of 0 0] some by simp
  qed simp_all
  then show "length (im_pixels im) = im_w im * im_h im" by (simp add: im)
  show "im_pixels im ! (y * im_w im + x) = text_pixel E k l (int x + im_dx im) (int y + im_dy im)"
    if "x < im_w im" "y < im_h im" for x y
  proof -
    have xy: "x < ?W" "y < ?H" using that by (simp_all add: im)
    then have "replicate (?W * ?H) (0 :: u32) ! (y * ?W + x) = 0" using cell_less by simp
    then show ?thesis
      using put_glyphs_nth [of "replicate (?W * ?H) 0" ?W ?H x y "popup_u8 r" "popup_u8 g" "popup_u8 b" minx miny "inked E k l"] xy
      by (simp add: im text_pixel_def c glyph_over_shift)
  qed
  show "((gx, gy), b) \<in> set (inked E k l) \<Longrightarrow>
      im_dx im \<le> gx \<and> gx + int (bm_width b) \<le> im_dx im + int (im_w im) \<and> im_dy im \<le> gy \<and> gy + int (bm_rows b) \<le> im_dy im + int (im_h im)" for gx gy b
    using ink_box_holds [of "((gx, gy), b)" "inked E k l"] box some by (simp add: im in_box_def)
qed

lemma premultiplied_zero: "premultiplied 0"
  by (simp add: premultiplied_def px_byte_def)

lemma text_pixel_premultiplied: "premultiplied (text_pixel E k l x y)"
proof -
  obtain r g b a where c: "ly_color l = (r, g, b, a)" by (metis surj_pair)
  have "premultiplied d \<Longrightarrow> premultiplied (glyph_over cr cg cb x y gb d)" for cr cg cb gb d
    using blend_premultiplied by (simp add: glyph_over_def Let_def split: prod.split)
  then show ?thesis unfolding text_pixel_def c prod.case
    by (intro fold_invariant [where P = premultiplied]) (simp_all add: premultiplied_zero)
qed

subsection \<open>Descriptions of fonts\<close>

lemma show_nat_no_space: "CHR '' '' \<notin> set (show_nat n)"
  using show_nat_digits [of n] by (auto simp: is_digit_def)

lemma split_last: "CHR '' '' \<notin> set t \<Longrightarrow> split_last_space (s @ '' '' @ t) = Some (s, t)"
proof -
  assume t: "CHR '' '' \<notin> set t"
  have "takeWhile (\<lambda>c. c \<noteq> CHR '' '') (rev t @ CHR '' '' # rev s) = rev t"
    using t by (subst takeWhile_append2) auto
  then show ?thesis by (simp add: split_last_space_def Let_def)
qed

lemma split_desc: "split_last_space (f @ '' SemiBold '' @ show_nat n) = Some (f @ '' SemiBold'', show_nat n)"
  "split_last_space (f @ '' SemiBold'') = Some (f, ''SemiBold'')"
  using split_last [OF show_nat_no_space, of "f @ '' SemiBold''" n] split_last [of "''SemiBold''" f] by simp_all

lemma show_nat_length: "n < 10 ^ k \<Longrightarrow> 0 < k \<Longrightarrow> length (show_nat n) \<le> k"
proof (induction n arbitrary: k rule: show_nat.induct)
  case (1 n)
  show ?case
  proof (cases "n < 10")
    case True
    then show ?thesis using 1(3) by (subst show_nat.simps) simp
  next
    case False
    then obtain k' where k: "k = Suc k'" "0 < k'" using 1(2) by (cases k; cases "k - 1") auto
    have "n div 10 < 10 ^ k'" using 1(2) k(1) by (simp add: div_less_iff_less_mult mult.commute)
    from 1(1) [OF False this k(2)] show ?thesis using False k(1) by (subst show_nat.simps) simp
  qed
qed

text \<open>
  What the renderer needs of rounding and of \<^verbatim>\<open>atof\<close>: whole numbers of at most six digits are read
  exactly, and stay positive.
\<close>

definition reads_decimals :: "(rat \<Rightarrow> rat) \<Rightarrow> (string \<Rightarrow> rat) \<Rightarrow> bool" where
  "reads_decimals fl atof \<longleftrightarrow> (\<forall>n. 0 < n \<longrightarrow> n < 10 ^ 6 \<longrightarrow> atof (show_nat n) = of_nat n \<and> 0 < fl (of_nat n))"

text \<open>The size in pixels that the panel asks for.\<close>

definition asked_px :: "panel_env \<Rightarrow> int \<Rightarrow> rat \<Rightarrow> int" where
  "asked_px E n scale = max 1 (lroundf (pe_fl E (of_int n * positive_scale scale)))"

lemma scaled_desc:
  assumes "length f < 80" and "0 < n" and "n < 1000" and "asked_px E n scale < 10 ^ 6"
  shows "scaled_font_desc E (snprintf 128 (f @ '' SemiBold '' @ show_int n)) scale = f @ '' SemiBold '' @ show_nat (nat (asked_px E n scale))"
proof -
  have "length (show_nat (nat n)) \<le> 3" using assms(2,3) by (intro show_nat_length) simp_all
  then have cut: "snprintf 128 (f @ '' SemiBold '' @ show_int n) = f @ '' SemiBold '' @ show_nat (nat n)"
    using assms(1,2) by (simp add: snprintf_def show_int_def)
  have fam: "take 127 (f @ '' SemiBold'') = f @ '' SemiBold''" using assms(1) by simp
  have n: "strtol10 (show_nat (nat n)) = n"
    using strtol_show_int [of n "[]"] assms(2,3) by (simp add: show_int_def)
  let ?px = "asked_px E n scale"
  have px: "1 \<le> ?px" by (simp add: asked_px_def)
  have "length (show_nat (nat ?px)) \<le> 6" using assms(4) px by (intro show_nat_length) simp_all
  then have cut': "snprintf 96 (f @ '' SemiBold '' @ show_nat (nat ?px)) = f @ '' SemiBold '' @ show_nat (nat ?px)"
    using assms(1) by (simp add: snprintf_def)
  have max: "(if x < 1 then 1 else x) = max 1 x" for x :: int by simp
  have scale: "\<not> n \<le> 0" "f @ '' SemiBold '' @ show_nat (nat n) \<noteq> []" "show_nat (nat n) \<noteq> []" using assms(2) by simp_all
  show ?thesis
    unfolding cut scaled_font_desc_def Let_def
    using scale px cut' by (simp add: split_desc [simplified] fam [simplified] n max show_int_def flip: asked_px_def)
qed

lemma parse_desc:
  assumes "length f < 80" and "0 < px" and "px < 10 ^ 6" and "reads_decimals fl atof"
  shows "parse_font_desc fl atof (f @ '' SemiBold '' @ show_nat px) = (f, fl (fl (of_nat px) * fl (96 / 72)), 600)"
proof -
  have atof: "atof (show_nat px) = of_nat px" "0 < fl (of_nat px)" using assms(2-4) by (simp_all add: reads_decimals_def)
  have w: "parse_weight_keyword (''SemiBold'' @ '' '' @ show_nat px) (length ''SemiBold'') = 600"
    by (simp add: parse_weight_keyword_def Let_def tolower_def is_upper_def)
  have fam: "take 127 f = f" using assms(1) by simp
  show ?thesis
    using atof w [simplified] fam by (simp add: parse_font_desc_def split_desc [simplified] Let_def)
qed

subsection \<open>Caches that drop their oldest entry\<close>

text \<open>
  The contract of both caches: a new entry is put last, entries stay in their order, and only a full
  cache drops one, its first.
\<close>

locale fifo_cache =
  fixes insert :: "'e \<Rightarrow> 'e list \<Rightarrow> 'e list" and cap :: nat
  assumes cap_pos: "0 < cap"
    and room: "length es < cap \<Longrightarrow> insert e es = es @ [e]"
    and full: "cap \<le> length es \<Longrightarrow> insert e es = tl es @ [e]"
begin

lemma length_insert: "length es \<le> cap \<Longrightarrow> length (insert e es) \<le> cap"
  using room [of es e] full [of es e] cap_pos by (cases "length es < cap") simp_all

lemma new_entry: "e \<in> set (insert e es)"
  using room [of es e] full [of es e] by (cases "length es < cap") simp_all

end

interpretation files: fifo_cache font_file_cache_insert FONT_FILE_CACHE_CAP
  by unfold_locales (simp_all add: font_file_cache_insert_def FONT_FILE_CACHE_CAP_def)

interpretation objs: fifo_cache "\<lambda>e es. ff_objs (font_obj_cache_insert e (st\<lparr>ff_objs := es\<rparr>))" FONT_OBJ_CACHE_CAP for st
  by unfold_locales (simp_all add: font_obj_cache_insert_def FONT_OBJ_CACHE_CAP_def)

subsection \<open>Faces\<close>

definition font_of :: "FontObjEntry \<Rightarrow> font_key" where
  "font_of e = (fo_path e, fo_size e, fo_weight e)"

text \<open>The open faces are those of the cache, each once, each for its font.\<close>

definition fonts_ok :: "flux_fonts \<Rightarrow> bool" where
  "fonts_ok st \<longleftrightarrow> length (ff_objs st) \<le> FONT_OBJ_CACHE_CAP \<and> length (ff_files st) \<le> FONT_FILE_CACHE_CAP \<and> distinct (map fo_face (ff_objs st)) \<and>
     (\<forall>e \<in> set (ff_objs st). ff_faces st (fo_face e) = Some (font_of e) \<and> fo_face e < ff_next_face st) \<and>
     dom (ff_faces st) = fo_face ` set (ff_objs st)"

lemma no_fonts_ok: "fonts_ok no_fonts"
  by (simp add: fonts_ok_def no_fonts_def)

lemma lookup_entry: "font_obj_cache_lookup k es = Some e \<Longrightarrow> e \<in> set es \<and> font_of e = k"
  by (cases k) (auto simp: font_obj_cache_lookup_def font_of_def find_Some_iff)

lemma match_ok:
  assumes "fonts_ok st" and "match_font_file E f w st = (r, st')"
  shows "fonts_ok st' \<and> ff_objs st' = ff_objs st \<and> ff_faces st' = ff_faces st \<and> ff_fault st' = ff_fault st"
proof -
  have "fonts_ok (st\<lparr>ff_files := font_file_cache_insert e (ff_files st)\<rparr>)" for e
    using assms(1) files.length_insert by (simp add: fonts_ok_def)
  then show ?thesis using assms by (auto simp: match_font_file_def split: option.splits)
qed

text \<open>Opening a font: the cache never shrinks, and with room at the end no face has been closed.\<close>

definition keeps_faces :: "flux_fonts \<Rightarrow> flux_fonts \<Rightarrow> bool" where
  "keeps_faces st st' \<longleftrightarrow> ff_fault st' = ff_fault st \<and> length (ff_objs st) \<le> length (ff_objs st') \<and>
     (length (ff_objs st') < FONT_OBJ_CACHE_CAP \<longrightarrow> ff_faces st \<subseteq>\<^sub>m ff_faces st')"

lemma keeps_faces_refl: "keeps_faces st st"
  by (simp add: keeps_faces_def)

lemma keeps_faces_trans: "keeps_faces st st' \<Longrightarrow> keeps_faces st' st'' \<Longrightarrow> keeps_faces st st''"
  by (auto simp: keeps_faces_def intro: map_le_trans)

lemma insert_ok:
  assumes "fonts_ok st" and "st1 = st\<lparr>ff_next_id := n, ff_next_face := ff_next_face st + 1, ff_faces := (ff_faces st)(ff_next_face st \<mapsto> font_of e)\<rparr>"
    and "fo_face e = ff_next_face st" and "st' = font_obj_cache_insert e st1"
  shows "fonts_ok st' \<and> keeps_faces st st'"
proof -
  have fresh: "fo_face e' \<noteq> fo_face e" if "e' \<in> set (ff_objs st)" for e' using assms(1,3) that by (auto simp: fonts_ok_def)
  have none: "ff_faces st (fo_face e) = None"
  proof (rule ccontr)
    assume "ff_faces st (fo_face e) \<noteq> None"
    then have "fo_face e \<in> fo_face ` set (ff_objs st)" using assms(1) unfolding fonts_ok_def by blast
    then show False using fresh by force
  qed
  have le: "ff_faces st \<subseteq>\<^sub>m (ff_faces st)(fo_face e \<mapsto> font_of e)" using none by (auto simp: map_le_def)
  show ?thesis
  proof (cases "length (ff_objs st) < FONT_OBJ_CACHE_CAP")
    case True
    then have st': "st' = st1\<lparr>ff_objs := ff_objs st @ [e]\<rparr>" by (simp add: assms(2,4) font_obj_cache_insert_def)
    have "fonts_ok st'" using assms(1) fresh True assms(3) by (auto simp: fonts_ok_def st' assms(2) less_SucI)
    then show ?thesis using le assms(3) by (simp add: keeps_faces_def st' assms(2))
  next
    case False
    then obtain x xs where objs: "ff_objs st = x # xs" "length xs = 15"
      using assms(1) by (cases "ff_objs st") (auto simp: fonts_ok_def FONT_OBJ_CACHE_CAP_def)
    have st': "st' = st1\<lparr>ff_objs := xs @ [e], ff_faces := (ff_faces st1)(fo_face x := None)\<rparr>"
      using False objs by (simp add: assms(2,4) font_obj_cache_insert_def)
    have "distinct (map fo_face (x # xs))" using assms(1) unfolding fonts_ok_def objs by blast
    then have other: "fo_face x' \<noteq> fo_face x" if "x' \<in> set xs" for x' using that by (metis distinct.simps(2) image_eqI list.set_map list.simps(9))
    have "fonts_ok st'" using assms(1,3) fresh other unfolding fonts_ok_def objs
      by (auto simp: st' assms(2) FONT_OBJ_CACHE_CAP_def objs less_SucI)
    then show ?thesis using objs False by (simp add: keeps_faces_def st' assms(2) FONT_OBJ_CACHE_CAP_def)
  qed
qed

lemma open_ok:
  assumes "fonts_ok st" and "get_or_create_font E k st = (r, st')"
  shows "fonts_ok st' \<and> keeps_faces st st' \<and> (\<forall>e. r = Some e \<longrightarrow> ff_faces st' (fo_face e) = Some k)"
proof -
  have found: "ff_faces s (fo_face e) = Some k" if "fonts_ok s" "font_obj_cache_lookup k (ff_objs s) = Some e" for s e
    using that lookup_entry by (auto simp: fonts_ok_def)
  show ?thesis
  proof (cases "font_obj_cache_lookup k (ff_objs st)")
    case (Some e)
    then show ?thesis using assms found keeps_faces_refl by (auto simp: get_or_create_font_def)
  next
    case None
    obtain p s w where k: "k = (p, s, w)" by (metis surj_pair)
    show ?thesis
    proof (cases "te_open E p \<and> te_sizes E k")
      case False
      then show ?thesis using assms None k keeps_faces_refl by (auto simp: get_or_create_font_def split: if_splits)
    next
      case True
      define e where "e = \<lparr>fo_path = p, fo_size = s, fo_weight = w, fo_face = ff_next_face st, fo_font_id = ff_next_id st\<rparr>"
      define st1 where "st1 = st\<lparr>ff_next_id := ff_next_id st + 1, ff_next_face := ff_next_face st + 1,
        ff_faces := (ff_faces st)(ff_next_face st \<mapsto> font_of e)\<rparr>"
      have res: "st' = font_obj_cache_insert e st1" "r = font_obj_cache_lookup k (ff_objs st')"
        using assms(2) None k True by (auto simp: get_or_create_font_def Let_def e_def st1_def font_of_def)
      have "fonts_ok st' \<and> keeps_faces st st'"
        by (rule insert_ok [OF assms(1) st1_def _ res(1)]) (simp add: e_def)
      then show ?thesis using found res(2) by auto
    qed
  qed
qed

text \<open>A font that can be opened is found in the cache afterwards.\<close>

lemma open_some:
  assumes "te_open E p" and "te_sizes E (p, sz, w)"
  shows "fst (get_or_create_font E (p, sz, w) st) \<noteq> None"
proof -
  have hit: "font_obj_cache_lookup (p, sz, w) es \<noteq> None" if "e \<in> set es" "font_of e = (p, sz, w)" for e es
    using that by (auto simp: font_obj_cache_lookup_def font_of_def find_None_iff)
  define e where "e = \<lparr>fo_path = p, fo_size = sz, fo_weight = w, fo_face = ff_next_face st, fo_font_id = ff_next_id st\<rparr>"
  define st1 where "st1 = st\<lparr>ff_next_id := ff_next_id st + 1, ff_next_face := ff_next_face st + 1,
    ff_faces := (ff_faces st)(ff_next_face st \<mapsto> (p, sz, w))\<rparr>"
  have "e \<in> set (ff_objs (font_obj_cache_insert e st1))" using objs.new_entry [of e "ff_objs st1" st1] by simp
  then have "font_obj_cache_lookup (p, sz, w) (ff_objs (font_obj_cache_insert e st1)) \<noteq> None"
    by (rule hit) (simp add: font_of_def e_def)
  then show ?thesis using assms by (auto simp: get_or_create_font_def Let_def e_def st1_def split: option.split)
qed

lemma shape_face: "flux_shape_text E font s c = Some l \<Longrightarrow> ly_face l = fo_face font \<and> \<not> ly_attempted l"
  by (auto simp: flux_shape_text_def split: option.splits prod.splits)

lemma create_ok:
  assumes "fonts_ok st" and "flux_create_layout E s d c st = (r, st')"
  shows "fonts_ok st' \<and> keeps_faces st st' \<and>
    (\<forall>l. r = Some l \<longrightarrow> length (ff_objs st') < FONT_OBJ_CACHE_CAP \<longrightarrow> ly_face l \<in> dom (ff_faces st'))"
proof -
  obtain fam sz w where d: "parse_font_desc (te_fl E) (te_atof E) d = (fam, sz, w)" by (metis surj_pair)
  obtain f st1 where m: "match_font_file E fam w st = (f, st1)" by fastforce
  have m1: "fonts_ok st1" "keeps_faces st st1"
    using match_ok [OF assms(1) m] by (simp_all add: keeps_faces_def)
  show ?thesis
  proof (cases f)
    case None
    then show ?thesis using assms(2) d m m1 by (auto simp: flux_create_layout_def)
  next
    case (Some path)
    obtain o1 st2 where o1: "get_or_create_font E (path, sz, w) st1 = (o1, st2)" by fastforce
    note g1 = open_ok [OF m1(1) o1]
    have k2: "keeps_faces st st2" using g1 m1(2) keeps_faces_trans by blast
    show ?thesis
    proof (cases o1)
      case None
      then show ?thesis using assms(2) d m Some o1 g1 k2 by (auto simp: flux_create_layout_def)
    next
      case (Some font)
      have face: "ff_faces st2 (fo_face font) \<noteq> None" using g1 Some by simp
      show ?thesis
      proof (cases "flux_shape_text E font s c")
        case None
        then show ?thesis using assms(2) d m \<open>f = Some path\<close> Some o1 g1 k2 by (auto simp: flux_create_layout_def)
      next
        case (Some l)
        note l = shape_face [OF Some]
        obtain fb o2 st3 where o2: "(o2, st3) = (case fb of None \<Rightarrow> (None, st2) | Some b \<Rightarrow> get_or_create_font E (b, sz, w) st2)"
          "fb = find_fallback_font E s w" by (metis surj_pair)
        have g3: "fonts_ok st3" "keeps_faces st2 st3" "\<And>e. o2 = Some e \<Longrightarrow> ff_faces st3 (fo_face e) \<noteq> None"
          using o2(1) g1 open_ok [of st2 E _ o2 st3] keeps_faces_refl by (cases fb; auto)+
        have res: "(r, st') = (Some l, st2) \<or> (st' = st3 \<and> r \<in> {Some l, Option.bind o2 (\<lambda>e. flux_shape_text E e s c)} \<and> r \<noteq> None)"
          using assms(2) d m \<open>f = Some path\<close> o1 \<open>o1 = Some font\<close> Some o2
          by (auto simp: flux_create_layout_def option.map_ident split: if_splits option.splits prod.splits)
        then consider "r = Some l" "st' = st2" | "r = Some l" "st' = st3" | e l' where "st' = st3" "o2 = Some e" "flux_shape_text E e s c = Some l'" "r = Some l'"
          using bind_eq_Some_conv [of o2 "\<lambda>e. flux_shape_text E e s c"] by (metis (no_types, lifting) Pair_inject insert_iff not_None_eq singletonD)
        then show ?thesis
        proof cases
          case 1
          then show ?thesis using g1 k2 face l by auto
        next
          case 2
          have "ly_face l \<in> dom (ff_faces st3)" if "length (ff_objs st3) < FONT_OBJ_CACHE_CAP"
            using g3(2) that face l by (auto simp: keeps_faces_def dest: map_le_implies_dom_le)
          then show ?thesis using 2 g3 k2 keeps_faces_trans by auto
        next
          case 3
          then show ?thesis using g3 k2 keeps_faces_trans shape_face [OF 3(3)] by auto
        qed
      qed
    qed
  qed
qed

end
