(* ===== verification/Flux_Props.thy ===== *)
theory Flux_Props
  imports Flux_Laws Panel_Props
begin

section \<open>Properties of the text renderer\<close>

text \<open>
  Fonts as configured are the fonts that are opened, the image of a text, and how long a layout may
  use its face.
\<close>

subsection \<open>Fonts\<close>

lemma config_font: "length (pc_font_family (popup_config_load E)) < 80" "6 \<le> pc_font_size (popup_config_load E)" "pc_font_size (popup_config_load E) \<le> 72"
  by (simp_all add: popup_config_load_def build_descs_def Let_def snprintf_def POPUP_DEFAULT_FONT_SIZE_def min_less_iff_disj)

lemma config_descs:
  "pc_font_desc (popup_config_load E) = snprintf 128 (pc_font_family (popup_config_load E) @ '' SemiBold '' @ show_int (pc_font_size (popup_config_load E)))"
  "pc_label_font_desc (popup_config_load E) =
     snprintf 128 (pc_font_family (popup_config_load E) @ '' SemiBold '' @ show_int (max 7 (pc_font_size (popup_config_load E) * 4 div 5)))"
  "pc_aux_font_desc (popup_config_load E) =
     snprintf 128 (pc_font_family (popup_config_load E) @ '' SemiBold '' @ show_int (max 6 (pc_font_size (popup_config_load E) - 1)))"
proof -
  have descs: "pc_font_desc (build_descs c) = snprintf 128 (pc_font_family (build_descs c) @ '' SemiBold '' @ show_int (pc_font_size (build_descs c)))"
    "pc_label_font_desc (build_descs c) = snprintf 128 (pc_font_family (build_descs c) @ '' SemiBold '' @ show_int (max 7 (pc_font_size (build_descs c) * 4 div 5)))"
    "pc_aux_font_desc (build_descs c) = snprintf 128 (pc_font_family (build_descs c) @ '' SemiBold '' @ show_int (max 6 (pc_font_size (build_descs c) - 1)))" for c
    by (simp_all add: build_descs_def Let_def max_def)
  have "\<exists>c. popup_config_load E = build_descs c"
    unfolding popup_config_load_def Let_def by (cases "pe_has_config E") (simp_all only: not_True_eq_False not_False_eq_True if_True if_False, blast+)
  then obtain c where c: "popup_config_load E = build_descs c" by blast
  show "pc_font_desc (popup_config_load E) = snprintf 128 (pc_font_family (popup_config_load E) @ '' SemiBold '' @ show_int (pc_font_size (popup_config_load E)))"
    "pc_label_font_desc (popup_config_load E) =
       snprintf 128 (pc_font_family (popup_config_load E) @ '' SemiBold '' @ show_int (max 7 (pc_font_size (popup_config_load E) * 4 div 5)))"
    "pc_aux_font_desc (popup_config_load E) =
       snprintf 128 (pc_font_family (popup_config_load E) @ '' SemiBold '' @ show_int (max 6 (pc_font_size (popup_config_load E) - 1)))"
    unfolding c by (rule descs)+
qed

text \<open>
  What the configuration says of the fonts: the family (79 bytes of it, Sans when there is none) and
  the size (between 6 and 72, the default when there is none), and the sizes of the fonts of candidates,
  labels, and preedit and mode.
\<close>

definition configured_family :: "panel_env \<Rightarrow> string" where
  "configured_family E = (if pe_has_config E
     then (case pe_config_string E ''display.font_family'' of Some (c # cs) \<Rightarrow> take 79 (c # cs) | _ \<Rightarrow> ''Sans'') else ''Sans'')"

definition configured_size :: "panel_env \<Rightarrow> int" where
  "configured_size E =
     (if pe_has_config E then max 6 (min 72 (pe_config_int E ''display.font_size'' POPUP_DEFAULT_FONT_SIZE)) else POPUP_DEFAULT_FONT_SIZE)"

definition font_sizes :: "panel_env \<Rightarrow> int list" where
  "font_sizes E = [configured_size E, max 7 (configured_size E * 4 div 5), max 6 (configured_size E - 1)]"

lemma config_configured:
  "pc_font_family (popup_config_load E) = configured_family E" "pc_font_size (popup_config_load E) = configured_size E"
proof -
  have fields: "pc_font_family (build_descs c) = pc_font_family c" "pc_font_size (build_descs c) = pc_font_size c" for c
    by (simp_all add: build_descs_def Let_def)
  show "pc_font_family (popup_config_load E) = configured_family E" "pc_font_size (popup_config_load E) = configured_size E"
    by (auto simp: popup_config_load_def Let_def fields configured_family_def configured_size_def snprintf_def filled_def
        split: option.split list.split)
qed

text \<open>
  C26. The fonts of the panel are the configured ones: the texts that the panel makes of the configured
  family and size (with its buffers of 80, 128 and 96 bytes) are read back by the renderer as that
  family, the semi-bold weight and the scaled size taken as points, for the fonts of candidates (the
  configured size), of labels (four fifths of it, at least 7) and of preedit and mode (one less, at
  least 6). Of the family the first 79 bytes are taken, and Sans stands for a family that is not
  configured; the size is brought between 6 and 72. The scaled sizes have at most six digits, and
  the library's reader of numbers is exact for positive whole numbers of at most six digits, which
  rounding leaves positive.
\<close>

theorem font_description_round_trip:
  assumes "reads_decimals fl atof" and "list_all (\<lambda>n. asked_px E n scale < 10 ^ 6) (font_sizes E)"
  shows "map (\<lambda>desc. parse_font_desc fl atof (scaled_font_desc E desc scale))
      [pc_font_desc (popup_config_load E), pc_label_font_desc (popup_config_load E), pc_aux_font_desc (popup_config_load E)] =
    map (\<lambda>n. (configured_family E, fl (fl (of_int (asked_px E n scale)) * fl (96 / 72)), 600)) (font_sizes E)"
proof -
  note fam = config_font(1) [of E, unfolded config_configured]
  have one: "parse_font_desc fl atof (scaled_font_desc E (snprintf 128 (configured_family E @ '' SemiBold '' @ show_int n)) scale) =
      (configured_family E, fl (fl (of_int (asked_px E n scale)) * fl (96 / 72)), 600)"
    if "0 < n" "n < 1000" "asked_px E n scale < 10 ^ 6" for n
  proof -
    have px: "1 \<le> asked_px E n scale" by (simp add: asked_px_def)
    then have "(of_nat (nat (asked_px E n scale)) :: rat) = of_int (asked_px E n scale)" by simp
    then show ?thesis
      using scaled_desc [OF fam that] parse_desc [OF fam _ _ assms(1), of "nat (asked_px E n scale)"] px that(3) by simp
  qed
  show ?thesis
    using assms(2) config_font(2,3) [of E] one [of "configured_size E"]
      one [of "max 7 (configured_size E * 4 div 5)"] one [of "max 6 (configured_size E - 1)"]
    unfolding font_sizes_def config_descs config_configured by simp
qed

text \<open>A configured family with a space in its name, and a size that is too big.\<close>

definition demo_font_env :: panel_env where
  "demo_font_env = demo_panel_env\<lparr>pe_has_config := True, pe_config_string := (\<lambda>_. Some ''Noto Sans''), pe_config_int := (\<lambda>_ _. 100)\<rparr>"

theorem font_description_round_trip_witness:
  "map (\<lambda>desc. parse_font_desc (\<lambda>x. x) (\<lambda>s. of_nat (digits_value s)) (scaled_font_desc demo_font_env desc 1))
      [pc_font_desc (popup_config_load demo_font_env), pc_label_font_desc (popup_config_load demo_font_env),
       pc_aux_font_desc (popup_config_load demo_font_env)] =
    [(''Noto Sans'', 96, 600), (''Noto Sans'', 76, 600), (''Noto Sans'', 284 / 3, 600)]"
proof -
  have "reads_decimals (\<lambda>x. x) (\<lambda>s. of_nat (digits_value s))" by (simp add: reads_decimals_def show_nat_value)
  moreover have "list_all (\<lambda>n. asked_px demo_font_env n 1 < 10 ^ 6) (font_sizes demo_font_env)" by code_simp
  moreover have "map (\<lambda>n. (configured_family demo_font_env, of_int (asked_px demo_font_env n 1) * (96 / 72), 600 :: int)) (font_sizes demo_font_env) =
      [(''Noto Sans'', 96 :: rat, 600), (''Noto Sans'', 76, 600), (''Noto Sans'', 284 / 3, 600)]" by code_simp
  ultimately show ?thesis using font_description_round_trip [of "\<lambda>x. x" "\<lambda>s. of_nat (digits_value s)" demo_font_env 1] by simp
qed

subsection \<open>Images\<close>

text \<open>
  What an image ought to be, in whole numbers: the coverage of a glyph at a place of the layout, and a
  channel (red, green, blue, opacity) of the glyphs put over each other.
\<close>

definition coverage :: "int \<Rightarrow> int \<Rightarrow> (int \<times> int) \<times> glyph_bitmap \<Rightarrow> nat" where
  "coverage x y gb = (case gb of ((gx, gy), b) \<Rightarrow>
     if gx \<le> x \<and> x < gx + int (bm_width b) \<and> gy \<le> y \<and> y < gy + int (bm_rows b) then unat (bm_cov b (nat (y - gy)) (nat (x - gx))) else 0)"

definition text_channel :: "text_env \<Rightarrow> font_key \<Rightarrow> TypioTextLayout \<Rightarrow> nat \<Rightarrow> int \<Rightarrow> int \<Rightarrow> nat" where
  "text_channel E k l i x y = (case ly_color l of (r, g, b, a) \<Rightarrow>
     fold (\<lambda>gb t. over_exact (unat ([popup_u8 r, popup_u8 g, popup_u8 b, 255] ! i) * coverage x y gb div 255) t (coverage x y gb))
       (inked E k l) 0)"

lemma glyph_over_channel:
  assumes "i < 4"
  shows "unat (px_byte i (glyph_over cr cg cb x y gb d)) =
    over_exact (unat ([cr, cg, cb, 255] ! i) * coverage x y gb div 255) (unat (px_byte i d)) (coverage x y gb)"
proof -
  obtain gx gy b where gb: "gb = ((gx, gy), b)" by (metis surj_pair)
  define cov where "cov = (if gx \<le> x \<and> x < gx + int (bm_width b) \<and> gy \<le> y \<and> y < gy + int (bm_rows b) then bm_cov b (nat (y - gy)) (nat (x - gx)) else 0)"
  have cov: "coverage x y gb = unat cov" by (simp add: coverage_def gb cov_def)
  have over: "glyph_over cr cg cb x y gb d = (if cov \<noteq> 0 then blend_pixel cr cg cb cov d else d)"
    by (simp add: glyph_over_def gb cov_def Let_def)
  have "i = 0 \<or> i = 1 \<or> i = 2 \<or> i = 3" using assms by linarith
  then show ?thesis
    unfolding over cov by (cases "cov = 0") (auto simp: blend_bytes blend_bytes [unfolded One_nat_def] over_exact_def)
qed

lemma text_pixel_channel:
  assumes "i < 4"
  shows "unat (px_byte i (text_pixel E k l x y)) = text_channel E k l i x y"
proof -
  obtain r g b a where c: "ly_color l = (r, g, b, a)" by (metis surj_pair)
  have "unat (px_byte i (fold (glyph_over cr cg cb x y) gbs d)) =
      fold (\<lambda>gb t. over_exact (unat ([cr, cg, cb, 255] ! i) * coverage x y gb div 255) t (coverage x y gb)) gbs (unat (px_byte i d))" for cr cg cb gbs d
    by (induction gbs arbitrary: d) (simp_all add: glyph_over_channel [OF assms])
  moreover have "px_byte i 0 = 0" by (simp add: px_byte_def)
  ultimately show ?thesis by (simp add: text_pixel_def text_channel_def c)
qed

lemma inked_attempted: "inked E k (l\<lparr>ly_attempted := True\<rparr>) = inked E k l"
proof -
  have fields: "ly_glyphs (l\<lparr>ly_attempted := True\<rparr>) = ly_glyphs l" "ly_baseline (l\<lparr>ly_attempted := True\<rparr>) = ly_baseline l" by simp_all
  show ?thesis unfolding inked_def fields by (rule refl)
qed

text \<open>
  C30. The image that the renderer builds when a text is first drawn is the composition of its glyphs:
  their face was open, every inked bitmap lies inside the image, the image has one pixel for each place
  in its box, and the channels of each pixel are those of the glyphs put one over the other in their
  order, in whole numbers without any sum leaving its byte, and none above the pixel's opacity.
\<close>

theorem image_composes_glyphs:
  assumes "\<not> ly_attempted l" and "ly_image l = None" and "draw_layout E l st = ((l', Some im), st')"
  shows "\<exists>k. ff_faces st (ly_face l) = Some k \<and> length (im_pixels im) = im_w im * im_h im \<and>
    (\<forall>((gx, gy), b) \<in> set (inked E k l). im_dx im \<le> gx \<and> gx + int (bm_width b) \<le> im_dx im + int (im_w im) \<and>
      im_dy im \<le> gy \<and> gy + int (bm_rows b) \<le> im_dy im + int (im_h im)) \<and>
    (\<forall>x < im_w im. \<forall>y < im_h im. let px = im_pixels im ! (y * im_w im + x)
      in premultiplied px \<and> (\<forall>i < 4. unat (px_byte i px) = text_channel E k l i (int x + im_dx im) (int y + im_dy im)))"
proof -
  define la where "la = l\<lparr>ly_attempted := True\<rparr>"
  obtain k where k: "ff_faces st (ly_face l) = Some k" "layout_pixels E k la = Some im"
    using assms by (auto simp: draw_layout_def build_layout_image_def Let_def la_def split: if_splits option.splits)
  have same: "inked E k la = inked E k l" "text_pixel E k la = text_pixel E k l"
    by (simp_all add: text_pixel_def la_def inked_attempted fun_eq_iff)
  note image = layout_pixels_image [OF k(2), unfolded same]
  show ?thesis
  proof (intro exI [of _ k] conjI ballI, goal_cases)
    case 1
    then show ?case by (rule k(1))
  next
    case 2
    then show ?case by (rule image(1))
  next
    case (3 gb)
    then show ?case using image(3) by (auto split: prod.split)
  next
    case 4
    then show ?case unfolding Let_def using image(2) text_pixel_premultiplied text_pixel_channel by simp
  qed
qed

text \<open>A font of one glyph: two pixels wide, one high, the second pixel half covered.\<close>

definition demo_bitmap :: glyph_bitmap where
  "demo_bitmap = \<lparr>bm_left = 0, bm_top = 3, bm_width = 2, bm_rows = 1, bm_cov = (\<lambda>_ col. if col = 0 then 255 else 128)\<rparr>"

definition demo_text_env :: text_env where
  "demo_text_env = \<lparr>te_fl = (\<lambda>x. x), te_atof = (\<lambda>s. of_nat (digits_value s)), te_match = (\<lambda>family _. Some family), te_sort = (\<lambda>_. []),
     te_utf8 = (\<lambda>s. map of_char s), te_open = (\<lambda>_. True), te_sizes = (\<lambda>_. True),
     te_shape = (\<lambda>_ s. Some \<lparr>st_ascender = 640, st_descender = - 128,
       st_glyphs = map (\<lambda>_. \<lparr>sg_id = 7, sg_x_offset = 0, sg_y_offset = 0, sg_x_advance = 64\<rparr>) s\<rparr>),
     te_bitmap = (\<lambda>_ _. Some demo_bitmap),
     te_device = True, te_image = True\<rparr>"

definition demo_layout :: TypioTextLayout where
  "demo_layout = the (fst (flux_create_layout demo_text_env ''ab'' ''Sans SemiBold 12'' (1, 1, 1, 1) no_fonts))"

definition demo_fonts :: flux_fonts where
  "demo_fonts = snd (flux_create_layout demo_text_env ''ab'' ''Sans SemiBold 12'' (1, 1, 1, 1) no_fonts)"

lemma demo_layout:
  "\<not> ly_attempted demo_layout" "ly_image demo_layout = None" "ly_glyphs demo_layout \<noteq> []" "te_device demo_text_env" "te_image demo_text_env"
  "ff_faces demo_fonts (ly_face demo_layout) = Some (''Sans'', 16, 600)"
  by code_simp+

lemma demo_color: "ly_color demo_layout = (1, 1, 1, 1)"
  by code_simp

lemma demo_inked: "inked demo_text_env k demo_layout = [((0, 7), demo_bitmap), ((1, 7), demo_bitmap)]"
proof -
  have "map (\<lambda>g. (gl_x g, gl_y_offset g)) (ly_glyphs demo_layout) = [(0, 0), (1, 0)]" "ly_baseline demo_layout = 10" by code_simp+
  moreover have "te_bitmap demo_text_env k n = Some demo_bitmap" "te_fl demo_text_env x = x" for n x by (simp_all add: demo_text_env_def)
  ultimately show ?thesis by (auto simp: inked_def glyph_box_def demo_bitmap_def)
qed

lemma demo_drawn:
  obtains l' im where "draw_layout demo_text_env demo_layout demo_fonts = ((l', Some im), demo_fonts)"
    "im_w im = 3" "im_h im = 1" "im_dx im = 0" "im_dy im = 7"
proof -
  have "\<exists>im. layout_pixels demo_text_env (''Sans'', 16, 600) (demo_layout\<lparr>ly_attempted := True\<rparr>) = Some im \<and>
      im_w im = 3 \<and> im_h im = 1 \<and> im_dx im = 0 \<and> im_dy im = 7"
    by (simp add: layout_pixels_def inked_attempted demo_inked ink_box_def grow_box_def demo_bitmap_def split: prod.split)
  then show ?thesis using that demo_layout by (auto simp: draw_layout_def build_layout_image_def Let_def)
qed

theorem image_composes_glyphs_witness:
  "\<exists>im. snd (fst (draw_layout demo_text_env demo_layout demo_fonts)) = Some im \<and> im_w im = 3 \<and>
    unat (px_byte 3 (im_pixels im ! 1)) = 255 \<and> unat (px_byte 0 (im_pixels im ! 2)) = 128"
proof -
  obtain l' im where d: "draw_layout demo_text_env demo_layout demo_fonts = ((l', Some im), demo_fonts)"
    "im_w im = 3" "im_h im = 1" "im_dx im = 0" "im_dy im = 7" by (rule demo_drawn)
  have "text_channel demo_text_env (''Sans'', 16, 600) demo_layout 3 1 7 = 255" "text_channel demo_text_env (''Sans'', 16, 600) demo_layout 0 2 7 = 128"
    using demo_color by (simp_all add: text_channel_def demo_inked coverage_def demo_bitmap_def over_exact_def popup_u8_def)
  moreover have "\<forall>x < 3. \<forall>i < 4. unat (px_byte i (im_pixels im ! x)) = text_channel demo_text_env (''Sans'', 16, 600) demo_layout i (int x) 7"
    using image_composes_glyphs [OF demo_layout(1,2) d(1)] d(2-5) demo_layout(6) by (simp add: Let_def)
  ultimately show ?thesis using d(1,2) by simp
qed

subsection \<open>Faces\<close>

text \<open>What the panel asks of the renderer: layouts of texts, and drawing the ones it has.\<close>

datatype text_request = CreateLayout string string TypioColor | DrawLayout nat

fun text_step :: "text_env \<Rightarrow> text_request \<Rightarrow> TypioTextLayout list \<times> flux_fonts \<Rightarrow> TypioTextLayout list \<times> flux_fonts" where
  "text_step E (CreateLayout s desc color) (ls, st) = (case flux_create_layout E s desc color st of
     (None, st) \<Rightarrow> (ls, st) | (Some l, st) \<Rightarrow> (ls @ [l], st))"
| "text_step E (DrawLayout i) (ls, st) =
     (if i < length ls then case draw_layout E (ls ! i) st of ((l, _), st) \<Rightarrow> (ls[i := l], st) else (ls, st))"

definition text_run :: "(text_env \<times> text_request) list \<Rightarrow> TypioTextLayout list \<times> flux_fonts" where
  "text_run rs = fold (\<lambda>(E, r). text_step E r) rs ([], no_fonts)"

text \<open>As long as the cache has room: no fault yet, and each layout has an open face.\<close>

definition faces_kept :: "TypioTextLayout list \<times> flux_fonts \<Rightarrow> bool" where
  "faces_kept x \<longleftrightarrow> (case x of (ls, st) \<Rightarrow> fonts_ok st \<and>
     (length (ff_objs st) < FONT_OBJ_CACHE_CAP \<longrightarrow> \<not> ff_fault st \<and> (\<forall>l \<in> set ls. ly_face l \<in> dom (ff_faces st))))"

lemma draw_fonts:
  assumes "draw_layout E l st = ((l', im), st')"
  shows "ly_face l' = ly_face l \<and> (st' = st \<or> st' = st\<lparr>ff_fault := True\<rparr> \<and> ff_faces st (ly_face l) = None)"
  using assms by (auto simp: draw_layout_def build_layout_image_def Let_def split: if_splits option.splits)

lemma step_keeps_faces:
  assumes "faces_kept x"
  shows "faces_kept (text_step E r x)"
proof -
  obtain ls st where x: "x = (ls, st)" by fastforce
  show ?thesis
  proof (cases r)
    case (CreateLayout s desc color)
    obtain l st' where c: "flux_create_layout E s desc color st = (l, st')" by fastforce
    have ok: "fonts_ok st" using assms by (simp add: faces_kept_def x)
    note c' = create_ok [OF ok c]
    have "\<not> ff_fault st' \<and> (\<forall>l \<in> set ls. ly_face l \<in> dom (ff_faces st'))" if "length (ff_objs st') < FONT_OBJ_CACHE_CAP"
      using c' assms that map_le_implies_dom_le unfolding keeps_faces_def faces_kept_def x by fastforce
    then show ?thesis using c c' by (auto simp: CreateLayout x faces_kept_def split: option.splits)
  next
    case (DrawLayout i)
    show ?thesis
    proof (cases "i < length ls")
      case True
      obtain l im st' where d: "draw_layout E (ls ! i) st = ((l, im), st')" by (metis surj_pair)
      note d' = draw_fonts [OF d]
      have same: "fonts_ok st'" "ff_objs st' = ff_objs st" "ff_faces st' = ff_faces st"
      proof -
        have "fonts_ok (st\<lparr>ff_fault := True\<rparr>) = fonts_ok st" by (simp add: fonts_ok_def)
        then show "fonts_ok st'" "ff_objs st' = ff_objs st" "ff_faces st' = ff_faces st" using d' assms unfolding faces_kept_def x by auto
      qed
      have "\<not> ff_fault st' \<and> (\<forall>l' \<in> set (ls[i := l]). ly_face l' \<in> dom (ff_faces st'))" if "length (ff_objs st) < FONT_OBJ_CACHE_CAP"
      proof -
        have kept: "\<not> ff_fault st" "\<forall>l' \<in> set ls. ly_face l' \<in> dom (ff_faces st)" using assms that by (simp_all add: faces_kept_def x)
        have "ly_face (ls ! i) \<in> dom (ff_faces st)" using kept(2) True by simp
        then have l: "ly_face l \<in> dom (ff_faces st)" "st' = st" using d' by auto
        then show ?thesis using kept set_update_subset_insert [of ls i l] by blast
      qed
      then show ?thesis using same True d by (simp add: DrawLayout x faces_kept_def)
    next
      case False
      then show ?thesis using assms by (simp add: DrawLayout x)
    qed
  qed
qed

lemma destroy_closes_faces:
  assumes "fonts_ok st"
  shows "ff_faces (typio_flux_engine_destroy st) = (\<lambda>_. None)"
proof -
  have "fold (\<lambda>e m. m(fo_face e := None)) es m = (\<lambda>n. if n \<in> fo_face ` set es then None else m n)" for es m
    by (induction es arbitrary: m) (auto simp: fun_eq_iff)
  then have "ff_faces (typio_flux_engine_destroy st) = (\<lambda>n. if n \<in> fo_face ` set (ff_objs st) then None else ff_faces st n)"
    by (simp add: typio_flux_engine_destroy_def font_obj_cache_clear_def font_file_cache_clear_def)
  then show ?thesis using assms by (auto simp: fonts_ok_def fun_eq_iff)
qed

text \<open>
  C36. Faces are owned by the cache of fonts and used by the layouts: whatever is asked of the renderer
  and whatever Fontconfig, FreeType and HarfBuzz answer, the cache holds exactly the open faces, one
  for each entry, and destroying the renderer closes them all; and as long as fewer than 16 fonts have
  been opened, no text is drawn with a closed face and the face of every layout is open.
\<close>

theorem faces_open_while_cache_has_room:
  assumes "text_run rs = (ls, st)"
  shows "dom (ff_faces st) = fo_face ` set (ff_objs st) \<and> distinct (map fo_face (ff_objs st)) \<and>
    ff_faces (typio_flux_engine_destroy st) = (\<lambda>_. None) \<and>
    (length (ff_objs st) < FONT_OBJ_CACHE_CAP \<longrightarrow> \<not> ff_fault st \<and> (\<forall>l \<in> set ls. ly_face l \<in> dom (ff_faces st)))"
proof -
  have "faces_kept (text_run rs)"
    unfolding text_run_def
  proof (rule fold_invariant [where P = faces_kept and xs = rs])
    show "faces_kept ([], no_fonts)" using no_fonts_ok by (simp add: faces_kept_def no_fonts_def)
    show "faces_kept ((\<lambda>(E, r). text_step E r) a x)" if "faces_kept x" for a x
      using step_keeps_faces [OF that] by (simp add: split_beta)
  qed
  then have kept: "fonts_ok st" "length (ff_objs st) < FONT_OBJ_CACHE_CAP \<longrightarrow> \<not> ff_fault st \<and> (\<forall>l \<in> set ls. ly_face l \<in> dom (ff_faces st))"
    using assms by (simp_all add: faces_kept_def)
  show ?thesis using kept destroy_closes_faces [OF kept(1)] unfolding fonts_ok_def by blast
qed

theorem faces_open_while_cache_has_room_witness:
  "\<exists>ls st. text_run [(demo_text_env, CreateLayout ''ab'' ''Sans 9'' (1, 1, 1, 1)), (demo_text_env, CreateLayout ''cd'' ''Sans 12'' (1, 1, 1, 1))] = (ls, st) \<and>
    length ls = 2 \<and> \<not> ff_fault st \<and> (\<forall>l \<in> set ls. ly_face l \<in> dom (ff_faces st))"
proof -
  let ?rs = "[(demo_text_env, CreateLayout ''ab'' ''Sans 9'' (1, 1, 1, 1)), (demo_text_env, CreateLayout ''cd'' ''Sans 12'' (1, 1, 1, 1))]"
  obtain ls st where r: "text_run ?rs = (ls, st)" by fastforce
  have "(case text_run ?rs of (ls, st) \<Rightarrow> length ls = 2 \<and> length (ff_objs st) < FONT_OBJ_CACHE_CAP)" by code_simp
  then show ?thesis using faces_open_while_cache_has_room [OF r] r by auto
qed

text \<open>
  With the cache full the promise ends: opening one more font closes the oldest face, and a layout of
  it that has not been drawn yet is drawn with a closed face.
\<close>

lemma full_cache_faults:
  assumes "fonts_ok st" and "length (ff_objs st) = FONT_OBJ_CACHE_CAP" and "ly_face l = fo_face (hd (ff_objs st))"
    and "font_obj_cache_lookup (path, sz, w) (ff_objs st) = None" and "te_open E path" and "te_sizes E (path, sz, w)"
    and "\<not> ly_attempted l" and "ly_glyphs l \<noteq> []" and "te_device E'"
  shows "ff_fault (snd (draw_layout E' l (snd (get_or_create_font E (path, sz, w) st))))"
proof -
  have "ff_faces (snd (get_or_create_font E (path, sz, w) st)) (ly_face l) = None"
    using assms(2-6) by (simp add: get_or_create_font_def font_obj_cache_insert_def Let_def)
  then show ?thesis using assms(7-9) by (simp add: draw_layout_def build_layout_image_def Let_def)
qed

end
