(* ===== verification/Mozc_Engine.thy ===== *)
theory Mozc_Engine
  imports Frontend State_Controller Basic_Engine "HOL-Library.Signed_Division"
begin

section \<open>The Mozc engine\<close>

text \<open>
  The adapter over a running \<^verbatim>\<open>mozc_server\<close> (\<^verbatim>\<open>engines/mozc/mozc_engine.cc\<close>):
  messages, calls over a socket, the launch of the server, sessions, keys, modes. The system, the
  Protocol Buffers library and the server are a record of operations on an opaque state. The input
  context is the number of its preedit segments and candidates; requests to it, requests written to
  the server and launches are appended to one list. Allocations succeed, logs are left out, and
  fields that the messages require are present in a message that was parsed.
\<close>

subsection \<open>Messages (\<^verbatim>\<open>mozc_commands.proto\<close>)\<close>

datatype CompositionMode = DIRECT | HIRAGANA | FULL_KATAKANA | HALF_ASCII | FULL_ASCII | HALF_KATAKANA

datatype SpecialKey =
    SK_NO_SPECIALKEY | SK_DIGIT | SK_ON | SK_OFF | SK_SPACE | SK_ENTER | SK_LEFT | SK_RIGHT | SK_UP | SK_DOWN | SK_ESCAPE | SK_DEL
  | SK_BACKSPACE | SK_HENKAN | SK_MUHENKAN | SK_KANA | SK_HOME | SK_END | SK_TAB | SK_F1 | SK_F2 | SK_F3 | SK_F4 | SK_F5 | SK_F6
  | SK_F7 | SK_F8 | SK_F9 | SK_F10 | SK_F11 | SK_F12 | SK_PAGE_UP | SK_PAGE_DOWN | SK_INSERT | SK_EISU | SK_TEXT_INPUT | SK_HANKAKU
  | SK_KATAKANA

datatype ModifierKey = MK_CTRL | MK_ALT | MK_SHIFT | MK_KEY_DOWN | MK_KEY_UP | MK_CAPS

record mozc_key =
  mk_key_code :: "u32 option"
  mk_special_key :: "SpecialKey option"
  mk_modifier_keys :: "ModifierKey list"
  mk_mode :: "CompositionMode option"

datatype SessionCommandType =
    SC_NONE | SC_REVERT | SC_SUBMIT | SC_SELECT_CANDIDATE | SC_HIGHLIGHT_CANDIDATE | SC_SWITCH_COMPOSITION_MODE | SC_GET_STATUS
  | SC_SUBMIT_CANDIDATE | SC_CONVERT_REVERSE | SC_UNDO | SC_RESET_CONTEXT | SC_MOVE_CURSOR | SC_SWITCH_INPUT_FIELD_TYPE | SC_UNDO_OR_REWIND
  | SC_COMMIT_RAW_TEXT | SC_CONVERT_PREV_PAGE | SC_CONVERT_NEXT_PAGE | SC_TURN_ON_IME | SC_TURN_OFF_IME
  | SC_DELETE_CANDIDATE_FROM_HISTORY | SC_STOP_KEY_TOGGLING | SC_UPDATE_COMPOSITION | SC_REQUEST_NWP

datatype InputType = INPUT_NONE | CREATE_SESSION | DELETE_SESSION | SEND_KEY | TEST_SEND_KEY | SEND_COMMAND

record mozc_input =
  in_type :: InputType
  in_id :: "u64 option"
  in_key :: "mozc_key option"
  in_command :: "(SessionCommandType \<times> CompositionMode option) option"
  in_text_deletion :: bool \<comment> \<open>\<^verbatim>\<open>DELETE_PRECEDING_TEXT\<close> is a capability\<close>
  in_application :: "(u32 \<times> u32) option" \<comment> \<open>process and thread\<close>

definition input_of_type :: "InputType \<Rightarrow> mozc_input" where
  "input_of_type t = \<lparr>in_type = t, in_id = None, in_key = None, in_command = None, in_text_deletion = False, in_application = None\<rparr>"

datatype ResultType = RESULT_NONE | RESULT_STRING

datatype SegmentAnnotation = ANNOTATION_NONE | ANNOTATION_UNDERLINE | ANNOTATION_HIGHLIGHT

record mozc_candidate =
  ca_index :: u32
  ca_value :: string
  ca_annotation :: "(string option \<times> string option) option" \<comment> \<open>description and shortcut\<close>

record mozc_window =
  cw_focused_index :: "u32 option"
  cw_size :: u32
  cw_candidates :: "mozc_candidate list"
  cw_page_size :: "u32 option"

datatype ErrorCode = SESSION_SUCCESS | SESSION_FAILURE

record mozc_output =
  ou_id :: "u64 option"
  ou_mode :: "CompositionMode option"
  ou_consumed :: "bool option"
  ou_result :: "(ResultType \<times> string) option"
  ou_preedit :: "(u32 \<times> (SegmentAnnotation \<times> string) list) option" \<comment> \<open>cursor and segments\<close>
  ou_window :: "mozc_window option"
  ou_error_code :: "ErrorCode option"
  ou_status_mode :: "CompositionMode option option"

subsection \<open>State\<close>

record TypioMozcConfig =
  zc_server_path :: string
  zc_page_size :: int

record TypioMozcState =
  zs_config :: TypioMozcConfig
  zs_socket_path :: string
  zs_server_launched :: bool
  zs_retry_after_ms :: u64

record TypioMozcSession =
  zn_session_id :: u64
  zn_mode :: CompositionMode

record MozcComposition =
  mc_segments :: "preedit_segment list"
  mc_cursor_pos :: int
  mc_candidates :: "TypioCandidate list"
  mc_page :: int
  mc_page_size :: int
  mc_total :: int
  mc_selected :: int
  mc_has_prev :: bool
  mc_has_next :: bool

datatype mozc_effect =
    MozcSent mozc_input | MozcLaunch string
  | MozcCommit string | MozcComposition MozcComposition | MozcClear | MozcNotifyMode TypioEngineMode

record 'o mozc_os =
  mo_now :: "'o \<Rightarrow> u64"
  mo_socket :: "'o \<Rightarrow> bool"
  mo_connect :: "string \<Rightarrow> 'o \<Rightarrow> bool \<times> 'o"
  mo_serialize :: "mozc_input \<Rightarrow> string option"
  mo_write :: "string \<Rightarrow> 'o \<Rightarrow> int \<times> 'o"
  mo_shutdown :: "'o \<Rightarrow> bool \<times> 'o"
  mo_poll :: "'o \<Rightarrow> int \<times> 'o"
  mo_read :: "'o \<Rightarrow> string option \<times> 'o" \<comment> \<open>nothing: an error; the empty text: the end\<close>
  mo_parse :: "string \<Rightarrow> mozc_output option"
  mo_fork :: "string \<Rightarrow> 'o \<Rightarrow> bool \<times> 'o" \<comment> \<open>and the wait of 300 ms\<close>
  mo_proc_net_unix :: "'o \<Rightarrow> string option"
  mo_getenv :: "string \<Rightarrow> string option"
  mo_pw_dir :: "string option"
  mo_pid :: u32

text \<open>The session is the property of the context; a session whose engine is gone has a dangling pointer.\<close>

record 'o mozc_world =
  mz_state :: "TypioMozcState option"
  mz_session :: "TypioMozcSession option"
  mz_os :: 'o
  mz_preedit :: nat
  mz_candidates :: nat
  mz_out :: "mozc_effect list"
  mz_fault :: bool

definition mozc_emit :: "mozc_effect \<Rightarrow> 'o mozc_world \<Rightarrow> 'o mozc_world" where
  "mozc_emit x w = w\<lparr>mz_out := mz_out w @ [x]\<rparr>"

definition upd_mozc :: "(TypioMozcState \<Rightarrow> TypioMozcState) \<Rightarrow> 'o mozc_world \<Rightarrow> 'o mozc_world" where
  "upd_mozc f w = w\<lparr>mz_state := map_option f (mz_state w)\<rparr>"

definition mozc_clear_state :: "'o mozc_world \<Rightarrow> 'o mozc_world" where
  "mozc_clear_state w = mozc_emit MozcClear (w\<lparr>mz_preedit := 0, mz_candidates := 0\<rparr>)"

definition mozc_context_commit :: "string \<Rightarrow> 'o mozc_world \<Rightarrow> 'o mozc_world" where
  "mozc_context_commit t w = mozc_emit (MozcCommit t) (w\<lparr>mz_preedit := 0, mz_candidates := 0\<rparr>)"

definition mozc_set_composition :: "MozcComposition \<Rightarrow> 'o mozc_world \<Rightarrow> 'o mozc_world" where
  "mozc_set_composition c w =
     mozc_emit (MozcComposition c) (w\<lparr>mz_preedit := length (mc_segments c), mz_candidates := length (mc_candidates c)\<rparr>)"

subsection \<open>The socket of the server\<close>

text \<open>An abstract path starts with a zero byte.\<close>

definition abstract_socket :: "string \<Rightarrow> string option" where
  "abstract_socket line =
     (let path = takeWhile (\<lambda>c. c \<noteq> CHR 0x0A) (dropWhile (\<lambda>c. c \<noteq> CHR ''@'') line)
      in if path \<noteq> [] \<and> take 11 path = ''@tmp/.mozc.'' \<and> strstr ''.session'' path \<noteq> None then Some (CHR 0x00 # tl path) else None)"

definition mozc_find_abstract_socket_path :: "'o mozc_os \<Rightarrow> 'o \<Rightarrow> string" where
  "mozc_find_abstract_socket_path api os = (case mo_proc_net_unix api os of
       None \<Rightarrow> []
     | Some content \<Rightarrow> (case List.map_filter abstract_socket (fgets_lines 1024 content) of [] \<Rightarrow> [] | p # ps \<Rightarrow> p))"

definition mozc_get_socket_path :: "'o mozc_os \<Rightarrow> 'o \<Rightarrow> string" where
  "mozc_get_socket_path api os =
     (let abstract_path = mozc_find_abstract_socket_path api os;
          xdg = mo_getenv api ''XDG_CONFIG_HOME''
      in if abstract_path \<noteq> [] then abstract_path
         else if filled xdg then or_empty xdg @ ''/mozc/session.ipc''
         else
           let home = (if filled (mo_getenv api ''HOME'') then mo_getenv api ''HOME'' else mo_pw_dir api)
           in case home of None \<Rightarrow> [] | Some h \<Rightarrow> h @ ''/.mozc/session.ipc'')"

definition SUN_PATH_SIZE :: nat where "SUN_PATH_SIZE = 108"

definition mozc_connect_socket :: "'o mozc_os \<Rightarrow> string \<Rightarrow> 'o mozc_world \<Rightarrow> bool \<times> 'o mozc_world" where
  "mozc_connect_socket api path w =
     (if SUN_PATH_SIZE \<le> length path then (False, w)
      else (case mo_connect api path (mz_os w) of (ok, os) \<Rightarrow> (ok, w\<lparr>mz_os := os\<rparr>)))"

subsection \<open>Calls\<close>

definition MOZC_MAX_RESPONSE :: nat where "MOZC_MAX_RESPONSE = 2 ^ 20"

text \<open>The loop over \<^verbatim>\<open>read\<close>: the bytes so far; nothing when a read fails or the answer is too long.\<close>

function mozc_read_response :: "'o mozc_os \<Rightarrow> string \<Rightarrow> 'o \<Rightarrow> string option \<times> 'o" where
  "mozc_read_response api resp_data os =
     (case mo_read api os of
        (None, os) \<Rightarrow> (None, os)
      | (Some [], os) \<Rightarrow> (Some resp_data, os)
      | (Some (c # cs), os) \<Rightarrow>
          if MOZC_MAX_RESPONSE < length (resp_data @ c # cs) then (None, os)
          else mozc_read_response api (resp_data @ c # cs) os)"
  by pat_completeness auto
termination
  by (relation "measure (\<lambda>(api, resp_data, os). MOZC_MAX_RESPONSE - length resp_data)") auto

declare mozc_read_response.simps [simp del]

definition mozc_ipc_call :: "'o mozc_os \<Rightarrow> string \<Rightarrow> mozc_input \<Rightarrow> 'o mozc_world \<Rightarrow> mozc_output option \<times> 'o mozc_world" where
  "mozc_ipc_call api socket_path request w =
     (if \<not> mo_socket api (mz_os w) then (None, w)
      else if SUN_PATH_SIZE \<le> length socket_path then (None, w)
      else (case mozc_connect_socket api socket_path w of
              (ok, w) \<Rightarrow>
                if \<not> ok then (None, w)
                else (case mo_serialize api request of
                        None \<Rightarrow> (None, w)
                      | Some req_data \<Rightarrow>
                          (case mo_write api req_data (mz_os w) of
                             (n, os) \<Rightarrow>
                               let w = w\<lparr>mz_os := os\<rparr>
                               in if n \<noteq> int (length req_data) then (None, w)
                                  else
                                    let w = mozc_emit (MozcSent request) w
                                    in (case mo_shutdown api (mz_os w) of
                                          (ok, os) \<Rightarrow>
                                            let w = w\<lparr>mz_os := os\<rparr>
                                            in if \<not> ok then (None, w)
                                               else (case mo_poll api (mz_os w) of
                                                       (poll_result, os) \<Rightarrow>
                                                         let w = w\<lparr>mz_os := os\<rparr>
                                                         in if poll_result \<le> 0 then (None, w)
                                                            else (case mozc_read_response api [] (mz_os w) of
                                                                    (resp, os) \<Rightarrow>
                                                                      let w = w\<lparr>mz_os := os\<rparr>
                                                                      in (case resp of
                                                                            None \<Rightarrow> (None, w)
                                                                          | Some data \<Rightarrow> (if data = [] then None else mo_parse api data, w)))))))))"

subsection \<open>The server\<close>

definition MOZC_RETRY_BACKOFF_MS :: u64 where "MOZC_RETRY_BACKOFF_MS = 3000"
definition MOZC_DEFAULT_PAGE_SIZE :: int where "MOZC_DEFAULT_PAGE_SIZE = 9"
definition MOZC_SERVER_PATH :: string where "MOZC_SERVER_PATH = ''/usr/lib/mozc/mozc_server''"

definition mozc_launch_server :: "'o mozc_os \<Rightarrow> string \<Rightarrow> 'o mozc_world \<Rightarrow> bool \<times> 'o mozc_world" where
  "mozc_launch_server api server_path w = (case mo_fork api server_path (mz_os w) of
       (ok, os) \<Rightarrow>
         let w = w\<lparr>mz_os := os\<rparr> in if \<not> ok then (False, w) else (True, mozc_emit (MozcLaunch server_path) w))"

definition mozc_ensure_connection :: "'o mozc_os \<Rightarrow> 'o mozc_world \<Rightarrow> bool \<times> 'o mozc_world" where
  "mozc_ensure_connection api w = (case mz_state w of
       None \<Rightarrow> (False, w)
     | Some st \<Rightarrow>
         if \<not> mo_socket api (mz_os w) then (False, w)
         else (case mozc_connect_socket api (zs_socket_path st) w of
                 (ok, w) \<Rightarrow>
                   if ok then (True, w)
                   else if zs_server_launched st then
                     (let refreshed = mozc_get_socket_path api (mz_os w)
                      in if refreshed = [] \<or> refreshed = zs_socket_path st then (False, w)
                         else
                           let w = upd_mozc (\<lambda>st. st\<lparr>zs_socket_path := refreshed\<rparr>) w
                           in if \<not> mo_socket api (mz_os w) then (False, w) else mozc_connect_socket api refreshed w)
                   else mozc_launch_server api (zc_server_path (zs_config st)) (upd_mozc (\<lambda>st. st\<lparr>zs_server_launched := True\<rparr>) w)))"

subsection \<open>Sessions\<close>

definition mozc_socket_of :: "'o mozc_world \<Rightarrow> string" where
  "mozc_socket_of w = (case mz_state w of None \<Rightarrow> [] | Some st \<Rightarrow> zs_socket_path st)"

definition back_off :: "u64 \<Rightarrow> 'o mozc_world \<Rightarrow> 'o mozc_world" where
  "back_off now w = upd_mozc (\<lambda>st. st\<lparr>zs_retry_after_ms := now + MOZC_RETRY_BACKOFF_MS\<rparr>) w"

definition create_request :: "'o mozc_os \<Rightarrow> mozc_input" where
  "create_request api = (input_of_type CREATE_SESSION)\<lparr>in_text_deletion := True, in_application := Some (mo_pid api, mo_pid api)\<rparr>"

definition mozc_create_session :: "'o mozc_os \<Rightarrow> 'o mozc_world \<Rightarrow> u64 option \<times> 'o mozc_world" where
  "mozc_create_session api w = (case mz_state w of
       None \<Rightarrow> (None, w)
     | Some st \<Rightarrow>
         let now_ms = mo_now api (mz_os w)
         in if zs_retry_after_ms st \<noteq> 0 \<and> now_ms < zs_retry_after_ms st then (None, w)
            else (case mozc_ensure_connection api w of
                    (ok, w) \<Rightarrow>
                      if \<not> ok then (None, back_off now_ms w)
                      else (case mozc_ipc_call api (mozc_socket_of w) (create_request api) w of
                              (None, w) \<Rightarrow> (None, back_off (mo_now api (mz_os w)) w)
                            | (Some resp, w) \<Rightarrow>
                                (case ou_id resp of
                                   None \<Rightarrow> (None, back_off (mo_now api (mz_os w)) w)
                                 | Some n \<Rightarrow>
                                     if ou_error_code resp = Some SESSION_FAILURE \<or> n = 0
                                     then (None, back_off (mo_now api (mz_os w)) w)
                                     else (Some n, upd_mozc (\<lambda>st. st\<lparr>zs_retry_after_ms := 0\<rparr>) w)))))"

definition mozc_delete_session :: "'o mozc_os \<Rightarrow> u64 \<Rightarrow> 'o mozc_world \<Rightarrow> 'o mozc_world" where
  "mozc_delete_session api session_id w =
     snd (mozc_ipc_call api (mozc_socket_of w) ((input_of_type DELETE_SESSION)\<lparr>in_id := Some session_id\<rparr>) w)"

definition key_request :: "u64 \<Rightarrow> mozc_key \<Rightarrow> mozc_input" where
  "key_request session_id key = (input_of_type SEND_KEY)\<lparr>in_id := Some session_id, in_key := Some key\<rparr>"

definition mozc_send_key :: "'o mozc_os \<Rightarrow> u64 \<Rightarrow> mozc_key \<Rightarrow> 'o mozc_world \<Rightarrow> mozc_output option \<times> 'o mozc_world" where
  "mozc_send_key api session_id key w = mozc_ipc_call api (mozc_socket_of w) (key_request session_id key) w"

definition mozc_send_command ::
    "'o mozc_os \<Rightarrow> u64 \<Rightarrow> SessionCommandType \<times> CompositionMode option \<Rightarrow> 'o mozc_world \<Rightarrow> mozc_output option \<times> 'o mozc_world" where
  "mozc_send_command api session_id cmd w =
     mozc_ipc_call api (mozc_socket_of w) ((input_of_type SEND_COMMAND)\<lparr>in_id := Some session_id, in_command := Some cmd\<rparr>) w"

definition mozc_mode_is_ascii :: "CompositionMode \<Rightarrow> bool" where
  "mozc_mode_is_ascii mode \<longleftrightarrow> mode = DIRECT \<or> mode = HALF_ASCII \<or> mode = FULL_ASCII"

text \<open>The session that is updated is the one of the context.\<close>

definition reported_mode :: "mozc_output \<Rightarrow> CompositionMode option" where
  "reported_mode output = (case ou_mode output of Some m \<Rightarrow> Some m | None \<Rightarrow> Option.bind (ou_status_mode output) id)"

definition mozc_update_session_mode :: "mozc_output \<Rightarrow> 'o mozc_world \<Rightarrow> 'o mozc_world" where
  "mozc_update_session_mode output w = (case reported_mode output of
       None \<Rightarrow> w
     | Some m \<Rightarrow> w\<lparr>mz_session := map_option (\<lambda>s. s\<lparr>zn_mode := m\<rparr>) (mz_session w)\<rparr>)"

subsection \<open>Output of the server\<close>

definition mozc_segment :: "SegmentAnnotation \<times> string \<Rightarrow> preedit_segment" where
  "mozc_segment s = \<lparr>seg_text = Some (snd s), seg_format = (if fst s = ANNOTATION_HIGHLIGHT then 2 else 1)\<rparr>"

definition int_of_u32 :: "u32 \<Rightarrow> int" where
  "int_of_u32 n = sint n"

text \<open>\<open>i % page_size\<close> of a non-negative number; with the page size 0 it is a fault, raised below.\<close>

definition mozc_label :: "int \<Rightarrow> nat \<Rightarrow> mozc_candidate \<Rightarrow> string" where
  "mozc_label page_size i c = (case Option.bind (ca_annotation c) snd of
       Some shortcut \<Rightarrow> shortcut
     | None \<Rightarrow> show_int (int i smod page_size + 1))"

definition mozc_page :: "mozc_window \<Rightarrow> MozcComposition \<Rightarrow> MozcComposition" where
  "mozc_page cands c =
     (let count = int (length (cw_candidates cands));
          page_size = (case cw_page_size cands of Some n \<Rightarrow> int_of_u32 n | None \<Rightarrow> MOZC_DEFAULT_PAGE_SIZE);
          total = int_of_u32 (cw_size cands);
          focused = (case cw_focused_index cands of Some n \<Rightarrow> int_of_u32 n | None \<Rightarrow> -1);
          first_index = int_of_u32 (ca_index (hd (cw_candidates cands)))
      in c\<lparr>mc_candidates := map (\<lambda>(i, cw). \<lparr>tc_text = Some (ca_value cw), tc_comment = Option.bind (ca_annotation cw) fst,
                                          tc_label = mozc_label page_size i cw\<rparr>) (enumerate 0 (cw_candidates cands)),
           mc_page := (if 0 < page_size then first_index sdiv page_size else 0),
           mc_page_size := page_size,
           mc_total := total,
           mc_selected := (if 0 \<le> focused then focused - first_index else -1),
           mc_has_prev := 0 < first_index,
           mc_has_next := first_index + count < total\<rparr>)"

text \<open>A division by zero while the labels are made.\<close>

definition labels_fault :: "mozc_window \<Rightarrow> bool" where
  "labels_fault cands \<longleftrightarrow>
     cw_page_size cands = Some 0 \<and> list_ex (\<lambda>c. Option.bind (ca_annotation c) snd = None) (cw_candidates cands)"

definition has_commit :: "mozc_output \<Rightarrow> string option" where
  "has_commit output = (case ou_result output of
       Some (RESULT_STRING, v) \<Rightarrow> if v \<noteq> [] then Some v else None
     | _ \<Rightarrow> None)"

definition has_preedit :: "mozc_output \<Rightarrow> bool" where
  "has_preedit output \<longleftrightarrow> (case ou_preedit output of None \<Rightarrow> False | Some (cursor, segs) \<Rightarrow> segs \<noteq> [])"

definition has_window :: "mozc_output \<Rightarrow> bool" where
  "has_window output \<longleftrightarrow> (case ou_window output of None \<Rightarrow> False | Some cands \<Rightarrow> cw_candidates cands \<noteq> [])"

definition mozc_composition :: "mozc_output \<Rightarrow> MozcComposition" where
  "mozc_composition output =
     (let c = \<lparr>mc_segments = [], mc_cursor_pos = 0, mc_candidates = [], mc_page = 0, mc_page_size = 0, mc_total = 0, mc_selected = -1,
               mc_has_prev = False, mc_has_next = False\<rparr>;
          c = (case ou_preedit output of
                 None \<Rightarrow> c
               | Some (cursor, segs) \<Rightarrow>
                   if segs = [] then c else c\<lparr>mc_segments := map mozc_segment segs, mc_cursor_pos := int_of_u32 cursor\<rparr>)
      in case ou_window output of
           None \<Rightarrow> c
         | Some cands \<Rightarrow> if cw_candidates cands = [] then c else mozc_page cands c)"

definition mozc_sync_output :: "mozc_output \<Rightarrow> 'o mozc_world \<Rightarrow> bool \<times> 'o mozc_world" where
  "mozc_sync_output output w =
     (let w = (case has_commit output of None \<Rightarrow> w | Some v \<Rightarrow> mozc_context_commit v w);
          w = (case ou_window output of None \<Rightarrow> w | Some cands \<Rightarrow> if labels_fault cands then w\<lparr>mz_fault := True\<rparr> else w);
          composing = has_preedit output \<or> has_window output;
          w = (if composing then mozc_set_composition (mozc_composition output) w else mozc_clear_state w)
      in (composing, mozc_update_session_mode output w))"

definition switch_on_key :: mozc_key where
  "switch_on_key = \<lparr>mk_key_code = None, mk_special_key = Some SK_ON, mk_modifier_keys = [MK_KEY_DOWN], mk_mode = Some HIRAGANA\<rparr>"

definition mozc_activate_session :: "'o mozc_os \<Rightarrow> 'o mozc_world \<Rightarrow> bool \<times> 'o mozc_world" where
  "mozc_activate_session api w = (case mz_session w of
       None \<Rightarrow> (False, w)
     | Some s \<Rightarrow>
         if mz_state w = None \<or> zn_session_id s = 0 then (False, w)
         else (case mozc_send_key api (zn_session_id s) switch_on_key w of
                 (None, w) \<Rightarrow> (False, w)
               | (Some output, w) \<Rightarrow>
                   let w = snd (mozc_sync_output output (mozc_update_session_mode output w))
                   in (case mz_session w of None \<Rightarrow> False | Some s \<Rightarrow> \<not> mozc_mode_is_ascii (zn_mode s), w)))"

subsection \<open>The session of a context\<close>

text \<open>The pointer of a session to the state of its engine is never cleared.\<close>

definition mozc_free_session :: "'o mozc_os \<Rightarrow> TypioMozcSession \<Rightarrow> 'o mozc_world \<Rightarrow> 'o mozc_world" where
  "mozc_free_session api s w =
     (if zn_session_id s = 0 then w
      else if mz_state w = None then w\<lparr>mz_fault := True\<rparr>
      else mozc_delete_session api (zn_session_id s) w)"

definition set_mozc_session :: "'o mozc_os \<Rightarrow> TypioMozcSession option \<Rightarrow> 'o mozc_world \<Rightarrow> 'o mozc_world" where
  "set_mozc_session api s w =
     (let w = (case mz_session w of None \<Rightarrow> w | Some old \<Rightarrow> mozc_free_session api old w) in w\<lparr>mz_session := s\<rparr>)"

definition mozc_get_session :: "'o mozc_os \<Rightarrow> bool \<Rightarrow> 'o mozc_world \<Rightarrow> TypioMozcSession option \<times> 'o mozc_world" where
  "mozc_get_session api create w =
     (if mz_state w = None then (None, w)
      else
        let current = (case mz_session w of None \<Rightarrow> None | Some s \<Rightarrow> if zn_session_id s \<noteq> 0 then Some s else None)
        in if current \<noteq> None then (current, w)
           else if \<not> create then (None, w)
           else (case mozc_create_session api w of
                   (None, w) \<Rightarrow> (None, w)
                 | (Some n, w) \<Rightarrow>
                     let w = set_mozc_session api (Some \<lparr>zn_session_id = n, zn_mode = DIRECT\<rparr>) w;
                         w = snd (mozc_activate_session api w)
                     in (mz_session w, w)))"

subsection \<open>Keys\<close>

definition mozc_map_special_key :: "u32 \<Rightarrow> SpecialKey option" where
  "mozc_map_special_key keysym =
     map_of [(KEY_space, SK_SPACE), (KEY_Return, SK_ENTER), (KEY_KP_Enter, SK_ENTER), (KEY_BackSpace, SK_BACKSPACE), (KEY_Delete, SK_DEL),
             (KEY_Escape, SK_ESCAPE), (KEY_Tab, SK_TAB), (KEY_Left, SK_LEFT), (KEY_Right, SK_RIGHT), (KEY_Up, SK_UP), (KEY_Down, SK_DOWN),
             (0xff50, SK_HOME), (0xff57, SK_END), (0xff55, SK_PAGE_UP), (0xff56, SK_PAGE_DOWN),
             (0xffbe, SK_F1), (0xffbf, SK_F2), (0xffc0, SK_F3), (0xffc1, SK_F4), (0xffc2, SK_F5), (0xffc3, SK_F6), (0xffc4, SK_F7),
             (0xffc5, SK_F8), (0xffc6, SK_F9), (0xffc7, SK_F10), (0xffc8, SK_F11), (0xffc9, SK_F12),
             (0xff22, SK_MUHENKAN), (0xff23, SK_HENKAN), (0xff24, SK_HENKAN), (0xff25, SK_KANA), (0xff27, SK_KANA), (0xff2a, SK_HANKAKU),
             (0xff30, SK_ON), (0xff31, SK_KANA)] keysym"

text \<open>The key for the server, or nothing when the server has no use for it.\<close>

definition mozc_build_key_event :: "key_event \<Rightarrow> mozc_key option" where
  "mozc_build_key_event ev =
     (let ks = ev_keysym ev;
          special = mozc_map_special_key ks;
          code = (if special = None \<and> 0x20 \<le> ks \<and> ks \<le> 0x7e then Some ks else None);
          mods = (if ev_modifiers ev AND TYPIO_MOD_SHIFT \<noteq> 0 then [MK_SHIFT] else []) @
                 (if ev_modifiers ev AND TYPIO_MOD_CTRL \<noteq> 0 then [MK_CTRL] else []) @
                 (if ev_modifiers ev AND TYPIO_MOD_ALT \<noteq> 0 then [MK_ALT] else []) @
                 (if ev_type ev = EVENT_KEY_RELEASE then [MK_KEY_UP] else [])
      in if special \<noteq> None \<or> code \<noteq> None \<or> typio_key_event_is_modifier_only ev
         then Some \<lparr>mk_key_code = code, mk_special_key = special, mk_modifier_keys = mods, mk_mode = None\<rparr> else None)"

definition mozc_focus_in :: "'o mozc_os \<Rightarrow> 'o mozc_world \<Rightarrow> 'o mozc_world" where
  "mozc_focus_in api w = (case mozc_get_session api True w of
       (None, w) \<Rightarrow> w
     | (Some s, w) \<Rightarrow> if mozc_mode_is_ascii (zn_mode s) then snd (mozc_activate_session api w) else w)"

definition mozc_focus_out :: "'o mozc_os \<Rightarrow> 'o mozc_world \<Rightarrow> 'o mozc_world" where
  "mozc_focus_out api w = (case mozc_get_session api False w of
       (None, w) \<Rightarrow> w
     | (Some s, w) \<Rightarrow> mozc_clear_state (snd (mozc_send_command api (zn_session_id s) (SC_REVERT, None) w)))"

definition mozc_reset :: "'o mozc_os \<Rightarrow> 'o mozc_world \<Rightarrow> 'o mozc_world" where
  "mozc_reset api w = (case mozc_get_session api False w of
       (None, w) \<Rightarrow> mozc_clear_state w
     | (Some s, w) \<Rightarrow> mozc_clear_state (snd (mozc_send_command api (zn_session_id s) (SC_RESET_CONTEXT, None) w)))"

definition mozc_process_key :: "'o mozc_os \<Rightarrow> key_event \<Rightarrow> 'o mozc_world \<Rightarrow> key_result \<times> 'o mozc_world" where
  "mozc_process_key api ev w =
     (if ev_type ev = EVENT_KEY_PRESS \<and> typio_key_event_is_escape ev \<and> (0 < mz_preedit w \<or> 0 < mz_candidates w)
      then (KEY_HANDLED, mozc_reset api w)
      else (case mozc_get_session api True w of
              (None, w) \<Rightarrow> (KEY_NOT_HANDLED, w)
            | (Some s, w) \<Rightarrow>
                let w = (if ev_type ev = EVENT_KEY_PRESS \<and> mozc_mode_is_ascii (zn_mode s) \<and> \<not> typio_key_event_is_modifier_only ev
                         then snd (mozc_activate_session api w) else w)
                in (case mozc_build_key_event ev of
                      None \<Rightarrow> (KEY_NOT_HANDLED, w)
                    | Some key \<Rightarrow>
                        (case mozc_send_key api (zn_session_id s) key w of
                           (None, w) \<Rightarrow> (KEY_NOT_HANDLED, w)
                         | (Some output, w) \<Rightarrow>
                             if ou_consumed output \<noteq> Some True then (KEY_NOT_HANDLED, w)
                             else (case mozc_sync_output output w of
                                     (composing, w) \<Rightarrow>
                                       (if has_commit output \<noteq> None then KEY_COMMITTED
                                        else if composing then KEY_COMPOSING
                                        else KEY_HANDLED, w))))))"

subsection \<open>Configuration and modes\<close>

text \<open>\<open>cfg\<close>: the section of the engine, when there is one.\<close>

definition mozc_load_config :: "config option \<Rightarrow> TypioMozcConfig" where
  "mozc_load_config cfg =
     (let c = \<lparr>zc_server_path = MOZC_SERVER_PATH, zc_page_size = MOZC_DEFAULT_PAGE_SIZE\<rparr>
      in case cfg of
           None \<Rightarrow> c
         | Some cfg \<Rightarrow>
             let server = typio_config_get_string cfg ''server_path'' None
             in if filled server then c\<lparr>zc_server_path := or_empty server\<rparr> else c)"

definition mozc_init :: "'o mozc_os \<Rightarrow> config option \<Rightarrow> 'o mozc_world \<Rightarrow> TypioResult \<times> 'o mozc_world" where
  "mozc_init api cfg w =
     (let path = mozc_get_socket_path api (mz_os w)
      in if path = [] then (TYPIO_ERROR, w)
         else (TYPIO_OK, w\<lparr>mz_state := Some \<lparr>zs_config = mozc_load_config cfg, zs_socket_path = path, zs_server_launched = False,
                                           zs_retry_after_ms = 0\<rparr>\<rparr>))"

definition mozc_destroy :: "'o mozc_world \<Rightarrow> 'o mozc_world" where
  "mozc_destroy w = w\<lparr>mz_state := None\<rparr>"

definition mozc_reload_config :: "config option \<Rightarrow> 'o mozc_world \<Rightarrow> TypioResult \<times> 'o mozc_world" where
  "mozc_reload_config cfg w =
     (if mz_state w = None then (TYPIO_ERROR_NOT_INITIALIZED, w)
      else (case cfg of
              None \<Rightarrow> (TYPIO_OK, w)
            | Some cfg \<Rightarrow>
                let server = typio_config_get_string cfg ''server_path'' None
                in (TYPIO_OK, if filled server
                              then upd_mozc (\<lambda>st. st\<lparr>zs_config := (zs_config st)\<lparr>zc_server_path := or_empty server\<rparr>\<rparr>) w else w)))"

text \<open>The labels are in UTF-8.\<close>

definition mozc_mode_hiragana :: TypioEngineMode where
  "mozc_mode_hiragana = \<lparr>em_class = MODE_CLASS_NATIVE, em_mode_id = Some ''hiragana'',
     em_display_label = Some [CHR 0xE3, CHR 0x81, CHR 0x82], em_icon_name = Some ''typio-mozc''\<rparr>"

definition mozc_mode_katakana :: TypioEngineMode where
  "mozc_mode_katakana = \<lparr>em_class = MODE_CLASS_NATIVE, em_mode_id = Some ''katakana'',
     em_display_label = Some [CHR 0xE3, CHR 0x82, CHR 0xA2], em_icon_name = Some ''typio-mozc-katakana''\<rparr>"

definition mozc_mode_half_katakana :: TypioEngineMode where
  "mozc_mode_half_katakana = \<lparr>em_class = MODE_CLASS_NATIVE, em_mode_id = Some ''half_katakana'',
     em_display_label = Some [CHR 0xEF, CHR 0xBD, CHR 0xB1], em_icon_name = Some ''typio-mozc-half-katakana''\<rparr>"

definition mozc_mode_direct :: TypioEngineMode where
  "mozc_mode_direct = \<lparr>em_class = MODE_CLASS_LATIN, em_mode_id = Some ''direct'', em_display_label = Some ''A'',
     em_icon_name = Some ''typio-mozc-direct''\<rparr>"

definition mozc_mode_half_ascii :: TypioEngineMode where
  "mozc_mode_half_ascii = \<lparr>em_class = MODE_CLASS_LATIN, em_mode_id = Some ''half_ascii'', em_display_label = Some ''A'',
     em_icon_name = Some ''typio-mozc-half-ascii''\<rparr>"

definition mozc_mode_full_ascii :: TypioEngineMode where
  "mozc_mode_full_ascii = \<lparr>em_class = MODE_CLASS_LATIN, em_mode_id = Some ''full_ascii'',
     em_display_label = Some [CHR 0xEF, CHR 0xBC, CHR 0xA1], em_icon_name = Some ''typio-mozc-full-ascii''\<rparr>"

definition mozc_mode_for_composition :: "CompositionMode \<Rightarrow> TypioEngineMode" where
  "mozc_mode_for_composition mode = (case mode of
       DIRECT \<Rightarrow> mozc_mode_direct
     | HALF_ASCII \<Rightarrow> mozc_mode_half_ascii
     | FULL_ASCII \<Rightarrow> mozc_mode_full_ascii
     | FULL_KATAKANA \<Rightarrow> mozc_mode_katakana
     | HALF_KATAKANA \<Rightarrow> mozc_mode_half_katakana
     | _ \<Rightarrow> mozc_mode_hiragana)"

definition mozc_get_mode :: "'o mozc_os \<Rightarrow> 'o mozc_world \<Rightarrow> TypioEngineMode" where
  "mozc_get_mode api w = (case fst (mozc_get_session api False w) of
       None \<Rightarrow> mozc_mode_hiragana
     | Some s \<Rightarrow> mozc_mode_for_composition (zn_mode s))"

definition mozc_parse_mode_id :: "string \<Rightarrow> CompositionMode option" where
  "mozc_parse_mode_id mode_id =
     (if mode_id = ''hiragana'' then Some HIRAGANA
      else if mode_id = ''katakana'' then Some FULL_KATAKANA
      else if mode_id = ''half_katakana'' then Some HALF_KATAKANA
      else if mode_id = ''direct'' then Some DIRECT
      else if mode_id = ''half_ascii'' then Some HALF_ASCII
      else if mode_id = ''full_ascii'' then Some FULL_ASCII
      else None)"

definition mozc_set_mode :: "'o mozc_os \<Rightarrow> string \<Rightarrow> 'o mozc_world \<Rightarrow> TypioResult \<times> 'o mozc_world" where
  "mozc_set_mode api mode_id w =
     (if mode_id = [] then (TYPIO_ERROR_INVALID_ARGUMENT, w)
      else (case mozc_parse_mode_id mode_id of
              None \<Rightarrow> (TYPIO_ERROR_NOT_FOUND, w)
            | Some mode \<Rightarrow>
                (case mozc_get_session api False w of
                   (None, w) \<Rightarrow> (TYPIO_ERROR_NOT_INITIALIZED, w)
                 | (Some s, w) \<Rightarrow>
                     (case mozc_send_command api (zn_session_id s) (SC_SWITCH_COMPOSITION_MODE, Some mode) w of
                        (None, w) \<Rightarrow> (TYPIO_ERROR, w)
                      | (Some output, w) \<Rightarrow>
                          let w = snd (mozc_sync_output output (mozc_update_session_mode output w));
                              mode = (case mz_session w of None \<Rightarrow> mozc_mode_hiragana | Some s \<Rightarrow> mozc_mode_for_composition (zn_mode s))
                          in (TYPIO_OK, mozc_emit (MozcNotifyMode mode) w)))))"

end
