(* ===== verification/Mozc_Laws.thy ===== *)
theory Mozc_Laws
  imports Mozc_Engine
begin

section \<open>Laws of the Mozc engine\<close>

text \<open>
  What a call changes, the session of a context, the launch of the server, and what is shown of a
  page of candidates.
\<close>

subsection \<open>Calls\<close>

text \<open>A response is what was read, and never longer than the limit.\<close>

lemma read_response_bound:
  "mozc_read_response api acc os = (Some data, os') \<Longrightarrow> length acc \<le> MOZC_MAX_RESPONSE \<Longrightarrow> length data \<le> MOZC_MAX_RESPONSE"
proof (induction api acc os rule: mozc_read_response.induct)
  case (1 api acc os)
  obtain r os1 where r: "mo_read api os = (r, os1)" by fastforce
  show ?case
  proof (cases r)
    case None
    then show ?thesis using 1 r by (simp add: mozc_read_response.simps [of api acc os])
  next
    case (Some bs)
    show ?thesis
    proof (cases bs)
      case Nil
      then show ?thesis using 1(2,3) r Some by (simp add: mozc_read_response.simps [of api acc os])
    next
      case (Cons c cs)
      have long: "length (acc @ c # cs) \<le> MOZC_MAX_RESPONSE"
        using 1(2) r Some Cons by (simp add: mozc_read_response.simps [of api acc os] split: if_splits)
      then have "mozc_read_response api (acc @ c # cs) os1 = (Some data, os')"
        using 1(2) r Some Cons by (simp add: mozc_read_response.simps [of api acc os])
      then show ?thesis using 1(1) [OF _ Some Cons] r long by (simp add: Some Cons)
    qed
  qed
qed

text \<open>A step of the engine: the effects it appends, all of a kind, and the fields it leaves alone.\<close>

definition appends :: "(mozc_effect \<Rightarrow> bool) \<Rightarrow> 'o mozc_world \<Rightarrow> 'o mozc_world \<Rightarrow> bool" where
  "appends ok w w' \<longleftrightarrow> (\<exists>xs. mz_out w' = mz_out w @ xs \<and> list_all ok xs)"

lemma appends_refl [simp]: "appends ok w w"
  by (simp add: appends_def)

lemma appends_trans: "appends ok w w' \<Longrightarrow> appends ok w' w'' \<Longrightarrow> appends ok w w''"
  unfolding appends_def by (metis append.assoc list_all_append)

lemma appends_same: "mz_out w' = mz_out w \<Longrightarrow> appends ok w w'"
  by (simp add: appends_def)

text \<open>A call changes the system only, and appends its request when it was written.\<close>

definition called :: "mozc_input \<Rightarrow> 'o mozc_world \<Rightarrow> 'o mozc_world \<Rightarrow> bool" where
  "called req w w' \<longleftrightarrow> (\<exists>os. w' = w\<lparr>mz_os := os\<rparr>) \<or> (\<exists>os. w' = w\<lparr>mz_out := mz_out w @ [MozcSent req], mz_os := os\<rparr>)"

lemma calledI: "called req w (w\<lparr>mz_os := os\<rparr>)" "called req w (w\<lparr>mz_out := mz_out w @ [MozcSent req], mz_os := os\<rparr>)"
  by (auto simp: called_def)

lemma called_refl: "called req w w"
  using calledI(1) [of req w "mz_os w"] by simp

lemma connect_called: "mozc_connect_socket api p w = (ok, w') \<Longrightarrow> \<exists>os. w' = w\<lparr>mz_os := os\<rparr>"
  by (auto simp: mozc_connect_socket_def split: if_splits prod.splits) (metis mozc_world.surjective mozc_world.update_convs(3))

lemma ipc_called:
  assumes "mozc_ipc_call api p req w = (r, w')"
  shows "called req w w'" and "r = Some output \<Longrightarrow> mz_out w' = mz_out w @ [MozcSent req] \<and> (\<exists>data. mo_parse api data = Some output)"
proof -
  have "called req w w' \<and> (\<forall>output. r = Some output \<longrightarrow> mz_out w' = mz_out w @ [MozcSent req] \<and> (\<exists>data. mo_parse api data = Some output))"
  proof (cases "\<not> mo_socket api (mz_os w) \<or> SUN_PATH_SIZE \<le> length p")
    case True
    then have "w' = w" "r = None" using assms by (auto simp: mozc_ipc_call_def split: if_splits)
    then show ?thesis using called_refl by simp
  next
    case False
    obtain ok w1 where c: "mozc_connect_socket api p w = (ok, w1)" by fastforce
    obtain os where w1: "w1 = w\<lparr>mz_os := os\<rparr>" using connect_called [OF c] by blast
    show ?thesis
      using assms False c
      by (auto simp: mozc_ipc_call_def w1 mozc_emit_def Let_def intro: calledI split: if_splits option.splits prod.splits)
  qed
  then show "called req w w'" and "r = Some output \<Longrightarrow> mz_out w' = mz_out w @ [MozcSent req] \<and> (\<exists>data. mo_parse api data = Some output)" by blast+
qed

lemma called_fields:
  assumes "called req w w'"
  shows "mz_state w' = mz_state w" "mz_session w' = mz_session w" "mz_preedit w' = mz_preedit w" "mz_candidates w' = mz_candidates w"
    "mz_fault w' = mz_fault w" "ok (MozcSent req) \<Longrightarrow> appends ok w w'"
  using assms by (auto simp: called_def appends_def)

subsection \<open>Frames\<close>

lemma context_frames [simp]:
  "mz_state (mozc_emit x w) = mz_state w" "mz_session (mozc_emit x w) = mz_session w" "mz_os (mozc_emit x w) = mz_os w"
  "mz_out (mozc_emit x w) = mz_out w @ [x]"
  "mz_state (mozc_clear_state w) = mz_state w" "mz_session (mozc_clear_state w) = mz_session w" "mz_os (mozc_clear_state w) = mz_os w"
  "mz_out (mozc_clear_state w) = mz_out w @ [MozcClear]"
  "mz_state (mozc_context_commit t w) = mz_state w" "mz_session (mozc_context_commit t w) = mz_session w" "mz_os (mozc_context_commit t w) = mz_os w"
  "mz_out (mozc_context_commit t w) = mz_out w @ [MozcCommit t]"
  "mz_state (mozc_set_composition c w) = mz_state w" "mz_session (mozc_set_composition c w) = mz_session w"
  "mz_os (mozc_set_composition c w) = mz_os w" "mz_out (mozc_set_composition c w) = mz_out w @ [MozcComposition c]"
  by (simp_all add: mozc_emit_def mozc_clear_state_def mozc_context_commit_def mozc_set_composition_def)

lemma upd_mozc_frames [simp]:
  "mz_state (upd_mozc f w) = map_option f (mz_state w)" "mz_session (upd_mozc f w) = mz_session w" "mz_os (upd_mozc f w) = mz_os w"
  "mz_out (upd_mozc f w) = mz_out w"
  "mz_state (back_off n w) = map_option (\<lambda>st. st\<lparr>zs_retry_after_ms := n + MOZC_RETRY_BACKOFF_MS\<rparr>) (mz_state w)"
  "mz_session (back_off n w) = mz_session w" "mz_os (back_off n w) = mz_os w" "mz_out (back_off n w) = mz_out w"
  by (simp_all add: upd_mozc_def back_off_def)

lemma update_mode_frames [simp]:
  "mz_state (mozc_update_session_mode output w) = mz_state w" "mz_os (mozc_update_session_mode output w) = mz_os w"
  "mz_out (mozc_update_session_mode output w) = mz_out w"
  "mz_session (mozc_update_session_mode output w) =
     (case reported_mode output of None \<Rightarrow> mz_session w | Some m \<Rightarrow> map_option (\<lambda>s. s\<lparr>zn_mode := m\<rparr>) (mz_session w))"
  by (simp_all add: mozc_update_session_mode_def split: option.split)

text \<open>What is told to the context.\<close>

definition told :: "mozc_output \<Rightarrow> mozc_effect list" where
  "told output = (case has_commit output of None \<Rightarrow> [] | Some v \<Rightarrow> [MozcCommit v]) @
     [if has_preedit output \<or> has_window output then MozcComposition (mozc_composition output) else MozcClear]"

lemma sync_frames [simp]:
  "fst (mozc_sync_output output w) \<longleftrightarrow> has_preedit output \<or> has_window output"
  "mz_state (snd (mozc_sync_output output w)) = mz_state w" "mz_os (snd (mozc_sync_output output w)) = mz_os w"
  "mz_session (snd (mozc_sync_output output w)) =
     (case reported_mode output of None \<Rightarrow> mz_session w | Some m \<Rightarrow> map_option (\<lambda>s. s\<lparr>zn_mode := m\<rparr>) (mz_session w))"
  "mz_out (snd (mozc_sync_output output w)) = mz_out w @ told output"
proof -
  define w1 where "w1 = (case has_commit output of None \<Rightarrow> w | Some v \<Rightarrow> mozc_context_commit v w)"
  define w2 where "w2 = (case ou_window output of None \<Rightarrow> w1 | Some cands \<Rightarrow> if labels_fault cands then w1\<lparr>mz_fault := True\<rparr> else w1)"
  define w3 where "w3 = (if has_preedit output \<or> has_window output then mozc_set_composition (mozc_composition output) w2 else mozc_clear_state w2)"
  have sync: "mozc_sync_output output w = (has_preedit output \<or> has_window output, mozc_update_session_mode output w3)"
    unfolding mozc_sync_output_def Let_def w3_def w2_def w1_def by (rule refl)
  have w1: "mz_state w1 = mz_state w" "mz_os w1 = mz_os w" "mz_session w1 = mz_session w"
    "mz_out w1 = mz_out w @ (case has_commit output of None \<Rightarrow> [] | Some v \<Rightarrow> [MozcCommit v])"
    by (simp_all add: w1_def split: option.split)
  have w2: "mz_state w2 = mz_state w1" "mz_os w2 = mz_os w1" "mz_session w2 = mz_session w1" "mz_out w2 = mz_out w1"
    by (simp_all add: w2_def split: option.split)
  show "fst (mozc_sync_output output w) \<longleftrightarrow> has_preedit output \<or> has_window output" by (simp add: sync)
  show "mz_state (snd (mozc_sync_output output w)) = mz_state w" "mz_os (snd (mozc_sync_output output w)) = mz_os w"
    "mz_session (snd (mozc_sync_output output w)) =
       (case reported_mode output of None \<Rightarrow> mz_session w | Some m \<Rightarrow> map_option (\<lambda>s. s\<lparr>zn_mode := m\<rparr>) (mz_session w))"
    "mz_out (snd (mozc_sync_output output w)) = mz_out w @ told output"
    by (simp_all add: sync w3_def w1 w2 told_def split: option.split)
qed

subsection \<open>Creating a session\<close>

definition launched :: "'o mozc_world \<Rightarrow> bool" where
  "launched w \<longleftrightarrow> (case mz_state w of None \<Rightarrow> False | Some st \<Rightarrow> zs_server_launched st)"

lemma connect_frames:
  assumes "mozc_connect_socket api p w = (ok, w')"
  shows "mz_state w' = mz_state w" "mz_session w' = mz_session w" "mz_out w' = mz_out w"
  using connect_called [OF assms] by auto

lemma launched_upd: "(\<And>st. zs_server_launched (f st) = zs_server_launched st) \<Longrightarrow> launched (upd_mozc f w) = launched w"
  by (simp add: launched_def split: option.split)

lemma launched_back_off [simp]: "launched (back_off n w) = launched w"
  by (simp add: back_off_def launched_upd)

text \<open>What getting ready for a new session changes: a launch, at most, and only the first one.\<close>

definition prepared :: "mozc_effect list \<Rightarrow> 'o mozc_world \<Rightarrow> 'o mozc_world \<Rightarrow> bool" where
  "prepared xs w w' \<longleftrightarrow> (mz_state w' = None \<longleftrightarrow> mz_state w = None) \<and> mz_session w' = mz_session w \<and> (launched w \<longrightarrow> launched w') \<and>
     (mz_out w' = mz_out w @ xs \<or> \<not> launched w \<and> launched w' \<and> (\<exists>p. mz_out w' = mz_out w @ MozcLaunch p # xs))"

lemma ensure_prepared:
  assumes "mozc_ensure_connection api w = (ok, w')"
  shows "prepared [] w w'"
proof (cases "mz_state w")
  case None
  then show ?thesis using assms by (simp add: mozc_ensure_connection_def prepared_def)
next
  case (Some st)
  obtain c w1 where c: "mozc_connect_socket api (zs_socket_path st) w = (c, w1)" by fastforce
  note w1 = connect_frames [OF c]
  have l1: "launched w1 = launched w" "launched w = zs_server_launched st" using Some w1 by (simp_all add: launched_def)
  have base: "prepared [] w w1" using w1 l1 by (simp add: prepared_def)
  have self: "prepared [] w w" by (simp add: prepared_def)
  show ?thesis
  proof (cases "\<not> mo_socket api (mz_os w) \<or> c")
    case True
    then show ?thesis using assms Some c base self by (auto simp: mozc_ensure_connection_def split: if_splits)
  next
    case other: False
    show ?thesis
    proof (cases "zs_server_launched st")
      case True
      have upd: "prepared [] w (upd_mozc (\<lambda>st. st\<lparr>zs_socket_path := p\<rparr>) w1)" for p
        using w1 l1 by (simp add: prepared_def launched_upd)
      have conn: "prepared [] w w3" if "mozc_connect_socket api p (upd_mozc (\<lambda>st. st\<lparr>zs_socket_path := p\<rparr>) w1) = (b, w3)" for p b w3
        using upd [of p] connect_frames [OF that] unfolding prepared_def launched_def by simp
      show ?thesis
        using assms Some c base upd conn other True by (auto simp: mozc_ensure_connection_def Let_def split: if_splits)
    next
      case False
      let ?w2 = "upd_mozc (\<lambda>st. st\<lparr>zs_server_launched := True\<rparr>) w1"
      have l2: "launched (w'\<lparr>mz_os := os\<rparr>) = launched w'" "launched (mozc_emit x w') = launched w'" for w' :: "'a mozc_world" and os x
        by (simp_all add: launched_def)
      have "launched ?w2" using Some w1 by (simp add: launched_def)
      then show ?thesis
        using assms Some c w1 l1 other False l2
        by (auto simp: mozc_ensure_connection_def mozc_launch_server_def prepared_def Let_def split: prod.splits if_splits)
    qed
  qed
qed

lemma create_prepared:
  assumes "mozc_create_session api w = (r, w')"
  shows "prepared [] w w' \<or> prepared [MozcSent (create_request api)] w w'"
proof (cases "mz_state w")
  case None
  then show ?thesis using assms by (simp add: mozc_create_session_def prepared_def)
next
  case (Some st)
  obtain ok w1 where e: "mozc_ensure_connection api w = (ok, w1)" by fastforce
  note p1 = ensure_prepared [OF e]
  obtain resp w2 where c: "mozc_ipc_call api (mozc_socket_of w1) (create_request api) w1 = (resp, w2)" by fastforce
  have p2: "prepared [] w w2 \<or> prepared [MozcSent (create_request api)] w w2"
    using p1 ipc_called(1) [OF c] by (auto simp: called_def prepared_def launched_def)
  have upd: "prepared xs w (upd_mozc (\<lambda>st. st\<lparr>zs_retry_after_ms := n\<rparr>) w')" if "prepared xs w w'" for xs w' n
    using that by (simp add: prepared_def launched_upd)
  have backed: "prepared xs w (back_off n w')" if "prepared xs w w'" for xs w' n
    using that by (simp add: prepared_def)
  have self: "prepared [] w w" by (simp add: prepared_def)
  show ?thesis
    using assms Some e c p1 p2 upd backed self
    by (auto simp: mozc_create_session_def Let_def split: if_splits option.splits)
qed

lemma create_id: "mozc_create_session api w = (Some n, w') \<Longrightarrow> n \<noteq> 0"
  by (auto simp: mozc_create_session_def Let_def split: if_splits option.splits prod.splits)

lemma activate_session:
  "map_option zn_session_id (mz_session (snd (mozc_activate_session api w))) = map_option zn_session_id (mz_session w)"
  "mz_state (snd (mozc_activate_session api w)) = mz_state w"
proof -
  have call: "mz_session w' = mz_session w" "mz_state w' = mz_state w" if "mozc_send_key api n k w = (r, w')" for n k r w'
    using called_fields(1,2) [OF ipc_called(1)] that unfolding mozc_send_key_def by blast+
  show "map_option zn_session_id (mz_session (snd (mozc_activate_session api w))) = map_option zn_session_id (mz_session w)"
    "mz_state (snd (mozc_activate_session api w)) = mz_state w"
    using call by (auto simp: mozc_activate_session_def Let_def option.map_comp comp_def split: option.split prod.split)
qed

lemma found_session:
  assumes "mozc_get_session api create w = (Some s, w')"
  shows "mz_session w' = Some s \<and> mz_state w' \<noteq> None \<and> zn_session_id s \<noteq> 0"
proof (cases "\<exists>s. mz_session w = Some s \<and> zn_session_id s \<noteq> 0")
  case True
  then show ?thesis using assms by (auto simp: mozc_get_session_def split: if_splits)
next
  case False
  then have current: "(case mz_session w of None \<Rightarrow> None | Some s \<Rightarrow> if zn_session_id s \<noteq> 0 then Some s else None) = None"
    by (auto split: option.split)
  obtain r w1 where c: "mozc_create_session api w = (r, w1)" by fastforce
  obtain n where n: "r = Some n" "mz_state w \<noteq> None" "w' = snd (mozc_activate_session api (set_mozc_session api (Some \<lparr>zn_session_id = n, zn_mode = DIRECT\<rparr>) w1))"
    "mz_session w' = Some s"
    using assms current c by (auto simp: mozc_get_session_def Let_def split: if_splits option.splits)
  have keep: "mz_state w1 \<noteq> None" "mz_session w1 = mz_session w" using create_prepared [OF c] n(2) by (auto simp: prepared_def)
  then have set: "mz_session (set_mozc_session api s' w1) = s'" "mz_state (set_mozc_session api s' w1) = mz_state w1" for s'
    using False by (auto simp: set_mozc_session_def mozc_free_session_def split: option.split)
  show ?thesis
    using n activate_session [of api "set_mozc_session api (Some \<lparr>zn_session_id = n, zn_mode = DIRECT\<rparr>) w1"] set keep(1) create_id [of api w n w1] c by auto
qed

subsection \<open>Keys by cases\<close>

definition escape_clears :: "key_event \<Rightarrow> 'o mozc_world \<Rightarrow> bool" where
  "escape_clears ev w \<longleftrightarrow> ev_type ev = EVENT_KEY_PRESS \<and> typio_key_event_is_escape ev \<and> (0 < mz_preedit w \<or> 0 < mz_candidates w)"

definition switched_on :: "'o mozc_os \<Rightarrow> key_event \<Rightarrow> TypioMozcSession \<Rightarrow> 'o mozc_world \<Rightarrow> 'o mozc_world" where
  "switched_on api ev s w =
     (if ev_type ev = EVENT_KEY_PRESS \<and> mozc_mode_is_ascii (zn_mode s) \<and> \<not> typio_key_event_is_modifier_only ev
      then snd (mozc_activate_session api w) else w)"

definition key_answer :: "mozc_output option \<Rightarrow> 'o mozc_world \<Rightarrow> key_result \<times> 'o mozc_world" where
  "key_answer r w = (case r of
       None \<Rightarrow> (KEY_NOT_HANDLED, w)
     | Some res \<Rightarrow>
         if ou_consumed res \<noteq> Some True then (KEY_NOT_HANDLED, w)
         else (if has_commit res \<noteq> None then KEY_COMMITTED else if has_preedit res \<or> has_window res then KEY_COMPOSING else KEY_HANDLED,
               snd (mozc_sync_output res w)))"

lemma process_key_cases:
  "mozc_process_key api ev w =
     (if escape_clears ev w then (KEY_HANDLED, mozc_reset api w)
      else (case mozc_get_session api True w of
              (None, w) \<Rightarrow> (KEY_NOT_HANDLED, w)
            | (Some s, w) \<Rightarrow>
                (case mozc_build_key_event ev of
                   None \<Rightarrow> (KEY_NOT_HANDLED, switched_on api ev s w)
                 | Some key \<Rightarrow> case_prod key_answer (mozc_send_key api (zn_session_id s) key (switched_on api ev s w)))))"
  unfolding mozc_process_key_def escape_clears_def switched_on_def key_answer_def Let_def
  by (auto simp: split_beta split: prod.split option.split)

lemma switched_on_session:
  "map_option zn_session_id (mz_session (switched_on api ev s w)) = map_option zn_session_id (mz_session w)"
  "mz_state (switched_on api ev s w) = mz_state w"
  by (simp_all add: switched_on_def activate_session)

subsection \<open>Runs\<close>

datatype mozc_event =
  MozcKey key_event | MozcFocusIn | MozcFocusOut | MozcReset | MozcSetMode string | MozcReload "config option" | MozcContextGone

definition mozc_step :: "'o mozc_os \<Rightarrow> mozc_event \<Rightarrow> 'o mozc_world \<Rightarrow> 'o mozc_world" where
  "mozc_step api ev w = (case ev of
       MozcKey k \<Rightarrow> snd (mozc_process_key api k w)
     | MozcFocusIn \<Rightarrow> mozc_focus_in api w
     | MozcFocusOut \<Rightarrow> mozc_focus_out api w
     | MozcReset \<Rightarrow> mozc_reset api w
     | MozcSetMode m \<Rightarrow> snd (mozc_set_mode api m w)
     | MozcReload cfg \<Rightarrow> snd (mozc_reload_config cfg w)
     | MozcContextGone \<Rightarrow> set_mozc_session api None w)"

definition mozc_run :: "'o mozc_os \<Rightarrow> mozc_event list \<Rightarrow> 'o mozc_world \<Rightarrow> 'o mozc_world" where
  "mozc_run api evs w = fold (mozc_step api) evs w"

text \<open>
  A relation between the world before and after, for every operation: it holds for calls, for what is
  told to the context and for the pieces of a session's creation, and it is transitive.
\<close>

locale mozc_relation =
  fixes R :: "'o mozc_world \<Rightarrow> 'o mozc_world \<Rightarrow> bool" and api :: "'o mozc_os"
  assumes refl: "R w w"
    and trans: "R w w' \<Longrightarrow> R w' w'' \<Longrightarrow> R w w''"
    and key_call: "mz_session w = Some s \<Longrightarrow> zn_session_id s \<noteq> 0 \<Longrightarrow> called (key_request (zn_session_id s) k) w w' \<Longrightarrow> R w w'"
    and command_call: "mz_session w = Some s \<Longrightarrow> zn_session_id s \<noteq> 0 \<Longrightarrow>
      called ((input_of_type SEND_COMMAND)\<lparr>in_id := Some (zn_session_id s), in_command := Some c\<rparr>) w w' \<Longrightarrow> R w w'"
    and tell: "mz_state w' = mz_state w \<Longrightarrow> map_option zn_session_id (mz_session w') = map_option zn_session_id (mz_session w) \<Longrightarrow>
      mz_out w' = mz_out w @ xs \<Longrightarrow> list_all (\<lambda>x. (\<forall>r. x \<noteq> MozcSent r) \<and> (\<forall>p. x \<noteq> MozcLaunch p)) xs \<Longrightarrow> R w w'"
    and reload: "mz_out w' = mz_out w \<Longrightarrow> mz_session w' = mz_session w \<Longrightarrow>
      mz_state w' = map_option (\<lambda>st. st\<lparr>zs_config := f (zs_config st)\<rparr>) (mz_state w) \<Longrightarrow> R w w'"
    and create: "mz_state w \<noteq> None \<Longrightarrow> \<not> (\<exists>s. mz_session w = Some s \<and> zn_session_id s \<noteq> 0) \<Longrightarrow> mozc_create_session api w = (r, w') \<Longrightarrow> R w w'"
    and new_session: "mz_state w \<noteq> None \<Longrightarrow> \<not> (\<exists>s. mz_session w = Some s \<and> zn_session_id s \<noteq> 0) \<Longrightarrow> R w (w\<lparr>mz_session := s'\<rparr>)"
begin

lemma told_effects: "list_all (\<lambda>x. (\<forall>r. x \<noteq> MozcSent r) \<and> (\<forall>p. x \<noteq> MozcLaunch p)) (told output)"
  by (auto simp: told_def split: option.split)

lemma sync: "R w (snd (mozc_sync_output output w))"
  by (rule tell [OF _ _ _ told_effects]) (auto simp: option.map_comp comp_def split: option.split)

lemma update_mode: "R w (mozc_update_session_mode output w)"
  by (rule tell [of _ _ "[]"]) (auto simp: option.map_comp comp_def split: option.split)

lemma clear: "R w (mozc_clear_state w)"
  by (rule tell [of _ _ "[MozcClear]"]) simp_all

lemma activate: "R w (snd (mozc_activate_session api w))"
proof (cases "\<exists>s. mz_session w = Some s \<and> mz_state w \<noteq> None \<and> zn_session_id s \<noteq> 0")
  case True
  then obtain s where s: "mz_session w = Some s" "mz_state w \<noteq> None" "zn_session_id s \<noteq> 0" by blast
  obtain r w1 where call: "mozc_send_key api (zn_session_id s) switch_on_key w = (r, w1)" by fastforce
  have w1: "R w w1" using key_call [OF s(1,3)] ipc_called(1) call unfolding mozc_send_key_def by blast
  show ?thesis
  proof (cases r)
    case None
    then show ?thesis using w1 s call refl by (simp add: mozc_activate_session_def)
  next
    case (Some res)
    have "R w1 (snd (mozc_sync_output res (mozc_update_session_mode res w1)))" using trans [OF update_mode sync] .
    then show ?thesis using trans [OF w1] s call Some refl by (simp add: mozc_activate_session_def Let_def)
  qed
next
  case False
  then show ?thesis using refl by (auto simp: mozc_activate_session_def split: option.split)
qed

lemma get_session: "R w (snd (mozc_get_session api create w))"
proof (cases "mz_state w \<noteq> None \<and> \<not> (\<exists>s. mz_session w = Some s \<and> zn_session_id s \<noteq> 0) \<and> create")
  case True
  obtain r w1 where c: "mozc_create_session api w = (r, w1)" by fastforce
  have none: "\<not> (\<exists>s. mz_session w = Some s \<and> zn_session_id s \<noteq> 0)" using True by blast
  have w1: "R w w1" using create [OF _ none c] True by blast
  have current: "(case mz_session w of None \<Rightarrow> None | Some s \<Rightarrow> if zn_session_id s \<noteq> 0 then Some s else None) = None"
    using none by (auto split: option.split)
  show ?thesis
  proof (cases r)
    case None
    then show ?thesis using True current c w1 refl by (simp add: mozc_get_session_def)
  next
    case (Some n)
    have keep: "mz_state w1 \<noteq> None" "mz_session w1 = mz_session w" using create_prepared [OF c] True by (auto simp: prepared_def)
    then have free: "set_mozc_session api s' w1 = w1\<lparr>mz_session := s'\<rparr>" for s'
      using none by (auto simp: set_mozc_session_def mozc_free_session_def split: option.split)
    have "R w1 (w1\<lparr>mz_session := s'\<rparr>)" for s' using new_session keep none by auto
    then have "R w (snd (mozc_activate_session api (set_mozc_session api s' w1)))" for s'
      unfolding free using trans [OF w1] trans [OF _ activate] by blast
    then show ?thesis using True current c Some refl by (simp add: mozc_get_session_def Let_def)
  qed
next
  case False
  then show ?thesis using refl by (auto simp: mozc_get_session_def Let_def split: option.split)
qed

text \<open>The session that is found, when there was one, is the one of the context.\<close>

lemma command:
  assumes "mozc_get_session api False w = (Some s, w1)" and "mozc_send_command api (zn_session_id s) c w1 = (r, w2)"
  shows "R w w2"
proof -
  have s: "w1 = w" "mz_session w = Some s" "zn_session_id s \<noteq> 0"
    using assms(1) by (auto simp: mozc_get_session_def Let_def split: if_splits option.splits)
  then show ?thesis using command_call [OF s(2,3)] ipc_called(1) assms(2) unfolding mozc_send_command_def by blast
qed

lemma not_found: "mozc_get_session api False w = (None, w1) \<Longrightarrow> w1 = w"
  by (auto simp: mozc_get_session_def Let_def split: if_splits option.splits)

lemma focus_in: "R w (mozc_focus_in api w)"
proof -
  obtain s w1 where g: "mozc_get_session api True w = (s, w1)" by fastforce
  then have "R w w1" using get_session [of w True] by simp
  then show ?thesis using g trans activate by (auto simp: mozc_focus_in_def split: option.split)
qed

lemma focus_out: "R w (mozc_focus_out api w)"
proof -
  obtain s w1 where g: "mozc_get_session api False w = (s, w1)" by fastforce
  show ?thesis
  proof (cases s)
    case None
    then show ?thesis using g not_found [of w w1] refl by (auto simp: mozc_focus_out_def)
  next
    case (Some s')
    obtain r w2 where c: "mozc_send_command api (zn_session_id s') (SC_REVERT, None) w1 = (r, w2)" by fastforce
    then show ?thesis using g Some trans [OF command clear] by (simp add: mozc_focus_out_def)
  qed
qed

lemma reset: "R w (mozc_reset api w)"
proof -
  obtain s w1 where g: "mozc_get_session api False w = (s, w1)" by fastforce
  show ?thesis
  proof (cases s)
    case None
    then show ?thesis using g not_found [of w w1] clear by (simp add: mozc_reset_def)
  next
    case (Some s')
    obtain r w2 where c: "mozc_send_command api (zn_session_id s') (SC_RESET_CONTEXT, None) w1 = (r, w2)" by fastforce
    then show ?thesis using g Some trans [OF command clear] by (simp add: mozc_reset_def)
  qed
qed

lemma set_mode: "R w (snd (mozc_set_mode api m w))"
proof -
  obtain s w1 where g: "mozc_get_session api False w = (s, w1)" by fastforce
  show ?thesis
  proof (cases "m \<noteq> [] \<and> mozc_parse_mode_id m \<noteq> None \<and> s \<noteq> None")
    case True
    then obtain c s' where s: "mozc_parse_mode_id m = Some c" "s = Some s'" "m \<noteq> []" by blast
    obtain r w2 where call: "mozc_send_command api (zn_session_id s') (SC_SWITCH_COMPOSITION_MODE, Some c) w1 = (r, w2)" by fastforce
    have w2: "R w w2" using command g s(2) call by simp
    have notify: "R w3 (mozc_emit (MozcNotifyMode x) w3)" for w3 x by (rule tell [of _ _ "[MozcNotifyMode x]"]) simp_all
    show ?thesis
    proof (cases r)
      case None
      then show ?thesis using w2 s g call by (simp add: mozc_set_mode_def)
    next
      case (Some res)
      have "R w2 (snd (mozc_sync_output res (mozc_update_session_mode res w2)))" using trans [OF update_mode sync] .
      then show ?thesis using trans [OF w2] trans [OF _ notify] s g call Some by (simp add: mozc_set_mode_def Let_def)
    qed
  next
    case False
    then show ?thesis using g not_found [of w w1] refl by (auto simp: mozc_set_mode_def split: option.split)
  qed
qed

lemma reload_config: "R w (snd (mozc_reload_config cfg w))"
  using refl reload [of "upd_mozc _ w" w] by (auto simp: mozc_reload_config_def Let_def split: option.split)

lemma process_key: "R w (snd (mozc_process_key api ev w))"
proof (cases "escape_clears ev w")
  case True
  then show ?thesis using reset by (simp add: process_key_cases)
next
  case False
  obtain s w1 where g: "mozc_get_session api True w = (s, w1)" by fastforce
  then have w1: "R w w1" using get_session [of w True] by simp
  show ?thesis
  proof (cases s)
    case None
    then show ?thesis using False g w1 by (simp add: process_key_cases)
  next
    case (Some s')
    define w2 where "w2 = switched_on api ev s' w1"
    have w2: "R w w2" using w1 trans activate unfolding w2_def switched_on_def by auto
    obtain s2 where s2: "mz_session w2 = Some s2" "zn_session_id s2 = zn_session_id s'" "zn_session_id s' \<noteq> 0"
      using found_session [OF g [unfolded Some]] switched_on_session [of api ev s' w1] unfolding w2_def by auto
    have send: "R w w3" if "mozc_send_key api (zn_session_id s') key w2 = (r, w3)" for key r w3
      using trans [OF w2] key_call [of w2 s2] ipc_called(1) that s2 unfolding mozc_send_key_def by metis
    show ?thesis
    proof (cases "mozc_build_key_event ev")
      case None
      then show ?thesis using False g \<open>s = Some s'\<close> w2 by (simp add: process_key_cases w2_def)
    next
      case (Some key)
      obtain r w3 where call: "mozc_send_key api (zn_session_id s') key w2 = (r, w3)" by fastforce
      have "R w (snd (key_answer r w3))"
        using send [OF call] trans [OF send [OF call] sync] by (simp add: key_answer_def split: option.split)
      then show ?thesis using False g \<open>s = Some s'\<close> Some call by (simp add: process_key_cases w2_def)
    qed
  qed
qed

lemma step: "ev \<noteq> MozcContextGone \<Longrightarrow> R w (mozc_step api ev w)"
  by (cases ev) (simp_all add: mozc_step_def process_key focus_in focus_out reset set_mode reload_config)

lemma run: "MozcContextGone \<notin> set evs \<Longrightarrow> R w (mozc_run api evs w)"
proof (induction evs arbitrary: w)
  case Nil
  then show ?case using refl by (simp add: mozc_run_def)
next
  case (Cons ev evs)
  have "R (mozc_step api ev w) (mozc_run api evs (mozc_step api ev w))" using Cons by simp
  moreover have "R w (mozc_step api ev w)" using step [of ev] Cons.prems by auto
  ultimately have "R w (mozc_run api evs (mozc_step api ev w))" using trans by blast
  then show ?case by (simp add: mozc_run_def)
qed

end

subsection \<open>A session once found stays\<close>

definition is_create :: "mozc_effect \<Rightarrow> bool" where
  "is_create x \<longleftrightarrow> (case x of MozcSent req \<Rightarrow> in_type req = CREATE_SESSION | MozcLaunch p \<Rightarrow> True | _ \<Rightarrow> False)"

text \<open>With a session: it keeps its number, and nothing is created or launched.\<close>

definition stays :: "'o mozc_world \<Rightarrow> 'o mozc_world \<Rightarrow> bool" where
  "stays w w' \<longleftrightarrow> (\<forall>n. mz_state w \<noteq> None \<and> map_option zn_session_id (mz_session w) = Some n \<and> n \<noteq> 0 \<longrightarrow>
     mz_state w' \<noteq> None \<and> map_option zn_session_id (mz_session w') = Some n \<and> appends (\<lambda>x. \<not> is_create x) w w')"

lemma not_create_told: "list_all (\<lambda>x. (\<forall>r. x \<noteq> MozcSent r) \<and> (\<forall>p. x \<noteq> MozcLaunch p)) xs \<Longrightarrow> list_all (\<lambda>x. \<not> is_create x) xs"
  by (auto simp: list_all_iff is_create_def split: mozc_effect.split)

interpretation kept: mozc_relation stays api for api :: "'o mozc_os"
proof (unfold_locales, goal_cases)
  case (1 w)
  then show ?case by (simp add: stays_def)
next
  case (2 w w' w'')
  then show ?case unfolding stays_def by (meson appends_trans)
next
  case (3 w s k w')
  have "\<not> is_create (MozcSent (key_request (zn_session_id s) k))" by (simp add: is_create_def key_request_def input_of_type_def)
  then show ?case using called_fields [OF 3(3)] by (simp add: stays_def)
next
  case (4 w s c w')
  have "\<not> is_create (MozcSent ((input_of_type SEND_COMMAND)\<lparr>in_id := Some (zn_session_id s), in_command := Some c\<rparr>))"
    by (simp add: is_create_def input_of_type_def)
  then show ?case using called_fields [OF 4(3)] by (simp add: stays_def)
next
  case (5 w' w xs)
  then show ?case using not_create_told by (auto simp: stays_def appends_def)
next
  case (6 w' w f)
  then show ?case by (simp add: stays_def appends_same)
next
  case (7 w r w')
  then show ?case by (auto simp: stays_def)
next
  case (8 w s')
  then show ?case by (auto simp: stays_def)
qed

subsection \<open>The launch of the server\<close>

definition launches :: "'o mozc_world \<Rightarrow> nat" where
  "launches w = length (filter (\<lambda>x. \<exists>p. x = MozcLaunch p) (mz_out w))"

text \<open>A launch happens only when there was none, and is remembered.\<close>

definition launches_once :: "'o mozc_world \<Rightarrow> 'o mozc_world \<Rightarrow> bool" where
  "launches_once w w' \<longleftrightarrow> (launched w \<longrightarrow> launched w' \<and> launches w' = launches w) \<and>
     (launches w' = launches w \<or> launches w' = Suc (launches w) \<and> launched w')"

lemma launches_same:
  assumes "mz_out w' = mz_out w @ xs" and "list_all (\<lambda>x. \<forall>p. x \<noteq> MozcLaunch p) xs" and "launched w \<longrightarrow> launched w'"
  shows "launches_once w w'"
proof -
  have "filter (\<lambda>x. \<exists>p. x = MozcLaunch p) xs = []" using assms(2) by (auto simp: filter_empty_conv list_all_iff)
  then show ?thesis using assms(1,3) by (simp add: launches_once_def launches_def)
qed

lemma prepared_once: "prepared xs w w' \<Longrightarrow> list_all (\<lambda>x. \<forall>p. x \<noteq> MozcLaunch p) xs \<Longrightarrow> launches_once w w'"
proof -
  assume p: "prepared xs w w'" and xs: "list_all (\<lambda>x. \<forall>p. x \<noteq> MozcLaunch p) xs"
  then have "filter (\<lambda>x. \<exists>p. x = MozcLaunch p) xs = []" by (auto simp: filter_empty_conv list_all_iff)
  then show ?thesis using p by (auto simp: prepared_def launches_once_def launches_def)
qed

lemma called_once: "called req w w' \<Longrightarrow> launches_once w w'"
  by (auto simp: called_def launches_once_def launches_def launched_def)

interpretation once: mozc_relation launches_once api for api :: "'o mozc_os"
proof (unfold_locales, goal_cases)
  case (1 w)
  then show ?case by (simp add: launches_once_def)
next
  case (2 w w' w'')
  then show ?case by (auto simp: launches_once_def)
next
  case (3 w s k w')
  then show ?case using called_once by blast
next
  case (4 w s c w')
  then show ?case using called_once by blast
next
  case (5 w' w xs)
  then show ?case by (intro launches_same [of w' w xs]) (auto simp: launched_def list_all_iff)
next
  case (6 w' w f)
  then show ?case by (intro launches_same [of w' w "[]"]) (auto simp: launched_def split: option.split)
next
  case (7 w r w')
  then show ?case using create_prepared [OF 7(3)] prepared_once [of "[]" w w'] prepared_once [of "[MozcSent (create_request api)]" w w'] by auto
next
  case (8 w s')
  then show ?case by (simp add: launches_once_def launches_def launched_def)
qed

lemma gone_once: "launches_once w (set_mozc_session api None w)"
proof -
  have free: "launches_once w (mozc_free_session api s w)" for s
  proof -
    obtain r w' where "mozc_ipc_call api (mozc_socket_of w) ((input_of_type DELETE_SESSION)\<lparr>in_id := Some (zn_session_id s)\<rparr>) w = (r, w')" by fastforce
    then have "launches_once w (mozc_delete_session api (zn_session_id s) w)"
      using called_once [OF ipc_called(1)] by (simp add: mozc_delete_session_def)
    moreover have "launches_once w (w\<lparr>mz_fault := True\<rparr>)" "launches_once w w" by (simp_all add: launches_once_def launches_def launched_def)
    ultimately show ?thesis by (simp add: mozc_free_session_def)
  qed
  have clear: "launches_once w' (w'\<lparr>mz_session := None\<rparr>)" for w' :: "'a mozc_world" by (simp add: launches_once_def launches_def launched_def)
  then show ?thesis using once.trans [OF free clear] by (auto simp: set_mozc_session_def Let_def split: option.split)
qed

lemma run_once: "launches_once w (mozc_run api evs w)"
proof (induction evs arbitrary: w)
  case Nil
  then show ?case by (simp add: mozc_run_def launches_once_def)
next
  case (Cons ev evs)
  have "launches_once w (mozc_step api ev w)"
    using once.step gone_once by (cases "ev = MozcContextGone") (simp_all add: mozc_step_def)
  then show ?case using Cons once.trans by (simp add: mozc_run_def) blast
qed

subsection \<open>Pages of candidates\<close>

text \<open>
  A page as the server builds it: consecutive indices, numbers that fit, a page size, and a focused
  candidate, when there is one, on the page.
\<close>

definition sound_page :: "mozc_window \<Rightarrow> bool" where
  "sound_page cands \<longleftrightarrow>
     (let cs = cw_candidates cands; first = unat (ca_index (hd cs))
      in cs \<noteq> [] \<and> unat (cw_size cands) < 2 ^ 31 \<and> cw_page_size cands \<noteq> Some 0 \<and> first + length cs \<le> unat (cw_size cands) \<and>
         map (\<lambda>c. unat (ca_index c)) cs = [first..<first + length cs] \<and>
         (case cw_focused_index cands of None \<Rightarrow> True | Some f \<Rightarrow> first \<le> unat f \<and> unat f < first + length cs))"

lemma int_of_small: "unat n < 2 ^ 31 \<Longrightarrow> int_of_u32 n = int (unat n)"
proof -
  assume n: "unat n < 2 ^ 31"
  then have u: "0 \<le> uint n" "uint n < 2 ^ 31" by (simp_all add: uint_nat del: of_nat_unat)
  have "sint n = signed_take_bit 31 (uint n)" by (simp add: sint_uint)
  also have "\<dots> = uint n" using u by (intro signed_take_bit_int_eq_self) (auto intro: order.trans [of _ 0])
  finally show ?thesis by (simp add: int_of_u32_def)
qed

lemma page_shown:
  fixes rest :: MozcComposition
  assumes "sound_page cands"
  defines "c \<equiv> mozc_page cands rest" and "first \<equiv> unat (ca_index (hd (cw_candidates cands)))"
  shows "map tc_text (mc_candidates c) = map (Some \<circ> ca_value) (cw_candidates cands)"
    and "mc_has_prev c \<longleftrightarrow> 0 < first"
    and "mc_has_next c \<longleftrightarrow> first + length (cw_candidates cands) < unat (cw_size cands)"
    and "cw_focused_index cands = Some f \<Longrightarrow> 0 \<le> mc_selected c \<and> nat (mc_selected c) < length (cw_candidates cands) \<and>
      ca_index (cw_candidates cands ! nat (mc_selected c)) = f"
    and "cw_focused_index cands = None \<Longrightarrow> mc_selected c = -1"
proof -
  have page: "cw_candidates cands \<noteq> []" "unat (cw_size cands) < 2 ^ 31" "first + length (cw_candidates cands) \<le> unat (cw_size cands)"
    "map (\<lambda>c. unat (ca_index c)) (cw_candidates cands) = [first..<first + length (cw_candidates cands)]"
    using assms(1) by (simp_all add: sound_page_def Let_def first_def)
  have first: "int_of_u32 (ca_index (hd (cw_candidates cands))) = int first" and size: "int_of_u32 (cw_size cands) = int (unat (cw_size cands))"
    using page by (simp_all add: int_of_small first_def)
  show "map tc_text (mc_candidates c) = map (Some \<circ> ca_value) (cw_candidates cands)"
    by (rule nth_equalityI) (simp_all add: c_def mozc_page_def Let_def nth_enumerate_eq)
  show "mc_has_prev c \<longleftrightarrow> 0 < first" by (simp add: c_def mozc_page_def Let_def first)
  show "mc_has_next c \<longleftrightarrow> first + length (cw_candidates cands) < unat (cw_size cands)"
    unfolding c_def mozc_page_def Let_def first size by (simp del: of_nat_unat flip: of_nat_add)
  show "cw_focused_index cands = None \<Longrightarrow> mc_selected c = -1" by (simp add: c_def mozc_page_def Let_def)
  assume f: "cw_focused_index cands = Some f"
  then have range: "first \<le> unat f" "unat f < first + length (cw_candidates cands)"
    using assms(1) by (simp_all add: sound_page_def Let_def first_def)
  then have "int_of_u32 f = int (unat f)" using page by (intro int_of_small) simp
  then have sel: "mc_selected c = int (unat f) - int first" by (simp add: c_def mozc_page_def Let_def f first)
  let ?i = "unat f - first"
  have i: "nat (mc_selected c) = ?i" "?i < length (cw_candidates cands)" using sel range by (simp_all del: of_nat_unat add: nat_diff_distrib)
  have "unat (ca_index (cw_candidates cands ! ?i)) = map (\<lambda>c. unat (ca_index c)) (cw_candidates cands) ! ?i" using i(2) by simp
  also have "\<dots> = unat f" using page(4) i(2) range by simp
  finally have "ca_index (cw_candidates cands ! ?i) = f" by (simp only: word_eq_iff_unsigned [where 'a = nat])
  then show "0 \<le> mc_selected c \<and> nat (mc_selected c) < length (cw_candidates cands) \<and>
      ca_index (cw_candidates cands ! nat (mc_selected c)) = f" using i sel range by (simp del: of_nat_unat)
qed

end
