(* ===== verification/Mozc_Props.thy ===== *)
theory Mozc_Props
  imports Mozc_Laws
begin

section \<open>Properties of the Mozc engine\<close>

text \<open>What a key does with an obliging server, and what happens to Latin modes, lost sessions and the launch of the server.\<close>

text \<open>A server for the witnesses, whose first answer may differ from the others.\<close>

definition demo_server :: "(string \<Rightarrow> mozc_output) \<Rightarrow> nat mozc_os" where
  "demo_server answer = \<lparr>mo_now = (\<lambda>os. 5), mo_socket = (\<lambda>os. True), mo_connect = (\<lambda>path os. (True, os)), mo_serialize = (\<lambda>req. Some ''r''),
     mo_write = (\<lambda>s os. (int (length s), os)), mo_shutdown = (\<lambda>os. (True, os)), mo_poll = (\<lambda>os. (1, os)),
     mo_read = (\<lambda>os. (if os mod 2 = 0 then Some (if os = 0 then ''x'' else ''y'') else Some [], os + 1)), mo_parse = (\<lambda>s. Some (answer s)),
     mo_fork = (\<lambda>p os. (True, os)), mo_proc_net_unix = (\<lambda>os. None), mo_getenv = (\<lambda>v. Some ''/home''), mo_pw_dir = None, mo_pid = 7\<rparr>"

definition no_answer :: mozc_output where
  "no_answer = \<lparr>ou_id = None, ou_mode = None, ou_consumed = None, ou_result = None, ou_preedit = None, ou_window = None,
     ou_error_code = None, ou_status_mode = None\<rparr>"

definition demo_mozc :: "TypioMozcSession option \<Rightarrow> nat mozc_world" where
  "demo_mozc s = \<lparr>mz_state = Some \<lparr>zs_config = mozc_load_config None, zs_socket_path = ''/home/mozc/session.ipc'', zs_server_launched = False,
       zs_retry_after_ms = 0\<rparr>, mz_session = s, mz_os = 0, mz_preedit = 0, mz_candidates = 0, mz_out = [], mz_fault = False\<rparr>"

definition demo_key :: key_event where
  "demo_key = \<lparr>ev_type = EVENT_KEY_PRESS, ev_keycode = 0, ev_keysym = 0x61, ev_modifiers = 0, ev_unicode = 0, ev_time = 0, ev_is_repeat = False\<rparr>"

lemma demo_read: "mozc_read_response (demo_server a) [] 0 = (Some ''x'', 2)" "mozc_read_response (demo_server a) [] 2 = (Some ''y'', 4)"
  by (simp_all add: mozc_read_response.simps demo_server_def MOZC_MAX_RESPONSE_def)

lemma demo_call:
  assumes "mz_os w = 0 \<or> mz_os w = 2" and "length path < 108"
  shows "mozc_ipc_call (demo_server a) path req w = (Some (a (if mz_os w = 0 then ''x'' else ''y'')), w\<lparr>mz_out := mz_out w @ [MozcSent req], mz_os := mz_os w + 2\<rparr>)"
proof -
  have api: "mo_socket (demo_server a) os" "mo_connect (demo_server a) p os = (True, os)" "mo_serialize (demo_server a) r = Some ''r''"
    "mo_write (demo_server a) s os = (int (length s), os)" "mo_shutdown (demo_server a) os = (True, os)" "mo_poll (demo_server a) os = (1, os)"
    "mo_parse (demo_server a) s = Some (a s)" for os p r s
    by (simp_all add: demo_server_def)
  show ?thesis
    using assms demo_read [of a] by (auto simp: mozc_ipc_call_def mozc_connect_socket_def api SUN_PATH_SIZE_def mozc_emit_def Let_def)
qed

subsection \<open>Keys\<close>

text \<open>
  The page that an answer has to show, if any, and what the context is told of the page and of the
  preedit: the texts of the candidates in their order, the place of the one that the server has
  focused, and whether candidates lie before and behind; the segments and the cursor.
\<close>

definition page_of :: "mozc_output \<Rightarrow> mozc_window option" where
  "page_of answer = (case ou_window answer of
       None \<Rightarrow> None | Some cands \<Rightarrow> if cw_candidates cands = [] then None else Some cands)"

definition shows_page :: "mozc_window option \<Rightarrow> MozcComposition \<Rightarrow> bool" where
  "shows_page page c \<longleftrightarrow> (case page of
       None \<Rightarrow> mc_candidates c = [] \<and> mc_selected c = -1 \<and> \<not> mc_has_prev c \<and> \<not> mc_has_next c
     | Some cands \<Rightarrow>
         map tc_text (mc_candidates c) = map (Some \<circ> ca_value) (cw_candidates cands) \<and>
         (case cw_focused_index cands of
            None \<Rightarrow> mc_selected c = -1
          | Some f \<Rightarrow> 0 \<le> mc_selected c \<and> nat (mc_selected c) < length (cw_candidates cands) \<and>
              ca_index (cw_candidates cands ! nat (mc_selected c)) = f) \<and>
         (mc_has_prev c \<longleftrightarrow> 0 < unat (ca_index (hd (cw_candidates cands)))) \<and>
         (mc_has_next c \<longleftrightarrow> unat (ca_index (hd (cw_candidates cands))) + length (cw_candidates cands) < unat (cw_size cands)))"

definition shows_preedit :: "mozc_output \<Rightarrow> MozcComposition \<Rightarrow> bool" where
  "shows_preedit answer c \<longleftrightarrow>
     (mc_segments c, mc_cursor_pos c) = (case ou_preedit answer of
       None \<Rightarrow> ([], 0)
     | Some (cursor, segs) \<Rightarrow> (map mozc_segment segs, if segs = [] then 0 else sint cursor))"

lemma composition_shows_preedit: "shows_preedit answer (mozc_composition answer)"
  by (auto simp: shows_preedit_def mozc_composition_def mozc_page_def int_of_u32_def Let_def split: option.split)

lemma composition_shows_page:
  assumes "\<And>cands. page_of answer = Some cands \<Longrightarrow> sound_page cands"
  shows "shows_page (page_of answer) (mozc_composition answer)"
proof (cases "page_of answer")
  case None
  then show ?thesis
    by (auto simp: page_of_def shows_page_def mozc_composition_def Let_def split: option.splits if_splits)
next
  case (Some cands)
  then have window: "ou_window answer = Some cands" "cw_candidates cands \<noteq> []"
    by (auto simp: page_of_def split: option.splits if_splits)
  define c0 where "c0 = mozc_composition (answer\<lparr>ou_window := None\<rparr>)"
  have comp: "mozc_composition answer = mozc_page cands c0"
    using window by (simp add: mozc_composition_def c0_def Let_def)
  note shown = page_shown [OF assms [OF Some], where rest = c0, folded comp]
  show ?thesis
    using shown(4,5) by (auto simp: Some shows_page_def shown(1-3) split: option.split)
qed

lemma has_window_page: "has_window answer \<longleftrightarrow> page_of answer \<noteq> None"
  by (simp add: has_window_def page_of_def split: option.split)

text \<open>
  C8. A key that reaches the server and is consumed is shown as the server answered: first the text that
  it commits, then, when the answer has a preedit or a page, one composition, and otherwise the
  order to clear; the result reported to the daemon says which of these it was. The composition has the
  segments and the cursor of the preedit (or none). When there is a page, its candidates are shown
  in order, the selected one is the one that the server has focused, and there are previous and next
  pages exactly when candidates lie outside; when there is none, no candidate is shown. (A page is sound:
  its candidates have consecutive numbers within the total, which is below 2^31, the focused one
  is among them, and the page size is not 0. An Escape that the engine handles itself does not reach
  the server.)
\<close>

theorem consumed_key_is_shown:
  assumes "\<not> escape_clears ev w" and "mozc_get_session api True w = (Some s, w1)" and "mozc_build_key_event ev = Some key"
    and "mozc_send_key api (zn_session_id s) key (switched_on api ev s w1) = (Some answer, w2)" and "ou_consumed answer = Some True"
    and "\<And>cands. page_of answer = Some cands \<Longrightarrow> sound_page cands"
  shows "fst (mozc_process_key api ev w) =
      (if has_commit answer \<noteq> None then KEY_COMMITTED
       else if has_preedit answer \<or> page_of answer \<noteq> None then KEY_COMPOSING else KEY_HANDLED) \<and>
    mz_out (snd (mozc_process_key api ev w)) =
      mz_out w2 @ (case has_commit answer of None \<Rightarrow> [] | Some v \<Rightarrow> [MozcCommit v]) @
      [if has_preedit answer \<or> page_of answer \<noteq> None then MozcComposition (mozc_composition answer) else MozcClear] \<and>
    shows_preedit answer (mozc_composition answer) \<and> shows_page (page_of answer) (mozc_composition answer)"
proof -
  have pk: "mozc_process_key api ev w = key_answer (Some answer) w2"
    using assms(1-4) by (simp add: process_key_cases)
  show ?thesis
    using composition_shows_preedit composition_shows_page [OF assms(6)] assms(5)
    by (simp add: pk key_answer_def told_def has_window_page)
qed

text \<open>An answer of three segments of candidates in the middle of a list.\<close>

definition demo_page :: mozc_window where
  "demo_page = \<lparr>cw_focused_index = Some 10, cw_size = 20,
     cw_candidates = [\<lparr>ca_index = 9, ca_value = ''p'', ca_annotation = None\<rparr>, \<lparr>ca_index = 10, ca_value = ''q'', ca_annotation = None\<rparr>],
     cw_page_size = None\<rparr>"

definition demo_answer :: mozc_output where
  "demo_answer = no_answer\<lparr>ou_consumed := Some True, ou_result := Some (RESULT_STRING, ''ok''), ou_preedit := Some (1, [(ANNOTATION_HIGHLIGHT, ''ka'')]),
     ou_window := Some demo_page\<rparr>"

theorem consumed_key_is_shown_witness:
  "fst (mozc_process_key (demo_server (\<lambda>_. demo_answer)) demo_key (demo_mozc (Some \<lparr>zn_session_id = 3, zn_mode = HIRAGANA\<rparr>))) = KEY_COMMITTED \<and>
   mc_selected (mozc_composition demo_answer) = 1"
proof -
  let ?w = "demo_mozc (Some \<lparr>zn_session_id = 3, zn_mode = HIRAGANA\<rparr>)" and ?api = "demo_server (\<lambda>_. demo_answer)"
  let ?s = "\<lparr>zn_session_id = 3, zn_mode = HIRAGANA\<rparr>"
  define key where "key = \<lparr>mk_key_code = Some 0x61, mk_special_key = None, mk_modifier_keys = [], mk_mode = None\<rparr>"
  have "\<not> escape_clears demo_key ?w" by (simp add: escape_clears_def demo_mozc_def)
  moreover have "mozc_get_session ?api True ?w = (Some ?s, ?w)" by (simp add: mozc_get_session_def demo_mozc_def Let_def)
  moreover have "mozc_build_key_event demo_key = Some key" unfolding key_def by code_simp
  moreover have "mozc_send_key ?api (zn_session_id ?s) key (switched_on ?api demo_key ?s ?w) =
      (Some demo_answer, ?w\<lparr>mz_out := [MozcSent (key_request 3 key)], mz_os := 2\<rparr>)"
    using demo_call [of ?w "mozc_socket_of ?w" "\<lambda>_. demo_answer"]
    by (simp add: mozc_send_key_def switched_on_def mozc_mode_is_ascii_def demo_mozc_def mozc_socket_of_def)
  moreover have "ou_consumed demo_answer = Some True" by (simp add: demo_answer_def)
  moreover have "sound_page cands" if "page_of demo_answer = Some cands" for cands
  proof -
    have "page_of demo_answer = Some demo_page" by (simp add: page_of_def demo_answer_def demo_page_def)
    with that have "cands = demo_page" by simp
    then show ?thesis by (simp add: sound_page_def demo_page_def Let_def upt_rec)
  qed
  ultimately have "fst (mozc_process_key ?api demo_key ?w) =
      (if has_commit demo_answer \<noteq> None then KEY_COMMITTED
       else if has_preedit demo_answer \<or> page_of demo_answer \<noteq> None then KEY_COMPOSING else KEY_HANDLED)"
    by (rule consumed_key_is_shown [THEN conjunct1])
  moreover have "has_commit demo_answer \<noteq> None" "mc_selected (mozc_composition demo_answer) = 1" by code_simp+
  ultimately show ?thesis by simp
qed

subsection \<open>Modes\<close>

lemma mode_read_back: "mozc_parse_mode_id (or_empty (em_mode_id (mozc_mode_for_composition m))) = Some m"
  by (cases m) (simp_all add: mozc_parse_mode_id_def mozc_mode_for_composition_def mozc_mode_hiragana_def mozc_mode_katakana_def
      mozc_mode_half_katakana_def mozc_mode_direct_def mozc_mode_half_ascii_def mozc_mode_full_ascii_def)

lemma mode_inj: "mozc_mode_for_composition m = mozc_mode_for_composition m' \<Longrightarrow> m = m'"
  by (metis mode_read_back option.inject)

text \<open>
  C25. A Latin mode lasts until the next key: the six modes can be told apart by their identifiers, but
  when a Latin one has been set and the daemon reports it, the next press other than of a modifier or
  of Escape first switches the server on, and with a server that obeys the mode is Hiragana and
  the key is handled as if Hiragana had been set.
\<close>

theorem latin_mode_lasts_one_key:
  assumes "mozc_set_mode api (or_empty (em_mode_id (mozc_mode_for_composition m))) w = (TYPIO_OK, w1)" and "mozc_mode_is_ascii m"
    and "mozc_get_mode api w1 = mozc_mode_for_composition m" and "mz_session w1 = Some s"
    and "mozc_send_key api (zn_session_id s) switch_on_key w1 = (Some answer, w2)" and "reported_mode answer = Some HIRAGANA"
    and "ev_type ev = EVENT_KEY_PRESS" and "\<not> typio_key_event_is_modifier_only ev" and "\<not> typio_key_event_is_escape ev"
  shows "mozc_get_mode api (snd (mozc_activate_session api w1)) = mozc_mode_hiragana \<and>
    mozc_process_key api ev w1 = mozc_process_key api ev (snd (mozc_activate_session api w1)) \<and>
    (\<exists>xs. mz_out (snd (mozc_activate_session api w1)) = mz_out w1 @ MozcSent (key_request (zn_session_id s) switch_on_key) # xs)"
proof -
  obtain w0 s0 where g: "mozc_get_session api False w = (Some s0, w0)"
    using assms(1) by (auto simp: mozc_set_mode_def split: if_splits option.splits prod.splits)
  have kept: "mz_state w1 \<noteq> None" "zn_session_id s \<noteq> 0"
  proof -
    have w: "mz_session w = Some s0" "mz_state w \<noteq> None" "zn_session_id s0 \<noteq> 0"
      using g by (auto simp: mozc_get_session_def Let_def split: if_splits option.splits)
    have "stays w w1" using kept.set_mode [of w api] assms(1) by (metis snd_conv)
    then show "mz_state w1 \<noteq> None" "zn_session_id s \<noteq> 0" using w assms(4) by (auto simp: stays_def)
  qed
  have s: "zn_mode s = m" using assms(3,4) kept mode_inj by (auto simp: mozc_get_mode_def mozc_get_session_def)
  define w3 where "w3 = snd (mozc_activate_session api w1)"
  have w3: "w3 = snd (mozc_sync_output answer (mozc_update_session_mode answer w2))"
    using kept assms(4,5) by (auto simp: w3_def mozc_activate_session_def Let_def)
  have w2: "mz_session w2 = Some s" "mz_state w2 = mz_state w1" "mz_out w2 = mz_out w1 @ [MozcSent (key_request (zn_session_id s) switch_on_key)]"
    using called_fields [OF ipc_called(1)] ipc_called(2) assms(4,5) unfolding mozc_send_key_def by metis+
  have s3: "mz_session w3 = Some (s\<lparr>zn_mode := HIRAGANA\<rparr>)" "mz_state w3 = mz_state w1"
    by (simp_all add: w3 w2 assms(6))
  have g1: "mozc_get_session api True w1 = (Some s, w1)" "mozc_get_session api c w3 = (Some (s\<lparr>zn_mode := HIRAGANA\<rparr>), w3)" for c
    using assms(4) s3 kept by (simp_all add: mozc_get_session_def)
  have "switched_on api ev s w1 = w3" "switched_on api ev (s\<lparr>zn_mode := HIRAGANA\<rparr>) w3 = w3"
    using assms(2,7,8) s by (simp_all add: switched_on_def w3_def mozc_mode_is_ascii_def)
  then have "mozc_process_key api ev w1 = mozc_process_key api ev w3"
    using assms(9) g1 by (simp add: process_key_cases escape_clears_def split: option.split)
  moreover have "mozc_get_mode api w3 = mozc_mode_hiragana" using g1(2) [of False] by (simp add: mozc_get_mode_def mozc_mode_for_composition_def)
  moreover have "\<exists>xs. mz_out w3 = mz_out w1 @ MozcSent (key_request (zn_session_id s) switch_on_key) # xs" by (simp add: w3 w2)
  ultimately show ?thesis by (simp add: w3_def)
qed

definition demo_modes :: "string \<Rightarrow> mozc_output" where
  "demo_modes t = no_answer\<lparr>ou_mode := Some (if t = ''x'' then DIRECT else HIRAGANA)\<rparr>"

theorem latin_mode_lasts_one_key_witness:
  "\<exists>w1. mozc_set_mode (demo_server demo_modes) ''direct'' (demo_mozc (Some \<lparr>zn_session_id = 3, zn_mode = HIRAGANA\<rparr>)) = (TYPIO_OK, w1) \<and>
     mozc_get_mode (demo_server demo_modes) w1 = mozc_mode_direct \<and>
     mozc_get_mode (demo_server demo_modes) (snd (mozc_activate_session (demo_server demo_modes) w1)) = mozc_mode_hiragana"
proof -
  let ?api = "demo_server demo_modes" and ?s = "\<lparr>zn_session_id = 3, zn_mode = DIRECT\<rparr>"
  let ?w = "demo_mozc (Some \<lparr>zn_session_id = 3, zn_mode = HIRAGANA\<rparr>)"
  obtain w1 where w1: "mozc_set_mode ?api ''direct'' ?w = (TYPIO_OK, w1)" "mz_session w1 = Some ?s" "mz_os w1 = 2"
    "mz_state w1 = mz_state ?w"
    using demo_call [of ?w "mozc_socket_of ?w" demo_modes]
    by (simp add: mozc_set_mode_def mozc_parse_mode_id_def mozc_get_session_def demo_mozc_def mozc_send_command_def mozc_socket_of_def
        Let_def demo_modes_def no_answer_def reported_mode_def)
  have id: "or_empty (em_mode_id (mozc_mode_for_composition DIRECT)) = ''direct''"
    by (simp add: mozc_mode_for_composition_def mozc_mode_direct_def)
  have mode: "mozc_get_mode ?api w1 = mozc_mode_for_composition DIRECT"
    using w1 by (simp add: mozc_get_mode_def mozc_get_session_def demo_mozc_def Let_def)
  have send: "\<exists>w2. mozc_send_key ?api (zn_session_id ?s) switch_on_key w1 = (Some (demo_modes ''y''), w2)"
    using demo_call [of w1 "mozc_socket_of w1" demo_modes] w1 by (simp add: mozc_send_key_def mozc_socket_of_def demo_mozc_def)
  then obtain w2 where w2: "mozc_send_key ?api (zn_session_id ?s) switch_on_key w1 = (Some (demo_modes ''y''), w2)" by blast
  have obeys: "reported_mode (demo_modes ''y'') = Some HIRAGANA" by (simp add: demo_modes_def reported_mode_def)
  have key: "ev_type demo_key = EVENT_KEY_PRESS" "\<not> typio_key_event_is_modifier_only demo_key" "\<not> typio_key_event_is_escape demo_key"
    by (simp_all add: demo_key_def typio_key_event_is_modifier_only_def is_modifier_keysym_def typio_key_event_is_escape_def const_defs)
  have "mozc_get_mode ?api (snd (mozc_activate_session ?api w1)) = mozc_mode_hiragana"
    using latin_mode_lasts_one_key [OF _ _ mode w1(2) w2 obeys key, of ?w] w1(1) id by (simp add: mozc_mode_is_ascii_def)
  then show ?thesis using w1(1) mode by (auto simp: mozc_mode_for_composition_def)
qed

subsection \<open>Lost sessions and the launch of the server\<close>

text \<open>
  C38. A session that the server has lost is never replaced: from the moment on at which the server
  consumes no key any more (it was restarted, and answers that it does not know the session), no
  sequence of keys, focus changes, resets, changes of mode and reloads makes the engine ask for a
  new session or launch the server, as long as the context is not destroyed; the context keeps its
  session, and no key is handled, but for an Escape pressed while a composition is shown, which the
  engine takes as a reset without asking the server.
\<close>

theorem lost_session_never_replaced:
  assumes "mz_state w \<noteq> None" and "mz_session w = Some s" and "zn_session_id s \<noteq> 0" and "MozcContextGone \<notin> set evs"
    and "\<forall>data answer. mo_parse api data = Some answer \<longrightarrow> ou_consumed answer \<noteq> Some True"
  shows "(\<exists>s'. mz_session (mozc_run api evs w) = Some s' \<and> zn_session_id s' = zn_session_id s) \<and>
    (\<exists>xs. mz_out (mozc_run api evs w) = mz_out w @ xs \<and> list_all (\<lambda>x. \<not> is_create x) xs) \<and>
    fst (mozc_process_key api ev (mozc_run api evs w)) =
      (if escape_clears ev (mozc_run api evs w) then KEY_HANDLED else KEY_NOT_HANDLED)"
proof -
  let ?w = "mozc_run api evs w"
  have stays: "mz_state ?w \<noteq> None" "map_option zn_session_id (mz_session ?w) = Some (zn_session_id s)" "appends (\<lambda>x. \<not> is_create x) w ?w"
    using kept.run [OF assms(4), of w api] assms(1-3) by (simp_all add: stays_def)
  obtain s' where s': "mz_session ?w = Some s'" "zn_session_id s' = zn_session_id s" using stays(2) by auto
  have found: "mozc_get_session api True ?w = (Some s', ?w)" using s' stays(1) assms(3) by (auto simp: mozc_get_session_def Let_def)
  have "fst (key_answer r w3) = KEY_NOT_HANDLED" if "mozc_send_key api n key w2 = (r, w3)" for n key w2 r w3
    using ipc_called(2) that assms(5) unfolding mozc_send_key_def key_answer_def by (cases r) fastforce+
  then have "fst (mozc_process_key api ev ?w) = (if escape_clears ev ?w then KEY_HANDLED else KEY_NOT_HANDLED)"
    using found by (auto simp: process_key_cases split: option.split prod.split)
  then show ?thesis using s' stays(3) by (auto simp: appends_def)
qed

definition lost_answer :: mozc_output where
  "lost_answer = no_answer\<lparr>ou_error_code := Some SESSION_FAILURE\<rparr>"

theorem lost_session_never_replaced_witness:
  "fst (mozc_process_key (demo_server (\<lambda>_. lost_answer)) demo_key
     (mozc_run (demo_server (\<lambda>_. lost_answer)) [MozcKey demo_key, MozcFocusOut, MozcFocusIn]
       (demo_mozc (Some \<lparr>zn_session_id = 3, zn_mode = HIRAGANA\<rparr>)))) = KEY_NOT_HANDLED"
proof -
  have "\<forall>data answer. mo_parse (demo_server (\<lambda>_. lost_answer)) data = Some answer \<longrightarrow> ou_consumed answer \<noteq> Some True"
    by (simp add: demo_server_def lost_answer_def no_answer_def)
  moreover have "\<not> escape_clears demo_key v" for v :: "nat mozc_world"
    by (simp add: escape_clears_def demo_key_def typio_key_event_is_escape_def KEY_Escape_def)
  ultimately show ?thesis
    using lost_session_never_replaced [of "demo_mozc (Some \<lparr>zn_session_id = 3, zn_mode = HIRAGANA\<rparr>)" "\<lparr>zn_session_id = 3, zn_mode = HIRAGANA\<rparr>"
        "[MozcKey demo_key, MozcFocusOut, MozcFocusIn]" "demo_server (\<lambda>_. lost_answer)" demo_key]
    by (simp add: demo_mozc_def)
qed

text \<open>
  C19. The server is launched at most once in the life of the engine, whatever the system and the
  server answer and whatever happens to the contexts; and while the engine backs off from a failed
  attempt, a key in a context without a session is not handled and causes no call at all.
\<close>

theorem server_launched_at_most_once:
  assumes "mozc_init api cfg w0 = (TYPIO_OK, w)" and "mz_out w0 = []"
  shows "launches (mozc_run api evs w) \<le> 1 \<and>
    (\<forall>st ev. mz_state (mozc_run api evs w) = Some st \<longrightarrow> mz_session (mozc_run api evs w) = None \<longrightarrow>
       zs_retry_after_ms st \<noteq> 0 \<longrightarrow> mo_now api (mz_os (mozc_run api evs w)) < zs_retry_after_ms st \<longrightarrow>
       \<not> escape_clears ev (mozc_run api evs w) \<longrightarrow>
       mozc_process_key api ev (mozc_run api evs w) = (KEY_NOT_HANDLED, mozc_run api evs w))"
proof -
  have "launches w = 0" using assms by (auto simp: mozc_init_def launches_def Let_def split: if_splits)
  then have "launches (mozc_run api evs w) \<le> 1" using run_once [of w api evs] by (auto simp: launches_once_def)
  moreover have "mozc_process_key api ev w' = (KEY_NOT_HANDLED, w')"
    if "mz_state w' = Some st" "mz_session w' = None" "zs_retry_after_ms st \<noteq> 0" "mo_now api (mz_os w') < zs_retry_after_ms st" "\<not> escape_clears ev w'"
    for w' st ev
    using that by (simp add: process_key_cases mozc_get_session_def mozc_create_session_def Let_def)
  ultimately show ?thesis by blast
qed

text \<open>A system without a server.\<close>

definition demo_no_server :: "nat mozc_os" where
  "demo_no_server = (demo_server (\<lambda>_. no_answer))\<lparr>mo_connect := (\<lambda>path os. (False, os))\<rparr>"

theorem server_launched_at_most_once_witness:
  "launches (mozc_run demo_no_server [MozcKey demo_key, MozcKey demo_key] (demo_mozc None)) \<le> 1"
proof -
  have "mozc_init demo_no_server None ((demo_mozc None)\<lparr>mz_state := None\<rparr>) = (TYPIO_OK, demo_mozc None)"
    by (simp add: mozc_init_def mozc_get_socket_path_def mozc_find_abstract_socket_path_def demo_no_server_def demo_server_def demo_mozc_def
        filled_def Let_def)
  from server_launched_at_most_once [OF this, THEN conjunct1] show ?thesis by (simp add: demo_mozc_def)
qed

end
