(* ===== verification/Dbus_Message.thy ===== *)
theory Dbus_Message
  imports C_Strings
begin

section \<open>Messages of the D-Bus surfaces\<close>

text \<open>
  How the daemon fills a D-Bus message (\<^verbatim>\<open>daemon/dbus_helpers.h\<close>), and when what it wrote is a
  message. The library is not in the repository: a message under construction is the list of the
  calls made on it, and which calls run out of memory is a parameter. An iterator is its depth in
  the message, so that the iterator of a container opened on \<open>d\<close> is \<open>d + 1\<close>.
  A number of type \<^verbatim>\<open>double\<close> is given as its text.
\<close>

subsection \<open>Calls on a message\<close>

datatype dbus_basic =
    B_string "string option" \<comment> \<open>a pointer, which may be null\<close>
  | B_object_path string
  | B_boolean bool
  | B_byte u8
  | B_int32 int
  | B_uint32 u32
  | B_double string

text \<open>A container with the signature of what it contains, where the library wants one.\<close>

datatype dbus_container = In_array string | In_variant string | In_struct | In_dict_entry

type_synonym dbus_iter = nat

datatype dbus_call =
    Append_basic dbus_iter dbus_basic
  | Append_bytes dbus_iter "u8 list"
  | Open_container dbus_iter dbus_container
  | Close_container dbus_iter

record dbus_builder =
  db_fail :: "nat \<Rightarrow> bool" \<comment> \<open>the calls that run out of memory\<close>
  db_count :: nat
  db_calls :: "dbus_call list"

type_synonym dbus_action = "dbus_builder \<Rightarrow> bool \<times> dbus_builder"

definition dbus_call :: "dbus_call \<Rightarrow> dbus_action" where
  "dbus_call c b =
     (let failed = db_fail b (db_count b);
          b = b\<lparr>db_count := db_count b + 1\<rparr>
      in if failed then (False, b) else (True, b\<lparr>db_calls := db_calls b @ [c]\<rparr>))"

definition append_basic :: "dbus_iter \<Rightarrow> dbus_basic \<Rightarrow> dbus_action" where
  "append_basic d v = dbus_call (Append_basic d v)"

definition append_bytes :: "dbus_iter \<Rightarrow> u8 list \<Rightarrow> dbus_action" where
  "append_bytes d bs = dbus_call (Append_bytes d bs)"

definition open_container :: "dbus_iter \<Rightarrow> dbus_container \<Rightarrow> dbus_action" where
  "open_container d k = dbus_call (Open_container d k)"

definition close_container :: "dbus_iter \<Rightarrow> dbus_action" where
  "close_container d = dbus_call (Close_container d)"

text \<open>Two ways to go on: to give up at the first call that fails, or not to look.\<close>

fun all_ok :: "dbus_action list \<Rightarrow> dbus_action" where
  "all_ok [] b = (True, b)"
| "all_ok (f # fs) b = (case f b of (ok, b) \<Rightarrow> if ok then all_ok fs b else (False, b))"

fun in_turn :: "dbus_action list \<Rightarrow> dbus_action" where
  "in_turn [] b = (True, b)"
| "in_turn (f # fs) b = in_turn fs (snd (f b))"

declare all_ok.simps [simp del] in_turn.simps [simp del]

text \<open>A container around what is written into it, checked at every call or not.\<close>

definition container :: "dbus_iter \<Rightarrow> dbus_container \<Rightarrow> dbus_action list \<Rightarrow> dbus_action" where
  "container d k fs = all_ok (open_container d k # fs @ [close_container d])"

definition loose_container :: "dbus_iter \<Rightarrow> dbus_container \<Rightarrow> dbus_action list \<Rightarrow> dbus_action" where
  "loose_container d k fs = in_turn (open_container d k # fs @ [close_container d])"

subsection \<open>Entries of dictionaries\<close>

definition append_dict_entry_string :: "dbus_iter \<Rightarrow> string \<Rightarrow> string option \<Rightarrow> dbus_action" where
  "append_dict_entry_string dict key val =
     (let t = (case val of Some s \<Rightarrow> s | None \<Rightarrow> []) in
      container dict In_dict_entry
       [append_basic (dict + 1) (B_string (Some key)),
        container (dict + 1) (In_variant ''s'') [append_basic (dict + 2) (B_string (Some t))]])"

definition append_string_map_entry :: "dbus_iter \<Rightarrow> string \<Rightarrow> string option \<Rightarrow> dbus_action" where
  "append_string_map_entry dict key val =
     (let t = (case val of Some s \<Rightarrow> s | None \<Rightarrow> []) in
      container dict In_dict_entry
       [append_basic (dict + 1) (B_string (Some key)),
        append_basic (dict + 1) (B_string (Some t))])"

definition append_dict_entry_bool :: "dbus_iter \<Rightarrow> string \<Rightarrow> bool \<Rightarrow> dbus_action" where
  "append_dict_entry_bool dict key val =
     container dict In_dict_entry
       [append_basic (dict + 1) (B_string (Some key)),
        container (dict + 1) (In_variant ''b'') [append_basic (dict + 2) (B_boolean val)]]"

definition append_dict_entry_int32 :: "dbus_iter \<Rightarrow> string \<Rightarrow> int \<Rightarrow> dbus_action" where
  "append_dict_entry_int32 dict key val =
     container dict In_dict_entry
       [append_basic (dict + 1) (B_string (Some key)),
        container (dict + 1) (In_variant ''i'') [append_basic (dict + 2) (B_int32 val)]]"

definition append_dict_entry_uint32 :: "dbus_iter \<Rightarrow> string \<Rightarrow> u32 \<Rightarrow> dbus_action" where
  "append_dict_entry_uint32 dict key val =
     container dict In_dict_entry
       [append_basic (dict + 1) (B_string (Some key)),
        container (dict + 1) (In_variant ''u'') [append_basic (dict + 2) (B_uint32 val)]]"

definition append_dict_entry_double :: "dbus_iter \<Rightarrow> string \<Rightarrow> string \<Rightarrow> dbus_action" where
  "append_dict_entry_double dict key val =
     container dict In_dict_entry
       [append_basic (dict + 1) (B_string (Some key)),
        container (dict + 1) (In_variant ''d'') [append_basic (dict + 2) (B_double val)]]"

definition append_dict_entry_object_path :: "dbus_iter \<Rightarrow> string \<Rightarrow> string \<Rightarrow> dbus_action" where
  "append_dict_entry_object_path dict key val =
     container dict In_dict_entry
       [append_basic (dict + 1) (B_string (Some key)),
        container (dict + 1) (In_variant ''o'') [append_basic (dict + 2) (B_object_path val)]]"

subsection \<open>Values and their signatures\<close>

text \<open>
  What a sequence of calls builds, by the rules of the D-Bus specification: the containers are
  opened and closed in order, elements and variants have the declared signature, the key of an
  entry is basic, and strings are UTF-8.
\<close>

datatype dbus_value =
    V_basic dbus_basic
  | V_array string "dbus_value list"
  | V_variant dbus_value
  | V_struct "dbus_value list"
  | V_entry dbus_value dbus_value

abbreviation V_string :: "string \<Rightarrow> dbus_value" where
  "V_string s \<equiv> V_basic (B_string (Some s))"

fun basic_sig :: "dbus_basic \<Rightarrow> string" where
  "basic_sig (B_string s) = ''s''"
| "basic_sig (B_object_path s) = ''o''"
| "basic_sig (B_boolean b) = ''b''"
| "basic_sig (B_byte b) = ''y''"
| "basic_sig (B_int32 i) = ''i''"
| "basic_sig (B_uint32 u) = ''u''"
| "basic_sig (B_double t) = ''d''"

fun value_sig :: "dbus_value \<Rightarrow> string" where
  "value_sig (V_basic b) = basic_sig b"
| "value_sig (V_array s vs) = CHR ''a'' # s"
| "value_sig (V_variant v) = ''v''"
| "value_sig (V_struct vs) = ''('' @ concat (map value_sig vs) @ '')''"
| "value_sig (V_entry k v) = ''{'' @ value_sig k @ value_sig v @ ''}''"

definition between :: "nat \<Rightarrow> nat \<Rightarrow> char \<Rightarrow> bool" where
  "between lo hi c \<longleftrightarrow> lo \<le> of_char c \<and> of_char c \<le> hi"

abbreviation continuation :: "char \<Rightarrow> bool" where
  "continuation \<equiv> between 0x80 0xBF"

text \<open>UTF-8 without NUL, over-long forms and surrogates.\<close>

fun utf8_valid :: "string \<Rightarrow> bool" where
  "utf8_valid [] \<longleftrightarrow> True"
| "utf8_valid (a # s) \<longleftrightarrow>
     (if between 0x01 0x7F a then utf8_valid s
      else (case s of
              [] \<Rightarrow> False
            | b # s1 \<Rightarrow>
                if between 0xC2 0xDF a then continuation b \<and> utf8_valid s1
                else (case s1 of
                        [] \<Rightarrow> False
                      | c # s2 \<Rightarrow>
                          if between 0xE0 0xEF a
                          then continuation b \<and> continuation c \<and> (of_char a = (0xE0 :: nat) \<longrightarrow> between 0xA0 0xBF b) \<and>
                               (of_char a = (0xED :: nat) \<longrightarrow> between 0x80 0x9F b) \<and> utf8_valid s2
                          else (case s2 of
                                  [] \<Rightarrow> False
                                | d # s3 \<Rightarrow>
                                    between 0xF0 0xF4 a \<and> continuation b \<and> continuation c \<and> continuation d \<and>
                                    (of_char a = (0xF0 :: nat) \<longrightarrow> between 0x90 0xBF b) \<and>
                                    (of_char a = (0xF4 :: nat) \<longrightarrow> between 0x80 0x8F b) \<and> utf8_valid s3))))"

declare utf8_valid.simps(2) [simp del]

fun basic_ok :: "dbus_basic \<Rightarrow> bool" where
  "basic_ok (B_string s) \<longleftrightarrow> (case s of None \<Rightarrow> False | Some t \<Rightarrow> utf8_valid t)"
| "basic_ok (B_object_path s) \<longleftrightarrow> starts_with ''/'' s"
| "basic_ok b \<longleftrightarrow> True"

fun is_basic :: "dbus_value \<Rightarrow> bool" where
  "is_basic (V_basic b) \<longleftrightarrow> True"
| "is_basic v \<longleftrightarrow> False"

fun is_entry :: "dbus_value \<Rightarrow> bool" where
  "is_entry (V_entry k v) \<longleftrightarrow> True"
| "is_entry v \<longleftrightarrow> False"

fun value_ok :: "dbus_value \<Rightarrow> bool" where
  "value_ok (V_basic b) \<longleftrightarrow> basic_ok b"
| "value_ok (V_array s vs) \<longleftrightarrow> list_all (\<lambda>v. value_sig v = s \<and> value_ok v) vs"
| "value_ok (V_variant v) \<longleftrightarrow> \<not> is_entry v \<and> value_ok v"
| "value_ok (V_struct vs) \<longleftrightarrow> vs \<noteq> [] \<and> list_all (\<lambda>v. \<not> is_entry v \<and> value_ok v) vs"
| "value_ok (V_entry k v) \<longleftrightarrow> is_basic k \<and> \<not> is_entry v \<and> value_ok k \<and> value_ok v"

subsection \<open>Building\<close>

text \<open>A container that is open, with what is in it so far; the message itself has none.\<close>

datatype dbus_frame = Frame "dbus_container option" "dbus_value list"

fun accepts :: "dbus_container option \<Rightarrow> dbus_value list \<Rightarrow> dbus_value \<Rightarrow> bool" where
  "accepts None vs v \<longleftrightarrow> \<not> is_entry v"
| "accepts (Some (In_array s)) vs v \<longleftrightarrow> value_sig v = s"
| "accepts (Some (In_variant s)) vs v \<longleftrightarrow> vs = [] \<and> value_sig v = s \<and> \<not> is_entry v"
| "accepts (Some In_struct) vs v \<longleftrightarrow> \<not> is_entry v"
| "accepts (Some In_dict_entry) vs v \<longleftrightarrow> (if vs = [] then is_basic v else length vs = 1 \<and> \<not> is_entry v)"

fun put :: "dbus_value \<Rightarrow> dbus_frame \<Rightarrow> dbus_frame option" where
  "put v (Frame k vs) = (if value_ok v \<and> accepts k vs v then Some (Frame k (vs @ [v])) else None)"

fun put_all :: "dbus_value list \<Rightarrow> dbus_frame \<Rightarrow> dbus_frame option" where
  "put_all [] f = Some f"
| "put_all (v # vs) f = Option.bind (put v f) (put_all vs)"

fun finished :: "dbus_container \<Rightarrow> dbus_value list \<Rightarrow> dbus_value option" where
  "finished (In_array s) vs = Some (V_array s vs)"
| "finished (In_variant s) vs = (case vs of [v] \<Rightarrow> Some (V_variant v) | _ \<Rightarrow> None)"
| "finished In_struct vs = (if vs = [] then None else Some (V_struct vs))"
| "finished In_dict_entry vs = (case vs of [k, v] \<Rightarrow> Some (V_entry k v) | _ \<Rightarrow> None)"

text \<open>A call is made on the iterator of the innermost open container.\<close>

fun build_step :: "dbus_call \<Rightarrow> dbus_frame list \<Rightarrow> dbus_frame list option" where
  "build_step (Append_basic d b) (f # fs) =
     (if d = length fs then map_option (\<lambda>f. f # fs) (put (V_basic b) f) else None)"
| "build_step (Append_bytes d bs) (f # fs) =
     (if d = length fs then map_option (\<lambda>f. f # fs) (put_all (map (\<lambda>b. V_basic (B_byte b)) bs) f) else None)"
| "build_step (Open_container d k) (f # fs) =
     (if d = length fs then Some (Frame (Some k) [] # f # fs) else None)"
| "build_step (Close_container d) (Frame (Some k) vs # f # fs) =
     (if d = length fs then map_option (\<lambda>f. f # fs) (Option.bind (finished k vs) (\<lambda>v. put v f)) else None)"
| "build_step c fs = None"

fun build :: "dbus_call list \<Rightarrow> dbus_frame list \<Rightarrow> dbus_frame list option" where
  "build [] fs = Some fs"
| "build (c # cs) fs = Option.bind (build_step c fs) (build cs)"

text \<open>The arguments of the message, when the calls build one.\<close>

definition message_body :: "dbus_call list \<Rightarrow> dbus_value list option" where
  "message_body cs = (case build cs [Frame None []] of
       Some [Frame None vs] \<Rightarrow> Some vs
     | _ \<Rightarrow> None)"

subsection \<open>Messages that come in and go out\<close>

datatype dbus_message_type = METHOD_CALL | SIGNAL | OTHER_MESSAGE

record dbus_message =
  dm_type :: dbus_message_type
  dm_interface :: "string option"
  dm_member :: string
  dm_path :: "string option"
  dm_args :: "dbus_value list"

datatype dbus_reply = Method_return "dbus_call list" | Error_reply string string

text \<open>
  The library: whether reading fewer arguments than there are succeeds, whether a message can be
  made, and which calls on it fail.
\<close>

record dbus_env =
  de_extra_ok :: bool
  de_new :: bool
  de_fail :: "nat \<Rightarrow> bool"

definition get_args :: "dbus_env \<Rightarrow> string \<Rightarrow> dbus_message \<Rightarrow> dbus_value list option" where
  "get_args env types msg =
     (let args = dm_args msg; n = length types in
      if n \<le> length args \<and> (de_extra_ok env \<or> length args = n) \<and>
         list_all2 (\<lambda>t v. is_basic v \<and> value_sig v = [t]) types (take n args)
      then Some (take n args) else None)"

definition new_builder :: "dbus_env \<Rightarrow> dbus_builder" where
  "new_builder env = \<lparr>db_fail = de_fail env, db_count = 0, db_calls = []\<rparr>"

definition new_error :: "dbus_env \<Rightarrow> string \<Rightarrow> string \<Rightarrow> dbus_reply option" where
  "new_error env err_name err_text = (if de_new env then Some (Error_reply err_name err_text) else None)"

definition new_return :: "dbus_env \<Rightarrow> dbus_reply option" where
  "new_return env = (if de_new env then Some (Method_return []) else None)"

definition ERROR_INVALID_ARGS :: string where
  "ERROR_INVALID_ARGS = ''org.freedesktop.DBus.Error.InvalidArgs''"
definition ERROR_UNKNOWN_INTERFACE :: string where
  "ERROR_UNKNOWN_INTERFACE = ''org.freedesktop.DBus.Error.UnknownInterface''"
definition ERROR_UNKNOWN_PROPERTY :: string where
  "ERROR_UNKNOWN_PROPERTY = ''org.freedesktop.DBus.Error.UnknownProperty''"
definition ERROR_UNKNOWN_METHOD :: string where
  "ERROR_UNKNOWN_METHOD = ''org.freedesktop.DBus.Error.UnknownMethod''"
definition ERROR_FAILED :: string where
  "ERROR_FAILED = ''org.freedesktop.DBus.Error.Failed''"
definition ERROR_NO_MEMORY :: string where
  "ERROR_NO_MEMORY = ''org.freedesktop.DBus.Error.NoMemory''"
definition PROPERTIES_INTERFACE :: string where
  "PROPERTIES_INTERFACE = ''org.freedesktop.DBus.Properties''"

subsection \<open>Dispatch\<close>

text \<open>
  The messages that a surface handles at one wake-up: \<open>dispatch\<close> handles one and says whether more remain.
\<close>

definition BUS_MAX_DISPATCH_PER_TICK :: nat where
  "BUS_MAX_DISPATCH_PER_TICK = 16"

function dispatch_messages :: "('q \<Rightarrow> bool \<times> 'q) \<Rightarrow> nat \<Rightarrow> 'q \<Rightarrow> 'q" where
  "dispatch_messages dispatch dispatched q =
     (if dispatched < BUS_MAX_DISPATCH_PER_TICK
      then (case dispatch q of (remains, q) \<Rightarrow> if remains then dispatch_messages dispatch (dispatched + 1) q else q)
      else q)"
  by pat_completeness auto

termination
  by (relation "measure (\<lambda>(dispatch, dispatched, q). BUS_MAX_DISPATCH_PER_TICK - dispatched)") auto

declare dispatch_messages.simps [simp del]

end
