(* ===== verification/Status_Dbus.thy ===== *)
theory Status_Dbus
  imports Status_Service State_Controller Dbus_Message
begin

section \<open>The status interface on D-Bus\<close>

text \<open>
  The properties and methods of the status service as a D-Bus object
  (\<^verbatim>\<open>daemon/state/dbus.c\<close>). The properties are written from the core, the methods go
  through the JSON interface of the service. The bus always has an instance and a service, as its
  constructor demands. \<open>c\<close> is the state of the core.
\<close>

definition STATUS_DBUS_PATH :: string where
  "STATUS_DBUS_PATH = ''/org/typio/InputMethod1''"

definition STATUS_DBUS_INTERFACE :: string where
  "STATUS_DBUS_INTERFACE = ''org.typio.InputMethod1''"

record 'c TypioStatusBus =
  sb_conn :: bool
  sb_service :: "'c TypioStatusService"
  sb_runtime_state :: "('c \<Rightarrow> TypioStatusRuntimeState) option"
  sb_stop :: "('c \<Rightarrow> 'c) option"

subsection \<open>Parts of the properties\<close>

definition status_active_keyboard_engine :: "'c core_api \<Rightarrow> 'c \<Rightarrow> core_engine option" where
  "status_active_keyboard_engine api c = (if co_has_manager api then co_active api c else None)"

definition status_active_voice_engine :: "'c core_api \<Rightarrow> 'c \<Rightarrow> core_engine option" where
  "status_active_voice_engine api c = (if co_has_manager api then co_active_voice api c else None)"

definition append_config_entry :: "dbus_iter \<Rightarrow> string \<Rightarrow> TypioConfigValue \<Rightarrow> dbus_action" where
  "append_config_entry dict prefixed v = (case v of
       ConfigString s \<Rightarrow> append_dict_entry_string dict prefixed s
     | ConfigInt i \<Rightarrow> append_dict_entry_int32 dict prefixed i
     | ConfigBool x \<Rightarrow> append_dict_entry_bool dict prefixed x
     | ConfigFloat t \<Rightarrow> append_dict_entry_double dict prefixed t
     | ConfigOther \<Rightarrow> all_ok [])"

fun append_config_entries :: "dbus_iter \<Rightarrow> (string \<times> TypioConfigValue option) list \<Rightarrow> dbus_action" where
  "append_config_entries dict [] = all_ok []"
| "append_config_entries dict ((key, v) # kvs) =
     (if key = [] then append_config_entries dict kvs
      else (case v of
              None \<Rightarrow> append_config_entries dict kvs
            | Some v \<Rightarrow> all_ok [append_config_entry dict (''config.'' @ key) v, append_config_entries dict kvs]))"

definition append_active_engine_mode_dict :: "dbus_iter \<Rightarrow> 'c core_api \<Rightarrow> 'c \<Rightarrow> dbus_action" where
  "append_active_engine_mode_dict d api c =
     container d (In_array ''{sv}'')
       [case co_last_mode api c of
          None \<Rightarrow> all_ok []
        | Some m \<Rightarrow>
            all_ok
             [append_dict_entry_string (d + 1) ''mode_class'' (Some (mode_class_name (em_class m))),
              append_dict_entry_string (d + 1) ''mode_id'' (em_mode_id m),
              append_dict_entry_string (d + 1) ''display_label'' (em_display_label m),
              append_dict_entry_string (d + 1) ''icon_name'' (em_icon_name m)]]"

text \<open>A container that is closed even when something in it failed.\<close>

definition closing_container :: "dbus_iter \<Rightarrow> dbus_container \<Rightarrow> dbus_action list \<Rightarrow> dbus_action" where
  "closing_container d k fs b =
     (case open_container d k b of (opened, b) \<Rightarrow>
        if \<not> opened then (False, b)
        else (case all_ok fs b of (ok, b) \<Rightarrow>
                case close_container d b of (closed, b) \<Rightarrow> if \<not> closed then (False, b) else (ok, b)))"

definition append_engine_info :: "dbus_iter \<Rightarrow> TypioEngineInfo \<Rightarrow> dbus_action" where
  "append_engine_info dict info =
     all_ok
      [append_dict_entry_string dict ''name'' (ei_name info),
       append_dict_entry_string dict ''display_name'' (ei_display_name info),
       append_dict_entry_string dict ''icon'' (ei_icon info),
       append_dict_entry_string dict ''language'' (ei_language info),
       append_dict_entry_string dict ''engine_type'' (Some (engine_type_name (ei_type info))),
       append_dict_entry_uint32 dict ''capabilities'' (ei_capabilities info)]"

definition append_active_engine_state_dict :: "dbus_iter \<Rightarrow> 'c core_api \<Rightarrow> 'c \<Rightarrow> dbus_action" where
  "append_active_engine_state_dict d api c =
     (let engine = status_active_keyboard_engine api c;
          info = Option.bind engine ce_info;
          config_path = Option.bind engine ce_config_path;
          engine_name = Option.bind engine ce_name
      in closing_container d (In_array ''{sv}'')
           [case info of None \<Rightarrow> all_ok [] | Some i \<Rightarrow> append_engine_info (d + 1) i,
            case engine of None \<Rightarrow> all_ok [] | Some e \<Rightarrow> append_dict_entry_bool (d + 1) ''active'' (ce_active e),
            if or_empty config_path = [] then all_ok []
            else append_dict_entry_string (d + 1) ''config_path'' config_path,
            case co_last_mode api c of
              None \<Rightarrow> all_ok []
            | Some m \<Rightarrow>
                all_ok
                 [append_dict_entry_string (d + 1) ''mode_class'' (Some (mode_class_name (em_class m))),
                  append_dict_entry_string (d + 1) ''mode_id'' (em_mode_id m),
                  append_dict_entry_string (d + 1) ''mode_display_label'' (em_display_label m),
                  append_dict_entry_string (d + 1) ''mode_icon'' (em_icon_name m)],
            if or_empty engine_name = [] then all_ok []
            else (case co_engine_config api (or_empty engine_name) c of
                    None \<Rightarrow> all_ok []
                  | Some kvs \<Rightarrow> append_config_entries (d + 1) kvs)])"

text \<open>The four arrays of names; entries of the configured order that are not strings are skipped.\<close>

definition append_names :: "dbus_iter \<Rightarrow> string list \<Rightarrow> dbus_action" where
  "append_names d names =
     container d (In_array ''s'') (map (\<lambda>name. append_basic (d + 1) (B_string (Some name))) names)"

definition append_available_engines_array :: "dbus_iter \<Rightarrow> 'c core_api \<Rightarrow> 'c \<Rightarrow> dbus_action" where
  "append_available_engines_array d api c = append_names d (if co_has_manager api then co_list api c else [])"

definition append_typed_engines_array :: "dbus_iter \<Rightarrow> 'c core_api \<Rightarrow> 'c \<Rightarrow> TypioEngineType \<Rightarrow> dbus_action" where
  "append_typed_engines_array d api c t =
     append_names d (if co_has_manager api then co_list_by_type api t c else [])"

definition append_ordered_engines_array :: "dbus_iter \<Rightarrow> 'c core_api \<Rightarrow> 'c \<Rightarrow> dbus_action" where
  "append_ordered_engines_array d api c =
     append_names d (if co_has_manager api then co_list_ordered_keyboards api c else [])"

definition append_engine_order_array :: "dbus_iter \<Rightarrow> 'c core_api \<Rightarrow> 'c \<Rightarrow> dbus_action" where
  "append_engine_order_array d api c =
     append_names d (List.map_filter (\<lambda>name. name) (co_engine_order api c))"

definition append_engine_display_names_dict :: "dbus_iter \<Rightarrow> 'c core_api \<Rightarrow> 'c \<Rightarrow> dbus_action" where
  "append_engine_display_names_dict d api c =
     container d (In_array ''{ss}'')
       (map (\<lambda>name. append_string_map_entry (d + 1) name (co_label api name c))
         (filter (\<lambda>name. name \<noteq> [] \<and> or_empty (co_label api name c) \<noteq> [])
           (if co_has_manager api then co_list api c else [])))"

definition append_runtime_state_dict :: "dbus_iter \<Rightarrow> 'c TypioStatusBus \<Rightarrow> 'c \<Rightarrow> dbus_action" where
  "append_runtime_state_dict d bus c =
     (let st = (case sb_runtime_state bus of None \<Rightarrow> zero_runtime_state | Some f \<Rightarrow> f c)
      in closing_container d (In_array ''{sv}'')
           [append_dict_entry_string (d + 1) ''frontend_backend'' (Some (or_empty (rs_frontend_backend st))),
            append_dict_entry_string (d + 1) ''lifecycle_phase'' (Some (or_empty (rs_lifecycle_phase st))),
            append_dict_entry_string (d + 1) ''virtual_keyboard_state'' (Some (or_empty (rs_virtual_keyboard_state st))),
            append_dict_entry_bool (d + 1) ''keyboard_grab_active'' (rs_keyboard_grab_active st),
            append_dict_entry_bool (d + 1) ''virtual_keyboard_has_keymap'' (rs_virtual_keyboard_has_keymap st),
            append_dict_entry_bool (d + 1) ''watchdog_armed'' (rs_watchdog_armed st),
            append_dict_entry_uint32 (d + 1) ''active_key_generation'' (rs_active_key_generation st),
            append_dict_entry_uint32 (d + 1) ''virtual_keyboard_keymap_generation'' (rs_keymap_generation st),
            append_dict_entry_uint32 (d + 1) ''virtual_keyboard_drop_count'' (rs_drop_count st),
            append_dict_entry_uint32 (d + 1) ''virtual_keyboard_state_age_ms'' (rs_state_age_ms st),
            append_dict_entry_uint32 (d + 1) ''virtual_keyboard_keymap_age_ms'' (rs_keymap_age_ms st),
            append_dict_entry_uint32 (d + 1) ''virtual_keyboard_forward_age_ms'' (rs_forward_age_ms st),
            append_dict_entry_int32 (d + 1) ''virtual_keyboard_keymap_deadline_remaining_ms'' (rs_deadline_remaining_ms st)])"

subsection \<open>Properties\<close>

definition append_string_variant :: "dbus_iter \<Rightarrow> string option \<Rightarrow> dbus_action" where
  "append_string_variant d s = container d (In_variant ''s'') [append_basic (d + 1) (B_string s)]"

text \<open>The name of an engine goes out as the core gives it.\<close>

definition engine_name_or_blank :: "core_engine option \<Rightarrow> string option" where
  "engine_name_or_blank e = (case e of None \<Rightarrow> Some [] | Some e \<Rightarrow> ce_name e)"

definition append_property_variant :: "dbus_iter \<Rightarrow> 'c core_api \<Rightarrow> 'c TypioStatusBus \<Rightarrow> string \<Rightarrow> 'c \<Rightarrow> dbus_action" where
  "append_property_variant d api bus property c =
     (let active_name = engine_name_or_blank (status_active_keyboard_engine api c);
          active_voice_name = engine_name_or_blank (status_active_voice_engine api c)
      in if property = ''Version'' then append_string_variant d (Some (co_version api))
         else if property = ''ActiveKeyboardEngine'' \<or> property = ''ActiveEngine'' then append_string_variant d active_name
         else if property = ''AvailableKeyboardEngines''
         then container d (In_variant ''as'') [append_typed_engines_array (d + 1) api c ENGINE_TYPE_KEYBOARD]
         else if property = ''AvailableEngines''
         then container d (In_variant ''as'') [append_available_engines_array (d + 1) api c]
         else if property = ''OrderedKeyboardEngines'' \<or> property = ''OrderedEngines''
         then container d (In_variant ''as'') [append_ordered_engines_array (d + 1) api c]
         else if property = ''EngineDisplayNames''
         then container d (In_variant ''a{ss}'') [append_engine_display_names_dict (d + 1) api c]
         else if property = ''EngineOrder''
         then container d (In_variant ''as'') [append_engine_order_array (d + 1) api c]
         else if property = ''AvailableVoiceEngines''
         then container d (In_variant ''as'') [append_typed_engines_array (d + 1) api c ENGINE_TYPE_VOICE]
         else if property = ''ActiveVoiceEngine'' then append_string_variant d active_voice_name
         else if property = ''ActiveEngineState''
         then container d (In_variant ''a{sv}'') [append_active_engine_state_dict (d + 1) api c]
         else if property = ''ActiveEngineMode''
         then container d (In_variant ''a{sv}'') [append_active_engine_mode_dict (d + 1) api c]
         else if property = ''RuntimeState''
         then container d (In_variant ''a{sv}'') [append_runtime_state_dict (d + 1) bus c]
         else if property = ''RimeSchema'' then append_string_variant d (Some (or_empty (co_rime_schema api c)))
         else if property = ''ConfigText'' then append_string_variant d (Some (or_empty (co_config_text api c)))
         else (\<lambda>b. (False, b)))"

definition status_handle_properties_get ::
    "dbus_env \<Rightarrow> 'c core_api \<Rightarrow> 'c TypioStatusBus \<Rightarrow> dbus_message \<Rightarrow> 'c \<Rightarrow> dbus_reply option" where
  "status_handle_properties_get env api bus msg c = (case get_args env ''ss'' msg of
       Some [V_basic (B_string (Some interface)), V_basic (B_string (Some property))] \<Rightarrow>
         if interface \<noteq> STATUS_DBUS_INTERFACE then new_error env ERROR_UNKNOWN_INTERFACE ''Unknown interface''
         else if \<not> de_new env then None
         else (case append_property_variant 0 api bus property c (new_builder env) of (ok, b) \<Rightarrow>
                 if \<not> ok then new_error env ERROR_UNKNOWN_PROPERTY ''Unknown property''
                 else Some (Method_return (db_calls b)))
     | _ \<Rightarrow> new_error env ERROR_INVALID_ARGS ''Invalid arguments'')"

definition status_properties :: "string list" where
  "status_properties =
     [''Version'', ''ActiveKeyboardEngine'', ''ActiveEngine'', ''AvailableKeyboardEngines'', ''AvailableEngines'',
      ''OrderedKeyboardEngines'', ''OrderedEngines'', ''EngineDisplayNames'', ''EngineOrder'',
      ''AvailableVoiceEngines'', ''ActiveVoiceEngine'', ''ActiveEngineState'', ''ActiveEngineMode'',
      ''RuntimeState'', ''RimeSchema'', ''ConfigText'']"

definition append_property_entry :: "dbus_iter \<Rightarrow> 'c core_api \<Rightarrow> 'c TypioStatusBus \<Rightarrow> 'c \<Rightarrow> string \<Rightarrow> dbus_action" where
  "append_property_entry dict api bus c property =
     container dict In_dict_entry
       [append_basic (dict + 1) (B_string (Some property)), append_property_variant (dict + 1) api bus property c]"

definition status_handle_properties_getall ::
    "dbus_env \<Rightarrow> 'c core_api \<Rightarrow> 'c TypioStatusBus \<Rightarrow> dbus_message \<Rightarrow> 'c \<Rightarrow> dbus_reply option" where
  "status_handle_properties_getall env api bus msg c = (case get_args env ''s'' msg of
       Some [V_basic (B_string (Some interface))] \<Rightarrow>
         if interface \<noteq> STATUS_DBUS_INTERFACE then new_error env ERROR_UNKNOWN_INTERFACE ''Unknown interface''
         else if \<not> de_new env then None
         else (case container 0 (In_array ''{sv}'') (map (append_property_entry 1 api bus c) status_properties) (new_builder env) of
                 (ok, b) \<Rightarrow> if ok then Some (Method_return (db_calls b)) else None)
     | _ \<Rightarrow> new_error env ERROR_INVALID_ARGS ''Invalid arguments'')"

subsection \<open>Methods\<close>

text \<open>
  The reply to a method by the answer of the service: an error when the text \<open>"error"\<close> occurs
  anywhere, with the first string that follows as its message.
\<close>

definition up_to :: "char \<Rightarrow> string \<Rightarrow> (string \<times> string) option" where
  "up_to ch s = (let a = takeWhile (\<lambda>x. x \<noteq> ch) s in
     if length a < length s then Some (a, drop (length a + 1) s) else None)"

definition service_reply_from_json :: "dbus_env \<Rightarrow> string option \<Rightarrow> dbus_reply option" where
  "service_reply_from_json env json = (case json of
       None \<Rightarrow> new_error env ERROR_FAILED ''Internal service error''
     | Some json \<Rightarrow>
         (case strstr (quoted ''error'') json of
            None \<Rightarrow> new_return env
          | Some err \<Rightarrow>
              (case up_to (CHR '':'') err of
                 None \<Rightarrow> new_error env ERROR_FAILED ''Service error''
               | Some (_, msg_start) \<Rightarrow>
                   (case dropWhile (\<lambda>x. x = CHR '' '' \<or> x = CHR 0x09) msg_start of
                      [] \<Rightarrow> new_error env ERROR_FAILED ''Service error''
                    | q # r \<Rightarrow>
                        if q \<noteq> dquote then new_error env ERROR_FAILED ''Service error''
                        else (case up_to dquote r of
                                None \<Rightarrow> new_error env ERROR_FAILED ''Service error''
                              | Some (text, _) \<Rightarrow> new_error env ERROR_FAILED text)))))"

definition call_service ::
    "dbus_env \<Rightarrow> 'c core_api \<Rightarrow> 'c TypioStatusBus \<Rightarrow> string \<Rightarrow> string option \<Rightarrow> 'c \<Rightarrow> dbus_reply option \<times> 'c" where
  "call_service env api bus name params c =
     (case status_service_handle api (sb_service bus) name params 0 c of
        (json, c) \<Rightarrow> (service_reply_from_json env json, c))"

text \<open>The parameters of the first method have room for 255 characters.\<close>

definition status_handle_activate_engine ::
    "dbus_env \<Rightarrow> 'c core_api \<Rightarrow> 'c TypioStatusBus \<Rightarrow> dbus_message \<Rightarrow> 'c \<Rightarrow> dbus_reply option \<times> 'c" where
  "status_handle_activate_engine env api bus msg c = (case get_args env ''s'' msg of
       Some [V_basic (B_string (Some engine_name))] \<Rightarrow>
         if engine_name = []
         then (new_error env ERROR_INVALID_ARGS ''ActivateEngine expects a non-empty engine name'', c)
         else call_service env api bus ''ActivateEngine''
                (Some (take 255 (''{'' @ quoted ''engine'' @ '':'' @ quoted engine_name @ ''}''))) c
     | _ \<Rightarrow> (new_error env ERROR_INVALID_ARGS ''ActivateEngine expects a non-empty engine name'', c))"

definition status_handle_next_engine ::
    "dbus_env \<Rightarrow> 'c core_api \<Rightarrow> 'c TypioStatusBus \<Rightarrow> dbus_message \<Rightarrow> 'c \<Rightarrow> dbus_reply option \<times> 'c" where
  "status_handle_next_engine env api bus msg c = call_service env api bus ''NextEngine'' None c"

definition status_handle_reload_config ::
    "dbus_env \<Rightarrow> 'c core_api \<Rightarrow> 'c TypioStatusBus \<Rightarrow> dbus_message \<Rightarrow> 'c \<Rightarrow> dbus_reply option \<times> 'c" where
  "status_handle_reload_config env api bus msg c = call_service env api bus ''ReloadConfig'' None c"

definition status_handle_stop ::
    "dbus_env \<Rightarrow> 'c core_api \<Rightarrow> 'c TypioStatusBus \<Rightarrow> dbus_message \<Rightarrow> 'c \<Rightarrow> dbus_reply option \<times> 'c" where
  "status_handle_stop env api bus msg c = call_service env api bus ''Stop'' None c"

definition status_handle_set_config_text ::
    "dbus_env \<Rightarrow> 'c core_api \<Rightarrow> 'c TypioStatusBus \<Rightarrow> dbus_message \<Rightarrow> 'c \<Rightarrow> dbus_reply option \<times> 'c" where
  "status_handle_set_config_text env api bus msg c = (case get_args env ''s'' msg of
       Some [V_basic (B_string (Some config_text))] \<Rightarrow>
         call_service env api bus ''SetConfigText''
           (Some (''{'' @ quoted ''content'' @ '':'' @ quoted config_text @ ''}'')) c
     | _ \<Rightarrow> (new_error env ERROR_INVALID_ARGS ''SetConfigText expects a configuration string'', c))"

definition status_handle_set_rime_schema ::
    "dbus_env \<Rightarrow> 'c core_api \<Rightarrow> 'c TypioStatusBus \<Rightarrow> dbus_message \<Rightarrow> 'c \<Rightarrow> dbus_reply option \<times> 'c" where
  "status_handle_set_rime_schema env api bus msg c = (case get_args env ''s'' msg of
       Some [V_basic (B_string (Some schema))] \<Rightarrow>
         call_service env api bus ''SetRimeSchema''
           (Some (''{'' @ quoted ''schema'' @ '':'' @ quoted schema @ ''}'')) c
     | _ \<Rightarrow> (new_error env ERROR_INVALID_ARGS ''SetRimeSchema expects a string'', c))"

definition status_handle_deploy_rime_config ::
    "dbus_env \<Rightarrow> 'c core_api \<Rightarrow> 'c TypioStatusBus \<Rightarrow> dbus_message \<Rightarrow> 'c \<Rightarrow> dbus_reply option \<times> 'c" where
  "status_handle_deploy_rime_config env api bus msg c = call_service env api bus ''DeployRimeConfig'' None c"

subsection \<open>The message handler\<close>

text \<open>
  The introspection data: the properties with their signatures, and the text around them
  (\<open>introspect_xml\<close> stands for the constant text, which declares just these).
\<close>

definition introspected_properties :: "(string \<times> string) list" where
  "introspected_properties =
     [(''Version'', ''s''), (''ActiveKeyboardEngine'', ''s''), (''ActiveEngine'', ''s''),
      (''AvailableKeyboardEngines'', ''as''), (''AvailableEngines'', ''as''), (''OrderedKeyboardEngines'', ''as''),
      (''OrderedEngines'', ''as''), (''EngineDisplayNames'', ''a{ss}''), (''EngineOrder'', ''as''),
      (''AvailableVoiceEngines'', ''as''), (''ActiveVoiceEngine'', ''s''), (''ActiveEngineState'', ''a{sv}''),
      (''ActiveEngineMode'', ''a{sv}''), (''RuntimeState'', ''a{sv}''), (''RimeSchema'', ''s''), (''ConfigText'', ''s'')]"

definition xml_attribute :: "string \<Rightarrow> string \<Rightarrow> string" where
  "xml_attribute k v = '' '' @ k @ ''='' @ quoted v"

definition xml_property :: "string \<times> string \<Rightarrow> string" where
  "xml_property p =
     ''    <property'' @ xml_attribute ''name'' (fst p) @ xml_attribute ''type'' (snd p) @
     xml_attribute ''access'' ''read'' @ ''/>'' @ [CHR 0x0A]"

definition introspect_xml :: "string \<Rightarrow> string \<Rightarrow> string" where
  "introspect_xml head_text tail_text = head_text @ concat (map xml_property introspected_properties) @ tail_text"

definition status_message_handler ::
    "dbus_env \<Rightarrow> string \<times> string \<Rightarrow> 'c core_api \<Rightarrow> 'c TypioStatusBus \<Rightarrow> dbus_message \<Rightarrow> 'c \<Rightarrow> dbus_reply option \<times> 'c" where
  "status_message_handler env xml api bus msg c =
     (let member = dm_member msg; interface = or_empty (dm_interface msg) in
      if dm_type msg \<noteq> METHOD_CALL then (None, c)
      else if dm_path msg \<noteq> Some STATUS_DBUS_PATH then (None, c)
      else if interface = PROPERTIES_INTERFACE \<or> member = ''Get'' \<or> member = ''GetAll''
      then (if member = ''Get'' then status_handle_properties_get env api bus msg c
            else if member = ''GetAll'' then status_handle_properties_getall env api bus msg c
            else None, c)
      else if member = ''Introspect''
      then (if de_new env
            then Some (Method_return (db_calls (snd (append_basic 0 (B_string (Some (introspect_xml (fst xml) (snd xml)))) (new_builder env)))))
            else None, c)
      else if interface = STATUS_DBUS_INTERFACE \<or> interface = []
      then (if member = ''ActivateEngine'' then status_handle_activate_engine env api bus msg c
            else if member = ''NextEngine'' then status_handle_next_engine env api bus msg c
            else if member = ''SetRimeSchema'' then status_handle_set_rime_schema env api bus msg c
            else if member = ''DeployRimeConfig'' then status_handle_deploy_rime_config env api bus msg c
            else if member = ''SetConfigText'' then status_handle_set_config_text env api bus msg c
            else if member = ''ReloadConfig'' then status_handle_reload_config env api bus msg c
            else if member = ''Stop'' then status_handle_stop env api bus msg c
            else (None, c))
      else (None, c))"

subsection \<open>Signals, callbacks and dispatch\<close>

definition changed_properties :: "string list" where
  "changed_properties =
     [''ActiveKeyboardEngine'', ''ActiveEngine'', ''AvailableKeyboardEngines'', ''AvailableEngines'',
      ''OrderedKeyboardEngines'', ''OrderedEngines'', ''EngineDisplayNames'', ''EngineOrder'',
      ''AvailableVoiceEngines'', ''ActiveVoiceEngine'', ''ActiveEngineState'', ''ActiveEngineMode'',
      ''RuntimeState'', ''ConfigText'']"

text \<open>The signal that is sent, if one is.\<close>

definition status_bus_emit_properties_changed ::
    "dbus_env \<Rightarrow> 'c core_api \<Rightarrow> 'c TypioStatusBus \<Rightarrow> 'c \<Rightarrow> dbus_call list option" where
  "status_bus_emit_properties_changed env api bus c =
     (if \<not> sb_conn bus \<or> \<not> de_new env then None
      else (case all_ok
                  [append_basic 0 (B_string (Some STATUS_DBUS_INTERFACE)),
                   container 0 (In_array ''{sv}'') (map (append_property_entry 1 api bus c) changed_properties),
                   container 0 (In_array ''s'') []] (new_builder env) of
              (ok, b) \<Rightarrow> if ok then Some (db_calls b) else None))"

definition status_bus_set_stop_callback :: "('c \<Rightarrow> 'c) option \<Rightarrow> 'c TypioStatusBus \<Rightarrow> 'c TypioStatusBus" where
  "status_bus_set_stop_callback callback bus =
     bus\<lparr>sb_stop := callback, sb_service := sb_service bus\<lparr>sv_stop := callback\<rparr>\<rparr>"

definition status_bus_set_runtime_state_callback ::
    "('c \<Rightarrow> TypioStatusRuntimeState) option \<Rightarrow> 'c TypioStatusBus \<Rightarrow> 'c TypioStatusBus" where
  "status_bus_set_runtime_state_callback callback bus =
     bus\<lparr>sb_runtime_state := callback, sb_service := sb_service bus\<lparr>sv_runtime_state := callback\<rparr>\<rparr>"

text \<open>
  The listener of a controller. Controllers are numbered; bus and service each hold the number of
  the one they listen to (\<open>olds\<close>), and are listeners under their own user data.
\<close>

definition status_bus_state_change_callback ::
    "dbus_env \<Rightarrow> 'c core_api \<Rightarrow> 'c TypioStatusBus \<Rightarrow> 'c \<Rightarrow> TypioStateChangeType \<Rightarrow> dbus_call list option" where
  "status_bus_state_change_callback env api bus c change_type = status_bus_emit_properties_changed env api bus c"

definition status_bus_bind_state_controller ::
    "bool \<times> bool \<Rightarrow> nat \<times> nat \<Rightarrow> nat option \<times> nat option \<Rightarrow> nat option \<Rightarrow> (nat \<Rightarrow> TypioStateController) \<Rightarrow>
     (nat option \<times> nat option) \<times> (nat \<Rightarrow> TypioStateController)" where
  "status_bus_bind_state_controller realloc users olds ctrl store =
     ((ctrl, ctrl),
      rebind_listener (snd realloc) (snd users) (snd olds) ctrl
        (rebind_listener (fst realloc) (fst users) (fst olds) ctrl store))"

text \<open>
  A new bus, by the answers of the system: the service, the connection, the name and the object
  path.
\<close>

definition status_bus_new :: "bool \<times> bool \<times> bool \<times> bool \<Rightarrow> 'c TypioStatusBus option" where
  "status_bus_new answers = (case answers of (svc, conn, owner, path) \<Rightarrow>
     if \<not> svc then None else if \<not> conn then None else if \<not> owner then None else if \<not> path then None
     else Some \<lparr>sb_conn = True, sb_service = \<lparr>sv_runtime_state = None, sv_stop = None\<rparr>, sb_runtime_state = None, sb_stop = None\<rparr>)"

definition status_bus_dispatch :: "('q \<Rightarrow> bool \<times> 'q) \<Rightarrow> 'c TypioStatusBus \<Rightarrow> 'q \<Rightarrow> int \<times> 'q" where
  "status_bus_dispatch dispatch bus q = (if \<not> sb_conn bus then (- 1, q) else (0, dispatch_messages dispatch 0 q))"

end
