(* ===== verification/Dbus_Laws.thy ===== *)
theory Dbus_Laws
  imports Dbus_Message
begin

section \<open>What the calls build\<close>

text \<open>
  Each writer is described by the values that its calls add to the container it writes to. The
  description composes: a sequence of writers adds the values in turn, a container adds one value.
\<close>

subsection \<open>Calls\<close>

lemma build_append: "build (cs @ ds) fs = Option.bind (build cs fs) (build ds)"
  by (induction cs arbitrary: fs) (auto split: bind_splits)

lemma put_all_append: "put_all (vs @ ws) f = Option.bind (put_all vs f) (put_all ws)"
  by (induction vs arbitrary: f) (auto split: bind_splits)

lemma put_all_frame: "put_all vs (Frame k ws) = Some f \<Longrightarrow> f = Frame k (ws @ vs)"
proof (induction vs arbitrary: ws)
  case (Cons v vs)
  then show ?case by (cases "value_ok v \<and> accepts k ws v") (auto dest: Cons.IH)
qed simp

definition no_failure :: "dbus_builder \<Rightarrow> bool" where
  "no_failure b \<longleftrightarrow> (\<forall>n. \<not> db_fail b n)"

definition adds :: "dbus_iter \<Rightarrow> dbus_value list \<Rightarrow> dbus_builder \<Rightarrow> dbus_builder \<Rightarrow> bool" where
  "adds d vs b b' \<longleftrightarrow> db_fail b' = db_fail b \<and>
     (\<exists>cs. db_calls b' = db_calls b @ cs \<and>
       (\<forall>f fs. length fs = d \<longrightarrow> build cs (f # fs) = map_option (\<lambda>f. f # fs) (put_all vs f)))"

text \<open>A strict writer that succeeds has added its values, and it fails only when a call fails.\<close>

definition writes :: "dbus_iter \<Rightarrow> dbus_value list \<Rightarrow> dbus_action \<Rightarrow> bool" where
  "writes d vs act \<longleftrightarrow> (\<forall>b. (fst (act b) \<longrightarrow> adds d vs b (snd (act b))) \<and> (no_failure b \<longrightarrow> fst (act b)))"

text \<open>A loose writer does not look at failures.\<close>

definition fills :: "dbus_iter \<Rightarrow> dbus_value list \<Rightarrow> dbus_action \<Rightarrow> bool" where
  "fills d vs act \<longleftrightarrow> (\<forall>b. no_failure b \<longrightarrow> adds d vs b (snd (act b)))"

lemma writes_fills: "writes d vs act \<Longrightarrow> fills d vs act"
  by (simp add: writes_def fills_def)

lemma adds_nil: "adds d [] b b"
  by (simp add: adds_def)

lemma adds_trans:
  assumes "adds d vs a b" and "adds d ws b c"
  shows "adds d (vs @ ws) a c"
proof -
  obtain cs ds where
    cs: "db_calls b = db_calls a @ cs" "\<And>f fs. length fs = d \<Longrightarrow> build cs (f # fs) = map_option (\<lambda>f. f # fs) (put_all vs f)" and
    ds: "db_calls c = db_calls b @ ds" "\<And>f fs. length fs = d \<Longrightarrow> build ds (f # fs) = map_option (\<lambda>f. f # fs) (put_all ws f)"
    using assms unfolding adds_def by metis
  have "build (cs @ ds) (f # fs) = map_option (\<lambda>f. f # fs) (put_all (vs @ ws) f)" if "length fs = d" for f fs
    using cs(2) [OF that] ds(2) [OF that] by (auto simp: build_append put_all_append split: bind_splits)
  then show ?thesis using assms cs(1) ds(1) unfolding adds_def by (metis append_assoc)
qed

lemma adds_failure: "adds d vs a b \<Longrightarrow> no_failure a \<Longrightarrow> no_failure b"
  by (simp add: adds_def no_failure_def)

subsection \<open>Sequences\<close>

named_theorems writer \<open>rules that describe a writer by its parts\<close>

lemma writes_nil [writer]: "writes d [] (all_ok [])"
  by (simp add: writes_def adds_nil all_ok.simps)

lemma writes_cons [writer]:
  assumes "writes d vs act" and "writes d ws (all_ok acts)"
  shows "writes d (vs @ ws) (all_ok (act # acts))"
  unfolding writes_def
proof (intro allI conjI impI)
  fix b
  obtain ok b1 where b1: "act b = (ok, b1)" by (cases "act b")
  show "adds d (vs @ ws) b (snd (all_ok (act # acts) b))" if "fst (all_ok (act # acts) b)"
  proof -
    have "ok" and run: "all_ok (act # acts) b = all_ok acts b1" using that b1 by (simp_all add: all_ok.simps split: if_splits)
    then have "adds d vs b b1" using assms(1) b1 by (simp add: writes_def) (metis fst_conv snd_conv)
    moreover have "adds d ws b1 (snd (all_ok acts b1))" using assms(2) that run by (simp add: writes_def)
    ultimately show ?thesis using run by (simp add: adds_trans)
  qed
  assume "no_failure b"
  then have "ok" and "adds d vs b b1" using assms(1) b1 by (auto simp: writes_def dest!: spec [where x = b])
  then have "no_failure b1" using adds_failure \<open>no_failure b\<close> by blast
  then show "fst (all_ok (act # acts) b)" using assms(2) b1 \<open>ok\<close> by (simp add: all_ok.simps writes_def)
qed

lemma fills_nil [writer]: "fills d [] (in_turn [])"
  by (simp add: fills_def adds_nil in_turn.simps)

lemma fills_cons [writer]:
  assumes "fills d vs act" and "fills d ws (in_turn acts)"
  shows "fills d (vs @ ws) (in_turn (act # acts))"
  unfolding fills_def
proof (intro allI impI)
  fix b assume n: "no_failure b"
  then have a: "adds d vs b (snd (act b))" using assms(1) by (simp add: fills_def)
  then have "adds d ws (snd (act b)) (snd (in_turn acts (snd (act b))))"
    using assms(2) adds_failure [OF a n] by (simp add: fills_def)
  with a show "adds d (vs @ ws) b (snd (in_turn (act # acts) b))" by (simp add: in_turn.simps adds_trans)
qed

lemma all_ok_append: "all_ok (xs @ ys) b = (case all_ok xs b of (ok, b) \<Rightarrow> if ok then all_ok ys b else (False, b))"
  by (induction xs arbitrary: b) (auto simp: all_ok.simps split: prod.splits)

lemma in_turn_append: "in_turn (xs @ ys) b = in_turn ys (snd (in_turn xs b))"
  by (induction xs arbitrary: b) (simp_all add: in_turn.simps)

lemma writes_concat:
  "list_all2 (writes d) vss acts \<Longrightarrow> writes d (concat vss) (all_ok acts)"
  by (induction rule: list_all2_induct) (auto intro: writer)

lemma fills_concat:
  "list_all2 (fills d) vss acts \<Longrightarrow> fills d (concat vss) (in_turn acts)"
  by (induction rule: list_all2_induct) (auto intro: writer)

lemma writes_map:
  "(\<And>x. x \<in> set xs \<Longrightarrow> writes d (vs x) (act x)) \<Longrightarrow> writes d (concat (map vs xs)) (all_ok (map act xs))"
  by (induction xs) (auto intro: writer)

lemma fills_map:
  "(\<And>x. x \<in> set xs \<Longrightarrow> fills d (vs x) (act x)) \<Longrightarrow> fills d (concat (map vs xs)) (in_turn (map act xs))"
  by (induction xs) (auto intro: writer)

subsection \<open>Basic values and containers\<close>

lemma call_writes:
  assumes "\<And>f fs. length fs = d \<Longrightarrow> build_step c (f # fs) = map_option (\<lambda>f. f # fs) (put_all vs f)"
  shows "writes d vs (dbus_call c)"
proof -
  have "build [c] (f # fs) = map_option (\<lambda>f. f # fs) (put_all vs f)" if "length fs = d" for f fs
    using assms [OF that] by (cases "put_all vs f") simp_all
  then show ?thesis
    unfolding writes_def adds_def dbus_call_def no_failure_def Let_def by (auto split: if_splits)
qed

lemma append_basic_writes [writer]: "writes d [V_basic v] (append_basic d v)"
  unfolding append_basic_def by (rule call_writes) (auto split: bind_splits)

lemma append_bytes_writes [writer]: "writes d (map (\<lambda>b. V_basic (B_byte b)) bs) (append_bytes d bs)"
  unfolding append_bytes_def by (rule call_writes) simp

text \<open>What is put into a new container, until it is closed.\<close>

definition in_container :: "dbus_container \<Rightarrow> dbus_value list \<Rightarrow> dbus_value \<Rightarrow> bool" where
  "in_container k vs v \<longleftrightarrow> put_all vs (Frame (Some k) []) = Some (Frame (Some k) vs) \<and> finished k vs = Some v"

definition made :: "dbus_call \<Rightarrow> dbus_builder \<Rightarrow> dbus_builder \<Rightarrow> bool" where
  "made c b b' \<longleftrightarrow> db_calls b' = db_calls b @ [c] \<and> db_fail b' = db_fail b"

lemma around_container:
  assumes "made (Open_container d k) a b" and "adds (d + 1) vs b b'" and "made (Close_container d) b' c"
    and "in_container k vs v"
  shows "adds d [v] a c"
proof -
  obtain cs where cs: "db_calls b' = db_calls b @ cs"
      "\<And>f fs. length fs = d + 1 \<Longrightarrow> build cs (f # fs) = map_option (\<lambda>f. f # fs) (put_all vs f)"
    using assms(2) unfolding adds_def by metis
  have "build (Open_container d k # cs @ [Close_container d]) (f # fs) = map_option (\<lambda>f. f # fs) (put_all [v] f)"
    if "length fs = d" for f fs
  proof -
    have "build cs (Frame (Some k) [] # f # fs) = Some (Frame (Some k) vs # f # fs)"
      using cs(2) [of "f # fs"] that assms(4) by (simp add: in_container_def)
    then show ?thesis
      using that assms(4) by (cases "put v f") (simp_all add: build_append in_container_def)
  qed
  moreover have "db_calls c = db_calls a @ (Open_container d k # cs @ [Close_container d])" "db_fail c = db_fail a"
    using assms(1-3) cs(1) by (simp_all add: made_def adds_def)
  ultimately show ?thesis unfolding adds_def by blast
qed

lemma call_success: "fst (dbus_call c b) \<Longrightarrow> made c b (snd (dbus_call c b))"
  by (auto simp: dbus_call_def made_def Let_def split: if_splits)

lemma call_total: "no_failure b \<Longrightarrow> fst (dbus_call c b)"
  by (simp add: dbus_call_def no_failure_def Let_def)

lemma made_failure: "made c a b \<Longrightarrow> no_failure a \<Longrightarrow> no_failure b"
  by (simp add: made_def no_failure_def)

lemma container_writes:
  assumes "writes (d + 1) vs (all_ok acts)" and "in_container k vs v"
  shows "writes d [v] (container d k acts)"
  unfolding writes_def
proof (intro allI conjI impI)
  fix b
  obtain o1 b1 where b1: "dbus_call (Open_container d k) b = (o1, b1)" by (cases "dbus_call (Open_container d k) b")
  obtain o2 b2 where b2: "all_ok acts b1 = (o2, b2)" by (cases "all_ok acts b1")
  obtain o3 b3 where b3: "dbus_call (Close_container d) b2 = (o3, b3)" by (cases "dbus_call (Close_container d) b2")
  have run: "container d k acts b = (if \<not> o1 then (False, b1) else if \<not> o2 then (False, b2) else (o3, b3))"
    by (simp add: container_def all_ok.simps all_ok_append open_container_def close_container_def b1 b2 b3)
  {
    assume "fst (container d k acts b)"
    then have ok: "o1" "o2" "o3" unfolding run by (auto split: if_splits)
    have "made (Open_container d k) b b1" "made (Close_container d) b2 b3"
      using call_success [of "Open_container d k" b] call_success [of "Close_container d" b2] b1 b3 ok by auto
    moreover have "adds (d + 1) vs b1 b2" using assms(1) b2 ok unfolding writes_def by (metis fst_conv snd_conv)
    ultimately have "adds d [v] b b3" using assms(2) by (blast intro: around_container)
    then show "adds d [v] b (snd (container d k acts b))" using ok unfolding run by simp
  next
    assume n: "no_failure b"
    then have "o1" using call_total [of b "Open_container d k"] b1 by simp
    then have n1: "no_failure b1" using call_success [of "Open_container d k" b] b1 made_failure n by fastforce
    then have "o2" and "adds (d + 1) vs b1 b2" using assms(1) b2 unfolding writes_def by (metis fst_conv snd_conv)+
    then have n2: "no_failure b2" using adds_failure n1 by blast
    then have "o3" using call_total [of b2 "Close_container d"] b3 by simp
    then show "fst (container d k acts b)" using \<open>o1\<close> \<open>o2\<close> unfolding run by simp
  }
qed

lemma loose_container_fills:
  assumes "fills (d + 1) vs (in_turn acts)" and "in_container k vs v"
  shows "fills d [v] (loose_container d k acts)"
  unfolding fills_def
proof (intro allI impI)
  fix b assume n: "no_failure b"
  let ?b1 = "snd (dbus_call (Open_container d k) b)"
  let ?b2 = "snd (in_turn acts ?b1)"
  let ?b3 = "snd (dbus_call (Close_container d) ?b2)"
  have m1: "made (Open_container d k) b ?b1" using call_success call_total n by blast
  then have n1: "no_failure ?b1" using made_failure n by blast
  then have a: "adds (d + 1) vs ?b1 ?b2" using assms(1) by (simp add: fills_def)
  have n2: "no_failure ?b2" using adds_failure [OF a n1] .
  then have "made (Close_container d) ?b2 ?b3" using call_success call_total by blast
  from around_container [OF m1 a this assms(2)] show "adds d [v] b (snd (loose_container d k acts b))"
    by (simp add: loose_container_def open_container_def close_container_def in_turn.simps in_turn_append)
qed

lemma in_array: "list_all (\<lambda>v. value_sig v = s \<and> value_ok v) vs \<Longrightarrow> in_container (In_array s) vs (V_array s vs)"
proof -
  assume ok: "list_all (\<lambda>v. value_sig v = s \<and> value_ok v) vs"
  have "put_all vs (Frame (Some (In_array s)) ws) = Some (Frame (Some (In_array s)) (ws @ vs))" for ws
    using ok by (induction vs arbitrary: ws) simp_all
  then show ?thesis by (simp add: in_container_def)
qed

lemma in_variant: "value_ok v \<Longrightarrow> \<not> is_entry v \<Longrightarrow> value_sig v = s \<Longrightarrow> in_container (In_variant s) [v] (V_variant v)"
  by (simp add: in_container_def)

lemma in_struct:
  assumes "vs \<noteq> []" and "list_all (\<lambda>v. \<not> is_entry v \<and> value_ok v) vs"
  shows "in_container In_struct vs (V_struct vs)"
proof -
  have "put_all vs (Frame (Some In_struct) ws) = Some (Frame (Some In_struct) (ws @ vs))" for ws
    using assms(2) by (induction vs arbitrary: ws) simp_all
  then show ?thesis using assms(1) by (simp add: in_container_def)
qed

lemma in_dict_entry:
  "is_basic k \<Longrightarrow> value_ok k \<Longrightarrow> \<not> is_entry v \<Longrightarrow> value_ok v \<Longrightarrow> in_container In_dict_entry [k, v] (V_entry k v)"
  by (simp add: in_container_def)

subsection \<open>Strings\<close>

lemma utf8_valid_one [simp]: "between 0x01 0x7F a \<Longrightarrow> utf8_valid (a # s) = utf8_valid s"
  by (simp add: utf8_valid.simps)

lemma utf8_valid_append [simp]: "utf8_valid s \<Longrightarrow> utf8_valid (s @ t) = utf8_valid t"
proof (induction s rule: utf8_valid.induct)
  case (2 a s)
  show ?case
  proof (cases "between 0x01 0x7F a")
    case True
    with 2 show ?thesis by simp
  next
    case one: False
    with 2(5) obtain b s1 where s: "s = b # s1" by (cases s) (auto simp: utf8_valid.simps)
    show ?thesis
    proof (cases "between 0xC2 0xDF a")
      case True
      with 2(2) [OF one s] 2(5) one s show ?thesis by (simp add: utf8_valid.simps)
    next
      case two: False
      with 2(5) one s obtain c s2 where s1: "s1 = c # s2" by (cases s1) (auto simp: utf8_valid.simps)
      show ?thesis
      proof (cases "between 0xE0 0xEF a")
        case True
        with 2(3) [OF one s two s1] 2(5) one two s s1 show ?thesis by (simp add: utf8_valid.simps)
      next
        case three: False
        with 2(5) one two s s1 obtain e s3 where s2: "s2 = e # s3" by (cases s2) (auto simp: utf8_valid.simps)
        with 2(4) [OF one s two s1 three s2] 2(5) one two three s s1 show ?thesis by (simp add: utf8_valid.simps)
      qed
    qed
  qed
qed simp

definition ascii :: "string \<Rightarrow> bool" where
  "ascii s \<longleftrightarrow> list_all (between 0x01 0x7F) s"

lemma utf8_ascii: "ascii s \<Longrightarrow> utf8_valid s"
  by (induction s) (simp_all add: ascii_def)

lemma utf8_ascii_append: "ascii s \<Longrightarrow> utf8_valid (s @ t) = utf8_valid t"
  by (simp add: utf8_ascii)

subsection \<open>Entries\<close>

definition entry :: "string \<Rightarrow> dbus_basic \<Rightarrow> dbus_value" where
  "entry key b = V_entry (V_string key) (V_variant (V_basic b))"

lemma variant_entry_writes:
  assumes "utf8_valid key" and "basic_ok b" and "s = basic_sig b"
  shows "writes d [entry key b]
    (container d In_dict_entry
      [append_basic (d + 1) (B_string (Some key)), container (d + 1) (In_variant s) [append_basic (d + 2) b]])"
proof -
  have "writes (d + 2) ([V_basic b] @ []) (all_ok [append_basic (d + 2) b])" by (intro writer)
  then have "writes (d + 1) [V_variant (V_basic b)] (container (d + 1) (In_variant s) [append_basic (d + 2) b])"
    by (intro container_writes [where vs = "[V_basic b]"] in_variant) (simp_all add: assms numeral_2_eq_2)
  then have "writes (d + 1) ([V_string key] @ [V_variant (V_basic b)] @ [])
      (all_ok [append_basic (d + 1) (B_string (Some key)), container (d + 1) (In_variant s) [append_basic (d + 2) b]])"
    by (intro writer)
  from container_writes [OF this [simplified append.simps] in_dict_entry] show ?thesis
    unfolding entry_def by (simp add: assms)
qed

lemma dict_entry_string_writes [writer]:
  "utf8_valid key \<Longrightarrow> utf8_valid (or_empty v) \<Longrightarrow>
   writes d [entry key (B_string (Some (or_empty v)))] (append_dict_entry_string d key v)"
  unfolding append_dict_entry_string_def Let_def or_empty_def
  by (intro variant_entry_writes) (simp_all split: option.splits)

lemma dict_entry_bool_writes [writer]:
  "utf8_valid key \<Longrightarrow> writes d [entry key (B_boolean v)] (append_dict_entry_bool d key v)"
  unfolding append_dict_entry_bool_def by (intro variant_entry_writes) simp_all

lemma dict_entry_int32_writes [writer]:
  "utf8_valid key \<Longrightarrow> writes d [entry key (B_int32 v)] (append_dict_entry_int32 d key v)"
  unfolding append_dict_entry_int32_def by (intro variant_entry_writes) simp_all

lemma dict_entry_uint32_writes [writer]:
  "utf8_valid key \<Longrightarrow> writes d [entry key (B_uint32 v)] (append_dict_entry_uint32 d key v)"
  unfolding append_dict_entry_uint32_def by (intro variant_entry_writes) simp_all

lemma dict_entry_double_writes [writer]:
  "utf8_valid key \<Longrightarrow> writes d [entry key (B_double v)] (append_dict_entry_double d key v)"
  unfolding append_dict_entry_double_def by (intro variant_entry_writes) simp_all

lemma dict_entry_object_path_writes [writer]:
  "utf8_valid key \<Longrightarrow> starts_with ''/'' v \<Longrightarrow>
   writes d [entry key (B_object_path v)] (append_dict_entry_object_path d key v)"
  unfolding append_dict_entry_object_path_def by (intro variant_entry_writes) simp_all

lemma string_map_entry_writes [writer]:
  assumes "utf8_valid key" and "utf8_valid (or_empty v)"
  shows "writes d [V_entry (V_string key) (V_string (or_empty v))] (append_string_map_entry d key v)"
proof -
  have "writes (d + 1) ([V_string key] @ [V_string t] @ [])
      (all_ok [append_basic (d + 1) (B_string (Some key)), append_basic (d + 1) (B_string (Some t))])" for t
    by (intro writer)
  from container_writes [OF this [simplified append.simps] in_dict_entry] assms show ?thesis
    unfolding append_string_map_entry_def Let_def or_empty_def by (simp split: option.splits)
qed

lemma entry_simps [simp]:
  "value_sig (entry key b) = ''{sv}''"
  "value_ok (entry key b) \<longleftrightarrow> utf8_valid key \<and> basic_ok b"
  "is_entry (entry key b)"
  by (simp_all add: entry_def)

subsection \<open>Messages\<close>

lemma body_fills:
  assumes "fills 0 vs act" and "\<And>n. \<not> de_fail env n" and "list_all (\<lambda>v. value_ok v \<and> \<not> is_entry v) vs"
  shows "message_body (db_calls (snd (act (new_builder env)))) = Some vs"
proof -
  have "no_failure (new_builder env)" using assms(2) by (simp add: no_failure_def new_builder_def)
  then have "adds 0 vs (new_builder env) (snd (act (new_builder env)))" using assms(1) by (simp add: fills_def)
  then have "build (db_calls (snd (act (new_builder env)))) [Frame None []] = map_option (\<lambda>f. [f]) (put_all vs (Frame None []))"
    by (auto simp: adds_def new_builder_def)
  moreover have "put_all vs (Frame None ws) = Some (Frame None (ws @ vs))" for ws
    using assms(3) by (induction vs arbitrary: ws) simp_all
  ultimately show ?thesis by (simp add: message_body_def)
qed

lemma body_writes:
  assumes "writes 0 vs act" and "fst (act (new_builder env))" and "list_all (\<lambda>v. value_ok v \<and> \<not> is_entry v) vs"
  shows "message_body (db_calls (snd (act (new_builder env)))) = Some vs"
proof -
  have "adds 0 vs (new_builder env) (snd (act (new_builder env)))" using assms(1,2) by (simp add: writes_def)
  then have "build (db_calls (snd (act (new_builder env)))) [Frame None []] = map_option (\<lambda>f. [f]) (put_all vs (Frame None []))"
    by (auto simp: adds_def new_builder_def)
  moreover have "put_all vs (Frame None ws) = Some (Frame None (ws @ vs))" for ws
    using assms(3) by (induction vs arbitrary: ws) simp_all
  ultimately show ?thesis by (simp add: message_body_def)
qed

lemma writes_success:
  "writes d vs act \<Longrightarrow> (\<And>n. \<not> de_fail env n) \<Longrightarrow> fst (act (new_builder env))"
  by (simp add: writes_def no_failure_def new_builder_def)

text \<open>Everything that a message is built from is well-formed.\<close>

definition frame_ok :: "dbus_frame \<Rightarrow> bool" where
  "frame_ok f = (case f of Frame k vs \<Rightarrow>
     (case k of
        None \<Rightarrow> list_all (\<lambda>v. value_ok v \<and> \<not> is_entry v) vs
      | Some (In_array s) \<Rightarrow> list_all (\<lambda>v. value_sig v = s \<and> value_ok v) vs
      | Some (In_variant s) \<Rightarrow> list_all (\<lambda>v. value_ok v \<and> \<not> is_entry v) vs
      | Some In_struct \<Rightarrow> list_all (\<lambda>v. value_ok v \<and> \<not> is_entry v) vs
      | Some In_dict_entry \<Rightarrow> length vs \<le> 2 \<and> list_all value_ok vs \<and>
          (vs \<noteq> [] \<longrightarrow> is_basic (hd vs)) \<and> list_all (\<lambda>v. \<not> is_entry v) (tl vs)))"

lemma put_frame_ok: "put v f = Some f' \<Longrightarrow> frame_ok f \<Longrightarrow> frame_ok f'"
  by (induction v f rule: put.induct)
    (auto simp: frame_ok_def hd_append split: option.splits dbus_container.splits if_splits)

lemma put_all_frame_ok: "put_all vs f = Some f' \<Longrightarrow> frame_ok f \<Longrightarrow> frame_ok f'"
  by (induction vs arbitrary: f) (auto intro: put_frame_ok split: bind_splits)

lemma build_step_ok: "build_step c fs = Some fs' \<Longrightarrow> list_all frame_ok fs \<Longrightarrow> list_all frame_ok fs'"
  by (induction c fs rule: build_step.induct)
    (auto simp: frame_ok_def [of "Frame (Some _) []"] split: if_splits bind_splits dbus_container.splits
      intro: put_frame_ok put_all_frame_ok)

lemma message_body_ok: "message_body cs = Some vs \<Longrightarrow> list_all value_ok vs"
proof -
  assume body: "message_body cs = Some vs"
  have "build cs fs = Some fs' \<Longrightarrow> list_all frame_ok fs \<Longrightarrow> list_all frame_ok fs'" for fs fs'
    by (induction cs arbitrary: fs) (auto dest: build_step_ok split: bind_splits)
  from this [of "[Frame None []]"] body show ?thesis
    by (auto simp: message_body_def frame_ok_def list_all_iff split: option.splits list.splits dbus_frame.splits)
qed

end
