(* ===== verification/Status_Dbus_Laws.thy ===== *)
theory Status_Dbus_Laws
  imports Status_Dbus Dbus_Laws Status_Laws
begin

section \<open>What the status interface reports\<close>

text \<open>
  The value of every property, the calls that write it, its JSON text, and what the methods of the
  interface make of their arguments.
\<close>

subsection \<open>The values\<close>

definition text_entry :: "string \<Rightarrow> string option \<Rightarrow> dbus_value" where
  "text_entry k s = entry k (B_string (Some (or_empty s)))"

definition mode_values :: "TypioEngineMode \<Rightarrow> string \<Rightarrow> string \<Rightarrow> dbus_value list" where
  "mode_values m label icon =
     [text_entry ''mode_class'' (Some (mode_class_name (em_class m))), text_entry ''mode_id'' (em_mode_id m),
      text_entry label (em_display_label m), text_entry icon (em_icon_name m)]"

definition info_values :: "TypioEngineInfo \<Rightarrow> dbus_value list" where
  "info_values i =
     [text_entry ''name'' (ei_name i), text_entry ''display_name'' (ei_display_name i), text_entry ''icon'' (ei_icon i),
      text_entry ''language'' (ei_language i), text_entry ''engine_type'' (Some (engine_type_name (ei_type i))),
      entry ''capabilities'' (B_uint32 (ei_capabilities i))]"

definition config_values :: "string \<times> TypioConfigValue option \<Rightarrow> dbus_value list" where
  "config_values kv = (if fst kv = [] then [] else (case snd kv of
       None \<Rightarrow> []
     | Some (ConfigString s) \<Rightarrow> [text_entry (''config.'' @ fst kv) s]
     | Some (ConfigInt i) \<Rightarrow> [entry (''config.'' @ fst kv) (B_int32 i)]
     | Some (ConfigBool x) \<Rightarrow> [entry (''config.'' @ fst kv) (B_boolean x)]
     | Some (ConfigFloat t) \<Rightarrow> [entry (''config.'' @ fst kv) (B_double t)]
     | Some ConfigOther \<Rightarrow> []))"

definition engine_configs :: "'c core_api \<Rightarrow> 'c \<Rightarrow> (string \<times> TypioConfigValue option) list" where
  "engine_configs api c =
     (let engine_name = or_empty (Option.bind (status_active_keyboard_engine api c) ce_name) in
      if engine_name = [] then [] else (case co_engine_config api engine_name c of None \<Rightarrow> [] | Some kvs \<Rightarrow> kvs))"

definition engine_state_values :: "'c core_api \<Rightarrow> 'c \<Rightarrow> dbus_value list" where
  "engine_state_values api c =
     (let engine = status_active_keyboard_engine api c; path = Option.bind engine ce_config_path in
      (case Option.bind engine ce_info of None \<Rightarrow> [] | Some i \<Rightarrow> info_values i) @
      (case engine of None \<Rightarrow> [] | Some e \<Rightarrow> [entry ''active'' (B_boolean (ce_active e))]) @
      (if or_empty path = [] then [] else [text_entry ''config_path'' path]) @
      (case co_last_mode api c of None \<Rightarrow> [] | Some m \<Rightarrow> mode_values m ''mode_display_label'' ''mode_icon'') @
      concat (map config_values (engine_configs api c)))"

definition runtime_values :: "TypioStatusRuntimeState \<Rightarrow> dbus_value list" where
  "runtime_values st =
     [text_entry ''frontend_backend'' (rs_frontend_backend st), text_entry ''lifecycle_phase'' (rs_lifecycle_phase st),
      text_entry ''virtual_keyboard_state'' (rs_virtual_keyboard_state st),
      entry ''keyboard_grab_active'' (B_boolean (rs_keyboard_grab_active st)),
      entry ''virtual_keyboard_has_keymap'' (B_boolean (rs_virtual_keyboard_has_keymap st)),
      entry ''watchdog_armed'' (B_boolean (rs_watchdog_armed st)),
      entry ''active_key_generation'' (B_uint32 (rs_active_key_generation st)),
      entry ''virtual_keyboard_keymap_generation'' (B_uint32 (rs_keymap_generation st)),
      entry ''virtual_keyboard_drop_count'' (B_uint32 (rs_drop_count st)),
      entry ''virtual_keyboard_state_age_ms'' (B_uint32 (rs_state_age_ms st)),
      entry ''virtual_keyboard_keymap_age_ms'' (B_uint32 (rs_keymap_age_ms st)),
      entry ''virtual_keyboard_forward_age_ms'' (B_uint32 (rs_forward_age_ms st)),
      entry ''virtual_keyboard_keymap_deadline_remaining_ms'' (B_int32 (rs_deadline_remaining_ms st))]"

definition runtime_state_of :: "'c TypioStatusBus \<Rightarrow> 'c \<Rightarrow> TypioStatusRuntimeState" where
  "runtime_state_of bus c = (case sb_runtime_state bus of None \<Rightarrow> zero_runtime_state | Some f \<Rightarrow> f c)"

definition names_value :: "string list \<Rightarrow> dbus_value" where
  "names_value names = V_array ''s'' (map V_string names)"

definition engines_listed :: "'c core_api \<Rightarrow> 'c \<Rightarrow> string list" where
  "engines_listed api c = (if co_has_manager api then co_list api c else [])"

definition labels_value :: "'c core_api \<Rightarrow> 'c \<Rightarrow> dbus_value" where
  "labels_value api c =
     V_array ''{ss}''
       (map (\<lambda>n. V_entry (V_string n) (V_string (or_empty (co_label api n c))))
         (filter (\<lambda>n. n \<noteq> [] \<and> or_empty (co_label api n c) \<noteq> []) (engines_listed api c)))"

definition property_value :: "'c core_api \<Rightarrow> 'c TypioStatusBus \<Rightarrow> 'c \<Rightarrow> string \<Rightarrow> dbus_value option" where
  "property_value api bus c property =
     (let active = V_string (or_empty (engine_name_or_blank (status_active_keyboard_engine api c)));
          ordered = names_value (if co_has_manager api then co_list_ordered_keyboards api c else []);
          typed = (\<lambda>t. names_value (if co_has_manager api then co_list_by_type api t c else []))
      in map_of
          [(''Version'', V_string (co_version api)),
           (''ActiveKeyboardEngine'', active), (''ActiveEngine'', active),
           (''AvailableKeyboardEngines'', typed ENGINE_TYPE_KEYBOARD),
           (''AvailableEngines'', names_value (engines_listed api c)),
           (''OrderedKeyboardEngines'', ordered), (''OrderedEngines'', ordered),
           (''EngineDisplayNames'', labels_value api c),
           (''EngineOrder'', names_value (List.map_filter (\<lambda>n. n) (co_engine_order api c))),
           (''AvailableVoiceEngines'', typed ENGINE_TYPE_VOICE),
           (''ActiveVoiceEngine'', V_string (or_empty (engine_name_or_blank (status_active_voice_engine api c)))),
           (''ActiveEngineState'', V_array ''{sv}'' (engine_state_values api c)),
           (''ActiveEngineMode'', V_array ''{sv}''
              (case co_last_mode api c of None \<Rightarrow> [] | Some m \<Rightarrow> mode_values m ''display_label'' ''icon_name'')),
           (''RuntimeState'', V_array ''{sv}'' (runtime_values (runtime_state_of bus c))),
           (''RimeSchema'', V_string (or_empty (co_rime_schema api c))),
           (''ConfigText'', V_string (or_empty (co_config_text api c)))] property)"

text \<open>The texts of the core are UTF-8 and its active engines have names.\<close>

definition named_engine :: "core_engine option \<Rightarrow> bool" where
  "named_engine e \<longleftrightarrow> (case e of None \<Rightarrow> True | Some e \<Rightarrow> ce_name e \<noteq> None)"

definition core_texts_ok :: "'c core_api \<Rightarrow> 'c TypioStatusBus \<Rightarrow> 'c \<Rightarrow> bool" where
  "core_texts_ok api bus c \<longleftrightarrow>
     named_engine (status_active_keyboard_engine api c) \<and> named_engine (status_active_voice_engine api c) \<and>
     list_all (\<lambda>p. case property_value api bus c p of None \<Rightarrow> True | Some v \<Rightarrow> value_ok v) status_properties"

subsection \<open>Writing the values\<close>

lemma utf8_keys [simp]:
  "utf8_valid ''mode_class''" "utf8_valid ''mode_id''" "utf8_valid ''display_label''"
  "utf8_valid ''icon_name''" "utf8_valid ''mode_display_label''" "utf8_valid ''mode_icon''"
  "utf8_valid ''name''" "utf8_valid ''display_name''" "utf8_valid ''icon''"
  "utf8_valid ''language''" "utf8_valid ''engine_type''" "utf8_valid ''capabilities''"
  "utf8_valid ''active''" "utf8_valid ''config_path''" "utf8_valid ''frontend_backend''"
  "utf8_valid ''lifecycle_phase''" "utf8_valid ''virtual_keyboard_state''" "utf8_valid ''keyboard_grab_active''"
  "utf8_valid ''virtual_keyboard_has_keymap''" "utf8_valid ''watchdog_armed''" "utf8_valid ''active_key_generation''"
  "utf8_valid ''virtual_keyboard_keymap_generation''" "utf8_valid ''virtual_keyboard_drop_count''" "utf8_valid ''virtual_keyboard_state_age_ms''"
  "utf8_valid ''virtual_keyboard_keymap_age_ms''" "utf8_valid ''virtual_keyboard_forward_age_ms''" "utf8_valid ''virtual_keyboard_keymap_deadline_remaining_ms''"
  "utf8_valid ''native''" "utf8_valid ''latin''" "utf8_valid ''voice''"
  "utf8_valid ''keyboard''"
  by code_simp+

lemma utf8_class_names [simp]: "utf8_valid (mode_class_name m)" "utf8_valid (engine_type_name t)"
  by (simp_all add: mode_class_name_def engine_type_name_def)

lemma writes_one [writer]: "writes d [v] act \<Longrightarrow> writes d vs (all_ok acts) \<Longrightarrow> writes d (v # vs) (all_ok (act # acts))"
  using writes_cons [of d "[v]" act vs acts] by simp

lemma writes_part: "writes d vs act \<Longrightarrow> writes d ws (all_ok acts) \<Longrightarrow> writes d (vs @ ws) (all_ok (act # acts))"
  by (rule writes_cons)

lemma writes_single: "writes d vs act \<Longrightarrow> writes d vs (all_ok [act])"
  using writes_cons [of d vs act "[]" "[]"] writes_nil by simp

lemma text_entry_writes [writer]:
  "utf8_valid k \<Longrightarrow> utf8_valid (or_empty s) \<Longrightarrow> writes d [text_entry k s] (append_dict_entry_string d k s)"
  unfolding text_entry_def by (rule dict_entry_string_writes)

lemma text_entry_or_empty_writes [writer]:
  "utf8_valid k \<Longrightarrow> utf8_valid (or_empty s) \<Longrightarrow> writes d [text_entry k s] (append_dict_entry_string d k (Some (or_empty s)))"
  using dict_entry_string_writes [of k "Some (or_empty s)" d] by (simp add: text_entry_def)

lemma text_entry_simps [simp]:
  "value_sig (text_entry k s) = ''{sv}''"
  "value_ok (text_entry k s) \<longleftrightarrow> utf8_valid k \<and> utf8_valid (or_empty s)"
  "is_entry (text_entry k s)"
  by (simp_all add: text_entry_def)

lemma variant_writes:
  assumes "writes (d + 1) [v] act" and "value_ok v" and "\<not> is_entry v" and "value_sig v = s"
  shows "writes d [V_variant v] (container d (In_variant s) [act])"
  by (rule container_writes [OF writes_single [OF assms(1)] in_variant [OF assms(2-4)]])

lemma string_variant_writes: "utf8_valid s \<Longrightarrow> writes d [V_variant (V_string s)] (append_string_variant d (Some s))"
  unfolding append_string_variant_def by (intro variant_writes append_basic_writes) simp_all

lemma closing_container_writes:
  assumes "writes (d + 1) vs (all_ok acts)" and "in_container k vs v"
  shows "writes d [v] (closing_container d k acts)"
proof -
  have same: "(fst (closing_container d k acts b) \<longrightarrow> container d k acts b = closing_container d k acts b) \<and>
      (fst (container d k acts b) \<longrightarrow> container d k acts b = closing_container d k acts b)" for b
    by (auto simp: container_def closing_container_def all_ok.simps all_ok_append split: prod.splits)
  show ?thesis
    using container_writes [OF assms] same unfolding writes_def by metis
qed

text \<open>An array that is well-formed is written element by element.\<close>

lemma array_container: "value_ok (V_array s vs) \<Longrightarrow> in_container (In_array s) vs (V_array s vs)"
  by (rule in_array) simp

lemma names_writes: "value_ok (names_value names) \<Longrightarrow> writes d [names_value names] (append_names d names)"
proof -
  assume ok: "value_ok (names_value names)"
  have "writes (d + 1) (concat (map (\<lambda>n. [V_string n]) names))
      (all_ok (map (\<lambda>n. append_basic (d + 1) (B_string (Some n))) names))"
    by (intro writes_map writer)
  moreover have "concat (map (\<lambda>n. [V_string n]) names) = map V_string names" by (induction names) simp_all
  ultimately show ?thesis
    using array_container ok unfolding append_names_def names_value_def by (metis container_writes)
qed

lemma labels_writes:
  assumes "value_ok (labels_value api c)"
  shows "writes d [labels_value api c] (append_engine_display_names_dict d api c)"
proof -
  let ?ns = "filter (\<lambda>n. n \<noteq> [] \<and> or_empty (co_label api n c) \<noteq> []) (engines_listed api c)"
  let ?v = "\<lambda>n. V_entry (V_string n) (V_string (or_empty (co_label api n c)))"
  have ok: "utf8_valid n \<and> utf8_valid (or_empty (co_label api n c))" if "n \<in> set ?ns" for n
    using assms that by (auto simp: labels_value_def list_all_iff)
  have "writes (d + 1) (concat (map (\<lambda>n. [?v n]) ?ns))
      (all_ok (map (\<lambda>n. append_string_map_entry (d + 1) n (co_label api n c)) ?ns))"
    by (intro writes_map string_map_entry_writes) (use ok in blast)+
  moreover have "concat (map (\<lambda>n. [?v n]) ns) = map ?v ns" for ns by (induction ns) simp_all
  ultimately show ?thesis
    using array_container assms unfolding append_engine_display_names_dict_def labels_value_def engines_listed_def
    by (metis (no_types, lifting) container_writes)
qed

lemma config_entries_write:
  "list_all value_ok (concat (map config_values kvs)) \<Longrightarrow>
   writes d (concat (map config_values kvs)) (append_config_entries d kvs)"
proof (induction kvs)
  case Nil
  then show ?case by (simp add: writes_nil)
next
  case (Cons kv kvs)
  obtain k v where kv: "kv = (k, v)" by (cases kv)
  have rest: "writes d (concat (map config_values kvs)) (append_config_entries d kvs)" using Cons by simp
  have "writes d (config_values kv) (append_config_entry d (''config.'' @ k) w)" if "k \<noteq> []" "v = Some w" for w
    using Cons.prems that kv
    by (cases w) (auto simp: config_values_def append_config_entry_def intro: writer)
  note entry_part = this
  show ?case
  proof (cases "k = [] \<or> v = None")
    case True
    then have "config_values kv = []" by (auto simp: kv config_values_def)
    with True rest show ?thesis by (auto simp: kv)
  next
    case False
    then obtain w where w: "v = Some w" "k \<noteq> []" by auto
    from writes_part [OF entry_part [OF w(2,1)] writes_single [OF rest]] w show ?thesis by (simp add: kv)
  qed
qed

lemma mode_writes:
  "list_all value_ok (mode_values m l i) \<Longrightarrow>
   writes d (mode_values m l i)
     (all_ok [append_dict_entry_string d ''mode_class'' (Some (mode_class_name (em_class m))),
        append_dict_entry_string d ''mode_id'' (em_mode_id m),
        append_dict_entry_string d l (em_display_label m), append_dict_entry_string d i (em_icon_name m)])"
  unfolding mode_values_def by (intro writer) simp_all

lemma info_writes: "list_all value_ok (info_values i) \<Longrightarrow> writes d (info_values i) (append_engine_info d i)"
  unfolding info_values_def append_engine_info_def by (intro writer) simp_all

lemma runtime_writes:
  assumes "value_ok (V_array ''{sv}'' (runtime_values (runtime_state_of bus c)))"
  shows "writes d [V_array ''{sv}'' (runtime_values (runtime_state_of bus c))] (append_runtime_state_dict d bus c)"
proof -
  have "list_all value_ok (runtime_values (runtime_state_of bus c))" using assms by (simp add: list_all_iff)
  then show ?thesis
    unfolding append_runtime_state_dict_def Let_def runtime_state_of_def [symmetric]
    by (intro closing_container_writes [OF _ array_container [OF assms]]) (simp only: runtime_values_def, intro writer, simp_all)
qed

lemma engine_state_writes:
  assumes "value_ok (V_array ''{sv}'' (engine_state_values api c))"
  shows "writes d [V_array ''{sv}'' (engine_state_values api c)] (append_active_engine_state_dict d api c)"
proof -
  let ?e = "status_active_keyboard_engine api c"
  have ok: "list_all value_ok (engine_state_values api c)" using assms by (simp add: list_all_iff)
  show ?thesis
    unfolding append_active_engine_state_dict_def Let_def
  proof (rule closing_container_writes [OF _ array_container [OF assms]], unfold engine_state_values_def Let_def, intro writes_part)
    show "writes (d + 1) (case Option.bind ?e ce_info of None \<Rightarrow> [] | Some i \<Rightarrow> info_values i)
        (case Option.bind ?e ce_info of None \<Rightarrow> all_ok [] | Some i \<Rightarrow> append_engine_info (d + 1) i)"
      using ok by (auto simp: engine_state_values_def Let_def intro: writes_nil info_writes split: option.split)
    show "writes (d + 1) (case ?e of None \<Rightarrow> [] | Some e \<Rightarrow> [entry ''active'' (B_boolean (ce_active e))])
        (case ?e of None \<Rightarrow> all_ok [] | Some e \<Rightarrow> append_dict_entry_bool (d + 1) ''active'' (ce_active e))"
      using ok by (auto simp: engine_state_values_def Let_def intro: writer split: option.split)
    show "writes (d + 1) (if or_empty (Option.bind ?e ce_config_path) = [] then [] else [text_entry ''config_path'' (Option.bind ?e ce_config_path)])
        (if or_empty (Option.bind ?e ce_config_path) = [] then all_ok [] else append_dict_entry_string (d + 1) ''config_path'' (Option.bind ?e ce_config_path))"
      using ok by (auto simp: engine_state_values_def Let_def intro: writer split: if_splits)
    show "writes (d + 1) (case co_last_mode api c of None \<Rightarrow> [] | Some m \<Rightarrow> mode_values m ''mode_display_label'' ''mode_icon'')
        (case co_last_mode api c of None \<Rightarrow> all_ok [] | Some m \<Rightarrow>
          all_ok [append_dict_entry_string (d + 1) ''mode_class'' (Some (mode_class_name (em_class m))),
            append_dict_entry_string (d + 1) ''mode_id'' (em_mode_id m),
            append_dict_entry_string (d + 1) ''mode_display_label'' (em_display_label m),
            append_dict_entry_string (d + 1) ''mode_icon'' (em_icon_name m)])"
      using ok by (auto simp: engine_state_values_def Let_def intro: writes_nil mode_writes split: option.split)
    have "list_all value_ok (concat (map config_values (engine_configs api c)))"
      using ok by (simp add: engine_state_values_def Let_def)
    then have "writes (d + 1) (concat (map config_values (engine_configs api c))) (append_config_entries (d + 1) (engine_configs api c))"
      by (rule config_entries_write)
    then show "writes (d + 1) (concat (map config_values (engine_configs api c)))
        (all_ok [if or_empty (Option.bind ?e ce_name) = [] then all_ok []
          else (case co_engine_config api (or_empty (Option.bind ?e ce_name)) c of
             None \<Rightarrow> all_ok [] | Some kvs \<Rightarrow> append_config_entries (d + 1) kvs)])"
      by (intro writes_single) (auto simp: engine_configs_def Let_def split: option.splits if_splits)
  qed
qed

subsection \<open>Properties and messages\<close>

lemma name_variant_writes:
  assumes "named_engine e" and "utf8_valid (or_empty (engine_name_or_blank e))"
  shows "writes d [V_variant (V_string (or_empty (engine_name_or_blank e)))] (append_string_variant d (engine_name_or_blank e))"
proof -
  have "engine_name_or_blank e = Some (or_empty (engine_name_or_blank e))"
    using assms(1) by (auto simp: engine_name_or_blank_def named_engine_def split: option.splits)
  then show ?thesis using string_variant_writes [OF assms(2), of d] by metis
qed

lemma mode_dict_writes:
  assumes "value_ok (V_array ''{sv}'' (case co_last_mode api c of None \<Rightarrow> [] | Some m \<Rightarrow> mode_values m ''display_label'' ''icon_name''))"
  shows "writes d [V_array ''{sv}'' (case co_last_mode api c of None \<Rightarrow> [] | Some m \<Rightarrow> mode_values m ''display_label'' ''icon_name'')]
    (append_active_engine_mode_dict d api c)"
  unfolding append_active_engine_mode_dict_def
proof (rule container_writes [OF writes_single array_container [OF assms]])
  show "writes (d + 1) (case co_last_mode api c of None \<Rightarrow> [] | Some m \<Rightarrow> mode_values m ''display_label'' ''icon_name'')
      (case co_last_mode api c of None \<Rightarrow> all_ok [] | Some m \<Rightarrow>
        all_ok [append_dict_entry_string (d + 1) ''mode_class'' (Some (mode_class_name (em_class m))),
          append_dict_entry_string (d + 1) ''mode_id'' (em_mode_id m),
          append_dict_entry_string (d + 1) ''display_label'' (em_display_label m),
          append_dict_entry_string (d + 1) ''icon_name'' (em_icon_name m)])"
  proof (cases "co_last_mode api c")
    case (Some m)
    then have "list_all value_ok (mode_values m ''display_label'' ''icon_name'')" using assms by (auto simp: list_all_iff)
    with Some show ?thesis using mode_writes by simp
  qed (simp add: writes_nil)
qed

lemma property_known: "property_value api bus c p = Some v \<Longrightarrow> p \<in> set status_properties"
  unfolding property_value_def Let_def status_properties_def by (drule map_of_SomeD) auto

text \<open>A variant around each kind of array.\<close>

lemma array_variants:
  "value_ok (names_value ns) \<Longrightarrow> writes d [V_variant (names_value ns)] (container d (In_variant ''as'') [append_names (Suc d) ns])"
  "value_ok (labels_value api c) \<Longrightarrow>
   writes d [V_variant (labels_value api c)] (container d (In_variant ''a{ss}'') [append_engine_display_names_dict (Suc d) api c])"
  "value_ok (V_array ''{sv}'' (engine_state_values api c)) \<Longrightarrow>
   writes d [V_variant (V_array ''{sv}'' (engine_state_values api c))]
     (container d (In_variant ''a{sv}'') [append_active_engine_state_dict (Suc d) api c])"
  "value_ok (V_array ''{sv}'' (case co_last_mode api c of None \<Rightarrow> [] | Some m \<Rightarrow> mode_values m ''display_label'' ''icon_name'')) \<Longrightarrow>
   writes d [V_variant (V_array ''{sv}'' (case co_last_mode api c of None \<Rightarrow> [] | Some m \<Rightarrow> mode_values m ''display_label'' ''icon_name''))]
     (container d (In_variant ''a{sv}'') [append_active_engine_mode_dict (Suc d) api c])"
  "value_ok (V_array ''{sv}'' (runtime_values (runtime_state_of bus c))) \<Longrightarrow>
   writes d [V_variant (V_array ''{sv}'' (runtime_values (runtime_state_of bus c)))]
     (container d (In_variant ''a{sv}'') [append_runtime_state_dict (Suc d) bus c])"
  using names_writes [of ns "Suc d"] labels_writes [of api c "Suc d"] engine_state_writes [of api c "Suc d"]
    mode_dict_writes [of api c "Suc d"] runtime_writes [of bus c "Suc d"]
  by (auto intro!: variant_writes simp: names_value_def labels_value_def simp del: value_ok.simps)

lemma property_writes_all:
  assumes "named_engine (status_active_keyboard_engine api c)" "named_engine (status_active_voice_engine api c)"
  shows "list_all (\<lambda>p. \<forall>v. property_value api bus c p = Some v \<longrightarrow> value_ok v \<longrightarrow>
    writes d [V_variant v] (append_property_variant d api bus p c)) status_properties"
  unfolding status_properties_def list.pred_inject property_value_def append_property_variant_def Let_def
  by (intro conjI allI impI TrueI)
    (simp_all del: value_ok.simps add: string_variant_writes name_variant_writes assms array_variants value_ok.simps(1)
      append_typed_engines_array_def append_available_engines_array_def append_ordered_engines_array_def
      append_engine_order_array_def engines_listed_def)

lemma property_writes:
  assumes "property_value api bus c p = Some v" and "value_ok v"
    and "named_engine (status_active_keyboard_engine api c)" "named_engine (status_active_voice_engine api c)"
  shows "writes d [V_variant v] (append_property_variant d api bus p c)"
  using property_writes_all [OF assms(3,4)] property_known [OF assms(1)] assms(1,2) by (simp add: list_all_iff)

lemma property_entry_writes:
  assumes "property_value api bus c p = Some v" and "value_ok v" and "utf8_valid p"
    and "named_engine (status_active_keyboard_engine api c)" "named_engine (status_active_voice_engine api c)"
  shows "writes d [V_entry (V_string p) (V_variant v)] (append_property_entry d api bus c p)"
proof -
  have "\<not> is_entry v"
    using assms(1) unfolding property_value_def Let_def names_value_def labels_value_def by (drule_tac map_of_SomeD) auto
  then have "in_container In_dict_entry [V_string p, V_variant v] (V_entry (V_string p) (V_variant v))"
    using assms(2,3) by (intro in_dict_entry) simp_all
  then show ?thesis
    unfolding append_property_entry_def
    by (rule container_writes [rotated]) (intro writes_one writes_nil append_basic_writes property_writes assms)
qed

definition properties_value :: "'c core_api \<Rightarrow> 'c TypioStatusBus \<Rightarrow> 'c \<Rightarrow> string list \<Rightarrow> dbus_value" where
  "properties_value api bus c ps =
     V_array ''{sv}'' (map (\<lambda>p. V_entry (V_string p) (V_variant (the (property_value api bus c p)))) ps)"

lemma known_value: "p \<in> set status_properties \<Longrightarrow> \<exists>v. property_value api bus c p = Some v"
  by (auto simp: status_properties_def property_value_def Let_def)

lemma property_names_ok: "p \<in> set status_properties \<Longrightarrow> utf8_valid p"
proof -
  have "list_all utf8_valid status_properties" by code_simp
  then show "p \<in> set status_properties \<Longrightarrow> utf8_valid p" by (simp add: list_all_iff)
qed

lemma known_ok:
  assumes "core_texts_ok api bus c" and "property_value api bus c p = Some v"
  shows "value_ok v"
  using assms property_known [OF assms(2)] unfolding core_texts_ok_def list_all_iff by fastforce

lemma properties_write:
  assumes ok: "core_texts_ok api bus c" and ps: "set ps \<subseteq> set status_properties"
  shows "writes d [properties_value api bus c ps]
      (container d (In_array ''{sv}'') (map (append_property_entry (d + 1) api bus c) ps)) \<and>
    value_ok (properties_value api bus c ps)"
proof -
  let ?v = "\<lambda>p. V_entry (V_string p) (V_variant (the (property_value api bus c p)))"
  have part: "writes (d + 1) [?v p] (append_property_entry (d + 1) api bus c p) \<and> value_ok (?v p) \<and> value_sig (?v p) = ''{sv}''"
    if "p \<in> set ps" for p
  proof -
    have p: "p \<in> set status_properties" using that ps by blast
    from known_value [OF p, of api bus c] obtain v where v: "property_value api bus c p = Some v" by blast
    have "\<not> is_entry v"
      using v unfolding property_value_def Let_def names_value_def labels_value_def by (drule_tac map_of_SomeD) auto
    then show ?thesis
      using property_entry_writes [OF v known_ok [OF ok v] property_names_ok [OF p]] ok v known_ok [OF ok v]
        property_names_ok [OF p] by (simp add: core_texts_ok_def)
  qed
  then have arr: "value_ok (properties_value api bus c ps)" by (auto simp: properties_value_def list_all_iff)
  have "writes (d + 1) (concat (map (\<lambda>p. [?v p]) ps)) (all_ok (map (append_property_entry (d + 1) api bus c) ps))"
    by (rule writes_map) (rule conjunct1 [OF part])
  moreover have "concat (map (\<lambda>p. [?v p]) qs) = map ?v qs" for qs by (induction qs) simp_all
  ultimately have "writes (d + 1) (map ?v ps) (all_ok (map (append_property_entry (d + 1) api bus c) ps))" by simp
  from container_writes [OF this array_container] arr show ?thesis unfolding properties_value_def by blast
qed

subsection \<open>The same in JSON\<close>

fun value_json :: "dbus_value \<Rightarrow> string" where
  "value_json (V_basic b) = (case b of
       B_string s \<Rightarrow> quoted (escape (or_empty s))
     | B_object_path s \<Rightarrow> quoted (escape s)
     | B_boolean x \<Rightarrow> (if x then ''true'' else ''false'')
     | B_byte x \<Rightarrow> show_nat (unat x)
     | B_int32 i \<Rightarrow> show_int i
     | B_uint32 u \<Rightarrow> show_nat (unat u)
     | B_double t \<Rightarrow> t)"
| "value_json (V_array s vs) =
     (let items = join_with '','' (map value_json vs) in
      if starts_with ''{'' s then ''{'' @ items @ ''}'' else ''['' @ items @ '']'')"
| "value_json (V_variant v) = value_json v"
| "value_json (V_struct vs) = ''['' @ join_with '','' (map value_json vs) @ '']''"
| "value_json (V_entry k v) = value_json k @ '':'' @ value_json v"

lemma json_entry: "value_json (entry k b) = member (k, value_json (V_basic b))"
  by (simp add: entry_def member_def)

lemma json_text_entry: "value_json (text_entry k s) = member (k, quoted (escape (or_empty s)))"
  by (simp add: text_entry_def json_entry)

lemma json_names: "value_json (names_value ns) = build_string_array ns"
  by (simp add: names_value_def build_string_array_text comp_def starts_with_def del: join_with.simps)

lemma json_dict: "value_json (V_array (CHR ''{'' # s) vs) = ''{'' @ join_with '','' (map value_json vs) @ ''}''"
  by (simp add: starts_with_def del: join_with.simps)

lemma json_labels_value:
  assumes "[] \<notin> set (engines_listed api c)"
  shows "value_json (labels_value api c) = build_engine_display_names api c"
proof -
  have "filter (\<lambda>n. n \<noteq> [] \<and> or_empty (co_label api n c) \<noteq> []) (engines_listed api c) =
      filter (\<lambda>n. or_empty (co_label api n c) \<noteq> []) (engines_listed api c)"
    using assms by (intro filter_cong) auto
  then show ?thesis
    unfolding labels_value_def json_dict build_engine_display_names_def append_labels_text engines_listed_def [symmetric]
    by (simp add: append_labels_text labels_def member_def comp_def del: join_with.simps)
qed

lemma json_mode_value:
  "value_json (V_array ''{sv}'' (case co_last_mode api c of None \<Rightarrow> [] | Some m \<Rightarrow> mode_values m ''display_label'' ''icon_name'')) =
   build_active_engine_mode api c"
  unfolding json_dict
  by (cases "co_last_mode api c")
    (simp_all add: build_active_engine_mode_def Let_def writer_text or_empty_def mode_values_def json_text_entry)

lemma json_runtime_value:
  assumes "sb_runtime_state bus = sv_runtime_state (sb_service bus)"
  shows "value_json (V_array ''{sv}'' (runtime_values (runtime_state_of bus c))) = build_runtime_state (sb_service bus) c"
proof -
  have "(case sv_runtime_state (sb_service bus) of None \<Rightarrow> zero_runtime_state | Some f \<Rightarrow> f c) = runtime_state_of bus c"
    by (simp add: runtime_state_of_def assms)
  then show ?thesis
    unfolding json_dict build_runtime_state_def Let_def
    by (simp add: writer_text or_empty_def member_def runtime_values_def json_text_entry json_entry)
qed

lemma engine_order_names:
  "None \<notin> set (co_engine_order api c) \<Longrightarrow> build_engine_order api c = build_string_array (List.map_filter (\<lambda>n. n) (co_engine_order api c))"
proof -
  assume "None \<notin> set (co_engine_order api c)"
  then obtain xs where xs: "co_engine_order api c = map Some xs" by (metis ex_map_conv not_None_eq)
  have "List.map_filter (\<lambda>n. n) (map Some xs) = xs" by (induction xs) (simp_all add: List.map_filter_simps)
  then show ?thesis by (simp add: build_engine_order_def build_string_array_def xs append_order_some)
qed

end
