(* ===== verification/Dbus_Props.thy ===== *)
theory Dbus_Props
  imports Status_Dbus_Laws Ipc_Props
begin

section \<open>Properties of the status interface on D-Bus\<close>

text \<open>
  The replies are well-typed, the properties are those of the JSON interface, and what the methods
  do with their arguments and with the errors of the service.
\<close>

subsection \<open>Requests\<close>

definition status_call :: "dbus_message \<Rightarrow> string \<Rightarrow> string \<Rightarrow> dbus_value list \<Rightarrow> bool" where
  "status_call msg interface meth args \<longleftrightarrow>
     dm_type msg = METHOD_CALL \<and> dm_path msg = Some STATUS_DBUS_PATH \<and> dm_interface msg = Some interface \<and>
     dm_member msg = meth \<and> dm_args msg = args"

definition healthy :: "dbus_env \<Rightarrow> bool" where
  "healthy env \<longleftrightarrow> de_new env \<and> (\<forall>n. \<not> de_fail env n)"

lemma get_args_strings:
  "dm_args msg = [V_string s] \<Longrightarrow> get_args env ''s'' msg = Some [V_string s]"
  "dm_args msg = [V_string s, V_string t] \<Longrightarrow> get_args env ''ss'' msg = Some [V_string s, V_string t]"
  by (simp_all add: get_args_def)

lemma introspected_value:
  assumes "(p, t) \<in> set introspected_properties"
  shows "p \<in> set status_properties \<and> (\<exists>v. property_value api bus c p = Some v \<and> value_sig v = t \<and> \<not> is_entry v)"
proof -
  have "list_all (\<lambda>(p, t). p \<in> set status_properties \<and> (\<exists>v. property_value api bus c p = Some v \<and> value_sig v = t \<and> \<not> is_entry v))
      introspected_properties"
    unfolding introspected_properties_def list.pred_inject case_prod_conv status_properties_def property_value_def Let_def
    by (intro conjI TrueI) (simp_all add: names_value_def labels_value_def)
  then show ?thesis using assms by (auto simp: list_all_iff)
qed

subsection \<open>Answers of the service\<close>

lemma reply_of_error: "service_reply_from_json env (Some (tip_json_build_error 0 code m)) = new_error env ERROR_FAILED ''Service error''"
proof -
  have zero: "show_int 0 = ''0''" by code_simp
  obtain rest where rest: "tip_json_build_error 0 code m =
      rpc_head @ quoted ''id'' @ '':0,'' @ quoted ''error'' @ '':{'' @ rest"
    by (simp add: build_error_text zero)
  have "strstr (quoted ''error'') (rpc_head @ quoted ''id'' @ '':0,'' @ quoted ''error'' @ '':{'' @ rest) =
      Some (quoted ''error'' @ '':{'' @ rest)"
    by (simp add: rpc_head_def quoted_def starts_with_def)
  moreover have "up_to (CHR '':'') (quoted ''error'' @ '':{'' @ rest) = Some (quoted ''error'', ''{'' @ rest)"
    by (simp add: up_to_def quoted_def Let_def)
  ultimately show ?thesis by (simp add: service_reply_from_json_def rest)
qed

lemma reply_of_ok: "service_reply_from_json env (Some (ok_response 0)) = new_return env"
proof -
  have "strstr (quoted ''error'') (ok_response 0) = None" by code_simp
  then show ?thesis by (simp add: service_reply_from_json_def)
qed

definition quote_free :: "string \<Rightarrow> bool" where
  "quote_free s \<longleftrightarrow> list_all (\<lambda>x. x \<noteq> dquote \<and> x \<noteq> backslash) s"

lemma string_body_quote_free: "quote_free s \<Longrightarrow> string_body False (s @ dquote # r) = (s, dquote # r)"
  by (induction s) (simp_all add: quote_free_def)

lemma param_keys:
  "after_key (quoted ''engine'') (''{'' @ quoted ''engine'' @ '':'' @ quoted s @ ''}'') = Some (dquote # s @ dquote # ''}'')"
  "after_key (quoted ''content'') (''{'' @ quoted ''content'' @ '':'' @ quoted s @ ''}'') = Some (dquote # s @ dquote # ''}'')"
  "after_key (quoted ''schema'') (''{'' @ quoted ''schema'' @ '':'' @ quoted s @ ''}'') = Some (dquote # s @ dquote # ''}'')"
  by (simp_all add: after_key_def quoted_def starts_with_def is_space_def)

lemma param_values:
  assumes "string_body False (s @ dquote # ''}'') = (t, r)" and "r \<noteq> []"
  shows "param_string (Some (''{'' @ quoted ''engine'' @ '':'' @ quoted s @ ''}'')) ''engine'' = Some t"
    "param_string (Some (''{'' @ quoted ''content'' @ '':'' @ quoted s @ ''}'')) ''content'' = Some t"
    "param_string (Some (''{'' @ quoted ''schema'' @ '':'' @ quoted s @ ''}'')) ''schema'' = Some t"
  unfolding param_string_def tip_json_extract_string_def using assms by (simp_all only: bind.bind_lunit param_keys) simp_all

subsection \<open>What the methods are to do\<close>

text \<open>Whether a method succeeds, and the core after it.\<close>

definition method_effect :: "'c core_api \<Rightarrow> 'c TypioStatusBus \<Rightarrow> string \<Rightarrow> string \<Rightarrow> 'c \<Rightarrow> bool \<times> 'c" where
  "method_effect api bus meth arg c =
     (if meth = ''ActivateEngine''
      then (if \<not> co_has_manager api then (False, c)
            else (case co_set_active api arg c of
                    (res, c) \<Rightarrow> if res = TYPIO_OK then (True, co_store_default_engine api arg c) else (False, c)))
      else if meth = ''NextEngine''
      then (if \<not> co_has_manager api then (False, c) else (case co_next api c of (res, c) \<Rightarrow> (res = TYPIO_OK, c)))
      else if meth = ''SetRimeSchema''
      then (case co_set_rime_schema api arg c of
              (res, c) \<Rightarrow> if res \<noteq> TYPIO_OK then (False, c)
                          else (case co_reload_config api c of (res, c) \<Rightarrow> (res = TYPIO_OK, c)))
      else if meth = ''DeployRimeConfig'' then (case co_deploy_rime_config api c of (res, c) \<Rightarrow> (res = TYPIO_OK, c))
      else if meth = ''SetConfigText'' then (case co_set_config_text api arg c of (res, c) \<Rightarrow> (res = TYPIO_OK, c))
      else if meth = ''ReloadConfig'' then (case co_reload_config api c of (res, c) \<Rightarrow> (res = TYPIO_OK, c))
      else (case sv_stop (sb_service bus) of None \<Rightarrow> (False, c) | Some stop \<Rightarrow> (True, stop c)))"

definition reply_to_effect :: "bool \<times> 'c \<Rightarrow> dbus_reply option \<times> 'c" where
  "reply_to_effect e =
     (Some (if fst e then Method_return [] else Error_reply ERROR_FAILED ''Service error''), snd e)"

definition status_methods :: "string list" where
  "status_methods =
     [''ActivateEngine'', ''NextEngine'', ''SetRimeSchema'', ''DeployRimeConfig'', ''SetConfigText'', ''ReloadConfig'', ''Stop'']"

definition methods_with_text :: "string list" where
  "methods_with_text = [''ActivateEngine'', ''SetRimeSchema'', ''SetConfigText'']"

lemma method_dispatch:
  assumes "status_call msg STATUS_DBUS_INTERFACE meth args" and "meth \<in> set status_methods"
  shows "status_message_handler env xml api bus msg c =
    (if meth = ''ActivateEngine'' then status_handle_activate_engine env api bus msg c
     else if meth = ''NextEngine'' then status_handle_next_engine env api bus msg c
     else if meth = ''SetRimeSchema'' then status_handle_set_rime_schema env api bus msg c
     else if meth = ''DeployRimeConfig'' then status_handle_deploy_rime_config env api bus msg c
     else if meth = ''SetConfigText'' then status_handle_set_config_text env api bus msg c
     else if meth = ''ReloadConfig'' then status_handle_reload_config env api bus msg c
     else status_handle_stop env api bus msg c)"
  using assms
  by (auto simp: status_message_handler_def status_call_def status_methods_def STATUS_DBUS_INTERFACE_def
      PROPERTIES_INTERFACE_def Let_def)

lemmas replies = reply_of_error reply_of_ok new_error_def new_return_def invalid_params_def internal_error_def

lemma service_effects:
  assumes "de_new env"
  shows "call_service env api bus ''NextEngine'' None c = reply_to_effect (method_effect api bus ''NextEngine'' arg c)"
    "call_service env api bus ''ReloadConfig'' None c = reply_to_effect (method_effect api bus ''ReloadConfig'' arg c)"
    "call_service env api bus ''DeployRimeConfig'' None c = reply_to_effect (method_effect api bus ''DeployRimeConfig'' arg c)"
    "call_service env api bus ''Stop'' None c = reply_to_effect (method_effect api bus ''Stop'' arg c)"
    "param_string p ''engine'' = Some arg \<Longrightarrow> arg \<noteq> [] \<Longrightarrow>
     call_service env api bus ''ActivateEngine'' p c = reply_to_effect (method_effect api bus ''ActivateEngine'' arg c)"
    "param_string p ''content'' = Some arg \<Longrightarrow>
     call_service env api bus ''SetConfigText'' p c = reply_to_effect (method_effect api bus ''SetConfigText'' arg c)"
    "param_string p ''schema'' = Some arg \<Longrightarrow>
     call_service env api bus ''SetRimeSchema'' p c = reply_to_effect (method_effect api bus ''SetRimeSchema'' arg c)"
  using assms
  by (auto simp: call_service_def status_service_handle_def method_effect_def reply_to_effect_def replies
      handle_next_engine_def handle_reload_config_def handle_deploy_rime_config_def handle_stop_def
      handle_activate_engine_def handle_set_config_text_def handle_set_rime_schema_def Let_def
      split: prod.splits option.splits)

subsection \<open>The properties\<close>

text \<open>
  C33. The replies to Get and GetAll are well-typed: whatever strings the core holds (in UTF-8), for
  every property that the introspection declares, a reply to Get is one variant with the value of
  the property, of the declared signature, and a reply to GetAll is the dictionary of the values of
  all properties; whichever calls of the library run out of memory, no incomplete reply is sent,
  and when none does both replies are sent. The core is not changed.
\<close>

theorem status_replies_well_typed:
  assumes "core_texts_ok api bus c" and "(p, t) \<in> set introspected_properties"
    and "status_call get PROPERTIES_INTERFACE ''Get'' [V_string STATUS_DBUS_INTERFACE, V_string p]"
    and "status_call getall PROPERTIES_INTERFACE ''GetAll'' [V_string STATUS_DBUS_INTERFACE]"
  shows "\<exists>v. property_value api bus c p = Some v \<and> value_sig v = t \<and> value_ok v \<and>
     (\<forall>cs. fst (status_message_handler env xml api bus get c) = Some (Method_return cs) \<longrightarrow> message_body cs = Some [V_variant v]) \<and>
     (\<forall>cs. fst (status_message_handler env xml api bus getall c) = Some (Method_return cs) \<longrightarrow>
        message_body cs = Some [properties_value api bus c (map fst introspected_properties)]) \<and>
     (healthy env \<longrightarrow>
        (\<exists>cs. fst (status_message_handler env xml api bus get c) = Some (Method_return cs)) \<and>
        (\<exists>cs. fst (status_message_handler env xml api bus getall c) = Some (Method_return cs))) \<and>
     snd (status_message_handler env xml api bus get c) = c \<and> snd (status_message_handler env xml api bus getall c) = c"
proof -
  obtain v where v: "property_value api bus c p = Some v" "value_sig v = t" "\<not> is_entry v"
    using introspected_value [OF assms(2), of api bus c] by blast
  have ok: "value_ok v" by (rule known_ok [OF assms(1) v(1)])
  have w: "writes 0 [V_variant v] (append_property_variant 0 api bus p c)"
    using assms(1) by (intro property_writes [OF v(1) ok]) (simp_all add: core_texts_ok_def)
  note all = properties_write [OF assms(1) subset_refl, of 0]
  have names: "map fst introspected_properties = status_properties"
    by (simp add: introspected_properties_def status_properties_def)
  have get: "status_message_handler env xml api bus get c = (status_handle_properties_get env api bus get c, c)"
    and getall: "status_message_handler env xml api bus getall c = (status_handle_properties_getall env api bus getall c, c)"
    using assms(3,4) by (simp_all add: status_message_handler_def status_call_def Let_def)
  have get_args: "get_args env ''ss'' get = Some [V_string STATUS_DBUS_INTERFACE, V_string p]"
    "get_args env ''s'' getall = Some [V_string STATUS_DBUS_INTERFACE]"
    using assms(3,4) by (simp_all add: get_args_strings status_call_def)
  let ?g = "append_property_variant 0 api bus p c (new_builder env)"
  let ?a = "container 0 (In_array ''{sv}'') (map (append_property_entry 1 api bus c) status_properties) (new_builder env)"
  have get_eq: "status_handle_properties_get env api bus get c =
      (if \<not> de_new env then None
       else if \<not> fst ?g then new_error env ERROR_UNKNOWN_PROPERTY ''Unknown property'' else Some (Method_return (db_calls (snd ?g))))"
    by (simp add: status_handle_properties_get_def get_args case_prod_beta)
  have getall_eq: "status_handle_properties_getall env api bus getall c =
      (if \<not> de_new env then None else if fst ?a then Some (Method_return (db_calls (snd ?a))) else None)"
    by (simp add: status_handle_properties_getall_def get_args case_prod_beta)
  have g: "fst ?g \<Longrightarrow> message_body (db_calls (snd ?g)) = Some [V_variant v]" "healthy env \<Longrightarrow> fst ?g"
    using body_writes [OF w, of env] writes_success [OF w, of env] ok v(3) by (simp_all add: healthy_def)
  have a: "fst ?a \<Longrightarrow> message_body (db_calls (snd ?a)) = Some [properties_value api bus c status_properties]" "healthy env \<Longrightarrow> fst ?a"
    using body_writes [OF conjunct1 [OF all], of env] writes_success [OF conjunct1 [OF all], of env] conjunct2 [OF all]
    by (simp_all add: healthy_def properties_value_def)
  have h: "healthy env \<Longrightarrow> de_new env" by (simp add: healthy_def)
  show ?thesis
    unfolding get getall get_eq getall_eq names fst_conv snd_conv
    by (intro exI [of _ v] conjI allI impI) (use v ok g a h in \<open>simp_all add: new_error_def split: if_splits\<close>)
qed

lemma demo_api_values:
  "co_version demo_api = ''0.1''" "co_has_manager demo_api" "co_active demo_api ''x'' = Some demo_engine"
  "co_active_voice demo_api c = None" "co_list demo_api c = [''basic'', ''rime'']" "co_list_by_type demo_api t c = [''basic'', ''rime'']"
  "co_list_ordered_keyboards demo_api c = [''basic'', ''rime'']" "co_label demo_api n c = Some n"
  "co_engine_order demo_api c = [Some ''basic'']" "co_last_mode demo_api c = None" "co_engine_config demo_api n c = None"
  "co_rime_schema demo_api c = None" "co_config_text demo_api c = Some c"
  by (simp_all add: demo_api_def)

lemma demo_values_ok:
  "value_ok (names_value [''basic'', ''rime''])" "value_ok (names_value [''basic''])" "list_all utf8_valid [''0.1'', ''x'', ''basic'']"
  "list_all value_ok (info_values demo_info)" "list_all value_ok (runtime_values zero_runtime_state)"
  "list_all (\<lambda>v. value_sig v = ''{sv}'') (info_values demo_info)" "list_all (\<lambda>v. value_sig v = ''{sv}'') (runtime_values zero_runtime_state)"
  by (simp_all add: names_value_def info_values_def demo_info_def runtime_values_def zero_runtime_state_def between_def)

lemma demo_texts_ok:
  "core_texts_ok demo_api \<lparr>sb_conn = True, sb_service = demo_service, sb_runtime_state = None, sb_stop = None\<rparr> ''x''"
  (is "core_texts_ok _ ?bus _")
proof -
  have engine: "status_active_keyboard_engine demo_api ''x'' = Some demo_engine" "status_active_voice_engine demo_api ''x'' = None"
    by (simp_all add: status_active_keyboard_engine_def status_active_voice_engine_def demo_api_values)
  have texts: "utf8_valid ''0.1''" "utf8_valid ''x''" "utf8_valid ''basic''" using demo_values_ok(3) by simp_all
  have labels: "value_ok (labels_value demo_api ''x'')"
    using demo_values_ok(1) by (simp add: labels_value_def engines_listed_def demo_api_values names_value_def)
  have state: "value_ok (V_array ''{sv}'' (engine_state_values demo_api ''x''))"
    using demo_values_ok(4,6)
    by (simp add: engine_state_values_def engine_configs_def engine demo_api_values Let_def demo_engine_def list_all_iff)
  have runtime: "value_ok (V_array ''{sv}'' (runtime_values (runtime_state_of ?bus ''x'')))"
    using demo_values_ok(5,7) by (simp add: runtime_state_of_def list_all_iff)
  have empty: "value_ok (V_array s [])" for s by simp
  show ?thesis
    unfolding core_texts_ok_def status_properties_def list.pred_inject property_value_def Let_def
    by (intro conjI TrueI)
      (simp_all add: empty engine demo_api_values named_engine_def demo_engine_def texts labels state runtime demo_values_ok(1,2)
        engine_name_or_blank_def engines_listed_def List.map_filter_simps del: value_ok.simps(2))
qed

theorem status_replies_well_typed_witness:
  "\<exists>cs. fst (status_message_handler \<lparr>de_extra_ok = True, de_new = True, de_fail = \<lambda>_. False\<rparr> ([], []) demo_api
       \<lparr>sb_conn = True, sb_service = demo_service, sb_runtime_state = None, sb_stop = None\<rparr>
       \<lparr>dm_type = METHOD_CALL, dm_interface = Some PROPERTIES_INTERFACE, dm_member = ''Get'', dm_path = Some STATUS_DBUS_PATH,
        dm_args = [V_string STATUS_DBUS_INTERFACE, V_string ''OrderedEngines'']\<rparr> ''x'') = Some (Method_return cs) \<and>
     message_body cs = Some [V_variant (V_array ''s'' [V_string ''basic'', V_string ''rime''])]"
  (is "\<exists>cs. fst (status_message_handler ?env ?xml demo_api ?bus ?get ''x'') = _ \<and> _")
proof -
  let ?all = "?get\<lparr>dm_member := ''GetAll'', dm_args := [V_string STATUS_DBUS_INTERFACE]\<rparr>"
  have "core_texts_ok demo_api ?bus ''x''" by (rule demo_texts_ok)
  moreover have "(''OrderedEngines'', ''as'') \<in> set introspected_properties" by (simp add: introspected_properties_def)
  moreover have "status_call ?get PROPERTIES_INTERFACE ''Get'' [V_string STATUS_DBUS_INTERFACE, V_string ''OrderedEngines'']"
    "status_call ?all PROPERTIES_INTERFACE ''GetAll'' [V_string STATUS_DBUS_INTERFACE]"
    by (simp_all add: status_call_def)
  moreover have "property_value demo_api ?bus ''x'' ''OrderedEngines'' = Some (V_array ''s'' [V_string ''basic'', V_string ''rime''])"
    by (simp add: property_value_def demo_api_def names_value_def Let_def)
  ultimately show ?thesis
    using status_replies_well_typed [of demo_api ?bus "''x''" "''OrderedEngines''" "''as''" ?get ?all ?env ?xml]
    by (auto simp: healthy_def)
qed

text \<open>The text of a property in the JSON interface is that of the value it stands for.\<close>

lemma json_of_property_value:
  assumes "p \<noteq> ''ActiveEngineState''" and "None \<notin> set (co_engine_order api c)" and "[] \<notin> set (engines_listed api c)"
  shows "dispatch_property api (sb_service (status_bus_set_runtime_state_callback f bus)) p c =
    map_option value_json (property_value api (status_bus_set_runtime_state_callback f bus) c p)"
proof -
  let ?bus = "status_bus_set_runtime_state_callback f bus"
  have f: "sb_runtime_state ?bus = sv_runtime_state (sb_service ?bus)" by (simp add: status_bus_set_runtime_state_callback_def)
  have engines: "svc_active_keyboard_engine api c = status_active_keyboard_engine api c"
    "svc_active_voice_engine api c = status_active_voice_engine api c"
    by (simp_all add: svc_active_keyboard_engine_def status_active_keyboard_engine_def svc_active_voice_engine_def status_active_voice_engine_def)
  have texts: "value_json (V_string s) = json_of_string (Some s)" for s by (simp add: json_of_string_text)
  have engine_name: "json_of_string (Some (or_empty (engine_name_or_blank e))) = engine_name_json e" for e
    by (cases e) (simp_all add: engine_name_json_def json_of_string_text engine_name_or_blank_def)
  show ?thesis
    using assms(1)
    by (simp del: value_json.simps add: dispatch_property_def property_value_def Let_def texts engine_name json_names
        json_labels_value [OF assms(3)] json_mode_value json_runtime_value [OF f] engine_order_names [OF assms(2)] engines
        engines_listed_def build_version_def build_active_engine_def build_available_keyboard_engines_def build_available_engines_def
        build_ordered_engines_def build_available_voice_engines_def build_active_voice_engine_def
        build_rime_schema_def build_config_text_def)
qed

text \<open>A reply to Get has the value of the property, or tells that there is no such property.\<close>

lemma unknown_property: "p \<notin> set status_properties \<Longrightarrow> append_property_variant d api bus p c b = (False, b)"
  by (simp add: append_property_variant_def status_properties_def Let_def)

lemma get_reply:
  assumes "core_texts_ok api bus c"
    and "status_call msg PROPERTIES_INTERFACE ''Get'' [V_string STATUS_DBUS_INTERFACE, V_string p]"
  shows "fst (status_message_handler env xml api bus msg c) = Some (Method_return cs) \<Longrightarrow>
      \<exists>v. message_body cs = Some [V_variant v] \<and> property_value api bus c p = Some v"
    and "healthy env \<Longrightarrow> case property_value api bus c p of
        None \<Rightarrow> fst (status_message_handler env xml api bus msg c) = Some (Error_reply ERROR_UNKNOWN_PROPERTY ''Unknown property'')
      | Some v \<Rightarrow> \<exists>cs. fst (status_message_handler env xml api bus msg c) = Some (Method_return cs) \<and> message_body cs = Some [V_variant v]"
proof -
  let ?g = "append_property_variant 0 api bus p c (new_builder env)"
  have reply: "fst (status_message_handler env xml api bus msg c) =
      (if \<not> de_new env then None
       else if \<not> fst ?g then new_error env ERROR_UNKNOWN_PROPERTY ''Unknown property'' else Some (Method_return (db_calls (snd ?g))))"
    using assms(2) get_args_strings(2) [of msg STATUS_DBUS_INTERFACE p env]
    by (simp add: status_message_handler_def status_call_def Let_def status_handle_properties_get_def case_prod_beta)
  have known: "\<exists>v. property_value api bus c p = Some v \<and> (fst ?g \<longrightarrow> message_body (db_calls (snd ?g)) = Some [V_variant v]) \<and>
      (healthy env \<longrightarrow> fst ?g)" if some: "property_value api bus c p \<noteq> None"
  proof -
    obtain v where v: "property_value api bus c p = Some v" using some by blast
    have ok: "value_ok v" by (rule known_ok [OF assms(1) v])
    have "\<not> is_entry v" using v unfolding property_value_def Let_def names_value_def labels_value_def by (drule_tac map_of_SomeD) auto
    moreover have w: "writes 0 [V_variant v] (append_property_variant 0 api bus p c)"
      using assms(1) by (intro property_writes [OF v ok]) (simp_all add: core_texts_ok_def)
    ultimately show ?thesis
      using body_writes [OF w, of env] writes_success [OF w, of env] ok v by (simp add: healthy_def)
  qed
  have unknown: "\<not> fst ?g" if "property_value api bus c p = None"
    using that known_value [of p api bus c] unknown_property [of p 0 api bus c] by fastforce
  show "\<exists>v. message_body cs = Some [V_variant v] \<and> property_value api bus c p = Some v"
    if "fst (status_message_handler env xml api bus msg c) = Some (Method_return cs)"
    using that known unknown unfolding reply by (cases "property_value api bus c p") (auto simp: new_error_def split: if_splits)
  show "case property_value api bus c p of
        None \<Rightarrow> fst (status_message_handler env xml api bus msg c) = Some (Error_reply ERROR_UNKNOWN_PROPERTY ''Unknown property'')
      | Some v \<Rightarrow> \<exists>cs. fst (status_message_handler env xml api bus msg c) = Some (Method_return cs) \<and> message_body cs = Some [V_variant v]"
    if "healthy env"
    using that known unknown unfolding reply
    by (cases "property_value api bus c p") (auto simp: new_error_def healthy_def split: if_splits)
qed

text \<open>
  C22. The two interfaces report the same: a reply to a Get over D-Bus has one variant, and the JSON
  text of its value is the text that the JSON interface gives for the property; and when no call of
  the library fails, D-Bus knows just the properties that the JSON interface knows: a property that one
  answers the other answers with the same value, and one that the JSON interface does not know is the error
  for an unknown property on D-Bus. This is for every name but the state of the active engine,
  with strings of the core in UTF-8, active engines that have names, engine lists without empty names and an
  engine order of strings, and a callback of the runtime state that was set through the bus.
\<close>

theorem dbus_reports_what_json_reports:
  assumes "p \<noteq> ''ActiveEngineState''" and "None \<notin> set (co_engine_order api c)" and "[] \<notin> set (engines_listed api c)"
    and "core_texts_ok api (status_bus_set_runtime_state_callback f bus) c"
    and "status_call get PROPERTIES_INTERFACE ''Get'' [V_string STATUS_DBUS_INTERFACE, V_string p]"
  shows "(\<forall>cs. fst (status_message_handler env xml api (status_bus_set_runtime_state_callback f bus) get c) = Some (Method_return cs) \<longrightarrow>
       (\<exists>v. message_body cs = Some [V_variant v] \<and>
          dispatch_property api (sb_service (status_bus_set_runtime_state_callback f bus)) p c = Some (value_json v))) \<and>
    (healthy env \<longrightarrow>
       (case dispatch_property api (sb_service (status_bus_set_runtime_state_callback f bus)) p c of
          None \<Rightarrow> fst (status_message_handler env xml api (status_bus_set_runtime_state_callback f bus) get c) =
            Some (Error_reply ERROR_UNKNOWN_PROPERTY ''Unknown property'')
        | Some j \<Rightarrow> \<exists>cs v. fst (status_message_handler env xml api (status_bus_set_runtime_state_callback f bus) get c) =
            Some (Method_return cs) \<and> message_body cs = Some [V_variant v] \<and> value_json v = j))"
  using get_reply [OF assms(4,5), of env xml] unfolding json_of_property_value [OF assms(1-3)]
  by (cases "property_value api (status_bus_set_runtime_state_callback f bus) c p") fastforce+

theorem dbus_reports_what_json_reports_witness:
  "\<exists>cs v. fst (status_message_handler \<lparr>de_extra_ok = True, de_new = True, de_fail = \<lambda>_. False\<rparr> ([], []) demo_api
       (status_bus_set_runtime_state_callback None \<lparr>sb_conn = True, sb_service = demo_service, sb_runtime_state = None, sb_stop = None\<rparr>)
       \<lparr>dm_type = METHOD_CALL, dm_interface = Some PROPERTIES_INTERFACE, dm_member = ''Get'', dm_path = Some STATUS_DBUS_PATH,
        dm_args = [V_string STATUS_DBUS_INTERFACE, V_string ''Version'']\<rparr> ''x'') = Some (Method_return cs) \<and>
     message_body cs = Some [V_variant v] \<and> value_json v = quoted ''0.1''"
  (is "\<exists>cs v. fst (status_message_handler ?env ?xml demo_api ?bus ?get ''x'') = _ \<and> _")
proof -
  have "core_texts_ok demo_api ?bus ''x''"
    using demo_texts_ok by (simp add: status_bus_set_runtime_state_callback_def demo_service_def)
  moreover have "status_call ?get PROPERTIES_INTERFACE ''Get'' [V_string STATUS_DBUS_INTERFACE, V_string ''Version'']"
    by (simp add: status_call_def)
  moreover have "dispatch_property demo_api (sb_service ?bus) ''Version'' ''x'' = Some (quoted ''0.1'')"
    by (simp add: dispatch_property_def build_version_def demo_api_values json_of_string_text quoted_def escape_def escape_char_def)
  ultimately show ?thesis
    using dbus_reports_what_json_reports [of "''Version''" demo_api "''x''" None
        "\<lparr>sb_conn = True, sb_service = demo_service, sb_runtime_state = None, sb_stop = None\<rparr>" ?get ?env ?xml]
    by (auto simp: healthy_def engines_listed_def demo_api_values)
qed

text \<open>
  C34. The methods do what they are to do, and tell when they could not: a method of the interface
  with a text free of quotes and backslashes (an engine's name of at most 242 characters) calls the
  core as the JSON interface does, and its reply is an error exactly when the core refused. The
  message of the error, though, is always the same and never the one of the service, which is
  looked for where the error code stands.
\<close>

theorem methods_tell_failures:
  assumes "de_new env" and "status_call msg STATUS_DBUS_INTERFACE meth args" and "meth \<in> set status_methods"
    and "meth \<in> set methods_with_text \<longrightarrow> args = [V_string arg] \<and> quote_free arg"
    and "meth = ''ActivateEngine'' \<longrightarrow> arg \<noteq> [] \<and> length arg \<le> 242"
  shows "status_message_handler env xml api bus msg c = reply_to_effect (method_effect api bus meth arg c)"
proof -
  have args: "dm_args msg = args" using assms(2) by (simp add: status_call_def)
  have body: "quote_free arg \<Longrightarrow> string_body False (arg @ dquote # ''}'') = (arg, dquote # ''}'')"
    by (rule string_body_quote_free)
  have params: "param_string (Some (''{'' @ quoted ''content'' @ '':'' @ quoted arg @ ''}'')) ''content'' = Some arg"
    "param_string (Some (''{'' @ quoted ''schema'' @ '':'' @ quoted arg @ ''}'')) ''schema'' = Some arg"
    "param_string (Some (''{'' @ quoted ''engine'' @ '':'' @ quoted arg @ ''}'')) ''engine'' = Some arg"
    if "quote_free arg" using param_values [OF body [OF that]] by simp_all
  have whole: "take 255 (''{'' @ quoted ''engine'' @ '':'' @ quoted arg @ ''}'') = ''{'' @ quoted ''engine'' @ '':'' @ quoted arg @ ''}''"
    if "length arg \<le> 242" using that by (intro take_all) (simp add: quoted_def)
  have "meth = ''ActivateEngine'' \<or> meth = ''NextEngine'' \<or> meth = ''SetRimeSchema'' \<or> meth = ''DeployRimeConfig'' \<or>
      meth = ''SetConfigText'' \<or> meth = ''ReloadConfig'' \<or> meth = ''Stop''"
    using assms(3) by (simp only: status_methods_def list.set insert_iff empty_iff simp_thms)
  then show ?thesis
  proof (elim disjE)
    assume 1: "meth = ''ActivateEngine''"
    then have "args = [V_string arg]" "quote_free arg" "arg \<noteq> []" "length arg \<le> 242"
      using assms(4,5) by (simp_all add: methods_with_text_def)
    then show ?thesis
      using 1 args by (simp only: method_dispatch [OF assms(2,3)] status_handle_activate_engine_def get_args_strings(1)
          whole service_effects(5) [OF assms(1) params(3)] option.case list.case dbus_value.case dbus_basic.case if_False if_True simp_thms)
  next
    assume 3: "meth = ''SetRimeSchema''"
    then have "args = [V_string arg]" "quote_free arg" using assms(4) by (simp_all add: methods_with_text_def)
    then show ?thesis
      using 3 args by (simp add: method_dispatch [OF assms(2,3)] status_handle_set_rime_schema_def get_args_strings(1)
          service_effects(7) [OF assms(1) params(2)] del: append_Cons append_Nil)
  next
    assume 5: "meth = ''SetConfigText''"
    then have "args = [V_string arg]" "quote_free arg" using assms(4) by (simp_all add: methods_with_text_def)
    then show ?thesis
      using 5 args by (simp add: method_dispatch [OF assms(2,3)] status_handle_set_config_text_def get_args_strings(1)
          service_effects(6) [OF assms(1) params(1)] del: append_Cons append_Nil)
  qed (simp_all add: method_dispatch [OF assms(2,3)] status_handle_next_engine_def status_handle_deploy_rime_config_def
      status_handle_reload_config_def status_handle_stop_def service_effects(1-4) [OF assms(1)])
qed

theorem methods_tell_failures_witness:
  "status_message_handler \<lparr>de_extra_ok = True, de_new = True, de_fail = \<lambda>_. False\<rparr> ([], [])
     (demo_api\<lparr>co_set_active := \<lambda>e c. (if e = ''basic'' then TYPIO_OK else TYPIO_ERROR_NOT_FOUND, c)\<rparr>)
     \<lparr>sb_conn = True, sb_service = demo_service, sb_runtime_state = None, sb_stop = None\<rparr>
     \<lparr>dm_type = METHOD_CALL, dm_interface = Some STATUS_DBUS_INTERFACE, dm_member = ''ActivateEngine'',
      dm_path = Some STATUS_DBUS_PATH, dm_args = [V_string ''mozc'']\<rparr> ''x'' =
   (Some (Error_reply ERROR_FAILED ''Service error''), ''x'')"
proof -
  let ?api = "demo_api\<lparr>co_set_active := \<lambda>e c. (if e = ''basic'' then TYPIO_OK else TYPIO_ERROR_NOT_FOUND, c)\<rparr>"
  let ?bus = "\<lparr>sb_conn = True, sb_service = demo_service, sb_runtime_state = None, sb_stop = None\<rparr>"
  have "method_effect ?api ?bus ''ActivateEngine'' ''mozc'' ''x'' = (False, ''x'')"
    by (simp add: method_effect_def demo_api_def)
  moreover have "quote_free ''mozc''" by code_simp
  moreover have "status_message_handler \<lparr>de_extra_ok = True, de_new = True, de_fail = \<lambda>_. False\<rparr> ([], []) ?api ?bus
     \<lparr>dm_type = METHOD_CALL, dm_interface = Some STATUS_DBUS_INTERFACE, dm_member = ''ActivateEngine'',
      dm_path = Some STATUS_DBUS_PATH, dm_args = [V_string ''mozc'']\<rparr> ''x'' =
     reply_to_effect (method_effect ?api ?bus ''ActivateEngine'' ''mozc'' ''x'')"
    by (rule methods_tell_failures [where args = "[V_string ''mozc'']"])
      (simp_all add: status_call_def status_methods_def \<open>quote_free ''mozc''\<close>)
  ultimately show ?thesis by (simp only: reply_to_effect_def fst_conv snd_conv if_False)
qed

text \<open>
  C24. A configuration with a quote is cut: the text given to SetConfigText is put between quotes
  as it is, so that the core gets only what stands before its first quote, and the reply
  depends on that part alone. (A configuration file has quotes around all its strings. The text before the
  quote has no backslash: the reader takes a quote after one as part of the string. And the library
  finds the memory for a reply.)
\<close>

theorem config_text_cut_at_quote:
  assumes "de_new env" and "status_call msg STATUS_DBUS_INTERFACE ''SetConfigText'' [V_string (before @ dquote # rest)]"
    and "quote_free before"
  shows "status_message_handler env xml api bus msg c =
    (case co_set_config_text api before c of
       (res, c) \<Rightarrow> (Some (if res = TYPIO_OK then Method_return [] else Error_reply ERROR_FAILED ''Service error''), c))"
proof -
  have "string_body False ((before @ dquote # rest) @ dquote # ''}'') = (before, dquote # rest @ dquote # ''}'')"
    using string_body_quote_free [OF assms(3), of "rest @ dquote # ''}''"] by simp
  from param_values(2) [OF this]
  have p: "param_string (Some (''{'' @ quoted ''content'' @ '':'' @ quoted (before @ dquote # rest) @ ''}'')) ''content'' = Some before"
    by simp
  have "dm_args msg = [V_string (before @ dquote # rest)]" using assms(2) by (simp add: status_call_def)
  moreover have "''SetConfigText'' \<in> set status_methods" by (simp add: status_methods_def)
  ultimately have "status_message_handler env xml api bus msg c = reply_to_effect (method_effect api bus ''SetConfigText'' before c)"
    by (simp add: method_dispatch [OF assms(2)] status_handle_set_config_text_def get_args_strings(1)
        service_effects(6) [OF assms(1) p] del: append_Cons append_Nil)
  then show ?thesis by (simp add: method_effect_def reply_to_effect_def split: prod.split)
qed

theorem config_text_cut_at_quote_witness:
  "status_message_handler \<lparr>de_extra_ok = True, de_new = True, de_fail = \<lambda>_. False\<rparr> ([], []) demo_api
     \<lparr>sb_conn = True, sb_service = demo_service, sb_runtime_state = None, sb_stop = None\<rparr>
     \<lparr>dm_type = METHOD_CALL, dm_interface = Some STATUS_DBUS_INTERFACE, dm_member = ''SetConfigText'',
      dm_path = Some STATUS_DBUS_PATH, dm_args = [V_string (''default_engine = '' @ quoted ''rime'')]\<rparr> ''x'' =
   (Some (Method_return []), ''default_engine = '')"
proof -
  have "quote_free ''default_engine = ''" by code_simp
  have "co_set_config_text demo_api ''default_engine = '' ''x'' = (TYPIO_OK, ''default_engine = '')" by (simp add: demo_api_def)
  moreover have "status_message_handler \<lparr>de_extra_ok = True, de_new = True, de_fail = \<lambda>_. False\<rparr> ([], []) demo_api
     \<lparr>sb_conn = True, sb_service = demo_service, sb_runtime_state = None, sb_stop = None\<rparr>
     \<lparr>dm_type = METHOD_CALL, dm_interface = Some STATUS_DBUS_INTERFACE, dm_member = ''SetConfigText'',
      dm_path = Some STATUS_DBUS_PATH, dm_args = [V_string (''default_engine = '' @ quoted ''rime'')]\<rparr> ''x'' =
     (case co_set_config_text demo_api ''default_engine = '' ''x'' of
       (res, c) \<Rightarrow> (Some (if res = TYPIO_OK then Method_return [] else Error_reply ERROR_FAILED ''Service error''), c))"
    by (rule config_text_cut_at_quote [where rest = "''rime'' @ [dquote]", OF _ _ \<open>quote_free ''default_engine = ''\<close>])
      (simp_all add: status_call_def quoted_def)
  ultimately show ?thesis by (simp only: prod.case simp_thms if_True)
qed

end
