(* ===== verification/Tray_Sni.thy ===== *)
theory Tray_Sni
  imports Daemon_App Dbus_Message
begin

section \<open>The tray\<close>

text \<open>
  The tray icon as a StatusNotifierItem with its menu on D-Bus: \<^verbatim>\<open>daemon/tray/sni.c\<close> and
  \<^verbatim>\<open>daemon/tray/bus.c\<close>. The core, the list of schemas and the drawing of icons are
  parameters; \<open>c\<close> is the state of the core. A handler returns its reply and the actions that it
  passed to the callback of the menu. Entries of the list of schemas have identifiers.
\<close>

definition SNI_WATCHER_SERVICE :: string where
  "SNI_WATCHER_SERVICE = ''org.kde.StatusNotifierWatcher''"
definition SNI_ITEM_INTERFACE :: string where
  "SNI_ITEM_INTERFACE = ''org.kde.StatusNotifierItem''"
definition SNI_ITEM_PATH :: string where
  "SNI_ITEM_PATH = ''/StatusNotifierItem''"
definition DBUSMENU_INTERFACE :: string where
  "DBUSMENU_INTERFACE = ''com.canonical.dbusmenu''"
definition DBUSMENU_PATH :: string where
  "DBUSMENU_PATH = ''/MenuBar''"

definition RIME_MENU_BASE_ID :: int where "RIME_MENU_BASE_ID = 200"
definition RIME_MENU_RELOAD_ID :: int where "RIME_MENU_RELOAD_ID = 260"
definition RIME_MENU_MAX_SCHEMAS :: nat where "RIME_MENU_MAX_SCHEMAS = 32"

datatype TypioTrayStatus = TRAY_STATUS_PASSIVE | TRAY_STATUS_ACTIVE | TRAY_STATUS_NEEDS_ATTENTION

record TypioTray =
  ty_conn :: bool
  ty_registered :: bool
  ty_status :: TypioTrayStatus
  ty_icon_name :: "string option"
  ty_icon_theme_path :: "string option"
  ty_tooltip_title :: "string option"
  ty_tooltip_description :: "string option"
  ty_title :: "string option"
  ty_engine_name :: "string option"
  ty_engine_active :: bool
  ty_menu_revision :: u32
  ty_menu_callback :: bool

text \<open>
  What the tray asks: the manager's ordered keyboards, the description of an engine, the name of
  the active one, and the schemas with their current one, if the list can be loaded.
\<close>

record 'c tray_core =
  tc_manager :: bool
  tc_keyboards :: "'c \<Rightarrow> string list"
  tc_info :: "string \<Rightarrow> 'c \<Rightarrow> TypioEngineInfo option"
  tc_active :: "'c \<Rightarrow> core_engine option"
  tc_schema_list :: "'c \<Rightarrow> (bool \<times> (string \<times> string option) list) option"
  tc_current_schema :: "'c \<Rightarrow> string option"

record TypioTrayRimeMenuInfo =
  rm_current_schema :: "string option"
  rm_schemas :: "(string \<times> string option) list"

definition tray_load_rime_menu_info :: "'c tray_core \<Rightarrow> TypioTray \<Rightarrow> 'c \<Rightarrow> TypioTrayRimeMenuInfo option" where
  "tray_load_rime_menu_info core tray c =
     (if ty_engine_name tray \<noteq> Some ''rime'' then None
      else (case (if tc_manager core then tc_active core c else None) of
              None \<Rightarrow> None
            | Some engine \<Rightarrow>
                if ce_name engine \<noteq> Some ''rime'' then None
                else (case tc_schema_list core c of
                        None \<Rightarrow> None
                      | Some (available, schemas) \<Rightarrow>
                          if available
                          then Some \<lparr>rm_current_schema = tc_current_schema core c, rm_schemas = take RIME_MENU_MAX_SCHEMAS schemas\<rparr>
                          else None)))"

subsection \<open>Properties\<close>

type_synonym pixmap_builder = "string option \<Rightarrow> (int \<times> int \<times> u8 list) option"

definition append_icon_pixmap_array :: "pixmap_builder \<Rightarrow> dbus_iter \<Rightarrow> string option \<Rightarrow> dbus_action" where
  "append_icon_pixmap_array pix d icon_name = (case pix icon_name of
       None \<Rightarrow> container d (In_array ''(iiay)'') []
     | Some (width, height, bytes) \<Rightarrow>
         container d (In_array ''(iiay)'')
           [container (d + 1) In_struct
             [append_basic (d + 2) (B_int32 width), append_basic (d + 2) (B_int32 height),
              container (d + 2) (In_array ''y'') [append_bytes (d + 3) bytes]]])"

definition append_dict_entry_icon_pixmap :: "pixmap_builder \<Rightarrow> dbus_iter \<Rightarrow> string \<Rightarrow> string option \<Rightarrow> dbus_action" where
  "append_dict_entry_icon_pixmap pix dict key icon_name =
     container dict In_dict_entry
       [append_basic (dict + 1) (B_string (Some key)),
        container (dict + 1) (In_variant ''a(iiay)'') [append_icon_pixmap_array pix (dict + 2) icon_name]]"

definition status_text :: "TypioTrayStatus \<Rightarrow> string" where
  "status_text s = (case s of
       TRAY_STATUS_ACTIVE \<Rightarrow> ''Active''
     | TRAY_STATUS_NEEDS_ATTENTION \<Rightarrow> ''NeedsAttention''
     | TRAY_STATUS_PASSIVE \<Rightarrow> ''Passive'')"

definition text_or :: "string \<Rightarrow> string option \<Rightarrow> string" where
  "text_or fallback s = (case s of Some t \<Rightarrow> t | None \<Rightarrow> fallback)"

definition loose_variant :: "dbus_basic \<Rightarrow> dbus_action" where
  "loose_variant v = loose_container 0 (In_variant (basic_sig v)) [append_basic 1 v]"

abbreviation string_variant :: "string \<Rightarrow> dbus_action" where
  "string_variant s \<equiv> loose_variant (B_string (Some s))"

definition tooltip_variant :: "pixmap_builder \<Rightarrow> TypioTray \<Rightarrow> dbus_action" where
  "tooltip_variant pix tray =
     loose_container 0 (In_variant ''(sa(iiay)ss)'')
       [loose_container 1 In_struct
         [append_basic 2 (B_string (Some (text_or ''typio-keyboard'' (ty_icon_name tray)))),
          append_icon_pixmap_array pix 2 (ty_icon_name tray),
          append_basic 2 (B_string (Some (text_or ''Typio'' (ty_tooltip_title tray)))),
          append_basic 2 (B_string (Some (text_or [] (ty_tooltip_description tray))))]]"

text \<open>The writer of a property, if the interface has it.\<close>

definition item_property :: "pixmap_builder \<Rightarrow> TypioTray \<Rightarrow> string \<Rightarrow> dbus_action option" where
  "item_property pix tray property =
     (if property = ''Category'' then Some (string_variant ''ApplicationStatus'')
      else if property = ''Id'' then Some (string_variant ''typio'')
      else if property = ''Title'' then Some (string_variant (text_or ''Typio'' (ty_title tray)))
      else if property = ''Status'' then Some (string_variant (status_text (ty_status tray)))
      else if property = ''IconName'' then Some (string_variant (text_or ''typio-keyboard'' (ty_icon_name tray)))
      else if property = ''IconThemePath'' then Some (string_variant (text_or [] (ty_icon_theme_path tray)))
      else if property = ''IconPixmap'' \<or> property = ''OverlayIconPixmap'' \<or> property = ''AttentionIconPixmap''
      then Some (loose_container 0 (In_variant ''a(iiay)'') [append_icon_pixmap_array pix 1 (ty_icon_name tray)])
      else if property = ''OverlayIconName'' \<or> property = ''AttentionIconName'' then Some (string_variant [])
      else if property = ''ToolTip'' then Some (tooltip_variant pix tray)
      else if property = ''ItemIsMenu'' then Some (loose_variant (B_boolean False))
      else if property = ''Menu'' then Some (loose_variant (B_object_path DBUSMENU_PATH))
      else None)"

definition menu_property :: "string \<Rightarrow> dbus_action option" where
  "menu_property property =
     (if property = ''Version'' then Some (loose_variant (B_uint32 3))
      else if property = ''TextDirection'' then Some (string_variant ''ltr'')
      else if property = ''Status'' then Some (string_variant ''normal'')
      else if property = ''IconThemePath''
      then Some (loose_container 0 (In_variant ''as'') [loose_container 1 (In_array ''s'') []])
      else None)"

definition return_with :: "dbus_env \<Rightarrow> dbus_action list \<Rightarrow> dbus_reply option" where
  "return_with env acts =
     (if de_new env then Some (Method_return (db_calls (snd (in_turn acts (new_builder env))))) else None)"

definition handle_properties_get :: "dbus_env \<Rightarrow> pixmap_builder \<Rightarrow> TypioTray \<Rightarrow> dbus_message \<Rightarrow> dbus_reply option" where
  "handle_properties_get env pix tray msg = (case get_args env ''ss'' msg of
       Some [V_basic (B_string (Some interface)), V_basic (B_string (Some property))] \<Rightarrow>
         if \<not> de_new env then None
         else if interface = SNI_ITEM_INTERFACE
         then (case item_property pix tray property of
                 Some act \<Rightarrow> return_with env [act]
               | None \<Rightarrow> new_error env ERROR_UNKNOWN_PROPERTY ''Unknown property'')
         else if interface = DBUSMENU_INTERFACE
         then (case menu_property property of
                 Some act \<Rightarrow> return_with env [act]
               | None \<Rightarrow> new_error env ERROR_UNKNOWN_PROPERTY ''Unknown property'')
         else new_error env ERROR_UNKNOWN_INTERFACE ''Unknown interface''
     | _ \<Rightarrow> new_error env ERROR_INVALID_ARGS ''Invalid arguments'')"

definition item_entries :: "pixmap_builder \<Rightarrow> TypioTray \<Rightarrow> dbus_action list" where
  "item_entries pix tray =
     [append_dict_entry_string 1 ''Category'' (Some ''ApplicationStatus''),
      append_dict_entry_string 1 ''Id'' (Some ''typio''),
      append_dict_entry_string 1 ''Title'' (Some (text_or ''Typio'' (ty_title tray))),
      append_dict_entry_string 1 ''Status'' (Some (status_text (ty_status tray))),
      append_dict_entry_string 1 ''IconName'' (Some (text_or ''typio-keyboard'' (ty_icon_name tray))),
      append_dict_entry_string 1 ''IconThemePath'' (Some (text_or [] (ty_icon_theme_path tray))),
      append_dict_entry_icon_pixmap pix 1 ''IconPixmap'' (ty_icon_name tray),
      append_dict_entry_string 1 ''OverlayIconName'' (Some []),
      append_dict_entry_string 1 ''AttentionIconName'' (Some []),
      append_dict_entry_bool 1 ''ItemIsMenu'' False,
      append_dict_entry_object_path 1 ''Menu'' DBUSMENU_PATH]"

definition handle_properties_getall :: "dbus_env \<Rightarrow> pixmap_builder \<Rightarrow> TypioTray \<Rightarrow> dbus_message \<Rightarrow> dbus_reply option" where
  "handle_properties_getall env pix tray msg = (case get_args env ''s'' msg of
       Some [V_basic (B_string (Some interface))] \<Rightarrow>
         return_with env
           [loose_container 0 (In_array ''{sv}'') (if interface = SNI_ITEM_INTERFACE then item_entries pix tray else [])]
     | _ \<Rightarrow> new_error env ERROR_INVALID_ARGS ''Invalid arguments'')"

subsection \<open>Methods of the item\<close>

definition callback_action :: "TypioTray \<Rightarrow> string \<Rightarrow> string list" where
  "callback_action tray action = (if ty_menu_callback tray then [action] else [])"

definition handle_sni_method :: "dbus_env \<Rightarrow> TypioTray \<Rightarrow> dbus_message \<Rightarrow> dbus_reply option \<times> string list" where
  "handle_sni_method env tray msg =
     (let meth = dm_member msg in
      if meth = ''ContextMenu'' \<or> meth = ''Activate'' \<or> meth = ''SecondaryActivate''
      then (if get_args env ''ii'' msg = None \<and> get_args env [] msg = None
            then (new_error env ERROR_INVALID_ARGS ''Invalid arguments'', [])
            else (new_return env,
                  callback_action tray
                    (if meth = ''ContextMenu'' then ''context_menu''
                     else if meth = ''Activate'' then ''activate'' else ''secondary_activate'')))
      else if meth = ''Scroll''
      then (case get_args env ''is'' msg of
              Some [V_basic (B_int32 delta), V_basic (B_string orientation)] \<Rightarrow>
                (new_return env, callback_action tray (if delta > 0 then ''scroll_up'' else ''scroll_down''))
            | _ \<Rightarrow> (new_error env ERROR_INVALID_ARGS ''Invalid arguments'', []))
      else (new_error env ERROR_UNKNOWN_METHOD ''Unknown method'', []))"

subsection \<open>The layout of the menu\<close>

text \<open>The optional parts of an item come one by one.\<close>

definition build_menu_item :: "dbus_iter \<Rightarrow> int \<Rightarrow> string option \<Rightarrow> string option \<Rightarrow> bool \<Rightarrow> dbus_action" where
  "build_menu_item d item_id label_text item_type enabled =
     loose_container d (In_variant ''(ia{sv}av)'')
       [loose_container (d + 1) In_struct
         [append_basic (d + 2) (B_int32 item_id),
          loose_container (d + 2) (In_array ''{sv}'')
            ((if label_text = None then [] else [append_dict_entry_string (d + 3) ''label'' label_text]) @
             (if item_type = None then [] else [append_dict_entry_string (d + 3) ''type'' item_type]) @
             [append_dict_entry_bool (d + 3) ''enabled'' enabled]),
          loose_container (d + 2) (In_array ''v'') []]]"

text \<open>An item with children (\<^verbatim>\<open>begin_menu_item\<close>, the items, \<^verbatim>\<open>end_menu_item\<close>).\<close>

definition menu_item_around :: "dbus_iter \<Rightarrow> int \<Rightarrow> string option \<Rightarrow> bool \<Rightarrow> bool \<Rightarrow> dbus_action list \<Rightarrow> dbus_action" where
  "menu_item_around d item_id label_text enabled submenu children =
     loose_container d (In_variant ''(ia{sv}av)'')
       [loose_container (d + 1) In_struct
         [append_basic (d + 2) (B_int32 item_id),
          loose_container (d + 2) (In_array ''{sv}'')
            ((if label_text = None then [] else [append_dict_entry_string (d + 3) ''label'' label_text]) @
             [append_dict_entry_bool (d + 3) ''enabled'' enabled] @
             (if submenu then [append_dict_entry_string (d + 3) ''children-display'' (Some ''submenu'')] else [])),
          loose_container (d + 2) (In_array ''v'') children]]"

definition bullet :: string where
  "bullet = [CHR 0xE2, CHR 0x97, CHR 0x8F]"

text \<open>Labels have room for 255 characters.\<close>

definition schema_label :: "TypioTrayRimeMenuInfo \<Rightarrow> string \<times> string option \<Rightarrow> string" where
  "schema_label info schema =
     (let is_current = (rm_current_schema info = Some (fst schema));
          mark = (if is_current then bullet else '' '')
      in take 255 (if or_empty (snd schema) \<noteq> [] then mark @ '' '' @ or_empty (snd schema) @ '' ('' @ fst schema @ '')''
                   else mark @ '' '' @ fst schema))"

definition build_rime_submenu :: "'c tray_core \<Rightarrow> dbus_iter \<Rightarrow> TypioTray \<Rightarrow> 'c \<Rightarrow> dbus_action list" where
  "build_rime_submenu core d tray c = (case tray_load_rime_menu_info core tray c of
       None \<Rightarrow> []
     | Some info \<Rightarrow>
         [menu_item_around d 20 (Some ''Rime'') True True
           (map (\<lambda>(i, schema). build_menu_item (d + 3) (RIME_MENU_BASE_ID + int i) (Some (schema_label info schema)) None True)
              (List.enumerate 0 (rm_schemas info)) @
            [build_menu_item (d + 3) RIME_MENU_RELOAD_ID (Some ''Deploy Rime Config'') None True])])"

definition parse_menu_getlayout_request :: "dbus_message \<Rightarrow> (int \<times> int) option" where
  "parse_menu_getlayout_request msg = (case dm_args msg of
       V_basic (B_int32 parent_id) # V_basic (B_int32 depth) # _ \<Rightarrow> Some (parent_id, depth)
     | _ \<Rightarrow> None)"

definition engine_label :: "TypioTray \<Rightarrow> string \<Rightarrow> TypioEngineInfo \<Rightarrow> string" where
  "engine_label tray name info =
     take 255 ((if ty_engine_name tray = Some name then bullet @ '' '' else ''  '') @ or_empty (label_from_info (Some info)))"

definition engine_items :: "'c tray_core \<Rightarrow> TypioTray \<Rightarrow> 'c \<Rightarrow> (int \<times> string) list" where
  "engine_items core tray c =
     (if tc_manager core
      then List.map_filter (\<lambda>(i, name). map_option (\<lambda>info. (100 + int i, engine_label tray name info)) (tc_info core name c))
             (List.enumerate 0 (take 10 (tc_keyboards core c)))
      else [])"

definition separator :: "dbus_iter \<Rightarrow> int \<Rightarrow> dbus_action" where
  "separator d item_id = build_menu_item d item_id None (Some ''separator'') True"

definition menu_children :: "'c tray_core \<Rightarrow> TypioTray \<Rightarrow> 'c \<Rightarrow> dbus_action list" where
  "menu_children core tray c =
     (let engines = engine_items core tray c;
          item_id = 1;
          first = map (\<lambda>(i, label_text). build_menu_item 2 i (Some label_text) None True) engines @
            (if engines \<noteq> [] then [separator 2 item_id] else []);
          item_id = (if engines \<noteq> [] then item_id + 1 else item_id);
          rime = (if ty_engine_name tray = Some ''rime'' then build_rime_submenu core 2 tray c @ [separator 2 item_id] else [])
      in first @ rime @
         [build_menu_item 2 98 (Some ''Restart'') None True, build_menu_item 2 99 (Some ''Quit'') None True])"

definition handle_menu_getlayout :: "dbus_env \<Rightarrow> 'c tray_core \<Rightarrow> TypioTray \<Rightarrow> dbus_message \<Rightarrow> 'c \<Rightarrow> dbus_reply option" where
  "handle_menu_getlayout env core tray msg c = (case parse_menu_getlayout_request msg of
       None \<Rightarrow> new_error env ERROR_INVALID_ARGS ''Invalid arguments''
     | Some _ \<Rightarrow>
         return_with env
           [append_basic 0 (B_uint32 (ty_menu_revision tray)),
            loose_container 0 In_struct
              [append_basic 1 (B_int32 0),
               loose_container 1 (In_array ''{sv}'') [append_dict_entry_string 2 ''children-display'' (Some ''submenu'')],
               loose_container 1 (In_array ''v'') (menu_children core tray c)]])"

subsection \<open>Events of the menu\<close>

text \<open>The actions have room for 127 and 255 characters.\<close>

definition handle_menu_event :: "dbus_env \<Rightarrow> 'c tray_core \<Rightarrow> TypioTray \<Rightarrow> dbus_message \<Rightarrow> 'c \<Rightarrow> dbus_reply option \<times> string list" where
  "handle_menu_event env core tray msg c = (case dm_args msg of
       V_basic (B_int32 item_id) # V_basic (B_string event_type) # _ \<Rightarrow>
         (new_return env,
          if event_type \<noteq> Some ''clicked'' then []
          else if item_id = 98 then callback_action tray ''restart''
          else if item_id = 99 then callback_action tray ''quit''
          else if item_id \<ge> 100 \<and> item_id < 110
          then (if \<not> tc_manager core then []
                else let engines = tc_keyboards core c; engine_idx = nat (item_id - 100)
                     in if engine_idx < length engines
                        then callback_action tray (take 127 (''engine:'' @ engines ! engine_idx)) else [])
          else if item_id \<ge> RIME_MENU_BASE_ID \<and> item_id < RIME_MENU_BASE_ID + int RIME_MENU_MAX_SCHEMAS
          then (case tray_load_rime_menu_info core tray c of
                  None \<Rightarrow> []
                | Some info \<Rightarrow>
                    let index = nat (item_id - RIME_MENU_BASE_ID)
                    in if index < length (rm_schemas info)
                       then callback_action tray (take 255 (''rime-schema:'' @ fst (rm_schemas info ! index))) else [])
          else if item_id = RIME_MENU_RELOAD_ID then callback_action tray ''rime-deploy''
          else [])
     | _ \<Rightarrow> (new_return env, []))"

subsection \<open>The message handler\<close>

text \<open>\<open>xml\<close>: the two constant texts of the introspection.\<close>

definition tray_handle_message ::
    "dbus_env \<Rightarrow> string \<times> string \<Rightarrow> pixmap_builder \<Rightarrow> 'c tray_core \<Rightarrow> TypioTray \<Rightarrow> dbus_message \<Rightarrow> 'c \<Rightarrow>
     dbus_reply option \<times> string list" where
  "tray_handle_message env xml pix core tray msg c =
     (let interface = or_empty (dm_interface msg); meth = dm_member msg in
      if dm_type msg \<noteq> METHOD_CALL then (None, [])
      else if interface = PROPERTIES_INTERFACE \<or> meth = ''Get'' \<or> meth = ''GetAll''
      then (if meth = ''Get'' then handle_properties_get env pix tray msg
            else if meth = ''GetAll'' then handle_properties_getall env pix tray msg
            else None, [])
      else if interface = DBUSMENU_INTERFACE \<or> dm_path msg = Some DBUSMENU_PATH
      then (if meth = ''GetLayout'' then (handle_menu_getlayout env core tray msg c, [])
            else if meth = ''Event'' then handle_menu_event env core tray msg c
            else if meth = ''GetProperty'' then (new_return env, [])
            else if meth = ''GetGroupProperties'' then (return_with env [loose_container 0 (In_array ''(ia{sv})'') []], [])
            else if meth = ''AboutToShow'' then (return_with env [append_basic 0 (B_boolean False)], [])
            else if meth = ''Introspect'' then (return_with env [append_basic 0 (B_string (Some (fst xml)))], [])
            else (None, []))
      else if interface = SNI_ITEM_INTERFACE \<or> dm_path msg = Some SNI_ITEM_PATH then handle_sni_method env tray msg
      else if meth = ''Introspect'' then (return_with env [append_basic 0 (B_string (Some (snd xml)))], [])
      else (None, []))"

subsection \<open>Registration and signals\<close>

text \<open>What the tray sends: its registration with the watcher, and signals.\<close>

datatype tray_message = Register_item | Item_signal string "string option" | Layout_updated u32 int

definition tray_sni_register :: "bool \<Rightarrow> TypioTray \<Rightarrow> int \<times> TypioTray \<times> tray_message list" where
  "tray_sni_register accepted tray =
     (if \<not> ty_conn tray then (- 1, tray, [])
      else if \<not> accepted then (- 1, tray\<lparr>ty_registered := False\<rparr>, [Register_item])
      else (0, tray\<lparr>ty_registered := True\<rparr>, [Register_item]))"

definition tray_sni_emit_signal :: "TypioTray \<Rightarrow> string \<Rightarrow> tray_message list" where
  "tray_sni_emit_signal tray signal_name =
     (if \<not> ty_conn tray \<or> \<not> ty_registered tray then []
      else [Item_signal signal_name (if signal_name = ''NewStatus'' then Some (status_text (ty_status tray)) else None)])"

definition tray_set_status :: "TypioTrayStatus \<Rightarrow> TypioTray \<Rightarrow> TypioTray \<times> tray_message list" where
  "tray_set_status status tray =
     (if ty_status tray = status then (tray, [])
      else let tray = tray\<lparr>ty_status := status\<rparr> in (tray, tray_sni_emit_signal tray ''NewStatus''))"

definition tray_set_icon :: "string option \<Rightarrow> TypioTray \<Rightarrow> TypioTray \<times> tray_message list" where
  "tray_set_icon icon_name tray =
     (let tray = tray\<lparr>ty_icon_name := Some (text_or ''typio-keyboard'' icon_name)\<rparr>
      in (tray, tray_sni_emit_signal tray ''NewIcon''))"

definition tray_set_tooltip :: "string option \<Rightarrow> string option \<Rightarrow> TypioTray \<Rightarrow> TypioTray \<times> tray_message list" where
  "tray_set_tooltip title description tray =
     (let tray = tray\<lparr>ty_tooltip_title := title, ty_tooltip_description := description\<rparr>
      in (tray, tray_sni_emit_signal tray ''NewToolTip''))"

definition engine_tooltip :: "string option \<Rightarrow> bool \<Rightarrow> string" where
  "engine_tooltip engine_name is_active = take 255 (case engine_name of
       Some name \<Rightarrow> ''Typio - '' @ name @ (if is_active then '' (active)'' else [])
     | None \<Rightarrow> ''Typio - No engine'')"

definition tray_update_engine :: "string option \<Rightarrow> bool \<Rightarrow> TypioTray \<Rightarrow> TypioTray \<times> tray_message list" where
  "tray_update_engine engine_name is_active tray =
     (let tray = tray\<lparr>ty_engine_name := engine_name, ty_engine_active := is_active\<rparr>;
          tray = tray\<lparr>ty_menu_revision := ty_menu_revision tray + 1\<rparr>;
          layout = (if ty_conn tray \<and> ty_registered tray then [Layout_updated (ty_menu_revision tray) 0] else [])
      in case tray_set_tooltip (Some (engine_tooltip engine_name is_active)) None tray of
           (tray, tooltip) \<Rightarrow>
             (case tray_set_status (if is_active then TRAY_STATUS_ACTIVE else TRAY_STATUS_PASSIVE) tray of
                (tray, status) \<Rightarrow> (tray, layout @ tooltip @ status)))"

subsection \<open>The connection\<close>

definition BUS_INTERFACE :: string where
  "BUS_INTERFACE = ''org.freedesktop.DBus''"

text \<open>Whether a message is handled. \<open>accepted\<close>: the answer of the watcher to a registration.\<close>

definition tray_bus_filter ::
    "dbus_env \<Rightarrow> bool \<Rightarrow> dbus_message \<Rightarrow> TypioTray \<Rightarrow> bool \<times> TypioTray \<times> tray_message list" where
  "tray_bus_filter env accepted msg tray =
     (if dm_type msg \<noteq> SIGNAL \<or> dm_interface msg \<noteq> Some BUS_INTERFACE \<or> dm_member msg \<noteq> ''NameOwnerChanged''
      then (False, tray, [])
      else (case get_args env ''sss'' msg of
              Some [V_basic (B_string (Some watched)), V_basic (B_string old_owner), V_basic (B_string (Some new_owner))] \<Rightarrow>
                if watched \<noteq> SNI_WATCHER_SERVICE then (False, tray, [])
                else if new_owner \<noteq> []
                then (if \<not> ty_registered tray
                      then (case tray_sni_register accepted tray of (res, tray, reqs) \<Rightarrow> (True, tray, reqs))
                      else (True, tray, []))
                else (True, tray\<lparr>ty_registered := False\<rparr>, [])
            | _ \<Rightarrow> (False, tray, [])))"

text \<open>The first readable directory of icons, of the installation and of the sources.\<close>

definition tray_default_icon_theme_path :: "(string \<Rightarrow> bool) \<Rightarrow> string \<Rightarrow> string \<Rightarrow> string" where
  "tray_default_icon_theme_path readable install_dir source_dir =
     (if readable (take 511 (install_dir @ ''/hicolor'')) then take 511 (install_dir @ ''/hicolor'')
      else if readable install_dir then install_dir
      else if readable (take 511 (source_dir @ ''/hicolor'')) then take 511 (source_dir @ ''/hicolor'')
      else if readable source_dir then source_dir
      else [])"

text \<open>
  A new tray, by its configuration (icon, tooltip, callback) and the answers of the bus: the
  connection, the name, the two object paths, and the registration.
\<close>

definition tray_new ::
    "(string option \<times> string option \<times> bool) option \<Rightarrow> string \<Rightarrow> bool \<times> bool \<times> bool \<times> bool \<times> bool \<Rightarrow>
     (TypioTray \<times> tray_message list) option" where
  "tray_new config theme_path answers = (case answers of (conn, owner, item_path, menu_path, accepted) \<Rightarrow>
     let icon = (case config of Some (icon, _, _) \<Rightarrow> icon | None \<Rightarrow> None);
         tooltip = (case config of Some (_, tooltip, _) \<Rightarrow> tooltip | None \<Rightarrow> None);
         callback = (case config of Some (_, _, callback) \<Rightarrow> callback | None \<Rightarrow> False);
         tray = \<lparr>ty_conn = True, ty_registered = False, ty_status = TRAY_STATUS_PASSIVE,
                 ty_icon_name = Some (text_or ''typio-keyboard'' icon), ty_icon_theme_path = Some theme_path,
                 ty_tooltip_title = Some (text_or ''Typio Input Method'' tooltip), ty_tooltip_description = None,
                 ty_title = Some ''Typio'', ty_engine_name = None, ty_engine_active = False, ty_menu_revision = 0,
                 ty_menu_callback = callback\<rparr>
     in if \<not> conn \<or> \<not> owner \<or> \<not> item_path \<or> \<not> menu_path then None
        else (case tray_sni_register accepted tray of (res, tray, reqs) \<Rightarrow> Some (tray, reqs)))"

definition tray_dispatch :: "('q \<Rightarrow> bool \<times> 'q) \<Rightarrow> TypioTray \<Rightarrow> 'q \<Rightarrow> int \<times> 'q" where
  "tray_dispatch dispatch tray q = (if \<not> ty_conn tray then (- 1, q) else (0, dispatch_messages dispatch 0 q))"

text \<open>The tray as a listener of the state controller.\<close>

definition tray_state_change_callback ::
    "TypioStateController option \<Rightarrow> TypioStateChangeType \<Rightarrow> TypioTray \<Rightarrow> TypioTray \<times> tray_message list" where
  "tray_state_change_callback ctrl change_type tray = (case ctrl of
       None \<Rightarrow> (tray, [])
     | Some c \<Rightarrow>
         if change_type = CHANGE_MODE
         then (case state_get_current_mode c of
                 None \<Rightarrow> (tray, [])
               | Some mode \<Rightarrow> if em_icon_name mode = None then (tray, []) else tray_set_icon (em_icon_name mode) tray)
         else (case tray_set_icon (ct_status_icon c) tray of
                 (tray, icon) \<Rightarrow>
                   (case tray_update_engine (ct_engine_name c) (ct_engine_active c) tray of
                      (tray, engine) \<Rightarrow> (tray, icon @ engine))))"

definition tray_bind_state_controller ::
    "bool \<Rightarrow> nat \<Rightarrow> nat option \<Rightarrow> nat option \<Rightarrow> (nat \<Rightarrow> TypioStateController) \<Rightarrow>
     nat option \<times> (nat \<Rightarrow> TypioStateController)" where
  "tray_bind_state_controller realloc user_data old ctrl store = (ctrl, rebind_listener realloc user_data old ctrl store)"

end
