(* ===== verification/Tray_Laws.thy ===== *)
theory Tray_Laws
  imports Tray_Sni Dbus_Laws
begin

section \<open>What the tray shows and does\<close>

text \<open>
  The menu as a tree of entries with the actions they stand for, the message that shows it, and
  what a click on an entry does.
\<close>

subsection \<open>The menu\<close>

datatype menu_action = Select_engine string | Select_schema string | Deploy_schemas | Restart_daemon | Quit_daemon

datatype menu_entry =
    Menu_item int string menu_action
  | Menu_separator int
  | Menu_group int string "menu_entry list"

fun action_text :: "menu_action \<Rightarrow> string" where
  "action_text (Select_engine n) = ''engine:'' @ n"
| "action_text (Select_schema i) = ''rime-schema:'' @ i"
| "action_text Deploy_schemas = ''rime-deploy''"
| "action_text Restart_daemon = ''restart''"
| "action_text Quit_daemon = ''quit''"

definition engine_entries :: "'c tray_core \<Rightarrow> TypioTray \<Rightarrow> 'c \<Rightarrow> menu_entry list" where
  "engine_entries core tray c =
     (if tc_manager core
      then List.map_filter (\<lambda>(i, n). map_option (\<lambda>info. Menu_item (100 + int i) (engine_label tray n info) (Select_engine n)) (tc_info core n c))
             (List.enumerate 0 (take 10 (tc_keyboards core c)))
      else [])"

definition schema_entries :: "'c tray_core \<Rightarrow> TypioTray \<Rightarrow> 'c \<Rightarrow> menu_entry list" where
  "schema_entries core tray c = (case tray_load_rime_menu_info core tray c of
       None \<Rightarrow> []
     | Some info \<Rightarrow>
         [Menu_group 20 ''Rime''
           (map (\<lambda>(i, s). Menu_item (200 + int i) (schema_label info s) (Select_schema (fst s))) (List.enumerate 0 (rm_schemas info)) @
            [Menu_item 260 ''Deploy Rime Config'' Deploy_schemas])])"

definition tray_menu :: "'c tray_core \<Rightarrow> TypioTray \<Rightarrow> 'c \<Rightarrow> menu_entry list" where
  "tray_menu core tray c =
     (let engines = engine_entries core tray c in
      (if engines \<noteq> [] then engines @ [Menu_separator 1] else []) @
      (if ty_engine_name tray = Some ''rime''
       then schema_entries core tray c @ [Menu_separator (if engines \<noteq> [] then 2 else 1)] else []) @
      [Menu_item 98 ''Restart'' Restart_daemon, Menu_item 99 ''Quit'' Quit_daemon])"

fun leaves :: "menu_entry \<Rightarrow> (int \<times> menu_action) list" where
  "leaves (Menu_item i l a) = [(i, a)]"
| "leaves (Menu_separator i) = []"
| "leaves (Menu_group i l es) = concat (map leaves es)"

definition menu_leaves :: "menu_entry list \<Rightarrow> (int \<times> menu_action) list" where
  "menu_leaves es = concat (map leaves es)"

fun labels_ok :: "menu_entry \<Rightarrow> bool" where
  "labels_ok (Menu_item i l a) \<longleftrightarrow> utf8_valid l"
| "labels_ok (Menu_separator i) \<longleftrightarrow> True"
| "labels_ok (Menu_group i l es) \<longleftrightarrow> utf8_valid l \<and> list_all labels_ok es"

subsection \<open>The message that shows it\<close>

definition item_value :: "int \<Rightarrow> dbus_value list \<Rightarrow> dbus_value list \<Rightarrow> dbus_value" where
  "item_value i props children = V_struct [V_basic (B_int32 i), V_array ''{sv}'' props, V_array ''v'' children]"

definition label_entry :: "string \<Rightarrow> dbus_value" where
  "label_entry l = entry ''label'' (B_string (Some l))"

definition enabled_entry :: dbus_value where
  "enabled_entry = entry ''enabled'' (B_boolean True)"

definition submenu_entry :: dbus_value where
  "submenu_entry = entry ''children-display'' (B_string (Some ''submenu''))"

fun entry_value :: "menu_entry \<Rightarrow> dbus_value" where
  "entry_value (Menu_item i l a) = V_variant (item_value i [label_entry l, enabled_entry] [])"
| "entry_value (Menu_separator i) = V_variant (item_value i [entry ''type'' (B_string (Some ''separator'')), enabled_entry] [])"
| "entry_value (Menu_group i l es) = V_variant (item_value i [label_entry l, enabled_entry, submenu_entry] (map entry_value es))"

definition layout_value :: "menu_entry list \<Rightarrow> dbus_value" where
  "layout_value es = item_value 0 [submenu_entry] (map entry_value es)"

lemma menu_keys_ok [simp]:
  "utf8_valid ''label''" "utf8_valid ''type''" "utf8_valid ''enabled''" "utf8_valid ''children-display''"
  "utf8_valid ''submenu''" "utf8_valid ''separator''" "utf8_valid ''Rime''" "utf8_valid ''Restart''"
  "utf8_valid ''Quit''" "utf8_valid ''Deploy Rime Config''"
  by code_simp+

lemma entry_parts_ok [simp]:
  "value_ok (label_entry l) \<longleftrightarrow> utf8_valid l" "value_ok enabled_entry" "value_ok submenu_entry"
  "value_sig (label_entry l) = ''{sv}''" "value_sig enabled_entry = ''{sv}''" "value_sig submenu_entry = ''{sv}''"
  by (simp_all add: label_entry_def enabled_entry_def submenu_entry_def)

lemma item_value_ok [simp]:
  "value_ok (item_value i props children) \<longleftrightarrow>
     list_all (\<lambda>v. value_sig v = ''{sv}'' \<and> value_ok v) props \<and> list_all (\<lambda>v. value_sig v = ''v'' \<and> value_ok v) children"
  "value_sig (item_value i props children) = ''(ia{sv}av)''" "\<not> is_entry (item_value i props children)"
  by (simp_all add: item_value_def)

lemma entry_value_ok: "labels_ok e \<Longrightarrow> value_ok (entry_value e) \<and> value_sig (entry_value e) = ''v''"
  by (induction e) (auto simp: list_all_iff)

subsection \<open>Loose writers\<close>

lemma fills_one: "fills d [v] act \<Longrightarrow> fills d vs (in_turn acts) \<Longrightarrow> fills d (v # vs) (in_turn (act # acts))"
  using fills_cons [of d "[v]" act vs acts] by simp

lemma fills_append: "fills d vs (in_turn xs) \<Longrightarrow> fills d ws (in_turn ys) \<Longrightarrow> fills d (vs @ ws) (in_turn (xs @ ys))"
proof -
  assume a: "fills d vs (in_turn xs)" and b: "fills d ws (in_turn ys)"
  show ?thesis unfolding fills_def
  proof (intro allI impI)
    fix s assume n: "no_failure s"
    then have 1: "adds d vs s (snd (in_turn xs s))" using a by (simp add: fills_def)
    then have "adds d ws (snd (in_turn xs s)) (snd (in_turn ys (snd (in_turn xs s))))"
      using b adds_failure [OF 1 n] by (simp add: fills_def)
    with 1 show "adds d (vs @ ws) s (snd (in_turn (xs @ ys) s))" by (simp add: in_turn_append adds_trans)
  qed
qed

lemmas fills_basic = writes_fills [OF append_basic_writes]

lemma fills_array:
  "fills (d + 1) vs (in_turn acts) \<Longrightarrow> list_all (\<lambda>v. value_sig v = s \<and> value_ok v) vs \<Longrightarrow>
   fills d [V_array s vs] (loose_container d (In_array s) acts)"
  by (rule loose_container_fills [OF _ in_array])

lemma fills_item:
  assumes "fills (d + 3) props (in_turn prop_acts)" and "fills (d + 3) children (in_turn child_acts)"
    and "list_all (\<lambda>v. value_sig v = ''{sv}'' \<and> value_ok v) props" and "list_all (\<lambda>v. value_sig v = ''v'' \<and> value_ok v) children"
  shows "fills d [V_variant (item_value i props children)]
    (loose_container d (In_variant ''(ia{sv}av)'')
      [loose_container (d + 1) In_struct
        [append_basic (d + 2) (B_int32 i), loose_container (d + 2) (In_array ''{sv}'') prop_acts,
         loose_container (d + 2) (In_array ''v'') child_acts]])"
proof -
  have "fills (d + 2 + 1) props (in_turn prop_acts)" "fills (d + 2 + 1) children (in_turn child_acts)"
    using assms(1,2) by (simp_all add: numeral_3_eq_3)
  note arrays = fills_array [OF this(1) assms(3)] fills_array [OF this(2) assms(4)]
  have "fills (d + 2) [V_basic (B_int32 i), V_array ''{sv}'' props, V_array ''v'' children]
      (in_turn [append_basic (d + 2) (B_int32 i), loose_container (d + 2) (In_array ''{sv}'') prop_acts,
         loose_container (d + 2) (In_array ''v'') child_acts])"
    by (intro fills_one fills_nil fills_basic arrays)
  then have "fills (d + 1) [item_value i props children]
      (loose_container (d + 1) In_struct
        [append_basic (d + 2) (B_int32 i), loose_container (d + 2) (In_array ''{sv}'') prop_acts,
         loose_container (d + 2) (In_array ''v'') child_acts])"
    using loose_container_fills [OF _ in_struct, of "d + 1"] assms(3,4) unfolding item_value_def by simp
  then show ?thesis
    by (intro loose_container_fills [OF _ in_variant] fills_one fills_nil) (use assms(3,4) in simp_all)
qed

lemma label_fills: "utf8_valid l \<Longrightarrow> fills d [label_entry l] (append_dict_entry_string d ''label'' (Some l))"
  using writes_fills [OF dict_entry_string_writes, of "''label''" "Some l" d] by (simp add: label_entry_def)

lemma enabled_fills: "fills d [enabled_entry] (append_dict_entry_bool d ''enabled'' True)"
  using writes_fills [OF dict_entry_bool_writes, of "''enabled''" d True] by (simp add: enabled_entry_def)

lemma submenu_fills: "fills d [submenu_entry] (append_dict_entry_string d ''children-display'' (Some ''submenu''))"
  using writes_fills [OF dict_entry_string_writes, of "''children-display''" "Some ''submenu''" d] by (simp add: submenu_entry_def)

lemma type_fills: "fills d [entry ''type'' (B_string (Some ''separator''))] (append_dict_entry_string d ''type'' (Some ''separator''))"
  using writes_fills [OF dict_entry_string_writes, of "''type''" "Some ''separator''" d] by simp

lemma item_fills: "utf8_valid l \<Longrightarrow> fills d [entry_value (Menu_item i l a)] (build_menu_item d i (Some l) None True)"
  unfolding build_menu_item_def entry_value.simps
  by (rule fills_item) (auto intro!: fills_one fills_nil label_fills enabled_fills)

lemma separator_fills: "fills d [entry_value (Menu_separator i)] (separator d i)"
  unfolding separator_def build_menu_item_def entry_value.simps
  by (rule fills_item) (auto intro!: fills_one fills_nil type_fills enabled_fills)

lemma group_fills:
  assumes "fills (d + 3) (map entry_value es) (in_turn acts)" and "utf8_valid l" and "list_all labels_ok es"
  shows "fills d [entry_value (Menu_group i l es)] (menu_item_around d i (Some l) True True acts)"
  unfolding menu_item_around_def entry_value.simps
proof (rule fills_item)
  show "fills (d + 3) (map entry_value es) (in_turn acts)" by (rule assms(1))
  show "list_all (\<lambda>v. value_sig v = ''v'' \<and> value_ok v) (map entry_value es)"
    using assms(3) entry_value_ok by (auto simp: list_all_iff)
qed (use assms(2) in \<open>auto intro!: fills_one fills_nil label_fills enabled_fills submenu_fills\<close>)

lemma engine_entries_items:
  "engine_entries core tray c =
     map (\<lambda>(i, n, l). Menu_item i l (Select_engine n))
       (if tc_manager core
        then List.map_filter (\<lambda>(i, n). map_option (\<lambda>info. (100 + int i, n, engine_label tray n info)) (tc_info core n c))
               (List.enumerate 0 (take 10 (tc_keyboards core c)))
        else [])"
  "engine_items core tray c =
     map (\<lambda>(i, n, l). (i, l))
       (if tc_manager core
        then List.map_filter (\<lambda>(i, n). map_option (\<lambda>info. (100 + int i, n, engine_label tray n info)) (tc_info core n c))
               (List.enumerate 0 (take 10 (tc_keyboards core c)))
        else [])"
  unfolding engine_entries_def engine_items_def List.map_filter_def
  by (auto simp: comp_def case_prod_beta intro!: map_cong filter_cong split: option.split)

lemma items_fill:
  "list_all labels_ok (map (\<lambda>(i, n, l). Menu_item i l (Select_engine n)) xs) \<Longrightarrow>
   fills d (map entry_value (map (\<lambda>(i, n, l). Menu_item i l (Select_engine n)) xs))
     (in_turn (map (\<lambda>(i, l). build_menu_item d i (Some l) None True) (map (\<lambda>(i, n, l). (i, l)) xs)))"
proof (induction xs)
  case (Cons x xs)
  obtain i n l where "x = (i, n, l)" by (cases x) auto
  with Cons show ?case by (auto simp del: entry_value.simps intro!: fills_one item_fills)
qed (simp add: fills_nil)

lemma schemas_fill:
  "list_all labels_ok (map (\<lambda>(i, s). Menu_item (200 + int i) (schema_label info s) (Select_schema (fst s))) xs) \<Longrightarrow>
   fills d (map entry_value (map (\<lambda>(i, s). Menu_item (200 + int i) (schema_label info s) (Select_schema (fst s))) xs))
     (in_turn (map (\<lambda>(i, s). build_menu_item d (RIME_MENU_BASE_ID + int i) (Some (schema_label info s)) None True) xs))"
proof (induction xs)
  case (Cons x xs)
  then show ?case
    by (cases x) (auto simp: RIME_MENU_BASE_ID_def simp del: entry_value.simps intro!: fills_one item_fills)
qed (simp add: fills_nil)

lemma submenu_fill:
  assumes "list_all labels_ok (schema_entries core tray c)"
  shows "fills d (map entry_value (schema_entries core tray c)) (in_turn (build_rime_submenu core d tray c))"
proof (cases "tray_load_rime_menu_info core tray c")
  case None
  then show ?thesis by (simp add: schema_entries_def build_rime_submenu_def fills_nil)
next
  case (Some info)
  let ?es = "map (\<lambda>(i, s). Menu_item (200 + int i) (schema_label info s) (Select_schema (fst s))) (List.enumerate 0 (rm_schemas info))"
  have ok: "list_all labels_ok (?es @ [Menu_item 260 ''Deploy Rime Config'' Deploy_schemas])"
    using assms by (simp add: schema_entries_def Some)
  then have "fills (d + 3) (map entry_value (?es @ [Menu_item 260 ''Deploy Rime Config'' Deploy_schemas]))
      (in_turn (map (\<lambda>(i, s). build_menu_item (d + 3) (RIME_MENU_BASE_ID + int i) (Some (schema_label info s)) None True)
          (List.enumerate 0 (rm_schemas info)) @
        [build_menu_item (d + 3) RIME_MENU_RELOAD_ID (Some ''Deploy Rime Config'') None True]))"
    unfolding map_append
    by (intro fills_append schemas_fill)
      (auto simp: RIME_MENU_RELOAD_ID_def simp del: entry_value.simps intro!: fills_one fills_nil item_fills)
  from group_fills [OF this _ ok] show ?thesis
    unfolding schema_entries_def build_rime_submenu_def Some option.case list.map
    by (intro fills_one fills_nil) simp
qed

lemma menu_fill:
  assumes "list_all labels_ok (tray_menu core tray c)"
  shows "fills 2 (map entry_value (tray_menu core tray c)) (in_turn (menu_children core tray c))"
proof -
  have engines: "(engine_items core tray c = []) = (engine_entries core tray c = [])" by (simp add: engine_entries_items)
  have ok: "list_all labels_ok (engine_entries core tray c)"
      "ty_engine_name tray = Some ''rime'' \<Longrightarrow> list_all labels_ok (schema_entries core tray c)"
    using assms by (auto simp: tray_menu_def Let_def split: if_splits)
  have 1: "fills 2 (map entry_value (engine_entries core tray c))
      (in_turn (map (\<lambda>(i, l). build_menu_item 2 i (Some l) None True) (engine_items core tray c)))"
    using items_fill ok(1) unfolding engine_entries_items by blast
  have 2: "fills 2 (map entry_value (if engine_entries core tray c \<noteq> [] then engine_entries core tray c @ [Menu_separator 1] else []))
      (in_turn (map (\<lambda>(i, l). build_menu_item 2 i (Some l) None True) (engine_items core tray c) @
        (if engine_items core tray c \<noteq> [] then [separator 2 1] else [])))"
    using fills_append [OF 1 fills_one [OF separator_fills [of 2 1] fills_nil]] 1 engines
    by (auto simp del: entry_value.simps)
  have 3: "fills 2 (map entry_value (if ty_engine_name tray = Some ''rime''
        then schema_entries core tray c @ [Menu_separator (if engine_entries core tray c \<noteq> [] then 2 else 1)] else []))
      (in_turn (if ty_engine_name tray = Some ''rime''
        then build_rime_submenu core 2 tray c @ [separator 2 (if engine_items core tray c \<noteq> [] then 1 + 1 else 1)] else []))"
    using fills_append [OF submenu_fill [OF ok(2)] fills_one [OF separator_fills fills_nil]] engines
    by (auto simp del: entry_value.simps simp: fills_nil)
  have 4: "fills 2 (map entry_value [Menu_item 98 ''Restart'' Restart_daemon, Menu_item 99 ''Quit'' Quit_daemon])
      (in_turn [build_menu_item 2 98 (Some ''Restart'') None True, build_menu_item 2 99 (Some ''Quit'') None True])"
    unfolding list.map by (intro fills_one fills_nil item_fills) simp_all
  from fills_append [OF 2 fills_append [OF 3 4]] show ?thesis
    unfolding tray_menu_def menu_children_def Let_def map_append append_assoc .
qed

end
