(* ===== verification/Tray_Props.thy ===== *)
theory Tray_Props
  imports Tray_Laws
begin

section \<open>Properties of the tray\<close>

text \<open>
  The menu that the tray shows against what a click on it does, up to the core, and its
  registration with the watcher.
\<close>

subsection \<open>Clicks\<close>

text \<open>What an action does: the calls into the core and the requests of the daemon.\<close>

fun menu_effect :: "'w menu_core \<Rightarrow> menu_action \<Rightarrow> 'w \<Rightarrow> 'w TypioDaemonApp \<Rightarrow> 'w \<times> 'w TypioDaemonApp \<times> surface_request list" where
  "menu_effect mc (Select_engine n) w app = (snd (mc_set_active mc n w), app, [])"
| "menu_effect mc (Select_schema s) w app =
     (case write_rime_schema_state mc s app w of
        (ok, w) \<Rightarrow>
          if \<not> ok then (w, app, [])
          else (case mc_reload_config mc w of
                  (res, w) \<Rightarrow> if res = TYPIO_OK then (w, sync_controller w app) else (w, app, [])))"
| "menu_effect mc Deploy_schemas w app =
     (case mc_deploy_rime_config mc w of
        (res, w) \<Rightarrow> if res = TYPIO_OK then (w, sync_controller w app) else (w, app, []))"
| "menu_effect mc Restart_daemon w app = (w, app\<lparr>da_restart_requested := True\<rparr>, request_stop app)"
| "menu_effect mc Quit_daemon w app = (w, app, request_stop app)"

lemma action_effect: "mc_manager mc \<Longrightarrow> tray_menu_callback mc (action_text a) w app = menu_effect mc a w app"
  by (cases a) (simp_all add: tray_menu_callback_def starts_with_def)

text \<open>The names fit into the buffers of the actions.\<close>

definition names_fit :: "'c tray_core \<Rightarrow> 'c \<Rightarrow> bool" where
  "names_fit core c \<longleftrightarrow> list_all (\<lambda>n. length n \<le> 120) (tc_keyboards core c) \<and>
     (case tc_schema_list core c of None \<Rightarrow> True | Some (available, schemas) \<Rightarrow> list_all (\<lambda>s. length (fst s) \<le> 243) schemas)"

lemma in_enumerate: "(i, x) \<in> set (List.enumerate 0 xs) \<longleftrightarrow> i < length xs \<and> xs ! i = x"
  by (auto simp: in_set_enumerate_eq)

lemma engine_leaf:
  assumes "(item_id, a) \<in> set (menu_leaves (engine_entries core tray c))"
  shows "tc_manager core \<and> (\<exists>i n. item_id = 100 + int i \<and> i < 10 \<and> i < length (tc_keyboards core c) \<and>
    tc_keyboards core c ! i = n \<and> a = Select_engine n)"
proof -
  obtain e where e: "e \<in> set (engine_entries core tray c)" "(item_id, a) \<in> set (leaves e)"
    using assms by (auto simp: menu_leaves_def)
  then show ?thesis
    by (auto simp: engine_entries_def List.map_filter_def in_enumerate split: if_splits)
qed

lemma schema_leaf:
  assumes "(item_id, a) \<in> set (menu_leaves (schema_entries core tray c))"
  obtains (schema) info i where "tray_load_rime_menu_info core tray c = Some info" "item_id = 200 + int i"
      "i < length (rm_schemas info)" "a = Select_schema (fst (rm_schemas info ! i))"
    | (deploy) "item_id = 260" "a = Deploy_schemas"
  using assms
  by (auto simp: schema_entries_def menu_leaves_def in_enumerate split: option.splits) (metis fst_conv)

lemma loaded_schemas:
  assumes "tray_load_rime_menu_info core tray c = Some info"
  shows "\<exists>schemas. tc_schema_list core c = Some (True, schemas) \<and> rm_schemas info = take 32 schemas"
  using assms by (auto simp: tray_load_rime_menu_info_def RIME_MENU_MAX_SCHEMAS_def split: if_splits option.splits)

definition menu_clicked :: "dbus_message \<Rightarrow> int \<Rightarrow> bool" where
  "menu_clicked msg item_id \<longleftrightarrow>
     dm_type msg = METHOD_CALL \<and> dm_interface msg = Some DBUSMENU_INTERFACE \<and> dm_path msg = Some DBUSMENU_PATH \<and>
     dm_member msg = ''Event'' \<and> (\<exists>rest. dm_args msg = V_basic (B_int32 item_id) # V_string ''clicked'' # rest)"

lemma leaf_clicked:
  assumes "(item_id, a) \<in> set (menu_leaves (tray_menu core tray c))" and "menu_clicked msg item_id"
    and "de_new env" and "ty_menu_callback tray" and fit: "names_fit core c"
  shows "tray_handle_message env xml pix core tray msg c = (Some (Method_return []), [action_text a])"
proof -
  have handler: "tray_handle_message env xml pix core tray msg c = handle_menu_event env core tray msg c"
    using assms(2) by (simp add: tray_handle_message_def menu_clicked_def DBUSMENU_INTERFACE_def PROPERTIES_INTERFACE_def Let_def)
  obtain rest where args: "dm_args msg = V_basic (B_int32 item_id) # V_string ''clicked'' # rest"
    using assms(2) by (auto simp: menu_clicked_def)
  note event = handle_menu_event_def args callback_action_def new_return_def RIME_MENU_BASE_ID_def RIME_MENU_RELOAD_ID_def
    RIME_MENU_MAX_SCHEMAS_def assms(3,4)
  have split: "menu_leaves (xs @ ys) = menu_leaves xs @ menu_leaves ys" for xs ys by (simp add: menu_leaves_def)
  from assms(1) consider "(item_id, a) \<in> set (menu_leaves (engine_entries core tray c))"
    | "(item_id, a) \<in> set (menu_leaves (schema_entries core tray c))" | "(item_id, a) = (98, Restart_daemon)" | "(item_id, a) = (99, Quit_daemon)"
    by (auto simp: tray_menu_def Let_def split) (auto simp: menu_leaves_def split: if_splits)
  then show ?thesis
  proof cases
    case 1
    from engine_leaf [OF this] obtain i n where i: "tc_manager core" "item_id = 100 + int i" "i < 10"
        "i < length (tc_keyboards core c)" "tc_keyboards core c ! i = n" "a = Select_engine n" by blast
    have "n \<in> set (tc_keyboards core c)" using i(4,5) by (metis nth_mem)
    then have "length n \<le> 120" using fit by (auto simp: names_fit_def list_all_iff)
    with i show ?thesis by (simp add: handler event Let_def)
  next
    case 2
    then show ?thesis
    proof (cases rule: schema_leaf)
      case (schema info i)
      from loaded_schemas [OF schema(1)] obtain schemas where s: "tc_schema_list core c = Some (True, schemas)" "rm_schemas info = take 32 schemas"
        by blast
      have "rm_schemas info ! i \<in> set schemas" using schema(3) s(2) by (metis in_set_takeD nth_mem)
      then have "length (fst (rm_schemas info ! i)) \<le> 243" using fit s(1) by (auto simp: names_fit_def list_all_iff)
      moreover have "i < 32" using schema(3) s(2) by simp
      ultimately show ?thesis using schema by (simp add: handler event Let_def)
    next
      case deploy
      then show ?thesis by (simp add: handler event)
    qed
  qed (simp_all add: handler event)
qed

lemma tray_leaves:
  "menu_leaves (tray_menu core tray c) =
     menu_leaves (engine_entries core tray c) @
     (if ty_engine_name tray = Some ''rime'' then menu_leaves (schema_entries core tray c) else []) @
     [(98, Restart_daemon), (99, Quit_daemon)]"
  by (simp add: tray_menu_def menu_leaves_def Let_def)

lemma distinct_engine_ids: "distinct (map fst (menu_leaves (engine_entries core tray c)))"
proof -
  have "distinct (map fst (menu_leaves (List.map_filter (\<lambda>(i, n). map_option (\<lambda>info. Menu_item (100 + int i) (l n info) (Select_engine n)) (f n))
      (List.enumerate k ns)))) \<and>
    (\<forall>x \<in> set (map fst (menu_leaves (List.map_filter (\<lambda>(i, n). map_option (\<lambda>info. Menu_item (100 + int i) (l n info) (Select_engine n)) (f n))
      (List.enumerate k ns)))). 100 + int k \<le> x)" for k ns and l :: "string \<Rightarrow> TypioEngineInfo \<Rightarrow> string" and f
  proof (induction ns arbitrary: k)
    case Nil
    then show ?case by (simp add: List.map_filter_def menu_leaves_def)
  next
    case (Cons n ns)
    from Cons [of "Suc k"] show ?case
      by (cases "f n") (force simp: List.map_filter_simps menu_leaves_def)+
  qed
  then show ?thesis by (simp add: engine_entries_def menu_leaves_def)
qed

lemma distinct_schema_ids: "distinct (map fst (menu_leaves (schema_entries core tray c)))"
proof (cases "tray_load_rime_menu_info core tray c")
  case None
  then show ?thesis by (simp add: schema_entries_def menu_leaves_def)
next
  case (Some info)
  have ids: "map fst (concat (map leaves (map (\<lambda>(i, s). Menu_item (200 + int i) (l s) (Select_schema (fst s))) (List.enumerate k xs)))) =
      map (\<lambda>i. 200 + int i) [k..<k + length xs]" for k and xs :: "(string \<times> string option) list" and l
    by (induction xs arbitrary: k) (simp_all add: upt_conv_Cons del: upt_Suc)
  have "length (rm_schemas info) \<le> 32" using loaded_schemas [OF Some] by auto
  then show ?thesis
    using ids [where k = 0 and xs = "rm_schemas info" and l = "schema_label info"]
    by (auto simp: schema_entries_def menu_leaves_def Some distinct_map inj_on_def)
qed

lemma distinct_ids: "distinct (map fst (menu_leaves (tray_menu core tray c)))"
proof -
  have e: "\<exists>i. x = 100 + int i \<and> i < 10" if "x \<in> fst ` set (menu_leaves (engine_entries core tray c))" for x
    using that engine_leaf by fastforce
  have s: "x \<ge> 200" if "x \<in> fst ` set (menu_leaves (schema_entries core tray c))" for x
    using that by (auto elim: schema_leaf)
  show ?thesis
    unfolding tray_leaves
    using distinct_engine_ids [of core tray c] distinct_schema_ids [of core tray c] e s by fastforce
qed

subsection \<open>The properties\<close>

text \<open>
  C20. What the menu shows is what it does: on a working connection the reply to GetLayout is the
  current revision and the tree of the menu, with the ordered keyboards, the schemas of an active
  Rime engine and the entries of the daemon; its entries have different identifiers, and a click on
  one of them makes the daemon do what the entry stands for, and nothing else: the engine at the
  shown place is activated, the shown schema is set, the schemas are deployed, the daemon restarts
  or stops. (Labels are UTF-8 where they were cut, names fit into the buffers, and the core is
  as it was when the layout was asked for.)
\<close>

theorem menu_does_what_it_shows:
  assumes "de_new env" and "\<And>n. \<not> de_fail env n" and "list_all labels_ok (tray_menu core tray c)" and "names_fit core c"
    and "ty_menu_callback tray" and "mc_manager mc"
    and "dm_type ask = METHOD_CALL" and "dm_interface ask = Some DBUSMENU_INTERFACE" and "dm_member ask = ''GetLayout''"
    and "dm_args ask = V_basic (B_int32 parent) # V_basic (B_int32 depth) # rest"
  shows "(\<exists>cs. tray_handle_message env xml pix core tray ask c = (Some (Method_return cs), []) \<and>
       message_body cs = Some [V_basic (B_uint32 (ty_menu_revision tray)), layout_value (tray_menu core tray c)]) \<and>
     distinct (map fst (menu_leaves (tray_menu core tray c))) \<and>
     (\<forall>item_id a msg w app. (item_id, a) \<in> set (menu_leaves (tray_menu core tray c)) \<longrightarrow> menu_clicked msg item_id \<longrightarrow>
       (\<exists>action. tray_handle_message env xml pix core tray msg c = (Some (Method_return []), [action]) \<and>
         tray_menu_callback mc action w app = menu_effect mc a w app))"
proof (intro conjI allI impI)
  show "distinct (map fst (menu_leaves (tray_menu core tray c)))" by (rule distinct_ids)
  fix item_id a msg w app
  assume "(item_id, a) \<in> set (menu_leaves (tray_menu core tray c))" and "menu_clicked msg item_id"
  from leaf_clicked [OF this assms(1,5,4)]
  show "\<exists>action. tray_handle_message env xml pix core tray msg c = (Some (Method_return []), [action]) \<and>
      tray_menu_callback mc action w app = menu_effect mc a w app"
    using action_effect [OF assms(6)] by blast
next
  let ?acts = "[append_basic 0 (B_uint32 (ty_menu_revision tray)),
      loose_container 0 In_struct
        [append_basic 1 (B_int32 0),
         loose_container 1 (In_array ''{sv}'') [append_dict_entry_string 2 ''children-display'' (Some ''submenu'')],
         loose_container 1 (In_array ''v'') (menu_children core tray c)]]"
  have kids: "list_all (\<lambda>v. value_sig v = ''v'' \<and> value_ok v) (map entry_value (tray_menu core tray c))"
    using assms(3) entry_value_ok by (auto simp: list_all_iff)
  have props: "fills 1 [V_array ''{sv}'' [submenu_entry]]
      (loose_container 1 (In_array ''{sv}'') [append_dict_entry_string 2 ''children-display'' (Some ''submenu'')])"
  proof (rule fills_array)
    have "fills 2 [submenu_entry] (in_turn [append_dict_entry_string 2 ''children-display'' (Some ''submenu'')])"
      by (intro fills_one fills_nil submenu_fills)
    then show "fills (1 + 1) [submenu_entry] (in_turn [append_dict_entry_string 2 ''children-display'' (Some ''submenu'')])"
      by (simp only: one_add_one)
  qed simp
  have children: "fills 1 [V_array ''v'' (map entry_value (tray_menu core tray c))] (loose_container 1 (In_array ''v'') (menu_children core tray c))"
    by (rule fills_array [OF _ kids]) (use menu_fill [OF assms(3)] in \<open>simp add: numeral_2_eq_2\<close>)
  have "fills (0 + 1) [V_basic (B_int32 0), V_array ''{sv}'' [submenu_entry], V_array ''v'' (map entry_value (tray_menu core tray c))]
      (in_turn [append_basic 1 (B_int32 0),
         loose_container 1 (In_array ''{sv}'') [append_dict_entry_string 2 ''children-display'' (Some ''submenu'')],
         loose_container 1 (In_array ''v'') (menu_children core tray c)])"
    using fills_one [OF fills_basic fills_one [OF props fills_one [OF children fills_nil]]] by simp
  note fields = this
  have "fills 0 [layout_value (tray_menu core tray c)] (?acts ! 1)"
    unfolding layout_value_def item_value_def
    using loose_container_fills [OF fields in_struct] kids by simp
  then have "fills 0 [V_basic (B_uint32 (ty_menu_revision tray)), layout_value (tray_menu core tray c)] (in_turn ?acts)"
    by (intro fills_one fills_nil fills_basic) simp
  from body_fills [OF this assms(2)] kids
  have "message_body (db_calls (snd (in_turn ?acts (new_builder env)))) =
      Some [V_basic (B_uint32 (ty_menu_revision tray)), layout_value (tray_menu core tray c)]"
    by (simp add: layout_value_def)
  moreover have "tray_handle_message env xml pix core tray ask c =
      (Some (Method_return (db_calls (snd (in_turn ?acts (new_builder env))))), [])"
    using assms(1,7-10)
    by (simp add: tray_handle_message_def handle_menu_getlayout_def parse_menu_getlayout_request_def return_with_def
        DBUSMENU_INTERFACE_def PROPERTIES_INTERFACE_def Let_def)
  ultimately show "\<exists>cs. tray_handle_message env xml pix core tray ask c = (Some (Method_return cs), []) \<and>
      message_body cs = Some [V_basic (B_uint32 (ty_menu_revision tray)), layout_value (tray_menu core tray c)]"
    by blast
qed

text \<open>A core with two engines, of which Rime is active with two schemas.\<close>

definition demo_tray_info :: "string \<Rightarrow> TypioEngineInfo" where
  "demo_tray_info n =
     \<lparr>ei_name = Some n, ei_display_name = Some n, ei_icon = None, ei_language = None, ei_type = ENGINE_TYPE_KEYBOARD, ei_capabilities = 0\<rparr>"

definition demo_tray_core :: "unit tray_core" where
  "demo_tray_core =
     \<lparr>tc_manager = True, tc_keyboards = \<lambda>c. [''basic'', ''rime''], tc_info = \<lambda>n c. Some (demo_tray_info n),
      tc_active = \<lambda>c. Some \<lparr>ce_name = Some ''rime'', ce_info = None, ce_config_path = None, ce_active = True\<rparr>,
      tc_schema_list = \<lambda>c. Some (True, [(''luna'', Some ''Luna''), (''wubi'', None)]), tc_current_schema = \<lambda>c. Some ''luna''\<rparr>"

definition demo_tray :: TypioTray where
  "demo_tray =
     \<lparr>ty_conn = True, ty_registered = True, ty_status = TRAY_STATUS_ACTIVE, ty_icon_name = None, ty_icon_theme_path = None,
      ty_tooltip_title = None, ty_tooltip_description = None, ty_title = None, ty_engine_name = Some ''rime'',
      ty_engine_active = True, ty_menu_revision = 7, ty_menu_callback = True\<rparr>"

definition demo_click :: "int \<Rightarrow> dbus_message" where
  "demo_click item_id =
     \<lparr>dm_type = METHOD_CALL, dm_interface = Some DBUSMENU_INTERFACE, dm_member = ''Event'', dm_path = Some DBUSMENU_PATH,
      dm_args = [V_basic (B_int32 item_id), V_string ''clicked'']\<rparr>"

definition demo_mc :: "string list menu_core" where
  "demo_mc =
     \<lparr>mc_manager = True, mc_next = id, mc_prev = id, mc_set_active = \<lambda>n w. (TYPIO_OK, w @ [n]), mc_set_rime_schema = \<lambda>n w. (TYPIO_OK, w),
      mc_reload_config = \<lambda>w. (TYPIO_OK, w), mc_deploy_rime_config = \<lambda>w. (TYPIO_OK, w)\<rparr>"

lemma demo_core_fields:
  "tc_manager demo_tray_core" "tc_keyboards demo_tray_core c = [''basic'', ''rime'']" "tc_info demo_tray_core n c = Some (demo_tray_info n)"
  "tc_active demo_tray_core c = Some \<lparr>ce_name = Some ''rime'', ce_info = None, ce_config_path = None, ce_active = True\<rparr>"
  "tc_schema_list demo_tray_core c = Some (True, [(''luna'', Some ''Luna''), (''wubi'', None)])"
  "tc_current_schema demo_tray_core c = Some ''luna''"
  "ty_engine_name demo_tray = Some ''rime''" "ty_menu_callback demo_tray" "ty_menu_revision demo_tray = 7"
  by (simp_all add: demo_tray_core_def demo_tray_def)

lemma demo_engine_labels:
  "engine_label demo_tray ''basic'' (demo_tray_info ''basic'') = ''  basic''"
  "engine_label demo_tray ''rime'' (demo_tray_info ''rime'') = bullet @ '' rime''"
  by (simp_all add: engine_label_def demo_core_fields demo_tray_info_def label_from_info_def filled_def bullet_def)

lemma demo_engines:
  "engine_entries demo_tray_core demo_tray () =
     [Menu_item 100 ''  basic'' (Select_engine ''basic''), Menu_item 101 (bullet @ '' rime'') (Select_engine ''rime'')]"
  by (simp add: engine_entries_def demo_core_fields List.map_filter_simps demo_engine_labels)

lemma demo_info:
  "tray_load_rime_menu_info demo_tray_core demo_tray () =
     Some \<lparr>rm_current_schema = Some ''luna'', rm_schemas = [(''luna'', Some ''Luna''), (''wubi'', None)]\<rparr>"
  by (simp add: tray_load_rime_menu_info_def demo_core_fields RIME_MENU_MAX_SCHEMAS_def)

lemma demo_schemas:
  "schema_entries demo_tray_core demo_tray () =
     [Menu_group 20 ''Rime''
        [Menu_item 200 (bullet @ '' Luna (luna)'') (Select_schema ''luna''), Menu_item 201 ''  wubi'' (Select_schema ''wubi''),
         Menu_item 260 ''Deploy Rime Config'' Deploy_schemas]]"
  by (simp add: schema_entries_def demo_info schema_label_def bullet_def)

lemma demo_menu:
  "tray_menu demo_tray_core demo_tray () =
     [Menu_item 100 ''  basic'' (Select_engine ''basic''), Menu_item 101 (bullet @ '' rime'') (Select_engine ''rime''), Menu_separator 1,
      Menu_group 20 ''Rime''
        [Menu_item 200 (bullet @ '' Luna (luna)'') (Select_schema ''luna''), Menu_item 201 ''  wubi'' (Select_schema ''wubi''),
         Menu_item 260 ''Deploy Rime Config'' Deploy_schemas],
      Menu_separator 2, Menu_item 98 ''Restart'' Restart_daemon, Menu_item 99 ''Quit'' Quit_daemon]"
  by (simp add: tray_menu_def Let_def demo_engines demo_schemas demo_core_fields)

theorem menu_does_what_it_shows_witness:
  "\<forall>app. \<exists>action. tray_handle_message \<lparr>de_extra_ok = True, de_new = True, de_fail = \<lambda>_. False\<rparr> ([], []) (\<lambda>_. None)
       demo_tray_core demo_tray (demo_click 100) () = (Some (Method_return []), [action]) \<and>
     tray_menu_callback demo_mc action [] app = ([''basic''], app, [])"
proof
  fix app
  let ?env = "\<lparr>de_extra_ok = True, de_new = True, de_fail = \<lambda>_. False\<rparr>"
  let ?ask = "(demo_click 0)\<lparr>dm_member := ''GetLayout'', dm_args := [V_basic (B_int32 0), V_basic (B_int32 (-1))]\<rparr>"
  have labels: "list_all labels_ok (tray_menu demo_tray_core demo_tray ())"
    unfolding demo_menu by (simp add: bullet_def between_def utf8_valid.simps)
  have fit: "names_fit demo_tray_core ()" by (simp add: names_fit_def demo_core_fields)
  have leaf: "(100, Select_engine ''basic'') \<in> set (menu_leaves (tray_menu demo_tray_core demo_tray ()))"
    unfolding demo_menu by (simp add: menu_leaves_def)
  have clicked: "menu_clicked (demo_click 100) 100" by (simp add: menu_clicked_def demo_click_def)
  have "menu_effect demo_mc (Select_engine ''basic'') [] app = ([''basic''], app, [])" by (simp add: demo_mc_def)
  moreover have "\<exists>action. tray_handle_message ?env ([], []) (\<lambda>_. None) demo_tray_core demo_tray (demo_click 100) () = (Some (Method_return []), [action]) \<and>
      tray_menu_callback demo_mc action [] app = menu_effect demo_mc (Select_engine ''basic'') [] app"
  proof -
    have manager: "mc_manager demo_mc" by (simp add: demo_mc_def)
    have ask: "dm_type ?ask = METHOD_CALL" "dm_interface ?ask = Some DBUSMENU_INTERFACE" "dm_member ?ask = ''GetLayout''"
      "dm_args ?ask = V_basic (B_int32 0) # V_basic (B_int32 (-1)) # []"
      by (simp_all add: demo_click_def)
    have works: "de_new ?env" "\<And>n. \<not> de_fail ?env n" by simp_all
    from menu_does_what_it_shows [OF works labels fit demo_core_fields(8) manager ask, of "([], [])" "\<lambda>_. None"]
    show ?thesis using leaf clicked by (elim conjE allE) (erule (1) impE, erule (1) impE, assumption)
  qed
  ultimately show "\<exists>action. tray_handle_message ?env ([], []) (\<lambda>_. None) demo_tray_core demo_tray (demo_click 100) () =
       (Some (Method_return []), [action]) \<and> tray_menu_callback demo_mc action [] app = ([''basic''], app, [])"
    by simp
qed

subsection \<open>The watcher\<close>

definition owner_changed :: "string \<Rightarrow> string \<Rightarrow> dbus_message" where
  "owner_changed old new =
     \<lparr>dm_type = SIGNAL, dm_interface = Some BUS_INTERFACE, dm_member = ''NameOwnerChanged'', dm_path = Some ''/org/freedesktop/DBus'',
      dm_args = [V_string SNI_WATCHER_SERVICE, V_string old, V_string new]\<rparr>"

text \<open>
  The tray, the owner of the watcher's name (empty when there is none) and the one that accepted the
  last registration, over changes of the owner with its answer to a registration.
\<close>

type_synonym watch_state = "TypioTray \<times> string \<times> string"

definition watch_step :: "dbus_env \<Rightarrow> string \<times> bool \<Rightarrow> watch_state \<Rightarrow> watch_state" where
  "watch_step env ev st = (case (ev, st) of ((new, accepted), (tray, owner, known)) \<Rightarrow>
     (case tray_bus_filter env accepted (owner_changed owner new) tray of
        (handled, tray, reqs) \<Rightarrow> (tray, new, if Register_item \<in> set reqs \<and> accepted then new else known)))"

lemma filter_owner_changed:
  "tray_bus_filter env accepted (owner_changed old new) tray =
     (if new = [] then (True, tray\<lparr>ty_registered := False\<rparr>, [])
      else if ty_registered tray then (True, tray, [])
      else (case tray_sni_register accepted tray of (res, tray, reqs) \<Rightarrow> (True, tray, reqs)))"
  by (simp add: tray_bus_filter_def owner_changed_def get_args_def BUS_INTERFACE_def numeral_3_eq_3)

definition gaps :: "string \<Rightarrow> (string \<times> bool) list \<Rightarrow> bool" where
  "gaps owner evs \<longleftrightarrow> (\<forall>i < length evs. ((owner # map fst evs) ! i = []) \<or> fst (evs ! i) = [])"

lemma gaps_cons: "gaps owner (ev # evs) \<longleftrightarrow> (owner = [] \<or> fst ev = []) \<and> gaps (fst ev) evs"
  unfolding gaps_def by (auto simp: nth_Cons split: nat.splits)

definition known_to_owner :: "watch_state \<Rightarrow> bool" where
  "known_to_owner st \<longleftrightarrow> (case st of (tray, owner, known) \<Rightarrow> ty_registered tray \<longrightarrow> owner \<noteq> [] \<and> known = owner)"

lemma watch_step_gap:
  assumes "known_to_owner (tray, owner, known)" and "owner = [] \<or> fst ev = []"
  shows "known_to_owner (watch_step env ev (tray, owner, known)) \<and> fst (snd (watch_step env ev (tray, owner, known))) = fst ev"
  using assms
  by (cases ev) (auto simp: watch_step_def known_to_owner_def filter_owner_changed tray_sni_register_def split: if_splits)

lemma watch_run_gaps:
  "known_to_owner st \<Longrightarrow> gaps (fst (snd st)) evs \<Longrightarrow> known_to_owner (fold (watch_step env) evs st)"
proof (induction evs arbitrary: st)
  case (Cons ev evs)
  obtain tray owner known where st: "st = (tray, owner, known)" by (cases st)
  with Cons.prems watch_step_gap [of tray owner known ev env] Cons.IH show ?case by (simp add: gaps_cons)
qed simp

lemma watch_step_handover:
  assumes "ty_registered tray" and "fst ev \<noteq> []"
  shows "watch_step env ev (tray, owner, known) = (tray, fst ev, known)"
  using assms by (cases ev) (simp add: watch_step_def filter_owner_changed)

text \<open>
  C23. The tray is known to the watcher, unless one replaces another: from its creation on, whatever
  watchers come and go and whatever they answer, a tray that counts as registered is
  registered with the present watcher, as long as every watcher leaves before the next one comes.
  But when the name passes from one watcher to another directly, the tray goes on counting as
  registered and tells no later watcher of itself, until one leaves without a successor.
\<close>

theorem watcher_handover_loses_tray:
  assumes "\<not> ty_registered tray0" and "gaps [] evs" and "fold (watch_step env) evs (tray0, [], []) = (tray, owner, known)"
  shows "(ty_registered tray \<longrightarrow> owner \<noteq> [] \<and> known = owner) \<and>
     (ty_registered tray \<longrightarrow> list_all (\<lambda>ev. fst ev \<noteq> []) handovers \<longrightarrow>
        fold (watch_step env) handovers (tray, owner, known) = (tray, last (owner # map fst handovers), owner))"
proof -
  have known: "known_to_owner (tray, owner, known)"
    using watch_run_gaps [of "(tray0, [], [])" evs env] assms by (simp add: known_to_owner_def)
  have "fold (watch_step env) handovers (tray, o', k) = (tray, last (o' # map fst handovers), k)"
    if "ty_registered tray" "list_all (\<lambda>ev. fst ev \<noteq> []) handovers" for o' k
    using that(2) by (induction handovers arbitrary: o') (simp_all add: watch_step_handover that(1))
  with known show ?thesis by (auto simp: known_to_owner_def)
qed

theorem watcher_handover_loses_tray_witness:
  "fold (watch_step \<lparr>de_extra_ok = True, de_new = True, de_fail = \<lambda>_. False\<rparr>) [('':1.9'', True)] (demo_tray, '':1.5'', '':1.5'') =
     (demo_tray, '':1.9'', '':1.5'')"
proof -
  let ?env = "\<lparr>de_extra_ok = True, de_new = True, de_fail = \<lambda>_. False\<rparr>"
  have "gaps [] [('':1.5'', True)]" by (simp add: gaps_def)
  moreover have "fold (watch_step ?env) [('':1.5'', True)] (demo_tray\<lparr>ty_registered := False\<rparr>, [], []) = (demo_tray, '':1.5'', '':1.5'')"
    by (simp add: watch_step_def filter_owner_changed tray_sni_register_def demo_tray_def)
  ultimately show ?thesis
    using watcher_handover_loses_tray [of "demo_tray\<lparr>ty_registered := False\<rparr>" "[('':1.5'', True)]" ?env demo_tray "'':1.5''" "'':1.5''"
        "[('':1.9'', True)]"] by (simp add: demo_tray_def)
qed

end
