(* ===== verification/Spec2Isabelle.thy ===== *)
theory Spec2Isabelle
  imports Demo_Frontend Uds_Props Ipc_Props Engine_Props Daemon_Props Rime_Props Panel_Props Flux_Props Mozc_Props Dbus_Props Tray_Props
begin

text \<open>
  Typio is a Wayland input method daemon. Its Wayland frontend, its IPC server and its engine
  plugins are C; the core library (engine manager, input contexts, configuration) is Rust behind
  a C ABI. This development models the C frontend, which owns the keyboard of the whole desktop
  while a text field is focused: every key the user presses goes through it, so that its errors
  show as stuck keys, lost keys or a dead keyboard.

  How the parts interact. The compositor's events reach two sets of listeners: those of the
  input-method object (\<^verbatim>\<open>wl_input_method.c\<close>: activate, deactivate, done) and those of the
  keyboard grab (\<^verbatim>\<open>wl_keyboard.c\<close>: keymap, key, modifiers). A key passes the routing guard, the
  chord arbiter that holds back modifier events while the engine-switch chord is possible
  (\<^verbatim>\<open>key_arbiter.c\<close>), and the router (\<^verbatim>\<open>key_route.c\<close>), which hands it to the core or
  forwards it to the application through the virtual keyboard (\<^verbatim>\<open>vk_bridge.c\<close>). The core
  answers with callbacks that commit text and change the preedit. At every activation boundary
  the keyboard path is torn down and rebuilt (\<^verbatim>\<open>lifecycle.c\<close>). The event loop
  (\<^verbatim>\<open>wl_event_loop.c\<close>) also detects resumes from sleep, reconciles the believed phase with the
  observed state, and reconnects when the compositor is lost.

  Theories, in dependency order.
  \<^item> \<open>Typio_Prelude\<close>: words, key events, key symbols, shared lemmas, and the locale of event
    machines that keep an invariant.
  \<^item> \<open>Key_Policy\<close>: the pure decisions of \<^verbatim>\<open>modifier_policy.c\<close>, \<^verbatim>\<open>shortcut_chord.c\<close>,
    \<^verbatim>\<open>key_tracking.c\<close>, \<^verbatim>\<open>repeat_guard.c\<close>, \<^verbatim>\<open>startup_guard.c\<close>,
    \<^verbatim>\<open>candidate_guard.c\<close>.
  \<^item> \<open>Lifecycle_Model\<close>: \<^verbatim>\<open>lifecycle_model.c\<close>, \<^verbatim>\<open>lifecycle_state.c\<close>,
    \<^verbatim>\<open>reconcile_model.c\<close>, \<^verbatim>\<open>boundary_bridge.c\<close>, \<^verbatim>\<open>text_ui_state.c\<close>, with the
    phase diagram as a step relation.
  \<^item> \<open>Frontend\<close>: the records of \<^verbatim>\<open>wl_frontend_internal.h\<close> and the environment.
  \<^item> \<open>Vk_Bridge\<close>: the virtual keyboard, and what the application sees of each key.
  \<^item> \<open>Commit_Path\<close>: preedit, commits, callbacks of the core, drawing.
  \<^item> \<open>Lifecycle_Ops\<close>: creating and destroying the grab, hard reset, resume.
  \<^item> \<open>Key_Route\<close>: the router; presses and releases keep the tracking sound.
  \<^item> \<open>Wl_Keyboard\<close>: XKB state, key repeat, the arbiter, the routing guard, the listeners.
  \<^item> \<open>Arbiter_Spec\<close>: the specification of the arbiter, its refinement, and the traces of its runs.
  \<^item> \<open>Input_Method\<close>: sessions, the input-method events, the reconciler.
  \<^item> \<open>Event_Loop\<close>: resume detection, reconnection, the loop, creation and destruction.
  \<^item> \<open>Frontend_Safety\<close>: the invariant over every handler and every run of the loop.
  \<^item> \<open>Frontend_Laws\<close>: the functional laws behind the properties.
  \<^item> \<open>Frontend_Gaps\<close>: situations in which a promise is not kept.
  \<^item> \<open>Demo_Frontend\<close>: concrete states for the witnesses.
  \<^item> \<open>C_Strings\<close>: C strings, decimal and hexadecimal numbers, and the locale of stream codecs,
    whose items can be read back from their concatenation.
  \<^item> \<open>Uds_Server\<close>: the socket server of the IPC bus (\<^verbatim>\<open>daemon/ipc/uds_server.c\<close>) and the
    invariant of its buffers; \<open>Uds_Spec\<close>: byte streams as frames, and its refinement;
    \<open>Uds_Props\<close>: its properties (C28, C29, C31).
  \<^item> \<open>Tip_Json\<close>: the JSON readers and writers (\<^verbatim>\<open>daemon/ipc/tip_json.c\<close>); \<open>Tip_Json_Laws\<close>:
    the buffer stays in bounds, and strings and numbers can be read back; \<open>Json_Grammar\<close>: a
    reference grammar of JSON.
  \<^item> \<open>Status_Service\<close>: the properties and methods of the daemon
    (\<^verbatim>\<open>daemon/state/service.c\<close>); \<open>Status_Laws\<close>: their texts against the grammar.
  \<^item> \<open>Ipc_Bus\<close>: requests from the socket to the service and back
    (\<^verbatim>\<open>daemon/ipc/ipc_bus.c\<close>); \<open>Ipc_Props\<close>: their properties (C35, C37).
  \<^item> \<open>Shortcut_Config\<close>: texts of key bindings (\<^verbatim>\<open>daemon/wayland/shortcut_config.c\<close>)
    with a specification by words; \<open>Basic_Engine\<close>: the basic engine
    (\<^verbatim>\<open>engines/basic/compose.c\<close>, \<^verbatim>\<open>engines/basic/basic.c\<close>); \<open>Basic_Laws\<close>: UTF-8 can
    be read back, and the engine against composition of whole texts; \<open>Engine_Props\<close>: their
    properties (C39, C40).
  \<^item> \<open>Identity\<close>: the focused application and its remembered engine and mode
    (\<^verbatim>\<open>daemon/wayland/identity.c\<close>); \<open>Identity_Laws\<close>: the state file as a memory, and the
    answer of the compositor.
  \<^item> \<open>State_Controller\<close>: the cached state and its listeners
    (\<^verbatim>\<open>daemon/state/controller.c\<close>); \<open>Daemon_App\<close>: the callbacks of the daemon
    (\<^verbatim>\<open>daemon/app.c\<close>); \<open>State_Laws\<close>: runs of the controller; \<open>Daemon_Props\<close>: the properties
    of these components (C16, C18, C20).
  \<^item> \<open>Path_Expand\<close>: variables in paths (\<^verbatim>\<open>engines/rime/path_expand.c\<close>), against a
    reading by pieces; \<open>Rime_Engine\<close>: the engine over librime (\<^verbatim>\<open>engines/rime\<close>);
    \<open>Rime_Laws\<close>: its sessions, modes and deployments; \<open>Rime_Props\<close>: its properties (C32).
  \<^item> The candidate panel (\<^verbatim>\<open>daemon/wayland/popup\<close>): \<open>Panel_Theme\<close>: colours and theme
    (\<^verbatim>\<open>candidate_panel_theme.c\<close>); \<open>Panel_State\<close>: its records, the store of text layouts and
    the frame-retire ring; \<open>Panel_Layout\<close>: layout cache, geometry and configuration
    (\<^verbatim>\<open>candidate_panel_layout.cc\<close>); \<open>Candidate_Panel\<close>: changes, presenting, painting, events
    and the backend (\<^verbatim>\<open>candidate_panel.cc\<close>, \<^verbatim>\<open>candidate_panel_paint.cc\<close>,
    \<^verbatim>\<open>text_ui_backend.c\<close>); \<open>Panel_Ring\<close>, \<open>Panel_Cache\<close>, \<open>Panel_Safety\<close>, \<open>Panel_Run\<close>:
    who owns which layout, kept by every operation; \<open>Panel_Positions\<close>, \<open>Panel_Laid\<close>: where the
    rows lie; \<open>Panel_Faults\<close>: faults are never taken back; \<open>Panel_Props\<close>: the properties
    (C10, C21).
  \<^item> The text renderer (\<^verbatim>\<open>daemon/wayland/flux_renderer.c\<close>): \<open>Flux_Text\<close>: fonts, their
    caches, layouts and images; \<open>Flux_Laws\<close>: blending without wrap-around, pixels, descriptions of
    fonts, and who owns an open face; \<open>Flux_Props\<close>: its properties (C26, C30, C36).
  \<^item> The Mozc engine (\<^verbatim>\<open>engines/mozc\<close>): \<open>Mozc_Engine\<close>: messages, calls over the
    socket, sessions, keys and modes; \<open>Mozc_Laws\<close>: what a call changes, relations that every
    operation keeps, pages of candidates; \<open>Mozc_Props\<close>: its properties (C8, C19, C25, C38).
  \<^item> The status interface on D-Bus: \<open>Dbus_Message\<close>: calls that fill a message
    (\<^verbatim>\<open>daemon/dbus_helpers.h\<close>), values, signatures and when calls build a message;
    \<open>Dbus_Laws\<close>: writers described by the values they add, whichever calls run out of memory;
    \<open>Status_Dbus\<close>: properties, methods, signals and dispatch (\<^verbatim>\<open>daemon/state/dbus.c\<close>);
    \<open>Status_Dbus_Laws\<close>: the value of every property, its calls and its JSON text;
    \<open>Dbus_Props\<close>: its properties (C22, C24, C33, C34).
  \<^item> The tray: \<open>Tray_Sni\<close>: properties, methods, menu, registration and signals
    (\<^verbatim>\<open>daemon/tray/sni.c\<close>, \<^verbatim>\<open>daemon/tray/bus.c\<close>); \<open>Tray_Laws\<close>: the menu as a tree, and
    that the reply to GetLayout is the message of it; \<open>Tray_Props\<close>: its properties (C20, C23).
  State and effects. One record \<open>frontend\<close> carries the C structs; pointers to Wayland objects are
  presence flags, the session and the keyboard are options. Requests to the compositor and to the
  candidate window are appended to \<open>out\<close>, so that what the application sees is a function of the
  state: \<open>app_key_down\<close> replays the key requests, \<open>app_mods\<close> the modifier requests.

  The world. Code outside the C sources is the record \<open>env\<close>: the core behind its ABI (its state is
  opaque), xkbcommon, the outcome of allocations and system calls, the clock. Nothing is assumed
  of it, except where a property says so (C17, for one: the focus follows focus-in and focus-out).
  Callbacks of the core are delivered in order when the call into it
  returns. The clock is read once per handler.

  Bounds and loops. Tracked keys are the array indices below 512. The reconnection loop is a total
  function with the number of attempts left as its measure. The growth of the preedit buffer is a
  \<open>while_option\<close>, and its termination is part of the lemma
  \<open>preedit_is_concatenation\<close>. The text layouts of the candidate panel are objects with an
  identity in a store that counts faults; fewer than 2^27 events keep its LRU clock from wrapping.

  Not modelled: Fontconfig, FreeType and HarfBuzz (parameters of the text renderer), the graphics library, tracing and logging, the watchdog thread (beyond
  its armed flag), the configuration watch, the icons of the tray, the control panel, voice capture, the command line, and
  the Rust core. libdbus is a parameter: which of its calls fail, and how arguments are read.
\<close>

declare not_None_eq [simp del]

section \<open>The keyboard grab over the whole run\<close>

text \<open>
  C1. From the creation of the frontend on, whatever the compositor, the core and the system
  answer, and whatever sequence of turns the event loop takes (reconnections and resumes
  included): a keyboard grab only exists inside a session, outside the inactive phase and with a
  non-zero key generation; the arbiter is idle exactly when it holds back no event, and never
  holds more than its buffer; and no commit is ever sent with serial zero, that is, before the
  compositor's first done event.
\<close>

theorem loop_keeps_frontend_safe:
  assumes "frontend_new env bo sc c = Some fe" and "frontend_run tns rs fe = Some (rs', fe')"
  shows "(keyboard fe' \<noteq> None \<longrightarrow>
        session fe' \<noteq> None \<and> lifecycle_phase fe' \<noteq> PHASE_INACTIVE \<and> active_key_generation fe' \<noteq> 0) \<and>
     ((ar_state (kb_arbiter fe') = ARBITER_IDLE) = (ar_buffer (kb_arbiter fe') = [])) \<and>
     length (ar_buffer (kb_arbiter fe')) \<le> TYPIO_ARBITER_MAX_BUFFERED \<and>
     0 \<notin> set (commit_serials (out fe'))"
  using frontend_run_inv [OF assms(2) frontend_new_inv [OF assms(1)]]
  by (simp add: frontend_inv_def grab_inv_def arbiter_ok_def commits_established_def)

theorem loop_keeps_frontend_safe_witness:
  "keyboard (snd demo_run) \<noteq> None \<and> session (snd demo_run) \<noteq> None"
  using loop_keeps_frontend_safe [OF demo_new_created demo_run_result] demo_run_keyboard by blast

text \<open>
  C2. Reconstructing the keyboard path: whatever the keyboard was doing, the hard reset removes the
  keyboard object, and of the keys that the application sees as pressed it releases exactly the tracked
  ones whose state owes a release, provided the virtual keyboard can carry releases and there was
  a keyboard object or the activation owned keys; every other pressed key stays as it was (such as the key
  that C5 strands). So when each pressed tracked key owes its release, none is left down.
\<close>

theorem hard_reset_releases_all:
  "keyboard (lifecycle_hard_reset_keyboard env fe) = None \<and>
   (\<forall>key. app_key_down key (out (lifecycle_hard_reset_keyboard env fe)) \<longleftrightarrow>
      app_key_down key (out fe) \<and> \<not> (release_owed fe key \<and> (keyboard fe \<noteq> None \<or> active_generation_owned_keys fe))) \<and>
   (no_stuck_key fe \<and> vk_can_release fe \<and> (keyboard fe \<noteq> None \<or> active_generation_owned_keys fe) \<longrightarrow>
      (\<forall>key. unat key < MAX_TRACKED_KEYS \<longrightarrow> \<not> app_key_down key (out (lifecycle_hard_reset_keyboard env fe))))"
  using no_stuck_owed by (auto simp: hard_reset_releases)

theorem hard_reset_releases_all_witness:
  "app_key_down 30 (out demo_typing) \<and>
   \<not> app_key_down 30 (out (lifecycle_hard_reset_keyboard demo_env demo_typing))"
proof -
  have "keyboard demo_typing \<noteq> None \<or> active_generation_owned_keys demo_typing" by (simp add: demo_defs)
  then have "\<forall>key. unat key < MAX_TRACKED_KEYS \<longrightarrow> \<not> app_key_down key (out (lifecycle_hard_reset_keyboard demo_env demo_typing))"
    using hard_reset_releases_all [of demo_env demo_typing] demo_typing_no_stuck demo_typing_ready(1) by blast
  then show ?thesis by (simp add: demo_typing_app)
qed

text \<open>
  C3. Routing a press never makes a key untracked: if every tracked key that the application sees
  as pressed owes it a release, the same holds after any press, for every route the press may take
  (latched, startup, reserved, shortcut, basic text, engine). The one state excluded is that of a key
  passed through as basic text. A press finds a key in it when the key's last release did not come to the
  router: the compositor sent none, or the chord arbiter held the release back and dropped it with the
  chord it completed (\<^verbatim>\<open>arbiter_consume\<close>), which leaves the state as it is.
\<close>

theorem press_keeps_tracking:
  assumes "no_stuck_key fe" and "key_get_state fe key \<noteq> TRACK_BASIC_PASSTHROUGH"
  shows "no_stuck_key (key_route_process_press env key ks mods unicode time fe)"
  using assms by (rule key_route_process_press_no_stuck)

theorem press_keeps_tracking_witness:
  "app_key_down 48 (out (key_route_process_press demo_env 48 48 0 0 2 demo_active)) \<and>
   no_stuck_key (key_route_process_press demo_env 48 48 0 0 2 demo_active)"
proof -
  have "key_get_state demo_active 48 \<noteq> TRACK_BASIC_PASSTHROUGH"
    by (simp add: key_get_state_def demo_defs)
  with demo_press_reaches_app show ?thesis
    using press_keeps_tracking [OF demo_active_no_stuck] by blast
qed

text \<open>
  C4. A release always reaches the application: on a ready virtual keyboard, after the release of
  a tracked key the application no longer sees that key pressed, and the tracking stays sound for
  all keys, on every route, except where the candidate guard takes the release (C5).
\<close>

theorem release_reaches_application:
  assumes "no_stuck_key fe" and "vk_can_forward fe" and "vk_can_release fe"
    and "unat key < MAX_TRACKED_KEYS"
    and "\<not> candidate_swallows_release env key ks mods unicode time fe"
  shows "no_stuck_key (key_route_process_release env key ks mods unicode time fe) \<and>
     \<not> app_key_down key (out (key_route_process_release env key ks mods unicode time fe))"
  using assms by (rule key_route_process_release_no_stuck)

theorem release_reaches_application_witness:
  "app_key_down 30 (out demo_typing) \<and>
   \<not> app_key_down 30 (out (key_route_process_release demo_env 30 30 0 0 5 demo_typing))"
proof -
  have "\<not> candidate_swallows_release demo_env 30 30 0 0 5 demo_typing"
    by (simp add: candidate_swallows_release_iff candidate_guard_should_consume_def core_process_key_def
        Let_def const_defs demo_defs deliver_callbacks_def key_clear_tracking_def)
  from release_reaches_application [OF demo_typing_no_stuck demo_typing_ready(2,1) _ this]
  show ?thesis by (simp add: demo_typing_app)
qed

text \<open>
  C5. The candidate guard can strand a key: an arrow key that was forwarded before the candidates
  appeared, and whose release the engine does not handle, loses its release to the guard. The
  application keeps the key pressed, and its tracking entry is cleared, so that no later hard
  reset releases it either.
\<close>

theorem candidate_guard_strands_key:
  assumes "vk_can_release fe" and "unat key < MAX_TRACKED_KEYS"
    and "app_key_down key (out fe)" and "key_get_state fe key = TRACK_FORWARDED"
    and "candidate_swallows_release env key ks mods unicode time fe"
  shows "app_key_down key (out (key_route_process_release env key ks mods unicode time fe)) \<and>
     key_get_state (key_route_process_release env key ks mods unicode time fe) key = TRACK_IDLE \<and>
     \<not> no_stuck_key (key_route_process_release env key ks mods unicode time fe)"
  using assms by (rule route_release_candidate_strands)

theorem candidate_guard_strands_key_witness:
  "app_key_down 30 (out (key_route_process_release demo_env 30 KEY_Down 0 0 5 demo_choosing)) \<and>
   \<not> no_stuck_key (key_route_process_release demo_env 30 KEY_Down 0 0 5 demo_choosing)"
  using candidate_guard_strands_key [OF demo_choosing_state(1) _ demo_choosing_state(2,3) demo_choosing_swallows]
  by simp

section \<open>Recovery\<close>

text \<open>
  C6. Scrub and fence: a resume from sleep (also the reconciler's repair) gives up the grab, the
  pending reactivation and the carried modifiers, returns to the inactive phase, clears the
  tracking of every key, and moves to a new key generation, so that no key pressed before the
  sleep counts as owned afterwards.
\<close>

theorem resume_scrubs_and_fences:
  assumes "fe' = lifecycle_on_resume env fe"
  shows "keyboard fe' = None \<and> lifecycle_phase fe' = PHASE_INACTIVE \<and> \<not> pending_reactivation fe' \<and>
     \<not> carried_vk_modifiers fe' \<and> \<not> active_generation_owned_keys fe' \<and>
     (\<forall>k. k < MAX_TRACKED_KEYS \<longrightarrow> key_states fe' k = TRACK_IDLE \<and> key_generations fe' k = 0) \<and>
     active_key_generation fe' = active_key_generation (bump_key_generation fe) \<and>
     (\<forall>key. \<not> key_owned_by_active_generation fe' key)"
  unfolding assms by (simp add: lifecycle_on_resume_scrubs lifecycle_on_resume_generation lifecycle_on_resume_fences)

theorem resume_scrubs_and_fences_witness:
  "key_owned_by_active_generation demo_typing 30 \<and>
   key_states (lifecycle_on_resume demo_env demo_typing) 30 = TRACK_IDLE \<and>
   \<not> key_owned_by_active_generation (lifecycle_on_resume demo_env demo_typing) 30"
proof -
  have "key_owned_by_active_generation demo_typing 30"
    by (simp add: key_owned_by_active_generation_def key_get_generation_def demo_defs)
  with resume_scrubs_and_fences [OF refl, of demo_env demo_typing] show ?thesis by simp
qed

text \<open>
  C7. The reconciler repairs a lost grab: when the phase says active, the field is focused, the core
  has an active engine and the display is connected, but there has been no grab for the threshold of two
  seconds, one tick rebuilds the grab (if the compositor gives it), keeps the phase active, and the
  declared phase agrees with the observed state again. (Without an active engine a missing grab is
  as it should be, and none is rebuilt.)
\<close>

theorem reconcile_repairs_lost_grab:
  assumes "session_is_focused env fe" and "active_engine env fe" and "fe_display fe"
    and "lifecycle_phase fe = PHASE_ACTIVE" and "keyboard fe = None" and "grab_obtainable env fe"
    and "reconcile_divergence_since_ms fe \<noteq> 0"
    and "unat (reconcile_divergence_since_ms fe) + 2000 \<le> unat (sys_now_ms env)"
  shows "keyboard (reconcile_tick env fe) \<noteq> None \<and> lifecycle_phase (reconcile_tick env fe) = PHASE_ACTIVE \<and>
     reconcile_agree env (reconcile_tick env fe)"
  using reconcile_repairs [OF assms] by blast

theorem reconcile_repairs_lost_grab_witness:
  "keyboard demo_ungrabbed = None \<and> keyboard (reconcile_tick demo_env demo_ungrabbed) \<noteq> None"
  using reconcile_repairs_lost_grab [OF demo_ungrabbed_state] demo_ungrabbed_state(5) by blast

text \<open>
  What the reconciler does not repair: a focused field with an active engine under a phase
  declared inactive. A reconnection to the compositor with a focused field ends in this state (so
  does a failed rebuild of the grab). Although the repair is meant to rebuild the grab when the
  field is still focused, every tick from there, at whatever times, leaves it without a grab,
  inactive and in disagreement, so that the reconciler keeps repairing forever.
\<close>

theorem reconcile_never_regrabs_inactive:
  assumes "fst (frontend_reconnect env ats fe)" and "session_is_focused env fe" and "active_engine env fe"
    and "fe' = fold (\<lambda>t. reconcile_tick (env\<lparr>sys_now_ms := t\<rparr>)) ts (fst (snd (frontend_reconnect env ats fe)))"
  shows "keyboard fe' = None \<and> lifecycle_phase fe' = PHASE_INACTIVE \<and> session_is_focused env fe' \<and>
     active_engine env fe' \<and> \<not> reconcile_agree env fe'"
  using focused_inactive_ticks [OF reconnect_strands_focus [OF assms(1-3)], of ts] focused_inactive_disagrees
  by (fastforce simp: assms(4) focused_inactive_def)

theorem reconcile_never_regrabs_inactive_witness:
  "keyboard demo_active \<noteq> None \<and>
   keyboard (fold (\<lambda>t. reconcile_tick (demo_env\<lparr>sys_now_ms := t\<rparr>)) [10000, 20000, 30000, 40000]
      (fst (snd (frontend_reconnect demo_env demo_attempts demo_active)))) = None"
  using reconcile_never_regrabs_inactive [OF demo_reconnects demo_active_focused refl] demo_active_arbiter(1)
  by blast

text \<open>
  C9. Reconnection is bounded: whatever the attempts bring, the delays slept are an initial piece
  of the doubling schedule, at most twelve of them and less than 64 seconds in all; the keyboard
  is gone, the phase inactive, and the session and the core are as they were.
\<close>

theorem reconnect_bounded:
  "\<exists>n. n \<le> 12 \<and> snd (snd (frontend_reconnect env ats fe)) = map (\<lambda>k. reconnect_delay_ms (of_nat k)) [0..<n] \<and>
     sum_list (map unat (snd (snd (frontend_reconnect env ats fe)))) \<le> 63750 \<and>
     keyboard (fst (snd (frontend_reconnect env ats fe))) = None \<and>
     lifecycle_phase (fst (snd (frontend_reconnect env ats fe))) = PHASE_INACTIVE \<and>
     session (fst (snd (frontend_reconnect env ats fe))) = session fe \<and>
     core (fst (snd (frontend_reconnect env ats fe))) = core fe"
proof -
  obtain n where n: "n \<le> 12" "snd (snd (frontend_reconnect env ats fe)) = reconnect_schedule 0 n"
    using reconnect_loop_delays [of 0 ats "reconnect_baseline env fe"] by (auto simp: frontend_reconnect_eq)
  then show ?thesis
    using reconnect_schedule_bound [OF n(1)]
    by (intro exI [of _ n]) (simp add: reconnect_result reconnect_schedule_def)
qed

text \<open>
  The serial survives a reconnection: the first done event of the input-method object bound
  by a reconnection counts on from the events of the lost one, although the protocol counts the
  events of each object from zero. The serial of the commits of that object is therefore wrong
  whenever the lost object had seen a done event.
\<close>

theorem reconnect_keeps_old_serial:
  assumes "fe' = fst (snd (frontend_reconnect env ats fe))"
  shows "im_serial (im_handle_done env' fe') = im_serial fe + 1"
  using reconnect_result(4) [of env ats fe] by (simp add: assms im_handle_done_serial)

theorem reconnect_keeps_old_serial_witness:
  "fst (frontend_reconnect demo_env demo_attempts demo_active) \<and>
   im_serial (im_handle_done demo_env (fst (snd (frontend_reconnect demo_env demo_attempts demo_active)))) = 4"
proof -
  have "im_serial demo_active = 3" by (simp add: demo_defs)
  with reconnect_keeps_old_serial [OF refl, of demo_env demo_env demo_attempts demo_active] demo_reconnects
  show ?thesis by simp
qed

section \<open>Chords, boundaries and guards\<close>

text \<open>
  C11. The chord arbiter refines its specification: with a grab and a well-formed arbiter, an
  event is routed at once when nothing is held, routed behind the replay of everything held when
  the specification passes it, held back exactly as the specification says, or consumed with the
  completed chord; and the arbiter stays well-formed.
\<close>

theorem arbiter_refines_specification:
  assumes "keyboard fe \<noteq> None" and "arbiter_ok (kb_arbiter fe)"
  shows "arbiter_dispatch env ev fe =
     (case arb_spec (sc_switch_engine (shortcuts fe)) (kb_phys fe) ev (ar_buffer (kb_arbiter fe)) of
        (Pass evs, held') \<Rightarrow>
          replay_event env ev (if ar_buffer (kb_arbiter fe) = [] then fe else arbiter_replay env fe)
      | (Hold, held') \<Rightarrow> upd_arbiter (\<lambda>a. a\<lparr>ar_state := ARBITER_BUFFERING, ar_buffer := held'\<rparr>) fe
      | (Chord, held') \<Rightarrow> arbiter_consume env (upd_arbiter (arbiter_buffer_push ev) fe)) \<and>
     arbiter_ok (kb_arbiter (arbiter_dispatch env ev fe))"
  using arbiter_dispatch_refines [OF assms] arbiter_dispatch_ok [OF assms(2)] by blast

theorem arbiter_refines_specification_witness:
  "arbiter_ok (kb_arbiter (arbiter_dispatch demo_env (arbiter_event True 29 KEY_Control_L 2 0 4) demo_active))"
  using arbiter_refines_specification [OF demo_active_arbiter] by blast

text \<open>
  C12. Modifiers at a boundary: when an activation that owned keys ends on a forwardable virtual
  keyboard, either the modifiers are carried over, which only happens while deactivating and is
  recorded for the next activation to clear, or the application's modifiers are all zero after
  the hard reset.
\<close>

theorem hard_reset_settles_modifiers:
  assumes "active_generation_owned_keys fe" and "vk_can_forward fe"
  shows "if active_generation_vk_dirty (lifecycle_hard_reset_keyboard env fe)
     then lifecycle_phase fe = PHASE_DEACTIVATING \<and>
          carried_vk_modifiers (lifecycle_hard_reset_keyboard env fe)
     else app_mods (out (lifecycle_hard_reset_keyboard env fe)) = (0, 0, 0, 0)"
  using assms by (rule hard_reset_mods)

theorem hard_reset_settles_modifiers_witness:
  "app_mods (out demo_modified) = (4, 0, 0, 0) \<and>
   app_mods (out (lifecycle_hard_reset_keyboard demo_env demo_modified)) = (0, 0, 0, 0)"
proof -
  have "lifecycle_phase demo_modified \<noteq> PHASE_DEACTIVATING" by (simp add: demo_modified_def demo_defs)
  with hard_reset_settles_modifiers [OF demo_modified_state(1,2), of demo_env] demo_modified_state(3)
  show ?thesis by (simp split: if_splits)
qed



text \<open>
  C14. The emergency exit works from any state of the session and the phase: whenever a keymap is
  loaded and the press matches its binding, the event loop stops, the grab is given back to the
  compositor, the keyboard is otherwise as it was and no key reaches the application.
\<close>

theorem emergency_exit_always_works:
  assumes "keyboard fe = Some kb" and "xkb kb \<noteq> None"
    and "key_route_binding_matches_press (sc_emergency_exit (shortcuts fe)) (keyboard_keysym env kb key)
      (modifier_policy_effective_modifiers (physical_modifiers kb) (xkb_effective_modifiers env kb)
        (active_generation_owned_keys fe) (keyboard_keysym env kb key) True)"
  shows "\<not> running (on_key env t key True fe) \<and>
     keyboard (on_key env t key True fe) = Some (kb\<lparr>kb_grab := False\<rparr>) \<and>
     (\<forall>k. app_key_down k (out (on_key env t key True fe)) = app_key_down k (out fe))"
  using assms by (rule on_key_emergency)

theorem emergency_exit_always_works_witness:
  "running demo_escaping \<and> \<not> running (on_key demo_env 9 0xff13 True demo_escaping)"
proof -
  have kb: "keyboard demo_escaping = Some demo_chord_keyboard" "xkb demo_chord_keyboard \<noteq> None"
    by (simp_all add: demo_escaping_def demo_chord_keyboard_def demo_keyboard_def)
  have "running demo_escaping" by (simp add: demo_escaping_def demo_defs)
  with emergency_exit_always_works [OF kb demo_escape_matches] show ?thesis by blast
qed

text \<open>
  C15. The routing guard gives the keyboard back: while presses are rejected (no session, phase
  not active, or not focused) in any phase but activating, which the guard exempts, and the guard's
  window has not yet begun, the first seven of them within a window of 1500 milliseconds change nothing
  but the guard's own counters; the eighth stops the daemon and releases the grab.
\<close>

theorem guard_releases_after_eight:
  assumes "rejecting env kb key fe" and "lifecycle_phase fe \<noteq> PHASE_ACTIVATING"
    and "guard_reject_press_window_start_ms fe = 0" and "t0 \<noteq> 0" and "length ts = 7"
    and "\<And>t. t \<in> set ts \<Longrightarrow> t - t0 \<le> GUARD_FAILSAFE_WINDOW_MS" and "n < 7"
    and "press = (\<lambda>t. on_key (env\<lparr>sys_now_ms := t\<rparr>) time key True)"
  shows "fold press (t0 # take n ts) fe =
       fe\<lparr>guard_reject_press_window_start_ms := t0, guard_reject_press_streak := of_nat (1 + n)\<rparr> \<and>
     \<not> running (fold press (t0 # ts) fe) \<and>
     (\<exists>kb'. keyboard (fold press (t0 # ts) fe) = Some kb' \<and> \<not> kb_grab kb')"
proof -
  have eq: "fold press us fe = fold (reject_at env) us fe" for us
    unfolding assms(8) by (rule rejecting_presses [OF assms(1)])
  have small: "fold (reject_at env) (t0 # take n ts) fe =
      fe\<lparr>guard_reject_press_window_start_ms := t0, guard_reject_press_streak := of_nat (1 + length (take n ts))\<rparr>"
    by (rule rejected_presses_below [OF assms(3,4)]) (use assms(5,6,7) in \<open>auto dest: in_set_takeD\<close>)
  have big: "fold (reject_at env) (t0 # ts) fe =
      guard_trigger_failsafe (fe\<lparr>guard_reject_press_window_start_ms := t0, guard_reject_press_streak := 8\<rparr>)"
    by (rule rejected_presses_eighth [OF assms(3,4,5,6,2)])
  obtain g where "keyboard fe = Some (kb\<lparr>kb_grab := g\<rparr>)" using assms(1) by (auto simp: rejecting_def)
  then show ?thesis
    using small assms(5,7) unfolding eq big
    by (auto simp: guard_trigger_failsafe_def keyboard_release_grab_def)
qed

theorem guard_releases_after_eight_witness:
  "running demo_lost_focus \<and>
   \<not> running (fold (\<lambda>t. on_key (demo_env\<lparr>sys_now_ms := t\<rparr>) 1 30 True)
       (100 # [200, 300, 400, 500, 600, 700, 800]) demo_lost_focus)"
proof -
  let ?ts = "[200, 300, 400, 500, 600, 700, 800] :: u64 list"
  have lf: "running demo_lost_focus" "lifecycle_phase demo_lost_focus \<noteq> PHASE_ACTIVATING"
    "guard_reject_press_window_start_ms demo_lost_focus = 0"
    by (simp_all add: demo_lost_focus_def demo_defs)
  have win: "t - 100 \<le> GUARD_FAILSAFE_WINDOW_MS" if "t \<in> set ?ts" for t
    using that by (auto simp: GUARD_FAILSAFE_WINDOW_MS_def)
  have num: "(100::u64) \<noteq> 0" "length ?ts = 7" "(0::nat) < 7" by simp_all
  from guard_releases_after_eight [OF demo_lost_focus_rejecting lf(2,3) num(1,2) win num(3) refl, of 1] lf(1)
  show ?thesis by blast
qed

text \<open>
  The keymap timeout: after a new grab expects its keymap, nothing can be forwarded, and the
  periodic check keeps the daemon running exactly until the timeout; once the keymap arrives the
  virtual keyboard can forward and the check never stops the daemon.
\<close>

theorem keymap_timeout_exact:
  assumes "fe_virtual_keyboard fe" and "\<not> vk_has_current_generation_keymap fe" and "running fe"
    and "keyboard fe = Some kb" and "kb_grab kb" and "active_key_generation fe \<noteq> 0"
    and "sys_now_ms env + VK_KEYMAP_TIMEOUT_MS \<noteq> 0" and "sys_dup_ok env'"
    and "waiting = vk_expect_keymap env fe"
  shows "\<not> vk_can_forward waiting \<and>
     (running (vk_health_check env' waiting) \<longleftrightarrow> sys_now_ms env' < sys_now_ms env + VK_KEYMAP_TIMEOUT_MS) \<and>
     vk_can_forward (vk_forward_keymap env' fmt sz waiting) \<and>
     running (vk_health_check env'' (vk_forward_keymap env' fmt sz waiting))"
  using vk_expect_keymap_blocks(1) [OF assms(1,2)] expect_keymap_timeout [OF assms(1-5,7), of env']
    expect_keymap_arrives [OF assms(1,3,8,6)]
  by (simp add: assms(9))

theorem keymap_timeout_exact_witness:
  "running demo_waiting \<and>
   \<not> running (vk_health_check (demo_env\<lparr>sys_now_ms := 20000\<rparr>) (vk_expect_keymap demo_env demo_waiting))"
proof -
  have "sys_dup_ok (demo_env\<lparr>sys_now_ms := 20000\<rparr>)" by (simp add: demo_env_def)
  from keymap_timeout_exact [OF demo_waiting_state this refl] demo_waiting_state(3)
  show ?thesis by (simp add: VK_KEYMAP_TIMEOUT_MS_def)
qed

section \<open>The focus cycle\<close>

text \<open>
  C17. A full focus cycle: with a core whose focus follows focus-in and focus-out and that always has an
  active engine, when the compositor gives a grab and there is a session or the core can create a
  context for one, activating an unfocused frontend and confirming it with done gives an active
  phase, a grab and a focused context, and deactivating it with done takes all three back.
\<close>

theorem focus_cycle:
  assumes "core_focus_laws env" and "\<not> session_is_focused env fe" and "grab_obtainable env fe"
    and "session fe \<noteq> None \<or> fst (api_create_context env (core fe))"
    and "\<And>c. api_active_engine env c \<noteq> None"
    and "on = wl_dispatch_all env [WlActivate, WlDone] fe"
    and "off = wl_dispatch_all env [WlDeactivate, WlDone] on"
  shows "lifecycle_phase on = PHASE_ACTIVE \<and> keyboard on \<noteq> None \<and> session_is_focused env on \<and>
     lifecycle_phase off = PHASE_INACTIVE \<and> keyboard off = None \<and> \<not> session_is_focused env off"
proof -
  have on: "on = im_handle_done env (im_handle_activate env fe)"
    and off: "off = im_handle_done env (im_handle_deactivate on)"
    by (simp_all add: assms(6,7) wl_dispatch_all_def wl_dispatch_def)
  note a = activate_done_active [OF assms(1-5), folded on]
  from deactivate_done_inactive [OF assms(1), of on, folded off] a show ?thesis by blast
qed

theorem focus_cycle_witness:
  "keyboard demo_idle = None \<and> keyboard (wl_dispatch_all demo_env [WlActivate, WlDone] demo_idle) \<noteq> None"
proof -
  have "keyboard demo_idle = None" by (simp add: demo_defs)
  with focus_cycle [OF demo_core_focus_laws demo_idle_state(1) demo_grab_obtainable(1) _ _ refl refl]
    demo_idle_state(2)
  show ?thesis by simp
qed

text \<open>
  The phase validator accepts exactly the transitions of the lifecycle diagram, and the
  frontend takes one it does not accept: when a focused field is deactivated and activated again
  before one done (an application moving the focus between its fields), the phase jumps from
  deactivating to active.
\<close>

theorem refocus_is_unusual:
  assumes "session_is_focused env fe" and "active_engine env fe" and "grab_obtainable env fe"
  shows "\<exists>p q. ReqPhase p q \<in> set (out (wl_dispatch_all env [WlDeactivate, WlActivate, WlDone] fe)) \<and>
     \<not> lifecycle_transition_is_valid p q \<and> \<not> legal_step p q"
  using refocus_takes_unusual_phase [OF assms]
  by (intro exI [of _ PHASE_DEACTIVATING] exI [of _ PHASE_ACTIVE])
     (simp add: legal_step_iff lifecycle_transition_is_valid_def)

theorem refocus_is_unusual_witness:
  "\<exists>p q. ReqPhase p q \<in> set (out (wl_dispatch_all demo_env [WlDeactivate, WlActivate, WlDone] demo_active)) \<and>
     \<not> lifecycle_transition_is_valid p q"
  using refocus_is_unusual [OF demo_active_focused demo_grab_obtainable(2)] by blast

section \<open>Output\<close>

text \<open>
  The order of a commit: committing a text clears the preedit, then hides the candidate
  window, then sends the text and last the commit with the current serial, which is left out as
  long as the compositor has sent no done event.
\<close>

theorem commit_order:
  assumes "session fe \<noteq> None" and "t \<noteq> []" and "fe_input_method fe"
  shows "out (on_commit_callback env (Some t) fe) =
     out fe @ [ReqSetPreedit [] (-1) (-1)] @ (if fe_text_ui_backend fe then [ReqUiHide] else []) @
     [ReqCommitString t] @ (if im_serial fe \<noteq> 0 then [ReqCommit (im_serial fe)] else [])"
  using assms by (rule on_commit_callback_out)

theorem commit_order_witness:
  "out (on_commit_callback demo_env (Some ''ni'') demo_active) =
     [ReqSetPreedit [] (-1) (-1), ReqUiHide, ReqCommitString ''ni'', ReqCommit 3]"
proof -
  have "session demo_active \<noteq> None" "fe_input_method demo_active" by (simp_all add: demo_defs)
  from commit_order [OF this(1) _ this(2), of "''ni''" demo_env] show ?thesis by (simp add: demo_defs)
qed

text \<open>
  Drawing is idempotent: drawing a second time with the core unchanged only refreshes the
  candidate window; the preedit is not sent and nothing is committed again.
\<close>

theorem drawing_idempotent:
  assumes "session fe \<noteq> None"
  shows "out (update_wayland_text_ui env (update_wayland_text_ui env fe)) =
     out (update_wayland_text_ui env fe) @ (if fe_text_ui_backend fe then [ReqUiUpdate] else [])"
  using assms by (rule update_ui_twice_out)

theorem drawing_idempotent_witness:
  "out (update_wayland_text_ui demo_env (update_wayland_text_ui demo_env demo_active)) =
     out (update_wayland_text_ui demo_env demo_active) @ [ReqUiUpdate]"
proof -
  have "session demo_active \<noteq> None" "fe_text_ui_backend demo_active" by (simp_all add: demo_defs)
  from drawing_idempotent [OF this(1), of demo_env] this(2) show ?thesis by simp
qed

text \<open>
  Building the plain preedit, with its growing buffer, ends and gives the concatenation of
  the segments (null when it is empty), with the engine's cursor or, when that is negative, the
  length of the text.
\<close>

theorem preedit_is_concatenation:
  assumes "\<And>c. alloc c"
  shows "build_plain_preedit alloc (Some p) =
     (let txt = concat (map (\<lambda>s. opt_text (seg_text s)) (pe_segments p)) in
      Some (if txt = [] then None else Some txt,
            if pe_segments p = [] then -1
            else if pe_cursor_pos p \<ge> 0 then pe_cursor_pos p else int (length txt)))"
  using assms by (rule build_plain_preedit_spec)

theorem preedit_is_concatenation_witness:
  "build_plain_preedit (\<lambda>_. True)
     (Some \<lparr>pe_segments = [\<lparr>seg_text = Some ''ni'', seg_format = 1\<rparr>, \<lparr>seg_text = None, seg_format = 0\<rparr>,
                           \<lparr>seg_text = Some '' hao'', seg_format = 1\<rparr>], pe_cursor_pos = -1\<rparr>) =
     Some (Some ''ni hao'', 6)"
  by (subst preedit_is_concatenation) (simp_all add: opt_text_def)

section \<open>Modifiers and characters\<close>

text \<open>
  The effective modifiers of a key decide application shortcuts by the keys physically held
  once the activation owns keys, whatever the compositor's modifier state says, so that a stale
  modifier never turns text into a shortcut; before that the compositor's state counts as well.
\<close>

theorem shortcuts_follow_physical_keys:
  assumes "\<not> is_modifier_keysym ks"
  shows "key_route_is_app_shortcut ks (modifier_policy_effective_modifiers phys xkb_mods True ks p)
       = has_blocking phys \<and>
     key_route_is_app_shortcut ks (modifier_policy_effective_modifiers phys xkb_mods False ks p)
       = has_blocking (phys OR xkb_mods)"
  using effective_modifiers_owned_blocking [OF assms, of phys xkb_mods p]
    effective_modifiers_unowned_blocking [OF assms, of phys xkb_mods p] assms
  by (simp add: key_route_is_app_shortcut_def has_blocking_def blocking_mods_def)

theorem shortcuts_follow_physical_keys_witness:
  "\<not> key_route_is_app_shortcut 97 (modifier_policy_effective_modifiers 0 TYPIO_MOD_CTRL True 97 True) \<and>
   key_route_is_app_shortcut 97 (modifier_policy_effective_modifiers 0 TYPIO_MOD_CTRL False 97 True)"
proof -
  have "\<not> is_modifier_keysym 97" by (simp add: is_modifier_keysym_def const_defs)
  from shortcuts_follow_physical_keys [OF this, of 0 TYPIO_MOD_CTRL True] show ?thesis
    by (simp add: has_blocking_def blocking_mods_val const_defs)
qed

section \<open>Gaps of the key path\<close>

text \<open>
  Push-to-talk under key repeat: releasing the held key stops the recording, but if the
  repeat timer fires first and the engine declines the key, the press is forwarded to the
  application and the key becomes an ordinary forwarded one, so that its release no longer stops
  the recording.
\<close>

theorem voice_stop_lost_by_repeat:
  assumes "repeat_due env kb fe" and "unat (repeat_key kb) < 512" and "vk_can_forward fe"
    and "key_get_state fe (repeat_key kb) = TRACK_VOICE_PTT" and "have_voice env"
    and "\<And>ev c. api_process_key env ev c = (False, [], c)"
    and "api_candidate_count env (core fe) = Some 0"
    and "fe' = keyboard_dispatch_repeat env fe"
  shows "core (key_route_process_release env (repeat_key kb) ks mods u t fe) = api_voice_stop env (core fe) \<and>
     app_key_down (repeat_key kb) (out fe') \<and> key_get_state fe' (repeat_key kb) = TRACK_FORWARDED \<and>
     core (key_route_process_release env (repeat_key kb) ks mods u t fe') = core fe"
  using voice_repeat_loses_release [OF assms(1-4,6,7)] voice_release_stops [OF assms(4,5)]
  by (simp add: assms(8))

theorem voice_stop_lost_by_repeat_witness:
  "key_get_state demo_talking 47 = TRACK_VOICE_PTT \<and>
   key_get_state (keyboard_dispatch_repeat demo_env demo_talking) 47 = TRACK_FORWARDED"
proof -
  have k: "repeat_key demo_talk_keyboard = 47" by (simp add: demo_talk_keyboard_def)
  have "unat (repeat_key demo_talk_keyboard) < 512" by (simp add: k)
  from voice_stop_lost_by_repeat [OF demo_talking_state(1) this demo_talking_state(2) _ _ _ demo_talking_state(4) refl]
    demo_talking_state(3)
  show ?thesis by (simp add: k)
qed

text \<open>
  Keys above the tracked range: a press the engine declines is forwarded as for any other
  key, but outside the startup window and without a blocking modifier its release is consumed, so
  the application keeps the key pressed.
\<close>

theorem untracked_key_sticks:
  assumes "512 \<le> unat key" and "active_key_generation fe \<noteq> 0" and "keyboard fe = Some kb"
    and "\<not> startup_guard_is_in_guard_window (created_at_epoch kb) (dispatch_epoch fe)"
    and "\<not> boundary_bridge_should_forward_orphan_release_cleanup ks mods (saw_blocking_modifier kb)"
    and "app_key_down key (out fe)"
  shows "key_get_state fe key = TRACK_IDLE \<and>
     app_key_down key (out (key_route_process_release env key ks mods u t fe))"
  using untracked_release_consumed [OF assms(1-5)] assms(1,6) by simp

theorem untracked_key_sticks_witness:
  "app_key_down 600 (out (key_route_process_release demo_env 600 600 0 0 5 demo_high_key))"
proof -
  have "512 \<le> unat (600 :: u32)" "active_key_generation demo_high_key \<noteq> 0"
    "keyboard demo_high_key = Some demo_keyboard"
    "\<not> startup_guard_is_in_guard_window (created_at_epoch demo_keyboard) (dispatch_epoch demo_high_key)"
    "\<not> boundary_bridge_should_forward_orphan_release_cleanup 600 0 (saw_blocking_modifier demo_keyboard)"
    "app_key_down 600 (out demo_high_key)"
    by (simp_all add: demo_high_key_def demo_defs startup_guard_is_in_guard_window_def STARTUP_GUARD_EPOCHS_def
        boundary_bridge_should_forward_orphan_release_cleanup_def const_defs app_key_down_def)
  from untracked_key_sticks [OF this] show ?thesis by blast
qed

text \<open>
  A completed switch chord discards the events it held back and releases only the keys in the
  forwarded state: a key passed through as basic text or as an application shortcut before the
  chord, whose release was held back, stays pressed in the application.
\<close>

theorem chord_drops_held_release:
  assumes "key_states fe (unat key) \<noteq> TRACK_FORWARDED" and "app_key_down key (out fe)"
    and "\<exists>ev \<in> set (arbiter_buffer fe). ae_key ev = key \<and> \<not> ae_is_press ev"
  shows "app_key_down key (out (arbiter_consume env fe)) \<and> arbiter_buffer (arbiter_consume env fe) = []"
  using consume_keeps_down [OF assms(1,2)] by (simp add: consume_empties)

theorem chord_drops_held_release_witness:
  "app_key_down 30 (out (arbiter_consume demo_env demo_text_held))"
proof -
  have "\<exists>ev \<in> set (arbiter_buffer demo_text_held). ae_key ev = 30 \<and> \<not> ae_is_press ev"
    using demo_text_held_state(3) by (rule bexI [rotated]) (simp add: arbiter_event_def)
  from chord_drops_held_release [OF demo_text_held_state(1,2) this] show ?thesis by blast
qed

text \<open>
  The character handed to the engine with a press is not the key's code point when that needs
  two bytes in UTF-8: the two bytes are packed side by side, giving a number with bit 15 set
  (0xC3A9 for U+00E9), while the repeat of the same key passes the code point itself.
\<close>

theorem unicode_of_two_bytes_wrong:
  assumes "xkb kb = Some x" and "xkb_utf8 env x (key + 8) = utf8_two_bytes cp" and "unat cp < 2048"
  shows "keyboard_unicode env kb key \<noteq> cp \<and> bit (keyboard_unicode env kb key) 15"
  using keyboard_unicode_two_bytes [OF assms] by blast

theorem unicode_of_two_bytes_wrong_witness:
  "keyboard_unicode demo_accent_env demo_keyboard 18 = 0xC3A9 \<and>
   keyboard_unicode demo_accent_env demo_keyboard 18 \<noteq> 0xE9"
proof -
  have x: "xkb demo_keyboard = Some ()" by (simp add: demo_keyboard_def)
  have u: "xkb_utf8 demo_accent_env () (18 + 8) = utf8_two_bytes 0xE9" by (simp add: demo_accent_env_def)
  have "keyboard_unicode demo_accent_env demo_keyboard 18 = 0xC3A9"
    by (simp add: keyboard_unicode_def x demo_accent_env_def utf8_two_bytes_def)
  with unicode_of_two_bytes_wrong [OF x u] show ?thesis by simp
qed

section \<open>Shutdown\<close>

text \<open>
  C27. Destroying the frontend while the user types leaves nothing behind: the session, the grab
  and the display connection are gone, the loop is stopped, and with a keyboard object exactly the
  tracked keys whose state owes a release are released, as far as the virtual keyboard can carry
  releases; when each pressed tracked key owes its release (C5 shows a key that does not), none is left down.
\<close>

theorem shutdown_leaves_nothing_down:
  "(\<forall>key. app_key_down key (out (frontend_destroy env fe)) \<longleftrightarrow>
      app_key_down key (out fe) \<and> \<not> (release_owed fe key \<and> keyboard fe \<noteq> None)) \<and>
   (no_stuck_key fe \<and> vk_can_release fe \<and> keyboard fe \<noteq> None \<longrightarrow>
      (\<forall>key. unat key < MAX_TRACKED_KEYS \<longrightarrow> \<not> app_key_down key (out (frontend_destroy env fe)))) \<and>
   keyboard (frontend_destroy env fe) = None \<and> session (frontend_destroy env fe) = None \<and>
   \<not> fe_display (frontend_destroy env fe) \<and> \<not> running (frontend_destroy env fe)"
  using no_stuck_owed by (auto simp: frontend_destroy_releases frontend_destroy_gone)

theorem shutdown_leaves_nothing_down_witness:
  "app_key_down 30 (out demo_typing) \<and> \<not> app_key_down 30 (out (frontend_destroy demo_env demo_typing))"
proof -
  have "keyboard demo_typing \<noteq> None" by (simp add: demo_defs)
  then have "\<forall>key. unat key < MAX_TRACKED_KEYS \<longrightarrow> \<not> app_key_down key (out (frontend_destroy demo_env demo_typing))"
    using shutdown_leaves_nothing_down [where fe = demo_typing] demo_typing_no_stuck demo_typing_ready(1) by blast
  then show ?thesis by (simp add: demo_typing_app)
qed

end
